(* ===== verification/Prelude.thy ===== *)
theory Prelude
  imports Main "HOL-Library.Word" "HOL-Library.Signed_Division"
begin

section \<open>Shared vocabulary of the compiler model\<close>

text \<open>
  This theory holds what every component of the compiler model uses and what C and its
  standard library give to the sources: NUL-terminated strings read by position, the
  character classes of \<^verbatim>\<open>ctype.h\<close> in the C locale, the 64-bit \<^verbatim>\<open>long\<close> and its
  wrap-around, \<^verbatim>\<open>strtol\<close> / \<^verbatim>\<open>strtoul\<close> and the \<^verbatim>\<open>%ld\<close> conversion of \<^verbatim>\<open>printf\<close>.
  A C string is a \<^typ>\<open>string\<close> without its terminator; reading at or behind its end gives
  the terminator.
\<close>

named_theorems cread \<open>reading C strings by position\<close>
named_theorems ctypes \<open>the character classes of the C locale, unfolded\<close>

type_synonym size_t = "64 word"

subsection \<open>Results\<close>

text \<open>Sequencing of computations that may stop the process: the error is passed on.\<close>

fun and_then :: "'e + 'a \<Rightarrow> ('a \<Rightarrow> 'e + 'b) \<Rightarrow> 'e + 'b" where
  "and_then (Inl e) f = Inl e"
| "and_then (Inr x) f = f x"

definition map_result :: "('a \<Rightarrow> 'b) \<Rightarrow> 'e + 'a \<Rightarrow> 'e + 'b" where
  "map_result f r = and_then r (\<lambda>x. Inr (f x))"

fun map_all :: "('a \<Rightarrow> 'e + 'b) \<Rightarrow> 'a list \<Rightarrow> 'e + 'b list" where
  "map_all f [] = Inr []"
| "map_all f (x # xs) = and_then (f x) (\<lambda>y. and_then (map_all f xs) (\<lambda>ys. Inr (y # ys)))"

lemma and_then_eq_Inr: "and_then r f = Inr y \<longleftrightarrow> (\<exists>x. r = Inr x \<and> f x = Inr y)"
  by (cases r) auto

lemma and_then_eq_Inl: "and_then r f = Inl e \<longleftrightarrow> r = Inl e \<or> (\<exists>x. r = Inr x \<and> f x = Inl e)"
  by (cases r) auto

lemma map_result_simps [simp]: "map_result f (Inl e) = Inl e" "map_result f (Inr x) = Inr (f x)"
  by (simp_all add: map_result_def)

lemma map_result_eq_Inr: "map_result f r = Inr y \<longleftrightarrow> (\<exists>x. r = Inr x \<and> y = f x)"
  by (cases r) auto

lemma map_result_eq_Inl: "map_result f r = Inl e \<longleftrightarrow> r = Inl e"
  by (cases r) auto

lemma and_then_cong [fundef_cong]:
  "r = r' \<Longrightarrow> (\<And>x. r' = Inr x \<Longrightarrow> f x = f' x) \<Longrightarrow> and_then r f = and_then r' f'"
  by (cases r') auto

lemma map_all_length: "map_all f xs = Inr ys \<Longrightarrow> length ys = length xs"
  by (induction xs arbitrary: ys) (auto simp: and_then_eq_Inr)

lemmas result_simps = and_then_eq_Inr and_then_eq_Inl map_result_eq_Inr map_result_eq_Inl

subsection \<open>C strings read by position\<close>

abbreviation NUL :: char where
  "NUL \<equiv> CHR 0x00"

abbreviation LF :: char where
  "LF \<equiv> CHR 0x0A"

abbreviation SOH :: char where
  "SOH \<equiv> CHR 0x01"

abbreviation QUOTE :: char where
  "QUOTE \<equiv> CHR 0x27"

abbreviation DQUOTE :: char where
  "DQUOTE \<equiv> CHR 0x22"

abbreviation BACKSLASH :: char where
  "BACKSLASH \<equiv> CHR 0x5C"

definition c_at :: "string \<Rightarrow> nat \<Rightarrow> char" where
  "c_at s i = (if i < length s then s ! i else NUL)"

lemma c_at_Nil [simp, cread]: "c_at [] i = NUL"
  by (simp add: c_at_def)

lemma c_at_0 [simp, cread]: "c_at (x # xs) 0 = x"
  by (simp add: c_at_def)

lemma c_at_Suc [simp, cread]: "c_at (x # xs) (Suc i) = c_at xs i"
  by (simp add: c_at_def)

lemma c_at_numeral [simp, cread]: "c_at (x # xs) (numeral k) = c_at xs (pred_numeral k)"
  by (simp add: numeral_eq_Suc)

lemma c_at_one [simp, cread]: "c_at (x # xs) 1 = c_at xs 0"
  by simp

lemma c_at_drop: "c_at (drop i s) j = c_at s (i + j)"
  by (auto simp: c_at_def)

lemma c_at_beyond: "length s \<le> i \<Longrightarrow> c_at s i = NUL"
  by (simp add: c_at_def)

lemma c_at_nonzero_less: "c_at s i \<noteq> NUL \<Longrightarrow> i < length s"
  by (auto simp: c_at_def split: if_splits)

lemma c_at_append_left: "i < length s \<Longrightarrow> c_at (s @ t) i = c_at s i"
  by (simp add: c_at_def nth_append)

lemma c_at_append_right: "c_at (s @ t) (length s + i) = c_at t i"
  by (simp add: c_at_def nth_append)

text \<open>A buffer as the C functions on strings see it: up to its first zero byte.\<close>

definition c_text :: "string \<Rightarrow> string" where
  "c_text s = takeWhile (\<lambda>c. c \<noteq> NUL) s"

text \<open>\<open>strncmp(s, p, strlen(p)) == 0\<close>: the text begins with the pattern.\<close>

fun starts_with :: "string \<Rightarrow> string \<Rightarrow> bool" where
  "starts_with [] s = True"
| "starts_with (p # ps) [] = False"
| "starts_with (p # ps) (c # cs) = (p = c \<and> starts_with ps cs)"

lemma starts_with_iff: "starts_with p s \<longleftrightarrow> (\<exists>t. s = p @ t)"
  by (induction p s rule: starts_with.induct) auto

lemma starts_with_append [simp]: "starts_with p (p @ t)"
  by (auto simp: starts_with_iff)

lemma starts_with_length: "starts_with p s \<Longrightarrow> length p \<le> length s"
  by (auto simp: starts_with_iff)

subsection \<open>Character classes\<close>

definition code :: "char \<Rightarrow> nat" where
  "code c = of_char c"

definition is_space :: "char \<Rightarrow> bool" where
  "is_space c \<longleftrightarrow> code c = 32 \<or> (9 \<le> code c \<and> code c \<le> 13)"

definition is_blank :: "char \<Rightarrow> bool" where
  "is_blank c \<longleftrightarrow> c = CHR '' '' \<or> c = CHR 0x09"

definition is_digit :: "char \<Rightarrow> bool" where
  "is_digit c \<longleftrightarrow> 48 \<le> code c \<and> code c \<le> 57"

definition is_xdigit :: "char \<Rightarrow> bool" where
  "is_xdigit c \<longleftrightarrow> is_digit c \<or> (97 \<le> code c \<and> code c \<le> 102) \<or> (65 \<le> code c \<and> code c \<le> 70)"

definition is_odigit :: "char \<Rightarrow> bool" where
  "is_odigit c \<longleftrightarrow> 48 \<le> code c \<and> code c \<le> 55"

definition is_alpha :: "char \<Rightarrow> bool" where
  "is_alpha c \<longleftrightarrow> (97 \<le> code c \<and> code c \<le> 122) \<or> (65 \<le> code c \<and> code c \<le> 90)"

definition is_alnum :: "char \<Rightarrow> bool" where
  "is_alnum c \<longleftrightarrow> is_alpha c \<or> is_digit c"

definition ident_start :: "char \<Rightarrow> bool" where
  "ident_start c \<longleftrightarrow> is_alpha c \<or> c = CHR ''_''"

definition ident_char :: "char \<Rightarrow> bool" where
  "ident_char c \<longleftrightarrow> is_alnum c \<or> c = CHR ''_''"

lemmas char_class_defs [ctypes] =
  code_def is_space_def is_blank_def is_digit_def is_xdigit_def is_odigit_def is_alpha_def
  is_alnum_def ident_start_def ident_char_def

lemma classes_NUL [simp]:
  "\<not> is_space NUL" "\<not> is_blank NUL" "\<not> is_digit NUL" "\<not> is_xdigit NUL" "\<not> is_odigit NUL"
  "\<not> is_alpha NUL" "\<not> is_alnum NUL" "\<not> ident_start NUL" "\<not> ident_char NUL"
  by (simp_all add: ctypes)

lemma ident_start_char: "ident_start c \<Longrightarrow> ident_char c"
  by (auto simp: ident_start_def ident_char_def is_alnum_def)

lemma is_digit_alnum: "is_digit c \<Longrightarrow> is_alnum c"
  by (simp add: is_alnum_def)

lemma is_odigit_digit: "is_odigit c \<Longrightarrow> is_digit c"
  by (simp add: is_odigit_def is_digit_def)

lemma code_less: "code c < 256"
  by (simp add: code_def)

lemma code_inj [simp]: "code c = code d \<longleftrightarrow> c = d"
  by (simp add: code_def)

lemma char_of_code [simp]: "char_of (code c) = c"
  by (simp add: code_def)

lemma code_char_of [simp]: "n < 256 \<Longrightarrow> code (char_of n) = n"
  by (simp add: code_def)

subsection \<open>The 64-bit long\<close>

text \<open>
  A \<^verbatim>\<open>long\<close> is an \<^typ>\<open>int\<close> in its range. Signed overflow is undefined in C; on the
  compiler's only target it wraps modulo \<open>2^64\<close>, which \<open>wrap64\<close> writes out. Theorems
  about results state that no overflow occurred where they need it.
\<close>

definition LONG_MIN :: int where "LONG_MIN = - (2 ^ 63)"
definition LONG_MAX :: int where "LONG_MAX = 2 ^ 63 - 1"
definition INT_MAX :: nat where "INT_MAX = 2 ^ 31 - 1"
definition ULONG_MAX :: nat where "ULONG_MAX = 2 ^ 64 - 1"

definition in_long :: "int \<Rightarrow> bool" where
  "in_long v \<longleftrightarrow> LONG_MIN \<le> v \<and> v \<le> LONG_MAX"

definition wrap64 :: "int \<Rightarrow> int" where
  "wrap64 v = signed_take_bit 63 v"

lemmas long_defs = LONG_MIN_def LONG_MAX_def in_long_def

lemma wrap64_id [simp]: "in_long v \<Longrightarrow> wrap64 v = v"
  by (simp add: wrap64_def long_defs signed_take_bit_int_eq_self)

lemma in_long_wrap64 [simp]: "in_long (wrap64 v)"
  using signed_take_bit_int_greater_eq_minus_exp [of 63 v] signed_take_bit_int_less_exp [of 63 v]
  by (simp add: wrap64_def long_defs)

text \<open>The same for the 32-bit \<^verbatim>\<open>int\<close>.\<close>

definition wrap32 :: "int \<Rightarrow> int" where
  "wrap32 v = signed_take_bit 31 v"

lemma wrap32_id: "- (2 ^ 31) \<le> v \<Longrightarrow> v < 2 ^ 31 \<Longrightarrow> wrap32 v = v"
  by (simp add: wrap32_def signed_take_bit_int_eq_self)

text \<open>The shift instructions of the target use the count modulo 64.\<close>

definition shl64 :: "int \<Rightarrow> int \<Rightarrow> int" where
  "shl64 l r = wrap64 (push_bit (nat (r mod 64)) l)"

definition sar64 :: "int \<Rightarrow> int \<Rightarrow> int" where
  "sar64 l r = drop_bit (nat (r mod 64)) l"

subsection \<open>Digits: strtol, strtoul and printf\<close>

definition digit_char :: "nat \<Rightarrow> char" where
  "digit_char d = char_of (48 + d)"

fun show_nat :: "nat \<Rightarrow> string" where
  "show_nat n = (if n < 10 then [digit_char n] else show_nat (n div 10) @ [digit_char (n mod 10)])"

declare show_nat.simps [simp del]

definition show_int :: "int \<Rightarrow> string" where
  "show_int v = (if v < 0 then CHR ''-'' # show_nat (nat (- v)) else show_nat (nat v))"

text \<open>The value of a digit in the bases C uses; a character that is no digit has none.\<close>

definition digit_value :: "char \<Rightarrow> nat option" where
  "digit_value c =
     (if is_digit c then Some (code c - 48)
      else if 97 \<le> code c \<and> code c \<le> 122 then Some (code c - 87)
      else if 65 \<le> code c \<and> code c \<le> 90 then Some (code c - 55)
      else None)"

definition base_digit :: "nat \<Rightarrow> char \<Rightarrow> bool" where
  "base_digit b c \<longleftrightarrow> (case digit_value c of Some d \<Rightarrow> d < b | None \<Rightarrow> False)"

text \<open>The digits at the start of the text, read in base \<open>b\<close>.\<close>

fun read_digits :: "nat \<Rightarrow> nat \<Rightarrow> string \<Rightarrow> nat" where
  "read_digits b acc [] = acc"
| "read_digits b acc (c # cs) =
     (if base_digit b c then read_digits b (b * acc + the (digit_value c)) cs else acc)"

definition hex_prefix :: "string \<Rightarrow> bool" where
  "hex_prefix s \<longleftrightarrow>
     c_at s 0 = CHR ''0'' \<and> (c_at s 1 = CHR ''x'' \<or> c_at s 1 = CHR ''X'') \<and> is_xdigit (c_at s 2)"

text \<open>\<^verbatim>\<open>strtol(s, NULL, 0)\<close>: white space, sign, prefix, digits, clamped to the range.\<close>

definition magnitude0 :: "string \<Rightarrow> nat" where
  "magnitude0 s =
     (if hex_prefix s then read_digits 16 0 (drop 2 s)
      else if c_at s 0 = CHR ''0'' then read_digits 8 0 s
      else read_digits 10 0 s)"

definition clamp_long :: "int \<Rightarrow> int" where
  "clamp_long v = max LONG_MIN (min LONG_MAX v)"

definition strtol_exact :: "string \<Rightarrow> int" where
  "strtol_exact s =
     (let t = dropWhile is_space s
      in if c_at t 0 = CHR ''-'' then - int (magnitude0 (drop 1 t))
         else if c_at t 0 = CHR ''+'' then int (magnitude0 (drop 1 t))
         else int (magnitude0 t))"

definition strtol0 :: "string \<Rightarrow> int" where
  "strtol0 s = clamp_long (strtol_exact s)"

text \<open>
  \<^verbatim>\<open>strtoul(s, &end, base)\<close> on a text that starts with a digit: the value, clamped, and
  whether \<^verbatim>\<open>errno\<close> is \<^verbatim>\<open>ERANGE\<close>.
\<close>

definition strtoul :: "string \<Rightarrow> nat \<Rightarrow> nat \<times> bool" where
  "strtoul s b =
     (let v = (if b = 16 \<and> hex_prefix s then read_digits 16 0 (drop 2 s) else read_digits b 0 s)
      in if v > ULONG_MAX then (ULONG_MAX, True) else (v, False))"

text \<open>\<^verbatim>\<open>strtol(s, &end, 10)\<close>: the value and the text behind it, all of it if there is no digit.\<close>

definition strtol10 :: "string \<Rightarrow> int \<times> string" where
  "strtol10 s =
     (let t = dropWhile is_space s;
          neg = (c_at t 0 = CHR ''-'');
          u = (if neg \<or> c_at t 0 = CHR ''+'' then drop 1 t else t);
          v = int (read_digits 10 0 u)
      in if is_digit (c_at u 0) then (clamp_long (if neg then - v else v), dropWhile is_digit u) else (0, s))"

lemma digit_char_props [simp]:
  assumes "d < 10"
  shows "code (digit_char d) = 48 + d" "is_digit (digit_char d)"
    "digit_value (digit_char d) = Some d"
  using assms by (simp_all add: digit_char_def is_digit_def digit_value_def)

lemma digit_char_zero: "d < 10 \<Longrightarrow> digit_char d = CHR ''0'' \<longleftrightarrow> d = 0"
  by (subst code_inj [symmetric]) (simp add: code_def [of "CHR ''0''"])

lemma base_digit_10 [simp]: "base_digit 10 c = is_digit c"
  by (auto simp: base_digit_def digit_value_def is_digit_def)

lemma show_nat_digits: "c \<in> set (show_nat n) \<Longrightarrow> is_digit c"
proof (induction n rule: show_nat.induct)
  case (1 n)
  then show ?case
    by (subst (asm) (2) show_nat.simps) (auto split: if_splits)
qed

lemma show_nat_not_Nil [simp]: "show_nat n \<noteq> []"
  by (subst show_nat.simps) simp

lemma read_digits_append:
  assumes "\<forall>c \<in> set xs. base_digit b c"
  shows "read_digits b acc (xs @ ys) = read_digits b (read_digits b acc xs) ys"
  using assms by (induction xs arbitrary: acc) auto

lemma read_show_nat_acc:
  "read_digits 10 0 (show_nat n @ rest) = read_digits 10 n rest"
proof (induction n arbitrary: rest rule: show_nat.induct)
  case (1 n)
  show ?case
  proof (cases "n < 10")
    case True
    then show ?thesis by (simp add: show_nat.simps [of n])
  next
    case False
    have "show_nat n @ rest = show_nat (n div 10) @ digit_char (n mod 10) # rest"
      using False by (simp add: show_nat.simps [of n])
    then have "read_digits 10 0 (show_nat n @ rest)
        = read_digits 10 (n div 10) (digit_char (n mod 10) # rest)"
      using "1.IH" [OF False] by simp
    also have "\<dots> = read_digits 10 n rest" by simp
    finally show ?thesis .
  qed
qed

lemma read_show_nat [simp]: "read_digits 10 0 (show_nat n) = n"
  using read_show_nat_acc [of n "[]"] by simp

lemma show_nat_head_zero: "c_at (show_nat n) 0 = CHR ''0'' \<longleftrightarrow> n = 0"
proof (induction n rule: show_nat.induct)
  case (1 n)
  show ?case
  proof (cases "n < 10")
    case True
    then show ?thesis by (simp add: show_nat.simps [of n] digit_char_zero)
  next
    case False
    then have "c_at (show_nat n) 0 = c_at (show_nat (n div 10)) 0"
      by (simp add: show_nat.simps [of n] c_at_append_left)
    with False "1.IH" [OF False] show ?thesis by simp
  qed
qed

lemma show_nat_0 [simp]: "show_nat 0 = ''0''"
  by (simp add: show_nat.simps digit_char_zero)

lemma digit_char_facts:
  assumes "is_digit c"
  shows "\<not> is_space c" "c \<noteq> CHR ''-''" "c \<noteq> CHR ''+''" "c \<noteq> CHR ''x''" "c \<noteq> CHR ''X''" "c \<noteq> NUL"
  using assms by (auto simp: ctypes)

lemma show_nat_c_at: "is_digit (c_at (show_nat n) i) \<or> c_at (show_nat n) i = NUL"
  using show_nat_digits [of _ n] by (auto simp: c_at_def)

lemma show_nat_c_at_0: "is_digit (c_at (show_nat n) 0)"
  using show_nat_digits [of "hd (show_nat n)" n] by (simp add: c_at_def hd_conv_nth)

lemma magnitude0_show_nat [simp]: "magnitude0 (show_nat n) = n"
proof (cases "n = 0")
  case True
  then show ?thesis by (simp add: magnitude0_def hex_prefix_def base_digit_def digit_value_def ctypes)
next
  case False
  then have "c_at (show_nat n) 0 \<noteq> CHR ''0''" by (simp add: show_nat_head_zero)
  then show ?thesis by (simp add: magnitude0_def hex_prefix_def)
qed

lemma dropWhile_show_nat: "dropWhile is_space (show_nat n) = show_nat n"
  using show_nat_c_at_0 [of n] by (cases "show_nat n") (auto simp: digit_char_facts)

text \<open>Reading back what \<^verbatim>\<open>%ld\<close> printed gives the value: the optimizer relies on it.\<close>

lemma strtol_exact_show_nat: "strtol_exact (show_nat n) = int n"
  using digit_char_facts [OF show_nat_c_at_0 [of n]]
  by (simp add: strtol_exact_def Let_def dropWhile_show_nat)

lemma strtol_exact_show_int [simp]: "strtol_exact (show_int v) = v"
  by (auto simp: show_int_def strtol_exact_show_nat)
     (simp add: strtol_exact_def Let_def ctypes)

lemma clamp_long_id [simp]: "in_long v \<Longrightarrow> clamp_long v = v"
  by (simp add: clamp_long_def in_long_def)

lemma strtol0_show_int: "in_long v \<Longrightarrow> strtol0 (show_int v) = v"
  by (simp add: strtol0_def)

lemma strtol0_in_long [simp]: "in_long (strtol0 s)"
  by (simp add: strtol0_def clamp_long_def in_long_def LONG_MIN_def LONG_MAX_def)

lemma strtol10_show_nat: "in_long (int n) \<Longrightarrow> strtol10 (show_nat n) = (int n, [])"
proof -
  assume n: "in_long (int n)"
  have "dropWhile is_digit (show_nat n) = []" using show_nat_digits [of _ n] by simp
  with n digit_char_facts [OF show_nat_c_at_0 [of n]] show_nat_c_at_0 [of n] show ?thesis
    by (simp add: strtol10_def Let_def dropWhile_show_nat)
qed

end
