(* ===== verification/Growable.thy ===== *)
theory Growable
  imports Prelude
begin

section \<open>The interface of a growable buffer\<close>

text \<open>
  The compiler stores tables and text in buffers that grow by reallocation: \<^verbatim>\<open>Vec\<close>
  (\<^verbatim>\<open>src/vec.c\<close>), \<^verbatim>\<open>StrBuf\<close> (\<^verbatim>\<open>src/strbuf.c\<close>) and \<^verbatim>\<open>GrowBuf\<close> (\<^verbatim>\<open>src/preprocessor.c\<close>).
  Their clients use them as lists to which an element is appended. The locale
  \<open>growable_seq\<close> states that contract once: an operation either fails fatally or keeps the
  representation invariant and appends to the abstract list. The theories of the three
  buffers interpret it on their own definitions.

  The backing store is a list of slots, one per element of capacity; a slot that was
  allocated and never written is \<^term>\<open>None\<close>. Whether an allocation request for so many
  bytes succeeds is a parameter: the allocator belongs to the C library and may refuse.
\<close>

text \<open>\<^verbatim>\<open>size_t lim = (size_t)-1\<close>, the bound of the overflow checks.\<close>

definition SIZE_MAX :: size_t where
  "SIZE_MAX = - 1"

lemma unat_SIZE_MAX: "unat SIZE_MAX = 2 ^ 64 - 1"
  by (simp add: SIZE_MAX_def unsigned_minus_1_eq_mask mask_eq_exp_minus_1)

lemma unat_inc: "x < y \<Longrightarrow> unat (x + 1) = Suc (unat x)" for x y :: size_t
  using unsigned_less [of y, where ?'a = nat] unat_add_lem [of x 1]
  by (simp add: word_less_nat_alt)

text \<open>A product that passes the check \<^verbatim>\<open>m > lim / e\<close> does not wrap around.\<close>

lemma size_check_product:
  fixes m e :: size_t
  assumes "\<not> (e > 0 \<and> m > SIZE_MAX div e)"
  shows "unat m * unat e < 2 ^ 64" "unat (m * e) = unat m * unat e"
proof -
  show *: "unat m * unat e < 2 ^ 64"
  proof (cases "e = 0")
    case False
    then have "m \<le> SIZE_MAX div e" using assms by (auto simp: word_neq_0_conv)
    from div_lt' [OF this] show ?thesis by simp
  qed simp
  show "unat (m * e) = unat m * unat e"
    using * by (simp add: unat_mult_lem [THEN iffD1])
qed

lemma double_exact: "\<not> c > SIZE_MAX div 2 \<Longrightarrow> unat (c * 2) = 2 * unat c" for c :: size_t
  using size_check_product(2) [of 2 c] by simp

lemma size_check_passes:
  fixes m e :: size_t
  assumes "unat m * unat e < 2 ^ 64"
  shows "\<not> (e > 0 \<and> m > SIZE_MAX div e)"
proof
  assume *: "e > 0 \<and> m > SIZE_MAX div e"
  then have "unat SIZE_MAX div unat e < unat m" by (simp add: word_less_nat_alt unat_div)
  moreover have "0 < unat e" using * by (simp add: word_less_nat_alt)
  ultimately have "unat SIZE_MAX < unat m * unat e" by (simp add: div_less_iff_less_mult)
  with assms show False by (simp add: unat_SIZE_MAX)
qed

datatype fatal = CapacityOverflow | SizeOverflow | OutOfMemory | IndexOutOfBounds | EmptyPop

text \<open>\<^verbatim>\<open>realloc\<close> to \<open>n\<close> slots keeps the old contents up to the smaller size.\<close>

definition resize_slots :: "nat \<Rightarrow> 'a option list \<Rightarrow> 'a option list" where
  "resize_slots n xs = take n xs @ replicate (n - length xs) None"

lemma length_resize_slots [simp]: "length (resize_slots n xs) = n"
  by (simp add: resize_slots_def)

lemma take_resize_slots: "k \<le> length xs \<Longrightarrow> k \<le> n \<Longrightarrow> take k (resize_slots n xs) = take k xs"
  by (simp add: resize_slots_def)

text \<open>\<^verbatim>\<open>memcpy\<close> of a block into the slots from position \<open>i\<close> on.\<close>

definition write_slots :: "nat \<Rightarrow> 'a list \<Rightarrow> 'a option list \<Rightarrow> 'a option list" where
  "write_slots i ys xs = take i xs @ map Some ys @ drop (i + length ys) xs"

lemma length_write_slots: "i + length ys \<le> length xs \<Longrightarrow> length (write_slots i ys xs) = length xs"
  by (simp add: write_slots_def)

lemma take_write_slots:
  "i + length ys \<le> length xs \<Longrightarrow> take (i + length ys) (write_slots i ys xs) = take i xs @ map Some ys"
  by (simp add: write_slots_def)

text \<open>The elements of the first \<open>n\<close> slots, all of which have been written.\<close>

definition filled :: "nat \<Rightarrow> 'a option list \<Rightarrow> 'a list \<Rightarrow> bool" where
  "filled n xs ys \<longleftrightarrow> n \<le> length xs \<and> take n xs = map Some ys"

lemma filled_length: "filled n xs ys \<Longrightarrow> length ys = n"
  by (auto simp: filled_def dest: arg_cong [of _ _ length])

lemma filled_resize: "filled n xs ys \<Longrightarrow> n \<le> m \<Longrightarrow> filled n (resize_slots m xs) ys"
  by (simp add: filled_def take_resize_slots)

lemma filled_write:
  "filled n xs ys \<Longrightarrow> n + length zs \<le> length xs \<Longrightarrow> filled (n + length zs) (write_slots n zs xs) (ys @ zs)"
  by (simp add: filled_def length_write_slots take_write_slots)

lemma filled_update:
  "filled n xs ys \<Longrightarrow> n < length xs \<Longrightarrow> filled (Suc n) (xs[n := Some z]) (ys @ [z])"
  by (simp add: filled_def take_Suc_conv_app_nth)

lemma filled_nth: "filled n xs ys \<Longrightarrow> i < n \<Longrightarrow> xs ! i = Some (ys ! i)"
  using filled_length [of n xs ys] nth_take [of i n xs] by (simp add: filled_def)

lemma filled_take: "filled n xs ys \<Longrightarrow> m \<le> n \<Longrightarrow> filled m xs (take m ys)"
  using take_take [of m n xs] by (simp add: filled_def take_map min_absorb1)

text \<open>Appending a list element by element, stopping at the first fatal error.\<close>

fun push_all :: "('s \<Rightarrow> 'a \<Rightarrow> fatal + 's) \<Rightarrow> 's \<Rightarrow> 'a list \<Rightarrow> fatal + 's" where
  "push_all push s [] = Inr s"
| "push_all push s (x # xs) = (case push s x of Inl e \<Rightarrow> Inl e | Inr s' \<Rightarrow> push_all push s' xs)"

locale growable_seq =
  fixes contents :: "'s \<Rightarrow> 'a list \<Rightarrow> bool"
    and push :: "'s \<Rightarrow> 'a \<Rightarrow> fatal + 's"
    and start :: 's
  assumes start_empty: "contents start []"
    and push_appends: "contents s xs \<Longrightarrow> push s x = Inr s' \<Longrightarrow> contents s' (xs @ [x])"
begin

lemma push_all_appends:
  "contents s xs \<Longrightarrow> push_all push s ys = Inr s' \<Longrightarrow> contents s' (xs @ ys)"
proof (induction ys arbitrary: s xs)
  case Nil
  then show ?case by simp
next
  case (Cons y ys)
  from Cons.prems(2) obtain s1 where s1: "push s y = Inr s1" "push_all push s1 ys = Inr s'"
    by (auto split: sum.splits)
  have "contents s1 (xs @ [y])" using Cons.prems(1) s1(1) by (rule push_appends)
  then have "contents s' ((xs @ [y]) @ ys)" using s1(2) by (rule Cons.IH)
  then show ?case by simp
qed

lemma build_from_start: "push_all push start ys = Inr s' \<Longrightarrow> contents s' ys"
  using push_all_appends [OF start_empty] by simp

end

text \<open>
  A buffer that fails only when the allocator refuses or the size leaves the address space:
  with room, every append succeeds.
\<close>

locale growable_total = growable_seq +
  fixes room :: "nat \<Rightarrow> bool"
  assumes push_succeeds: "contents s xs \<Longrightarrow> room (Suc (length xs)) \<Longrightarrow> \<exists>s'. push s x = Inr s'"
    and room_down: "room n \<Longrightarrow> m \<le> n \<Longrightarrow> room m"
begin

lemma push_all_succeeds:
  "contents s xs \<Longrightarrow> room (length xs + length ys) \<Longrightarrow>
   \<exists>s'. push_all push s ys = Inr s' \<and> contents s' (xs @ ys)"
proof (induction ys arbitrary: s xs)
  case Nil
  then show ?case by simp
next
  case (Cons y ys)
  have "room (Suc (length xs))" using Cons.prems(2) by (rule room_down) simp
  with Cons.prems(1) obtain s1 where s1: "push s y = Inr s1" using push_succeeds by blast
  have "contents s1 (xs @ [y])" using Cons.prems(1) s1 by (rule push_appends)
  moreover have "room (length (xs @ [y]) + length ys)" using Cons.prems(2) by simp
  ultimately obtain s' where "push_all push s1 ys = Inr s'" "contents s' ((xs @ [y]) @ ys)"
    using Cons.IH by blast
  with s1 show ?case by simp
qed

end

end
