(* ===== verification/Vec.thy ===== *)
theory Vec
  imports Growable
begin

section \<open>Growable arrays: \<^verbatim>\<open>src/vec.c\<close>\<close>

text \<open>
  \<^verbatim>\<open>Vec\<close> stores elements of a fixed size; its model keeps one slot per element and all
  sizes as 64-bit words, so that the overflow checks of \<^verbatim>\<open>vec_reserve\<close> and \<^verbatim>\<open>vec_push\<close>
  mean what they mean in the code. \<open>ok n\<close> says that the allocator grants \<open>n\<close> bytes.
  \<open>vec_rep\<close> is the representation invariant, with the list the vector stands for.
\<close>

record 'a Vec =
  vdata :: "'a option list"
  vlen :: size_t
  vcap :: size_t
  elem_size :: size_t

definition vec_init :: "size_t \<Rightarrow> 'a Vec" where
  "vec_init esz = \<lparr>vdata = [], vlen = 0, vcap = 0, elem_size = esz\<rparr>"

definition vec_free :: "'a Vec \<Rightarrow> 'a Vec" where
  "vec_free v = v\<lparr>vdata := [], vlen := 0, vcap := 0, elem_size := 0\<rparr>"

definition vec_reserve :: "(size_t \<Rightarrow> bool) \<Rightarrow> 'a Vec \<Rightarrow> size_t \<Rightarrow> fatal + 'a Vec" where
  "vec_reserve ok v min_cap =
     (if vcap v \<ge> min_cap then Inr v
      else if elem_size v > 0 \<and> min_cap > SIZE_MAX div elem_size v then Inl CapacityOverflow
      else if \<not> ok (min_cap * elem_size v) then Inl OutOfMemory
      else Inr (v\<lparr>vdata := resize_slots (unat min_cap) (vdata v), vcap := min_cap\<rparr>))"

definition vec_push :: "(size_t \<Rightarrow> bool) \<Rightarrow> 'a Vec \<Rightarrow> 'a \<Rightarrow> fatal + 'a Vec" where
  "vec_push ok v x =
     (case (if vlen v \<ge> vcap v then
              (if vcap v = 0 then vec_reserve ok v 8
               else if vcap v > SIZE_MAX div 2 then Inl CapacityOverflow
               else vec_reserve ok v (vcap v * 2))
            else Inr v) of
        Inl e \<Rightarrow> Inl e
      | Inr v' \<Rightarrow> Inr (v'\<lparr>vdata := (vdata v')[unat (vlen v') := Some x], vlen := vlen v' + 1\<rparr>))"

text \<open>\<^verbatim>\<open>vec_get\<close> returns the address of the slot; the model returns what the slot holds.\<close>

definition vec_get :: "'a Vec \<Rightarrow> size_t \<Rightarrow> fatal + 'a option" where
  "vec_get v i = (if i \<ge> vlen v then Inl IndexOutOfBounds else Inr (vdata v ! unat i))"

definition vec_pop :: "'a Vec \<Rightarrow> fatal + 'a Vec" where
  "vec_pop v = (if vlen v = 0 then Inl EmptyPop else Inr (v\<lparr>vlen := vlen v - 1\<rparr>))"

definition vec_clear :: "'a Vec \<Rightarrow> 'a Vec" where
  "vec_clear v = v\<lparr>vlen := 0\<rparr>"

definition vec_rep :: "'a Vec \<Rightarrow> 'a list \<Rightarrow> bool" where
  "vec_rep v xs \<longleftrightarrow>
     length (vdata v) = unat (vcap v) \<and> filled (unat (vlen v)) (vdata v) xs \<and>
     unat (vcap v) * unat (elem_size v) < 2 ^ 64"

lemma vec_rep_length: "vec_rep v xs \<Longrightarrow> unat (vlen v) = length xs"
  by (auto simp: vec_rep_def filled_length)

lemma vec_rep_init [simp]: "vec_rep (vec_init esz) []"
  by (simp add: vec_rep_def vec_init_def filled_def)

lemma vec_reserve_rep:
  assumes "vec_rep v xs" and "vec_reserve ok v m = Inr v'"
  shows "vec_rep v' xs" "m \<le> vcap v'" "vlen v' = vlen v" "elem_size v' = elem_size v"
proof -
  show "vec_rep v' xs"
  proof (cases "vcap v \<ge> m")
    case True
    with assms show ?thesis by (simp add: vec_reserve_def)
  next
    case False
    with assms(2) have v': "v' = v\<lparr>vdata := resize_slots (unat m) (vdata v), vcap := m\<rparr>"
      and chk: "\<not> (elem_size v > 0 \<and> m > SIZE_MAX div elem_size v)"
      by (auto simp: vec_reserve_def split: if_splits)
    have "unat (vlen v) \<le> unat m"
      using assms(1) False by (simp add: vec_rep_def filled_def word_le_nat_alt)
    with assms(1) size_check_product(1) [OF chk] show ?thesis
      by (simp add: v' vec_rep_def filled_resize)
  qed
  show "m \<le> vcap v'" "vlen v' = vlen v" "elem_size v' = elem_size v"
    using assms(2) by (auto simp: vec_reserve_def split: if_splits)
qed

text \<open>Making room for one more element, as \<^verbatim>\<open>vec_push\<close> does before the copy.\<close>

definition vec_grow :: "(size_t \<Rightarrow> bool) \<Rightarrow> 'a Vec \<Rightarrow> fatal + 'a Vec" where
  "vec_grow ok v =
     (if vlen v \<ge> vcap v then
        (if vcap v = 0 then vec_reserve ok v 8
         else if vcap v > SIZE_MAX div 2 then Inl CapacityOverflow
         else vec_reserve ok v (vcap v * 2))
      else Inr v)"

lemma vec_push_grow:
  "vec_push ok v x =
     (case vec_grow ok v of Inl e \<Rightarrow> Inl e
      | Inr v' \<Rightarrow> Inr (v'\<lparr>vdata := (vdata v')[unat (vlen v') := Some x], vlen := vlen v' + 1\<rparr>))"
  by (simp add: vec_push_def vec_grow_def)

lemma vec_grow_rep:
  assumes rep: "vec_rep v xs" and grow: "vec_grow ok v = Inr v'"
  shows "vec_rep v' xs" "unat (vlen v') < unat (vcap v')" "vlen v' = vlen v"
proof -
  have le: "unat (vlen v) \<le> unat (vcap v)" using rep by (simp add: vec_rep_def filled_def)
  have "vec_rep v' xs \<and> unat (vlen v') < unat (vcap v') \<and> vlen v' = vlen v"
  proof (cases "vlen v \<ge> vcap v")
    case False
    then have "v' = v" using grow by (simp add: vec_grow_def)
    with rep False show ?thesis by (simp add: word_le_nat_alt)
  next
    case full: True
    show ?thesis
    proof (cases "vcap v = 0")
      case True
      then have "vec_reserve ok v 8 = Inr v'" using grow by (simp add: vec_grow_def)
      from vec_reserve_rep [OF rep this] le True show ?thesis by (simp add: word_le_nat_alt)
    next
      case False
      then have chk: "\<not> vcap v > SIZE_MAX div 2" and r: "vec_reserve ok v (vcap v * 2) = Inr v'"
        using grow full by (simp_all add: vec_grow_def split: if_split_asm)
      have "unat (vcap v) < unat (vcap v * 2)"
        using double_exact [OF chk] False by (simp add: unat_gt_0)
      with vec_reserve_rep [OF rep r] le show ?thesis by (simp add: word_le_nat_alt)
    qed
  qed
  then show "vec_rep v' xs" "unat (vlen v') < unat (vcap v')" "vlen v' = vlen v" by auto
qed

lemma vec_push_rep:
  assumes rep: "vec_rep v xs" and push: "vec_push ok v x = Inr v'"
  shows "vec_rep v' (xs @ [x])"
proof -
  from push obtain u where grow: "vec_grow ok v = Inr u"
    and v': "v' = u\<lparr>vdata := (vdata u)[unat (vlen u) := Some x], vlen := vlen u + 1\<rparr>"
    by (auto simp: vec_push_grow split: sum.splits)
  note u = vec_grow_rep [OF rep grow]
  have "vlen u < vcap u" using u(2) by (simp add: word_less_nat_alt)
  then have "unat (vlen u + 1) = Suc (unat (vlen u))" by (rule unat_inc)
  then show ?thesis
    using u(1,2) by (simp add: v' vec_rep_def filled_update)
qed

text \<open>The allocator grants every request below the address space: appends succeed.\<close>

lemma vec_push_total:
  assumes rep: "vec_rep v xs" and ok: "\<And>n. ok n"
    and esz: "unat (vcap v) * 2 * unat (elem_size v) < 2 ^ 64" "8 * unat (elem_size v) < 2 ^ 64"
    and cap: "unat (vcap v) < 2 ^ 63"
  shows "\<exists>v'. vec_push ok v x = Inr v'"
proof -
  have reserve: "\<exists>u. vec_reserve ok v m = Inr u" if "unat m * unat (elem_size v) < 2 ^ 64" for m
    using size_check_passes [OF that] ok by (auto simp: vec_reserve_def)
  have no_ovf: "\<not> vcap v > SIZE_MAX div 2"
    using size_check_passes [of "vcap v" 2] cap by simp
  then show ?thesis
    using reserve [of 8] reserve [of "vcap v * 2"] esz double_exact [OF no_ovf]
    by (auto simp: vec_push_grow vec_grow_def mult.commute split: sum.splits)
qed

lemma vec_get_rep: "vec_rep v xs \<Longrightarrow> unat i < length xs \<Longrightarrow> vec_get v i = Inr (Some (xs ! unat i))"
  using vec_rep_length [of v xs]
  by (auto simp: vec_get_def vec_rep_def word_le_nat_alt filled_nth)

lemma vec_get_out: "vec_rep v xs \<Longrightarrow> length xs \<le> unat i \<Longrightarrow> vec_get v i = Inl IndexOutOfBounds"
  using vec_rep_length [of v xs] by (simp add: vec_get_def word_le_nat_alt)

lemma vec_pop_rep:
  assumes "vec_rep v xs" and "vec_pop v = Inr v'"
  shows "xs \<noteq> []" "vec_rep v' (butlast xs)"
proof -
  have nz: "vlen v \<noteq> 0" and v': "v' = v\<lparr>vlen := vlen v - 1\<rparr>"
    using assms(2) by (auto simp: vec_pop_def split: if_splits)
  have len: "unat (vlen v) = length xs" by (rule vec_rep_length [OF assms(1)])
  show "xs \<noteq> []" using nz len by (auto simp: unat_eq_0)
  have "unat (vlen v - 1) = length xs - 1"
    using nz len by (simp add: unat_minus_one)
  then show "vec_rep v' (butlast xs)"
    using assms(1) by (auto simp: v' vec_rep_def len butlast_conv_take intro: filled_take)
qed

lemma vec_clear_rep: "vec_rep v xs \<Longrightarrow> vec_rep (vec_clear v) []"
  by (auto simp: vec_clear_def vec_rep_def filled_def)

lemma vec_free_rep: "vec_rep (vec_free v) []"
  by (simp add: vec_free_def vec_rep_def filled_def)

interpretation vec: growable_seq vec_rep "vec_push ok" "vec_init esz"
  for ok :: "size_t \<Rightarrow> bool" and esz :: size_t
  by unfold_locales (auto intro: vec_push_rep)

text \<open>
  Under an allocator that grants every request, a vector filled only by \<^const>\<open>vec_push\<close> has at
  most twice the capacity it needs, so pushing succeeds as long as that fits the address space.
\<close>

definition vec_tight :: "size_t \<Rightarrow> 'a Vec \<Rightarrow> 'a list \<Rightarrow> bool" where
  "vec_tight esz v xs \<longleftrightarrow> vec_rep v xs \<and> elem_size v = esz \<and> unat (vcap v) \<le> 8 + 2 * length xs"

definition vec_room :: "size_t \<Rightarrow> nat \<Rightarrow> bool" where
  "vec_room esz n \<longleftrightarrow> (16 + 4 * n) * unat esz < 2 ^ 64 \<and> 16 + 4 * n < (2 :: nat) ^ 64"

lemma vec_grow_tight:
  assumes "vec_tight esz v xs" and "vec_grow ok v = Inr v'"
  shows "elem_size v' = esz \<and> unat (vcap v') \<le> 8 + 2 * Suc (length xs)"
proof -
  have rep: "vec_rep v xs" and e: "elem_size v = esz" and c: "unat (vcap v) \<le> 8 + 2 * length xs"
    using assms(1) by (simp_all add: vec_tight_def)
  have len: "unat (vlen v) = length xs" by (rule vec_rep_length [OF rep])
  show ?thesis
  proof (cases "vlen v \<ge> vcap v")
    case False
    with assms(2) e c show ?thesis by (simp add: vec_grow_def)
  next
    case full: True
    then have cl: "unat (vcap v) \<le> length xs" using len by (simp add: word_le_nat_alt)
    show ?thesis
    proof (cases "vcap v = 0")
      case True
      then have "vec_reserve ok v 8 = Inr v'" using assms(2) full by (simp add: vec_grow_def)
      then show ?thesis using True e by (auto simp: vec_reserve_def split: if_split_asm)
    next
      case False
      then have chk: "\<not> vcap v > SIZE_MAX div 2" and r: "vec_reserve ok v (vcap v * 2) = Inr v'"
        using assms(2) full by (simp_all add: vec_grow_def split: if_split_asm)
      from r have "vcap v' = vcap v \<or> vcap v' = vcap v * 2" "elem_size v' = elem_size v"
        by (auto simp: vec_reserve_def split: if_split_asm)
      with double_exact [OF chk] cl e show ?thesis by auto
    qed
  qed
qed

lemma vec_push_tight:
  assumes "vec_tight esz v xs" and "vec_push ok v x = Inr v'"
  shows "vec_tight esz v' (xs @ [x])"
proof -
  from assms(2) obtain u where grow: "vec_grow ok v = Inr u"
    and v': "v' = u\<lparr>vdata := (vdata u)[unat (vlen u) := Some x], vlen := vlen u + 1\<rparr>"
    by (auto simp: vec_push_grow split: sum.splits)
  have "vec_rep v' (xs @ [x])" using assms vec_push_rep by (auto simp: vec_tight_def)
  with vec_grow_tight [OF assms(1) grow] show ?thesis by (simp add: vec_tight_def v')
qed

interpretation vec_grows: growable_total "vec_tight esz" "vec_push (\<lambda>_. True)" "vec_init esz" "vec_room esz"
  for esz :: size_t
proof unfold_locales
  show "vec_tight esz (vec_init esz) []"
    using vec_rep_init by (auto simp: vec_tight_def) (simp_all add: vec_init_def)
  fix s :: "'a Vec" and xs x s'
  assume tight: "vec_tight esz s xs"
  show "vec_push (\<lambda>_. True) s x = Inr s' \<Longrightarrow> vec_tight esz s' (xs @ [x])"
    using tight by (rule vec_push_tight)
  assume room: "vec_room esz (Suc (length xs))"
  have rep: "vec_rep s xs" and e: "elem_size s = esz" and c: "unat (vcap s) \<le> 8 + 2 * length xs"
    using tight by (simp_all add: vec_tight_def)
  have lim: "(16 + 4 * Suc (length xs)) * unat esz < 2 ^ 64" "16 + 4 * Suc (length xs) < 2 ^ 64"
    using room by (simp_all only: vec_room_def)
  show "\<exists>s'. vec_push (\<lambda>_. True) s x = Inr s'"
  proof (rule vec_push_total [OF rep])
    have "unat (vcap s) * 2 * unat (elem_size s) \<le> (16 + 4 * Suc (length xs)) * unat esz"
      unfolding e using c by (intro mult_le_mono) simp_all
    with lim(1) show "unat (vcap s) * 2 * unat (elem_size s) < 2 ^ 64" by (rule le_less_trans [rotated])
    have "8 * unat (elem_size s) \<le> (16 + 4 * Suc (length xs)) * unat esz"
      unfolding e by (intro mult_le_mono) simp_all
    with lim(1) show "8 * unat (elem_size s) < 2 ^ 64" by (rule le_less_trans [rotated])
    show "unat (vcap s) < 2 ^ 63" using c lim(2) by simp
  qed simp
next
  fix n m :: nat
  assume "vec_room esz n" and "m \<le> n"
  then have "(16 + 4 * m) * unat esz \<le> (16 + 4 * n) * unat esz" by (intro mult_le_mono) simp_all
  also have "\<dots> < 2 ^ 64" using \<open>vec_room esz n\<close> by (simp only: vec_room_def)
  finally show "vec_room esz m" using \<open>vec_room esz n\<close> \<open>m \<le> n\<close> unfolding vec_room_def by linarith
qed

text \<open>
  A vector is a list: pushing any elements one after the other onto a fresh vector succeeds
  when twice their size fits the address space and memory is granted, and then index \<open>i\<close>
  holds the \<open>i\<close>th of them, while every index from their number on is refused as out of bounds.
\<close>

lemma vec_implements_list:
  assumes "vec_room esz (length xs)"
  shows "\<exists>v. push_all (vec_push (\<lambda>_. True)) (vec_init esz) xs = Inr v \<and>
     (\<forall>i. vec_get v i = (if unat i < length xs then Inr (Some (xs ! unat i)) else Inl IndexOutOfBounds))"
proof -
  have "vec_tight esz (vec_init esz :: 'a Vec) []" by (rule vec_grows.start_empty)
  from vec_grows.push_all_succeeds [OF this, of xs] assms obtain v where
    v: "push_all (vec_push (\<lambda>_. True)) (vec_init esz) xs = Inr v" "vec_tight esz v xs" by auto
  then have "vec_rep v xs" by (simp add: vec_tight_def)
  with v(1) vec_get_rep vec_get_out show ?thesis by (metis not_less)
qed

text \<open>
  Popping a vector that represents a list removes the last element and refuses only the
  empty one.
\<close>

lemma vec_pop_butlast:
  assumes "vec_rep v xs"
  shows "if xs = [] then vec_pop v = Inl EmptyPop else (\<exists>v'. vec_pop v = Inr v' \<and> vec_rep v' (butlast xs))"
proof (cases "vlen v = 0")
  case True
  then have "xs = []" using vec_rep_length [OF assms] by simp
  with True show ?thesis by (simp add: vec_pop_def)
next
  case False
  then obtain v' where "vec_pop v = Inr v'" by (simp add: vec_pop_def)
  with vec_pop_rep [OF assms this] show ?thesis by simp
qed

end
