(* ===== verification/StrBuf.thy ===== *)
theory StrBuf
  imports Growable
begin

section \<open>Text buffers: \<^verbatim>\<open>src/strbuf.c\<close>\<close>

text \<open>
  \<^verbatim>\<open>StrBuf\<close> is the byte buffer in which the lexer and the preprocessor build text. The
  capacity loop of \<^verbatim>\<open>strbuf_append_n\<close> is a \<^theory_text>\<open>partial_function\<close>: on a capacity of
  zero it would not end, and that it does end on every buffer that keeps the invariant is
  proved.
\<close>

record StrBuf =
  sdata :: "char option list"
  slen :: size_t
  scap :: size_t

definition strbuf_init :: StrBuf where
  "strbuf_init = \<lparr>sdata = [], slen = 0, scap = 0\<rparr>"

definition strbuf_free :: "StrBuf \<Rightarrow> StrBuf" where
  "strbuf_free b = b\<lparr>sdata := [], slen := 0, scap := 0\<rparr>"

definition strbuf_reserve :: "(size_t \<Rightarrow> bool) \<Rightarrow> StrBuf \<Rightarrow> size_t \<Rightarrow> fatal + StrBuf" where
  "strbuf_reserve ok b min_cap =
     (if scap b \<ge> min_cap then Inr b
      else if \<not> ok min_cap then Inl OutOfMemory
      else Inr (b\<lparr>sdata := resize_slots (unat min_cap) (sdata b), scap := min_cap\<rparr>))"

text \<open>Room for one more byte: the common head of \<^verbatim>\<open>append_char\<close> and \<^verbatim>\<open>null_terminate\<close>.\<close>

definition strbuf_room1 :: "(size_t \<Rightarrow> bool) \<Rightarrow> StrBuf \<Rightarrow> fatal + StrBuf" where
  "strbuf_room1 ok b =
     (if slen b \<ge> scap b then
        (if scap b = 0 then strbuf_reserve ok b 8
         else if scap b > SIZE_MAX div 2 then Inl CapacityOverflow
         else strbuf_reserve ok b (scap b * 2))
      else Inr b)"

definition strbuf_append_char :: "(size_t \<Rightarrow> bool) \<Rightarrow> StrBuf \<Rightarrow> char \<Rightarrow> fatal + StrBuf" where
  "strbuf_append_char ok b c =
     (case strbuf_room1 ok b of Inl e \<Rightarrow> Inl e
      | Inr b' \<Rightarrow> Inr (b'\<lparr>sdata := (sdata b')[unat (slen b') := Some c], slen := slen b' + 1\<rparr>))"

partial_function (option) grow_cap :: "size_t \<Rightarrow> size_t \<Rightarrow> (fatal + size_t) option" where
  "grow_cap new_cap needed =
     (if new_cap < needed then
        (if new_cap > SIZE_MAX div 2 then Some (Inl CapacityOverflow)
         else grow_cap (new_cap * 2) needed)
      else Some (Inr new_cap))"

definition strbuf_append_n :: "(size_t \<Rightarrow> bool) \<Rightarrow> StrBuf \<Rightarrow> string \<Rightarrow> (fatal + StrBuf) option" where
  "strbuf_append_n ok b s =
     (let n = of_nat (length s) :: size_t;
          needed = slen b + n;
          copy = (\<lambda>b'. Inr (b'\<lparr>sdata := write_slots (unat (slen b')) s (sdata b'), slen := slen b' + n\<rparr>))
      in if n = 0 then Some (Inr b)
         else if needed < slen b then Some (Inl SizeOverflow)
         else if needed > scap b then
           (case grow_cap (if scap b = 0 then 8 else scap b) needed of
              None \<Rightarrow> None
            | Some (Inl e) \<Rightarrow> Some (Inl e)
            | Some (Inr new_cap) \<Rightarrow>
                (case strbuf_reserve ok b new_cap of
                   Inl e \<Rightarrow> Some (Inl e) | Inr b' \<Rightarrow> Some (copy b')))
         else Some (copy b))"

definition c_strlen :: "string \<Rightarrow> nat" where
  "c_strlen s = length (takeWhile (\<lambda>c. c \<noteq> NUL) s)"

definition strbuf_append_str :: "(size_t \<Rightarrow> bool) \<Rightarrow> StrBuf \<Rightarrow> string \<Rightarrow> (fatal + StrBuf) option" where
  "strbuf_append_str ok b s = strbuf_append_n ok b (take (c_strlen s) s)"

definition strbuf_null_terminate :: "(size_t \<Rightarrow> bool) \<Rightarrow> StrBuf \<Rightarrow> fatal + StrBuf" where
  "strbuf_null_terminate ok b =
     (case strbuf_room1 ok b of Inl e \<Rightarrow> Inl e
      | Inr b' \<Rightarrow> Inr (b'\<lparr>sdata := (sdata b')[unat (slen b') := Some NUL]\<rparr>))"

definition strbuf_rep :: "StrBuf \<Rightarrow> string \<Rightarrow> bool" where
  "strbuf_rep b s \<longleftrightarrow> length (sdata b) = unat (scap b) \<and> filled (unat (slen b)) (sdata b) s"

lemma strbuf_rep_length: "strbuf_rep b s \<Longrightarrow> unat (slen b) = length s"
  by (auto simp: strbuf_rep_def filled_length)

lemma strbuf_rep_init [simp]: "strbuf_rep strbuf_init []"
  by (simp add: strbuf_rep_def strbuf_init_def filled_def)

lemma strbuf_free_rep: "strbuf_rep (strbuf_free b) []"
  by (simp add: strbuf_rep_def strbuf_free_def filled_def)

lemma strbuf_reserve_rep:
  assumes rep: "strbuf_rep b s" and res: "strbuf_reserve ok b m = Inr b'"
  shows "strbuf_rep b' s" "m \<le> scap b'" "slen b' = slen b"
proof -
  show "m \<le> scap b'" "slen b' = slen b"
    using res by (auto simp: strbuf_reserve_def split: if_splits)
  show "strbuf_rep b' s"
  proof (cases "scap b \<ge> m")
    case True
    with rep res show ?thesis by (simp add: strbuf_reserve_def)
  next
    case False
    then have b': "b' = b\<lparr>sdata := resize_slots (unat m) (sdata b), scap := m\<rparr>"
      using res by (simp add: strbuf_reserve_def split: if_split_asm)
    have "unat (slen b) \<le> unat m"
      using rep False by (simp add: strbuf_rep_def filled_def word_le_nat_alt)
    with rep show ?thesis by (simp add: b' strbuf_rep_def filled_resize)
  qed
qed

lemma strbuf_room1_rep_aux:
  assumes rep: "strbuf_rep b s" and room: "strbuf_room1 ok b = Inr b'"
  shows "strbuf_rep b' s \<and> unat (slen b') < unat (scap b') \<and> slen b' = slen b"
proof (cases "slen b \<ge> scap b")
  case False
  then have "b' = b" using room by (simp add: strbuf_room1_def)
  with rep False show ?thesis by (simp add: word_le_nat_alt)
next
  case full: True
  have le: "unat (slen b) \<le> unat (scap b)" using rep by (simp add: strbuf_rep_def filled_def)
  show ?thesis
  proof (cases "scap b = 0")
    case True
    then have "strbuf_reserve ok b 8 = Inr b'" using room by (simp add: strbuf_room1_def)
    from strbuf_reserve_rep [OF rep this] le True show ?thesis by (simp add: word_le_nat_alt)
  next
    case False
    then have chk: "\<not> scap b > SIZE_MAX div 2" and r: "strbuf_reserve ok b (scap b * 2) = Inr b'"
      using room full by (simp_all add: strbuf_room1_def split: if_split_asm)
    have "unat (scap b) < unat (scap b * 2)"
      using double_exact [OF chk] False by (simp add: unat_gt_0)
    with strbuf_reserve_rep [OF rep r] le show ?thesis by (simp add: word_le_nat_alt)
  qed
qed

lemma strbuf_room1_rep:
  assumes "strbuf_rep b s" and "strbuf_room1 ok b = Inr b'"
  shows "strbuf_rep b' s" "unat (slen b') < unat (scap b')" "slen b' = slen b"
  using strbuf_room1_rep_aux [OF assms] by blast+

lemma strbuf_append_char_rep:
  assumes rep: "strbuf_rep b s" and app: "strbuf_append_char ok b c = Inr b'"
  shows "strbuf_rep b' (s @ [c])"
proof -
  from app obtain u where room: "strbuf_room1 ok b = Inr u"
    and b': "b' = u\<lparr>sdata := (sdata u)[unat (slen u) := Some c], slen := slen u + 1\<rparr>"
    by (auto simp: strbuf_append_char_def split: sum.splits)
  note u = strbuf_room1_rep [OF rep room]
  from u(2) have "slen u < scap u" by (simp add: word_less_nat_alt)
  then have "unat (slen u + 1) = Suc (unat (slen u))" by (rule unat_inc)
  with u(1,2) show ?thesis by (simp add: b' strbuf_rep_def filled_update)
qed

text \<open>The terminator sits behind the text and is not part of it.\<close>

lemma strbuf_null_terminate_rep:
  assumes rep: "strbuf_rep b s" and nt: "strbuf_null_terminate ok b = Inr b'"
  shows "strbuf_rep b' s \<and> sdata b' ! length s = Some NUL \<and> length s < length (sdata b')"
proof -
  from nt obtain u where room: "strbuf_room1 ok b = Inr u"
    and b': "b' = u\<lparr>sdata := (sdata u)[unat (slen u) := Some NUL]\<rparr>"
    by (auto simp: strbuf_null_terminate_def split: sum.splits)
  note u = strbuf_room1_rep [OF rep room]
  have "unat (slen u) = length s" using u(1) by (rule strbuf_rep_length)
  with u(1,2) show ?thesis by (simp add: b' strbuf_rep_def filled_def)
qed

subsection \<open>Appending a block\<close>

text \<open>The capacity loop ends from every positive capacity and reaches the need.\<close>

lemma grow_cap_returns:
  "0 < c \<Longrightarrow> \<exists>r. grow_cap c n = Some r \<and> (\<forall>c'. r = Inr c' \<longrightarrow> n \<le> c' \<and> c \<le> c')"
proof (induction "unat n - unat c" arbitrary: c rule: less_induct)
  case less
  show ?case
  proof (cases "c < n \<and> \<not> c > SIZE_MAX div 2")
    case True
    have dbl: "unat (c * 2) = 2 * unat c" using True by (simp add: double_exact)
    have pos: "0 < unat c" using less.prems by (simp add: word_less_nat_alt)
    have "unat c < unat n" using True by (simp add: word_less_nat_alt)
    then have "unat n - unat (c * 2) < unat n - unat c" using dbl pos by simp
    moreover have "0 < c * 2" using dbl pos by (simp add: word_less_nat_alt)
    ultimately obtain r where r: "grow_cap (c * 2) n = Some r"
      "\<forall>c'. r = Inr c' \<longrightarrow> n \<le> c' \<and> c * 2 \<le> c'"
      using less.hyps by blast
    have "c \<le> c * 2" using dbl by (simp add: word_le_nat_alt)
    with True r show ?thesis by (auto simp: grow_cap.simps [of c n])
  next
    case False
    then show ?thesis by (auto simp: grow_cap.simps [of c n])
  qed
qed

lemma of_nat_length:
  "length t < 2 ^ 64 \<Longrightarrow> unat (of_nat (length t) :: size_t) = length t"
  by (simp add: unat_of_nat)

lemma no_wrap_add: "\<not> a + n < a \<Longrightarrow> unat (a + n) = unat a + unat n" for a n :: size_t
  by (simp add: no_olen_add_nat [symmetric] not_less unat_plus_simple)

lemma strbuf_copy_rep:
  assumes rep: "strbuf_rep b s" and len: "length t < 2 ^ 64"
    and nowrap: "\<not> slen b + of_nat (length t) < slen b" and fits: "slen b + of_nat (length t) \<le> scap b"
  shows "strbuf_rep (b\<lparr>sdata := write_slots (unat (slen b)) t (sdata b),
                        slen := slen b + of_nat (length t)\<rparr>) (s @ t)"
proof -
  have sum: "unat (slen b + of_nat (length t)) = unat (slen b) + length t"
    using no_wrap_add [OF nowrap] of_nat_length [OF len] by simp
  then have "unat (slen b) + length t \<le> length (sdata b)"
    using fits rep by (simp add: word_le_nat_alt strbuf_rep_def)
  then show ?thesis
    using rep by (simp add: strbuf_rep_def sum filled_write length_write_slots)
qed

lemma strbuf_append_n_returns: "\<exists>r. strbuf_append_n ok b t = Some r"
proof -
  have "0 < (if scap b = 0 then 8 else scap b)" by (simp add: word_neq_0_conv)
  then obtain r where "grow_cap (if scap b = 0 then 8 else scap b) (slen b + of_nat (length t)) = Some r"
    using grow_cap_returns by blast
  then show ?thesis
    by (cases r) (simp_all add: strbuf_append_n_def Let_def split: sum.split)
qed

lemma strbuf_append_n_rep:
  assumes rep: "strbuf_rep b s" and len: "length t < 2 ^ 64"
    and app: "strbuf_append_n ok b t = Some (Inr b')"
  shows "strbuf_rep b' (s @ t)"
proof (cases "(of_nat (length t) :: size_t) = 0")
  case True
  then have "length t = 0" using of_nat_length [OF len] by simp
  with True rep app show ?thesis by (simp add: strbuf_append_n_def)
next
  case nz: False
  let ?need = "slen b + of_nat (length t) :: size_t"
  have nowrap: "\<not> ?need < slen b" using app nz by (auto simp: strbuf_append_n_def Let_def split: if_split_asm)
  show ?thesis
  proof (cases "?need > scap b")
    case False
    then have "b' = b\<lparr>sdata := write_slots (unat (slen b)) t (sdata b), slen := ?need\<rparr>"
      using app nz nowrap by (simp add: strbuf_append_n_def Let_def)
    with strbuf_copy_rep [OF rep len nowrap] False show ?thesis by simp
  next
    case True
    have "0 < (if scap b = 0 then 8 else scap b)" by (simp add: word_neq_0_conv)
    then obtain r where r: "grow_cap (if scap b = 0 then 8 else scap b) ?need = Some r"
      "\<forall>c'. r = Inr c' \<longrightarrow> ?need \<le> c'"
      using grow_cap_returns by blast
    with app nz nowrap True obtain c' u where c': "r = Inr c'" and u: "strbuf_reserve ok b c' = Inr u"
      and b': "b' = u\<lparr>sdata := write_slots (unat (slen u)) t (sdata u), slen := slen u + of_nat (length t)\<rparr>"
      by (auto simp: strbuf_append_n_def Let_def split: sum.splits)
    note ur = strbuf_reserve_rep [OF rep u]
    have "?need \<le> scap u" using r(2) c' ur(2) by auto
    with strbuf_copy_rep [OF ur(1) len] nowrap ur(3) show ?thesis by (simp add: b')
  qed
qed

lemma strbuf_append_str_rep:
  assumes "strbuf_rep b s" and "length t < 2 ^ 64" and "strbuf_append_str ok b t = Some (Inr b')"
  shows "strbuf_rep b' (s @ takeWhile (\<lambda>c. c \<noteq> NUL) t)"
proof -
  have eq: "take (c_strlen t) t = takeWhile (\<lambda>c. c \<noteq> NUL) t"
    by (simp add: c_strlen_def takeWhile_eq_take [symmetric])
  have "length (takeWhile (\<lambda>c. c \<noteq> NUL) t) < 2 ^ 64"
    using assms(2) length_takeWhile_le [of "\<lambda>c. c \<noteq> NUL" t] by (rule le_less_trans [rotated])
  with assms show ?thesis by (simp add: strbuf_append_str_def eq strbuf_append_n_rep)
qed

interpretation strbuf: growable_seq strbuf_rep "strbuf_append_char ok" strbuf_init
  for ok :: "size_t \<Rightarrow> bool"
  by unfold_locales (auto intro: strbuf_append_char_rep)

text \<open>
  Appending to a string buffer always returns, and when it does not stop with an overflow or
  memory message the buffer holds the old bytes followed by the new ones: for a counted
  string all of them, embedded NULs included, for a C string those before its terminator.
\<close>

lemma strbuf_append_appends:
  assumes "strbuf_rep b s" and "length t < 2 ^ 64"
  shows "((\<exists>e. strbuf_append_n ok b t = Some (Inl e)) \<or>
          (\<exists>b'. strbuf_append_n ok b t = Some (Inr b') \<and> strbuf_rep b' (s @ t))) \<and>
         ((\<exists>e. strbuf_append_str ok b t = Some (Inl e)) \<or>
          (\<exists>b'. strbuf_append_str ok b t = Some (Inr b') \<and> strbuf_rep b' (s @ takeWhile (\<lambda>c. c \<noteq> NUL) t)))"
proof -
  obtain r where r: "strbuf_append_n ok b t = Some r" using strbuf_append_n_returns by blast
  obtain q where q: "strbuf_append_str ok b t = Some q"
    unfolding strbuf_append_str_def using strbuf_append_n_returns by blast
  show ?thesis
    using r q strbuf_append_n_rep [OF assms] strbuf_append_str_rep [OF assms] by (cases r; cases q) auto
qed

end
