(* ===== verification/GrowBuf.thy ===== *)
theory GrowBuf
  imports Growable
begin

section \<open>The preprocessor's output buffer: \<^verbatim>\<open>GrowBuf\<close> of \<^verbatim>\<open>src/preprocessor.c\<close>\<close>

text \<open>
  The preprocessor writes every text it builds into a \<^verbatim>\<open>GrowBuf\<close>. Unlike \<^verbatim>\<open>Vec\<close> and
  \<^verbatim>\<open>StrBuf\<close> it does not check its sizes for overflow. It relies on the allocator: no object
  is larger than the 47-bit user address space of the target, so a size that would wrap
  around has been refused long before. The theories of the preprocessor use plain strings
  for these buffers; this theory shows that the operations implement them.
\<close>

record GrowBuf =
  gdata :: "char option list"
  glen :: size_t
  gcap :: size_t

definition alloc_ok :: "(size_t \<Rightarrow> bool) \<Rightarrow> size_t \<Rightarrow> bool" where
  "alloc_ok ok n \<longleftrightarrow> ok n \<and> n \<le> 2 ^ 47"

definition gbuf_init :: "(size_t \<Rightarrow> bool) \<Rightarrow> size_t \<Rightarrow> fatal + GrowBuf" where
  "gbuf_init ok cap =
     (let cap = (if cap < 16 then 16 else cap)
      in if \<not> alloc_ok ok cap then Inl OutOfMemory
         else Inr \<lparr>gdata = replicate (unat cap) None, glen = 0, gcap = cap\<rparr>)"

definition gbuf_push :: "(size_t \<Rightarrow> bool) \<Rightarrow> GrowBuf \<Rightarrow> char \<Rightarrow> fatal + GrowBuf" where
  "gbuf_push ok g c =
     (let store = (\<lambda>g. Inr (g\<lparr>gdata := (gdata g)[unat (glen g) := Some c], glen := glen g + 1\<rparr>))
      in if glen g + 1 \<ge> gcap g then
           (let cap = gcap g * 2
            in if \<not> alloc_ok ok cap then Inl OutOfMemory
               else store (g\<lparr>gdata := resize_slots (unat cap) (gdata g), gcap := cap\<rparr>))
         else store g)"

partial_function (option) gbuf_room :: "(size_t \<Rightarrow> bool) \<Rightarrow> GrowBuf \<Rightarrow> size_t \<Rightarrow> (fatal + GrowBuf) option" where
  "gbuf_room ok g n =
     (if glen g + n + 1 > gcap g then
        (let cap = gcap g * 2 + n
         in if \<not> alloc_ok ok cap then Some (Inl OutOfMemory)
            else gbuf_room ok (g\<lparr>gdata := resize_slots (unat cap) (gdata g), gcap := cap\<rparr>) n)
      else Some (Inr g))"

definition gbuf_append :: "(size_t \<Rightarrow> bool) \<Rightarrow> GrowBuf \<Rightarrow> string \<Rightarrow> (fatal + GrowBuf) option" where
  "gbuf_append ok g s =
     (let n = of_nat (length s)
      in case gbuf_room ok g n of
           None \<Rightarrow> None
         | Some (Inl e) \<Rightarrow> Some (Inl e)
         | Some (Inr g) \<Rightarrow> Some (Inr (g\<lparr>gdata := write_slots (unat (glen g)) s (gdata g), glen := glen g + n\<rparr>)))"

text \<open>The text of a buffer; there is always a free slot behind it.\<close>

definition gbuf_rep :: "GrowBuf \<Rightarrow> string \<Rightarrow> bool" where
  "gbuf_rep g s \<longleftrightarrow>
     length (gdata g) = unat (gcap g) \<and> unat (gcap g) \<le> 2 ^ 47 \<and> 16 \<le> unat (gcap g) \<and>
     unat (glen g) < unat (gcap g) \<and> filled (unat (glen g)) (gdata g) s"

lemma alloc_ok_bound: "alloc_ok ok n \<Longrightarrow> unat n \<le> 2 ^ 47"
  by (simp add: alloc_ok_def word_le_nat_alt)

lemma gbuf_repD:
  assumes "gbuf_rep g s"
  shows "length (gdata g) = unat (gcap g)" "unat (gcap g) \<le> 2 ^ 47" "16 \<le> unat (gcap g)"
    "unat (glen g) < unat (gcap g)" "filled (unat (glen g)) (gdata g) s"
  using assms by (simp_all add: gbuf_rep_def)

lemma unat_plus_small: "unat a + unat b < 2 ^ 64 \<Longrightarrow> unat (a + b) = unat a + unat b" for a b :: size_t
  by (simp add: unat_add_lem [THEN iffD1])

lemma unat_double_small: "unat a < 2 ^ 63 \<Longrightarrow> unat (a * 2) = unat a * 2" for a :: size_t
  using unat_mult_lem [of a 2] by simp

lemma gbuf_init_rep: "gbuf_init ok cap = Inr g \<Longrightarrow> gbuf_rep g []"
  by (auto simp: gbuf_init_def gbuf_rep_def filled_def alloc_ok_def Let_def word_le_nat_alt
      word_less_nat_alt not_less split: if_split_asm)

text \<open>Enlarging the capacity keeps the text.\<close>

lemma gbuf_rep_grow:
  assumes "gbuf_rep g s" and "unat (gcap g) \<le> unat cap" and "unat cap \<le> 2 ^ 47"
  shows "gbuf_rep (g\<lparr>gdata := resize_slots (unat cap) (gdata g), gcap := cap\<rparr>) s"
  using assms by (auto simp: gbuf_rep_def filled_resize)

lemma gbuf_store_rep:
  assumes rep: "gbuf_rep g s" and room: "unat (glen g) + 1 < unat (gcap g)"
  shows "gbuf_rep (g\<lparr>gdata := (gdata g)[unat (glen g) := Some c], glen := glen g + 1\<rparr>) (s @ [c])"
proof -
  note d = gbuf_repD [OF rep]
  have "unat (glen g + 1) = Suc (unat (glen g))" using unat_plus_small [of "glen g" 1] d(2) room by simp
  then show ?thesis using d room by (simp add: gbuf_rep_def filled_update)
qed

lemma gbuf_push_rep:
  assumes rep: "gbuf_rep g s" and push: "gbuf_push ok g c = Inr g'"
  shows "gbuf_rep g' (s @ [c])"
proof -
  note d = gbuf_repD [OF rep]
  have len: "unat (glen g + 1) = unat (glen g) + 1" using unat_plus_small [of "glen g" 1] d(2,4) by simp
  show ?thesis
  proof (cases "glen g + 1 \<ge> gcap g")
    case False
    then have "unat (glen g) + 1 < unat (gcap g)" using len by (simp add: word_le_nat_alt)
    with gbuf_store_rep [OF rep] False push show ?thesis by (auto simp: gbuf_push_def Let_def)
  next
    case True
    have dbl: "unat (gcap g * 2) = unat (gcap g) * 2" using d(2) by (simp add: unat_double_small)
    let ?g = "g\<lparr>gdata := resize_slots (unat (gcap g * 2)) (gdata g), gcap := gcap g * 2\<rparr>"
    from True push have a: "alloc_ok ok (gcap g * 2)"
      and g': "g' = ?g\<lparr>gdata := (gdata ?g)[unat (glen ?g) := Some c], glen := glen ?g + 1\<rparr>"
      by (auto simp: gbuf_push_def Let_def split: if_split_asm)
    from alloc_ok_bound [OF a] dbl have "gbuf_rep ?g s" by (intro gbuf_rep_grow [OF rep]) simp_all
    moreover have "unat (glen ?g) + 1 < unat (gcap ?g)" using d(3,4) dbl by simp
    ultimately show ?thesis unfolding g' by (rule gbuf_store_rep)
  qed
qed

text \<open>The loop of \<^verbatim>\<open>gbuf_append\<close> runs at most once.\<close>

lemma gbuf_room_once:
  assumes rep: "gbuf_rep g s" and n: "unat n \<le> 2 ^ 47"
  shows "gbuf_room ok g n = Some (Inl OutOfMemory) \<or>
         (\<exists>g'. gbuf_room ok g n = Some (Inr g') \<and> gbuf_rep g' s \<and> unat (glen g') + unat n < unat (gcap g'))"
proof -
  note d = gbuf_repD [OF rep]
  have "unat (glen g + n) = unat (glen g) + unat n" using d(2,4) n by (intro unat_plus_small) simp
  then have need: "unat (glen g + n + 1) = unat (glen g) + unat n + 1"
    using d(2,4) n unat_plus_small [of "glen g + n" 1] by simp
  show ?thesis
  proof (cases "glen g + n + 1 > gcap g")
    case False
    then have "unat (glen g) + unat n < unat (gcap g)" using need by (simp add: word_less_nat_alt)
    with False rep show ?thesis by (subst gbuf_room.simps, subst (2) gbuf_room.simps) simp
  next
    case True
    let ?c = "gcap g * 2 + n"
    let ?g = "g\<lparr>gdata := resize_slots (unat ?c) (gdata g), gcap := ?c\<rparr>"
    have dbl: "unat (gcap g * 2) = unat (gcap g) * 2" using d(2) by (simp add: unat_double_small)
    have c: "unat ?c = unat (gcap g) * 2 + unat n" using dbl d(2) n unat_plus_small [of "gcap g * 2" n] by simp
    show ?thesis
    proof (cases "alloc_ok ok ?c")
      case no: False
      with True show ?thesis by (subst gbuf_room.simps) (simp add: Let_def)
    next
      case yes: True
      have enough: "\<not> glen ?g + n + 1 > gcap ?g" using c d(4) need by (simp add: word_less_nat_alt)
      then have stop: "gbuf_room ok ?g n = Some (Inr ?g)" by (subst gbuf_room.simps) simp
      have "gbuf_rep ?g s" using alloc_ok_bound [OF yes] c by (intro gbuf_rep_grow [OF rep]) simp_all
      moreover have "unat (glen ?g) + unat n < unat (gcap ?g)" using c d(4) by simp
      moreover have "gbuf_room ok g n = Some (Inr ?g)"
        using True yes stop by (subst gbuf_room.simps) (simp add: Let_def)
      ultimately show ?thesis by blast
    qed
  qed
qed

lemma gbuf_append_rep:
  assumes rep: "gbuf_rep g s" and len: "length t \<le> 2 ^ 47"
  shows "gbuf_append ok g t = Some (Inl OutOfMemory) \<or>
         (\<exists>g'. gbuf_append ok g t = Some (Inr g') \<and> gbuf_rep g' (s @ t))"
proof -
  have n: "unat (of_nat (length t) :: size_t) = length t" using len by (simp add: unat_of_nat)
  consider "gbuf_room ok g (of_nat (length t)) = Some (Inl OutOfMemory)"
    | u where "gbuf_room ok g (of_nat (length t)) = Some (Inr u)" "gbuf_rep u s"
        "unat (glen u) + length t < unat (gcap u)"
    using gbuf_room_once [OF rep, of "of_nat (length t)" ok] n len by auto
  then show ?thesis
  proof cases
    case 1
    then show ?thesis by (simp add: gbuf_append_def)
  next
    case 2
    note d = gbuf_repD [OF 2(2)]
    have "unat (glen u + of_nat (length t)) = unat (glen u) + length t"
      using unat_plus_small [of "glen u" "of_nat (length t)"] n 2(3) d(2) by simp
    with 2 d have "gbuf_rep (u\<lparr>gdata := write_slots (unat (glen u)) t (gdata u), glen := glen u + of_nat (length t)\<rparr>) (s @ t)"
      by (simp add: gbuf_rep_def filled_write length_write_slots)
    with 2(1) show ?thesis by (simp add: gbuf_append_def)
  qed
qed

text \<open>A buffer of the smallest capacity, as \<^verbatim>\<open>gbuf_init(&g, 16)\<close> makes it.\<close>

definition gbuf_empty :: GrowBuf where
  "gbuf_empty = \<lparr>gdata = replicate 16 None, glen = 0, gcap = 16\<rparr>"

lemma gbuf_empty_rep: "gbuf_rep gbuf_empty []"
  by (simp add: gbuf_empty_def gbuf_rep_def filled_def)

interpretation gbuf: growable_seq gbuf_rep "gbuf_push ok" gbuf_empty for ok :: "size_t \<Rightarrow> bool"
  by unfold_locales (auto intro: gbuf_push_rep gbuf_empty_rep)

text \<open>
  The unchecked arithmetic of the preprocessor's buffers is safe on the target: on a
  buffer in use, pushing a character and appending a block either stop for lack of memory or
  leave exactly the old text followed by the new one, and the growth loop always ends.
\<close>

lemma gbuf_implements_text:
  assumes "gbuf_rep g s" and "length t \<le> 2 ^ 47"
  shows "(gbuf_push ok g c = Inl OutOfMemory \<or> (\<exists>g'. gbuf_push ok g c = Inr g' \<and> gbuf_rep g' (s @ [c]))) \<and>
         (gbuf_append ok g t = Some (Inl OutOfMemory) \<or>
          (\<exists>g'. gbuf_append ok g t = Some (Inr g') \<and> gbuf_rep g' (s @ t)))"
proof
  have "gbuf_push ok g c = Inl OutOfMemory \<or> (\<exists>g'. gbuf_push ok g c = Inr g')"
    by (auto simp: gbuf_push_def Let_def)
  with gbuf_push_rep [OF assms(1)]
  show "gbuf_push ok g c = Inl OutOfMemory \<or> (\<exists>g'. gbuf_push ok g c = Inr g' \<and> gbuf_rep g' (s @ [c]))" by blast
qed (rule gbuf_append_rep [OF assms])

end
