(* ===== verification/CType.thy ===== *)
theory CType
  imports Prelude
begin

section \<open>C types: \<^verbatim>\<open>src/type.c\<close>, \<^verbatim>\<open>include/type.h\<close>\<close>

text \<open>
  Types are heap nodes that point to one another: a pointer type to its base, a
  self-referential structure to itself. The model keeps the pointers: a \<open>type_heap\<close> is the
  list of the allocated nodes and a type is an address into it. The fourteen singletons sit
  at the start of the heap; a constructor appends a node and returns its address. The
  allocator's refusal, on which the program prints a message and exits, is not represented.
\<close>

datatype TypeKind =
    TYPE_VOID | TYPE_BOOL | TYPE_CHAR | TYPE_SHORT | TYPE_INT | TYPE_LONG | TYPE_LONG_LONG
  | TYPE_UNSIGNED_LONG_LONG | TYPE_FLOAT | TYPE_DOUBLE | TYPE_POINTER | TYPE_ARRAY
  | TYPE_FUNCTION | TYPE_STRUCT | TYPE_UNION

type_synonym type_ptr = nat

record StructField =
  fld_name :: string
  fld_offset :: int
  fld_kind :: TypeKind
  fld_full_type :: "type_ptr option"
  fld_is_const :: bool
  fld_is_volatile :: bool
  is_bitfield :: bool
  bit_width :: int
  bit_offset :: int
  is_flexible_array :: bool

text \<open>
  \<open>ty_params\<close> is the fixed array of sixteen parameter slots; \<open>ty_fields\<close> is the address of
  the separately allocated field table, which copies of a node share.
\<close>

record CType =
  ty_kind :: TypeKind
  ty_size :: int
  ty_align :: int
  ty_signed :: bool
  ty_base :: "type_ptr option"
  ty_length :: int
  ty_param_count :: int
  ty_params :: "type_ptr option list"
  ty_fields :: "nat option"
  ty_field_count :: int
  ty_const :: bool
  ty_volatile :: bool

type_synonym type_heap = "CType list"

definition FUNC_TYPE_MAX_PARAMS :: nat where
  "FUNC_TYPE_MAX_PARAMS = 16"

text \<open>What \<^verbatim>\<open>calloc\<close> leaves in a node: every field zero.\<close>

definition zero_type :: CType where
  "zero_type = \<lparr>ty_kind = TYPE_VOID, ty_size = 0, ty_align = 0, ty_signed = False, ty_base = None,
     ty_length = 0, ty_param_count = 0, ty_params = replicate FUNC_TYPE_MAX_PARAMS None,
     ty_fields = None, ty_field_count = 0, ty_const = False, ty_volatile = False\<rparr>"

definition scalar_type :: "TypeKind \<Rightarrow> int \<Rightarrow> int \<Rightarrow> bool \<Rightarrow> CType" where
  "scalar_type k sz al sg = zero_type\<lparr>ty_kind := k, ty_size := sz, ty_align := al, ty_signed := sg\<rparr>"

definition type_singletons :: type_heap where
  "type_singletons =
     [scalar_type TYPE_VOID 0 0 False,
      scalar_type TYPE_BOOL 1 1 False,
      scalar_type TYPE_CHAR 1 1 True,
      scalar_type TYPE_SHORT 2 2 True,
      scalar_type TYPE_INT 4 4 True,
      scalar_type TYPE_LONG 8 8 True,
      scalar_type TYPE_LONG_LONG 8 8 True,
      scalar_type TYPE_CHAR 1 1 False,
      scalar_type TYPE_SHORT 2 2 False,
      scalar_type TYPE_INT 4 4 False,
      scalar_type TYPE_LONG 8 8 False,
      scalar_type TYPE_UNSIGNED_LONG_LONG 8 8 False,
      scalar_type TYPE_FLOAT 4 4 False,
      scalar_type TYPE_DOUBLE 8 8 False]"

definition type_void :: type_ptr where "type_void = 0"
definition type_bool :: type_ptr where "type_bool = 1"
definition type_char :: type_ptr where "type_char = 2"
definition type_short :: type_ptr where "type_short = 3"
definition type_int :: type_ptr where "type_int = 4"
definition type_long :: type_ptr where "type_long = 5"
definition type_long_long :: type_ptr where "type_long_long = 6"
definition type_unsigned_char :: type_ptr where "type_unsigned_char = 7"
definition type_unsigned_short :: type_ptr where "type_unsigned_short = 8"
definition type_unsigned_int :: type_ptr where "type_unsigned_int = 9"
definition type_unsigned_long :: type_ptr where "type_unsigned_long = 10"
definition type_unsigned_long_long :: type_ptr where "type_unsigned_long_long = 11"
definition type_float :: type_ptr where "type_float = 12"
definition type_double :: type_ptr where "type_double = 13"

text \<open>Allocation: the new node sits behind the others.\<close>

definition type_alloc :: "type_heap \<Rightarrow> CType \<Rightarrow> type_heap \<times> type_ptr" where
  "type_alloc h t = (h @ [t], length h)"

definition type_pointer :: "type_heap \<Rightarrow> type_ptr \<Rightarrow> type_heap \<times> type_ptr" where
  "type_pointer h base =
     type_alloc h (zero_type\<lparr>ty_kind := TYPE_POINTER, ty_size := 8, ty_align := 8,
       ty_signed := False, ty_base := Some base\<rparr>)"

text \<open>\<open>element_size * length\<close> is a product of two \<^verbatim>\<open>int\<close>s, which wraps at 32 bits.\<close>

definition type_array :: "type_heap \<Rightarrow> type_ptr \<Rightarrow> int \<Rightarrow> type_heap \<times> type_ptr" where
  "type_array h elt len =
     type_alloc h (zero_type\<lparr>ty_kind := TYPE_ARRAY, ty_size := wrap32 (ty_size (h ! elt) * len),
       ty_align := ty_align (h ! elt), ty_signed := False, ty_base := Some elt, ty_length := len\<rparr>)"

text \<open>
  The copy loop of \<^verbatim>\<open>type_function\<close> stops at \<^verbatim>\<open>param_count\<close> and at the array's size,
  whichever is smaller; \<open>param_types\<close> has at least that many entries.
\<close>

fun copy_params :: "nat \<Rightarrow> int \<Rightarrow> type_ptr list \<Rightarrow> type_ptr option list \<Rightarrow> type_ptr option list" where
  "copy_params i n [] dst = dst"
| "copy_params i n (p # ps) dst =
     (if int i < n \<and> i < FUNC_TYPE_MAX_PARAMS then copy_params (Suc i) n ps (dst[i := Some p]) else dst)"

definition type_function :: "type_heap \<Rightarrow> type_ptr \<Rightarrow> int \<Rightarrow> type_ptr list \<Rightarrow> type_heap \<times> type_ptr" where
  "type_function h ret param_count param_types =
     type_alloc h (zero_type\<lparr>ty_kind := TYPE_FUNCTION, ty_size := 0, ty_align := 0,
       ty_signed := False, ty_base := Some ret, ty_param_count := param_count,
       ty_params := copy_params 0 param_count param_types (ty_params zero_type)\<rparr>)"

definition type_const_copy :: "type_heap \<Rightarrow> type_ptr \<Rightarrow> type_heap \<times> type_ptr" where
  "type_const_copy h t = type_alloc h ((h ! t)\<lparr>ty_const := True\<rparr>)"

definition type_volatile_copy :: "type_heap \<Rightarrow> type_ptr \<Rightarrow> type_heap \<times> type_ptr" where
  "type_volatile_copy h t = type_alloc h ((h ! t)\<lparr>ty_volatile := True\<rparr>)"

definition type_struct :: "type_heap \<Rightarrow> int \<Rightarrow> int \<Rightarrow> type_heap \<times> type_ptr" where
  "type_struct h sz al =
     type_alloc h (zero_type\<lparr>ty_kind := TYPE_STRUCT, ty_size := sz, ty_align := al, ty_signed := False\<rparr>)"

definition type_union :: "type_heap \<Rightarrow> int \<Rightarrow> int \<Rightarrow> type_heap \<times> type_ptr" where
  "type_union h sz al =
     type_alloc h (zero_type\<lparr>ty_kind := TYPE_UNION, ty_size := sz, ty_align := al, ty_signed := False\<rparr>)"

fun type_kind_name :: "TypeKind \<Rightarrow> string" where
  "type_kind_name TYPE_VOID = ''void''"
| "type_kind_name TYPE_BOOL = ''_Bool''"
| "type_kind_name TYPE_CHAR = ''char''"
| "type_kind_name TYPE_SHORT = ''short''"
| "type_kind_name TYPE_INT = ''int''"
| "type_kind_name TYPE_LONG = ''long''"
| "type_kind_name TYPE_LONG_LONG = ''long long''"
| "type_kind_name TYPE_UNSIGNED_LONG_LONG = ''unsigned long long''"
| "type_kind_name TYPE_FLOAT = ''float''"
| "type_kind_name TYPE_DOUBLE = ''double''"
| "type_kind_name TYPE_POINTER = ''pointer''"
| "type_kind_name TYPE_ARRAY = ''array''"
| "type_kind_name TYPE_FUNCTION = ''function''"
| "type_kind_name TYPE_STRUCT = ''struct''"
| "type_kind_name TYPE_UNION = ''union''"

definition type_size :: "type_heap \<Rightarrow> type_ptr option \<Rightarrow> int" where
  "type_size h t = (case t of None \<Rightarrow> 0 | Some p \<Rightarrow> ty_size (h ! p))"

definition type_alignment :: "type_heap \<Rightarrow> type_ptr option \<Rightarrow> int" where
  "type_alignment h t = (case t of None \<Rightarrow> 0 | Some p \<Rightarrow> ty_align (h ! p))"

fun integer_kind :: "TypeKind \<Rightarrow> bool" where
  "integer_kind TYPE_BOOL = True"
| "integer_kind TYPE_CHAR = True"
| "integer_kind TYPE_SHORT = True"
| "integer_kind TYPE_INT = True"
| "integer_kind TYPE_LONG = True"
| "integer_kind TYPE_LONG_LONG = True"
| "integer_kind TYPE_UNSIGNED_LONG_LONG = True"
| "integer_kind _ = False"

definition type_is_integer :: "type_heap \<Rightarrow> type_ptr option \<Rightarrow> bool" where
  "type_is_integer h t = (case t of None \<Rightarrow> False | Some p \<Rightarrow> integer_kind (ty_kind (h ! p)))"

subsection \<open>The heap only grows\<close>

lemmas type_constructors =
  type_pointer_def type_array_def type_function_def type_const_copy_def type_volatile_copy_def
  type_struct_def type_union_def type_alloc_def

lemmas type_singleton_ptrs =
  type_void_def type_bool_def type_char_def type_short_def type_int_def type_long_def
  type_long_long_def type_unsigned_char_def type_unsigned_short_def type_unsigned_int_def
  type_unsigned_long_def type_unsigned_long_long_def type_float_def type_double_def

text \<open>
  Well-formed heaps: every pointer of a node is the address of a node, sizes and alignments
  are not negative, the parameter array has its sixteen slots.
\<close>

definition ptr_ok :: "type_heap \<Rightarrow> type_ptr option \<Rightarrow> bool" where
  "ptr_ok h p = (case p of None \<Rightarrow> True | Some a \<Rightarrow> a < length h)"

definition node_ok :: "type_heap \<Rightarrow> CType \<Rightarrow> bool" where
  "node_ok h t \<longleftrightarrow> ptr_ok h (ty_base t) \<and> list_all (ptr_ok h) (ty_params t) \<and>
     length (ty_params t) = FUNC_TYPE_MAX_PARAMS \<and> 0 \<le> ty_align t \<and>
     (ty_kind t = TYPE_POINTER \<longrightarrow> ty_size t = 8 \<and> ty_align t = 8 \<and> ty_base t \<noteq> None)"

definition heap_ok :: "type_heap \<Rightarrow> bool" where
  "heap_ok h \<longleftrightarrow> list_all (node_ok h) h"

lemma ptr_ok_mono: "ptr_ok h p \<Longrightarrow> ptr_ok (h @ h') p"
  by (auto simp: ptr_ok_def split: option.splits)

lemma node_ok_mono: "node_ok h t \<Longrightarrow> node_ok (h @ h') t"
  by (auto simp: node_ok_def list_all_iff ptr_ok_mono)

lemma heap_ok_nth: "heap_ok h \<Longrightarrow> p < length h \<Longrightarrow> node_ok h (h ! p)"
  by (simp add: heap_ok_def list_all_length)

lemma heap_ok_alloc: "heap_ok h \<Longrightarrow> node_ok (h @ [t]) t \<Longrightarrow> heap_ok (h @ [t])"
  by (auto simp: heap_ok_def list_all_iff node_ok_mono)

lemma length_copy_params [simp]: "length (copy_params i n ps dst) = length dst"
  by (induction i n ps dst rule: copy_params.induct) auto

lemma copy_params_ptr_ok:
  "list_all (ptr_ok h) dst \<Longrightarrow> list_all (\<lambda>p. p < length h) ps \<Longrightarrow>
   list_all (ptr_ok h) (copy_params i n ps dst)"
proof (induction i n ps dst rule: copy_params.induct)
  case (2 i n p ps dst)
  have "list_all (ptr_ok h) (dst[i := Some p])"
    using "2.prems" set_update_subset_insert [of dst i "Some p"]
    by (auto simp: list_all_iff ptr_ok_def)
  with 2 show ?case by simp
qed simp

lemma zero_type_ok: "list_all (ptr_ok h) (ty_params zero_type)"
  "length (ty_params zero_type) = FUNC_TYPE_MAX_PARAMS" "ty_base zero_type = None"
  by (simp_all add: zero_type_def list_all_iff ptr_ok_def)

lemma heap_ok_singletons: "heap_ok type_singletons"
  by (simp add: heap_ok_def node_ok_def type_singletons_def scalar_type_def zero_type_def
      list_all_iff ptr_ok_def)

lemma copy_params_nth:
  assumes "length dst = FUNC_TYPE_MAX_PARAMS" "k < FUNC_TYPE_MAX_PARAMS" "i + length ps \<le> nat n"
  shows "copy_params i n ps dst ! k =
     (if i \<le> k \<and> k < i + length ps then Some (ps ! (k - i)) else dst ! k)"
  using assms
proof (induction i n ps dst rule: copy_params.induct)
  case (2 i n p ps dst)
  show ?case
  proof (cases "i < FUNC_TYPE_MAX_PARAMS")
    case True
    with "2.prems" have "int i < n" by simp
    with True 2 show ?thesis by (auto simp: nth_list_update nth_Cons' Suc_diff_Suc)
  qed (use 2 in simp)
qed auto

subsection \<open>What the constructors promise\<close>

lemma type_alloc_ok:
  "heap_ok h \<Longrightarrow> node_ok (h @ [t]) t \<Longrightarrow> type_alloc h t = (h', p) \<Longrightarrow>
   p = length h \<and> take (length h) h' = h \<and> length h' = Suc (length h) \<and> heap_ok h'"
  by (auto simp: type_alloc_def heap_ok_alloc)

text \<open>
  (C35) Every type constructor of \<^verbatim>\<open>type.c\<close> returns the address of a fresh node, leaves every
  node allocated before as it was (the qualified copies never change the original), and keeps
  the heap well-formed.
\<close>

theorem type_constructors_extend_heap:
  assumes "heap_ok h" and "p < length h" and "list_all (\<lambda>q. q < length h) ps" and "0 \<le> al"
    and "(h', q) \<in> {type_pointer h p, type_array h p n, type_function h p k ps,
                      type_const_copy h p, type_volatile_copy h p, type_struct h sz al, type_union h sz al}"
  shows "q = length h \<and> take (length h) h' = h \<and> length h' = Suc (length h) \<and> heap_ok h'"
proof -
  have node: "node_ok h (h ! p)" using assms(1,2) by (rule heap_ok_nth)
  have params: "list_all (ptr_ok (h @ [t])) (copy_params 0 k ps (ty_params zero_type))" for t
    by (rule copy_params_ptr_ok [OF zero_type_ok(1)]) (use assms(3) in \<open>auto simp: list_all_iff\<close>)
  consider "type_pointer h p = (h', q)" | "type_array h p n = (h', q)" | "type_function h p k ps = (h', q)"
    | "type_const_copy h p = (h', q)" | "type_volatile_copy h p = (h', q)" | "type_struct h sz al = (h', q)"
    | "type_union h sz al = (h', q)"
    using assms(5) by fastforce
  then obtain t where t: "type_alloc h t = (h', q)" and "node_ok (h @ [t]) t"
  proof cases
    case 1
    then show ?thesis using assms(2) that
      by (auto simp: type_pointer_def node_ok_def ptr_ok_def zero_type_ok)
  next
    case 2
    then show ?thesis using assms(2) node that
      by (auto simp: type_array_def node_ok_def ptr_ok_def zero_type_ok)
  next
    case 3
    then show ?thesis using assms(2) params that
      by (auto simp: type_function_def node_ok_def ptr_ok_def zero_type_ok)
  next
    case 4
    then show ?thesis using node_ok_mono [OF node] that
      by (auto simp: type_const_copy_def node_ok_def)
  next
    case 5
    then show ?thesis using node_ok_mono [OF node] that
      by (auto simp: type_volatile_copy_def node_ok_def)
  next
    case 6
    then show ?thesis using assms(4) that
      by (auto simp: type_struct_def node_ok_def ptr_ok_def zero_type_ok)
  next
    case 7
    then show ?thesis using assms(4) that
      by (auto simp: type_union_def node_ok_def ptr_ok_def zero_type_ok)
  qed
  then show ?thesis using type_alloc_ok [OF assms(1)] by blast
qed

theorem type_constructors_extend_heap_witness:
  "snd (type_array type_singletons type_int 3) = 14 \<and>
   heap_ok (fst (type_array type_singletons type_int 3)) \<and>
   ty_size (fst (type_array type_singletons type_int 3) ! 14) = 12"
proof -
  obtain h' q where r: "type_array type_singletons type_int 3 = (h', q)" by fastforce
  have "q = length type_singletons \<and> heap_ok h'"
    using type_constructors_extend_heap [of type_singletons type_int "[]" 0 h' q 3 0 0]
      heap_ok_singletons r by (simp add: type_int_def type_singletons_def)
  with r show ?thesis
    by (auto simp: type_array_def type_alloc_def type_int_def type_singletons_def scalar_type_def
        zero_type_def nth_append wrap32_def signed_take_bit_int_eq_self)
qed

end
