(* ===== verification/Ast.thy ===== *)
theory Ast
  imports CType
begin

section \<open>Syntax trees: \<^verbatim>\<open>src/ast.c\<close>, \<^verbatim>\<open>include/ast.h\<close>\<close>

text \<open>
  A node is its fields and the array of its children. A child slot may hold the null
  pointer (the missing clauses of a \<^verbatim>\<open>for\<close> statement), so the children are options.
  \<^verbatim>\<open>child_count\<close> is the length of the list, \<^verbatim>\<open>child_cap\<close> a field. The trees the parser
  builds share no nodes, so a tree is a value here; releasing one (\<^verbatim>\<open>ast_free\<close>) has no
  effect a value shows, and is not represented.
\<close>

datatype StorageClass = SC_NONE | SC_EXTERN | SC_STATIC | SC_TYPEDEF | SC_AUTO | SC_REGISTER

datatype ASTNodeType =
    AST_TRANSLATION_UNIT | AST_FUNCTION_DECL | AST_PARAM | AST_RETURN_STATEMENT
  | AST_INT_LITERAL | AST_FLOAT_LITERAL | AST_STRING_LITERAL | AST_CHAR_LITERAL
  | AST_BINARY_OP | AST_UNARY_OP | AST_IF_STATEMENT | AST_WHILE_STATEMENT
  | AST_DO_WHILE_STATEMENT | AST_FOR_STATEMENT | AST_SWITCH_STATEMENT | AST_DEFAULT_SECTION
  | AST_CASE_SECTION | AST_BREAK_STATEMENT | AST_CONTINUE_STATEMENT | AST_GOTO_STATEMENT
  | AST_LABEL_STATEMENT | AST_BLOCK | AST_EXPRESSION_STMT | AST_DECLARATION
  | AST_ASSIGNMENT | AST_VAR_REF | AST_PREFIX_INC_DEC | AST_POSTFIX_INC_DEC
  | AST_FUNCTION_CALL | AST_INDIRECT_CALL | AST_CAST | AST_ADDR_OF | AST_DEREF
  | AST_ARRAY_INDEX | AST_SIZEOF_TYPE | AST_SIZEOF_EXPR | AST_CONDITIONAL_EXPR
  | AST_COMMA_EXPR | AST_DECL_LIST | AST_TYPEDEF_DECL | AST_MEMBER_ACCESS
  | AST_ARROW_ACCESS | AST_INITIALIZER_LIST | AST_DESIGNATED_INIT | AST_COMPOUND_LITERAL
  | AST_BUILTIN_VA_START | AST_BUILTIN_VA_END | AST_BUILTIN_VA_COPY | AST_BUILTIN_VA_ARG

record ast_info =
  ntype :: ASTNodeType
  nvalue :: "string option"
  child_cap :: nat
  decl_type :: TypeKind
  result_type :: TypeKind
  full_type :: "type_ptr option"
  byte_length :: int
  storage_class :: StorageClass
  is_const :: bool
  is_unsigned :: bool
  is_variadic :: bool
  is_no_prototype :: bool
  src_file :: "string option"
  src_line :: int
  src_col :: int

datatype ASTNode = Node (info: ast_info) (children: "ASTNode option list")

abbreviation node_type :: "ASTNode \<Rightarrow> ASTNodeType" where
  "node_type n \<equiv> ntype (info n)"

abbreviation child_count :: "ASTNode \<Rightarrow> nat" where
  "child_count n \<equiv> length (children n)"

definition AST_MAX_CHILDREN :: nat where
  "AST_MAX_CHILDREN = 64"

definition zero_info :: ast_info where
  "zero_info = \<lparr>ntype = AST_TRANSLATION_UNIT, nvalue = None, child_cap = 0, decl_type = TYPE_VOID,
     result_type = TYPE_VOID, full_type = None, byte_length = 0, storage_class = SC_NONE,
     is_const = False, is_unsigned = False, is_variadic = False, is_no_prototype = False,
     src_file = None, src_line = 0, src_col = 0\<rparr>"

definition ast_new :: "ASTNodeType \<Rightarrow> string option \<Rightarrow> ASTNode" where
  "ast_new ty v = Node (zero_info\<lparr>ntype := ty, nvalue := v\<rparr>) []"

definition ast_add_child :: "ASTNode \<Rightarrow> ASTNode option \<Rightarrow> ASTNode" where
  "ast_add_child parent c =
     (let cap = child_cap (info parent);
          i = (if child_count parent \<ge> cap
               then (info parent)\<lparr>child_cap := (if cap \<noteq> 0 then cap * 2 else AST_MAX_CHILDREN)\<rparr>
               else info parent)
      in Node i (children parent @ [c]))"

text \<open>\<^verbatim>\<open>ast_clone\<close>: the fields it copies, then the children one by one.\<close>

definition clone_fields :: "ast_info \<Rightarrow> ASTNode" where
  "clone_fields i =
     (let c = ast_new (ntype i) (nvalue i)
      in Node ((info c)\<lparr>decl_type := decl_type i, result_type := result_type i, full_type := full_type i,
           byte_length := byte_length i, storage_class := storage_class i, is_const := is_const i,
           is_unsigned := is_unsigned i, is_variadic := is_variadic i, src_file := src_file i,
           src_line := src_line i, src_col := src_col i\<rparr>) (children c))"

fun ast_clone :: "ASTNode \<Rightarrow> ASTNode"
and clone_children :: "ASTNode \<Rightarrow> ASTNode option list \<Rightarrow> ASTNode" where
  "ast_clone (Node i cs) = clone_children (clone_fields i) cs"
| "clone_children copy [] = copy"
| "clone_children copy (None # cs) = clone_children (ast_add_child copy None) cs"
| "clone_children copy (Some c # cs) = clone_children (ast_add_child copy (Some (ast_clone c))) cs"

text \<open>The children array never holds more entries than its capacity.\<close>

fun caps_ok :: "ASTNode \<Rightarrow> bool" where
  "caps_ok (Node i cs) \<longleftrightarrow> length cs \<le> child_cap i \<and> (\<forall>c \<in> set cs. case c of None \<Rightarrow> True | Some n \<Rightarrow> caps_ok n)"

lemma info_add_child [simp]: "(info (ast_add_child n c))\<lparr>child_cap := k\<rparr> = (info n)\<lparr>child_cap := k\<rparr>"
  by (simp add: ast_add_child_def Let_def)

lemma children_add_child [simp]: "children (ast_add_child n c) = children n @ [c]"
  by (simp add: ast_add_child_def Let_def)

lemma caps_ok_add_child:
  "caps_ok n \<Longrightarrow> (case c of None \<Rightarrow> True | Some m \<Rightarrow> caps_ok m) \<Longrightarrow> caps_ok (ast_add_child n c)"
  by (cases n) (auto simp: ast_add_child_def Let_def AST_MAX_CHILDREN_def)

lemma caps_ok_clone_fields: "caps_ok (clone_fields i)"
  by (simp add: clone_fields_def ast_new_def Let_def)

lemma caps_ok_clone: "caps_ok (ast_clone n)"
  "caps_ok copy \<Longrightarrow> caps_ok (clone_children copy cs)"
  by (induction n and copy cs rule: ast_clone_clone_children.induct)
     (simp_all add: caps_ok_clone_fields caps_ok_add_child)

text \<open>
  A node up to what a clone need not keep: the capacity of the children array, and the
  prototype flag that only function declarations carry and \<^verbatim>\<open>ast_clone\<close> does not copy.
\<close>

fun tree_view :: "ASTNode \<Rightarrow> ASTNode" where
  "tree_view (Node i cs) = Node (i\<lparr>child_cap := 0, is_no_prototype := False\<rparr>) (map (map_option tree_view) cs)"

lemma tree_view_add_child:
  "tree_view (ast_add_child n c) =
     Node (info (tree_view n)) (children (tree_view n) @ [map_option tree_view c])"
  by (cases n) (simp add: ast_add_child_def Let_def)

lemma tree_view_clone_fields:
  "tree_view (clone_fields i) = Node (i\<lparr>child_cap := 0, is_no_prototype := False\<rparr>) []"
  by (simp add: clone_fields_def ast_new_def zero_info_def Let_def)

lemma tree_view_clone:
  "tree_view (ast_clone n) = tree_view n"
  "tree_view (clone_children copy cs) =
     Node (info (tree_view copy)) (children (tree_view copy) @ map (map_option tree_view) cs)"
  by (induction n and copy cs rule: ast_clone_clone_children.induct)
     (simp_all add: tree_view_add_child tree_view_clone_fields)

text \<open>
  Cloning a tree gives the same tree, child slots and null children included, up to the
  capacities of the arrays and the prototype flag, which the clone does not copy; and no
  array of the clone holds more children than its capacity.
\<close>

lemma ast_clone_same_tree:
  "tree_view (ast_clone n) = tree_view n \<and> caps_ok (ast_clone n)"
  using tree_view_clone(1) caps_ok_clone(1) by blast

text \<open>
  The prototype flag is lost: the clone of a declaration without a prototype claims to
  have one.
\<close>

lemma ast_clone_drops_no_prototype:
  "\<not> is_no_prototype (info (ast_clone (Node i cs)))"
proof -
  have "\<not> is_no_prototype (info copy) \<Longrightarrow> \<not> is_no_prototype (info (clone_children copy cs))" for copy cs
  proof (induction cs arbitrary: copy)
    case (Cons c cs)
    then show ?case by (cases c) (simp_all add: ast_add_child_def Let_def)
  qed simp
  then show ?thesis by (simp add: clone_fields_def ast_new_def zero_info_def Let_def)
qed

end
