(* ===== verification/Optimize.thy ===== *)
theory Optimize
  imports Ast "HOL-Library.Monad_Syntax"
begin

unbundle bit_operations_syntax

section \<open>The AST optimizer: \<^verbatim>\<open>src/optimize.c\<close>\<close>

text \<open>
  The pass rewrites expressions bottom up and statements top down. One definition per block
  of \<^verbatim>\<open>optimize_expr\<close>: each takes a node whose children are already optimized and either
  replaces it (\<open>Done\<close>), leaves it to the next block (\<open>Pass\<close>), or makes the compiler itself
  divide the least \<^verbatim>\<open>long\<close> by -1, which stops the process (\<open>Trap\<close>). A run that traps
  gives \<^term>\<open>None\<close>. The constant-propagation table is the list of its \<^verbatim>\<open>g_const_count\<close>
  live entries, oldest first, passed from statement to statement.

  A node of the wrong shape for its type (a binary operator without two operands, an
  operator without a spelling) makes the C code read through a null pointer or past an
  array; the parser builds none, and the model leaves such a node as it is.
\<close>

record ConstEntry =
  ce_name :: string
  ce_value :: int
  ce_decl_type :: TypeKind
  ce_is_unsigned :: bool

type_synonym const_table = "ConstEntry list"

definition CONST_PROP_MAX :: nat where
  "CONST_PROP_MAX = 64"

fun is_scalar_int_type :: "TypeKind \<Rightarrow> bool" where
  "is_scalar_int_type TYPE_BOOL = True"
| "is_scalar_int_type TYPE_CHAR = True"
| "is_scalar_int_type TYPE_SHORT = True"
| "is_scalar_int_type TYPE_INT = True"
| "is_scalar_int_type TYPE_LONG = True"
| "is_scalar_int_type TYPE_LONG_LONG = True"
| "is_scalar_int_type TYPE_UNSIGNED_LONG_LONG = True"
| "is_scalar_int_type _ = False"

text \<open>The scan from the newest entry to the oldest.\<close>

definition const_prop_lookup :: "const_table \<Rightarrow> string \<Rightarrow> ConstEntry option" where
  "const_prop_lookup tab name = find (\<lambda>e. ce_name e = name) (rev tab)"

fun cast_value_safe :: "int \<Rightarrow> TypeKind \<Rightarrow> bool \<Rightarrow> bool" where
  "cast_value_safe v TYPE_BOOL u = (v = 0 \<or> v = 1)"
| "cast_value_safe v TYPE_CHAR u = (if u then 0 \<le> v \<and> v \<le> 255 else -128 \<le> v \<and> v \<le> 127)"
| "cast_value_safe v TYPE_SHORT u = (if u then 0 \<le> v \<and> v \<le> 65535 else -32768 \<le> v \<and> v \<le> 32767)"
| "cast_value_safe v TYPE_INT u =
     (if u then 0 \<le> v \<and> v \<le> 4294967295 else -2147483648 \<le> v \<and> v \<le> 2147483647)"
| "cast_value_safe v TYPE_LONG u = (if u then 0 \<le> v else True)"
| "cast_value_safe v TYPE_LONG_LONG u = (if u then 0 \<le> v else True)"
| "cast_value_safe v TYPE_UNSIGNED_LONG_LONG u = (0 \<le> v)"
| "cast_value_safe v _ u = False"

fun sizeof_scalar_size :: "TypeKind \<Rightarrow> int" where
  "sizeof_scalar_size TYPE_BOOL = 1"
| "sizeof_scalar_size TYPE_CHAR = 1"
| "sizeof_scalar_size TYPE_SHORT = 2"
| "sizeof_scalar_size TYPE_LONG = 8"
| "sizeof_scalar_size TYPE_LONG_LONG = 8"
| "sizeof_scalar_size TYPE_UNSIGNED_LONG_LONG = 8"
| "sizeof_scalar_size TYPE_POINTER = 8"
| "sizeof_scalar_size TYPE_DOUBLE = 8"
| "sizeof_scalar_size _ = 4"

text \<open>A fresh integer literal; the text is what \<^verbatim>\<open>%ld\<close> prints.\<close>

definition mk_int_lit :: "int \<Rightarrow> TypeKind \<Rightarrow> bool \<Rightarrow> ASTNode" where
  "mk_int_lit v k u =
     Node ((info (ast_new AST_INT_LITERAL (Some (show_int v))))\<lparr>decl_type := k, is_unsigned := u\<rparr>) []"

definition make_sizeof_literal :: "int \<Rightarrow> ASTNode" where
  "make_sizeof_literal sz = mk_int_lit sz TYPE_LONG True"

definition text_of :: "ast_info \<Rightarrow> string" where
  "text_of i = (case nvalue i of Some s \<Rightarrow> s | None \<Rightarrow> [])"

definition sval :: "ASTNode \<Rightarrow> string" where
  "sval n = text_of (info n)"

definition int_lit :: "ASTNode \<Rightarrow> bool" where
  "int_lit n \<longleftrightarrow> node_type n = AST_INT_LITERAL"

definition lit_val :: "ASTNode \<Rightarrow> int" where
  "lit_val n = strtol0 (sval n)"

definition with_value :: "ASTNode \<Rightarrow> string \<Rightarrow> ASTNode option list \<Rightarrow> ASTNode" where
  "with_value n s cs = Node ((info n)\<lparr>nvalue := Some s\<rparr>) cs"

datatype rewrite = Done ASTNode | Pass | Trap

text \<open>The operands of a binary node and of a unary node.\<close>

definition binary_kids :: "ASTNode \<Rightarrow> (ASTNode \<times> ASTNode) option" where
  "binary_kids n =
     (if node_type n = AST_BINARY_OP then
        (case children n of [Some l, Some r] \<Rightarrow> Some (l, r) | _ \<Rightarrow> None)
      else None)"

definition unary_kid :: "ASTNode \<Rightarrow> ASTNode option" where
  "unary_kid n =
     (if node_type n = AST_UNARY_OP then (case children n of [Some x] \<Rightarrow> Some x | _ \<Rightarrow> None) else None)"

subsection \<open>Folding constants\<close>

text \<open>
  What the compiler computes for \<open>l op r\<close> in its own 64-bit arithmetic: the value and
  whether it is a truth value. A shift count is taken modulo 64, as the target's shift
  instructions do.
\<close>

datatype fold_val = FoldTo int bool | NoFold | FoldTrap

definition truth :: "bool \<Rightarrow> fold_val" where
  "truth b = FoldTo (if b then 1 else 0) True"

text \<open>The division instruction, which traps on 0 and where the quotient overflows.\<close>

definition divided :: "(int \<Rightarrow> int \<Rightarrow> int) \<Rightarrow> int \<Rightarrow> int \<Rightarrow> fold_val" where
  "divided f l r = (if r = 0 \<or> l = LONG_MIN \<and> r = -1 then FoldTrap else FoldTo (f l r) False)"

lemma divided_FoldTo [simp]:
  "divided f l r = FoldTo v b \<longleftrightarrow> r \<noteq> 0 \<and> \<not> (l = LONG_MIN \<and> r = -1) \<and> v = f l r \<and> \<not> b"
  by (auto simp: divided_def)

lemma divided_FoldTrap [simp]: "divided f l r = FoldTrap \<longleftrightarrow> r = 0 \<or> l = LONG_MIN \<and> r = -1"
  by (simp add: divided_def)

definition fold_binop :: "string \<Rightarrow> int \<Rightarrow> int \<Rightarrow> fold_val" where
  "fold_binop op l r =
     (if op = ''+'' then FoldTo (wrap64 (l + r)) False
      else if op = ''-'' then FoldTo (wrap64 (l - r)) False
      else if op = ''*'' then FoldTo (wrap64 (l * r)) False
      else if op = ''/'' then (if r = 0 then NoFold else divided (\<lambda>l r. l sdiv r) l r)
      else if op = ''%'' then (if r = 0 then NoFold else divided (\<lambda>l r. l smod r) l r)
      else if op = ''&'' then FoldTo (l AND r) False
      else if op = ''|'' then FoldTo (l OR r) False
      else if op = ''^'' then FoldTo (l XOR r) False
      else if op = ''<<'' then FoldTo (shl64 l r) False
      else if op = ''>>'' then FoldTo (sar64 l r) False
      else if op = ''<'' then truth (l < r)
      else if op = ''<='' then truth (l \<le> r)
      else if op = ''>'' then truth (l > r)
      else if op = ''>='' then truth (l \<ge> r)
      else if op = ''=='' then truth (l = r)
      else if op = ''!='' then truth (l \<noteq> r)
      else NoFold)"

definition rw_fold_binary :: "ASTNode \<Rightarrow> rewrite" where
  "rw_fold_binary n =
     (case binary_kids n of
        None \<Rightarrow> Pass
      | Some (l, r) \<Rightarrow>
          if int_lit l \<and> int_lit r then
            (case fold_binop (sval n) (lit_val l) (lit_val r) of
               NoFold \<Rightarrow> Pass
             | FoldTrap \<Rightarrow> Trap
             | FoldTo v b \<Rightarrow>
                 Done (mk_int_lit v (if b then TYPE_INT else decl_type (info l))
                                    (if b then False else is_unsigned (info l))))
          else Pass)"

definition rw_short_circuit :: "ASTNode \<Rightarrow> rewrite" where
  "rw_short_circuit n =
     (case binary_kids n of
        None \<Rightarrow> Pass
      | Some (l, r) \<Rightarrow>
          let rbool = mk_int_lit (if lit_val r \<noteq> 0 then 1 else 0) TYPE_INT False in
          if sval n = ''&&'' \<and> int_lit l then
            (if lit_val l = 0 then Done (mk_int_lit 0 TYPE_INT False)
             else if int_lit r then Done rbool else Pass)
          else if sval n = ''||'' \<and> int_lit l then
            (if lit_val l \<noteq> 0 then Done (mk_int_lit 1 TYPE_INT False)
             else if int_lit r then Done rbool else Pass)
          else Pass)"

definition fold_unop :: "string \<Rightarrow> int \<Rightarrow> fold_val" where
  "fold_unop op v =
     (if op = ''-'' then FoldTo (wrap64 (- v)) False
      else if op = ''+'' then FoldTo v False
      else if op = ''!'' then truth (v = 0)
      else if op = ''~'' then FoldTo (NOT v) False
      else NoFold)"

definition rw_fold_unary :: "ASTNode \<Rightarrow> rewrite" where
  "rw_fold_unary n =
     (case unary_kid n of
        None \<Rightarrow> Pass
      | Some x \<Rightarrow>
          if int_lit x then
            (case fold_unop (sval n) (lit_val x) of
               NoFold \<Rightarrow> Pass
             | FoldTrap \<Rightarrow> Trap
             | FoldTo v b \<Rightarrow>
                 Done (mk_int_lit v (if b then TYPE_INT else decl_type (info x))
                                    (if b then False else is_unsigned (info x))))
          else Pass)"

subsection \<open>Double negations\<close>

text \<open>The operand below two equal unary operators, unless it is a literal.\<close>

definition doubled :: "string \<Rightarrow> ASTNode \<Rightarrow> ASTNode option" where
  "doubled op n =
     (case unary_kid n of
        None \<Rightarrow> None
      | Some inner \<Rightarrow>
          if sval n = op \<and> sval inner = op then
            (case unary_kid inner of None \<Rightarrow> None | Some x \<Rightarrow> if int_lit x then None else Some x)
          else None)"

definition rw_double_not :: "ASTNode \<Rightarrow> rewrite" where
  "rw_double_not n =
     (case doubled ''!'' n of
        None \<Rightarrow> Pass
      | Some x \<Rightarrow>
          (let neq = ast_new AST_BINARY_OP (Some ''!='');
               neq = Node ((info neq)\<lparr>decl_type := TYPE_INT\<rparr>) (children neq)
           in Done (ast_add_child (ast_add_child neq (Some x)) (Some (mk_int_lit 0 TYPE_INT False)))))"

definition rw_double_neg :: "ASTNode \<Rightarrow> rewrite" where
  "rw_double_neg n = (case doubled ''-'' n of None \<Rightarrow> Pass | Some x \<Rightarrow> Done x)"

subsection \<open>Algebraic identities\<close>

definition is_lit_of :: "int \<Rightarrow> ASTNode \<Rightarrow> bool" where
  "is_lit_of v n \<longleftrightarrow> int_lit n \<and> lit_val n = v"

definition zero_like :: "ASTNode \<Rightarrow> ASTNode" where
  "zero_like n = mk_int_lit 0 (decl_type (info n)) (is_unsigned (info n))"

definition same_var :: "ASTNode \<Rightarrow> ASTNode \<Rightarrow> bool" where
  "same_var l r \<longleftrightarrow> node_type l = AST_VAR_REF \<and> node_type r = AST_VAR_REF \<and> sval l = sval r"

definition identity_operand :: "string \<Rightarrow> ASTNode \<Rightarrow> ASTNode \<Rightarrow> ASTNode option" where
  "identity_operand op l r =
     (if op = ''+'' \<and> is_lit_of 0 r then Some l
      else if op = ''+'' \<and> is_lit_of 0 l then Some r
      else if op = ''-'' \<and> is_lit_of 0 r then Some l
      else if op = ''*'' \<and> is_lit_of 1 r then Some l
      else if op = ''*'' \<and> is_lit_of 1 l then Some r
      else if op = ''/'' \<and> is_lit_of 1 r then Some l
      else if op = ''|'' \<and> is_lit_of 0 r then Some l
      else if op = ''|'' \<and> is_lit_of 0 l then Some r
      else if op = ''&'' \<and> is_lit_of (-1) r then Some l
      else if op = ''&'' \<and> is_lit_of (-1) l then Some r
      else None)"

definition zero_operand :: "string \<Rightarrow> ASTNode \<Rightarrow> ASTNode \<Rightarrow> ASTNode option" where
  "zero_operand op l r =
     (if op = ''*'' \<and> is_lit_of 0 r then Some (zero_like l)
      else if op = ''*'' \<and> is_lit_of 0 l then Some (zero_like r)
      else if op = ''/'' \<and> is_lit_of 0 l then Some (zero_like r)
      else if op = ''&'' \<and> is_lit_of 0 r then Some (zero_like l)
      else if op = ''&'' \<and> is_lit_of 0 l then Some (zero_like r)
      else if op = ''-'' \<and> same_var l r then Some (zero_like l)
      else if op = ''^'' \<and> same_var l r then Some (zero_like l)
      else None)"

definition rw_algebraic :: "ASTNode \<Rightarrow> rewrite" where
  "rw_algebraic n =
     (case binary_kids n of
        None \<Rightarrow> Pass
      | Some (l, r) \<Rightarrow>
          (case identity_operand (sval n) l r of
             Some x \<Rightarrow> Done x
           | None \<Rightarrow> (case zero_operand (sval n) l r of Some z \<Rightarrow> Done z | None \<Rightarrow> Pass)))"

subsection \<open>Strength reduction\<close>

definition is_pow2 :: "ASTNode \<Rightarrow> bool" where
  "is_pow2 n \<longleftrightarrow> int_lit n \<and> lit_val n > 1 \<and> lit_val n AND (lit_val n - 1) = 0"

function shift_count :: "int \<Rightarrow> nat" where
  "shift_count tmp = (if tmp > 1 then Suc (shift_count (drop_bit 1 tmp)) else 0)"
  by pat_completeness auto
termination
  by (relation "measure nat") (auto simp: drop_bit_eq_div)

declare shift_count.simps [simp del]

definition shift_lit :: "ASTNode \<Rightarrow> ASTNode" where
  "shift_lit n = mk_int_lit (int (shift_count (lit_val n))) TYPE_INT False"

definition rw_strength :: "ASTNode \<Rightarrow> rewrite" where
  "rw_strength n =
     (case binary_kids n of
        None \<Rightarrow> Pass
      | Some (l, r) \<Rightarrow>
          if sval n = ''*'' \<and> is_pow2 r then Done (with_value n ''<<'' [Some l, Some (shift_lit r)])
          else if sval n = ''*'' \<and> is_pow2 l then Done (with_value n ''<<'' [Some r, Some (shift_lit l)])
          else if sval n = ''/'' \<and> is_pow2 r \<and> (is_unsigned (info l) \<or> (int_lit l \<and> lit_val l \<ge> 0))
            then Done (with_value n ''>>'' [Some l, Some (shift_lit r)])
          else Pass)"

subsection \<open>Logical operators with a constant on the right\<close>

definition rw_boolean :: "ASTNode \<Rightarrow> rewrite" where
  "rw_boolean n =
     (case binary_kids n of
        None \<Rightarrow> Pass
      | Some (l, r) \<Rightarrow>
          let neq = (\<lambda>cs. Node ((info n)\<lparr>nvalue := Some ''!='', decl_type := TYPE_INT\<rparr>) cs) in
          if \<not> int_lit r then Pass
          else if sval n = ''&&'' \<and> lit_val r = 0 then Done (mk_int_lit 0 TYPE_INT False)
          else if sval n = ''||'' \<and> lit_val r \<noteq> 0 then Done (mk_int_lit 1 TYPE_INT False)
          else if sval n = ''&&'' \<and> lit_val r \<noteq> 0 then Done (neq [Some l, Some (mk_int_lit 0 TYPE_INT False)])
          else if sval n = ''||'' \<and> lit_val r = 0 then Done (neq [Some l, Some r])
          else Pass)"

subsection \<open>Conditional expressions, sizeof, casts, constant propagation\<close>

definition rw_conditional :: "ASTNode \<Rightarrow> rewrite" where
  "rw_conditional n =
     (if node_type n = AST_CONDITIONAL_EXPR then
        (case children n of
           [Some c, Some t, Some e] \<Rightarrow>
             if int_lit c then Done (if lit_val c \<noteq> 0 then t else e) else Pass
         | _ \<Rightarrow> Pass)
      else Pass)"

definition rw_sizeof_type :: "type_heap \<Rightarrow> ASTNode \<Rightarrow> rewrite" where
  "rw_sizeof_type H n =
     (if node_type n = AST_SIZEOF_TYPE then
        Done (make_sizeof_literal
          (case full_type (info n) of
             Some p \<Rightarrow> if decl_type (info n) \<in> {TYPE_STRUCT, TYPE_UNION, TYPE_ARRAY}
                       then ty_size (H ! p) else sizeof_scalar_size (decl_type (info n))
           | None \<Rightarrow> sizeof_scalar_size (decl_type (info n))))
      else Pass)"

definition rw_sizeof_expr :: "ASTNode \<Rightarrow> rewrite" where
  "rw_sizeof_expr n =
     (if node_type n = AST_SIZEOF_EXPR then
        (case children n of
           [Some c] \<Rightarrow>
             if node_type c = AST_STRING_LITERAL then Done (make_sizeof_literal (byte_length (info c) + 1))
             else if int_lit c then Done (make_sizeof_literal (sizeof_scalar_size (decl_type (info c))))
             else if node_type c = AST_CHAR_LITERAL then Done (make_sizeof_literal 4)
             else Pass
         | _ \<Rightarrow> Pass)
      else Pass)"

definition rw_cast :: "ASTNode \<Rightarrow> rewrite" where
  "rw_cast n =
     (if node_type n = AST_CAST then
        (case children n of
           [Some c] \<Rightarrow>
             if int_lit c \<and> is_scalar_int_type (decl_type (info n)) \<and>
                cast_value_safe (lit_val c) (decl_type (info n)) (is_unsigned (info n))
             then Done (mk_int_lit (lit_val c) (decl_type (info n)) (is_unsigned (info n)))
             else Pass
         | _ \<Rightarrow> Pass)
      else Pass)"

definition rw_const_prop :: "const_table \<Rightarrow> ASTNode \<Rightarrow> rewrite" where
  "rw_const_prop tab n =
     (if node_type n = AST_VAR_REF \<and> nvalue (info n) \<noteq> None then
        (case const_prop_lookup tab (sval n) of
           None \<Rightarrow> Pass
         | Some e \<Rightarrow> Done (mk_int_lit (ce_value e) (ce_decl_type e) (ce_is_unsigned e)))
      else Pass)"

subsection \<open>The walk over an expression\<close>

definition rewrite_rules :: "const_table \<Rightarrow> type_heap \<Rightarrow> (ASTNode \<Rightarrow> rewrite) list" where
  "rewrite_rules tab H =
     [rw_fold_binary, rw_short_circuit, rw_fold_unary, rw_double_not, rw_double_neg, rw_algebraic,
      rw_strength, rw_boolean, rw_conditional, rw_sizeof_type H, rw_sizeof_expr, rw_cast,
      rw_const_prop tab]"

fun first_rewrite :: "(ASTNode \<Rightarrow> rewrite) list \<Rightarrow> ASTNode \<Rightarrow> ASTNode option" where
  "first_rewrite [] n = Some n"
| "first_rewrite (rw # rws) n =
     (case rw n of Done m \<Rightarrow> Some m | Trap \<Rightarrow> None | Pass \<Rightarrow> first_rewrite rws n)"

fun optimize_expr :: "const_table \<Rightarrow> type_heap \<Rightarrow> ASTNode \<Rightarrow> ASTNode option"
and optimize_kids :: "const_table \<Rightarrow> type_heap \<Rightarrow> ASTNode option list \<Rightarrow> ASTNode option list option" where
  "optimize_expr tab H (Node i cs) =
     do { cs' \<leftarrow> optimize_kids tab H cs; first_rewrite (rewrite_rules tab H) (Node i cs') }"
| "optimize_kids tab H [] = Some []"
| "optimize_kids tab H (None # cs) = do { cs' \<leftarrow> optimize_kids tab H cs; Some (None # cs') }"
| "optimize_kids tab H (Some c # cs) =
     do { c' \<leftarrow> optimize_expr tab H c; cs' \<leftarrow> optimize_kids tab H cs; Some (Some c' # cs') }"

subsection \<open>Statements\<close>

definition is_terminal_stmt :: "ASTNode \<Rightarrow> bool" where
  "is_terminal_stmt n \<longleftrightarrow>
     node_type n = AST_RETURN_STATEMENT \<or> node_type n = AST_BREAK_STATEMENT \<or>
     node_type n = AST_CONTINUE_STATEMENT \<or> node_type n = AST_GOTO_STATEMENT"

definition is_label_stmt :: "ASTNode \<Rightarrow> bool" where
  "is_label_stmt n \<longleftrightarrow>
     node_type n = AST_LABEL_STATEMENT \<or> node_type n = AST_CASE_SECTION \<or> node_type n = AST_DEFAULT_SECTION"

text \<open>The dead siblings behind a transfer of control: up to the first label or section.\<close>

fun drop_dead :: "ASTNode option list \<Rightarrow> ASTNode option list" where
  "drop_dead [] = []"
| "drop_dead (None # cs) = None # cs"
| "drop_dead (Some c # cs) = (if is_label_stmt c then Some c # cs else drop_dead cs)"

lemma size_drop_dead: "size_list (size_option size) (drop_dead cs) \<le> size_list (size_option size) cs"
  by (induction cs rule: drop_dead.induct) auto

definition optimize_child :: "const_table \<Rightarrow> type_heap \<Rightarrow> ASTNode option \<Rightarrow> ASTNode option option" where
  "optimize_child tab H c =
     (case c of None \<Rightarrow> Some None | Some n \<Rightarrow> do { n' \<leftarrow> optimize_expr tab H n; Some (Some n') })"

definition optimize_first :: "const_table \<Rightarrow> type_heap \<Rightarrow> ASTNode option list \<Rightarrow> ASTNode option list option" where
  "optimize_first tab H cs =
     (case cs of [] \<Rightarrow> Some [] | c # rest \<Rightarrow> do { c' \<leftarrow> optimize_child tab H c; Some (c' # rest) })"

definition empty_block :: ASTNode where
  "empty_block = ast_new AST_BLOCK None"

text \<open>The branch a folded condition keeps.\<close>

definition fold_if :: "ASTNode \<Rightarrow> ASTNode" where
  "fold_if n =
     (case children n of
        Some c # Some t # rest \<Rightarrow>
          if int_lit c then
            (if lit_val c \<noteq> 0 then t
             else (case rest of Some e # _ \<Rightarrow> e | _ \<Rightarrow> empty_block))
          else n
      | _ \<Rightarrow> n)"

definition fold_while :: "ASTNode \<Rightarrow> ASTNode" where
  "fold_while n =
     (case children n of
        Some c # _ \<Rightarrow> if int_lit c \<and> lit_val c = 0 then empty_block else n
      | _ \<Rightarrow> n)"

definition fold_for :: "ASTNode \<Rightarrow> ASTNode" where
  "fold_for n =
     (case children n of
        ini # Some c # _ \<Rightarrow>
          if int_lit c \<and> lit_val c = 0 then
            (case ini of
               None \<Rightarrow> empty_block
             | Some i \<Rightarrow>
                 if node_type i = AST_DECLARATION \<or> node_type i = AST_DECL_LIST then i
                 else ast_add_child (ast_new AST_EXPRESSION_STMT None) (Some i))
          else n
      | _ \<Rightarrow> n)"

text \<open>Recording a constant of the enclosing block, after its initializer was optimized.\<close>

definition record_const :: "const_table \<Rightarrow> ASTNode \<Rightarrow> const_table" where
  "record_const tab n =
     (case children n of
        Some c # _ \<Rightarrow>
          if is_const (info n) \<and> is_scalar_int_type (decl_type (info n)) \<and> int_lit c \<and>
             length tab < CONST_PROP_MAX
          then tab @ [\<lparr>ce_name = sval n, ce_value = lit_val c, ce_decl_type = decl_type (info n),
                       ce_is_unsigned = is_unsigned (info n)\<rparr>]
          else tab
      | _ \<Rightarrow> tab)"

function (sequential) optimize_stmt ::
    "type_heap \<Rightarrow> const_table \<Rightarrow> ASTNode \<Rightarrow> (ASTNode \<times> const_table) option"
and optimize_stmts ::
    "type_heap \<Rightarrow> const_table \<Rightarrow> ASTNode option list \<Rightarrow> (ASTNode option list \<times> const_table) option"
and optimize_block ::
    "type_heap \<Rightarrow> const_table \<Rightarrow> ASTNode option list \<Rightarrow> (ASTNode option list \<times> const_table) option"
where
  "optimize_stmt H tab (Node i cs) =
     (if ntype i = AST_BLOCK then
        do { (cs', tab') \<leftarrow> optimize_block H tab cs; Some (Node i cs', take (length tab) tab') }
      else if ntype i = AST_IF_STATEMENT then
        (case cs of
           c # body \<Rightarrow>
             do { c' \<leftarrow> optimize_child tab H c;
                  (body', tab') \<leftarrow> optimize_stmts H tab body;
                  Some (fold_if (Node i (c' # body')), tab') }
         | [] \<Rightarrow> Some (Node i cs, tab))
      else if ntype i = AST_WHILE_STATEMENT then
        (case cs of
           c # body \<Rightarrow>
             do { c' \<leftarrow> optimize_child tab H c;
                  (body', tab') \<leftarrow> optimize_stmts H tab body;
                  Some (fold_while (Node i (c' # body')), tab') }
         | [] \<Rightarrow> Some (Node i cs, tab))
      else if ntype i = AST_DO_WHILE_STATEMENT then
        (case cs of
           [body, c] \<Rightarrow>
             do { (body', tab') \<leftarrow> optimize_stmts H tab [body];
                  c' \<leftarrow> optimize_child tab' H c;
                  Some (Node i (body' @ [c']), tab') }
         | _ \<Rightarrow> Some (Node i cs, tab))
      else if ntype i = AST_FOR_STATEMENT then
        (case cs of
           [ini, c, upd, body] \<Rightarrow>
             do { (ini', tab1) \<leftarrow> optimize_stmts H tab [ini];
                  c' \<leftarrow> optimize_child tab1 H c;
                  upd' \<leftarrow> optimize_child tab1 H upd;
                  (body', tab2) \<leftarrow> optimize_stmts H tab1 [body];
                  Some (fold_for (Node i (ini' @ c' # upd' # body')), tab2) }
         | _ \<Rightarrow> Some (Node i cs, tab))
      else if ntype i = AST_SWITCH_STATEMENT then
        (case cs of
           c # body \<Rightarrow>
             do { c' \<leftarrow> optimize_child tab H c;
                  (body', tab') \<leftarrow> optimize_stmts H tab body;
                  Some (Node i (c' # body'), tab') }
         | [] \<Rightarrow> Some (Node i cs, tab))
      else if ntype i = AST_RETURN_STATEMENT \<or> ntype i = AST_EXPRESSION_STMT then
        do { cs' \<leftarrow> optimize_first tab H cs; Some (Node i cs', tab) }
      else if ntype i = AST_DECLARATION then
        do { cs' \<leftarrow> optimize_first tab H cs; Some (Node i cs', record_const tab (Node i cs')) }
      else if ntype i = AST_LABEL_STATEMENT \<or> ntype i = AST_CASE_SECTION \<or> ntype i = AST_DEFAULT_SECTION then
        do { (cs', tab') \<leftarrow> optimize_stmts H tab cs; Some (Node i cs', tab') }
      else if ntype i = AST_BREAK_STATEMENT \<or> ntype i = AST_CONTINUE_STATEMENT \<or> ntype i = AST_GOTO_STATEMENT then
        Some (Node i cs, tab)
      else
        do { cs' \<leftarrow> optimize_kids tab H cs; Some (Node i cs', tab) })"
| "optimize_stmts H tab [] = Some ([], tab)"
| "optimize_stmts H tab (None # cs) =
     do { (cs', tab') \<leftarrow> optimize_stmts H tab cs; Some (None # cs', tab') }"
| "optimize_stmts H tab (Some c # cs) =
     do { (c', tab1) \<leftarrow> optimize_stmt H tab c;
          (cs', tab2) \<leftarrow> optimize_stmts H tab1 cs;
          Some (Some c' # cs', tab2) }"
| "optimize_block H tab [] = Some ([], tab)"
| "optimize_block H tab (None # cs) =
     do { (cs', tab') \<leftarrow> optimize_block H tab cs; Some (None # cs', tab') }"
| "optimize_block H tab (Some c # cs) =
     do { (c', tab1) \<leftarrow> optimize_stmt H tab c;
          (cs', tab2) \<leftarrow> optimize_block H tab1 (if is_terminal_stmt c' then drop_dead cs else cs);
          Some (Some c' # cs', tab2) }"
  by pat_completeness auto

termination
proof (relation "measure (\<lambda>x. case x of
      Inl (H, tab, n) \<Rightarrow> size n
    | Inr (Inl (H, tab, cs)) \<Rightarrow> size_list (size_option size) cs
    | Inr (Inr (H, tab, cs)) \<Rightarrow> size_list (size_option size) cs)", goal_cases)
qed (auto intro: le_less_trans [OF size_drop_dead] simp: size_drop_dead le_imp_less_Suc)

definition optimize_function :: "type_heap \<Rightarrow> ASTNode \<Rightarrow> ASTNode option" where
  "optimize_function H d =
     (if node_type d = AST_FUNCTION_DECL \<and> children d \<noteq> [] then
        (case last (children d) of
           Some b \<Rightarrow>
             if node_type b = AST_BLOCK then
               do { (b', tab) \<leftarrow> optimize_stmt H [] b;
                    Some (Node (info d) (butlast (children d) @ [Some b'])) }
             else Some d
         | None \<Rightarrow> Some d)
      else Some d)"

fun optimize_decls :: "type_heap \<Rightarrow> ASTNode option list \<Rightarrow> ASTNode option list option" where
  "optimize_decls H [] = Some []"
| "optimize_decls H (None # ds) = do { ds' \<leftarrow> optimize_decls H ds; Some (None # ds') }"
| "optimize_decls H (Some d # ds) =
     do { d' \<leftarrow> optimize_function H d; ds' \<leftarrow> optimize_decls H ds; Some (Some d' # ds') }"

definition optimize_translation_unit :: "type_heap \<Rightarrow> ASTNode \<Rightarrow> nat \<Rightarrow> ASTNode option" where
  "optimize_translation_unit H root opt_level =
     (if opt_level = 0 then Some root
      else do { ds \<leftarrow> optimize_decls H (children root); Some (Node (info root) ds) })"

end
