(* ===== verification/Optimize_Sem.thy ===== *)
theory Optimize_Sem
  imports Optimize
begin

unbundle bit_operations_syntax

section \<open>The optimizer preserves the value of an expression\<close>

text \<open>
  \<open>typed_value\<close> is what a signed, side-effect free integer expression means in C: its type after
  the integer promotions, \<^verbatim>\<open>int\<close> or \<^verbatim>\<open>long\<close>, and its value; \<^term>\<open>None\<close> where C leaves the behaviour
  undefined (overflow of that type, division by zero, a shift count out of range) and for
  everything outside the fragment (unsigned operands, calls, assignments, floating point,
  \<^verbatim>\<open>sizeof\<close>, which is unsigned). The environment gives the type and value of each variable in
  scope. A literal has type \<^verbatim>\<open>long\<close> exactly when its annotation says so: this is how the code
  generator reads the literals the optimizer makes (codegen.c:2522). A left shift is defined for
  a negative operand too, as the code the compiler emits for it is.

  The rewrites keep the values, not the types: \<^verbatim>\<open>x * 4L\<close> becomes \<^verbatim>\<open>x << 2\<close>, of type \<^verbatim>\<open>int\<close> when \<^verbatim>\<open>x\<close> is.
  So the theorem is about expressions whose operands are all at most as wide as \<^verbatim>\<open>int\<close>,
  where every operator computes in \<^verbatim>\<open>int\<close>. On these \<open>eval32\<close> is the same meaning without the
  types, and the rewrites are proved to preserve it one by one.
\<close>

definition long_lit :: "TypeKind \<Rightarrow> bool" where
  "long_lit k \<longleftrightarrow> k = TYPE_LONG \<or> k = TYPE_LONG_LONG \<or> k = TYPE_UNSIGNED_LONG_LONG"

definition in_int :: "int \<Rightarrow> bool" where
  "in_int v \<longleftrightarrow> - (2 ^ 31) \<le> v \<and> v < 2 ^ 31"

definition kind_bits :: "TypeKind \<Rightarrow> nat" where
  "kind_bits k = (if long_lit k then 64 else 32)"

definition fits :: "TypeKind \<Rightarrow> int \<Rightarrow> int option" where
  "fits k v = (if - (2 ^ (kind_bits k - 1)) \<le> v \<and> v < 2 ^ (kind_bits k - 1) then Some v else None)"

definition of_truth :: "bool \<Rightarrow> int option" where
  "of_truth b = Some (if b then 1 else 0)"

text \<open>Operators at a width: the second operand of a shift counts against the width of the first.\<close>

definition binop_at :: "TypeKind \<Rightarrow> string \<Rightarrow> int \<Rightarrow> int \<Rightarrow> int option" where
  "binop_at k op a b =
     (if op = ''+'' then fits k (a + b)
      else if op = ''-'' then fits k (a - b)
      else if op = ''*'' then fits k (a * b)
      else if op = ''/'' then (if b = 0 then None else fits k (a sdiv b))
      else if op = ''%'' then (if b = 0 \<or> fits k (a sdiv b) = None then None else fits k (a smod b))
      else if op = ''&'' then fits k (a AND b)
      else if op = ''|'' then fits k (a OR b)
      else if op = ''^'' then fits k (a XOR b)
      else if op = ''<<'' then (if 0 \<le> b \<and> b < int (kind_bits k) then fits k (a * 2 ^ nat b) else None)
      else if op = ''>>'' then (if 0 \<le> b \<and> b < int (kind_bits k) then fits k (a div 2 ^ nat b) else None)
      else if op = ''<'' then of_truth (a < b)
      else if op = ''<='' then of_truth (a \<le> b)
      else if op = ''>'' then of_truth (a > b)
      else if op = ''>='' then of_truth (a \<ge> b)
      else if op = ''=='' then of_truth (a = b)
      else if op = ''!='' then of_truth (a \<noteq> b)
      else None)"

definition unop_at :: "TypeKind \<Rightarrow> string \<Rightarrow> int \<Rightarrow> int option" where
  "unop_at k op a =
     (if op = ''-'' then fits k (- a)
      else if op = ''+'' then fits k a
      else if op = ''!'' then of_truth (a = 0)
      else if op = ''~'' then fits k (NOT a)
      else None)"

text \<open>Conversion of a value to a signed integer type; to \<^verbatim>\<open>_Bool\<close> it is a test.\<close>

fun convert_signed :: "TypeKind \<Rightarrow> int \<Rightarrow> int option" where
  "convert_signed TYPE_BOOL v = Some (if v = 0 then 0 else 1)"
| "convert_signed TYPE_CHAR v = Some (signed_take_bit 7 v)"
| "convert_signed TYPE_SHORT v = Some (signed_take_bit 15 v)"
| "convert_signed TYPE_INT v = Some (signed_take_bit 31 v)"
| "convert_signed TYPE_LONG v = Some v"
| "convert_signed TYPE_LONG_LONG v = Some v"
| "convert_signed _ v = None"

subsection \<open>Types and values\<close>

definition promoted :: "TypeKind \<Rightarrow> TypeKind" where
  "promoted k = (if long_lit k then TYPE_LONG else TYPE_INT)"

definition common :: "TypeKind \<Rightarrow> TypeKind \<Rightarrow> TypeKind" where
  "common k l = (if k = TYPE_LONG \<or> l = TYPE_LONG then TYPE_LONG else TYPE_INT)"

definition truth_ops :: "string list" where
  "truth_ops = [''<'', ''<='', ''>'', ''>='', ''=='', ''!='']"

definition typed_binop :: "string \<Rightarrow> TypeKind \<times> int \<Rightarrow> TypeKind \<times> int \<Rightarrow> (TypeKind \<times> int) option" where
  "typed_binop op x y =
     (let k = (if op = ''<<'' \<or> op = ''>>'' then fst x else common (fst x) (fst y)) in
      do { v \<leftarrow> binop_at k op (snd x) (snd y); Some (if op \<in> set truth_ops then TYPE_INT else k, v) })"

text \<open>
  A conditional expression has the common type of its branches, whichever is taken: the other
  one contributes its type by \<open>type_at\<close>.
\<close>

type_synonym env = "string \<Rightarrow> (TypeKind \<times> int) option"

fun type_at :: "env \<Rightarrow> ASTNode \<Rightarrow> TypeKind" where
  "type_at E (Node i cs) =
     (if ntype i = AST_INT_LITERAL \<or> ntype i = AST_CAST then promoted (decl_type i)
      else if ntype i = AST_VAR_REF then (case E (text_of i) of Some (k, v) \<Rightarrow> promoted k | None \<Rightarrow> TYPE_INT)
      else (case cs of
          [Some x] \<Rightarrow> if text_of i = ''!'' then TYPE_INT else type_at E x
        | [Some l, Some r] \<Rightarrow>
            if text_of i = ''&&'' \<or> text_of i = ''||'' \<or> text_of i \<in> set truth_ops then TYPE_INT
            else if text_of i = ''<<'' \<or> text_of i = ''>>'' then type_at E l
            else common (type_at E l) (type_at E r)
        | [Some c, Some t, Some e] \<Rightarrow> common (type_at E t) (type_at E e)
        | _ \<Rightarrow> TYPE_INT))"

fun typed_value :: "env \<Rightarrow> ASTNode \<Rightarrow> (TypeKind \<times> int) option" where
  "typed_value E (Node i cs) =
     (if is_unsigned i then None
      else if ntype i = AST_INT_LITERAL then
        do { v \<leftarrow> fits (decl_type i) (strtol_exact (text_of i)); Some (promoted (decl_type i), v) }
      else if ntype i = AST_VAR_REF then
        do { (k, v) \<leftarrow> E (text_of i); w \<leftarrow> fits k v; Some (promoted k, w) }
      else if ntype i = AST_UNARY_OP then
        (case cs of
           [Some x] \<Rightarrow>
             do { (k, a) \<leftarrow> typed_value E x; v \<leftarrow> unop_at k (text_of i) a;
                  Some (if text_of i = ''!'' then TYPE_INT else k, v) }
         | _ \<Rightarrow> None)
      else if ntype i = AST_BINARY_OP then
        (case cs of
           [Some l, Some r] \<Rightarrow>
             do { x \<leftarrow> typed_value E l;
                  if text_of i = ''&&'' then
                    (if snd x = 0 then Some (TYPE_INT, 0)
                     else do { y \<leftarrow> typed_value E r; Some (TYPE_INT, if snd y \<noteq> 0 then 1 else 0) })
                  else if text_of i = ''||'' then
                    (if snd x \<noteq> 0 then Some (TYPE_INT, 1)
                     else do { y \<leftarrow> typed_value E r; Some (TYPE_INT, if snd y \<noteq> 0 then 1 else 0) })
                  else do { y \<leftarrow> typed_value E r; typed_binop (text_of i) x y } }
         | _ \<Rightarrow> None)
      else if ntype i = AST_CONDITIONAL_EXPR then
        (case cs of
           [Some c, Some t, Some e] \<Rightarrow>
             do { x \<leftarrow> typed_value E c;
                  y \<leftarrow> (if snd x \<noteq> 0 then typed_value E t else typed_value E e);
                  Some (common (type_at E t) (type_at E e), snd y) }
         | _ \<Rightarrow> None)
      else if ntype i = AST_CAST then
        (case cs of
           [Some x] \<Rightarrow>
             do { (k, a) \<leftarrow> typed_value E x; v \<leftarrow> convert_signed (decl_type i) a; Some (promoted (decl_type i), v) }
         | _ \<Rightarrow> None)
      else None)"

declare type_at.simps [simp del] typed_value.simps [simp del]

text \<open>
  Expressions in \<^verbatim>\<open>int\<close>: nothing unsigned, nothing annotated with a wider type, no \<^verbatim>\<open>sizeof\<close>,
  every variable at most as wide as \<^verbatim>\<open>int\<close>.
\<close>

fun int_tree :: "env \<Rightarrow> ASTNode \<Rightarrow> bool" where
  "int_tree E (Node i cs) \<longleftrightarrow>
     \<not> is_unsigned i \<and> \<not> long_lit (decl_type i) \<and> ntype i \<noteq> AST_SIZEOF_TYPE \<and> ntype i \<noteq> AST_SIZEOF_EXPR \<and>
     (ntype i = AST_VAR_REF \<longrightarrow> (\<exists>k v. E (text_of i) = Some (k, v) \<and> \<not> long_lit k)) \<and>
     (\<forall>c \<in> set cs. case c of None \<Rightarrow> True | Some n \<Rightarrow> int_tree E n)"

text \<open>The propagation table agrees with the variables that have such a type.\<close>

definition table_agrees :: "env \<Rightarrow> const_table \<Rightarrow> bool" where
  "table_agrees E tab \<longleftrightarrow>
     (\<forall>x k v e. E x = Some (k, v) \<longrightarrow> \<not> long_lit k \<longrightarrow> const_prop_lookup tab x = Some e \<longrightarrow>
        ce_value e = v \<and> \<not> ce_is_unsigned e \<and> \<not> long_lit (ce_decl_type e))"

subsection \<open>Expressions in int\<close>

definition checked :: "int \<Rightarrow> int option" where
  "checked v = (if in_int v then Some v else None)"

definition binop_sem :: "string \<Rightarrow> int \<Rightarrow> int \<Rightarrow> int option" where
  "binop_sem op a b =
     (if op = ''+'' then checked (a + b)
      else if op = ''-'' then checked (a - b)
      else if op = ''*'' then checked (a * b)
      else if op = ''/'' then (if b = 0 then None else checked (a sdiv b))
      else if op = ''%'' then (if b = 0 \<or> \<not> in_int (a sdiv b) then None else checked (a smod b))
      else if op = ''&'' then checked (a AND b)
      else if op = ''|'' then checked (a OR b)
      else if op = ''^'' then checked (a XOR b)
      else if op = ''<<'' then (if 0 \<le> b \<and> b < 32 then checked (a * 2 ^ nat b) else None)
      else if op = ''>>'' then (if 0 \<le> b \<and> b < 32 then checked (a div 2 ^ nat b) else None)
      else if op = ''<'' then of_truth (a < b)
      else if op = ''<='' then of_truth (a \<le> b)
      else if op = ''>'' then of_truth (a > b)
      else if op = ''>='' then of_truth (a \<ge> b)
      else if op = ''=='' then of_truth (a = b)
      else if op = ''!='' then of_truth (a \<noteq> b)
      else None)"

definition unop_sem :: "string \<Rightarrow> int \<Rightarrow> int option" where
  "unop_sem op a =
     (if op = ''-'' then checked (- a)
      else if op = ''+'' then checked a
      else if op = ''!'' then of_truth (a = 0)
      else if op = ''~'' then checked (NOT a)
      else None)"

definition logic_sem :: "string \<Rightarrow> int option \<Rightarrow> int option \<Rightarrow> int option" where
  "logic_sem op a b =
     do { x \<leftarrow> a;
          if op = ''&&'' then (if x = 0 then Some 0 else do { y \<leftarrow> b; of_truth (y \<noteq> 0) })
          else if op = ''||'' then (if x \<noteq> 0 then Some 1 else do { y \<leftarrow> b; of_truth (y \<noteq> 0) })
          else do { y \<leftarrow> b; binop_sem op x y } }"

fun eval32 :: "env \<Rightarrow> ASTNode \<Rightarrow> int option" where
  "eval32 E (Node i cs) =
     (if is_unsigned i then None
      else if ntype i = AST_INT_LITERAL then checked (strtol_exact (text_of i))
      else if ntype i = AST_VAR_REF then do { (k, v) \<leftarrow> E (text_of i); checked v }
      else if ntype i = AST_UNARY_OP then
        (case cs of [Some x] \<Rightarrow> do { a \<leftarrow> eval32 E x; unop_sem (text_of i) a } | _ \<Rightarrow> None)
      else if ntype i = AST_BINARY_OP then
        (case cs of [Some l, Some r] \<Rightarrow> logic_sem (text_of i) (eval32 E l) (eval32 E r) | _ \<Rightarrow> None)
      else if ntype i = AST_CONDITIONAL_EXPR then
        (case cs of
           [Some c, Some t, Some e] \<Rightarrow> do { a \<leftarrow> eval32 E c; if a \<noteq> 0 then eval32 E t else eval32 E e }
         | _ \<Rightarrow> None)
      else if ntype i = AST_CAST then
        (case cs of [Some x] \<Rightarrow> do { a \<leftarrow> eval32 E x; convert_signed (decl_type i) a } | _ \<Rightarrow> None)
      else None)"

declare eval32.simps [simp del]

subsection \<open>Inversion and literals\<close>

lemma checked_Some [simp]: "checked v = Some w \<longleftrightarrow> v = w \<and> in_int v"
  by (auto simp: checked_def)

lemma of_truth_Some [simp]: "of_truth b = Some w \<longleftrightarrow> w = (if b then 1 else 0)"
  by (auto simp: of_truth_def)

lemma in_int_small [simp]: "in_int 0" "in_int 1"
  by (simp_all add: in_int_def)

lemma in_int_long: "in_int v \<Longrightarrow> in_long v"
  by (auto simp: in_int_def long_defs)

lemma checked_small [simp]: "checked 0 = Some 0" "checked 1 = Some 1"
  by (simp_all add: checked_def)

lemma int_lits [simp]: "\<not> long_lit TYPE_INT" "\<not> long_lit TYPE_VOID"
  by (simp_all add: long_lit_def)

lemma sval_Node [simp]: "sval (Node i cs) = text_of i"
  by (simp add: sval_def)

lemma eval32_mk_int_lit [simp]: "eval32 E (mk_int_lit v k u) = (if u then None else checked v)"
  by (simp add: mk_int_lit_def eval32.simps text_of_def ast_new_def)

lemma eval32_not_unsigned: "eval32 E n = Some v \<Longrightarrow> \<not> is_unsigned (info n)"
  by (cases n) (auto simp: eval32.simps split: if_splits)

lemma eval32_int_lit:
  "int_lit n \<Longrightarrow> eval32 E n = Some v \<Longrightarrow> v = lit_val n \<and> in_int v"
  by (cases n) (auto simp: eval32.simps int_lit_def lit_val_def strtol0_def in_int_long split: if_splits)

lemma eval32_lit_zero:
  "int_lit n \<Longrightarrow> \<not> is_unsigned (info n) \<Longrightarrow> lit_val n = 0 \<Longrightarrow> eval32 E n = Some 0"
  by (cases n) (auto simp: eval32.simps int_lit_def lit_val_def strtol0_def clamp_long_def checked_def
      long_defs min_def max_def split: if_splits)

lemma binary_kids_eval:
  "binary_kids n = Some (l, r) \<Longrightarrow> eval32 E n = Some v \<Longrightarrow>
   \<not> is_unsigned (info n) \<and> logic_sem (sval n) (eval32 E l) (eval32 E r) = Some v"
  by (cases n) (auto simp: binary_kids_def eval32.simps split: if_splits list.splits option.splits)

lemma unary_kid_eval:
  "unary_kid n = Some x \<Longrightarrow> eval32 E n = Some v \<Longrightarrow>
   \<exists>a. eval32 E x = Some a \<and> unop_sem (sval n) a = Some v"
  by (cases n) (auto simp: unary_kid_def eval32.simps bind_eq_Some_conv split: if_splits list.splits option.splits)

text \<open>A strict operator evaluates both operands.\<close>

lemma logic_sem_strict:
  "logic_sem op A B = Some v \<Longrightarrow> op \<noteq> ''&&'' \<Longrightarrow> op \<noteq> ''||'' \<Longrightarrow>
   \<exists>a b. A = Some a \<and> B = Some b \<and> binop_sem op a b = Some v"
  by (auto simp: logic_sem_def bind_eq_Some_conv)

subsection \<open>Arithmetic of the folds\<close>

lemma in_int_iff_bits: "in_int v \<longleftrightarrow> (\<forall>n. bit v (min 31 n) = bit v n)"
proof -
  have "in_int v \<longleftrightarrow> signed_take_bit 31 v = v"
    unfolding in_int_def by (simp add: signed_take_bit_int_eq_self_iff)
  then show ?thesis by (simp add: bit_eq_iff bit_signed_take_bit_iff)
qed

lemma in_int_not [simp]: "in_int a \<Longrightarrow> in_int (NOT a)"
  by (simp add: in_int_iff_bits bit_not_int_iff)

lemma in_int_bits [simp]:
  assumes "in_int a" and "in_int b"
  shows "in_int (a AND b)" "in_int (a OR b)" "in_int (a XOR b)"
  using assms by (simp_all add: in_int_iff_bits bit_and_int_iff bit_or_int_iff bit_xor_int_iff)

lemma fold_unop_sound:
  "in_int a \<Longrightarrow> unop_sem op a = Some v \<Longrightarrow> fold_unop op a = FoldTo w t \<Longrightarrow> w = v \<and> in_int v"
  by (auto simp: in_int_long unop_sem_def fold_unop_def truth_def split: if_splits)

lemma shl64_defined: "0 \<le> b \<Longrightarrow> b < 64 \<Longrightarrow> in_long (a * 2 ^ nat b) \<Longrightarrow> shl64 a b = a * 2 ^ nat b"
  by (simp add: shl64_def push_bit_eq_mult)

lemma sar64_defined: "0 \<le> b \<Longrightarrow> b < 64 \<Longrightarrow> sar64 a b = a div 2 ^ nat b"
  by (simp add: sar64_def drop_bit_eq_div)

lemma fold_binop_sound:
  "binop_sem op a b = Some v \<Longrightarrow> fold_binop op a b = FoldTo w t \<Longrightarrow> w = v \<and> in_int v"
  by (auto simp: in_int_long binop_sem_def fold_binop_def truth_def shl64_defined sar64_defined split: if_splits)

lemma pow2_value:
  "v > 1 \<Longrightarrow> v AND (v - 1) = 0 \<Longrightarrow> v = 2 ^ shift_count v" for v :: int
proof (induction v rule: shift_count.induct)
  case (1 v)
  let ?k = "v div 2"
  have rec: "v AND (v - 1) = of_bool (odd v \<and> odd (v - 1)) + 2 * (?k AND ((v - 1) div 2))"
    by (rule and_rec)
  have ev: "even v"
  proof (rule ccontr)
    assume "odd v"
    then have "(v - 1) div 2 = ?k" by presburger
    with rec "1.prems" have "?k = 0" by simp
    with "1.prems"(1) show False by simp
  qed
  then have half: "(v - 1) div 2 = ?k - 1" by presburger
  have v: "v = 2 * ?k" using ev by simp
  have step: "shift_count v = Suc (shift_count ?k)"
    using "1.prems"(1) by (simp add: shift_count.simps [of v] drop_bit_eq_div)
  have "?k = 2 ^ shift_count ?k"
  proof (cases "?k > 1")
    case True
    moreover have "?k AND (?k - 1) = 0" using rec half "1.prems"(2) ev by simp
    ultimately show ?thesis using "1.IH" [OF "1.prems"(1)] by (simp add: drop_bit_eq_div)
  next
    case False
    then have "?k = 1" using "1.prems"(1) by presburger
    then show ?thesis by (simp add: shift_count.simps [of 1])
  qed
  with v step show ?case by (metis power_Suc)
qed

lemma is_pow2_lit:
  assumes "is_pow2 n"
  shows "lit_val n = 2 ^ shift_count (lit_val n)" "shift_count (lit_val n) < 63"
proof -
  show eq: "lit_val n = 2 ^ shift_count (lit_val n)"
    using assms by (intro pow2_value) (auto simp: is_pow2_def)
  have "(2 :: int) ^ shift_count (lit_val n) < 2 ^ 63"
    using strtol0_in_long [of "sval n"] eq by (simp add: lit_val_def in_long_def LONG_MAX_def)
  then show "shift_count (lit_val n) < 63" by (rule power_less_imp_less_exp [rotated]) simp
qed

lemma eval32_shift_lit:
  assumes "is_pow2 n"
  shows "eval32 E (shift_lit n) = Some (int (shift_count (lit_val n)))"
  using is_pow2_lit(2) [OF assms] by (simp add: shift_lit_def checked_def in_int_def)

lemma pow2_in_int:
  assumes "is_pow2 n" and "eval32 E n = Some v"
  shows "shift_count (lit_val n) < 31"
proof -
  have "int_lit n" using assms(1) by (simp add: is_pow2_def)
  from eval32_int_lit [OF this assms(2)] have "lit_val n < 2 ^ 31" by (simp add: in_int_def)
  then have "(2 :: int) ^ shift_count (lit_val n) < 2 ^ 31" using is_pow2_lit(1) [OF assms(1)] by simp
  then show ?thesis by (rule power_less_imp_less_exp [rotated]) simp
qed

subsection \<open>The contract of a rewrite\<close>

definition improves :: "env \<Rightarrow> ASTNode \<Rightarrow> ASTNode \<Rightarrow> bool" where
  "improves E n m \<longleftrightarrow> int_tree E m \<and> (\<forall>v. eval32 E n = Some v \<longrightarrow> eval32 E m = Some v)"

locale value_preserving =
  fixes E :: env and rw :: "ASTNode \<Rightarrow> rewrite"
  assumes preserves: "int_tree E n \<Longrightarrow> eval32 E n = Some v \<Longrightarrow> rw n = Done m \<Longrightarrow> eval32 E m = Some v"
    and keeps_int: "int_tree E n \<Longrightarrow> rw n = Done m \<Longrightarrow> int_tree E m"
begin

lemma rewrite_improves: "int_tree E n \<Longrightarrow> rw n = Done m \<Longrightarrow> improves E n m"
  unfolding improves_def using preserves keeps_int by blast

lemma before_others:
  assumes rest: "\<And>n m. int_tree E n \<Longrightarrow> first_rewrite rws n = Some m \<Longrightarrow> improves E n m"
    and sg: "int_tree E n" and first: "first_rewrite (rw # rws) n = Some m"
  shows "improves E n m"
proof (cases "rw n")
  case (Done k)
  with first have "rw n = Done m" by simp
  with sg show ?thesis by (rule rewrite_improves)
next
  case Pass
  with first show ?thesis by (intro rest [OF sg]) simp
next
  case Trap
  with first show ?thesis by simp
qed

end

lemma first_rewrite_improves:
  "list_all (value_preserving E) rws \<Longrightarrow> int_tree E n \<Longrightarrow> first_rewrite rws n = Some m \<Longrightarrow> improves E n m"
proof (induction rws arbitrary: n m)
  case Nil
  then show ?case by (simp add: improves_def)
next
  case (Cons rw rws)
  have vp: "value_preserving E rw" and rest: "list_all (value_preserving E) rws"
    using Cons.prems(1) by simp_all
  show ?case
  proof (rule value_preserving.before_others [OF vp])
    fix n m
    assume "int_tree E n" and "first_rewrite rws n = Some m"
    with rest show "improves E n m" by (rule Cons.IH)
  qed (rule Cons.prems)+
qed

text \<open>The operands of such an expression are such expressions; a literal made from one is.\<close>

lemma int_binary_kids: "int_tree E n \<Longrightarrow> binary_kids n = Some (l, r) \<Longrightarrow> int_tree E l \<and> int_tree E r"
  by (cases n) (auto simp: binary_kids_def split: if_split_asm list.split_asm option.split_asm)

lemma int_unary_kid: "int_tree E n \<Longrightarrow> unary_kid n = Some x \<Longrightarrow> int_tree E x"
  by (cases n) (auto simp: unary_kid_def split: if_split_asm list.split_asm option.split_asm)

lemma int_info: "int_tree E n \<Longrightarrow> \<not> is_unsigned (info n) \<and> \<not> long_lit (decl_type (info n))"
  by (cases n) simp

lemma int_mk_int_lit [simp]: "int_tree E (mk_int_lit v k u) \<longleftrightarrow> \<not> u \<and> \<not> long_lit k"
  by (simp add: mk_int_lit_def ast_new_def)

lemma int_left: "int_tree E n \<Longrightarrow> binary_kids n = Some (l, r) \<Longrightarrow> int_tree E l \<and> \<not> is_unsigned (info l) \<and> \<not> long_lit (decl_type (info l))"
  using int_binary_kids int_info by blast

lemma int_right: "int_tree E n \<Longrightarrow> binary_kids n = Some (l, r) \<Longrightarrow> int_tree E r \<and> \<not> is_unsigned (info r) \<and> \<not> long_lit (decl_type (info r))"
  using int_binary_kids int_info by blast

lemma int_operand: "int_tree E n \<Longrightarrow> unary_kid n = Some x \<Longrightarrow> int_tree E x \<and> \<not> is_unsigned (info x) \<and> \<not> long_lit (decl_type (info x))"
  using int_unary_kid int_info by blast

lemma int_doubled: "int_tree E n \<Longrightarrow> doubled op n = Some x \<Longrightarrow> int_tree E x"
  by (auto simp: doubled_def dest: int_unary_kid split: option.split_asm if_split_asm)

lemma binary_kids_type: "binary_kids n = Some (l, r) \<Longrightarrow> node_type n = AST_BINARY_OP"
  by (auto simp: binary_kids_def split: if_split_asm)

subsection \<open>Each rewrite keeps the contract\<close>

lemma fold_binop_logic: "fold_binop ''&&'' a b = NoFold" "fold_binop ''||'' a b = NoFold"
  by (simp_all add: fold_binop_def)

lemma fold_binary_sound:
  assumes ev: "eval32 E n = Some v" and rw: "rw_fold_binary n = Done m"
  shows "eval32 E m = Some v"
proof -
  from rw obtain l r w t where kids: "binary_kids n = Some (l, r)" and lits: "int_lit l" "int_lit r"
    and fold: "fold_binop (sval n) (lit_val l) (lit_val r) = FoldTo w t"
    and m: "m = mk_int_lit w (if t then TYPE_INT else decl_type (info l)) (if t then False else is_unsigned (info l))"
    by (auto simp: rw_fold_binary_def split: option.splits if_splits fold_val.splits)
  from fold have "sval n \<noteq> ''&&''" "sval n \<noteq> ''||''"
    using fold_binop_logic by (metis fold_val.distinct(1))+
  with binary_kids_eval [OF kids ev] obtain a b
    where ab: "eval32 E l = Some a" "eval32 E r = Some b" "binop_sem (sval n) a b = Some v"
    using logic_sem_strict by blast
  have "a = lit_val l" "b = lit_val r" using ab lits eval32_int_lit by blast+
  then have "w = v \<and> in_int v" using fold_binop_sound [OF ab(3)] fold by simp
  with eval32_not_unsigned [OF ab(1)] show ?thesis by (simp add: m checked_def)
qed

lemma fold_binary_int: "int_tree E n \<Longrightarrow> rw_fold_binary n = Done m \<Longrightarrow> int_tree E m"
  using int_left [of E n]
  by (auto simp: rw_fold_binary_def split: option.split_asm if_split_asm fold_val.split_asm)

interpretation fold_binary: value_preserving E rw_fold_binary for E
  by (unfold_locales; (rule fold_binary_sound fold_binary_int; assumption))

lemma short_circuit_sound:
  assumes ev: "eval32 E n = Some v" and rw: "rw_short_circuit n = Done m"
  shows "eval32 E m = Some v"
proof -
  from rw obtain l r where kids: "binary_kids n = Some (l, r)" and lit: "int_lit l"
    by (auto simp: rw_short_circuit_def Let_def split: option.splits if_splits)
  have sem: "logic_sem (sval n) (eval32 E l) (eval32 E r) = Some v"
    using binary_kids_eval [OF kids ev] by simp
  then obtain a where a: "eval32 E l = Some a" by (auto simp: logic_sem_def bind_eq_Some_conv)
  have la: "a = lit_val l" using eval32_int_lit [OF lit a] by simp
  have rb: "int_lit r \<Longrightarrow> eval32 E r = Some b \<Longrightarrow> b = lit_val r" for b
    using eval32_int_lit by blast
  show ?thesis using rw kids lit sem a la rb
    by (auto simp: rw_short_circuit_def Let_def logic_sem_def bind_eq_Some_conv checked_def split: if_splits)
qed

lemma short_circuit_int: "int_tree E n \<Longrightarrow> rw_short_circuit n = Done m \<Longrightarrow> int_tree E m"
  by (auto simp: rw_short_circuit_def Let_def split: option.split_asm if_split_asm)

interpretation short_circuit: value_preserving E rw_short_circuit for E
  by (unfold_locales; (rule short_circuit_sound short_circuit_int; assumption))

lemma fold_unary_sound:
  assumes ev: "eval32 E n = Some v" and rw: "rw_fold_unary n = Done m"
  shows "eval32 E m = Some v"
proof -
  from rw obtain x w t where kid: "unary_kid n = Some x" and lit: "int_lit x"
    and fold: "fold_unop (sval n) (lit_val x) = FoldTo w t"
    and m: "m = mk_int_lit w (if t then TYPE_INT else decl_type (info x)) (if t then False else is_unsigned (info x))"
    by (auto simp: rw_fold_unary_def split: option.splits if_splits fold_val.splits)
  obtain a where a: "eval32 E x = Some a" "unop_sem (sval n) a = Some v"
    using unary_kid_eval [OF kid ev] by blast
  have la: "a = lit_val x" "in_int a" using eval32_int_lit [OF lit a(1)] by blast+
  have "w = v \<and> in_int v" using fold_unop_sound [OF la(2) a(2)] fold la(1) by simp
  with eval32_not_unsigned [OF a(1)] show ?thesis by (simp add: m checked_def)
qed

lemma fold_unary_int: "int_tree E n \<Longrightarrow> rw_fold_unary n = Done m \<Longrightarrow> int_tree E m"
  using int_operand [of E n]
  by (auto simp: rw_fold_unary_def split: option.split_asm if_split_asm fold_val.split_asm)

interpretation fold_unary: value_preserving E rw_fold_unary for E
  by (unfold_locales; (rule fold_unary_sound fold_unary_int; assumption))

lemma doubled_eval:
  assumes "doubled op n = Some x" and "eval32 E n = Some v"
  shows "\<exists>a b. eval32 E x = Some a \<and> unop_sem op a = Some b \<and> unop_sem op b = Some v"
proof -
  from assms(1) obtain inner where k: "unary_kid n = Some inner" "sval n = op"
    "unary_kid inner = Some x" "sval inner = op"
    by (auto simp: doubled_def split: option.splits if_splits)
  obtain b where b: "eval32 E inner = Some b" "unop_sem op b = Some v"
    using unary_kid_eval [OF k(1) assms(2)] k(2) by blast
  obtain a where "eval32 E x = Some a" "unop_sem op a = Some b"
    using unary_kid_eval [OF k(3) b(1)] k(4) by blast
  with b show ?thesis by blast
qed

lemma eval32_neq_zero:
  "eval32 E (Node i [Some x, Some z]) =
     (if is_unsigned i then None else logic_sem ''!='' (eval32 E x) (eval32 E z))"
  if "ntype i = AST_BINARY_OP" "text_of i = ''!=''"
  using that by (simp add: eval32.simps)

lemma double_not_sound:
  assumes ev: "eval32 E n = Some v" and rw: "rw_double_not n = Done m"
  shows "eval32 E m = Some v"
proof -
  from rw obtain x where x: "doubled ''!'' n = Some x"
    by (auto simp: rw_double_not_def split: option.splits)
  obtain a b where ab: "eval32 E x = Some a" "unop_sem ''!'' a = Some b" "unop_sem ''!'' b = Some v"
    using doubled_eval [OF x ev] by blast
  let ?i = "zero_info\<lparr>ntype := AST_BINARY_OP, nvalue := Some ''!='', decl_type := TYPE_INT, child_cap := AST_MAX_CHILDREN\<rparr>"
  have m: "m = Node ?i [Some x, Some (mk_int_lit 0 TYPE_INT False)]"
    using rw by (simp add: rw_double_not_def x ast_new_def ast_add_child_def Let_def zero_info_def AST_MAX_CHILDREN_def)
  show ?thesis using ab
    by (simp add: m eval32_neq_zero text_of_def zero_info_def logic_sem_def unop_sem_def binop_sem_def checked_def
        split: if_splits)
qed

lemma double_not_int: "int_tree E n \<Longrightarrow> rw_double_not n = Done m \<Longrightarrow> int_tree E m"
  by (auto simp: rw_double_not_def ast_add_child_def ast_new_def zero_info_def Let_def dest: int_doubled
      split: option.split_asm)

interpretation double_not: value_preserving E rw_double_not for E
  by (unfold_locales; (rule double_not_sound double_not_int; assumption))

lemma double_neg_sound:
  assumes ev: "eval32 E n = Some v" and rw: "rw_double_neg n = Done m"
  shows "eval32 E m = Some v"
proof -
  from rw have "doubled ''-'' n = Some m" by (auto simp: rw_double_neg_def split: option.splits)
  from doubled_eval [OF this ev] show ?thesis by (auto simp: unop_sem_def)
qed

lemma double_neg_int: "int_tree E n \<Longrightarrow> rw_double_neg n = Done m \<Longrightarrow> int_tree E m"
  by (auto simp: rw_double_neg_def dest: int_doubled split: option.split_asm)

interpretation double_neg: value_preserving E rw_double_neg for E
  by (unfold_locales; (rule double_neg_sound double_neg_int; assumption))

lemma is_lit_of_eval: "is_lit_of c n \<Longrightarrow> eval32 E n = Some b \<Longrightarrow> b = c"
  using eval32_int_lit by (auto simp: is_lit_of_def)

lemma same_var_eval: "same_var l r \<Longrightarrow> eval32 E l = Some a \<Longrightarrow> eval32 E r = Some b \<Longrightarrow> a = b"
  by (cases l; cases r) (auto simp: same_var_def eval32.simps split: if_splits)

lemma sdiv_units [simp]: "a sdiv 1 = a" "0 sdiv b = 0" for a b :: int
  by (simp_all add: signed_divide_int_def sgn_if)

lemma identity_operand_sound:
  assumes "identity_operand op l r = Some x" and "eval32 E l = Some a" and "eval32 E r = Some b"
    and "binop_sem op a b = Some v"
  shows "eval32 E x = Some v"
  using assms is_lit_of_eval [of _ l E a] is_lit_of_eval [of _ r E b]
  by (auto simp: identity_operand_def binop_sem_def split: if_splits)

lemma identity_operand_strict:
  "identity_operand op l r = Some x \<Longrightarrow> op \<noteq> ''&&'' \<and> op \<noteq> ''||''"
  "zero_operand op l r = Some z \<Longrightarrow> op \<noteq> ''&&'' \<and> op \<noteq> ''||''"
  by (auto simp: identity_operand_def zero_operand_def split: if_splits)

lemma eval32_zero_like: "eval32 E n = Some a \<Longrightarrow> eval32 E (zero_like n) = Some 0"
  by (simp add: zero_like_def eval32_not_unsigned checked_def)

lemma zero_operand_sound:
  assumes "zero_operand op l r = Some z" and "eval32 E l = Some a" and "eval32 E r = Some b"
    and "binop_sem op a b = Some v"
  shows "eval32 E z = Some v"
proof -
  have "eval32 E z = Some 0"
    using assms(1-3) by (auto simp: zero_operand_def eval32_zero_like split: if_splits)
  moreover have "v = 0"
    using assms is_lit_of_eval [of _ l E a] is_lit_of_eval [of _ r E b] same_var_eval [of l r E a b]
    by (auto simp: zero_operand_def binop_sem_def split: if_splits)
  ultimately show ?thesis by simp
qed

lemma algebraic_sound:
  assumes ev: "eval32 E n = Some v" and rw: "rw_algebraic n = Done m"
  shows "eval32 E m = Some v"
proof -
  from rw obtain l r where kids: "binary_kids n = Some (l, r)"
    and ops: "identity_operand (sval n) l r = Some m \<or> zero_operand (sval n) l r = Some m"
    by (auto simp: rw_algebraic_def split: option.splits)
  have "sval n \<noteq> ''&&'' \<and> sval n \<noteq> ''||''" using ops identity_operand_strict by blast
  with binary_kids_eval [OF kids ev] obtain a b
    where "eval32 E l = Some a" "eval32 E r = Some b" "binop_sem (sval n) a b = Some v"
    using logic_sem_strict by blast
  with ops show ?thesis using identity_operand_sound zero_operand_sound by blast
qed

lemma operand_int:
  assumes "int_tree E l \<and> \<not> is_unsigned (info l) \<and> \<not> long_lit (decl_type (info l))"
    and "int_tree E r \<and> \<not> is_unsigned (info r) \<and> \<not> long_lit (decl_type (info r))"
  shows "identity_operand op l r = Some m \<Longrightarrow> int_tree E m" "zero_operand op l r = Some m \<Longrightarrow> int_tree E m"
  using assms by (auto simp: identity_operand_def zero_operand_def zero_like_def split: if_split_asm)

lemma algebraic_int:
  assumes sg: "int_tree E n" and rw: "rw_algebraic n = Done m"
  shows "int_tree E m"
proof -
  from rw obtain l r where kids: "binary_kids n = Some (l, r)"
    and ops: "identity_operand (sval n) l r = Some m \<or> zero_operand (sval n) l r = Some m"
    by (auto simp: rw_algebraic_def split: option.splits)
  from ops show ?thesis using operand_int [OF int_left int_right, OF sg kids sg kids] by blast
qed

interpretation algebraic: value_preserving E rw_algebraic for E
  by (unfold_locales; (rule algebraic_sound algebraic_int; assumption))

lemma eval32_with_value:
  assumes "binary_kids n = Some (l, r)" and "eval32 E n = Some v"
  shows "eval32 E (with_value n op [Some x, Some y]) = logic_sem op (eval32 E x) (eval32 E y)"
  using assms binary_kids_eval [OF assms]
  by (auto simp: with_value_def eval32.simps text_of_def binary_kids_def split: if_splits)

lemma sdiv_pow2: "0 \<le> a \<Longrightarrow> a sdiv 2 ^ k = a div 2 ^ k" for a :: int
  by (cases "a = 0") (auto simp: signed_divide_int_def sgn_if)

lemma strength_sound:
  assumes ev: "eval32 E n = Some v" and rw: "rw_strength n = Done m"
  shows "eval32 E m = Some v"
proof -
  from rw obtain l r where kids: "binary_kids n = Some (l, r)"
    and op: "sval n = ''*'' \<or> sval n = ''/''"
    by (auto simp: rw_strength_def split: option.splits if_splits)
  have "sval n \<noteq> ''&&''" "sval n \<noteq> ''||''" using op by auto
  with binary_kids_eval [OF kids ev] obtain a b
    where ab: "eval32 E l = Some a" "eval32 E r = Some b" "binop_sem (sval n) a b = Some v"
    using logic_sem_strict by blast
  note wv = eval32_with_value [OF kids ev]
  have pr: "b = 2 ^ shift_count (lit_val r)" if "is_pow2 r"
    using is_pow2_lit(1) [OF that] that eval32_int_lit [OF _ ab(2)] by (simp add: is_pow2_def)
  have pl: "a = 2 ^ shift_count (lit_val l)" if "is_pow2 l"
    using is_pow2_lit(1) [OF that] that eval32_int_lit [OF _ ab(1)] by (simp add: is_pow2_def)
  consider (mul_r) "sval n = ''*''" "is_pow2 r" "m = with_value n ''<<'' [Some l, Some (shift_lit r)]"
    | (mul_l) "sval n = ''*''" "is_pow2 l" "m = with_value n ''<<'' [Some r, Some (shift_lit l)]"
    | (div) "sval n = ''/''" "is_pow2 r" "int_lit l" "lit_val l \<ge> 0" "m = with_value n ''>>'' [Some l, Some (shift_lit r)]"
    using rw kids eval32_not_unsigned [OF ab(1)]
    by (auto simp: rw_strength_def split: if_splits)
  then show ?thesis
  proof cases
    case mul_r
    then show ?thesis using ab pr [OF mul_r(2)] pow2_in_int [OF mul_r(2) ab(2)]
      by (auto simp: wv logic_sem_def eval32_shift_lit binop_sem_def)
  next
    case mul_l
    then show ?thesis using ab pl [OF mul_l(2)] pow2_in_int [OF mul_l(2) ab(1)]
      by (auto simp: wv logic_sem_def eval32_shift_lit binop_sem_def mult.commute)
  next
    case div
    then have "0 \<le> a" using eval32_int_lit [OF div(3) ab(1)] by simp
    then show ?thesis using div ab pr [OF div(2)] pow2_in_int [OF div(2) ab(2)]
      by (auto simp: wv logic_sem_def eval32_shift_lit binop_sem_def sdiv_pow2)
  qed
qed

lemma int_binary:
  assumes "int_tree E n" and "binary_kids n = Some (l, r)" and "int_tree E x" and "int_tree E y"
  shows "int_tree E (Node ((info n)\<lparr>nvalue := s\<rparr>) [Some x, Some y])"
    and "\<not> long_lit k \<Longrightarrow> int_tree E (Node ((info n)\<lparr>nvalue := s, decl_type := k\<rparr>) [Some x, Some y])"
  using assms(3,4) int_info [OF assms(1)] binary_kids_type [OF assms(2)] by simp_all

lemma strength_int:
  assumes sg: "int_tree E n" and rw: "rw_strength n = Done m"
  shows "int_tree E m"
proof -
  from rw obtain l r s x y where kids: "binary_kids n = Some (l, r)"
    and m: "m = with_value n s [Some x, Some (shift_lit y)]" and x: "x = l \<or> x = r"
    by (auto simp: rw_strength_def split: option.split_asm if_split_asm)
  have "int_tree E x" using x int_binary_kids [OF sg kids] by blast
  then show ?thesis unfolding m with_value_def
    by (rule int_binary(1) [OF sg kids]) (simp add: shift_lit_def)
qed

interpretation strength: value_preserving E rw_strength for E
  by (unfold_locales; (rule strength_sound strength_int; assumption))

lemma boolean_sound:
  assumes sg: "int_tree E n" and ev: "eval32 E n = Some v" and rw: "rw_boolean n = Done m"
  shows "eval32 E m = Some v"
proof -
  from rw obtain l r where kids: "binary_kids n = Some (l, r)" and lit: "int_lit r"
    and op: "sval n = ''&&'' \<or> sval n = ''||''"
    by (auto simp: rw_boolean_def Let_def split: option.splits if_splits)
  have sem: "logic_sem (sval n) (eval32 E l) (eval32 E r) = Some v" and u: "\<not> is_unsigned (info n)"
    using binary_kids_eval [OF kids ev] by simp_all
  then obtain a where a: "eval32 E l = Some a" by (auto simp: logic_sem_def bind_eq_Some_conv)
  have rb: "b = lit_val r" if "eval32 E r = Some b" for b using eval32_int_lit [OF lit that] by simp
  have r0: "eval32 E r = Some 0" if "lit_val r = 0"
    using int_info lit that int_binary_kids [OF sg kids] by (intro eval32_lit_zero) auto
  have ty: "node_type n = AST_BINARY_OP" using kids by (rule binary_kids_type)
  let ?i = "(info n)\<lparr>nvalue := Some ''!='', decl_type := TYPE_INT\<rparr>"
  have neq: "eval32 E (Node ?i [Some l, Some z]) = logic_sem ''!='' (eval32 E l) (eval32 E z)" for z
    using u ty by (simp add: eval32_neq_zero text_of_def)
  show ?thesis using rw kids lit op sem a rb r0
    by (auto simp: rw_boolean_def Let_def neq logic_sem_def bind_eq_Some_conv checked_def binop_sem_def split: if_splits)
qed

lemma boolean_int:
  assumes sg: "int_tree E n" and rw: "rw_boolean n = Done m"
  shows "int_tree E m"
proof -
  from rw obtain l r where kids: "binary_kids n = Some (l, r)"
    by (auto simp: rw_boolean_def split: option.split_asm)
  note lr = int_left [OF sg kids, THEN conjunct1] int_right [OF sg kids, THEN conjunct1]
  note neq = int_binary(2) [OF sg kids lr(1) _ int_lits(1)]
  show ?thesis using rw kids neq [OF lr(2), of "Some ''!=''"]
      neq [of "mk_int_lit 0 TYPE_INT False" "Some ''!=''"]
    by (simp add: rw_boolean_def Let_def split: if_split_asm) (elim subst; simp)+
qed

interpretation boolean: value_preserving E rw_boolean for E
  by (unfold_locales; (rule boolean_sound boolean_int; assumption))

lemma conditional_sound:
  assumes ev: "eval32 E n = Some v" and rw: "rw_conditional n = Done m"
  shows "eval32 E m = Some v"
proof -
  from rw obtain c t e where ty: "node_type n = AST_CONDITIONAL_EXPR"
    and kids: "children n = [Some c, Some t, Some e]" and lit: "int_lit c"
    and m: "m = (if lit_val c \<noteq> 0 then t else e)"
    by (auto simp: rw_conditional_def split: if_splits list.splits option.splits)
  have "eval32 E n = (if is_unsigned (info n) then None
      else do { a \<leftarrow> eval32 E c; if a \<noteq> 0 then eval32 E t else eval32 E e })"
    using ty kids by (cases n) (simp add: eval32.simps)
  with ev obtain a where a: "eval32 E c = Some a" "(if a \<noteq> 0 then eval32 E t else eval32 E e) = Some v"
    by (auto simp: bind_eq_Some_conv split: if_split_asm)
  have "a = lit_val c" using eval32_int_lit [OF lit a(1)] by simp
  with a(2) m show ?thesis by (auto split: if_splits)
qed

lemma conditional_int: "int_tree E n \<Longrightarrow> rw_conditional n = Done m \<Longrightarrow> int_tree E m"
  by (cases n) (auto simp: rw_conditional_def split: list.split_asm option.split_asm if_split_asm)

interpretation conditional: value_preserving E rw_conditional for E
  by (unfold_locales; (rule conditional_sound conditional_int; assumption))

lemma sizeof_not_int:
  "int_tree E n \<Longrightarrow> rw_sizeof_type H n = Pass" "int_tree E n \<Longrightarrow> rw_sizeof_expr n = Pass"
  by (cases n; simp add: rw_sizeof_type_def rw_sizeof_expr_def)+

interpretation sizeof_type: value_preserving E "rw_sizeof_type H" for E H
  by unfold_locales (simp_all add: sizeof_not_int)

interpretation sizeof_expr: value_preserving E rw_sizeof_expr for E
  by unfold_locales (simp_all add: sizeof_not_int)

lemma convert_safe:
  "cast_value_safe v k False \<Longrightarrow> convert_signed k v = Some w \<Longrightarrow> w = v"
  by (cases k) (auto simp: signed_take_bit_int_eq_self)

lemma cast_sound:
  assumes ev: "eval32 E n = Some v" and rw: "rw_cast n = Done m"
  shows "eval32 E m = Some v"
proof -
  from rw obtain c where ty: "node_type n = AST_CAST" and kids: "children n = [Some c]" and lit: "int_lit c"
    and safe: "cast_value_safe (lit_val c) (decl_type (info n)) (is_unsigned (info n))"
    and m: "m = mk_int_lit (lit_val c) (decl_type (info n)) (is_unsigned (info n))"
    by (auto simp: rw_cast_def split: if_splits list.splits option.splits)
  have u: "\<not> is_unsigned (info n)" using ev by (rule eval32_not_unsigned)
  have "eval32 E n = do { a \<leftarrow> eval32 E c; convert_signed (decl_type (info n)) a }"
    using ty kids u by (cases n) (simp add: eval32.simps)
  with ev obtain a where a: "eval32 E c = Some a" "convert_signed (decl_type (info n)) a = Some v"
    by (auto simp: bind_eq_Some_conv)
  have la: "a = lit_val c" "in_int a" using eval32_int_lit [OF lit a(1)] by blast+
  then have "v = a" using convert_safe [OF _ a(2)] safe u by simp
  with la u show ?thesis by (simp add: m checked_def)
qed

lemma cast_int: "int_tree E n \<Longrightarrow> rw_cast n = Done m \<Longrightarrow> int_tree E m"
  by (cases n) (auto simp: rw_cast_def split: list.split_asm option.split_asm if_split_asm)

interpretation cast: value_preserving E rw_cast for E
  by (unfold_locales; (rule cast_sound cast_int; assumption))

lemma lookup_int:
  "table_agrees E tab \<Longrightarrow> E x = Some (k, v) \<Longrightarrow> \<not> long_lit k \<Longrightarrow> const_prop_lookup tab x = Some e \<Longrightarrow>
   ce_value e = v \<and> \<not> ce_is_unsigned e \<and> \<not> long_lit (ce_decl_type e)"
  unfolding table_agrees_def by blast

lemma int_variable:
  "int_tree E n \<Longrightarrow> node_type n = AST_VAR_REF \<Longrightarrow> \<exists>k v. E (sval n) = Some (k, v) \<and> \<not> long_lit k"
  by (cases n) simp

lemma eval32_variable:
  "node_type n = AST_VAR_REF \<Longrightarrow> eval32 E n = Some w \<Longrightarrow> E (sval n) = Some (k, v) \<Longrightarrow> w = v \<and> in_int v"
  by (cases n) (auto simp: eval32.simps split: if_splits)

lemma const_prop_done:
  assumes tab: "table_agrees E tab" and it: "int_tree E n" and rw: "rw_const_prop tab n = Done m"
  shows "\<exists>v k d. node_type n = AST_VAR_REF \<and> E (sval n) = Some (k, v) \<and> \<not> long_lit d \<and> m = mk_int_lit v d False"
proof -
  from rw obtain e where ty: "node_type n = AST_VAR_REF" and e: "const_prop_lookup tab (sval n) = Some e"
    and m: "m = mk_int_lit (ce_value e) (ce_decl_type e) (ce_is_unsigned e)"
    by (auto simp: rw_const_prop_def split: if_splits option.splits)
  obtain k v where x: "E (sval n) = Some (k, v)" "\<not> long_lit k" using int_variable [OF it ty] by blast
  from lookup_int [OF tab x e] ty x(1) m show ?thesis by auto
qed

lemma const_prop_sound:
  assumes tab: "table_agrees E tab" and it: "int_tree E n" and ev: "eval32 E n = Some v"
    and rw: "rw_const_prop tab n = Done m"
  shows "eval32 E m = Some v"
proof -
  obtain w k d where n: "node_type n = AST_VAR_REF" "E (sval n) = Some (k, w)" "m = mk_int_lit w d False"
    using const_prop_done [OF tab it rw] by blast
  from eval32_variable [OF n(1) ev n(2)] n(3) show ?thesis by (simp add: checked_def)
qed

lemma const_prop_int: "table_agrees E tab \<Longrightarrow> int_tree E n \<Longrightarrow> rw_const_prop tab n = Done m \<Longrightarrow> int_tree E m"
  by (drule const_prop_done, assumption+) auto

lemma rewrite_rules_preserve:
  assumes "table_agrees E tab"
  shows "list_all (value_preserving E) (rewrite_rules tab H)"
proof -
  have "value_preserving E (rw_const_prop tab)"
    by (unfold_locales; (rule const_prop_sound [OF assms] const_prop_int [OF assms]; assumption))
  then show ?thesis
    by (simp add: rewrite_rules_def fold_binary.value_preserving_axioms
        short_circuit.value_preserving_axioms fold_unary.value_preserving_axioms
        double_not.value_preserving_axioms double_neg.value_preserving_axioms
        algebraic.value_preserving_axioms strength.value_preserving_axioms
        boolean.value_preserving_axioms conditional.value_preserving_axioms
        sizeof_type.value_preserving_axioms sizeof_expr.value_preserving_axioms
        cast.value_preserving_axioms)
qed

subsection \<open>The walk\<close>

text \<open>Replacing the operands by operands of the same value keeps the value of a node.\<close>

definition refines :: "env \<Rightarrow> ASTNode option \<Rightarrow> ASTNode option \<Rightarrow> bool" where
  "refines E = rel_option (improves E)"

lemma refines_simps [simp]:
  "refines E None c \<longleftrightarrow> c = None" "refines E (Some n) c \<longleftrightarrow> (\<exists>m. c = Some m \<and> improves E n m)"
  by (cases c; simp add: refines_def)+

lemma improves_value: "improves E n m \<Longrightarrow> eval32 E n = Some v \<Longrightarrow> eval32 E m = Some v"
  by (simp add: improves_def)

lemma improves_trans: "improves E n m \<Longrightarrow> improves E m k \<Longrightarrow> improves E n k"
  by (simp add: improves_def)

text \<open>The operators are monotone: more defined operands give the same defined result.\<close>

lemma logic_sem_mono:
  assumes "\<And>v. A = Some v \<Longrightarrow> A' = Some v" and "\<And>v. B = Some v \<Longrightarrow> B' = Some v"
    and "logic_sem op A B = Some v"
  shows "logic_sem op A' B' = Some v"
proof -
  from assms(3) obtain x where x: "A = Some x" by (auto simp: logic_sem_def bind_eq_Some_conv)
  show ?thesis
  proof (cases B)
    case None
    with assms x show ?thesis by (auto simp: logic_sem_def split: if_split_asm)
  next
    case (Some y)
    with assms x show ?thesis by simp
  qed
qed

lemma eval32_kids_mono:
  assumes kids: "list_all2 (refines E) cs cs'" and ev: "eval32 E (Node i cs) = Some v"
  shows "eval32 E (Node i cs') = Some v"
proof -
  have u: "\<not> is_unsigned i" using eval32_not_unsigned [OF ev] by simp
  show ?thesis
  proof (cases "ntype i")
    case AST_UNARY_OP
    with ev u obtain x a where x: "cs = [Some x]" "eval32 E x = Some a" "unop_sem (text_of i) a = Some v"
      by (auto simp: eval32.simps bind_eq_Some_conv split: list.split_asm option.split_asm)
    with kids obtain y where "cs' = [Some y]" "improves E x y" by (auto simp: list_all2_Cons1)
    with x u AST_UNARY_OP show ?thesis by (simp add: eval32.simps improves_value [of E x y])
  next
    case AST_BINARY_OP
    with ev u obtain l r where lr: "cs = [Some l, Some r]" "logic_sem (text_of i) (eval32 E l) (eval32 E r) = Some v"
      by (auto simp: eval32.simps split: list.split_asm option.split_asm)
    with kids obtain l' r' where new: "cs' = [Some l', Some r']" "improves E l l'" "improves E r r'"
      by (auto simp: list_all2_Cons1)
    have "logic_sem (text_of i) (eval32 E l') (eval32 E r') = Some v"
      using lr(2) by (rule logic_sem_mono [rotated 2]) (rule new(2,3) [THEN improves_value]; assumption)+
    with new(1) u AST_BINARY_OP show ?thesis by (simp add: eval32.simps)
  next
    case AST_CONDITIONAL_EXPR
    with ev u obtain c t e a where cte: "cs = [Some c, Some t, Some e]" "eval32 E c = Some a"
        "(if a \<noteq> 0 then eval32 E t else eval32 E e) = Some v"
      by (auto simp: eval32.simps bind_eq_Some_conv split: list.split_asm option.split_asm)
    with kids obtain c' t' e' where "cs' = [Some c', Some t', Some e']"
        "improves E c c'" "improves E t t'" "improves E e e'"
      by (auto simp: list_all2_Cons1)
    with cte u AST_CONDITIONAL_EXPR show ?thesis
      by (simp add: eval32.simps improves_value split: if_split_asm)
  next
    case AST_CAST
    with ev u obtain x a where x: "cs = [Some x]" "eval32 E x = Some a" "convert_signed (decl_type i) a = Some v"
      by (auto simp: eval32.simps bind_eq_Some_conv split: list.split_asm option.split_asm)
    with kids obtain y where "cs' = [Some y]" "improves E x y" by (auto simp: list_all2_Cons1)
    with x u AST_CAST show ?thesis by (simp add: eval32.simps improves_value [of E x y])
  qed (use ev u in \<open>auto simp: eval32.simps\<close>)
qed

lemma int_kids:
  "list_all2 (refines E) cs cs' \<Longrightarrow> c \<in> set cs' \<Longrightarrow> case c of None \<Rightarrow> True | Some m \<Rightarrow> int_tree E m"
  by (induction cs cs' rule: list_all2_induct) (auto simp: refines_def improves_def elim: option.rel_cases)

lemma node_improves:
  assumes "int_tree E (Node i cs)" and "list_all2 (refines E) cs cs'"
  shows "improves E (Node i cs) (Node i cs')"
  using assms eval32_kids_mono [OF assms(2)] int_kids [OF assms(2)] by (simp add: improves_def)

lemma optimize_expr_improves:
  "table_agrees E tab \<Longrightarrow> int_tree E e \<Longrightarrow> optimize_expr tab H e = Some e' \<Longrightarrow> improves E e e'"
  "table_agrees E tab \<Longrightarrow> \<forall>c \<in> set cs. (case c of None \<Rightarrow> True | Some n \<Rightarrow> int_tree E n) \<Longrightarrow>
     optimize_kids tab H cs = Some cs' \<Longrightarrow> list_all2 (refines E) cs cs'"
proof (induction tab H e and tab H cs arbitrary: e' and cs' rule: optimize_expr_optimize_kids.induct)
  case (1 tab H i cs)
  from "1.prems"(3) obtain cs' where kids: "optimize_kids tab H cs = Some cs'"
    and rw: "first_rewrite (rewrite_rules tab H) (Node i cs') = Some e'"
    by (auto simp: bind_eq_Some_conv)
  have "list_all2 (refines E) cs cs'"
    using "1.prems"(1) _ kids by (rule "1.IH") (use "1.prems"(2) in simp)
  with "1.prems"(2) have step: "improves E (Node i cs) (Node i cs')" by (rule node_improves)
  then have "int_tree E (Node i cs')" by (simp only: improves_def)
  from first_rewrite_improves [OF rewrite_rules_preserve [OF "1.prems"(1)] this rw] step
  show ?case by (blast intro: improves_trans)
next
  case (3 tab H cs)
  then show ?case by (auto simp: bind_eq_Some_conv)
next
  case (4 tab H c cs)
  then show ?case by (auto simp: bind_eq_Some_conv)
qed simp

subsection \<open>Types and values of an expression in int\<close>

lemma fits_int: "\<not> long_lit k \<Longrightarrow> fits k v = checked v"
  by (simp add: fits_def kind_bits_def checked_def in_int_def)

lemma binop_at_int: "binop_at TYPE_INT = binop_sem"
  by (intro ext) (simp add: binop_at_def binop_sem_def fits_int kind_bits_def checked_def)

lemma unop_at_int: "unop_at TYPE_INT = unop_sem"
  by (intro ext) (simp add: unop_at_def unop_sem_def fits_int)

lemma typed_binop_int: "typed_binop op (TYPE_INT, a) (TYPE_INT, b) = map_option (Pair TYPE_INT) (binop_sem op a b)"
  by (cases "binop_sem op a b") (simp_all add: typed_binop_def common_def binop_at_int)

lemma int_common [simp]: "common TYPE_INT TYPE_INT = TYPE_INT" "\<not> long_lit k \<Longrightarrow> promoted k = TYPE_INT"
  by (simp_all add: common_def promoted_def)

lemma type_at_int: "int_tree E n \<Longrightarrow> type_at E n = TYPE_INT"
proof (induction E n rule: type_at.induct)
  case (1 E i cs)
  show ?case
  proof (cases "ntype i = AST_INT_LITERAL \<or> ntype i = AST_CAST \<or> ntype i = AST_VAR_REF")
    case True
    with "1.prems" show ?thesis by (auto simp: type_at.simps)
  next
    case False
    with 1 show ?thesis by (auto simp: type_at.simps split: list.split option.split)
  qed
qed

lemma typed_logic_int:
  assumes "X = map_option (Pair TYPE_INT) A" and "Y = map_option (Pair TYPE_INT) B"
  shows "do { x \<leftarrow> X;
              if op = ''&&'' then
                (if snd x = 0 then Some (TYPE_INT, 0)
                 else do { y \<leftarrow> Y; Some (TYPE_INT, if snd y \<noteq> 0 then 1 else 0) })
              else if op = ''||'' then
                (if snd x \<noteq> 0 then Some (TYPE_INT, 1)
                 else do { y \<leftarrow> Y; Some (TYPE_INT, if snd y \<noteq> 0 then 1 else 0) })
              else do { y \<leftarrow> Y; typed_binop op x y } } =
         map_option (Pair TYPE_INT) (logic_sem op A B)"
  by (cases A; cases B) (simp_all add: assms logic_sem_def of_truth_def typed_binop_int)

lemma typed_cond_int:
  fixes A :: "int option"
  assumes "Y = map_option (Pair k) B" and "Z = map_option (Pair k) D"
  shows "(A \<bind> (\<lambda>a. (if a \<noteq> 0 then Y else Z) \<bind> (\<lambda>y. Some (k, snd y)))) =
         map_option (Pair k) (A \<bind> (\<lambda>a. if a \<noteq> 0 then B else D))"
  by (cases A; cases B; cases D) (simp_all add: assms)

lemma bind_pair_map:
  "(map_option (Pair k) A \<bind> (\<lambda>x. f x)) = (A \<bind> (\<lambda>a. f (k, a)))"
  "(A \<bind> (\<lambda>a. Some (k, a))) = map_option (Pair k) A"
  "(A \<bind> (\<lambda>a. map_option (Pair k) (g a))) = map_option (Pair k) (A \<bind> g)"
  by (cases A; simp)+

lemmas node_value = typed_value.simps eval32.simps bind_pair_map

text \<open>The meaning of a node from the meaning of its operands.\<close>

lemma typed_node_int:
  assumes i: "\<not> is_unsigned i" "\<not> long_lit (decl_type i)"
    and sub: "\<And>n. Some n \<in> set cs \<Longrightarrow> typed_value E n = map_option (Pair TYPE_INT) (eval32 E n)"
    and ty: "\<And>n. Some n \<in> set cs \<Longrightarrow> type_at E n = TYPE_INT"
    and var: "ntype i = AST_VAR_REF \<Longrightarrow> \<exists>k v. E (text_of i) = Some (k, v) \<and> \<not> long_lit k"
  shows "typed_value E (Node i cs) = map_option (Pair TYPE_INT) (eval32 E (Node i cs))"
proof (cases "ntype i")
  case AST_VAR_REF
  with var obtain k v where "E (text_of i) = Some (k, v)" "\<not> long_lit k" by blast
  with AST_VAR_REF i show ?thesis by (simp add: node_value fits_int)
next
  case AST_UNARY_OP
  with i sub show ?thesis
    by (auto simp: node_value unop_at_int split: list.split option.split)
next
  case AST_BINARY_OP
  with i sub show ?thesis
    by (auto simp: typed_value.simps eval32.simps intro!: typed_logic_int split: list.split option.split)
next
  case AST_CONDITIONAL_EXPR
  with i sub ty show ?thesis
    by (auto simp: node_value intro!: typed_cond_int split: list.split option.split)
next
  case AST_CAST
  with i sub show ?thesis by (auto simp: node_value split: list.split option.split)
qed (use i in \<open>simp_all add: node_value fits_int\<close>)

lemma typed_value_int: "int_tree E n \<Longrightarrow> typed_value E n = map_option (Pair TYPE_INT) (eval32 E n)"
proof (induction E n rule: int_tree.induct)
  case (1 E i cs)
  have kid: "int_tree E n" if "Some n \<in> set cs" for n using "1.prems" that by fastforce
  show ?case
    by (rule typed_node_int) (use "1.prems" "1.IH" kid in \<open>auto intro: type_at_int\<close>)
qed

text \<open>
  (C1) Optimizing an expression of type \<^verbatim>\<open>int\<close> keeps its type and its value: for a signed
  expression without \<^verbatim>\<open>sizeof\<close> whose variables, literals and casts are at most as wide as \<^verbatim>\<open>int\<close>, if
  the propagation table holds the values of the environment and C gives the expression a type
  and a value, then it gives the optimized one the same type and value, and the optimized one is
  again such an expression.
\<close>

theorem optimize_expr_preserves_value:
  assumes "table_agrees E tab" and "int_tree E e" and "typed_value E e = Some (k, v)"
    and "optimize_expr tab H e = Some e'"
  shows "typed_value E e' = Some (k, v) \<and> int_tree E e'"
proof -
  have i: "improves E e e'" by (rule optimize_expr_improves(1) [OF assms(1,2,4)])
  then have it: "int_tree E e'" by (simp add: improves_def)
  from i assms(3) show ?thesis
    unfolding typed_value_int [OF assms(2)] typed_value_int [OF it] improves_def by auto
qed

text \<open>A sample: \<^verbatim>\<open>(n * 8 + x) - 0\<close> where \<^verbatim>\<open>n\<close> is a constant 5 and \<^verbatim>\<open>x\<close> a variable.\<close>

definition leaf :: "ASTNodeType \<Rightarrow> string \<Rightarrow> ASTNode" where
  "leaf ty s = ast_new ty (Some s)"

definition binary :: "string \<Rightarrow> ASTNode \<Rightarrow> ASTNode \<Rightarrow> ASTNode" where
  "binary op l r = Node (info (ast_new AST_BINARY_OP (Some op))) [Some l, Some r]"

definition sample_env :: env where
  "sample_env s = (if s = ''n'' then Some (TYPE_INT, 5) else if s = ''x'' then Some (TYPE_CHAR, 2) else None)"

definition sample_table :: const_table where
  "sample_table = [\<lparr>ce_name = ''n'', ce_value = 5, ce_decl_type = TYPE_INT, ce_is_unsigned = False\<rparr>]"

definition sample_expr :: ASTNode where
  "sample_expr = binary ''-''
     (binary ''+'' (binary ''*'' (leaf AST_VAR_REF ''n'') (leaf AST_INT_LITERAL ''8'')) (leaf AST_VAR_REF ''x''))
     (leaf AST_INT_LITERAL ''0'')"

lemma sample_table_agrees: "table_agrees sample_env sample_table"
  by (simp add: table_agrees_def sample_env_def sample_table_def const_prop_lookup_def)

lemma sample_expr_value: "typed_value sample_env sample_expr = Some (TYPE_INT, 42)"
  by code_simp

lemma sample_expr_optimized:
  "optimize_expr sample_table [] sample_expr =
     Some (binary ''+'' (mk_int_lit 40 TYPE_INT False) (leaf AST_VAR_REF ''x''))"
  by code_simp

lemma sample_expr_int: "int_tree sample_env sample_expr"
  by (simp add: sample_expr_def binary_def leaf_def ast_new_def zero_info_def sample_env_def text_of_def long_lit_def)

theorem optimize_expr_preserves_value_witness:
  "typed_value sample_env (binary ''+'' (mk_int_lit 40 TYPE_INT False) (leaf AST_VAR_REF ''x'')) = Some (TYPE_INT, 42)"
  using optimize_expr_preserves_value [OF sample_table_agrees sample_expr_int sample_expr_value sample_expr_optimized]
  by simp

end
