(* ===== verification/Optimize_Stmt.thy ===== *)
theory Optimize_Stmt
  imports Optimize_Sem "HOL-Library.Multiset" "HOL-Library.Sublist"
begin

section \<open>What the optimizer does to statements\<close>

text \<open>
  Facts about whole functions and translation units: nothing but the nodes the pass makes
  itself is ever duplicated, constants recorded in a block are forgotten at its end, the
  labels of a block survive and no dead sibling does, and the pass always finishes on
  code without division.
\<close>

subsection \<open>No node is duplicated\<close>

text \<open>
  The texts of the nodes of one kind in a tree, with multiplicity. Only integer literals,
  binary operators, empty blocks and expression statements are made by the pass itself.
\<close>


fun nodes_of :: "ASTNodeType \<Rightarrow> ASTNode \<Rightarrow> string multiset"
and nodes_in :: "ASTNodeType \<Rightarrow> ASTNode option list \<Rightarrow> string multiset" where
  "nodes_of K (Node i cs) = (if ntype i = K then {#text_of i#} else {#}) + nodes_in K cs"
| "nodes_in K [] = {#}"
| "nodes_in K (None # cs) = nodes_in K cs"
| "nodes_in K (Some c # cs) = nodes_of K c + nodes_in K cs"

definition synthetic :: "ASTNodeType set" where
  "synthetic = {AST_INT_LITERAL, AST_BINARY_OP, AST_BLOCK, AST_EXPRESSION_STMT}"

lemma nodes_in_append [simp]: "nodes_in K (as @ bs) = nodes_in K as + nodes_in K bs"
  by (induction K as rule: nodes_of_nodes_in.induct(2)) (simp_all add: ac_simps)

lemma nodes_of_mk_int_lit [simp]: "K \<noteq> AST_INT_LITERAL \<Longrightarrow> nodes_of K (mk_int_lit v k u) = {#}"
  by (simp add: mk_int_lit_def ast_new_def)

lemma nodes_of_kids: "nodes_of K n = (if node_type n = K then {#sval n#} else {#}) + nodes_in K (children n)"
  by (cases n) (simp add: sval_def)

lemma nodes_of_binary_kids:
  "binary_kids n = Some (l, r) \<Longrightarrow> K \<notin> synthetic \<Longrightarrow> nodes_of K n = nodes_of K l + nodes_of K r"
  by (cases n) (auto simp: binary_kids_def synthetic_def split: if_split_asm list.split_asm option.split_asm)

lemma nodes_of_unary_kid: "unary_kid n = Some x \<Longrightarrow> nodes_of K x \<subseteq># nodes_of K n"
  by (cases n) (auto simp: unary_kid_def split: if_split_asm list.split_asm option.split_asm)

lemma nodes_of_doubled: "doubled op n = Some x \<Longrightarrow> nodes_of K x \<subseteq># nodes_of K n"
  by (auto simp: doubled_def split: option.split_asm if_split_asm
      intro: subset_mset.order_trans [OF nodes_of_unary_kid nodes_of_unary_kid])

definition never_copies :: "ASTNodeType \<Rightarrow> (ASTNode \<Rightarrow> rewrite) \<Rightarrow> bool" where
  "never_copies K rw \<longleftrightarrow> (\<forall>n m. rw n = Done m \<longrightarrow> nodes_of K m \<subseteq># nodes_of K n)"

lemma never_copiesI: "(\<And>n m. rw n = Done m \<Longrightarrow> nodes_of K m \<subseteq># nodes_of K n) \<Longrightarrow> never_copies K rw"
  by (simp add: never_copies_def)

lemma synthetic_simps: "K \<notin> synthetic \<Longrightarrow> K \<noteq> AST_INT_LITERAL" "K \<notin> synthetic \<Longrightarrow> K \<noteq> AST_BINARY_OP"
   "K \<notin> synthetic \<Longrightarrow> K \<noteq> AST_BLOCK" "K \<notin> synthetic \<Longrightarrow> K \<noteq> AST_EXPRESSION_STMT"
  by (auto simp: synthetic_def)

lemma never_copies_folds:
  assumes "K \<notin> synthetic"
  shows "never_copies K rw_fold_binary" "never_copies K rw_short_circuit" "never_copies K rw_fold_unary"
  using synthetic_simps(1) [OF assms]
  by (auto simp: never_copies_def rw_fold_binary_def rw_short_circuit_def rw_fold_unary_def Let_def
      split: option.split_asm if_split_asm fold_val.split_asm)

lemma never_copies_doubled:
  assumes "K \<notin> synthetic"
  shows "never_copies K rw_double_not" "never_copies K rw_double_neg"
  using synthetic_simps(1,2) [OF assms] nodes_of_doubled [of "''!''" _ _ K] nodes_of_doubled [of "''-''" _ _ K]
  by (auto simp: never_copies_def rw_double_not_def rw_double_neg_def nodes_of_kids [of K "ast_add_child n c" for n c]
      ast_new_def zero_info_def ast_add_child_def Let_def split: option.split_asm)

lemma never_copies_algebraic:
  assumes "K \<notin> synthetic"
  shows "never_copies K rw_algebraic"
proof (rule never_copiesI)
  fix n m assume "rw_algebraic n = Done m"
  then obtain l r where kids: "binary_kids n = Some (l, r)"
    and "identity_operand (sval n) l r = Some m \<or> zero_operand (sval n) l r = Some m"
    by (auto simp: rw_algebraic_def split: option.splits)
  then have "m = l \<or> m = r \<or> (\<exists>k u. m = mk_int_lit 0 k u)"
    by (auto simp: identity_operand_def zero_operand_def zero_like_def split: if_split_asm)
  with nodes_of_binary_kids [OF kids assms] synthetic_simps(1) [OF assms]
  show "nodes_of K m \<subseteq># nodes_of K n" by auto
qed

lemma nodes_of_rebuilt:
  assumes "K \<notin> synthetic" and "binary_kids n = Some (l, r)"
  shows "ntype i = ntype (info n) \<Longrightarrow> nodes_of K (Node i cs) = nodes_in K cs"
  using assms by (auto simp: binary_kids_def synthetic_def split: if_split_asm)

lemma never_copies_strength:
  assumes "K \<notin> synthetic"
  shows "never_copies K rw_strength"
proof (rule never_copiesI)
  fix n m assume "rw_strength n = Done m"
  then obtain l r s x y where kids: "binary_kids n = Some (l, r)"
    and m: "m = with_value n s [Some x, Some (shift_lit y)]" and x: "x = l \<or> x = r"
    by (auto simp: rw_strength_def split: option.split_asm if_split_asm)
  have "nodes_of K m = nodes_of K x"
    using synthetic_simps(1) [OF assms] by (simp add: m with_value_def shift_lit_def nodes_of_rebuilt [OF assms kids] del: nodes_of.simps)
  with x nodes_of_binary_kids [OF kids assms] show "nodes_of K m \<subseteq># nodes_of K n" by auto
qed

lemma never_copies_boolean:
  assumes "K \<notin> synthetic"
  shows "never_copies K rw_boolean"
proof (rule never_copiesI)
  fix n m assume rw: "rw_boolean n = Done m"
  then obtain l r where kids: "binary_kids n = Some (l, r)"
    by (auto simp: rw_boolean_def split: option.split_asm)
  show "nodes_of K m \<subseteq># nodes_of K n"
    using rw kids synthetic_simps(1,2) [OF assms] nodes_of_binary_kids [OF kids assms] binary_kids_type [OF kids]
    by (auto simp: rw_boolean_def Let_def split: if_split_asm)
qed

lemma never_copies_others:
  assumes "K \<notin> synthetic"
  shows "never_copies K (rw_sizeof_type H)" "never_copies K rw_sizeof_expr"
    "never_copies K rw_cast" "never_copies K (rw_const_prop tab)"
  using synthetic_simps(1) [OF assms]
  by (auto simp: never_copies_def rw_sizeof_type_def rw_sizeof_expr_def rw_cast_def
      rw_const_prop_def make_sizeof_literal_def
      split: option.split_asm if_split_asm list.split_asm)

lemma never_copies_conditional: "never_copies K rw_conditional"
proof (rule never_copiesI)
  fix n m assume "rw_conditional n = Done m"
  then obtain c t e where "children n = [Some c, Some t, Some e]" "m = t \<or> m = e"
    by (auto simp: rw_conditional_def split: if_split_asm list.split_asm option.split_asm)
  then show "nodes_of K m \<subseteq># nodes_of K n"
    by (auto simp: nodes_of_kids [of K n] subseteq_mset_def)
qed

lemma first_rewrite_nodes:
  "list_all (never_copies K) rws \<Longrightarrow> first_rewrite rws n = Some m \<Longrightarrow> nodes_of K m \<subseteq># nodes_of K n"
  by (induction rws) (auto simp: never_copies_def split: rewrite.split_asm)

lemma optimize_expr_nodes:
  "K \<notin> synthetic \<Longrightarrow> optimize_expr tab H e = Some e' \<Longrightarrow> nodes_of K e' \<subseteq># nodes_of K e"
  "K \<notin> synthetic \<Longrightarrow> optimize_kids tab H cs = Some cs' \<Longrightarrow> nodes_in K cs' \<subseteq># nodes_in K cs"
proof (induction tab H e and tab H cs arbitrary: e' and cs' rule: optimize_expr_optimize_kids.induct)
  case (1 tab H i cs)
  from "1.prems"(2) obtain cs' where kids: "optimize_kids tab H cs = Some cs'"
    and rw: "first_rewrite (rewrite_rules tab H) (Node i cs') = Some e'"
    by (auto simp: bind_eq_Some_conv)
  have "list_all (never_copies K) (rewrite_rules tab H)"
    by (simp add: rewrite_rules_def never_copies_folds never_copies_doubled never_copies_algebraic
        never_copies_strength never_copies_boolean never_copies_others never_copies_conditional "1.prems"(1))
  from first_rewrite_nodes [OF this rw] "1.IH" [OF "1.prems"(1) kids]
  show ?case by (auto elim: subset_mset.order_trans)
next
  case (3 tab H cs)
  then show ?case by (auto simp: bind_eq_Some_conv)
next
  case (4 tab H c cs)
  from "4.prems"(2) obtain c' ks where c: "optimize_expr tab H c = Some c'"
    and ks: "optimize_kids tab H cs = Some ks" "cs' = Some c' # ks"
    by (auto simp: bind_eq_Some_conv)
  from "4.IH"(1) [OF "4.prems"(1) c] "4.IH"(2) [OF c "4.prems"(1) ks(1)]
  show ?case by (simp add: ks(2) subset_mset.add_mono)
qed simp


lemma optimize_child_nodes:
  "K \<notin> synthetic \<Longrightarrow> optimize_child tab H c = Some c' \<Longrightarrow> nodes_in K [c'] \<subseteq># nodes_in K [c]"
  by (auto simp: optimize_child_def bind_eq_Some_conv dest: optimize_expr_nodes(1) split: option.split_asm)

lemma nodes_in_Cons: "nodes_in K (c # cs) = nodes_in K [c] + nodes_in K cs"
  by (cases c) simp_all

lemma optimize_first_nodes:
  assumes "K \<notin> synthetic" and "optimize_first tab H cs = Some cs'"
  shows "nodes_in K cs' \<subseteq># nodes_in K cs"
proof (cases cs)
  case Nil
  with assms show ?thesis by (simp add: optimize_first_def)
next
  case (Cons c rest)
  with assms(2) obtain c' where c': "optimize_child tab H c = Some c'" and cs': "cs' = c' # rest"
    by (auto simp: optimize_first_def bind_eq_Some_conv)
  from optimize_child_nodes [OF assms(1) c'] show ?thesis
    unfolding Cons cs' nodes_in_Cons [of K _ rest] by simp
qed

lemma nodes_in_drop_dead: "nodes_in K (drop_dead cs) \<subseteq># nodes_in K cs"
  by (induction cs rule: drop_dead.induct) (auto intro: subset_mset.add_increasing)

lemma nodes_of_empty_block: "K \<notin> synthetic \<Longrightarrow> nodes_of K empty_block = {#}"
  by (simp add: empty_block_def ast_new_def synthetic_simps(3) [symmetric])

lemma nodes_of_sub: "Some m \<in> set (children n) \<Longrightarrow> nodes_of K m \<subseteq># nodes_of K n"
proof (cases n)
  case (Node i cs)
  assume "Some m \<in> set (children n)"
  with Node obtain as bs where "cs = as @ Some m # bs" by (auto dest: split_list)
  with Node show ?thesis by (auto simp: nodes_of_kids subseteq_mset_def)
qed

lemma fold_branches_nodes:
  assumes "K \<notin> synthetic"
  shows "nodes_of K (fold_if n) \<subseteq># nodes_of K n" "nodes_of K (fold_while n) \<subseteq># nodes_of K n"
    "nodes_of K (fold_for n) \<subseteq># nodes_of K n"
  using nodes_of_empty_block [OF assms] synthetic_simps(4) [OF assms] nodes_of_sub [of _ n K]
  by (auto simp: fold_if_def fold_while_def fold_for_def ast_add_child_def ast_new_def Let_def
      split: list.split option.split)

subsection \<open>The walk over statements as a relation\<close>

text \<open>
  One rule per way \<^const>\<open>optimize_stmt\<close> treats a statement, so that invariants follow by rule
  induction.
\<close>


inductive stmt_opt :: "type_heap \<Rightarrow> const_table \<Rightarrow> ASTNode \<Rightarrow> ASTNode \<Rightarrow> const_table \<Rightarrow> bool"
and stmts_opt :: "type_heap \<Rightarrow> const_table \<Rightarrow> ASTNode option list \<Rightarrow> ASTNode option list \<Rightarrow> const_table \<Rightarrow> bool"
and block_opt :: "type_heap \<Rightarrow> const_table \<Rightarrow> ASTNode option list \<Rightarrow> ASTNode option list \<Rightarrow> const_table \<Rightarrow> bool"
for H where
  Block: "ntype i = AST_BLOCK \<Longrightarrow> block_opt H tab cs cs' tab' \<Longrightarrow>
     stmt_opt H tab (Node i cs) (Node i cs') (take (length tab) tab')"
| Head: "ntype i \<in> {AST_IF_STATEMENT, AST_WHILE_STATEMENT, AST_SWITCH_STATEMENT} \<Longrightarrow>
     f \<in> {fold_if, fold_while, id} \<Longrightarrow>
     optimize_child tab H c = Some c' \<Longrightarrow> stmts_opt H tab body body' tab' \<Longrightarrow>
     stmt_opt H tab (Node i (c # body)) (f (Node i (c' # body'))) tab'"
| Do: "ntype i = AST_DO_WHILE_STATEMENT \<Longrightarrow>
     stmts_opt H tab [body] body' tab' \<Longrightarrow> optimize_child tab' H c = Some c' \<Longrightarrow>
     stmt_opt H tab (Node i [body, c]) (Node i (body' @ [c'])) tab'"
| For: "ntype i = AST_FOR_STATEMENT \<Longrightarrow>
     stmts_opt H tab [ini] ini' tab1 \<Longrightarrow> optimize_child tab1 H c = Some c' \<Longrightarrow>
     optimize_child tab1 H upd = Some upd' \<Longrightarrow> stmts_opt H tab1 [body] body' tab2 \<Longrightarrow>
     stmt_opt H tab (Node i [ini, c, upd, body]) (fold_for (Node i (ini' @ c' # upd' # body'))) tab2"
| First: "ntype i \<in> {AST_RETURN_STATEMENT, AST_EXPRESSION_STMT, AST_DECLARATION} \<Longrightarrow>
     optimize_first tab H cs = Some cs' \<Longrightarrow> tab' \<in> {tab, record_const tab (Node i cs')} \<Longrightarrow>
     stmt_opt H tab (Node i cs) (Node i cs') tab'"
| Labelled: "ntype i \<in> {AST_LABEL_STATEMENT, AST_CASE_SECTION, AST_DEFAULT_SECTION} \<Longrightarrow>
     stmts_opt H tab cs cs' tab' \<Longrightarrow> stmt_opt H tab (Node i cs) (Node i cs') tab'"
| Leave: "stmt_opt H tab n n tab"
| Kids: "\<not> is_label_stmt (Node i cs) \<Longrightarrow> \<not> is_terminal_stmt (Node i cs) \<Longrightarrow> optimize_kids tab H cs = Some cs' \<Longrightarrow>
     stmt_opt H tab (Node i cs) (Node i cs') tab"
| Stmts_Nil: "stmts_opt H tab [] [] tab"
| Stmts_None: "stmts_opt H tab cs cs' tab' \<Longrightarrow> stmts_opt H tab (None # cs) (None # cs') tab'"
| Stmts_Some: "stmt_opt H tab c c' tab1 \<Longrightarrow> stmts_opt H tab1 cs cs' tab2 \<Longrightarrow>
     stmts_opt H tab (Some c # cs) (Some c' # cs') tab2"
| Block_Nil: "block_opt H tab [] [] tab"
| Block_None: "block_opt H tab cs cs' tab' \<Longrightarrow> block_opt H tab (None # cs) (None # cs') tab'"
| Block_Some: "stmt_opt H tab c c' tab1 \<Longrightarrow>
     block_opt H tab1 (if is_terminal_stmt c' then drop_dead cs else cs) cs' tab2 \<Longrightarrow>
     block_opt H tab (Some c # cs) (Some c' # cs') tab2"

lemma Head_if: "ntype i = AST_IF_STATEMENT \<Longrightarrow> optimize_child tab H c = Some c' \<Longrightarrow>
    stmts_opt H tab body body' tab' \<Longrightarrow> stmt_opt H tab (Node i (c # body)) (fold_if (Node i (c' # body'))) tab'"
  by (rule Head) simp_all

lemma Head_while: "ntype i = AST_WHILE_STATEMENT \<Longrightarrow> optimize_child tab H c = Some c' \<Longrightarrow>
    stmts_opt H tab body body' tab' \<Longrightarrow> stmt_opt H tab (Node i (c # body)) (fold_while (Node i (c' # body'))) tab'"
  by (rule Head) simp_all

lemma Head_switch: "ntype i = AST_SWITCH_STATEMENT \<Longrightarrow> optimize_child tab H c = Some c' \<Longrightarrow>
    stmts_opt H tab body body' tab' \<Longrightarrow> stmt_opt H tab (Node i (c # body)) (Node i (c' # body')) tab'"
  using Head [of i id] by simp

lemma case_four_default:
  "\<nexists>a b c d. xs = [a, b, c, d] \<Longrightarrow> (case xs of [a, b, c, d] \<Rightarrow> f a b c d | _ \<Rightarrow> z) = z"
  by (auto split: list.split)

lemma optimize_stmt_graph:
  "optimize_stmt H tab n = Some (n', tab') \<Longrightarrow> stmt_opt H tab n n' tab'"
  "optimize_stmts H tab cs = Some (cs', tab') \<Longrightarrow> stmts_opt H tab cs cs' tab'"
  "optimize_block H tab bs = Some (bs', tab') \<Longrightarrow> block_opt H tab bs bs' tab'"
proof (induction H tab n and H tab cs and H tab bs arbitrary: n' tab' and cs' tab' and bs' tab'
    rule: optimize_stmt_optimize_stmts_optimize_block.induct)
  case (1 H tab i cs)
  note run = "1.prems"
  show ?case
  proof (cases "ntype i")
    case AST_BLOCK
    with run obtain cs' t where "optimize_block H tab cs = Some (cs', t)" "n' = Node i cs'" "tab' = take (length tab) t"
      by (auto simp: bind_eq_Some_conv)
    with AST_BLOCK show ?thesis using "1.IH"(1) by (auto intro: Block)
  next
    case AST_IF_STATEMENT
    with run show ?thesis using "1.IH"(2)
      by (auto simp: bind_eq_Some_conv split: list.split_asm intro: Leave Head_if)
  next
    case AST_WHILE_STATEMENT
    with run show ?thesis using "1.IH"(3)
      by (auto simp: bind_eq_Some_conv split: list.split_asm intro: Leave Head_while)
  next
    case AST_DO_WHILE_STATEMENT
    with run show ?thesis using "1.IH"(4)
      by (auto simp: bind_eq_Some_conv split: list.split_asm intro: Leave Do)
  next
    case AST_FOR_STATEMENT
    show ?thesis
    proof (cases "\<exists>ini c upd body. cs = [ini, c, upd, body]")
      case True
      then obtain ini c upd body where cs: "cs = [ini, c, upd, body]" by blast
      with run AST_FOR_STATEMENT obtain ini' tab1 c' upd' body' where
          s: "optimize_stmts H tab [ini] = Some (ini', tab1)" "optimize_child tab1 H c = Some c'"
            "optimize_child tab1 H upd = Some upd'" "optimize_stmts H tab1 [body] = Some (body', tab')"
            "n' = fold_for (Node i (ini' @ c' # upd' # body'))"
        by (auto simp: bind_eq_Some_conv)
      have "stmts_opt H tab [ini] ini' tab1" "stmts_opt H tab1 [body] body' tab'"
        using "1.IH"(5,6) AST_FOR_STATEMENT cs s by simp_all
      with AST_FOR_STATEMENT cs s show ?thesis by (auto intro: For)
    next
      case False
      then have "n' = Node i cs" "tab' = tab"
        using AST_FOR_STATEMENT run by (simp_all add: case_four_default)
      then show ?thesis by (simp add: Leave)
    qed
  next
    case AST_SWITCH_STATEMENT
    with run show ?thesis using "1.IH"(7)
      by (auto simp: bind_eq_Some_conv split: list.split_asm intro: Leave Head_switch)
  next
    case AST_LABEL_STATEMENT
    with run show ?thesis using "1.IH"(8) by (auto simp: bind_eq_Some_conv intro: Labelled)
  next
    case AST_CASE_SECTION
    with run show ?thesis using "1.IH"(8) by (auto simp: bind_eq_Some_conv intro: Labelled)
  next
    case AST_DEFAULT_SECTION
    with run show ?thesis using "1.IH"(8) by (auto simp: bind_eq_Some_conv intro: Labelled)
  qed (use run in \<open>auto simp: bind_eq_Some_conv is_label_stmt_def is_terminal_stmt_def intro: First Leave Kids\<close>)
next
  case (4 H tab c cs)
  then show ?case by (auto simp: bind_eq_Some_conv intro: Stmts_Some)
next
  case (7 H tab c cs)
  then show ?case by (auto simp: bind_eq_Some_conv intro: Block_Some)
qed (auto simp: bind_eq_Some_conv intro: stmt_opt_stmts_opt_block_opt.intros)


lemma stmt_opt_nodes:
  assumes K: "K \<notin> synthetic"
  shows "stmt_opt H tab n n' tab' \<Longrightarrow> nodes_of K n' \<subseteq># nodes_of K n"
    "stmts_opt H tab cs cs' tab' \<Longrightarrow> nodes_in K cs' \<subseteq># nodes_in K cs"
    "block_opt H tab bs bs' tab' \<Longrightarrow> nodes_in K bs' \<subseteq># nodes_in K bs"
proof (induction rule: stmt_opt_stmts_opt_block_opt.inducts)
  case (Head i f tab c c' body body' tab')
  have "nodes_in K (c' # body') \<subseteq># nodes_in K (c # body)"
    unfolding nodes_in_Cons [of K _ body] nodes_in_Cons [of K _ body']
    using optimize_child_nodes [OF K Head(3)] Head(5) by (rule subset_mset.add_mono)
  then have "nodes_of K (Node i (c' # body')) \<subseteq># nodes_of K (Node i (c # body))" by simp
  moreover have "nodes_of K (f (Node i (c' # body'))) \<subseteq># nodes_of K (Node i (c' # body'))"
    using Head(2) fold_branches_nodes [OF K, of "Node i (c' # body')"] by (elim insertE) (simp_all del: nodes_of.simps)
  ultimately show ?case by (rule subset_mset.order_trans [rotated])
next
  case (Do i tab body body' tab' c c')
  have "nodes_in K (body' @ [c']) \<subseteq># nodes_in K [body, c]"
    unfolding nodes_in_append nodes_in_Cons [of K body "[c]"]
    using Do(3) optimize_child_nodes [OF K Do(4)] by (rule subset_mset.add_mono)
  then show ?case by simp
next
  case (For i tab ini ini' tab1 c c' upd upd' body body' tab2)
  have "nodes_in K ini' + (nodes_in K [c'] + (nodes_in K [upd'] + nodes_in K body')) \<subseteq>#
      nodes_in K [ini] + (nodes_in K [c] + (nodes_in K [upd] + nodes_in K [body]))"
    using For(3,7) optimize_child_nodes [OF K For(4)] optimize_child_nodes [OF K For(5)]
    by (intro subset_mset.add_mono)
  then have "nodes_in K (ini' @ c' # upd' # body') \<subseteq># nodes_in K [ini, c, upd, body]"
    by (simp only: nodes_in_append nodes_in_Cons [of K _ "_ # _"] nodes_in_Cons [of K _ body'])
  then have "nodes_of K (Node i (ini' @ c' # upd' # body')) \<subseteq># nodes_of K (Node i [ini, c, upd, body])" by simp
  then show ?case by (rule subset_mset.order_trans [OF fold_branches_nodes(3) [OF K]])
next
  case (Block_Some tab c c' tab1 cs cs' tab2)
  have "nodes_in K cs' \<subseteq># nodes_in K cs"
    using Block_Some(4) nodes_in_drop_dead [of K cs] by (simp split: if_split_asm)
  with Block_Some(2) show ?case by (simp add: subset_mset.add_mono)
next
  case (First i tab cs cs' tab')
  then show ?case by (simp add: optimize_first_nodes [OF K])
next
  case (Kids i cs tab cs')
  then show ?case by (simp add: optimize_expr_nodes(2) [OF K])
qed (simp_all add: subset_mset.add_mono)

lemma record_const_cases: "record_const tab n = tab \<or> (\<exists>e. record_const tab n = tab @ [e] \<and> length tab < CONST_PROP_MAX)"
  by (auto simp: record_const_def split: list.split option.split)

lemma stmt_opt_table:
  "stmt_opt H tab n n' tab' \<Longrightarrow> \<exists>ext. tab' = tab @ ext \<and> (ext = [] \<or> length tab' \<le> CONST_PROP_MAX)"
  "stmts_opt H tab cs cs' tab' \<Longrightarrow> \<exists>ext. tab' = tab @ ext \<and> (ext = [] \<or> length tab' \<le> CONST_PROP_MAX)"
  "block_opt H tab bs bs' tab' \<Longrightarrow> \<exists>ext. tab' = tab @ ext \<and> (ext = [] \<or> length tab' \<le> CONST_PROP_MAX)"
proof (induction rule: stmt_opt_stmts_opt_block_opt.inducts)
  case (First i tab cs cs' tab')
  then show ?case using record_const_cases [of tab "Node i cs'"] by auto
qed auto

lemma stmt_opt_label:
  "stmt_opt H tab n n' tab' \<Longrightarrow> is_label_stmt n \<Longrightarrow> is_label_stmt n' \<and> sval n' = sval n"
  by (erule stmt_opt.cases) (auto simp: is_label_stmt_def)

fun direct_labels :: "ASTNode option list \<Rightarrow> string list" where
  "direct_labels [] = []"
| "direct_labels (Some c # cs) = (if is_label_stmt c then sval c # direct_labels cs else direct_labels cs)"
| "direct_labels (None # cs) = direct_labels cs"

lemma direct_labels_drop_dead [simp]: "direct_labels (drop_dead cs) = direct_labels cs"
  by (induction cs rule: drop_dead.induct) simp_all

lemma block_opt_labels:
  "stmt_opt H tab n n' tab' \<Longrightarrow> True" "stmts_opt H tab cs cs' tab' \<Longrightarrow> True"
  "block_opt H tab bs bs' tab' \<Longrightarrow> subseq (direct_labels bs) (direct_labels bs')"
proof (induction rule: stmt_opt_stmts_opt_block_opt.inducts)
  case (Block_Some tab c c' tab1 cs cs' tab2)
  then show ?case using stmt_opt_label [OF Block_Some(1)] by (auto split: if_split_asm)
qed auto

fun no_dead :: "ASTNode option list \<Rightarrow> bool" where
  "no_dead (Some a # Some b # cs) \<longleftrightarrow> (is_terminal_stmt a \<longrightarrow> is_label_stmt b) \<and> no_dead (Some b # cs)"
| "no_dead (_ # cs) \<longleftrightarrow> no_dead cs"
| "no_dead [] \<longleftrightarrow> True"

lemma drop_dead_head: "drop_dead cs = Some c # rest \<Longrightarrow> is_label_stmt c"
  by (induction cs rule: drop_dead.induct) (auto split: if_split_asm)

lemma block_opt_head:
  "block_opt H tab (drop_dead bs) (Some c' # rest) tab' \<Longrightarrow> is_label_stmt c'"
  by (erule block_opt.cases) (auto dest: drop_dead_head stmt_opt_label)

lemma no_dead_Cons:
  "no_dead (Some a # cs) \<longleftrightarrow> no_dead cs \<and> (is_terminal_stmt a \<longrightarrow> (case cs of Some b # _ \<Rightarrow> is_label_stmt b | _ \<Rightarrow> True))"
  by (cases "(Some a # cs)" rule: no_dead.cases) auto

lemma block_opt_no_dead:
  "stmt_opt H tab n n' tab' \<Longrightarrow> True" "stmts_opt H tab cs cs' tab' \<Longrightarrow> True"
  "block_opt H tab bs bs' tab' \<Longrightarrow> no_dead bs'"
proof (induction rule: stmt_opt_stmts_opt_block_opt.inducts)
  case (Block_Some tab c c' tab1 cs cs' tab2)
  then show ?case 
    by (auto simp: no_dead_Cons dest: block_opt_head split: list.split option.split)
qed auto

subsection \<open>Functions and translation units\<close>

lemma optimize_function_nodes:
  assumes K: "K \<notin> synthetic" and run: "optimize_function H d = Some d'"
  shows "nodes_of K d' \<subseteq># nodes_of K d"
proof (cases "d' = d")
  case False
  then obtain b b' tab where ne: "children d \<noteq> []" and last: "last (children d) = Some b"
    and b': "optimize_stmt H [] b = Some (b', tab)"
    and d': "d' = Node (info d) (butlast (children d) @ [Some b'])"
    using run by (auto simp: optimize_function_def bind_eq_Some_conv split: if_split_asm option.split_asm)
  have "nodes_of K b' \<subseteq># nodes_of K b"
    by (rule stmt_opt_nodes(1) [OF K optimize_stmt_graph(1) [OF b']])
  moreover have "children d = butlast (children d) @ [Some b]"
    using append_butlast_last_id [OF ne] last by simp
  then have "nodes_in K (children d) = nodes_in K (butlast (children d) @ [Some b])"
    by (rule arg_cong)
  then have "nodes_in K (children d) = nodes_in K (butlast (children d)) + nodes_of K b" by simp
  ultimately show ?thesis by (simp add: d' nodes_of_kids [of K d] sval_def)
qed simp

lemma optimize_decls_nodes:
  "K \<notin> synthetic \<Longrightarrow> optimize_decls H ds = Some ds' \<Longrightarrow> nodes_in K ds' \<subseteq># nodes_in K ds"
proof (induction H ds arbitrary: ds' rule: optimize_decls.induct)
  case (3 H d ds)
  then obtain d' rest where "optimize_function H d = Some d'" "optimize_decls H ds = Some rest"
    "ds' = Some d' # rest" by (auto simp: bind_eq_Some_conv)
  with 3 show ?case by (simp add: optimize_function_nodes subset_mset.add_mono)
qed (auto simp: bind_eq_Some_conv)

text \<open>
  (C4) Optimizing a translation unit, at any level, invents and duplicates nothing: for every
  kind of node except those the pass makes itself (literals, binary operators, blocks,
  expression statements), the nodes of that kind, with their texts and multiplicities,
  are among those of the input. So no call, assignment, increment, label, declaration or
  jump is executed twice or out of nowhere because of the optimizer.
\<close>

theorem optimizer_duplicates_nothing:
  assumes "K \<notin> {AST_INT_LITERAL, AST_BINARY_OP, AST_BLOCK, AST_EXPRESSION_STMT}"
    and "optimize_translation_unit H root opt_level = Some root'"
  shows "nodes_of K root' \<subseteq># nodes_of K root"
proof -
  have K: "K \<notin> synthetic" using assms(1) by (simp add: synthetic_def)
  show ?thesis using assms(2) optimize_decls_nodes [OF K]
    by (cases root) (auto simp: optimize_translation_unit_def bind_eq_Some_conv split: if_split_asm)
qed

text \<open>A sample: a function whose block is \<^verbatim>\<open>return f(1 + 2); g(3); out: return 0;\<close>.\<close>

definition branch :: "ASTNodeType \<Rightarrow> string \<Rightarrow> ASTNode list \<Rightarrow> ASTNode" where
  "branch ty s ns = Node (info (ast_new ty (Some s))) (map Some ns)"

definition sample_return :: ASTNode where
  "sample_return = branch AST_RETURN_STATEMENT [] [branch AST_FUNCTION_CALL ''f''
     [binary ''+'' (leaf AST_INT_LITERAL ''1'') (leaf AST_INT_LITERAL ''2'')]]"

definition sample_label :: ASTNode where
  "sample_label = branch AST_LABEL_STATEMENT ''out'' [branch AST_RETURN_STATEMENT [] [leaf AST_INT_LITERAL ''0'']]"

definition sample_dead :: ASTNode where
  "sample_dead = branch AST_EXPRESSION_STMT [] [branch AST_FUNCTION_CALL ''g'' [leaf AST_INT_LITERAL ''3'']]"

definition sample_block :: ASTNode where
  "sample_block = branch AST_BLOCK [] [sample_return, sample_dead, sample_label]"

definition sample_unit :: ASTNode where
  "sample_unit = branch AST_TRANSLATION_UNIT [] [branch AST_FUNCTION_DECL ''main'' [sample_block]]"

definition sample_block_optimized :: ASTNode where
  "sample_block_optimized = branch AST_BLOCK []
     [branch AST_RETURN_STATEMENT [] [branch AST_FUNCTION_CALL ''f'' [mk_int_lit 3 TYPE_VOID False]], sample_label]"

definition sample_unit_optimized :: ASTNode where
  "sample_unit_optimized = branch AST_TRANSLATION_UNIT [] [branch AST_FUNCTION_DECL ''main'' [sample_block_optimized]]"

lemma sample_block_run: "optimize_stmt [] sample_table sample_block = Some (sample_block_optimized, sample_table)"
  by code_simp

lemma sample_unit_run: "optimize_translation_unit [] sample_unit 1 = Some sample_unit_optimized"
  by code_simp

theorem optimizer_duplicates_nothing_witness:
  "nodes_of AST_FUNCTION_CALL sample_unit_optimized \<subseteq># nodes_of AST_FUNCTION_CALL sample_unit"
  by (rule optimizer_duplicates_nothing [OF _ sample_unit_run]) simp

text \<open>
  (C24) A block is a scope for the propagation table: whatever its statements record is
  forgotten when it ends. Any statement only adds entries, within the table's 64.
\<close>

theorem optimize_stmt_table:
  assumes "optimize_stmt H tab n = Some (n', tab')"
  shows "(node_type n = AST_BLOCK \<longrightarrow> tab' = tab) \<and>
         (\<exists>ext. tab' = tab @ ext \<and> (ext = [] \<or> length tab' \<le> CONST_PROP_MAX))"
proof -
  note g = optimize_stmt_graph(1) [OF assms]
  have "tab' = tab" if "node_type n = AST_BLOCK"
    using assms that by (cases n)
      (auto simp: bind_eq_Some_conv dest!: optimize_stmt_graph(3) stmt_opt_table(3))
  with stmt_opt_table(1) [OF g] show ?thesis by blast
qed

theorem optimize_stmt_table_witness:
  "optimize_stmt [] sample_table sample_block = Some (sample_block_optimized, sample_table) \<and>
   (\<exists>ext. sample_table = sample_table @ ext \<and> (ext = [] \<or> length sample_table \<le> CONST_PROP_MAX))"
  using optimize_stmt_table [OF sample_block_run] sample_block_run by (elim conjE) (intro conjI)

text \<open>
  (C23) In an optimized block no statement stands behind a return, break, continue or goto
  unless it is a label or a case section, and every label and section that stood directly
  in the block is still there, in the same order.
\<close>

theorem optimize_block_dead_code:
  assumes "ntype i = AST_BLOCK" and "optimize_stmt H tab (Node i cs) = Some (n', tab')"
  shows "no_dead (children n') \<and> subseq (direct_labels cs) (direct_labels (children n'))"
proof -
  from assms obtain cs' t where "optimize_block H tab cs = Some (cs', t)" "n' = Node i cs'"
    by (auto simp: bind_eq_Some_conv)
  with block_opt_no_dead(3) [OF optimize_stmt_graph(3)] block_opt_labels(3) [OF optimize_stmt_graph(3)]
  show ?thesis by auto
qed


lemma sample_block_run_Node:
  "optimize_stmt [] sample_table (Node (info sample_block) (children sample_block)) = Some (sample_block_optimized, sample_table)"
  using sample_block_run by simp

theorem optimize_block_dead_code_witness:
  "no_dead (children sample_block_optimized) \<and>
   subseq (direct_labels (children sample_block)) (direct_labels (children sample_block_optimized))"
  by (rule optimize_block_dead_code [OF _ sample_block_run_Node]) (simp add: sample_block_def branch_def ast_new_def)

subsection \<open>The pass finishes\<close>

text \<open>
  The children the pass reads without a test are there: the model has no null pointer, so the
  theorem is about trees in which the code follows none.
\<close>

definition operands_there :: "ASTNodeType \<Rightarrow> ASTNode option list \<Rightarrow> bool" where
  "operands_there t cs \<longleftrightarrow>
     (t \<in> {AST_TRANSLATION_UNIT, AST_FUNCTION_DECL, AST_BLOCK, AST_BINARY_OP, AST_UNARY_OP, AST_CONDITIONAL_EXPR,
           AST_SIZEOF_EXPR, AST_IF_STATEMENT, AST_WHILE_STATEMENT, AST_DO_WHILE_STATEMENT, AST_SWITCH_STATEMENT} \<longrightarrow>
        None \<notin> set cs) \<and>
     (t = AST_IF_STATEMENT \<longrightarrow> 2 \<le> length cs) \<and>
     (t \<in> {AST_BINARY_OP, AST_WHILE_STATEMENT, AST_DO_WHILE_STATEMENT, AST_SWITCH_STATEMENT} \<longrightarrow> length cs = 2) \<and>
     (t = AST_FOR_STATEMENT \<longrightarrow> length cs = 4)"

text \<open>Divisions and remainders by a literal, which may be 0 but not -1.\<close>

definition divides_safely :: "ast_info \<Rightarrow> ASTNode option list \<Rightarrow> bool" where
  "divides_safely i cs \<longleftrightarrow>
     (ntype i = AST_BINARY_OP \<and> (text_of i = ''/'' \<or> text_of i = ''%'') \<longrightarrow>
        (case cs of [l, Some r] \<Rightarrow> int_lit r \<and> lit_val r \<noteq> -1 | _ \<Rightarrow> False))"

fun safe_tree :: "ASTNode \<Rightarrow> bool" where
  "safe_tree (Node i cs) \<longleftrightarrow>
     operands_there (ntype i) cs \<and> divides_safely i cs \<and>
     (\<forall>c \<in> set cs. case c of None \<Rightarrow> True | Some n \<Rightarrow> safe_tree n)"

definition safe_list :: "ASTNode option list \<Rightarrow> bool" where
  "safe_list cs \<longleftrightarrow> (\<forall>c \<in> set cs. case c of None \<Rightarrow> True | Some n \<Rightarrow> safe_tree n)"

lemma safe_list_simps [simp]:
  "safe_list []" "safe_list (None # cs) = safe_list cs" "safe_list (Some n # cs) \<longleftrightarrow> safe_tree n \<and> safe_list cs"
  by (simp_all add: safe_list_def)

lemma safe_list_Cons: "safe_list (c # cs) \<longleftrightarrow> safe_list [c] \<and> safe_list cs"
  by (simp add: safe_list_def)

lemma safe_tree_kids: "safe_tree (Node i cs) \<Longrightarrow> safe_list cs \<and> divides_safely i cs"
  by (simp add: safe_list_def)

lemma safe_drop_dead: "safe_list cs \<Longrightarrow> safe_list (drop_dead cs)"
  by (induction cs rule: drop_dead.induct) auto

declare safe_tree.simps [simp del]

lemma fold_binop_trap: "fold_binop op l r = FoldTrap \<Longrightarrow> (op = ''/'' \<or> op = ''%'') \<and> r = -1"
  by (auto simp: fold_binop_def truth_def split: if_split_asm)

lemma fold_binary_trap:
  "rw_fold_binary (Node i cs) = Trap \<Longrightarrow> ntype i = AST_BINARY_OP \<and> (text_of i = ''/'' \<or> text_of i = ''%'') \<and>
     (\<exists>l r. cs = [Some l, Some r] \<and> lit_val r = -1)"
  by (auto simp: rw_fold_binary_def binary_kids_def dest!: fold_binop_trap
      split: option.split_asm if_split_asm fold_val.split_asm list.split_asm)

lemma fold_unary_no_trap: "rw_fold_unary n \<noteq> Trap"
  by (auto simp: rw_fold_unary_def fold_unop_def truth_def split: option.split fold_val.split)

lemma other_rules_no_trap:
  "rw_short_circuit n \<noteq> Trap" "rw_double_not n \<noteq> Trap" "rw_double_neg n \<noteq> Trap" "rw_algebraic n \<noteq> Trap"
  "rw_strength n \<noteq> Trap" "rw_boolean n \<noteq> Trap" "rw_conditional n \<noteq> Trap" "rw_sizeof_type H n \<noteq> Trap"
  "rw_sizeof_expr n \<noteq> Trap" "rw_cast n \<noteq> Trap" "rw_const_prop tab n \<noteq> Trap"
  by (auto simp: rw_short_circuit_def rw_double_not_def rw_double_neg_def rw_algebraic_def rw_strength_def
      rw_boolean_def rw_conditional_def rw_sizeof_type_def rw_sizeof_expr_def rw_cast_def rw_const_prop_def Let_def
      split: option.split list.split)

lemma first_rewrite_total: "list_all (\<lambda>rw. rw n \<noteq> Trap) rws \<Longrightarrow> \<exists>m. first_rewrite rws n = Some m"
  by (induction rws) (auto split: rewrite.split)

lemma rewrite_total:
  assumes "divides_safely i cs"
  shows "\<exists>m. first_rewrite (rewrite_rules tab H) (Node i cs) = Some m"
proof (rule first_rewrite_total)
  have "rw_fold_binary (Node i cs) \<noteq> Trap" using fold_binary_trap [of i cs] assms by (auto simp: divides_safely_def)
  then show "list_all (\<lambda>rw. rw (Node i cs) \<noteq> Trap) (rewrite_rules tab H)"
    by (simp add: rewrite_rules_def fold_unary_no_trap other_rules_no_trap)
qed

text \<open>A literal stays as it is, so the divisor of a folded division is the one of the source.\<close>

lemma literal_stays:
  assumes "int_lit n" and "optimize_expr tab H n = Some m"
  shows "int_lit m \<and> lit_val m = lit_val n"
proof (cases n)
  case (Node i cs)
  with assms obtain cs' where "optimize_kids tab H cs = Some cs'"
    and first: "first_rewrite (rewrite_rules tab H) (Node i cs') = Some m" by (auto simp: bind_eq_Some_conv)
  have ty: "ntype i = AST_INT_LITERAL" using assms(1) Node by (simp add: int_lit_def)
  then have "first_rewrite (rewrite_rules tab H) (Node i cs') = Some (Node i cs')"
    by (simp add: rewrite_rules_def rw_fold_binary_def rw_short_circuit_def rw_fold_unary_def rw_double_not_def
        rw_double_neg_def rw_algebraic_def rw_strength_def rw_boolean_def rw_conditional_def rw_sizeof_type_def
        rw_sizeof_expr_def rw_cast_def rw_const_prop_def binary_kids_def unary_kid_def doubled_def)
  with first Node show ?thesis using ty by (auto simp: int_lit_def lit_val_def sval_def)
qed

lemma divides_safely_kids:
  assumes "divides_safely i cs" and "optimize_kids tab H cs = Some cs'"
  shows "divides_safely i cs'"
proof (cases "ntype i = AST_BINARY_OP \<and> (text_of i = ''/'' \<or> text_of i = ''%'')")
  case True
  have nil: "(\<forall>y ys. xs \<noteq> y # ys) \<longleftrightarrow> xs = []" for xs :: "ASTNode option list" by (cases xs) auto
  from True assms(1) obtain l r where cs: "cs = [l, Some r]" and r: "int_lit r" "lit_val r \<noteq> -1"
    by (auto simp: divides_safely_def nil split: list.split_asm option.split_asm)
  from assms(2) obtain l' r' where "cs' = [l', Some r']" "optimize_expr tab H r = Some r'"
    unfolding cs by (cases l) (auto simp: bind_eq_Some_conv)
  with literal_stays [OF r(1)] r(2) show ?thesis by (auto simp: divides_safely_def)
qed (auto simp: divides_safely_def)

lemma optimize_expr_total:
  "safe_tree e \<Longrightarrow> \<exists>e'. optimize_expr tab H e = Some e'"
  "safe_list cs \<Longrightarrow> \<exists>cs'. optimize_kids tab H cs = Some cs'"
proof (induction tab H e and tab H cs rule: optimize_expr_optimize_kids.induct)
  case (1 tab H i cs)
  note safe = safe_tree_kids [OF "1.prems"]
  from "1.IH" safe obtain cs' where cs': "optimize_kids tab H cs = Some cs'" by auto
  with rewrite_total [OF divides_safely_kids [OF conjunct2 [OF safe] cs'], of tab H] show ?case by auto
qed auto

lemma optimize_child_total:
  "safe_list [c] \<Longrightarrow> \<exists>c'. optimize_child tab H c = Some c'"
  using optimize_expr_total(1) [of "the c" tab H] by (cases c) (auto simp: optimize_child_def)

lemma optimize_first_total:
  assumes "safe_list cs"
  shows "\<exists>cs'. optimize_first tab H cs = Some cs'"
proof (cases cs)
  case (Cons c rest)
  with assms have "safe_list [c]"
    using safe_list_Cons [of c rest] by simp
  with Cons optimize_child_total [of c tab H] show ?thesis by (auto simp: optimize_first_def)
qed (simp add: optimize_first_def)

lemma optimize_head_total:
  assumes "safe_list (c # body)"
    and "\<And>c'. optimize_child tab H c = Some c' \<Longrightarrow> safe_list body \<Longrightarrow>
           \<exists>r. optimize_stmts H tab body = Some r"
  shows "\<exists>c' body' t. optimize_child tab H c = Some c' \<and> optimize_stmts H tab body = Some (body', t)"
proof -
  have "safe_list [c] \<and> safe_list body"
    using assms(1) safe_list_Cons [of c body] by simp
  with assms(2) optimize_child_total [of c tab H] show ?thesis by auto
qed

lemma optimize_stmt_total:
  "safe_tree n \<Longrightarrow> \<exists>r. optimize_stmt H tab n = Some r"
  "safe_list cs \<Longrightarrow> \<exists>r. optimize_stmts H tab cs = Some r"
  "safe_list bs \<Longrightarrow> \<exists>r. optimize_block H tab bs = Some r"
proof (induction H tab n and H tab cs and H tab bs rule: optimize_stmt_optimize_stmts_optimize_block.induct)
  case (1 H tab i cs)
  have df: "safe_list cs" using safe_tree_kids [OF "1.prems"] by simp
  show ?case
  proof (cases "ntype i")
    case AST_BLOCK
    with df "1.IH"(1) show ?thesis by auto
  next
    case AST_IF_STATEMENT
    show ?thesis
    proof (cases cs)
      case (Cons c body)
      have "\<exists>c' body' t. optimize_child tab H c = Some c' \<and> optimize_stmts H tab body = Some (body', t)"
        using df unfolding Cons by (rule optimize_head_total) (use AST_IF_STATEMENT "1.IH"(2) Cons in simp)
      with AST_IF_STATEMENT Cons show ?thesis by auto
    qed (use AST_IF_STATEMENT in simp)
  next
    case AST_WHILE_STATEMENT
    show ?thesis
    proof (cases cs)
      case (Cons c body)
      have "\<exists>c' body' t. optimize_child tab H c = Some c' \<and> optimize_stmts H tab body = Some (body', t)"
        using df unfolding Cons by (rule optimize_head_total) (use AST_WHILE_STATEMENT "1.IH"(3) Cons in simp)
      with AST_WHILE_STATEMENT Cons show ?thesis by auto
    qed (use AST_WHILE_STATEMENT in simp)
  next
    case AST_DO_WHILE_STATEMENT
    show ?thesis
    proof (cases "\<exists>body c. cs = [body, c]")
      case True
      then obtain body c where cs: "cs = [body, c]" by blast
      have two: "safe_list [body]" "safe_list [c]"
        using df cs safe_list_Cons [of body "[c]"] by simp_all
      from "1.IH"(4) AST_DO_WHILE_STATEMENT cs two obtain b t where "optimize_stmts H tab [body] = Some (b, t)"
        by fastforce
      with optimize_child_total [OF two(2), of t H] AST_DO_WHILE_STATEMENT cs show ?thesis by auto
    next
      case False
      then have "(case cs of [a, b] \<Rightarrow> f a b | _ \<Rightarrow> Some (Node i cs, tab)) = Some (Node i cs, tab)" for f
        by (auto split: list.split)
      with AST_DO_WHILE_STATEMENT show ?thesis by simp
    qed
  next
    case AST_FOR_STATEMENT
    show ?thesis
    proof (cases "\<exists>ini c upd body. cs = [ini, c, upd, body]")
      case True
      then obtain ini c upd body where cs: "cs = [ini, c, upd, body]" by blast
      have four: "safe_list [ini]" "safe_list [c]"
          "safe_list [upd]" "safe_list [body]"
        using df unfolding cs safe_list_Cons [of _ "_ # _"] by simp_all
      from "1.IH"(5) [of ini "[c, upd, body]" c "[upd, body]" upd "[body]" body "[]"] AST_FOR_STATEMENT cs four(1) obtain ini' t where i: "optimize_stmts H tab [ini] = Some (ini', t)" by auto
      obtain c' where c: "optimize_child t H c = Some c'" using optimize_child_total [OF four(2)] by blast
      obtain u where u: "optimize_child t H upd = Some u" using optimize_child_total [OF four(3)] by blast
      from "1.IH"(6) [of ini "[c, upd, body]" c "[upd, body]" upd "[body]" body "[]" "(ini', t)" ini' t c' u] AST_FOR_STATEMENT cs four(4) i c u obtain b t' where "optimize_stmts H t [body] = Some (b, t')" by auto
      with AST_FOR_STATEMENT cs i c u show ?thesis by auto
    next
      case False
      with AST_FOR_STATEMENT show ?thesis by (simp add: case_four_default)
    qed
  next
    case AST_SWITCH_STATEMENT
    show ?thesis
    proof (cases cs)
      case (Cons c body)
      have "\<exists>c' body' t. optimize_child tab H c = Some c' \<and> optimize_stmts H tab body = Some (body', t)"
        using df unfolding Cons by (rule optimize_head_total) (use AST_SWITCH_STATEMENT "1.IH"(7) Cons in simp)
      with AST_SWITCH_STATEMENT Cons show ?thesis by auto
    qed (use AST_SWITCH_STATEMENT in simp)
  qed (use df "1.IH"(8) optimize_first_total [OF df, of tab H] optimize_expr_total(2) [OF df, of tab H] in auto)
next
  case (4 H tab c cs)
  then show ?case by (fastforce simp: bind_eq_Some_conv)
next
  case (7 H tab c cs)
  then obtain c' t where c: "optimize_stmt H tab c = Some (c', t)" by auto
  have "safe_list (if is_terminal_stmt c' then drop_dead cs else cs)"
    using "7.prems" safe_drop_dead by simp
  from "7.IH"(2) [OF c refl this] c show ?case by auto
qed auto

text \<open>
  (C25) The optimizer returns: on every translation unit in which no operand is missing and each
  division or remainder has a literal other than -1 on its right, 0 included, it gives a result
  at every level. A division by 0 is left to the program: only the guard keeps the compiler from
  carrying it out. Whether the divisor of a fold is 0 or -1 is decided by the literal of the
  source, which no rewrite changes. (Where the divisor is -1, folding can stop the compiler: it
  divides the least long by it.)
\<close>

theorem optimizer_returns:
  assumes "safe_tree root"
  shows "\<exists>root'. optimize_translation_unit H root opt_level = Some root'"
proof -
  have fn: "\<exists>d'. optimize_function H d = Some d'" if "safe_tree d" for d
  proof -
    have kids: "safe_list (children d)" using safe_tree_kids [of "info d" "children d"] that by simp
    have "\<exists>r. optimize_stmt H [] b = Some r" if "children d \<noteq> []" "last (children d) = Some b" for b
      using kids last_in_set [OF that(1)] that(2) by (intro optimize_stmt_total(1)) (auto simp: safe_list_def)
    then show ?thesis by (fastforce simp: optimize_function_def split: option.split)
  qed
  have "safe_list ds \<Longrightarrow> \<exists>ds'. optimize_decls H ds = Some ds'" for ds
  proof (induction ds)
    case (Cons d ds)
    then obtain ds' where "optimize_decls H ds = Some ds'" using safe_list_Cons [of d ds] by auto
    with Cons.prems fn [of "the d"] show ?case by (cases d) auto
  qed simp
  from this [of "children root"] safe_tree_kids [of "info root" "children root"] assms show ?thesis
    by (auto simp: optimize_translation_unit_def)
qed

text \<open>A function that returns \<^verbatim>\<open>7 / 0 + x % 2\<close>.\<close>

definition sample_division :: ASTNode where
  "sample_division = branch AST_TRANSLATION_UNIT [] [branch AST_FUNCTION_DECL ''main'' [branch AST_BLOCK []
     [branch AST_RETURN_STATEMENT [] [binary ''+''
        (binary ''/'' (leaf AST_INT_LITERAL ''7'') (leaf AST_INT_LITERAL ''0''))
        (binary ''%'' (leaf AST_VAR_REF ''x'') (leaf AST_INT_LITERAL ''2''))]]]]"

theorem optimizer_returns_witness:
  "\<exists>root'. optimize_translation_unit [] sample_division 1 = Some root'"
  by (rule optimizer_returns) code_simp

subsection \<open>A fold that traps, and shadowing\<close>

lemmas rewrite_defs =
  rewrite_rules_def rw_fold_binary_def rw_short_circuit_def rw_fold_unary_def rw_double_not_def
  rw_double_neg_def rw_algebraic_def rw_strength_def rw_boolean_def rw_conditional_def rw_sizeof_type_def
  rw_sizeof_expr_def rw_cast_def rw_const_prop_def binary_kids_def unary_kid_def doubled_def

lemma optimize_expr_literal: "optimize_expr tab H (mk_int_lit v k u) = Some (mk_int_lit v k u)"
  by (simp add: mk_int_lit_def rewrite_defs ast_new_def)

lemma optimize_expr_var:
  "const_prop_lookup tab x = Some e \<Longrightarrow>
   optimize_expr tab H (leaf AST_VAR_REF x) = Some (mk_int_lit (ce_value e) (ce_decl_type e) (ce_is_unsigned e))"
  by (simp add: leaf_def rewrite_defs ast_new_def sval_def text_of_def)

lemma lit_val_mk_int_lit: "in_long v \<Longrightarrow> lit_val (mk_int_lit v k u) = v"
  by (simp add: lit_val_def sval_def text_of_def mk_int_lit_def ast_new_def strtol0_show_int)

text \<open>
  (C38) Folding can stop the compiler: where the operands of a division or a remainder fold to
  the least long and to -1, as in \<^verbatim>\<open>(-9223372036854775807 - 1) / -1\<close>, the optimizer carries out
  that division itself and the process receives the arithmetic trap.
\<close>

theorem least_long_division_stops_the_compiler:
  assumes "op = ''/'' \<or> op = ''%''"
    and "optimize_expr tab H l = Some (mk_int_lit LONG_MIN k u)"
    and "optimize_expr tab H r = Some (mk_int_lit (-1) k' u')"
  shows "optimize_expr tab H (binary op l r) = None"
proof -
  have "lit_val (mk_int_lit LONG_MIN k u) = LONG_MIN" "lit_val (mk_int_lit (-1) k' u') = -1"
    by (simp_all add: lit_val_mk_int_lit long_defs)
  then have "fold_binop op (lit_val (mk_int_lit LONG_MIN k u)) (lit_val (mk_int_lit (-1) k' u')) = FoldTrap"
    using assms(1) by (elim disjE) (simp_all add: fold_binop_def)
  moreover have "int_lit (mk_int_lit v a b)" for v a b
    by (simp add: int_lit_def mk_int_lit_def ast_new_def)
  ultimately have "rw_fold_binary (Node (info (ast_new AST_BINARY_OP (Some op)))
      [Some (mk_int_lit LONG_MIN k u), Some (mk_int_lit (-1) k' u')]) = Trap"
    by (simp add: rw_fold_binary_def binary_kids_def sval_def text_of_def ast_new_def)
  then show ?thesis by (simp add: binary_def assms(2,3) rewrite_rules_def)
qed

theorem least_long_division_stops_the_compiler_witness:
  "optimize_expr [] [] (binary ''/'' (mk_int_lit LONG_MIN TYPE_LONG False) (mk_int_lit (-1) TYPE_INT False)) = None"
  by (rule least_long_division_stops_the_compiler) (simp_all add: optimize_expr_literal)

text \<open>
  (C39) Constant propagation does not see shadowing: in a block that declares a variable without
  \<^verbatim>\<open>const\<close> and returns it, a constant of the same name recorded outside replaces the
  returned variable, whatever the inner initializer is.
\<close>

theorem propagation_ignores_shadowing:
  assumes "const_prop_lookup tab x = Some e" and "ntype d = AST_DECLARATION" and "\<not> is_const d"
    and "nvalue d = Some x" and "ntype b = AST_BLOCK" and "ntype r = AST_RETURN_STATEMENT"
  shows "optimize_stmt H tab (Node b [Some (Node d [Some (mk_int_lit v k u)]), Some (Node r [Some (leaf AST_VAR_REF x)])]) =
     Some (Node b [Some (Node d [Some (mk_int_lit v k u)]),
                   Some (Node r [Some (mk_int_lit (ce_value e) (ce_decl_type e) (ce_is_unsigned e))])], tab)"
  using assms(2-6) optimize_expr_var [OF assms(1), of H]
  by (simp add: optimize_first_def optimize_child_def optimize_expr_literal record_const_def is_terminal_stmt_def)

theorem propagation_ignores_shadowing_witness:
  "optimize_stmt [] sample_table (Node (info (leaf AST_BLOCK []))
      [Some (Node (info (leaf AST_DECLARATION ''n'')) [Some (mk_int_lit 7 TYPE_INT False)]),
       Some (Node (info (leaf AST_RETURN_STATEMENT [])) [Some (leaf AST_VAR_REF ''n'')])]) =
   Some (Node (info (leaf AST_BLOCK []))
      [Some (Node (info (leaf AST_DECLARATION ''n'')) [Some (mk_int_lit 7 TYPE_INT False)]),
       Some (Node (info (leaf AST_RETURN_STATEMENT [])) [Some (mk_int_lit 5 TYPE_INT False)])], sample_table)"
proof -
  have "const_prop_lookup sample_table ''n'' = Some (hd sample_table)"
    by (simp add: sample_table_def const_prop_lookup_def)
  from propagation_ignores_shadowing [OF this, of "info (leaf AST_DECLARATION ''n'')" "info (leaf AST_BLOCK [])"
      "info (leaf AST_RETURN_STATEMENT [])" "[]" 7 TYPE_INT False]
  show ?thesis by (simp add: leaf_def ast_new_def zero_info_def sample_table_def del: optimize_stmt.simps)
qed

end
