(* ===== verification/Token.thy ===== *)
theory Token
  imports CType
begin

section \<open>Tokens: \<^verbatim>\<open>include/token.h\<close>\<close>

text \<open>
  The kinds of token with their display names, and the token itself. The enumeration is
  split in three types, keywords, punctuators and the rest; the abbreviations give every
  member the name it has in the code. A token's texts are the bytes the lexer stored;
  \<^verbatim>\<open>value_len\<close> and \<^verbatim>\<open>lexeme_len\<close> are their lengths. The file of a token is the index of its
  \<^verbatim>\<open>SourceFile\<close> in the lexer's pool.
\<close>

datatype Keyword =
    KW_INT | KW_CHAR | KW_SHORT | KW_LONG | KW_RETURN | KW_IF | KW_ELSE | KW_WHILE | KW_DO
  | KW_FOR | KW_BREAK | KW_CONTINUE | KW_SWITCH | KW_DEFAULT | KW_CASE | KW_GOTO | KW_SIZEOF
  | KW_EXTERN | KW_STATIC | KW_TYPEDEF | KW_ENUM | KW_STRUCT | KW_UNION | KW_VOID | KW_FLOAT
  | KW_DOUBLE | KW_BOOL | KW_CONST | KW_VOLATILE | KW_RESTRICT | KW_INLINE | KW_AUTO
  | KW_REGISTER | KW_SIGNED | KW_UNSIGNED

datatype Punctuator =
    PT_LPAREN | PT_RPAREN | PT_LBRACE | PT_RBRACE | PT_LBRACKET | PT_RBRACKET | PT_SEMICOLON
  | PT_COLON | PT_COMMA | PT_PLUS | PT_MINUS | PT_STAR | PT_SLASH | PT_PERCENT | PT_BANG
  | PT_TILDE | PT_ASSIGN | PT_PLUS_ASSIGN | PT_MINUS_ASSIGN | PT_STAR_ASSIGN | PT_SLASH_ASSIGN
  | PT_PERCENT_ASSIGN | PT_LEFT_SHIFT_ASSIGN | PT_RIGHT_SHIFT_ASSIGN | PT_AMP_ASSIGN
  | PT_CARET_ASSIGN | PT_PIPE_ASSIGN | PT_INCREMENT | PT_DECREMENT | PT_EQ | PT_NE | PT_LT
  | PT_LE | PT_GT | PT_GE | PT_LEFT_SHIFT | PT_RIGHT_SHIFT | PT_AND_AND | PT_OR_OR
  | PT_AMPERSAND | PT_CARET | PT_PIPE | PT_QUESTION | PT_DOT | PT_ARROW | PT_ELLIPSIS

datatype TokenType =
    TOKEN_EOF | TOKEN_IDENTIFIER | TOKEN_INT_LITERAL | TOKEN_FLOAT_LITERAL
  | TOKEN_DOUBLE_LITERAL | TOKEN_STRING_LITERAL | TOKEN_CHAR_LITERAL | TOKEN_UNKNOWN
  | KeywordToken Keyword | PunctToken Punctuator

text \<open>The names of \<^verbatim>\<open>token.h\<close> for the keywords and the punctuators.\<close>

abbreviation TOKEN_INT :: TokenType where "TOKEN_INT \<equiv> KeywordToken KW_INT"
abbreviation TOKEN_CHAR :: TokenType where "TOKEN_CHAR \<equiv> KeywordToken KW_CHAR"
abbreviation TOKEN_SHORT :: TokenType where "TOKEN_SHORT \<equiv> KeywordToken KW_SHORT"
abbreviation TOKEN_LONG :: TokenType where "TOKEN_LONG \<equiv> KeywordToken KW_LONG"
abbreviation TOKEN_RETURN :: TokenType where "TOKEN_RETURN \<equiv> KeywordToken KW_RETURN"
abbreviation TOKEN_IF :: TokenType where "TOKEN_IF \<equiv> KeywordToken KW_IF"
abbreviation TOKEN_ELSE :: TokenType where "TOKEN_ELSE \<equiv> KeywordToken KW_ELSE"
abbreviation TOKEN_WHILE :: TokenType where "TOKEN_WHILE \<equiv> KeywordToken KW_WHILE"
abbreviation TOKEN_DO :: TokenType where "TOKEN_DO \<equiv> KeywordToken KW_DO"
abbreviation TOKEN_FOR :: TokenType where "TOKEN_FOR \<equiv> KeywordToken KW_FOR"
abbreviation TOKEN_BREAK :: TokenType where "TOKEN_BREAK \<equiv> KeywordToken KW_BREAK"
abbreviation TOKEN_CONTINUE :: TokenType where "TOKEN_CONTINUE \<equiv> KeywordToken KW_CONTINUE"
abbreviation TOKEN_SWITCH :: TokenType where "TOKEN_SWITCH \<equiv> KeywordToken KW_SWITCH"
abbreviation TOKEN_DEFAULT :: TokenType where "TOKEN_DEFAULT \<equiv> KeywordToken KW_DEFAULT"
abbreviation TOKEN_CASE :: TokenType where "TOKEN_CASE \<equiv> KeywordToken KW_CASE"
abbreviation TOKEN_GOTO :: TokenType where "TOKEN_GOTO \<equiv> KeywordToken KW_GOTO"
abbreviation TOKEN_SIZEOF :: TokenType where "TOKEN_SIZEOF \<equiv> KeywordToken KW_SIZEOF"
abbreviation TOKEN_EXTERN :: TokenType where "TOKEN_EXTERN \<equiv> KeywordToken KW_EXTERN"
abbreviation TOKEN_STATIC :: TokenType where "TOKEN_STATIC \<equiv> KeywordToken KW_STATIC"
abbreviation TOKEN_TYPEDEF :: TokenType where "TOKEN_TYPEDEF \<equiv> KeywordToken KW_TYPEDEF"
abbreviation TOKEN_ENUM :: TokenType where "TOKEN_ENUM \<equiv> KeywordToken KW_ENUM"
abbreviation TOKEN_STRUCT :: TokenType where "TOKEN_STRUCT \<equiv> KeywordToken KW_STRUCT"
abbreviation TOKEN_UNION :: TokenType where "TOKEN_UNION \<equiv> KeywordToken KW_UNION"
abbreviation TOKEN_VOID :: TokenType where "TOKEN_VOID \<equiv> KeywordToken KW_VOID"
abbreviation TOKEN_FLOAT :: TokenType where "TOKEN_FLOAT \<equiv> KeywordToken KW_FLOAT"
abbreviation TOKEN_DOUBLE :: TokenType where "TOKEN_DOUBLE \<equiv> KeywordToken KW_DOUBLE"
abbreviation TOKEN_BOOL :: TokenType where "TOKEN_BOOL \<equiv> KeywordToken KW_BOOL"
abbreviation TOKEN_CONST :: TokenType where "TOKEN_CONST \<equiv> KeywordToken KW_CONST"
abbreviation TOKEN_VOLATILE :: TokenType where "TOKEN_VOLATILE \<equiv> KeywordToken KW_VOLATILE"
abbreviation TOKEN_RESTRICT :: TokenType where "TOKEN_RESTRICT \<equiv> KeywordToken KW_RESTRICT"
abbreviation TOKEN_INLINE :: TokenType where "TOKEN_INLINE \<equiv> KeywordToken KW_INLINE"
abbreviation TOKEN_AUTO :: TokenType where "TOKEN_AUTO \<equiv> KeywordToken KW_AUTO"
abbreviation TOKEN_REGISTER :: TokenType where "TOKEN_REGISTER \<equiv> KeywordToken KW_REGISTER"
abbreviation TOKEN_SIGNED :: TokenType where "TOKEN_SIGNED \<equiv> KeywordToken KW_SIGNED"
abbreviation TOKEN_UNSIGNED :: TokenType where "TOKEN_UNSIGNED \<equiv> KeywordToken KW_UNSIGNED"
abbreviation TOKEN_LPAREN :: TokenType where "TOKEN_LPAREN \<equiv> PunctToken PT_LPAREN"
abbreviation TOKEN_RPAREN :: TokenType where "TOKEN_RPAREN \<equiv> PunctToken PT_RPAREN"
abbreviation TOKEN_LBRACE :: TokenType where "TOKEN_LBRACE \<equiv> PunctToken PT_LBRACE"
abbreviation TOKEN_RBRACE :: TokenType where "TOKEN_RBRACE \<equiv> PunctToken PT_RBRACE"
abbreviation TOKEN_LBRACKET :: TokenType where "TOKEN_LBRACKET \<equiv> PunctToken PT_LBRACKET"
abbreviation TOKEN_RBRACKET :: TokenType where "TOKEN_RBRACKET \<equiv> PunctToken PT_RBRACKET"
abbreviation TOKEN_SEMICOLON :: TokenType where "TOKEN_SEMICOLON \<equiv> PunctToken PT_SEMICOLON"
abbreviation TOKEN_COLON :: TokenType where "TOKEN_COLON \<equiv> PunctToken PT_COLON"
abbreviation TOKEN_COMMA :: TokenType where "TOKEN_COMMA \<equiv> PunctToken PT_COMMA"
abbreviation TOKEN_PLUS :: TokenType where "TOKEN_PLUS \<equiv> PunctToken PT_PLUS"
abbreviation TOKEN_MINUS :: TokenType where "TOKEN_MINUS \<equiv> PunctToken PT_MINUS"
abbreviation TOKEN_STAR :: TokenType where "TOKEN_STAR \<equiv> PunctToken PT_STAR"
abbreviation TOKEN_SLASH :: TokenType where "TOKEN_SLASH \<equiv> PunctToken PT_SLASH"
abbreviation TOKEN_PERCENT :: TokenType where "TOKEN_PERCENT \<equiv> PunctToken PT_PERCENT"
abbreviation TOKEN_BANG :: TokenType where "TOKEN_BANG \<equiv> PunctToken PT_BANG"
abbreviation TOKEN_TILDE :: TokenType where "TOKEN_TILDE \<equiv> PunctToken PT_TILDE"
abbreviation TOKEN_ASSIGN :: TokenType where "TOKEN_ASSIGN \<equiv> PunctToken PT_ASSIGN"
abbreviation TOKEN_PLUS_ASSIGN :: TokenType where "TOKEN_PLUS_ASSIGN \<equiv> PunctToken PT_PLUS_ASSIGN"
abbreviation TOKEN_MINUS_ASSIGN :: TokenType where "TOKEN_MINUS_ASSIGN \<equiv> PunctToken PT_MINUS_ASSIGN"
abbreviation TOKEN_STAR_ASSIGN :: TokenType where "TOKEN_STAR_ASSIGN \<equiv> PunctToken PT_STAR_ASSIGN"
abbreviation TOKEN_SLASH_ASSIGN :: TokenType where "TOKEN_SLASH_ASSIGN \<equiv> PunctToken PT_SLASH_ASSIGN"
abbreviation TOKEN_PERCENT_ASSIGN :: TokenType where "TOKEN_PERCENT_ASSIGN \<equiv> PunctToken PT_PERCENT_ASSIGN"
abbreviation TOKEN_LEFT_SHIFT_ASSIGN :: TokenType where "TOKEN_LEFT_SHIFT_ASSIGN \<equiv> PunctToken PT_LEFT_SHIFT_ASSIGN"
abbreviation TOKEN_RIGHT_SHIFT_ASSIGN :: TokenType where "TOKEN_RIGHT_SHIFT_ASSIGN \<equiv> PunctToken PT_RIGHT_SHIFT_ASSIGN"
abbreviation TOKEN_AMP_ASSIGN :: TokenType where "TOKEN_AMP_ASSIGN \<equiv> PunctToken PT_AMP_ASSIGN"
abbreviation TOKEN_CARET_ASSIGN :: TokenType where "TOKEN_CARET_ASSIGN \<equiv> PunctToken PT_CARET_ASSIGN"
abbreviation TOKEN_PIPE_ASSIGN :: TokenType where "TOKEN_PIPE_ASSIGN \<equiv> PunctToken PT_PIPE_ASSIGN"
abbreviation TOKEN_INCREMENT :: TokenType where "TOKEN_INCREMENT \<equiv> PunctToken PT_INCREMENT"
abbreviation TOKEN_DECREMENT :: TokenType where "TOKEN_DECREMENT \<equiv> PunctToken PT_DECREMENT"
abbreviation TOKEN_EQ :: TokenType where "TOKEN_EQ \<equiv> PunctToken PT_EQ"
abbreviation TOKEN_NE :: TokenType where "TOKEN_NE \<equiv> PunctToken PT_NE"
abbreviation TOKEN_LT :: TokenType where "TOKEN_LT \<equiv> PunctToken PT_LT"
abbreviation TOKEN_LE :: TokenType where "TOKEN_LE \<equiv> PunctToken PT_LE"
abbreviation TOKEN_GT :: TokenType where "TOKEN_GT \<equiv> PunctToken PT_GT"
abbreviation TOKEN_GE :: TokenType where "TOKEN_GE \<equiv> PunctToken PT_GE"
abbreviation TOKEN_LEFT_SHIFT :: TokenType where "TOKEN_LEFT_SHIFT \<equiv> PunctToken PT_LEFT_SHIFT"
abbreviation TOKEN_RIGHT_SHIFT :: TokenType where "TOKEN_RIGHT_SHIFT \<equiv> PunctToken PT_RIGHT_SHIFT"
abbreviation TOKEN_AND_AND :: TokenType where "TOKEN_AND_AND \<equiv> PunctToken PT_AND_AND"
abbreviation TOKEN_OR_OR :: TokenType where "TOKEN_OR_OR \<equiv> PunctToken PT_OR_OR"
abbreviation TOKEN_AMPERSAND :: TokenType where "TOKEN_AMPERSAND \<equiv> PunctToken PT_AMPERSAND"
abbreviation TOKEN_CARET :: TokenType where "TOKEN_CARET \<equiv> PunctToken PT_CARET"
abbreviation TOKEN_PIPE :: TokenType where "TOKEN_PIPE \<equiv> PunctToken PT_PIPE"
abbreviation TOKEN_QUESTION :: TokenType where "TOKEN_QUESTION \<equiv> PunctToken PT_QUESTION"
abbreviation TOKEN_DOT :: TokenType where "TOKEN_DOT \<equiv> PunctToken PT_DOT"
abbreviation TOKEN_ARROW :: TokenType where "TOKEN_ARROW \<equiv> PunctToken PT_ARROW"
abbreviation TOKEN_ELLIPSIS :: TokenType where "TOKEN_ELLIPSIS \<equiv> PunctToken PT_ELLIPSIS"

record Token =
  tk_type :: TokenType
  lexeme :: "string option"
  tk_value :: string
  long_value :: int
  literal_type :: TypeKind
  tk_unsigned :: bool
  tk_line :: nat
  tk_col :: nat
  tk_file :: "nat option"

definition quoted :: "string \<Rightarrow> string" where
  "quoted s = CHR 0x27 # s @ [CHR 0x27]"

primrec keyword_text :: "Keyword \<Rightarrow> string" where
  "keyword_text KW_INT = ''int''"
| "keyword_text KW_CHAR = ''char''"
| "keyword_text KW_SHORT = ''short''"
| "keyword_text KW_LONG = ''long''"
| "keyword_text KW_RETURN = ''return''"
| "keyword_text KW_IF = ''if''"
| "keyword_text KW_ELSE = ''else''"
| "keyword_text KW_WHILE = ''while''"
| "keyword_text KW_DO = ''do''"
| "keyword_text KW_FOR = ''for''"
| "keyword_text KW_BREAK = ''break''"
| "keyword_text KW_CONTINUE = ''continue''"
| "keyword_text KW_SWITCH = ''switch''"
| "keyword_text KW_DEFAULT = ''default''"
| "keyword_text KW_CASE = ''case''"
| "keyword_text KW_GOTO = ''goto''"
| "keyword_text KW_SIZEOF = ''sizeof''"
| "keyword_text KW_EXTERN = ''extern''"
| "keyword_text KW_STATIC = ''static''"
| "keyword_text KW_TYPEDEF = ''typedef''"
| "keyword_text KW_ENUM = ''enum''"
| "keyword_text KW_STRUCT = ''struct''"
| "keyword_text KW_UNION = ''union''"
| "keyword_text KW_VOID = ''void''"
| "keyword_text KW_FLOAT = ''float''"
| "keyword_text KW_DOUBLE = ''double''"
| "keyword_text KW_BOOL = ''_Bool''"
| "keyword_text KW_CONST = ''const''"
| "keyword_text KW_VOLATILE = ''volatile''"
| "keyword_text KW_RESTRICT = ''restrict''"
| "keyword_text KW_INLINE = ''inline''"
| "keyword_text KW_AUTO = ''auto''"
| "keyword_text KW_REGISTER = ''register''"
| "keyword_text KW_SIGNED = ''signed''"
| "keyword_text KW_UNSIGNED = ''unsigned''"

primrec punct_text :: "Punctuator \<Rightarrow> string" where
  "punct_text PT_LPAREN = ''(''"
| "punct_text PT_RPAREN = '')''"
| "punct_text PT_LBRACE = ''{''"
| "punct_text PT_RBRACE = ''}''"
| "punct_text PT_LBRACKET = ''[''"
| "punct_text PT_RBRACKET = '']''"
| "punct_text PT_SEMICOLON = '';''"
| "punct_text PT_COLON = '':''"
| "punct_text PT_COMMA = '',''"
| "punct_text PT_PLUS = ''+''"
| "punct_text PT_MINUS = ''-''"
| "punct_text PT_STAR = ''*''"
| "punct_text PT_SLASH = ''/''"
| "punct_text PT_PERCENT = ''%''"
| "punct_text PT_BANG = ''!''"
| "punct_text PT_TILDE = ''~''"
| "punct_text PT_ASSIGN = ''=''"
| "punct_text PT_PLUS_ASSIGN = ''+=''"
| "punct_text PT_MINUS_ASSIGN = ''-=''"
| "punct_text PT_STAR_ASSIGN = ''*=''"
| "punct_text PT_SLASH_ASSIGN = ''/=''"
| "punct_text PT_PERCENT_ASSIGN = ''%=''"
| "punct_text PT_LEFT_SHIFT_ASSIGN = ''<<=''"
| "punct_text PT_RIGHT_SHIFT_ASSIGN = ''>>=''"
| "punct_text PT_AMP_ASSIGN = ''&=''"
| "punct_text PT_CARET_ASSIGN = ''^=''"
| "punct_text PT_PIPE_ASSIGN = ''|=''"
| "punct_text PT_INCREMENT = ''++''"
| "punct_text PT_DECREMENT = ''--''"
| "punct_text PT_EQ = ''==''"
| "punct_text PT_NE = ''!=''"
| "punct_text PT_LT = ''<''"
| "punct_text PT_LE = ''<=''"
| "punct_text PT_GT = ''>''"
| "punct_text PT_GE = ''>=''"
| "punct_text PT_LEFT_SHIFT = ''<<''"
| "punct_text PT_RIGHT_SHIFT = ''>>''"
| "punct_text PT_AND_AND = ''&&''"
| "punct_text PT_OR_OR = ''||''"
| "punct_text PT_AMPERSAND = ''&''"
| "punct_text PT_CARET = ''^''"
| "punct_text PT_PIPE = ''|''"
| "punct_text PT_QUESTION = ''?''"
| "punct_text PT_DOT = ''.''"
| "punct_text PT_ARROW = ''->''"
| "punct_text PT_ELLIPSIS = ''...''"

primrec token_display_name :: "TokenType \<Rightarrow> string" where
  "token_display_name TOKEN_EOF = ''<EOF>''"
| "token_display_name TOKEN_IDENTIFIER = ''identifier''"
| "token_display_name TOKEN_INT_LITERAL = ''integer literal''"
| "token_display_name TOKEN_FLOAT_LITERAL = ''float literal''"
| "token_display_name TOKEN_DOUBLE_LITERAL = ''double literal''"
| "token_display_name TOKEN_STRING_LITERAL = ''string literal''"
| "token_display_name TOKEN_CHAR_LITERAL = ''character literal''"
| "token_display_name TOKEN_UNKNOWN = ''<unknown>''"
| "token_display_name (KeywordToken k) = quoted (keyword_text k)"
| "token_display_name (PunctToken p) = quoted (punct_text p)"

text \<open>The reserved words, in the order the lexer compares them.\<close>

definition reserved_words :: "(string \<times> TokenType) list" where
  "reserved_words =
     [(''int'', TOKEN_INT), (''char'', TOKEN_CHAR), (''short'', TOKEN_SHORT),
      (''long'', TOKEN_LONG), (''return'', TOKEN_RETURN), (''if'', TOKEN_IF),
      (''else'', TOKEN_ELSE), (''while'', TOKEN_WHILE), (''do'', TOKEN_DO),
      (''for'', TOKEN_FOR), (''break'', TOKEN_BREAK), (''continue'', TOKEN_CONTINUE),
      (''switch'', TOKEN_SWITCH), (''default'', TOKEN_DEFAULT), (''case'', TOKEN_CASE),
      (''goto'', TOKEN_GOTO), (''sizeof'', TOKEN_SIZEOF), (''extern'', TOKEN_EXTERN),
      (''static'', TOKEN_STATIC), (''typedef'', TOKEN_TYPEDEF), (''enum'', TOKEN_ENUM),
      (''struct'', TOKEN_STRUCT), (''union'', TOKEN_UNION), (''void'', TOKEN_VOID),
      (''float'', TOKEN_FLOAT), (''double'', TOKEN_DOUBLE), (''const'', TOKEN_CONST),
      (''volatile'', TOKEN_VOLATILE), (''restrict'', TOKEN_RESTRICT), (''inline'', TOKEN_INLINE),
      (''auto'', TOKEN_AUTO), (''register'', TOKEN_REGISTER), (''signed'', TOKEN_SIGNED),
      (''unsigned'', TOKEN_UNSIGNED), (''_Bool'', TOKEN_BOOL)]"

text \<open>
  A keyword's display name is its quoted spelling, and the table lists every keyword once,
  so a diagnostic names its token as it was written.
\<close>

lemma keyword_display: "(s, ty) \<in> set reserved_words \<Longrightarrow> token_display_name ty = quoted s"
  by (auto simp: reserved_words_def)

lemma keyword_table: "(s, ty) \<in> set reserved_words \<longleftrightarrow> (\<exists>k. ty = KeywordToken k \<and> s = keyword_text k)"
proof
  show "(s, ty) \<in> set reserved_words \<Longrightarrow> \<exists>k. ty = KeywordToken k \<and> s = keyword_text k"
    by (auto simp: reserved_words_def)
  show "\<exists>k. ty = KeywordToken k \<and> s = keyword_text k \<Longrightarrow> (s, ty) \<in> set reserved_words"
  proof -
    assume "\<exists>k. ty = KeywordToken k \<and> s = keyword_text k"
    then obtain k where k: "ty = KeywordToken k" "s = keyword_text k" by blast
    show ?thesis unfolding k by (cases k) (simp_all add: reserved_words_def)
  qed
qed

lemma reserved_words_distinct: "distinct (map fst reserved_words)"
  by (simp add: reserved_words_def)

end
