(* ===== verification/Lexer.thy ===== *)
theory Lexer
  imports Token "HOL-Library.Monad_Syntax"
begin

section \<open>The lexer: \<^verbatim>\<open>src/lexer.c\<close>\<close>

text \<open>
  \<^verbatim>\<open>lexer_next_token\<close> is one long function; here each of its blocks is a definition and
  \<open>lexer_next_token\<close> composes them in the code's order. The lexer's state is passed along.
  Every message that ends the process is a value of \<open>lex_error\<close>. The two 64-byte buffers
  in which numbers are collected are not protected in all cases; a write behind their end is
  the error \<open>BufferOverrun\<close>. A loop that copies or skips characters while a test
  holds is \<^const>\<open>takeWhile\<close> on the text that remains.

  The string pool is the list of the strings stored so far; the vector that holds it in
  the code is the subject of theory \<open>Vec\<close>. Positions are natural numbers: sources are
  shorter than the range of \<^verbatim>\<open>int\<close>. The exits on memory exhaustion are left out.
\<close>

record Lexer =
  source :: string
  pos :: nat
  line :: nat
  col :: nat
  lx_file :: "nat option"
  file_pool :: "string list"
  files_cap :: nat
  str_pool :: "string list"

datatype lex_error =
    UnterminatedString | NewlineInString | InvalidHexInString | InvalidEscapeInString
  | UnterminatedChar | NewlineInChar | EmptyChar | InvalidHexInChar | InvalidEscapeInChar
  | MultiCharConstant | WideCharUnsupported | InvalidHexLiteral | InvalidOctalDigit char
  | TooManyLSuffixes | LiteralTooLarge string | BufferOverrun

type_synonym lex_result = "lex_error + Token \<times> Lexer"

definition cur :: "Lexer \<Rightarrow> char" where
  "cur lx = c_at (source lx) (pos lx)"

definition peek :: "Lexer \<Rightarrow> nat \<Rightarrow> char" where
  "peek lx k = c_at (source lx) (pos lx + k)"

definition rest :: "Lexer \<Rightarrow> string" where
  "rest lx = drop (pos lx) (source lx)"

subsection \<open>The pools, initialization\<close>

definition lexer_intern_file :: "Lexer \<Rightarrow> string \<Rightarrow> nat \<times> Lexer" where
  "lexer_intern_file lx path =
     (case find (\<lambda>i. file_pool lx ! i = path) [0..<length (file_pool lx)] of
        Some i \<Rightarrow> (i, lx)
      | None \<Rightarrow>
          (length (file_pool lx),
           lx\<lparr>files_cap := (if length (file_pool lx) = files_cap lx then files_cap lx * 2 + 4 else files_cap lx),
              file_pool := file_pool lx @ [path]\<rparr>))"

definition lexer_store_bytes :: "Lexer \<Rightarrow> string \<Rightarrow> Lexer" where
  "lexer_store_bytes lx data = lx\<lparr>str_pool := str_pool lx @ [data]\<rparr>"

definition lexer_init :: "string \<Rightarrow> string option \<Rightarrow> Lexer" where
  "lexer_init src filename =
     (let lx = \<lparr>source = src, pos = 0, line = 1, col = 1, lx_file = None, file_pool = [], files_cap = 0,
                str_pool = []\<rparr>
      in case filename of
           None \<Rightarrow> lx
         | Some f \<Rightarrow> (let (i, lx') = lexer_intern_file lx f in lx'\<lparr>lx_file := Some i\<rparr>))"

definition lexer_free :: "Lexer \<Rightarrow> Lexer" where
  "lexer_free lx = lx\<lparr>file_pool := [], files_cap := 0, str_pool := []\<rparr>"

subsection \<open>Moving through the source\<close>

definition lexer_advance :: "Lexer \<Rightarrow> Lexer" where
  "lexer_advance lx =
     (if cur lx = LF then lx\<lparr>line := line lx + 1, col := 1, pos := pos lx + 1\<rparr>
      else lx\<lparr>col := col lx + 1, pos := pos lx + 1\<rparr>)"

primrec advance_by :: "nat \<Rightarrow> Lexer \<Rightarrow> Lexer" where
  "advance_by 0 lx = lx"
| "advance_by (Suc n) lx = advance_by n (lexer_advance lx)"

definition decimal :: "string \<Rightarrow> nat" where
  "decimal ds = foldl (\<lambda>v c. v * 10 + (code c - 48)) 0 ds"

definition path_char :: "char \<Rightarrow> bool" where
  "path_char c \<longleftrightarrow> c \<noteq> NUL \<and> c \<noteq> LF"

text \<open>Positions behind an optional character and behind a run of characters.\<close>

definition skip_char :: "char \<Rightarrow> string \<Rightarrow> nat \<Rightarrow> nat" where
  "skip_char c s p = (if c_at s p = c then p + 1 else p)"

definition skip_while :: "(char \<Rightarrow> bool) \<Rightarrow> string \<Rightarrow> nat \<Rightarrow> nat" where
  "skip_while P s p = p + length (takeWhile P (drop p s))"

text \<open>A location marker: the byte 1, a line number, a colon, a path, a newline.\<close>

definition lexer_parse_location_marker :: "Lexer \<Rightarrow> Lexer" where
  "lexer_parse_location_marker lx =
     (let s = source lx;
          p1 = pos lx + 1;
          ds = takeWhile is_digit (drop p1 s);
          p3 = skip_char (CHR '':'') s (skip_while is_digit s p1);
          path = takeWhile path_char (drop p3 s);
          p5 = skip_char LF s (skip_while path_char s p3);
          lx' = lx\<lparr>pos := p5, line := decimal ds, col := 1\<rparr>
      in if path = [] then lx'
         else (let (i, lx'') = lexer_intern_file lx' (take 511 path) in lx''\<lparr>lx_file := Some i\<rparr>))"

lemma intern_file_source [simp]:
  "source (snd (lexer_intern_file lx p)) = source lx" "pos (snd (lexer_intern_file lx p)) = pos lx"
  by (simp_all add: lexer_intern_file_def split: option.split)

lemma advance_source [simp]: "source (lexer_advance lx) = source lx" "pos (lexer_advance lx) = pos lx + 1"
  by (simp_all add: lexer_advance_def)

lemma advance_by_source [simp]: "source (advance_by n lx) = source lx" "pos (advance_by n lx) = pos lx + n"
  by (induction n arbitrary: lx) simp_all

lemma marker_source [simp]: "source (lexer_parse_location_marker lx) = source lx"
  by (simp add: lexer_parse_location_marker_def Let_def case_prod_unfold)

lemma skip_ge: "p \<le> skip_char c s p" "p \<le> skip_while P s p"
  by (simp_all add: skip_char_def skip_while_def)

lemma skip_within:
  "p \<le> length s \<Longrightarrow> c \<noteq> NUL \<Longrightarrow> skip_char c s p \<le> length s"
  "p \<le> length s \<Longrightarrow> skip_while P s p \<le> length s"
  using c_at_nonzero_less [of s p] length_takeWhile_le [of P "drop p s"]
  by (auto simp: skip_char_def skip_while_def)

lemma marker_end:
  "pos (lexer_parse_location_marker lx) =
     skip_char LF (source lx) (skip_while path_char (source lx)
       (skip_char (CHR '':'') (source lx) (skip_while is_digit (source lx) (pos lx + 1))))"
  by (simp add: lexer_parse_location_marker_def Let_def case_prod_unfold)

lemma marker_pos: "pos lx < pos (lexer_parse_location_marker lx)"
proof -
  have "pos lx + 1 \<le> pos (lexer_parse_location_marker lx)"
    unfolding marker_end by (meson skip_ge le_trans)
  then show ?thesis by simp
qed

lemma marker_within:
  "pos lx < length (source lx) \<Longrightarrow> pos (lexer_parse_location_marker lx) \<le> length (source lx)"
  unfolding marker_end by (intro skip_within) simp_all

lemma cur_less: "cur lx \<noteq> NUL \<Longrightarrow> pos lx < length (source lx)"
  unfolding cur_def by (rule c_at_nonzero_less)

function lexer_skip_whitespace :: "Lexer \<Rightarrow> Lexer" where
  "lexer_skip_whitespace lx =
     (if cur lx = SOH then lexer_skip_whitespace (lexer_parse_location_marker lx)
      else if cur lx \<noteq> NUL \<and> is_space (cur lx) then lexer_skip_whitespace (lexer_advance lx)
      else lx)"
  by pat_completeness auto

termination
proof (relation "measure (\<lambda>lx. length (source lx) - pos lx)")
  fix lx
  assume "cur lx = SOH"
  then have "pos lx < length (source lx)" by (intro cur_less) simp
  with marker_pos [of lx]
  show "(lexer_parse_location_marker lx, lx) \<in> measure (\<lambda>lx. length (source lx) - pos lx)"
    by simp
next
  fix lx
  assume "cur lx \<noteq> NUL \<and> is_space (cur lx)"
  then have "pos lx < length (source lx)" by (intro cur_less) simp
  then show "(lexer_advance lx, lx) \<in> measure (\<lambda>lx. length (source lx) - pos lx)" by simp
qed simp

declare lexer_skip_whitespace.simps [simp del]

subsection \<open>Tokens of fixed spelling\<close>

text \<open>The token as it is before its kind is known: cleared, then stamped with the position.\<close>

definition token_set_pos :: "Lexer \<Rightarrow> Token" where
  "token_set_pos lx =
     \<lparr>tk_type = TOKEN_EOF, lexeme = None, tk_value = [], long_value = 0, literal_type = TYPE_VOID,
      tk_unsigned = False, tk_line = line lx, tk_col = col lx, tk_file = lx_file lx\<rparr>"

definition with_text :: "Token \<Rightarrow> TokenType \<Rightarrow> string \<Rightarrow> Token" where
  "with_text t ty s = t\<lparr>tk_type := ty, tk_value := s, lexeme := Some s\<rparr>"

definition single_punct :: "char \<Rightarrow> (TokenType \<times> string) option" where
  "single_punct c =
     (if c = CHR ''('' then Some (TOKEN_LPAREN, ''('')
      else if c = CHR '')'' then Some (TOKEN_RPAREN, '')'')
      else if c = CHR ''{'' then Some (TOKEN_LBRACE, ''{'')
      else if c = CHR ''}'' then Some (TOKEN_RBRACE, ''}'')
      else if c = CHR ''['' then Some (TOKEN_LBRACKET, ''['')
      else if c = CHR '']'' then Some (TOKEN_RBRACKET, '']'')
      else if c = CHR '';'' then Some (TOKEN_SEMICOLON, '';'')
      else if c = CHR '':'' then Some (TOKEN_COLON, '':'')
      else if c = CHR ''?'' then Some (TOKEN_QUESTION, ''?'')
      else if c = CHR '','' then Some (TOKEN_COMMA, '','')
      else None)"

definition arith_punct :: "char \<Rightarrow> char \<Rightarrow> (TokenType \<times> string) option" where
  "arith_punct c n =
     (if c = CHR ''+'' then
        Some (if n = CHR ''+'' then (TOKEN_INCREMENT, ''++'')
              else if n = CHR ''='' then (TOKEN_PLUS_ASSIGN, ''+='')
              else (TOKEN_PLUS, ''+''))
      else if c = CHR ''-'' then
        Some (if n = CHR ''-'' then (TOKEN_DECREMENT, ''--'')
              else if n = CHR ''='' then (TOKEN_MINUS_ASSIGN, ''-='')
              else if n = CHR ''>'' then (TOKEN_ARROW, ''->'')
              else (TOKEN_MINUS, ''-''))
      else if c = CHR ''*'' then
        Some (if n = CHR ''='' then (TOKEN_STAR_ASSIGN, ''*='') else (TOKEN_STAR, ''*''))
      else if c = CHR ''/'' then
        Some (if n = CHR ''='' then (TOKEN_SLASH_ASSIGN, ''/='') else (TOKEN_SLASH, ''/''))
      else if c = CHR ''%'' then
        Some (if n = CHR ''='' then (TOKEN_PERCENT_ASSIGN, ''%='') else (TOKEN_PERCENT, ''%''))
      else if c = CHR ''~'' then Some (TOKEN_TILDE, ''~'')
      else None)"

definition relational_punct :: "char \<Rightarrow> char \<Rightarrow> char \<Rightarrow> (TokenType \<times> string) option" where
  "relational_punct c n m =
     (if c = CHR ''='' \<and> n = CHR ''='' then Some (TOKEN_EQ, ''=='')
      else if c = CHR ''='' then Some (TOKEN_ASSIGN, ''='')
      else if c = CHR ''!'' \<and> n = CHR ''='' then Some (TOKEN_NE, ''!='')
      else if c = CHR ''!'' then Some (TOKEN_BANG, ''!'')
      else if c = CHR ''<'' \<and> n = CHR ''<'' then
        Some (if m = CHR ''='' then (TOKEN_LEFT_SHIFT_ASSIGN, ''<<='') else (TOKEN_LEFT_SHIFT, ''<<''))
      else if c = CHR ''>'' \<and> n = CHR ''>'' then
        Some (if m = CHR ''='' then (TOKEN_RIGHT_SHIFT_ASSIGN, ''>>='') else (TOKEN_RIGHT_SHIFT, ''>>''))
      else if c = CHR ''<'' \<and> n = CHR ''='' then Some (TOKEN_LE, ''<='')
      else if c = CHR ''>'' \<and> n = CHR ''='' then Some (TOKEN_GE, ''>='')
      else if c = CHR ''<'' then Some (TOKEN_LT, ''<'')
      else if c = CHR ''>'' then Some (TOKEN_GT, ''>'')
      else if c = CHR ''&'' \<and> n = CHR ''&'' then Some (TOKEN_AND_AND, ''&&'')
      else if c = CHR ''&'' \<and> n = CHR ''='' then Some (TOKEN_AMP_ASSIGN, ''&='')
      else if c = CHR ''&'' then Some (TOKEN_AMPERSAND, ''&'')
      else if c = CHR ''|'' \<and> n = CHR ''|'' then Some (TOKEN_OR_OR, ''||'')
      else if c = CHR ''|'' \<and> n = CHR ''='' then Some (TOKEN_PIPE_ASSIGN, ''|='')
      else if c = CHR ''|'' then Some (TOKEN_PIPE, ''|'')
      else if c = CHR ''^'' \<and> n = CHR ''='' then Some (TOKEN_CARET_ASSIGN, ''^='')
      else if c = CHR ''^'' then Some (TOKEN_CARET, ''^'')
      else None)"


definition lex_fixed :: "Token \<Rightarrow> Lexer \<Rightarrow> TokenType \<times> string \<Rightarrow> lex_result" where
  "lex_fixed t lx p = Inr (with_text t (fst p) (snd p), advance_by (length (snd p)) lx)"

text \<open>A token whose text is copied to the pool.\<close>

definition lex_stored :: "Token \<Rightarrow> Lexer \<Rightarrow> TokenType \<Rightarrow> string \<Rightarrow> lex_result" where
  "lex_stored t lx ty s = Inr (with_text t ty s, lexer_store_bytes lx s)"

subsection \<open>Floating-point literals\<close>

text \<open>Digits go to the buffer while it holds fewer than 62 characters.\<close>

definition collect :: "(char \<Rightarrow> bool) \<Rightarrow> string \<times> Lexer \<Rightarrow> string \<times> Lexer" where
  "collect P = (\<lambda>(buf, lx).
     let ds = takeWhile P (take (62 - length buf) (rest lx)) in (buf @ ds, advance_by (length ds) lx))"

definition put_char :: "string \<times> Lexer \<Rightarrow> string \<times> Lexer" where
  "put_char = (\<lambda>(buf, lx). (buf @ [cur lx], lexer_advance lx))"

definition is_exp :: "char \<Rightarrow> bool" where
  "is_exp c \<longleftrightarrow> c = CHR ''e'' \<or> c = CHR ''E''"

definition is_sign :: "char \<Rightarrow> bool" where
  "is_sign c \<longleftrightarrow> c = CHR ''+'' \<or> c = CHR ''-''"

definition is_f :: "char \<Rightarrow> bool" where
  "is_f c \<longleftrightarrow> c = CHR ''f'' \<or> c = CHR ''F''"

definition exponent :: "string \<times> Lexer \<Rightarrow> string \<times> Lexer" where
  "exponent b =
     (let b1 = put_char b;
          b2 = (if is_sign (cur (snd b1)) then put_char b1 else b1)
      in collect is_digit b2)"

text \<open>
  The suffix, the terminating NUL behind the collected text, and the token. The NUL is
  written last and at the highest index, so it decides whether the buffer was left.
\<close>

definition finish_float :: "Token \<Rightarrow> string \<times> Lexer \<Rightarrow> lex_result" where
  "finish_float t b =
     (let has_f = is_f (cur (snd b));
          b' = (if has_f then put_char b else b)
      in if length (fst b') \<ge> 64 then Inl BufferOverrun
         else lex_stored t (snd b') (if has_f then TOKEN_FLOAT_LITERAL else TOKEN_DOUBLE_LITERAL) (fst b'))"

definition lex_dot :: "Token \<Rightarrow> Lexer \<Rightarrow> lex_result" where
  "lex_dot t lx =
     (if peek lx 1 = CHR ''.'' \<and> peek lx 2 = CHR ''.'' then lex_fixed t lx (TOKEN_ELLIPSIS, ''...'')
      else if is_digit (peek lx 1) then
        (let b = collect is_digit (put_char ([], lx));
             b' = (if is_exp (cur (snd b)) then exponent b else b)
         in finish_float t b')
      else lex_fixed t lx (TOKEN_DOT, ''.''))"

subsection \<open>Escape sequences, strings and characters\<close>

definition hex_value :: "string \<Rightarrow> nat" where
  "hex_value ds = foldl (\<lambda>v c. (v * 16 + the (digit_value c)) mod 2 ^ 32) 0 ds"

definition oct_value :: "string \<Rightarrow> nat" where
  "oct_value ds = foldl (\<lambda>v c. v * 8 + (code c - 48)) 0 ds"

definition string_escape_char :: "char \<Rightarrow> char option" where
  "string_escape_char c =
     (if c = CHR ''n'' then Some LF
      else if c = CHR ''t'' then Some (CHR 0x09)
      else if c = CHR ''r'' then Some (CHR 0x0D)
      else if c = BACKSLASH then Some BACKSLASH
      else if c = DQUOTE then Some DQUOTE
      else None)"

definition char_escape_char :: "char \<Rightarrow> char option" where
  "char_escape_char c =
     (if c = CHR ''a'' then Some (CHR 0x07)
      else if c = CHR ''b'' then Some (CHR 0x08)
      else if c = CHR ''f'' then Some (CHR 0x0C)
      else if c = CHR ''n'' then Some (CHR 0x0A)
      else if c = CHR ''r'' then Some (CHR 0x0D)
      else if c = CHR ''t'' then Some (CHR 0x09)
      else if c = CHR ''v'' then Some (CHR 0x0B)
      else if c = BACKSLASH then Some BACKSLASH
      else if c = QUOTE then Some QUOTE
      else if c = DQUOTE then Some DQUOTE
      else if c = CHR ''?'' then Some (CHR ''?'')
      else None)"

text \<open>A backslash sequence at the current position, with the table of its one-letter forms.\<close>

definition lex_escape ::
    "lex_error \<Rightarrow> lex_error \<Rightarrow> (char \<Rightarrow> char option) \<Rightarrow> Lexer \<Rightarrow> lex_error + char \<times> Lexer" where
  "lex_escape bad_hex bad_escape table lx =
     (let next = peek lx 1 in
      if next = CHR ''x'' then
        (let lx2 = advance_by 2 lx; ds = takeWhile is_xdigit (rest lx2) in
         if \<not> is_xdigit (cur lx2) then Inl bad_hex
         else Inr (char_of (hex_value ds mod 256), advance_by (length ds) lx2))
      else if is_odigit next then
        (let lx1 = lexer_advance lx; ds = takeWhile is_odigit (take 3 (rest lx1)) in
         Inr (char_of (oct_value ds mod 256), advance_by (length ds) lx1))
      else
        (case table next of
           None \<Rightarrow> Inl bad_escape
         | Some dc \<Rightarrow> Inr (dc, advance_by 2 lx)))"

lemma lex_escape_source:
  assumes "lex_escape e1 e2 tab lx = Inr (c, lx')"
  shows "source lx' = source lx" "pos lx < pos lx'"
  using assms by (auto simp: lex_escape_def Let_def split: if_split_asm option.split_asm)

text \<open>The bytes up to the closing quote, appended to those decoded so far.\<close>

function lex_string_body :: "string \<Rightarrow> Lexer \<Rightarrow> lex_error + string \<times> Lexer" where
  "lex_string_body decoded lx =
     (let ch = cur lx in
      if ch = DQUOTE then Inr (decoded, lexer_advance lx)
      else if ch = NUL then Inl UnterminatedString
      else if ch = LF then Inl NewlineInString
      else if ch = BACKSLASH then
        (case lex_escape InvalidHexInString InvalidEscapeInString string_escape_char lx of
           Inl e \<Rightarrow> Inl e
         | Inr (dc, lx') \<Rightarrow> lex_string_body (decoded @ [dc]) lx')
      else lex_string_body (decoded @ [ch]) (lexer_advance lx))"
  by pat_completeness auto

termination
proof (relation "measure (\<lambda>(s, lx). length (source lx) - pos lx)")
  fix decoded lx x b dc lx'
  assume "x = cur lx" and "x \<noteq> NUL"
    and e: "lex_escape InvalidHexInString InvalidEscapeInString string_escape_char lx = Inr b" "(dc, lx') = b"
  then have "pos lx < length (source lx)" by (intro cur_less) simp
  with lex_escape_source [OF e(1) [folded e(2)]]
  show "((decoded @ [dc], lx'), decoded, lx) \<in> measure (\<lambda>(s, lx). length (source lx) - pos lx)"
    by auto
next
  fix decoded lx x
  assume "x = cur lx" and "x \<noteq> NUL"
  then have "pos lx < length (source lx)" by (intro cur_less) simp
  then show "((decoded @ [x], lexer_advance lx), decoded, lx) \<in> measure (\<lambda>(s, lx). length (source lx) - pos lx)"
    by auto
qed simp

declare lex_string_body.simps [simp del]

definition lex_string :: "Token \<Rightarrow> Lexer \<Rightarrow> lex_result" where
  "lex_string t lx =
     (case lex_string_body [] (lexer_advance lx) of
        Inl e \<Rightarrow> Inl e
      | Inr (s, lx') \<Rightarrow> lex_stored t lx' TOKEN_STRING_LITERAL s)"

definition char_stop :: "char \<Rightarrow> bool" where
  "char_stop c \<longleftrightarrow> c = NUL \<or> c = LF \<or> c = QUOTE"

text \<open>The character between the quotes: itself, or a backslash sequence.\<close>

definition lex_char_item :: "Lexer \<Rightarrow> lex_error + char \<times> Lexer" where
  "lex_char_item lx =
     (let ch = cur lx in
      if ch = NUL then Inl UnterminatedChar
      else if ch = LF then Inl NewlineInChar
      else if ch = QUOTE then Inl EmptyChar
      else if ch = BACKSLASH then lex_escape InvalidHexInChar InvalidEscapeInChar char_escape_char lx
      else Inr (ch, lexer_advance lx))"

definition lex_char :: "Token \<Rightarrow> Lexer \<Rightarrow> lex_result" where
  "lex_char t lx =
     (case lex_char_item (lexer_advance lx) of
        Inl e \<Rightarrow> Inl e
      | Inr (dc, lx') \<Rightarrow>
          if cur lx' \<noteq> QUOTE then
            (let p = pos lx' + length (takeWhile (\<lambda>c. \<not> char_stop c) (rest lx')) in
             Inl (if c_at (source lx') p = QUOTE then MultiCharConstant else UnterminatedChar))
          else
            lex_stored (t\<lparr>long_value := int (code dc), literal_type := TYPE_INT\<rparr>)
              (lexer_advance lx') TOKEN_CHAR_LITERAL [dc])"

subsection \<open>Numbers\<close>

definition is_suffix :: "char \<Rightarrow> bool" where
  "is_suffix c \<longleftrightarrow> c = CHR ''U'' \<or> c = CHR ''u'' \<or> c = CHR ''L'' \<or> c = CHR ''l''"

definition has_unsigned :: "string \<Rightarrow> bool" where
  "has_unsigned sfx \<longleftrightarrow> CHR ''U'' \<in> set sfx \<or> CHR ''u'' \<in> set sfx"

definition l_count :: "string \<Rightarrow> nat" where
  "l_count sfx = length (filter (\<lambda>c. c = CHR ''L'' \<or> c = CHR ''l'') sfx)"

definition literal_kind :: "bool \<Rightarrow> nat \<Rightarrow> nat \<Rightarrow> TypeKind" where
  "literal_kind uns ls parsed =
     (if ls = 2 then (if uns then TYPE_UNSIGNED_LONG_LONG else TYPE_LONG_LONG)
      else if ls = 1 then TYPE_LONG
      else if uns then (if parsed \<le> 0xFFFFFFFF then TYPE_INT else TYPE_LONG)
      else if parsed \<le> INT_MAX then TYPE_INT
      else TYPE_LONG)"

text \<open>The digits \<open>num_buf\<close> in the given base, then the suffixes at the current position.\<close>

definition finish_integer :: "Token \<Rightarrow> nat \<Rightarrow> string \<times> Lexer \<Rightarrow> lex_result" where
  "finish_integer t base b =
     (let num_buf = fst b; lx = snd b;
          sfx = takeWhile is_suffix (rest lx);
          lx' = advance_by (length sfx) lx;
          (parsed, erange) = strtoul num_buf base
      in if l_count sfx > 2 then Inl TooManyLSuffixes
         else if erange \<or> (\<not> has_unsigned sfx \<and> l_count sfx \<noteq> 2 \<and> parsed > nat LONG_MAX)
         then Inl (LiteralTooLarge num_buf)
         else lex_stored
                (t\<lparr>long_value := wrap64 (int parsed), tk_unsigned := has_unsigned sfx,
                   literal_type := literal_kind (has_unsigned sfx) (l_count sfx) parsed\<rparr>)
                lx' TOKEN_INT_LITERAL (if base = 8 then show_nat parsed else num_buf))"

definition lex_hex :: "Token \<Rightarrow> Lexer \<Rightarrow> lex_result" where
  "lex_hex t lx =
     (let b = put_char (put_char ([], lx)) in
      if \<not> is_xdigit (cur (snd b)) then Inl InvalidHexLiteral
      else finish_integer t 16 (collect is_xdigit b))"

definition lex_octal :: "Token \<Rightarrow> Lexer \<Rightarrow> lex_result" where
  "lex_octal t lx =
     (let b = collect is_digit ([], lx) in
      case find (\<lambda>c. c = CHR ''8'' \<or> c = CHR ''9'') (fst b) of
        Some c \<Rightarrow> Inl (InvalidOctalDigit c)
      | None \<Rightarrow> finish_integer t 8 b)"

definition lex_decimal :: "Token \<Rightarrow> Lexer \<Rightarrow> lex_result" where
  "lex_decimal t lx =
     (let b = collect is_digit ([], lx);
          dot = (cur (snd b) = CHR ''.'' \<and> peek (snd b) 1 \<noteq> CHR ''.'');
          b1 = (if dot then collect is_digit (put_char b) else b);
          ex = is_exp (cur (snd b1));
          b2 = (if ex then exponent b1 else b1)
      in if dot \<or> ex then finish_float t b2 else finish_integer t 10 b2)"

definition lex_number :: "Token \<Rightarrow> Lexer \<Rightarrow> lex_result" where
  "lex_number t lx =
     (if cur lx = CHR ''0'' \<and> (peek lx 1 = CHR ''x'' \<or> peek lx 1 = CHR ''X'') then lex_hex t lx
      else if cur lx = CHR ''0'' \<and> is_digit (peek lx 1) then lex_octal t lx
      else lex_decimal t lx)"

subsection \<open>Identifiers and the whole function\<close>

definition lex_ident :: "Token \<Rightarrow> Lexer \<Rightarrow> lex_result" where
  "lex_ident t lx =
     (let s = takeWhile ident_char (rest lx);
          lx' = advance_by (length s) lx
      in case map_of reserved_words s of
           Some ty \<Rightarrow> Inr (with_text t ty s, lx')
         | None \<Rightarrow> lex_stored t lx' TOKEN_IDENTIFIER s)"

definition lex_unknown :: "Token \<Rightarrow> Lexer \<Rightarrow> lex_result" where
  "lex_unknown t lx =
     Inr (with_text t TOKEN_UNKNOWN [cur lx], lexer_advance (lexer_store_bytes lx [cur lx]))"

definition lex_at :: "Token \<Rightarrow> Lexer \<Rightarrow> lex_result" where
  "lex_at t lx =
     (let c = cur lx; n = peek lx 1; m = peek lx 2 in
      if c = NUL then Inr (t, lx)
      else case single_punct c of
        Some p \<Rightarrow> lex_fixed t lx p
      | None \<Rightarrow>
          if c = CHR ''.'' then lex_dot t lx
          else (case arith_punct c n of
            Some p \<Rightarrow> lex_fixed t lx p
          | None \<Rightarrow> (case relational_punct c n m of
              Some p \<Rightarrow> lex_fixed t lx p
            | None \<Rightarrow>
                if c = DQUOTE then lex_string t lx
                else if c = QUOTE then lex_char t lx
                else if (c = CHR ''L'' \<or> c = CHR ''U'' \<or> c = CHR ''u'') \<and> n = QUOTE
                then Inl WideCharUnsupported
                else if is_digit c then lex_number t lx
                else if ident_start c then lex_ident t lx
                else lex_unknown t lx)))"

definition lexer_next_token :: "Lexer \<Rightarrow> lex_result" where
  "lexer_next_token lx0 = (let lx = lexer_skip_whitespace lx0 in lex_at (token_set_pos lx) lx)"

end
