(* ===== verification/Lexer_Props.thy ===== *)
theory Lexer_Props
  imports Lexer
begin

section \<open>What the lexer guarantees\<close>

text \<open>
  Every block of \<^const>\<open>lexer_next_token\<close> moves the lexer only by \<^const>\<open>lexer_advance\<close>, over
  characters of the source. From that one fact follow the bounds, the progress that makes
  tokenizing end, and the positions the tokens carry.
\<close>

subsection \<open>Moving by whole characters\<close>

definition moved :: "nat \<Rightarrow> Lexer \<Rightarrow> Lexer \<Rightarrow> bool" where
  "moved n lx lx' \<longleftrightarrow>
     lx'\<lparr>str_pool := []\<rparr> = (advance_by n lx)\<lparr>str_pool := []\<rparr> \<and> pos lx + n \<le> length (source lx)"

lemma advance_pool: "(lexer_advance lx)\<lparr>str_pool := p\<rparr> = lexer_advance (lx\<lparr>str_pool := p\<rparr>)"
  by (simp add: lexer_advance_def cur_def)

lemma str_pool_advance [simp]: "str_pool (lexer_advance lx) = str_pool lx"
  by (simp add: lexer_advance_def)

lemma advance_by_pool: "(advance_by n lx)\<lparr>str_pool := p\<rparr> = advance_by n (lx\<lparr>str_pool := p\<rparr>)"
  by (induction n arbitrary: lx) (simp_all add: advance_pool)

lemma advance_by_add: "advance_by m (advance_by n lx) = advance_by (n + m) lx"
  by (induction n arbitrary: lx) simp_all

lemma moved_parts:
  assumes "moved n lx lx'"
  shows "source lx' = source lx" "pos lx' = pos lx + n" "pos lx' \<le> length (source lx)"
    "line lx' = line (advance_by n lx)" "col lx' = col (advance_by n lx)"
    "lx_file lx' = lx_file (advance_by n lx)" "file_pool lx' = file_pool (advance_by n lx)"
proof -
  have eq: "lx'\<lparr>str_pool := []\<rparr> = (advance_by n lx)\<lparr>str_pool := []\<rparr>" and le: "pos lx + n \<le> length (source lx)"
    using assms by (simp_all add: moved_def)
  show "source lx' = source lx" using arg_cong [OF eq, of source] by simp
  show pos: "pos lx' = pos lx + n" using arg_cong [OF eq, of pos] by simp
  show "pos lx' \<le> length (source lx)" using pos le by simp
  show "line lx' = line (advance_by n lx)" using arg_cong [OF eq, of line] by simp
  show "col lx' = col (advance_by n lx)" using arg_cong [OF eq, of col] by simp
  show "lx_file lx' = lx_file (advance_by n lx)" using arg_cong [OF eq, of lx_file] by simp
  show "file_pool lx' = file_pool (advance_by n lx)" using arg_cong [OF eq, of file_pool] by simp
qed

lemma moved_trans:
  assumes "moved n a b" and "moved m b c"
  shows "moved (n + m) a c"
proof -
  have "c\<lparr>str_pool := []\<rparr> = advance_by m (b\<lparr>str_pool := []\<rparr>)"
    using assms(2) by (simp add: moved_def advance_by_pool)
  also have "\<dots> = advance_by (n + m) (a\<lparr>str_pool := []\<rparr>)"
    using assms(1) by (simp add: moved_def advance_by_pool advance_by_add)
  finally show ?thesis
    using moved_parts [OF assms(1)] assms(2) by (simp add: moved_def advance_by_pool)
qed

lemma moved_0: "pos lx \<le> length (source lx) \<Longrightarrow> moved 0 lx lx"
  by (simp add: moved_def)

lemma moved_by: "pos lx + n \<le> length (source lx) \<Longrightarrow> moved n lx (advance_by n lx)"
  by (simp add: moved_def)

lemma moved_1: "cur lx \<noteq> NUL \<Longrightarrow> moved 1 lx (lexer_advance lx)"
  using moved_by [of lx 1] cur_less [of lx] by simp

lemma moved_store: "moved n lx lx' \<Longrightarrow> moved n lx (lexer_store_bytes lx' s)"
  by (simp add: moved_def lexer_store_bytes_def)

lemma peek_less: "peek lx k \<noteq> NUL \<Longrightarrow> pos lx + k < length (source lx)"
  unfolding peek_def by (rule c_at_nonzero_less)

lemma length_rest: "length (rest lx) = length (source lx) - pos lx"
  by (simp add: rest_def)

lemma moved_take:
  assumes "pos lx \<le> length (source lx)"
  shows "moved (length (takeWhile P (take k (rest lx)))) lx (advance_by (length (takeWhile P (take k (rest lx)))) lx)"
proof (rule moved_by)
  have "length (takeWhile P (take k (rest lx))) \<le> length (rest lx)"
    by (metis length_take length_takeWhile_le le_trans min.cobounded1)
  with assms show "pos lx + length (takeWhile P (take k (rest lx))) \<le> length (source lx)"
    by (simp add: length_rest)
qed

lemma moved_take_all:
  assumes "pos lx \<le> length (source lx)"
  shows "moved (length (takeWhile P (rest lx))) lx (advance_by (length (takeWhile P (rest lx))) lx)"
  using moved_take [OF assms, of P "length (rest lx)"] by simp


subsection \<open>Each block\<close>

lemma moved_collect:
  assumes "moved n lx (snd b)"
  shows "\<exists>m \<ge> n. moved m lx (snd (collect P b))"
proof -
  have "pos (snd b) \<le> length (source (snd b))" using moved_parts [OF assms] by simp
  from moved_trans [OF assms moved_take [OF this, of P "62 - length (fst b)"]]
  show ?thesis
    by (auto simp: collect_def case_prod_unfold Let_def
        intro!: exI [of _ "n + length (takeWhile P (take (62 - length (fst b)) (rest (snd b))))"])
qed

lemma moved_put:
  assumes "moved n lx (snd b)" and "cur (snd b) \<noteq> NUL"
  shows "moved (n + 1) lx (snd (put_char b))"
  using moved_trans [OF assms(1) moved_1 [OF assms(2)]] by (simp add: put_char_def case_prod_unfold)

lemma moved_exponent:
  assumes "moved n lx (snd b)" and "is_exp (cur (snd b))"
  shows "\<exists>m \<ge> n. moved m lx (snd (exponent b))"
proof -
  let ?b1 = "put_char b"
  have m1: "moved (n + 1) lx (snd ?b1)" using assms by (intro moved_put) (auto simp: is_exp_def)
  have "\<exists>m \<ge> n. moved m lx (snd (if is_sign (cur (snd ?b1)) then put_char ?b1 else ?b1))"
  proof (cases "is_sign (cur (snd ?b1))")
    case True
    then have "cur (snd ?b1) \<noteq> NUL" by (auto simp: is_sign_def)
    from moved_put [OF m1 this] True show ?thesis by (auto intro!: exI [of _ "n + 1 + 1"])
  next
    case False
    with m1 show ?thesis by (auto intro!: exI [of _ "n + 1"])
  qed
  then obtain m where "m \<ge> n" "moved m lx (snd (if is_sign (cur (snd ?b1)) then put_char ?b1 else ?b1))" by blast
  with moved_collect [OF this(2), of is_digit] show ?thesis
    by (auto simp: exponent_def Let_def intro: le_trans)
qed

lemma moved_stored:
  "moved n lx lx0 \<Longrightarrow> lex_stored t lx0 ty s = Inr (t', lx') \<Longrightarrow> moved n lx lx'"
  by (auto simp: lex_stored_def intro: moved_store)

lemma moved_finish_float:
  assumes "moved n lx (snd b)" and "finish_float t b = Inr (t', lx')"
  shows "\<exists>m \<ge> n. moved m lx lx'"
proof (cases "is_f (cur (snd b))")
  case True
  then have "cur (snd b) \<noteq> NUL" by (auto simp: is_f_def)
  from moved_put [OF assms(1) this] True assms(2) show ?thesis
    by (auto simp: finish_float_def Let_def split: if_split_asm intro!: exI [of _ "n + 1"] elim: moved_stored)
next
  case False
  with assms show ?thesis
    by (auto simp: finish_float_def Let_def split: if_split_asm intro!: exI [of _ n] elim: moved_stored)
qed

lemma moved_finish_integer:
  assumes "moved n lx (snd b)" and "finish_integer t base b = Inr (t', lx')"
  shows "\<exists>m \<ge> n. moved m lx lx'"
proof -
  have "pos (snd b) \<le> length (source (snd b))" using moved_parts [OF assms(1)] by simp
  from moved_trans [OF assms(1) moved_take_all [OF this, of is_suffix]] assms(2)
  show ?thesis
    by (auto simp: finish_integer_def Let_def split: prod.split_asm if_split_asm elim!: moved_stored
        intro!: exI [of _ "n + length (takeWhile is_suffix (rest (snd b)))"])
qed

lemma moved_start: "cur lx \<noteq> NUL \<Longrightarrow> moved 0 lx (snd ([], lx))"
  using cur_less [of lx] by (simp add: moved_0)

lemma collect_some:
  assumes "P (cur lx)" and "cur lx \<noteq> NUL"
  shows "\<exists>m \<ge> 1. moved m lx (snd (collect P ([], lx)))"
proof -
  have "rest lx = cur lx # drop (Suc (pos lx)) (source lx)"
    using cur_less [OF assms(2)] by (simp add: rest_def cur_def c_at_def Cons_nth_drop_Suc)
  then have "length (takeWhile P (take 62 (rest lx))) \<ge> 1" using assms(1) by simp
  with moved_take [of lx P 62] cur_less [OF assms(2)] show ?thesis
    by (auto simp: collect_def Let_def)
qed

lemma moved_dot:
  assumes c: "cur lx = CHR ''.''" and run: "lex_dot t lx = Inr (t', lx')"
  shows "\<exists>m \<ge> 1. moved m lx lx'"
proof -
  have nn: "cur lx \<noteq> NUL" using c by simp
  consider "peek lx 1 = CHR ''.''" "peek lx 2 = CHR ''.''" "lex_fixed t lx (TOKEN_ELLIPSIS, ''...'') = Inr (t', lx')"
    | b where "b = collect is_digit (put_char ([], lx))"
        "finish_float t (if is_exp (cur (snd b)) then exponent b else b) = Inr (t', lx')"
    | "lex_fixed t lx (TOKEN_DOT, ''.'') = Inr (t', lx')"
    using run by (auto simp: lex_dot_def Let_def split: if_split_asm)
  then show ?thesis
  proof cases
    case 1
    have "pos lx + 2 < length (source lx)" using 1 by (intro peek_less) simp
    then have "moved 3 lx (advance_by 3 lx)" by (intro moved_by) simp
    with 1(3) show ?thesis by (auto simp: lex_fixed_def numeral_3_eq_3 intro!: exI [of _ 3])
  next
    case (2 b)
    have "moved (0 + 1) lx (snd (put_char ([], lx)))" by (rule moved_put [OF moved_start]) (simp_all add: nn)
    from moved_collect [OF this, of is_digit] obtain m where m: "m \<ge> 1" "moved m lx (snd b)" using 2(1) by auto
    have "\<exists>k \<ge> m. moved k lx (snd (if is_exp (cur (snd b)) then exponent b else b))"
      using moved_exponent [OF m(2)] m(2) by auto
    then obtain k where "k \<ge> m" "moved k lx (snd (if is_exp (cur (snd b)) then exponent b else b))" by blast
    with moved_finish_float [OF this(2) 2(2)] m(1) show ?thesis by (auto intro: le_trans)
  next
    case 3
    with moved_1 [OF nn] show ?thesis by (auto simp: lex_fixed_def)
  qed
qed


lemma moved_escape:
  assumes m: "moved n lx lx1" and c: "cur lx1 = BACKSLASH" and run: "lex_escape e1 e2 tab lx1 = Inr (dc, lx')"
    and tab: "tab NUL = None"
  shows "\<exists>k > n. moved k lx lx'"
proof -
  have nn: "cur lx1 \<noteq> NUL" using c by simp
  have nx: "peek lx1 1 \<noteq> NUL"
    using run tab by (auto simp: lex_escape_def Let_def split: if_split_asm)
  have two: "moved 2 lx1 (advance_by 2 lx1)" using peek_less [OF nx] by (intro moved_by) simp
  from run consider ds where "ds = takeWhile is_xdigit (rest (advance_by 2 lx1))" "lx' = advance_by (length ds) (advance_by 2 lx1)"
    | ds where "ds = takeWhile is_odigit (take 3 (rest (lexer_advance lx1)))" "lx' = advance_by (length ds) (lexer_advance lx1)"
    | "lx' = advance_by 2 lx1"
    by (auto simp: lex_escape_def Let_def split: if_split_asm option.split_asm)
  then show ?thesis
  proof cases
    case (1 ds)
    have "pos (advance_by 2 lx1) \<le> length (source (advance_by 2 lx1))" using peek_less [OF nx] by simp
    from moved_trans [OF m moved_trans [OF two moved_take_all [OF this, of is_xdigit]]] 1
    show ?thesis by (auto intro!: exI [of _ "n + (2 + length ds)"])
  next
    case (2 ds)
    have "pos (lexer_advance lx1) \<le> length (source (lexer_advance lx1))" using cur_less [OF nn] by simp
    from moved_trans [OF m moved_trans [OF moved_1 [OF nn] moved_take [OF this, of is_odigit 3]]] 2
    show ?thesis by (auto intro!: exI [of _ "n + (1 + length ds)"])
  next
    case 3
    with moved_trans [OF m two] show ?thesis by (auto intro!: exI [of _ "n + 2"])
  qed
qed

lemma moved_string_body:
  "lex_string_body s lx1 = Inr (s', lx') \<Longrightarrow> moved n lx lx1 \<Longrightarrow> \<exists>k > n. moved k lx lx'"
proof (induction s lx1 arbitrary: n rule: lex_string_body.induct)
  case (1 s lx1)
  note run = "1.prems"(1)
  show ?case
  proof (cases "cur lx1 = DQUOTE")
    case True
    then have "lx' = lexer_advance lx1" using run by (subst (asm) lex_string_body.simps) (simp add: Let_def)
    moreover have "cur lx1 \<noteq> NUL" using True by simp
    ultimately show ?thesis using moved_trans [OF "1.prems"(2) moved_1] by (auto intro!: exI [of _ "n + 1"])
  next
    case nq: False
    then have ok: "cur lx1 \<noteq> NUL" "cur lx1 \<noteq> LF"
      using run by (subst (asm) lex_string_body.simps, simp add: Let_def split: if_split_asm)+
    show ?thesis
    proof (cases "cur lx1 = BACKSLASH")
      case True
      then obtain dc lx2 where esc: "lex_escape InvalidHexInString InvalidEscapeInString string_escape_char lx1 = Inr (dc, lx2)"
        and body: "lex_string_body (s @ [dc]) lx2 = Inr (s', lx')"
        using run by (subst (asm) lex_string_body.simps) (auto simp: Let_def split: sum.split_asm)
      from moved_escape [OF "1.prems"(2) True esc] obtain k where "k > n" "moved k lx lx2"
        by (auto simp: string_escape_char_def)
      with "1.IH"(1) [OF refl nq ok True esc refl body this(2)] show ?thesis by (auto intro: less_trans)
    next
      case False
      then have body: "lex_string_body (s @ [cur lx1]) (lexer_advance lx1) = Inr (s', lx')"
        using run nq ok by (subst (asm) lex_string_body.simps) (simp add: Let_def)
      from "1.IH"(2) [OF refl nq ok False body moved_trans [OF "1.prems"(2) moved_1 [OF ok(1)]]]
      show ?thesis by (auto intro: Suc_lessD)
    qed
  qed
qed

lemma moved_string:
  assumes "cur lx \<noteq> NUL" and "lex_string t lx = Inr (t', lx')"
  shows "\<exists>m \<ge> 1. moved m lx lx'"
proof -
  from assms(2) obtain s lx1 where body: "lex_string_body [] (lexer_advance lx) = Inr (s, lx1)"
    and st: "lex_stored t lx1 TOKEN_STRING_LITERAL s = Inr (t', lx')"
    by (auto simp: lex_string_def split: sum.split_asm)
  from moved_string_body [OF body moved_1 [OF assms(1)]] obtain k where "k > 1" "moved k lx lx1" by blast
  with moved_stored [OF this(2) st] show ?thesis by (auto intro!: exI [of _ k])
qed

lemma moved_char_item:
  assumes m: "moved n lx lx1" and run: "lex_char_item lx1 = Inr (dc, lx')"
  shows "\<exists>k > n. moved k lx lx'"
proof (cases "cur lx1 = BACKSLASH")
  case True
  with run have "lex_escape InvalidHexInChar InvalidEscapeInChar char_escape_char lx1 = Inr (dc, lx')"
    by (simp add: lex_char_item_def)
  from moved_escape [OF m True this] show ?thesis by (simp add: char_escape_char_def)
next
  case False
  with run have "cur lx1 \<noteq> NUL" "lx' = lexer_advance lx1"
    by (auto simp: lex_char_item_def Let_def split: if_split_asm)
  with moved_trans [OF m moved_1] show ?thesis by (auto intro!: exI [of _ "n + 1"])
qed

lemma moved_char:
  assumes nn: "cur lx \<noteq> NUL" and run: "lex_char t lx = Inr (t', lx')"
  shows "\<exists>m \<ge> 1. moved m lx lx'"
proof -
  from run obtain dc lx2 where item: "lex_char_item (lexer_advance lx) = Inr (dc, lx2)" and q: "cur lx2 = QUOTE"
    and st: "lex_stored (t\<lparr>long_value := int (code dc), literal_type := TYPE_INT\<rparr>) (lexer_advance lx2)
               TOKEN_CHAR_LITERAL [dc] = Inr (t', lx')"
    by (auto simp: lex_char_def Let_def split: sum.split_asm if_split_asm)
  from moved_char_item [OF moved_1 [OF nn] item] obtain k where "k > 1" "moved k lx lx2" by blast
  moreover have "cur lx2 \<noteq> NUL" using q by simp
  ultimately have "moved (k + 1) lx (lexer_advance lx2)" using moved_trans moved_1 by blast
  from moved_stored [OF this st] show ?thesis by auto
qed

lemma moved_number:
  assumes d: "is_digit (cur lx)" and run: "lex_number t lx = Inr (t', lx')"
  shows "\<exists>m \<ge> 1. moved m lx lx'"
proof -
  have nn: "cur lx \<noteq> NUL" using d by auto
  obtain n where n: "n \<ge> 1" "moved n lx (snd (collect is_digit ([], lx)))" using collect_some [of is_digit, OF d nn] by blast
  from run consider (hex) "lex_hex t lx = Inr (t', lx')" "peek lx 1 \<noteq> NUL" | (oct) "lex_octal t lx = Inr (t', lx')"
    | (dec) "lex_decimal t lx = Inr (t', lx')"
    by (auto simp: lex_number_def split: if_split_asm)
  then show ?thesis
  proof cases
    case hex
    have m1: "moved (0 + 1) lx (snd (put_char ([], lx)))" by (rule moved_put [OF moved_start]) (simp_all add: nn)
    have "cur (snd (put_char ([], lx))) \<noteq> NUL"
      using hex(2) by (simp add: put_char_def cur_def peek_def)
    from moved_put [OF m1 this] hex(1) obtain m where
      "finish_integer t 16 (collect is_xdigit (put_char (put_char ([], lx)))) = Inr (t', lx')"
      "m \<ge> 2" "moved m lx (snd (collect is_xdigit (put_char (put_char ([], lx)))))"
      using moved_collect [of 2 lx "put_char (put_char ([], lx))" is_xdigit]
      by (auto simp: lex_hex_def Let_def numeral_2_eq_2 split: if_split_asm)
    with moved_finish_integer [OF this(3,1)] obtain k where "k \<ge> 2" "moved k lx lx'" by (auto intro: le_trans)
    then show ?thesis by (intro exI [of _ k]) simp
  next
    case oct
    then have "finish_integer t 8 (collect is_digit ([], lx)) = Inr (t', lx')"
      by (auto simp: lex_octal_def Let_def split: option.split_asm)
    with moved_finish_integer [OF n(2) this] n(1) show ?thesis by (auto intro: le_trans)
  next
    case dec
    let ?b = "collect is_digit ([], lx)"
    let ?dot = "cur (snd ?b) = CHR ''.'' \<and> peek (snd ?b) 1 \<noteq> CHR ''.''"
    let ?b1 = "if ?dot then collect is_digit (put_char ?b) else ?b"
    let ?b2 = "if is_exp (cur (snd ?b1)) then exponent ?b1 else ?b1"
    have "\<exists>k \<ge> n. moved k lx (snd ?b1)"
    proof (cases ?dot)
      case True
      then have "cur (snd ?b) \<noteq> NUL" by simp
      from moved_collect [OF moved_put [OF n(2) this], of is_digit] True show ?thesis
        by (auto intro: Suc_leD)
    qed (use n(2) in auto)
    then obtain k where k: "k \<ge> n" "moved k lx (snd ?b1)" by blast
    have "\<exists>j \<ge> k. moved j lx (snd ?b2)"
    proof (cases "is_exp (cur (snd ?b1))")
      case True
      from moved_exponent [OF k(2) True] True show ?thesis by simp
    next
      case False
      with k(2) show ?thesis by (simp add: exI [of _ k])
    qed
    then obtain j where j: "j \<ge> k" "moved j lx (snd ?b2)" by blast
    from dec have "finish_float t ?b2 = Inr (t', lx') \<or> finish_integer t 10 ?b2 = Inr (t', lx')"
      unfolding lex_decimal_def Let_def by (simp only: split: if_split_asm) simp_all
    then have "\<exists>i \<ge> j. moved i lx lx'" using moved_finish_float [OF j(2)] moved_finish_integer [OF j(2)] by blast
    with n(1) k(1) j(1) show ?thesis by (auto intro: le_trans)
  qed
qed


lemma moved_ident:
  assumes c: "ident_start (cur lx)" and run: "lex_ident t lx = Inr (t', lx')"
  shows "\<exists>m \<ge> 1. moved m lx lx'"
proof -
  have nn: "cur lx \<noteq> NUL" using c by auto
  let ?s = "takeWhile ident_char (rest lx)"
  have "rest lx = cur lx # drop (Suc (pos lx)) (source lx)"
    using cur_less [OF nn] by (simp add: rest_def cur_def c_at_def Cons_nth_drop_Suc)
  then have "length ?s \<ge> 1" using ident_start_char [OF c] by simp
  moreover have "moved (length ?s) lx (advance_by (length ?s) lx)"
    using cur_less [OF nn] by (intro moved_take_all) simp
  ultimately show ?thesis using run
    by (auto simp: lex_ident_def Let_def split: option.split_asm elim!: moved_stored intro!: exI [of _ "length ?s"])
qed

lemma punct_shape:
  "single_punct c = Some p \<Longrightarrow> length (snd p) = 1 \<and> LF \<notin> set (snd p) \<and> (\<exists>k. fst p = PunctToken k)"
  "arith_punct c n = Some p \<Longrightarrow>
     (length (snd p) = 1 \<or> length (snd p) = 2 \<and> n \<noteq> NUL) \<and> LF \<notin> set (snd p) \<and> (\<exists>k. fst p = PunctToken k)"
  "relational_punct c n m = Some p \<Longrightarrow>
     (length (snd p) = 1 \<or> length (snd p) = 2 \<and> n \<noteq> NUL \<or> length (snd p) = 3 \<and> m \<noteq> NUL) \<and>
     LF \<notin> set (snd p) \<and> (\<exists>k. fst p = PunctToken k)"
  by (auto simp: single_punct_def arith_punct_def relational_punct_def split: if_split_asm)

lemma moved_fixed:
  assumes "lex_fixed t lx p = Inr (t', lx')" and "cur lx \<noteq> NUL"
    and "length (snd p) = 1 \<or> length (snd p) = 2 \<and> peek lx 1 \<noteq> NUL \<or> length (snd p) = 3 \<and> peek lx 2 \<noteq> NUL"
  shows "\<exists>m \<ge> 1. moved m lx lx'"
proof -
  have "length (snd p) \<ge> 1" using assms(3) by auto
  moreover have "pos lx + length (snd p) \<le> length (source lx)"
    using assms(2,3) cur_less [of lx] peek_less [of lx 1] peek_less [of lx 2] by auto
  ultimately show ?thesis using assms(1) moved_by
    by (auto simp: lex_fixed_def intro!: exI [of _ "length (snd p)"])
qed

text \<open>Which block a token comes from.\<close>

lemma lex_at_cases:
  assumes nn: "cur lx \<noteq> NUL" and run: "lex_at t lx = Inr (t', lx')"
  obtains (Fixed) k s where "lex_fixed t lx (PunctToken k, s) = Inr (t', lx')"
      "length s = 1 \<or> length s = 2 \<and> peek lx 1 \<noteq> NUL \<or> length s = 3 \<and> peek lx 2 \<noteq> NUL" "LF \<notin> set s"
  | (Dot) "cur lx = CHR ''.''" "lex_dot t lx = Inr (t', lx')"
  | (String) "lex_string t lx = Inr (t', lx')"
  | (Char) "lex_char t lx = Inr (t', lx')"
  | (Number) "is_digit (cur lx)" "lex_number t lx = Inr (t', lx')"
  | (Ident) "ident_start (cur lx)" "lex_ident t lx = Inr (t', lx')"
  | (Unknown) "lex_unknown t lx = Inr (t', lx')"
proof (cases "single_punct (cur lx)")
  case (Some p)
  then have "lex_fixed t lx p = Inr (t', lx')" using run nn by (simp add: lex_at_def)
  with punct_shape(1) [OF Some] Fixed [of _ "snd p"] show ?thesis by (cases p) auto
next
  case single: None
  show ?thesis
  proof (cases "cur lx = CHR ''.''")
    case True
    with run nn single Dot show ?thesis by (simp add: lex_at_def)
  next
    case dot: False
    show ?thesis
    proof (cases "arith_punct (cur lx) (peek lx 1)")
      case (Some p)
      then have "lex_fixed t lx p = Inr (t', lx')" using run nn single dot by (simp add: lex_at_def)
      with punct_shape(2) [OF Some] Fixed [of _ "snd p"] show ?thesis by (cases p) auto
    next
      case arith: None
      show ?thesis
      proof (cases "relational_punct (cur lx) (peek lx 1) (peek lx 2)")
        case (Some p)
        then have "lex_fixed t lx p = Inr (t', lx')" using run nn single dot arith by (simp add: lex_at_def)
        with punct_shape(3) [OF Some] Fixed [of _ "snd p"] show ?thesis by (cases p) auto
      next
        case None
        with run nn single dot arith String Char Number Ident Unknown show ?thesis
          by (simp add: lex_at_def Let_def split: if_split_asm)
      qed
    qed
  qed
qed

lemma moved_lex_at:
  assumes nn: "cur lx \<noteq> NUL" and run: "lex_at t lx = Inr (t', lx')"
  shows "\<exists>m \<ge> 1. moved m lx lx'"
  using nn run
proof (cases rule: lex_at_cases)
  case (Fixed k s)
  from moved_fixed [OF Fixed(1) nn] Fixed(2) show ?thesis by simp
next
  case Unknown
  then have "lx' = lexer_store_bytes (lexer_advance lx) [cur lx]"
    by (auto simp: lex_unknown_def lexer_store_bytes_def advance_pool)
  with moved_store [OF moved_1 [OF nn]] show ?thesis by auto
next
  case Dot
  then show ?thesis by (rule moved_dot)
next
  case String
  with nn show ?thesis by (rule moved_string)
next
  case Char
  with nn show ?thesis by (rule moved_char)
next
  case Number
  then show ?thesis by (rule moved_number)
next
  case Ident
  then show ?thesis by (rule moved_ident)
qed

text \<open>No block but the first returns the end token, and none changes the position stamped before.\<close>

definition stamped :: "Token \<Rightarrow> Token \<Rightarrow> bool" where
  "stamped t t' \<longleftrightarrow> tk_type t' \<noteq> TOKEN_EOF \<and> tk_line t' = tk_line t \<and> tk_col t' = tk_col t \<and> tk_file t' = tk_file t"

lemma stamped_with_text: "ty \<noteq> TOKEN_EOF \<Longrightarrow> stamped t (with_text t ty s)"
  by (simp add: stamped_def with_text_def)

lemma stamped_stored: "lex_stored t lx ty s = Inr (t', lx') \<Longrightarrow> ty \<noteq> TOKEN_EOF \<Longrightarrow> stamped t t'"
  by (auto simp: lex_stored_def stamped_with_text)

lemma stamped_float: "finish_float t b = Inr (t', lx') \<Longrightarrow> stamped t t'"
  by (auto simp: finish_float_def Let_def split: if_split_asm elim: stamped_stored)

lemma stamped_integer:
  assumes "finish_integer t base b = Inr (t', lx')"
  shows "stamped t t'"
proof -
  from assms obtain v u k lx0 s where
    "lex_stored (t\<lparr>long_value := v, tk_unsigned := u, literal_type := k\<rparr>) lx0 TOKEN_INT_LITERAL s = Inr (t', lx')"
    by (auto simp: finish_integer_def Let_def split: prod.split_asm if_split_asm)
  from stamped_stored [OF this] show ?thesis by (simp add: stamped_def)
qed

lemma stamped_lex_at:
  assumes nn: "cur lx \<noteq> NUL" and run: "lex_at t lx = Inr (t', lx')"
  shows "stamped t t'"
  using nn run
proof (cases rule: lex_at_cases)
  case (Fixed k s)
  then show ?thesis by (auto simp: lex_fixed_def stamped_with_text)
next
  case Dot
  then show ?thesis
    by (auto simp: lex_dot_def lex_fixed_def Let_def stamped_with_text split: if_split_asm elim: stamped_float)
next
  case String
  then show ?thesis by (auto simp: lex_string_def split: sum.split_asm elim: stamped_stored)
next
  case Char
  then obtain dc lx2 where "lex_stored (t\<lparr>long_value := int (code dc), literal_type := TYPE_INT\<rparr>) (lexer_advance lx2)
      TOKEN_CHAR_LITERAL [dc] = Inr (t', lx')"
    by (auto simp: lex_char_def Let_def split: sum.split_asm if_split_asm)
  from stamped_stored [OF this] show ?thesis by (simp add: stamped_def)
next
  case Number
  then show ?thesis
    by (auto simp: lex_number_def lex_hex_def lex_octal_def lex_decimal_def Let_def
        split: if_split_asm option.split_asm elim: stamped_float stamped_integer)
next
  case Ident
  then show ?thesis
    by (auto simp: lex_ident_def Let_def keyword_table dest!: map_of_SomeD intro!: stamped_with_text
        split: option.split_asm elim!: stamped_stored)
next
  case Unknown
  then show ?thesis by (auto simp: lex_unknown_def stamped_with_text)
qed

subsection \<open>White space and markers\<close>

lemma skip_whitespace_source [simp]: "source (lexer_skip_whitespace lx) = source lx"
proof (induction lx rule: lexer_skip_whitespace.induct)
  case (1 lx)
  then show ?case by (subst lexer_skip_whitespace.simps) auto
qed

lemma skip_whitespace_bounds:
  "pos lx \<le> length (source lx) \<Longrightarrow>
   pos lx \<le> pos (lexer_skip_whitespace lx) \<and> pos (lexer_skip_whitespace lx) \<le> length (source lx)"
proof (induction lx rule: lexer_skip_whitespace.induct)
  case (1 lx)
  show ?case
  proof (cases "cur lx = SOH")
    case True
    then have lt: "pos lx < length (source lx)" by (intro cur_less) simp
    have "pos (lexer_parse_location_marker lx) \<le> length (source (lexer_parse_location_marker lx))"
      using marker_within [OF lt] by simp
    from "1.IH"(1) [OF True this] marker_pos [of lx] True show ?thesis
      by (subst (1 2) lexer_skip_whitespace.simps) simp
  next
    case False
    show ?thesis
    proof (cases "cur lx \<noteq> NUL \<and> is_space (cur lx)")
      case True
      then have "pos (lexer_advance lx) \<le> length (source (lexer_advance lx))" using cur_less [of lx] by simp
      from "1.IH"(2) [OF False True this] False True show ?thesis
        by (subst (1 2) lexer_skip_whitespace.simps) simp
    next
      case stop: False
      with False "1.prems" show ?thesis by (subst (1 2) lexer_skip_whitespace.simps) auto
    qed
  qed
qed

lemma skip_whitespace_stops:
  "cur (lexer_skip_whitespace lx) \<noteq> SOH \<and> \<not> is_space (cur (lexer_skip_whitespace lx))"
proof (induction lx rule: lexer_skip_whitespace.induct)
  case (1 lx)
  then show ?case by (subst (1 2) lexer_skip_whitespace.simps) auto
qed


subsection \<open>Progress, bounds and the end of the input\<close>

lemma cur_NUL_at_end: "NUL \<notin> set (source lx) \<Longrightarrow> pos lx \<le> length (source lx) \<Longrightarrow> cur lx = NUL \<Longrightarrow> pos lx = length (source lx)"
  by (auto simp: cur_def c_at_def split: if_split_asm) (metis nth_mem)

lemma next_token_parts:
  assumes "pos lx \<le> length (source lx)" and "lexer_next_token lx = Inr (t, lx')"
  defines "lx1 \<equiv> lexer_skip_whitespace lx"
  shows "source lx' = source lx" "pos lx1 \<le> pos lx'" "pos lx' \<le> length (source lx)"
    "tk_type t = TOKEN_EOF \<longleftrightarrow> cur lx1 = NUL" "cur lx1 = NUL \<Longrightarrow> lx' = lx1 \<and> t = token_set_pos lx1"
    "cur lx1 \<noteq> NUL \<Longrightarrow> \<exists>m \<ge> 1. moved m lx1 lx'"
    "tk_line t = line lx1 \<and> tk_col t = col lx1 \<and> tk_file t = lx_file lx1"
proof -
  have run: "lex_at (token_set_pos lx1) lx1 = Inr (t, lx')"
    using assms(2) by (simp add: lexer_next_token_def lx1_def Let_def)
  have b: "pos lx1 \<le> length (source lx)" "source lx1 = source lx"
    using skip_whitespace_bounds [OF assms(1)] by (simp_all add: lx1_def)
  have stop: "lx' = lx1 \<and> t = token_set_pos lx1" if "cur lx1 = NUL"
    using run that by (auto simp: lex_at_def)
  have go: "\<exists>m \<ge> 1. moved m lx1 lx'" "stamped (token_set_pos lx1) t" if "cur lx1 \<noteq> NUL"
    using moved_lex_at [OF that run] stamped_lex_at [OF that run] by simp_all
  show "cur lx1 = NUL \<Longrightarrow> lx' = lx1 \<and> t = token_set_pos lx1" by (rule stop)
  show "cur lx1 \<noteq> NUL \<Longrightarrow> \<exists>m \<ge> 1. moved m lx1 lx'" by (rule go)
  show "tk_type t = TOKEN_EOF \<longleftrightarrow> cur lx1 = NUL"
    using stop go(2) by (cases "cur lx1 = NUL") (auto simp: token_set_pos_def stamped_def)
  show "tk_line t = line lx1 \<and> tk_col t = col lx1 \<and> tk_file t = lx_file lx1"
    using stop go(2) by (cases "cur lx1 = NUL") (auto simp: token_set_pos_def stamped_def)
  have "source lx' = source lx \<and> pos lx1 \<le> pos lx' \<and> pos lx' \<le> length (source lx)"
  proof (cases "cur lx1 = NUL")
    case True
    with stop b show ?thesis by simp
  next
    case False
    with go(1) obtain m where "moved m lx1 lx'" by blast
    from moved_parts(1,2,3) [OF this] b show ?thesis by simp
  qed
  then show "source lx' = source lx" "pos lx1 \<le> pos lx'" "pos lx' \<le> length (source lx)" by simp_all
qed

text \<open>
  (C8) A call of \<^const>\<open>lexer_next_token\<close> that returns stays inside the source and never moves
  back; it consumes at least one character unless it returns the end token, and it
  returns the end token exactly when only white space and markers are left.
\<close>

theorem lexer_progress:
  assumes "NUL \<notin> set (source lx)" and "pos lx \<le> length (source lx)"
    and "lexer_next_token lx = Inr (t, lx')"
  shows "source lx' = source lx \<and> pos lx \<le> pos lx' \<and> pos lx' \<le> length (source lx) \<and>
    (if tk_type t = TOKEN_EOF then pos lx' = length (source lx) else pos lx < pos lx')"
proof -
  note p = next_token_parts [OF assms(2,3)] and s = skip_whitespace_bounds [OF assms(2)]
  have "pos lx' = length (source lx)" if "tk_type t = TOKEN_EOF"
  proof -
    have "cur (lexer_skip_whitespace lx) = NUL" using that p(4) by simp
    with cur_NUL_at_end [of "lexer_skip_whitespace lx"] p(5) s assms(1) show ?thesis by simp
  qed
  moreover have "pos lx < pos lx'" if "tk_type t \<noteq> TOKEN_EOF"
  proof -
    from that p(4,6) obtain m where "m \<ge> 1" "moved m (lexer_skip_whitespace lx) lx'" by blast
    with moved_parts(2) [OF this(2)] s show ?thesis by simp
  qed
  ultimately show ?thesis using p(1-3) s by simp
qed

theorem lexer_progress_witness:
  "source (lexer_init ''x;'' None) = ''x;'' \<and>
   pos (lexer_init ''x;'' None) < pos (snd (projr (lexer_next_token (lexer_init ''x;'' None))))"
proof -
  have "lexer_next_token (lexer_init ''x;'' None) =
      Inr (fst (projr (lexer_next_token (lexer_init ''x;'' None))), snd (projr (lexer_next_token (lexer_init ''x;'' None))))"
    "tk_type (fst (projr (lexer_next_token (lexer_init ''x;'' None)))) = TOKEN_IDENTIFIER"
    by code_simp+
  from lexer_progress [OF _ _ this(1)] this(2) show ?thesis by (simp add: lexer_init_def)
qed

subsection \<open>Reading all tokens\<close>

text \<open>The loop of \<^verbatim>\<open>print_tokens_mode\<close> (\<^verbatim>\<open>src/compiler.c\<close>): every token up to and with the end token.\<close>

lemma next_token_inside:
  assumes "lexer_next_token lx = Inr (t, lx')" and "tk_type t \<noteq> TOKEN_EOF"
  shows "pos lx < length (source lx)" "source lx' = source lx" "pos lx < pos lx'"
proof -
  show le: "pos lx < length (source lx)"
  proof (rule ccontr)
    assume "\<not> pos lx < length (source lx)"
    then have nul: "cur lx = NUL" by (simp add: cur_def c_at_def)
    then have "lexer_skip_whitespace lx = lx" by (subst lexer_skip_whitespace.simps) simp
    with nul have "lexer_next_token lx = Inr (token_set_pos lx, lx)" by (simp add: lexer_next_token_def lex_at_def)
    with assms show False by (auto simp: token_set_pos_def)
  qed
  have le': "pos lx \<le> length (source lx)" using le by simp
  note p = next_token_parts [OF le' assms(1)]
  from p(4,6) assms(2) obtain m where "m \<ge> 1" "moved m (lexer_skip_whitespace lx) lx'" by blast
  with moved_parts(2) [OF this(2)] skip_whitespace_bounds [OF le'] show "pos lx < pos lx'" by simp
  show "source lx' = source lx" by (rule p(1))
qed

lemma next_token_decreases:
  "lexer_next_token lx = Inr (t, lx') \<Longrightarrow> tk_type t \<noteq> TOKEN_EOF \<Longrightarrow>
   length (source lx') - pos lx' < length (source lx) - pos lx"
  using next_token_inside [of lx t lx'] by simp

function lex_all :: "Lexer \<Rightarrow> lex_error + Token list" where
  "lex_all lx =
     (case lexer_next_token lx of
        Inl e \<Rightarrow> Inl e
      | Inr (t, lx') \<Rightarrow>
          if tk_type t = TOKEN_EOF then Inr [t]
          else (case lex_all lx' of Inl e \<Rightarrow> Inl e | Inr ts \<Rightarrow> Inr (t # ts)))"
  by pat_completeness auto

termination
  by (relation "measure (\<lambda>lx. length (source lx) - pos lx)")
     (auto intro: next_token_decreases)

declare lex_all.simps [simp del]

text \<open>
  (C9) Reading the tokens of a source ends, with an error message or with a list that closes
  with the only end token and has at most one token per character before it.
\<close>

theorem lex_all_ends:
  "(\<exists>e. lex_all (lexer_init src name) = Inl e) \<or>
   (\<exists>ts t. lex_all (lexer_init src name) = Inr (ts @ [t]) \<and> tk_type t = TOKEN_EOF \<and>
      TOKEN_EOF \<notin> tk_type ` set ts \<and> length ts \<le> length src)"
proof -
  have "(\<exists>e. lex_all lx = Inl e) \<or>
     (\<exists>ts t. lex_all lx = Inr (ts @ [t]) \<and> tk_type t = TOKEN_EOF \<and>
        TOKEN_EOF \<notin> tk_type ` set ts \<and> length ts \<le> length (source lx) - pos lx)" for lx
  proof (induction lx rule: lex_all.induct)
    case (1 lx)
    show ?case
    proof (cases "lexer_next_token lx")
      case (Inl e)
      then show ?thesis by (simp add: lex_all.simps [of lx])
    next
      case (Inr r)
      obtain t lx' where r: "r = (t, lx')" by (cases r)
      show ?thesis
      proof (cases "tk_type t = TOKEN_EOF")
        case True
        then have "lex_all lx = Inr ([] @ [t])" using Inr r by (simp add: lex_all.simps [of lx])
        with True show ?thesis by fastforce
      next
        case False
        note n = next_token_inside [OF Inr [unfolded r] False]
        from "1.IH" [OF Inr r [symmetric] False] show ?thesis
        proof (elim disjE exE conjE)
          fix e assume "lex_all lx' = Inl e"
          then show ?thesis using Inr r False by (simp add: lex_all.simps [of lx])
        next
          fix ts u
          assume "lex_all lx' = Inr (ts @ [u])" and u: "tk_type u = TOKEN_EOF" "TOKEN_EOF \<notin> tk_type ` set ts"
            and len: "length ts \<le> length (source lx') - pos lx'"
          then have "lex_all lx = Inr ((t # ts) @ [u])" using Inr r False by (simp add: lex_all.simps [of lx])
          moreover have "length (t # ts) \<le> length (source lx) - pos lx" using len n by simp
          moreover have "TOKEN_EOF \<notin> tk_type ` set (t # ts)" using u(2) False by auto
          ultimately show ?thesis using u(1) by blast
        qed
      qed
    qed
  qed
  from this [of "lexer_init src name"] show ?thesis
    by (simp add: lexer_init_def Let_def case_prod_unfold split: option.splits)
qed


subsection \<open>Lines and columns\<close>

text \<open>Where a position is in a text: its line, and its column in that line, both from one.\<close>

definition text_line :: "string \<Rightarrow> nat" where
  "text_line s = 1 + length (filter (\<lambda>c. c = LF) s)"

definition text_col :: "string \<Rightarrow> nat" where
  "text_col s = 1 + length (takeWhile (\<lambda>c. c \<noteq> LF) (rev s))"

definition tracked :: "Lexer \<Rightarrow> bool" where
  "tracked lx \<longleftrightarrow> pos lx \<le> length (source lx) \<and>
     line lx = text_line (take (pos lx) (source lx)) \<and> col lx = text_col (take (pos lx) (source lx))"

lemma tracked_advance:
  assumes "tracked lx" and "pos lx < length (source lx)"
  shows "tracked (lexer_advance lx)"
proof -
  have "take (Suc (pos lx)) (source lx) = take (pos lx) (source lx) @ [cur lx]"
    using assms(2) by (simp add: take_Suc_conv_app_nth cur_def c_at_def)
  with assms show ?thesis by (simp add: tracked_def lexer_advance_def text_line_def text_col_def)
qed

lemma tracked_by: "tracked lx \<Longrightarrow> pos lx + n \<le> length (source lx) \<Longrightarrow> tracked (advance_by n lx)"
  by (induction n arbitrary: lx) (simp_all add: tracked_advance)

lemma tracked_moved: "tracked lx \<Longrightarrow> moved n lx lx' \<Longrightarrow> tracked lx'"
proof -
  assume m: "moved n lx lx'" and "tracked lx"
  then have "tracked (advance_by n lx)" using moved_parts(2,3) [OF m] by (intro tracked_by) simp_all
  then show "tracked lx'" using moved_parts(1,2,4,5) [OF m] by (simp add: tracked_def)
qed

lemma cur_in_source: "cur lx \<noteq> NUL \<Longrightarrow> cur lx \<in> set (source lx)"
proof -
  assume "cur lx \<noteq> NUL"
  then have "pos lx < length (source lx)" by (rule cur_less)
  then show ?thesis by (simp add: cur_def c_at_def)
qed

lemma skip_whitespace_tracked:
  "SOH \<notin> set (source lx) \<Longrightarrow> tracked lx \<Longrightarrow>
   tracked (lexer_skip_whitespace lx) \<and>
   list_all is_space (take (pos (lexer_skip_whitespace lx) - pos lx) (rest lx))"
proof (induction lx rule: lexer_skip_whitespace.induct)
  case (1 lx)
  have soh: "cur lx \<noteq> SOH" using "1.prems"(1) cur_in_source [of lx] by auto
  show ?case
  proof (cases "cur lx \<noteq> NUL \<and> is_space (cur lx)")
    case True
    let ?a = "lexer_advance lx"
    have lt: "pos lx < length (source lx)" using True by (intro cur_less) simp
    have skip: "lexer_skip_whitespace lx = lexer_skip_whitespace ?a"
      using soh True by (subst lexer_skip_whitespace.simps) simp
    have ih: "tracked (lexer_skip_whitespace ?a) \<and>
        list_all is_space (take (pos (lexer_skip_whitespace ?a) - pos ?a) (rest ?a))"
      using "1.IH"(2) [OF soh True] "1.prems" tracked_advance [OF _ lt] by simp
    have "pos ?a \<le> pos (lexer_skip_whitespace ?a)"
      using skip_whitespace_bounds [of ?a] lt by simp
    moreover have "rest lx = cur lx # rest ?a"
      using lt by (simp add: rest_def cur_def c_at_def Cons_nth_drop_Suc)
    ultimately show ?thesis using ih True by (simp add: skip take_Cons' Suc_diff_le)
  next
    case False
    with soh have "lexer_skip_whitespace lx = lx" by (subst lexer_skip_whitespace.simps) auto
    with "1.prems" show ?thesis by simp
  qed
qed

text \<open>
  (C10) Source positions are exact. In a source without location markers, a lexer whose line
  and column are those of its position stays so, and the token it returns carries the line
  and column of its own first character, the first one that is not white space.
\<close>

theorem token_positions_exact:
  assumes "SOH \<notin> set (source lx)" and "tracked lx" and "lexer_next_token lx = Inr (t, lx')"
  shows "tracked lx' \<and>
    (\<exists>p \<le> pos lx'. pos lx \<le> p \<and> list_all is_space (take (p - pos lx) (rest lx)) \<and>
       \<not> is_space (c_at (source lx) p) \<and>
       tk_line t = text_line (take p (source lx)) \<and> tk_col t = text_col (take p (source lx)))"
proof -
  let ?a = "lexer_skip_whitespace lx"
  have le: "pos lx \<le> length (source lx)" using assms(2) by (simp add: tracked_def)
  note p = next_token_parts [OF le assms(3)] and s = skip_whitespace_bounds [OF le]
    and k = skip_whitespace_tracked [OF assms(1,2)]
  have "tracked lx'"
  proof (cases "cur ?a = NUL")
    case True
    with p(5) k show ?thesis by simp
  next
    case False
    with p(6) obtain m where "moved m ?a lx'" by blast
    with k show ?thesis by (blast intro: tracked_moved)
  qed
  moreover have "\<not> is_space (c_at (source lx) (pos ?a))"
    using skip_whitespace_stops [of lx] by (simp add: cur_def)
  ultimately show ?thesis using p(2,7) s k by (intro conjI exI [of _ "pos ?a"]) (auto simp: tracked_def)
qed

definition sample_source :: string where
  "sample_source = [LF, CHR '' '', CHR ''x'']"

definition sample_next :: "Token \<times> Lexer" where
  "sample_next = projr (lexer_next_token (lexer_init sample_source None))"

lemma sample_next_run: "lexer_next_token (lexer_init sample_source None) = Inr (fst sample_next, snd sample_next)"
  by code_simp

theorem token_positions_exact_witness:
  "tk_line (fst sample_next) = 2 \<and> tk_col (fst sample_next) = 2 \<and> tracked (snd sample_next)"
proof -
  have "tracked (snd sample_next)"
    using token_positions_exact [OF _ _ sample_next_run] by (simp add: lexer_init_def sample_source_def tracked_def text_line_def text_col_def)
  moreover have "tk_line (fst sample_next) = 2" "tk_col (fst sample_next) = 2" by code_simp+
  ultimately show ?thesis by blast
qed

end
