(* ===== verification/Lexer_Tokens.thy ===== *)
theory Lexer_Tokens
  imports Lexer_Props
begin

section \<open>What the lexer makes of each kind of spelling\<close>

text \<open>
  Statements about the text at the current position: punctuators by longest match,
  identifiers and keywords, integer literals with their suffixes, string literals as the
  inverse of a quoting function, location markers, and when the number buffer is safe.
\<close>

subsection \<open>The text ahead\<close>

lemma cur_rest: "cur lx = c_at (rest lx) 0"
  by (simp add: cur_def rest_def c_at_drop)

lemma peek_rest: "peek lx k = c_at (rest lx) k"
  by (simp add: peek_def rest_def c_at_drop)

lemma rest_advance: "rest (lexer_advance lx) = drop 1 (rest lx)"
  by (simp add: rest_def)

lemma rest_advance_by: "rest (advance_by n lx) = drop n (rest lx)"
  by (simp add: rest_def add.commute)

lemma rest_store [simp]: "rest (lexer_store_bytes lx s) = rest lx"
  by (simp add: rest_def lexer_store_bytes_def)

subsection \<open>Punctuators\<close>

text \<open>The punctuator the blocks choose from the next three characters.\<close>

definition munch :: "char \<Rightarrow> char \<Rightarrow> char \<Rightarrow> (TokenType \<times> string) option" where
  "munch c n m =
     (case single_punct c of
        Some p \<Rightarrow> Some p
      | None \<Rightarrow>
          if c = CHR ''.'' then
            Some (if n = CHR ''.'' \<and> m = CHR ''.'' then (TOKEN_ELLIPSIS, ''...'') else (TOKEN_DOT, ''.''))
          else (case arith_punct c n of Some p \<Rightarrow> Some p | None \<Rightarrow> relational_punct c n m))"

lemma lex_at_munch:
  assumes "munch (cur lx) (peek lx 1) (peek lx 2) = Some p" and "\<not> (cur lx = CHR ''.'' \<and> is_digit (peek lx 1))"
  shows "lex_at t lx = lex_fixed t lx p"
proof -
  have "cur lx \<noteq> NUL"
    using assms(1) by (auto simp: munch_def single_punct_def arith_punct_def relational_punct_def)
  with assms show ?thesis
    by (auto simp: munch_def lex_at_def lex_dot_def Let_def split: option.split_asm if_split_asm)
qed

lemma punct_prefix:
  "starts_with (punct_text k) s \<Longrightarrow>
   \<exists>p. munch (c_at s 0) (c_at s 1) (c_at s 2) = Some p \<and> length (punct_text k) \<le> length (snd p)"
proof -
  assume "starts_with (punct_text k) s"
  then obtain u where s: "s = punct_text k @ u" by (auto simp: starts_with_iff)
  show ?thesis unfolding s
    by (cases k) (simp_all add: munch_def single_punct_def arith_punct_def relational_punct_def)
qed

lemma starts_with_c_at:
  "a \<noteq> NUL \<Longrightarrow> starts_with [a] s \<longleftrightarrow> c_at s 0 = a"
  "a \<noteq> NUL \<Longrightarrow> b \<noteq> NUL \<Longrightarrow> starts_with [a, b] s \<longleftrightarrow> c_at s 0 = a \<and> c_at s 1 = b"
  "a \<noteq> NUL \<Longrightarrow> b \<noteq> NUL \<Longrightarrow> c \<noteq> NUL \<Longrightarrow>
     starts_with [a, b, c] s \<longleftrightarrow> c_at s 0 = a \<and> c_at s 1 = b \<and> c_at s 2 = c"
  by (cases s; auto; cases "tl s"; auto; cases "tl (tl s)"; auto)+

lemma munch_prefix:
  "munch (c_at s 0) (c_at s 1) (c_at s 2) = Some p \<Longrightarrow>
   \<exists>k. p = (PunctToken k, punct_text k) \<and> starts_with (punct_text k) s"
  by (auto simp: munch_def single_punct_def arith_punct_def relational_punct_def starts_with_c_at
      split: if_split_asm)

text \<open>
  (C26) Punctuators are read by longest match: where the text ahead begins with a punctuator (and
  not with a point and a digit, which begin a floating-point literal), the token is a
  punctuator the text begins with, no longer one is, and exactly its characters are consumed.
\<close>

theorem punctuator_longest_match:
  assumes "starts_with (punct_text k) (rest lx)" and "\<not> (cur lx = CHR ''.'' \<and> is_digit (peek lx 1))"
  shows "\<exists>j. lex_at t lx = Inr (with_text t (PunctToken j) (punct_text j), advance_by (length (punct_text j)) lx) \<and>
     starts_with (punct_text j) (rest lx) \<and>
     (\<forall>i. starts_with (punct_text i) (rest lx) \<longrightarrow> length (punct_text i) \<le> length (punct_text j))"
proof -
  obtain p where p: "munch (c_at (rest lx) 0) (c_at (rest lx) 1) (c_at (rest lx) 2) = Some p"
    using punct_prefix [OF assms(1)] by blast
  obtain j where j: "p = (PunctToken j, punct_text j)" "starts_with (punct_text j) (rest lx)"
    using munch_prefix [OF p] by blast
  have "lex_at t lx = lex_fixed t lx p"
    using p assms(2) by (intro lex_at_munch) (simp_all add: cur_rest peek_rest)
  moreover have "length (punct_text i) \<le> length (punct_text j)" if "starts_with (punct_text i) (rest lx)" for i
    using punct_prefix [OF that] p j(1) by auto
  ultimately show ?thesis using j by (auto simp: lex_fixed_def)
qed

text \<open>A lexer at the start of a text, and the token stamped there.\<close>

definition start_lexer :: "string \<Rightarrow> Lexer" where
  "start_lexer s = lexer_init s None"

definition start_token :: Token where
  "start_token = token_set_pos (start_lexer [])"

lemma rest_start [simp]: "rest (start_lexer s) = s"
  by (simp add: start_lexer_def lexer_init_def rest_def)

theorem punctuator_longest_match_witness:
  "\<exists>j. lex_at start_token (start_lexer ''<<=x'') =
       Inr (with_text start_token (PunctToken j) (punct_text j), advance_by (length (punct_text j)) (start_lexer ''<<=x'')) \<and>
     starts_with (punct_text j) (rest (start_lexer ''<<=x'')) \<and>
     (\<forall>i. starts_with (punct_text i) (rest (start_lexer ''<<=x'')) \<longrightarrow> length (punct_text i) \<le> length (punct_text j))"
  by (rule punctuator_longest_match [of PT_LT]) (simp_all add: cur_rest)

subsection \<open>Identifiers and keywords\<close>

lemma punct_chars:
  "single_punct c \<noteq> None \<Longrightarrow> c \<in> set ''(){}[];:?,''"
  "arith_punct c n \<noteq> None \<Longrightarrow> c \<in> set ''+-*/%~''"
  "relational_punct c n m \<noteq> None \<Longrightarrow> c \<in> set ''=!<>&|^''"
  by (auto simp: single_punct_def arith_punct_def relational_punct_def split: if_split_asm)

lemma word_char_not_punct:
  "c \<in> set (''(){}[];:?,'' @ ''+-*/%~'' @ ''=!<>&|^'' @ [CHR ''.'', DQUOTE, QUOTE, NUL]) \<Longrightarrow> \<not> ident_char c"
  by (auto simp: ctypes)

lemma word_not_punct:
  assumes "ident_char c"
  shows "single_punct c = None" "c \<noteq> CHR ''.''" "arith_punct c n = None" "relational_punct c n m = None"
    "c \<noteq> DQUOTE" "c \<noteq> QUOTE" "c \<noteq> NUL"
proof -
  have no: "c \<notin> set (''(){}[];:?,'' @ ''+-*/%~'' @ ''=!<>&|^'' @ [CHR ''.'', DQUOTE, QUOTE, NUL])"
    using word_char_not_punct assms by blast
  then have "c \<notin> set ''(){}[];:?,''" "c \<notin> set ''+-*/%~''" "c \<notin> set ''=!<>&|^''" by simp_all
  then show "single_punct c = None" "arith_punct c n = None" "relational_punct c n m = None"
    using punct_chars by blast+
  show "c \<noteq> CHR ''.''" "c \<noteq> DQUOTE" "c \<noteq> QUOTE" "c \<noteq> NUL" using no by simp_all
qed

lemma ident_start_not_digit: "ident_start c \<Longrightarrow> \<not> is_digit c"
  by (auto simp: ctypes)

lemma takeWhile_split:
  "list_all P s \<Longrightarrow> \<not> P (c_at u 0) \<or> u = [] \<Longrightarrow> takeWhile P (s @ u) = s"
  by (induction s) (cases u; auto)+

lemma identifier_read:
  assumes "rest lx = s @ u" and "s \<noteq> []" and "ident_start (hd s)" and "list_all ident_char s"
    and "\<not> ident_char (c_at u 0)" and "c_at u 0 \<noteq> QUOTE"
  shows "\<exists>lx'. lex_at t lx =
       Inr (with_text t (case map_of reserved_words s of Some ty \<Rightarrow> ty | None \<Rightarrow> TOKEN_IDENTIFIER) s, lx') \<and>
     rest lx' = u"
proof -
  obtain c w where s: "s = c # w" using assms(2) by (cases s) auto
  have c: "cur lx = c" "ident_start c" using assms(1,3) s by (simp_all add: cur_rest)
  have n: "peek lx 1 \<noteq> QUOTE"
  proof (cases w)
    case Nil
    with assms(1,6) s show ?thesis by (simp add: peek_rest)
  next
    case (Cons d w')
    with assms(4) s have "ident_char d" by simp
    then have "d \<noteq> QUOTE" by (auto simp: ctypes)
    with assms(1) s Cons show ?thesis by (simp add: peek_rest)
  qed
  have "takeWhile ident_char (rest lx) = s"
    using assms(1,4,5) by (simp add: takeWhile_split)
  moreover have "lex_at t lx = lex_ident t lx"
    using c n word_not_punct [OF ident_start_char [OF c(2)]] ident_start_not_digit [OF c(2)]
    by (simp add: lex_at_def Let_def)
  ultimately show ?thesis
    using assms(1) by (auto simp: lex_ident_def Let_def lex_stored_def rest_advance_by split: option.split)
qed

text \<open>
  (C27) Identifiers are read whole: where the text ahead is a word followed by something that
  does not continue it (nor is the quote of a wide character), the token is the keyword of
  that spelling if there is one, an identifier otherwise, and the rest of the text remains.
\<close>

theorem identifier_token:
  assumes "rest lx = s @ u" and "s \<noteq> []" and "ident_start (hd s)" and "list_all ident_char s"
    and "\<not> ident_char (c_at u 0)" and "c_at u 0 \<noteq> QUOTE"
  shows "\<exists>lx'. lex_at t lx =
       Inr (with_text t (case map_of reserved_words s of Some ty \<Rightarrow> ty | None \<Rightarrow> TOKEN_IDENTIFIER) s, lx') \<and>
     rest lx' = u"
  using assms by (rule identifier_read)

theorem identifier_token_witness:
  "\<exists>lx'. lex_at start_token (start_lexer ''while(1)'') =
      Inr (with_text start_token (case map_of reserved_words ''while'' of Some ty \<Rightarrow> ty | None \<Rightarrow> TOKEN_IDENTIFIER) ''while'', lx') \<and>
    rest lx' = ''(1)''"
  by (rule identifier_token) (simp_all add: ctypes)


subsection \<open>Integer literals\<close>

lemma length_show_nat: "n < 10 ^ Suc k \<Longrightarrow> length (show_nat n) \<le> Suc k"
proof (induction k arbitrary: n)
  case 0
  then show ?case by (simp add: show_nat.simps [of n])
next
  case (Suc k)
  show ?case
  proof (cases "n < 10")
    case True
    then show ?thesis by (simp add: show_nat.simps [of n])
  next
    case False
    have "n div 10 < 10 ^ Suc k" using Suc.prems by (simp add: less_mult_imp_div_less)
    from Suc.IH [OF this] False show ?thesis by (simp add: show_nat.simps [of n])
  qed
qed

lemma show_nat_first: "c_at (show_nat n @ v) 0 = c_at (show_nat n) 0"
  using show_nat_not_Nil [of n] by (cases "show_nat n") simp_all

lemma show_nat_all_digits: "list_all is_digit (show_nat n)"
  using show_nat_digits by (simp add: list_all_iff)

lemma collect_digits:
  assumes "rest lx = s @ u" and "list_all P s" and "\<not> P (c_at u 0) \<or> u = []" and "length s \<le> 62"
  shows "collect P ([], lx) = (s, advance_by (length s) lx)"
proof -
  have "take 62 (rest lx) = s @ take (62 - length s) u" using assms(1,4) by simp
  moreover have "\<not> P (c_at (take (62 - length s) u) 0) \<or> take (62 - length s) u = []"
    using assms(3) by (cases u; cases "62 - length s") auto
  ultimately have "takeWhile P (take 62 (rest lx)) = s" using takeWhile_split [OF assms(2)] by simp
  then show ?thesis by (simp add: collect_def)
qed

lemma digit_ident_char: "is_digit c \<Longrightarrow> ident_char c"
  by (simp add: ident_char_def is_alnum_def)

lemma digit_not_wide: "is_digit c \<Longrightarrow> c \<noteq> CHR ''L'' \<and> c \<noteq> CHR ''U'' \<and> c \<noteq> CHR ''u''"
  by (auto simp: ctypes)

lemma lex_at_digit: "is_digit (cur lx) \<Longrightarrow> lex_at t lx = lex_number t lx"
  using word_not_punct [OF digit_ident_char] digit_not_wide [of "cur lx"]
  by (simp add: lex_at_def Let_def)

lemma decimal_literal_read:
  assumes "rest lx = show_nat n @ sfx @ u" and "n < 10 ^ 62" and "list_all is_suffix sfx" and "\<not> is_suffix (c_at u 0)"
    and "\<not> is_digit (c_at (sfx @ u) 0)" and "c_at (sfx @ u) 0 \<notin> {CHR ''.'', CHR ''e'', CHR ''E'', CHR ''x'', CHR ''X''}"
  shows "lex_at t lx =
    (if l_count sfx > 2 then Inl TooManyLSuffixes
     else if n > ULONG_MAX \<or> (\<not> has_unsigned sfx \<and> l_count sfx \<noteq> 2 \<and> n > nat LONG_MAX)
     then Inl (LiteralTooLarge (show_nat n))
     else Inr (with_text (t\<lparr>long_value := wrap64 (int n), tk_unsigned := has_unsigned sfx,
                           literal_type := literal_kind (has_unsigned sfx) (l_count sfx) n\<rparr>)
                 TOKEN_INT_LITERAL (show_nat n),
               lexer_store_bytes (advance_by (length (show_nat n) + length sfx) lx) (show_nat n)))"
proof -
  let ?b = "advance_by (length (show_nat n)) lx"
  have len: "length (show_nat n) \<le> 62" using length_show_nat [of n 61] assms(2) by simp
  have col: "collect is_digit ([], lx) = (show_nat n, ?b)"
    using assms(1,5) show_nat_all_digits len by (intro collect_digits [of _ _ "sfx @ u"]) simp_all
  have rb: "rest ?b = sfx @ u" by (simp add: rest_advance_by assms(1))
  have dig: "is_digit (cur lx)"
    using show_nat_c_at_0 [of n] assms(1) by (simp add: cur_rest show_nat_first)
  have zero: "n = 0 \<and> peek lx 1 = c_at (sfx @ u) 0" if "cur lx = CHR ''0''"
  proof -
    have "c_at (show_nat n) 0 = CHR ''0''"
      using that assms(1) by (simp add: cur_rest show_nat_first)
    then have "n = 0" by (simp add: show_nat_head_zero)
    with assms(1) show ?thesis by (simp add: peek_rest)
  qed
  have "lex_number t lx = lex_decimal t lx"
    using zero assms(5,6) by (auto simp: lex_number_def)
  moreover have "\<not> is_exp (cur ?b)" "cur ?b \<noteq> CHR ''.''"
    using assms(6) rb by (auto simp: cur_rest is_exp_def)
  ultimately have "lex_number t lx = finish_integer t 10 (show_nat n, ?b)"
    by (simp add: lex_decimal_def col)
  moreover have "takeWhile is_suffix (rest ?b) = sfx" using rb assms(3,4) by (simp add: takeWhile_split)
  ultimately show ?thesis
    by (simp add: lex_at_digit [OF dig] finish_integer_def Let_def strtoul_def advance_by_add lex_stored_def)
qed

text \<open>
  The suffixes of C and the types they allow, with the largest value of each (C11 6.4.4.1, for
  types of 32 and 64 bits); a literal has the first type that holds its value.
\<close>

datatype int_suffix = No_Suffix | Suffix_U | Suffix_L | Suffix_UL | Suffix_LL | Suffix_ULL

fun spellings :: "int_suffix \<Rightarrow> string list" where
  "spellings No_Suffix = [[]]"
| "spellings Suffix_U = [''u'', ''U'']"
| "spellings Suffix_L = [''l'', ''L'']"
| "spellings Suffix_UL = [''ul'', ''uL'', ''Ul'', ''UL'', ''lu'', ''lU'', ''Lu'', ''LU'']"
| "spellings Suffix_LL = [''ll'', ''LL'']"
| "spellings Suffix_ULL = [''ull'', ''uLL'', ''Ull'', ''ULL'', ''llu'', ''llU'', ''LLu'', ''LLU'']"

fun c_types :: "int_suffix \<Rightarrow> (TypeKind \<times> bool \<times> nat) list" where
  "c_types No_Suffix = [(TYPE_INT, False, 2147483647), (TYPE_LONG, False, 9223372036854775807)]"
| "c_types Suffix_U = [(TYPE_INT, True, 4294967295), (TYPE_LONG, True, 18446744073709551615)]"
| "c_types Suffix_L = [(TYPE_LONG, False, 9223372036854775807)]"
| "c_types Suffix_UL = [(TYPE_LONG, True, 18446744073709551615)]"
| "c_types Suffix_LL = [(TYPE_LONG_LONG, False, 9223372036854775807)]"
| "c_types Suffix_ULL = [(TYPE_UNSIGNED_LONG_LONG, True, 18446744073709551615)]"

text \<open>The bits of a value as the 64-bit signed number the token carries.\<close>

definition as_long :: "nat \<Rightarrow> int" where
  "as_long n = (if n < 9223372036854775808 then int n else int n - 18446744073709551616)"

lemma wrap64_as_long: "n < 18446744073709551616 \<Longrightarrow> wrap64 (int n) = as_long n"
proof (cases "n < 9223372036854775808")
  case False
  assume "n < 18446744073709551616"
  from False this have "(int n + 9223372036854775808) mod 18446744073709551616 = int n - 9223372036854775808"
    using mod_add_self2 [of "int n - 9223372036854775808" 18446744073709551616] by (simp add: add.commute)
  with False \<open>n < 18446744073709551616\<close> have "wrap64 (int n) = wrap64 (int n - 18446744073709551616)" "in_long (int n - 18446744073709551616)"
    by (simp_all add: wrap64_def signed_take_bit_eq_take_bit_shift take_bit_int_def long_defs)
  with False show ?thesis by (simp add: as_long_def)
qed (simp add: as_long_def long_defs)

lemma spelled:
  assumes "sfx \<in> set (spellings s)"
  shows "list_all is_suffix sfx" "has_unsigned sfx \<longleftrightarrow> s \<in> {Suffix_U, Suffix_UL, Suffix_ULL}"
    "l_count sfx = (if s = Suffix_L \<or> s = Suffix_UL then 1 else if s = Suffix_LL \<or> s = Suffix_ULL then 2 else 0)"
    "sfx \<noteq> [] \<Longrightarrow> is_suffix (hd sfx)"
  using assms by (cases s; auto simp: is_suffix_def has_unsigned_def l_count_def)+

lemma suffix_char: "is_suffix c \<Longrightarrow> \<not> is_digit c \<and> c \<notin> {CHR ''.'', CHR ''e'', CHR ''E'', CHR ''x'', CHR ''X''}"
  by (auto simp: is_suffix_def ctypes)

text \<open>
  (C28) A decimal integer literal has the value and the type C gives it: the printed form of any
  number below 10^62, followed by any spelling of a suffix and then by nothing that continues it,
  is one token with the digits as its text, and its type and signedness are those of the first
  type the standard allows for the suffix that holds the number; where none does, the literal is
  refused. The one exception is a number with the suffix LL between the largest long long and the
  largest unsigned one, which C has no type for: the lexer takes it as a negative long long.
\<close>

theorem decimal_literal:
  assumes "rest lx = show_nat n @ sfx @ u" and "n < 10 ^ 62" and "sfx \<in> set (spellings s)" and "\<not> is_suffix (c_at u 0)"
    and "sfx = [] \<Longrightarrow> \<not> is_digit (c_at u 0) \<and> c_at u 0 \<notin> {CHR ''.'', CHR ''e'', CHR ''E'', CHR ''x'', CHR ''X''}"
  shows "lex_at t lx =
    (let token = (\<lambda>k uns. Inr (with_text (t\<lparr>long_value := as_long n, tk_unsigned := uns, literal_type := k\<rparr>)
           TOKEN_INT_LITERAL (show_nat n),
         lexer_store_bytes (advance_by (length (show_nat n) + length sfx) lx) (show_nat n)))
     in case find (\<lambda>(k, uns, largest). n \<le> largest) (c_types s) of
          Some (k, uns, largest) \<Rightarrow> token k uns
        | None \<Rightarrow> if s = Suffix_LL \<and> n \<le> 18446744073709551615 then token TYPE_LONG_LONG False
                  else Inl (LiteralTooLarge (show_nat n)))"
proof -
  note sp = spelled [OF assms(3)]
  have foll: "\<not> is_digit (c_at (sfx @ u) 0)" "c_at (sfx @ u) 0 \<notin> {CHR ''.'', CHR ''e'', CHR ''E'', CHR ''x'', CHR ''X''}"
    using assms(5) suffix_char [of "hd sfx"] sp(4) by (cases sfx; simp)+
  note read = decimal_literal_read [OF assms(1,2) sp(1) assms(4) foll, of t]
  show ?thesis
    by (cases s) (auto simp: read sp(2,3) literal_kind_def ULONG_MAX_def LONG_MAX_def INT_MAX_def wrap64_as_long)
qed

theorem decimal_literal_witness:
  "lex_at start_token (start_lexer (show_nat 4294967296 @ ''u'' @ '';'')) =
     Inr (with_text (start_token\<lparr>long_value := 4294967296, tk_unsigned := True, literal_type := TYPE_LONG\<rparr>)
            TOKEN_INT_LITERAL (show_nat 4294967296),
          lexer_store_bytes (advance_by (length (show_nat 4294967296) + 1) (start_lexer (show_nat 4294967296 @ ''u'' @ '';'')))
            (show_nat 4294967296))"
  using decimal_literal [of "start_lexer (show_nat 4294967296 @ ''u'' @ '';'')" 4294967296 "''u''" "'';''" Suffix_U start_token]
  by (simp add: is_suffix_def as_long_def)

subsection \<open>String literals\<close>

text \<open>A byte as it is written between double quotes, and a whole literal.\<close>

definition escape_char :: "char \<Rightarrow> string" where
  "escape_char c =
     (if c = LF then [BACKSLASH, CHR ''n'']
      else if c = DQUOTE then [BACKSLASH, DQUOTE]
      else if c = BACKSLASH then [BACKSLASH, BACKSLASH]
      else if c = NUL then [BACKSLASH, CHR ''0'', CHR ''0'', CHR ''0'']
      else [c])"

definition quote_string :: "string \<Rightarrow> string" where
  "quote_string s = DQUOTE # concat (map escape_char s) @ [DQUOTE]"

lemma string_body_step:
  assumes "rest lx = escape_char c @ w"
  shows "\<exists>lx'. lex_string_body acc lx = lex_string_body (acc @ [c]) lx' \<and> rest lx' = w"
proof -
  consider "c = LF" | "c = DQUOTE" | "c = BACKSLASH" | "c = NUL"
    | "c \<noteq> LF" "c \<noteq> DQUOTE" "c \<noteq> BACKSLASH" "c \<noteq> NUL" by blast
  then show ?thesis
  proof cases
    case 4
    then have r: "rest lx = BACKSLASH # CHR ''0'' # CHR ''0'' # CHR ''0'' # w" using assms by (simp add: escape_char_def)
    have "rest (lexer_advance lx) = CHR ''0'' # CHR ''0'' # CHR ''0'' # w" using r by (simp add: rest_advance)
    then have "takeWhile is_odigit (take 3 (rest (lexer_advance lx))) = ''000''"
      by (simp add: numeral_3_eq_3 ctypes)
    then have esc: "lex_escape InvalidHexInString InvalidEscapeInString string_escape_char lx = Inr (NUL, advance_by 3 (lexer_advance lx))"
      using r by (simp add: lex_escape_def Let_def peek_rest ctypes oct_value_def char_of_def numeral_3_eq_3)
    have "lex_string_body acc lx = lex_string_body (acc @ [c]) (advance_by 3 (lexer_advance lx))"
      using r esc 4 by (subst lex_string_body.simps) (simp add: Let_def cur_rest)
    with r show ?thesis by (auto simp: rest_advance rest_advance_by numeral_3_eq_3 intro!: exI)
  next
    case 5
    then have r: "rest lx = c # w" using assms by (simp add: escape_char_def)
    then have "lex_string_body acc lx = lex_string_body (acc @ [c]) (lexer_advance lx)"
      using 5 by (subst lex_string_body.simps) (simp add: Let_def cur_rest)
    with r show ?thesis by (auto simp: rest_advance)
  qed (use assms in \<open>auto simp: escape_char_def lex_string_body.simps [of acc lx] cur_rest peek_rest lex_escape_def
      string_escape_char_def rest_advance rest_advance_by Let_def ctypes numeral_2_eq_2 intro!: exI [of _ "advance_by 2 lx"]\<close>)
qed

lemma string_body_quoted:
  "rest lx = concat (map escape_char s) @ DQUOTE # u \<Longrightarrow>
   \<exists>lx'. lex_string_body acc lx = Inr (acc @ s, lx') \<and> rest lx' = u"
proof (induction s arbitrary: lx acc)
  case Nil
  then show ?case by (auto simp: lex_string_body.simps [of acc lx] cur_rest rest_advance)
next
  case (Cons c s)
  then have "rest lx = escape_char c @ concat (map escape_char s) @ DQUOTE # u" by simp
  from string_body_step [OF this, of acc] obtain lx1 where
    "lex_string_body acc lx = lex_string_body (acc @ [c]) lx1" "rest lx1 = concat (map escape_char s) @ DQUOTE # u" by blast
  with Cons.IH [of lx1 "acc @ [c]"] show ?case by simp
qed

lemma string_literal_read:
  assumes "rest lx = quote_string s @ u"
  shows "\<exists>lx'. lex_at t lx = Inr (with_text t TOKEN_STRING_LITERAL s, lx') \<and> rest lx' = u"
proof -
  have "rest (lexer_advance lx) = concat (map escape_char s) @ DQUOTE # u"
    using assms by (simp add: rest_advance quote_string_def)
  from string_body_quoted [OF this, of "[]"] obtain lx' where
    "lex_string_body [] (lexer_advance lx) = Inr (s, lx')" "rest lx' = u" by auto
  moreover have "lex_at t lx = lex_string t lx"
    using assms by (simp add: lex_at_def quote_string_def cur_rest peek_rest single_punct_def arith_punct_def
        relational_punct_def)
  ultimately show ?thesis by (simp add: lex_string_def lex_stored_def)
qed

text \<open>
  (C11) String literals round trip: quoting any bytes, NUL and newline included, and reading the
  literal back gives a string token with exactly those bytes, and leaves what followed it.
\<close>

theorem string_literal_roundtrip:
  assumes "rest lx = quote_string s @ u"
  shows "\<exists>lx'. lex_at t lx = Inr (with_text t TOKEN_STRING_LITERAL s, lx') \<and> rest lx' = u"
  by (rule string_literal_read [OF assms])

theorem string_literal_roundtrip_witness:
  "\<exists>lx'. lex_at start_token (start_lexer (quote_string [CHR ''a'', NUL, DQUOTE, LF] @ '';'')) =
      Inr (with_text start_token TOKEN_STRING_LITERAL [CHR ''a'', NUL, DQUOTE, LF], lx') \<and> rest lx' = '';''"
  by (rule string_literal_roundtrip) simp


subsection \<open>Location markers\<close>

text \<open>What the preprocessor writes at the borders of an included file.\<close>

definition location_marker :: "nat \<Rightarrow> string \<Rightarrow> string" where
  "location_marker n path = SOH # show_nat n @ CHR '':'' # path @ [LF]"

lemma decimal_read: "list_all is_digit ds \<Longrightarrow> foldl (\<lambda>v c. v * 10 + (code c - 48)) a ds = read_digits 10 a ds"
  by (induction ds arbitrary: a) (simp_all add: digit_value_def mult.commute)

lemma decimal_show_nat: "decimal (show_nat n) = n"
  using decimal_read [OF show_nat_all_digits, of 0 n] by (simp add: decimal_def)

lemma find_index:
  "find (\<lambda>i. xs ! i = x) [0..<length xs] = Some i \<Longrightarrow> i < length xs \<and> xs ! i = x"
  "find (\<lambda>i. xs ! i = x) [0..<length xs] = None \<Longrightarrow> x \<notin> set xs"
  by (auto simp: find_Some_iff find_None_iff in_set_conv_nth)

text \<open>The pool never holds a path twice, and interning returns the entry of the path.\<close>

lemma intern_file_pool:
  assumes "distinct (file_pool lx)" and "lexer_intern_file lx path = (i, lx')"
  shows "i < length (file_pool lx')" "file_pool lx' ! i = path" "distinct (file_pool lx')"
    "\<exists>new. file_pool lx' = file_pool lx @ new"
  using assms find_index [where xs = "file_pool lx" and x = path]
  by (auto simp: lexer_intern_file_def split: option.split_asm)

lemma marker_parts:
  assumes "rest lx = location_marker n path @ u" and "list_all path_char path"
  defines "s \<equiv> source lx" and "p1 \<equiv> pos lx + 1"
  shows "takeWhile is_digit (drop p1 s) = show_nat n"
    and "drop (skip_char (CHR '':'') s (skip_while is_digit s p1)) s = path @ LF # u"
    and "drop (skip_char LF s (skip_while path_char s (skip_char (CHR '':'') s (skip_while is_digit s p1)))) s = u"
proof -
  have d1: "drop p1 s = show_nat n @ CHR '':'' # path @ LF # u"
    using assms(1) drop_drop [of 1 "pos lx" s] by (simp add: rest_def location_marker_def s_def p1_def)
  show tw: "takeWhile is_digit (drop p1 s) = show_nat n"
    unfolding d1 by (rule takeWhile_split [OF show_nat_all_digits]) (simp add: ctypes)
  have step: "drop (skip_char c s (skip_while P s p)) s = w"
    if "drop p s = v @ c # w" "takeWhile P (drop p s) = v" for p v w P c
  proof -
    have d: "drop (p + length v) s = c # w" using that(1) drop_drop [of "length v" p s] by (simp add: add.commute)
    then have "c_at s (p + length v) = c" using c_at_drop [of "p + length v" s 0] by simp
    then show ?thesis using d that(2) drop_drop [of 1 "p + length v" s]
      by (simp add: skip_char_def skip_while_def)
  qed
  show d3: "drop (skip_char (CHR '':'') s (skip_while is_digit s p1)) s = path @ LF # u"
    using d1 tw by (rule step)
  have "takeWhile path_char (path @ LF # u) = path"
    by (rule takeWhile_split [OF assms(2)]) (simp add: path_char_def)
  then have "takeWhile path_char (drop (skip_char (CHR '':'') s (skip_while is_digit s p1)) s) = path"
    unfolding d3 .
  with d3 show "drop (skip_char LF s (skip_while path_char s (skip_char (CHR '':'') s (skip_while is_digit s p1)))) s = u"
    by (rule step)
qed

lemma location_marker_read:
  assumes "rest lx = location_marker n path @ u" and "list_all path_char path" and "path \<noteq> []"
    and "length path \<le> 511" and "distinct (file_pool lx)"
  shows "\<exists>i. let lx' = lexer_parse_location_marker lx in
     line lx' = n \<and> col lx' = 1 \<and> rest lx' = u \<and> lx_file lx' = Some i \<and>
     i < length (file_pool lx') \<and> file_pool lx' ! i = path \<and> distinct (file_pool lx')"
proof -
  note m = marker_parts [OF assms(1,2)]
  let ?s = "source lx"
  let ?p3 = "skip_char (CHR '':'') ?s (skip_while is_digit ?s (pos lx + 1))"
  let ?p5 = "skip_char LF ?s (skip_while path_char ?s ?p3)"
  let ?lx1 = "lx\<lparr>pos := ?p5, line := n, col := 1\<rparr>"
  obtain i lx2 where int: "lexer_intern_file ?lx1 path = (i, lx2)" by (cases "lexer_intern_file ?lx1 path")
  have pool: "i < length (file_pool lx2)" "file_pool lx2 ! i = path" "distinct (file_pool lx2)"
    using intern_file_pool [OF _ int] assms(5) by simp_all
  have st: "source lx2 = ?s" "pos lx2 = ?p5" "line lx2 = n" "col lx2 = 1"
    using int by (auto simp: lexer_intern_file_def split: option.split_asm)
  have "takeWhile path_char (path @ LF # u) = path"
    by (rule takeWhile_split [OF assms(2)]) (simp add: path_char_def)
  then have "lexer_parse_location_marker lx = lx2\<lparr>lx_file := Some i\<rparr>"
    using int assms(3,4) unfolding lexer_parse_location_marker_def Let_def m(1,2)
    by (simp add: decimal_show_nat)
  with pool st m(3) show ?thesis by (auto simp: rest_def Let_def)
qed

subsection \<open>The number buffer\<close>


text \<open>How far the collected text can grow in each step.\<close>

lemma collect_length: "length (fst (collect P b)) \<le> max (length (fst b)) 62"
proof -
  have "length (takeWhile P (take k (rest (snd b)))) \<le> k" for k
    by (rule le_trans [OF length_takeWhile_le]) simp
  from this [of "62 - length (fst b)"] show ?thesis
    by (simp add: collect_def case_prod_unfold Let_def max_def) linarith
qed

lemma put_char_length [simp]: "length (fst (put_char b)) = Suc (length (fst b))"
  by (simp add: put_char_def case_prod_unfold)

lemma exponent_length: "length (fst (exponent b)) \<le> max (length (fst b) + 2) 62"
  using collect_length [of is_digit "put_char (put_char b)"] collect_length [of is_digit "put_char b"]
  by (auto simp: exponent_def Let_def max_def split: if_split_asm)

lemma finish_float_overrun:
  "finish_float t b = Inl e \<Longrightarrow> e = BufferOverrun \<and> length (fst b) \<ge> 63"
  by (auto simp: finish_float_def lex_stored_def Let_def split: if_split_asm)

lemma finish_integer_no_overrun: "finish_integer t base b \<noteq> Inl BufferOverrun"
  by (auto simp: finish_integer_def lex_stored_def Let_def split: prod.split)

text \<open>A digit or the point: the characters before the exponent of a literal.\<close>

definition mantissa_char :: "char \<Rightarrow> bool" where
  "mantissa_char c \<longleftrightarrow> is_digit c \<or> c = CHR ''.''"

definition mantissa :: "string \<times> Lexer \<Rightarrow> Lexer \<Rightarrow> bool" where
  "mantissa b lx \<longleftrightarrow> rest lx = fst b @ rest (snd b) \<and> list_all mantissa_char (fst b)"

lemma mantissa_collect: "mantissa b lx \<Longrightarrow> mantissa (collect is_digit b) lx"
proof -
  assume m: "mantissa b lx"
  let ?ds = "takeWhile is_digit (take (62 - length (fst b)) (rest (snd b)))"
  have "rest (snd b) = ?ds @ drop (length ?ds) (rest (snd b))"
    by (metis append_take_drop_id append_eq_conv_conj takeWhile_dropWhile_id append.assoc)
  moreover have "list_all mantissa_char ?ds"
    by (auto simp: list_all_iff mantissa_char_def dest: set_takeWhileD)
  ultimately show ?thesis using m by (simp add: mantissa_def collect_def case_prod_unfold Let_def rest_advance_by)
qed

lemma mantissa_put: "mantissa b lx \<Longrightarrow> mantissa_char (cur (snd b)) \<Longrightarrow> mantissa (put_char b) lx"
proof -
  assume m: "mantissa b lx" and c: "mantissa_char (cur (snd b))"
  have "cur (snd b) \<noteq> NUL" using c by (auto simp: mantissa_char_def)
  then have "rest (snd b) = cur (snd b) # drop 1 (rest (snd b))"
    by (cases "rest (snd b)") (simp_all add: cur_rest)
  with m c show ?thesis by (simp add: mantissa_def put_char_def case_prod_unfold rest_advance)
qed

lemma mantissa_run: "mantissa b lx \<Longrightarrow> length (takeWhile mantissa_char (rest lx)) \<ge> length (fst b)"
  by (auto simp: mantissa_def list_all_iff takeWhile_append2)

text \<open>Only the floating-point blocks can leave the buffer.\<close>

lemma lex_escape_error: "lex_escape e1 e2 tab lx = Inl e \<Longrightarrow> e = e1 \<or> e = e2"
  by (auto simp: lex_escape_def Let_def split: if_split_asm option.split_asm)

lemma string_body_no_overrun: "lex_string_body acc lx \<noteq> Inl BufferOverrun"
proof (induction acc lx rule: lex_string_body.induct)
  case (1 acc lx)
  show ?case
    using 1 lex_escape_error [of InvalidHexInString InvalidEscapeInString string_escape_char lx BufferOverrun]
    by (subst lex_string_body.simps) (auto simp: Let_def split: sum.split)
qed

lemma string_no_overrun: "lex_string t lx \<noteq> Inl BufferOverrun"
  using string_body_no_overrun [of "[]" "lexer_advance lx"] by (auto simp: lex_string_def lex_stored_def split: sum.split)

lemma char_no_overrun: "lex_char t lx \<noteq> Inl BufferOverrun"
  using lex_escape_error [of InvalidHexInChar InvalidEscapeInChar char_escape_char "lexer_advance lx" BufferOverrun]
  by (auto simp: lex_char_def lex_char_item_def lex_stored_def Let_def split: sum.split)

lemma others_no_overrun:
  "lex_fixed t lx p \<noteq> Inl BufferOverrun" "lex_ident t lx \<noteq> Inl BufferOverrun" "lex_unknown t lx \<noteq> Inl BufferOverrun"
  "lex_hex t lx \<noteq> Inl BufferOverrun" "lex_octal t lx \<noteq> Inl BufferOverrun"
  using finish_integer_no_overrun
  by (auto simp: lex_fixed_def lex_ident_def lex_unknown_def lex_hex_def lex_octal_def lex_stored_def Let_def
      split: option.split)

lemma overrun_block:
  assumes "lex_at t lx = Inl BufferOverrun"
  shows "cur lx = CHR ''.'' \<and> lex_dot t lx = Inl BufferOverrun \<or> lex_decimal t lx = Inl BufferOverrun"
  using assms others_no_overrun string_no_overrun char_no_overrun
  by (simp add: lex_at_def lex_number_def Let_def split: option.split_asm if_split_asm)

lemma long_literal_overrun:
  assumes "rest lx = ds @ ''.e+'' @ u" and "list_all is_digit ds" and "length ds = 62" and "hd ds \<noteq> CHR ''0''"
  shows "lex_at t lx = Inl BufferOverrun"
proof -
  let ?b = "advance_by 62 lx"
  obtain d w where ds: "ds = d # w" using assms(3) by (cases ds) auto
  have cur: "cur lx = d" "is_digit d" "d \<noteq> CHR ''0''" using assms(1,2,4) ds by (simp_all add: cur_rest)
  have col: "collect is_digit ([], lx) = (ds, ?b)"
    using collect_digits [OF assms(1,2)] assms(3) by (simp add: ctypes)
  have rb: "rest ?b = ''.e+'' @ u" using assms(1,3) by (simp add: rest_advance_by)
  let ?b1 = "put_char (ds, ?b)"
  have b1: "?b1 = (ds @ ''.'', advance_by 63 lx)" "rest (advance_by 63 lx) = ''e+'' @ u"
    using rb advance_by_add [of 1 62 lx] drop_drop [of 1 62 "rest lx"] by (simp_all add: put_char_def cur_rest rest_advance_by)
  have b1': "collect is_digit ?b1 = ?b1"
    using assms(3) b1 by (simp add: collect_def)
  have "length (fst (exponent ?b1)) \<ge> 64"
  proof -
    have "is_sign (cur (snd (put_char ?b1)))"
      using b1 by (simp add: put_char_def cur_rest rest_advance is_sign_def)
    then have "exponent ?b1 = collect is_digit (put_char (put_char ?b1))" by (simp add: exponent_def Let_def)
    moreover have "length (fst b) \<le> length (fst (collect is_digit b))" for b
      by (simp add: collect_def case_prod_unfold Let_def)
    from this [of "put_char (put_char ?b1)"] have "65 \<le> length (fst (collect is_digit (put_char (put_char ?b1))))"
      using assms(3) b1 by simp
    ultimately show ?thesis by simp
  qed
  then have "finish_float t (exponent ?b1) = Inl BufferOverrun" by (simp add: finish_float_def Let_def)
  moreover have "lex_at t lx = lex_decimal t lx"
    using cur lex_at_digit [of lx t] by (simp add: lex_number_def)
  ultimately show ?thesis
    using rb b1 b1' by (simp add: lex_decimal_def col Let_def cur_rest peek_rest is_exp_def)
qed

definition long_literal :: string where
  "long_literal = replicate 62 (CHR ''1'') @ ''.e+'' @ ''7''"

lemma long_literal_run: "lex_at start_token (start_lexer long_literal) = Inl BufferOverrun"
  by (rule long_literal_overrun [of _ "replicate 62 (CHR ''1'')" "''7''"])
     (simp_all add: long_literal_def list_all_iff ctypes)

text \<open>
  (C30) The number buffer is safe for every literal of ordinary length: if reading a token
  writes behind the 64-byte buffer, then the text ahead begins with at least 61 digits and
  points in a row.
\<close>

theorem number_buffer_safe:
  assumes "lex_at t lx = Inl BufferOverrun"
  shows "length (takeWhile mantissa_char (rest lx)) \<ge> 61"
proof -
  have start: "mantissa ([], lx) lx" by (simp add: mantissa_def)
  have fin: ?thesis if "mantissa b lx" "finish_float t (if is_exp (cur (snd b)) then exponent b else b) = Inl BufferOverrun" for b
    using finish_float_overrun [OF that(2)] exponent_length [of b] mantissa_run [OF that(1)]
    by (auto split: if_split_asm)
  from overrun_block [OF assms] show ?thesis
  proof (elim disjE conjE)
    assume c: "cur lx = CHR ''.''" and run: "lex_dot t lx = Inl BufferOverrun"
    have "mantissa (collect is_digit (put_char ([], lx))) lx"
      by (intro mantissa_collect mantissa_put start) (simp add: c mantissa_char_def)
    moreover have "finish_float t (let b = collect is_digit (put_char ([], lx)) in if is_exp (cur (snd b)) then exponent b else b) = Inl BufferOverrun"
      using run others_no_overrun(1) by (simp add: lex_dot_def Let_def split: if_split_asm)
    ultimately show ?thesis by (intro fin) (simp_all add: Let_def)
  next
    assume run: "lex_decimal t lx = Inl BufferOverrun"
    let ?b = "collect is_digit ([], lx)"
    let ?dot = "cur (snd ?b) = CHR ''.'' \<and> peek (snd ?b) 1 \<noteq> CHR ''.''"
    let ?b1 = "if ?dot then collect is_digit (put_char ?b) else ?b"
    have b: "mantissa ?b lx" by (intro mantissa_collect start)
    then have "mantissa ?b1 lx" using mantissa_collect [OF mantissa_put [OF b]] by (simp add: mantissa_char_def)
    moreover have "finish_float t (if is_exp (cur (snd ?b1)) then exponent ?b1 else ?b1) = Inl BufferOverrun"
      using run finish_integer_no_overrun unfolding lex_decimal_def Let_def by (simp only: split: if_split_asm)
    ultimately show ?thesis by (rule fin)
  qed
qed

theorem number_buffer_safe_witness:
  "length (takeWhile mantissa_char (rest (start_lexer long_literal))) \<ge> 61"
  by (rule number_buffer_safe [OF long_literal_run])

text \<open>
  And the buffer can be left: 62 digits, the first not a zero, followed by \<^verbatim>\<open>.e+\<close> fill it
  beyond its end.
\<close>

lemma number_buffer_overrun:
  assumes "rest lx = ds @ ''.e+'' @ u" and "list_all is_digit ds" and "length ds = 62" and "hd ds \<noteq> CHR ''0''"
  shows "lex_at t lx = Inl BufferOverrun"
  using assms by (rule long_literal_overrun)

end
