(* ===== verification/Peephole.thy ===== *)
theory Peephole
  imports Prelude
begin

section \<open>The peephole pass: \<^verbatim>\<open>src/peephole.c\<close>, \<^verbatim>\<open>include/peephole.h\<close>\<close>

text \<open>
  The pass works on the text of the generated assembly. A pattern is a window size, a test
  and a replacement; six patterns are built in, and the engine slides over the lines once.
  The fixed buffers of the replacements and parsers are kept: a text that does not fit is
  cut or refused as in the code. Reading and writing the file is represented by the
  functions between the bytes of the file and the lines; opening it and the allocator's
  refusals are left out.
\<close>

type_synonym asm_line = string

record PeepholePattern =
  window_size :: nat
  matcher :: "asm_line list \<Rightarrow> bool"
  replacer :: "asm_line list \<Rightarrow> asm_line list"

definition PEEPHOLE_WINDOW_MAX :: nat where
  "PEEPHOLE_WINDOW_MAX = 4"

subsection \<open>Lines of a file\<close>

text \<open>One \<^verbatim>\<open>fgets\<close> into a buffer with room for \<open>n\<close> characters: up to and with a newline.\<close>

fun fgets_chunk :: "nat \<Rightarrow> string \<Rightarrow> string \<times> string" where
  "fgets_chunk 0 s = ([], s)"
| "fgets_chunk (Suc n) [] = ([], [])"
| "fgets_chunk (Suc n) (c # s) =
     (if c = CHR 0x0A then ([c], s) else (let (a, b) = fgets_chunk n s in (c # a, b)))"

lemma fgets_chunk_append: "fgets_chunk n s = (a, b) \<Longrightarrow> a @ b = s"
  by (induction n s arbitrary: a b rule: fgets_chunk.induct) (auto split: if_split_asm prod.split_asm)

lemma fgets_chunk_takes: "fgets_chunk (Suc n) (c # s) = (a, b) \<Longrightarrow> length b \<le> length s"
  using fgets_chunk_append [of "Suc n" "c # s" a b]
  by (cases a) (auto simp: split: if_split_asm prod.split_asm dest: arg_cong [of _ _ length])

definition is_eol :: "char \<Rightarrow> bool" where
  "is_eol c \<longleftrightarrow> c = CHR 0x0A \<or> c = CHR 0x0D"

definition strip_eol :: "string \<Rightarrow> string" where
  "strip_eol s = rev (dropWhile is_eol (rev s))"

function read_lines :: "string \<Rightarrow> asm_line list" where
  "read_lines [] = []"
| "read_lines (c # s) =
     (let (buf, rest) = fgets_chunk 4095 (c # s)
      in strip_eol (takeWhile (\<lambda>c. c \<noteq> NUL) buf) # read_lines rest)"
  by pat_completeness auto

termination
proof (relation "measure length", goal_cases)
  case (2 c s x buf rest)
  then have "fgets_chunk (Suc 4094) (c # s) = (buf, rest)" by simp
  from fgets_chunk_takes [OF this] show ?case by simp
qed simp

definition write_lines :: "asm_line list \<Rightarrow> string" where
  "write_lines ls = concat (map (\<lambda>l. l @ [CHR 0x0A]) ls)"

subsection \<open>Text helpers\<close>

definition skip_blanks :: "asm_line \<Rightarrow> string" where
  "skip_blanks l = dropWhile is_blank l"

text \<open>\<^verbatim>\<open>strncat(buf, s, sizeof(buf) - strlen(buf) - 1)\<close> for a buffer of \<open>cap\<close> bytes.\<close>

definition strncat_to :: "nat \<Rightarrow> string \<Rightarrow> string \<Rightarrow> string" where
  "strncat_to cap buf s = buf @ take (cap - length buf - 1) s"

text \<open>The indentation of a line, cut to what leaves a byte free in a buffer of \<open>cap\<close> bytes.\<close>

definition line_prefix :: "nat \<Rightarrow> asm_line \<Rightarrow> string" where
  "line_prefix cap l =
     (let n = length (takeWhile is_blank l) in take (if n \<ge> cap - 1 then cap - 2 else n) l)"

text \<open>What is left of a text behind a prefix.\<close>

definition after :: "string \<Rightarrow> string \<Rightarrow> string option" where
  "after p s = (if starts_with p s then Some (drop (length p) s) else None)"

subsection \<open>Zero-register idiom\<close>

definition g_zr_src :: "string list" where
  "g_zr_src = [''rax'', ''rbx'', ''rcx'', ''rdx'', ''rsi'', ''rdi'',
     ''r8'', ''r9'', ''r10'', ''r11'', ''r12'', ''r13'', ''r14'', ''r15'',
     ''eax'', ''ebx'', ''ecx'', ''edx'', ''esi'', ''edi'']"

definition g_zr_dst :: "string list" where
  "g_zr_dst = [''eax'', ''ebx'', ''ecx'', ''edx'', ''esi'', ''edi'',
     ''r8d'', ''r9d'', ''r10d'', ''r11d'', ''r12d'', ''r13d'', ''r14d'', ''r15d'',
     ''eax'', ''ebx'', ''ecx'', ''edx'', ''esi'', ''edi'']"

definition zr_find_reg :: "asm_line \<Rightarrow> nat option" where
  "zr_find_reg line =
     (case after ''mov '' (skip_blanks line) of
        None \<Rightarrow> None
      | Some p \<Rightarrow>
          find (\<lambda>i. starts_with (g_zr_src ! i) p \<and> drop (length (g_zr_src ! i)) p = '', 0'')
            [0..<length g_zr_src])"

definition match_zero_reg :: "asm_line list \<Rightarrow> bool" where
  "match_zero_reg win \<longleftrightarrow> zr_find_reg (win ! 0) \<noteq> None"

definition replace_zero_reg :: "asm_line list \<Rightarrow> asm_line list" where
  "replace_zero_reg win =
     (let d = g_zr_dst ! the (zr_find_reg (win ! 0));
          buf = line_prefix 64 (win ! 0);
          buf = strncat_to 64 buf ''xor '';
          buf = strncat_to 64 buf d;
          buf = strncat_to 64 buf '', '';
          buf = strncat_to 64 buf d
      in [buf])"

subsection \<open>No-op moves\<close>

definition match_nop_move :: "asm_line list \<Rightarrow> bool" where
  "match_nop_move win =
     (case after ''mov '' (skip_blanks (win ! 0)) of
        None \<Rightarrow> False
      | Some p \<Rightarrow>
          (let dst = takeWhile (\<lambda>c. c \<noteq> CHR '','') p in
           case after '', '' (drop (length dst) p) of None \<Rightarrow> False | Some q \<Rightarrow> q = dst))"

definition replace_nop_move :: "asm_line list \<Rightarrow> asm_line list" where
  "replace_nop_move win = []"

subsection \<open>Push and pop\<close>

definition pp_extract_reg :: "asm_line \<Rightarrow> string \<Rightarrow> nat \<Rightarrow> string option" where
  "pp_extract_reg line mnemonic dst_size =
     (case after mnemonic (skip_blanks line) of
        None \<Rightarrow> None
      | Some reg \<Rightarrow> if length reg = 0 \<or> length reg \<ge> dst_size then None else Some reg)"

definition match_push_pop :: "asm_line list \<Rightarrow> bool" where
  "match_push_pop win \<longleftrightarrow>
     pp_extract_reg (win ! 0) ''push '' 32 \<noteq> None \<and> pp_extract_reg (win ! 1) ''pop '' 32 \<noteq> None"

definition replace_push_pop :: "asm_line list \<Rightarrow> asm_line list" where
  "replace_push_pop win =
     (let r0 = the (pp_extract_reg (win ! 0) ''push '' 32);
          r1 = the (pp_extract_reg (win ! 1) ''pop '' 32)
      in if r0 = r1 then []
         else (let buf = line_prefix 80 (win ! 0);
                   buf = strncat_to 80 buf ''mov '';
                   buf = strncat_to 80 buf r1;
                   buf = strncat_to 80 buf '', '';
                   buf = strncat_to 80 buf r0
               in [buf]))"

subsection \<open>Stack slots\<close>

text \<open>Both parsers give the register and the offset, as texts.\<close>

definition pp_parse_store_rbp :: "asm_line \<Rightarrow> nat \<Rightarrow> nat \<Rightarrow> (string \<times> string) option" where
  "pp_parse_store_rbp line reg_sz off_sz =
     (case after ''mov '' (skip_blanks line) of
        None \<Rightarrow> None
      | Some p \<Rightarrow> (case after ''[rbp - '' p of
          None \<Rightarrow> None
        | Some q \<Rightarrow>
            (let off = takeWhile is_digit q in
             if length off = 0 \<or> length off \<ge> off_sz then None
             else (case after ''], '' (drop (length off) q) of
                 None \<Rightarrow> None
               | Some reg \<Rightarrow> if length reg = 0 \<or> length reg \<ge> reg_sz then None else Some (reg, off)))))"

definition pp_parse_reload_rbp :: "asm_line \<Rightarrow> nat \<Rightarrow> nat \<Rightarrow> (string \<times> string) option" where
  "pp_parse_reload_rbp line reg_sz off_sz =
     (case after ''mov '' (skip_blanks line) of
        None \<Rightarrow> None
      | Some p \<Rightarrow>
          (let reg = takeWhile (\<lambda>c. c \<noteq> CHR '','') p in
           if length reg = 0 \<or> length reg \<ge> reg_sz then None
           else (case after '', [rbp - '' (drop (length reg) p) of
               None \<Rightarrow> None
             | Some q \<Rightarrow>
                 (let off = takeWhile is_digit q in
                  if length off = 0 \<or> length off \<ge> off_sz then None
                  else if drop (length off) q \<noteq> '']'' then None else Some (reg, off)))))"

definition match_redundant_reload :: "asm_line list \<Rightarrow> bool" where
  "match_redundant_reload win =
     (case pp_parse_store_rbp (win ! 0) 32 16 of
        None \<Rightarrow> False
      | Some (r0, o0) \<Rightarrow> (case pp_parse_reload_rbp (win ! 1) 32 16 of
          None \<Rightarrow> False
        | Some (r1, o1) \<Rightarrow> r0 = r1 \<and> o0 = o1))"

definition replace_redundant_reload :: "asm_line list \<Rightarrow> asm_line list" where
  "replace_redundant_reload win = [win ! 0]"

definition match_redundant_store :: "asm_line list \<Rightarrow> bool" where
  "match_redundant_store win =
     (case pp_parse_store_rbp (win ! 0) 32 16 of
        None \<Rightarrow> False
      | Some (r0, o0) \<Rightarrow> (case pp_parse_store_rbp (win ! 1) 32 16 of
          None \<Rightarrow> False
        | Some (r1, o1) \<Rightarrow> o0 = o1))"

definition replace_redundant_store :: "asm_line list \<Rightarrow> asm_line list" where
  "replace_redundant_store win = [win ! 1]"

subsection \<open>Dead jumps\<close>

definition is_trail :: "char \<Rightarrow> bool" where
  "is_trail c \<longleftrightarrow> is_blank c \<or> is_eol c"

definition pp_parse_jmp_label :: "asm_line \<Rightarrow> nat \<Rightarrow> string option" where
  "pp_parse_jmp_label line bufsz =
     (case after ''jmp'' (skip_blanks line) of
        None \<Rightarrow> None
      | Some p \<Rightarrow>
          if \<not> is_blank (c_at p 0) then None
          else if skip_blanks p = [] then None
          else (let buf = rev (dropWhile is_trail (rev (take (bufsz - 1) (skip_blanks p))))
                in if buf = [] then None else Some buf))"

definition pp_parse_label_def :: "asm_line \<Rightarrow> nat \<Rightarrow> string option" where
  "pp_parse_label_def line bufsz =
     (if is_blank (c_at line 0) then None
      else (let name = takeWhile (\<lambda>c. c \<noteq> CHR '':'') line in
            if name = line then None
            else if length name = 0 \<or> length name \<ge> bufsz then None
            else Some name))"

definition match_dead_jump :: "asm_line list \<Rightarrow> bool" where
  "match_dead_jump win =
     (case pp_parse_jmp_label (win ! 0) 64 of
        None \<Rightarrow> False
      | Some target \<Rightarrow> (case pp_parse_label_def (win ! 1) 64 of None \<Rightarrow> False | Some name \<Rightarrow> target = name))"

definition replace_dead_jump :: "asm_line list \<Rightarrow> asm_line list" where
  "replace_dead_jump win = [win ! 1]"

subsection \<open>The pattern table and the engine\<close>

definition peephole_builtin_patterns :: "PeepholePattern list" where
  "peephole_builtin_patterns =
     [\<lparr>window_size = 1, matcher = match_zero_reg, replacer = replace_zero_reg\<rparr>,
      \<lparr>window_size = 1, matcher = match_nop_move, replacer = replace_nop_move\<rparr>,
      \<lparr>window_size = 2, matcher = match_push_pop, replacer = replace_push_pop\<rparr>,
      \<lparr>window_size = 2, matcher = match_redundant_reload, replacer = replace_redundant_reload\<rparr>,
      \<lparr>window_size = 2, matcher = match_redundant_store, replacer = replace_redundant_store\<rparr>,
      \<lparr>window_size = 2, matcher = match_dead_jump, replacer = replace_dead_jump\<rparr>]"

text \<open>The first pattern whose window fits behind line \<open>i\<close> and matches there.\<close>

definition fires :: "asm_line list \<Rightarrow> nat \<Rightarrow> PeepholePattern \<Rightarrow> bool" where
  "fires lines i p \<longleftrightarrow>
     i + window_size p \<le> length lines \<and> matcher p (take (window_size p) (drop i lines))"

text \<open>
  The loop of \<^verbatim>\<open>peephole_apply\<close> from line \<open>i\<close> on. With a pattern of window size zero it need
  not end; \<^term>\<open>None\<close> is not returning.
\<close>

partial_function (option) apply_from :: "PeepholePattern list \<Rightarrow> asm_line list \<Rightarrow> nat \<Rightarrow> asm_line list option" where
  "apply_from patterns lines i =
     (if i < length lines then
        (case find (fires lines i) patterns of
           None \<Rightarrow> apply_from patterns lines (i + 1)
         | Some p \<Rightarrow>
             (let w = window_size p;
                  out = replacer p (take w (drop i lines))
              in apply_from patterns (take i lines @ out @ drop (i + w) lines) (i + length out)))
      else Some lines)"

definition peephole_apply :: "asm_line list \<Rightarrow> PeepholePattern list \<Rightarrow> asm_line list option" where
  "peephole_apply lines patterns = (if patterns = [] then Some lines else apply_from patterns lines 0)"

definition peephole_run_file :: "string \<Rightarrow> PeepholePattern list \<Rightarrow> string option" where
  "peephole_run_file contents patterns =
     map_option write_lines (peephole_apply (read_lines contents) patterns)"

end
