(* ===== verification/PP_Text.thy ===== *)
theory PP_Text
  imports Prelude
begin

section \<open>Text scanning of the preprocessor: \<^verbatim>\<open>src/preprocessor.c\<close>\<close>

text \<open>
  The preprocessor walks over C strings with an index. Here the position is the text that
  remains: \<open>c_at s 0\<close> is \<^verbatim>\<open>s[in]\<close>, \<open>c_at s 1\<close> is \<^verbatim>\<open>s[in + 1]\<close>, and the end of the list is the
  terminator. A scanning loop returns the text behind what it has read, and the text between
  two positions is \<open>between\<close>. The definitions below are the loops that several functions of
  the file share, line splicing, the three comment strippers and the search for include
  files. Files are a parameter: \<open>fs path\<close> is the contents of a file that opens for reading.
\<close>

definition skip_hspace :: "string \<Rightarrow> string" where
  "skip_hspace s = dropWhile is_blank s"

definition ident_at :: "string \<Rightarrow> string" where
  "ident_at s = takeWhile ident_char s"

definition after_ident :: "string \<Rightarrow> string" where
  "after_ident s = dropWhile ident_char s"

definition between :: "string \<Rightarrow> string \<Rightarrow> string" where
  "between s r = take (length s - length r) s"

text \<open>A word at the current position that is not the beginning of a longer one.\<close>

definition is_word :: "string \<Rightarrow> string \<Rightarrow> bool" where
  "is_word w s \<longleftrightarrow> starts_with w s \<and> \<not> ident_char (c_at s (length w))"

definition trim_trailing :: "(char \<Rightarrow> bool) \<Rightarrow> string \<Rightarrow> string" where
  "trim_trailing p s = rev (dropWhile p (rev s))"

text \<open>The rest of a string or character literal behind its opening quote \<open>q\<close>.\<close>

fun literal_tail :: "char \<Rightarrow> string \<Rightarrow> string \<times> string" where
  "literal_tail q [] = ([], [])"
| "literal_tail q (c # s) =
     (if c = q then ([c], s)
      else if c = LF then ([], c # s)
      else if c = BACKSLASH then
        (case s of [] \<Rightarrow> ([c], [])
         | d # t \<Rightarrow> (let (l, r) = literal_tail q t in (c # d # l, r)))
      else (let (l, r) = literal_tail q s in (c # l, r)))"

text \<open>The text behind the end of a block comment; nothing if it does not end.\<close>

fun comment_tail :: "string \<Rightarrow> string" where
  "comment_tail [] = []"
| "comment_tail (c # s) = (if c = CHR ''*'' \<and> c_at s 0 = CHR ''/'' then drop 1 s else comment_tail s)"

lemma comment_tail_length: "length (comment_tail s) \<le> length s"
  by (induction s) auto

lemma comment_tail_drop_less [termination_simp]: "length (comment_tail (drop n s)) < Suc (length s)"
  using comment_tail_length [of "drop n s"] by simp

lemma literal_tail_append: "literal_tail q s = (l, r) \<Longrightarrow> s = l @ r"
  by (induction q s arbitrary: l r rule: literal_tail.induct)
     (auto split: if_split_asm list.split_asm prod.split_asm)

lemma literal_tail_snd: "s = fst (literal_tail q s) @ snd (literal_tail q s)"
  using literal_tail_append [of q s "fst (literal_tail q s)"] by simp

lemma literal_tail_length: "length (snd (literal_tail q s)) \<le> length s"
  using literal_tail_snd [of s q] by (metis le_add2 length_append)

lemma skip_hspace_length: "length (skip_hspace s) \<le> length s"
  by (simp add: skip_hspace_def length_dropWhile_le)

lemma after_ident_length: "length (after_ident s) \<le> length s"
  by (simp add: after_ident_def length_dropWhile_le)

lemma after_ident_less: "ident_char (c_at s 0) \<Longrightarrow> length (after_ident s) < length s"
  by (cases s) (simp_all add: after_ident_def le_imp_less_Suc length_dropWhile_le)

lemma ident_at_after [simp]: "ident_at s @ after_ident s = s"
  by (simp add: ident_at_def after_ident_def)

subsection \<open>Line splicing and comments\<close>

function splice_lines :: "string \<Rightarrow> string" where
  "splice_lines s =
     (case s of [] \<Rightarrow> []
      | c # t \<Rightarrow> if c = BACKSLASH \<and> c_at t 0 = LF then splice_lines (drop 1 t)
                 else c # splice_lines t)"
  by pat_completeness auto
termination by (relation "measure length") auto

declare splice_lines.simps [simp del]

text \<open>
  \<^verbatim>\<open>strip_block_comments\<close>, on the text between \<^verbatim>\<open>start\<close> and \<^verbatim>\<open>end\<close>; \<open>buf\<close> is the output so
  far, last character first. A comment leaves one space unless the output is empty or ends
  in a space.
\<close>

function strip_block_loop :: "string \<Rightarrow> string \<Rightarrow> string" where
  "strip_block_loop buf s =
     (case s of [] \<Rightarrow> buf
      | c # t \<Rightarrow>
          if c = CHR ''/'' \<and> c_at t 0 = CHR ''*'' then
            strip_block_loop (if buf \<noteq> [] \<and> hd buf \<noteq> CHR '' '' then CHR '' '' # buf else buf)
              (comment_tail (drop 1 t))
          else strip_block_loop (c # buf) t)"
  by pat_completeness auto
termination by (relation "measure (length \<circ> snd)") (auto simp: termination_simp)

declare strip_block_loop.simps [simp del]

definition strip_block_comments :: "string \<Rightarrow> string" where
  "strip_block_comments s = rev (dropWhile is_blank (strip_block_loop [] s))"

function strip_cond_comments :: "string \<Rightarrow> string" where
  "strip_cond_comments s =
     (case s of [] \<Rightarrow> []
      | c # t \<Rightarrow>
          if c = CHR ''/'' \<and> c_at t 0 = CHR ''*'' then CHR '' '' # strip_cond_comments (comment_tail (drop 1 t))
          else if c = CHR ''/'' \<and> c_at t 0 = CHR ''/'' then
            CHR '' '' # strip_cond_comments (dropWhile (\<lambda>c. c \<noteq> LF) t)
          else c # strip_cond_comments t)"
  by pat_completeness auto
termination
  by (relation "measure length") (auto simp: termination_simp le_imp_less_Suc length_dropWhile_le)

declare strip_cond_comments.simps [simp del]

function skip_directive_tail :: "string \<Rightarrow> string" where
  "skip_directive_tail s =
     (case s of [] \<Rightarrow> []
      | c # t \<Rightarrow>
          if c = LF then s
          else if c = CHR ''/'' \<and> c_at t 0 = CHR ''*'' then skip_directive_tail (comment_tail (drop 1 t))
          else skip_directive_tail t)"
  by pat_completeness auto
termination by (relation "measure length") (auto simp: termination_simp)

declare skip_directive_tail.simps [simp del]

lemma skip_directive_tail_length: "length (skip_directive_tail s) \<le> length s"
proof (induction s rule: skip_directive_tail.induct)
  case (1 s)
  show ?case
  proof (cases s)
    case (Cons c t)
    note ih = 1(1) [OF Cons] 1(2) [OF Cons]
    show ?thesis
      using ih comment_tail_length [of "drop 1 t"]
      by (subst skip_directive_tail.simps) (auto simp: Cons)
  qed (simp add: skip_directive_tail.simps)
qed

text \<open>A tail without a comment ends at the end of the line.\<close>

lemma skip_directive_tail_plain:
  assumes "CHR ''/'' \<notin> set l" and "LF \<notin> set l"
  shows "skip_directive_tail (l @ LF # r) = LF # r"
  using assms
proof (induction l)
  case Nil
  show ?case by (simp add: skip_directive_tail.simps)
next
  case (Cons c l)
  then show ?case by (subst skip_directive_tail.simps) auto
qed

subsection \<open>Include files\<close>

definition get_dir :: "string option \<Rightarrow> string" where
  "get_dir path =
     (case path of None \<Rightarrow> ''.''
      | Some p \<Rightarrow> if CHR ''/'' \<notin> set p then ''.''
                  else rev (drop 1 (dropWhile (\<lambda>c. c \<noteq> CHR ''/'') (rev p))))"

type_synonym files = "string \<Rightarrow> string option"

definition first_readable :: "files \<Rightarrow> string \<Rightarrow> string list \<Rightarrow> string option" where
  "first_readable fs fname dirs = find (\<lambda>p. fs p \<noteq> None) (map (\<lambda>d. d @ ''/'' @ fname) dirs)"

definition resolve_angle_include_path :: "files \<Rightarrow> string \<Rightarrow> string list \<Rightarrow> string option" where
  "resolve_angle_include_path fs fname include_dirs = first_readable fs fname include_dirs"

definition resolve_include_path ::
  "files \<Rightarrow> string \<Rightarrow> string option \<Rightarrow> string list \<Rightarrow> string option" where
  "resolve_include_path fs fname source_path include_dirs =
     (case first_readable fs fname [get_dir source_path] of
        Some p \<Rightarrow> Some p
      | None \<Rightarrow> first_readable fs fname include_dirs)"

text \<open>The directories behind the first one that contains the current file; all if none does.\<close>

definition dirs_after :: "string option \<Rightarrow> string list \<Rightarrow> string list" where
  "dirs_after source_path include_dirs =
     (case source_path of None \<Rightarrow> include_dirs
      | Some p \<Rightarrow>
          (case dropWhile (\<lambda>d. \<not> (starts_with d p \<and> c_at p (length d) = CHR ''/'')) include_dirs of
             [] \<Rightarrow> include_dirs
           | _ # ds \<Rightarrow> ds))"

definition resolve_include_next_path ::
  "files \<Rightarrow> string \<Rightarrow> string option \<Rightarrow> string list \<Rightarrow> string option" where
  "resolve_include_next_path fs fname source_path include_dirs =
     first_readable fs fname (dirs_after source_path include_dirs)"

lemma first_readable_Some:
  "first_readable fs fname dirs = Some p \<Longrightarrow>
   \<exists>ds d es. dirs = ds @ d # es \<and> p = d @ ''/'' @ fname \<and> fs p \<noteq> None \<and>
     (\<forall>e \<in> set ds. fs (e @ ''/'' @ fname) = None)"
proof (induction dirs)
  case Nil
  then show ?case by (simp add: first_readable_def)
next
  case (Cons d dirs)
  show ?case
  proof (cases "fs (d @ ''/'' @ fname) = None")
    case True
    then have "first_readable fs fname dirs = Some p" using Cons.prems by (simp add: first_readable_def)
    from Cons.IH [OF this] obtain ds d' es where
      "dirs = ds @ d' # es" "p = d' @ ''/'' @ fname" "fs p \<noteq> None" "\<forall>e \<in> set ds. fs (e @ ''/'' @ fname) = None"
      by blast
    with True show ?thesis by (intro exI [of _ "d # ds"] exI [of _ d'] exI [of _ es]) simp
  next
    case False
    then show ?thesis using Cons.prems by (intro exI [of _ "[]"] exI [of _ d] exI [of _ dirs]) (auto simp: first_readable_def)
  qed
qed

lemma first_readable_None:
  "first_readable fs fname dirs = None \<longleftrightarrow> (\<forall>d \<in> set dirs. fs (d @ ''/'' @ fname) = None)"
  by (induction dirs) (auto simp: first_readable_def)

text \<open>
  \<^verbatim>\<open>#include "f"\<close> takes the first of the including file's own directory and the \<^verbatim>\<open>-I\<close>
  directories, in order, in which \<open>f\<close> can be opened, and fails only if there is none.
\<close>

lemma quoted_include_search:
  "case resolve_include_path fs fname src dirs of
     None \<Rightarrow> \<not> (\<exists>d \<in> insert (get_dir src) (set dirs). fs (d @ ''/'' @ fname) \<noteq> None)
   | Some p \<Rightarrow> \<exists>ds d es. get_dir src # dirs = ds @ d # es \<and> p = d @ ''/'' @ fname \<and> fs p \<noteq> None \<and>
       \<not> (\<exists>e \<in> set ds. fs (e @ ''/'' @ fname) \<noteq> None)"
proof -
  have eq: "resolve_include_path fs fname src dirs = first_readable fs fname (get_dir src # dirs)"
    by (simp add: resolve_include_path_def first_readable_def)
  show ?thesis
  proof (cases "first_readable fs fname (get_dir src # dirs)")
    case None
    then show ?thesis using first_readable_None [of fs fname "get_dir src # dirs"] by (simp add: eq)
  next
    case (Some p)
    from first_readable_Some [OF this] show ?thesis using Some by (simp add: eq)
  qed
qed

end
