(* ===== verification/PP_Macros.thy ===== *)
theory PP_Macros
  imports PP_Text
begin

section \<open>Macros: table, arguments and expansion in \<^verbatim>\<open>src/preprocessor.c\<close>\<close>

text \<open>
  The macro table is the list of its definitions in array order: \<^verbatim>\<open>macro_undef\<close> moves the
  last definition into the gap. Messages that end the process are values of \<open>pp_error\<close>.

  \<^verbatim>\<open>expand_macros_text\<close> calls itself on replacement texts and arguments. A function-like
  macro is not disabled while its body is rescanned, so the calls need not end; the model
  therefore carries the number of nested calls the C stack has room for and stops with
  \<open>StackExhausted\<close>. An object-like macro is disabled during the nested call only; as the call
  changes nothing else of the table, it takes the table with the flag set and returns the text.
\<close>

datatype pp_error = Message string | StackExhausted | DivisionTrap | Stuck

record MacroDef =
  mname :: string
  params :: "string list"
  param_count :: int
  is_variadic :: bool
  replacement :: string
  disabled :: bool

record MacroTable =
  defs :: "MacroDef list"
  mcap :: nat
  once_paths :: "string list"
  once_cap :: nat

definition macro_table_init :: MacroTable where
  "macro_table_init = \<lparr>defs = [], mcap = 0, once_paths = [], once_cap = 0\<rparr>"

definition macro_table_add_once :: "MacroTable \<Rightarrow> string \<Rightarrow> MacroTable" where
  "macro_table_add_once t path =
     t\<lparr>once_cap := (if length (once_paths t) \<ge> once_cap t
                    then (if once_cap t = 0 then 8 else once_cap t * 2) else once_cap t),
       once_paths := once_paths t @ [path]\<rparr>"

definition macro_table_is_once :: "MacroTable \<Rightarrow> string \<Rightarrow> bool" where
  "macro_table_is_once t path \<longleftrightarrow> path \<in> set (once_paths t)"

definition macro_find :: "MacroTable \<Rightarrow> string \<Rightarrow> MacroDef option" where
  "macro_find t name = find (\<lambda>d. mname d = name) (defs t)"

definition add_def :: "MacroTable \<Rightarrow> MacroDef \<Rightarrow> MacroTable" where
  "add_def t d =
     t\<lparr>mcap := (if length (defs t) = mcap t then mcap t * 2 + 8 else mcap t), defs := defs t @ [d]\<rparr>"

definition redefined_message :: "string \<Rightarrow> pp_error" where
  "redefined_message name =
     Message (''macro '' @ [QUOTE] @ take 255 name @ [QUOTE] @ '' redefined with incompatible replacement'')"

definition macro_define ::
  "MacroTable \<Rightarrow> string \<Rightarrow> string list \<Rightarrow> int \<Rightarrow> bool \<Rightarrow> string \<Rightarrow> pp_error + MacroTable" where
  "macro_define t name ps pcount variadic repl =
     (case macro_find t name of
        Some existing \<Rightarrow>
          if replacement existing = repl \<and> is_variadic existing = variadic then Inr t
          else Inl (redefined_message name)
      | None \<Rightarrow> Inr (add_def t \<lparr>mname = name, params = ps, param_count = pcount,
                             is_variadic = variadic, replacement = repl, disabled = False\<rparr>))"

text \<open>The definition at the first hit is overwritten by the last one, which then goes.\<close>

fun swap_remove :: "MacroDef list \<Rightarrow> string \<Rightarrow> MacroDef list" where
  "swap_remove [] name = []"
| "swap_remove (d # ds) name =
     (if mname d = name then (if ds = [] then [] else last ds # butlast ds) else d # swap_remove ds name)"

definition macro_undef :: "MacroTable \<Rightarrow> string \<Rightarrow> MacroTable" where
  "macro_undef t name = t\<lparr>defs := swap_remove (defs t) name\<rparr>"

subsection \<open>Arguments\<close>

definition arg_space :: "char \<Rightarrow> bool" where
  "arg_space c \<longleftrightarrow> c = CHR '' '' \<or> c = CHR 0x09 \<or> c = LF"

text \<open>
  The loop of \<^verbatim>\<open>collect_args\<close>: the arguments so far, the current one (last character first),
  the depth of parentheses. At the end of the text an unfinished argument is dropped.
\<close>

function collect_loop :: "string list \<Rightarrow> string \<Rightarrow> nat \<Rightarrow> string \<Rightarrow> string list \<times> string" where
  "collect_loop args arg depth s =
     (case s of [] \<Rightarrow> (args, [])
      | c # u \<Rightarrow>
          if c = DQUOTE \<or> c = QUOTE then
            collect_loop args (rev (fst (literal_tail c u)) @ c # arg) depth (snd (literal_tail c u))
          else if c = CHR ''('' then collect_loop args (c # arg) (depth + 1) u
          else if c = CHR '')'' \<and> depth > 0 then collect_loop args (c # arg) (depth - 1) u
          else if c = CHR '')'' then (args @ [rev (dropWhile arg_space arg)], u)
          else if c = CHR '','' \<and> depth = 0 then
            collect_loop (args @ [rev (dropWhile arg_space arg)]) [] 0 (dropWhile arg_space u)
          else collect_loop args (c # arg) depth u)"
  by pat_completeness auto
termination
  by (relation "measure (\<lambda>(_, _, _, s). length s)")
     (auto simp: le_imp_less_Suc literal_tail_length length_dropWhile_le)

declare collect_loop.simps [simp del]

definition collect_args :: "string \<Rightarrow> string list \<times> string" where
  "collect_args s =
     (let s = dropWhile arg_space s
      in if c_at s 0 = CHR '')'' then ([], drop 1 s) else collect_loop [] [] 0 s)"

text \<open>\<open>stringify_loop inner in_space last_non_space arg\<close>.\<close>

fun stringify_loop :: "string \<Rightarrow> bool \<Rightarrow> nat \<Rightarrow> string \<Rightarrow> string" where
  "stringify_loop inner in_space lst [] = take lst inner"
| "stringify_loop inner in_space lst (c # s) =
     (if is_blank c then
        (if \<not> in_space then stringify_loop (inner @ '' '') True lst s
         else stringify_loop inner in_space lst s)
      else if c = DQUOTE then stringify_loop (inner @ [BACKSLASH, DQUOTE]) False (length inner + 2) s
      else if c = BACKSLASH then stringify_loop (inner @ [BACKSLASH, BACKSLASH]) False (length inner + 2) s
      else stringify_loop (inner @ [c]) False (length inner + 1) s)"

definition stringify_arg :: "string \<Rightarrow> string" where
  "stringify_arg arg = [DQUOTE] @ stringify_loop [] True 0 arg @ [DQUOTE]"

fun param_index :: "string list \<Rightarrow> string \<Rightarrow> nat option" where
  "param_index [] name = None"
| "param_index (p # ps) name = (if p = name then Some 0 else map_option Suc (param_index ps name))"

text \<open>
  The loop of \<^verbatim>\<open>substitute_args\<close>; \<open>out\<close> is the output, last character first, and
  \<open>paste_next\<close> says that \<^verbatim>\<open>##\<close> was the token before.
\<close>

function substitute_loop ::
  "string list \<Rightarrow> string list \<Rightarrow> string list \<Rightarrow> string \<Rightarrow> bool \<Rightarrow> string \<Rightarrow> pp_error + string" where
  "substitute_loop ps args raw_args out paste_next r =
     (case r of [] \<Rightarrow> Inr (rev out)
      | c # u \<Rightarrow>
          if c = DQUOTE \<or> c = QUOTE then
            substitute_loop ps args raw_args (rev (fst (literal_tail c u)) @ c # out) False (snd (literal_tail c u))
          else if c = CHR ''#'' \<and> c_at u 0 = CHR ''#'' then
            substitute_loop ps args raw_args (dropWhile is_blank out) True (skip_hspace (drop 1 u))
          else if c = CHR ''#'' then
            (case param_index ps (ident_at (skip_hspace u)) of
               Some i \<Rightarrow> substitute_loop ps args raw_args (rev (stringify_arg (raw_args ! i)) @ out) False
                          (after_ident (skip_hspace u))
             | None \<Rightarrow> Inl (Message ([QUOTE] @ ''#'' @ [QUOTE] @ '' operand is not a macro parameter'')))
          else if ident_start c then
            substitute_loop ps args raw_args
              (rev (case param_index ps (ident_at r) of
                      Some i \<Rightarrow> (if paste_next then raw_args ! i else args ! i)
                    | None \<Rightarrow> ident_at r) @ out) False (after_ident r)
          else substitute_loop ps args raw_args (c # out) False u)"
  by pat_completeness auto
termination
proof (relation "measure (\<lambda>(_, _, _, _, _, r). length r)", goal_cases)
  case (3 ps args raw_args out paste_next r c u)
  have "length (skip_hspace (drop 1 u)) \<le> length u"
    using skip_hspace_length [of "drop 1 u"] by (rule le_trans) simp
  with 3 show ?case by simp
next
  case (4 ps args raw_args out paste_next r c u i)
  have "length (after_ident (skip_hspace u)) \<le> length u"
    using after_ident_length skip_hspace_length by (rule le_trans)
  with 4 show ?case by simp
next
  case (5 ps args raw_args out paste_next r c u)
  then show ?case using after_ident_less [of r] by (simp add: ident_start_char)
qed (auto simp: le_imp_less_Suc literal_tail_length)

declare substitute_loop.simps [simp del]

definition substitute_args ::
  "string \<Rightarrow> string list \<Rightarrow> string list \<Rightarrow> string list \<Rightarrow> pp_error + string" where
  "substitute_args repl ps args raw_args = substitute_loop ps args raw_args [] False repl"

subsection \<open>Expansion\<close>

fun join_args :: "string list \<Rightarrow> string" where
  "join_args [] = []"
| "join_args [a] = a"
| "join_args (a # b # as) = a @ '', '' @ join_args (b # as)"

definition arity_ok :: "MacroDef \<Rightarrow> nat \<Rightarrow> bool" where
  "arity_ok m n \<longleftrightarrow> (if is_variadic m then \<not> int n < param_count m else \<not> int n \<noteq> param_count m)"

definition arity_message :: "MacroDef \<Rightarrow> string \<Rightarrow> nat \<Rightarrow> pp_error" where
  "arity_message m name n =
     Message (''argument count mismatch for macro '' @ [QUOTE] @ name @ [QUOTE] @ '': expected '' @
       (if is_variadic m then ''at least '' else []) @ show_int (param_count m) @ '', got '' @ show_int (int n))"

text \<open>
  A call of a function-like macro: arity, expansion of the arguments, \<^verbatim>\<open>__VA_ARGS__\<close>,
  substitution, rescan. \<open>expand\<close> is the nested \<^verbatim>\<open>expand_macros_text\<close>.
\<close>

definition call_macro ::
  "(string \<Rightarrow> pp_error + string) \<Rightarrow> MacroDef \<Rightarrow> string \<Rightarrow> string list \<Rightarrow> pp_error + string" where
  "call_macro expand m name raw_args =
     (if \<not> arity_ok m (length raw_args) then Inl (arity_message m name (length raw_args))
      else and_then (map_all expand raw_args) (\<lambda>args.
        let k = nat (param_count m);
            va_exp = join_args (drop k args);
            va_raw = join_args (drop k raw_args)
        in and_then
             (if is_variadic m then
                substitute_args (replacement m) (params m @ [''__VA_ARGS__''])
                  (take k args @ [va_exp]) (take k raw_args @ [va_raw])
              else substitute_args (replacement m) (params m) args raw_args)
             expand))"

fun update_first :: "('a \<Rightarrow> bool) \<Rightarrow> ('a \<Rightarrow> 'a) \<Rightarrow> 'a list \<Rightarrow> 'a list" where
  "update_first p f [] = []"
| "update_first p f (x # xs) = (if p x then f x # xs else x # update_first p f xs)"

definition set_disabled :: "MacroTable \<Rightarrow> string \<Rightarrow> MacroTable" where
  "set_disabled t name = t\<lparr>defs := update_first (\<lambda>d. mname d = name) (\<lambda>d. d\<lparr>disabled := True\<rparr>) (defs t)\<rparr>"

text \<open>\<^verbatim>\<open>g_expand_source_path\<close> and \<^verbatim>\<open>g_expand_current_line\<close>.\<close>

record expand_context =
  g_expand_source_path :: "string option"
  g_expand_current_line :: int

definition quoted_path :: "string option \<Rightarrow> string" where
  "quoted_path p =
     [DQUOTE] @ concat (map (\<lambda>c. if c = DQUOTE \<or> c = BACKSLASH then [BACKSLASH, c] else [c])
       (case p of None \<Rightarrow> [] | Some f \<Rightarrow> f)) @ [DQUOTE]"

text \<open>Behind \<^verbatim>\<open>defined\<close> the operand is copied unexpanded.\<close>

definition protect_defined :: "string \<Rightarrow> string \<times> string" where
  "protect_defined r =
     (let p = skip_hspace r
      in if c_at p 0 = CHR ''('' then
           (let p1 = dropWhile (\<lambda>c. c \<noteq> CHR '')'' \<and> c \<noteq> LF) (drop 1 p);
                p2 = (if c_at p1 0 = CHR '')'' then drop 1 p1 else p1)
            in (between r p2, p2))
         else if ident_start (c_at p 0) then (between r (after_ident p), after_ident p)
         else ([], r))"

definition plain_ident :: "string \<Rightarrow> string \<Rightarrow> string \<times> string" where
  "plain_ident name r =
     (if name = ''defined'' then (let (x, r') = protect_defined r in (name @ x, r')) else (name, r))"

text \<open>An identifier and the text behind it: its expansion and the text that remains.\<close>

definition expand_ident ::
  "(MacroTable \<Rightarrow> string \<Rightarrow> pp_error + string) \<Rightarrow> expand_context \<Rightarrow> MacroTable \<Rightarrow> string \<Rightarrow> string
   \<Rightarrow> pp_error + string \<times> string" where
  "expand_ident expand g t name r =
     (if name = ''__FILE__'' then Inr (quoted_path (g_expand_source_path g), r)
      else if name = ''__LINE__'' then Inr (show_int (g_expand_current_line g), r)
      else case macro_find t name of
        None \<Rightarrow> Inr (plain_ident name r)
      | Some m \<Rightarrow>
          if param_count m = - 1 \<and> \<not> disabled m then
            map_result (\<lambda>e. (e, r)) (expand (set_disabled t name) (replacement m))
          else if param_count m \<ge> 0 then
            (let p = skip_hspace r
             in if c_at p 0 = CHR ''('' then
                  (let (args, r') = collect_args (drop 1 p)
                   in map_result (\<lambda>e. (e, r')) (call_macro (expand t) m name args))
                else Inr (name, r))
          else Inr (plain_ident name r))"

lemma collect_loop_length: "length (snd (collect_loop args arg depth s)) \<le> length s"
proof (induction args arg depth s rule: collect_loop.induct)
  case (1 args arg depth s)
  show ?case
  proof (cases s)
    case (Cons c u)
    note ih = 1 [OF Cons]
    show ?thesis
      using ih literal_tail_length [of c u] length_dropWhile_le [of arg_space u]
      by (subst collect_loop.simps) (auto simp: Cons)
  qed (simp add: collect_loop.simps)
qed

lemma collect_args_length: "length (snd (collect_args s)) \<le> length s"
  using collect_loop_length [of "[]" "[]" 0 "dropWhile arg_space s"] length_dropWhile_le [of arg_space s]
  by (auto simp: collect_args_def Let_def)

lemma protect_defined_length: "length (snd (protect_defined r)) \<le> length r"
  using skip_hspace_length [of r] after_ident_length [of "skip_hspace r"]
    length_dropWhile_le [of "\<lambda>c. c \<noteq> CHR '')'' \<and> c \<noteq> LF" "drop 1 (skip_hspace r)"]
  by (auto simp: protect_defined_def Let_def)

lemma plain_ident_length: "length (snd (plain_ident name r)) \<le> length r"
  using protect_defined_length [of r] by (cases "protect_defined r") (simp add: plain_ident_def)

lemma expand_ident_length: "expand_ident expand g t name r = Inr (x, r') \<Longrightarrow> length r' \<le> length r"
  using plain_ident_length [of name r] collect_args_length [of "drop 1 (skip_hspace r)"] skip_hspace_length [of r]
  by (auto simp: expand_ident_def Let_def map_result_eq_Inr split: if_split_asm option.split_asm prod.split_asm)

function expand_loop ::
  "(MacroTable \<Rightarrow> string \<Rightarrow> pp_error + string) \<Rightarrow> expand_context \<Rightarrow> MacroTable \<Rightarrow> string
   \<Rightarrow> pp_error + string" where
  "expand_loop expand g t s =
     (case s of [] \<Rightarrow> Inr []
      | c # u \<Rightarrow>
          if c = DQUOTE \<or> c = QUOTE then
            map_result (\<lambda>x. c # fst (literal_tail c u) @ x) (expand_loop expand g t (snd (literal_tail c u)))
          else if ident_start c then
            and_then (expand_ident expand g t (ident_at s) (after_ident s)) (\<lambda>(x, r).
              map_result (\<lambda>y. x @ y) (expand_loop expand g t r))
          else map_result (\<lambda>x. c # x) (expand_loop expand g t u))"
  by pat_completeness auto
termination
proof (relation "measure (\<lambda>(_, _, _, s). length s)", goal_cases)
  case (3 expand g t s c u p x r)
  then have "length r \<le> length (after_ident s)" by (auto dest: expand_ident_length)
  also have "\<dots> < length s" using 3 by (intro after_ident_less) (simp add: ident_start_char)
  finally show ?case by simp
qed (auto simp: le_imp_less_Suc literal_tail_length)

declare expand_loop.simps [simp del]

lemma expand_loop_Nil [simp]: "expand_loop e g t [] = Inr []"
  by (simp add: expand_loop.simps)

lemma expand_loop_literal:
  "c = DQUOTE \<or> c = QUOTE \<Longrightarrow> expand_loop e g t (c # u) =
   map_result (\<lambda>x. c # fst (literal_tail c u) @ x) (expand_loop e g t (snd (literal_tail c u)))"
  by (subst expand_loop.simps) simp

lemma expand_loop_ident:
  "c \<noteq> DQUOTE \<and> c \<noteq> QUOTE \<Longrightarrow> ident_start c \<Longrightarrow> expand_loop e g t (c # u) =
   and_then (expand_ident e g t (ident_at (c # u)) (after_ident (c # u))) (\<lambda>(x, r).
     map_result (\<lambda>y. x @ y) (expand_loop e g t r))"
  by (subst expand_loop.simps) simp

lemma expand_loop_char:
  "c \<noteq> DQUOTE \<and> c \<noteq> QUOTE \<Longrightarrow> \<not> ident_start c \<Longrightarrow> expand_loop e g t (c # u) =
   map_result (\<lambda>x. c # x) (expand_loop e g t u)"
  by (subst expand_loop.simps) simp

fun expand_macros_text :: "nat \<Rightarrow> expand_context \<Rightarrow> MacroTable \<Rightarrow> string \<Rightarrow> pp_error + string" where
  "expand_macros_text 0 g t s = Inl StackExhausted"
| "expand_macros_text (Suc d) g t s = expand_loop (expand_macros_text d g) g t s"

end
