(* ===== verification/PP_Args.thy ===== *)
theory PP_Args
  imports PP_Macros
begin

section \<open>The arguments of a macro call\<close>

text \<open>
  A reference description of macro arguments: an argument is a sequence of characters, of
  literals and of parenthesized groups. \<^verbatim>\<open>collect_args\<close> recovers such arguments from the text
  of the call.
\<close>

datatype piece = ArgChar char | ArgLit char string | ArgGroup "piece list"

fun show_piece :: "piece \<Rightarrow> string" where
  "show_piece (ArgChar c) = [c]"
| "show_piece (ArgLit q b) = q # b @ [q]"
| "show_piece (ArgGroup ps) = CHR ''('' # concat (map show_piece ps) @ '')''"

definition show_arg :: "piece list \<Rightarrow> string" where
  "show_arg ps = concat (map show_piece ps)"

text \<open>The body of a literal ends at its closing quote: quotes and line ends in it are escaped.\<close>

fun body_ok :: "char \<Rightarrow> string \<Rightarrow> bool" where
  "body_ok q [] = True"
| "body_ok q (c # s) =
     (c \<noteq> q \<and> c \<noteq> LF \<and> (if c = BACKSLASH then (case s of [] \<Rightarrow> False | d # t \<Rightarrow> body_ok q t) else body_ok q s))"

fun piece_ok :: "bool \<Rightarrow> piece \<Rightarrow> bool" where
  "piece_ok inside (ArgChar c) =
     (c \<noteq> DQUOTE \<and> c \<noteq> QUOTE \<and> c \<noteq> CHR ''('' \<and> c \<noteq> CHR '')'' \<and> (inside \<or> c \<noteq> CHR '',''))"
| "piece_ok inside (ArgLit q b) = ((q = DQUOTE \<or> q = QUOTE) \<and> body_ok q b)"
| "piece_ok inside (ArgGroup ps) = list_all (piece_ok True) ps"

definition tidy :: "string \<Rightarrow> bool" where
  "tidy s \<longleftrightarrow> \<not> arg_space (hd (s @ [CHR ''x''])) \<and> \<not> arg_space (last (CHR ''x'' # s))"

definition arg_ok :: "piece list \<Rightarrow> bool" where
  "arg_ok ps \<longleftrightarrow> list_all (piece_ok False) ps \<and> tidy (show_arg ps)"

lemma literal_tail_body: "body_ok q b \<Longrightarrow> q \<noteq> BACKSLASH \<Longrightarrow> q \<noteq> LF \<Longrightarrow> literal_tail q (b @ q # r) = (b @ [q], r)"
  by (induction q b rule: body_ok.induct) (auto split: if_split_asm list.split_asm)

lemma collect_loop_literal:
  "c = DQUOTE \<or> c = QUOTE \<Longrightarrow> collect_loop args arg d (c # u) =
   collect_loop args (rev (fst (literal_tail c u)) @ c # arg) d (snd (literal_tail c u))"
  by (subst collect_loop.simps) simp

lemma collect_loop_open: "collect_loop args arg d (CHR ''('' # u) = collect_loop args (CHR ''('' # arg) (Suc d) u"
  by (subst collect_loop.simps) simp

lemma collect_loop_close:
  "collect_loop args arg (Suc d) (CHR '')'' # u) = collect_loop args (CHR '')'' # arg) d u"
  by (subst collect_loop.simps) simp

lemma collect_loop_end:
  "collect_loop args arg 0 (CHR '')'' # u) = (args @ [rev (dropWhile arg_space arg)], u)"
  by (subst collect_loop.simps) simp

lemma collect_loop_comma:
  "collect_loop args arg 0 (CHR '','' # u) =
   collect_loop (args @ [rev (dropWhile arg_space arg)]) [] 0 (dropWhile arg_space u)"
  by (subst collect_loop.simps) simp

lemma collect_loop_char:
  "piece_ok (0 < d) (ArgChar c) \<Longrightarrow> collect_loop args arg d (c # u) = collect_loop args (c # arg) d u"
  by (subst collect_loop.simps) auto

lemma collect_loop_piece:
  "piece_ok (0 < d) p \<Longrightarrow> collect_loop args arg d (show_piece p @ r) = collect_loop args (rev (show_piece p) @ arg) d r"
proof (induction p arbitrary: arg d r)
  case (ArgChar c)
  then show ?case by (simp add: collect_loop_char del: piece_ok.simps)
next
  case (ArgLit q b)
  then have "literal_tail q (b @ q # r) = (b @ [q], r)" by (intro literal_tail_body) auto
  with ArgLit show ?case by (simp add: collect_loop_literal)
next
  case (ArgGroup ps)
  have inner: "collect_loop args arg (Suc d) (concat (map show_piece qs) @ r) =
      collect_loop args (rev (concat (map show_piece qs)) @ arg) (Suc d) r"
    if "set qs \<subseteq> set ps" for qs arg r
    using that
  proof (induction qs arbitrary: arg)
    case (Cons q qs)
    have "piece_ok True q" using ArgGroup.prems Cons.prems by (auto simp: list_all_iff)
    then show ?case using ArgGroup.IH [of q "Suc d"] Cons by simp
  qed simp
  show ?case using inner [of ps] by (simp add: collect_loop_open collect_loop_close)
qed

lemma collect_loop_arg:
  "list_all (piece_ok False) ps \<Longrightarrow> collect_loop args arg 0 (show_arg ps @ r) = collect_loop args (rev (show_arg ps) @ arg) 0 r"
  by (induction ps arbitrary: arg) (simp_all add: show_arg_def collect_loop_piece)

lemma tidy_trim: "tidy s \<Longrightarrow> rev (dropWhile arg_space (rev s)) = s"
  by (cases s rule: rev_cases) (auto simp: tidy_def)

lemma tidy_skip: "tidy s \<Longrightarrow> \<not> arg_space c \<Longrightarrow> dropWhile arg_space (s @ c # r) = s @ c # r"
  by (cases s) (auto simp: tidy_def)

lemma collect_loop_args:
  "pss \<noteq> [] \<Longrightarrow> list_all arg_ok pss \<Longrightarrow>
   collect_loop args [] 0 (join_args (map show_arg pss) @ CHR '')'' # rest) = (args @ map show_arg pss, rest)"
proof (induction pss arbitrary: args)
  case (Cons ps pss)
  then have ok: "list_all (piece_ok False) ps" "tidy (show_arg ps)" by (simp_all add: arg_ok_def)
  show ?case
  proof (cases pss)
    case Nil
    then show ?thesis using ok by (simp add: collect_loop_arg collect_loop_end tidy_trim)
  next
    case (Cons qs qss)
    let ?tail = "join_args (map show_arg pss) @ CHR '')'' # rest"
    have "tidy (show_arg qs)" using Cons.prems Cons by (simp add: arg_ok_def)
    then have skip: "dropWhile arg_space (CHR '' '' # ?tail) = ?tail"
      using tidy_skip [of "show_arg qs" "CHR '',''"] tidy_skip [of "show_arg qs" "CHR '')''"]
      by (cases qss) (simp_all add: Cons arg_space_def)
    have "collect_loop args [] 0 (join_args (map show_arg (ps # pss)) @ CHR '')'' # rest) =
        collect_loop args [] 0 (show_arg ps @ CHR '','' # CHR '' '' # ?tail)"
      using Cons by simp
    also have "\<dots> = collect_loop (args @ [show_arg ps]) [] 0 ?tail"
      using ok skip by (simp add: collect_loop_arg collect_loop_comma tidy_trim)
    also have "\<dots> = (args @ map show_arg (ps # pss), rest)"
      using Cons.IH Cons.prems Cons by simp
    finally show ?thesis .
  qed
qed simp

text \<open>
  (C20) The arguments of a macro call are split exactly at the commas that separate them:
  commas and parentheses inside parenthesized groups, and anything inside string and character
  literals, belong to the argument, and the white space around an argument does not.
\<close>

theorem collect_args_splits_call:
  assumes "pss \<noteq> []" and "pss \<noteq> [[]]" and "list_all arg_ok pss"
  shows "collect_args (join_args (map show_arg pss) @ CHR '')'' # rest) = (map show_arg pss, rest)"
proof -
  let ?s = "join_args (map show_arg pss) @ CHR '')'' # rest"
  obtain ps qss where pss: "pss = ps # qss" using assms(1) by (cases pss) auto
  have ok: "list_all (piece_ok False) ps" "tidy (show_arg ps)" using assms(3) pss by (simp_all add: arg_ok_def)
  have skip: "dropWhile arg_space ?s = ?s"
    using ok tidy_skip [of "show_arg ps" "CHR '',''"] tidy_skip [of "show_arg ps" "CHR '')''"]
    by (cases qss) (simp_all add: pss arg_space_def)
  have "c_at ?s 0 \<noteq> CHR '')''"
  proof (cases ps)
    case Nil
    then obtain qs rss where "qss = qs # rss" using assms(2) pss by (cases qss) auto
    then show ?thesis using Nil pss by (simp add: show_arg_def)
  next
    case (Cons p ps')
    with ok(1) have "c_at (show_arg ps @ r) 0 \<noteq> CHR '')''" for r by (cases p) (auto simp: show_arg_def)
    then show ?thesis by (cases qss) (simp_all add: pss)
  qed
  then show ?thesis
    using skip collect_loop_args [OF assms(1,3), of "[]" rest] by (simp add: collect_args_def Let_def)
qed

definition sample_args :: "piece list list" where
  "sample_args = [[ArgChar CHR ''a'', ArgGroup [ArgChar CHR ''b'', ArgChar CHR '','', ArgLit DQUOTE '')'']],
                  [ArgLit QUOTE '','']]"

theorem collect_args_splits_call_witness:
  "collect_args (join_args (map show_arg sample_args) @ CHR '')'' # ''+1'') = (map show_arg sample_args, ''+1'')"
  by (rule collect_args_splits_call)
     (simp_all add: sample_args_def arg_ok_def tidy_def show_arg_def arg_space_def)

end
