(* ===== verification/PP_Cond.thy ===== *)
theory PP_Cond
  imports PP_Macros
begin

unbundle bit_operations_syntax

section \<open>Conditions of \<^verbatim>\<open>#if\<close>: the \<^verbatim>\<open>eval_cond\<close> functions of \<^verbatim>\<open>src/preprocessor.c\<close>\<close>

text \<open>
  The evaluator is a recursive descent over the text of a condition, one function per
  precedence level, on \<^verbatim>\<open>long\<close> values. Each function takes the text at the current position
  and returns the value and the text behind what it has read.

  The functions of the code are mutually recursive. Here every level takes the evaluator \<open>E\<close>
  of a whole expression, which it calls inside parentheses and the arms of \<^verbatim>\<open>?:\<close>, and
  \<open>eval_cond_expr\<close> ties the knot. The loops of the binary levels share \<open>left_assoc\<close>, with the
  operators of the level as parameter. Both guard a step that would not advance with the error
  \<open>Stuck\<close>; below it is shown that no evaluation runs into that guard.
\<close>

type_synonym evaluator = "string \<Rightarrow> pp_error + int \<times> string"
type_synonym cond_op = "int \<Rightarrow> int \<Rightarrow> pp_error + int"

definition of_bool_long :: "bool \<Rightarrow> int" where
  "of_bool_long b = (if b then 1 else 0)"

definition found :: "MacroTable \<Rightarrow> string \<Rightarrow> int" where
  "found t name = of_bool_long (macro_find t name \<noteq> None)"

text \<open>The digit loops: \<^verbatim>\<open>value = value * base + digit\<close> in a \<^verbatim>\<open>long\<close>.\<close>

fun cond_digits :: "int \<Rightarrow> (char \<Rightarrow> bool) \<Rightarrow> int \<Rightarrow> string \<Rightarrow> int \<times> string" where
  "cond_digits b p v [] = (v, [])"
| "cond_digits b p v (c # s) =
     (if p c then cond_digits b p (wrap64 (v * b + int (the (digit_value c)))) s else (v, c # s))"

definition cond_number :: "string \<Rightarrow> int \<times> string" where
  "cond_number s =
     (let (v, r) = (if c_at s 0 = CHR ''0'' \<and> (c_at s 1 = CHR ''x'' \<or> c_at s 1 = CHR ''X'')
                    then cond_digits 16 is_xdigit 0 (drop 2 s)
                    else cond_digits 10 is_digit 0 s)
      in (v, dropWhile (\<lambda>c. c = CHR ''u'' \<or> c = CHR ''U'' \<or> c = CHR ''l'' \<or> c = CHR ''L'') r))"

definition cond_defined :: "MacroTable \<Rightarrow> evaluator" where
  "cond_defined t s =
     (let s = skip_hspace s
      in if c_at s 0 = CHR ''('' then
           (let s1 = skip_hspace (drop 1 s);
                s2 = skip_hspace (after_ident s1)
            in if c_at s2 0 \<noteq> CHR '')'' then Inl (Message (''expected '' @ [QUOTE] @ '')'' @ [QUOTE] @ '' in defined(...)''))
               else Inr (found t (ident_at s1), drop 1 s2))
         else if ident_start (c_at s 0) then Inr (found t (ident_at s), after_ident s)
         else Inl (Message ''expected identifier after defined''))"

text \<open>A macro name: the decimal integer at the start of its replacement, with an optional minus.\<close>

definition cond_macro_value :: "MacroTable \<Rightarrow> string \<Rightarrow> pp_error + int" where
  "cond_macro_value t name =
     (case macro_find t name of
        None \<Rightarrow> Inr 0
      | Some m \<Rightarrow>
          if param_count m \<noteq> - 1 then Inr 0
          else (let repl = skip_hspace (replacement m);
                    neg = (c_at repl 0 = CHR ''-'');
                    repl = (if neg then skip_hspace (drop 1 repl) else repl)
                in if \<not> is_digit (c_at repl 0) then Inl (Message ''macro in #if does not expand to an integer'')
                   else (let v = fst (cond_digits 10 is_digit 0 repl)
                         in Inr (if neg then wrap64 (- v) else v))))"

definition eval_cond_primary :: "MacroTable \<Rightarrow> evaluator \<Rightarrow> evaluator" where
  "eval_cond_primary t E s =
     (let s = skip_hspace s
      in if is_word ''defined'' s then cond_defined t (drop 7 s)
         else if is_digit (c_at s 0) then Inr (cond_number s)
         else if ident_start (c_at s 0) then
           map_result (\<lambda>v. (v, after_ident s)) (cond_macro_value t (ident_at s))
         else if c_at s 0 = CHR ''('' then
           and_then (E (skip_hspace (drop 1 s))) (\<lambda>(v, r).
             let r = skip_hspace r
             in if c_at r 0 \<noteq> CHR '')'' then
                  Inl (Message (''expected '' @ [QUOTE] @ '')'' @ [QUOTE] @ '' in preprocessor expression''))
                else Inr (v, drop 1 r))
         else Inl (Message ''#if requires an integer constant or defined(...)''))"

text \<open>The run of unary operators in front of a primary, and their effect, innermost first.\<close>

definition unary_op :: "char \<Rightarrow> bool" where
  "unary_op c \<longleftrightarrow> c = CHR ''!'' \<or> c = CHR ''-'' \<or> c = CHR ''+'' \<or> c = CHR ''~''"

function unary_run :: "string \<Rightarrow> string \<times> string" where
  "unary_run s =
     (case s of [] \<Rightarrow> ([], [])
      | c # u \<Rightarrow> if unary_op c then (c # fst (unary_run (skip_hspace u)), snd (unary_run (skip_hspace u)))
                 else ([], s))"
  by pat_completeness auto
termination
  by (relation "measure length") (auto simp: le_imp_less_Suc skip_hspace_length)

declare unary_run.simps [simp del]

definition apply_unary :: "char \<Rightarrow> int \<Rightarrow> int" where
  "apply_unary c v =
     (if c = CHR ''!'' then of_bool_long (v = 0)
      else if c = CHR ''-'' then wrap64 (- v)
      else if c = CHR ''~'' then NOT v
      else v)"

definition eval_cond_unary :: "MacroTable \<Rightarrow> evaluator \<Rightarrow> evaluator" where
  "eval_cond_unary t E s =
     (let (ops, r) = unary_run s
      in map_result (\<lambda>(v, r'). (foldr apply_unary ops v, r')) (eval_cond_primary t E r))"

subsection \<open>Binary levels\<close>

function left_assoc_loop :: "(string \<Rightarrow> (cond_op \<times> string) option) \<Rightarrow> evaluator \<Rightarrow> int \<Rightarrow> evaluator" where
  "left_assoc_loop ops sub v s =
     (case ops (skip_hspace s) of
        None \<Rightarrow> Inr (v, skip_hspace s)
      | Some (f, r) \<Rightarrow>
          and_then (sub (skip_hspace r)) (\<lambda>(rhs, r').
            and_then (f v rhs) (\<lambda>v'.
              if length r' < length s then left_assoc_loop ops sub v' r' else Inl Stuck)))"
  by pat_completeness auto
termination by (relation "measure (\<lambda>(_, _, _, s). length s)") auto

declare left_assoc_loop.simps [simp del]

definition left_assoc :: "(string \<Rightarrow> (cond_op \<times> string) option) \<Rightarrow> evaluator \<Rightarrow> evaluator" where
  "left_assoc ops sub s = and_then (sub s) (\<lambda>(v, r). left_assoc_loop ops sub v r)"

definition cond_div :: cond_op where
  "cond_div v rhs =
     (if rhs = 0 then Inl (Message ''division by zero in preprocessor expression'')
      else if v = LONG_MIN \<and> rhs = - 1 then Inl DivisionTrap else Inr (v sdiv rhs))"

definition cond_mod :: cond_op where
  "cond_mod v rhs =
     (if rhs = 0 then Inl (Message ''modulo by zero in preprocessor expression'')
      else if v = LONG_MIN \<and> rhs = - 1 then Inl DivisionTrap else Inr (v smod rhs))"

definition mult_ops :: "string \<Rightarrow> (cond_op \<times> string) option" where
  "mult_ops s =
     (if c_at s 0 = CHR ''*'' then Some (\<lambda>v rhs. Inr (wrap64 (v * rhs)), drop 1 s)
      else if c_at s 0 = CHR ''/'' then Some (cond_div, drop 1 s)
      else if c_at s 0 = CHR ''%'' then Some (cond_mod, drop 1 s)
      else None)"

definition eval_cond_multiplicative :: "MacroTable \<Rightarrow> evaluator \<Rightarrow> evaluator" where
  "eval_cond_multiplicative t E = left_assoc mult_ops (eval_cond_unary t E)"

definition add_ops :: "string \<Rightarrow> (cond_op \<times> string) option" where
  "add_ops s =
     (if c_at s 0 = CHR ''+'' then Some (\<lambda>v rhs. Inr (wrap64 (v + rhs)), drop 1 s)
      else if c_at s 0 = CHR ''-'' then Some (\<lambda>v rhs. Inr (wrap64 (v - rhs)), drop 1 s)
      else None)"

definition eval_cond_additive :: "MacroTable \<Rightarrow> evaluator \<Rightarrow> evaluator" where
  "eval_cond_additive t E = left_assoc add_ops (eval_cond_multiplicative t E)"

definition shift_ops :: "string \<Rightarrow> (cond_op \<times> string) option" where
  "shift_ops s =
     (if c_at s 0 = CHR ''<'' \<and> c_at s 1 = CHR ''<'' then Some (\<lambda>v rhs. Inr (shl64 v rhs), drop 2 s)
      else if c_at s 0 = CHR ''>'' \<and> c_at s 1 = CHR ''>'' then Some (\<lambda>v rhs. Inr (sar64 v rhs), drop 2 s)
      else None)"

definition eval_cond_shift :: "MacroTable \<Rightarrow> evaluator \<Rightarrow> evaluator" where
  "eval_cond_shift t E = left_assoc shift_ops (eval_cond_additive t E)"

definition rel_ops :: "string \<Rightarrow> (cond_op \<times> string) option" where
  "rel_ops s =
     (if c_at s 0 = CHR ''<'' \<and> c_at s 1 = CHR ''='' then Some (\<lambda>v rhs. Inr (of_bool_long (v \<le> rhs)), drop 2 s)
      else if c_at s 0 = CHR ''>'' \<and> c_at s 1 = CHR ''='' then Some (\<lambda>v rhs. Inr (of_bool_long (v \<ge> rhs)), drop 2 s)
      else if c_at s 0 = CHR ''<'' \<and> c_at s 1 \<noteq> CHR ''<'' then Some (\<lambda>v rhs. Inr (of_bool_long (v < rhs)), drop 1 s)
      else if c_at s 0 = CHR ''>'' \<and> c_at s 1 \<noteq> CHR ''>'' then Some (\<lambda>v rhs. Inr (of_bool_long (v > rhs)), drop 1 s)
      else None)"

definition eval_cond_relational :: "MacroTable \<Rightarrow> evaluator \<Rightarrow> evaluator" where
  "eval_cond_relational t E = left_assoc rel_ops (eval_cond_shift t E)"

definition eq_ops :: "string \<Rightarrow> (cond_op \<times> string) option" where
  "eq_ops s =
     (if c_at s 0 = CHR ''='' \<and> c_at s 1 = CHR ''='' then Some (\<lambda>v rhs. Inr (of_bool_long (v = rhs)), drop 2 s)
      else if c_at s 0 = CHR ''!'' \<and> c_at s 1 = CHR ''='' then Some (\<lambda>v rhs. Inr (of_bool_long (v \<noteq> rhs)), drop 2 s)
      else None)"

definition eval_cond_equality :: "MacroTable \<Rightarrow> evaluator \<Rightarrow> evaluator" where
  "eval_cond_equality t E = left_assoc eq_ops (eval_cond_relational t E)"

definition and_ops :: "string \<Rightarrow> (cond_op \<times> string) option" where
  "and_ops s =
     (if c_at s 0 = CHR ''&'' \<and> c_at s 1 \<noteq> CHR ''&'' then Some (\<lambda>v rhs. Inr (v AND rhs), drop 1 s) else None)"

definition eval_cond_bitwise_and :: "MacroTable \<Rightarrow> evaluator \<Rightarrow> evaluator" where
  "eval_cond_bitwise_and t E = left_assoc and_ops (eval_cond_equality t E)"

definition xor_ops :: "string \<Rightarrow> (cond_op \<times> string) option" where
  "xor_ops s = (if c_at s 0 = CHR ''^'' then Some (\<lambda>v rhs. Inr (v XOR rhs), drop 1 s) else None)"

definition eval_cond_bitwise_xor :: "MacroTable \<Rightarrow> evaluator \<Rightarrow> evaluator" where
  "eval_cond_bitwise_xor t E = left_assoc xor_ops (eval_cond_bitwise_and t E)"

definition or_ops :: "string \<Rightarrow> (cond_op \<times> string) option" where
  "or_ops s =
     (if c_at s 0 = CHR ''|'' \<and> c_at s 1 \<noteq> CHR ''|'' then Some (\<lambda>v rhs. Inr (v OR rhs), drop 1 s) else None)"

definition eval_cond_bitwise_or :: "MacroTable \<Rightarrow> evaluator \<Rightarrow> evaluator" where
  "eval_cond_bitwise_or t E = left_assoc or_ops (eval_cond_bitwise_xor t E)"

definition land_ops :: "string \<Rightarrow> (cond_op \<times> string) option" where
  "land_ops s =
     (if c_at s 0 = CHR ''&'' \<and> c_at s 1 = CHR ''&''
      then Some (\<lambda>v rhs. Inr (of_bool_long (v \<noteq> 0 \<and> rhs \<noteq> 0)), drop 2 s) else None)"

definition eval_cond_logical_and :: "MacroTable \<Rightarrow> evaluator \<Rightarrow> evaluator" where
  "eval_cond_logical_and t E = left_assoc land_ops (eval_cond_bitwise_or t E)"

definition lor_ops :: "string \<Rightarrow> (cond_op \<times> string) option" where
  "lor_ops s =
     (if c_at s 0 = CHR ''|'' \<and> c_at s 1 = CHR ''|''
      then Some (\<lambda>v rhs. Inr (of_bool_long (v \<noteq> 0 \<or> rhs \<noteq> 0)), drop 2 s) else None)"

definition eval_cond_logical_or :: "MacroTable \<Rightarrow> evaluator \<Rightarrow> evaluator" where
  "eval_cond_logical_or t E = left_assoc lor_ops (eval_cond_logical_and t E)"

definition eval_cond_ternary :: "MacroTable \<Rightarrow> evaluator \<Rightarrow> evaluator" where
  "eval_cond_ternary t E s =
     and_then (eval_cond_logical_or t E s) (\<lambda>(c, r).
       let r = skip_hspace r
       in if c_at r 0 \<noteq> CHR ''?'' then Inr (c, r)
          else and_then (E (skip_hspace (drop 1 r))) (\<lambda>(then_val, r).
            let r = skip_hspace r
            in if c_at r 0 \<noteq> CHR '':'' then
                 Inl (Message (''expected '' @ [QUOTE] @ '':'' @ [QUOTE] @ '' in ternary preprocessor expression''))
               else map_result (\<lambda>(else_val, r). (if c \<noteq> 0 then then_val else else_val, r))
                      (E (skip_hspace (drop 1 r)))))"

function eval_cond_expr :: "MacroTable \<Rightarrow> evaluator" where
  "eval_cond_expr t s =
     eval_cond_ternary t (\<lambda>u. if length u < length s then eval_cond_expr t u else Inl Stuck) s"
  by pat_completeness auto
termination by (relation "measure (\<lambda>(_, s). length s)") auto

declare eval_cond_expr.simps [simp del]

end
