(* ===== verification/PP_Cond_Props.thy ===== *)
theory PP_Cond_Props
  imports PP_Cond
begin

section \<open>The evaluator of conditions: progress\<close>

text \<open>
  What a level of the evaluator needs from the evaluator of whole expressions, and what it
  gives to the level above: it never moves backwards, it looks only at results for shorter
  texts, and it does not get stuck. The locale is interpreted for every function of the code.
\<close>

definition steady :: "evaluator \<Rightarrow> bool" where
  "steady E \<longleftrightarrow> (\<forall>s v r. E s = Inr (v, r) \<longrightarrow> length r \<le> length s)"

lemma steadyD: "steady E \<Longrightarrow> E s = Inr (v, r) \<Longrightarrow> length r \<le> length s"
  by (simp add: steady_def)

locale cond_level =
  fixes ev :: "evaluator \<Rightarrow> evaluator"
  assumes level_steady: "steady E \<Longrightarrow> steady (ev E)"
    and level_local: "steady E \<Longrightarrow> (\<And>u. length u < length s \<Longrightarrow> E u = E' u) \<Longrightarrow> ev E s = ev E' s"
    and level_moves: "steady E \<Longrightarrow> (\<And>u. length u < length s \<Longrightarrow> E u \<noteq> Inl Stuck) \<Longrightarrow> ev E s \<noteq> Inl Stuck"

definition reads_op :: "(string \<Rightarrow> (cond_op \<times> string) option) \<Rightarrow> bool" where
  "reads_op ops \<longleftrightarrow> (\<forall>s f r. ops s = Some (f, r) \<longrightarrow> length r < length s \<and> (\<forall>a b. f a b \<noteq> Inl Stuck))"

lemma reads_opD:
  "reads_op ops \<Longrightarrow> ops s = Some (f, r) \<Longrightarrow> length r < length s"
  "reads_op ops \<Longrightarrow> ops s = Some (f, r) \<Longrightarrow> f a b \<noteq> Inl Stuck"
  by (auto simp: reads_op_def)

lemma c_at_pos: "c_at s 0 = c \<Longrightarrow> c \<noteq> NUL \<Longrightarrow> 0 < length s"
  by (cases s) auto

lemma all_reads_op:
  "reads_op mult_ops" "reads_op add_ops" "reads_op shift_ops" "reads_op rel_ops" "reads_op eq_ops"
  "reads_op and_ops" "reads_op xor_ops" "reads_op or_ops" "reads_op land_ops" "reads_op lor_ops"
  by (auto simp: reads_op_def mult_ops_def add_ops_def shift_ops_def rel_ops_def eq_ops_def and_ops_def
      xor_ops_def or_ops_def land_ops_def lor_ops_def cond_div_def cond_mod_def split: if_split_asm dest!: c_at_pos)

subsection \<open>The shared loop\<close>

lemma op_shrinks:
  assumes "reads_op ops" and "ops (skip_hspace s) = Some (f, r)"
  shows "length (skip_hspace r) < length s"
  using reads_opD(1) [OF assms] skip_hspace_length [of r] skip_hspace_length [of s] by simp

lemma left_assoc_loop_steady:
  assumes "steady sub" and "reads_op ops"
  shows "left_assoc_loop ops sub v s = Inr (w, r) \<Longrightarrow> length r \<le> length s"
proof (induction "length s" arbitrary: v s rule: less_induct)
  case less
  show ?case
  proof (cases "ops (skip_hspace s)")
    case None
    then show ?thesis using less.prems skip_hspace_length [of s] by (subst (asm) left_assoc_loop.simps) simp
  next
    case (Some p)
    obtain f q where p: "p = (f, q)" by (cases p)
    from less.prems obtain rhs r' v' where *: "length r' < length s" "left_assoc_loop ops sub v' r' = Inr (w, r)"
      by (subst (asm) left_assoc_loop.simps) (auto simp: Some p and_then_eq_Inr split: if_split_asm)
    from less.hyps [OF this] * show ?thesis by simp
  qed
qed

lemma left_assoc_loop_local:
  assumes "reads_op ops" and "\<And>u. length u < length s \<Longrightarrow> sub u = sub' u"
  shows "left_assoc_loop ops sub v s = left_assoc_loop ops sub' v s"
  using assms(2)
proof (induction "length s" arbitrary: v s rule: less_induct)
  case less
  show ?case
  proof (cases "ops (skip_hspace s)")
    case None
    then show ?thesis by (simp add: left_assoc_loop.simps [of _ _ _ s])
  next
    case (Some p)
    obtain f q where p: "p = (f, q)" by (cases p)
    have "sub (skip_hspace q) = sub' (skip_hspace q)"
      using less.prems op_shrinks [OF assms(1)] Some p by blast
    moreover have "left_assoc_loop ops sub w u = left_assoc_loop ops sub' w u" if "length u < length s" for w u
      using less.hyps [OF that] less.prems that by simp
    ultimately show ?thesis
      unfolding left_assoc_loop.simps [of _ _ v s] Some p
      by (auto intro!: and_then_cong)
  qed
qed

lemma left_assoc_loop_moves:
  assumes "steady sub" and "reads_op ops" and "\<And>u. length u < length s \<Longrightarrow> sub u \<noteq> Inl Stuck"
  shows "left_assoc_loop ops sub v s \<noteq> Inl Stuck"
  using assms(3)
proof (induction "length s" arbitrary: v s rule: less_induct)
  case less
  show ?case
  proof (cases "ops (skip_hspace s)")
    case None
    then show ?thesis by (simp add: left_assoc_loop.simps [of _ _ _ s])
  next
    case (Some p)
    obtain f q where p: "p = (f, q)" by (cases p)
    note q = op_shrinks [OF assms(2) Some [unfolded p]]
    have "length r' < length s" if "sub (skip_hspace q) = Inr (rhs, r')" for rhs r'
      using steadyD [OF assms(1) that] q by simp
    moreover have "left_assoc_loop ops sub w u \<noteq> Inl Stuck" if "length u < length s" for w u
      using less.hyps [OF that] less.prems that by simp
    ultimately show ?thesis
      using less.prems [OF q] reads_opD(2) [OF assms(2) Some [unfolded p]]
      by (subst left_assoc_loop.simps) (auto simp: Some p and_then_eq_Inl)
  qed
qed

lemma left_assoc_level:
  assumes "cond_level ev" and ops: "reads_op ops"
  shows "cond_level (\<lambda>E. left_assoc ops (ev E))"
proof
  note level = cond_level.level_steady [OF assms(1)] cond_level.level_local [OF assms(1)]
    cond_level.level_moves [OF assms(1)]
  fix E :: evaluator
  assume E: "steady E"
  show "steady (left_assoc ops (ev E))"
    using steadyD [OF level(1) [OF E]] left_assoc_loop_steady [OF level(1) [OF E] ops]
    by (fastforce simp: steady_def left_assoc_def and_then_eq_Inr)
  fix s
  show "left_assoc ops (ev E) s = left_assoc ops (ev E') s"
    if same: "\<And>u. length u < length s \<Longrightarrow> E u = E' u" for E'
  proof -
    have sub: "ev E u = ev E' u" if "length u \<le> length s" for u
      using level(2) [OF E, of u E'] same that by simp
    have "left_assoc_loop ops (ev E) v r = left_assoc_loop ops (ev E') v r" if "length r \<le> length s" for v r
      using left_assoc_loop_local [OF ops, of r "ev E" "ev E'"] sub that by simp
    then show ?thesis
      using sub [of s] steadyD [OF level(1) [OF E], of s] unfolding left_assoc_def
      by (auto intro!: and_then_cong)
  qed
  show "left_assoc ops (ev E) s \<noteq> Inl Stuck" if free: "\<And>u. length u < length s \<Longrightarrow> E u \<noteq> Inl Stuck"
  proof -
    have sub: "ev E u \<noteq> Inl Stuck" if "length u \<le> length s" for u
      using level(3) [OF E, of u] free that by simp
    have "left_assoc_loop ops (ev E) v r \<noteq> Inl Stuck" if "length r \<le> length s" for v r
      using left_assoc_loop_moves [OF level(1) [OF E] ops, of r] sub that by simp
    then show ?thesis
      using sub [of s] steadyD [OF level(1) [OF E], of s]
      by (auto simp: left_assoc_def and_then_eq_Inl)
  qed
qed

subsection \<open>The levels\<close>

lemma cond_digits_length: "length (snd (cond_digits b p v s)) \<le> length s"
  by (induction b p v s rule: cond_digits.induct) auto

lemma cond_number_length: "length (snd (cond_number s)) \<le> length s"
proof -
  have "length (snd (cond_digits 16 is_xdigit 0 (drop 2 s))) \<le> length s"
    using cond_digits_length [of 16 is_xdigit 0 "drop 2 s"] by simp
  then show ?thesis
    using cond_digits_length [of 10 is_digit 0 s]
    by (auto simp: cond_number_def split: prod.split intro: order_trans [OF length_dropWhile_le])
qed

lemma cond_defined_length: "cond_defined t s = Inr (v, r) \<Longrightarrow> length r \<le> length s"
proof -
  let ?s = "skip_hspace s" and ?s1 = "skip_hspace (drop 1 (skip_hspace s))"
  have "length ?s \<le> length s" "length ?s1 \<le> length s" "length (after_ident ?s) \<le> length s"
    "length (skip_hspace (after_ident ?s1)) \<le> length s"
    using skip_hspace_length [of s] skip_hspace_length [of "drop 1 ?s"] after_ident_length [of ?s]
      skip_hspace_length [of "after_ident ?s1"] after_ident_length [of ?s1] by simp_all
  then show "cond_defined t s = Inr (v, r) \<Longrightarrow> length r \<le> length s"
    by (auto simp: cond_defined_def Let_def split: if_split_asm)
qed

lemma unary_run_length: "length (snd (unary_run s)) \<le> length s"
proof (induction s rule: unary_run.induct)
  case (1 s)
  show ?case
  proof (cases s)
    case (Cons c u)
    then show ?thesis using 1 [OF Cons] skip_hspace_length [of u] by (subst unary_run.simps) auto
  qed (simp add: unary_run.simps)
qed

lemma paren_shorter: "c_at (skip_hspace s) 0 = CHR ''('' \<Longrightarrow> length (skip_hspace (drop 1 (skip_hspace s))) < length s"
  using skip_hspace_length [of "drop 1 (skip_hspace s)"] skip_hspace_length [of s]
  by (cases "skip_hspace s") auto

lemma primary_level: "cond_level (eval_cond_primary t)"
proof
  fix E :: evaluator
  assume E: "steady E"
  show "steady (eval_cond_primary t E)" unfolding steady_def
  proof (intro allI impI)
    fix s v r assume *: "eval_cond_primary t E s = Inr (v, r)"
    let ?s = "skip_hspace s"
    have len: "length ?s \<le> length s" by (rule skip_hspace_length)
    have inner: "length (skip_hspace q) \<le> length s" if "E (skip_hspace (drop 1 ?s)) = Inr (w, q)" for w q
      using steadyD [OF E that] skip_hspace_length [of "drop 1 ?s"] skip_hspace_length [of q] len by simp
    show "length r \<le> length s"
      using * len cond_defined_length [of t "drop 7 ?s" v r] cond_number_length [of ?s] after_ident_length [of ?s] inner
      by (auto simp: eval_cond_primary_def Let_def result_simps split: if_split_asm)
  qed
  fix s
  show "eval_cond_primary t E s = eval_cond_primary t E' s" if "\<And>u. length u < length s \<Longrightarrow> E u = E' u" for E'
    using that [OF paren_shorter] by (simp add: eval_cond_primary_def Let_def)
  show "eval_cond_primary t E s \<noteq> Inl Stuck" if "\<And>u. length u < length s \<Longrightarrow> E u \<noteq> Inl Stuck"
    using that [OF paren_shorter]
    by (auto simp: eval_cond_primary_def cond_defined_def cond_macro_value_def Let_def result_simps
        split: if_split_asm option.split_asm)
qed

lemma unary_level: "cond_level (eval_cond_unary t)"
proof
  note p = cond_level.level_steady [OF primary_level] cond_level.level_local [OF primary_level]
    cond_level.level_moves [OF primary_level]
  fix E :: evaluator
  assume E: "steady E"
  show "steady (eval_cond_unary t E)"
    unfolding steady_def
  proof (intro allI impI)
    fix s v r assume "eval_cond_unary t E s = Inr (v, r)"
    then obtain w where "eval_cond_primary t E (snd (unary_run s)) = Inr (w, r)"
      by (auto simp: eval_cond_unary_def map_result_eq_Inr split: prod.split_asm)
    from steadyD [OF p(1) [OF E] this] unary_run_length [of s] show "length r \<le> length s" by simp
  qed
  fix s
  have len: "length (snd (unary_run s)) \<le> length s" by (rule unary_run_length)
  show "eval_cond_unary t E s = eval_cond_unary t E' s" if "\<And>u. length u < length s \<Longrightarrow> E u = E' u" for E'
    using p(2) [OF E, of "snd (unary_run s)" E' t] that len by (cases "unary_run s") (simp add: eval_cond_unary_def)
  show "eval_cond_unary t E s \<noteq> Inl Stuck" if "\<And>u. length u < length s \<Longrightarrow> E u \<noteq> Inl Stuck"
    using p(3) [OF E, of "snd (unary_run s)" t] that len
    by (cases "unary_run s") (simp add: eval_cond_unary_def map_result_eq_Inl)
qed

interpretation mul: cond_level "eval_cond_multiplicative t" for t
  unfolding eval_cond_multiplicative_def by (rule left_assoc_level [OF unary_level all_reads_op(1)])

interpretation add: cond_level "eval_cond_additive t" for t
  unfolding eval_cond_additive_def by (rule left_assoc_level [OF mul.cond_level_axioms all_reads_op(2)])

interpretation shift: cond_level "eval_cond_shift t" for t
  unfolding eval_cond_shift_def by (rule left_assoc_level [OF add.cond_level_axioms all_reads_op(3)])

interpretation rel: cond_level "eval_cond_relational t" for t
  unfolding eval_cond_relational_def by (rule left_assoc_level [OF shift.cond_level_axioms all_reads_op(4)])

interpretation eqy: cond_level "eval_cond_equality t" for t
  unfolding eval_cond_equality_def by (rule left_assoc_level [OF rel.cond_level_axioms all_reads_op(5)])

interpretation band: cond_level "eval_cond_bitwise_and t" for t
  unfolding eval_cond_bitwise_and_def by (rule left_assoc_level [OF eqy.cond_level_axioms all_reads_op(6)])

interpretation bxor: cond_level "eval_cond_bitwise_xor t" for t
  unfolding eval_cond_bitwise_xor_def by (rule left_assoc_level [OF band.cond_level_axioms all_reads_op(7)])

interpretation bor: cond_level "eval_cond_bitwise_or t" for t
  unfolding eval_cond_bitwise_or_def by (rule left_assoc_level [OF bxor.cond_level_axioms all_reads_op(8)])

interpretation land: cond_level "eval_cond_logical_and t" for t
  unfolding eval_cond_logical_and_def by (rule left_assoc_level [OF bor.cond_level_axioms all_reads_op(9)])

interpretation lor: cond_level "eval_cond_logical_or t" for t
  unfolding eval_cond_logical_or_def by (rule left_assoc_level [OF land.cond_level_axioms all_reads_op(10)])

interpretation ternary: cond_level "eval_cond_ternary t" for t
proof
  fix E :: evaluator
  assume E: "steady E"
  note or_len = steadyD [OF lor.level_steady [OF E]]
  have tail: "length (skip_hspace (drop 1 (skip_hspace r))) < length s"
    if "length r \<le> length s" "c_at (skip_hspace r) 0 = c" "c \<noteq> NUL" for r s c
    using that skip_hspace_length [of r] skip_hspace_length [of "drop 1 (skip_hspace r)"]
    by (cases "skip_hspace r") auto
  have arm: "length q \<le> length s" if "length u < length s" "E u = Inr (w, q)" for u w q s
    using steadyD [OF E that(2)] that(1) by simp
  show "steady (eval_cond_ternary t E)"
    unfolding steady_def
  proof (intro allI impI)
    fix s v q assume run: "eval_cond_ternary t E s = Inr (v, q)"
    then obtain c r where cr: "eval_cond_logical_or t E s = Inr (c, r)"
      by (auto simp: eval_cond_ternary_def and_then_eq_Inr)
    note r = or_len [OF cr]
    show "length q \<le> length s"
    proof (cases "c_at (skip_hspace r) 0 = CHR ''?''")
      case False
      then show ?thesis using run r skip_hspace_length [of r] by (simp add: eval_cond_ternary_def cr Let_def)
    next
      case True
      from run obtain a r1 w where 1: "E (skip_hspace (drop 1 (skip_hspace r))) = Inr (a, r1)"
        and colon: "c_at (skip_hspace r1) 0 = CHR '':''"
        and 2: "E (skip_hspace (drop 1 (skip_hspace r1))) = Inr (w, q)"
        by (auto simp: eval_cond_ternary_def cr True Let_def result_simps split: if_split_asm)
      have "length r1 \<le> length s" using arm [OF tail [OF r True] 1] by simp
      from arm [OF tail [OF this colon] 2] show ?thesis by simp
    qed
  qed
  fix s
  show "eval_cond_ternary t E s = eval_cond_ternary t E' s"
    if same: "\<And>u. length u < length s \<Longrightarrow> E u = E' u" for E'
  proof (cases "eval_cond_logical_or t E s")
    case (Inl e)
    then show ?thesis using lor.level_local [OF E, of s E' t] same by (simp add: eval_cond_ternary_def)
  next
    case (Inr p)
    obtain c r where p: "p = (c, r)" by (cases p)
    have first: "eval_cond_logical_or t E' s = Inr (c, r)"
      using lor.level_local [OF E, of s E' t] same Inr p by simp
    note r = or_len [OF Inr [unfolded p]]
    show ?thesis
    proof (cases "c_at (skip_hspace r) 0 = CHR ''?''")
      case True
      let ?u = "skip_hspace (drop 1 (skip_hspace r))"
      have u: "length ?u < length s" using tail [OF r True] by simp
      have "E (skip_hspace (drop 1 (skip_hspace r1))) = E' (skip_hspace (drop 1 (skip_hspace r1)))"
        if "E ?u = Inr (a, r1)" "c_at (skip_hspace r1) 0 = CHR '':''" for a r1
        using same [OF tail [OF arm [OF u that(1)] that(2)]] by simp
      then show ?thesis
        using Inr p first same [OF u] True by (cases "E ?u") (auto simp: eval_cond_ternary_def Let_def)
    qed (simp add: eval_cond_ternary_def Inr p first Let_def)
  qed
  show "eval_cond_ternary t E s \<noteq> Inl Stuck" if free: "\<And>u. length u < length s \<Longrightarrow> E u \<noteq> Inl Stuck"
  proof
    assume stuck: "eval_cond_ternary t E s = Inl Stuck"
    then obtain c r where cr: "eval_cond_logical_or t E s = Inr (c, r)"
      using lor.level_moves [OF E, of s t] free by (auto simp: eval_cond_ternary_def and_then_eq_Inl)
    note r = or_len [OF cr]
    have q: "c_at (skip_hspace r) 0 = CHR ''?''"
      using stuck by (auto simp: eval_cond_ternary_def cr Let_def split: if_split_asm)
    from stuck free [OF tail [OF r q]] obtain a r1 where 1: "E (skip_hspace (drop 1 (skip_hspace r))) = Inr (a, r1)"
      and colon: "c_at (skip_hspace r1) 0 = CHR '':''"
      and 2: "E (skip_hspace (drop 1 (skip_hspace r1))) = Inl Stuck"
      by (auto simp: eval_cond_ternary_def cr q Let_def result_simps split: if_split_asm)
    have "length r1 \<le> length s" using arm [OF tail [OF r q] 1] by simp
    from free [OF tail [OF this colon]] 2 show False by simp
  qed
qed

subsection \<open>Tying the knot\<close>

definition guarded :: "evaluator \<Rightarrow> nat \<Rightarrow> evaluator" where
  "guarded E n u = (if length u < n then E u else Inl Stuck)"

lemma eval_cond_expr_guarded: "eval_cond_expr t s = eval_cond_ternary t (guarded (eval_cond_expr t) (length s)) s"
  by (subst eval_cond_expr.simps) (simp add: guarded_def [abs_def])

lemma eval_cond_expr_length: "eval_cond_expr t s = Inr (v, r) \<Longrightarrow> length r \<le> length s"
proof (induction "length s" arbitrary: s v r rule: less_induct)
  case less
  have "steady (guarded (eval_cond_expr t) (length s))"
    using less.hyps by (auto simp: steady_def guarded_def split: if_split_asm)
  from steadyD [OF ternary.level_steady [OF this]] less.prems show ?case
    by (simp add: eval_cond_expr_guarded [of t s])
qed

lemma eval_cond_expr_steady: "steady (eval_cond_expr t)"
  using eval_cond_expr_length by (auto simp: steady_def)

lemma guarded_steady: "steady (guarded (eval_cond_expr t) n)"
  using eval_cond_expr_length by (auto simp: steady_def guarded_def split: if_split_asm)

text \<open>The guards change nothing: the evaluator satisfies the equation of the code.\<close>

lemma eval_cond_expr_unfold: "eval_cond_expr t s = eval_cond_ternary t (eval_cond_expr t) s"
  unfolding eval_cond_expr_guarded [of t s]
  by (rule ternary.level_local [OF guarded_steady]) (simp add: guarded_def)

lemma eval_cond_expr_moves: "eval_cond_expr t s \<noteq> Inl Stuck"
proof (induction "length s" arbitrary: s rule: less_induct)
  case less
  show ?case
    unfolding eval_cond_expr_guarded [of t s]
    by (rule ternary.level_moves [OF guarded_steady]) (simp add: guarded_def less)
qed

text \<open>
  The evaluation of a condition always ends, on any text whatever: it satisfies the
  mutually recursive equations of the code without running into the guard of the model, and it
  never reads behind the end of the text.
\<close>

lemma eval_cond_expr_ends:
  "eval_cond_expr t s = eval_cond_ternary t (eval_cond_expr t) s \<and> eval_cond_expr t s \<noteq> Inl Stuck \<and>
   (case eval_cond_expr t s of Inl e \<Rightarrow> True | Inr (v, r) \<Rightarrow> length r \<le> length s)"
  using eval_cond_expr_unfold [of t s] eval_cond_expr_moves [of t s] eval_cond_expr_length [of t s]
  by (auto split: sum.split)

end
