(* ===== verification/PP_Cond_Spec.thy ===== *)
theory PP_Cond_Spec
  imports PP_Cond_Props
begin

section \<open>Conditions mean what the grammar of C says\<close>

text \<open>
  A reference semantics for conditions: expression trees, their value in \<^verbatim>\<open>long\<close> arithmetic,
  and a printer that puts parentheses only where the precedence and associativity of C
  need them. The evaluator of the code computes the value of the tree from its text.
\<close>

datatype cond_binop =
    OpLor | OpLand | OpOr | OpXor | OpAnd | OpEq | OpNe | OpLt | OpGt | OpLe | OpGe
  | OpShl | OpShr | OpAdd | OpSub | OpMul | OpDiv | OpMod

fun op_text :: "cond_binop \<Rightarrow> string" where
  "op_text OpLor = ''||''" | "op_text OpLand = ''&&''" | "op_text OpOr = ''|''" | "op_text OpXor = ''^''"
| "op_text OpAnd = ''&''" | "op_text OpEq = ''==''" | "op_text OpNe = ''!=''" | "op_text OpLt = ''<''"
| "op_text OpGt = ''>''" | "op_text OpLe = ''<=''" | "op_text OpGe = ''>=''" | "op_text OpShl = ''<<''"
| "op_text OpShr = ''>>''" | "op_text OpAdd = ''+''" | "op_text OpSub = ''-''" | "op_text OpMul = ''*''"
| "op_text OpDiv = ''/''" | "op_text OpMod = ''%''"

text \<open>Precedence levels as in the C grammar; a larger number binds tighter.\<close>

fun op_level :: "cond_binop \<Rightarrow> nat" where
  "op_level OpLor = 1" | "op_level OpLand = 2" | "op_level OpOr = 3" | "op_level OpXor = 4"
| "op_level OpAnd = 5" | "op_level OpEq = 6" | "op_level OpNe = 6" | "op_level OpLt = 7"
| "op_level OpGt = 7" | "op_level OpLe = 7" | "op_level OpGe = 7" | "op_level OpShl = 8"
| "op_level OpShr = 8" | "op_level OpAdd = 9" | "op_level OpSub = 9" | "op_level OpMul = 10"
| "op_level OpDiv = 10" | "op_level OpMod = 10"

fun op_value :: "cond_binop \<Rightarrow> int \<Rightarrow> int \<Rightarrow> pp_error + int" where
  "op_value OpLor a b = Inr (of_bool_long (a \<noteq> 0 \<or> b \<noteq> 0))"
| "op_value OpLand a b = Inr (of_bool_long (a \<noteq> 0 \<and> b \<noteq> 0))"
| "op_value OpOr a b = Inr (a OR b)"
| "op_value OpXor a b = Inr (a XOR b)"
| "op_value OpAnd a b = Inr (a AND b)"
| "op_value OpEq a b = Inr (of_bool_long (a = b))"
| "op_value OpNe a b = Inr (of_bool_long (a \<noteq> b))"
| "op_value OpLt a b = Inr (of_bool_long (a < b))"
| "op_value OpGt a b = Inr (of_bool_long (a > b))"
| "op_value OpLe a b = Inr (of_bool_long (a \<le> b))"
| "op_value OpGe a b = Inr (of_bool_long (a \<ge> b))"
| "op_value OpShl a b = Inr (shl64 a b)"
| "op_value OpShr a b = Inr (sar64 a b)"
| "op_value OpAdd a b = Inr (wrap64 (a + b))"
| "op_value OpSub a b = Inr (wrap64 (a - b))"
| "op_value OpMul a b = Inr (wrap64 (a * b))"
| "op_value OpDiv a b = cond_div a b"
| "op_value OpMod a b = cond_mod a b"

datatype cond_exp =
  Number nat | Defined string | Unary char cond_exp | Binary cond_binop cond_exp cond_exp
| Choice cond_exp cond_exp cond_exp

fun value_of :: "MacroTable \<Rightarrow> cond_exp \<Rightarrow> pp_error + int" where
  "value_of t (Number n) = Inr (wrap64 (int n))"
| "value_of t (Defined x) = Inr (found t x)"
| "value_of t (Unary c e) = map_result (apply_unary c) (value_of t e)"
| "value_of t (Binary b l r) = and_then (value_of t l) (\<lambda>v. and_then (value_of t r) (op_value b v))"
| "value_of t (Choice a b c) =
     and_then (value_of t a) (\<lambda>x. and_then (value_of t b) (\<lambda>y.
       map_result (\<lambda>z. if x \<noteq> 0 then y else z) (value_of t c)))"

definition paren :: "bool \<Rightarrow> string \<Rightarrow> string" where
  "paren p s = (if p then CHR ''('' # s @ '')'' else s)"

fun show_cond :: "nat \<Rightarrow> cond_exp \<Rightarrow> string" where
  "show_cond k (Number n) = show_nat n"
| "show_cond k (Defined x) = ''defined('' @ x @ '')''"
| "show_cond k (Unary c e) = c # show_cond 11 e"
| "show_cond k (Binary b l r) =
     paren (op_level b < k) (show_cond (op_level b) l @ '' '' @ op_text b @ '' '' @ show_cond (Suc (op_level b)) r)"
| "show_cond k (Choice a b c) = paren (0 < k) (show_cond 1 a @ '' ? '' @ show_cond 0 b @ '' : '' @ show_cond 0 c)"

fun cond_ok :: "cond_exp \<Rightarrow> bool" where
  "cond_ok (Number n) = True"
| "cond_ok (Defined x) = list_all ident_char x"
| "cond_ok (Unary c e) = (unary_op c \<and> cond_ok e)"
| "cond_ok (Binary b l r) = (cond_ok l \<and> cond_ok r)"
| "cond_ok (Choice a b c) = (cond_ok a \<and> cond_ok b \<and> cond_ok c)"

fun own_level :: "cond_exp \<Rightarrow> nat" where
  "own_level (Binary b l r) = op_level b"
| "own_level (Choice a b c) = 0"
| "own_level e = 11"

subsection \<open>Levels by number\<close>

definition level_ops :: "nat \<Rightarrow> string \<Rightarrow> (cond_op \<times> string) option" where
  "level_ops k =
     (if k = 1 then lor_ops else if k = 2 then land_ops else if k = 3 then or_ops else if k = 4 then xor_ops
      else if k = 5 then and_ops else if k = 6 then eq_ops else if k = 7 then rel_ops else if k = 8 then shift_ops
      else if k = 9 then add_ops else mult_ops)"

definition level_eval :: "MacroTable \<Rightarrow> nat \<Rightarrow> evaluator" where
  "level_eval t k =
     (let E = eval_cond_expr t in
      if k = 0 then eval_cond_ternary t E else if k = 1 then eval_cond_logical_or t E
      else if k = 2 then eval_cond_logical_and t E else if k = 3 then eval_cond_bitwise_or t E
      else if k = 4 then eval_cond_bitwise_xor t E else if k = 5 then eval_cond_bitwise_and t E
      else if k = 6 then eval_cond_equality t E else if k = 7 then eval_cond_relational t E
      else if k = 8 then eval_cond_shift t E else if k = 9 then eval_cond_additive t E
      else if k = 10 then eval_cond_multiplicative t E else eval_cond_unary t E)"

lemma level_cases: "0 < k \<Longrightarrow> k \<le> 10 \<Longrightarrow> k \<in> {1, 2, 3, 4, 5, 6, 7, 8, 9, 10 :: nat}"
  by simp presburger

lemma level_eval_step:
  assumes "0 < k" and "k \<le> 10"
  shows "level_eval t k = left_assoc (level_ops k) (level_eval t (Suc k))"
  using level_cases [OF assms]
  by (auto simp: level_eval_def level_ops_def Let_def eval_cond_logical_or_def eval_cond_logical_and_def
      eval_cond_bitwise_or_def eval_cond_bitwise_xor_def eval_cond_bitwise_and_def eval_cond_equality_def
      eval_cond_relational_def eval_cond_shift_def eval_cond_additive_def eval_cond_multiplicative_def)

lemma op_level_range: "0 < op_level b" "op_level b \<le> 10"
  by (cases b; simp)+

text \<open>The text behind an expression does not extend it at level \<open>k\<close> or above.\<close>

definition quiet :: "nat \<Rightarrow> string \<Rightarrow> bool" where
  "quiet k r \<longleftrightarrow> \<not> ident_char (c_at r 0) \<and> (\<forall>j. k \<le> j \<and> 0 < j \<and> j \<le> 10 \<longrightarrow> level_ops j (skip_hspace r) = None) \<and>
     (k = 0 \<longrightarrow> c_at (skip_hspace r) 0 \<noteq> CHR ''?'')"

lemma quiet_Suc: "quiet k r \<Longrightarrow> quiet (Suc k) r"
  by (simp add: quiet_def)

lemma quiet_op: "quiet k r \<Longrightarrow> 0 < k \<Longrightarrow> k \<le> 10 \<Longrightarrow> level_ops k (skip_hspace r) = None"
  by (simp add: quiet_def)

lemmas ops_defs = level_ops_def lor_ops_def land_ops_def or_ops_def xor_ops_def and_ops_def eq_ops_def
  rel_ops_def shift_ops_def add_ops_def mult_ops_def

lemma quiet_end: "quiet 0 []" "quiet 0 (CHR '')'' # r)" "quiet 0 ('' : '' @ r)" "quiet 1 ('' ? '' @ r)"
  by (simp_all add: quiet_def skip_hspace_def ops_defs is_blank_def ctypes)

lemma op_text_blank: "\<not> is_blank (hd (op_text b))"
  by (cases b) (simp_all add: is_blank_def)

lemma skip_op: "skip_hspace ('' '' @ op_text b @ r) = op_text b @ r"
  using op_text_blank [of b] by (cases b) (simp_all add: skip_hspace_def is_blank_def)

lemma level_ops_op: "level_ops (op_level b) (op_text b @ '' '' @ r) = Some (op_value b, '' '' @ r)"
  by (cases b) (simp_all add: ops_defs fun_eq_iff)

lemma quiet_op_text: "quiet (Suc (op_level b)) ('' '' @ op_text b @ '' '' @ r)"
  unfolding quiet_def skip_op by (cases b) (auto simp: ops_defs ctypes)

subsection \<open>Reading back what was printed\<close>

lemma unary_op_facts: "unary_op c \<Longrightarrow> \<not> is_blank c"
  by (auto simp: unary_op_def is_blank_def)

lemma show_nat_head: "\<exists>c s. show_nat n = c # s \<and> is_digit c"
  using show_nat_c_at_0 [of n] by (cases "show_nat n") auto

lemma show_cond_head: "cond_ok e \<Longrightarrow> \<exists>c s. show_cond k e = c # s \<and> \<not> is_blank c"
proof (induction k e rule: show_cond.induct)
  case (1 k n)
  then show ?case using show_nat_head [of n] digit_char_facts(1) by (force simp: is_blank_def is_space_def code_def)
next
  case (4 k b l r)
  then show ?case by (auto simp: paren_def is_blank_def)
next
  case (5 k a b c)
  then show ?case by (auto simp: paren_def is_blank_def)
qed (auto simp: is_blank_def unary_op_def)

lemma skip_show_cond: "cond_ok e \<Longrightarrow> skip_hspace (show_cond k e @ r) = show_cond k e @ r"
  using show_cond_head [of e k] by (auto simp: skip_hspace_def)

lemma skip_blank_show_cond: "cond_ok e \<Longrightarrow> skip_hspace ('' '' @ show_cond k e @ r) = show_cond k e @ r"
  using skip_show_cond [of e k r] by (simp add: skip_hspace_def is_blank_def)

lemma skip_skip [simp]: "skip_hspace (skip_hspace r) = skip_hspace r"
  by (simp add: skip_hspace_def)

lemma show_cond_level: "k \<noteq> own_level e \<Longrightarrow> k < 11 \<Longrightarrow> show_cond k e = show_cond (Suc k) e"
  by (cases e) (auto simp: paren_def)

lemma show_cond_paren: "own_level e < 11 \<Longrightarrow> show_cond 11 e = CHR ''('' # show_cond 0 e @ '')''"
  using op_level_range by (cases e) (auto simp: paren_def le_imp_less_Suc)

text \<open>\<open>reads t k e\<close>: the function of level \<open>k\<close> computes the value of \<open>e\<close> from its text.\<close>

definition reads :: "MacroTable \<Rightarrow> nat \<Rightarrow> cond_exp \<Rightarrow> bool" where
  "reads t k e \<longleftrightarrow> (\<forall>r. quiet k r \<longrightarrow>
     level_eval t k (show_cond k e @ r) = map_result (\<lambda>v. (v, if k = 11 then r else skip_hspace r)) (value_of t e))"

text \<open>The same as the left operand of more operators of its level.\<close>

definition reads_left :: "MacroTable \<Rightarrow> nat \<Rightarrow> cond_exp \<Rightarrow> bool" where
  "reads_left t k e \<longleftrightarrow> (\<forall>r. quiet (Suc k) r \<longrightarrow>
     level_eval t k (show_cond k e @ r) =
     and_then (value_of t e) (\<lambda>v. left_assoc_loop (level_ops k) (level_eval t (Suc k)) v r))"

lemma left_assoc_loop_skip:
  "left_assoc_loop ops sub v (skip_hspace r) = left_assoc_loop ops sub v r" if "reads_op ops" "steady sub"
proof (cases "ops (skip_hspace r)")
  case None
  then show ?thesis by (simp add: left_assoc_loop.simps [of ops sub v r] left_assoc_loop.simps [of ops sub v "skip_hspace r"])
next
  case (Some p)
  obtain f q where p: "p = (f, q)" by (cases p)
  have "length u < length (skip_hspace r)" "length u < length r"
    if "sub (skip_hspace q) = Inr (w, u)" for w u
    using steadyD [OF \<open>steady sub\<close> that] reads_opD(1) [OF \<open>reads_op ops\<close> Some [unfolded p]]
      skip_hspace_length [of q] skip_hspace_length [of r] by simp_all
  then show ?thesis
    unfolding left_assoc_loop.simps [of ops sub v r] left_assoc_loop.simps [of ops sub v "skip_hspace r"]
    by (auto simp: Some p intro!: and_then_cong)
qed

lemma level_eval_steady: "steady (level_eval t k)"
proof -
  note E = eval_cond_expr_steady [of t]
  show ?thesis
    using ternary.level_steady [OF E] lor.level_steady [OF E] land.level_steady [OF E] bor.level_steady [OF E]
      bxor.level_steady [OF E] band.level_steady [OF E] eqy.level_steady [OF E] rel.level_steady [OF E]
      shift.level_steady [OF E] add.level_steady [OF E] mul.level_steady [OF E]
      cond_level.level_steady [OF unary_level E]
    by (simp add: level_eval_def Let_def)
qed

lemma level_ops_reads: "reads_op (level_ops k)"
  by (simp add: level_ops_def all_reads_op)

lemma reads_left_step:
  assumes "reads t (Suc k) e" and "k \<noteq> own_level e" and "0 < k" and "k \<le> 10"
  shows "reads_left t k e"
  unfolding reads_left_def
proof (intro allI impI)
  fix r assume q: "quiet (Suc k) r"
  have "show_cond k e = show_cond (Suc k) e" using show_cond_level assms(2,4) by simp
  moreover have "level_eval t (Suc k) (show_cond (Suc k) e @ r) =
      map_result (\<lambda>v. (v, if Suc k = 11 then r else skip_hspace r)) (value_of t e)"
    using assms(1) q by (simp add: reads_def)
  ultimately show "level_eval t k (show_cond k e @ r) =
      and_then (value_of t e) (\<lambda>v. left_assoc_loop (level_ops k) (level_eval t (Suc k)) v r)"
    using left_assoc_loop_skip [OF level_ops_reads level_eval_steady]
    by (cases "value_of t e") (simp_all add: level_eval_step [OF assms(3,4)] left_assoc_def)
qed

lemma left_reads: "reads_left t k e \<Longrightarrow> 0 < k \<Longrightarrow> k \<le> 10 \<Longrightarrow> reads t k e"
  unfolding reads_def reads_left_def
  by (auto simp: quiet_Suc quiet_op left_assoc_loop.simps map_result_def)

lemma reads_choice_step: "reads t 1 e \<Longrightarrow> own_level e \<noteq> 0 \<Longrightarrow> reads t 0 e"
proof -
  assume *: "reads t 1 e" "own_level e \<noteq> 0"
  then have eq: "show_cond 0 e = show_cond 1 e" using show_cond_level [of 0 e] by simp
  show "reads t 0 e" unfolding reads_def
  proof (intro allI impI)
    fix r assume q: "quiet 0 r"
    then have "eval_cond_logical_or t (eval_cond_expr t) (show_cond 1 e @ r) =
        map_result (\<lambda>v. (v, skip_hspace r)) (value_of t e)"
      using *(1) quiet_Suc [OF q] by (simp add: reads_def level_eval_def Let_def)
    then show "level_eval t 0 (show_cond 0 e @ r) = map_result (\<lambda>v. (v, if 0 = (11 :: nat) then r else skip_hspace r)) (value_of t e)"
      using q by (cases "value_of t e") (simp_all add: level_eval_def Let_def eval_cond_ternary_def eq quiet_def)
  qed
qed

lemma eval_cond_unary_op:
  "unary_op c \<Longrightarrow> eval_cond_unary t E (c # s) = map_result (\<lambda>(v, r). (apply_unary c v, r)) (eval_cond_unary t E (skip_hspace s))"
  by (cases "unary_run (skip_hspace s)"; cases "eval_cond_primary t E (snd (unary_run (skip_hspace s)))")
     (auto simp: eval_cond_unary_def unary_run.simps [of "c # s"])

lemma eval_cond_unary_none: "\<not> unary_op (c_at s 0) \<Longrightarrow> eval_cond_unary t E s = eval_cond_primary t E s"
proof -
  assume "\<not> unary_op (c_at s 0)"
  then have "unary_run s = ([], s)" by (cases s) (simp_all add: unary_run.simps)
  then show ?thesis by (cases "eval_cond_primary t E s") (auto simp: eval_cond_unary_def)
qed

lemma wrap64_mod: "wrap64 v mod 2 ^ 64 = v mod 2 ^ 64"
  using take_bit_signed_take_bit [of 64 63 v] by (simp only: wrap64_def take_bit_eq_mod)

lemma wrap64_cong: "a mod 2 ^ 64 = b mod 2 ^ 64 \<Longrightarrow> wrap64 a = wrap64 b"
  by (simp add: wrap64_def signed_take_bit_eq_iff_take_bit_eq take_bit_eq_mod)

lemma mod_linear_cong: "x mod M = y mod M \<Longrightarrow> (x * c + d) mod M = (y * c + d) mod M" for M :: int
  by (metis mod_add_left_eq mod_mult_left_eq)

lemma wrap64_linear: "wrap64 (wrap64 a * c + d) = wrap64 (a * c + d)"
  by (rule wrap64_cong) (rule mod_linear_cong [OF wrap64_mod])

lemma cond_digits_run: "list_all is_digit ds \<Longrightarrow> \<not> is_digit (c_at r 0) \<Longrightarrow>
   cond_digits 10 is_digit (wrap64 (int v)) (ds @ r) = (wrap64 (int (read_digits 10 v ds)), r)"
proof (induction ds arbitrary: v)
  case Nil
  then show ?case by (cases r) auto
next
  case (Cons d ds)
  have "wrap64 (wrap64 (int v) * 10 + int (the (digit_value d))) = wrap64 (int (10 * v + the (digit_value d)))"
    by (simp add: wrap64_linear mult.commute)
  with Cons.IH [of "10 * v + the (digit_value d)"] Cons.prems show ?case by (simp del: of_nat_add of_nat_mult)
qed

lemma cond_number_show:
  assumes "\<not> ident_char (c_at r 0)"
  shows "cond_number (show_nat n @ r) = (wrap64 (int n), r)"
proof -
  have r: "\<not> is_digit (c_at r 0)" "c_at r 0 \<noteq> CHR ''x''" "c_at r 0 \<noteq> CHR ''X''"
    "c_at r 0 \<notin> {CHR ''u'', CHR ''U'', CHR ''l'', CHR ''L''}"
    using assms by (auto simp: ctypes)
  have digits: "list_all is_digit (show_nat n)" using show_nat_digits [of _ n] by (auto simp: list_all_iff)
  have "c_at (show_nat n @ r) 1 \<noteq> CHR ''x'' \<and> c_at (show_nat n @ r) 1 \<noteq> CHR ''X''"
    using digits r show_nat_head [of n] by (cases "tl (show_nat n)") (auto simp: ctypes)
  moreover have "cond_digits 10 is_digit 0 (show_nat n @ r) = (wrap64 (int n), r)"
    using cond_digits_run [OF digits r(1), of 0] by (simp add: wrap64_def)
  ultimately show ?thesis using r(4) by (cases r) (auto simp: cond_number_def)
qed

lemma reads_number: "reads t 11 (Number n)"
proof -
  obtain c s where cs: "show_nat n = c # s" "is_digit c" using show_nat_head by blast
  then have c: "\<not> unary_op c" "\<not> is_blank c" "c \<noteq> CHR ''d''" by (auto simp: unary_op_def ctypes)
  have "eval_cond_unary t E (show_nat n @ r) = Inr (wrap64 (int n), r)" if "\<not> ident_char (c_at r 0)" for r E
    using cond_number_show [OF that, of n] cs c
    by (simp add: eval_cond_unary_none eval_cond_primary_def skip_hspace_def is_word_def Let_def)
  then show ?thesis by (simp add: reads_def level_eval_def Let_def quiet_def)
qed

lemma ident_at_run: "list_all ident_char x \<Longrightarrow> \<not> ident_char c \<Longrightarrow> ident_at (x @ c # r) = x \<and> after_ident (x @ c # r) = c # r"
  by (induction x) (simp_all add: ident_at_def after_ident_def)

lemma reads_defined:
  assumes "list_all ident_char x"
  shows "reads t 11 (Defined x)"
proof -
  have skip: "skip_hspace (x @ CHR '')'' # r) = x @ CHR '')'' # r" for r
    using assms by (cases x) (auto simp: skip_hspace_def ctypes)
  have "cond_defined t (''('' @ x @ '')'' @ r) = Inr (found t x, r)" for r
    using ident_at_run [OF assms, of "CHR '')''" r] skip [of r]
    by (simp add: cond_defined_def skip_hspace_def [of "CHR ''('' # _"] skip_hspace_def [of "CHR '')'' # _"] is_blank_def
        Let_def ctypes)
  then have "eval_cond_unary t E (''defined('' @ x @ '')'' @ r) = Inr (found t x, r)" for r E
    by (simp add: eval_cond_unary_none unary_op_def eval_cond_primary_def skip_hspace_def is_word_def Let_def ctypes)
  then show ?thesis by (simp add: reads_def level_eval_def Let_def)
qed

lemma reads_unary:
  assumes "reads t 11 e" and "unary_op c" and "cond_ok e"
  shows "reads t 11 (Unary c e)"
  unfolding reads_def
proof (intro allI impI)
  fix r assume "quiet 11 r"
  then have "eval_cond_unary t (eval_cond_expr t) (show_cond 11 e @ r) = map_result (\<lambda>v. (v, r)) (value_of t e)"
    using assms(1) by (simp add: reads_def level_eval_def Let_def)
  then show "level_eval t 11 (show_cond 11 (Unary c e) @ r) =
      map_result (\<lambda>v. (v, if 11 = (11 :: nat) then r else skip_hspace r)) (value_of t (Unary c e))"
    using assms(2,3) skip_show_cond [of e 11 r]
    by (cases "value_of t e") (simp_all add: level_eval_def Let_def eval_cond_unary_op)
qed

lemma reads_paren:
  assumes "reads t 0 e" and "own_level e < 11" and "cond_ok e"
  shows "reads t 11 e"
  unfolding reads_def
proof (intro allI impI)
  fix r
  have "eval_cond_expr t (show_cond 0 e @ CHR '')'' # r) = map_result (\<lambda>v. (v, CHR '')'' # r)) (value_of t e)"
    using assms(1) quiet_end(2) [of r]
    by (simp add: reads_def level_eval_def Let_def eval_cond_expr_unfold [of t "_ @ _"] skip_hspace_def is_blank_def)
  then show "level_eval t 11 (show_cond 11 e @ r) =
      map_result (\<lambda>v. (v, if 11 = (11 :: nat) then r else skip_hspace r)) (value_of t e)"
    using skip_show_cond [OF assms(3), of 0 "CHR '')'' # r"]
    by (cases "value_of t e")
       (simp_all add: show_cond_paren [OF assms(2)] level_eval_def eval_cond_unary_none unary_op_def eval_cond_primary_def
          skip_hspace_def [of "CHR ''('' # _"] skip_hspace_def [of "CHR '')'' # _"] is_blank_def is_word_def Let_def ctypes)
qed

lemma reads_left_binary:
  assumes l: "reads_left t (op_level b) l" and r: "reads t (Suc (op_level b)) r" and ok: "cond_ok r"
  shows "reads_left t (op_level b) (Binary b l r)"
  unfolding reads_left_def
proof (intro allI impI)
  let ?k = "op_level b" and ?sub = "level_eval t (Suc (op_level b))"
  let ?loop = "left_assoc_loop (level_ops ?k) ?sub"
  fix u assume q: "quiet (Suc ?k) u"
  let ?tail = "'' '' @ op_text b @ '' '' @ show_cond (Suc ?k) r @ u"
  have sub: "?sub (show_cond (Suc ?k) r @ u) = map_result (\<lambda>v. (v, if Suc ?k = 11 then u else skip_hspace u)) (value_of t r)"
    using r q by (simp add: reads_def)
  have short: "length (if Suc ?k = 11 then u else skip_hspace u) < length ?tail"
    using skip_hspace_length [of u] by auto
  have step: "?loop v ?tail = and_then (value_of t r) (\<lambda>w. and_then (op_value b v w) (\<lambda>v'. ?loop v' u))" for v
  proof -
    have "level_ops ?k (skip_hspace ?tail) = Some (op_value b, '' '' @ show_cond (Suc ?k) r @ u)"
      unfolding skip_op by (rule level_ops_op)
    then have "?loop v ?tail = and_then (?sub (show_cond (Suc ?k) r @ u)) (\<lambda>(rhs, r').
        and_then (op_value b v rhs) (\<lambda>v'. if length r' < length ?tail then ?loop v' r' else Inl Stuck))"
      using skip_blank_show_cond [OF ok] by (subst left_assoc_loop.simps) (simp only: option.case prod.case)
    then show ?thesis
      using short left_assoc_loop_skip [OF level_ops_reads level_eval_steady]
      unfolding sub by (cases "value_of t r") auto
  qed
  have "level_eval t ?k (show_cond ?k (Binary b l r) @ u) = level_eval t ?k (show_cond ?k l @ ?tail)"
    by (simp add: paren_def)
  also have "\<dots> = and_then (value_of t l) (\<lambda>v. ?loop v ?tail)"
    using l quiet_op_text [of b] unfolding reads_left_def by blast
  also have "\<dots> = and_then (value_of t (Binary b l r)) (\<lambda>v. ?loop v u)"
    unfolding step by (cases "value_of t l"; cases "value_of t r") simp_all
  finally show "level_eval t ?k (show_cond ?k (Binary b l r) @ u) = and_then (value_of t (Binary b l r)) (\<lambda>v. ?loop v u)" .
qed

lemma reads_choice:
  assumes "reads t 1 a" and "reads t 0 b" and "reads t 0 c" and ok: "cond_ok b" "cond_ok c"
  shows "reads t 0 (Choice a b c)"
  unfolding reads_def
proof (intro allI impI)
  fix u assume q: "quiet 0 u"
  let ?E = "eval_cond_expr t"
  let ?b = "show_cond 0 b @ '' : '' @ show_cond 0 c @ u"
  have 1: "eval_cond_logical_or t ?E (show_cond 1 a @ '' ? '' @ ?b) = map_result (\<lambda>v. (v, CHR ''?'' # '' '' @ ?b)) (value_of t a)"
    using assms(1) quiet_end(4) [of ?b] by (simp add: reads_def level_eval_def Let_def skip_hspace_def is_blank_def)
  have 2: "?E ?b = map_result (\<lambda>v. (v, CHR '':'' # '' '' @ show_cond 0 c @ u)) (value_of t b)"
    using assms(2) quiet_end(3) [of "show_cond 0 c @ u"]
    by (simp add: reads_def level_eval_def Let_def eval_cond_expr_unfold [of t "_ @ _"] skip_hspace_def is_blank_def)
  have 3: "?E (show_cond 0 c @ u) = map_result (\<lambda>v. (v, skip_hspace u)) (value_of t c)"
    using assms(3) q by (simp add: reads_def level_eval_def Let_def eval_cond_expr_unfold [of t "_ @ _"])
  have skip: "skip_hspace (CHR ''?'' # s) = CHR ''?'' # s" "skip_hspace (CHR '':'' # s) = CHR '':'' # s" for s
    by (simp_all add: skip_hspace_def is_blank_def)
  have "level_eval t 0 (show_cond 0 (Choice a b c) @ u) = eval_cond_ternary t ?E (show_cond 1 a @ '' ? '' @ ?b)"
    by (simp add: level_eval_def Let_def paren_def)
  also have "\<dots> = map_result (\<lambda>v. (v, skip_hspace u)) (value_of t (Choice a b c))"
    using skip_blank_show_cond [OF ok(1), of 0 "'' : '' @ show_cond 0 c @ u"] skip_blank_show_cond [OF ok(2), of 0 u] 2 3
    unfolding eval_cond_ternary_def 1
    by (cases "value_of t a"; cases "value_of t b"; cases "value_of t c") (simp_all add: skip Let_def)
  finally show "level_eval t 0 (show_cond 0 (Choice a b c) @ u) =
      map_result (\<lambda>v. (v, if 0 = (11 :: nat) then u else skip_hspace u)) (value_of t (Choice a b c))" by simp
qed

subsection \<open>All levels\<close>

lemma reads_below:
  assumes "reads t k e" and "k \<le> own_level e" and "k \<le> 11" and "j \<le> k"
  shows "reads t j e"
  using assms(4,1)
proof (rule inc_induct)
  fix n assume n: "j \<le> n" "n < k" "reads t (Suc n) e"
  show "reads t n e"
  proof (cases "n = 0")
    case True
    then show ?thesis using n assms(2) reads_choice_step [of t e] by simp
  next
    case False
    then show ?thesis using n assms(2,3) reads_left_step [of t n e] left_reads [of t n e] by simp
  qed
qed

lemma reads_above:
  assumes "reads t 11 e" and "own_level e < j" and "j \<le> 11"
  shows "reads t j e"
  using assms(3,1)
proof (rule inc_induct)
  fix n assume "j \<le> n" "n < 11" "reads t (Suc n) e"
  then show "reads t n e" using assms(2) reads_left_step [of t n e] left_reads [of t n e] by simp
qed

lemma reads_all:
  assumes own: "reads t (own_level e) e" and ok: "cond_ok e" and j: "j \<le> 11"
  shows "reads t j e"
proof (cases "j \<le> own_level e")
  case True
  have "own_level e \<le> 11" using op_level_range(2) [THEN le_trans] by (cases e) simp_all
  then show ?thesis using reads_below [OF own] True by simp
next
  case False
  then have "own_level e < 11" using j by simp
  moreover have "reads t 0 e" using reads_below [OF own] calculation by simp
  ultimately have "reads t 11 e" using reads_paren ok by blast
  then show ?thesis using reads_above False j by simp
qed

lemma reads_left_all:
  assumes "reads t (Suc k) e" and "k = own_level e \<Longrightarrow> reads_left t k e" and "0 < k" and "k \<le> 10"
  shows "reads_left t k e"
  using assms reads_left_step by blast

lemma all_read: "cond_ok e \<Longrightarrow> (\<forall>j \<le> 11. reads t j e) \<and> (\<forall>k. 0 < k \<and> k \<le> 10 \<longrightarrow> reads_left t k e)"
proof (induction e)
  case (Binary b l r)
  then have sub: "reads_left t (op_level b) l" "reads t (Suc (op_level b)) r" "cond_ok r"
    using op_level_range [of b] by simp_all
  have own: "reads_left t (op_level b) (Binary b l r)" by (rule reads_left_binary [OF sub])
  then have "reads t (op_level b) (Binary b l r)" using left_reads op_level_range by blast
  then have all: "reads t j (Binary b l r)" if "j \<le> 11" for j using reads_all [of t "Binary b l r"] Binary.prems that by simp
  with own show ?case using reads_left_all [of t _ "Binary b l r"] by simp
next
  case (Choice a b c)
  then have "reads t 0 (Choice a b c)" by (intro reads_choice) simp_all
  then have all: "reads t j (Choice a b c)" if "j \<le> 11" for j using reads_all [of t "Choice a b c"] Choice.prems that by simp
  then show ?case using reads_left_all [of t _ "Choice a b c"] by simp
next
  case (Number n)
  have all: "reads t j (Number n)" if "j \<le> 11" for j using reads_all [of t "Number n"] reads_number that by simp
  then show ?case using reads_left_all [of t _ "Number n"] by simp
next
  case (Defined x)
  have all: "reads t j (Defined x)" if "j \<le> 11" for j using reads_all [of t "Defined x"] reads_defined Defined that by simp
  then show ?case using reads_left_all [of t _ "Defined x"] by simp
next
  case (Unary c e)
  then have "reads t 11 (Unary c e)" by (intro reads_unary) simp_all
  then have all: "reads t j (Unary c e)" if "j \<le> 11" for j using reads_all [of t "Unary c e"] Unary.prems that by simp
  then show ?case using reads_left_all [of t _ "Unary c e"] by simp
qed

text \<open>
  (C13) The evaluator of \<^verbatim>\<open>#if\<close> conditions respects the precedence and associativity of C: from
  the text of an expression, printed with no more parentheses than the grammar requires, it
  computes the value of the expression in 64-bit arithmetic and stops at its end, or stops with
  the error of the first failing operation.
\<close>

theorem eval_cond_expr_value:
  assumes "cond_ok e"
  shows "eval_cond_expr t (show_cond 0 e) = map_result (\<lambda>v. (v, [])) (value_of t e)"
proof -
  have "reads t 0 e" using all_read [OF assms] by simp
  then show ?thesis
    using quiet_end(1) eval_cond_expr_unfold [of t "show_cond 0 e"]
    by (auto simp: reads_def level_eval_def Let_def skip_hspace_def dest: spec [of _ "[]"])
qed

definition sample_cond :: cond_exp where
  "sample_cond = Choice (Binary OpSub (Binary OpSub (Number 7) (Number 2)) (Unary CHR ''-'' (Number 3)))
     (Binary OpMul (Binary OpAdd (Number 1) (Number 2)) (Number 3)) (Number 0)"

theorem eval_cond_expr_value_witness:
  "eval_cond_expr macro_table_init (show_cond 0 sample_cond) = map_result (\<lambda>v. (v, [])) (value_of macro_table_init sample_cond)"
  by (rule eval_cond_expr_value) (simp add: sample_cond_def unary_op_def)

end
