(* ===== verification/Preprocessor.thy ===== *)
theory Preprocessor
  imports PP_Cond
begin

section \<open>The preprocessor: \<^verbatim>\<open>preprocess_internal\<close> of \<^verbatim>\<open>src/preprocessor.c\<close>\<close>

text \<open>
  \<^verbatim>\<open>preprocess_internal\<close> is a loop over the characters of the spliced source with one branch
  per construct. Its local variables, the macro table and the two globals of the expander form
  \<open>pp_state\<close>; a branch is a function from the state at the head of the loop to the state at the
  next round, or to the message with which the process ends. The stack of conditionals is a
  list with the innermost frame first. The nested run for an included file is a parameter of
  the branches, tied to \<open>preprocess_internal\<close> at the end. What the program runs in is a
  parameter: the files, the size of the C stack for nested expansions, the date and the time.
\<close>

definition MAX_INCLUDE_DEPTH :: nat where "MAX_INCLUDE_DEPTH = 64"
definition MAX_COND_DEPTH :: nat where "MAX_COND_DEPTH = 64"

record CondFrame =
  cf_emitting :: bool
  parent_emitting :: bool
  seen_else :: bool
  branch_taken :: bool

record pp_state =
  input :: string
  out :: string
  cond_stack :: "CondFrame list"
  emitting :: bool
  line_has_content :: bool
  current_line :: int
  current_file_override :: "string option"
  macros :: MacroTable
  gctx :: expand_context

record pp_env =
  env_files :: files
  env_dirs :: "string list"
  env_path :: "string option"
  env_stack :: nat

type_synonym pp_step_result = "pp_error + pp_state"
type_synonym include_run = "string \<Rightarrow> MacroTable \<Rightarrow> expand_context \<Rightarrow> pp_error + string \<times> MacroTable \<times> expand_context"

definition put :: "string \<Rightarrow> pp_state \<Rightarrow> pp_state" where
  "put s st = st\<lparr>out := out st @ s\<rparr>"

definition emit :: "string \<Rightarrow> pp_state \<Rightarrow> pp_state" where
  "emit s st = (if emitting st then put s st else st)"

subsection \<open>Conditionals\<close>

definition push_cond :: "pp_state \<Rightarrow> bool \<Rightarrow> pp_state" where
  "push_cond st c =
     st\<lparr>cond_stack := \<lparr>cf_emitting = (emitting st \<and> c), parent_emitting = emitting st, seen_else = False,
                       branch_taken = (emitting st \<and> c)\<rparr> # cond_stack st,
        emitting := (emitting st \<and> c)\<rparr>"

definition too_deep :: "pp_state \<Rightarrow> bool" where
  "too_deep st \<longleftrightarrow> length (cond_stack st) \<ge> MAX_COND_DEPTH"

definition deep_message :: pp_error where
  "deep_message = Message ''conditional nesting too deep''"

definition dir_ifdef :: "pp_state \<Rightarrow> string \<Rightarrow> pp_step_result" where
  "dir_ifdef st s =
     (let s1 = skip_hspace (drop 5 s);
          is_defined = (macro_find (macros st) (ident_at s1) \<noteq> None)
      in if too_deep st then Inl deep_message
         else Inr (push_cond (st\<lparr>input := skip_directive_tail (after_ident s1)\<rparr>) is_defined))"

definition dir_ifndef :: "pp_state \<Rightarrow> string \<Rightarrow> pp_step_result" where
  "dir_ifndef st s =
     (let s1 = skip_hspace (drop 6 s);
          is_defined = (macro_find (macros st) (ident_at s1) \<noteq> None)
      in if too_deep st then Inl deep_message
         else Inr (push_cond (st\<lparr>input := skip_directive_tail (after_ident s1)\<rparr>) (\<not> is_defined)))"

text \<open>The text of a condition: comments stripped, macros expanded, evaluated, nothing behind it.\<close>

definition eval_condition :: "pp_env \<Rightarrow> pp_state \<Rightarrow> string \<Rightarrow> string \<Rightarrow> pp_error + bool" where
  "eval_condition env st what cond_text =
     and_then (expand_macros_text (env_stack env) (gctx st) (macros st) (strip_cond_comments cond_text)) (\<lambda>expanded.
     and_then (eval_cond_expr (macros st) (skip_hspace expanded)) (\<lambda>(v, r).
       if skip_hspace r \<noteq> [] then Inl (Message (''extra tokens after '' @ what @ '' expression''))
       else Inr (v \<noteq> 0)))"

definition dir_if :: "pp_env \<Rightarrow> pp_state \<Rightarrow> string \<Rightarrow> pp_step_result" where
  "dir_if env st s =
     (let s1 = drop 2 s; s2 = skip_hspace s1; r = skip_directive_tail s2
      in if too_deep st then Inl deep_message
         else if emitting st then
           map_result (\<lambda>c. push_cond (st\<lparr>input := skip_directive_tail r\<rparr>) c)
             (eval_condition env st ''#if'' (between s2 r))
         else Inr (push_cond (st\<lparr>input := skip_directive_tail s1\<rparr>) False))"

definition elif_update :: "CondFrame \<Rightarrow> bool \<Rightarrow> CondFrame" where
  "elif_update frm c =
     (if parent_emitting frm then
        (if \<not> branch_taken frm \<and> c then frm\<lparr>cf_emitting := True, branch_taken := True\<rparr>
         else frm\<lparr>cf_emitting := False\<rparr>)
      else frm)"

definition set_top :: "pp_state \<Rightarrow> CondFrame \<Rightarrow> CondFrame list \<Rightarrow> pp_state" where
  "set_top st frm rest = st\<lparr>cond_stack := frm # rest, emitting := cf_emitting frm\<rparr>"

text \<open>\<^verbatim>\<open>#elifdef\<close> and \<^verbatim>\<open>#elifndef\<close>: the name is looked at only if no branch was taken.\<close>

definition dir_elifdef :: "pp_state \<Rightarrow> string \<Rightarrow> pp_step_result" where
  "dir_elifdef st s =
     (case cond_stack st of
        [] \<Rightarrow> Inl (Message ''#elifdef without conditional'')
      | frm # rest \<Rightarrow>
          if seen_else frm then Inl (Message ''#elifdef after #else'')
          else (let s1 = drop 7 s; s2 = skip_hspace s1
                in if parent_emitting frm \<and> \<not> branch_taken frm then
                     Inr (set_top (st\<lparr>input := skip_directive_tail (after_ident s2)\<rparr>)
                            (elif_update frm (macro_find (macros st) (ident_at s2) \<noteq> None)) rest)
                   else Inr (set_top (st\<lparr>input := skip_directive_tail s1\<rparr>) (elif_update frm False) rest)))"

definition dir_elifndef :: "pp_state \<Rightarrow> string \<Rightarrow> pp_step_result" where
  "dir_elifndef st s =
     (case cond_stack st of
        [] \<Rightarrow> Inl (Message ''#elifndef without conditional'')
      | frm # rest \<Rightarrow>
          if seen_else frm then Inl (Message ''#elifndef after #else'')
          else (let s1 = drop 8 s; s2 = skip_hspace s1
                in if parent_emitting frm \<and> \<not> branch_taken frm then
                     Inr (set_top (st\<lparr>input := skip_directive_tail (after_ident s2)\<rparr>)
                            (elif_update frm (macro_find (macros st) (ident_at s2) = None)) rest)
                   else Inr (set_top (st\<lparr>input := skip_directive_tail s1\<rparr>) (elif_update frm False) rest)))"

definition dir_elif :: "pp_env \<Rightarrow> pp_state \<Rightarrow> string \<Rightarrow> pp_step_result" where
  "dir_elif env st s =
     (case cond_stack st of
        [] \<Rightarrow> Inl (Message ''#elif without conditional'')
      | frm # rest \<Rightarrow>
          if seen_else frm then Inl (Message ''#elif after else'')
          else (let s1 = drop 4 s; s2 = skip_hspace s1; r = skip_directive_tail s2
                in if parent_emitting frm \<and> \<not> branch_taken frm then
                     map_result (\<lambda>c. set_top (st\<lparr>input := skip_directive_tail r\<rparr>) (elif_update frm c) rest)
                       (eval_condition env st ''#elif'' (between s2 r))
                   else Inr (set_top (st\<lparr>input := skip_directive_tail s1\<rparr>) (elif_update frm False) rest)))"

definition else_update :: "CondFrame \<Rightarrow> CondFrame" where
  "else_update frm =
     (let frm = frm\<lparr>seen_else := True\<rparr>
      in if parent_emitting frm then frm\<lparr>cf_emitting := \<not> branch_taken frm\<rparr> else frm)"

definition dir_else :: "pp_state \<Rightarrow> string \<Rightarrow> pp_step_result" where
  "dir_else st s =
     (case cond_stack st of
        [] \<Rightarrow> Inl (Message ''#else without conditional'')
      | frm # rest \<Rightarrow>
          if seen_else frm then Inl (Message ''duplicate else in conditional'')
          else Inr (set_top (st\<lparr>input := skip_directive_tail (drop 4 s)\<rparr>) (else_update frm) rest))"

definition dir_endif :: "pp_state \<Rightarrow> string \<Rightarrow> pp_step_result" where
  "dir_endif st s =
     (case cond_stack st of
        [] \<Rightarrow> Inl (Message ''#endif without conditional'')
      | frm # rest \<Rightarrow>
          Inr (st\<lparr>input := skip_directive_tail (drop 5 s), cond_stack := rest,
                  emitting := (case rest of [] \<Rightarrow> True | f # _ \<Rightarrow> cf_emitting f)\<rparr>))"

subsection \<open>Includes\<close>

text \<open>A location marker; \<^verbatim>\<open>snprintf\<close> into 512 bytes, dropped if it does not fit.\<close>

definition loc_marker :: "int \<Rightarrow> string \<Rightarrow> string" where
  "loc_marker l path =
     (let m = [SOH] @ show_int l @ '':'' @ path @ [LF] in if length m < 512 then m else [])"

definition c_path :: "string option \<Rightarrow> string" where
  "c_path p = (case p of None \<Rightarrow> [] | Some f \<Rightarrow> f)"

text \<open>Run the included file and insert its output between the two markers.\<close>

definition splice_include :: "include_run \<Rightarrow> pp_env \<Rightarrow> string \<Rightarrow> pp_state \<Rightarrow> pp_step_result" where
  "splice_include inc env path st =
     map_result (\<lambda>(included, ms, g).
       put (loc_marker 1 path @ included @ loc_marker (current_line st) (c_path (env_path env)))
         (st\<lparr>macros := ms, gctx := g\<rparr>)) (inc path (macros st) (gctx st))"

definition dir_include :: "include_run \<Rightarrow> pp_env \<Rightarrow> pp_state \<Rightarrow> string \<Rightarrow> pp_step_result" where
  "dir_include inc env st s =
     (let s1 = skip_hspace (drop 7 s);
          is_angle = (c_at s1 0 = CHR ''<'');
          close_delim = (if is_angle then CHR ''>'' else DQUOTE);
          s2 = drop 1 s1;
          fname = takeWhile (\<lambda>c. c \<noteq> close_delim \<and> c \<noteq> LF) s2;
          s3 = drop (length fname) s2
      in if c_at s1 0 \<noteq> DQUOTE \<and> c_at s1 0 \<noteq> CHR ''<'' then
           Inl (Message (''expected '' @ [QUOTE, DQUOTE, QUOTE] @ '' or '' @ [QUOTE] @ ''<'' @ [QUOTE] @ '' after #include''))
         else if c_at s3 0 \<noteq> close_delim then Inl (Message ''unterminated filename in #include'')
         else
           (case (if is_angle then resolve_angle_include_path (env_files env) fname (env_dirs env)
                  else resolve_include_path (env_files env) fname (env_path env) (env_dirs env)) of
              None \<Rightarrow>
                Inl (Message (''include file not found: '' @
                  (if is_angle then ''<'' @ take 255 fname @ ''>'' else [DQUOTE] @ take 255 fname @ [DQUOTE])))
            | Some path \<Rightarrow> splice_include inc env path (st\<lparr>input := skip_directive_tail (drop 1 s3)\<rparr>)))"

definition dir_include_next :: "include_run \<Rightarrow> pp_env \<Rightarrow> pp_state \<Rightarrow> string \<Rightarrow> pp_step_result" where
  "dir_include_next inc env st s =
     (let s1 = skip_hspace (drop 12 s);
          close_delim = (if c_at s1 0 = CHR ''<'' then CHR ''>'' else DQUOTE);
          s2 = drop 1 s1;
          fname = takeWhile (\<lambda>c. c \<noteq> close_delim \<and> c \<noteq> LF) s2;
          s3 = drop (length fname) s2
      in if c_at s1 0 \<noteq> CHR ''<'' \<and> c_at s1 0 \<noteq> DQUOTE then
           Inl (Message (''expected '' @ [QUOTE] @ ''<'' @ [QUOTE] @ '' or '' @ [QUOTE, DQUOTE, QUOTE] @ '' after #include_next''))
         else if c_at s3 0 \<noteq> close_delim then Inl (Message ''unterminated filename in #include_next'')
         else
           (case resolve_include_next_path (env_files env) fname (env_path env) (env_dirs env) of
              None \<Rightarrow> Inl (Message (''include_next file not found: <'' @ take 255 fname @ ''>''))
            | Some path \<Rightarrow> splice_include inc env path (st\<lparr>input := skip_directive_tail (drop 1 s3)\<rparr>)))"

subsection \<open>Definitions\<close>

definition ellipsis_end :: "string list \<Rightarrow> string \<Rightarrow> pp_error + string list \<times> bool \<times> string" where
  "ellipsis_end ps s =
     (let r = skip_hspace (drop 3 s)
      in if c_at r 0 \<noteq> CHR '')'' then
           Inl (Message (''expected '' @ [QUOTE] @ '')'' @ [QUOTE] @ '' after '' @ [QUOTE] @ ''...'' @ [QUOTE] @
             '' in macro parameter list''))
         else Inr (ps, True, drop 1 r))"

text \<open>The loop over the parameter names.\<close>

function param_names :: "string list \<Rightarrow> string \<Rightarrow> pp_error + string list \<times> bool \<times> string" where
  "param_names ps s =
     (if \<not> ident_start (c_at s 0) then Inl (Message ''expected parameter name in macro definition'')
      else (let ps1 = ps @ [ident_at s]; r = skip_hspace (after_ident s)
            in if c_at r 0 = CHR '')'' then Inr (ps1, False, drop 1 r)
               else if c_at r 0 = CHR '','' then
                 (let r1 = skip_hspace (drop 1 r)
                  in if starts_with ''...'' r1 then ellipsis_end ps1 r1 else param_names ps1 r1)
               else Inl (Message (''expected '' @ [QUOTE] @ '','' @ [QUOTE] @ '' or '' @ [QUOTE] @ '')'' @ [QUOTE] @
                      '' in macro parameter list''))))"
  by pat_completeness auto
termination
proof (relation "measure (\<lambda>(_, s). length s)", goal_cases)
  case (2 ps s ps1 r r1)
  have "length r1 \<le> length r" using 2 skip_hspace_length [of "drop 1 r"] by simp
  also have "length r \<le> length (after_ident s)" using 2 skip_hspace_length by simp
  also have "\<dots> < length s" using 2 by (intro after_ident_less) (simp add: ident_start_char)
  finally show ?case by simp
qed simp

declare param_names.simps [simp del]

text \<open>Behind the opening parenthesis of a function-like macro.\<close>

definition param_list :: "string \<Rightarrow> pp_error + string list \<times> bool \<times> string" where
  "param_list s =
     (let r = skip_hspace s
      in if c_at r 0 = CHR '')'' then Inr ([], False, drop 1 r)
         else if starts_with ''...'' r then ellipsis_end [] r
         else param_names [] r)"

text \<open>Validation of \<^verbatim>\<open>#\<close> and \<^verbatim>\<open>##\<close>: \<open>n\<close> is the length of the whole replacement text.\<close>

fun skip_literal :: "char \<Rightarrow> string \<Rightarrow> string" where
  "skip_literal q [] = []"
| "skip_literal q (c # s) =
     (if c = q \<or> c = LF then s
      else if c = BACKSLASH then (case s of [] \<Rightarrow> [] | d # u \<Rightarrow> skip_literal q u)
      else skip_literal q s)"

lemma skip_literal_length: "length (skip_literal q s) \<le> length s"
proof (induction q s rule: skip_literal.induct)
  case (2 q c s)
  show ?case
  proof (cases "c = BACKSLASH \<and> c \<noteq> q")
    case True
    then show ?thesis using 2(1) by (cases s) (simp_all add: le_SucI)
  next
    case False
    then show ?thesis using 2(2) by (auto simp: le_SucI)
  qed
qed simp

function check_hashes :: "string list \<Rightarrow> int \<Rightarrow> bool \<Rightarrow> nat \<Rightarrow> string \<Rightarrow> pp_error option" where
  "check_hashes ps pcount variadic n s =
     (case s of [] \<Rightarrow> None
      | c # u \<Rightarrow>
          if c = DQUOTE \<or> c = QUOTE then check_hashes ps pcount variadic n (skip_literal c u)
          else if c = CHR ''/'' \<and> c_at u 0 = CHR ''*'' then
            check_hashes ps pcount variadic n (comment_tail (drop 1 u))
          else if c = CHR ''#'' \<and> c_at u 0 = CHR ''#'' then
            (if pcount = - 1 then
               Some (Message ([QUOTE] @ ''##'' @ [QUOTE] @ '' in object-like macro is not permitted''))
             else if length s = n then Some (Message ''hash hash at start of replacement list is not permitted'')
             else if skip_hspace (drop 1 u) = [] then
               Some (Message ''hash hash at end of replacement list is not permitted'')
             else check_hashes ps pcount variadic n (drop 1 u))
          else if c = CHR ''#'' then
            (let r = skip_hspace u; name = ident_at r
             in if pcount = - 1 then Some (Message ''hash in object like macro is not permitted'')
                else if \<not> ident_start (c_at r 0) then Some (Message ''bare hash in replacement list'')
                else if name \<in> set ps \<or> variadic \<and> name = ''__VA_ARGS__'' then
                  check_hashes ps pcount variadic n u
                else Some (Message (''hash not followed by param '' @ [QUOTE] @ name @ [QUOTE])))
          else check_hashes ps pcount variadic n u)"
  by pat_completeness auto
termination
proof (relation "measure (\<lambda>(_, _, _, _, s). length s)", goal_cases)
  case (2 ps pcount variadic n s c u)
  then show ?case by (simp add: le_imp_less_Suc skip_literal_length)
next
  case (3 ps pcount variadic n s c u)
  then show ?case using comment_tail_length [of "drop 1 u"] by simp
qed simp_all

declare check_hashes.simps [simp del]

text \<open>The name and the parameter list: name, parameters, their number, variadic, rest.\<close>

definition define_head :: "string \<Rightarrow> pp_error + string \<times> string list \<times> int \<times> bool \<times> string" where
  "define_head s =
     (if \<not> ident_start (c_at s 0) then Inl (Message ''expected macro name after #define'')
      else (let name = ident_at s; r = after_ident s
            in if c_at r 0 = CHR ''('' then
                 map_result (\<lambda>(ps, variadic, r1). (name, ps, int (length ps), variadic, r1)) (param_list (drop 1 r))
               else Inr (name, [], - 1, False, r)))"

definition dir_define :: "pp_state \<Rightarrow> string \<Rightarrow> pp_step_result" where
  "dir_define st s =
     and_then (define_head (skip_hspace (drop 6 s))) (\<lambda>(name, ps, pcount, variadic, s1).
       let s2 = skip_hspace s1;
           r = skip_directive_tail s2;
           repl = trim_trailing is_blank (between s2 r)
       in case check_hashes ps pcount variadic (length repl) repl of
            Some e \<Rightarrow> Inl e
          | None \<Rightarrow>
              map_result (\<lambda>ms. st\<lparr>input := r, macros := ms\<rparr>)
                (macro_define (macros st) name ps pcount variadic (strip_block_comments repl)))"

definition dir_undef :: "pp_state \<Rightarrow> string \<Rightarrow> pp_step_result" where
  "dir_undef st s =
     (let s1 = skip_hspace (drop 5 s); name = ident_at s1
      in Inr (st\<lparr>input := skip_directive_tail (after_ident s1),
                 macros := (if name \<noteq> [] then macro_undef (macros st) name else macros st)\<rparr>))"

definition dir_error :: "pp_state \<Rightarrow> string \<Rightarrow> pp_step_result" where
  "dir_error st s =
     (let s1 = skip_hspace (drop 5 s)
      in Inl (Message (''#error '' @ trim_trailing is_blank (between s1 (skip_directive_tail s1)))))"

subsection \<open>The other directives\<close>

fun line_file :: "string \<Rightarrow> string \<times> string" where
  "line_file [] = ([], [])"
| "line_file (c # s) =
     (if c = DQUOTE then ([], s)
      else if c = LF then ([], c # s)
      else if c = BACKSLASH then
        (case s of [] \<Rightarrow> ([c], [])
         | d # u \<Rightarrow> (d # fst (line_file u), snd (line_file u)))
      else (c # fst (line_file s), snd (line_file s)))"

definition dir_line :: "pp_state \<Rightarrow> string \<Rightarrow> pp_step_result" where
  "dir_line st s =
     (let s1 = skip_hspace (drop 4 s)
      in if \<not> is_digit (c_at s1 0) then Inl (Message ''#line requires a positive integer'')
         else
           (let (new_line, r) = cond_digits 10 is_digit 0 s1;
                st1 = st\<lparr>current_line := wrap32 (wrap64 (new_line - 1))\<rparr>;
                r1 = skip_hspace r
            in if c_at r1 0 = DQUOTE then
                 Inr (st1\<lparr>current_file_override := Some (fst (line_file (drop 1 r1))),
                          input := skip_directive_tail (snd (line_file (drop 1 r1)))\<rparr>)
               else Inr (st1\<lparr>input := skip_directive_tail r1\<rparr>)))"

definition pragma_once :: "pp_env \<Rightarrow> pp_state \<Rightarrow> pp_state" where
  "pragma_once env st =
     (case env_path env of None \<Rightarrow> st | Some p \<Rightarrow> st\<lparr>macros := macro_table_add_once (macros st) p\<rparr>)"

definition dir_pragma :: "pp_env \<Rightarrow> pp_state \<Rightarrow> string \<Rightarrow> pp_step_result" where
  "dir_pragma env st s =
     (let s1 = skip_hspace (drop 6 s);
          st1 = st\<lparr>input := skip_directive_tail s1\<rparr>
      in if starts_with ''once'' s1 \<and> (c_at s1 4 = LF \<or> c_at s1 4 = NUL \<or> is_blank (c_at s1 4))
         then Inr (pragma_once env st1) else Inr st1)"

text \<open>All directives in the order of the code; \<open>s\<close> is the text behind \<^verbatim>\<open>#\<close> and blanks.\<close>

definition directive :: "include_run \<Rightarrow> pp_env \<Rightarrow> pp_state \<Rightarrow> string \<Rightarrow> pp_step_result" where
  "directive inc env st s =
     (if is_word ''ifdef'' s then dir_ifdef st s
      else if is_word ''ifndef'' s then dir_ifndef st s
      else if is_word ''if'' s then dir_if env st s
      else if is_word ''elifdef'' s then dir_elifdef st s
      else if is_word ''elifndef'' s then dir_elifndef st s
      else if is_word ''elif'' s then dir_elif env st s
      else if is_word ''else'' s then dir_else st s
      else if is_word ''endif'' s then dir_endif st s
      else if \<not> emitting st then Inr (st\<lparr>input := skip_directive_tail s\<rparr>)
      else if is_word ''include'' s then dir_include inc env st s
      else if is_word ''include_next'' s then dir_include_next inc env st s
      else if is_word ''define'' s then dir_define st s
      else if is_word ''undef'' s then dir_undef st s
      else if is_word ''error'' s then dir_error st s
      else if is_word ''line'' s then dir_line st s
      else if is_word ''pragma'' s then dir_pragma env st s
      else if c_at s 0 = LF \<or> s = [] then Inr (st\<lparr>input := s\<rparr>)
      else Inl (Message ''unsupported preprocessor directive''))"

subsection \<open>Identifiers\<close>

definition current_file :: "pp_env \<Rightarrow> pp_state \<Rightarrow> string option" where
  "current_file env st =
     (case current_file_override st of Some f \<Rightarrow> Some f | None \<Rightarrow> env_path env)"

definition expand_here :: "pp_env \<Rightarrow> pp_state \<Rightarrow> expand_context" where
  "expand_here env st = \<lparr>g_expand_source_path = current_file env st, g_expand_current_line = current_line st\<rparr>"

fun pragma_string :: "string \<Rightarrow> string \<times> string" where
  "pragma_string [] = ([], [])"
| "pragma_string (c # s) =
     (if c = DQUOTE then ([], s)
      else if c = LF then ([], c # s)
      else if c = BACKSLASH then
        (case s of [] \<Rightarrow> ([c], [])
         | d # u \<Rightarrow> if d = DQUOTE \<or> d = BACKSLASH then (d # fst (pragma_string u), snd (pragma_string u))
                    else (c # fst (pragma_string s), snd (pragma_string s)))
      else (c # fst (pragma_string s), snd (pragma_string s)))"

definition ident_pragma :: "pp_env \<Rightarrow> pp_state \<Rightarrow> string \<Rightarrow> pp_step_result" where
  "ident_pragma env st r =
     (let p = skip_hspace r; p1 = skip_hspace (drop 1 p)
      in if c_at p 0 \<noteq> CHR ''('' then Inl (Message (''expected '' @ [QUOTE] @ ''('' @ [QUOTE] @ '' after _Pragma''))
         else if c_at p1 0 \<noteq> DQUOTE then Inl (Message ''_Pragma argument must be a string literal'')
         else
           (let (body, r1) = pragma_string (drop 1 p1); r2 = skip_hspace r1
            in if c_at r2 0 \<noteq> CHR '')'' then
                 Inl (Message (''expected '' @ [QUOTE] @ '')'' @ [QUOTE] @ '' after _Pragma string''))
               else if body = ''once'' then Inr (pragma_once env (st\<lparr>input := drop 1 r2\<rparr>))
               else Inr (st\<lparr>input := drop 1 r2\<rparr>)))"

text \<open>An identifier that may name a macro; \<open>r\<close> is the text behind it.\<close>

definition ident_macro :: "pp_env \<Rightarrow> pp_state \<Rightarrow> string \<Rightarrow> string \<Rightarrow> pp_step_result" where
  "ident_macro env st name r =
     (let g = expand_here env st; expand = expand_macros_text (env_stack env) g
      in case macro_find (macros st) name of
           None \<Rightarrow> Inr (put name (st\<lparr>input := r\<rparr>))
         | Some m \<Rightarrow>
             if param_count m = - 1 \<and> \<not> disabled m then
               map_result (\<lambda>x. put x (st\<lparr>input := r, gctx := g\<rparr>))
                 (expand (set_disabled (macros st) name) (replacement m))
             else if param_count m \<ge> 0 then
               (let p = skip_hspace r
                in if c_at p 0 = CHR ''('' then
                     (let (args, r1) = collect_args (drop 1 p)
                      in map_result (\<lambda>x. put x (st\<lparr>input := r1, gctx := g\<rparr>))
                           (call_macro (expand (macros st)) m name args))
                   else Inr (put name (st\<lparr>input := r\<rparr>)))
             else Inr (put name (st\<lparr>input := r\<rparr>)))"

definition identifier_step :: "pp_env \<Rightarrow> pp_state \<Rightarrow> pp_step_result" where
  "identifier_step env st =
     (let name = ident_at (input st); r = after_ident (input st)
      in map_result (\<lambda>st. st\<lparr>line_has_content := True\<rparr>)
           (if \<not> emitting st then Inr (st\<lparr>input := r\<rparr>)
            else if name = ''__FILE__'' then Inr (put (quoted_path (current_file env st)) (st\<lparr>input := r\<rparr>))
            else if name = ''__LINE__'' then Inr (put (show_int (current_line st)) (st\<lparr>input := r\<rparr>))
            else if name = ''_Pragma'' then ident_pragma env st r
            else ident_macro env st name r))"

subsection \<open>The loop\<close>

text \<open>A block comment: how many lines it spans, and the text behind it if it ends.\<close>

fun block_comment :: "string \<Rightarrow> (nat \<times> string) option" where
  "block_comment [] = None"
| "block_comment (c # s) =
     (if c = CHR ''*'' \<and> c_at s 0 = CHR ''/'' then Some (0, drop 1 s)
      else map_option (\<lambda>(n, r). (if c = LF then Suc n else n, r)) (block_comment s))"

definition comment_step :: "pp_state \<Rightarrow> pp_step_result" where
  "comment_step st =
     (case block_comment (drop 2 (input st)) of
        None \<Rightarrow> Inl (Message ''unterminated block comment'')
      | Some (n, r) \<Rightarrow>
          Inr (emit '' '' (put (replicate n LF)
            (st\<lparr>input := r, current_line := wrap32 (current_line st + int n)\<rparr>))))"

definition newline_step :: "pp_state \<Rightarrow> pp_state" where
  "newline_step st =
     put [LF] (st\<lparr>input := drop 1 (input st), current_line := wrap32 (current_line st + 1), line_has_content := False\<rparr>)"

text \<open>One round of the loop, on input that is not at its end.\<close>

definition pp_step :: "include_run \<Rightarrow> pp_env \<Rightarrow> pp_state \<Rightarrow> pp_step_result" where
  "pp_step inc env st =
     (let s = input st; c = c_at s 0; u = drop 1 s
      in if c = LF then Inr (newline_step st)
         else if is_space c then Inr (emit [c] (st\<lparr>input := u\<rparr>))
         else if c = CHR ''/'' \<and> c_at s 1 = CHR ''/'' then Inr (st\<lparr>input := skip_directive_tail s\<rparr>)
         else if c = CHR ''/'' \<and> c_at s 1 = CHR ''*'' then comment_step st
         else if c = CHR ''#'' \<and> \<not> line_has_content st then directive inc env st (skip_hspace u)
         else if c = DQUOTE \<or> c = QUOTE then
           Inr (emit (c # fst (literal_tail c u)) (st\<lparr>input := snd (literal_tail c u), line_has_content := True\<rparr>))
         else if ident_start c then identifier_step env st
         else Inr (emit [c] (st\<lparr>input := u, line_has_content := True\<rparr>)))"

lemmas len_facts = skip_hspace_length after_ident_length skip_directive_tail_length literal_tail_length

lemma tail_le: "length s \<le> n \<Longrightarrow> length (skip_directive_tail s) \<le> n"
  by (rule le_trans [OF skip_directive_tail_length])

lemma hspace_le: "length s \<le> n \<Longrightarrow> length (skip_hspace s) \<le> n"
  by (rule le_trans [OF skip_hspace_length])

lemma ident_le: "length s \<le> n \<Longrightarrow> length (after_ident s) \<le> n"
  by (rule le_trans [OF after_ident_length])

lemma drop_le: "length s \<le> n \<Longrightarrow> length (drop k s) \<le> n"
  by simp

lemmas le_intros = tail_le hspace_le ident_le drop_le order_refl

lemma put_input [simp]: "input (put s st) = input st" "input (emit s st) = input st"
  by (simp_all add: put_def emit_def)

lemma push_cond_input [simp]: "input (push_cond st c) = input st" "input (set_top st f fs) = input st"
  by (simp_all add: push_cond_def set_top_def)

lemma pragma_once_input [simp]: "input (pragma_once env st) = input st"
  by (simp add: pragma_once_def split: option.split)

lemma splice_include_input: "splice_include inc env p st = Inr st' \<Longrightarrow> input st' = input st"
  by (auto simp: splice_include_def map_result_eq_Inr)

lemma ellipsis_end_length: "ellipsis_end ps s = Inr (qs, v, r) \<Longrightarrow> length r \<le> length s"
  by (auto simp: ellipsis_end_def Let_def split: if_split_asm intro!: le_intros intro: le_trans [OF diff_le_self])

lemma param_names_length: "param_names ps s = Inr (qs, v, r) \<Longrightarrow> length r \<le> length s"
proof (induction ps s arbitrary: qs v r rule: param_names.induct)
  case (1 ps s)
  let ?r = "skip_hspace (after_ident s)" and ?r1 = "skip_hspace (drop 1 (skip_hspace (after_ident s)))"
  have len: "length ?r \<le> length s" "length ?r1 \<le> length s" by (intro le_intros)+
  consider "r = drop 1 ?r" | "ellipsis_end (ps @ [ident_at s]) ?r1 = Inr (qs, v, r)"
    | "ident_start (c_at s 0)" "c_at ?r 0 \<noteq> CHR '')''" "c_at ?r 0 = CHR '',''" "\<not> starts_with ''...'' ?r1"
      "param_names (ps @ [ident_at s]) ?r1 = Inr (qs, v, r)"
    using 1(2) by (subst (asm) param_names.simps) (auto simp: Let_def split: if_split_asm)
  then show ?case
  proof cases
    case 2
    from ellipsis_end_length [OF this] len(2) show ?thesis by (rule le_trans)
  next
    case 3
    then have "length r \<le> length ?r1" by (intro 1(1)) simp_all
    with len(2) show ?thesis by (rule le_trans [rotated])
  qed (use len(1) in simp)
qed

lemma define_head_length: "define_head s = Inr (n, ps, k, v, r) \<Longrightarrow> length r \<le> length s"
proof -
  assume h: "define_head s = Inr (n, ps, k, v, r)"
  let ?a = "after_ident s"
  have a: "length (drop 1 ?a) \<le> length s" "length (skip_hspace (drop 1 ?a)) \<le> length s" "length ?a \<le> length s"
    by (intro le_intros)+
  consider "r = ?a" | "param_list (drop 1 ?a) = Inr (ps, v, r)"
    using h by (auto simp: define_head_def Let_def map_result_eq_Inr split: if_split_asm)
  then show ?thesis
  proof cases
    case 2
    then consider "r = drop 1 (skip_hspace (drop 1 ?a))" | "ellipsis_end [] (skip_hspace (drop 1 ?a)) = Inr (ps, v, r)"
      | "param_names [] (skip_hspace (drop 1 ?a)) = Inr (ps, v, r)"
      by (auto simp: param_list_def Let_def split: if_split_asm)
    then have "length r \<le> length (skip_hspace (drop 1 ?a))"
      by cases (auto dest: ellipsis_end_length param_names_length)
    with a(2) show ?thesis by (rule le_trans [rotated])
  qed (simp add: a)
qed

lemma line_file_length: "length (snd (line_file s)) \<le> length s"
proof (induction s rule: line_file.induct)
  case (2 c s)
  show ?case
  proof (cases "c = BACKSLASH")
    case True
    then show ?thesis using 2 by (cases s) (auto simp: le_SucI)
  next
    case False
    then show ?thesis using 2 by (auto simp: le_SucI)
  qed
qed simp

lemma pragma_string_length: "length (snd (pragma_string s)) \<le> length s"
proof (induction s rule: pragma_string.induct)
  case (2 c s)
  show ?case
  proof (cases "c = BACKSLASH")
    case True
    then show ?thesis using 2 by (cases s) (auto simp: le_SucI)
  next
    case False
    then show ?thesis using 2 by (auto simp: le_SucI)
  qed
qed simp

lemma cond_digits_le: "length (snd (cond_digits b p v s)) \<le> length s"
  by (induction b p v s rule: cond_digits.induct) auto

text \<open>No directive moves the position backwards.\<close>

lemma cond_directives_input:
  "dir_ifdef st s = Inr st' \<Longrightarrow> length (input st') \<le> length s"
  "dir_ifndef st s = Inr st' \<Longrightarrow> length (input st') \<le> length s"
  "dir_if env st s = Inr st' \<Longrightarrow> length (input st') \<le> length s"
  "dir_elifdef st s = Inr st' \<Longrightarrow> length (input st') \<le> length s"
  "dir_elifndef st s = Inr st' \<Longrightarrow> length (input st') \<le> length s"
  "dir_elif env st s = Inr st' \<Longrightarrow> length (input st') \<le> length s"
  "dir_else st s = Inr st' \<Longrightarrow> length (input st') \<le> length s"
  "dir_endif st s = Inr st' \<Longrightarrow> length (input st') \<le> length s"
  by (auto simp: dir_ifdef_def dir_ifndef_def dir_if_def dir_elifdef_def dir_elifndef_def dir_elif_def dir_else_def
      dir_endif_def Let_def map_result_eq_Inr simp del: length_drop split: if_split_asm list.split_asm intro!: le_intros)

lemma include_directives_input:
  "dir_include inc env st s = Inr st' \<Longrightarrow> length (input st') \<le> length s"
  "dir_include_next inc env st s = Inr st' \<Longrightarrow> length (input st') \<le> length s"
  by (auto simp: dir_include_def dir_include_next_def Let_def simp del: length_drop drop_drop
      dest!: splice_include_input split: if_split_asm option.split_asm intro!: le_intros)

lemma dir_define_input: "dir_define st s = Inr st' \<Longrightarrow> length (input st') \<le> length s"
proof -
  assume "dir_define st s = Inr st'"
  then obtain n ps k v r where head: "define_head (skip_hspace (drop 6 s)) = Inr (n, ps, k, v, r)"
    and i: "input st' = skip_directive_tail (skip_hspace r)"
    by (auto simp: dir_define_def Let_def result_simps split: option.split_asm)
  have "length (skip_hspace (drop 6 s)) \<le> length s" by (intro le_intros)
  with define_head_length [OF head] have "length r \<le> length s" by (rule le_trans)
  then show ?thesis unfolding i by (intro le_intros)
qed

lemma dir_line_input: "dir_line st s = Inr st' \<Longrightarrow> length (input st') \<le> length s"
proof -
  assume run: "dir_line st s = Inr st'"
  obtain v r where d: "cond_digits 10 is_digit 0 (skip_hspace (drop 4 s)) = (v, r)" by fastforce
  have "length (skip_hspace (drop 4 s)) \<le> length s" by (intro le_intros)
  with cond_digits_le [of 10 is_digit 0 "skip_hspace (drop 4 s)"] d have r: "length r \<le> length s" by simp
  then have "length (drop 1 (skip_hspace r)) \<le> length s" by (intro le_intros)
  with line_file_length [of "drop 1 (skip_hspace r)"] have f: "length (snd (line_file (drop 1 (skip_hspace r)))) \<le> length s"
    by (rule le_trans)
  have "input st' = skip_directive_tail (snd (line_file (drop 1 (skip_hspace r)))) \<or>
      input st' = skip_directive_tail (skip_hspace r)"
    using run d by (auto simp: dir_line_def Let_def split: if_split_asm)
  then show ?thesis using r f by (auto intro!: le_intros)
qed

lemma directive_input: "directive inc env st s = Inr st' \<Longrightarrow> length (input st') \<le> length s"
proof -
  assume run: "directive inc env st s = Inr st'"
  have "length (input st') \<le> length s" if "dir_undef st s = Inr st' \<or> dir_pragma env st s = Inr st' \<or> dir_error st s = Inr st'"
    using that by (auto simp: dir_undef_def dir_pragma_def dir_error_def Let_def simp del: length_drop
        split: if_split_asm intro!: le_intros)
  then show ?thesis
    using run unfolding directive_def
    by (auto split: if_split_asm intro: cond_directives_input include_directives_input dir_define_input dir_line_input tail_le)
qed

lemma ident_pragma_input: "ident_pragma env st r = Inr st' \<Longrightarrow> length (input st') \<le> length r"
proof -
  assume run: "ident_pragma env st r = Inr st'"
  let ?p = "drop 1 (skip_hspace (drop 1 (skip_hspace r)))"
  have "input st' = drop 1 (skip_hspace (snd (pragma_string ?p)))"
    using run by (auto simp: ident_pragma_def Let_def split: if_split_asm prod.split_asm)
  moreover have "length ?p \<le> length r" by (intro le_intros)
  then have "length (snd (pragma_string ?p)) \<le> length r" using pragma_string_length by (rule le_trans [rotated])
  ultimately show ?thesis by (simp only:) (intro le_intros)
qed

lemma ident_macro_input: "ident_macro env st name r = Inr st' \<Longrightarrow> length (input st') \<le> length r"
proof -
  assume run: "ident_macro env st name r = Inr st'"
  have "length (drop 1 (skip_hspace r)) \<le> length r" by (intro le_intros)
  with collect_args_length have "length (snd (collect_args (drop 1 (skip_hspace r)))) \<le> length r" by (rule le_trans)
  moreover have "input st' = r \<or> input st' = snd (collect_args (drop 1 (skip_hspace r)))"
    using run by (auto simp: ident_macro_def Let_def map_result_eq_Inr split: if_split_asm option.split_asm prod.split_asm)
  ultimately show ?thesis by auto
qed

lemma identifier_step_input:
  assumes "identifier_step env st = Inr st'"
  shows "length (input st') \<le> length (after_ident (input st))"
proof -
  have "input st' = after_ident (input st) \<or>
      (\<exists>st1. input st' = input st1 \<and> (ident_pragma env st (after_ident (input st)) = Inr st1 \<or>
         ident_macro env st (ident_at (input st)) (after_ident (input st)) = Inr st1))"
    using assms by (auto simp: identifier_step_def Let_def map_result_eq_Inr split: if_split_asm)
  then show ?thesis using ident_pragma_input ident_macro_input by fastforce
qed

lemma block_comment_length: "block_comment s = Some (n, r) \<Longrightarrow> length r < length s"
  by (induction s arbitrary: n r) (auto split: if_split_asm)

lemma pp_step_shrinks:
  assumes "pp_step inc env st = Inr st'" and "input st \<noteq> []"
  shows "length (input st') < length (input st)"
proof -
  obtain c u where s: "input st = c # u" using assms(2) by (cases "input st") auto
  have dir: "length (input st') < length (input st)" if "directive inc env st (skip_hspace u) = Inr st'"
    using directive_input [OF that] skip_hspace_length [of u] by (simp add: s)
  have idn: "length (input st') < length (input st)" if "identifier_step env st = Inr st'" "ident_start c"
    using identifier_step_input [OF that(1)] after_ident_less [of "input st"] that(2) by (simp add: s ident_start_char)
  have com: "length (input st') < length (input st)" if "comment_step st = Inr st'"
    using that block_comment_length [of "drop 2 (input st)"] by (fastforce simp: comment_step_def split: option.split_asm)
  have cpp: "length (skip_directive_tail (c # u)) < length (c # u)" if "c = CHR ''/''" "c_at u 0 = CHR ''/''"
    using that skip_directive_tail_length [of u] by (subst skip_directive_tail.simps) simp
  show ?thesis
    using assms(1) dir idn com cpp literal_tail_length [of c u] unfolding pp_step_def newline_step_def
    by (auto simp: s Let_def le_imp_less_Suc split: if_split_asm)
qed

function pp_loop :: "include_run \<Rightarrow> pp_env \<Rightarrow> pp_state \<Rightarrow> pp_step_result" where
  "pp_loop inc env st = (if input st = [] then Inr st else and_then (pp_step inc env st) (pp_loop inc env))"
  by pat_completeness auto
termination
  by (relation "measure (\<lambda>(_, _, st). length (input st))") (auto simp: pp_step_shrinks)

declare pp_loop.simps [simp del]

definition start_state :: "string \<Rightarrow> MacroTable \<Rightarrow> expand_context \<Rightarrow> pp_state" where
  "start_state source ms g =
     \<lparr>input = splice_lines (c_text source), out = [], cond_stack = [], emitting = True, line_has_content = False,
      current_line = 1, current_file_override = None, macros = ms, gctx = g\<rparr>"

definition preprocess_file ::
  "(string \<Rightarrow> string option \<Rightarrow> MacroTable \<Rightarrow> expand_context \<Rightarrow> pp_error + string \<times> MacroTable \<times> expand_context)
   \<Rightarrow> files \<Rightarrow> include_run" where
  "preprocess_file run fs path ms g =
     (if macro_table_is_once ms path then Inr ([], ms, g)
      else case fs path of
        None \<Rightarrow> Inl (Message (''cannot open include file '' @ [QUOTE] @ path @ [QUOTE]))
      | Some buf \<Rightarrow> run buf (Some path) ms g)"

function preprocess_internal ::
  "files \<Rightarrow> string list \<Rightarrow> nat \<Rightarrow> nat \<Rightarrow> string \<Rightarrow> string option \<Rightarrow> MacroTable \<Rightarrow> expand_context
   \<Rightarrow> pp_error + string \<times> MacroTable \<times> expand_context" where
  "preprocess_internal fs dirs stk depth source path ms g =
     (if depth > MAX_INCLUDE_DEPTH then
        Inl (Message ''maximum include depth exceeded (possible recursive include)'')
      else
        and_then
          (pp_loop (preprocess_file (preprocess_internal fs dirs stk (depth + 1)) fs)
             \<lparr>env_files = fs, env_dirs = dirs, env_path = path, env_stack = stk\<rparr> (start_state source ms g))
          (\<lambda>st. if cond_stack st \<noteq> [] then Inl (Message ''missing endif'')
                else Inr (out st, macros st, gctx st)))"
  by pat_completeness auto
termination by (relation "measure (\<lambda>(_, _, _, depth, _). Suc MAX_INCLUDE_DEPTH - depth)") auto

declare preprocess_internal.simps [simp del]

subsection \<open>Entry points\<close>

definition predefined :: "string \<Rightarrow> string \<Rightarrow> (string \<times> string) list" where
  "predefined date_buf time_buf =
     [(''__STDC__'', ''1''), (''__STDC_VERSION__'', ''199901''), (''__CLAUDEC99__'', ''1''), (''__STDC_HOSTED__'', ''1''),
      (''__DATE__'', date_buf), (''__TIME__'', time_buf),
      (''__x86_64__'', ''1''), (''__linux__'', ''1''), (''__unix__'', ''1''), (''__LP64__'', ''1''), (''_LP64'', ''1''),
      (''__CHAR_BIT__'', ''8''), (''__SIZEOF_CHAR__'', ''1''), (''__SIZEOF_SHORT__'', ''2''), (''__SIZEOF_INT__'', ''4''),
      (''__SIZEOF_LONG__'', ''8''), (''__SIZEOF_POINTER__'', ''8''), (''__SIZEOF_SIZE_T__'', ''8''),
      (''__SIZEOF_LONG_LONG__'', ''8''), (''__SIZEOF_WCHAR_T__'', ''4''), (''__WCHAR_TYPE__'', ''int''),
      (''__WCHAR_MAX__'', ''0x7fffffff''), (''__WCHAR_MIN__'', ''(-__WCHAR_MAX__ - 1)''),
      (''__restrict__'', ''restrict''), (''__volatile__'', ''volatile''), (''__const__'', ''const''), (''__inline__'', []),
      (''__extension__'', [])]"

text \<open>A \<^verbatim>\<open>-D\<close> argument: the name up to the first \<^verbatim>\<open>=\<close> and the value behind it, or \<^verbatim>\<open>1\<close>.\<close>

definition split_define :: "string \<Rightarrow> string \<times> string" where
  "split_define d =
     (if CHR ''='' \<in> set d
      then (takeWhile (\<lambda>c. c \<noteq> CHR ''='') d, drop 1 (dropWhile (\<lambda>c. c \<noteq> CHR ''='') d))
      else (d, ''1''))"

fun define_all :: "(string \<times> string) list \<Rightarrow> MacroTable \<Rightarrow> pp_error + MacroTable" where
  "define_all [] t = Inr t"
| "define_all ((name, val) # ds) t = and_then (macro_define t name [] (- 1) False val) (define_all ds)"

definition builtin_preamble :: string where
  "builtin_preamble =
     ''struct __claudec00_va_list_tag { unsigned int gp_offset; unsigned int fp_offset; void *overflow_arg_area; void *reg_save_area; };'' @ [LF] @
     ''typedef struct __claudec00_va_list_tag __builtin_va_list[1];'' @ [LF] @
     ''#define __attribute__(x)'' @ [LF] @ ''#define __declspec(x)'' @ [LF]"

definition line_directive :: "string option \<Rightarrow> string" where
  "line_directive path =
     ''#line 1 '' @ [DQUOTE] @ (case path of Some p \<Rightarrow> p | None \<Rightarrow> ''<stdin>'') @ [DQUOTE, LF]"

definition no_context :: expand_context where
  "no_context = \<lparr>g_expand_source_path = None, g_expand_current_line = 0\<rparr>"

definition preprocess_with_defines_and_includes ::
  "files \<Rightarrow> nat \<Rightarrow> string \<Rightarrow> string \<Rightarrow> string \<Rightarrow> string option \<Rightarrow> string list \<Rightarrow> string list \<Rightarrow> bool \<Rightarrow> pp_error + string" where
  "preprocess_with_defines_and_includes fs stk date_buf time_buf source path defines dirs inject_preamble =
     and_then (define_all (predefined date_buf time_buf) macro_table_init) (\<lambda>t.
     and_then (define_all (map split_define defines) t) (\<lambda>t.
       let text = (if inject_preamble then builtin_preamble @ line_directive path @ c_text source else source);
           p = (case path of Some p \<Rightarrow> p | None \<Rightarrow> ''.'')
       in map_result fst (preprocess_internal fs dirs stk 0 text (Some p) t no_context)))"

definition preprocess_with_defines ::
  "files \<Rightarrow> nat \<Rightarrow> string \<Rightarrow> string \<Rightarrow> string \<Rightarrow> string option \<Rightarrow> string list \<Rightarrow> pp_error + string" where
  "preprocess_with_defines fs stk date_buf time_buf source path defines =
     preprocess_with_defines_and_includes fs stk date_buf time_buf source path defines [] True"

definition preprocess ::
  "files \<Rightarrow> nat \<Rightarrow> string \<Rightarrow> string \<Rightarrow> string \<Rightarrow> string option \<Rightarrow> pp_error + string" where
  "preprocess fs stk date_buf time_buf source path = preprocess_with_defines fs stk date_buf time_buf source path []"

end
