(* ===== verification/PP_Table.thy ===== *)
theory PP_Table
  imports PP_Macros
begin

section \<open>The macro table is a finite map\<close>

text \<open>
  The rest of the preprocessor uses the table through three operations: look a name up,
  define a name that is not defined, undefine a name. The locale \<open>macro_dictionary\<close> states what
  it relies on; the table of the code, an array with deletion by swapping, is an
  interpretation. From it follows that any sequence of \<^verbatim>\<open>#define\<close> and \<^verbatim>\<open>#undef\<close> acts on the
  table as on a map from names to definitions.
\<close>

locale macro_dictionary =
  fixes ok :: "'t \<Rightarrow> bool"
    and look :: "'t \<Rightarrow> string \<Rightarrow> 'd option"
    and add :: "'t \<Rightarrow> 'd \<Rightarrow> 't"
    and remove :: "'t \<Rightarrow> string \<Rightarrow> 't"
    and key :: "'d \<Rightarrow> string"
  assumes add_ok: "ok t \<Longrightarrow> look t (key d) = None \<Longrightarrow> ok (add t d)"
    and remove_ok: "ok t \<Longrightarrow> ok (remove t n)"
    and look_add: "ok t \<Longrightarrow> look t (key d) = None \<Longrightarrow> look (add t d) n = (if n = key d then Some d else look t n)"
    and look_remove: "ok t \<Longrightarrow> look (remove t n) m = (if m = n then None else look t m)"
begin

lemma look_add_map: "ok t \<Longrightarrow> look t (key d) = None \<Longrightarrow> look (add t d) = (look t)(key d \<mapsto> d)"
  by (rule ext) (simp add: look_add)

lemma look_remove_map: "ok t \<Longrightarrow> look (remove t n) = (look t)(n := None)"
  by (rule ext) (simp add: look_remove)

text \<open>Defining a name and undefining it again restores every lookup.\<close>

lemma define_undef: "ok t \<Longrightarrow> look t (key d) = None \<Longrightarrow> look (remove (add t d) (key d)) = look t"
  by (rule ext) (simp add: look_remove add_ok look_add)

lemma undef_twice: "ok t \<Longrightarrow> look (remove (remove t n) n) = look (remove t n)"
  by (rule ext) (simp add: look_remove remove_ok)

end

text \<open>The invariant of the table: names are distinct, and the array has room for its entries.\<close>

definition table_ok :: "MacroTable \<Rightarrow> bool" where
  "table_ok t \<longleftrightarrow> distinct (map mname (defs t)) \<and> length (defs t) \<le> mcap t \<and>
     length (once_paths t) \<le> once_cap t"

lemma option_eqI: "(\<And>d. x = Some d \<longleftrightarrow> y = Some d) \<Longrightarrow> x = y"
  by (cases x; cases y) auto

lemma find_name_None: "find (\<lambda>d. mname d = n) ds = None \<longleftrightarrow> n \<notin> mname ` set ds"
  by (induction ds) auto

lemma find_name_append:
  "find (\<lambda>d. mname d = n) (ds @ es) =
   (case find (\<lambda>d. mname d = n) ds of None \<Rightarrow> find (\<lambda>d. mname d = n) es | Some d \<Rightarrow> Some d)"
  by (induction ds) auto

lemma macro_find_name: "macro_find t n = Some d \<Longrightarrow> mname d = n \<and> d \<in> set (defs t)"
  by (simp add: macro_find_def find_Some_iff) (metis nth_mem)

lemma find_distinct:
  "distinct (map mname ds) \<Longrightarrow> find (\<lambda>d. mname d = n) ds = Some d \<longleftrightarrow> d \<in> set ds \<and> mname d = n"
  by (induction ds) (auto simp: image_iff)

lemma swap_remove_set:
  "distinct (map mname ds) \<Longrightarrow> set (swap_remove ds n) = {d \<in> set ds. mname d \<noteq> n}"
proof (induction ds)
  case (Cons d ds)
  show ?case
  proof (cases "mname d = n")
    case True
    with Cons.prems have "n \<notin> mname ` set ds" by simp
    then have others: "\<forall>e \<in> set ds. mname e \<noteq> n" by blast
    show ?thesis using True others by (cases ds rule: rev_cases) auto
  next
    case False
    with Cons show ?thesis by auto
  qed
qed simp

lemma swap_remove_distinct: "distinct (map mname ds) \<Longrightarrow> distinct (map mname (swap_remove ds n))"
proof (induction ds)
  case (Cons d ds)
  show ?case
  proof (cases "mname d = n")
    case True
    with Cons.prems show ?thesis by (cases ds rule: rev_cases) auto
  next
    case False
    with Cons show ?thesis by (auto simp: swap_remove_set)
  qed
qed simp

lemma swap_remove_length: "length (swap_remove ds n) \<le> length ds"
  by (induction ds) auto

interpretation mt: macro_dictionary table_ok macro_find add_def macro_undef mname
proof
  fix t :: MacroTable and d :: MacroDef assume "table_ok t" "macro_find t (mname d) = None"
  then show "table_ok (add_def t d)"
    by (auto simp: table_ok_def add_def_def macro_find_def find_name_None)
next
  fix t n assume "table_ok t"
  then show "table_ok (macro_undef t n)"
    using swap_remove_length [of "defs t" n]
    by (auto simp: table_ok_def macro_undef_def swap_remove_distinct)
next
  fix t :: MacroTable and d :: MacroDef and n assume "table_ok t" "macro_find t (mname d) = None"
  then show "macro_find (add_def t d) n = (if n = mname d then Some d else macro_find t n)"
    by (auto simp: macro_find_def add_def_def find_name_append split: option.split)
next
  fix t n m assume ok: "table_ok t"
  let ?f = "\<lambda>ds. find (\<lambda>d. mname d = m) ds"
  have "?f (swap_remove (defs t) n) = Some d \<longleftrightarrow> (if m = n then None else ?f (defs t)) = Some d" for d
    using ok by (auto simp: table_ok_def find_distinct swap_remove_distinct swap_remove_set)
  then have "?f (swap_remove (defs t) n) = (if m = n then None else ?f (defs t))"
    by (rule option_eqI)
  then show "macro_find (macro_undef t n) m = (if m = n then None else macro_find t m)"
    by (simp add: macro_find_def macro_undef_def)
qed

lemma table_ok_init [simp]: "table_ok macro_table_init"
  by (simp add: table_ok_def macro_table_init_def)

lemma macro_find_init [simp]: "macro_find macro_table_init = Map.empty"
  by (rule ext) (simp add: macro_find_def macro_table_init_def)

lemma macro_define_ok:
  "table_ok t \<Longrightarrow> macro_define t n ps k v r = Inr t' \<Longrightarrow> table_ok t'"
  by (auto simp: macro_define_def mt.add_ok split: option.split_asm if_split_asm)

lemma add_once_ok: "table_ok t \<Longrightarrow> table_ok (macro_table_add_once t p)"
  by (auto simp: table_ok_def macro_table_add_once_def)

lemma add_once_find [simp]: "macro_find (macro_table_add_once t p) = macro_find t"
  by (rule ext) (simp add: macro_find_def macro_table_add_once_def)

lemma is_once_add [simp]:
  "macro_table_is_once (macro_table_add_once t p) q \<longleftrightarrow> q = p \<or> macro_table_is_once t q"
  by (auto simp: macro_table_is_once_def macro_table_add_once_def)

text \<open>A sequence of directives, on the table and on a map.\<close>

datatype macro_op = Define string "string list" int bool string | Undef string

fun run_ops :: "macro_op list \<Rightarrow> MacroTable \<Rightarrow> pp_error + MacroTable" where
  "run_ops [] t = Inr t"
| "run_ops (Define n ps k v r # ops) t = and_then (macro_define t n ps k v r) (run_ops ops)"
| "run_ops (Undef n # ops) t = run_ops ops (macro_undef t n)"

definition new_def :: "string \<Rightarrow> string list \<Rightarrow> int \<Rightarrow> bool \<Rightarrow> string \<Rightarrow> MacroDef" where
  "new_def n ps k v r = \<lparr>mname = n, params = ps, param_count = k, is_variadic = v, replacement = r, disabled = False\<rparr>"

fun map_ops :: "macro_op list \<Rightarrow> (string \<rightharpoonup> MacroDef) \<Rightarrow> pp_error + (string \<rightharpoonup> MacroDef)" where
  "map_ops [] m = Inr m"
| "map_ops (Define n ps k v r # ops) m =
     (case m n of
        None \<Rightarrow> map_ops ops (m(n \<mapsto> new_def n ps k v r))
      | Some d \<Rightarrow> if replacement d = r \<and> is_variadic d = v then map_ops ops m else Inl (redefined_message n))"
| "map_ops (Undef n # ops) m = map_ops ops (m(n := None))"

text \<open>
  (C15) The macro table behaves as a map from names to definitions: after any sequence of
  definitions and undefinitions every lookup gives what the map gives, and the sequence stops
  with the redefinition message exactly when a name is defined again with another replacement
  text or variadic flag. The names in the array stay distinct throughout.
\<close>

theorem macro_table_refines_map:
  assumes "table_ok t"
  shows "map_result macro_find (run_ops ops t) = map_ops ops (macro_find t) \<and>
         (case run_ops ops t of Inl e \<Rightarrow> True | Inr t' \<Rightarrow> table_ok t')"
  using assms
proof (induction ops t rule: run_ops.induct)
  case (2 n ps k v r ops t)
  show ?case
  proof (cases "macro_find t n")
    case None
    let ?t = "add_def t (new_def n ps k v r)"
    have new: "macro_define t n ps k v r = Inr ?t" using None by (simp add: macro_define_def new_def_def)
    have name: "mname (new_def n ps k v r) = n" by (simp add: new_def_def)
    have "table_ok ?t" using mt.add_ok [OF 2(2)] None name by simp
    moreover have "macro_find ?t = (macro_find t)(n \<mapsto> new_def n ps k v r)"
      using mt.look_add_map [OF 2(2), of "new_def n ps k v r"] None name by simp
    ultimately show ?thesis using 2(1) [OF new] None new by (simp add: fun_upd_def)
  next
    case (Some d)
    with 2 show ?thesis by (simp add: macro_define_def)
  qed
next
  case (3 n ops t)
  then show ?case by (simp add: mt.remove_ok mt.look_remove_map fun_upd_def)
qed simp

theorem macro_table_refines_map_witness:
  "map_result macro_find (run_ops [Define ''A'' [] (- 1) False ''1'', Undef ''B'', Undef ''A''] macro_table_init) =
   map_ops [Define ''A'' [] (- 1) False ''1'', Undef ''B'', Undef ''A''] (macro_find macro_table_init) \<and>
   (case run_ops [Define ''A'' [] (- 1) False ''1'', Undef ''B'', Undef ''A''] macro_table_init of
      Inl e \<Rightarrow> True | Inr t' \<Rightarrow> table_ok t')"
  by (rule macro_table_refines_map) simp

end
