(* ===== verification/Preprocessor_Props.thy ===== *)
theory Preprocessor_Props
  imports Preprocessor PP_Expand PP_Cond_Props
begin

section \<open>What the preprocessor guarantees\<close>

subsection \<open>The invariant of the state\<close>

text \<open>
  The innermost frame says whether text is emitted; a frame remembers whether the text around
  it was; a branch is active only inside active text, and, unless it is the \<^verbatim>\<open>#else\<close> branch,
  only if the frame has noted that a branch was taken. There are at most 64 frames.
\<close>

fun top_emitting :: "CondFrame list \<Rightarrow> bool" where
  "top_emitting [] = True"
| "top_emitting (f # fs) = cf_emitting f"

fun frames_ok :: "CondFrame list \<Rightarrow> bool" where
  "frames_ok [] = True"
| "frames_ok (f # fs) =
     (parent_emitting f = top_emitting fs \<and> (cf_emitting f \<longrightarrow> parent_emitting f) \<and>
      (branch_taken f \<longrightarrow> parent_emitting f) \<and> (cf_emitting f \<and> \<not> seen_else f \<longrightarrow> branch_taken f) \<and> frames_ok fs)"

definition state_ok :: "pp_state \<Rightarrow> bool" where
  "state_ok st \<longleftrightarrow> table_ok (macros st) \<and> frames_ok (cond_stack st) \<and>
     emitting st = top_emitting (cond_stack st) \<and> length (cond_stack st) \<le> MAX_COND_DEPTH"

definition include_ok :: "include_run \<Rightarrow> bool" where
  "include_ok inc \<longleftrightarrow> (\<forall>p ms g x ms' g'. table_ok ms \<longrightarrow> inc p ms g = Inr (x, ms', g') \<longrightarrow> table_ok ms')"

text \<open>A step that does not concern conditionals.\<close>

definition same_conds :: "pp_state \<Rightarrow> pp_state \<Rightarrow> bool" where
  "same_conds st st' \<longleftrightarrow> cond_stack st' = cond_stack st \<and> emitting st' = emitting st"

lemma put_fields [simp]:
  "cond_stack (put s st) = cond_stack st" "emitting (put s st) = emitting st" "macros (put s st) = macros st"
  "gctx (put s st) = gctx st" "current_line (put s st) = current_line st"
  "line_has_content (put s st) = line_has_content st" "out (put s st) = out st @ s"
  by (simp_all add: put_def)

lemma emit_fields [simp]:
  "cond_stack (emit s st) = cond_stack st" "emitting (emit s st) = emitting st" "macros (emit s st) = macros st"
  "gctx (emit s st) = gctx st" "out (emit s st) = (if emitting st then out st @ s else out st)"
  by (simp_all add: emit_def)

lemma pragma_once_fields [simp]:
  "cond_stack (pragma_once env st) = cond_stack st" "emitting (pragma_once env st) = emitting st"
  "table_ok (macros st) \<Longrightarrow> table_ok (macros (pragma_once env st))"
  by (auto simp: pragma_once_def add_once_ok split: option.split)

lemma state_ok_same:
  "state_ok st \<Longrightarrow> same_conds st st' \<Longrightarrow> table_ok (macros st') \<Longrightarrow> state_ok st'"
  by (simp add: state_ok_def same_conds_def)

lemma splice_include_ok:
  assumes "include_ok inc" and "table_ok (macros st)" and "splice_include inc env p st = Inr st'"
  shows "same_conds st st' \<and> table_ok (macros st')"
proof -
  from assms(3) obtain x ms g where run: "inc p (macros st) (gctx st) = Inr (x, ms, g)"
    and st': "same_conds st st'" "macros st' = ms"
    by (auto simp: splice_include_def map_result_eq_Inr same_conds_def)
  from run assms(1,2) have "table_ok ms" unfolding include_ok_def by blast
  with st' show ?thesis by simp
qed

lemma include_dirs_splice:
  "dir_include inc env st s = Inr st' \<Longrightarrow> \<exists>p r. splice_include inc env p (st\<lparr>input := r\<rparr>) = Inr st'"
  "dir_include_next inc env st s = Inr st' \<Longrightarrow> \<exists>p r. splice_include inc env p (st\<lparr>input := r\<rparr>) = Inr st'"
  by (simp_all only: dir_include_def dir_include_next_def Let_def sum.distinct split: if_split_asm option.split_asm)
     blast+

lemma include_dirs_ok:
  assumes "include_ok inc" and "table_ok (macros st)"
    and "dir_include inc env st s = Inr st' \<or> dir_include_next inc env st s = Inr st'"
  shows "same_conds st st' \<and> table_ok (macros st')"
proof -
  obtain p r where "splice_include inc env p (st\<lparr>input := r\<rparr>) = Inr st'"
    using assms(3) include_dirs_splice by blast
  from splice_include_ok [OF assms(1) _ this] assms(2) show ?thesis by (simp add: same_conds_def)
qed

lemma dir_define_ok:
  assumes "table_ok (macros st)" and "dir_define st s = Inr st'"
  shows "same_conds st st' \<and> table_ok (macros st')"
proof -
  from assms(2) obtain n ps k v x ms r where "macro_define (macros st) n ps k v x = Inr ms" "st' = st\<lparr>input := r, macros := ms\<rparr>"
    by (auto simp: dir_define_def Let_def result_simps split: option.split_asm)
  with macro_define_ok [OF assms(1)] show ?thesis by (simp add: same_conds_def)
qed

lemma dir_line_ok: "dir_line st s = Inr st' \<Longrightarrow> same_conds st st' \<and> macros st' = macros st"
  by (auto simp: dir_line_def Let_def same_conds_def split: if_split_asm prod.split_asm)

lemma dir_undef_ok: "table_ok (macros st) \<Longrightarrow> dir_undef st s = Inr st' \<Longrightarrow> same_conds st st' \<and> table_ok (macros st')"
  by (auto simp: dir_undef_def Let_def same_conds_def mt.remove_ok)

lemma dir_pragma_ok: "table_ok (macros st) \<Longrightarrow> dir_pragma env st s = Inr st' \<Longrightarrow> same_conds st st' \<and> table_ok (macros st')"
  by (auto simp: dir_pragma_def Let_def same_conds_def split: if_split_asm)

lemma plain_dirs_ok:
  assumes "table_ok (macros st)"
    and "dir_define st s = Inr st' \<or> dir_undef st s = Inr st' \<or> dir_line st s = Inr st' \<or> dir_pragma env st s = Inr st'"
  shows "same_conds st st' \<and> table_ok (macros st')"
  using assms dir_define_ok dir_undef_ok dir_line_ok dir_pragma_ok by metis

lemma push_cond_ok:
  assumes "state_ok st" and "\<not> too_deep st"
  shows "state_ok (push_cond (st\<lparr>input := r\<rparr>) c)"
  using assms by (auto simp: state_ok_def push_cond_def too_deep_def)

lemma elif_update_ok:
  "frames_ok (f # fs) \<Longrightarrow> \<not> seen_else f \<Longrightarrow> frames_ok (elif_update f c # fs)"
  by (auto simp: elif_update_def)

lemma else_update_ok: "frames_ok (f # fs) \<Longrightarrow> \<not> seen_else f \<Longrightarrow> frames_ok (else_update f # fs)"
  by (auto simp: else_update_def Let_def)

lemma set_top_ok:
  "state_ok st \<Longrightarrow> cond_stack st = f # fs \<Longrightarrow> frames_ok (f' # fs) \<Longrightarrow> state_ok (set_top (st\<lparr>input := r\<rparr>) f' fs)"
  by (auto simp: state_ok_def set_top_def)

lemma opening_dirs_ok:
  assumes "state_ok st"
    and "dir_ifdef st s = Inr st' \<or> dir_ifndef st s = Inr st' \<or> dir_if env st s = Inr st'"
  shows "state_ok st'"
  using assms
  by (auto simp: dir_ifdef_def dir_ifndef_def dir_if_def Let_def map_result_eq_Inr split: if_split_asm intro: push_cond_ok)

lemma frames_top: "state_ok st \<Longrightarrow> cond_stack st = f # fs \<Longrightarrow> frames_ok (f # fs)"
  unfolding state_ok_def by metis

lemma middle_dirs_ok:
  assumes "state_ok st"
    and "dir_elifdef st s = Inr st' \<or> dir_elifndef st s = Inr st' \<or> dir_elif env st s = Inr st' \<or> dir_else st s = Inr st'"
  shows "state_ok st'"
proof (cases "cond_stack st")
  case Nil
  with assms(2) show ?thesis by (simp add: dir_elifdef_def dir_elifndef_def dir_elif_def dir_else_def)
next
  case (Cons f fs)
  have s: "\<not> seen_else f"
    using assms(2) by (auto simp: Cons dir_elifdef_def dir_elifndef_def dir_elif_def dir_else_def split: if_split_asm)
  obtain r f' where "st' = set_top (st\<lparr>input := r\<rparr>) f' fs" "f' = else_update f \<or> (\<exists>c. f' = elif_update f c)"
    using assms(2) s
    by (auto simp: Cons dir_elifdef_def dir_elifndef_def dir_elif_def dir_else_def Let_def map_result_eq_Inr
        split: if_split_asm)
  then show ?thesis
    using set_top_ok [OF assms(1) Cons] elif_update_ok [OF frames_top [OF assms(1) Cons] s]
      else_update_ok [OF frames_top [OF assms(1) Cons] s] by blast
qed

lemma dir_endif_ok: "state_ok st \<Longrightarrow> dir_endif st s = Inr st' \<Longrightarrow> state_ok st'"
proof (cases "cond_stack st")
  case (Cons f fs)
  assume ok: "state_ok st" and run: "dir_endif st s = Inr st'"
  have "top_emitting fs = (case fs of [] \<Rightarrow> True | f # _ \<Rightarrow> cf_emitting f)" by (cases fs) simp_all
  with run have "cond_stack st' = fs" "emitting st' = top_emitting fs" "macros st' = macros st"
    by (auto simp: dir_endif_def Cons)
  with ok frames_top [OF ok Cons] show ?thesis by (simp add: state_ok_def Cons)
qed (simp add: dir_endif_def)

lemma directive_ok:
  assumes "include_ok inc" and "state_ok st" and "directive inc env st s = Inr st'"
  shows "state_ok st'"
proof -
  have t: "table_ok (macros st)" using assms(2) by (simp add: state_ok_def)
  have err: "dir_error st s \<noteq> Inr st'" by (simp add: dir_error_def Let_def)
  consider "dir_ifdef st s = Inr st' \<or> dir_ifndef st s = Inr st' \<or> dir_if env st s = Inr st'"
    | "dir_elifdef st s = Inr st' \<or> dir_elifndef st s = Inr st' \<or> dir_elif env st s = Inr st' \<or> dir_else st s = Inr st'"
    | "dir_endif st s = Inr st'"
    | "dir_include inc env st s = Inr st' \<or> dir_include_next inc env st s = Inr st'"
    | "dir_define st s = Inr st' \<or> dir_undef st s = Inr st' \<or> dir_line st s = Inr st' \<or> dir_pragma env st s = Inr st'"
    | r where "st' = st\<lparr>input := r\<rparr>"
    using assms(3) err unfolding directive_def by (auto split: if_split_asm)
  then show ?thesis
  proof cases
    case 4
    from include_dirs_ok [OF assms(1) t this] assms(2) show ?thesis by (auto intro: state_ok_same)
  next
    case 5
    from plain_dirs_ok [OF t this] assms(2) show ?thesis by (auto intro: state_ok_same)
  next
    case 6
    with assms(2) show ?thesis by (simp add: state_ok_def)
  qed (use assms(2) opening_dirs_ok middle_dirs_ok dir_endif_ok in blast)+
qed

lemma identifier_step_ok:
  assumes "state_ok st" and "identifier_step env st = Inr st'"
  shows "state_ok st'"
proof -
  have t: "table_ok (macros st)" using assms(1) by (simp add: state_ok_def)
  have "same_conds st st1 \<and> table_ok (macros st1)" if "ident_pragma env st r = Inr st1" for r st1
    using that t by (auto simp: ident_pragma_def Let_def same_conds_def split: if_split_asm prod.split_asm)
  moreover have "same_conds st st1 \<and> table_ok (macros st1)" if "ident_macro env st n r = Inr st1" for n r st1
    using that t by (auto simp: ident_macro_def Let_def same_conds_def map_result_eq_Inr
        split: if_split_asm option.split_asm prod.split_asm)
  ultimately have "same_conds st st' \<and> table_ok (macros st')"
    using assms(2) t by (fastforce simp: identifier_step_def Let_def map_result_eq_Inr same_conds_def split: if_split_asm)
  with assms(1) show ?thesis by (auto intro: state_ok_same)
qed

text \<open>What a round of the loop can be.\<close>

lemma pp_step_cases:
  assumes "pp_step inc env st = Inr st'"
  obtains (newline) "st' = newline_step st"
  | (copy) x r b where "st' = emit x (st\<lparr>input := r, line_has_content := b\<rparr>)"
  | (skip) r where "st' = st\<lparr>input := r\<rparr>"
  | (comment) "comment_step st = Inr st'"
  | (directive) s where "directive inc env st s = Inr st'"
  | (ident) "identifier_step env st = Inr st'"
proof -
  have blank: "st\<lparr>input := r\<rparr> = st\<lparr>input := r, line_has_content := line_has_content st\<rparr>" for r by simp
  show thesis
    using assms unfolding pp_step_def Let_def
    by (simp only: sum.inject split: if_split_asm) (metis newline copy skip comment directive ident blank)+
qed

lemma pp_step_ok:
  assumes "include_ok inc" and "state_ok st" and "pp_step inc env st = Inr st'"
  shows "state_ok st'"
  using assms(3)
proof (cases rule: pp_step_cases)
  case comment
  with assms(2) show ?thesis by (auto simp: comment_step_def state_ok_def split: option.split_asm)
next
  case (directive s)
  with directive_ok [OF assms(1,2)] show ?thesis .
next
  case ident
  with identifier_step_ok [OF assms(2)] show ?thesis .
qed (use assms(2) in \<open>simp_all add: newline_step_def state_ok_def\<close>)

lemma pp_loop_ok:
  assumes inc: "include_ok inc"
  shows "state_ok st \<Longrightarrow> pp_loop inc env st = Inr st' \<Longrightarrow> state_ok st' \<and> input st' = []"
proof (induction "length (input st)" arbitrary: st rule: less_induct)
  case less
  show ?case
  proof (cases "input st = []")
    case True
    with less.prems show ?thesis by (simp add: pp_loop.simps)
  next
    case False
    with less.prems(2) obtain st1 where st1: "pp_step inc env st = Inr st1" "pp_loop inc env st1 = Inr st'"
      by (subst (asm) pp_loop.simps) (auto simp: and_then_eq_Inr)
    show ?thesis using less.hyps [OF pp_step_shrinks [OF st1(1) False] pp_step_ok [OF inc less.prems(1) st1(1)] st1(2)] .
  qed
qed

lemma start_state_ok: "table_ok ms \<Longrightarrow> state_ok (start_state s ms g)"
  by (simp add: state_ok_def start_state_def)

lemma preprocess_internal_ok:
  "table_ok ms \<Longrightarrow> preprocess_internal fs dirs stk depth s p ms g = Inr (x, ms', g') \<Longrightarrow> table_ok ms'"
proof (induction "Suc MAX_INCLUDE_DEPTH - depth" arbitrary: depth s p ms g x ms' g' rule: less_induct)
  case less
  then have d: "\<not> depth > MAX_INCLUDE_DEPTH" by (auto simp: preprocess_internal.simps [of _ _ _ depth])
  let ?inc = "preprocess_file (preprocess_internal fs dirs stk (depth + 1)) fs"
  have inc: "include_ok ?inc"
    unfolding include_ok_def
  proof (intro allI impI)
    fix q ms g y ms1 g1
    assume t: "table_ok ms" and run: "?inc q ms g = Inr (y, ms1, g1)"
    show "table_ok ms1"
    proof (cases "fs q")
      case (Some buf)
      with run consider "ms1 = ms" | "preprocess_internal fs dirs stk (depth + 1) buf (Some q) ms g = Inr (y, ms1, g1)"
        by (auto simp: preprocess_file_def split: if_split_asm)
      then show ?thesis using t less.hyps [of "depth + 1"] d by cases auto
    qed (use t run in \<open>auto simp: preprocess_file_def split: if_split_asm\<close>)
  qed
  obtain st where run: "pp_loop ?inc \<lparr>env_files = fs, env_dirs = dirs, env_path = p, env_stack = stk\<rparr> (start_state s ms g) = Inr st"
    and ms': "ms' = macros st"
    using less.prems(2) d by (subst (asm) preprocess_internal.simps) (auto simp: and_then_eq_Inr split: if_split_asm)
  from pp_loop_ok [OF inc start_state_ok [OF less.prems(1)] run] show ?case by (simp add: state_ok_def ms')
qed

text \<open>
  (C14) Every round of the preprocessor's loop keeps the invariant of its state: the flag that
  says whether text is emitted agrees with the innermost conditional, an active branch lies
  in active text, at most 64 conditionals are open, and the macro names are distinct.
\<close>

theorem pp_step_keeps_invariant:
  assumes "include_ok inc" and "state_ok st" and "pp_step inc env st = Inr st'"
  shows "state_ok st'"
  by (rule pp_step_ok [OF assms])

definition sample_env :: pp_env where
  "sample_env = \<lparr>env_files = Map.empty, env_dirs = [], env_path = Some ''a.c'', env_stack = 9\<rparr>"

definition sample_state :: pp_state where
  "sample_state = start_state (''#ifdef X'' @ [LF] @ ''y'') macro_table_init no_context"

lemma sample_state_step:
  "pp_step (\<lambda>p ms g. Inr ([], ms, g)) sample_env sample_state =
   Inr (push_cond (sample_state\<lparr>input := LF # ''y''\<rparr>) False)"
  by code_simp

theorem pp_step_keeps_invariant_witness:
  "state_ok (push_cond (sample_state\<lparr>input := LF # ''y''\<rparr>) False)"
  by (rule pp_step_keeps_invariant [OF _ _ sample_state_step])
     (simp_all add: include_ok_def sample_state_def start_state_ok)

subsection \<open>Inactive text\<close>

lemma directive_inactive:
  assumes "\<not> emitting st" and "directive inc env st s = Inr st'"
  shows "macros st' = macros st \<and> gctx st' = gctx st \<and> out st' = out st \<and>
    current_line st' = current_line st"
proof -
  have ops: "macros (push_cond st1 c) = macros st1" "gctx (push_cond st1 c) = gctx st1" "out (push_cond st1 c) = out st1"
    "current_line (push_cond st1 c) = current_line st1" "macros (set_top st1 f fs) = macros st1"
    "gctx (set_top st1 f fs) = gctx st1" "out (set_top st1 f fs) = out st1" "current_line (set_top st1 f fs) = current_line st1"
    for st1 c f fs by (simp_all add: push_cond_def set_top_def)
  show ?thesis
    using assms unfolding directive_def
    by (auto simp: dir_ifdef_def dir_ifndef_def dir_if_def dir_elifdef_def dir_elifndef_def dir_elif_def dir_else_def
        dir_endif_def Let_def map_result_eq_Inr ops split: if_split_asm list.split_asm)
qed

text \<open>
  (C19) Text in an inactive branch has no effect: a round of the loop there writes nothing but
  line ends, and it neither includes a file nor changes a macro; in particular \<^verbatim>\<open>#define\<close>,
  \<^verbatim>\<open>#undef\<close>, \<^verbatim>\<open>#line\<close> and \<^verbatim>\<open>#error\<close> are ignored there.
\<close>

theorem inactive_text_is_silent:
  assumes "\<not> emitting st" and "pp_step inc env st = Inr st'"
  shows "macros st' = macros st \<and> gctx st' = gctx st \<and> (\<exists>n. out st' = out st @ replicate n LF)"
  using assms(2)
proof (cases rule: pp_step_cases)
  case newline
  then show ?thesis by (auto simp: newline_step_def intro: exI [of _ 1])
next
  case comment
  then show ?thesis using assms(1) by (auto simp: comment_step_def split: option.split_asm)
next
  case (directive s)
  then show ?thesis using directive_inactive [OF assms(1)] by (auto intro: exI [of _ 0])
next
  case ident
  then show ?thesis using assms(1) by (auto simp: identifier_step_def Let_def intro: exI [of _ 0])
qed (use assms(1) in \<open>auto intro: exI [of _ 0]\<close>)

theorem inactive_text_is_silent_witness:
  "macros (sample_state\<lparr>emitting := False, input := ''x''\<rparr>) = macros sample_state \<and>
   (\<exists>st'. pp_step (\<lambda>p ms g. Inr ([], ms, g)) sample_env (sample_state\<lparr>emitting := False, input := ''1x''\<rparr>) = Inr st' \<and>
      macros st' = macros sample_state)"
proof -
  have "pp_step (\<lambda>p ms g. Inr ([], ms, g)) sample_env (sample_state\<lparr>emitting := False, input := ''1x''\<rparr>) =
      Inr (sample_state\<lparr>emitting := False, input := ''x'', line_has_content := True\<rparr>)" by code_simp
  moreover from inactive_text_is_silent [OF _ this]
  have "macros (sample_state\<lparr>emitting := False, input := ''x'', line_has_content := True\<rparr>) = macros sample_state" by simp
  ultimately show ?thesis by auto
qed

subsection \<open>One branch of a conditional is taken\<close>

text \<open>
  A conditional with the conditions \<open>c # cs\<close>, up to the last of them: the frame opened by the
  first, updated by the others.
\<close>

definition branch_frame :: "bool \<Rightarrow> bool \<Rightarrow> bool list \<Rightarrow> CondFrame" where
  "branch_frame e c cs =
     foldl elif_update \<lparr>cf_emitting = (e \<and> c), parent_emitting = e, seen_else = False, branch_taken = (e \<and> c)\<rparr> cs"

lemma branch_frame_snoc: "branch_frame e c (cs @ [b]) = elif_update (branch_frame e c cs) b"
  by (simp add: branch_frame_def)

lemma branch_frame_taken:
  "parent_emitting (branch_frame e c cs) = e \<and> branch_taken (branch_frame e c cs) = (e \<and> True \<in> set (c # cs))"
proof (induction cs rule: rev_induct)
  case Nil
  show ?case by (simp add: branch_frame_def)
next
  case (snoc b cs)
  then show ?case by (cases e; cases b; cases "True \<in> set (c # cs)") (simp_all add: branch_frame_snoc elif_update_def)
qed

lemma branch_frame_emitting:
  "cf_emitting (branch_frame e c cs) = (e \<and> last (c # cs) \<and> True \<notin> set (butlast (c # cs)))"
proof (cases cs rule: rev_cases)
  case Nil
  then show ?thesis by (simp add: branch_frame_def)
next
  case (snoc ds b)
  have "butlast (c # ds @ [b]) = c # ds" "last (c # ds @ [b]) = b" by simp_all
  moreover have "cf_emitting (elif_update (branch_frame e c ds) b) = (e \<and> b \<and> True \<notin> set (c # ds))"
    if "\<not> e \<Longrightarrow> \<not> cf_emitting (branch_frame e c ds)"
    using that branch_frame_taken [of e c ds]
    by (cases e; cases b; cases "True \<in> set (c # ds)") (simp_all add: elif_update_def)
  moreover have "\<not> e \<Longrightarrow> \<not> cf_emitting (branch_frame e c ds)"
  proof (induction ds rule: rev_induct)
    case (snoc d ds)
    then show ?case using branch_frame_taken [of e c ds] by (simp add: branch_frame_snoc elif_update_def)
  qed (simp add: branch_frame_def)
  ultimately show ?thesis unfolding snoc branch_frame_snoc by metis
qed

text \<open>
  (C17) Of the branches of a conditional, exactly the first whose condition holds is emitted,
  and the \<^verbatim>\<open>#else\<close> branch exactly if none does; in inactive text none is. The frame that
  \<^verbatim>\<open>#if\<close> pushes and the \<^verbatim>\<open>#elif\<close> updates say so, and \<^verbatim>\<open>#endif\<close> restores what was before.
\<close>

theorem conditional_takes_first_branch:
  "cond_stack (push_cond st c) = branch_frame (emitting st) c [] # cond_stack st \<and>
   cf_emitting (branch_frame e c cs) = (e \<and> last (c # cs) \<and> True \<notin> set (butlast (c # cs))) \<and>
   cf_emitting (else_update (branch_frame e c cs)) = (e \<and> True \<notin> set (c # cs)) \<and>
   elif_update (branch_frame e c cs) d = branch_frame e c (cs @ [d])"
proof -
  have "cf_emitting (else_update (branch_frame e c cs)) = (e \<and> True \<notin> set (c # cs))"
    using branch_frame_taken [of e c cs] branch_frame_emitting [of e c cs]
    by (cases e) (simp_all add: else_update_def Let_def)
  then show ?thesis
    unfolding branch_frame_emitting branch_frame_snoc [symmetric]
    by (simp add: push_cond_def branch_frame_def)
qed

end
