(* ===== verification/Preprocessor_Text.thy ===== *)
theory Preprocessor_Text
  imports Preprocessor_Props
begin

section \<open>The preprocessor on whole texts\<close>

subsection \<open>Text without directives and macros\<close>

definition no_macro :: "MacroTable \<Rightarrow> string \<Rightarrow> bool" where
  "no_macro t n \<longleftrightarrow> macro_find t n = None \<and> n \<noteq> ''__FILE__'' \<and> n \<noteq> ''__LINE__'' \<and> n \<noteq> ''_Pragma''"

definition plain_text :: "MacroTable \<Rightarrow> string \<Rightarrow> bool" where
  "plain_text t s \<longleftrightarrow> CHR ''#'' \<notin> set s \<and> CHR ''/'' \<notin> set s \<and> list_all (no_macro t) (idents s)"

text \<open>A round of the loop on such text copies its next piece.\<close>

lemma plain_step:
  assumes "plain_text (macros st) (input st)" and "input st \<noteq> []" and "emitting st"
  shows "\<exists>st' x. pp_step inc env st = Inr st' \<and> input st = x @ input st' \<and> out st' = out st @ x \<and>
     plain_text (macros st) (input st') \<and> macros st' = macros st \<and> gctx st' = gctx st \<and>
     cond_stack st' = cond_stack st \<and> emitting st'"
proof -
  obtain c u where s: "input st = c # u" using assms(2) by (cases "input st") auto
  have plain: "CHR ''#'' \<notin> set u" "CHR ''/'' \<notin> set u" "c \<noteq> CHR ''#''" "c \<noteq> CHR ''/''"
    "list_all (no_macro (macros st)) (idents (c # u))"
    using assms(1) by (auto simp: s plain_text_def)
  consider (newline) "c = LF" | (space) "c \<noteq> LF" "is_space c"
    | (lit) "c = DQUOTE \<or> c = QUOTE" | (idn) "c \<noteq> DQUOTE \<and> c \<noteq> QUOTE" "ident_start c" "c \<noteq> LF" "\<not> is_space c"
    | (chr) "c \<noteq> DQUOTE \<and> c \<noteq> QUOTE" "\<not> ident_start c" "c \<noteq> LF" "\<not> is_space c" by blast
  then show ?thesis
  proof cases
    case newline
    then have "plain_text (macros st) u" using plain by (simp add: plain_text_def idents_char ctypes)
    then show ?thesis using newline assms(3) by (simp add: pp_step_def s newline_step_def)
  next
    case space
    then have "c \<noteq> DQUOTE \<and> c \<noteq> QUOTE" "\<not> ident_start c" by (auto simp: ctypes)
    then have "plain_text (macros st) u" using plain by (simp add: plain_text_def idents_char)
    then show ?thesis using space assms(3) by (simp add: pp_step_def s emit_def put_def)
  next
    case lit
    let ?l = "fst (literal_tail c u)" and ?r = "snd (literal_tail c u)"
    have u: "u = ?l @ ?r" by (rule literal_tail_snd)
    then have "set ?r \<subseteq> set u" by (metis set_append sup_ge2)
    then have "plain_text (macros st) ?r" using plain lit by (auto simp: plain_text_def idents_literal)
    moreover have "pp_step inc env st = Inr (emit (c # ?l) (st\<lparr>input := ?r, line_has_content := True\<rparr>))"
      using lit by (auto simp: pp_step_def s ctypes)
    ultimately show ?thesis using u assms(3) by (intro exI [of _ "emit (c # ?l) (st\<lparr>input := ?r, line_has_content := True\<rparr>)"]
          exI [of _ "c # ?l"]) (simp add: s)
  next
    case idn
    let ?n = "ident_at (c # u)" and ?r = "after_ident (c # u)"
    have u: "c # u = ?n @ ?r" by simp
    then have "set ?r \<subseteq> set (c # u)" by (metis set_append sup_ge2)
    then have "plain_text (macros st) ?r" using plain by (auto simp: plain_text_def idents_ident [OF idn(1,2)])
    moreover have "no_macro (macros st) ?n" using plain(5) by (simp add: idents_ident [OF idn(1,2)])
    then have "pp_step inc env st = Inr (put ?n (st\<lparr>input := ?r\<rparr>)\<lparr>line_has_content := True\<rparr>)"
      using idn plain(3,4) assms(3)
      by (simp add: pp_step_def s identifier_step_def ident_macro_def no_macro_def Let_def)
    ultimately show ?thesis using u assms(3)
      by (intro exI [of _ "put ?n (st\<lparr>input := ?r\<rparr>)\<lparr>line_has_content := True\<rparr>"] exI [of _ ?n]) (simp add: s)
  next
    case chr
    then have "plain_text (macros st) u" using plain by (simp add: plain_text_def idents_char)
    then show ?thesis using chr assms(3) plain(3,4) by (simp add: pp_step_def s emit_def put_def)
  qed
qed

lemma plain_loop:
  "plain_text (macros st) (input st) \<Longrightarrow> emitting st \<Longrightarrow>
   \<exists>st'. pp_loop inc env st = Inr st' \<and> out st' = out st @ input st \<and> macros st' = macros st \<and> gctx st' = gctx st \<and>
     cond_stack st' = cond_stack st"
proof (induction "length (input st)" arbitrary: st rule: less_induct)
  case less
  show ?case
  proof (cases "input st = []")
    case True
    then show ?thesis by (simp add: pp_loop.simps)
  next
    case False
    from plain_step [OF less.prems(1) False less.prems(2), of inc env] obtain st1 x
      where 1: "pp_step inc env st = Inr st1" "input st = x @ input st1" "out st1 = out st @ x"
        "plain_text (macros st1) (input st1)" "macros st1 = macros st" "gctx st1 = gctx st"
        "cond_stack st1 = cond_stack st" "emitting st1"
      by auto
    from less.hyps [OF pp_step_shrinks [OF 1(1) False] 1(4,8)] obtain st'
      where "pp_loop inc env st1 = Inr st'" "out st' = out st1 @ input st1" "macros st' = macros st1"
        "gctx st' = gctx st1" "cond_stack st' = cond_stack st1" by blast
    with 1 False show ?thesis by (subst pp_loop.simps) simp
  qed
qed

text \<open>
  (C21) A text in which nothing is left to do is not touched: without line continuations,
  directives, comments and macro names outside literals, the output of the preprocessor is its
  input, and the macro table is as before.
\<close>

theorem plain_text_unchanged:
  assumes "depth \<le> MAX_INCLUDE_DEPTH" and "NUL \<notin> set s" and "splice_lines s = s" and "plain_text ms s"
  shows "preprocess_internal fs dirs stk depth s path ms g = Inr (s, ms, g)"
proof -
  have "c_text s = s" using assms(2) by (auto simp: c_text_def takeWhile_eq_all_conv)
  then have i: "input (start_state s ms g) = s" "macros (start_state s ms g) = ms" "emitting (start_state s ms g)"
    "out (start_state s ms g) = []" "gctx (start_state s ms g) = g" "cond_stack (start_state s ms g) = []"
    using assms(3) by (simp_all add: start_state_def)
  obtain st' where "pp_loop (preprocess_file (preprocess_internal fs dirs stk (depth + 1)) fs)
      \<lparr>env_files = fs, env_dirs = dirs, env_path = path, env_stack = stk\<rparr> (start_state s ms g) = Inr st'"
    "out st' = s" "macros st' = ms" "gctx st' = g" "cond_stack st' = []"
    using plain_loop [of "start_state s ms g"] assms(4) i by auto
  with assms(1) show ?thesis by (subst preprocess_internal.simps) simp
qed

theorem plain_text_unchanged_witness:
  "preprocess_internal Map.empty [] 9 0 ''int x;'' None macro_table_init no_context = Inr (''int x;'', macro_table_init, no_context)"
  by (rule plain_text_unchanged)
     (simp_all add: splice_lines.simps plain_text_def idents.simps ident_at_def after_ident_def ctypes no_macro_def)

subsection \<open>Recursive includes\<close>

text \<open>A first line that includes a file, by a name that can stand between quotes.\<close>

definition include_line :: "string \<Rightarrow> string" where
  "include_line w = ''#include '' @ [DQUOTE] @ w @ [DQUOTE, LF]"

definition quotable :: "string \<Rightarrow> bool" where
  "quotable w \<longleftrightarrow> list_all (\<lambda>c. c \<noteq> NUL \<and> c \<noteq> LF \<and> c \<noteq> DQUOTE \<and> c \<noteq> BACKSLASH) w"

lemma splice_lines_plain: "BACKSLASH \<notin> set x \<Longrightarrow> splice_lines (x @ u) = x @ splice_lines u"
  by (induction x) (auto simp: splice_lines.simps [of "_ # _"])

lemma takeWhile_no_NUL: "NUL \<notin> set x \<Longrightarrow> takeWhile (\<lambda>c. c \<noteq> NUL) (x @ u) = x @ takeWhile (\<lambda>c. c \<noteq> NUL) u"
  by (induction x) auto

lemma include_line_input:
  assumes "quotable w"
  shows "input (start_state (include_line w @ r) ms g) = include_line w @ splice_lines (c_text r)"
proof -
  have "NUL \<notin> set (include_line w)" "BACKSLASH \<notin> set (include_line w)"
    using assms by (auto simp: include_line_def quotable_def list_all_iff)
  then show ?thesis
    by (simp add: start_state_def c_text_def takeWhile_no_NUL splice_lines_plain)
qed

lemma include_line_step:
  assumes q: "resolve_include_path fs w path dirs = Some q" and w: "quotable w"
    and st: "input st = include_line w @ u" "emitting st" "\<not> line_has_content st"
  shows "\<exists>x. pp_step inc \<lparr>env_files = fs, env_dirs = dirs, env_path = path, env_stack = stk\<rparr> st =
    splice_include inc \<lparr>env_files = fs, env_dirs = dirs, env_path = path, env_stack = stk\<rparr> q (st\<lparr>input := x\<rparr>)"
proof -
  have hspace: "skip_hspace (CHR ''i'' # v) = CHR ''i'' # v" "skip_hspace (CHR '' '' # DQUOTE # v) = DQUOTE # v" for v
    by (simp_all add: skip_hspace_def is_blank_def)
  have name: "takeWhile (\<lambda>c. c \<noteq> DQUOTE \<and> c \<noteq> LF) (w @ DQUOTE # v) = w" for v
    using w by (simp add: quotable_def list_all_iff takeWhile_append2)
  show ?thesis
    using st q
    by (simp add: pp_step_def include_line_def directive_def dir_include_def is_word_def Let_def ctypes hspace name)
      blast
qed

text \<open>
  (C34) Files that include each other round and round are reported: for a set of files each of
  which begins with the inclusion of a file of the set, none of them marked to be read once, the
  preprocessor stops on every one of them, from whatever depth, with the message on the include
  depth, whatever the rest of the files says. A file that includes itself is the set of one.
\<close>

theorem recursive_include_is_reported:
  assumes "\<forall>p \<in> F. \<exists>w r q. fs p = Some (include_line w @ r) \<and> quotable w \<and>
      resolve_include_path fs w (Some p) dirs = Some q \<and> q \<in> F \<and> \<not> macro_table_is_once ms q"
    and "p \<in> F" and "fs p = Some src"
  shows "preprocess_internal fs dirs stk depth src (Some p) ms g =
     Inl (Message ''maximum include depth exceeded (possible recursive include)'')"
  using assms(2,3)
proof (induction "Suc MAX_INCLUDE_DEPTH - depth" arbitrary: depth p src)
  case 0
  then show ?case by (simp add: preprocess_internal.simps)
next
  case (Suc n)
  let ?inc = "preprocess_file (preprocess_internal fs dirs stk (depth + 1)) fs"
  let ?st = "start_state src ms g"
  obtain w r q where w: "src = include_line w @ r" "quotable w" "resolve_include_path fs w (Some p) dirs = Some q"
    "q \<in> F" "\<not> macro_table_is_once ms q"
    using bspec [OF assms(1) Suc.prems(1)] Suc.prems(2) by fastforce
  have st: "input ?st = include_line w @ splice_lines (c_text r)" "emitting ?st" "\<not> line_has_content ?st" "macros ?st = ms" "gctx ?st = g"
    using include_line_input [OF w(2)] w(1) by (simp_all add: start_state_def)
  then have ne: "input ?st \<noteq> []" by (simp add: include_line_def)
  obtain src' where "fs q = Some src'" using assms(1) w(4) by blast
  then have "?inc q ms g = Inl (Message ''maximum include depth exceeded (possible recursive include)'')"
    using Suc.hyps(1) [of "depth + 1" q src'] Suc.hyps(2) w(4,5) by (simp add: preprocess_file_def)
  moreover obtain x where "pp_step ?inc \<lparr>env_files = fs, env_dirs = dirs, env_path = Some p, env_stack = stk\<rparr> ?st =
      splice_include ?inc \<lparr>env_files = fs, env_dirs = dirs, env_path = Some p, env_stack = stk\<rparr> q (?st\<lparr>input := x\<rparr>)"
    using include_line_step [OF w(3,2) st(1-3)] by blast
  ultimately have "pp_step ?inc \<lparr>env_files = fs, env_dirs = dirs, env_path = Some p, env_stack = stk\<rparr> ?st =
      Inl (Message ''maximum include depth exceeded (possible recursive include)'')"
    using st(4,5) by (simp add: splice_include_def)
  then show ?case
    using Suc.hyps(2) ne by (subst preprocess_internal.simps) (simp add: pp_loop.simps [of _ _ ?st])
qed

text \<open>Two headers that include each other.\<close>

definition sample_cycle :: "string \<Rightarrow> string option" where
  "sample_cycle p = (if p = ''./a.h'' then Some (include_line ''b.h'' @ ''int a;'')
     else if p = ''./b.h'' then Some (include_line ''a.h'' @ ''int b;'') else None)"

theorem recursive_include_is_reported_witness:
  "preprocess_internal sample_cycle [] 9 0 (include_line ''b.h'' @ ''int a;'') (Some ''./a.h'') macro_table_init no_context =
     Inl (Message ''maximum include depth exceeded (possible recursive include)'')"
proof (rule recursive_include_is_reported [of "{''./a.h'', ''./b.h''}"])
  have "resolve_include_path sample_cycle ''b.h'' (Some ''./a.h'') [] = Some ''./b.h''"
    "resolve_include_path sample_cycle ''a.h'' (Some ''./b.h'') [] = Some ''./a.h''" by code_simp+
  moreover have "quotable ''a.h''" "quotable ''b.h''" by (simp_all add: quotable_def)
  moreover have "\<not> macro_table_is_once macro_table_init q" for q by (simp add: macro_table_is_once_def macro_table_init_def)
  ultimately show "\<forall>p \<in> {''./a.h'', ''./b.h''}. \<exists>w r q. sample_cycle p = Some (include_line w @ r) \<and> quotable w \<and>
      resolve_include_path sample_cycle w (Some p) [] = Some q \<and> q \<in> {''./a.h'', ''./b.h''} \<and> \<not> macro_table_is_once macro_table_init q"
    by (fastforce simp: sample_cycle_def)
qed (simp_all add: sample_cycle_def)

subsection \<open>Where the preprocessor departs from C\<close>

text \<open>
  In a condition \<^verbatim>\<open>__LINE__\<close> is not the current line: the globals that the expander reads
  are set only when a macro is used in ordinary text, so on the first line \<^verbatim>\<open>#if __LINE__\<close> takes
  the value 0 and drops its branch.
\<close>

lemma condition_line_is_stale:
  "preprocess_internal Map.empty [] 9 0 (''#if __LINE__'' @ [LF] @ ''x'' @ [LF] @ ''#endif'' @ [LF]) None macro_table_init no_context
   = Inr ([LF, LF, LF], macro_table_init, no_context)"
  by code_simp

text \<open>
  A line comment that begins with \<^verbatim>\<open>//*\<close> is read as the start of a block comment and takes
  the following lines with it.
\<close>

lemma line_comment_swallows_lines:
  "preprocess_internal Map.empty [] 9 0 (''x //* y'' @ [LF] @ ''z'' @ [LF] @ ''*/ w'' @ [LF] @ ''v'') None macro_table_init no_context
   = Inr (''x '' @ [LF] @ ''v'', macro_table_init, no_context)"
  by code_simp

end
