(* ===== verification/Ast_Print.thy ===== *)
theory Ast_Print
  imports Ast "HOL-Library.Monad_Syntax"
begin

section \<open>The tree dump: \<^verbatim>\<open>src/ast_pretty_printer.c\<close>\<close>

text \<open>
  What \<^verbatim>\<open>--print-ast\<close> writes. The result is \<^const>\<open>None\<close> where the code dereferences a null
  pointer, reads behind a buffer or follows a cycle of pointer types; \<open>ast_print_returns\<close> says
  when that cannot happen. \<^verbatim>\<open>%s\<close> prints a string up to its first zero byte, and the null
  pointer as the C library does.
\<close>

definition c_str :: "string option \<Rightarrow> string" where
  "c_str v = (case v of None \<Rightarrow> ''(null)'' | Some s \<Rightarrow> takeWhile (\<lambda>c. c \<noteq> NUL) s)"

definition operator_name :: "string \<Rightarrow> string" where
  "operator_name op =
     (if op = ''+'' then ''ADD''
      else if op = ''-'' then ''SUBTRACT''
      else if op = ''*'' then ''MULTIPLY''
      else if op = ''/'' then ''DIVIDE''
      else if op = ''=='' then ''EQUAL''
      else if op = ''!='' then ''NOTEQUAL''
      else if op = ''<'' then ''LESSTHAN''
      else if op = ''<='' then ''LESSTHANOREQUAL''
      else if op = ''>'' then ''GREATERTHAN''
      else if op = ''>='' then ''GREATERTHANOREQUAL''
      else if op = ''!'' then ''NOT''
      else if op = ''&&'' then ''AND''
      else if op = ''||'' then ''OR''
      else if op = ''&'' then ''BITAND''
      else if op = ''^'' then ''BITXOR''
      else if op = ''|'' then ''BITOR''
      else if op = ''++'' then ''INCREMENT''
      else if op = ''--'' then ''DECREMENT''
      else op)"

definition ast_print_indent :: "nat \<Rightarrow> string" where
  "ast_print_indent depth = replicate (depth * 2) (CHR '' '')"

definition ast_print_decl_qualifiers :: "ast_info \<Rightarrow> string" where
  "ast_print_decl_qualifiers i =
     (if storage_class i = SC_EXTERN then ''extern ''
      else if storage_class i = SC_STATIC then ''static ''
      else if storage_class i = SC_AUTO then ''auto ''
      else if storage_class i = SC_REGISTER then ''register ''
      else [])
     @ (if is_const i then ''const '' else [])
     @ (if is_unsigned i then ''unsigned '' else [])"

partial_function (option) ast_print_type :: "type_heap \<Rightarrow> type_ptr option \<Rightarrow> string option" where
  "ast_print_type h t =
     (case t of
        None \<Rightarrow> Some []
      | Some p \<Rightarrow>
          if p \<ge> length h then None
          else if ty_kind (h ! p) = TYPE_POINTER
          then do { s \<leftarrow> ast_print_type h (ty_base (h ! p)); Some (s @ ''*'') }
          else Some (type_kind_name (ty_kind (h ! p)) @ '' ''))"

text \<open>The declarations: a pointer chain is printed as such, everything else by its kind.\<close>

definition print_decl :: "type_heap \<Rightarrow> ast_info \<Rightarrow> string option" where
  "print_decl h i =
     (if decl_type i = TYPE_POINTER \<and> full_type i \<noteq> None
      then do { s \<leftarrow> ast_print_type h (full_type i); Some (ast_print_decl_qualifiers i @ s @ c_str (nvalue i)) }
      else Some (ast_print_decl_qualifiers i @ type_kind_name (decl_type i) @ '' '' @ c_str (nvalue i)))"

definition print_variable :: "type_heap \<Rightarrow> ast_info \<Rightarrow> string option" where
  "print_variable h i =
     (case (decl_type i, full_type i) of
        (TYPE_ARRAY, Some p) \<Rightarrow>
          if p \<ge> length h then None
          else do {
            s \<leftarrow> ast_print_type h (ty_base (h ! p));
            Some (ast_print_decl_qualifiers i @ s @ c_str (nvalue i) @ ''['' @ show_int (ty_length (h ! p)) @ '']'') }
      | _ \<Rightarrow> print_decl h i)"

text \<open>
  The byte of a character literal and the bytes of a string literal, as they are written in
  source. The quote that delimits the other kind of literal is escaped in the first only.
\<close>

definition escape_byte :: "char \<Rightarrow> string" where
  "escape_byte b =
     (if b = LF then [BACKSLASH, CHR ''n'']
      else if b = CHR 0x09 then [BACKSLASH, CHR ''t'']
      else if b = CHR 0x0D then [BACKSLASH, CHR ''r'']
      else if b = BACKSLASH then [BACKSLASH, BACKSLASH]
      else if b = DQUOTE then [BACKSLASH, DQUOTE]
      else if b = NUL then [BACKSLASH, CHR ''0'']
      else [b])"

definition char_literal_byte :: "char \<Rightarrow> string" where
  "char_literal_byte b = (if b = QUOTE then [BACKSLASH, QUOTE] else escape_byte b)"

text \<open>A text of \<open>n\<close> bytes sits in \<open>n + 1\<close> bytes of memory, with a zero at the end.\<close>

definition print_string :: "string option \<Rightarrow> int \<Rightarrow> string option" where
  "print_string v n =
     (if n \<le> 0 then Some []
      else case v of
        None \<Rightarrow> None
      | Some s \<Rightarrow>
          if nat n \<le> length s + 1 then Some (concat (map (\<lambda>k. escape_byte (c_at s k)) [0..<nat n])) else None)"

definition print_operator :: "string \<Rightarrow> string option \<Rightarrow> string option" where
  "print_operator label v =
     (case v of None \<Rightarrow> None | Some op \<Rightarrow> Some (label @ operator_name (takeWhile (\<lambda>c. c \<noteq> NUL) op)))"

text \<open>The line of one node, without its indentation and its line end; \<open>cs\<close> are the children.\<close>

fun node_line :: "type_heap \<Rightarrow> ast_info \<Rightarrow> ASTNode option list \<Rightarrow> string option" where
  "node_line h i cs =
     (case ntype i of
        AST_TRANSLATION_UNIT \<Rightarrow> Some ''TranslationUnit:''
      | AST_FUNCTION_DECL \<Rightarrow> map_option ((@) ''FunctionDecl: '') (print_decl h i)
      | AST_PARAM \<Rightarrow> map_option ((@) ''Parameter: '') (print_decl h i)
      | AST_BLOCK \<Rightarrow> Some ''Block''
      | AST_DECL_LIST \<Rightarrow> Some ''DeclList:''
      | AST_DECLARATION \<Rightarrow> map_option ((@) ''VariableDeclaration: '') (print_variable h i)
      | AST_RETURN_STATEMENT \<Rightarrow> Some ''ReturnStmt:''
      | AST_INT_LITERAL \<Rightarrow> Some (''IntLiteral: '' @ c_str (nvalue i))
      | AST_FLOAT_LITERAL \<Rightarrow> Some (''FloatLiteral: '' @ c_str (nvalue i))
      | AST_CHAR_LITERAL \<Rightarrow>
          (case nvalue i of
             None \<Rightarrow> None
           | Some v \<Rightarrow> Some (''CharLiteral: '' @ [QUOTE] @ char_literal_byte (c_at v 0) @ [QUOTE]
               @ '' ('' @ show_nat (code (c_at v 0)) @ '')''))
      | AST_STRING_LITERAL \<Rightarrow>
          map_option (\<lambda>s. ''StringLiteral: '' @ [DQUOTE] @ s @ [DQUOTE] @ '' (length '' @ show_int (byte_length i) @ '')'')
            (print_string (nvalue i) (byte_length i))
      | AST_VAR_REF \<Rightarrow> Some (''VariableExpression: '' @ c_str (nvalue i))
      | AST_BINARY_OP \<Rightarrow> print_operator ''Binary: '' (nvalue i)
      | AST_UNARY_OP \<Rightarrow> print_operator ''Unary: '' (nvalue i)
      | AST_ASSIGNMENT \<Rightarrow>
          Some (case nvalue i of
                  None \<Rightarrow> ''Assignment:''
                | Some v \<Rightarrow> if c_at v 0 = NUL then ''Assignment:'' else ''Assignment: '' @ c_str (Some v))
      | AST_EXPRESSION_STMT \<Rightarrow> Some ''ExpressionStatement''
      | AST_IF_STATEMENT \<Rightarrow> Some ''IfStmt:''
      | AST_WHILE_STATEMENT \<Rightarrow> Some ''WhileStmt:''
      | AST_DO_WHILE_STATEMENT \<Rightarrow> Some ''DoWhileStmt:''
      | AST_FOR_STATEMENT \<Rightarrow> Some ''ForStmt:''
      | AST_SWITCH_STATEMENT \<Rightarrow> Some ''SwitchStmt:''
      | AST_DEFAULT_SECTION \<Rightarrow> Some ''DefaultSection:''
      | AST_CASE_SECTION \<Rightarrow>
          (case cs of Some c # _ \<Rightarrow> Some (''CaseSection: '' @ c_str (nvalue (info c))) | _ \<Rightarrow> None)
      | AST_BREAK_STATEMENT \<Rightarrow> Some ''BreakStmt''
      | AST_CONTINUE_STATEMENT \<Rightarrow> Some ''ContinueStmt''
      | AST_GOTO_STATEMENT \<Rightarrow> Some (''GotoStmt: '' @ c_str (nvalue i))
      | AST_LABEL_STATEMENT \<Rightarrow> Some (''LabelStmt: '' @ c_str (nvalue i))
      | AST_PREFIX_INC_DEC \<Rightarrow> print_operator ''PrefixIncDec: '' (nvalue i)
      | AST_POSTFIX_INC_DEC \<Rightarrow> print_operator ''PostfixIncDec: '' (nvalue i)
      | AST_FUNCTION_CALL \<Rightarrow> Some (''FunctionCall: '' @ c_str (nvalue i))
      | AST_INDIRECT_CALL \<Rightarrow> Some ''IndirectCall:''
      | AST_CAST \<Rightarrow> Some (''Cast: '' @ type_kind_name (decl_type i))
      | AST_ADDR_OF \<Rightarrow> Some ''AddressOf:''
      | AST_DEREF \<Rightarrow> Some ''Dereference:''
      | AST_ARRAY_INDEX \<Rightarrow> Some ''ArrayIndex:''
      | AST_SIZEOF_TYPE \<Rightarrow> Some (''SizeofType: '' @ type_kind_name (decl_type i))
      | AST_SIZEOF_EXPR \<Rightarrow> Some ''SizeofExpr:''
      | AST_CONDITIONAL_EXPR \<Rightarrow> Some ''Conditional:''
      | AST_COMMA_EXPR \<Rightarrow> Some ''CommaExpr:''
      | AST_TYPEDEF_DECL \<Rightarrow> Some (''TypedefDecl: '' @ c_str (nvalue i))
      | AST_MEMBER_ACCESS \<Rightarrow> Some (''MemberAccess: '' @ c_str (nvalue i))
      | AST_ARROW_ACCESS \<Rightarrow> Some (''ArrowAccess: '' @ c_str (nvalue i))
      | AST_INITIALIZER_LIST \<Rightarrow> Some ''InitializerList:''
      | AST_DESIGNATED_INIT \<Rightarrow>
          Some (case nvalue i of
                  Some v \<Rightarrow> ''DESIGNATED_INIT(.'' @ c_str (Some v) @ '')''
                | None \<Rightarrow> ''DESIGNATED_INIT(['' @ show_int (byte_length i) @ ''])'')
      | AST_COMPOUND_LITERAL \<Rightarrow>
          Some (''COMPOUND_LITERAL('' @ (case nvalue i of None \<Rightarrow> ''?'' | Some v \<Rightarrow> c_str (Some v)) @ '')'')
      | AST_BUILTIN_VA_START \<Rightarrow> Some ''BuiltinVaStart:''
      | AST_BUILTIN_VA_END \<Rightarrow> Some ''BuiltinVaEnd:''
      | AST_BUILTIN_VA_COPY \<Rightarrow> Some ''BuiltinVaCopy:''
      | AST_BUILTIN_VA_ARG \<Rightarrow> Some (''BuiltinVaArg: '' @ c_str (nvalue i)))"

text \<open>The children that are printed, and the whole tree.\<close>

definition printed_slots :: "ASTNodeType \<Rightarrow> 'a list \<Rightarrow> 'a list" where
  "printed_slots ty xs =
     (case ty of
        AST_DEFAULT_SECTION \<Rightarrow> take 1 xs
      | AST_CASE_SECTION \<Rightarrow> take 1 (drop 1 xs)
      | _ \<Rightarrow> xs)"

fun concat_texts :: "string option list \<Rightarrow> string option" where
  "concat_texts [] = Some []"
| "concat_texts (None # ts) = None"
| "concat_texts (Some t # ts) = map_option ((@) t) (concat_texts ts)"

fun ast_pretty_print :: "type_heap \<Rightarrow> ASTNode option \<Rightarrow> nat \<Rightarrow> string option"
and print_slots :: "type_heap \<Rightarrow> ASTNode option list \<Rightarrow> nat \<Rightarrow> string option list" where
  "ast_pretty_print h None depth = Some []"
| "ast_pretty_print h (Some (Node i cs)) depth =
     do {
       l \<leftarrow> node_line h i cs;
       r \<leftarrow> concat_texts (printed_slots (ntype i) (print_slots h cs (depth + 1)));
       Some (ast_print_indent depth @ l @ [LF] @ r)
     }"
| "print_slots h [] depth = []"
| "print_slots h (c # cs) depth = ast_pretty_print h c depth # print_slots h cs depth"

declare node_line.simps [simp del]

subsection \<open>Pointer chains\<close>

text \<open>
  A chain ends if every pointer type points to an older node. The constructors of theory
  \<open>CType\<close> keep that, because a type is allocated after the type it points to.
\<close>

definition descending :: "type_heap \<Rightarrow> bool" where
  "descending h \<longleftrightarrow>
     list_all (\<lambda>p. ty_kind (h ! p) = TYPE_POINTER \<longrightarrow> (case ty_base (h ! p) of None \<Rightarrow> True | Some b \<Rightarrow> b < p))
       [0..<length h]"

lemma descending_base:
  "descending h \<Longrightarrow> p < length h \<Longrightarrow> ty_kind (h ! p) = TYPE_POINTER \<Longrightarrow> ty_base (h ! p) = Some b \<Longrightarrow> b < p"
  by (auto simp: descending_def list_all_iff)

lemma descending_singletons: "descending type_singletons"
  by code_simp

lemma descending_snoc:
  "descending h \<Longrightarrow> (\<And>b. ty_kind t = TYPE_POINTER \<Longrightarrow> ty_base t = Some b \<Longrightarrow> b < length h) \<Longrightarrow> descending (h @ [t])"
  by (auto simp: descending_def list_all_iff nth_append less_Suc_eq split: option.split)

lemma descending_pointer: "descending h \<Longrightarrow> b < length h \<Longrightarrow> descending (fst (type_pointer h b))"
  by (auto simp: type_pointer_def type_alloc_def intro!: descending_snoc)

lemma descending_array: "descending h \<Longrightarrow> b < length h \<Longrightarrow> descending (fst (type_array h b n))"
  by (auto simp: type_array_def type_alloc_def intro!: descending_snoc)

lemma kind_name_LF: "LF \<notin> set (type_kind_name k)"
  by (cases k) simp_all

lemma ast_print_type_returns:
  assumes "descending h" "p < length h"
  shows "\<exists>s. ast_print_type h (Some p) = Some s \<and> LF \<notin> set s"
  using assms(2)
proof (induction p rule: less_induct)
  case (less p)
  show ?case
  proof (cases "ty_kind (h ! p) = TYPE_POINTER")
    case True
    have "\<exists>s. ast_print_type h (ty_base (h ! p)) = Some s \<and> LF \<notin> set s"
    proof (cases "ty_base (h ! p)")
      case None
      then show ?thesis by (simp add: ast_print_type.simps [of h None])
    next
      case (Some b)
      with descending_base [OF assms(1) less.prems True] less show ?thesis by (auto intro: less_trans)
    qed
    with True less.prems show ?thesis by (subst ast_print_type.simps) auto
  next
    case False
    with less.prems show ?thesis by (subst ast_print_type.simps) (simp add: kind_name_LF)
  qed
qed

lemma ast_print_type_ptr:
  "descending h \<Longrightarrow> ptr_ok h t \<Longrightarrow> \<exists>s. ast_print_type h t = Some s \<and> LF \<notin> set s"
  by (cases t) (simp_all add: ptr_ok_def ast_print_type_returns, simp add: ast_print_type.simps [of h None])

subsection \<open>One line per node\<close>

text \<open>The nodes in the order of the dump, with their depths.\<close>

fun outline :: "nat \<Rightarrow> ASTNode option \<Rightarrow> (nat \<times> ASTNode) list"
and outline_slots :: "nat \<Rightarrow> ASTNode option list \<Rightarrow> (nat \<times> ASTNode) list list" where
  "outline d None = []"
| "outline d (Some (Node i cs)) = (d, Node i cs) # concat (printed_slots (ntype i) (outline_slots (d + 1) cs))"
| "outline_slots d [] = []"
| "outline_slots d (c # cs) = outline d c # outline_slots d cs"

text \<open>What the printer relies on at a node.\<close>

definition string_in_bounds :: "ast_info \<Rightarrow> bool" where
  "string_in_bounds i \<longleftrightarrow>
     byte_length i \<le> 0 \<or> (case nvalue i of None \<Rightarrow> False | Some s \<Rightarrow> nat (byte_length i) \<le> length s + 1)"

definition case_value :: "ASTNode \<Rightarrow> string option" where
  "case_value m = (case children m of Some c # _ \<Rightarrow> Some (c_str (nvalue (info c))) | _ \<Rightarrow> None)"

definition printable :: "type_heap \<Rightarrow> ASTNode \<Rightarrow> bool" where
  "printable h m \<longleftrightarrow>
     ptr_ok h (full_type (info m)) \<and>
     (node_type m \<in> {AST_BINARY_OP, AST_UNARY_OP, AST_PREFIX_INC_DEC, AST_POSTFIX_INC_DEC, AST_CHAR_LITERAL} \<longrightarrow>
        nvalue (info m) \<noteq> None) \<and>
     (node_type m = AST_STRING_LITERAL \<longrightarrow> string_in_bounds (info m)) \<and>
     (node_type m = AST_CASE_SECTION \<longrightarrow> case_value m \<noteq> None \<and> LF \<notin> set (the (case_value m))) \<and>
     (node_type m \<notin> {AST_STRING_LITERAL, AST_CHAR_LITERAL} \<longrightarrow> LF \<notin> set (c_str (nvalue (info m))))"

lemma escape_LF: "LF \<notin> set (escape_byte b)" "LF \<notin> set (char_literal_byte b)"
  by (simp_all add: escape_byte_def char_literal_byte_def)

lemma shown_LF: "LF \<notin> set (show_nat n)" "LF \<notin> set (show_int v)"
proof -
  show *: "LF \<notin> set (show_nat n)" for n using show_nat_digits [of LF n] by (auto simp: ctypes)
  show "LF \<notin> set (show_int v)" by (simp add: show_int_def *)
qed

lemma qualifiers_LF: "LF \<notin> set (ast_print_decl_qualifiers i)"
  by (simp add: ast_print_decl_qualifiers_def)

lemma operator_LF: "LF \<notin> set s \<Longrightarrow> LF \<notin> set (operator_name s)"
  by (simp add: operator_name_def)

lemmas line_LF = escape_LF shown_LF qualifiers_LF operator_LF kind_name_LF

lemma print_decl_returns:
  assumes "descending h" "ptr_ok h (full_type i)" "LF \<notin> set (c_str (nvalue i))"
  shows "\<exists>s. print_decl h i = Some s \<and> LF \<notin> set s"
  using ast_print_type_ptr [OF assms(1,2)] assms(3) by (auto simp: print_decl_def line_LF)

lemma print_variable_returns:
  assumes "heap_ok h" "descending h" "ptr_ok h (full_type i)" "LF \<notin> set (c_str (nvalue i))"
  shows "\<exists>s. print_variable h i = Some s \<and> LF \<notin> set s"
proof (cases "decl_type i = TYPE_ARRAY \<and> full_type i \<noteq> None")
  case True
  then obtain p where p: "full_type i = Some p" "decl_type i = TYPE_ARRAY" by auto
  with assms(3) have "p < length h" by (simp add: ptr_ok_def)
  with heap_ok_nth [OF assms(1) this] have "ptr_ok h (ty_base (h ! p))" by (simp add: node_ok_def)
  from ast_print_type_ptr [OF assms(2) this] \<open>p < length h\<close> p assms(4) show ?thesis
    by (auto simp: print_variable_def line_LF)
next
  case False
  then have "print_variable h i = print_decl h i"
    by (auto simp: print_variable_def split: TypeKind.split option.split)
  with print_decl_returns [OF assms(2-4)] show ?thesis by simp
qed

lemma print_string_returns:
  "string_in_bounds i \<Longrightarrow> \<exists>s. print_string (nvalue i) (byte_length i) = Some s \<and> LF \<notin> set s"
  by (auto simp: string_in_bounds_def print_string_def line_LF split: option.split_asm)

lemma print_operator_returns:
  "v \<noteq> None \<Longrightarrow> LF \<notin> set (c_str v) \<Longrightarrow> LF \<notin> set l \<Longrightarrow> \<exists>s. print_operator l v = Some s \<and> LF \<notin> set s"
  by (auto simp: print_operator_def c_str_def line_LF)

text \<open>A text without a line end inside.\<close>

definition one_line :: "string option \<Rightarrow> bool" where
  "one_line r \<longleftrightarrow> (\<exists>s. r = Some s \<and> LF \<notin> set s)"

lemma one_line_simps [simp]:
  "one_line (Some s) \<longleftrightarrow> LF \<notin> set s" "\<not> one_line None"
  by (auto simp: one_line_def)

lemma one_line_map: "one_line r \<Longrightarrow> (\<And>s. LF \<notin> set s \<Longrightarrow> LF \<notin> set (f s)) \<Longrightarrow> one_line (map_option f r)"
  by (cases r) simp_all

lemma node_line_returns:
  assumes h: "heap_ok h" "descending h" and m: "printable h (Node i cs)"
  shows "one_line (node_line h i cs)"
proof -
  have ptr: "ptr_ok h (full_type i)" using m by (simp add: printable_def)
  have decl: "one_line (print_decl h i)" "one_line (print_variable h i)" if "LF \<notin> set (c_str (nvalue i))"
    using print_decl_returns [OF h(2) ptr that] print_variable_returns [OF h ptr that]
    by (simp_all add: one_line_def)
  have op: "one_line (print_operator l (nvalue i))"
    if "nvalue i \<noteq> None" "LF \<notin> set (c_str (nvalue i))" "LF \<notin> set l" for l
    using print_operator_returns [OF that] by (simp add: one_line_def)
  have str: "one_line (print_string (nvalue i) (byte_length i))" if "string_in_bounds i"
    using print_string_returns [OF that] by (simp add: one_line_def)
  show ?thesis
    using m
    by (cases "ntype i")
       (auto simp: node_line.simps printable_def case_value_def line_LF decl op str one_line_map
        split: option.split option.split_asm list.split list.split_asm)
qed

text \<open>The line of a node of the outline, and the lines with their ends.\<close>

definition dump_line :: "type_heap \<Rightarrow> nat \<times> ASTNode \<Rightarrow> string" where
  "dump_line h = (\<lambda>(d, m). ast_print_indent d @ the (node_line h (info m) (children m)))"

definition dump_text :: "type_heap \<Rightarrow> (nat \<times> ASTNode) list \<Rightarrow> string" where
  "dump_text h ns = concat (map (\<lambda>n. dump_line h n @ [LF]) ns)"

lemma dump_text_simps [simp]:
  "dump_text h [] = []" "dump_text h (n # ns) = dump_line h n @ LF # dump_text h ns"
  "dump_text h (ns @ ms) = dump_text h ns @ dump_text h ms"
  by (simp_all add: dump_text_def)

lemma concat_texts_Some:
  "list_all2 (\<lambda>r ns. r = Some (dump_text h ns)) rs nss \<Longrightarrow> concat_texts rs = Some (dump_text h (concat nss))"
  by (induction rule: list_all2_induct) simp_all

lemma printed_slots_all2: "list_all2 P xs ys \<Longrightarrow> list_all2 P (printed_slots ty xs) (printed_slots ty ys)"
  by (cases ty) (simp_all add: printed_slots_def list_all2_takeI list_all2_dropI)

text \<open>Every printed node is printable; the slots that are not printed may hold anything.\<close>

fun tree_printable :: "type_heap \<Rightarrow> ASTNode option \<Rightarrow> bool"
and slots_printable :: "type_heap \<Rightarrow> ASTNode option list \<Rightarrow> bool list" where
  "tree_printable h None = True"
| "tree_printable h (Some (Node i cs)) =
     (printable h (Node i cs) \<and> list_all (\<lambda>b. b) (printed_slots (ntype i) (slots_printable h cs)))"
| "slots_printable h [] = []"
| "slots_printable h (c # cs) = tree_printable h c # slots_printable h cs"

lemma list_all2_guarded:
  "list_all2 (\<lambda>r (b, x). b \<longrightarrow> P r x) rs (zip bs xs) \<Longrightarrow> length bs = length xs \<Longrightarrow> list_all (\<lambda>b. b) bs \<Longrightarrow> list_all2 P rs xs"
  by (auto simp: list_all2_conv_all_nth list_all_length)

lemma guarded_member: "list_all2 (\<lambda>b x. b \<longrightarrow> P x) bs xs \<Longrightarrow> list_all (\<lambda>b. b) bs \<Longrightarrow> x \<in> set xs \<Longrightarrow> P x"
  by (induction rule: list_all2_induct) auto

lemma printed_slots_zip: "printed_slots ty (zip xs ys) = zip (printed_slots ty xs) (printed_slots ty ys)"
  by (cases ty) (simp_all add: printed_slots_def take_zip drop_zip)

lemma length_printed_slots: "length xs = length ys \<Longrightarrow> length (printed_slots ty xs) = length (printed_slots ty ys)"
  by (cases ty) (simp_all add: printed_slots_def)

lemma length_slots [simp]: "length (slots_printable h cs) = length cs" "length (outline_slots d cs) = length cs"
  by (induction cs) simp_all

lemma pretty_print_outline:
  assumes h: "heap_ok h" "descending h"
  shows "tree_printable h n \<Longrightarrow> ast_pretty_print h n d = Some (dump_text h (outline d n))"
    and "list_all2 (\<lambda>r (b, ns). b \<longrightarrow> r = Some (dump_text h ns)) (print_slots h cs d)
           (zip (slots_printable h cs) (outline_slots d cs))"
proof (induction d n and d cs rule: outline_outline_slots.induct)
  case (2 d i cs)
  let ?slots = "printed_slots (ntype i)"
  have "list_all2 (\<lambda>r (b, ns). b \<longrightarrow> r = Some (dump_text h ns)) (?slots (print_slots h cs (d + 1)))
      (zip (?slots (slots_printable h cs)) (?slots (outline_slots (d + 1) cs)))"
    using printed_slots_all2 [OF "2.IH"] by (simp add: printed_slots_zip)
  moreover have "length (?slots (slots_printable h cs)) = length (?slots (outline_slots (d + 1) cs))"
    by (rule length_printed_slots) simp
  ultimately have "list_all2 (\<lambda>r ns. r = Some (dump_text h ns)) (?slots (print_slots h cs (d + 1)))
      (?slots (outline_slots (d + 1) cs))"
    using "2.prems" by (simp add: list_all2_guarded)
  note kids = concat_texts_Some [OF this]
  from "2.prems" have "printable h (Node i cs)" by simp
  from node_line_returns [OF h this] obtain l where "node_line h i cs = Some l" unfolding one_line_def by blast
  with kids show ?case by (simp add: dump_line_def)
qed simp_all

lemma outline_printable:
  shows "tree_printable h n \<Longrightarrow> (\<forall>k m. (k, m) \<in> set (outline d n) \<longrightarrow> printable h m)"
    and "list_all2 (\<lambda>b ns. b \<longrightarrow> (\<forall>k m. (k, m) \<in> set ns \<longrightarrow> printable h m)) (slots_printable h cs) (outline_slots d cs)"
proof (induction d n and d cs rule: outline_outline_slots.induct)
  case (2 d i cs)
  let ?slots = "printed_slots (ntype i)"
  note kids = printed_slots_all2 [OF "2.IH", of "ntype i"]
  have "printable h m" if "ns \<in> set (?slots (outline_slots (d + 1) cs))" "(k, m) \<in> set ns" for ns k m
    using guarded_member [OF kids _ that(1)] that(2) "2.prems" by simp
  with "2.prems" show ?case by auto
qed auto

subsection \<open>What can be read off the dump\<close>

text \<open>The nodes of a tree in preorder, with depth and type; the value of a case label is no node of its own.\<close>

fun preorder :: "nat \<Rightarrow> ASTNode option \<Rightarrow> (nat \<times> ASTNodeType) list"
and preorders :: "nat \<Rightarrow> ASTNode option list \<Rightarrow> (nat \<times> ASTNodeType) list list" where
  "preorder d None = []"
| "preorder d (Some (Node i cs)) =
     (d, ntype i) # concat (if ntype i = AST_CASE_SECTION then tl (preorders (d + 1) cs) else preorders (d + 1) cs)"
| "preorders d [] = []"
| "preorders d (c # cs) = preorder d c # preorders d cs"

text \<open>The shape of the sections of a switch: a label with its statement.\<close>

fun sections_small :: "ASTNode option \<Rightarrow> bool" where
  "sections_small None = True"
| "sections_small (Some (Node i cs)) \<longleftrightarrow>
     (ntype i = AST_DEFAULT_SECTION \<longrightarrow> length cs \<le> 1) \<and> (ntype i = AST_CASE_SECTION \<longrightarrow> length cs \<le> 2) \<and>
     (\<forall>c \<in> set cs. sections_small c)"

lemma length_preorders [simp]: "length (preorders d cs) = length cs"
  by (induction cs) simp_all

lemma outline_preorder:
  "sections_small n \<Longrightarrow> map (\<lambda>(k, m). (k, node_type m)) (outline d n) = preorder d n"
  "(\<forall>c \<in> set cs. sections_small c) \<Longrightarrow> map (map (\<lambda>(k, m). (k, node_type m))) (outline_slots d cs) = preorders d cs"
proof (induction d n and d cs rule: outline_outline_slots.induct)
  case (2 d i cs)
  have "printed_slots (ntype i) (preorders (d + 1) cs) =
      (if ntype i = AST_CASE_SECTION then tl (preorders (d + 1) cs) else preorders (d + 1) cs)"
    using "2.prems" by (cases "ntype i") (auto simp: printed_slots_def drop_Suc)
  moreover have "map (map (\<lambda>(k, m). (k, node_type m))) (printed_slots (ntype i) (outline_slots (d + 1) cs)) =
      printed_slots (ntype i) (preorders (d + 1) cs)"
    using 2 by (cases "ntype i") (simp_all add: printed_slots_def take_map [symmetric] drop_map [symmetric])
  ultimately show ?case by (simp add: map_concat)
qed simp_all

text \<open>The blanks in front of a line, and the word behind them.\<close>

definition blanks :: "string \<Rightarrow> nat" where
  "blanks l = length (takeWhile (\<lambda>c. c = CHR '' '') l)"

definition line_word :: "string \<Rightarrow> string" where
  "line_word l = takeWhile (\<lambda>c. is_alpha c \<or> c = CHR ''_'') (dropWhile (\<lambda>c. c = CHR '' '') l)"

text \<open>The word of each node type, as a literal child makes its line printable.\<close>

definition type_word :: "ASTNodeType \<Rightarrow> string" where
  "type_word ty = line_word (the (node_line type_singletons (info (ast_new ty (Some ''+''))) [Some (ast_new AST_INT_LITERAL (Some ''1''))]))"

definition all_node_types :: "ASTNodeType list" where
  "all_node_types =
    [AST_TRANSLATION_UNIT, AST_FUNCTION_DECL, AST_PARAM, AST_RETURN_STATEMENT,
     AST_INT_LITERAL, AST_FLOAT_LITERAL, AST_STRING_LITERAL, AST_CHAR_LITERAL,
     AST_BINARY_OP, AST_UNARY_OP, AST_IF_STATEMENT, AST_WHILE_STATEMENT,
     AST_DO_WHILE_STATEMENT, AST_FOR_STATEMENT, AST_SWITCH_STATEMENT, AST_DEFAULT_SECTION,
     AST_CASE_SECTION, AST_BREAK_STATEMENT, AST_CONTINUE_STATEMENT, AST_GOTO_STATEMENT,
     AST_LABEL_STATEMENT, AST_BLOCK, AST_EXPRESSION_STMT, AST_DECLARATION,
     AST_ASSIGNMENT, AST_VAR_REF, AST_PREFIX_INC_DEC, AST_POSTFIX_INC_DEC,
     AST_FUNCTION_CALL, AST_INDIRECT_CALL, AST_CAST, AST_ADDR_OF,
     AST_DEREF, AST_ARRAY_INDEX, AST_SIZEOF_TYPE, AST_SIZEOF_EXPR,
     AST_CONDITIONAL_EXPR, AST_COMMA_EXPR, AST_DECL_LIST, AST_TYPEDEF_DECL,
     AST_MEMBER_ACCESS, AST_ARROW_ACCESS, AST_INITIALIZER_LIST, AST_DESIGNATED_INIT,
     AST_COMPOUND_LITERAL, AST_BUILTIN_VA_START, AST_BUILTIN_VA_END, AST_BUILTIN_VA_COPY,
     AST_BUILTIN_VA_ARG]"

lemma all_node_types: "ty \<in> set all_node_types"
  by (cases ty) (simp_all add: all_node_types_def)

lemma inj_type_word: "inj type_word"
proof -
  have "distinct (map type_word all_node_types)" by code_simp
  then have "inj_on type_word (set all_node_types)" by (simp add: distinct_map)
  then show ?thesis using all_node_types by (auto simp: inj_on_def)
qed

lemma line_word_label [simp]:
  "is_alpha c \<Longrightarrow> line_word (replicate n (CHR '' '') @ c # s) = line_word (c # s)"
  "is_alpha c \<Longrightarrow> blanks (replicate n (CHR '' '') @ c # s) = n"
proof -
  assume "is_alpha c"
  then have "c \<noteq> CHR '' ''" by (auto simp: ctypes)
  then show "line_word (replicate n (CHR '' '') @ c # s) = line_word (c # s)" "blanks (replicate n (CHR '' '') @ c # s) = n"
    by (induction n) (simp_all add: line_word_def blanks_def)
qed

lemmas type_word_defs = type_word_def ast_new_def zero_info_def print_decl_def print_variable_def print_operator_def print_string_def

lemma word_of_line: "node_line h i cs = Some l \<Longrightarrow> line_word l = type_word (ntype i) \<and> l \<noteq> [] \<and> is_alpha (hd l)"
  by (cases "ntype i")
     (auto simp: node_line.simps type_word_defs line_word_def ctypes split: option.split_asm list.split_asm if_split_asm)

text \<open>
  (C33) The dump of a tree can be read back as far as the structure goes: it has exactly one line
  for each node, in preorder, also where literals hold line ends, the line of a node at depth k
  starts with 2k blanks, and the word behind them tells the type of the node, different words for
  different types. The omitted clauses of a \<^verbatim>\<open>for\<close> statement have no line, and the value of a case
  label is in the line of its section.
\<close>

theorem ast_print_returns:
  assumes "heap_ok h" "descending h" "tree_printable h n" "sections_small n"
  shows "\<exists>lines. ast_pretty_print h n d = Some (concat (map (\<lambda>l. l @ [LF]) lines)) \<and>
    (\<forall>l \<in> set lines. LF \<notin> set l) \<and>
    (\<exists>word. inj word \<and> map (\<lambda>l. (blanks l, line_word l)) lines = map (\<lambda>(k, ty). (2 * k, word ty)) (preorder d n))"
proof (intro exI conjI)
  let ?lines = "map (dump_line h) (outline d n)"
  have line: "\<exists>l. node_line h (info m) (children m) = Some l \<and> LF \<notin> set l" if "(k, m) \<in> set (outline d n)" for k m
  proof -
    from outline_printable(1) [OF assms(3)] that have "printable h (Node (info m) (children m))" by auto
    from node_line_returns [OF assms(1,2) this] show ?thesis by (simp add: one_line_def)
  qed
  show "ast_pretty_print h n d = Some (concat (map (\<lambda>l. l @ [LF]) ?lines))"
    using pretty_print_outline(1) [OF assms(1-3)] by (simp add: dump_text_def comp_def)
  show "\<forall>l \<in> set ?lines. LF \<notin> set l"
    using line by (fastforce simp: dump_line_def ast_print_indent_def)
  show "inj type_word" by (rule inj_type_word)
  have "(blanks (dump_line h (k, m)), line_word (dump_line h (k, m))) = (2 * k, type_word (node_type m))"
    if km: "(k, m) \<in> set (outline d n)" for k m
  proof -
    obtain l where l: "node_line h (info m) (children m) = Some l" using line [OF km] by blast
    from word_of_line [OF this] obtain c s where c: "l = c # s" "is_alpha c" "line_word (c # s) = type_word (node_type m)"
      by (cases l) auto
    with l show ?thesis by (simp add: dump_line_def ast_print_indent_def mult.commute)
  qed
  then show "map (\<lambda>l. (blanks l, line_word l)) ?lines = map (\<lambda>(k, ty). (2 * k, type_word ty)) (preorder d n)"
    by (auto simp: outline_preorder(1) [OF assms(4), symmetric])
qed

definition sample_tree :: ASTNode where
  "sample_tree =
     ast_add_child (ast_new AST_RETURN_STATEMENT None)
       (Some (ast_add_child (ast_add_child (ast_new AST_BINARY_OP (Some ''+'')) (Some (ast_new AST_INT_LITERAL (Some ''1''))))
          (Some (ast_new AST_CHAR_LITERAL (Some [LF])))))"

theorem ast_print_returns_witness:
  "\<exists>lines. ast_pretty_print type_singletons (Some sample_tree) 0 = Some (concat (map (\<lambda>l. l @ [LF]) lines)) \<and>
    (\<forall>l \<in> set lines. LF \<notin> set l) \<and>
    (\<exists>word. inj word \<and> map (\<lambda>l. (blanks l, line_word l)) lines =
       map (\<lambda>(k, ty). (2 * k, word ty)) [(0, AST_RETURN_STATEMENT), (1, AST_BINARY_OP), (2, AST_INT_LITERAL), (2, AST_CHAR_LITERAL)])"
proof -
  have "tree_printable type_singletons (Some sample_tree)" by code_simp
  moreover have "sections_small (Some sample_tree)" by code_simp
  moreover have "preorder 0 (Some sample_tree) = [(0, AST_RETURN_STATEMENT), (1, AST_BINARY_OP), (2, AST_INT_LITERAL), (2, AST_CHAR_LITERAL)]"
    by code_simp
  ultimately show ?thesis
    using ast_print_returns [OF heap_ok_singletons descending_singletons, of "Some sample_tree" 0] by simp
qed

end
