(* ===== verification/Util.thy ===== *)
theory Util
  imports CType
begin

section \<open>Messages and paths: \<^verbatim>\<open>src/util.c\<close>\<close>

text \<open>
  The error counter and the globals around it, the functions that report errors and
  warnings, and the name of the output file. The record \<open>error_state\<close> holds the globals of
  \<^verbatim>\<open>util.c\<close> and what was written to \<^verbatim>\<open>stderr\<close>; the jump buffer itself is not a value, only
  whether it is valid. A message arrives formatted: the arguments of \<^verbatim>\<open>printf\<close> belong to the
  callers. How a call ends, by returning, by \<^verbatim>\<open>longjmp\<close> to the recovery point of the parser
  or by \<^verbatim>\<open>exit(1)\<close>, is a value of \<open>control\<close>.
\<close>

record error_state =
  g_max_errors :: int
  g_error_count :: int
  g_error_jmp_valid :: bool
  g_warnings_are_errors :: bool
  g_warn_level :: int
  g_verbose :: bool
  g_error_src_file :: "string option"
  g_error_src_line :: int
  g_error_src_col :: int
  stderr :: string

definition initial_error_state :: error_state where
  "initial_error_state = \<lparr>g_max_errors = 1, g_error_count = 0, g_error_jmp_valid = False,
     g_warnings_are_errors = False, g_warn_level = 0, g_verbose = False, g_error_src_file = None,
     g_error_src_line = 0, g_error_src_col = 0, stderr = []\<rparr>"

datatype control = Returns error_state | Jumps error_state | Exits error_state

definition eprint :: "string \<Rightarrow> error_state \<Rightarrow> error_state" where
  "eprint s st = st\<lparr>stderr := stderr st @ s\<rparr>"

definition do_compile_error :: "string \<Rightarrow> error_state \<Rightarrow> control" where
  "do_compile_error msg st =
     (let st1 = eprint msg st;
          st2 = st1\<lparr>g_error_count := wrap32 (g_error_count st1 + 1)\<rparr>
      in if g_max_errors st2 > 0 \<and> g_error_count st2 \<ge> g_max_errors st2 then Exits st2
         else if g_error_jmp_valid st2 then Jumps st2
         else Exits st2)"

text \<open>The prefix \<^verbatim>\<open>file:line:col: \<close>, printed when a position is known.\<close>

definition position_prefix :: "string option \<Rightarrow> int \<Rightarrow> int \<Rightarrow> string" where
  "position_prefix file line col =
     (case file of
        None \<Rightarrow> []
      | Some f \<Rightarrow> if line > 0 then f @ '':'' @ show_int line @ '':'' @ show_int col @ '': '' else [])"

definition compile_error :: "string \<Rightarrow> error_state \<Rightarrow> control" where
  "compile_error msg st =
     do_compile_error msg
       (eprint (position_prefix (g_error_src_file st) (g_error_src_line st) (g_error_src_col st)) st)"

definition compile_error_at :: "string option \<Rightarrow> int \<Rightarrow> int \<Rightarrow> string \<Rightarrow> error_state \<Rightarrow> control" where
  "compile_error_at file line col msg st =
     do_compile_error msg (eprint (position_prefix file line col) st)"

definition compile_warning_at :: "string option \<Rightarrow> int \<Rightarrow> int \<Rightarrow> string \<Rightarrow> error_state \<Rightarrow> control" where
  "compile_warning_at file line col msg st =
     (let st1 = eprint (position_prefix file line col) st
      in if g_warnings_are_errors st1 then do_compile_error msg st1 else Returns (eprint msg st1))"

definition reset_error_state :: "error_state \<Rightarrow> error_state" where
  "reset_error_state st =
     st\<lparr>g_error_count := 0, g_error_src_file := None, g_error_src_line := 0, g_error_src_col := 0,
        g_error_jmp_valid := False\<rparr>"

text \<open>
  \<^verbatim>\<open>read_file\<close>: the bytes of the file up to the first zero byte, which is where every reader
  of the buffer stops. The directory is a parameter.
\<close>

definition read_file :: "(string \<Rightarrow> string option) \<Rightarrow> string \<Rightarrow> string + string" where
  "read_file files path =
     (case files path of
        None \<Rightarrow> Inl (''error: could not open '' @ [QUOTE] @ path @ [QUOTE, LF])
      | Some text \<Rightarrow> Inr (takeWhile (\<lambda>c. c \<noteq> NUL) text))"

definition util_strdup :: "string option \<Rightarrow> string option" where
  "util_strdup s = (case s of None \<Rightarrow> None | Some t \<Rightarrow> Some t)"

subsection \<open>The output path\<close>

text \<open>\<^verbatim>\<open>strrchr\<close>: the text before and behind the last occurrence of a character.\<close>

definition strrchr :: "string \<Rightarrow> char \<Rightarrow> (string \<times> string) option" where
  "strrchr s c =
     (if c \<in> set s
      then Some (rev (tl (dropWhile (\<lambda>x. x \<noteq> c) (rev s))), rev (takeWhile (\<lambda>x. x \<noteq> c) (rev s)))
      else None)"

text \<open>The three calls on \<open>out\<close>, an array of \<open>out_size\<close> bytes, at least one.\<close>

definition make_output_path :: "nat \<Rightarrow> string \<Rightarrow> string" where
  "make_output_path out_size input_path =
     (let base = (case strrchr input_path (CHR ''/'') of None \<Rightarrow> input_path | Some (_, b) \<Rightarrow> b);
          out = take (out_size - 1) base;
          out' = (case strrchr out (CHR ''.'') of None \<Rightarrow> out | Some (stem, _) \<Rightarrow> stem)
      in out' @ take (out_size - length out' - 1) ''.asm'')"

lemma strrchr_None [simp]: "strrchr s c = None \<longleftrightarrow> c \<notin> set s"
  by (simp add: strrchr_def)

lemma strrchr_split: "c \<notin> set b \<Longrightarrow> strrchr (a @ c # b) c = Some (a, b)"
  by (auto simp: strrchr_def takeWhile_append dropWhile_append)

lemma strrchr_SomeD:
  assumes "strrchr s c = Some (a, b)"
  shows "s = a @ c # b" "c \<notin> set b"
proof -
  from assms have "c \<in> set s" by (auto simp: strrchr_def split: if_splits)
  then obtain a' b' where s: "s = a' @ c # b'" "c \<notin> set b'" by (meson split_list_last)
  with assms show "s = a @ c # b" "c \<notin> set b" by (simp_all add: strrchr_split)
qed

lemma strrchr_shorter: "strrchr s c = Some (a, b) \<Longrightarrow> length a < length s \<and> length b < length s"
  by (drule strrchr_SomeD(1)) simp

lemma make_output_path_fits: "0 < n \<Longrightarrow> length (make_output_path n path) < n"
  unfolding make_output_path_def Let_def
  by (auto dest!: strrchr_shorter split: option.split)

lemma strrchr_base:
  "CHR ''/'' \<notin> set base \<Longrightarrow> strrchr (dir @ CHR ''/'' # base) (CHR ''/'') = Some (dir, base)"
  by (rule strrchr_split)

text \<open>
  The output path always fits its buffer. If the buffer has room, a source \<open>dir/stem.ext\<close> is
  written to \<open>stem.asm\<close> in the working directory, whatever the directory of the source.
\<close>

lemma output_path_correct:
  assumes "0 < n"
  shows "length (make_output_path n path) < n \<and>
    (path = dir @ CHR ''/'' # stem @ CHR ''.'' # ext \<and> CHR ''/'' \<notin> set (stem @ ext) \<and>
     CHR ''.'' \<notin> set ext \<and> length stem + length ext + 1 < n \<and> length stem + 4 < n \<longrightarrow>
     make_output_path n path = stem @ ''.asm'')"
proof (intro conjI impI)
  show "length (make_output_path n path) < n" using assms by (rule make_output_path_fits)
  assume "path = dir @ CHR ''/'' # stem @ CHR ''.'' # ext \<and> CHR ''/'' \<notin> set (stem @ ext) \<and>
     CHR ''.'' \<notin> set ext \<and> length stem + length ext + 1 < n \<and> length stem + 4 < n"
  then have p: "path = dir @ CHR ''/'' # stem @ CHR ''.'' # ext" and s: "CHR ''/'' \<notin> set (stem @ ext)"
    and e: "CHR ''.'' \<notin> set ext" and l: "length stem + length ext + 1 < n" "length stem + 4 < n" by auto
  have "strrchr path (CHR ''/'') = Some (dir, stem @ CHR ''.'' # ext)"
    unfolding p using s by (intro strrchr_base) auto
  moreover have "strrchr (stem @ CHR ''.'' # ext) (CHR ''.'') = Some (stem, ext)"
    using e by (rule strrchr_split)
  ultimately show "make_output_path n path = stem @ ''.asm''"
    using l by (simp add: make_output_path_def)
qed

subsection \<open>The limit on errors\<close>

text \<open>
  While \<^verbatim>\<open>parse_translation_unit\<close> has its recovery point set, every error but the last one
  allowed jumps there, the parser skips to the next declaration and goes on. \<open>report_all\<close> is
  a sequence of such errors.
\<close>

fun report_all :: "string list \<Rightarrow> error_state \<Rightarrow> control" where
  "report_all [] st = Returns st"
| "report_all (m # ms) st =
     (case do_compile_error m st of Jumps st' \<Rightarrow> report_all ms st' | c \<Rightarrow> c)"

text \<open>The state after some messages.\<close>

definition reported :: "string list \<Rightarrow> error_state \<Rightarrow> error_state" where
  "reported ms st = st\<lparr>g_error_count := g_error_count st + int (length ms), stderr := stderr st @ concat ms\<rparr>"

lemma reported_Nil [simp]: "reported [] st = st"
  by (simp add: reported_def)

lemma reported_parts [simp]:
  "g_max_errors (reported ms st) = g_max_errors st" "g_error_jmp_valid (reported ms st) = g_error_jmp_valid st"
  "g_error_count (reported ms st) = g_error_count st + int (length ms)"
  by (simp_all add: reported_def)

lemma reported_Cons: "reported ms (reported [m] st) = reported (m # ms) st"
  by (simp add: reported_def)

lemma do_compile_error_reported:
  assumes "0 \<le> g_error_count st" "g_error_count st < 2 ^ 31 - 1"
  shows "do_compile_error m st =
    (if 0 < g_max_errors st \<and> g_max_errors st \<le> g_error_count st + 1 then Exits (reported [m] st)
     else if g_error_jmp_valid st then Jumps (reported [m] st) else Exits (reported [m] st))"
  using assms by (simp add: do_compile_error_def Let_def eprint_def reported_def wrap32_id)

lemma report_all_unlimited:
  assumes "g_max_errors st \<le> 0" "g_error_jmp_valid st" "0 \<le> g_error_count st"
    "g_error_count st + int (length ms) < 2 ^ 31"
  shows "report_all ms st = Returns (reported ms st)"
  using assms
  by (induction ms arbitrary: st) (simp_all add: do_compile_error_reported reported_Cons)

lemma report_all_limited:
  assumes "g_error_jmp_valid st" "0 \<le> g_error_count st" "g_error_count st < g_max_errors st"
    "g_max_errors st < 2 ^ 31" "room = nat (g_max_errors st - g_error_count st)"
  shows "report_all ms st =
    (if length ms < room then Returns (reported ms st) else Exits (reported (take room ms) st))"
  using assms
proof (induction ms arbitrary: st room)
  case (Cons m ms)
  show ?case
  proof (cases "g_max_errors st = g_error_count st + 1")
    case True
    with Cons.prems show ?thesis by (simp add: do_compile_error_reported)
  next
    case False
    define k where "k = nat (g_max_errors st - g_error_count (reported [m] st))"
    with Cons.prems have room: "room = Suc k" by simp
    have "report_all ms (reported [m] st) =
        (if length ms < k then Returns (reported ms (reported [m] st))
         else Exits (reported (take k ms) (reported [m] st)))"
      using False Cons.prems k_def by (intro Cons.IH) simp_all
    moreover have "do_compile_error m st = Jumps (reported [m] st)"
      using False Cons.prems by (simp add: do_compile_error_reported)
    ultimately show ?thesis by (simp add: room reported_Cons)
  qed
qed simp

text \<open>
  (C32) With a limit of \<open>n\<close> errors exactly the first \<open>n\<close> are reported and the process ends at the
  \<open>n\<close>th; with fewer errors, or with the limit 0, all of them are reported and parsing goes on.
\<close>

theorem error_limit:
  assumes "g_error_jmp_valid st" "g_error_count st = 0" "0 \<le> g_max_errors st" "g_max_errors st < 2 ^ 31"
    and "length ms < 2 ^ 31"
  shows "report_all ms st =
    (if g_max_errors st = 0 \<or> int (length ms) < g_max_errors st then Returns (reported ms st)
     else Exits (reported (take (nat (g_max_errors st)) ms) st))"
proof (cases "g_max_errors st = 0")
  case True
  have "int (length ms) < 2 ^ 31" using assms(5) by (metis of_nat_less_numeral_power_cancel_iff)
  then show ?thesis using assms True by (simp add: report_all_unlimited)
next
  case False
  with assms have "report_all ms st =
      (if length ms < nat (g_max_errors st) then Returns (reported ms st)
       else Exits (reported (take (nat (g_max_errors st)) ms) st))"
    by (intro report_all_limited) simp_all
  with False show ?thesis by (simp add: zless_nat_eq_int_zless)
qed

theorem error_limit_witness:
  "report_all [''a'', ''b'', ''c''] (initial_error_state\<lparr>g_error_jmp_valid := True, g_max_errors := 2\<rparr>) =
     Exits (reported [''a'', ''b''] (initial_error_state\<lparr>g_error_jmp_valid := True, g_max_errors := 2\<rparr>))"
  using error_limit [of "initial_error_state\<lparr>g_error_jmp_valid := True, g_max_errors := 2\<rparr>" "[''a'', ''b'', ''c'']"]
  by (simp add: initial_error_state_def)

end
