(* ===== verification/Token_Dump.thy ===== *)
theory Token_Dump
  imports Lexer_Tokens Util
begin

section \<open>The token dump: \<^verbatim>\<open>print_tokens_mode\<close> in \<^verbatim>\<open>src/compiler.c\<close>\<close>

text \<open>
  What \<^verbatim>\<open>--print-tokens\<close> writes: one row per token with its number, its position, its text
  cut or filled to 18 characters, and the name of its kind. \<^verbatim>\<open>token_type_name\<close> lists the kinds
  one by one; a kind it does not list has the name \<^verbatim>\<open>TOKEN_UNKNOWN\<close>. The array \<^verbatim>\<open>display\<close> is the
  list of the characters written to it; that it stays within 512 bytes is a lemma.
\<close>

primrec keyword_type_name :: "Keyword \<Rightarrow> string" where
  "keyword_type_name KW_INT = ''TOKEN_INT''"
| "keyword_type_name KW_CHAR = ''TOKEN_CHAR''"
| "keyword_type_name KW_SHORT = ''TOKEN_SHORT''"
| "keyword_type_name KW_LONG = ''TOKEN_LONG''"
| "keyword_type_name KW_RETURN = ''TOKEN_RETURN''"
| "keyword_type_name KW_IF = ''TOKEN_IF''"
| "keyword_type_name KW_ELSE = ''TOKEN_ELSE''"
| "keyword_type_name KW_WHILE = ''TOKEN_WHILE''"
| "keyword_type_name KW_DO = ''TOKEN_DO''"
| "keyword_type_name KW_FOR = ''TOKEN_FOR''"
| "keyword_type_name KW_BREAK = ''TOKEN_BREAK''"
| "keyword_type_name KW_CONTINUE = ''TOKEN_CONTINUE''"
| "keyword_type_name KW_SWITCH = ''TOKEN_SWITCH''"
| "keyword_type_name KW_DEFAULT = ''TOKEN_DEFAULT''"
| "keyword_type_name KW_CASE = ''TOKEN_CASE''"
| "keyword_type_name KW_GOTO = ''TOKEN_GOTO''"
| "keyword_type_name KW_SIZEOF = ''TOKEN_SIZEOF''"
| "keyword_type_name KW_EXTERN = ''TOKEN_EXTERN''"
| "keyword_type_name KW_STATIC = ''TOKEN_STATIC''"
| "keyword_type_name KW_TYPEDEF = ''TOKEN_TYPEDEF''"
| "keyword_type_name KW_ENUM = ''TOKEN_ENUM''"
| "keyword_type_name KW_STRUCT = ''TOKEN_STRUCT''"
| "keyword_type_name KW_UNION = ''TOKEN_UNKNOWN''"
| "keyword_type_name KW_VOID = ''TOKEN_VOID''"
| "keyword_type_name KW_FLOAT = ''TOKEN_UNKNOWN''"
| "keyword_type_name KW_DOUBLE = ''TOKEN_UNKNOWN''"
| "keyword_type_name KW_BOOL = ''TOKEN_BOOL''"
| "keyword_type_name KW_CONST = ''TOKEN_CONST''"
| "keyword_type_name KW_VOLATILE = ''TOKEN_VOLATILE''"
| "keyword_type_name KW_RESTRICT = ''TOKEN_UNKNOWN''"
| "keyword_type_name KW_INLINE = ''TOKEN_UNKNOWN''"
| "keyword_type_name KW_AUTO = ''TOKEN_UNKNOWN''"
| "keyword_type_name KW_REGISTER = ''TOKEN_UNKNOWN''"
| "keyword_type_name KW_SIGNED = ''TOKEN_SIGNED''"
| "keyword_type_name KW_UNSIGNED = ''TOKEN_UNSIGNED''"

primrec punct_type_name :: "Punctuator \<Rightarrow> string" where
  "punct_type_name PT_LPAREN = ''TOKEN_LPAREN''"
| "punct_type_name PT_RPAREN = ''TOKEN_RPAREN''"
| "punct_type_name PT_LBRACE = ''TOKEN_LBRACE''"
| "punct_type_name PT_RBRACE = ''TOKEN_RBRACE''"
| "punct_type_name PT_LBRACKET = ''TOKEN_LBRACKET''"
| "punct_type_name PT_RBRACKET = ''TOKEN_RBRACKET''"
| "punct_type_name PT_SEMICOLON = ''TOKEN_SEMICOLON''"
| "punct_type_name PT_COLON = ''TOKEN_COLON''"
| "punct_type_name PT_COMMA = ''TOKEN_COMMA''"
| "punct_type_name PT_PLUS = ''TOKEN_PLUS''"
| "punct_type_name PT_MINUS = ''TOKEN_MINUS''"
| "punct_type_name PT_STAR = ''TOKEN_STAR''"
| "punct_type_name PT_SLASH = ''TOKEN_SLASH''"
| "punct_type_name PT_PERCENT = ''TOKEN_PERCENT''"
| "punct_type_name PT_BANG = ''TOKEN_BANG''"
| "punct_type_name PT_TILDE = ''TOKEN_TILDE''"
| "punct_type_name PT_ASSIGN = ''TOKEN_ASSIGN''"
| "punct_type_name PT_PLUS_ASSIGN = ''TOKEN_PLUS_ASSIGN''"
| "punct_type_name PT_MINUS_ASSIGN = ''TOKEN_MINUS_ASSIGN''"
| "punct_type_name PT_STAR_ASSIGN = ''TOKEN_STAR_ASSIGN''"
| "punct_type_name PT_SLASH_ASSIGN = ''TOKEN_SLASH_ASSIGN''"
| "punct_type_name PT_PERCENT_ASSIGN = ''TOKEN_PERCENT_ASSIGN''"
| "punct_type_name PT_LEFT_SHIFT_ASSIGN = ''TOKEN_LEFT_SHIFT_ASSIGN''"
| "punct_type_name PT_RIGHT_SHIFT_ASSIGN = ''TOKEN_RIGHT_SHIFT_ASSIGN''"
| "punct_type_name PT_AMP_ASSIGN = ''TOKEN_AMP_ASSIGN''"
| "punct_type_name PT_CARET_ASSIGN = ''TOKEN_CARET_ASSIGN''"
| "punct_type_name PT_PIPE_ASSIGN = ''TOKEN_PIPE_ASSIGN''"
| "punct_type_name PT_INCREMENT = ''TOKEN_INCREMENT''"
| "punct_type_name PT_DECREMENT = ''TOKEN_DECREMENT''"
| "punct_type_name PT_EQ = ''TOKEN_EQ''"
| "punct_type_name PT_NE = ''TOKEN_NE''"
| "punct_type_name PT_LT = ''TOKEN_LT''"
| "punct_type_name PT_LE = ''TOKEN_LE''"
| "punct_type_name PT_GT = ''TOKEN_GT''"
| "punct_type_name PT_GE = ''TOKEN_GE''"
| "punct_type_name PT_LEFT_SHIFT = ''TOKEN_LEFT_SHIFT''"
| "punct_type_name PT_RIGHT_SHIFT = ''TOKEN_RIGHT_SHIFT''"
| "punct_type_name PT_AND_AND = ''TOKEN_AND_AND''"
| "punct_type_name PT_OR_OR = ''TOKEN_OR_OR''"
| "punct_type_name PT_AMPERSAND = ''TOKEN_AMPERSAND''"
| "punct_type_name PT_CARET = ''TOKEN_CARET''"
| "punct_type_name PT_PIPE = ''TOKEN_PIPE''"
| "punct_type_name PT_QUESTION = ''TOKEN_QUESTION''"
| "punct_type_name PT_DOT = ''TOKEN_DOT''"
| "punct_type_name PT_ARROW = ''TOKEN_ARROW''"
| "punct_type_name PT_ELLIPSIS = ''TOKEN_ELLIPSIS''"

fun token_type_name :: "TokenType \<Rightarrow> string" where
  "token_type_name TOKEN_EOF = ''TOKEN_EOF''"
| "token_type_name TOKEN_IDENTIFIER = ''TOKEN_IDENTIFIER''"
| "token_type_name TOKEN_INT_LITERAL = ''TOKEN_INT_LITERAL''"
| "token_type_name TOKEN_STRING_LITERAL = ''TOKEN_STRING_LITERAL''"
| "token_type_name TOKEN_CHAR_LITERAL = ''TOKEN_CHAR_LITERAL''"
| "token_type_name (KeywordToken k) = keyword_type_name k"
| "token_type_name (PunctToken p) = punct_type_name p"
| "token_type_name _ = ''TOKEN_UNKNOWN''"

definition display_escape :: "char \<Rightarrow> string" where
  "display_escape b =
     (if b = LF then [BACKSLASH, CHR ''n'']
      else if b = CHR 0x09 then [BACKSLASH, CHR ''t'']
      else if b = CHR 0x0D then [BACKSLASH, CHR ''r'']
      else if b = BACKSLASH then [BACKSLASH, BACKSLASH]
      else if b = DQUOTE then [BACKSLASH, DQUOTE]
      else if b = QUOTE then [BACKSLASH, QUOTE]
      else if b = NUL then [BACKSLASH, CHR ''0'']
      else [b])"

fun display_loop :: "string \<Rightarrow> string \<Rightarrow> string" where
  "display_loop display [] = display"
| "display_loop display (b # bs) =
     (if length display + 2 < 512 then display_loop (display @ display_escape b) bs else display)"

definition token_display :: "Token \<Rightarrow> string" where
  "token_display tok =
     (if tk_type tok = TOKEN_STRING_LITERAL \<or> tk_type tok = TOKEN_CHAR_LITERAL
      then display_loop [] (tk_value tok)
      else take 511 (takeWhile (\<lambda>c. c \<noteq> NUL) (tk_value tok)))"

definition value_field :: "string \<Rightarrow> string" where
  "value_field display =
     (if length display > 15 then take 15 display @ ''...''
      else display @ replicate (18 - length display) (CHR '' ''))"

text \<open>The conversions \<^verbatim>\<open>%-*d\<close> and \<^verbatim>\<open>%0*d\<close> on numbers that are not negative.\<close>

definition left_justified :: "nat \<Rightarrow> nat \<Rightarrow> string" where
  "left_justified w n = show_nat n @ replicate (w - length (show_nat n)) (CHR '' '')"

definition zero_padded :: "nat \<Rightarrow> nat \<Rightarrow> string" where
  "zero_padded w n = replicate (w - length (show_nat n)) (CHR ''0'') @ show_nat n"

definition print_token_row :: "nat \<Rightarrow> nat \<Rightarrow> nat \<Rightarrow> nat \<Rightarrow> Token \<Rightarrow> string" where
  "print_token_row index index_width line_width col_width tok =
     ''['' @ left_justified index_width index @ ''] ['' @ zero_padded line_width (tk_line tok) @ '':''
     @ zero_padded col_width (tk_col tok) @ ''] TOKEN:: '' @ value_field (token_display tok)
     @ ''  TOKEN_TYPE: '' @ token_type_name (tk_type tok) @ [LF]"

fun digit_width :: "nat \<Rightarrow> nat" where
  "digit_width n = (if n \<ge> 10 then digit_width (n div 10) + 1 else 1)"

declare digit_width.simps [simp del]

definition max_of :: "(Token \<Rightarrow> nat) \<Rightarrow> Token list \<Rightarrow> nat" where
  "max_of f ts = foldl (\<lambda>m t. if f t > m then f t else m) 1 ts"

definition token_rows :: "Token list \<Rightarrow> string list" where
  "token_rows ts =
     (let line_width = digit_width (max_of tk_line ts);
          col_width = digit_width (max_of tk_col ts);
          index_width = digit_width (length ts)
      in map (\<lambda>i. print_token_row (i + 1) index_width line_width col_width (ts ! i)) [0..<length ts])"

definition print_tokens_mode :: "string \<Rightarrow> string \<Rightarrow> lex_error + string" where
  "print_tokens_mode src source_file =
     map_result (\<lambda>ts. concat (token_rows ts)) (lex_all (lexer_init src (Some source_file)))"

subsection \<open>Widths\<close>

lemma length_display_escape: "length (display_escape b) \<le> 2"
  by (simp add: display_escape_def)

lemma display_loop_fits: "length display \<le> 511 \<Longrightarrow> length (display_loop display bs) \<le> 511"
proof (induction display bs rule: display_loop.induct)
  case (2 display b bs)
  have "length (display @ display_escape b) \<le> 511" if "length display + 2 < 512"
    using that length_display_escape [of b] by simp
  with 2 show ?case by simp
qed simp

lemma token_display_fits: "length (token_display tok) \<le> 511"
  by (simp add: token_display_def display_loop_fits)

lemma length_value_field [simp]: "length (value_field display) = 18"
  by (auto simp: value_field_def)

lemma digit_width_length: "digit_width n = length (show_nat n)"
proof (induction n rule: digit_width.induct)
  case (1 n)
  then show ?case by (subst digit_width.simps, subst show_nat.simps) simp
qed

lemma length_show_nat_mono: "m \<le> n \<Longrightarrow> length (show_nat m) \<le> length (show_nat n)"
proof (induction n arbitrary: m rule: show_nat.induct)
  case (1 n)
  show ?case
  proof (cases "n < 10")
    case True
    with "1.prems" show ?thesis by (simp add: show_nat.simps [of m] show_nat.simps [of n])
  next
    case False
    show ?thesis
    proof (cases "m < 10")
      case True
      then show ?thesis by (simp add: show_nat.simps [of m]) (metis Suc_leI length_greater_0_conv show_nat_not_Nil)
    next
      case m: False
      have "m div 10 \<le> n div 10" using "1.prems" by (rule div_le_mono)
      from "1.IH" [OF False this] False m show ?thesis
        by (simp add: show_nat.simps [of m] show_nat.simps [of n])
    qed
  qed
qed

lemma length_left_justified: "n \<le> w \<Longrightarrow> length (left_justified (digit_width w) n) = digit_width w"
  using length_show_nat_mono [of n w] by (simp add: left_justified_def digit_width_length)

lemma length_zero_padded: "n \<le> w \<Longrightarrow> length (zero_padded (digit_width w) n) = digit_width w"
  using length_show_nat_mono [of n w] by (simp add: zero_padded_def digit_width_length)

lemma foldl_max_ge:
  "m \<le> foldl (\<lambda>m t. if f t > m then f t else (m::nat)) m ts \<and>
   (\<forall>t \<in> set ts. f t \<le> foldl (\<lambda>m t. if f t > m then f t else m) m ts)"
proof (induction ts arbitrary: m)
  case (Cons t ts)
  show ?case using Cons [of "if f t > m then f t else m"] by (auto split: if_splits)
qed simp

lemma max_of_ge: "t \<in> set ts \<Longrightarrow> f t \<le> max_of f ts"
  using foldl_max_ge [of 1 f ts] by (simp add: max_of_def)

subsection \<open>No line end inside a row\<close>

lemma display_escape_LF: "LF \<notin> set (display_escape b)"
  by (simp add: display_escape_def)

lemma display_loop_LF: "LF \<notin> set display \<Longrightarrow> LF \<notin> set (display_loop display bs)"
  by (induction display bs rule: display_loop.induct) (simp_all add: display_escape_LF)

lemma show_nat_LF: "LF \<notin> set (show_nat n)"
  using show_nat_digits [of LF n] by (auto simp: ctypes)

lemma not_LF_classes [simp]: "\<not> is_digit LF" "\<not> is_xdigit LF" "\<not> ident_char LF" "is_space LF"
  by (simp_all add: ctypes)

lemma collect_LF: "LF \<notin> set (fst b) \<Longrightarrow> \<not> P LF \<Longrightarrow> LF \<notin> set (fst (collect P b))"
  by (cases b) (auto simp: collect_def Let_def dest: set_takeWhileD)

lemma put_char_LF: "LF \<notin> set (fst b) \<Longrightarrow> cur (snd b) \<noteq> LF \<Longrightarrow> LF \<notin> set (fst (put_char b))"
  by (cases b) (auto simp: put_char_def)

lemma exponent_LF:
  assumes "LF \<notin> set (fst b)" "is_exp (cur (snd b))"
  shows "LF \<notin> set (fst (exponent b))"
proof -
  have "LF \<notin> set (fst (put_char b))" using assms by (intro put_char_LF) (auto simp: is_exp_def)
  then show ?thesis
    by (simp add: exponent_def Let_def is_sign_def collect_LF put_char_LF)
qed

lemma finish_float_LF:
  assumes "finish_float t b = Inr (t', lx')" "LF \<notin> set (fst b)"
  shows "LF \<notin> set (tk_value t')"
proof -
  have "LF \<notin> set (fst (put_char b))" if "is_f (cur (snd b))"
    using assms(2) that by (intro put_char_LF) (auto simp: is_f_def)
  with assms show ?thesis
    by (auto simp: finish_float_def Let_def lex_stored_def with_text_def split: if_split_asm)
qed

lemma finish_integer_LF:
  "finish_integer t base b = Inr (t', lx') \<Longrightarrow> LF \<notin> set (fst b) \<Longrightarrow> LF \<notin> set (tk_value t')"
  by (auto simp: finish_integer_def Let_def lex_stored_def with_text_def show_nat_LF
      split: prod.split_asm if_split_asm)

lemma lex_number_LF:
  assumes "lex_number t lx = Inr (t', lx')"
  shows "LF \<notin> set (tk_value t')"
proof -
  let ?b = "collect is_digit ([], lx)"
  have b: "LF \<notin> set (fst ?b)" by (rule collect_LF) simp_all
  consider "lex_hex t lx = Inr (t', lx')" "cur lx = CHR ''0''" "peek lx 1 = CHR ''x'' \<or> peek lx 1 = CHR ''X''"
    | "lex_octal t lx = Inr (t', lx')" | "lex_decimal t lx = Inr (t', lx')"
    using assms by (auto simp: lex_number_def split: if_split_asm)
  then show ?thesis
  proof cases
    case 1
    have "cur (lexer_advance lx) \<noteq> LF" using 1(3) by (auto simp: cur_def peek_def)
    with 1(2) have "LF \<notin> set (fst (put_char (put_char ([], lx))))" by (simp add: put_char_def)
    then have "LF \<notin> set (fst (collect is_xdigit (put_char (put_char ([], lx)))))" by (simp add: collect_LF)
    with 1(1) show ?thesis
      by (auto simp: lex_hex_def Let_def split: if_split_asm dest: finish_integer_LF)
  next
    case 2
    with b show ?thesis by (auto simp: lex_octal_def Let_def split: option.split_asm dest: finish_integer_LF)
  next
    case 3
    let ?dot = "cur (snd ?b) = CHR ''.'' \<and> peek (snd ?b) 1 \<noteq> CHR ''.''"
    let ?b1 = "if ?dot then collect is_digit (put_char ?b) else ?b"
    have b1: "LF \<notin> set (fst ?b1)" using b by (simp add: collect_LF put_char_LF)
    let ?b2 = "if is_exp (cur (snd ?b1)) then exponent ?b1 else ?b1"
    have "LF \<notin> set (fst ?b2)" using b1 by (simp add: exponent_LF)
    moreover have "finish_float t ?b2 = Inr (t', lx') \<or> finish_integer t 10 ?b2 = Inr (t', lx')"
      using 3 unfolding lex_decimal_def Let_def by (simp only: split: if_split_asm) simp_all
    ultimately show ?thesis using finish_float_LF finish_integer_LF by blast
  qed
qed

lemma lex_dot_LF:
  assumes "lex_dot t lx = Inr (t', lx')" "cur lx = CHR ''.''"
  shows "LF \<notin> set (tk_value t')"
proof -
  let ?b = "collect is_digit (put_char ([], lx))"
  have b: "LF \<notin> set (fst ?b)" using assms(2) by (intro collect_LF put_char_LF) simp_all
  then have "LF \<notin> set (fst (if is_exp (cur (snd ?b)) then exponent ?b else ?b))" by (simp add: exponent_LF)
  with assms(1) show ?thesis unfolding lex_dot_def Let_def
    by (auto simp: lex_fixed_def with_text_def split: if_split_asm dest: finish_float_LF)
qed

lemma token_value_LF:
  assumes "lexer_next_token lx = Inr (t, lx')"
    and "tk_type t \<noteq> TOKEN_STRING_LITERAL" "tk_type t \<noteq> TOKEN_CHAR_LITERAL"
  shows "LF \<notin> set (tk_value t)"
proof -
  let ?lx = "lexer_skip_whitespace lx"
  have run: "lex_at (token_set_pos ?lx) ?lx = Inr (t, lx')"
    using assms(1) by (simp add: lexer_next_token_def Let_def)
  show ?thesis
  proof (cases "cur ?lx = NUL")
    case True
    with run show ?thesis by (auto simp: lex_at_def token_set_pos_def)
  next
    case False
    from False run show ?thesis
    proof (cases rule: lex_at_cases)
      case (Fixed k s)
      then show ?thesis by (auto simp: lex_fixed_def with_text_def)
    next
      case Dot
      then show ?thesis by (intro lex_dot_LF)
    next
      case String
      with assms(2) show ?thesis
        by (auto simp: lex_string_def lex_stored_def with_text_def split: sum.split_asm)
    next
      case Char
      with assms(3) show ?thesis
        by (auto simp: lex_char_def Let_def lex_stored_def with_text_def split: sum.split_asm if_split_asm)
    next
      case Number
      then show ?thesis by (intro lex_number_LF)
    next
      case Ident
      then have "tk_value t = takeWhile ident_char (rest ?lx)"
        by (auto simp: lex_ident_def Let_def lex_stored_def with_text_def split: option.split_asm)
      then show ?thesis by (auto dest: set_takeWhileD)
    next
      case Unknown
      then have "tk_value t = [cur ?lx]" by (auto simp: lex_unknown_def with_text_def)
      then show ?thesis using skip_whitespace_stops [of lx] not_LF_classes(4) by (metis list.set_intros(1) set_ConsD empty_iff empty_set)
    qed
  qed
qed

lemma token_display_LF:
  "lexer_next_token lx = Inr (t, lx') \<Longrightarrow> LF \<notin> set (token_display t)"
  using token_value_LF [of lx t lx']
  by (auto simp: token_display_def display_loop_LF dest!: in_set_takeD set_takeWhileD)

lemma lex_all_display_LF: "lex_all lx = Inr ts \<Longrightarrow> t \<in> set ts \<Longrightarrow> LF \<notin> set (token_display t)"
proof (induction lx arbitrary: ts rule: lex_all.induct)
  case (1 lx)
  obtain u lx' where n: "lexer_next_token lx = Inr (u, lx')"
    using "1.prems"(1) by (subst (asm) lex_all.simps) (auto split: sum.split_asm)
  show ?case
  proof (cases "t = u")
    case True
    with token_display_LF [OF n] show ?thesis by simp
  next
    case False
    with n "1.prems" obtain us where "lex_all lx' = Inr us" "t \<in> set us" "tk_type u \<noteq> TOKEN_EOF"
      by (subst (asm) lex_all.simps) (auto split: sum.split_asm if_split_asm)
    with "1.IH" [OF n refl] show ?thesis by blast
  qed
qed

lemma value_field_LF: "LF \<notin> set display \<Longrightarrow> LF \<notin> set (value_field display)"
  by (auto simp: value_field_def dest: in_set_takeD)

lemma padded_LF: "LF \<notin> set (left_justified w n)" "LF \<notin> set (zero_padded w n)"
  using show_nat_LF [of n] by (auto simp: left_justified_def zero_padded_def)

lemma type_name_LF: "LF \<notin> set (token_type_name ty)"
proof (cases ty)
  case (KeywordToken k)
  then show ?thesis by (cases k) simp_all
next
  case (PunctToken p)
  then show ?thesis by (cases p) simp_all
qed simp_all

lemma length_token_rows [simp]: "length (token_rows ts) = length ts"
  by (simp add: token_rows_def Let_def)

definition row_head :: "Token list \<Rightarrow> nat \<Rightarrow> string" where
  "row_head ts i =
     ''['' @ left_justified (digit_width (length ts)) (i + 1) @ ''] [''
     @ zero_padded (digit_width (max_of tk_line ts)) (tk_line (ts ! i)) @ '':''
     @ zero_padded (digit_width (max_of tk_col ts)) (tk_col (ts ! i)) @ ''] TOKEN:: ''
     @ value_field (token_display (ts ! i)) @ ''  TOKEN_TYPE: ''"

lemma nth_token_rows: "i < length ts \<Longrightarrow> token_rows ts ! i = row_head ts i @ token_type_name (tk_type (ts ! i)) @ [LF]"
  by (simp add: token_rows_def print_token_row_def row_head_def Let_def)

lemma length_row_head:
  assumes "i < length ts"
  shows "length (row_head ts i) =
    digit_width (length ts) + digit_width (max_of tk_line ts) + digit_width (max_of tk_col ts) + 47"
proof -
  have "ts ! i \<in> set ts" using assms by simp
  then have "tk_line (ts ! i) \<le> max_of tk_line ts" "tk_col (ts ! i) \<le> max_of tk_col ts"
    by (simp_all add: max_of_ge)
  with assms show ?thesis by (simp add: row_head_def length_left_justified length_zero_padded)
qed

lemma row_head_LF: "lex_all lx = Inr ts \<Longrightarrow> i < length ts \<Longrightarrow> LF \<notin> set (row_head ts i)"
  by (simp add: row_head_def padded_LF value_field_LF lex_all_display_LF)

text \<open>
  The dump has exactly one line per token, also for string literals with line ends in
  them, and the names of the kinds all start in the same column.
\<close>

lemma token_dump_aligned:
  assumes "print_tokens_mode src name = Inr out"
  shows "\<exists>ts rows k. lex_all (lexer_init src (Some name)) = Inr ts \<and> out = concat rows \<and> length rows = length ts \<and>
    (\<forall>i < length ts. \<exists>head. rows ! i = head @ token_type_name (tk_type (ts ! i)) @ [LF] \<and> length head = k \<and>
       LF \<notin> set (head @ token_type_name (tk_type (ts ! i))))"
proof -
  from assms obtain ts where ts: "lex_all (lexer_init src (Some name)) = Inr ts" and out: "out = concat (token_rows ts)"
    by (auto simp: print_tokens_mode_def map_result_eq_Inr)
  have "\<forall>i < length ts. \<exists>head. token_rows ts ! i = head @ token_type_name (tk_type (ts ! i)) @ [LF] \<and>
      length head = digit_width (length ts) + digit_width (max_of tk_line ts) + digit_width (max_of tk_col ts) + 47 \<and>
      LF \<notin> set (head @ token_type_name (tk_type (ts ! i)))"
    using ts by (simp add: nth_token_rows length_row_head row_head_LF type_name_LF)
  with ts out show ?thesis by (metis length_token_rows)
qed

definition sample_dump :: string where
  "sample_dump = projr (print_tokens_mode ''f;'' ''a.c'')"

text \<open>
  Kinds that \<^verbatim>\<open>token_type_name\<close> forgets: the keywords below and the floating-point literals are
  dumped as \<^verbatim>\<open>TOKEN_UNKNOWN\<close>, the name of a character no token starts with.
\<close>

lemma forgotten_kinds:
  "token_type_name ty = ''TOKEN_UNKNOWN'' \<longleftrightarrow>
     ty \<in> {TOKEN_UNKNOWN, TOKEN_FLOAT_LITERAL, TOKEN_DOUBLE_LITERAL, TOKEN_UNION, TOKEN_FLOAT,
           TOKEN_DOUBLE, TOKEN_RESTRICT, TOKEN_INLINE, TOKEN_AUTO, TOKEN_REGISTER}"
proof (cases ty)
  case (KeywordToken k)
  then show ?thesis by (cases k) simp_all
next
  case (PunctToken p)
  then show ?thesis by (cases p) simp_all
qed simp_all

end
