(* ===== verification/Driver.thy ===== *)
theory Driver
  imports Token_Dump Preprocessor
begin

section \<open>The command line: \<^verbatim>\<open>main\<close> in \<^verbatim>\<open>src/compiler.c\<close>, \<^verbatim>\<open>src/version.c\<close>\<close>

text \<open>
  The loop over the arguments, the application of \<^verbatim>\<open>--sysroot\<close> to the include directories, the
  version string, and the path of a file through the preprocessor and the lexer under
  \<^verbatim>\<open>--print-tokens\<close>. The local variables of \<^verbatim>\<open>main\<close> and the globals it sets are the record
  \<open>driver_options\<close>; an argument that ends the program gives \<open>Quit\<close> with the exit status and what
  was written. The build number and the name of the building compiler, macros of the build, are
  parameters of the version string.
\<close>

definition get_version_string :: "nat \<Rightarrow> string \<Rightarrow> string" where
  "get_version_string build builtby =
     take 255 (''ClaudeC99 version 00.03.01720000.'' @ zero_padded 5 build @ [LF] @ ''BuiltBy: '' @ builtby)"

record driver_options =
  print_ast :: bool
  print_tokens :: bool
  warnings_are_errors :: bool
  warn_level :: int
  opt_level :: int
  emit_debug :: bool
  sysroot :: "string option"
  macro_defines :: "string list"
  include_dirs :: "string list"
  source_files :: "string list"
  globals :: error_state

definition initial_options :: driver_options where
  "initial_options = \<lparr>print_ast = False, print_tokens = False, warnings_are_errors = False, warn_level = 0,
     opt_level = 0, emit_debug = False, sysroot = None, macro_defines = [], include_dirs = [], source_files = [],
     globals = initial_error_state\<rparr>"

datatype arg_result = Quit int string string | Parsed driver_options

definition help_text :: string where
  "help_text = concat (map (\<lambda>l. l @ [LF])
    [''ccompiler -- ClaudeC99 C compiler'',
     [],
     ''Usage: ccompiler [options] <source.c> [source2.c ...]'',
     [],
     ''Options:'',
     ''  --version          Print version and exit'',
     ''  --help             Print this help and exit'',
     ''  --print-ast        Print AST to stdout and exit'',
     ''  --print-tokens     Print token stream to stdout and exit'',
     ''  -v, --verbose      Show compilation progress (compiled: X -> Y)'',
     ''  -Werror            Treat warnings as errors'',
     ''  -Wall              Enable common warning diagnostics'',
     ''  -Wextra            Enable additional diagnostics (implies -Wall)'',
     ''  --max-errors=N     Stop after N errors (0 = unlimited)'',
     ''  --sysroot=<dir>    Virtual filesystem root for absolute -I paths'',
     ''  -O0                Disable optimization (default)'',
     ''  -O1                Enable AST-level optimization'',
     ''  -O2                Enable peephole optimization'',
     ''  -g                 Emit DWARF debug information'',
     ''  -std=<std>         Language standard (accepted; always compiled as C99)'',
     ''  -isystem <dir>     System include path (treated as -I)'',
     ''  -w                 Suppress all warnings'',
     ''  -DNAME[=VAL]       Define a preprocessor macro'',
     ''  -I<dir>            Add directory to include search path'',
     ''  -I <dir>           (two-argument form)''])"

definition arg_error :: "string \<Rightarrow> arg_result" where
  "arg_error msg = Quit 1 [] (''error: '' @ msg @ [LF])"

definition set_warn_level :: "int \<Rightarrow> driver_options \<Rightarrow> driver_options" where
  "set_warn_level n st =
     (let l = (if warn_level st < n then n else warn_level st)
      in st\<lparr>warn_level := l, globals := (globals st)\<lparr>g_warn_level := l\<rparr>\<rparr>)"

definition add_include :: "string \<Rightarrow> driver_options \<Rightarrow> driver_options" where
  "add_include d st = st\<lparr>include_dirs := include_dirs st @ [d]\<rparr>"

fun parse_args :: "string \<Rightarrow> driver_options \<Rightarrow> string list \<Rightarrow> arg_result" where
  "parse_args version st [] = Parsed st"
| "parse_args version st (a # as) =
     (if a = ''--version'' then Quit 0 (version @ [LF]) []
      else if a = ''--help'' then Quit 0 help_text []
      else if a = ''--print-ast'' then parse_args version (st\<lparr>print_ast := True\<rparr>) as
      else if a = ''--print-tokens'' then parse_args version (st\<lparr>print_tokens := True\<rparr>) as
      else if a = ''-Werror'' then
        parse_args version (st\<lparr>warnings_are_errors := True, globals := (globals st)\<lparr>g_warnings_are_errors := True\<rparr>\<rparr>) as
      else if a = ''-Wall'' then parse_args version (set_warn_level 1 st) as
      else if a = ''-Wextra'' then parse_args version (set_warn_level 2 st) as
      else if a = ''-v'' \<or> a = ''--verbose'' then
        parse_args version (st\<lparr>globals := (globals st)\<lparr>g_verbose := True\<rparr>\<rparr>) as
      else if starts_with ''--max-errors='' a then
        (case strtol10 (drop 13 a) of (n, end_ptr) \<Rightarrow>
           if end_ptr \<noteq> [] \<or> n < 0 then arg_error ''--max-errors requires a non-negative integer''
           else parse_args version (st\<lparr>globals := (globals st)\<lparr>g_max_errors := wrap32 n\<rparr>\<rparr>) as)
      else if starts_with ''--sysroot='' a then
        (if drop 10 a = [] then arg_error ''--sysroot requires a non-empty directory''
         else parse_args version (st\<lparr>sysroot := Some (drop 10 a)\<rparr>) as)
      else if starts_with ''-D'' a then parse_args version (st\<lparr>macro_defines := macro_defines st @ [drop 2 a]\<rparr>) as
      else if a = ''-O0'' then parse_args version (st\<lparr>opt_level := 0\<rparr>) as
      else if a = ''-O1'' then parse_args version (st\<lparr>opt_level := 1\<rparr>) as
      else if a = ''-O2'' then parse_args version (st\<lparr>opt_level := 2\<rparr>) as
      else if starts_with ''-std='' a \<or> a = ''-ansi'' then parse_args version st as
      else if a = ''-isystem'' then
        (case as of
           [] \<Rightarrow> arg_error ''-isystem requires an argument''
         | d # as' \<Rightarrow> parse_args version (add_include d st) as')
      else if a = ''-w'' then parse_args version st as
      else if a = ''-g'' then parse_args version (st\<lparr>emit_debug := True\<rparr>) as
      else if starts_with ''-I'' a then
        (if drop 2 a \<noteq> [] then parse_args version (add_include (drop 2 a) st) as
         else case as of
           [] \<Rightarrow> arg_error ''-I requires an argument''
         | d # as' \<Rightarrow> parse_args version (add_include d st) as')
      else parse_args version (st\<lparr>source_files := source_files st @ [a]\<rparr>) as)"

declare parse_args.simps(2) [simp del]

text \<open>The system root without its closing slashes, in front of every absolute include directory.\<close>

definition trim_slashes :: "string \<Rightarrow> string" where
  "trim_slashes r =
     (case r of [] \<Rightarrow> [] | c # cs \<Rightarrow> c # rev (dropWhile (\<lambda>x. x = CHR ''/'') (rev cs)))"

definition apply_sysroot :: "string option \<Rightarrow> string list \<Rightarrow> string list" where
  "apply_sysroot root dirs =
     (case root of
        None \<Rightarrow> dirs
      | Some r \<Rightarrow> map (\<lambda>d. if c_at d 0 = CHR ''/'' then trim_slashes r @ d else d) dirs)"

text \<open>\<^verbatim>\<open>main\<close> up to the loop that compiles the files.\<close>

definition command_line :: "string \<Rightarrow> string list \<Rightarrow> arg_result" where
  "command_line version args =
     (case parse_args version initial_options args of
        Quit status out_text err_text \<Rightarrow> Quit status out_text err_text
      | Parsed st \<Rightarrow>
          if source_files st = [] then
            Quit 1 [] (''ccompiler: no input files. Run '' @ [QUOTE] @ ''ccompiler --help'' @ [QUOTE] @ '' for usage.'' @ [LF])
          else Parsed (st\<lparr>include_dirs := apply_sysroot (sysroot st) (include_dirs st)\<rparr>))"

subsection \<open>The token dump of a file\<close>

datatype driver_error = CannotRead string | PreprocessError pp_error | TokenError lex_error

definition dump_tokens_of_file ::
  "files \<Rightarrow> nat \<Rightarrow> string \<Rightarrow> string \<Rightarrow> string \<Rightarrow> string list \<Rightarrow> string list \<Rightarrow> driver_error + string" where
  "dump_tokens_of_file fs stk date_buf time_buf source_file macro_args dirs =
     (case read_file fs source_file of
        Inl e \<Rightarrow> Inl (CannotRead e)
      | Inr src \<Rightarrow>
          (case preprocess_with_defines_and_includes fs stk date_buf time_buf src (Some source_file) macro_args dirs False of
             Inl e \<Rightarrow> Inl (PreprocessError e)
           | Inr text \<Rightarrow>
               (case print_tokens_mode text source_file of Inl e \<Rightarrow> Inl (TokenError e) | Inr rows \<Rightarrow> Inr rows)))"

subsection \<open>What a command line means\<close>

text \<open>
  The options a user can give, the way each is written, and its effect. The parser of the
  arguments agrees with them whatever the order and the number of the options.
\<close>

datatype cl_option =
    PrintAst | PrintTokens | Werror | Wall | Wextra | Verbose | MaxErrors nat | Sysroot string
  | Define string | OptLevel nat | Std string | Ansi | NoWarnings | Debug
  | Include string | IncludeDir string | Isystem string | SourceFile string

fun write_option :: "cl_option \<Rightarrow> string list" where
  "write_option PrintAst = [''--print-ast'']"
| "write_option PrintTokens = [''--print-tokens'']"
| "write_option Werror = [''-Werror'']"
| "write_option Wall = [''-Wall'']"
| "write_option Wextra = [''-Wextra'']"
| "write_option Verbose = [''--verbose'']"
| "write_option (MaxErrors n) = [''--max-errors='' @ show_nat n]"
| "write_option (Sysroot d) = [''--sysroot='' @ d]"
| "write_option (Define d) = [''-D'' @ d]"
| "write_option (OptLevel n) = [''-O'' @ show_nat n]"
| "write_option (Std s) = [''-std='' @ s]"
| "write_option Ansi = [''-ansi'']"
| "write_option NoWarnings = [''-w'']"
| "write_option Debug = [''-g'']"
| "write_option (Include d) = [''-I'' @ d]"
| "write_option (IncludeDir d) = [''-I'', d]"
| "write_option (Isystem d) = [''-isystem'', d]"
| "write_option (SourceFile f) = [f]"

fun option_ok :: "cl_option \<Rightarrow> bool" where
  "option_ok (MaxErrors n) = (n < 2 ^ 31)"
| "option_ok (Sysroot d) = (d \<noteq> [])"
| "option_ok (OptLevel n) = (n \<le> 2)"
| "option_ok (Include d) = (d \<noteq> [])"
| "option_ok (SourceFile f) = (c_at f 0 \<noteq> CHR ''-'')"
| "option_ok _ = True"

fun option_effect :: "cl_option \<Rightarrow> driver_options \<Rightarrow> driver_options" where
  "option_effect PrintAst st = st\<lparr>print_ast := True\<rparr>"
| "option_effect PrintTokens st = st\<lparr>print_tokens := True\<rparr>"
| "option_effect Werror st =
     st\<lparr>warnings_are_errors := True, globals := (globals st)\<lparr>g_warnings_are_errors := True\<rparr>\<rparr>"
| "option_effect Wall st =
     st\<lparr>warn_level := max 1 (warn_level st), globals := (globals st)\<lparr>g_warn_level := max 1 (warn_level st)\<rparr>\<rparr>"
| "option_effect Wextra st =
     st\<lparr>warn_level := max 2 (warn_level st), globals := (globals st)\<lparr>g_warn_level := max 2 (warn_level st)\<rparr>\<rparr>"
| "option_effect Verbose st = st\<lparr>globals := (globals st)\<lparr>g_verbose := True\<rparr>\<rparr>"
| "option_effect (MaxErrors n) st = st\<lparr>globals := (globals st)\<lparr>g_max_errors := int n\<rparr>\<rparr>"
| "option_effect (Sysroot d) st = st\<lparr>sysroot := Some d\<rparr>"
| "option_effect (Define d) st = st\<lparr>macro_defines := macro_defines st @ [d]\<rparr>"
| "option_effect (OptLevel n) st = st\<lparr>opt_level := int n\<rparr>"
| "option_effect Debug st = st\<lparr>emit_debug := True\<rparr>"
| "option_effect (Include d) st = st\<lparr>include_dirs := include_dirs st @ [d]\<rparr>"
| "option_effect (IncludeDir d) st = st\<lparr>include_dirs := include_dirs st @ [d]\<rparr>"
| "option_effect (Isystem d) st = st\<lparr>include_dirs := include_dirs st @ [d]\<rparr>"
| "option_effect (SourceFile f) st = st\<lparr>source_files := source_files st @ [f]\<rparr>"
| "option_effect _ st = st"

lemma not_dash: "c_at a 0 \<noteq> CHR ''-'' \<Longrightarrow> \<not> starts_with (CHR ''-'' # p) a \<and> a \<noteq> CHR ''-'' # p"
  by (cases a) auto

lemma parse_source_file:
  "c_at a 0 \<noteq> CHR ''-'' \<Longrightarrow> parse_args v st (a # as) = parse_args v (st\<lparr>source_files := source_files st @ [a]\<rparr>) as"
  by (simp add: parse_args.simps(2) not_dash)

lemma show_small: "show_nat 1 = ''1''" "show_nat 2 = ''2''"
  by code_simp+

lemma parse_option:
  assumes "option_ok opt"
  shows "parse_args v st (write_option opt @ as) = parse_args v (option_effect opt st) as"
proof (cases opt)
  case (MaxErrors n)
  with assms have "in_long (int n)" "wrap32 (int n) = int n" by (simp_all add: long_defs wrap32_id)
  with MaxErrors show ?thesis by (simp add: parse_args.simps(2) strtol10_show_nat)
next
  case (OptLevel n)
  with assms consider "n = 0" | "n = 1" | "n = 2" by fastforce
  then show ?thesis
    by cases (simp_all add: OptLevel parse_args.simps(2) show_small [unfolded One_nat_def])
next
  case (SourceFile f)
  with assms show ?thesis by (simp add: parse_source_file)
qed (use assms in \<open>simp_all add: parse_args.simps(2) set_warn_level_def add_include_def max_def\<close>)

text \<open>
  (C31) A command line written from options sets exactly what the options say, taken from left
  to right: flags, limits and levels, and the lists of macros, directories and source files in
  the order given.
\<close>

theorem parse_args_reads_options:
  assumes "list_all option_ok opts"
  shows "parse_args version st (concat (map write_option opts)) = Parsed (fold option_effect opts st)"
  using assms by (induction opts arbitrary: st) (simp_all add: parse_option)

theorem parse_args_reads_options_witness:
  "parse_args [] initial_options [''-I'', ''inc'', ''a.c'', ''--max-errors=12''] =
     Parsed (fold option_effect [IncludeDir ''inc'', SourceFile ''a.c'', MaxErrors 12] initial_options)"
proof -
  have "show_nat 12 = ''12''" by code_simp
  then show ?thesis
    using parse_args_reads_options [of "[IncludeDir ''inc'', SourceFile ''a.c'', MaxErrors 12]" "[]" initial_options]
    by simp
qed

subsection \<open>The error limit on the command line\<close>

text \<open>
  The value of \<^verbatim>\<open>--max-errors\<close> is not checked as the message says: with no number at all,
  and with \<open>2^32\<close>, which the cast to \<^verbatim>\<open>int\<close> cuts to 0, the option is accepted and switches the
  limit off.
\<close>

lemma max_errors_without_number:
  "parse_args version st (''--max-errors='' # as) =
     parse_args version (st\<lparr>globals := (globals st)\<lparr>g_max_errors := 0\<rparr>\<rparr>) as \<and>
   parse_args version st ((''--max-errors='' @ show_nat (2 ^ 32)) # as) =
     parse_args version (st\<lparr>globals := (globals st)\<lparr>g_max_errors := 0\<rparr>\<rparr>) as"
proof (rule conjI)
  show "parse_args version st (''--max-errors='' # as) =
     parse_args version (st\<lparr>globals := (globals st)\<lparr>g_max_errors := 0\<rparr>\<rparr>) as"
    by (simp add: parse_args.simps(2) strtol10_def wrap32_id)
  have "strtol10 (show_nat (2 ^ 32)) = (2 ^ 32, [])" using strtol10_show_nat [of "2 ^ 32"] by (simp add: long_defs)
  moreover have "wrap32 (2 ^ 32) = 0" by code_simp
  ultimately show "parse_args version st ((''--max-errors='' @ show_nat (2 ^ 32)) # as) =
     parse_args version (st\<lparr>globals := (globals st)\<lparr>g_max_errors := 0\<rparr>\<rparr>) as"
    by (simp add: parse_args.simps(2))
qed

subsection \<open>The system root\<close>

lemma trim_slashes_not_Nil: "r \<noteq> [] \<Longrightarrow> trim_slashes r \<noteq> []"
  by (cases r) (simp_all add: trim_slashes_def)

lemma trim_slashes_plain: "c \<noteq> CHR ''/'' \<Longrightarrow> trim_slashes (r @ c # replicate n (CHR ''/'')) = r @ [c]"
proof (cases r)
  case (Cons d ds)
  assume c: "c \<noteq> CHR ''/''"
  have "dropWhile (\<lambda>x. x = CHR ''/'') (replicate n (CHR ''/'') @ c # rev ds) = c # rev ds"
    using c by (induction n) auto
  with Cons show ?thesis by (simp add: trim_slashes_def)
next
  case Nil
  have "dropWhile (\<lambda>x. x = CHR ''/'') (replicate n (CHR ''/'')) = []" by (induction n) auto
  with Nil show ?thesis by (simp add: trim_slashes_def)
qed

lemma apply_sysroot_relative: "\<forall>d \<in> set dirs. c_at d 0 \<noteq> CHR ''/'' \<Longrightarrow> apply_sysroot root dirs = dirs"
  by (cases root) (simp_all add: apply_sysroot_def map_idI)

lemma apply_sysroot_absolute:
  "c \<noteq> CHR ''/'' \<Longrightarrow> apply_sysroot (Some (r @ c # replicate n (CHR ''/''))) [CHR ''/'' # d] = [r @ [c] @ CHR ''/'' # d]"
  by (simp add: apply_sysroot_def trim_slashes_plain)

end
