(* ===== verification/Parser_State.thy ===== *)
theory Parser_State
  imports Lexer_Props Ast
begin

section \<open>The state of the parser: \<^verbatim>\<open>include/parser.h\<close>, \<^verbatim>\<open>src/parser.c\<close> to line 418\<close>

text \<open>
  The parser reads tokens from the lexer, one ahead, and keeps tables of functions, file-scope
  objects, typedefs, enumeration constants and tags. Its functions are programs of type
  \<open>'a parser\<close>: from a state to a result and a state, or to an error. \<^verbatim>\<open>PARSER_ERROR\<close> leaves the
  state as it is, because \<^verbatim>\<open>parse_translation_unit\<close> resumes from it, so an error carries the state
  it was raised in. The nodes of types live in \<open>types\<close>, the field tables of structures in
  \<open>field_tables\<close>; a type refers to its table by number. The vectors of the tables are lists.
\<close>

record EnumConst =
  ec_name :: string
  ec_value :: int

record EnumTag =
  et_tag :: string
  et_is_defined :: bool

record StructTag =
  st_tag :: string
  st_type :: "type_ptr option"

record TypedefEntry =
  td_name :: string
  td_kind :: TypeKind
  td_full_type :: "type_ptr option"
  td_scope_depth :: int

record FuncSig =
  sig_name :: string
  sig_param_count :: int
  sig_has_definition :: bool
  sig_return_type :: TypeKind
  sig_param_types :: "TypeKind list"
  sig_storage_class :: StorageClass
  sig_is_variadic :: bool
  sig_no_prototype :: bool

record GlobalObjSig =
  go_name :: string
  go_kind :: TypeKind
  go_storage_class :: StorageClass
  go_full_type :: "type_ptr option"
  go_is_defined :: bool

text \<open>Tags of unions have the same shape as tags of structures.\<close>

record Parser =
  lexer :: Lexer
  current :: Token
  funcs :: "FuncSig list"
  global_objs :: "GlobalObjSig list"
  loop_depth :: int
  switch_depth :: int
  typedefs :: "TypedefEntry list"
  scope_depth :: int
  enum_consts :: "EnumConst list"
  enum_tags :: "EnumTag list"
  struct_tags :: "StructTag list"
  union_tags :: "StructTag list"
  current_func_is_variadic :: bool
  current_func_name :: "string option"
  types :: type_heap
  field_tables :: "StructField list list"

text \<open>
  \<open>Diagnostic\<close> is a call of \<^verbatim>\<open>PARSER_ERROR\<close> with its formatted message; \<open>Lexical\<close> an error of the
  lexer, which ends the process; \<open>Fault\<close> a write behind an array or the use of a null
  pointer; \<open>Trap\<close> the division that the processor refuses. \<open>OutOfFuel\<close> does not exist in the
  code: it marks a bound on loops and recursion that was too small.
\<close>

datatype parse_error = Diagnostic string | Lexical lex_error | Fault | Trap | OutOfFuel

type_synonym 'a parser = "Parser \<Rightarrow> (parse_error \<times> Parser) + ('a \<times> Parser)"

subsection \<open>Programs over the state\<close>

definition ret :: "'a \<Rightarrow> 'a parser" where
  "ret x = (\<lambda>p. Inr (x, p))"

definition seq :: "'a parser \<Rightarrow> ('a \<Rightarrow> 'b parser) \<Rightarrow> 'b parser" where
  "seq m f = (\<lambda>p. case m p of Inl e \<Rightarrow> Inl e | Inr (x, p') \<Rightarrow> f x p')"

definition before :: "'a parser \<Rightarrow> 'b parser \<Rightarrow> 'b parser" where
  "before m k = seq m (\<lambda>_. k)"

definition raise :: "parse_error \<Rightarrow> 'a parser" where
  "raise e = (\<lambda>p. Inl (e, p))"

definition gets :: "(Parser \<Rightarrow> 'a) \<Rightarrow> 'a parser" where
  "gets f = (\<lambda>p. Inr (f p, p))"

definition modify :: "(Parser \<Rightarrow> Parser) \<Rightarrow> unit parser" where
  "modify f = (\<lambda>p. Inr ((), f p))"

text \<open>What comes next depends on the current token, or on the state.\<close>

definition on_token :: "(Token \<Rightarrow> 'a parser) \<Rightarrow> 'a parser" where
  "on_token f = (\<lambda>p. f (current p) p)"

definition on_kind :: "(TokenType \<Rightarrow> 'a parser) \<Rightarrow> 'a parser" where
  "on_kind f = (\<lambda>p. f (tk_type (current p)) p)"

definition on_state :: "(Parser \<Rightarrow> 'a parser) \<Rightarrow> 'a parser" where
  "on_state f = (\<lambda>p. f p p)"

definition guard_that :: "bool \<Rightarrow> parse_error \<Rightarrow> unit parser" where
  "guard_that b e = (if b then ret () else raise e)"

text \<open>\<^verbatim>\<open>PARSER_ERROR\<close> with a message that closes with a line end.\<close>

definition parser_error :: "string \<Rightarrow> 'a parser" where
  "parser_error msg = raise (Diagnostic (''error: '' @ msg @ [LF]))"

definition advance :: "unit parser" where
  "advance = (\<lambda>p. case lexer_next_token (lexer p) of
     Inl e \<Rightarrow> Inl (Lexical e, p)
   | Inr (t, lx) \<Rightarrow> Inr ((), p\<lparr>lexer := lx, current := t\<rparr>))"

definition parser_expect :: "TokenType \<Rightarrow> Token parser" where
  "parser_expect ty = on_token (\<lambda>token.
     if tk_type token \<noteq> ty
     then parser_error (''expected '' @ token_display_name ty @ '', got '' @ token_display_name (tk_type token)
            @ '' ('' @ quoted (c_text (tk_value token)) @ '')'')
     else before advance (ret token))"

text \<open>
  Looking further ahead: the code saves the position of the lexer and the current token, and
  puts them back. The line, the column and the file of the lexer are not put back.
\<close>

definition save :: "(nat \<times> Token) parser" where
  "save = gets (\<lambda>p. (pos (lexer p), current p))"

definition restore :: "nat \<times> Token \<Rightarrow> unit parser" where
  "restore s = modify (\<lambda>p. p\<lparr>lexer := (lexer p)\<lparr>pos := fst s\<rparr>, current := snd s\<rparr>)"

definition token_path :: "Parser \<Rightarrow> string option" where
  "token_path p = map_option (\<lambda>i. file_pool (lexer p) ! i) (tk_file (current p))"

definition parser_node :: "ASTNodeType \<Rightarrow> string option \<Rightarrow> ASTNode parser" where
  "parser_node ty v = gets (\<lambda>p.
     Node ((info (ast_new ty v))\<lparr>src_file := token_path p, src_line := int (tk_line (current p)),
       src_col := int (tk_col (current p))\<rparr>) [])"

text \<open>Fields of a node are set after it is made.\<close>

definition with_info :: "(ast_info \<Rightarrow> ast_info) \<Rightarrow> ASTNode \<Rightarrow> ASTNode" where
  "with_info f n = Node (f (info n)) (children n)"

text \<open>A constructor of types allocates a node.\<close>

definition new_type :: "(type_heap \<Rightarrow> type_heap \<times> type_ptr) \<Rightarrow> type_ptr parser" where
  "new_type f = (\<lambda>p. let (h, t) = f (types p) in Inr (t, p\<lparr>types := h\<rparr>))"

definition the_type :: "type_ptr \<Rightarrow> CType parser" where
  "the_type t = gets (\<lambda>p. types p ! t)"

fun add_pointers :: "nat \<Rightarrow> type_ptr \<Rightarrow> type_ptr parser" where
  "add_pointers 0 t = ret t"
| "add_pointers (Suc n) t = seq (new_type (\<lambda>h. type_pointer h t)) (add_pointers n)"

text \<open>A loop that consumes tokens of some kinds; \<open>n\<close> bounds the rounds.\<close>

fun skip_kinds :: "nat \<Rightarrow> (TokenType \<Rightarrow> bool) \<Rightarrow> unit parser" where
  "skip_kinds 0 P = raise OutOfFuel"
| "skip_kinds (Suc n) P = on_kind (\<lambda>k. if P k then before advance (skip_kinds n P) else ret ())"

definition accept :: "TokenType \<Rightarrow> bool parser" where
  "accept ty = on_kind (\<lambda>k. if k = ty then before advance (ret True) else ret False)"

definition parser_init :: "Lexer \<Rightarrow> lex_error + Parser" where
  "parser_init lx =
     map_result (\<lambda>(t, lx').
       \<lparr>lexer = lx', current = t, funcs = [], global_objs = [], loop_depth = 0, switch_depth = 0, typedefs = [],
        scope_depth = 0, enum_consts = [], enum_tags = [], struct_tags = [], union_tags = [],
        current_func_is_variadic = False, current_func_name = None, types = type_singletons, field_tables = []\<rparr>)
       (lexer_next_token lx)"

definition parser_free :: "Parser \<Rightarrow> Parser" where
  "parser_free p = p\<lparr>funcs := [], global_objs := [], typedefs := [], enum_consts := [], enum_tags := [],
     struct_tags := [], union_tags := []\<rparr>"

end
