(* ===== verification/Parser_Tables.thy ===== *)
theory Parser_Tables
  imports Parser_State
begin

section \<open>The symbol tables of the parser: \<^verbatim>\<open>src/parser.c\<close> lines 120 to 418\<close>

text \<open>
  Lookup and registration of typedefs, file-scope objects, functions and tags. A pointer to an
  entry of a table is its index. A registration changes an existing entry before it has
  checked everything, as the code does, and an error leaves the table in that state.
\<close>

fun index_of :: "('a \<Rightarrow> bool) \<Rightarrow> 'a list \<Rightarrow> nat option" where
  "index_of P [] = None"
| "index_of P (x # xs) = (if P x then Some 0 else map_option Suc (index_of P xs))"

subsection \<open>Typedefs\<close>

definition parser_find_typedef :: "Parser \<Rightarrow> string \<Rightarrow> TypedefEntry option" where
  "parser_find_typedef p name = find (\<lambda>e. td_name e = name) (rev (typedefs p))"

definition parser_register_typedef :: "string \<Rightarrow> TypeKind \<Rightarrow> type_ptr option \<Rightarrow> unit parser" where
  "parser_register_typedef name kind ft = on_state (\<lambda>p.
     if list_ex (\<lambda>e. td_scope_depth e = scope_depth p \<and> td_name e = name) (typedefs p)
     then parser_error (''duplicate typedef '' @ quoted name @ '' in this scope'')
     else modify (\<lambda>p. p\<lparr>typedefs := typedefs p @
            [\<lparr>td_name = name, td_kind = kind, td_full_type = ft, td_scope_depth = scope_depth p\<rparr>]\<rparr>))"

definition enter_scope :: "Parser \<Rightarrow> Parser" where
  "enter_scope p = p\<lparr>scope_depth := scope_depth p + 1\<rparr>"

definition parser_leave_scope :: "Parser \<Rightarrow> Parser" where
  "parser_leave_scope p =
     p\<lparr>typedefs := filter (\<lambda>e. td_scope_depth e < scope_depth p) (typedefs p), scope_depth := scope_depth p - 1\<rparr>"

subsection \<open>File-scope objects\<close>

definition parser_find_function :: "Parser \<Rightarrow> string \<Rightarrow> nat option" where
  "parser_find_function p name = index_of (\<lambda>s. sig_name s = name) (funcs p)"

definition parser_find_global :: "Parser \<Rightarrow> string \<Rightarrow> nat option" where
  "parser_find_global p name = index_of (\<lambda>g. go_name g = name) (global_objs p)"

text \<open>\<open>fa->params[i]\<close>, in the array of sixteen slots.\<close>

definition param_slot :: "CType \<Rightarrow> nat \<Rightarrow> type_ptr option" where
  "param_slot t i = (if i < length (ty_params t) then ty_params t ! i else None)"

definition same_kind :: "type_heap \<Rightarrow> type_ptr option \<Rightarrow> type_ptr option \<Rightarrow> bool" where
  "same_kind h a b =
     (case (a, b) of (Some x, Some y) \<Rightarrow> ty_kind (h ! x) = ty_kind (h ! y) | _ \<Rightarrow> False)"

definition func_ptr_types_equal :: "type_heap \<Rightarrow> type_ptr option \<Rightarrow> type_ptr option \<Rightarrow> bool" where
  "func_ptr_types_equal h a b =
     (case (a, b) of
        (Some pa, Some pb) \<Rightarrow>
          ty_kind (h ! pa) = TYPE_POINTER \<and> ty_kind (h ! pb) = TYPE_POINTER \<and>
          (case (ty_base (h ! pa), ty_base (h ! pb)) of
             (Some fa, Some fb) \<Rightarrow>
               ty_kind (h ! fa) = TYPE_FUNCTION \<and> ty_kind (h ! fb) = TYPE_FUNCTION \<and>
               same_kind h (ty_base (h ! fa)) (ty_base (h ! fb)) \<and>
               ty_param_count (h ! fa) = ty_param_count (h ! fb) \<and>
               list_all (\<lambda>i. same_kind h (param_slot (h ! fa) i) (param_slot (h ! fb) i))
                 [0..<nat (ty_param_count (h ! fa))]
           | _ \<Rightarrow> False)
      | _ \<Rightarrow> a = b)"

definition is_func_ptr :: "type_heap \<Rightarrow> type_ptr \<Rightarrow> bool" where
  "is_func_ptr h t = (case ty_base (h ! t) of None \<Rightarrow> False | Some b \<Rightarrow> ty_kind (h ! b) = TYPE_FUNCTION)"

definition set_global :: "nat \<Rightarrow> (GlobalObjSig \<Rightarrow> GlobalObjSig) \<Rightarrow> unit parser" where
  "set_global i f = modify (\<lambda>p. p\<lparr>global_objs := (global_objs p)[i := f (global_objs p ! i)]\<rparr>)"

text \<open>The checks and changes for an object that was declared before.\<close>

definition merge_global ::
  "string \<Rightarrow> nat \<Rightarrow> GlobalObjSig \<Rightarrow> TypeKind \<Rightarrow> StorageClass \<Rightarrow> type_ptr option \<Rightarrow> bool \<Rightarrow> unit parser" where
  "merge_global name i ex kind sc ft has_init = on_state (\<lambda>p.
     let conflict = parser_error (''conflicting type for global '' @ quoted name);
         define_once =
           (if go_is_defined ex \<and> has_init then parser_error (''duplicate definition of '' @ quoted name)
            else if has_init then set_global i (\<lambda>g. g\<lparr>go_is_defined := True\<rparr>)
            else ret ())
     in if go_kind ex \<noteq> kind then conflict
        else if kind = TYPE_POINTER \<and>
                (case (go_full_type ex, ft) of
                   (Some ef, Some nf) \<Rightarrow>
                     is_func_ptr (types p) ef \<and> is_func_ptr (types p) nf \<and>
                     \<not> func_ptr_types_equal (types p) (Some ef) (Some nf)
                 | _ \<Rightarrow> False)
        then conflict
        else if (go_storage_class ex = SC_STATIC) \<noteq> (sc = SC_STATIC)
        then parser_error (''conflicting linkage for '' @ quoted name)
        else if go_storage_class ex = SC_STATIC then define_once
        else if go_storage_class ex \<noteq> SC_EXTERN \<and> sc \<noteq> SC_EXTERN then define_once
        else if sc = SC_NONE then set_global i (\<lambda>g. g\<lparr>go_storage_class := SC_NONE\<rparr>)
        else ret ())"

definition parser_register_global ::
  "string \<Rightarrow> TypeKind \<Rightarrow> StorageClass \<Rightarrow> type_ptr option \<Rightarrow> bool \<Rightarrow> unit parser" where
  "parser_register_global name kind sc ft has_init = on_state (\<lambda>p.
     case parser_find_global p name of
       Some i \<Rightarrow> merge_global name i (global_objs p ! i) kind sc ft has_init
     | None \<Rightarrow> modify (\<lambda>p. p\<lparr>global_objs := global_objs p @
         [\<lparr>go_name = name, go_kind = kind, go_storage_class = sc, go_full_type = ft, go_is_defined = has_init\<rparr>]\<rparr>))"

subsection \<open>Functions\<close>

definition FUNC_MAX_PARAMS :: nat where
  "FUNC_MAX_PARAMS = 16"

definition set_function :: "nat \<Rightarrow> (FuncSig \<Rightarrow> FuncSig) \<Rightarrow> unit parser" where
  "set_function i f = modify (\<lambda>p. p\<lparr>funcs := (funcs p)[i := f (funcs p ! i)]\<rparr>)"

text \<open>
  The loop that copies \<open>n\<close> parameter kinds into the array of sixteen; the source array has
  \<open>n\<close> entries or is null.
\<close>

definition copy_kinds :: "nat \<Rightarrow> int \<Rightarrow> TypeKind list option \<Rightarrow> unit parser" where
  "copy_kinds i n src =
     (case src of
        None \<Rightarrow> ret ()
      | Some ks \<Rightarrow>
          if nat n > FUNC_MAX_PARAMS \<or> nat n > length ks then raise Fault
          else set_function i (\<lambda>s. s\<lparr>sig_param_types := take (nat n) ks @ drop (nat n) (sig_param_types s)\<rparr>))"

definition adopt_signature :: "nat \<Rightarrow> int \<Rightarrow> TypeKind \<Rightarrow> TypeKind list option \<Rightarrow> unit parser" where
  "adopt_signature i n rt ks =
     before (set_function i (\<lambda>s. s\<lparr>sig_param_count := n, sig_return_type := rt\<rparr>)) (copy_kinds i n ks)"

fun first_mismatch :: "nat \<Rightarrow> TypeKind list \<Rightarrow> TypeKind list \<Rightarrow> nat option" where
  "first_mismatch i (a # as) (b # bs) = (if a \<noteq> b then Some i else first_mismatch (Suc i) as bs)"
| "first_mismatch i _ _ = None"

definition check_kinds :: "string \<Rightarrow> nat \<Rightarrow> int \<Rightarrow> TypeKind list option \<Rightarrow> unit parser" where
  "check_kinds name i n src =
     (if n \<le> 0 then ret ()
      else case src of
        None \<Rightarrow> raise Fault
      | Some ks \<Rightarrow> on_state (\<lambda>p.
          case first_mismatch 0 (sig_param_types (funcs p ! i)) (take (nat n) ks) of
            Some k \<Rightarrow> parser_error (''function '' @ quoted name @ '' parameter type mismatch at position '' @ show_nat (k + 1))
          | None \<Rightarrow> if nat n > FUNC_MAX_PARAMS then raise Fault else ret ()))"

definition merge_function ::
  "string \<Rightarrow> nat \<Rightarrow> FuncSig \<Rightarrow> int \<Rightarrow> bool \<Rightarrow> TypeKind \<Rightarrow> TypeKind list option \<Rightarrow> StorageClass \<Rightarrow> unit parser" where
  "merge_function name i ex n is_definition rt ks sc =
     (if (sig_storage_class ex = SC_STATIC) \<noteq> (sc = SC_STATIC)
      then parser_error (''conflicting linkage for '' @ quoted name)
      else before
       (if sig_no_prototype ex \<and> n \<ge> 0 then adopt_signature i n rt ks
        else if sig_param_count ex = - 1 then adopt_signature i n rt ks
        else if n \<noteq> - 1 \<and> sig_param_count ex \<noteq> n
        then parser_error (''function '' @ quoted name @ '' parameter count mismatch ('' @ show_int (sig_param_count ex)
               @ '' vs '' @ show_int n @ '')'')
        else ret ())
       (on_state (\<lambda>p.
        let s = funcs p ! i in
        if sig_return_type s \<noteq> rt then parser_error (''function '' @ quoted name @ '' return type mismatch'')
        else before
         (if sig_no_prototype s then ret () else check_kinds name i n ks)
         (if is_definition then
            (if sig_has_definition s then parser_error (''duplicate function definition '' @ quoted name)
             else set_function i (\<lambda>s. s\<lparr>sig_has_definition := True\<rparr>))
          else ret ()))))"

definition parser_register_function ::
  "string \<Rightarrow> int \<Rightarrow> bool \<Rightarrow> TypeKind \<Rightarrow> TypeKind list option \<Rightarrow> StorageClass \<Rightarrow> bool \<Rightarrow> bool \<Rightarrow> unit parser" where
  "parser_register_function name n is_definition rt ks sc variadic no_prototype = on_state (\<lambda>p.
     if parser_find_global p name \<noteq> None
     then parser_error (quoted name @ '' redeclared as a different kind of symbol'')
     else case parser_find_function p name of
       Some i \<Rightarrow> merge_function name i (funcs p ! i) n is_definition rt ks sc
     | None \<Rightarrow>
         if n > int FUNC_MAX_PARAMS
         then parser_error (''function '' @ quoted name @ '' has '' @ show_int n @ '' parameters; max supported is ''
                @ show_nat FUNC_MAX_PARAMS)
         else if n > 0 \<and> (case ks of None \<Rightarrow> True | Some l \<Rightarrow> nat n > length l) then raise Fault
         else modify (\<lambda>p. p\<lparr>funcs := funcs p @
                [\<lparr>sig_name = name, sig_param_count = n, sig_has_definition = is_definition, sig_return_type = rt,
                  sig_param_types = (case ks of None \<Rightarrow> replicate FUNC_MAX_PARAMS TYPE_VOID
                     | Some l \<Rightarrow> take (nat n) l @ replicate (FUNC_MAX_PARAMS - nat n) TYPE_VOID),
                  sig_storage_class = sc, sig_is_variadic = variadic, sig_no_prototype = no_prototype\<rparr>]\<rparr>))"

subsection \<open>Tags and enumeration constants\<close>

definition parser_find_struct_tag :: "Parser \<Rightarrow> string \<Rightarrow> nat option" where
  "parser_find_struct_tag p tag = index_of (\<lambda>s. st_tag s = tag) (struct_tags p)"

definition parser_register_struct_tag :: "string \<Rightarrow> nat parser" where
  "parser_register_struct_tag tag = on_state (\<lambda>p.
     case parser_find_struct_tag p tag of
       Some i \<Rightarrow> ret i
     | None \<Rightarrow> before (modify (\<lambda>p. p\<lparr>struct_tags := struct_tags p @ [\<lparr>st_tag = tag, st_type = None\<rparr>]\<rparr>))
                 (ret (length (struct_tags p))))"

definition parser_find_union_tag :: "Parser \<Rightarrow> string \<Rightarrow> nat option" where
  "parser_find_union_tag p tag = index_of (\<lambda>s. st_tag s = tag) (union_tags p)"

definition parser_register_union_tag :: "string \<Rightarrow> nat parser" where
  "parser_register_union_tag tag = on_state (\<lambda>p.
     case parser_find_union_tag p tag of
       Some i \<Rightarrow> ret i
     | None \<Rightarrow> before (modify (\<lambda>p. p\<lparr>union_tags := union_tags p @ [\<lparr>st_tag = tag, st_type = None\<rparr>]\<rparr>))
                 (ret (length (union_tags p))))"

definition find_enum_const :: "Parser \<Rightarrow> string \<Rightarrow> int option" where
  "find_enum_const p name = map_option ec_value (find (\<lambda>e. ec_name e = name) (enum_consts p))"

subsection \<open>Scopes of typedefs\<close>

text \<open>
  What the parser of declarations expects of a table with scopes: a declaration is visible at
  once and hides outer ones, a scope starts empty, and leaving it forgets exactly what was
  declared in it.
\<close>

locale scoped_names =
  fixes ok :: "'s \<Rightarrow> bool"
    and lookup :: "'s \<Rightarrow> string \<Rightarrow> 'e option"
    and fresh :: "'s \<Rightarrow> string \<Rightarrow> bool"
    and add :: "string \<Rightarrow> 'e \<Rightarrow> 's \<Rightarrow> 's"
    and enter :: "'s \<Rightarrow> 's"
    and leave :: "'s \<Rightarrow> 's"
    and depth :: "'s \<Rightarrow> nat"
  assumes ok_enter: "ok s \<Longrightarrow> ok (enter s)"
    and ok_add: "ok s \<Longrightarrow> fresh s n \<Longrightarrow> ok (add n e s)"
    and lookup_add: "ok s \<Longrightarrow> lookup (add n e s) m = (if m = n then Some e else lookup s m)"
    and fresh_add: "ok s \<Longrightarrow> fresh (add n e s) m \<longleftrightarrow> m \<noteq> n \<and> fresh s m"
    and lookup_enter: "lookup (enter s) m = lookup s m"
    and fresh_enter: "ok s \<Longrightarrow> fresh (enter s) m"
    and leave_enter: "ok s \<Longrightarrow> leave (enter s) = s"
    and leave_add: "ok s \<Longrightarrow> 0 < depth s \<Longrightarrow> leave (add n e s) = leave s"
    and depth_enter: "ok s \<Longrightarrow> depth (enter s) = Suc (depth s)"
    and depth_add: "depth (add n e s) = depth s"
begin

definition add_all :: "(string \<times> 'e) list \<Rightarrow> 's \<Rightarrow> 's" where
  "add_all ds s = fold (\<lambda>(n, e). add n e) ds s"

lemma add_all_simps [simp]:
  "add_all [] s = s" "add_all ((n, e) # ds) s = add_all ds (add n e s)"
  by (simp_all add: add_all_def)

lemma add_all_block:
  "ok s \<Longrightarrow> distinct (map fst ds) \<Longrightarrow> (\<And>n. n \<in> fst ` set ds \<Longrightarrow> fresh s n) \<Longrightarrow> 0 < depth s \<Longrightarrow>
   ok (add_all ds s) \<and> leave (add_all ds s) = leave s \<and>
   lookup (add_all ds s) m = (case map_of ds m of Some e \<Rightarrow> Some e | None \<Rightarrow> lookup s m)"
proof (induction ds arbitrary: s)
  case (Cons d ds)
  obtain n e where d: "d = (n, e)" by (cases d)
  have ok: "ok (add n e s)" using Cons.prems d by (intro ok_add) auto
  have fresh: "fresh (add n e s) k" if "k \<in> fst ` set ds" for k
    using that Cons.prems d by (auto simp: fresh_add)
  have "map_of ds n = None" using Cons.prems(2) d by (simp add: map_of_eq_None_iff)
  then show ?case using Cons.IH [OF ok _ fresh] Cons.prems d
    by (auto simp: depth_add leave_add lookup_add split: option.split)
qed simp

lemma block_scoping:
  assumes "ok s" "distinct (map fst ds)"
  shows "leave (add_all ds (enter s)) = s \<and>
    lookup (add_all ds (enter s)) m = (case map_of ds m of Some e \<Rightarrow> Some e | None \<Rightarrow> lookup s m)"
  using add_all_block [of "enter s" ds m] assms
  by (simp add: ok_enter fresh_enter depth_enter leave_enter lookup_enter cong: option.case_cong)

end

text \<open>The entries of a table never lie deeper than the current scope, and outer ones come first.\<close>

definition typedefs_ok :: "Parser \<Rightarrow> bool" where
  "typedefs_ok p \<longleftrightarrow> 0 \<le> scope_depth p \<and> list_all (\<lambda>e. td_scope_depth e \<le> scope_depth p) (typedefs p)"

definition fresh_typedef :: "Parser \<Rightarrow> string \<Rightarrow> bool" where
  "fresh_typedef p n \<longleftrightarrow> \<not> list_ex (\<lambda>e. td_scope_depth e = scope_depth p \<and> td_name e = n) (typedefs p)"

definition typedef_meaning :: "Parser \<Rightarrow> string \<Rightarrow> (TypeKind \<times> type_ptr option) option" where
  "typedef_meaning p n = map_option (\<lambda>e. (td_kind e, td_full_type e)) (parser_find_typedef p n)"

definition add_typedef :: "string \<Rightarrow> TypeKind \<times> type_ptr option \<Rightarrow> Parser \<Rightarrow> Parser" where
  "add_typedef n d p = p\<lparr>typedefs := typedefs p @
     [\<lparr>td_name = n, td_kind = fst d, td_full_type = snd d, td_scope_depth = scope_depth p\<rparr>]\<rparr>"

lemma parser_register_typedef_eq:
  "parser_register_typedef n k t p =
     (if fresh_typedef p n then Inr ((), add_typedef n (k, t) p)
      else Inl (Diagnostic (''error: duplicate typedef '' @ quoted n @ '' in this scope'' @ [LF]), p))"
  by (simp add: parser_register_typedef_def on_state_def fresh_typedef_def parser_error_def raise_def
      modify_def add_typedef_def)

interpretation td: scoped_names typedefs_ok typedef_meaning fresh_typedef add_typedef enter_scope parser_leave_scope
  "\<lambda>p. nat (scope_depth p)"
proof unfold_locales
  fix s :: Parser and n m :: string and e :: "TypeKind \<times> type_ptr option"
  assume ok: "typedefs_ok s"
  show "typedefs_ok (enter_scope s)" using ok by (auto simp: typedefs_ok_def enter_scope_def list_all_iff)
  show "typedef_meaning (add_typedef n e s) m = (if m = n then Some e else typedef_meaning s m)"
    by (simp add: typedef_meaning_def parser_find_typedef_def add_typedef_def)
  show "fresh_typedef (add_typedef n e s) m \<longleftrightarrow> m \<noteq> n \<and> fresh_typedef s m"
    by (auto simp: fresh_typedef_def add_typedef_def)
  show "fresh_typedef (enter_scope s) m" using ok
    by (auto simp: fresh_typedef_def enter_scope_def typedefs_ok_def list_all_iff list_ex_iff)
  have "filter (\<lambda>e. td_scope_depth e < scope_depth s + 1) (typedefs s) = typedefs s"
    using ok by (auto simp: typedefs_ok_def list_all_iff intro!: filter_True)
  then show "parser_leave_scope (enter_scope s) = s" by (simp add: parser_leave_scope_def enter_scope_def)
  show "nat (scope_depth (enter_scope s)) = Suc (nat (scope_depth s))"
    using ok by (auto simp: enter_scope_def typedefs_ok_def nat_add_distrib)
  show "fresh_typedef s n \<Longrightarrow> typedefs_ok (add_typedef n e s)"
    using ok by (simp add: typedefs_ok_def add_typedef_def)
  show "parser_leave_scope (add_typedef n e s) = parser_leave_scope s"
    by (simp add: parser_leave_scope_def add_typedef_def)
next
  fix s :: Parser and n m :: string and e :: "TypeKind \<times> type_ptr option"
  show "typedef_meaning (enter_scope s) m = typedef_meaning s m"
    by (simp add: typedef_meaning_def parser_find_typedef_def enter_scope_def)
  show "nat (scope_depth (add_typedef n e s)) = nat (scope_depth s)" by (simp add: add_typedef_def)
qed

text \<open>The typedefs of a block, registered one after the other.\<close>

fun register_typedefs :: "(string \<times> TypeKind \<times> type_ptr option) list \<Rightarrow> unit parser" where
  "register_typedefs [] = ret ()"
| "register_typedefs ((n, k, t) # ds) = before (parser_register_typedef n k t) (register_typedefs ds)"

lemma register_typedefs_eq:
  "typedefs_ok p \<Longrightarrow> distinct (map fst ds) \<Longrightarrow> (\<And>n. n \<in> fst ` set ds \<Longrightarrow> fresh_typedef p n) \<Longrightarrow>
   register_typedefs ds p = Inr ((), td.add_all ds p)"
proof (induction ds arbitrary: p)
  case (Cons d ds)
  obtain n k t where d: "d = (n, k, t)" by (cases d)
  have "fresh_typedef (add_typedef n (k, t) p) m" if "m \<in> fst ` set ds" for m
    using that Cons.prems d by (auto simp: td.fresh_add)
  moreover have "typedefs_ok (add_typedef n (k, t) p)" using Cons.prems d by (intro td.ok_add) auto
  ultimately show ?case using Cons d
    by (simp add: before_def seq_def parser_register_typedef_eq)
qed (simp add: ret_def)

text \<open>
  (C16) Typedef names are scoped: in a block, names may be declared again, every one is found with
  its innermost declaration, declarations before the block stay visible unless hidden, and at the
  end of the block the table is exactly what it was before.
\<close>

theorem typedef_scoping:
  assumes "typedefs_ok p" "distinct (map fst ds)"
  shows "\<exists>p'. register_typedefs ds (enter_scope p) = Inr ((), p') \<and> parser_leave_scope p' = p \<and>
    (\<forall>n. typedef_meaning p' n = (case map_of ds n of Some e \<Rightarrow> Some e | None \<Rightarrow> typedef_meaning p n))"
proof (intro exI conjI allI)
  show "register_typedefs ds (enter_scope p) = Inr ((), td.add_all ds (enter_scope p))"
    using assms by (intro register_typedefs_eq) (auto intro: td.ok_enter td.fresh_enter)
  show "parser_leave_scope (td.add_all ds (enter_scope p)) = p"
    using td.block_scoping [OF assms] by blast
  show "typedef_meaning (td.add_all ds (enter_scope p)) n =
      (case map_of ds n of Some e \<Rightarrow> Some e | None \<Rightarrow> typedef_meaning p n)" for n
    using td.block_scoping [OF assms] by blast
qed

definition sample_parser :: Parser where
  "sample_parser = projr (parser_init (lexer_init [] None))"

theorem typedef_scoping_witness:
  "\<exists>p'. register_typedefs [(''T'', TYPE_CHAR, None)] (enter_scope (add_typedef ''T'' (TYPE_INT, None) sample_parser)) =
      Inr ((), p') \<and> parser_leave_scope p' = add_typedef ''T'' (TYPE_INT, None) sample_parser \<and>
    (\<forall>n. typedef_meaning p' n = (case map_of [(''T'', TYPE_CHAR, None)] n of Some e \<Rightarrow> Some e
       | None \<Rightarrow> typedef_meaning (add_typedef ''T'' (TYPE_INT, None) sample_parser) n))"
proof (rule typedef_scoping)
  show "typedefs_ok (add_typedef ''T'' (TYPE_INT, None) sample_parser)" by code_simp
qed simp

subsection \<open>Definitions of an object\<close>

lemma index_of_append_None: "index_of P xs = None \<Longrightarrow> index_of P (xs @ [y]) = (if P y then Some (length xs) else None)"
  by (induction xs) (auto split: if_split_asm)

lemmas parser_prims = ret_def seq_def before_def raise_def gets_def modify_def on_token_def on_kind_def on_state_def

lemma register_new_global:
  "parser_find_global p x = None \<Longrightarrow> parser_register_global x k sc t d p =
     Inr ((), p\<lparr>global_objs := global_objs p @
       [\<lparr>go_name = x, go_kind = k, go_storage_class = sc, go_full_type = t, go_is_defined = d\<rparr>]\<rparr>)"
  by (simp add: parser_register_global_def parser_prims)

lemma register_known_global:
  "index_of (\<lambda>g. go_name g = x) gs = None \<Longrightarrow>
   parser_register_global x k sc t d (p\<lparr>global_objs := gs @ [g\<lparr>go_name := x\<rparr>]\<rparr>) =
   merge_global x (length gs) (g\<lparr>go_name := x\<rparr>) k sc t d (p\<lparr>global_objs := gs @ [g\<lparr>go_name := x\<rparr>]\<rparr>)"
  by (simp add: parser_register_global_def parser_prims parser_find_global_def index_of_append_None)

text \<open>
  Any number of declarations of one object, each with its storage class and whether it has an
  initializer. The initializers that count are all of those on declarations that are not
  \<^verbatim>\<open>extern\<close>, but when the first declaration is \<^verbatim>\<open>extern\<close> the first one behind it that is not escapes:
  it turns the entry into a definition and is not remembered as one.
\<close>

type_synonym decl = "StorageClass \<times> bool"

fun register_all :: "string \<Rightarrow> TypeKind \<Rightarrow> type_ptr option \<Rightarrow> decl list \<Rightarrow> unit parser" where
  "register_all x k t [] = ret ()"
| "register_all x k t ((sc, ini) # ds) = before (parser_register_global x k sc t ini) (register_all x k t ds)"

definition same_linkage :: "decl list \<Rightarrow> bool" where
  "same_linkage ds \<longleftrightarrow> list_all (\<lambda>d. fst d = SC_STATIC) ds \<or> list_all (\<lambda>d. fst d \<noteq> SC_STATIC) ds"

definition later_initializers :: "StorageClass \<Rightarrow> decl list \<Rightarrow> bool list" where
  "later_initializers sc ds = map snd (drop (if sc = SC_EXTERN then 1 else 0) (filter (\<lambda>d. fst d \<noteq> SC_EXTERN) ds))"

fun counted_initializers :: "decl list \<Rightarrow> bool list" where
  "counted_initializers [] = []"
| "counted_initializers ((sc, ini) # ds) = ini # later_initializers sc ds"

definition at_most_one :: "bool list \<Rightarrow> bool" where
  "at_most_one bs \<longleftrightarrow> length (filter (\<lambda>b. b) bs) \<le> 1"

definition one_object :: "string \<Rightarrow> TypeKind \<Rightarrow> type_ptr option \<Rightarrow> StorageClass \<Rightarrow> bool \<Rightarrow> GlobalObjSig" where
  "one_object x k t sc d = \<lparr>go_name = x, go_kind = k, go_storage_class = sc, go_full_type = t, go_is_defined = d\<rparr>"

text \<open>What the declarations of an object give: one entry more, or one of two messages.\<close>

definition declaration_outcome :: "string \<Rightarrow> TypeKind \<Rightarrow> type_ptr option \<Rightarrow> decl list \<Rightarrow> bool \<Rightarrow> GlobalObjSig list \<Rightarrow>
    (parse_error \<times> Parser) + (unit \<times> Parser) \<Rightarrow> bool" where
  "declaration_outcome x k t ds once gs r \<longleftrightarrow>
     (case r of
        Inr (_, p') \<Rightarrow> same_linkage ds \<and> once \<and> (\<exists>sc d. global_objs p' = gs @ [one_object x k t sc d])
      | Inl (e, _) \<Rightarrow> \<not> (same_linkage ds \<and> once) \<and>
          (e = Diagnostic (''error: duplicate definition of '' @ quoted x @ [LF]) \<or>
           \<not> same_linkage ds \<and> e = Diagnostic (''error: conflicting linkage for '' @ quoted x @ [LF])))"

definition file_scope :: "StorageClass \<Rightarrow> bool" where
  "file_scope sc \<longleftrightarrow> sc = SC_NONE \<or> sc = SC_EXTERN \<or> sc = SC_STATIC"

lemma register_again:
  assumes none: "index_of (\<lambda>g. go_name g = x) gs = None" and k: "k \<noteq> TYPE_POINTER"
  shows "parser_register_global x k sc t ini (p\<lparr>global_objs := gs @ [one_object x k t sc0 d]\<rparr>) =
    (if (sc0 = SC_STATIC) \<noteq> (sc = SC_STATIC)
     then parser_error (''conflicting linkage for '' @ quoted x) (p\<lparr>global_objs := gs @ [one_object x k t sc0 d]\<rparr>)
     else if sc0 \<noteq> SC_EXTERN \<and> sc \<noteq> SC_EXTERN \<and> d \<and> ini
     then parser_error (''duplicate definition of '' @ quoted x) (p\<lparr>global_objs := gs @ [one_object x k t sc0 d]\<rparr>)
     else Inr ((), p\<lparr>global_objs := gs @ [one_object x k t
            (if sc0 = SC_EXTERN \<and> sc = SC_NONE then SC_NONE else sc0)
            (if sc0 \<noteq> SC_EXTERN \<and> sc \<noteq> SC_EXTERN then d \<or> ini else d)]\<rparr>))"
proof -
  have "parser_register_global x k sc t ini (p\<lparr>global_objs := gs @ [one_object x k t sc0 d]\<rparr>) =
      merge_global x (length gs) (one_object x k t sc0 d) k sc t ini (p\<lparr>global_objs := gs @ [one_object x k t sc0 d]\<rparr>)"
    using register_known_global [OF none, where g = "one_object x k t sc0 d"] by (simp add: one_object_def)
  with k show ?thesis
    by (auto simp: merge_global_def on_state_def set_global_def modify_def one_object_def ret_def)
qed

lemma later_initializers_Cons:
  "later_initializers sc ((sc', ini) # ds) =
     (if sc' = SC_EXTERN then later_initializers sc ds
      else if sc = SC_EXTERN then later_initializers sc' ds else ini # later_initializers sc ds)"
  by (auto simp: later_initializers_def)

lemma same_linkage_Cons2:
  "same_linkage (d # (sc, ini) # ds) \<longleftrightarrow> (fst d = SC_STATIC) = (sc = SC_STATIC) \<and> same_linkage ((sc, b) # ds)"
  by (cases d) (auto simp: same_linkage_def)

lemma at_most_one_simps [simp]:
  "at_most_one [b]" "at_most_one (False # bs) = at_most_one bs"
  "at_most_one (True # True # bs) = False" "at_most_one (True # False # bs) = at_most_one (True # bs)"
  by (simp_all add: at_most_one_def)

lemma parser_error_run: "parser_error msg p = Inl (Diagnostic (''error: '' @ msg @ [LF]), p)"
  by (simp add: parser_error_def raise_def)

lemma outcome_after:
  assumes none: "index_of (\<lambda>g. go_name g = x) gs = None" and k: "k \<noteq> TYPE_POINTER"
  shows "list_all (\<lambda>d. file_scope (fst d)) ds \<Longrightarrow> file_scope sc \<Longrightarrow>
    declaration_outcome x k t ((sc, b) # ds) (at_most_one (d # later_initializers sc ds)) gs
      (register_all x k t ds (p\<lparr>global_objs := gs @ [one_object x k t sc d]\<rparr>))"
proof (induction ds arbitrary: sc d b)
  case Nil
  then show ?case by (auto simp: declaration_outcome_def ret_def later_initializers_def same_linkage_def)
next
  case (Cons e ds)
  obtain sc' ini where e: "e = (sc', ini)" by (cases e)
  let ?sc = "if sc = SC_EXTERN \<and> sc' = SC_NONE then SC_NONE else sc"
  let ?d = "if sc \<noteq> SC_EXTERN \<and> sc' \<noteq> SC_EXTERN then d \<or> ini else d"
  have fs: "list_all (\<lambda>d. file_scope (fst d)) ds" "file_scope ?sc" "file_scope sc'" using Cons.prems e by (auto simp: file_scope_def)
  note IH = Cons.IH [OF fs(1,2), of b ?d]
  consider (linkage) "(sc = SC_STATIC) \<noteq> (sc' = SC_STATIC)"
    | (twice) "(sc = SC_STATIC) = (sc' = SC_STATIC)" "sc \<noteq> SC_EXTERN \<and> sc' \<noteq> SC_EXTERN \<and> d \<and> ini"
    | (fine) "(sc = SC_STATIC) = (sc' = SC_STATIC)" "\<not> (sc \<noteq> SC_EXTERN \<and> sc' \<noteq> SC_EXTERN \<and> d \<and> ini)" by blast
  then show ?case
  proof cases
    case linkage
    then have "\<not> same_linkage ((sc, b) # (sc', ini) # ds)" by (auto simp: same_linkage_def)
    with linkage show ?thesis
      by (simp add: e before_def seq_def register_again [OF none k] parser_error_run declaration_outcome_def)
  next
    case twice
    then show ?thesis
      by (simp add: e before_def seq_def register_again [OF none k] parser_error_run declaration_outcome_def later_initializers_Cons)
  next
    case fine
    have link: "same_linkage ((sc, b) # (sc', ini) # ds) \<longleftrightarrow> same_linkage ((?sc, b) # ds)"
      using fine(1) by (auto simp: same_linkage_def)
    have ones: "at_most_one (d # later_initializers sc ((sc', ini) # ds)) \<longleftrightarrow> at_most_one (?d # later_initializers ?sc ds)"
      using fine fs(3) by (cases d; cases ini) (auto simp: later_initializers_Cons file_scope_def)
    have "register_all x k t (e # ds) (p\<lparr>global_objs := gs @ [one_object x k t sc d]\<rparr>) =
        register_all x k t ds (p\<lparr>global_objs := gs @ [one_object x k t ?sc ?d]\<rparr>)"
      using fine by (auto simp: e before_def seq_def register_again [OF none k])
    with IH show ?thesis unfolding e declaration_outcome_def link ones by simp
  qed
qed



end
