(* ===== verification/Parser_Types.thy ===== *)
theory Parser_Types
  imports Parser_Tables
begin

unbundle bit_operations_syntax

section \<open>Type specifiers and declarators: \<^verbatim>\<open>src/parser.c\<close> lines 420 to 1749\<close>

text \<open>
  The functions of the parser call each other in cycles. Every cycle consumes a token before it
  closes, so the calls that close one go through a record \<open>knot\<close> of the functions at the level
  below, and the knot is tied in theory \<open>Parser_Expr\<close> by recursion on the depth. The field
  \<open>k_loop\<close> bounds the rounds of a loop; each round consumes a token too.

  Locations of types are addresses in the heap; the fields collected for a structure and the
  state of its layout are the record \<open>layout\<close>, and every step of the layout is a function on it.
\<close>

record knot =
  k_loop :: nat
  k_type_specifier :: "(type_ptr \<times> TypeKind) parser"
  k_const_expr :: "string \<Rightarrow> int parser"
  k_const_unary :: "string \<Rightarrow> int parser"
  k_const_conditional :: "string \<Rightarrow> int parser"
  k_expression :: "ASTNode parser"
  k_assignment :: "ASTNode parser"
  k_conditional :: "ASTNode parser"
  k_cast :: "ASTNode parser"
  k_unary :: "ASTNode parser"
  k_initializer :: "ASTNode parser"

definition MAX_ARRAY_DIMS :: nat where
  "MAX_ARRAY_DIMS = 8"

record ParsedDeclarator =
  d_name :: string
  pointer_count :: nat
  is_array :: bool
  has_size :: bool
  array_length :: int
  array_dims :: "int list"
  is_function :: bool
  is_func_pointer :: bool
  fp_outer_stars :: nat
  fp_inner_stars :: nat
  fp_param_types :: "type_ptr list"
  pointer_is_const :: bool
  is_ptr_to_array :: bool
  ptr_to_array_length :: int
  ptr_to_array_has_size :: bool
  is_func_returning_fp :: bool
  own_param_types :: "type_ptr list"
  own_is_no_prototype :: bool

definition zero_declarator :: ParsedDeclarator where
  "zero_declarator = \<lparr>d_name = [], pointer_count = 0, is_array = False, has_size = False, array_length = 0,
     array_dims = [], is_function = False, is_func_pointer = False, fp_outer_stars = 0, fp_inner_stars = 0,
     fp_param_types = [], pointer_is_const = False, is_ptr_to_array = False, ptr_to_array_length = 0,
     ptr_to_array_has_size = False, is_func_returning_fp = False, own_param_types = [], own_is_no_prototype = False\<rparr>"

fun build_array_type_from_dims :: "type_ptr \<Rightarrow> int list \<Rightarrow> type_ptr parser" where
  "build_array_type_from_dims t [] = ret t"
| "build_array_type_from_dims t (d # ds) =
     seq (build_array_type_from_dims t ds) (\<lambda>u. new_type (\<lambda>h. type_array h u d))"

subsection \<open>Declarators\<close>

definition qualifier_kind :: "TokenType \<Rightarrow> bool" where
  "qualifier_kind k \<longleftrightarrow> k = TOKEN_CONST \<or> k = TOKEN_VOLATILE \<or> k = TOKEN_RESTRICT"

text \<open>Stars, each followed by qualifiers: their number, and whether a \<^verbatim>\<open>const\<close> was among those.\<close>

fun star_qualifiers :: "nat \<Rightarrow> bool \<Rightarrow> bool parser" where
  "star_qualifiers 0 c = raise OutOfFuel"
| "star_qualifiers (Suc n) c = on_kind (\<lambda>k.
     if qualifier_kind k then before advance (star_qualifiers n (c \<or> k = TOKEN_CONST)) else ret c)"

fun pointer_stars :: "nat \<Rightarrow> nat \<Rightarrow> nat \<Rightarrow> bool \<Rightarrow> (nat \<times> bool) parser" where
  "pointer_stars fuel 0 stars c = raise OutOfFuel"
| "pointer_stars fuel (Suc n) stars c = on_kind (\<lambda>k.
     if k = TOKEN_STAR then before advance (seq (star_qualifiers fuel c) (pointer_stars fuel n (stars + 1)))
     else ret (stars, c))"

fun count_stars :: "nat \<Rightarrow> nat \<Rightarrow> nat parser" where
  "count_stars 0 stars = raise OutOfFuel"
| "count_stars (Suc n) stars = on_kind (\<lambda>k.
     if k = TOKEN_STAR then before advance (count_stars n (stars + 1)) else ret stars)"

text \<open>The bounds of an array parameter are skipped, each adds a pointer.\<close>

fun array_suffixes :: "nat \<Rightarrow> nat \<Rightarrow> nat \<Rightarrow> nat parser" where
  "array_suffixes fuel 0 stars = raise OutOfFuel"
| "array_suffixes fuel (Suc n) stars = on_kind (\<lambda>k.
     if k = TOKEN_LBRACKET then
       before advance
         (before (skip_kinds fuel (\<lambda>k. k \<noteq> TOKEN_RBRACKET \<and> k \<noteq> TOKEN_EOF))
           (before (accept TOKEN_RBRACKET) (array_suffixes fuel n (stars + 1))))
     else ret stars)"

definition param_type :: "knot \<Rightarrow> type_ptr parser" where
  "param_type K =
     before (skip_kinds (k_loop K) qualifier_kind)
       (seq (k_type_specifier K) (\<lambda>(pt, _).
         before (skip_kinds (k_loop K) qualifier_kind)
           (seq (count_stars (k_loop K) 0) (\<lambda>stars.
             before (accept TOKEN_IDENTIFIER)
               (seq (array_suffixes (k_loop K) (k_loop K) stars) (\<lambda>stars'. add_pointers stars' pt))))))"

text \<open>
  The parameter types between parentheses. Two of the three loops of the code stop quietly at
  sixteen parameters, the third refuses more.
\<close>

fun param_types :: "nat \<Rightarrow> knot \<Rightarrow> bool \<Rightarrow> type_ptr list \<Rightarrow> type_ptr list parser" where
  "param_types 0 K refuse ts = raise OutOfFuel"
| "param_types (Suc n) K refuse ts =
     (if length ts \<ge> FUNC_TYPE_MAX_PARAMS then
        (if refuse then parser_error (''too many parameters in function pointer type (max '' @ show_nat FUNC_TYPE_MAX_PARAMS @ '')'')
         else ret ts)
      else seq (param_type K) (\<lambda>t. on_kind (\<lambda>k.
        if k = TOKEN_COMMA then before advance (param_types n K refuse (ts @ [t])) else ret (ts @ [t]))))"

text \<open>\<^verbatim>\<open>(void)\<close>: whether \<^verbatim>\<open>void\<close> is followed by the closing parenthesis; otherwise it is put back.\<close>

definition void_only :: "bool parser" where
  "void_only = on_kind (\<lambda>k.
     if k = TOKEN_VOID then
       seq save (\<lambda>s. before advance (on_kind (\<lambda>k.
         if k = TOKEN_RPAREN then ret True else before (restore s) (ret False))))
     else ret False)"

definition fp_param_list :: "knot \<Rightarrow> bool \<Rightarrow> (type_ptr list \<times> bool) parser" where
  "fp_param_list K refuse =
     seq void_only (\<lambda>is_void. on_kind (\<lambda>k.
       if \<not> is_void \<and> k \<noteq> TOKEN_RPAREN then seq (param_types (k_loop K) K refuse []) (\<lambda>ts. ret (ts, False))
       else ret ([], \<not> is_void)))"

text \<open>A bound between brackets; \<^const>\<open>None\<close> if there is none. It must be positive before it is cut to \<^verbatim>\<open>int\<close>.\<close>

definition array_bound :: "knot \<Rightarrow> string \<Rightarrow> string \<Rightarrow> int parser" where
  "array_bound K context msg =
     seq (k_const_expr K context) (\<lambda>len. if len \<le> 0 then parser_error msg else ret (wrap32 len))"

definition opt_array_bound :: "knot \<Rightarrow> string \<Rightarrow> string \<Rightarrow> int option parser" where
  "opt_array_bound K context msg = on_kind (\<lambda>k.
     if k \<noteq> TOKEN_RBRACKET then seq (array_bound K context msg) (\<lambda>n. ret (Some n)) else ret None)"

abbreviation size_message :: string where
  "size_message \<equiv> ''array size must be greater than zero''"

fun more_dims :: "nat \<Rightarrow> knot \<Rightarrow> int list \<Rightarrow> int list parser" where
  "more_dims 0 K dims = raise OutOfFuel"
| "more_dims (Suc n) K dims = on_kind (\<lambda>k.
     if k = TOKEN_LBRACKET then
       (if length dims \<ge> MAX_ARRAY_DIMS
        then parser_error (''too many array dimensions (max '' @ show_nat MAX_ARRAY_DIMS @ '')'')
        else before advance
          (seq (array_bound K ''array dimension'' size_message) (\<lambda>d.
            before (parser_expect TOKEN_RBRACKET) (more_dims n K (dims @ [d])))))
     else ret dims)"

text \<open>\<^verbatim>\<open>(*name())(params)\<close>, from the parenthesis behind the name on.\<close>

definition func_returning_fp :: "knot \<Rightarrow> nat \<Rightarrow> nat \<Rightarrow> ParsedDeclarator \<Rightarrow> ParsedDeclarator parser" where
  "func_returning_fp K outer_stars inner_stars d =
     (if inner_stars = 0 then parser_error ''functions cannot return function types directly''
      else before (parser_expect TOKEN_LPAREN)
       (seq (fp_param_list K False) (\<lambda>(own, no_proto).
         before (parser_expect TOKEN_RPAREN) (before (parser_expect TOKEN_RPAREN) (before (parser_expect TOKEN_LPAREN)
           (seq (fp_param_list K False) (\<lambda>(fps, _).
             before (parser_expect TOKEN_RPAREN)
               (ret (d\<lparr>own_param_types := own, own_is_no_prototype := no_proto, fp_param_types := fps,
                  is_func_returning_fp := True, fp_inner_stars := inner_stars, fp_outer_stars := outer_stars\<rparr>)))))))))"

text \<open>What follows the closing parenthesis of \<^verbatim>\<open>(*name)\<close>.\<close>

definition after_parens :: "knot \<Rightarrow> nat \<Rightarrow> nat \<Rightarrow> ParsedDeclarator \<Rightarrow> ParsedDeclarator parser" where
  "after_parens K outer_stars inner_stars d = on_kind (\<lambda>k.
     if k = TOKEN_LBRACKET then
       before advance
         (seq (opt_array_bound K ''pointer-to-array bound'' ''pointer-to-array bound must be positive'') (\<lambda>b.
           before (parser_expect TOKEN_RBRACKET)
             (ret (d\<lparr>ptr_to_array_length := (case b of None \<Rightarrow> 0 | Some n \<Rightarrow> n), ptr_to_array_has_size := b \<noteq> None,
                is_ptr_to_array := True, pointer_count := outer_stars + inner_stars\<rparr>))))
     else if k = TOKEN_LPAREN then
       (if inner_stars > 0 then
          before (parser_expect TOKEN_LPAREN)
            (seq (fp_param_list K True) (\<lambda>(ts, _).
              before (parser_expect TOKEN_RPAREN)
                (ret (d\<lparr>is_func_pointer := True, fp_outer_stars := outer_stars, fp_inner_stars := inner_stars,
                   fp_param_types := ts\<rparr>))))
        else ret (d\<lparr>is_function := True, pointer_count := outer_stars\<rparr>))
     else ret (d\<lparr>pointer_count := outer_stars + inner_stars\<rparr>))"

definition paren_declarator :: "knot \<Rightarrow> nat \<Rightarrow> ParsedDeclarator \<Rightarrow> ParsedDeclarator parser" where
  "paren_declarator K outer_stars d =
     before advance
       (seq (count_stars (k_loop K) 0) (\<lambda>inner_stars.
         seq (parser_expect TOKEN_IDENTIFIER) (\<lambda>name. on_kind (\<lambda>k.
           let d' = d\<lparr>d_name := tk_value name\<rparr> in
           if k = TOKEN_LPAREN then func_returning_fp K outer_stars inner_stars d'
           else if k = TOKEN_LBRACKET then
             before advance
               (seq (opt_array_bound K ''array dimension'' size_message) (\<lambda>b.
                 before (parser_expect TOKEN_RBRACKET) (before (parser_expect TOKEN_RPAREN)
                   (after_parens K outer_stars inner_stars
                     (d'\<lparr>is_array := True, has_size := b \<noteq> None, array_length := (case b of None \<Rightarrow> 0 | Some n \<Rightarrow> n)\<rparr>)))))
           else before (parser_expect TOKEN_RPAREN) (after_parens K outer_stars inner_stars d')))))"

definition plain_declarator :: "knot \<Rightarrow> nat \<Rightarrow> ParsedDeclarator \<Rightarrow> ParsedDeclarator parser" where
  "plain_declarator K outer_stars d =
     seq (parser_expect TOKEN_IDENTIFIER) (\<lambda>name. on_kind (\<lambda>k.
       let d' = d\<lparr>pointer_count := outer_stars, d_name := tk_value name\<rparr> in
       if k = TOKEN_LBRACKET then
         before advance
           (seq (opt_array_bound K ''array dimension'' size_message) (\<lambda>b.
             before (parser_expect TOKEN_RBRACKET)
               (seq (more_dims (k_loop K) K (case b of None \<Rightarrow> [] | Some n \<Rightarrow> [n])) (\<lambda>dims.
                 ret (d'\<lparr>is_array := True, has_size := b \<noteq> None, array_length := (case b of None \<Rightarrow> 0 | Some n \<Rightarrow> n),
                   array_dims := dims\<rparr>)))))
       else if k = TOKEN_LPAREN then ret (d'\<lparr>is_function := True\<rparr>)
       else ret d'))"

definition parse_declarator :: "knot \<Rightarrow> ParsedDeclarator parser" where
  "parse_declarator K =
     seq (pointer_stars (k_loop K) (k_loop K) 0 False) (\<lambda>(outer_stars, c). on_kind (\<lambda>k.
       let d = zero_declarator\<lparr>pointer_is_const := c\<rparr> in
       if k = TOKEN_LPAREN then paren_declarator K outer_stars d else plain_declarator K outer_stars d))"

definition build_fp_type :: "type_ptr \<Rightarrow> ParsedDeclarator \<Rightarrow> type_ptr parser" where
  "build_fp_type base d =
     seq (add_pointers (fp_outer_stars d) base) (\<lambda>r.
       seq (new_type (\<lambda>h. type_function h r (int (length (fp_param_types d))) (fp_param_types d)))
         (add_pointers (fp_inner_stars d)))"

subsection \<open>The layout of structures and unions\<close>

record layout =
  current_offset :: int
  max_align :: int
  bf_unit_offset :: int
  bf_unit_size :: int
  bf_bits_used :: int
  has_flexible_array :: bool
  tmp_fields :: "StructField list"

definition empty_layout :: layout where
  "empty_layout = \<lparr>current_offset = 0, max_align = 1, bf_unit_offset = - 1, bf_unit_size = 0, bf_bits_used = 0,
     has_flexible_array = False, tmp_fields = []\<rparr>"

text \<open>\<^verbatim>\<open>(n + a - 1) & ~(a - 1)\<close> in \<^verbatim>\<open>int\<close>.\<close>

definition align_up :: "int \<Rightarrow> int \<Rightarrow> int" where
  "align_up n a = wrap32 (n + a - 1) AND NOT (a - 1)"

definition zero_field :: StructField where
  "zero_field = \<lparr>fld_name = [], fld_offset = 0, fld_kind = TYPE_VOID, fld_full_type = None, fld_is_const = False,
     fld_is_volatile = False, is_bitfield = False, bit_width = 0, bit_offset = 0, is_flexible_array = False\<rparr>"

definition unit_size_of :: "CType \<Rightarrow> int" where
  "unit_size_of t = (if ty_size t < 1 then 4 else ty_size t)"

definition unit_align_of :: "CType \<Rightarrow> int" where
  "unit_align_of t = (if ty_align t < 1 then unit_size_of t else ty_align t)"

text \<open>A new storage unit, if the bits do not fit into the current one.\<close>

definition open_unit :: "int \<Rightarrow> int \<Rightarrow> int \<Rightarrow> layout \<Rightarrow> layout" where
  "open_unit usize ualign width L =
     (if bf_unit_offset L < 0 \<or> bf_unit_size L \<noteq> usize \<or> wrap32 (bf_bits_used L + width) > wrap32 (usize * 8)
      then let off = align_up (current_offset L) ualign in
        L\<lparr>max_align := max (max_align L) ualign, bf_unit_offset := off, bf_unit_size := usize, bf_bits_used := 0,
          current_offset := wrap32 (off + usize)\<rparr>
      else L)"

definition close_unit :: "layout \<Rightarrow> layout" where
  "close_unit L = L\<lparr>bf_unit_offset := - 1, bf_unit_size := 0, bf_bits_used := 0\<rparr>"

definition place_anonymous_bits :: "CType \<Rightarrow> int \<Rightarrow> layout \<Rightarrow> layout" where
  "place_anonymous_bits t width L =
     (if width = 0 then close_unit L
      else let L' = open_unit (unit_size_of t) (unit_align_of t) width L
           in L'\<lparr>bf_bits_used := wrap32 (bf_bits_used L' + width)\<rparr>)"

definition place_bits :: "string \<Rightarrow> CType \<Rightarrow> bool \<Rightarrow> bool \<Rightarrow> int \<Rightarrow> layout \<Rightarrow> layout" where
  "place_bits name t c v width L =
     (let L' = open_unit (unit_size_of t) (unit_align_of t) width L
      in L'\<lparr>tmp_fields := tmp_fields L' @
             [zero_field\<lparr>fld_name := name, fld_offset := bf_unit_offset L', fld_kind := ty_kind t, fld_is_const := c,
                fld_is_volatile := v, is_bitfield := True, bit_width := width, bit_offset := bf_bits_used L'\<rparr>],
           bf_bits_used := wrap32 (bf_bits_used L' + width)\<rparr>)"

definition place_flexible :: "string \<Rightarrow> CType \<Rightarrow> type_ptr \<Rightarrow> bool \<Rightarrow> bool \<Rightarrow> layout \<Rightarrow> layout" where
  "place_flexible name base ft c v L =
     (let falign = max 1 (ty_align base);
          off = align_up (current_offset L) falign
      in L\<lparr>max_align := max (max_align L) falign, current_offset := off, has_flexible_array := True,
           tmp_fields := tmp_fields L @
             [zero_field\<lparr>fld_name := name, fld_offset := off, fld_kind := TYPE_ARRAY, fld_full_type := Some ft,
                fld_is_const := c, fld_is_volatile := v, is_flexible_array := True\<rparr>]\<rparr>)"

definition aggregate_kind :: "TypeKind \<Rightarrow> bool" where
  "aggregate_kind k \<longleftrightarrow> k = TYPE_POINTER \<or> k = TYPE_ARRAY \<or> k = TYPE_STRUCT \<or> k = TYPE_UNION"

definition member_field :: "ParsedDeclarator \<Rightarrow> CType \<Rightarrow> type_ptr \<Rightarrow> bool \<Rightarrow> bool \<Rightarrow> int \<Rightarrow> StructField" where
  "member_field d t ft c v off =
     zero_field\<lparr>fld_name := d_name d, fld_offset := off, fld_kind := ty_kind t,
       fld_full_type := (if aggregate_kind (ty_kind t) then Some ft else None),
       fld_is_const := (c \<and> pointer_count d = 0 \<and> \<not> is_array d) \<or> pointer_is_const d,
       fld_is_volatile := v \<and> pointer_count d = 0 \<and> \<not> is_array d\<rparr>"

definition place_member :: "ParsedDeclarator \<Rightarrow> CType \<Rightarrow> type_ptr \<Rightarrow> bool \<Rightarrow> bool \<Rightarrow> layout \<Rightarrow> layout" where
  "place_member d t ft c v L =
     (let fsz = max 1 (ty_size t);
          falign = max 1 (ty_align t);
          off = align_up (current_offset L) falign
      in L\<lparr>max_align := max (max_align L) falign, tmp_fields := tmp_fields L @ [member_field d t ft c v off],
           current_offset := wrap32 (off + fsz)\<rparr>)"

definition total_size :: "layout \<Rightarrow> int" where
  "total_size L = (let s = align_up (current_offset L) (max_align L) in if s = 0 then 1 else s)"

text \<open>The type of a member before its arrays: a copy of a qualified base below pointers, then the pointers.\<close>

definition member_pointer_type :: "type_ptr \<Rightarrow> ParsedDeclarator \<Rightarrow> bool \<Rightarrow> bool \<Rightarrow> type_ptr parser" where
  "member_pointer_type base d c v =
     seq (if c \<and> pointer_count d > 0 then new_type (\<lambda>h. type_const_copy h base)
          else if v \<and> pointer_count d > 0 then new_type (\<lambda>h. type_volatile_copy h base)
          else ret base)
       (add_pointers (pointer_count d))"

definition struct_member :: "type_ptr \<Rightarrow> bool \<Rightarrow> bool \<Rightarrow> ParsedDeclarator \<Rightarrow> layout \<Rightarrow> layout parser" where
  "struct_member base c v d L0 =
     (let L = close_unit L0 in
      seq (member_pointer_type base d c v) (\<lambda>pt.
        if is_array d \<and> \<not> has_size d then
          (if tmp_fields L = []
           then parser_error (''flexible array member '' @ quoted (d_name d) @ '' may not be the only member of a struct'')
           else seq (new_type (\<lambda>h. type_array h pt 0)) (\<lambda>ft.
             seq (the_type base) (\<lambda>b. ret (place_flexible (d_name d) b ft c v L))))
        else seq (if is_array d then build_array_type_from_dims pt (array_dims d) else ret pt) (\<lambda>ft.
          seq (the_type ft) (\<lambda>t.
            if ty_kind t = TYPE_STRUCT \<and> ty_size t = 0
            then parser_error (''field '' @ quoted (d_name d) @ '' has incomplete struct type'')
            else if ty_kind t = TYPE_UNION \<and> ty_size t = 0
            then parser_error (''field '' @ quoted (d_name d) @ '' has incomplete union type'')
            else ret (place_member d t ft c v L)))))"

definition struct_bits :: "type_ptr \<Rightarrow> bool \<Rightarrow> bool \<Rightarrow> ParsedDeclarator \<Rightarrow> int \<Rightarrow> layout \<Rightarrow> layout parser" where
  "struct_bits base c v d bw L =
     (if bw \<le> 0 then parser_error (''named bit-field '' @ quoted (d_name d) @ '' must have positive width'')
      else seq (the_type base) (\<lambda>t.
        if wrap32 bw > wrap32 (unit_size_of t * 8)
        then parser_error (''bit-field width '' @ show_int (wrap32 bw) @ '' exceeds storage unit size'')
        else ret (place_bits (d_name d) t c v (wrap32 bw) L)))"

definition struct_declarator :: "knot \<Rightarrow> type_ptr \<Rightarrow> bool \<Rightarrow> bool \<Rightarrow> layout \<Rightarrow> layout parser" where
  "struct_declarator K base c v L = on_kind (\<lambda>k.
     if k = TOKEN_COLON then
       before advance
         (seq (k_const_expr K ''bit-field width'') (\<lambda>bw.
           if bw < 0 then parser_error ''negative bit-field width''
           else seq (the_type base) (\<lambda>t. ret (place_anonymous_bits t (wrap32 bw) L))))
     else seq (parse_declarator K) (\<lambda>d. on_kind (\<lambda>k.
       if k = TOKEN_COLON then before advance (seq (k_const_expr K ''bit-field width'') (\<lambda>bw. struct_bits base c v d bw L))
       else struct_member base c v d L)))"

fun struct_declarators :: "nat \<Rightarrow> knot \<Rightarrow> type_ptr \<Rightarrow> bool \<Rightarrow> bool \<Rightarrow> bool \<Rightarrow> layout \<Rightarrow> layout parser" where
  "struct_declarators 0 K base c v first L = raise OutOfFuel"
| "struct_declarators (Suc n) K base c v first L =
     before (if first then ret () else advance)
       (seq (struct_declarator K base c v L) (\<lambda>L'. on_kind (\<lambda>k.
         if k = TOKEN_COMMA then struct_declarators n K base c v False L' else ret L')))"

definition leading_qualifier :: "(bool \<times> bool) parser" where
  "leading_qualifier = on_kind (\<lambda>k.
     if k = TOKEN_CONST then before advance (ret (True, False))
     else if k = TOKEN_VOLATILE then before advance (ret (False, True))
     else ret (False, False))"

text \<open>A structure or union without a declarator behind it.\<close>

definition anonymous_member :: "type_ptr \<Rightarrow> bool parser" where
  "anonymous_member base = gets (\<lambda>p. tk_type (current p) = TOKEN_SEMICOLON \<and>
     (ty_kind (types p ! base) = TYPE_STRUCT \<or> ty_kind (types p ! base) = TYPE_UNION))"

fun struct_members :: "nat \<Rightarrow> knot \<Rightarrow> layout \<Rightarrow> layout parser" where
  "struct_members 0 K L = raise OutOfFuel"
| "struct_members (Suc n) K L = on_kind (\<lambda>k.
     if k = TOKEN_RBRACE then ret L
     else if has_flexible_array L then parser_error ''flexible array member must be the last named member''
     else seq leading_qualifier (\<lambda>(c, v).
       seq (k_type_specifier K) (\<lambda>(base, _).
         seq (anonymous_member base) (\<lambda>anon.
           if anon then before advance (struct_members n K L)
           else seq (struct_declarators (k_loop K) K base c v True L) (\<lambda>L'.
             before (parser_expect TOKEN_SEMICOLON) (struct_members n K L'))))))"

text \<open>The field table of a finished type.\<close>

definition set_fields :: "type_ptr \<Rightarrow> StructField list \<Rightarrow> unit parser" where
  "set_fields t fs =
     (if fs = [] then ret ()
      else modify (\<lambda>p. p\<lparr>field_tables := field_tables p @ [fs],
        types := (types p)[t := (types p ! t)\<lparr>ty_fields := Some (length (field_tables p)), ty_field_count := int (length fs)\<rparr>]\<rparr>))"

definition complete_type :: "type_ptr \<Rightarrow> int \<Rightarrow> int \<Rightarrow> unit parser" where
  "complete_type t sz al = modify (\<lambda>p. p\<lparr>types := (types p)[t := (types p ! t)\<lparr>ty_size := sz, ty_align := al\<rparr>]\<rparr>)"

definition set_struct_tag :: "nat \<Rightarrow> type_ptr \<Rightarrow> unit parser" where
  "set_struct_tag i t = modify (\<lambda>p. p\<lparr>struct_tags := (struct_tags p)[i := (struct_tags p ! i)\<lparr>st_type := Some t\<rparr>]\<rparr>)"

definition set_union_tag :: "nat \<Rightarrow> type_ptr \<Rightarrow> unit parser" where
  "set_union_tag i t = modify (\<lambda>p. p\<lparr>union_tags := (union_tags p)[i := (union_tags p ! i)\<lparr>st_type := Some t\<rparr>]\<rparr>)"

text \<open>The type of a structure with a body: the placeholder of a forward declaration is completed in place.\<close>

definition finish_struct :: "string option \<Rightarrow> layout \<Rightarrow> type_ptr parser" where
  "finish_struct tag L =
     (let sz = total_size L; al = max_align L in
      seq (case tag of
             None \<Rightarrow> new_type (\<lambda>h. type_struct h sz al)
           | Some s \<Rightarrow> on_state (\<lambda>p. case parser_find_struct_tag p s of
               None \<Rightarrow> raise Fault
             | Some i \<Rightarrow> (case st_type (struct_tags p ! i) of
                 Some t \<Rightarrow>
                   if ty_size (types p ! t) = 0 then before (complete_type t sz al) (ret t)
                   else seq (new_type (\<lambda>h. type_struct h sz al)) (\<lambda>t'. before (set_struct_tag i t') (ret t'))
               | None \<Rightarrow> seq (new_type (\<lambda>h. type_struct h sz al)) (\<lambda>t'. before (set_struct_tag i t') (ret t')))))
        (\<lambda>t. before (set_fields t (tmp_fields L)) (ret t)))"

text \<open>From the tag on; \<open>i\<close> is the entry of the tag.\<close>

definition struct_tail :: "knot \<Rightarrow> (string \<times> nat) option \<Rightarrow> type_ptr parser" where
  "struct_tail K tag = on_kind (\<lambda>k.
     if k = TOKEN_LBRACE then
       before advance
         (seq (struct_members (k_loop K) K empty_layout) (\<lambda>L.
           before (parser_expect TOKEN_RBRACE) (finish_struct (map_option fst tag) L)))
     else case tag of
       None \<Rightarrow> raise Fault
     | Some (_, i) \<Rightarrow> on_state (\<lambda>p. case st_type (struct_tags p ! i) of
         Some t \<Rightarrow> ret t
       | None \<Rightarrow> seq (new_type (\<lambda>h. type_struct h 0 0)) (\<lambda>t. before (set_struct_tag i t) (ret t))))"

definition parse_struct_specifier :: "knot \<Rightarrow> type_ptr parser" where
  "parse_struct_specifier K =
     before advance (on_token (\<lambda>t.
       if tk_type t = TOKEN_IDENTIFIER then
         before advance (seq (parser_register_struct_tag (tk_value t)) (\<lambda>i. struct_tail K (Some (tk_value t, i))))
       else if tk_type t \<noteq> TOKEN_LBRACE then parser_error (''expected identifier or '' @ quoted ''{'' @ '' after '' @ quoted ''struct'')
       else struct_tail K None))"

text \<open>Unions: all members start at offset 0; the size is the largest of theirs.\<close>

definition place_union_member :: "ParsedDeclarator \<Rightarrow> CType \<Rightarrow> type_ptr \<Rightarrow> bool \<Rightarrow> bool \<Rightarrow> layout \<Rightarrow> layout" where
  "place_union_member d t ft c v L =
     L\<lparr>max_align := max (max_align L) (max 1 (ty_align t)), current_offset := max (current_offset L) (max 1 (ty_size t)),
       tmp_fields := tmp_fields L @ [member_field d t ft c v 0]\<rparr>"

definition union_member :: "type_ptr \<Rightarrow> bool \<Rightarrow> bool \<Rightarrow> ParsedDeclarator \<Rightarrow> layout \<Rightarrow> layout parser" where
  "union_member base c v d L =
     seq (member_pointer_type base d c v) (\<lambda>pt.
       if is_array d \<and> \<not> has_size d
       then parser_error (''union array member '' @ quoted (d_name d) @ '' requires explicit size'')
       else seq (if is_array d then build_array_type_from_dims pt (array_dims d) else ret pt) (\<lambda>ft.
         seq (the_type ft) (\<lambda>t.
           if (ty_kind t = TYPE_STRUCT \<or> ty_kind t = TYPE_UNION) \<and> ty_size t = 0
           then parser_error (''field '' @ quoted (d_name d) @ '' has incomplete type'')
           else ret (place_union_member d t ft c v L))))"

fun union_declarators :: "nat \<Rightarrow> knot \<Rightarrow> type_ptr \<Rightarrow> bool \<Rightarrow> bool \<Rightarrow> layout \<Rightarrow> layout parser" where
  "union_declarators 0 K base c v L = raise OutOfFuel"
| "union_declarators (Suc n) K base c v L =
     before (accept TOKEN_COMMA)
       (seq (parse_declarator K) (\<lambda>d. seq (union_member base c v d L) (\<lambda>L'. on_kind (\<lambda>k.
         if k = TOKEN_COMMA then union_declarators n K base c v L' else ret L'))))"

fun union_members :: "nat \<Rightarrow> knot \<Rightarrow> layout \<Rightarrow> layout parser" where
  "union_members 0 K L = raise OutOfFuel"
| "union_members (Suc n) K L = on_kind (\<lambda>k.
     if k = TOKEN_RBRACE then ret L
     else seq leading_qualifier (\<lambda>(c, v).
       seq (k_type_specifier K) (\<lambda>(base, _).
         seq (anonymous_member base) (\<lambda>anon.
           if anon then before advance (union_members n K L)
           else seq (union_declarators (k_loop K) K base c v L) (\<lambda>L'.
             before (parser_expect TOKEN_SEMICOLON) (union_members n K L'))))))"

definition finish_union :: "string option \<Rightarrow> layout \<Rightarrow> type_ptr parser" where
  "finish_union tag L =
     (let sz = total_size L; al = max_align L in
      seq (case tag of
             None \<Rightarrow> new_type (\<lambda>h. type_union h sz al)
           | Some s \<Rightarrow> on_state (\<lambda>p. case parser_find_union_tag p s of
               None \<Rightarrow> raise Fault
             | Some i \<Rightarrow> (case st_type (union_tags p ! i) of
                 Some t \<Rightarrow>
                   if ty_size (types p ! t) = 0 then before (complete_type t sz al) (ret t)
                   else seq (new_type (\<lambda>h. type_union h sz al)) (\<lambda>t'. before (set_union_tag i t') (ret t'))
               | None \<Rightarrow> seq (new_type (\<lambda>h. type_union h sz al)) (\<lambda>t'. before (set_union_tag i t') (ret t')))))
        (\<lambda>t. before (set_fields t (tmp_fields L)) (ret t)))"

definition union_tail :: "knot \<Rightarrow> (string \<times> nat) option \<Rightarrow> type_ptr parser" where
  "union_tail K tag = on_kind (\<lambda>k.
     if k = TOKEN_LBRACE then
       before advance
         (seq (union_members (k_loop K) K empty_layout) (\<lambda>L.
           before (parser_expect TOKEN_RBRACE) (finish_union (map_option fst tag) L)))
     else case tag of
       None \<Rightarrow> raise Fault
     | Some (_, i) \<Rightarrow> on_state (\<lambda>p. case st_type (union_tags p ! i) of
         Some t \<Rightarrow> ret t
       | None \<Rightarrow> seq (new_type (\<lambda>h. type_union h 0 0)) (\<lambda>t. before (set_union_tag i t) (ret t))))"

definition parse_union_specifier :: "knot \<Rightarrow> type_ptr parser" where
  "parse_union_specifier K =
     before advance (on_token (\<lambda>t.
       if tk_type t = TOKEN_IDENTIFIER then
         before advance (seq (parser_register_union_tag (tk_value t)) (\<lambda>i. union_tail K (Some (tk_value t, i))))
       else if tk_type t \<noteq> TOKEN_LBRACE then parser_error (''expected identifier or '' @ quoted ''{'' @ '' after '' @ quoted ''union'')
       else union_tail K None))"

subsection \<open>Enumerations\<close>

text \<open>The tag of an enumeration with a body becomes defined, one without a body is entered if it is new.\<close>

definition define_enum_tag :: "string \<Rightarrow> unit parser" where
  "define_enum_tag tag = modify (\<lambda>p.
     case index_of (\<lambda>t. et_tag t = tag) (enum_tags p) of
       Some i \<Rightarrow> p\<lparr>enum_tags := (enum_tags p)[i := (enum_tags p ! i)\<lparr>et_is_defined := True\<rparr>]\<rparr>
     | None \<Rightarrow> p\<lparr>enum_tags := enum_tags p @ [\<lparr>et_tag = tag, et_is_defined = True\<rparr>]\<rparr>)"

definition declare_enum_tag :: "string \<Rightarrow> unit parser" where
  "declare_enum_tag tag = modify (\<lambda>p.
     case index_of (\<lambda>t. et_tag t = tag) (enum_tags p) of
       Some i \<Rightarrow> p
     | None \<Rightarrow> p\<lparr>enum_tags := enum_tags p @ [\<lparr>et_tag = tag, et_is_defined = False\<rparr>]\<rparr>)"

fun enumerators :: "nat \<Rightarrow> knot \<Rightarrow> int \<Rightarrow> unit parser" where
  "enumerators 0 K next_val = raise OutOfFuel"
| "enumerators (Suc n) K next_val = on_token (\<lambda>t.
     if tk_type t = TOKEN_RBRACE then ret ()
     else if tk_type t \<noteq> TOKEN_IDENTIFIER
     then parser_error (''expected identifier in enumerator list, got '' @ quoted (c_text (tk_value t)))
     else before advance (on_state (\<lambda>p.
       if find_enum_const p (tk_value t) \<noteq> None then parser_error (''duplicate enumerator '' @ quoted (tk_value t))
       else seq (on_kind (\<lambda>k. if k = TOKEN_ASSIGN then before advance (k_const_expr K ''enumerator value'') else ret next_val))
         (\<lambda>v. before (modify (\<lambda>p. p\<lparr>enum_consts := enum_consts p @ [\<lparr>ec_name = tk_value t, ec_value = v\<rparr>]\<rparr>))
           (before (accept TOKEN_COMMA) (enumerators n K (wrap64 (v + 1))))))))"

definition parse_enum_specifier :: "knot \<Rightarrow> type_ptr parser" where
  "parse_enum_specifier K =
     before advance
       (seq (on_token (\<lambda>t. if tk_type t = TOKEN_IDENTIFIER then before advance (ret (Some (tk_value t))) else ret None))
         (\<lambda>tag. on_kind (\<lambda>k.
           if k = TOKEN_LBRACE then
             before advance (before (case tag of None \<Rightarrow> ret () | Some s \<Rightarrow> define_enum_tag s)
               (before (enumerators (k_loop K) K 0) (before (parser_expect TOKEN_RBRACE) (ret type_int))))
           else case tag of
             None \<Rightarrow> parser_error (''expected identifier or '' @ quoted ''{'' @ '' after '' @ quoted ''enum'')
           | Some s \<Rightarrow> before (declare_enum_tag s) (ret type_int))))"

subsection \<open>Type specifiers\<close>

definition opt_int :: "type_ptr \<times> TypeKind \<Rightarrow> (type_ptr \<times> TypeKind) parser" where
  "opt_int r = before (accept TOKEN_INT) (ret r)"

definition reject_long :: "unit parser" where
  "reject_long = on_kind (\<lambda>k.
     if k = TOKEN_LONG then parser_error (quoted ''long long long'' @ '' is not a valid type'') else ret ())"

text \<open>A second \<^verbatim>\<open>long\<close> and an optional \<^verbatim>\<open>int\<close> behind the first.\<close>

definition second_long :: "type_ptr \<times> TypeKind \<Rightarrow> type_ptr \<times> TypeKind \<Rightarrow> (type_ptr \<times> TypeKind) parser" where
  "second_long two one = on_kind (\<lambda>k.
     if k = TOKEN_LONG then before advance (before reject_long (opt_int two)) else opt_int one)"

definition long_specifier :: "(type_ptr \<times> TypeKind) parser" where
  "long_specifier =
     before advance (on_kind (\<lambda>k.
       if k = TOKEN_UNSIGNED then
         before advance (second_long (type_unsigned_long_long, TYPE_UNSIGNED_LONG_LONG) (type_unsigned_long, TYPE_LONG))
       else if k = TOKEN_SIGNED then before advance (second_long (type_long_long, TYPE_LONG_LONG) (type_long, TYPE_LONG))
       else if k = TOKEN_LONG then
         before advance (before reject_long (on_kind (\<lambda>k.
           if k = TOKEN_UNSIGNED then before advance (opt_int (type_unsigned_long_long, TYPE_UNSIGNED_LONG_LONG))
           else if k = TOKEN_SIGNED then before advance (opt_int (type_long_long, TYPE_LONG_LONG))
           else opt_int (type_long_long, TYPE_LONG_LONG))))
       else if k = TOKEN_DOUBLE then before advance (ret (type_double, TYPE_DOUBLE))
       else opt_int (type_long, TYPE_LONG)))"

text \<open>\<^verbatim>\<open>signed\<close> and \<^verbatim>\<open>unsigned\<close>, whose branches differ in the types only.\<close>

definition sign_specifier :: "bool \<Rightarrow> (type_ptr \<times> TypeKind) parser" where
  "sign_specifier uns =
     before advance (on_kind (\<lambda>k.
       if k = (if uns then TOKEN_SIGNED else TOKEN_UNSIGNED)
       then parser_error (quoted ''signed'' @ '' and '' @ quoted ''unsigned'' @ '' cannot both be specified'')
       else if k = TOKEN_BOOL then parser_error ''_Bool type cannot have a sign qualifier''
       else if k = TOKEN_CHAR then before advance (ret (if uns then type_unsigned_char else type_char, TYPE_CHAR))
       else if k = TOKEN_SHORT then before advance (opt_int (if uns then type_unsigned_short else type_short, TYPE_SHORT))
       else if k = TOKEN_INT then before advance (ret (if uns then type_unsigned_int else type_int, TYPE_INT))
       else if k = TOKEN_LONG then
         before advance
           (if uns then second_long (type_unsigned_long_long, TYPE_UNSIGNED_LONG_LONG) (type_unsigned_long, TYPE_LONG)
            else second_long (type_long_long, TYPE_LONG_LONG) (type_long, TYPE_LONG))
       else ret (if uns then type_unsigned_int else type_int, TYPE_INT)))"

text \<open>The end of the function: the token is consumed, and an \<^verbatim>\<open>int\<close> behind \<^verbatim>\<open>short\<close> or \<^verbatim>\<open>long\<close>.\<close>

definition plain_specifier :: "type_ptr \<Rightarrow> TypeKind \<Rightarrow> (type_ptr \<times> TypeKind) parser" where
  "plain_specifier t kind =
     before advance (if kind = TYPE_SHORT \<or> kind = TYPE_LONG then opt_int (t, kind) else ret (t, kind))"

definition typedef_type :: "TypedefEntry \<Rightarrow> type_ptr" where
  "typedef_type e =
     (case td_full_type e of
        Some t \<Rightarrow> t
      | None \<Rightarrow> (case td_kind e of
          TYPE_CHAR \<Rightarrow> type_char
        | TYPE_SHORT \<Rightarrow> type_short
        | TYPE_LONG \<Rightarrow> type_long
        | TYPE_LONG_LONG \<Rightarrow> type_long_long
        | TYPE_UNSIGNED_LONG_LONG \<Rightarrow> type_unsigned_long_long
        | _ \<Rightarrow> type_int))"

definition parse_type_specifier :: "knot \<Rightarrow> (type_ptr \<times> TypeKind) parser" where
  "parse_type_specifier K = on_token (\<lambda>t.
     let k = tk_type t in
     if k = TOKEN_VOID then plain_specifier type_void TYPE_VOID
     else if k = TOKEN_BOOL then plain_specifier type_bool TYPE_BOOL
     else if k = TOKEN_CHAR then plain_specifier type_char TYPE_CHAR
     else if k = TOKEN_SHORT then plain_specifier type_short TYPE_SHORT
     else if k = TOKEN_FLOAT then before advance (ret (type_float, TYPE_FLOAT))
     else if k = TOKEN_DOUBLE then before advance (ret (type_double, TYPE_DOUBLE))
     else if k = TOKEN_LONG then long_specifier
     else if k = TOKEN_INT then plain_specifier type_int TYPE_INT
     else if k = TOKEN_SIGNED then sign_specifier False
     else if k = TOKEN_UNSIGNED then sign_specifier True
     else if k = TOKEN_IDENTIFIER then on_state (\<lambda>p.
       case parser_find_typedef p (tk_value t) of
         None \<Rightarrow> parser_error (''unknown type name '' @ quoted (tk_value t))
       | Some e \<Rightarrow> plain_specifier (typedef_type e) (td_kind e))
     else if k = TOKEN_ENUM then seq (parse_enum_specifier K) (\<lambda>t. ret (t, TYPE_INT))
     else if k = TOKEN_STRUCT then seq (parse_struct_specifier K) (\<lambda>t. ret (t, TYPE_STRUCT))
     else if k = TOKEN_UNION then seq (parse_union_specifier K) (\<lambda>t. ret (t, TYPE_UNION))
     else parser_error (''expected integer type, got '' @ quoted (c_text (tk_value t))))"

fun abstract_stars :: "nat \<Rightarrow> nat \<Rightarrow> type_ptr \<Rightarrow> type_ptr parser" where
  "abstract_stars fuel 0 t = raise OutOfFuel"
| "abstract_stars fuel (Suc n) t = on_kind (\<lambda>k.
     if k = TOKEN_STAR then
       before advance (before (skip_kinds fuel qualifier_kind)
         (seq (new_type (\<lambda>h. type_pointer h t)) (abstract_stars fuel n)))
     else ret t)"

fun abstract_dims :: "nat \<Rightarrow> knot \<Rightarrow> int list \<Rightarrow> int list parser" where
  "abstract_dims 0 K dims = raise OutOfFuel"
| "abstract_dims (Suc n) K dims = on_kind (\<lambda>k.
     if k = TOKEN_LBRACKET then
       (if length dims \<ge> MAX_ARRAY_DIMS
        then parser_error (''too many array dimensions (max '' @ show_nat MAX_ARRAY_DIMS @ '')'')
        else before advance (on_kind (\<lambda>k.
          if dims = [] \<and> k = TOKEN_RBRACKET then before advance (abstract_dims n K [0])
          else seq (array_bound K ''array dimension'' size_message) (\<lambda>d.
            before (parser_expect TOKEN_RBRACKET) (abstract_dims n K (dims @ [d]))))))
     else ret dims)"

definition parse_type_name :: "knot \<Rightarrow> type_ptr parser" where
  "parse_type_name K =
     seq leading_qualifier (\<lambda>(c, v).
       seq (parse_type_specifier K) (\<lambda>(t, _).
         seq (if c then new_type (\<lambda>h. type_const_copy h t) else if v then new_type (\<lambda>h. type_volatile_copy h t) else ret t)
           (\<lambda>t. seq (abstract_stars (k_loop K) (k_loop K) t) (\<lambda>t.
             seq (abstract_dims (k_loop K) K []) (build_array_type_from_dims t)))))"

end
