(* ===== verification/Parser_Layout.thy ===== *)
theory Parser_Layout
  imports Parser_Types
begin

unbundle bit_operations_syntax

section \<open>The layout of structures is right\<close>

text \<open>
  The members of a structure are placed one after the other. The specification of the result
  speaks of bits: every named member has a first and a last bit, computed from the field that the
  parser entered and from the type of the member. The members lie in the order of their declaration and do not
  overlap, each starts at a multiple of its alignment, bit-fields stay inside their storage unit, and
  the structure has room for all of them. The places are \<^verbatim>\<open>int\<close>s of the C program, so the
  total of the sizes must stay below \<open>2 ^ 31\<close>.
\<close>

subsection \<open>Rounding up\<close>

definition pow2 :: "int \<Rightarrow> bool" where
  "pow2 a \<longleftrightarrow> (\<exists>k. a = 2 ^ k)"

lemma pow2_pos: "pow2 a \<Longrightarrow> 1 \<le> a"
  by (auto simp: pow2_def)

lemma pow2_dvd: "pow2 a \<Longrightarrow> pow2 b \<Longrightarrow> a \<le> b \<Longrightarrow> a dvd b"
  by (auto simp: pow2_def le_imp_power_dvd)

lemma pow2_max: "pow2 a \<Longrightarrow> pow2 b \<Longrightarrow> pow2 (max a b)"
  by (simp add: max_def)

lemma and_not_mask: "x AND NOT (2 ^ k - 1) = x - x mod 2 ^ k" for x :: int
proof -
  have "x = (x AND mask k) OR (x AND NOT (mask k))"
    by (rule bit_eqI) (auto simp: bit_simps)
  also have "\<dots> = (x AND mask k) + (x AND NOT (mask k))"
    by (rule disjunctive_add [symmetric]) (auto simp: bit_simps)
  finally show ?thesis by (simp add: take_bit_eq_mod flip: take_bit_eq_mask mask_eq_exp_minus_1)
qed

lemma align_up_bounds:
  assumes "pow2 a" "0 \<le> n" "n + a \<le> 2 ^ 31"
  shows "n \<le> align_up n a" "align_up n a < n + a" "a dvd align_up n a"
proof -
  obtain k where a: "a = 2 ^ k" using assms(1) by (auto simp: pow2_def)
  have "wrap32 (n + a - 1) = n + a - 1" using assms pow2_pos [OF assms(1)] by (intro wrap32_id) simp_all
  then have "align_up n a = (n + a - 1) - (n + a - 1) mod a" by (simp add: align_up_def and_not_mask a)
  moreover have "0 \<le> (n + a - 1) mod a" "(n + a - 1) mod a < a" using pow2_pos [OF assms(1)] by simp_all
  ultimately show "n \<le> align_up n a" "align_up n a < n + a" "a dvd align_up n a"
    by (simp_all add: dvd_minus_mod)
qed

subsection \<open>Members\<close>

text \<open>The four ways to place a member, as \<^const>\<open>struct_member\<close>, \<^const>\<open>struct_bits\<close> and \<^const>\<open>struct_declarator\<close> choose them.\<close>

datatype member =
    Member ParsedDeclarator CType type_ptr bool bool
  | Bits string CType bool bool int
  | Gap CType int
  | Flexible string CType type_ptr bool bool

fun place :: "member \<Rightarrow> layout \<Rightarrow> layout" where
  "place (Member d t ft c v) L = place_member d t ft c v (close_unit L)"
| "place (Bits name t c v w) L = place_bits name t c v w L"
| "place (Gap t w) L = place_anonymous_bits t w L"
| "place (Flexible name t ft c v) L = place_flexible name t ft c v (close_unit L)"

fun named :: "member \<Rightarrow> bool" where
  "named (Gap _ _) \<longleftrightarrow> False"
| "named _ \<longleftrightarrow> True"

fun alignment :: "member \<Rightarrow> int" where
  "alignment (Member _ t _ _ _) = max 1 (ty_align t)"
| "alignment (Bits _ t _ _ _) = unit_align_of t"
| "alignment (Gap t _) = unit_align_of t"
| "alignment (Flexible _ t _ _ _) = max 1 (ty_align t)"

fun bytes :: "member \<Rightarrow> int" where
  "bytes (Member _ t _ _ _) = max 1 (ty_size t)"
| "bytes (Bits _ t _ _ _) = unit_size_of t"
| "bytes (Gap t _) = unit_size_of t"
| "bytes (Flexible _ _ _ _ _) = 0"

text \<open>
  Alignments are powers of two. Bit-fields have arithmetic types, whose size is their alignment, and no more bits
  than their unit; the parser does not check the latter for bit-fields without a name.
\<close>

fun width_ok :: "member \<Rightarrow> bool" where
  "width_ok (Bits _ t _ _ w) \<longleftrightarrow> unit_align_of t = unit_size_of t \<and> 0 < w \<and> w \<le> 8 * unit_size_of t"
| "width_ok (Gap t w) \<longleftrightarrow> unit_align_of t = unit_size_of t \<and> 0 \<le> w \<and> w \<le> 8 * unit_size_of t"
| "width_ok _ \<longleftrightarrow> True"

definition member_ok :: "member \<Rightarrow> bool" where
  "member_ok m \<longleftrightarrow> pow2 (alignment m) \<and> width_ok m"

text \<open>An upper bound of the room that members take.\<close>

definition cost :: "member list \<Rightarrow> int" where
  "cost ms = sum_list (map (\<lambda>m. 16 * bytes m + alignment m) ms)"

text \<open>The first bit of a member and the one behind its last, given its field.\<close>

definition first_bit :: "StructField \<Rightarrow> int" where
  "first_bit f = 8 * fld_offset f + bit_offset f"

fun width :: "member \<Rightarrow> int" where
  "width (Member _ t _ _ _) = 8 * max 1 (ty_size t)"
| "width (Bits _ _ _ _ w) = w"
| "width (Gap _ w) = w"
| "width (Flexible _ _ _ _ _) = 0"

definition end_bit :: "member \<Rightarrow> StructField \<Rightarrow> int" where
  "end_bit m f = first_bit f + width m"

text \<open>A field is where it may be: aligned, and inside its unit if it is a bit-field.\<close>

definition placed_well :: "member \<Rightarrow> StructField \<Rightarrow> bool" where
  "placed_well m f \<longleftrightarrow> 0 \<le> fld_offset f \<and> alignment m dvd fld_offset f \<and> 0 \<le> bit_offset f \<and>
     (case m of Bits _ t _ _ w \<Rightarrow> bit_offset f + w \<le> 8 * unit_size_of t | _ \<Rightarrow> bit_offset f = 0)"

text \<open>The fields of the named members, in order, from bit \<open>lo\<close> to bit \<open>hi\<close>.\<close>

fun in_order :: "int \<Rightarrow> member list \<Rightarrow> StructField list \<Rightarrow> int \<Rightarrow> bool" where
  "in_order lo [] [] hi \<longleftrightarrow> lo \<le> hi"
| "in_order lo (m # ms) (f # fs) hi \<longleftrightarrow>
     lo \<le> first_bit f \<and> placed_well m f \<and> in_order (end_bit m f) ms fs hi"
| "in_order lo _ _ hi \<longleftrightarrow> False"

lemma in_order_mono: "in_order lo ms fs hi \<Longrightarrow> hi \<le> hi' \<Longrightarrow> in_order lo ms fs hi'"
  by (induction lo ms fs hi rule: in_order.induct) simp_all

lemma in_order_snoc:
  "in_order lo ms fs hi \<Longrightarrow> hi \<le> first_bit f \<Longrightarrow> placed_well m f \<Longrightarrow> end_bit m f \<le> hi' \<Longrightarrow>
   in_order lo (ms @ [m]) (fs @ [f]) hi'"
  by (induction lo ms fs hi rule: in_order.induct) simp_all


subsection \<open>The invariant\<close>

definition next_bit :: "layout \<Rightarrow> int" where
  "next_bit L = (if bf_unit_offset L < 0 then 8 * current_offset L else 8 * bf_unit_offset L + bf_bits_used L)"

definition unit_inv :: "int \<Rightarrow> layout \<Rightarrow> bool" where
  "unit_inv k L \<longleftrightarrow> (0 \<le> bf_unit_offset L \<longrightarrow>
     current_offset L = bf_unit_offset L + bf_unit_size L \<and> 0 \<le> bf_bits_used L \<and> bf_bits_used L \<le> 8 * bf_unit_size L \<and>
     pow2 (bf_unit_size L) \<and> bf_unit_size L dvd bf_unit_offset L \<and> bf_unit_size L \<le> max_align L \<and> 16 * bf_unit_size L \<le> k)"

definition frame_inv :: "int \<Rightarrow> member list \<Rightarrow> layout \<Rightarrow> bool" where
  "frame_inv k ms L \<longleftrightarrow> 0 \<le> current_offset L \<and> current_offset L \<le> k \<and> pow2 (max_align L) \<and> max_align L \<le> k + 1 \<and>
     (\<forall>m \<in> set ms. named m \<longrightarrow> alignment m \<le> max_align L)"

definition layout_inv :: "member list \<Rightarrow> layout \<Rightarrow> bool" where
  "layout_inv ms L \<longleftrightarrow> frame_inv (cost ms) ms L \<and> unit_inv (cost ms) L \<and>
     in_order 0 (filter named ms) (tmp_fields L) (next_bit L)"

lemma cost_simps [simp]: "cost [] = 0" "cost (ms @ [m]) = cost ms + 16 * bytes m + alignment m"
  by (simp_all add: cost_def)

lemma bytes_nonneg: "0 \<le> bytes m"
  by (cases m) (simp_all add: unit_size_of_def)

lemma next_bit_le: "unit_inv k L \<Longrightarrow> next_bit L \<le> 8 * current_offset L"
  by (simp add: unit_inv_def next_bit_def)

lemma next_bit_close [simp]: "next_bit (close_unit L) = 8 * current_offset L"
  by (simp add: next_bit_def close_unit_def)

lemma close_unit_sel [simp]:
  "current_offset (close_unit L) = current_offset L" "max_align (close_unit L) = max_align L"
  "tmp_fields (close_unit L) = tmp_fields L" "bf_unit_offset (close_unit L) = - 1"
  by (simp_all add: close_unit_def)

lemma layout_inv_empty: "layout_inv [] empty_layout"
  by (simp add: layout_inv_def frame_inv_def unit_inv_def next_bit_def empty_layout_def pow2_def exI [of _ 0])

text \<open>A member that is not a bit-field: the unit is closed, the offset rounded up.\<close>

lemma place_whole:
  assumes inv: "layout_inv ms L" and m: "named m" "pow2 (alignment m)" "width m = 8 * bytes m" "0 \<le> bytes m"
    and room: "cost (ms @ [m]) < 2 ^ 31"
    and off: "off = align_up (current_offset L) (alignment m)"
    and f: "fld_offset f = off" "bit_offset f = 0" "\<forall>n t c v w. m \<noteq> Bits n t c v w"
    and L': "current_offset L' = off + bytes m" "max_align L' = max (max_align L) (alignment m)"
      "bf_unit_offset L' = - 1" "tmp_fields L' = tmp_fields L @ [f]"
  shows "layout_inv (ms @ [m]) L'"
proof -
  note i = inv [unfolded layout_inv_def frame_inv_def]
  have "current_offset L + alignment m \<le> 2 ^ 31" using i room m(4) by simp
  note a = align_up_bounds [OF m(2) _ this, folded off] pow2_pos [OF m(2)]
  have "placed_well m f" using f i a by (auto simp: placed_well_def split: member.split)
  moreover have "next_bit L \<le> first_bit f" using next_bit_le [of _ L] i a f by (force simp: first_bit_def)
  moreover have "end_bit m f \<le> next_bit L'" using f L' m(3) i a by (simp add: end_bit_def first_bit_def next_bit_def)
  ultimately have "in_order 0 (filter named (ms @ [m])) (tmp_fields L') (next_bit L')"
    using i m(1) L'(4) by (auto intro: in_order_snoc)
  moreover have "frame_inv (cost (ms @ [m])) (ms @ [m]) L'"
    using i a L' m(2,4) by (auto simp: frame_inv_def intro: pow2_max)
  ultimately show ?thesis using L'(3) by (simp add: layout_inv_def unit_inv_def)
qed

text \<open>Bits: after \<^const>\<open>open_unit\<close> they fit into the unit that is open.\<close>

definition bits_inv :: "int \<Rightarrow> int \<Rightarrow> int \<Rightarrow> member list \<Rightarrow> layout \<Rightarrow> bool" where
  "bits_inv k u w ms L \<longleftrightarrow> frame_inv k ms L \<and> unit_inv k L \<and> 0 \<le> bf_unit_offset L \<and> bf_unit_size L = u \<and>
     bf_bits_used L + w \<le> 8 * u \<and> in_order 0 (filter named ms) (tmp_fields L) (next_bit L)"

lemma open_unit_inv:
  assumes inv: "layout_inv ms L" and u: "pow2 u" and w: "0 \<le> w" "w \<le> 8 * u" and room: "cost ms + 17 * u < 2 ^ 31"
  shows "bits_inv (cost ms + 17 * u) u w ms (open_unit u u w L)"
proof -
  note i = inv [unfolded layout_inv_def frame_inv_def] and u1 = pow2_pos [OF u]
  define opens where "opens \<longleftrightarrow> bf_unit_offset L < 0 \<or> bf_unit_size L \<noteq> u \<or> wrap32 (bf_bits_used L + w) > wrap32 (u * 8)"
  have frame: "frame_inv (cost ms + 17 * u) ms L" using i u1 by (auto simp: frame_inv_def)
  show ?thesis
  proof (cases opens)
    case True
    define off where "off = align_up (current_offset L) u"
    have "current_offset L + u \<le> 2 ^ 31" using i room u1 by simp
    note a = align_up_bounds [OF u _ this, folded off_def]
    have wrap: "wrap32 (off + u) = off + u" using a i room u1 by (intro wrap32_id) simp_all
    have L': "open_unit u u w L = L\<lparr>max_align := max (max_align L) u, bf_unit_offset := off, bf_unit_size := u,
        bf_bits_used := 0, current_offset := off + u\<rparr>"
      using True by (simp add: open_unit_def opens_def Let_def off_def [symmetric] wrap)
    have "next_bit L \<le> 8 * off" using next_bit_le [of _ L] i a by force
    then have "in_order 0 (filter named ms) (tmp_fields L) (8 * off)" using i by (blast intro: in_order_mono)
    with i a u u1 w show ?thesis
      by (auto simp: L' bits_inv_def frame_inv_def unit_inv_def next_bit_def intro: pow2_max)
  next
    case False
    then have "open_unit u u w L = L" by (simp add: open_unit_def opens_def)
    moreover have un: "0 \<le> bf_unit_offset L" "bf_unit_size L = u" using False by (auto simp: opens_def)
    moreover have "bf_bits_used L + w \<le> 8 * u"
    proof -
      have b: "0 \<le> bf_bits_used L" "bf_bits_used L \<le> 8 * u" "16 * u \<le> cost ms" using i un by (auto simp: unit_inv_def)
      then have "wrap32 (bf_bits_used L + w) = bf_bits_used L + w" "wrap32 (u * 8) = u * 8"
        using w u1 room by (auto intro!: wrap32_id)
      with False show ?thesis by (simp add: opens_def)
    qed
    ultimately show ?thesis using i frame u1 by (auto simp: bits_inv_def unit_inv_def)
  qed
qed

lemma place_bits_inv:
  assumes inv: "layout_inv ms L" and m: "member_ok m" "m = Bits name t c v w" and room: "cost (ms @ [m]) < 2 ^ 31"
  shows "layout_inv (ms @ [m]) (place m L)"
proof -
  let ?u = "unit_size_of t" and ?L = "open_unit (unit_size_of t) (unit_align_of t) w L"
  let ?f = "zero_field\<lparr>fld_name := name, fld_offset := bf_unit_offset ?L, fld_kind := ty_kind t, fld_is_const := c,
    fld_is_volatile := v, is_bitfield := True, bit_width := w, bit_offset := bf_bits_used ?L\<rparr>"
  have u: "pow2 ?u" "unit_align_of t = ?u" "0 < w" "w \<le> 8 * ?u" using m by (auto simp: member_ok_def)
  have b: "bits_inv (cost ms + 17 * ?u) ?u w ms ?L"
    using open_unit_inv [OF inv u(1) _ u(4)] u room m(2) by simp
  note b' = b [unfolded bits_inv_def frame_inv_def unit_inv_def]
  have wrap: "wrap32 (bf_bits_used ?L + w) = bf_bits_used ?L + w"
    using b' u room m(2) pow2_pos [OF u(1)] by (intro wrap32_id) auto
  have "in_order 0 (filter named (ms @ [m])) (tmp_fields ?L @ [?f]) (8 * bf_unit_offset ?L + bf_bits_used ?L + w)"
    using b' u m(2)
    by (auto intro!: in_order_snoc [where hi = "next_bit ?L"] simp: next_bit_def first_bit_def end_bit_def placed_well_def)
  then show ?thesis
    using b' u m(2) wrap
    by (auto simp: place_bits_def Let_def layout_inv_def frame_inv_def unit_inv_def next_bit_def add.assoc)
qed

lemma place_gap_inv:
  assumes inv: "layout_inv ms L" and m: "member_ok m" "m = Gap t w" and room: "cost (ms @ [m]) < 2 ^ 31"
  shows "layout_inv (ms @ [m]) (place m L)"
proof (cases "w = 0")
  case True
  note i = inv [unfolded layout_inv_def frame_inv_def]
  have "1 \<le> alignment m" "0 \<le> bytes m" using m(1) pow2_pos bytes_nonneg by (auto simp: member_ok_def)
  moreover have "in_order 0 (filter named ms) (tmp_fields L) (8 * current_offset L)"
    using i next_bit_le in_order_mono by blast
  ultimately show ?thesis
    using True m(2) i by (auto simp: place_anonymous_bits_def layout_inv_def frame_inv_def unit_inv_def)
next
  case False
  let ?u = "unit_size_of t" and ?L = "open_unit (unit_size_of t) (unit_align_of t) w L"
  have u: "pow2 ?u" "unit_align_of t = ?u" "0 \<le> w" "w \<le> 8 * ?u" using m by (auto simp: member_ok_def)
  have b: "bits_inv (cost ms + 17 * ?u) ?u w ms ?L"
    using open_unit_inv [OF inv u(1) u(3,4)] u room m(2) by simp
  note b' = b [unfolded bits_inv_def frame_inv_def unit_inv_def]
  have wrap: "wrap32 (bf_bits_used ?L + w) = bf_bits_used ?L + w"
    using b' u room m(2) pow2_pos [OF u(1)] by (intro wrap32_id) auto
  have "in_order 0 (filter named ms) (tmp_fields ?L) (8 * bf_unit_offset ?L + bf_bits_used ?L + w)"
    using b' u by (auto intro: in_order_mono simp: next_bit_def)
  then show ?thesis
    using b' u m(2) wrap False
    by (auto simp: place_anonymous_bits_def Let_def layout_inv_def frame_inv_def unit_inv_def next_bit_def add.assoc)
qed

lemma place_inv:
  assumes inv: "layout_inv ms L" and m: "member_ok m" and room: "cost (ms @ [m]) < 2 ^ 31"
  shows "layout_inv (ms @ [m]) (place m L)"
proof (cases m)
  case (Member d t ft c v)
  have off: "0 \<le> current_offset L" "current_offset L + alignment m \<le> 2 ^ 31" "pow2 (alignment m)"
    using inv room m bytes_nonneg [of m] by (auto simp: layout_inv_def frame_inv_def member_ok_def)
  note a = align_up_bounds [OF off(3,1,2)]
  have "wrap32 (align_up (current_offset L) (alignment m) + bytes m) = align_up (current_offset L) (alignment m) + bytes m"
    using a off inv room bytes_nonneg [of m] by (intro wrap32_id) (auto simp: layout_inv_def frame_inv_def)
  then show ?thesis
    using m Member room bytes_nonneg [of m]
    by (intro place_whole [OF inv, where off = "align_up (current_offset L) (alignment m)" and f = "member_field d t ft c v (align_up (current_offset L) (alignment m))"])
       (auto simp: member_ok_def place_member_def Let_def member_field_def zero_field_def close_unit_def)
next
  case (Flexible name t ft c v)
  then show ?thesis
    using m room
    by (intro place_whole [OF inv, where off = "align_up (current_offset L) (alignment m)" and f = "last (tmp_fields (place m L))"])
       (auto simp: member_ok_def place_flexible_def Let_def zero_field_def close_unit_def)
qed (use assms place_bits_inv place_gap_inv in auto)

subsection \<open>The parser places members\<close>

text \<open>What a program returns, when it returns.\<close>

definition gives :: "'a parser \<Rightarrow> ('a \<Rightarrow> bool) \<Rightarrow> bool" where
  "gives m Q \<longleftrightarrow> (\<forall>p x p'. m p = Inr (x, p') \<longrightarrow> Q x)"

lemma gives_basic [simp]:
  "gives (ret x) Q \<longleftrightarrow> Q x" "gives (raise e) Q" "gives (parser_error msg) Q"
  "gives (if b then m else k) Q \<longleftrightarrow> (b \<longrightarrow> gives m Q) \<and> (\<not> b \<longrightarrow> gives k Q)"
  by (auto simp: gives_def ret_def raise_def parser_error_def)

lemma gives_seq: "(\<And>x. gives (f x) Q) \<Longrightarrow> gives (seq m f) Q"
  by (auto simp: gives_def seq_def split: sum.splits)

lemma gives_bind: "gives m R \<Longrightarrow> (\<And>x. R x \<Longrightarrow> gives (f x) Q) \<Longrightarrow> gives (seq m f) Q"
  by (fastforce simp: gives_def seq_def split: sum.splits)

lemma gives_before: "gives k Q \<Longrightarrow> gives (before m k) Q"
  by (simp add: before_def gives_seq)

lemma gives_on_kind: "(\<And>k. gives (f k) Q) \<Longrightarrow> gives (on_kind f) Q"
  by (auto simp: gives_def on_kind_def)

lemma gives_prod: "(\<And>y z. gives (f y z) Q) \<Longrightarrow> gives (case_prod f r) Q"
  by (cases r) simp

lemmas gives_intros = gives_seq gives_before gives_on_kind gives_prod conjI impI

definition places :: "layout \<Rightarrow> layout \<Rightarrow> bool" where
  "places L L' \<longleftrightarrow> (\<exists>ms. L' = fold place ms L)"

lemma places_refl [simp]: "places L L"
  unfolding places_def by (rule exI [of _ "[]"]) simp

lemma places_trans: "places L L' \<Longrightarrow> places L' L'' \<Longrightarrow> places L L''"
  unfolding places_def by (metis fold_append comp_apply)

lemma places_place [simp]:
  "places L (place m L)" "places L (place_member d t ft c v (close_unit L))" "places L (place_bits name t c v w L)"
  "places L (place_anonymous_bits t w L)" "places L (place_flexible name t ft c v (close_unit L))"
proof -
  have all: "places L (place m L)" for m unfolding places_def by (rule exI [of _ "[m]"]) simp
  show "places L (place m L)" by (rule all)
  show "places L (place_member d t ft c v (close_unit L))" using all [of "Member d t ft c v"] by simp
  show "places L (place_bits name t c v w L)" using all [of "Bits name t c v w"] by simp
  show "places L (place_anonymous_bits t w L)" using all [of "Gap t w"] by simp
  show "places L (place_flexible name t ft c v (close_unit L))" using all [of "Flexible name t ft c v"] by simp
qed

lemma gives_struct_declarator: "gives (struct_declarator K base c v L) (places L)"
  unfolding struct_declarator_def struct_member_def struct_bits_def Let_def
  by (intro gives_on_kind) (auto intro!: gives_intros)

lemma gives_struct_declarators: "places L0 L \<Longrightarrow> gives (struct_declarators n K base c v first L) (places L0)"
proof (induction n arbitrary: first L)
  case (Suc n)
  have "gives (struct_declarator K base c v L) (places L0)"
    using gives_struct_declarator [of K base c v L] places_trans [OF Suc.prems] by (auto simp: gives_def)
  then show ?case using Suc.IH by (auto intro!: gives_before gives_bind gives_on_kind)
qed simp

text \<open>Whatever the source holds between the braces: the layout is made of placements, in the order of the declarations.\<close>

lemma struct_members_place: "places L0 L \<Longrightarrow> gives (struct_members n K L) (places L0)"
proof (induction n arbitrary: L)
  case (Suc n)
  have "gives (seq (struct_declarators (k_loop K) K base c v True L)
      (\<lambda>L'. before (parser_expect TOKEN_SEMICOLON) (struct_members n K L'))) (places L0)" for base c v
    by (rule gives_bind, rule gives_struct_declarators, rule Suc.prems) (intro gives_before Suc.IH)
  with Suc show ?case by (auto intro!: gives_on_kind gives_seq gives_prod gives_before)
qed simp

subsection \<open>The theorem\<close>

lemma layout_inv_fold:
  "(\<And>m. m \<in> set ms \<Longrightarrow> member_ok m) \<Longrightarrow> cost ms < 2 ^ 31 \<Longrightarrow> layout_inv ms (fold place ms empty_layout)"
proof (induction ms rule: rev_induct)
  case (snoc m ms)
  have "1 \<le> alignment m" "0 \<le> bytes m" using snoc.prems(1) [of m] pow2_pos bytes_nonneg by (auto simp: member_ok_def)
  with snoc show ?case by (auto intro!: place_inv)
qed (simp add: layout_inv_empty)

text \<open>
  (C7) The layout of a structure. The fields of the named members lie in the order of the declarations,
  from the first bit of the structure to its last, without overlap; every member starts at a multiple of its
  alignment, a bit-field stays inside its storage unit. The alignment of the structure is a multiple of the
  alignments of its members, and its size a multiple of its alignment, except that a structure without bytes has size 1.
\<close>

theorem struct_layout_correct:
  assumes "\<And>m. m \<in> set ms \<Longrightarrow> member_ok m" and "cost ms < 2 ^ 30" and "L = fold place ms empty_layout"
  shows "in_order 0 (filter named ms) (tmp_fields L) (8 * total_size L) \<and>
    list_all (\<lambda>m. named m \<longrightarrow> alignment m dvd max_align L) ms \<and>
    (if current_offset L = 0 then total_size L = 1 else max_align L dvd total_size L)"
proof -
  have i: "layout_inv ms L" using layout_inv_fold assms by auto
  note i' = i [unfolded layout_inv_def frame_inv_def]
  have "0 \<le> current_offset L" "pow2 (max_align L)" "current_offset L + max_align L \<le> 2 ^ 31" using i' assms(2) by auto
  note a = align_up_bounds [OF this(2,1,3)]
  have zero: "align_up 0 (max_align L) = 0"
    using align_up_bounds [of "max_align L" 0] i' assms(2) zdvd_not_zless [of "align_up 0 (max_align L)" "max_align L"] by force
  have size: "total_size L = (if current_offset L = 0 then 1 else align_up (current_offset L) (max_align L))"
    using a i' zero by (auto simp: total_size_def Let_def)
  have "next_bit L \<le> 8 * total_size L" using next_bit_le [of _ L] i' a size by fastforce
  then have "in_order 0 (filter named ms) (tmp_fields L) (8 * total_size L)" using i' by (blast intro: in_order_mono)
  moreover have "list_all (\<lambda>m. named m \<longrightarrow> alignment m dvd max_align L) ms"
    using i' assms(1) by (auto simp: list_all_iff member_ok_def intro!: pow2_dvd)
  ultimately show ?thesis using size a(3) by simp
qed

text \<open>\<^verbatim>\<open>char c; int i; int a : 3; int b : 30; long l;\<close>\<close>

definition sample_members :: "member list" where
  "sample_members =
    (let d = zero_declarator; ch = scalar_type TYPE_CHAR 1 1 True; i = scalar_type TYPE_INT 4 4 True;
         l = scalar_type TYPE_LONG 8 8 True
     in [Member d ch type_char False False, Member d i type_int False False, Bits ''a'' i False False 3,
         Bits ''b'' i False False 30, Member d l type_long False False])"

theorem struct_layout_correct_witness:
  "map fld_offset (tmp_fields (fold place sample_members empty_layout)) = [0, 4, 8, 12, 16] \<and>
   in_order 0 (filter named sample_members) (tmp_fields (fold place sample_members empty_layout))
     (8 * total_size (fold place sample_members empty_layout))"
proof -
  have "pow2 1" "pow2 4" "pow2 8"
    using exI [of "\<lambda>k. (1 :: int) = 2 ^ k" 0] exI [of "\<lambda>k. (4 :: int) = 2 ^ k" 2] exI [of "\<lambda>k. (8 :: int) = 2 ^ k" 3]
    by (simp_all add: pow2_def)
  then have ok: "\<And>m. m \<in> set sample_members \<Longrightarrow> member_ok m"
    by (auto simp: sample_members_def Let_def member_ok_def scalar_type_def zero_type_def unit_align_of_def unit_size_of_def)
  have "cost sample_members < 2 ^ 30"
    by (simp add: sample_members_def Let_def cost_def scalar_type_def zero_type_def unit_align_of_def unit_size_of_def)
  note correct = struct_layout_correct [OF ok this refl]
  have "map fld_offset (tmp_fields (fold place sample_members empty_layout)) = [0, 4, 8, 12, 16]" by code_simp
  with conjunct1 [OF correct] show ?thesis by blast
qed

end
