(* ===== verification/Parser_Const.thy ===== *)
theory Parser_Const
  imports Parser_Types "HOL-Library.Signed_Division"
begin

section \<open>Constant expressions: \<^verbatim>\<open>src/parser.c\<close> lines 3023 to 3352\<close>

text \<open>
  The evaluator of integer constant expressions, one definition per precedence level. The levels
  from \<^verbatim>\<open>*\<close> to \<^verbatim>\<open>||\<close> have the same form: an operand, then operators of the level with an operand
  each, combined from the left. Values are \<^verbatim>\<open>long\<close>s with wrap-around.
\<close>

text \<open>The tokens that start a type name, in the four places that ask.\<close>

definition typedef_here :: "Parser \<Rightarrow> bool" where
  "typedef_here p \<longleftrightarrow> tk_type (current p) = TOKEN_IDENTIFIER \<and> parser_find_typedef p (tk_value (current p)) \<noteq> None"

definition arith_type_kind :: "TokenType \<Rightarrow> bool" where
  "arith_type_kind k \<longleftrightarrow> k = TOKEN_VOID \<or> k = TOKEN_CHAR \<or> k = TOKEN_SHORT \<or> k = TOKEN_INT \<or> k = TOKEN_LONG \<or>
     k = TOKEN_SIGNED \<or> k = TOKEN_UNSIGNED \<or> k = TOKEN_FLOAT \<or> k = TOKEN_DOUBLE \<or> k = TOKEN_CONST \<or> k = TOKEN_VOLATILE"

definition const_cast_start :: "Parser \<Rightarrow> bool" where
  "const_cast_start p \<longleftrightarrow> arith_type_kind (tk_type (current p)) \<or> typedef_here p"

definition type_name_start :: "Parser \<Rightarrow> bool" where
  "type_name_start p \<longleftrightarrow>
     arith_type_kind (tk_type (current p)) \<or> tk_type (current p) = TOKEN_BOOL \<or> tk_type (current p) = TOKEN_STRUCT \<or>
     tk_type (current p) = TOKEN_UNION \<or> typedef_here p"

definition const_sizeof_start :: "Parser \<Rightarrow> bool" where
  "const_sizeof_start p \<longleftrightarrow> type_name_start p \<or> tk_type (current p) = TOKEN_ENUM"

text \<open>The size of an object of a kind, and of an expression whose tree is at hand.\<close>

definition const_kind_size :: "TypeKind \<Rightarrow> int" where
  "const_kind_size k =
     (if k = TYPE_POINTER \<or> k = TYPE_LONG \<or> k = TYPE_LONG_LONG \<or> k = TYPE_UNSIGNED_LONG_LONG \<or> k = TYPE_DOUBLE then 8
      else if k = TYPE_SHORT then 2
      else if k = TYPE_CHAR \<or> k = TYPE_BOOL then 1
      else 4)"

definition struct_fields :: "Parser \<Rightarrow> type_ptr \<Rightarrow> StructField list" where
  "struct_fields p t = (case ty_fields (types p ! t) of None \<Rightarrow> [] | Some i \<Rightarrow> field_tables p ! i)"

definition arrow_base :: "Parser \<Rightarrow> ASTNode \<Rightarrow> type_ptr option" where
  "arrow_base p e =
     (if node_type e = AST_ARROW_ACCESS
      then (case children e of
              Some c # _ \<Rightarrow> (case full_type (info c) of
                 Some t \<Rightarrow> if ty_kind (types p ! t) = TYPE_POINTER then ty_base (types p ! t) else None
               | None \<Rightarrow> None)
            | _ \<Rightarrow> None)
      else None)"

definition const_sizeof_expr :: "Parser \<Rightarrow> ASTNode \<Rightarrow> int" where
  "const_sizeof_expr p e =
     (case full_type (info e) of
        Some t \<Rightarrow> ty_size (types p ! t)
      | None \<Rightarrow>
          (case arrow_base p e of
             Some s \<Rightarrow>
               (case find (\<lambda>f. Some (fld_name f) = nvalue (info e)) (struct_fields p s) of
                  None \<Rightarrow> 4
                | Some f \<Rightarrow> (case fld_full_type f of Some t \<Rightarrow> ty_size (types p ! t) | None \<Rightarrow> const_kind_size (fld_kind f)))
           | None \<Rightarrow> const_kind_size (decl_type (info e))))"

definition not_constant :: "string \<Rightarrow> 'a parser" where
  "not_constant context = parser_error (context @ '' is not an integer constant expression'')"

definition const_sizeof :: "knot \<Rightarrow> int parser" where
  "const_sizeof K =
     before advance (on_kind (\<lambda>k.
       if k \<noteq> TOKEN_LPAREN then parser_error ''sizeof requires a parenthesized type name in a constant expression''
       else before advance (on_state (\<lambda>p.
         if const_sizeof_start p then
           seq (parse_type_name K) (\<lambda>t. seq (the_type t) (\<lambda>ct.
             if ty_kind ct = TYPE_VOID then parser_error ''sizeof applied to void type in constant expression''
             else if ty_kind ct = TYPE_ARRAY \<and> ty_length ct = 0
             then parser_error ''sizeof applied to incomplete array type in constant expression''
             else before (parser_expect TOKEN_RPAREN) (ret (ty_size ct))))
         else seq (k_expression K) (\<lambda>e. seq (gets (\<lambda>p. const_sizeof_expr p e)) (\<lambda>sz.
           before (parser_expect TOKEN_RPAREN) (ret sz)))))))"

definition eval_const_primary :: "knot \<Rightarrow> string \<Rightarrow> int parser" where
  "eval_const_primary K context = on_token (\<lambda>t.
     let k = tk_type t in
     if k = TOKEN_INT_LITERAL \<or> k = TOKEN_CHAR_LITERAL then before advance (ret (long_value t))
     else if k = TOKEN_IDENTIFIER then on_state (\<lambda>p.
       case find_enum_const p (tk_value t) of
         Some v \<Rightarrow> before advance (ret v)
       | None \<Rightarrow> not_constant context)
     else if k = TOKEN_LPAREN then
       before advance (on_state (\<lambda>p.
         if const_cast_start p then
           before (parse_type_name K) (before (parser_expect TOKEN_RPAREN) (k_const_unary K context))
         else seq (k_const_expr K context) (\<lambda>v. before (parser_expect TOKEN_RPAREN) (ret v))))
     else if k = TOKEN_SIZEOF then const_sizeof K
     else not_constant context)"

definition eval_const_unary :: "knot \<Rightarrow> string \<Rightarrow> int parser" where
  "eval_const_unary K context = on_kind (\<lambda>k.
     if k = TOKEN_MINUS then before advance (seq (k_const_unary K context) (\<lambda>v. ret (wrap64 (- v))))
     else if k = TOKEN_PLUS then before advance (k_const_unary K context)
     else if k = TOKEN_TILDE then before advance (seq (k_const_unary K context) (\<lambda>v. ret (NOT v)))
     else if k = TOKEN_BANG then before advance (seq (k_const_unary K context) (\<lambda>v. ret (of_bool (v = 0))))
     else eval_const_primary K context)"

text \<open>A level: \<open>ops\<close> gives the operators of the level with their effect.\<close>

fun const_loop :: "nat \<Rightarrow> (TokenType \<Rightarrow> (int \<Rightarrow> int \<Rightarrow> int parser) option) \<Rightarrow> int parser \<Rightarrow> int \<Rightarrow> int parser" where
  "const_loop 0 ops sub val = raise OutOfFuel"
| "const_loop (Suc n) ops sub val = on_kind (\<lambda>k.
     case ops k of
       None \<Rightarrow> ret val
     | Some f \<Rightarrow> before advance (seq sub (\<lambda>rhs. seq (f val rhs) (const_loop n ops sub))))"

definition const_level :: "knot \<Rightarrow> (TokenType \<Rightarrow> (int \<Rightarrow> int \<Rightarrow> int parser) option) \<Rightarrow> int parser \<Rightarrow> int parser" where
  "const_level K ops sub = seq sub (const_loop (k_loop K) ops sub)"

definition const_division :: "(int \<Rightarrow> int \<Rightarrow> int) \<Rightarrow> int \<Rightarrow> int \<Rightarrow> int parser" where
  "const_division f val rhs =
     (if rhs = 0 then parser_error ''division by zero in constant expression''
      else if val = LONG_MIN \<and> rhs = - 1 then raise Trap
      else ret (f val rhs))"

definition const_mult_ops :: "TokenType \<Rightarrow> (int \<Rightarrow> int \<Rightarrow> int parser) option" where
  "const_mult_ops k =
     (if k = TOKEN_STAR then Some (\<lambda>a b. ret (wrap64 (a * b)))
      else if k = TOKEN_SLASH then Some (const_division (\<lambda>a b. a sdiv b))
      else if k = TOKEN_PERCENT then Some (const_division (\<lambda>a b. a smod b))
      else None)"

definition const_add_ops :: "TokenType \<Rightarrow> (int \<Rightarrow> int \<Rightarrow> int parser) option" where
  "const_add_ops k =
     (if k = TOKEN_PLUS then Some (\<lambda>a b. ret (wrap64 (a + b)))
      else if k = TOKEN_MINUS then Some (\<lambda>a b. ret (wrap64 (a - b)))
      else None)"

definition const_shift_ops :: "TokenType \<Rightarrow> (int \<Rightarrow> int \<Rightarrow> int parser) option" where
  "const_shift_ops k =
     (if k = TOKEN_LEFT_SHIFT then Some (\<lambda>a b. ret (shl64 a b))
      else if k = TOKEN_RIGHT_SHIFT then Some (\<lambda>a b. ret (sar64 a b))
      else None)"

definition const_rel_ops :: "TokenType \<Rightarrow> (int \<Rightarrow> int \<Rightarrow> int parser) option" where
  "const_rel_ops k =
     (if k = TOKEN_LT then Some (\<lambda>a b. ret (of_bool (a < b)))
      else if k = TOKEN_LE then Some (\<lambda>a b. ret (of_bool (a \<le> b)))
      else if k = TOKEN_GT then Some (\<lambda>a b. ret (of_bool (a > b)))
      else if k = TOKEN_GE then Some (\<lambda>a b. ret (of_bool (a \<ge> b)))
      else None)"

definition const_eq_ops :: "TokenType \<Rightarrow> (int \<Rightarrow> int \<Rightarrow> int parser) option" where
  "const_eq_ops k =
     (if k = TOKEN_EQ then Some (\<lambda>a b. ret (of_bool (a = b)))
      else if k = TOKEN_NE then Some (\<lambda>a b. ret (of_bool (a \<noteq> b)))
      else None)"

definition one_op :: "TokenType \<Rightarrow> (int \<Rightarrow> int \<Rightarrow> int) \<Rightarrow> TokenType \<Rightarrow> (int \<Rightarrow> int \<Rightarrow> int parser) option" where
  "one_op op f k = (if k = op then Some (\<lambda>a b. ret (f a b)) else None)"

definition eval_const_multiplicative :: "knot \<Rightarrow> string \<Rightarrow> int parser" where
  "eval_const_multiplicative K context = const_level K const_mult_ops (eval_const_unary K context)"

definition eval_const_additive :: "knot \<Rightarrow> string \<Rightarrow> int parser" where
  "eval_const_additive K context = const_level K const_add_ops (eval_const_multiplicative K context)"

definition eval_const_shift :: "knot \<Rightarrow> string \<Rightarrow> int parser" where
  "eval_const_shift K context = const_level K const_shift_ops (eval_const_additive K context)"

definition eval_const_relational :: "knot \<Rightarrow> string \<Rightarrow> int parser" where
  "eval_const_relational K context = const_level K const_rel_ops (eval_const_shift K context)"

definition eval_const_equality :: "knot \<Rightarrow> string \<Rightarrow> int parser" where
  "eval_const_equality K context = const_level K const_eq_ops (eval_const_relational K context)"

definition eval_const_bitwise_and :: "knot \<Rightarrow> string \<Rightarrow> int parser" where
  "eval_const_bitwise_and K context =
     const_level K (one_op TOKEN_AMPERSAND (\<lambda>a b. a AND b)) (eval_const_equality K context)"

definition eval_const_bitwise_xor :: "knot \<Rightarrow> string \<Rightarrow> int parser" where
  "eval_const_bitwise_xor K context =
     const_level K (one_op TOKEN_CARET (\<lambda>a b. a XOR b)) (eval_const_bitwise_and K context)"

definition eval_const_bitwise_or :: "knot \<Rightarrow> string \<Rightarrow> int parser" where
  "eval_const_bitwise_or K context =
     const_level K (one_op TOKEN_PIPE (\<lambda>a b. a OR b)) (eval_const_bitwise_xor K context)"

definition eval_const_logical_and :: "knot \<Rightarrow> string \<Rightarrow> int parser" where
  "eval_const_logical_and K context =
     const_level K (one_op TOKEN_AND_AND (\<lambda>a b. of_bool (a \<noteq> 0 \<and> b \<noteq> 0))) (eval_const_bitwise_or K context)"

definition eval_const_logical_or :: "knot \<Rightarrow> string \<Rightarrow> int parser" where
  "eval_const_logical_or K context =
     const_level K (one_op TOKEN_OR_OR (\<lambda>a b. of_bool (a \<noteq> 0 \<or> b \<noteq> 0))) (eval_const_logical_and K context)"

definition eval_const_conditional :: "knot \<Rightarrow> string \<Rightarrow> int parser" where
  "eval_const_conditional K context =
     seq (eval_const_logical_or K context) (\<lambda>cond. on_kind (\<lambda>k.
       if k \<noteq> TOKEN_QUESTION then ret cond
       else before advance
         (seq (k_const_expr K context) (\<lambda>true_val.
           before (parser_expect TOKEN_COLON)
             (seq (k_const_conditional K context) (\<lambda>false_val. ret (if cond \<noteq> 0 then true_val else false_val)))))))"

definition eval_const_expr :: "knot \<Rightarrow> string \<Rightarrow> int parser" where
  "eval_const_expr K context = eval_const_conditional K context"

end
