(* ===== verification/Parser_Expr.thy ===== *)
theory Parser_Expr
  imports Parser_Const
begin

section \<open>Expressions and initializers: \<^verbatim>\<open>src/parser.c\<close> lines 1748 to 2862\<close>

text \<open>
  One definition per function of the expression grammar. A node takes the position of the token
  that is current when it is made, which mostly is the one behind the construct. The buffer in
  which adjacent string literals are joined is the joined string itself.
\<close>

subsection \<open>Building nodes\<close>

definition add_children :: "ASTNode list \<Rightarrow> ASTNode \<Rightarrow> ASTNode" where
  "add_children cs n = foldl (\<lambda>n c. ast_add_child n (Some c)) n cs"

definition node_over :: "ASTNodeType \<Rightarrow> string option \<Rightarrow> ASTNode list \<Rightarrow> ASTNode parser" where
  "node_over ty v cs = seq (parser_node ty v) (\<lambda>n. ret (add_children cs n))"

definition store_bytes :: "string \<Rightarrow> unit parser" where
  "store_bytes s = modify (\<lambda>p. p\<lparr>lexer := lexer_store_bytes (lexer p) s\<rparr>)"

subsection \<open>Primary expressions\<close>

definition float_literal :: "Token \<Rightarrow> ASTNode parser" where
  "float_literal t =
     before advance (seq (parser_node AST_FLOAT_LITERAL (Some (tk_value t))) (\<lambda>n.
       ret (with_info (\<lambda>i. if tk_type t = TOKEN_FLOAT_LITERAL
         then i\<lparr>decl_type := TYPE_FLOAT, full_type := Some type_float\<rparr>
         else i\<lparr>decl_type := TYPE_DOUBLE, full_type := Some type_double\<rparr>) n)))"

text \<open>The bytes of the string literals that follow.\<close>

fun adjacent_strings :: "nat \<Rightarrow> string \<Rightarrow> string parser" where
  "adjacent_strings 0 s = raise OutOfFuel"
| "adjacent_strings (Suc n) s = on_token (\<lambda>t.
     if tk_type t = TOKEN_STRING_LITERAL then before advance (adjacent_strings n (s @ tk_value t)) else ret s)"

text \<open>The node of a string with \<open>s\<close> as its bytes: an array of \<^verbatim>\<open>char\<close> with one more element.\<close>

definition string_node :: "string \<Rightarrow> ASTNode \<Rightarrow> ASTNode parser" where
  "string_node s n =
     (let total_len = wrap32 (int (length s)) in
      seq (new_type (\<lambda>h. type_array h type_char (wrap32 (total_len + 1)))) (\<lambda>t.
        ret (with_info (\<lambda>i. i\<lparr>nvalue := Some s, byte_length := total_len, decl_type := TYPE_ARRAY,
          full_type := Some t\<rparr>) n)))"

definition string_literal :: "knot \<Rightarrow> Token \<Rightarrow> ASTNode parser" where
  "string_literal K t =
     before advance (seq (parser_node AST_STRING_LITERAL None) (\<lambda>n. on_kind (\<lambda>k.
       if k = TOKEN_STRING_LITERAL then
         seq (adjacent_strings (k_loop K) (tk_value t)) (\<lambda>s. before (store_bytes s) (string_node s n))
       else string_node (tk_value t) n)))"

definition char_literal :: "Token \<Rightarrow> ASTNode parser" where
  "char_literal t =
     before advance (seq (parser_node AST_CHAR_LITERAL None) (\<lambda>n.
       ret (with_info (\<lambda>i. i\<lparr>nvalue := Some (tk_value t), byte_length := 1, decl_type := TYPE_INT\<rparr>) n)))"

definition func_name :: "ASTNode parser" where
  "func_name = on_state (\<lambda>p. case current_func_name p of
     None \<Rightarrow> parser_error (quoted ''__func__'' @ '' used outside of a function body'')
   | Some fname \<Rightarrow>
       before advance (before (store_bytes fname)
         (seq (parser_node AST_STRING_LITERAL (Some fname)) (string_node fname))))"

definition va_start_call :: "knot \<Rightarrow> ASTNode parser" where
  "va_start_call K =
     before advance (before (parser_expect TOKEN_LPAREN) (on_state (\<lambda>p.
       if \<not> current_func_is_variadic p then parser_error ''__builtin_va_start used outside a variadic function''
       else seq (parser_node AST_BUILTIN_VA_START (Some ''__builtin_va_start'')) (\<lambda>n.
         seq (k_assignment K) (\<lambda>a. on_kind (\<lambda>k.
           if k \<noteq> TOKEN_COMMA then parser_error ''__builtin_va_start requires exactly 2 arguments''
           else before advance (seq (k_assignment K) (\<lambda>b.
             before (parser_expect TOKEN_RPAREN) (ret (add_children [a, b] n))))))))))"

definition va_end_call :: "knot \<Rightarrow> ASTNode parser" where
  "va_end_call K =
     before advance (before (parser_expect TOKEN_LPAREN)
       (seq (parser_node AST_BUILTIN_VA_END (Some ''__builtin_va_end'')) (\<lambda>n.
         seq (k_assignment K) (\<lambda>a. before (parser_expect TOKEN_RPAREN) (ret (add_children [a] n))))))"

definition va_copy_call :: "knot \<Rightarrow> ASTNode parser" where
  "va_copy_call K =
     before advance (before (parser_expect TOKEN_LPAREN)
       (seq (parser_node AST_BUILTIN_VA_COPY (Some ''__builtin_va_copy'')) (\<lambda>n.
         seq (k_assignment K) (\<lambda>a. before (parser_expect TOKEN_COMMA)
           (seq (k_assignment K) (\<lambda>b. before (parser_expect TOKEN_RPAREN) (ret (add_children [a, b] n))))))))"

definition va_arg_call :: "knot \<Rightarrow> ASTNode parser" where
  "va_arg_call K =
     before advance (before (parser_expect TOKEN_LPAREN)
       (seq (parser_node AST_BUILTIN_VA_ARG None) (\<lambda>n.
         seq (k_assignment K) (\<lambda>a. before (parser_expect TOKEN_COMMA)
           (seq (parse_type_name K) (\<lambda>t. seq (the_type t) (\<lambda>ct.
             before (parser_expect TOKEN_RPAREN)
               (ret (add_children [a] (with_info (\<lambda>i. i\<lparr>decl_type := ty_kind ct, full_type := Some t,
                  nvalue := Some (type_kind_name (ty_kind ct))\<rparr>) n))))))))))"

text \<open>The arguments of a call are added to its node, up to the closing parenthesis.\<close>

fun more_args :: "nat \<Rightarrow> knot \<Rightarrow> ASTNode \<Rightarrow> ASTNode parser" where
  "more_args 0 K call = raise OutOfFuel"
| "more_args (Suc n) K call = on_kind (\<lambda>k.
     if k = TOKEN_COMMA then before advance (seq (k_assignment K) (\<lambda>a. more_args n K (ast_add_child call (Some a))))
     else ret call)"

definition call_args :: "knot \<Rightarrow> ASTNode \<Rightarrow> ASTNode parser" where
  "call_args K call =
     seq (on_kind (\<lambda>k.
       if k \<noteq> TOKEN_RPAREN then seq (k_assignment K) (\<lambda>a. more_args (k_loop K) K (ast_add_child call (Some a)))
       else ret call))
     (\<lambda>call'. before (parser_expect TOKEN_RPAREN) (ret call'))"

definition check_arity :: "string \<Rightarrow> FuncSig \<Rightarrow> nat \<Rightarrow> unit parser" where
  "check_arity name sig n =
     (if sig_param_count sig \<noteq> - 1 \<and> \<not> sig_no_prototype sig then
        (if sig_is_variadic sig then
           (if int n < sig_param_count sig
            then parser_error (''function '' @ quoted name @ '' expects at least '' @ show_int (sig_param_count sig)
                   @ '' arguments, got '' @ show_nat n)
            else ret ())
         else if sig_param_count sig \<noteq> int n
         then parser_error (''function '' @ quoted name @ '' expects '' @ show_int (sig_param_count sig)
                @ '' arguments, got '' @ show_nat n)
         else ret ())
      else ret ())"

definition named_call :: "knot \<Rightarrow> string \<Rightarrow> ASTNode parser" where
  "named_call K name =
     before (parser_expect TOKEN_LPAREN) (on_state (\<lambda>p.
       case parser_find_function p name of
         Some i \<Rightarrow> let sig = funcs p ! i in
           seq (parser_node AST_FUNCTION_CALL (Some name)) (\<lambda>n. seq (call_args K n) (\<lambda>call.
             before (check_arity name sig (child_count call))
               (ret (with_info (\<lambda>j. j\<lparr>decl_type := sig_return_type sig\<rparr>) call))))
       | None \<Rightarrow>
           seq (parser_node AST_VAR_REF (Some name)) (\<lambda>callee.
             seq (node_over AST_INDIRECT_CALL None [callee]) (call_args K))))"

definition identifier_expr :: "knot \<Rightarrow> Token \<Rightarrow> ASTNode parser" where
  "identifier_expr K t = on_state (\<lambda>p.
     if tk_value t = ''__func__'' then func_name
     else if tk_value t = ''__builtin_va_start'' then va_start_call K
     else if tk_value t = ''__builtin_va_end'' then va_end_call K
     else if tk_value t = ''__builtin_va_copy'' then va_copy_call K
     else if tk_value t = ''__builtin_va_arg'' then va_arg_call K
     else case find_enum_const p (tk_value t) of
       Some v \<Rightarrow>
         before advance (before (store_bytes (show_int v))
           (seq (parser_node AST_INT_LITERAL (Some (show_int v))) (\<lambda>n. ret (with_info (\<lambda>i. i\<lparr>decl_type := TYPE_INT\<rparr>) n))))
     | None \<Rightarrow>
         before advance (on_kind (\<lambda>k.
           if k = TOKEN_LPAREN then named_call K (tk_value t) else parser_node AST_VAR_REF (Some (tk_value t)))))"

definition parse_primary :: "knot \<Rightarrow> ASTNode parser" where
  "parse_primary K = on_token (\<lambda>t.
     let k = tk_type t in
     if k = TOKEN_INT_LITERAL then
       before advance (seq (parser_node AST_INT_LITERAL (Some (tk_value t))) (\<lambda>n.
         ret (with_info (\<lambda>i. i\<lparr>decl_type := literal_type t, is_unsigned := tk_unsigned t\<rparr>) n)))
     else if k = TOKEN_FLOAT_LITERAL \<or> k = TOKEN_DOUBLE_LITERAL then float_literal t
     else if k = TOKEN_STRING_LITERAL then string_literal K t
     else if k = TOKEN_CHAR_LITERAL then char_literal t
     else if k = TOKEN_IDENTIFIER then identifier_expr K t
     else if k = TOKEN_LPAREN then
       before advance (seq (k_expression K) (\<lambda>e. before (parser_expect TOKEN_RPAREN) (ret e)))
     else parser_error (''expected expression, got '' @ quoted (c_text (tk_value t))))"

subsection \<open>Postfix, unary and cast expressions\<close>

definition subscript_base :: "ASTNodeType \<Rightarrow> bool" where
  "subscript_base ty \<longleftrightarrow> ty = AST_VAR_REF \<or> ty = AST_DEREF \<or> ty = AST_ARRAY_INDEX \<or> ty = AST_MEMBER_ACCESS \<or>
     ty = AST_ARROW_ACCESS \<or> ty = AST_COMPOUND_LITERAL \<or> ty = AST_STRING_LITERAL"

definition field_access :: "ASTNodeType \<Rightarrow> ASTNode \<Rightarrow> ASTNode parser" where
  "field_access ty expr =
     before advance (seq (parser_expect TOKEN_IDENTIFIER) (\<lambda>f. node_over ty (Some (tk_value f)) [expr]))"

definition subscript :: "knot \<Rightarrow> ASTNode \<Rightarrow> ASTNode parser" where
  "subscript K expr =
     (if \<not> subscript_base (node_type expr) then parser_error ''subscript base must be an identifier''
      else before advance (seq (k_expression K) (\<lambda>i.
        before (parser_expect TOKEN_RBRACKET) (node_over AST_ARRAY_INDEX None [expr, i]))))"

fun parse_postfix_suffixes :: "nat \<Rightarrow> knot \<Rightarrow> ASTNode \<Rightarrow> ASTNode parser" where
  "parse_postfix_suffixes 0 K expr = raise OutOfFuel"
| "parse_postfix_suffixes (Suc n) K expr = on_token (\<lambda>t.
     let k = tk_type t in
     if k = TOKEN_LPAREN then
       before advance (seq (seq (node_over AST_INDIRECT_CALL None [expr]) (call_args K)) (parse_postfix_suffixes n K))
     else if k = TOKEN_LBRACKET then seq (subscript K expr) (parse_postfix_suffixes n K)
     else if k = TOKEN_DOT then seq (field_access AST_MEMBER_ACCESS expr) (parse_postfix_suffixes n K)
     else if k = TOKEN_ARROW then seq (field_access AST_ARROW_ACCESS expr) (parse_postfix_suffixes n K)
     else if k = TOKEN_INCREMENT \<or> k = TOKEN_DECREMENT then
       before advance (seq (node_over AST_POSTFIX_INC_DEC (Some (tk_value t)) [expr]) (parse_postfix_suffixes n K))
     else ret expr)"

text \<open>
  The length of an array that a compound literal leaves open: one behind the largest index
  reached. No child of an initializer list is null; the code would follow the pointer.
\<close>

fun infer_length :: "int \<Rightarrow> int \<Rightarrow> ASTNode option list \<Rightarrow> int option" where
  "infer_length at max_idx [] = Some (wrap32 (max_idx + 1))"
| "infer_length at max_idx (None # cs) = None"
| "infer_length at max_idx (Some c # cs) =
     (let at' = (if node_type c = AST_DESIGNATED_INIT \<and> nvalue (info c) = None then byte_length (info c) else at)
      in infer_length (wrap32 (at' + 1)) (if at' \<ge> max_idx then at' else max_idx) cs)"

definition infer_compound_literal_array_length :: "ASTNode \<Rightarrow> int option" where
  "infer_compound_literal_array_length l = (if child_count l = 0 then Some 0 else infer_length 0 0 (children l))"

definition base_kind_name :: "Parser \<Rightarrow> CType \<Rightarrow> string" where
  "base_kind_name p t = (case ty_base t of None \<Rightarrow> ''?'' | Some b \<Rightarrow> type_kind_name (ty_kind (types p ! b)))"

text \<open>The label is cut to the 127 characters of its buffer.\<close>

definition tag_label :: "string \<Rightarrow> StructTag list \<Rightarrow> type_ptr \<Rightarrow> string" where
  "tag_label kw tags t =
     (case find (\<lambda>s. st_type s = Some t) tags of None \<Rightarrow> kw @ '' <anon>'' | Some s \<Rightarrow> kw @ '' '' @ st_tag s)"

definition unsigned_kind :: "CType \<Rightarrow> bool" where
  "unsigned_kind t \<longleftrightarrow> \<not> ty_signed t \<and> ty_kind t \<noteq> TYPE_BOOL \<and> ty_kind t \<noteq> TYPE_UNSIGNED_LONG_LONG"

definition literal_label :: "Parser \<Rightarrow> type_ptr \<Rightarrow> string" where
  "literal_label p t =
     (let ct = types p ! t in take 127
       (if ty_kind ct = TYPE_STRUCT then tag_label ''struct'' (struct_tags p) t
        else if ty_kind ct = TYPE_UNION then tag_label ''union'' (union_tags p) t
        else if ty_kind ct = TYPE_ARRAY then
          base_kind_name p ct @ (if ty_length ct = 0 then ''[]'' else ''['' @ show_int (ty_length ct) @ '']'')
        else if ty_kind ct = TYPE_POINTER then base_kind_name p ct @ '' *''
        else (if unsigned_kind ct then ''unsigned '' else []) @ type_kind_name (ty_kind ct)))"

text \<open>An array type whose length is open gets the length of its initializer, and a new label.\<close>

definition complete_array :: "type_ptr \<Rightarrow> ASTNode \<Rightarrow> ASTNode \<Rightarrow> (type_ptr \<times> ASTNode) parser" where
  "complete_array t l n = on_state (\<lambda>p.
     let ct = types p ! t in
     if ty_length ct \<noteq> 0 then ret (t, n)
     else case (infer_compound_literal_array_length l, ty_base ct) of
       (Some len, Some b) \<Rightarrow>
         let inferred = (if len = 0 then 1 else len);
             label = take 127 (type_kind_name (ty_kind (types p ! b)) @ ''['' @ show_int inferred @ '']'')
         in seq (new_type (\<lambda>h. type_array h b inferred)) (\<lambda>t'.
              before (store_bytes label) (ret (t', with_info (\<lambda>i. i\<lparr>nvalue := Some label\<rparr>) n)))
     | _ \<Rightarrow> raise Fault)"

definition array_literal :: "knot \<Rightarrow> type_ptr \<Rightarrow> ASTNode \<Rightarrow> ASTNode parser" where
  "array_literal K t n =
     seq (k_initializer K) (\<lambda>l. seq (complete_array t l n) (\<lambda>(t', n').
       seq (gets (\<lambda>p. case ty_base (types p ! t') of None \<Rightarrow> False | Some b \<Rightarrow> unsigned_kind (types p ! b))) (\<lambda>u.
         ret (add_children [l] (with_info (\<lambda>i. i\<lparr>full_type := Some t', is_unsigned := u\<rparr>) n')))))"

definition scalar_literal :: "knot \<Rightarrow> type_ptr \<Rightarrow> CType \<Rightarrow> ASTNode \<Rightarrow> ASTNode parser" where
  "scalar_literal K t ct n =
     before advance (seq (k_assignment K) (\<lambda>e.
       before (accept TOKEN_COMMA) (before (parser_expect TOKEN_RBRACE)
         (ret (add_children [e] (with_info (\<lambda>i. i\<lparr>full_type := (if ty_kind ct = TYPE_POINTER then Some t else None),
            is_unsigned := unsigned_kind ct\<rparr>) n))))))"

definition build_compound_literal :: "knot \<Rightarrow> type_ptr \<Rightarrow> ASTNode parser" where
  "build_compound_literal K t =
     seq (the_type t) (\<lambda>ct.
       if ty_kind ct = TYPE_VOID \<or> ty_kind ct = TYPE_FUNCTION then parser_error ''invalid type for compound literal''
       else seq (gets (\<lambda>p. literal_label p t)) (\<lambda>label. before (store_bytes label)
         (seq (parser_node AST_COMPOUND_LITERAL (Some label)) (\<lambda>n0.
           let n = with_info (\<lambda>i. i\<lparr>decl_type := ty_kind ct\<rparr>) n0 in
           if ty_kind ct = TYPE_STRUCT \<or> ty_kind ct = TYPE_UNION then
             seq (k_initializer K) (\<lambda>l. ret (add_children [l] (with_info (\<lambda>i. i\<lparr>full_type := Some t\<rparr>) n)))
           else if ty_kind ct = TYPE_ARRAY then array_literal K t n
           else scalar_literal K t ct n))))"

text \<open>
  Behind an opening parenthesis: the type of a compound literal, with its brace as the current token,
  or \<^const>\<open>None\<close>, after which the position and the token are put back; what the type name declared stays.
\<close>

definition compound_literal_type :: "knot \<Rightarrow> type_ptr option parser" where
  "compound_literal_type K = on_state (\<lambda>p.
     if type_name_start p then
       seq (parse_type_name K) (\<lambda>t. on_kind (\<lambda>k.
         if k = TOKEN_RPAREN then before advance (on_kind (\<lambda>k. ret (if k = TOKEN_LBRACE then Some t else None)))
         else ret None))
     else ret None)"

definition primary_suffixes :: "knot \<Rightarrow> ASTNode parser" where
  "primary_suffixes K = seq (parse_primary K) (parse_postfix_suffixes (k_loop K) K)"

definition literal_suffixes :: "knot \<Rightarrow> type_ptr \<Rightarrow> ASTNode parser" where
  "literal_suffixes K t = seq (build_compound_literal K t) (parse_postfix_suffixes (k_loop K) K)"

definition parse_postfix :: "knot \<Rightarrow> ASTNode parser" where
  "parse_postfix K = on_kind (\<lambda>k.
     if k = TOKEN_LPAREN then
       seq save (\<lambda>s. before advance (seq (compound_literal_type K) (\<lambda>r.
         case r of Some t \<Rightarrow> literal_suffixes K t | None \<Rightarrow> before (restore s) (primary_suffixes K))))
     else primary_suffixes K)"

definition sizeof_type :: "knot \<Rightarrow> ASTNode parser" where
  "sizeof_type K =
     seq (parse_type_name K) (\<lambda>t. seq (the_type t) (\<lambda>ct.
       if ty_kind ct = TYPE_VOID then parser_error ''sizeof applied to void type''
       else if ty_kind ct = TYPE_ARRAY \<and> ty_length ct = 0 then parser_error ''sizeof applied to incomplete array type''
       else before (parser_expect TOKEN_RPAREN) (seq (parser_node AST_SIZEOF_TYPE None) (\<lambda>n.
         ret (with_info (\<lambda>i. i\<lparr>decl_type := ty_kind ct,
           full_type := (if ty_kind ct = TYPE_STRUCT \<or> ty_kind ct = TYPE_UNION \<or> ty_kind ct = TYPE_ARRAY then Some t else None)\<rparr>) n)))))"

definition parse_sizeof :: "knot \<Rightarrow> ASTNode parser" where
  "parse_sizeof K =
     before advance (on_kind (\<lambda>k.
       if k \<noteq> TOKEN_LPAREN then seq (k_unary K) (\<lambda>e. node_over AST_SIZEOF_EXPR None [e])
       else before advance (on_state (\<lambda>p.
         if type_name_start p then sizeof_type K
         else if tk_type (current p) = TOKEN_RPAREN then parser_error ''expected expression or type in sizeof''
         else seq (k_expression K) (\<lambda>e. before (parser_expect TOKEN_RPAREN) (node_over AST_SIZEOF_EXPR None [e]))))))"

definition addressable :: "ASTNodeType \<Rightarrow> bool" where
  "addressable ty \<longleftrightarrow> ty = AST_VAR_REF \<or> ty = AST_ARRAY_INDEX \<or> ty = AST_MEMBER_ACCESS \<or> ty = AST_ARROW_ACCESS \<or>
     ty = AST_COMPOUND_LITERAL"

text \<open>An operator in front of a unary expression.\<close>

definition prefix_node :: "knot \<Rightarrow> ASTNodeType \<Rightarrow> string option \<Rightarrow> ASTNode parser" where
  "prefix_node K ty v = before advance (seq (k_unary K) (\<lambda>e. node_over ty v [e]))"

definition unary_op_kind :: "TokenType \<Rightarrow> bool" where
  "unary_op_kind k \<longleftrightarrow> k = TOKEN_PLUS \<or> k = TOKEN_MINUS \<or> k = TOKEN_BANG \<or> k = TOKEN_TILDE"

definition parse_unary :: "knot \<Rightarrow> ASTNode parser" where
  "parse_unary K = on_token (\<lambda>t.
     let k = tk_type t in
     if k = TOKEN_SIZEOF then parse_sizeof K
     else if k = TOKEN_INCREMENT \<or> k = TOKEN_DECREMENT then prefix_node K AST_PREFIX_INC_DEC (Some (tk_value t))
     else if k = TOKEN_AMPERSAND then
       before advance (seq (k_unary K) (\<lambda>e.
         if \<not> addressable (node_type e) then parser_error ''address-of requires an lvalue''
         else node_over AST_ADDR_OF None [e]))
     else if k = TOKEN_STAR then prefix_node K AST_DEREF None
     else if unary_op_kind k then prefix_node K AST_UNARY_OP (Some (tk_value t))
     else parse_postfix K)"

definition cast_tail :: "knot \<Rightarrow> ASTNode parser" where
  "cast_tail K =
     seq (parse_type_name K) (\<lambda>t. before (parser_expect TOKEN_RPAREN) (on_kind (\<lambda>k.
       if k = TOKEN_LBRACE then literal_suffixes K t
       else seq (the_type t) (\<lambda>ct.
         if ty_kind ct = TYPE_ARRAY \<and> ty_length ct = 0 then parser_error ''array type in cast has omitted size''
         else seq (k_cast K) (\<lambda>e. seq (the_type t) (\<lambda>ct. seq (parser_node AST_CAST None) (\<lambda>n.
           ret (add_children [e] (with_info (\<lambda>i. i\<lparr>decl_type := ty_kind ct, is_unsigned := \<not> ty_signed ct,
             full_type := (if ty_kind ct = TYPE_POINTER then Some t else None)\<rparr>) n)))))))))"

definition parse_cast :: "knot \<Rightarrow> ASTNode parser" where
  "parse_cast K = on_kind (\<lambda>k.
     if k = TOKEN_LPAREN then
       seq save (\<lambda>s. before advance (on_state (\<lambda>p.
         if type_name_start p then cast_tail K else before (restore s) (parse_unary K))))
     else parse_unary K)"

subsection \<open>Binary operators, the conditional operator\<close>

text \<open>The ten levels have the same form: operands of the level above, joined from the left.\<close>

fun binary_loop :: "nat \<Rightarrow> (TokenType \<Rightarrow> bool) \<Rightarrow> ASTNode parser \<Rightarrow> ASTNode \<Rightarrow> ASTNode parser" where
  "binary_loop 0 ops sub left = raise OutOfFuel"
| "binary_loop (Suc n) ops sub left = on_token (\<lambda>t.
     if ops (tk_type t) then
       before advance (seq sub (\<lambda>right.
         seq (node_over AST_BINARY_OP (Some (tk_value t)) [left, right]) (binary_loop n ops sub)))
     else ret left)"

definition binary_level :: "knot \<Rightarrow> (TokenType \<Rightarrow> bool) \<Rightarrow> ASTNode parser \<Rightarrow> ASTNode parser" where
  "binary_level K ops sub = seq sub (binary_loop (k_loop K) ops sub)"

definition parse_term :: "knot \<Rightarrow> ASTNode parser" where
  "parse_term K = binary_level K (\<lambda>k. k = TOKEN_STAR \<or> k = TOKEN_SLASH \<or> k = TOKEN_PERCENT) (parse_cast K)"

definition parse_additive :: "knot \<Rightarrow> ASTNode parser" where
  "parse_additive K = binary_level K (\<lambda>k. k = TOKEN_PLUS \<or> k = TOKEN_MINUS) (parse_term K)"

definition parse_shift :: "knot \<Rightarrow> ASTNode parser" where
  "parse_shift K = binary_level K (\<lambda>k. k = TOKEN_LEFT_SHIFT \<or> k = TOKEN_RIGHT_SHIFT) (parse_additive K)"

definition parse_relational :: "knot \<Rightarrow> ASTNode parser" where
  "parse_relational K =
     binary_level K (\<lambda>k. k = TOKEN_LT \<or> k = TOKEN_LE \<or> k = TOKEN_GT \<or> k = TOKEN_GE) (parse_shift K)"

definition parse_equality :: "knot \<Rightarrow> ASTNode parser" where
  "parse_equality K = binary_level K (\<lambda>k. k = TOKEN_EQ \<or> k = TOKEN_NE) (parse_relational K)"

definition parse_bitwise_and :: "knot \<Rightarrow> ASTNode parser" where
  "parse_bitwise_and K = binary_level K (\<lambda>k. k = TOKEN_AMPERSAND) (parse_equality K)"

definition parse_bitwise_xor :: "knot \<Rightarrow> ASTNode parser" where
  "parse_bitwise_xor K = binary_level K (\<lambda>k. k = TOKEN_CARET) (parse_bitwise_and K)"

definition parse_bitwise_or :: "knot \<Rightarrow> ASTNode parser" where
  "parse_bitwise_or K = binary_level K (\<lambda>k. k = TOKEN_PIPE) (parse_bitwise_xor K)"

definition parse_logical_and :: "knot \<Rightarrow> ASTNode parser" where
  "parse_logical_and K = binary_level K (\<lambda>k. k = TOKEN_AND_AND) (parse_bitwise_or K)"

definition parse_logical_or :: "knot \<Rightarrow> ASTNode parser" where
  "parse_logical_or K = binary_level K (\<lambda>k. k = TOKEN_OR_OR) (parse_logical_and K)"

definition parse_conditional :: "knot \<Rightarrow> ASTNode parser" where
  "parse_conditional K =
     seq (parse_logical_or K) (\<lambda>cond. on_kind (\<lambda>k.
       if k \<noteq> TOKEN_QUESTION then ret cond
       else before advance (on_kind (\<lambda>k.
         if k = TOKEN_COLON then parser_error (''expected expression after '' @ quoted ''?'')
         else seq (k_expression K) (\<lambda>true_expr. on_kind (\<lambda>k.
           if k \<noteq> TOKEN_COLON then parser_error (''expected '' @ quoted '':'' @ '' in conditional expression'')
           else before advance (seq (k_conditional K) (\<lambda>false_expr.
             node_over AST_CONDITIONAL_EXPR None [cond, true_expr, false_expr]))))))))"

subsection \<open>Assignment and comma expressions\<close>

text \<open>The operator of an assignment; \<^verbatim>\<open>=\<close> has none.\<close>

definition assign_kind :: "TokenType \<Rightarrow> bool" where
  "assign_kind k \<longleftrightarrow> k = TOKEN_ASSIGN \<or> k = TOKEN_PLUS_ASSIGN \<or> k = TOKEN_MINUS_ASSIGN \<or> k = TOKEN_STAR_ASSIGN \<or>
     k = TOKEN_SLASH_ASSIGN \<or> k = TOKEN_PERCENT_ASSIGN \<or> k = TOKEN_LEFT_SHIFT_ASSIGN \<or> k = TOKEN_RIGHT_SHIFT_ASSIGN \<or>
     k = TOKEN_AMP_ASSIGN \<or> k = TOKEN_CARET_ASSIGN \<or> k = TOKEN_PIPE_ASSIGN"

definition bin_op :: "TokenType \<Rightarrow> string" where
  "bin_op k = (case k of
     TOKEN_PLUS_ASSIGN \<Rightarrow> ''+'' | TOKEN_MINUS_ASSIGN \<Rightarrow> ''-'' | TOKEN_STAR_ASSIGN \<Rightarrow> ''*'' | TOKEN_SLASH_ASSIGN \<Rightarrow> ''/''
   | TOKEN_PERCENT_ASSIGN \<Rightarrow> ''%'' | TOKEN_LEFT_SHIFT_ASSIGN \<Rightarrow> ''<<'' | TOKEN_RIGHT_SHIFT_ASSIGN \<Rightarrow> ''>>''
   | TOKEN_AMP_ASSIGN \<Rightarrow> ''&'' | TOKEN_CARET_ASSIGN \<Rightarrow> ''^'' | _ \<Rightarrow> ''|'')"

definition assignable :: "ASTNodeType \<Rightarrow> bool" where
  "assignable ty \<longleftrightarrow> ty = AST_DEREF \<or> ty = AST_VAR_REF \<or> ty = AST_ARRAY_INDEX \<or> ty = AST_MEMBER_ACCESS \<or>
     ty = AST_ARROW_ACCESS"

text \<open>The operator is the current token; \<open>name\<close> is the identifier in front of it.\<close>

definition assign_name :: "knot \<Rightarrow> string \<Rightarrow> ASTNode parser" where
  "assign_name K name = on_kind (\<lambda>op.
     before advance (seq (k_assignment K) (\<lambda>rhs.
       seq (parser_node AST_ASSIGNMENT (Some name)) (\<lambda>assign.
         if op \<noteq> TOKEN_ASSIGN then
           seq (parser_node AST_VAR_REF (Some name)) (\<lambda>var_ref.
             seq (node_over AST_BINARY_OP (Some (bin_op op)) [var_ref, rhs]) (\<lambda>binop. ret (add_children [binop] assign)))
         else ret (add_children [rhs] assign)))))"

definition assign_lvalue :: "knot \<Rightarrow> ASTNode \<Rightarrow> ASTNode parser" where
  "assign_lvalue K lhs = on_kind (\<lambda>op.
     if \<not> assignable (node_type lhs) then parser_error ''assignment target must be an lvalue''
     else before advance (seq (k_assignment K) (\<lambda>rhs.
       seq (node_over AST_ASSIGNMENT None [lhs]) (\<lambda>assign.
         if op \<noteq> TOKEN_ASSIGN then
           seq (node_over AST_BINARY_OP (Some (bin_op op)) [ast_clone lhs, rhs]) (\<lambda>binop. ret (add_children [binop] assign))
         else ret (add_children [rhs] assign)))))"

definition general_assignment :: "knot \<Rightarrow> ASTNode parser" where
  "general_assignment K =
     seq (parse_conditional K) (\<lambda>lhs. on_kind (\<lambda>k. if assign_kind k then assign_lvalue K lhs else ret lhs))"

definition parse_assignment_expression :: "knot \<Rightarrow> ASTNode parser" where
  "parse_assignment_expression K = on_token (\<lambda>t.
     if tk_type t = TOKEN_IDENTIFIER then
       seq save (\<lambda>s. before advance (on_kind (\<lambda>k.
         if assign_kind k then assign_name K (tk_value t) else before (restore s) (general_assignment K))))
     else general_assignment K)"

fun comma_loop :: "nat \<Rightarrow> knot \<Rightarrow> ASTNode \<Rightarrow> ASTNode parser" where
  "comma_loop 0 K left = raise OutOfFuel"
| "comma_loop (Suc n) K left = on_kind (\<lambda>k.
     if k = TOKEN_COMMA then
       before advance (seq (parse_assignment_expression K) (\<lambda>right.
         seq (node_over AST_COMMA_EXPR (Some '','') [left, right]) (comma_loop n K)))
     else ret left)"

definition parse_expression :: "knot \<Rightarrow> ASTNode parser" where
  "parse_expression K = seq (parse_assignment_expression K) (comma_loop (k_loop K) K)"

subsection \<open>Initializers\<close>

definition designated_init :: "knot \<Rightarrow> string option \<Rightarrow> int \<Rightarrow> ASTNode parser" where
  "designated_init K name index = on_kind (\<lambda>k.
     if k = TOKEN_DOT \<or> k = TOKEN_LBRACKET then parser_error ''chained designators not yet supported''
     else before (parser_expect TOKEN_ASSIGN)
       (seq (parser_node AST_DESIGNATED_INIT name) (\<lambda>n.
         seq (k_initializer K) (\<lambda>e. ret (add_children [e] (with_info (\<lambda>i. i\<lparr>byte_length := index\<rparr>) n))))))"

definition parse_initializer_element :: "knot \<Rightarrow> ASTNode parser" where
  "parse_initializer_element K = on_kind (\<lambda>k.
     if k = TOKEN_DOT then
       before advance (seq (parser_expect TOKEN_IDENTIFIER) (\<lambda>t. designated_init K (Some (tk_value t)) 0))
     else if k = TOKEN_LBRACKET then
       before advance (seq (k_const_expr K ''array designator index'') (\<lambda>index.
         if index < 0 then parser_error ''array designator index must be non-negative''
         else before (parser_expect TOKEN_RBRACKET) (designated_init K None (wrap32 index))))
     else k_initializer K)"

fun more_elements :: "nat \<Rightarrow> knot \<Rightarrow> ASTNode \<Rightarrow> ASTNode parser" where
  "more_elements 0 K l = raise OutOfFuel"
| "more_elements (Suc n) K l = on_kind (\<lambda>k.
     if k = TOKEN_COMMA then
       before advance (on_kind (\<lambda>k.
         if k = TOKEN_RBRACE then ret l
         else seq (parse_initializer_element K) (\<lambda>e. more_elements n K (ast_add_child l (Some e)))))
     else ret l)"

definition parse_initializer :: "knot \<Rightarrow> ASTNode parser" where
  "parse_initializer K = on_kind (\<lambda>k.
     if k \<noteq> TOKEN_LBRACE then parse_assignment_expression K
     else before advance (seq (parser_node AST_INITIALIZER_LIST None) (\<lambda>l. on_kind (\<lambda>k.
       if k = TOKEN_RBRACE then before advance (ret l)
       else seq (parse_initializer_element K) (\<lambda>e.
         seq (more_elements (k_loop K) K (ast_add_child l (Some e))) (\<lambda>l'. on_kind (\<lambda>k.
           if k \<noteq> TOKEN_RBRACE then parser_error (''expected '' @ quoted ''}'' @ '' to close initializer list'')
           else before advance (ret l'))))))))"

subsection \<open>Tying the knot\<close>

text \<open>
  \<open>knot_at L n\<close> holds the functions with at most \<open>n\<close> calls of a cycle inside each other and at
  most \<open>L\<close> rounds of a loop. \<open>Parser_Term\<close> shows how large both must be.
\<close>

definition no_depth :: "nat \<Rightarrow> knot" where
  "no_depth L = \<lparr>k_loop = L, k_type_specifier = raise OutOfFuel, k_const_expr = (\<lambda>_. raise OutOfFuel),
     k_const_unary = (\<lambda>_. raise OutOfFuel), k_const_conditional = (\<lambda>_. raise OutOfFuel),
     k_expression = raise OutOfFuel, k_assignment = raise OutOfFuel, k_conditional = raise OutOfFuel,
     k_cast = raise OutOfFuel, k_unary = raise OutOfFuel, k_initializer = raise OutOfFuel\<rparr>"

definition tie :: "knot \<Rightarrow> knot" where
  "tie K = \<lparr>k_loop = k_loop K, k_type_specifier = parse_type_specifier K, k_const_expr = eval_const_expr K,
     k_const_unary = eval_const_unary K, k_const_conditional = eval_const_conditional K,
     k_expression = parse_expression K, k_assignment = parse_assignment_expression K,
     k_conditional = parse_conditional K, k_cast = parse_cast K, k_unary = parse_unary K,
     k_initializer = parse_initializer K\<rparr>"

fun knot_at :: "nat \<Rightarrow> nat \<Rightarrow> knot" where
  "knot_at L 0 = no_depth L"
| "knot_at L (Suc n) = tie (knot_at L n)"

end
