(* ===== verification/Parser_Stmt.thy ===== *)
theory Parser_Stmt
  imports Parser_Expr
begin

section \<open>Statements: \<^verbatim>\<open>src/parser.c\<close> lines 2866 to 3020 and 3428 to 3954\<close>

text \<open>
  A statement contains statements: the definitions take the parser for the inner ones as an
  argument \<open>S\<close>, and \<open>parse_statement\<close> closes the recursion with a bound on the depth, which every
  level pays with a token. Errors leave \<open>loop_depth\<close>, \<open>switch_depth\<close> and the scope as they are.
\<close>

subsection \<open>Blocks and control flow\<close>

fun block_loop :: "nat \<Rightarrow> ASTNode parser \<Rightarrow> ASTNode \<Rightarrow> ASTNode parser" where
  "block_loop 0 S block = raise OutOfFuel"
| "block_loop (Suc n) S block = on_kind (\<lambda>k.
     if k \<noteq> TOKEN_RBRACE then seq S (\<lambda>s. block_loop n S (ast_add_child block (Some s))) else ret block)"

definition parse_block :: "knot \<Rightarrow> ASTNode parser \<Rightarrow> ASTNode parser" where
  "parse_block K S =
     before (parser_expect TOKEN_LBRACE) (seq (parser_node AST_BLOCK None) (\<lambda>n.
       before (modify enter_scope) (seq (block_loop (k_loop K) S n) (\<lambda>block.
         before (modify parser_leave_scope) (before (parser_expect TOKEN_RBRACE) (ret block))))))"

definition parse_if_statement :: "knot \<Rightarrow> ASTNode parser \<Rightarrow> ASTNode parser" where
  "parse_if_statement K S =
     before (parser_expect TOKEN_IF) (before (parser_expect TOKEN_LPAREN)
       (seq (parse_expression K) (\<lambda>condition. before (parser_expect TOKEN_RPAREN)
         (seq S (\<lambda>then_stmt. seq (node_over AST_IF_STATEMENT None [condition, then_stmt]) (\<lambda>if_node. on_kind (\<lambda>k.
           if k = TOKEN_ELSE then before advance (seq S (\<lambda>else_stmt. ret (add_children [else_stmt] if_node)))
           else ret if_node)))))))"

definition in_loop :: "ASTNode parser \<Rightarrow> ASTNode parser" where
  "in_loop S =
     before (modify (\<lambda>p. p\<lparr>loop_depth := wrap32 (loop_depth p + 1)\<rparr>)) (seq S (\<lambda>body.
       before (modify (\<lambda>p. p\<lparr>loop_depth := wrap32 (loop_depth p - 1)\<rparr>)) (ret body)))"

definition parse_while_statement :: "knot \<Rightarrow> ASTNode parser \<Rightarrow> ASTNode parser" where
  "parse_while_statement K S =
     before (parser_expect TOKEN_WHILE) (before (parser_expect TOKEN_LPAREN)
       (seq (parse_expression K) (\<lambda>condition. before (parser_expect TOKEN_RPAREN)
         (seq (in_loop S) (\<lambda>body. node_over AST_WHILE_STATEMENT None [condition, body])))))"

definition parse_do_while_statement :: "knot \<Rightarrow> ASTNode parser \<Rightarrow> ASTNode parser" where
  "parse_do_while_statement K S =
     before (parser_expect TOKEN_DO) (seq (in_loop S) (\<lambda>body.
       before (parser_expect TOKEN_WHILE) (before (parser_expect TOKEN_LPAREN)
         (seq (parse_expression K) (\<lambda>condition. before (parser_expect TOKEN_RPAREN) (before (parser_expect TOKEN_SEMICOLON)
           (node_over AST_DO_WHILE_STATEMENT None [body, condition])))))))"

text \<open>The tokens that start a type specifier of a declaration.\<close>

definition specifier_kind :: "TokenType \<Rightarrow> bool" where
  "specifier_kind k \<longleftrightarrow> k = TOKEN_VOID \<or> k = TOKEN_FLOAT \<or> k = TOKEN_DOUBLE \<or> k = TOKEN_BOOL \<or> k = TOKEN_CHAR \<or>
     k = TOKEN_SHORT \<or> k = TOKEN_INT \<or> k = TOKEN_LONG \<or> k = TOKEN_SIGNED \<or> k = TOKEN_UNSIGNED \<or> k = TOKEN_ENUM \<or>
     k = TOKEN_STRUCT \<or> k = TOKEN_UNION"

definition specifier_start :: "Parser \<Rightarrow> bool" where
  "specifier_start p \<longleftrightarrow> specifier_kind (tk_type (current p)) \<or> typedef_here p"

definition decl_start :: "Parser \<Rightarrow> bool" where
  "decl_start p \<longleftrightarrow> tk_type (current p) = TOKEN_CONST \<or> tk_type (current p) = TOKEN_VOLATILE \<or> specifier_start p"

text \<open>An expression that may be missing in front of a token.\<close>

definition opt_expression :: "knot \<Rightarrow> TokenType \<Rightarrow> ASTNode option parser" where
  "opt_expression K stop = on_kind (\<lambda>k.
     if k \<noteq> stop then seq (parse_expression K) (\<lambda>e. ret (Some e)) else ret None)"

text \<open>The first clause of a \<^verbatim>\<open>for\<close>: a declaration reads its own semicolon.\<close>

definition for_init :: "knot \<Rightarrow> ASTNode parser \<Rightarrow> ASTNode option parser" where
  "for_init K S = on_state (\<lambda>p.
     if decl_start p then seq S (\<lambda>s. ret (Some s))
     else seq (opt_expression K TOKEN_SEMICOLON) (\<lambda>e. before (parser_expect TOKEN_SEMICOLON) (ret e)))"

definition parse_for_statement :: "knot \<Rightarrow> ASTNode parser \<Rightarrow> ASTNode parser" where
  "parse_for_statement K S =
     before (parser_expect TOKEN_FOR) (before (parser_expect TOKEN_LPAREN)
       (seq (parser_node AST_FOR_STATEMENT None) (\<lambda>for_node. before (modify enter_scope)
         (seq (for_init K S) (\<lambda>init.
           seq (opt_expression K TOKEN_SEMICOLON) (\<lambda>condition. before (parser_expect TOKEN_SEMICOLON)
             (seq (opt_expression K TOKEN_RPAREN) (\<lambda>upd. before (parser_expect TOKEN_RPAREN)
               (seq (in_loop S) (\<lambda>body. before (modify parser_leave_scope)
                 (ret (ast_add_child (ast_add_child (ast_add_child (ast_add_child for_node init) condition) upd)
                    (Some body)))))))))))))"

definition parse_switch_statement :: "knot \<Rightarrow> ASTNode parser \<Rightarrow> ASTNode parser" where
  "parse_switch_statement K S =
     before (parser_expect TOKEN_SWITCH) (before (parser_expect TOKEN_LPAREN)
       (seq (parse_expression K) (\<lambda>expr. before (parser_expect TOKEN_RPAREN)
         (seq (node_over AST_SWITCH_STATEMENT None [expr]) (\<lambda>n.
           before (modify (\<lambda>p. p\<lparr>switch_depth := wrap32 (switch_depth p + 1)\<rparr>)) (seq S (\<lambda>body.
             before (modify (\<lambda>p. p\<lparr>switch_depth := wrap32 (switch_depth p - 1)\<rparr>)) (ret (add_children [body] n)))))))))"

subsection \<open>Skipping\<close>

text \<open>
  Two loops skip balanced brackets, from behind the first opening one: \<open>skip_through\<close> consumes
  the closing one, \<open>skip_to\<close> stops in front of it.
\<close>

definition depth_after :: "TokenType \<Rightarrow> TokenType \<Rightarrow> TokenType \<Rightarrow> nat \<Rightarrow> nat" where
  "depth_after opening closing k depth = (if k = opening then depth + 1 else if k = closing then depth - 1 else depth)"

fun skip_through :: "nat \<Rightarrow> TokenType \<Rightarrow> TokenType \<Rightarrow> nat \<Rightarrow> unit parser" where
  "skip_through 0 opening closing depth = raise OutOfFuel"
| "skip_through (Suc n) opening closing depth = on_kind (\<lambda>k.
     if depth > 0 \<and> k \<noteq> TOKEN_EOF
     then before advance (skip_through n opening closing (depth_after opening closing k depth))
     else ret ())"

fun skip_to :: "nat \<Rightarrow> nat \<Rightarrow> unit parser" where
  "skip_to 0 depth = raise OutOfFuel"
| "skip_to (Suc n) depth = on_kind (\<lambda>k.
     if depth > 0 \<and> k \<noteq> TOKEN_EOF
     then let depth' = depth_after TOKEN_LPAREN TOKEN_RPAREN k depth
          in if depth' > 0 then before advance (skip_to n depth') else ret ()
     else ret ())"

text \<open>Inline assembly is consumed and dropped.\<close>

definition asm_statement :: "knot \<Rightarrow> ASTNode parser" where
  "asm_statement K =
     before advance (before (accept TOKEN_VOLATILE)
       (before (on_kind (\<lambda>k.
         if k = TOKEN_LPAREN then before advance (before (skip_to (k_loop K) 1) (before (accept TOKEN_RPAREN) (ret ())))
         else ret ()))
       (before (parser_expect TOKEN_SEMICOLON) (parser_node AST_BLOCK None))))"

subsection \<open>Typedefs\<close>

definition typedef_node :: "string \<Rightarrow> TypeKind \<Rightarrow> type_ptr option \<Rightarrow> ASTNode parser" where
  "typedef_node name kind ft = before (parser_register_typedef name kind ft) (parser_node AST_TYPEDEF_DECL (Some name))"

text \<open>Behind the declarator; the code has this text twice, for blocks and for the file scope.\<close>

definition typedef_tail :: "knot \<Rightarrow> type_ptr \<Rightarrow> TypeKind \<Rightarrow> ParsedDeclarator \<Rightarrow> ASTNode parser" where
  "typedef_tail K base base_kind d =
     (if is_function d then
        before (parser_expect TOKEN_LPAREN) (before (skip_through (k_loop K) TOKEN_LPAREN TOKEN_RPAREN 1)
          (before (parser_expect TOKEN_SEMICOLON) (typedef_node (d_name d) TYPE_LONG None)))
      else if is_array d then
        (if \<not> has_size d then parser_error ''array typedef requires explicit size''
         else before (parser_expect TOKEN_SEMICOLON)
           (seq (build_array_type_from_dims base (array_dims d)) (\<lambda>t. typedef_node (d_name d) TYPE_ARRAY (Some t))))
      else on_kind (\<lambda>k.
        if k = TOKEN_ASSIGN then parser_error ''typedef declaration cannot have an initializer''
        else before (parser_expect TOKEN_SEMICOLON)
          (if is_func_pointer d then seq (build_fp_type base d) (\<lambda>t. typedef_node (d_name d) TYPE_POINTER (Some t))
           else seq (add_pointers (pointer_count d) base) (\<lambda>ft. seq (the_type base) (\<lambda>bt.
             let kind = (if pointer_count d > 0 \<or> base_kind = TYPE_POINTER then TYPE_POINTER else base_kind)
             in typedef_node (d_name d) kind
                  (if kind = TYPE_POINTER \<or> kind = TYPE_STRUCT \<or> kind = TYPE_UNION then Some ft
                   else if \<not> ty_signed bt then Some base else None))))))"

definition block_typedef :: "knot \<Rightarrow> ASTNode parser" where
  "block_typedef K =
     before advance (seq (parse_type_specifier K) (\<lambda>(base, base_kind).
       seq (parse_declarator K) (typedef_tail K base base_kind)))"

subsection \<open>Declarations in blocks\<close>

definition block_function :: "knot \<Rightarrow> TypeKind \<Rightarrow> ParsedDeclarator \<Rightarrow> ASTNode parser" where
  "block_function K base_kind d =
     before (parser_expect TOKEN_LPAREN) (before (skip_to (k_loop K) 1)
       (before (parser_expect TOKEN_RPAREN) (before (parser_expect TOKEN_SEMICOLON) (on_state (\<lambda>p.
         before (if parser_find_function p (d_name d) = None
                 then parser_register_function (d_name d) (- 1) False base_kind None SC_NONE False False else ret ())
           (parser_node AST_TYPEDEF_DECL (Some [])))))))"

definition local_func_pointer :: "knot \<Rightarrow> type_ptr \<Rightarrow> ParsedDeclarator \<Rightarrow> ASTNode parser" where
  "local_func_pointer K base d =
     seq (parser_node AST_DECLARATION (Some (d_name d))) (\<lambda>n. seq (build_fp_type base d) (\<lambda>t.
       let decl = with_info (\<lambda>i. i\<lparr>decl_type := TYPE_POINTER, full_type := Some t\<rparr>) n in
       seq (on_kind (\<lambda>k.
         if k = TOKEN_ASSIGN then before advance (seq (parse_assignment_expression K) (\<lambda>e. ret (add_children [e] decl)))
         else ret decl))
       (\<lambda>decl'. before (parser_expect TOKEN_SEMICOLON) (ret decl'))))"

text \<open>A string literal as the initializer of an array of \<open>length\<close> elements, if it has a size.\<close>

definition string_fits :: "bool \<Rightarrow> int \<Rightarrow> ASTNode \<Rightarrow> (int \<times> ASTNode option) parser" where
  "string_fits sized len str_init =
     (let needed = wrap32 (byte_length (info str_init) + 1) in
      if sized then
        (if len < needed then parser_error ''array too small for string literal initializer'' else ret (len, Some str_init))
      else ret (needed, Some str_init))"

definition local_array_string :: "bool \<Rightarrow> int \<Rightarrow> type_ptr \<Rightarrow> (int \<times> ASTNode option) parser" where
  "local_array_string sized len ft =
     seq (the_type ft) (\<lambda>t.
       if ty_kind t \<noteq> TYPE_CHAR then parser_error ''string initializer only supported for char arrays''
       else on_token (\<lambda>str_tok. before advance
         (seq (parser_node AST_STRING_LITERAL None) (\<lambda>n. seq (string_node (tk_value str_tok) n) (string_fits sized len)))))"

text \<open>The length of a local array and its initializer.\<close>

definition local_array_init :: "knot \<Rightarrow> ParsedDeclarator \<Rightarrow> type_ptr \<Rightarrow> (int \<times> ASTNode option) parser" where
  "local_array_init K d ft = on_kind (\<lambda>k.
     if k = TOKEN_ASSIGN then before advance (on_kind (\<lambda>k.
       if k = TOKEN_LBRACE then
         seq (parse_initializer K) (\<lambda>l.
           ret (if has_size d then array_length d else int (child_count l), Some l))
       else if k = TOKEN_STRING_LITERAL then local_array_string (has_size d) (array_length d) ft
       else if \<not> has_size d then parser_error ''omitted array size requires string literal initializer''
       else parser_error ''array initializer must be a brace-enclosed list or string literal''))
     else if \<not> has_size d then parser_error ''array size required unless initialized from string literal''
     else ret (array_length d, None))"

text \<open>The length replaces the first dimension, which is the second one if the first was left open.\<close>

definition with_first_dim :: "int \<Rightarrow> int list \<Rightarrow> int list" where
  "with_first_dim len dims = len # tl dims"

definition array_decl :: "ParsedDeclarator \<Rightarrow> type_ptr \<Rightarrow> ASTNode \<Rightarrow> int \<times> ASTNode option \<Rightarrow> ASTNode parser" where
  "array_decl d ft decl r =
     (case r of (len, init) \<Rightarrow>
        seq (build_array_type_from_dims ft (with_first_dim len (array_dims d))) (\<lambda>t.
          let decl' = with_info (\<lambda>i. i\<lparr>decl_type := TYPE_ARRAY, full_type := Some t\<rparr>) decl;
              decl'' = (case init of None \<Rightarrow> decl' | Some e \<Rightarrow> add_children [e] decl')
          in before (parser_expect TOKEN_SEMICOLON) (ret decl'')))"

text \<open>The type of a variable that is not an array declarator.\<close>

definition object_info :: "nat \<Rightarrow> TypeKind \<Rightarrow> CType \<Rightarrow> type_ptr \<Rightarrow> ast_info \<Rightarrow> ast_info" where
  "object_info stars base_kind bt ft i =
     (if stars > 0 \<or> base_kind = TYPE_POINTER then i\<lparr>decl_type := TYPE_POINTER, full_type := Some ft\<rparr>
      else if base_kind = TYPE_ARRAY \<or> base_kind = TYPE_STRUCT \<or> base_kind = TYPE_UNION
      then i\<lparr>decl_type := base_kind, full_type := Some ft\<rparr>
      else i\<lparr>decl_type := base_kind, is_unsigned := \<not> ty_signed bt\<rparr>)"

definition local_init :: "knot \<Rightarrow> ASTNode \<Rightarrow> ASTNode parser" where
  "local_init K decl = on_kind (\<lambda>k.
     if k = TOKEN_ASSIGN then
       before advance (seq (parse_initializer K) (\<lambda>e.
         if node_type e = AST_INITIALIZER_LIST \<and> decl_type (info decl) \<noteq> TYPE_STRUCT \<and>
            decl_type (info decl) \<noteq> TYPE_UNION \<and> decl_type (info decl) \<noteq> TYPE_ARRAY
         then parser_error ''brace initializer not valid for scalar type''
         else ret (add_children [e] decl)))
     else ret decl)"

text \<open>The further declarators of a list: no \<^verbatim>\<open>volatile\<close> base, no braces, no arrays.\<close>

definition next_local :: "knot \<Rightarrow> bool \<Rightarrow> type_ptr \<Rightarrow> TypeKind \<Rightarrow> ASTNode parser" where
  "next_local K c base base_kind =
     before advance (seq (parse_declarator K) (\<lambda>d.
       if is_array d then parser_error ''array declarator in multi-declarator list not supported''
       else seq (member_pointer_type base d c False) (\<lambda>ft. seq (parser_node AST_DECLARATION (Some (d_name d))) (\<lambda>n.
         seq (the_type base) (\<lambda>bt.
           let decl = with_info (\<lambda>i. object_info (pointer_count d) base_kind bt ft
                 (i\<lparr>is_const := c \<and> pointer_count d = 0 \<or> pointer_is_const d\<rparr>)) n
           in on_kind (\<lambda>k.
             if k = TOKEN_ASSIGN then
               before advance (seq (parse_assignment_expression K) (\<lambda>e. ret (add_children [e] decl)))
             else ret decl))))))"

fun local_list :: "nat \<Rightarrow> ASTNode parser \<Rightarrow> ASTNode \<Rightarrow> ASTNode parser" where
  "local_list 0 item l = raise OutOfFuel"
| "local_list (Suc n) item l = on_kind (\<lambda>k.
     if k = TOKEN_COMMA then seq item (\<lambda>decl. local_list n item (ast_add_child l (Some decl)))
     else before (parser_expect TOKEN_SEMICOLON) (ret l))"

text \<open>The end of a declaration: a semicolon, or a list of declarators, which \<open>item\<close> reads from its comma on.\<close>

definition finish_decl :: "knot \<Rightarrow> ASTNode parser \<Rightarrow> ASTNode \<Rightarrow> ASTNode parser" where
  "finish_decl K item decl = on_kind (\<lambda>k.
     if k \<noteq> TOKEN_COMMA then before (parser_expect TOKEN_SEMICOLON) (ret decl)
     else seq (node_over AST_DECL_LIST None [decl]) (local_list (k_loop K) item))"

definition local_variable :: "knot \<Rightarrow> bool \<Rightarrow> bool \<Rightarrow> type_ptr \<Rightarrow> TypeKind \<Rightarrow> ParsedDeclarator \<Rightarrow> ASTNode parser" where
  "local_variable K c v base base_kind d =
     seq (member_pointer_type base d c v) (\<lambda>ft. seq (parser_node AST_DECLARATION (Some (d_name d))) (\<lambda>n.
       let decl = with_info (\<lambda>i. i\<lparr>is_const := c \<and> pointer_count d = 0 \<and> \<not> is_array d \<or> pointer_is_const d\<rparr>) n in
       if is_array d then seq (local_array_init K d ft) (array_decl d ft decl)
       else seq (the_type base) (\<lambda>bt.
         seq (local_init K (with_info (object_info (pointer_count d) base_kind bt ft) decl))
           (finish_decl K (next_local K c base base_kind)))))"

definition void_object :: "TypeKind \<Rightarrow> ParsedDeclarator \<Rightarrow> bool" where
  "void_object base_kind d \<longleftrightarrow> base_kind = TYPE_VOID \<and> pointer_count d = 0 \<and> \<not> is_func_pointer d \<and> \<not> is_array d"

definition local_declaration :: "knot \<Rightarrow> bool \<Rightarrow> bool \<Rightarrow> ASTNode parser" where
  "local_declaration K c v =
     seq (parse_type_specifier K) (\<lambda>(base, base_kind). on_kind (\<lambda>k.
       if k = TOKEN_SEMICOLON then before advance (parser_node AST_TYPEDEF_DECL (Some []))
       else seq (parse_declarator K) (\<lambda>d.
         if is_function d then block_function K base_kind d
         else if void_object base_kind d
         then parser_error (''cannot declare variable '' @ quoted (d_name d) @ '' of type void'')
         else if is_func_pointer d then local_func_pointer K base d
         else local_variable K c v base base_kind d)))"

subsection \<open>Statements\<close>

text \<open>
  A storage class in front of a declaration is entered in the declarations that come out. The
  list of a declaration has no null children.
\<close>

definition mark_decl :: "StorageClass \<Rightarrow> ASTNode \<Rightarrow> ASTNode" where
  "mark_decl sc n = (if node_type n = AST_DECLARATION then with_info (\<lambda>i. i\<lparr>storage_class := sc\<rparr>) n else n)"

definition mark_storage :: "StorageClass \<Rightarrow> ASTNode \<Rightarrow> ASTNode" where
  "mark_storage sc n =
     (if node_type n = AST_DECLARATION then mark_decl sc n
      else if node_type n = AST_DECL_LIST then Node (info n) (map (map_option (mark_decl sc)) (children n))
      else n)"

definition case_label :: "knot \<Rightarrow> ASTNode parser \<Rightarrow> ASTNode parser" where
  "case_label K S = on_state (\<lambda>p.
     if switch_depth p = 0 then parser_error (quoted ''case'' @ '' label outside of switch'')
     else before advance (seq (eval_const_expr K ''case label expression'') (\<lambda>v. before (parser_expect TOKEN_COLON)
       (seq (parser_node AST_CASE_SECTION None) (\<lambda>n. before (store_bytes (show_int v))
         (seq (parser_node AST_INT_LITERAL (Some (show_int v))) (\<lambda>e. seq S (\<lambda>s. ret (add_children [e, s] n)))))))))"

definition default_label :: "ASTNode parser \<Rightarrow> ASTNode parser" where
  "default_label S = on_state (\<lambda>p.
     if switch_depth p = 0 then parser_error (quoted ''default'' @ '' label outside of switch'')
     else before advance (before (parser_expect TOKEN_COLON)
       (seq (parser_node AST_DEFAULT_SECTION None) (\<lambda>n. seq S (\<lambda>s. ret (add_children [s] n))))))"

definition return_statement :: "knot \<Rightarrow> ASTNode parser" where
  "return_statement K =
     before advance (seq (parser_node AST_RETURN_STATEMENT None) (\<lambda>n. on_kind (\<lambda>k.
       if k = TOKEN_SEMICOLON then before advance (ret n)
       else seq (parse_expression K) (\<lambda>e. before (parser_expect TOKEN_SEMICOLON) (ret (add_children [e] n))))))"

definition jump_statement :: "bool \<Rightarrow> string \<Rightarrow> ASTNodeType \<Rightarrow> ASTNode parser" where
  "jump_statement allowed msg ty =
     (if \<not> allowed then parser_error msg
      else before advance (before (parser_expect TOKEN_SEMICOLON) (parser_node ty None)))"

definition expression_statement :: "knot \<Rightarrow> ASTNode parser" where
  "expression_statement K =
     seq (parse_expression K) (\<lambda>e. before (parser_expect TOKEN_SEMICOLON) (node_over AST_EXPRESSION_STMT None [e]))"

text \<open>The statements that are neither labels nor declarations.\<close>

definition plain_statement :: "knot \<Rightarrow> ASTNode parser \<Rightarrow> ASTNode parser" where
  "plain_statement K S = on_state (\<lambda>p.
     let k = tk_type (current p) in
     if k = TOKEN_RETURN then return_statement K
     else if k = TOKEN_IF then parse_if_statement K S
     else if k = TOKEN_WHILE then parse_while_statement K S
     else if k = TOKEN_DO then parse_do_while_statement K S
     else if k = TOKEN_FOR then parse_for_statement K S
     else if k = TOKEN_SWITCH then parse_switch_statement K S
     else if k = TOKEN_CASE then case_label K S
     else if k = TOKEN_DEFAULT then default_label S
     else if k = TOKEN_LBRACE then parse_block K S
     else if k = TOKEN_BREAK then
       jump_statement (loop_depth p \<noteq> 0 \<or> switch_depth p \<noteq> 0) ''break outside of loop or switch'' AST_BREAK_STATEMENT
     else if k = TOKEN_CONTINUE then jump_statement (loop_depth p \<noteq> 0) ''continue outside of loop'' AST_CONTINUE_STATEMENT
     else if k = TOKEN_GOTO then
       before advance (seq (parser_expect TOKEN_IDENTIFIER) (\<lambda>name. before (parser_expect TOKEN_SEMICOLON)
         (parser_node AST_GOTO_STATEMENT (Some (tk_value name)))))
     else expression_statement K)"

definition declaration_or_statement :: "knot \<Rightarrow> ASTNode parser \<Rightarrow> ASTNode parser" where
  "declaration_or_statement K S =
     seq leading_qualifier (\<lambda>(c, v). on_state (\<lambda>p.
       if c \<or> v \<or> specifier_start p then local_declaration K c v else plain_statement K S))"

definition label_or_statement :: "knot \<Rightarrow> ASTNode parser \<Rightarrow> ASTNode parser" where
  "label_or_statement K S = on_token (\<lambda>t.
     if tk_type t = TOKEN_IDENTIFIER then
       seq save (\<lambda>s. before advance (on_kind (\<lambda>k.
         if k = TOKEN_COLON then
           before advance (seq (parser_node AST_LABEL_STATEMENT (Some (tk_value t))) (\<lambda>n.
             seq S (\<lambda>st. ret (add_children [st] n))))
         else before (restore s) (declaration_or_statement K S))))
     else declaration_or_statement K S)"

definition asm_keyword :: "Token \<Rightarrow> bool" where
  "asm_keyword t \<longleftrightarrow> tk_type t = TOKEN_IDENTIFIER \<and>
     (tk_value t = ''__asm__'' \<or> tk_value t = ''__asm'' \<or> tk_value t = ''asm'')"

definition statement_with :: "knot \<Rightarrow> ASTNode parser \<Rightarrow> ASTNode parser" where
  "statement_with K S = on_token (\<lambda>t.
     let k = tk_type t in
     if k = TOKEN_EXTERN then parser_error ''storage class specifier not allowed in block scope''
     else if k = TOKEN_AUTO then before advance S
     else if k = TOKEN_REGISTER then before advance (seq S (\<lambda>inner. ret (mark_storage SC_REGISTER inner)))
     else if k = TOKEN_STATIC then before advance (seq S (\<lambda>inner. ret (mark_storage SC_STATIC inner)))
     else if k = TOKEN_TYPEDEF then block_typedef K
     else if asm_keyword t then asm_statement K
     else label_or_statement K S)"

fun parse_statement :: "nat \<Rightarrow> knot \<Rightarrow> ASTNode parser" where
  "parse_statement 0 K = raise OutOfFuel"
| "parse_statement (Suc n) K = statement_with K (parse_statement n K)"

end
