(* ===== verification/Parser_Decl.thy ===== *)
theory Parser_Decl
  imports Parser_Stmt Util
begin

section \<open>File scope: \<^verbatim>\<open>src/parser.c\<close> lines 3354 to 3415 and 3956 to 4878\<close>

text \<open>
  Parameters, declaration specifiers, external declarations and the translation unit with its
  recovery from errors. Floating point is the arithmetic of the machine and \<^verbatim>\<open>strtod\<close> and
  \<^verbatim>\<open>printf\<close> of the C library on it: the record \<open>fp_ops\<close> holds these operations as a parameter.
\<close>

subsection \<open>Constant expressions in floating point\<close>

record 'd fp_ops =
  fp_strtod :: "string \<Rightarrow> 'd"
  fp_of_long :: "int \<Rightarrow> 'd"
  fp_neg :: "'d \<Rightarrow> 'd"
  fp_add :: "'d \<Rightarrow> 'd \<Rightarrow> 'd"
  fp_sub :: "'d \<Rightarrow> 'd \<Rightarrow> 'd"
  fp_mul :: "'d \<Rightarrow> 'd \<Rightarrow> 'd"
  fp_div :: "'d \<Rightarrow> 'd \<Rightarrow> 'd"
  fp_show_float :: "'d \<Rightarrow> string"
  fp_show_double :: "'d \<Rightarrow> string"

definition eval_fp_primary :: "'d fp_ops \<Rightarrow> 'd parser \<Rightarrow> string \<Rightarrow> 'd parser" where
  "eval_fp_primary F expr context = on_token (\<lambda>t.
     let k = tk_type t in
     if k = TOKEN_FLOAT_LITERAL \<or> k = TOKEN_DOUBLE_LITERAL then before advance (ret (fp_strtod F (tk_value t)))
     else if k = TOKEN_INT_LITERAL then before advance (ret (fp_of_long F (long_value t)))
     else if k = TOKEN_LPAREN then before advance (seq expr (\<lambda>v. before (parser_expect TOKEN_RPAREN) (ret v)))
     else parser_error (context @ '' requires a floating-point constant expression''))"

definition eval_fp_unary :: "'d fp_ops \<Rightarrow> 'd parser \<Rightarrow> 'd parser \<Rightarrow> string \<Rightarrow> 'd parser" where
  "eval_fp_unary F unary expr context = on_kind (\<lambda>k.
     if k = TOKEN_MINUS then before advance (seq unary (\<lambda>v. ret (fp_neg F v)))
     else if k = TOKEN_PLUS then before advance unary
     else eval_fp_primary F expr context)"

fun fp_loop :: "nat \<Rightarrow> (TokenType \<Rightarrow> ('d \<Rightarrow> 'd \<Rightarrow> 'd) option) \<Rightarrow> 'd parser \<Rightarrow> 'd \<Rightarrow> 'd parser" where
  "fp_loop 0 ops sub v = raise OutOfFuel"
| "fp_loop (Suc n) ops sub v = on_kind (\<lambda>k.
     case ops k of None \<Rightarrow> ret v | Some f \<Rightarrow> before advance (seq sub (\<lambda>r. fp_loop n ops sub (f v r))))"

definition eval_fp_mult :: "'d fp_ops \<Rightarrow> nat \<Rightarrow> 'd parser \<Rightarrow> 'd parser" where
  "eval_fp_mult F L unary =
     seq unary (fp_loop L (\<lambda>k. if k = TOKEN_STAR then Some (fp_mul F) else if k = TOKEN_SLASH then Some (fp_div F) else None) unary)"

definition fp_sum :: "'d fp_ops \<Rightarrow> nat \<Rightarrow> 'd parser \<Rightarrow> 'd parser" where
  "fp_sum F L mult =
     seq mult (fp_loop L (\<lambda>k. if k = TOKEN_PLUS then Some (fp_add F) else if k = TOKEN_MINUS then Some (fp_sub F) else None) mult)"

text \<open>The recursion of unary and of parenthesized expressions, with a bound on its depth.\<close>

fun fp_unary_at :: "'d fp_ops \<Rightarrow> nat \<Rightarrow> nat \<Rightarrow> string \<Rightarrow> 'd parser" where
  "fp_unary_at F L 0 context = raise OutOfFuel"
| "fp_unary_at F L (Suc n) context =
     eval_fp_unary F (fp_unary_at F L n context) (fp_sum F L (eval_fp_mult F L (fp_unary_at F L n context))) context"

definition eval_fp_const_expr :: "'d fp_ops \<Rightarrow> nat \<Rightarrow> nat \<Rightarrow> string \<Rightarrow> 'd parser" where
  "eval_fp_const_expr F L n context = fp_sum F L (eval_fp_mult F L (fp_unary_at F L n context))"

subsection \<open>Parameters\<close>

definition pointer_param :: "string \<Rightarrow> type_ptr \<Rightarrow> ASTNode parser" where
  "pointer_param name t =
     seq (parser_node AST_PARAM (Some name)) (\<lambda>n.
       ret (with_info (\<lambda>i. i\<lparr>decl_type := TYPE_POINTER, full_type := Some t\<rparr>) n))"

text \<open>An array type as the type of a parameter becomes a pointer to its elements.\<close>

definition element_pointer :: "type_ptr \<Rightarrow> type_ptr parser" where
  "element_pointer base = seq (the_type base) (\<lambda>bt.
     case ty_base bt of Some b \<Rightarrow> new_type (\<lambda>h. type_pointer h b) | None \<Rightarrow> raise Fault)"

definition unnamed_param :: "type_ptr \<Rightarrow> TypeKind \<Rightarrow> ASTNode parser" where
  "unnamed_param base base_kind =
     (if base_kind = TYPE_ARRAY then seq (element_pointer base) (pointer_param [])
      else seq (parser_node AST_PARAM (Some [])) (\<lambda>n. ret (with_info (\<lambda>i. i\<lparr>decl_type := base_kind\<rparr>) n)))"

fun leading_stars :: "nat \<Rightarrow> nat \<Rightarrow> nat \<Rightarrow> nat parser" where
  "leading_stars fuel 0 stars = raise OutOfFuel"
| "leading_stars fuel (Suc n) stars = on_kind (\<lambda>k.
     if k = TOKEN_STAR then before advance (before (skip_kinds fuel qualifier_kind) (leading_stars fuel n (stars + 1)))
     else ret stars)"

fun skip_dims :: "nat \<Rightarrow> nat \<Rightarrow> unit parser" where
  "skip_dims fuel 0 = raise OutOfFuel"
| "skip_dims fuel (Suc n) = on_kind (\<lambda>k.
     if k = TOKEN_LBRACKET then before advance (before (skip_through fuel TOKEN_LBRACKET TOKEN_RBRACKET 1) (skip_dims fuel n))
     else ret ())"

definition function_param :: "knot \<Rightarrow> type_ptr \<Rightarrow> ASTNode \<Rightarrow> ASTNode parser" where
  "function_param K base n =
     before (parser_expect TOKEN_LPAREN) (before (skip_to (k_loop K) 1) (before (parser_expect TOKEN_RPAREN)
       (seq (new_type (\<lambda>h. type_function h base 0 [])) (\<lambda>f. seq (new_type (\<lambda>h. type_pointer h f)) (\<lambda>t.
         ret (with_info (\<lambda>i. i\<lparr>decl_type := TYPE_POINTER, full_type := Some t\<rparr>) n))))))"

text \<open>A parameter with a name; the type of its pointers, arrays and plain objects.\<close>

definition object_param :: "type_ptr \<Rightarrow> TypeKind \<Rightarrow> ParsedDeclarator \<Rightarrow> ASTNode \<Rightarrow> ASTNode parser" where
  "object_param base base_kind d n =
     (let pointer = (\<lambda>t. with_info (\<lambda>i. i\<lparr>decl_type := TYPE_POINTER, full_type := Some t\<rparr>) n) in
      if pointer_count d > 0 then seq (add_pointers (pointer_count d) base) (\<lambda>t. ret (pointer t))
      else if is_array d then seq (new_type (\<lambda>h. type_pointer h base)) (\<lambda>t. ret (pointer t))
      else if base_kind = TYPE_ARRAY then seq (element_pointer base) (\<lambda>t. ret (pointer t))
      else seq (the_type base) (\<lambda>bt. ret (with_info (\<lambda>i. i\<lparr>decl_type := base_kind, is_unsigned := \<not> ty_signed bt,
        full_type := (if base_kind = TYPE_STRUCT \<or> base_kind = TYPE_UNION then Some base else full_type i)\<rparr>) n)))"

definition named_param :: "knot \<Rightarrow> type_ptr \<Rightarrow> TypeKind \<Rightarrow> nat \<Rightarrow> ASTNode parser" where
  "named_param K base base_kind stars =
     seq (parse_declarator K) (\<lambda>d0.
       let d = d0\<lparr>pointer_count := pointer_count d0 + stars\<rparr> in
       seq (parser_node AST_PARAM (Some (d_name d))) (\<lambda>n.
         let pointer = (\<lambda>t. ret (with_info (\<lambda>i. i\<lparr>decl_type := TYPE_POINTER, full_type := Some t\<rparr>) n)) in
         if is_func_pointer d then seq (build_fp_type base d) pointer
         else if is_function d then function_param K base n
         else if is_ptr_to_array d then
           seq (new_type (\<lambda>h. type_array h base (ptr_to_array_length d))) (\<lambda>a.
             seq (add_pointers (if pointer_count d > 0 then pointer_count d else 1) a) pointer)
         else object_param base base_kind d n))"

definition parse_parameter_declaration :: "knot \<Rightarrow> ASTNode parser" where
  "parse_parameter_declaration K =
     before (on_kind (\<lambda>k. if qualifier_kind k \<or> k = TOKEN_REGISTER then advance else ret ()))
       (seq (parse_type_specifier K) (\<lambda>(base, base_kind). before (skip_kinds (k_loop K) qualifier_kind) (on_kind (\<lambda>k.
         if k = TOKEN_COMMA \<or> k = TOKEN_RPAREN then unnamed_param base base_kind
         else seq (leading_stars (k_loop K) (k_loop K) 0) (\<lambda>stars. on_kind (\<lambda>k.
           if stars > 0 \<and> (k = TOKEN_COMMA \<or> k = TOKEN_RPAREN) then seq (add_pointers stars base) (pointer_param [])
           else if stars = 0 \<and> k = TOKEN_LBRACKET then
             before (skip_dims (k_loop K) (k_loop K))
               (seq (new_type (\<lambda>h. type_pointer h base)) (pointer_param []))
           else named_param K base base_kind stars))))))"

definition same_param :: "string \<Rightarrow> ASTNode option \<Rightarrow> bool" where
  "same_param name c = (case c of None \<Rightarrow> False | Some n \<Rightarrow> node_type n = AST_PARAM \<and> nvalue (info n) = Some name)"

fun more_params :: "nat \<Rightarrow> knot \<Rightarrow> ASTNode \<Rightarrow> ASTNode parser" where
  "more_params 0 K func = raise OutOfFuel"
| "more_params (Suc n) K func = on_kind (\<lambda>k.
     if k = TOKEN_COMMA then before advance (on_kind (\<lambda>k.
       if k = TOKEN_ELLIPSIS then before advance (ret (with_info (\<lambda>i. i\<lparr>is_variadic := True\<rparr>) func))
       else seq (parse_parameter_declaration K) (\<lambda>param.
         let name = (case nvalue (info param) of None \<Rightarrow> [] | Some s \<Rightarrow> s) in
         if name \<noteq> [] \<and> list_ex (same_param name) (children func)
         then parser_error (''duplicate parameter '' @ quoted name @ '' in function ''
                @ quoted (case nvalue (info func) of None \<Rightarrow> [] | Some s \<Rightarrow> s))
         else more_params n K (ast_add_child func (Some param)))))
     else ret func)"

definition parse_parameter_list :: "knot \<Rightarrow> ASTNode \<Rightarrow> ASTNode parser" where
  "parse_parameter_list K func =
     seq (parse_parameter_declaration K) (\<lambda>param. more_params (k_loop K) K (ast_add_child func (Some param)))"

subsection \<open>Declaration specifiers\<close>

record DeclSpecResult =
  ds_sc :: StorageClass
  ds_type :: "(type_ptr \<times> TypeKind) option"
  ds_const :: bool
  ds_volatile :: bool

definition storage_of :: "TokenType \<Rightarrow> StorageClass" where
  "storage_of k = (if k = TOKEN_EXTERN then SC_EXTERN else if k = TOKEN_STATIC then SC_STATIC else SC_TYPEDEF)"

text \<open>\<open>has_sc\<close> and \<open>has_type\<close> of the code: a storage class, or the type, is already there.\<close>

fun specifier_loop :: "nat \<Rightarrow> knot \<Rightarrow> bool \<Rightarrow> DeclSpecResult \<Rightarrow> DeclSpecResult parser" where
  "specifier_loop 0 K has_sc r = raise OutOfFuel"
| "specifier_loop (Suc n) K has_sc r = on_state (\<lambda>p.
     let k = tk_type (current p) in
     if k = TOKEN_CONST then before advance (specifier_loop n K has_sc (r\<lparr>ds_const := True\<rparr>))
     else if k = TOKEN_VOLATILE then before advance (specifier_loop n K has_sc (r\<lparr>ds_volatile := True\<rparr>))
     else if k = TOKEN_INLINE then before advance (specifier_loop n K has_sc r)
     else if k = TOKEN_AUTO then parser_error ''auto is not valid at file scope''
     else if k = TOKEN_REGISTER then parser_error ''register is not valid at file scope''
     else if k = TOKEN_EXTERN \<or> k = TOKEN_STATIC \<or> k = TOKEN_TYPEDEF then
       (if has_sc then parser_error ''multiple storage class specifiers are not allowed''
        else before advance (specifier_loop n K True (r\<lparr>ds_sc := storage_of k\<rparr>)))
     else if specifier_kind k \<or> ds_type r = None \<and> typedef_here p then
       (if ds_type r \<noteq> None then parser_error ''multiple type specifiers are not allowed''
        else seq (parse_type_specifier K) (\<lambda>t. specifier_loop n K has_sc (r\<lparr>ds_type := Some t\<rparr>)))
     else ret r)"

definition parse_declaration_specifiers :: "knot \<Rightarrow> (StorageClass \<times> type_ptr \<times> TypeKind \<times> bool \<times> bool) parser" where
  "parse_declaration_specifiers K =
     seq (specifier_loop (k_loop K) K False \<lparr>ds_sc = SC_NONE, ds_type = None, ds_const = False, ds_volatile = False\<rparr>) (\<lambda>r.
       case ds_type r of
         None \<Rightarrow> parser_error ''expected type specifier''
       | Some (base, base_kind) \<Rightarrow> ret (ds_sc r, base, base_kind, ds_const r, ds_volatile r))"

subsection \<open>Functions\<close>

text \<open>The body of a function, with its name and the variadic flag in force.\<close>

definition function_body :: "knot \<Rightarrow> ASTNode parser \<Rightarrow> bool \<Rightarrow> string \<Rightarrow> ASTNode parser" where
  "function_body K S variadic name =
     seq (gets (\<lambda>p. (current_func_is_variadic p, current_func_name p))) (\<lambda>(sv, sfn).
       before (modify (\<lambda>p. p\<lparr>current_func_is_variadic := variadic, current_func_name := Some name\<rparr>))
         (seq (parse_block K S) (\<lambda>body.
           before (modify (\<lambda>p. p\<lparr>current_func_is_variadic := sv, current_func_name := sfn\<rparr>)) (ret body))))"

definition unnamed_error :: "string \<Rightarrow> 'a parser" where
  "unnamed_error name = parser_error (''unnamed parameter in definition of '' @ quoted name)"

definition own_param :: "type_ptr \<Rightarrow> ASTNode \<Rightarrow> ASTNode parser" where
  "own_param t func =
     seq (parser_node AST_PARAM (Some [])) (\<lambda>n. seq (the_type t) (\<lambda>ct.
       ret (add_children [with_info (\<lambda>i. i\<lparr>decl_type := ty_kind ct,
         full_type := (if ty_kind ct = TYPE_POINTER then Some t else None)\<rparr>) n] func)))"

fun own_params :: "type_ptr list \<Rightarrow> ASTNode \<Rightarrow> ASTNode parser" where
  "own_params [] func = ret func"
| "own_params (t # ts) func = seq (own_param t func) (own_params ts)"

definition end_function :: "knot \<Rightarrow> ASTNode parser \<Rightarrow> bool \<Rightarrow> bool \<Rightarrow> string \<Rightarrow> ASTNode \<Rightarrow> ASTNode parser" where
  "end_function K S is_definition variadic name func =
     (if is_definition then seq (function_body K S variadic name) (\<lambda>body. ret (add_children [body] func))
      else before (parser_expect TOKEN_SEMICOLON) (ret func))"

text \<open>A function that returns a pointer to a function; its own parameters are never named.\<close>

definition fp_function :: "knot \<Rightarrow> ASTNode parser \<Rightarrow> StorageClass \<Rightarrow> type_ptr \<Rightarrow> ParsedDeclarator \<Rightarrow> ASTNode parser" where
  "fp_function K S storage base d =
     seq (build_fp_type base d) (\<lambda>t. seq (parser_node AST_FUNCTION_DECL (Some (d_name d))) (\<lambda>n.
       seq (own_params (own_param_types d) (with_info (\<lambda>i. i\<lparr>decl_type := TYPE_POINTER, full_type := Some t,
              storage_class := storage, is_no_prototype := own_is_no_prototype d\<rparr>) n)) (\<lambda>func. on_state (\<lambda>p.
         let is_definition = (tk_type (current p) = TOKEN_LBRACE);
             kinds = map (\<lambda>t. ty_kind (types p ! t)) (own_param_types d)
         in if is_definition \<and> own_param_types d \<noteq> [] then unnamed_error (d_name d)
            else before (parser_register_function (d_name d) (int (length kinds)) is_definition TYPE_POINTER (Some kinds)
                storage False (own_is_no_prototype d))
              (end_function K S is_definition False (d_name d) func)))))"

text \<open>The parameters between the parentheses, and whether there was no prototype.\<close>

definition function_params :: "knot \<Rightarrow> ASTNode \<Rightarrow> (ASTNode \<times> bool) parser" where
  "function_params K func =
     before (parser_expect TOKEN_LPAREN) (seq void_only (\<lambda>is_void. on_kind (\<lambda>k.
       seq (if is_void then ret (func, False)
            else if k \<noteq> TOKEN_RPAREN then seq (parse_parameter_list K func) (\<lambda>f. ret (f, False))
            else ret (func, True))
         (\<lambda>r. before (parser_expect TOKEN_RPAREN) (ret r)))))"

definition unnamed_child :: "ASTNode option \<Rightarrow> bool" where
  "unnamed_child c = (case c of None \<Rightarrow> False | Some n \<Rightarrow> node_type n = AST_PARAM \<and> nvalue (info n) = Some [])"

definition child_kinds :: "ASTNode \<Rightarrow> TypeKind list" where
  "child_kinds func = map (\<lambda>c. case c of None \<Rightarrow> TYPE_VOID | Some n \<Rightarrow> decl_type (info n)) (children func)"

definition register_and_end :: "knot \<Rightarrow> ASTNode parser \<Rightarrow> StorageClass \<Rightarrow> TypeKind \<Rightarrow> string \<Rightarrow> bool \<Rightarrow> ASTNode \<Rightarrow> ASTNode parser" where
  "register_and_end K S storage return_kind name no_prototype func = on_kind (\<lambda>k.
     if k = TOKEN_ASSIGN then parser_error ''function declaration cannot have an initializer''
     else let is_definition = (k = TOKEN_LBRACE); variadic = is_variadic (info func); n = child_count func in
       if is_definition \<and> \<not> variadic \<and> list_ex unnamed_child (children func) then unnamed_error name
       else if n > FUNC_MAX_PARAMS
       then parser_error (''function '' @ quoted name @ '' has '' @ show_nat n @ '' parameters; max supported is ''
              @ show_nat FUNC_MAX_PARAMS)
       else before (parser_register_function name (int n) is_definition return_kind (Some (child_kinds func)) storage
             variadic no_prototype)
         (end_function K S is_definition variadic name func))"

definition function_declaration ::
  "knot \<Rightarrow> ASTNode parser \<Rightarrow> StorageClass \<Rightarrow> type_ptr \<Rightarrow> TypeKind \<Rightarrow> ParsedDeclarator \<Rightarrow> ASTNode parser" where
  "function_declaration K S storage base base_kind d =
     (let return_kind = (if pointer_count d > 0 then TYPE_POINTER else base_kind) in
      seq (add_pointers (pointer_count d) base) (\<lambda>ft. seq (parser_node AST_FUNCTION_DECL (Some (d_name d))) (\<lambda>n.
        seq (function_params K (with_info (\<lambda>i. i\<lparr>decl_type := return_kind, storage_class := storage,
               full_type := (if return_kind = TYPE_POINTER then Some ft
                  else if return_kind = TYPE_STRUCT \<or> return_kind = TYPE_UNION then Some base else None)\<rparr>) n)) (\<lambda>(func, no_prototype).
          register_and_end K S storage return_kind (d_name d) no_prototype
            (with_info (\<lambda>i. i\<lparr>is_no_prototype := no_prototype\<rparr>) func)))))"

subsection \<open>Objects\<close>

definition reject_function :: "string \<Rightarrow> unit parser" where
  "reject_function name = on_state (\<lambda>p.
     if parser_find_function p name \<noteq> None then parser_error (quoted name @ '' redeclared as a different kind of symbol'')
     else ret ())"

definition reject_extern_init :: "StorageClass \<Rightarrow> string \<Rightarrow> unit parser" where
  "reject_extern_init storage name = on_kind (\<lambda>k.
     if storage = SC_EXTERN \<and> k = TOKEN_ASSIGN
     then parser_error (''extern declaration of '' @ quoted name @ '' cannot have an initializer'') else ret ())"

text \<open>The kinds of a signature against those of a function type.\<close>

definition signature_matches :: "type_heap \<Rightarrow> type_ptr \<Rightarrow> FuncSig \<Rightarrow> bool" where
  "signature_matches h ft sig \<longleftrightarrow>
     (case ty_base (h ! ft) of None \<Rightarrow> False | Some r \<Rightarrow> ty_kind (h ! r) = sig_return_type sig) \<and>
     ty_param_count (h ! ft) = sig_param_count sig \<and>
     list_all (\<lambda>i. case param_slot (h ! ft) i of None \<Rightarrow> False | Some t \<Rightarrow> ty_kind (h ! t) = sig_param_types sig ! i)
       [0..<nat (sig_param_count sig)]"

definition fp_initializer :: "string \<Rightarrow> type_ptr \<Rightarrow> ASTNode \<Rightarrow> ASTNode parser" where
  "fp_initializer name fp_type decl =
     before advance (on_token (\<lambda>t.
       if tk_type t \<noteq> TOKEN_IDENTIFIER then parser_error ''function pointer initializer must be a function name''
       else before advance (on_state (\<lambda>p.
         case (parser_find_function p (tk_value t), ty_base (types p ! fp_type)) of
           (None, _) \<Rightarrow> parser_error (quoted (tk_value t) @ '' is not a declared function'')
         | (Some i, None) \<Rightarrow> raise Fault
         | (Some i, Some ft) \<Rightarrow>
             if \<not> signature_matches (types p) ft (funcs p ! i)
             then parser_error (''incompatible function pointer type in initializer of '' @ quoted name)
             else seq (parser_node AST_VAR_REF (Some (tk_value t))) (\<lambda>e. ret (add_children [e] decl))))))"

definition fp_object :: "StorageClass \<Rightarrow> type_ptr \<Rightarrow> ParsedDeclarator \<Rightarrow> ASTNode parser" where
  "fp_object storage base d =
     seq (build_fp_type base d) (\<lambda>t. before (reject_extern_init storage (d_name d)) (before (reject_function (d_name d))
       (on_kind (\<lambda>k. before (parser_register_global (d_name d) TYPE_POINTER storage (Some t) (k = TOKEN_ASSIGN))
         (seq (parser_node AST_DECLARATION (Some (d_name d))) (\<lambda>n.
           let decl = with_info (\<lambda>i. i\<lparr>storage_class := storage, decl_type := TYPE_POINTER, full_type := Some t\<rparr>) n in
           seq (if k = TOKEN_ASSIGN then fp_initializer (d_name d) t decl else ret decl) (\<lambda>decl'.
             before (parser_expect TOKEN_SEMICOLON) (ret decl'))))))))"

definition file_array_string :: "bool \<Rightarrow> int \<Rightarrow> type_ptr \<Rightarrow> (int \<times> ASTNode option) parser" where
  "file_array_string sized len ft =
     seq (the_type ft) (\<lambda>t.
       if ty_kind t \<noteq> TYPE_CHAR then parser_error ''string initializer only supported for char arrays''
       else on_token (\<lambda>str_tok. before advance (seq (parser_node AST_STRING_LITERAL None) (\<lambda>n.
         string_fits sized len (with_info (\<lambda>i. i\<lparr>nvalue := Some (tk_value str_tok),
           byte_length := wrap32 (int (length (tk_value str_tok)))\<rparr>) n)))))"

definition file_array_init :: "knot \<Rightarrow> StorageClass \<Rightarrow> ParsedDeclarator \<Rightarrow> type_ptr \<Rightarrow> (int \<times> ASTNode option) parser" where
  "file_array_init K storage d ft = on_kind (\<lambda>k.
     if k = TOKEN_ASSIGN then before advance (on_kind (\<lambda>k.
       if k = TOKEN_LBRACE then
         seq (parse_initializer K) (\<lambda>l.
           if \<not> has_size d then ret (int (child_count l), Some l)
           else if int (child_count l) > array_length d
           then parser_error (''too many initializers for array '' @ quoted (d_name d))
           else ret (array_length d, Some l))
       else if k = TOKEN_STRING_LITERAL then file_array_string (has_size d) (array_length d) ft
       else parser_error ''array initializer must be a brace-enclosed list or string literal''))
     else if \<not> has_size d then
       (if storage \<noteq> SC_EXTERN then parser_error (''array size required for file-scope declaration '' @ quoted (d_name d))
        else ret (0, None))
     else ret (array_length d, None))"

definition int_initializer :: "int \<Rightarrow> ASTNode parser" where
  "int_initializer v = before (store_bytes (show_int v)) (parser_node AST_INT_LITERAL (Some (show_int v)))"

text \<open>The digits of a floating constant, with a fraction added where there is none, in a buffer of 64 bytes.\<close>

definition fp_text :: "'d fp_ops \<Rightarrow> TypeKind \<Rightarrow> 'd \<Rightarrow> string" where
  "fp_text F kind v =
     (let s = take 63 (if kind = TYPE_FLOAT then fp_show_float F v else fp_show_double F v)
      in if CHR ''.'' \<notin> set s \<and> CHR ''e'' \<notin> set s \<and> CHR ''E'' \<notin> set s then s @ take (63 - length s) ''.0'' else s)"

definition null_cast :: "ASTNode \<Rightarrow> bool" where
  "null_cast e \<longleftrightarrow> node_type e = AST_CAST \<and> decl_type (info e) = TYPE_POINTER \<and>
     (case children e of Some c # _ \<Rightarrow> node_type c = AST_INT_LITERAL \<and> nvalue (info c) = Some ''0'' | _ \<Rightarrow> False)"

definition constant_initializer :: "ASTNode \<Rightarrow> bool" where
  "constant_initializer e \<longleftrightarrow> node_type e = AST_INT_LITERAL \<or> node_type e = AST_CHAR_LITERAL \<or>
     node_type e = AST_STRING_LITERAL \<or> node_type e = AST_VAR_REF \<or> node_type e = AST_ADDR_OF \<or>
     node_type e = AST_COMPOUND_LITERAL \<or> null_cast e"

definition non_constant :: "string \<Rightarrow> 'a parser" where
  "non_constant name = parser_error (''non-constant initializer for global '' @ quoted name)"

text \<open>The initializer of an object that is not an array declarator, by the kind of the object.\<close>

definition file_init :: "'d fp_ops \<Rightarrow> nat \<Rightarrow> knot \<Rightarrow> TypeKind \<Rightarrow> string \<Rightarrow> ASTNode parser" where
  "file_init F D K kind name = on_kind (\<lambda>k.
     if k = TOKEN_LBRACE then
       (if kind \<noteq> TYPE_STRUCT \<and> kind \<noteq> TYPE_UNION
        then parser_error (''brace initializer not valid for non-struct global '' @ quoted name)
        else parse_initializer K)
     else if kind = TYPE_FLOAT \<or> kind = TYPE_DOUBLE then
       seq (eval_fp_const_expr F (k_loop K) D ''float/double global initializer'') (\<lambda>v.
         before (store_bytes (fp_text F kind v)) (parser_node AST_FLOAT_LITERAL (Some (fp_text F kind v))))
     else if kind \<noteq> TYPE_POINTER \<and> kind \<noteq> TYPE_STRUCT \<and> kind \<noteq> TYPE_UNION then
       seq (eval_const_expr K ''file-scope initializer'') int_initializer
     else seq (parse_assignment_expression K) (\<lambda>e.
       if node_type e = AST_COMPOUND_LITERAL \<and> kind \<noteq> TYPE_POINTER
       then parser_error ''compound literals at file scope are not yet supported''
       else if \<not> constant_initializer e then non_constant name
       else ret e))"

text \<open>The further objects of a list; arrays, structures and unions among them get no type.\<close>

definition next_object :: "knot \<Rightarrow> StorageClass \<Rightarrow> bool \<Rightarrow> bool \<Rightarrow> type_ptr \<Rightarrow> TypeKind \<Rightarrow> ASTNode parser" where
  "next_object K storage c v base base_kind =
     before advance (seq (parse_declarator K) (\<lambda>d.
       if is_array d \<or> is_function d then parser_error ''invalid declarator in file-scope list''
       else before (reject_function (d_name d))
        (let kind = (if pointer_count d > 0 \<or> base_kind = TYPE_POINTER then TYPE_POINTER else base_kind) in
         seq (member_pointer_type base d c v) (\<lambda>ft. on_kind (\<lambda>k.
           before (parser_register_global (d_name d) kind storage (if kind = TYPE_POINTER then Some ft else None) (k = TOKEN_ASSIGN))
            (seq (parser_node AST_DECLARATION (Some (d_name d))) (\<lambda>n. seq (the_type base) (\<lambda>bt.
              let decl = with_info (\<lambda>i. i\<lparr>storage_class := storage, is_const := c \<and> pointer_count d = 0 \<or> pointer_is_const d,
                    decl_type := kind, full_type := (if kind = TYPE_POINTER then Some ft else None),
                    is_unsigned := kind \<noteq> TYPE_POINTER \<and> \<not> ty_signed bt\<rparr>) n
              in if k = TOKEN_ASSIGN then
                before advance
                  (seq (if kind \<noteq> TYPE_POINTER then seq (eval_const_expr K ''file-scope initializer'') int_initializer
                        else seq (parse_primary K) (\<lambda>e.
                          if node_type e \<noteq> AST_INT_LITERAL \<and> node_type e \<noteq> AST_CHAR_LITERAL then non_constant (d_name d)
                          else ret e))
                    (\<lambda>e. ret (add_children [e] decl)))
                else ret decl))))))))"

definition object_declaration ::
  "'d fp_ops \<Rightarrow> nat \<Rightarrow> knot \<Rightarrow> StorageClass \<Rightarrow> bool \<Rightarrow> bool \<Rightarrow> type_ptr \<Rightarrow> TypeKind \<Rightarrow> ParsedDeclarator \<Rightarrow> ASTNode parser" where
  "object_declaration F D K storage c v base base_kind d = on_kind (\<lambda>k.
     if k = TOKEN_LBRACE then parser_error (quoted (d_name d) @ '' is not a function declarator'')
     else if void_object base_kind d then parser_error (''cannot declare variable '' @ quoted (d_name d) @ '' of type void'')
     else seq (member_pointer_type base d c v) (\<lambda>ft.
       before (reject_extern_init storage (d_name d)) (before (reject_function (d_name d))
        (let kind = (if is_array d then TYPE_ARRAY
                     else if pointer_count d > 0 \<or> base_kind = TYPE_POINTER then TYPE_POINTER else base_kind)
         in before (parser_register_global (d_name d) kind storage
               (if kind = TYPE_POINTER \<or> kind = TYPE_STRUCT \<or> kind = TYPE_UNION then Some ft else None) (k = TOKEN_ASSIGN))
          (seq (parser_node AST_DECLARATION (Some (d_name d))) (\<lambda>n.
            let decl = with_info (\<lambda>i. i\<lparr>storage_class := storage,
                  is_const := c \<and> pointer_count d = 0 \<and> \<not> is_array d \<or> pointer_is_const d\<rparr>) n
            in if is_array d then seq (file_array_init K storage d ft) (array_decl d ft decl)
               else seq (the_type base) (\<lambda>bt.
                 let decl' = with_info (object_info (pointer_count d) base_kind bt ft) decl
                 in seq (if k = TOKEN_ASSIGN
                         then before advance (seq (file_init F D K (decl_type (info decl')) (d_name d)) (\<lambda>e. ret (add_children [e] decl')))
                         else ret decl')
                      (finish_decl K (next_object K storage c v base base_kind)))))))))"

subsection \<open>External declarations and the translation unit\<close>

definition external_declarator ::
  "'d fp_ops \<Rightarrow> nat \<Rightarrow> knot \<Rightarrow> StorageClass \<Rightarrow> bool \<Rightarrow> bool \<Rightarrow> type_ptr \<Rightarrow> TypeKind \<Rightarrow> ParsedDeclarator \<Rightarrow> ASTNode parser" where
  "external_declarator F D K storage c v base base_kind d =
     (if is_func_returning_fp d then fp_function K (parse_statement D K) storage base d
      else if storage = SC_TYPEDEF then typedef_tail K base base_kind d
      else if is_func_pointer d then fp_object storage base d
      else if \<not> is_function d then object_declaration F D K storage c v base base_kind d
      else function_declaration K (parse_statement D K) storage base base_kind d)"

definition parse_external_declaration :: "'d fp_ops \<Rightarrow> nat \<Rightarrow> knot \<Rightarrow> ASTNode parser" where
  "parse_external_declaration F D K =
     seq (parse_declaration_specifiers K) (\<lambda>(storage, base, base_kind, c, v). on_kind (\<lambda>k.
       if k = TOKEN_SEMICOLON then before advance (parser_node AST_TYPEDEF_DECL (Some []))
       else seq (parse_declarator K) (external_declarator F D K storage c v base base_kind)))"

text \<open>After an error: forward behind the next semicolon outside of braces, or behind a closing brace that ends a block.\<close>

fun sync_loop :: "nat \<Rightarrow> nat \<Rightarrow> unit parser" where
  "sync_loop 0 depth = raise OutOfFuel"
| "sync_loop (Suc n) depth = on_kind (\<lambda>k.
     if k = TOKEN_EOF then ret ()
     else if k = TOKEN_LBRACE then before advance (sync_loop n (depth + 1))
     else if k = TOKEN_RBRACE then
       (if depth - 1 = 0 then advance else before advance (sync_loop n (depth - 1)))
     else if k = TOKEN_SEMICOLON \<and> depth = 0 then advance
     else before advance (sync_loop n depth))"

definition parser_sync :: "nat \<Rightarrow> unit parser" where
  "parser_sync L = sync_loop L 0"

text \<open>
  How the parser ends: with a tree, by \<^verbatim>\<open>exit\<close> in the report of an error, or by what is not a
  diagnostic of the parser. The end of the process in the lexer is the case \<^const>\<open>Lexical\<close> of the last.
\<close>

datatype outcome = Parsed ASTNode Parser error_state | Ended error_state | Broken parse_error

definition report :: "string \<Rightarrow> Parser \<Rightarrow> error_state \<Rightarrow> control" where
  "report msg p st = compile_error_at (token_path p) (int (tk_line (current p))) (int (tk_col (current p))) msg st"

fun unit_loop :: "nat \<Rightarrow> nat \<Rightarrow> ASTNode parser \<Rightarrow> ASTNode \<Rightarrow> Parser \<Rightarrow> error_state \<Rightarrow> outcome" where
  "unit_loop 0 L ext u p st = Broken OutOfFuel"
| "unit_loop (Suc n) L ext u p st =
     (if tk_type (current p) = TOKEN_EOF then Parsed u p (st\<lparr>g_error_jmp_valid := False\<rparr>)
      else case ext p of
        Inr (d, p') \<Rightarrow> unit_loop n L ext (ast_add_child u (Some d)) p' st
      | Inl (Diagnostic msg, p') \<Rightarrow>
          (case report msg p' st of
             Jumps st' \<Rightarrow>
               (case parser_sync L (p'\<lparr>scope_depth := 0\<rparr>) of
                  Inl (e, _) \<Rightarrow> Broken e
                | Inr (_, p'') \<Rightarrow> unit_loop n L ext u p'' st')
           | Exits st' \<Rightarrow> Ended st'
           | Returns st' \<Rightarrow> Ended st')
      | Inl (e, _) \<Rightarrow> Broken e)"

text \<open>\<open>n\<close> bounds the depth of the recursion, and with one more the rounds of the loops.\<close>

definition parse_translation_unit :: "'d fp_ops \<Rightarrow> nat \<Rightarrow> Parser \<Rightarrow> error_state \<Rightarrow> outcome" where
  "parse_translation_unit F n p st =
     (case parser_node AST_TRANSLATION_UNIT None p of
        Inl (e, _) \<Rightarrow> Broken e
      | Inr (u, p') \<Rightarrow>
          unit_loop (Suc n) (Suc n) (parse_external_declaration F (Suc n) (knot_at (Suc n) n)) u p'
            (st\<lparr>g_error_jmp_valid := True\<rparr>))"

text \<open>The front end of \<^verbatim>\<open>compile_one_file\<close>: the lexer, the parser, and the tree of the translation unit.\<close>

definition front_end :: "'d fp_ops \<Rightarrow> string \<Rightarrow> string option \<Rightarrow> error_state \<Rightarrow> outcome" where
  "front_end F preprocessed source_file st =
     (case parser_init (lexer_init preprocessed source_file) of
        Inl e \<Rightarrow> Broken (Lexical e)
      | Inr p \<Rightarrow> parse_translation_unit F (Suc (length preprocessed)) p st)"

end
