(* ===== verification/Parser_Term.thy ===== *)
theory Parser_Term
  imports Parser_Decl
begin

section \<open>The parser ends\<close>

text \<open>
  The loops and the recursion of the parser are bounded in the model. Here it is shown that a
  bound of one more than the number of characters ahead is enough: the measure \<open>ahead\<close> of a state goes
  down with every token that is consumed, every round of a loop consumes one, and so does every
  call that closes a cycle of functions. \<open>eats\<close> is a Hoare triple for this purpose: it bounds the measure before a
  program, behind it, and in the states of its errors. The rules of the calculus rewrite a triple for a
  compound program to triples for its parts, so that the proof for a function of the parser is one call of the
  simplifier; the theorem at the end needs no assumption.
\<close>

subsection \<open>The measure\<close>

definition ahead :: "string \<Rightarrow> nat \<times> Token \<Rightarrow> nat" where
  "ahead src s = (if tk_type (snd s) = TOKEN_EOF then 0 else Suc (length src - fst s))"

text \<open>A position and a token that belong together: the end token is only met where the source ends.\<close>

definition snap :: "string \<Rightarrow> nat \<Rightarrow> nat \<times> Token \<Rightarrow> bool" where
  "snap src c s \<longleftrightarrow> (tk_type (snd s) = TOKEN_EOF \<longrightarrow> c_at src (fst s) = NUL) \<and> ahead src s < c"

definition within :: "string \<Rightarrow> nat \<Rightarrow> Parser \<Rightarrow> bool" where
  "within src c p \<longleftrightarrow> source (lexer p) = src \<and> snap src c (pos (lexer p), current p)"

text \<open>\<open>look\<close> is what is known of the kind of the current token.\<close>

definition seen :: "TokenType option \<Rightarrow> Parser \<Rightarrow> bool" where
  "seen look p \<longleftrightarrow> (case look of None \<Rightarrow> True | Some k \<Rightarrow> tk_type (current p) = k)"

definition eats :: "string \<Rightarrow> TokenType option \<Rightarrow> nat \<Rightarrow> nat \<Rightarrow> nat \<Rightarrow> 'a parser \<Rightarrow> bool" where
  "eats src look b c c' m \<longleftrightarrow> (\<forall>p. within src c p \<longrightarrow> seen look p \<longrightarrow>
     (case m p of Inl (e, p') \<Rightarrow> e \<noteq> OutOfFuel \<and> within src b p' | Inr (_, p') \<Rightarrow> within src c' p'))"

lemma snap_mono: "snap src c s \<Longrightarrow> c \<le> d \<Longrightarrow> snap src d s"
  by (simp add: snap_def)

lemma within_mono: "within src c p \<Longrightarrow> c \<le> d \<Longrightarrow> within src d p"
  by (auto simp: within_def intro: snap_mono)

lemma next_token_at_end:
  assumes "cur lx = NUL"
  shows "lexer_next_token lx = Inr (token_set_pos lx, lx)"
proof -
  have "lexer_skip_whitespace lx = lx" using assms by (subst lexer_skip_whitespace.simps) simp
  with assms show ?thesis by (simp add: lexer_next_token_def lex_at_def)
qed

lemma next_token_snap:
  assumes "lexer_next_token lx = Inr (t, lx')"
  shows "source lx' = source lx" "tk_type t = TOKEN_EOF \<Longrightarrow> cur lx' = NUL"
    "tk_type t \<noteq> TOKEN_EOF \<Longrightarrow> length (source lx) - pos lx' < length (source lx) - pos lx"
proof -
  have "source lx' = source lx \<and> (tk_type t = TOKEN_EOF \<longrightarrow> cur lx' = NUL)"
  proof (cases "pos lx \<le> length (source lx)")
    case True
    from next_token_parts [OF this assms] show ?thesis by auto
  next
    case False
    then have "cur lx = NUL" by (simp add: cur_def c_at_def)
    with next_token_at_end [OF this] assms show ?thesis by auto
  qed
  then show "source lx' = source lx" "tk_type t = TOKEN_EOF \<Longrightarrow> cur lx' = NUL" by simp_all
  show "tk_type t \<noteq> TOKEN_EOF \<Longrightarrow> length (source lx) - pos lx' < length (source lx) - pos lx"
    using next_token_inside [OF assms] by simp
qed

lemma snap_after:
  assumes "snap src c (pos lx, t0)" "source lx = src" "lexer_next_token lx = Inr (t, lx')"
  shows "snap src (if tk_type t0 = TOKEN_EOF then c else c - 1) (pos lx', t)"
proof (cases "tk_type t0 = TOKEN_EOF")
  case True
  then have "cur lx = NUL" using assms(1,2) by (simp add: snap_def cur_def)
  with next_token_at_end [OF this] assms(3) have "t = token_set_pos lx" "lx' = lx" by auto
  with True assms \<open>cur lx = NUL\<close> show ?thesis by (simp add: snap_def ahead_def token_set_pos_def cur_def)
next
  case False
  note n = next_token_snap [OF assms(3)]
  show ?thesis
    using False assms(1,2) n by (cases "tk_type t = TOKEN_EOF") (auto simp: snap_def ahead_def cur_def)
qed

subsection \<open>Rules\<close>

lemma eats_any: "eats src None b c c' m \<Longrightarrow> eats src look b c c' m"
  by (simp add: eats_def seen_def)

lemma eats_ret [simp]: "c \<le> c' \<Longrightarrow> eats src look b c c' (ret x)"
  by (auto simp: eats_def ret_def intro: within_mono)

lemma eats_gets [simp]: "c \<le> c' \<Longrightarrow> eats src look b c c' (gets f)"
  by (auto simp: eats_def gets_def intro: within_mono)

lemma eats_raise [simp]: "e \<noteq> OutOfFuel \<Longrightarrow> c \<le> b \<Longrightarrow> eats src look b c c' (raise e)"
  by (auto simp: eats_def raise_def intro: within_mono)

lemma eats_parser_error [simp]: "c \<le> b \<Longrightarrow> eats src look b c c' (parser_error msg)"
  by (simp add: parser_error_def)

lemma eats_bind:
  "eats src look b c d m \<Longrightarrow> (\<And>x. eats src None b d c' (f x)) \<Longrightarrow> eats src look b c c' (seq m f)"
  unfolding eats_def seq_def seen_def by (fastforce split: sum.splits)

text \<open>A part that keeps the measure, and a part that lowers it; the latter is tried first.\<close>

lemma eats_seq_keep [simp]:
  "eats src look b c c m \<Longrightarrow> (\<And>x. eats src None b c c' (f x)) \<Longrightarrow> eats src look b c c' (seq m f)"
  by (rule eats_bind)

lemma eats_before_keep [simp]:
  "eats src look b c c m \<Longrightarrow> eats src None b c c' k \<Longrightarrow> eats src look b c c' (before m k)"
  by (simp add: before_def)

lemma eats_zero: "eats src look b 0 c' m"
  by (simp add: eats_def within_def snap_def)

lemma eats_seq_less [simp]:
  assumes "\<And>d. c \<le> Suc d \<Longrightarrow> eats src look b c d m" and "\<And>d x. d < c \<Longrightarrow> eats src None b d c' (f x)"
  shows "eats src look b c c' (seq m f)"
  using eats_bind [of src look b c "c - 1" m c' f] assms by (cases c) (simp_all add: eats_zero)

lemma eats_before_less [simp]:
  "(\<And>d. c \<le> Suc d \<Longrightarrow> eats src look b c d m) \<Longrightarrow> (\<And>d. d < c \<Longrightarrow> eats src None b d c' k) \<Longrightarrow>
   eats src look b c c' (before m k)"
  by (simp add: before_def)

lemma eats_on_kind [simp]:
  "eats src None b c c' (on_kind f) \<longleftrightarrow> (\<forall>k. eats src (Some k) b c c' (f k))"
  "eats src (Some k) b c c' (on_kind f) \<longleftrightarrow> eats src (Some k) b c c' (f k)"
  by (auto simp: eats_def on_kind_def seen_def)

lemma eats_on_token [simp]:
  "(\<And>t. eats src (Some (tk_type t)) b c c' (f t)) \<Longrightarrow> eats src None b c c' (on_token f)"
  "(\<And>t. tk_type t = k \<Longrightarrow> eats src (Some k) b c c' (f t)) \<Longrightarrow> eats src (Some k) b c c' (on_token f)"
  by (auto simp: eats_def on_token_def seen_def)

lemma eats_on_state [simp]:
  "(\<And>p. eats src (Some (tk_type (current p))) b c c' (f p)) \<Longrightarrow> eats src None b c c' (on_state f)"
  "(\<And>p. tk_type (current p) = k \<Longrightarrow> eats src (Some k) b c c' (f p)) \<Longrightarrow> eats src (Some k) b c c' (on_state f)"
  by (auto simp: eats_def on_state_def seen_def)

lemma eats_if [simp]:
  "eats src look b c c' (if P then m else k) \<longleftrightarrow> (P \<longrightarrow> eats src look b c c' m) \<and> (\<not> P \<longrightarrow> eats src look b c c' k)"
  by simp

lemma eats_cases [simp]:
  "eats src look b c c' (case_option m f x) \<longleftrightarrow>
     (x = None \<longrightarrow> eats src look b c c' m) \<and> (\<forall>y. x = Some y \<longrightarrow> eats src look b c c' (f y))"
  "eats src look b c c' (case_prod g r) \<longleftrightarrow> (\<forall>y z. r = (y, z) \<longrightarrow> eats src look b c c' (g y z))"
  by (simp_all split: option.split prod.split)

lemma eats_Let [simp]: "(\<And>y. eats src look b c c' (f y)) \<Longrightarrow> eats src look b c c' (Let x f)"
  by (simp add: Let_def)

text \<open>Looking ahead: what was saved is put back, and the measure with it.\<close>

lemma eats_save:
  "(\<And>s. snap src c s \<Longrightarrow> eats src look b c c' (f s)) \<Longrightarrow> eats src look b c c' (seq save f)"
  by (auto simp: eats_def seq_def save_def gets_def within_def)

lemma eats_restore:
  "snap src d s \<Longrightarrow> eats src None b d c' m \<Longrightarrow> eats src look b c c' (before (restore s) m)"
  by (auto simp: eats_def before_def seq_def restore_def modify_def within_def seen_def)

subsection \<open>Primitive programs\<close>

lemma eats_modify:
  "(\<And>p. lexer (f p) = lexer p \<and> current (f p) = current p) \<Longrightarrow> c \<le> c' \<Longrightarrow> eats src look b c c' (modify f)"
  by (auto simp: eats_def modify_def within_def intro: snap_mono)

lemma eats_advance:
  assumes "c \<le> b" and "c \<le> (if look = None \<or> look = Some TOKEN_EOF then c' else Suc c')"
  shows "eats src look b c c' advance"
proof -
  have "snap src c' (pos lx, t)"
    if "within src c p" "seen look p" "lexer_next_token (lexer p) = Inr (t, lx)" for p t lx
    using snap_after [of src c "lexer p" "current p" t lx] that assms(2)
    by (auto simp: within_def seen_def intro: snap_mono split: if_splits)
  then show ?thesis
    using assms(1) next_token_snap(1)
    by (auto simp: eats_def advance_def within_def split: sum.split intro: snap_mono)
qed

lemma eats_advances [simp]:
  "c \<le> b \<Longrightarrow> c \<le> c' \<Longrightarrow> eats src look b c c' advance"
  "k \<noteq> TOKEN_EOF \<Longrightarrow> c \<le> b \<Longrightarrow> c \<le> Suc c' \<Longrightarrow> eats src (Some k) b c c' advance"
  by (simp_all add: eats_advance)

lemma eats_expect [simp]: "ty \<noteq> TOKEN_EOF \<Longrightarrow> c \<le> b \<Longrightarrow> c \<le> Suc c' \<Longrightarrow> eats src look b c c' (parser_expect ty)"
  by (rule eats_any) (simp add: parser_expect_def)

lemma eats_accept [simp]: "ty \<noteq> TOKEN_EOF \<Longrightarrow> c \<le> b \<Longrightarrow> c \<le> c' \<Longrightarrow> eats src look b c c' (accept ty)"
  by (rule eats_any) (simp add: accept_def)

lemma eats_parser_node [simp]: "c \<le> c' \<Longrightarrow> eats src look b c c' (parser_node ty v)"
  by (simp add: parser_node_def)

lemma eats_new_type [simp]: "c \<le> c' \<Longrightarrow> eats src look b c c' (new_type f)"
  by (auto simp: eats_def new_type_def within_def intro: snap_mono split: prod.split)

lemma eats_the_type [simp]: "c \<le> c' \<Longrightarrow> eats src look b c c' (the_type t)"
  by (simp add: the_type_def)

lemma eats_add_pointers [simp]: "c \<le> b \<Longrightarrow> c \<le> c' \<Longrightarrow> eats src look b c c' (add_pointers n t)"
  by (induction n arbitrary: t look) simp_all

lemma eats_skip_kinds [simp]:
  "\<not> P TOKEN_EOF \<Longrightarrow> c \<le> n \<Longrightarrow> c \<le> b \<Longrightarrow> c \<le> c' \<Longrightarrow> eats src look b c c' (skip_kinds n P)"
proof (induction n arbitrary: c look)
  case (Suc n)
  have "k \<noteq> TOKEN_EOF" if "P k" for k using that Suc.prems(1) by auto
  with Suc show ?case by - (rule eats_any, simp)
qed (simp add: eats_zero)

subsection \<open>Tables\<close>

lemma eats_set_global [simp]: "c \<le> c' \<Longrightarrow> eats src look b c c' (set_global i f)"
  by (auto simp: set_global_def intro: eats_modify)

lemma eats_register_global [simp]:
  "c \<le> b \<Longrightarrow> c \<le> c' \<Longrightarrow> eats src look b c c' (parser_register_global name kind st ft has_init)"
  by (rule eats_any) (simp add: parser_register_global_def merge_global_def Let_def eats_modify)

lemma eats_set_function [simp]: "c \<le> c' \<Longrightarrow> eats src look b c c' (set_function i f)"
  by (auto simp: set_function_def intro: eats_modify)

lemma eats_adopt [simp]: "c \<le> b \<Longrightarrow> c \<le> c' \<Longrightarrow> eats src look b c c' (adopt_signature i n rt ks)"
  by (rule eats_any) (simp add: adopt_signature_def copy_kinds_def)

lemma eats_check_kinds [simp]: "c \<le> b \<Longrightarrow> c \<le> c' \<Longrightarrow> eats src look b c c' (check_kinds name i n ks)"
  by (rule eats_any) (simp add: check_kinds_def)

lemma eats_register_function [simp]:
  "c \<le> b \<Longrightarrow> c \<le> c' \<Longrightarrow> eats src look b c c' (parser_register_function name n df rt ks st var np)"
  by (rule eats_any) (simp add: parser_register_function_def merge_function_def Let_def eats_modify)

lemma eats_register_typedef [simp]:
  "c \<le> b \<Longrightarrow> c \<le> c' \<Longrightarrow> eats src look b c c' (parser_register_typedef name kind ft)"
  by (rule eats_any) (simp add: parser_register_typedef_def eats_modify)

lemma eats_register_tags [simp]:
  "c \<le> b \<Longrightarrow> c \<le> c' \<Longrightarrow> eats src look b c c' (parser_register_struct_tag tag)"
  "c \<le> b \<Longrightarrow> c \<le> c' \<Longrightarrow> eats src look b c c' (parser_register_union_tag tag)"
  by (rule eats_any, simp add: parser_register_struct_tag_def parser_register_union_tag_def eats_modify)+

subsection \<open>Declarators and types\<close>

lemma eats_build_array [simp]: "c \<le> b \<Longrightarrow> c \<le> c' \<Longrightarrow> eats src look b c c' (build_array_type_from_dims t ds)"
  by (induction ds arbitrary: c' look) simp_all

lemma eats_star_qualifiers [simp]:
  "c \<le> n \<Longrightarrow> c \<le> b \<Longrightarrow> c \<le> c' \<Longrightarrow> eats src look b c c' (star_qualifiers n q)"
  by (induction n arbitrary: c q look) (simp add: eats_zero, rule eats_any, simp add: qualifier_kind_def)

lemma eats_pointer_stars [simp]:
  "c \<le> n \<Longrightarrow> c \<le> fuel \<Longrightarrow> c \<le> b \<Longrightarrow> c \<le> c' \<Longrightarrow> eats src look b c c' (pointer_stars fuel n k q)"
  by (induction n arbitrary: c k q look) (simp add: eats_zero, rule eats_any, simp)

lemma eats_count_stars [simp]:
  "c \<le> n \<Longrightarrow> c \<le> b \<Longrightarrow> c \<le> c' \<Longrightarrow> eats src look b c c' (count_stars n k)"
  by (induction n arbitrary: c k look) (simp add: eats_zero, rule eats_any, simp)

lemma eats_array_suffixes [simp]:
  "c \<le> n \<Longrightarrow> c \<le> fuel \<Longrightarrow> c \<le> b \<Longrightarrow> c \<le> c' \<Longrightarrow> eats src look b c c' (array_suffixes fuel n k)"
  by (induction n arbitrary: c k look) (simp add: eats_zero, rule eats_any, simp)

lemma not_qualifier_EOF [simp]: "\<not> qualifier_kind TOKEN_EOF"
  by (simp add: qualifier_kind_def)

locale fuelled =
  fixes K :: knot and D :: nat
  assumes loop_bound: "D < k_loop K"
    and type_specifier [simp]: "c \<le> D \<Longrightarrow> c \<le> b \<Longrightarrow> c \<le> Suc c' \<Longrightarrow> eats src look b c c' (k_type_specifier K)"
    and const_expr [simp]: "c \<le> D \<Longrightarrow> c \<le> b \<Longrightarrow> c \<le> c' \<Longrightarrow> eats src look b c c' (k_const_expr K context)"
    and const_unary [simp]: "c \<le> D \<Longrightarrow> c \<le> b \<Longrightarrow> c \<le> c' \<Longrightarrow> eats src look b c c' (k_const_unary K context)"
    and const_conditional [simp]: "c \<le> D \<Longrightarrow> c \<le> b \<Longrightarrow> c \<le> c' \<Longrightarrow> eats src look b c c' (k_const_conditional K context)"
    and expression [simp]: "c \<le> D \<Longrightarrow> c \<le> b \<Longrightarrow> c \<le> c' \<Longrightarrow> eats src look b c c' (k_expression K)"
    and assignment [simp]: "c \<le> D \<Longrightarrow> c \<le> b \<Longrightarrow> c \<le> c' \<Longrightarrow> eats src look b c c' (k_assignment K)"
    and conditional [simp]: "c \<le> D \<Longrightarrow> c \<le> b \<Longrightarrow> c \<le> c' \<Longrightarrow> eats src look b c c' (k_conditional K)"
    and cast [simp]: "c \<le> D \<Longrightarrow> c \<le> b \<Longrightarrow> c \<le> c' \<Longrightarrow> eats src look b c c' (k_cast K)"
    and unary [simp]: "c \<le> D \<Longrightarrow> c \<le> b \<Longrightarrow> c \<le> c' \<Longrightarrow> eats src look b c c' (k_unary K)"
    and initializer [simp]: "c \<le> D \<Longrightarrow> c \<le> b \<Longrightarrow> c \<le> c' \<Longrightarrow> eats src look b c c' (k_initializer K)"
begin

lemma loop_enough [simp]: "c \<le> Suc D \<Longrightarrow> c \<le> k_loop K"
  using loop_bound by simp

lemma eats_param_type [simp]:
  "c \<le> D \<Longrightarrow> c \<le> b \<Longrightarrow> c \<le> Suc c' \<Longrightarrow> eats src look b c c' (param_type K)"
  by (rule eats_any) (simp add: param_type_def Let_def)

lemma eats_param_types [simp]:
  "c \<le> n \<Longrightarrow> c \<le> D \<Longrightarrow> c \<le> b \<Longrightarrow> c \<le> c' \<Longrightarrow> eats src look b c c' (param_types n K refuse ts)"
  by (induction n arbitrary: c ts look) (simp add: eats_zero, rule eats_any, simp)

lemma eats_void_only [simp]: "c \<le> b \<Longrightarrow> c \<le> c' \<Longrightarrow> eats src look b c c' void_only"
proof (rule eats_any)
  assume "c \<le> b" "c \<le> c'"
  then have "eats src (Some TOKEN_VOID) b c c' (seq save (\<lambda>s. before advance (on_kind (\<lambda>k.
      if k = TOKEN_RPAREN then ret True else before (restore s) (ret False)))))"
    by (intro eats_save eats_before_keep) (simp_all add: eats_advance eats_restore)
  with \<open>c \<le> c'\<close> show "eats src None b c c' void_only" by (simp add: void_only_def)
qed

lemma eats_param_list [simp]:
  "c \<le> D \<Longrightarrow> c \<le> b \<Longrightarrow> c \<le> c' \<Longrightarrow> eats src look b c c' (fp_param_list K refuse)"
  by (rule eats_any) (simp add: fp_param_list_def Let_def)

lemma eats_array_bound [simp]:
  "c \<le> D \<Longrightarrow> c \<le> b \<Longrightarrow> c \<le> c' \<Longrightarrow> eats src look b c c' (array_bound K ctx msg)"
  by (rule eats_any) (simp add: array_bound_def)

lemma eats_opt_array_bound [simp]:
  "c \<le> D \<Longrightarrow> c \<le> b \<Longrightarrow> c \<le> c' \<Longrightarrow> eats src look b c c' (opt_array_bound K ctx msg)"
  by (rule eats_any) (simp add: opt_array_bound_def)

lemma eats_more_dims [simp]:
  "c \<le> n \<Longrightarrow> c \<le> Suc D \<Longrightarrow> c \<le> b \<Longrightarrow> c \<le> c' \<Longrightarrow> eats src look b c c' (more_dims n K dims)"
  by (induction n arbitrary: c dims look) (simp add: eats_zero, rule eats_any, simp)

lemma eats_func_returning_fp [simp]:
  "c \<le> Suc D \<Longrightarrow> c \<le> b \<Longrightarrow> c \<le> c' \<Longrightarrow> eats src look b c c' (func_returning_fp K i j d)"
  by (rule eats_any) (simp add: func_returning_fp_def split_def)

lemma eats_after_parens [simp]:
  "c \<le> Suc D \<Longrightarrow> c \<le> b \<Longrightarrow> c \<le> c' \<Longrightarrow> eats src look b c c' (after_parens K i j d)"
  by (rule eats_any) (simp add: after_parens_def)

lemma eats_paren_declarator [simp]:
  "k \<noteq> TOKEN_EOF \<Longrightarrow> c \<le> Suc D \<Longrightarrow> c \<le> b \<Longrightarrow> c \<le> Suc c' \<Longrightarrow> eats src (Some k) b c c' (paren_declarator K i d)"
  by (simp add: paren_declarator_def Let_def)

lemma eats_plain_declarator [simp]:
  "c \<le> Suc D \<Longrightarrow> c \<le> b \<Longrightarrow> c \<le> Suc c' \<Longrightarrow> eats src look b c c' (plain_declarator K i d)"
  by (rule eats_any) (simp add: plain_declarator_def Let_def)

lemma eats_parse_declarator [simp]:
  "c \<le> Suc D \<Longrightarrow> c \<le> b \<Longrightarrow> c \<le> Suc c' \<Longrightarrow> eats src look b c c' (parse_declarator K)"
  by (rule eats_any) (simp add: parse_declarator_def Let_def)

lemma eats_build_fp_type [simp]:
  "c \<le> b \<Longrightarrow> c \<le> c' \<Longrightarrow> eats src look b c c' (build_fp_type base d)"
  by (rule eats_any) (simp add: build_fp_type_def)

lemma eats_member_pointer_type [simp]:
  "c \<le> b \<Longrightarrow> c \<le> c' \<Longrightarrow> eats src look b c c' (member_pointer_type base d q v)"
  by (rule eats_any) (simp add: member_pointer_type_def)

lemma eats_struct_member [simp]:
  "c \<le> b \<Longrightarrow> c \<le> c' \<Longrightarrow> eats src look b c c' (struct_member base q v d Ly)"
  by (rule eats_any) (simp add: struct_member_def Let_def)

lemma eats_struct_bits [simp]:
  "c \<le> b \<Longrightarrow> c \<le> c' \<Longrightarrow> eats src look b c c' (struct_bits base q v d bw Ly)"
  by (rule eats_any) (simp add: struct_bits_def)

lemma eats_struct_declarator [simp]:
  "c \<le> Suc D \<Longrightarrow> c \<le> b \<Longrightarrow> c \<le> Suc c' \<Longrightarrow> eats src look b c c' (struct_declarator K base q v Ly)"
  by (rule eats_any) (simp add: struct_declarator_def)

lemma eats_struct_declarators [simp]:
  "c \<le> n \<Longrightarrow> c \<le> Suc D \<Longrightarrow> c \<le> b \<Longrightarrow> c \<le> c' \<Longrightarrow> eats src look b c c' (struct_declarators n K base q v first Ly)"
  by (induction n arbitrary: c first Ly look) (simp add: eats_zero, rule eats_any, simp)

lemma eats_leading_qualifier [simp]:
  "c \<le> b \<Longrightarrow> c \<le> c' \<Longrightarrow> eats src look b c c' (leading_qualifier)"
  by (rule eats_any) (simp add: leading_qualifier_def)

lemma eats_anonymous_member [simp]:
  "c \<le> b \<Longrightarrow> c \<le> c' \<Longrightarrow> eats src look b c c' (anonymous_member base)"
  by (rule eats_any) (simp add: anonymous_member_def)

lemma eats_struct_members [simp]:
  "c \<le> n \<Longrightarrow> c \<le> D \<Longrightarrow> c \<le> b \<Longrightarrow> c \<le> c' \<Longrightarrow> eats src look b c c' (struct_members n K Ly)"
  by (induction n arbitrary: c Ly look) (simp add: eats_zero, rule eats_any, simp add: split_def)

lemma eats_set_fields [simp]: "c \<le> c' \<Longrightarrow> eats src look b c c' (set_fields t fs)"
  by (auto simp: set_fields_def intro: eats_modify)

lemma eats_complete_type [simp]: "c \<le> c' \<Longrightarrow> eats src look b c c' (complete_type t sz al)"
  by (auto simp: complete_type_def intro: eats_modify)

lemma eats_set_struct_tag [simp]: "c \<le> c' \<Longrightarrow> eats src look b c c' (set_struct_tag i t)"
  by (auto simp: set_struct_tag_def intro: eats_modify)

lemma eats_set_union_tag [simp]: "c \<le> c' \<Longrightarrow> eats src look b c c' (set_union_tag i t)"
  by (auto simp: set_union_tag_def intro: eats_modify)

lemma eats_finish_struct [simp]:
  "c \<le> b \<Longrightarrow> c \<le> c' \<Longrightarrow> eats src look b c c' (finish_struct tag Ly)"
  by (rule eats_any) (simp add: finish_struct_def Let_def)

lemma eats_struct_tail [simp]:
  "c \<le> Suc D \<Longrightarrow> c \<le> b \<Longrightarrow> c \<le> c' \<Longrightarrow> eats src look b c c' (struct_tail K tag)"
  by (rule eats_any) (simp add: struct_tail_def split_def)

lemma eats_parse_struct_specifier [simp]:
  "k \<noteq> TOKEN_EOF \<Longrightarrow> c \<le> Suc D \<Longrightarrow> c \<le> b \<Longrightarrow> c \<le> Suc c' \<Longrightarrow> eats src (Some k) b c c' (parse_struct_specifier K)"
  by (simp add: parse_struct_specifier_def)

lemma eats_union_member [simp]:
  "c \<le> b \<Longrightarrow> c \<le> c' \<Longrightarrow> eats src look b c c' (union_member base q v d Ly)"
  by (rule eats_any) (simp add: union_member_def)

lemma eats_union_declarators [simp]:
  "c \<le> n \<Longrightarrow> c \<le> Suc D \<Longrightarrow> c \<le> b \<Longrightarrow> c \<le> c' \<Longrightarrow> eats src look b c c' (union_declarators n K base q v Ly)"
  by (induction n arbitrary: c Ly look) (simp add: eats_zero, rule eats_any, simp)

lemma eats_union_members [simp]:
  "c \<le> n \<Longrightarrow> c \<le> D \<Longrightarrow> c \<le> b \<Longrightarrow> c \<le> c' \<Longrightarrow> eats src look b c c' (union_members n K Ly)"
  by (induction n arbitrary: c Ly look) (simp add: eats_zero, rule eats_any, simp add: split_def)

lemma eats_finish_union [simp]:
  "c \<le> b \<Longrightarrow> c \<le> c' \<Longrightarrow> eats src look b c c' (finish_union tag Ly)"
  by (rule eats_any) (simp add: finish_union_def Let_def)

lemma eats_union_tail [simp]:
  "c \<le> Suc D \<Longrightarrow> c \<le> b \<Longrightarrow> c \<le> c' \<Longrightarrow> eats src look b c c' (union_tail K tag)"
  by (rule eats_any) (simp add: union_tail_def split_def)

lemma eats_parse_union_specifier [simp]:
  "k \<noteq> TOKEN_EOF \<Longrightarrow> c \<le> Suc D \<Longrightarrow> c \<le> b \<Longrightarrow> c \<le> Suc c' \<Longrightarrow> eats src (Some k) b c c' (parse_union_specifier K)"
  by (simp add: parse_union_specifier_def)

lemma eats_define_enum_tag [simp]:
  "c \<le> b \<Longrightarrow> c \<le> c' \<Longrightarrow> eats src look b c c' (define_enum_tag tag)"
  by (rule eats_any) (simp add: define_enum_tag_def eats_modify split: option.split)

lemma eats_declare_enum_tag [simp]:
  "c \<le> b \<Longrightarrow> c \<le> c' \<Longrightarrow> eats src look b c c' (declare_enum_tag tag)"
  by (rule eats_any) (simp add: declare_enum_tag_def eats_modify split: option.split)

lemma eats_enumerators [simp]:
  "c \<le> n \<Longrightarrow> c \<le> Suc D \<Longrightarrow> c \<le> b \<Longrightarrow> c \<le> c' \<Longrightarrow> eats src look b c c' (enumerators n K v)"
  by (induction n arbitrary: c v look) (simp add: eats_zero, rule eats_any, simp add: eats_modify)

lemma eats_parse_enum_specifier [simp]:
  "k \<noteq> TOKEN_EOF \<Longrightarrow> c \<le> Suc D \<Longrightarrow> c \<le> b \<Longrightarrow> c \<le> Suc c' \<Longrightarrow> eats src (Some k) b c c' (parse_enum_specifier K)"
  by (simp add: parse_enum_specifier_def)

lemma eats_opt_int [simp]:
  "c \<le> b \<Longrightarrow> c \<le> c' \<Longrightarrow> eats src look b c c' (opt_int r)"
  by (rule eats_any) (simp add: opt_int_def)

lemma eats_reject_long [simp]:
  "c \<le> b \<Longrightarrow> c \<le> c' \<Longrightarrow> eats src look b c c' (reject_long)"
  by (rule eats_any) (simp add: reject_long_def)

lemma eats_second_long [simp]:
  "c \<le> b \<Longrightarrow> c \<le> c' \<Longrightarrow> eats src look b c c' (second_long two one)"
  by (rule eats_any) (simp add: second_long_def)

lemma eats_long_specifier [simp]:
  "k \<noteq> TOKEN_EOF \<Longrightarrow> c \<le> b \<Longrightarrow> c \<le> Suc c' \<Longrightarrow> eats src (Some k) b c c' (long_specifier)"
  by (simp add: long_specifier_def)

lemma eats_sign_specifier [simp]:
  "k \<noteq> TOKEN_EOF \<Longrightarrow> c \<le> b \<Longrightarrow> c \<le> Suc c' \<Longrightarrow> eats src (Some k) b c c' (sign_specifier uns)"
  by (simp add: sign_specifier_def)

lemma eats_plain_specifier [simp]:
  "k \<noteq> TOKEN_EOF \<Longrightarrow> c \<le> b \<Longrightarrow> c \<le> Suc c' \<Longrightarrow> eats src (Some k) b c c' (plain_specifier t kind)"
  by (simp add: plain_specifier_def)

lemma eats_parse_type_specifier [simp]:
  "c \<le> Suc D \<Longrightarrow> c \<le> b \<Longrightarrow> c \<le> Suc c' \<Longrightarrow> eats src look b c c' (parse_type_specifier K)"
  by (rule eats_any) (simp add: parse_type_specifier_def Let_def)

lemma eats_abstract_stars [simp]:
  "c \<le> n \<Longrightarrow> c \<le> fuel \<Longrightarrow> c \<le> b \<Longrightarrow> c \<le> c' \<Longrightarrow> eats src look b c c' (abstract_stars fuel n t)"
  by (induction n arbitrary: c t look) (simp add: eats_zero, rule eats_any, simp)

lemma eats_abstract_dims [simp]:
  "c \<le> n \<Longrightarrow> c \<le> Suc D \<Longrightarrow> c \<le> b \<Longrightarrow> c \<le> c' \<Longrightarrow> eats src look b c c' (abstract_dims n K dims)"
  by (induction n arbitrary: c dims look) (simp add: eats_zero, rule eats_any, simp)

lemma eats_parse_type_name [simp]:
  "c \<le> Suc D \<Longrightarrow> c \<le> b \<Longrightarrow> c \<le> Suc c' \<Longrightarrow> eats src look b c c' (parse_type_name K)"
  by (rule eats_any) (simp add: parse_type_name_def split_def)

subsection \<open>Constant expressions\<close>

lemma eats_not_constant [simp]:
  "c \<le> b \<Longrightarrow> c \<le> c' \<Longrightarrow> eats src look b c c' (not_constant ctx)"
  by (rule eats_any) (simp add: not_constant_def)

lemma eats_const_sizeof [simp]:
  "k \<noteq> TOKEN_EOF \<Longrightarrow> c \<le> Suc D \<Longrightarrow> c \<le> b \<Longrightarrow> c \<le> Suc c' \<Longrightarrow> eats src (Some k) b c c' (const_sizeof K)"
  by (simp add: const_sizeof_def)

lemma eats_eval_const_primary [simp]:
  "c \<le> Suc D \<Longrightarrow> c \<le> b \<Longrightarrow> c \<le> c' \<Longrightarrow> eats src look b c c' (eval_const_primary K ctx)"
  by (rule eats_any) (simp add: eval_const_primary_def Let_def)

lemma eats_eval_const_unary [simp]:
  "c \<le> Suc D \<Longrightarrow> c \<le> b \<Longrightarrow> c \<le> c' \<Longrightarrow> eats src look b c c' (eval_const_unary K ctx)"
  by (rule eats_any) (simp add: eval_const_unary_def)

text \<open>A level of operators: the end of the input is no operator, and combining two values consumes nothing.\<close>

definition plain_ops :: "(TokenType \<Rightarrow> (int \<Rightarrow> int \<Rightarrow> int parser) option) \<Rightarrow> bool" where
  "plain_ops ops \<longleftrightarrow> ops TOKEN_EOF = None \<and>
     (\<forall>k f src b c x y. ops k = Some f \<longrightarrow> c \<le> b \<longrightarrow> eats src None b c c (f x y))"

lemma plain_opsD: "plain_ops ops \<Longrightarrow> ops k = Some f \<Longrightarrow> c \<le> b \<Longrightarrow> k \<noteq> TOKEN_EOF \<and> eats src None b c c (f x y)"
  by (auto simp: plain_ops_def)

lemma plain_const_ops [simp]: "plain_ops const_mult_ops" "plain_ops const_add_ops" "plain_ops const_shift_ops" "plain_ops const_rel_ops" "plain_ops const_eq_ops"
  "op \<noteq> TOKEN_EOF \<Longrightarrow> plain_ops (one_op op g)"
  by (auto simp: plain_ops_def const_mult_ops_def const_add_ops_def const_shift_ops_def const_rel_ops_def const_eq_ops_def one_op_def const_division_def
      split: if_splits)

lemma eats_const_loop:
  assumes ops: "plain_ops ops" and sub: "\<And>c. c \<le> Suc D \<Longrightarrow> c \<le> b \<Longrightarrow> eats src None b c c sub"
  shows "c \<le> n \<Longrightarrow> c \<le> Suc D \<Longrightarrow> c \<le> b \<Longrightarrow> c \<le> c' \<Longrightarrow> eats src None b c c' (const_loop n ops sub v)"
proof (induction n arbitrary: c v)
  case (Suc n)
  have "eats src (Some k) b c c' (before advance (seq sub (\<lambda>r. seq (f v r) (const_loop n ops sub))))" if "ops k = Some f" for k f
    using Suc plain_opsD [OF ops that] sub by simp
  with Suc.prems show ?case by simp
qed (simp add: eats_zero)

lemma eats_const_level [simp]:
  assumes "plain_ops ops" and "\<And>c. c \<le> Suc D \<Longrightarrow> c \<le> b \<Longrightarrow> eats src None b c c sub"
    and "c \<le> Suc D" "c \<le> b" "c \<le> c'"
  shows "eats src look b c c' (const_level K ops sub)"
  by (rule eats_any) (use assms eats_const_loop [of ops] in \<open>simp add: const_level_def\<close>)

lemma eats_eval_const_multiplicative [simp]:
  "c \<le> Suc D \<Longrightarrow> c \<le> b \<Longrightarrow> c \<le> c' \<Longrightarrow> eats src look b c c' (eval_const_multiplicative K ctx)"
  by (rule eats_any) (simp add: eval_const_multiplicative_def)

lemma eats_eval_const_additive [simp]:
  "c \<le> Suc D \<Longrightarrow> c \<le> b \<Longrightarrow> c \<le> c' \<Longrightarrow> eats src look b c c' (eval_const_additive K ctx)"
  by (rule eats_any) (simp add: eval_const_additive_def)

lemma eats_eval_const_shift [simp]:
  "c \<le> Suc D \<Longrightarrow> c \<le> b \<Longrightarrow> c \<le> c' \<Longrightarrow> eats src look b c c' (eval_const_shift K ctx)"
  by (rule eats_any) (simp add: eval_const_shift_def)

lemma eats_eval_const_relational [simp]:
  "c \<le> Suc D \<Longrightarrow> c \<le> b \<Longrightarrow> c \<le> c' \<Longrightarrow> eats src look b c c' (eval_const_relational K ctx)"
  by (rule eats_any) (simp add: eval_const_relational_def)

lemma eats_eval_const_equality [simp]:
  "c \<le> Suc D \<Longrightarrow> c \<le> b \<Longrightarrow> c \<le> c' \<Longrightarrow> eats src look b c c' (eval_const_equality K ctx)"
  by (rule eats_any) (simp add: eval_const_equality_def)

lemma eats_eval_const_bitwise_and [simp]:
  "c \<le> Suc D \<Longrightarrow> c \<le> b \<Longrightarrow> c \<le> c' \<Longrightarrow> eats src look b c c' (eval_const_bitwise_and K ctx)"
  by (rule eats_any) (simp add: eval_const_bitwise_and_def)

lemma eats_eval_const_bitwise_xor [simp]:
  "c \<le> Suc D \<Longrightarrow> c \<le> b \<Longrightarrow> c \<le> c' \<Longrightarrow> eats src look b c c' (eval_const_bitwise_xor K ctx)"
  by (rule eats_any) (simp add: eval_const_bitwise_xor_def)

lemma eats_eval_const_bitwise_or [simp]:
  "c \<le> Suc D \<Longrightarrow> c \<le> b \<Longrightarrow> c \<le> c' \<Longrightarrow> eats src look b c c' (eval_const_bitwise_or K ctx)"
  by (rule eats_any) (simp add: eval_const_bitwise_or_def)

lemma eats_eval_const_logical_and [simp]:
  "c \<le> Suc D \<Longrightarrow> c \<le> b \<Longrightarrow> c \<le> c' \<Longrightarrow> eats src look b c c' (eval_const_logical_and K ctx)"
  by (rule eats_any) (simp add: eval_const_logical_and_def)

lemma eats_eval_const_logical_or [simp]:
  "c \<le> Suc D \<Longrightarrow> c \<le> b \<Longrightarrow> c \<le> c' \<Longrightarrow> eats src look b c c' (eval_const_logical_or K ctx)"
  by (rule eats_any) (simp add: eval_const_logical_or_def)

lemma eats_eval_const_conditional [simp]:
  "c \<le> Suc D \<Longrightarrow> c \<le> b \<Longrightarrow> c \<le> c' \<Longrightarrow> eats src look b c c' (eval_const_conditional K ctx)"
  by (rule eats_any) (simp add: eval_const_conditional_def)

lemma eats_eval_const_expr [simp]:
  "c \<le> Suc D \<Longrightarrow> c \<le> b \<Longrightarrow> c \<le> c' \<Longrightarrow> eats src look b c c' (eval_const_expr K ctx)"
  by (rule eats_any) (simp add: eval_const_expr_def)

subsection \<open>Expressions\<close>

lemma eats_node_over [simp]:
  "c \<le> b \<Longrightarrow> c \<le> c' \<Longrightarrow> eats src look b c c' (node_over ty v cs)"
  by (rule eats_any) (simp add: node_over_def)

lemma eats_store_bytes [simp]: "c \<le> c' \<Longrightarrow> eats src look b c c' (store_bytes s)"
  by (auto simp: eats_def store_bytes_def modify_def within_def lexer_store_bytes_def intro: snap_mono)

lemma eats_float_literal [simp]:
  "k \<noteq> TOKEN_EOF \<Longrightarrow> c \<le> b \<Longrightarrow> c \<le> Suc c' \<Longrightarrow> eats src (Some k) b c c' (float_literal t)"
  by (simp add: float_literal_def)

lemma eats_adjacent_strings [simp]:
  "c \<le> n \<Longrightarrow> c \<le> b \<Longrightarrow> c \<le> c' \<Longrightarrow> eats src look b c c' (adjacent_strings n s)"
  by (induction n arbitrary: c s look) (simp add: eats_zero, rule eats_any, simp)

lemma eats_string_node [simp]:
  "c \<le> b \<Longrightarrow> c \<le> c' \<Longrightarrow> eats src look b c c' (string_node s x)"
  by (rule eats_any) (simp add: string_node_def Let_def)

lemma eats_string_literal [simp]:
  "k \<noteq> TOKEN_EOF \<Longrightarrow> c \<le> Suc D \<Longrightarrow> c \<le> b \<Longrightarrow> c \<le> Suc c' \<Longrightarrow> eats src (Some k) b c c' (string_literal K t)"
  by (simp add: string_literal_def)

lemma eats_char_literal [simp]:
  "k \<noteq> TOKEN_EOF \<Longrightarrow> c \<le> b \<Longrightarrow> c \<le> Suc c' \<Longrightarrow> eats src (Some k) b c c' (char_literal t)"
  by (simp add: char_literal_def)

lemma eats_func_name [simp]:
  "k \<noteq> TOKEN_EOF \<Longrightarrow> c \<le> b \<Longrightarrow> c \<le> Suc c' \<Longrightarrow> eats src (Some k) b c c' (func_name)"
  by (simp add: func_name_def)

lemma eats_va_start_call [simp]:
  "k \<noteq> TOKEN_EOF \<Longrightarrow> c \<le> Suc D \<Longrightarrow> c \<le> b \<Longrightarrow> c \<le> Suc c' \<Longrightarrow> eats src (Some k) b c c' (va_start_call K)"
  by (simp add: va_start_call_def)

lemma eats_va_end_call [simp]:
  "k \<noteq> TOKEN_EOF \<Longrightarrow> c \<le> Suc D \<Longrightarrow> c \<le> b \<Longrightarrow> c \<le> Suc c' \<Longrightarrow> eats src (Some k) b c c' (va_end_call K)"
  by (simp add: va_end_call_def)

lemma eats_va_copy_call [simp]:
  "k \<noteq> TOKEN_EOF \<Longrightarrow> c \<le> Suc D \<Longrightarrow> c \<le> b \<Longrightarrow> c \<le> Suc c' \<Longrightarrow> eats src (Some k) b c c' (va_copy_call K)"
  by (simp add: va_copy_call_def)

lemma eats_va_arg_call [simp]:
  "k \<noteq> TOKEN_EOF \<Longrightarrow> c \<le> Suc D \<Longrightarrow> c \<le> b \<Longrightarrow> c \<le> Suc c' \<Longrightarrow> eats src (Some k) b c c' (va_arg_call K)"
  by (simp add: va_arg_call_def)

lemma eats_more_args [simp]:
  "c \<le> n \<Longrightarrow> c \<le> Suc D \<Longrightarrow> c \<le> b \<Longrightarrow> c \<le> c' \<Longrightarrow> eats src look b c c' (more_args n K x)"
  by (induction n arbitrary: c x look) (simp add: eats_zero, rule eats_any, simp)

lemma eats_call_args [simp]:
  "c \<le> D \<Longrightarrow> c \<le> b \<Longrightarrow> c \<le> c' \<Longrightarrow> eats src look b c c' (call_args K x)"
  by (rule eats_any) (simp add: call_args_def)

lemma eats_check_arity [simp]:
  "c \<le> b \<Longrightarrow> c \<le> c' \<Longrightarrow> eats src look b c c' (check_arity nm sg i)"
  by (rule eats_any) (simp add: check_arity_def)

lemma eats_named_call [simp]:
  "c \<le> Suc D \<Longrightarrow> c \<le> b \<Longrightarrow> c \<le> c' \<Longrightarrow> eats src look b c c' (named_call K nm)"
  by (rule eats_any) (simp add: named_call_def Let_def)

lemma eats_identifier_expr [simp]:
  "k \<noteq> TOKEN_EOF \<Longrightarrow> c \<le> Suc D \<Longrightarrow> c \<le> b \<Longrightarrow> c \<le> Suc c' \<Longrightarrow> eats src (Some k) b c c' (identifier_expr K t)"
  by (simp add: identifier_expr_def)

lemma eats_parse_primary [simp]:
  "c \<le> Suc D \<Longrightarrow> c \<le> b \<Longrightarrow> c \<le> c' \<Longrightarrow> eats src look b c c' (parse_primary K)"
  by (rule eats_any) (simp add: parse_primary_def Let_def)

lemma eats_field_access [simp]:
  "k \<noteq> TOKEN_EOF \<Longrightarrow> c \<le> b \<Longrightarrow> c \<le> Suc c' \<Longrightarrow> eats src (Some k) b c c' (field_access ty x)"
  by (simp add: field_access_def)

lemma eats_subscript [simp]:
  "k \<noteq> TOKEN_EOF \<Longrightarrow> c \<le> Suc D \<Longrightarrow> c \<le> b \<Longrightarrow> c \<le> Suc c' \<Longrightarrow> eats src (Some k) b c c' (subscript K x)"
  by (simp add: subscript_def)

lemma eats_parse_postfix_suffixes [simp]:
  "c \<le> n \<Longrightarrow> c \<le> Suc D \<Longrightarrow> c \<le> b \<Longrightarrow> c \<le> c' \<Longrightarrow> eats src look b c c' (parse_postfix_suffixes n K x)"
  by (induction n arbitrary: c x look) (simp add: eats_zero, rule eats_any, simp add: Let_def)

lemma eats_complete_array [simp]:
  "c \<le> b \<Longrightarrow> c \<le> c' \<Longrightarrow> eats src look b c c' (complete_array t l x)"
  by (rule eats_any) (simp add: complete_array_def Let_def split: option.split)

lemma eats_array_literal [simp]:
  "c \<le> D \<Longrightarrow> c \<le> b \<Longrightarrow> c \<le> c' \<Longrightarrow> eats src look b c c' (array_literal K t x)"
  by (rule eats_any) (simp add: array_literal_def split_def)

lemma eats_scalar_literal [simp]:
  "c \<le> D \<Longrightarrow> c \<le> b \<Longrightarrow> c \<le> c' \<Longrightarrow> eats src look b c c' (scalar_literal K t ct x)"
  by (rule eats_any) (simp add: scalar_literal_def)

lemma eats_build_compound_literal [simp]:
  "c \<le> D \<Longrightarrow> c \<le> b \<Longrightarrow> c \<le> c' \<Longrightarrow> eats src look b c c' (build_compound_literal K t)"
  by (rule eats_any) (simp add: build_compound_literal_def Let_def)

lemma eats_compound_literal_type [simp]:
  "c \<le> Suc D \<Longrightarrow> c \<le> b \<Longrightarrow> c \<le> c' \<Longrightarrow> eats src look b c c' (compound_literal_type K)"
  by (rule eats_any) (simp add: compound_literal_type_def)

lemma eats_primary_suffixes [simp]:
  "c \<le> Suc D \<Longrightarrow> c \<le> b \<Longrightarrow> c \<le> c' \<Longrightarrow> eats src look b c c' (primary_suffixes K)"
  by (rule eats_any) (simp add: primary_suffixes_def)

lemma eats_literal_suffixes [simp]:
  "c \<le> D \<Longrightarrow> c \<le> b \<Longrightarrow> c \<le> c' \<Longrightarrow> eats src look b c c' (literal_suffixes K t)"
  by (rule eats_any) (simp add: literal_suffixes_def)

text \<open>The programs that look ahead and may start again from the saved state.\<close>

lemma eats_lookahead:
  assumes "k \<noteq> TOKEN_EOF" "c \<le> b" "\<And>s d. snap src c s \<Longrightarrow> d < c \<Longrightarrow> eats src None b d c' (f s)"
  shows "eats src (Some k) b c c' (seq save (\<lambda>s. before advance (f s)))"
  by (rule eats_save, rule eats_before_less) (use assms in simp_all)

lemma eats_parse_postfix [simp]:
  "c \<le> Suc D \<Longrightarrow> c \<le> b \<Longrightarrow> c \<le> c' \<Longrightarrow> eats src look b c c' (parse_postfix K)"
  by (rule eats_any) (simp add: parse_postfix_def eats_lookahead eats_restore)

lemma eats_sizeof_type [simp]:
  "c \<le> Suc D \<Longrightarrow> c \<le> b \<Longrightarrow> c \<le> c' \<Longrightarrow> eats src look b c c' (sizeof_type K)"
  by (rule eats_any) (simp add: sizeof_type_def)

lemma eats_parse_sizeof [simp]:
  "k \<noteq> TOKEN_EOF \<Longrightarrow> c \<le> Suc D \<Longrightarrow> c \<le> b \<Longrightarrow> c \<le> Suc c' \<Longrightarrow> eats src (Some k) b c c' (parse_sizeof K)"
  by (simp add: parse_sizeof_def)

lemma eats_prefix_node [simp]:
  "k \<noteq> TOKEN_EOF \<Longrightarrow> c \<le> Suc D \<Longrightarrow> c \<le> b \<Longrightarrow> c \<le> Suc c' \<Longrightarrow> eats src (Some k) b c c' (prefix_node K ty v)"
  by (simp add: prefix_node_def)

lemma eats_parse_unary [simp]:
  "c \<le> Suc D \<Longrightarrow> c \<le> b \<Longrightarrow> c \<le> c' \<Longrightarrow> eats src look b c c' (parse_unary K)"
  by (rule eats_any) (simp add: parse_unary_def Let_def unary_op_kind_def)

lemma eats_cast_tail [simp]:
  "c \<le> D \<Longrightarrow> c \<le> b \<Longrightarrow> c \<le> c' \<Longrightarrow> eats src look b c c' (cast_tail K)"
  by (rule eats_any) (simp add: cast_tail_def)

lemma eats_parse_cast [simp]:
  "c \<le> Suc D \<Longrightarrow> c \<le> b \<Longrightarrow> c \<le> c' \<Longrightarrow> eats src look b c c' (parse_cast K)"
  by (rule eats_any) (simp add: parse_cast_def eats_lookahead eats_restore)

lemma eats_binary_loop:
  assumes ops: "\<not> ops TOKEN_EOF" and sub: "\<And>c. c \<le> Suc D \<Longrightarrow> c \<le> b \<Longrightarrow> eats src None b c c sub"
  shows "c \<le> n \<Longrightarrow> c \<le> Suc D \<Longrightarrow> c \<le> b \<Longrightarrow> c \<le> c' \<Longrightarrow> eats src None b c c' (binary_loop n ops sub x)"
proof (induction n arbitrary: c x)
  case (Suc n)
  have "k \<noteq> TOKEN_EOF" if "ops k" for k using that ops by auto
  with Suc sub show ?case by simp
qed (simp add: eats_zero)

lemma eats_binary_level [simp]:
  assumes "\<not> ops TOKEN_EOF" and "\<And>c. c \<le> Suc D \<Longrightarrow> c \<le> b \<Longrightarrow> eats src None b c c sub"
    and "c \<le> Suc D" "c \<le> b" "c \<le> c'"
  shows "eats src look b c c' (binary_level K ops sub)"
  by (rule eats_any) (use assms eats_binary_loop [of ops] in \<open>simp add: binary_level_def\<close>)

lemma eats_parse_term [simp]:
  "c \<le> Suc D \<Longrightarrow> c \<le> b \<Longrightarrow> c \<le> c' \<Longrightarrow> eats src look b c c' (parse_term K)"
  by (rule eats_any) (simp add: parse_term_def)

lemma eats_parse_additive [simp]:
  "c \<le> Suc D \<Longrightarrow> c \<le> b \<Longrightarrow> c \<le> c' \<Longrightarrow> eats src look b c c' (parse_additive K)"
  by (rule eats_any) (simp add: parse_additive_def)

lemma eats_parse_shift [simp]:
  "c \<le> Suc D \<Longrightarrow> c \<le> b \<Longrightarrow> c \<le> c' \<Longrightarrow> eats src look b c c' (parse_shift K)"
  by (rule eats_any) (simp add: parse_shift_def)

lemma eats_parse_relational [simp]:
  "c \<le> Suc D \<Longrightarrow> c \<le> b \<Longrightarrow> c \<le> c' \<Longrightarrow> eats src look b c c' (parse_relational K)"
  by (rule eats_any) (simp add: parse_relational_def)

lemma eats_parse_equality [simp]:
  "c \<le> Suc D \<Longrightarrow> c \<le> b \<Longrightarrow> c \<le> c' \<Longrightarrow> eats src look b c c' (parse_equality K)"
  by (rule eats_any) (simp add: parse_equality_def)

lemma eats_parse_bitwise_and [simp]:
  "c \<le> Suc D \<Longrightarrow> c \<le> b \<Longrightarrow> c \<le> c' \<Longrightarrow> eats src look b c c' (parse_bitwise_and K)"
  by (rule eats_any) (simp add: parse_bitwise_and_def)

lemma eats_parse_bitwise_xor [simp]:
  "c \<le> Suc D \<Longrightarrow> c \<le> b \<Longrightarrow> c \<le> c' \<Longrightarrow> eats src look b c c' (parse_bitwise_xor K)"
  by (rule eats_any) (simp add: parse_bitwise_xor_def)

lemma eats_parse_bitwise_or [simp]:
  "c \<le> Suc D \<Longrightarrow> c \<le> b \<Longrightarrow> c \<le> c' \<Longrightarrow> eats src look b c c' (parse_bitwise_or K)"
  by (rule eats_any) (simp add: parse_bitwise_or_def)

lemma eats_parse_logical_and [simp]:
  "c \<le> Suc D \<Longrightarrow> c \<le> b \<Longrightarrow> c \<le> c' \<Longrightarrow> eats src look b c c' (parse_logical_and K)"
  by (rule eats_any) (simp add: parse_logical_and_def)

lemma eats_parse_logical_or [simp]:
  "c \<le> Suc D \<Longrightarrow> c \<le> b \<Longrightarrow> c \<le> c' \<Longrightarrow> eats src look b c c' (parse_logical_or K)"
  by (rule eats_any) (simp add: parse_logical_or_def)

lemma eats_parse_conditional [simp]:
  "c \<le> Suc D \<Longrightarrow> c \<le> b \<Longrightarrow> c \<le> c' \<Longrightarrow> eats src look b c c' (parse_conditional K)"
  by (rule eats_any) (simp add: parse_conditional_def)

lemma eats_assign_name [simp]:
  "k \<noteq> TOKEN_EOF \<Longrightarrow> c \<le> Suc D \<Longrightarrow> c \<le> b \<Longrightarrow> c \<le> Suc c' \<Longrightarrow> eats src (Some k) b c c' (assign_name K nm)"
  by (simp add: assign_name_def)

lemma eats_assign_lvalue [simp]:
  "k \<noteq> TOKEN_EOF \<Longrightarrow> c \<le> Suc D \<Longrightarrow> c \<le> b \<Longrightarrow> c \<le> Suc c' \<Longrightarrow> eats src (Some k) b c c' (assign_lvalue K x)"
  by (simp add: assign_lvalue_def)

lemma eats_general_assignment [simp]:
  "c \<le> Suc D \<Longrightarrow> c \<le> b \<Longrightarrow> c \<le> c' \<Longrightarrow> eats src look b c c' (general_assignment K)"
  by (rule eats_any) (simp add: general_assignment_def assign_kind_def)

lemma eats_parse_assignment_expression [simp]:
  "c \<le> Suc D \<Longrightarrow> c \<le> b \<Longrightarrow> c \<le> c' \<Longrightarrow> eats src look b c c' (parse_assignment_expression K)"
  by (rule eats_any) (simp add: parse_assignment_expression_def eats_lookahead eats_restore assign_kind_def)

lemma eats_comma_loop [simp]:
  "c \<le> n \<Longrightarrow> c \<le> Suc D \<Longrightarrow> c \<le> b \<Longrightarrow> c \<le> c' \<Longrightarrow> eats src look b c c' (comma_loop n K x)"
  by (induction n arbitrary: c x look) (simp add: eats_zero, rule eats_any, simp)

lemma eats_parse_expression [simp]:
  "c \<le> Suc D \<Longrightarrow> c \<le> b \<Longrightarrow> c \<le> c' \<Longrightarrow> eats src look b c c' (parse_expression K)"
  by (rule eats_any) (simp add: parse_expression_def)

lemma eats_designated_init [simp]:
  "c \<le> Suc D \<Longrightarrow> c \<le> b \<Longrightarrow> c \<le> Suc c' \<Longrightarrow> eats src look b c c' (designated_init K nm ix)"
  by (rule eats_any) (simp add: designated_init_def)

lemma eats_parse_initializer_element [simp]:
  "c \<le> D \<Longrightarrow> c \<le> b \<Longrightarrow> c \<le> c' \<Longrightarrow> eats src look b c c' (parse_initializer_element K)"
  by (rule eats_any) (simp add: parse_initializer_element_def)

lemma eats_more_elements [simp]:
  "c \<le> n \<Longrightarrow> c \<le> Suc D \<Longrightarrow> c \<le> b \<Longrightarrow> c \<le> c' \<Longrightarrow> eats src look b c c' (more_elements n K x)"
  by (induction n arbitrary: c x look) (simp add: eats_zero, rule eats_any, simp)

lemma eats_parse_initializer [simp]:
  "c \<le> Suc D \<Longrightarrow> c \<le> b \<Longrightarrow> c \<le> c' \<Longrightarrow> eats src look b c c' (parse_initializer K)"
  by (rule eats_any) (simp add: parse_initializer_def)

text \<open>One more level.\<close>

lemma fuelled_tie: "fuelled (tie K) (Suc D)" if "Suc D < k_loop K"
  using that by unfold_locales (simp_all add: tie_def)

subsection \<open>Statements and declarations without statements in them\<close>

lemma eats_opt_expression [simp]:
  "c \<le> Suc D \<Longrightarrow> c \<le> b \<Longrightarrow> c \<le> c' \<Longrightarrow> eats src look b c c' (opt_expression K stop)"
  by (rule eats_any) (simp add: opt_expression_def)

lemma eats_skip_through [simp]:
  "c \<le> n \<Longrightarrow> c \<le> b \<Longrightarrow> c \<le> c' \<Longrightarrow> eats src look b c c' (skip_through n opening closing depth)"
  by (induction n arbitrary: c depth look) (simp add: eats_zero, rule eats_any, simp)

lemma eats_skip_to [simp]:
  "c \<le> n \<Longrightarrow> c \<le> b \<Longrightarrow> c \<le> c' \<Longrightarrow> eats src look b c c' (skip_to n depth)"
  by (induction n arbitrary: c depth look) (simp add: eats_zero, rule eats_any, simp add: Let_def)

lemma eats_asm_statement [simp]:
  "k \<noteq> TOKEN_EOF \<Longrightarrow> c \<le> Suc D \<Longrightarrow> c \<le> b \<Longrightarrow> c \<le> Suc c' \<Longrightarrow> eats src (Some k) b c c' (asm_statement K)"
  by (simp add: asm_statement_def)

lemma eats_typedef_node [simp]:
  "c \<le> b \<Longrightarrow> c \<le> c' \<Longrightarrow> eats src look b c c' (typedef_node nm kd ft)"
  by (rule eats_any) (simp add: typedef_node_def)

lemma eats_typedef_tail [simp]:
  "c \<le> Suc D \<Longrightarrow> c \<le> b \<Longrightarrow> c \<le> c' \<Longrightarrow> eats src look b c c' (typedef_tail K base kd d)"
  by (rule eats_any) (simp add: typedef_tail_def Let_def)

lemma eats_block_typedef [simp]:
  "k \<noteq> TOKEN_EOF \<Longrightarrow> c \<le> Suc D \<Longrightarrow> c \<le> b \<Longrightarrow> c \<le> Suc c' \<Longrightarrow> eats src (Some k) b c c' (block_typedef K)"
  by (simp add: block_typedef_def split_def)

lemma eats_block_function [simp]:
  "c \<le> Suc D \<Longrightarrow> c \<le> b \<Longrightarrow> c \<le> c' \<Longrightarrow> eats src look b c c' (block_function K kd d)"
  by (rule eats_any) (simp add: block_function_def)

lemma eats_local_func_pointer [simp]:
  "c \<le> Suc D \<Longrightarrow> c \<le> b \<Longrightarrow> c \<le> c' \<Longrightarrow> eats src look b c c' (local_func_pointer K base d)"
  by (rule eats_any) (simp add: local_func_pointer_def Let_def)

lemma eats_string_fits [simp]:
  "c \<le> b \<Longrightarrow> c \<le> c' \<Longrightarrow> eats src look b c c' (string_fits sized len x)"
  by (rule eats_any) (simp add: string_fits_def Let_def)

lemma eats_local_array_string [simp]:
  "c \<le> b \<Longrightarrow> c \<le> c' \<Longrightarrow> eats src look b c c' (local_array_string sized len ft)"
  by (rule eats_any) (simp add: local_array_string_def)

lemma eats_local_array_init [simp]:
  "c \<le> Suc D \<Longrightarrow> c \<le> b \<Longrightarrow> c \<le> c' \<Longrightarrow> eats src look b c c' (local_array_init K d ft)"
  by (rule eats_any) (simp add: local_array_init_def)

lemma eats_array_decl [simp]:
  "c \<le> b \<Longrightarrow> c \<le> c' \<Longrightarrow> eats src look b c c' (array_decl d ft decl r)"
  by (rule eats_any) (simp add: array_decl_def Let_def split_def)

lemma eats_local_init [simp]:
  "c \<le> Suc D \<Longrightarrow> c \<le> b \<Longrightarrow> c \<le> c' \<Longrightarrow> eats src look b c c' (local_init K decl)"
  by (rule eats_any) (simp add: local_init_def)

lemma eats_next_local [simp]:
  "k \<noteq> TOKEN_EOF \<Longrightarrow> c \<le> Suc D \<Longrightarrow> c \<le> b \<Longrightarrow> c \<le> Suc c' \<Longrightarrow> eats src (Some k) b c c' (next_local K q base kd)"
  by (simp add: next_local_def Let_def)

lemma eats_local_list:
  assumes item: "\<And>k c c'. k \<noteq> TOKEN_EOF \<Longrightarrow> c \<le> Suc D \<Longrightarrow> c \<le> b \<Longrightarrow> c \<le> Suc c' \<Longrightarrow> eats src (Some k) b c c' item"
  shows "c \<le> n \<Longrightarrow> c \<le> Suc D \<Longrightarrow> c \<le> b \<Longrightarrow> c \<le> c' \<Longrightarrow> eats src None b c c' (local_list n item l)"
  by (induction n arbitrary: c l) (simp add: eats_zero, simp add: item)

lemma eats_finish_decl [simp]:
  assumes "\<And>k c c'. k \<noteq> TOKEN_EOF \<Longrightarrow> c \<le> Suc D \<Longrightarrow> c \<le> b \<Longrightarrow> c \<le> Suc c' \<Longrightarrow> eats src (Some k) b c c' item"
    and "c \<le> Suc D" "c \<le> b" "c \<le> c'"
  shows "eats src look b c c' (finish_decl K item decl)"
  by (rule eats_any) (use assms eats_local_list [of b src item] in \<open>simp add: finish_decl_def\<close>)

lemma eats_local_variable [simp]:
  "c \<le> Suc D \<Longrightarrow> c \<le> b \<Longrightarrow> c \<le> c' \<Longrightarrow> eats src look b c c' (local_variable K q v base kd d)"
  by (rule eats_any) (simp add: local_variable_def Let_def)

lemma eats_local_declaration [simp]:
  "c \<le> Suc D \<Longrightarrow> c \<le> b \<Longrightarrow> c \<le> Suc c' \<Longrightarrow> eats src look b c c' (local_declaration K q v)"
  by (rule eats_any) (simp add: local_declaration_def split_def)

lemma eats_return_statement [simp]:
  "k \<noteq> TOKEN_EOF \<Longrightarrow> c \<le> Suc D \<Longrightarrow> c \<le> b \<Longrightarrow> c \<le> Suc c' \<Longrightarrow> eats src (Some k) b c c' (return_statement K)"
  by (simp add: return_statement_def)

lemma eats_jump_statement [simp]:
  "k \<noteq> TOKEN_EOF \<Longrightarrow> c \<le> b \<Longrightarrow> c \<le> Suc c' \<Longrightarrow> eats src (Some k) b c c' (jump_statement allowed msg ty)"
  by (simp add: jump_statement_def)

lemma eats_expression_statement [simp]:
  "c \<le> Suc D \<Longrightarrow> c \<le> b \<Longrightarrow> c \<le> Suc c' \<Longrightarrow> eats src look b c c' (expression_statement K)"
  by (rule eats_any) (simp add: expression_statement_def)


end

subsection \<open>The knot\<close>

lemma loop_knot_at [simp]: "k_loop (knot_at L n) = L"
  by (induction n) (simp_all add: no_depth_def tie_def)

lemma fuelled_knot: "n < L \<Longrightarrow> fuelled (knot_at L n) n"
proof (induction n)
  case 0
  show ?case by unfold_locales (use 0 in \<open>simp_all add: no_depth_def eats_zero\<close>)
next
  case (Suc n)
  then show ?case using fuelled.fuelled_tie [of "knot_at L n" n] by simp
qed

interpretation knot: fuelled "knot_at (Suc n) n" n for n
  by (rule fuelled_knot) simp

subsection \<open>Statements\<close>

text \<open>The parser for the statements inside a statement.\<close>

locale fuelled_inner = fuelled +
  fixes S :: "ASTNode parser" and N :: nat
  assumes inner [simp]: "c \<le> N \<Longrightarrow> c \<le> Suc D \<Longrightarrow> c \<le> b \<Longrightarrow> c \<le> Suc c' \<Longrightarrow> eats src look b c c' S"
begin

lemma eats_block_loop [simp]:
  "c \<le> n \<Longrightarrow> c \<le> N \<Longrightarrow> c \<le> Suc D \<Longrightarrow> c \<le> b \<Longrightarrow> c \<le> c' \<Longrightarrow> eats src look b c c' (block_loop n S x)"
  by (induction n arbitrary: c x look) (simp add: eats_zero, rule eats_any, simp)

lemma eats_parse_block [simp]:
  "c \<le> Suc N \<Longrightarrow> c \<le> Suc D \<Longrightarrow> c \<le> b \<Longrightarrow> c \<le> Suc c' \<Longrightarrow> eats src look b c c' (parse_block K S)"
  by (rule eats_any) (simp add: parse_block_def eats_modify enter_scope_def parser_leave_scope_def)

lemma eats_parse_if_statement [simp]:
  "c \<le> Suc N \<Longrightarrow> c \<le> Suc D \<Longrightarrow> c \<le> b \<Longrightarrow> c \<le> Suc c' \<Longrightarrow> eats src look b c c' (parse_if_statement K S)"
  by (rule eats_any) (simp add: parse_if_statement_def)

lemma eats_in_loop [simp]:
  "c \<le> N \<Longrightarrow> c \<le> Suc D \<Longrightarrow> c \<le> b \<Longrightarrow> c \<le> c' \<Longrightarrow> eats src look b c c' (in_loop S)"
  by (rule eats_any) (simp add: in_loop_def eats_modify)

lemma eats_parse_while_statement [simp]:
  "c \<le> Suc N \<Longrightarrow> c \<le> Suc D \<Longrightarrow> c \<le> b \<Longrightarrow> c \<le> Suc c' \<Longrightarrow> eats src look b c c' (parse_while_statement K S)"
  by (rule eats_any) (simp add: parse_while_statement_def)

lemma eats_parse_do_while_statement [simp]:
  "c \<le> Suc N \<Longrightarrow> c \<le> Suc D \<Longrightarrow> c \<le> b \<Longrightarrow> c \<le> Suc c' \<Longrightarrow> eats src look b c c' (parse_do_while_statement K S)"
  by (rule eats_any) (simp add: parse_do_while_statement_def)

lemma eats_for_init [simp]:
  "c \<le> N \<Longrightarrow> c \<le> Suc D \<Longrightarrow> c \<le> b \<Longrightarrow> c \<le> c' \<Longrightarrow> eats src look b c c' (for_init K S)"
  by (rule eats_any) (simp add: for_init_def)

lemma eats_parse_for_statement [simp]:
  "c \<le> Suc N \<Longrightarrow> c \<le> Suc D \<Longrightarrow> c \<le> b \<Longrightarrow> c \<le> Suc c' \<Longrightarrow> eats src look b c c' (parse_for_statement K S)"
  by (rule eats_any) (simp add: parse_for_statement_def eats_modify enter_scope_def parser_leave_scope_def)

lemma eats_parse_switch_statement [simp]:
  "c \<le> Suc N \<Longrightarrow> c \<le> Suc D \<Longrightarrow> c \<le> b \<Longrightarrow> c \<le> Suc c' \<Longrightarrow> eats src look b c c' (parse_switch_statement K S)"
  by (rule eats_any) (simp add: parse_switch_statement_def eats_modify)

lemma eats_case_label [simp]:
  "k \<noteq> TOKEN_EOF \<Longrightarrow> c \<le> Suc N \<Longrightarrow> c \<le> Suc D \<Longrightarrow> c \<le> b \<Longrightarrow> c \<le> Suc c' \<Longrightarrow> eats src (Some k) b c c' (case_label K S)"
  by (simp add: case_label_def)

lemma eats_default_label [simp]:
  "k \<noteq> TOKEN_EOF \<Longrightarrow> c \<le> Suc N \<Longrightarrow> c \<le> Suc D \<Longrightarrow> c \<le> b \<Longrightarrow> c \<le> Suc c' \<Longrightarrow> eats src (Some k) b c c' (default_label S)"
  by (simp add: default_label_def)

lemma eats_plain_statement [simp]:
  "c \<le> Suc N \<Longrightarrow> c \<le> Suc D \<Longrightarrow> c \<le> b \<Longrightarrow> c \<le> Suc c' \<Longrightarrow> eats src look b c c' (plain_statement K S)"
  by (rule eats_any) (simp add: plain_statement_def Let_def)

lemma eats_declaration_or_statement [simp]:
  "c \<le> Suc N \<Longrightarrow> c \<le> Suc D \<Longrightarrow> c \<le> b \<Longrightarrow> c \<le> Suc c' \<Longrightarrow> eats src look b c c' (declaration_or_statement K S)"
  by (rule eats_any) (simp add: declaration_or_statement_def split_def)

lemma eats_label_or_statement [simp]:
  "c \<le> Suc N \<Longrightarrow> c \<le> Suc D \<Longrightarrow> c \<le> b \<Longrightarrow> c \<le> Suc c' \<Longrightarrow> eats src look b c c' (label_or_statement K S)"
  by (rule eats_any) (simp add: label_or_statement_def eats_lookahead eats_restore)

lemma eats_statement_with [simp]:
  "c \<le> Suc N \<Longrightarrow> c \<le> Suc D \<Longrightarrow> c \<le> b \<Longrightarrow> c \<le> Suc c' \<Longrightarrow> eats src look b c c' (statement_with K S)"
  by (rule eats_any) (simp add: statement_with_def Let_def asm_keyword_def)


end

text \<open>The recursion on statements, and the rest of the parser, which contains statements.\<close>

context fuelled
begin

lemma eats_parse_statement [simp]:
  "c \<le> n \<Longrightarrow> c \<le> Suc D \<Longrightarrow> c \<le> b \<Longrightarrow> c \<le> Suc c' \<Longrightarrow> eats src look b c c' (parse_statement n K)"
proof (induction n arbitrary: c c' b src look)
  case (Suc n)
  have "fuelled_inner K D (parse_statement n K) n"
    by unfold_locales (rule Suc.IH)
  from fuelled_inner.eats_statement_with [OF this] Suc.prems show ?case by simp
qed (simp add: eats_zero)

lemma fuelled_statement: "fuelled_inner K D (parse_statement n K) n"
  by unfold_locales simp

lemma eats_body [simp]:
  "c \<le> Suc n \<Longrightarrow> c \<le> Suc D \<Longrightarrow> c \<le> b \<Longrightarrow> c \<le> Suc c' \<Longrightarrow> eats src look b c c' (parse_block K (parse_statement n K))"
  by (rule fuelled_inner.eats_parse_block [OF fuelled_statement])

subsection \<open>File scope\<close>

lemma eats_fp_loop:
  assumes "ops TOKEN_EOF = None" and sub: "\<And>d. d < e \<Longrightarrow> d \<le> b \<Longrightarrow> eats src None b d d sub"
  shows "c \<le> n \<Longrightarrow> c \<le> e \<Longrightarrow> c \<le> b \<Longrightarrow> c \<le> c' \<Longrightarrow> eats src None b c c' (fp_loop n ops sub v)"
proof (induction n arbitrary: c v)
  case (Suc n)
  have "k \<noteq> TOKEN_EOF" if "ops k = Some g" for k g using that assms(1) by auto
  with Suc sub show ?case by simp
qed (simp add: eats_zero)

lemma eats_fp_levels:
  assumes sub: "\<And>d. d \<le> c \<Longrightarrow> d \<le> b \<Longrightarrow> eats src None b d d sub" and le: "c \<le> n" "c \<le> b" "c \<le> c'"
  shows "eats src None b c c' (fp_sum F n (eval_fp_mult F n sub))"
proof -
  have mult: "eats src None b d d (eval_fp_mult F n sub)" if "d \<le> c" for d
    using that sub le eats_fp_loop [of _ d b src sub] by (simp add: eval_fp_mult_def)
  then show ?thesis using le eats_fp_loop [of _ c b src "eval_fp_mult F n sub"] by (simp add: fp_sum_def)
qed

lemma eats_fp_unary_at:
  "c \<le> n \<Longrightarrow> c \<le> l \<Longrightarrow> c \<le> b \<Longrightarrow> c \<le> c' \<Longrightarrow> eats src look b c c' (fp_unary_at F l n ctx)"
proof (induction n arbitrary: c c' look)
  case (Suc n)
  have "eats src None b d d (fp_sum F l (eval_fp_mult F l (fp_unary_at F l n ctx)))" if "d < c" for d
    using that Suc by (intro eats_fp_levels) simp_all
  with Suc show ?case by - (rule eats_any, simp add: eval_fp_unary_def eval_fp_primary_def Let_def)
qed (simp add: eats_zero)

lemma eats_eval_fp [simp]:
  "c \<le> l \<Longrightarrow> c \<le> n \<Longrightarrow> c \<le> b \<Longrightarrow> c \<le> c' \<Longrightarrow> eats src look b c c' (eval_fp_const_expr F l n ctx)"
  by (rule eats_any) (simp add: eval_fp_const_expr_def eats_fp_levels eats_fp_unary_at)

lemma eats_pointer_param [simp]:
  "c \<le> b \<Longrightarrow> c \<le> c' \<Longrightarrow> eats src look b c c' (pointer_param nm t)"
  by (rule eats_any) (simp add: pointer_param_def)

lemma eats_element_pointer [simp]:
  "c \<le> b \<Longrightarrow> c \<le> c' \<Longrightarrow> eats src look b c c' (element_pointer base)"
  by (rule eats_any) (simp add: element_pointer_def)

lemma eats_unnamed_param [simp]:
  "c \<le> b \<Longrightarrow> c \<le> c' \<Longrightarrow> eats src look b c c' (unnamed_param base kd)"
  by (rule eats_any) (simp add: unnamed_param_def)

lemma eats_leading_stars [simp]:
  "c \<le> n \<Longrightarrow> c \<le> fuel \<Longrightarrow> c \<le> b \<Longrightarrow> c \<le> c' \<Longrightarrow> eats src look b c c' (leading_stars fuel n st)"
  by (induction n arbitrary: c st look) (simp add: eats_zero, rule eats_any, simp)

lemma eats_skip_dims [simp]:
  "c \<le> n \<Longrightarrow> c \<le> fuel \<Longrightarrow> c \<le> b \<Longrightarrow> c \<le> c' \<Longrightarrow> eats src look b c c' (skip_dims fuel n)"
  by (induction n arbitrary: c look) (simp add: eats_zero, rule eats_any, simp)

lemma eats_function_param [simp]:
  "c \<le> Suc D \<Longrightarrow> c \<le> b \<Longrightarrow> c \<le> c' \<Longrightarrow> eats src look b c c' (function_param K base x)"
  by (rule eats_any) (simp add: function_param_def)

lemma eats_object_param [simp]:
  "c \<le> b \<Longrightarrow> c \<le> c' \<Longrightarrow> eats src look b c c' (object_param base kd d x)"
  by (rule eats_any) (simp add: object_param_def Let_def)

lemma eats_named_param [simp]:
  "c \<le> Suc D \<Longrightarrow> c \<le> b \<Longrightarrow> c \<le> c' \<Longrightarrow> eats src look b c c' (named_param K base kd st)"
  by (rule eats_any) (simp add: named_param_def Let_def)

lemma eats_parse_parameter_declaration [simp]:
  "c \<le> Suc D \<Longrightarrow> c \<le> b \<Longrightarrow> c \<le> Suc c' \<Longrightarrow> eats src look b c c' (parse_parameter_declaration K)"
  by (rule eats_any) (simp add: parse_parameter_declaration_def split_def qualifier_kind_def)

lemma eats_more_params [simp]:
  "c \<le> n \<Longrightarrow> c \<le> Suc D \<Longrightarrow> c \<le> b \<Longrightarrow> c \<le> c' \<Longrightarrow> eats src look b c c' (more_params n K func)"
  by (induction n arbitrary: c func look) (simp add: eats_zero, rule eats_any, simp add: Let_def)

lemma eats_parse_parameter_list [simp]:
  "c \<le> Suc D \<Longrightarrow> c \<le> b \<Longrightarrow> c \<le> c' \<Longrightarrow> eats src look b c c' (parse_parameter_list K func)"
  by (rule eats_any) (simp add: parse_parameter_list_def)

lemma eats_specifier_loop [simp]:
  "c \<le> n \<Longrightarrow> c \<le> Suc D \<Longrightarrow> c \<le> b \<Longrightarrow> c \<le> c' \<Longrightarrow> eats src look b c c' (specifier_loop n K has r)"
  by (induction n arbitrary: c has r look) (simp add: eats_zero, rule eats_any, simp add: Let_def)

lemma eats_parse_declaration_specifiers [simp]:
  "c \<le> Suc D \<Longrightarrow> c \<le> b \<Longrightarrow> c \<le> c' \<Longrightarrow> eats src look b c c' (parse_declaration_specifiers K)"
  by (rule eats_any) (simp add: parse_declaration_specifiers_def split_def)

lemma eats_function_body [simp]:
  "c \<le> Suc n \<Longrightarrow> c \<le> Suc D \<Longrightarrow> c \<le> b \<Longrightarrow> c \<le> c' \<Longrightarrow> eats src look b c c' (function_body K (parse_statement n K) var nm)"
  by (rule eats_any) (simp add: function_body_def split_def eats_modify)

lemma eats_unnamed_error [simp]:
  "c \<le> b \<Longrightarrow> c \<le> c' \<Longrightarrow> eats src look b c c' (unnamed_error nm)"
  by (rule eats_any) (simp add: unnamed_error_def)

lemma eats_own_param [simp]:
  "c \<le> b \<Longrightarrow> c \<le> c' \<Longrightarrow> eats src look b c c' (own_param t func)"
  by (rule eats_any) (simp add: own_param_def)

lemma eats_own_params [simp]: "c \<le> b \<Longrightarrow> c \<le> c' \<Longrightarrow> eats src look b c c' (own_params ts func)"
  by (induction ts arbitrary: func look) simp_all

lemma eats_end_function [simp]:
  "c \<le> Suc n \<Longrightarrow> c \<le> Suc D \<Longrightarrow> c \<le> b \<Longrightarrow> c \<le> c' \<Longrightarrow> eats src look b c c' (end_function K (parse_statement n K) df var nm func)"
  by (rule eats_any) (simp add: end_function_def)

lemma eats_fp_function [simp]:
  "c \<le> Suc n \<Longrightarrow> c \<le> Suc D \<Longrightarrow> c \<le> b \<Longrightarrow> c \<le> c' \<Longrightarrow> eats src look b c c' (fp_function K (parse_statement n K) sto base d)"
  by (rule eats_any) (simp add: fp_function_def Let_def)

lemma eats_function_params [simp]:
  "c \<le> Suc D \<Longrightarrow> c \<le> b \<Longrightarrow> c \<le> c' \<Longrightarrow> eats src look b c c' (function_params K func)"
  by (rule eats_any) (simp add: function_params_def split_def)

lemma eats_register_and_end [simp]:
  "c \<le> Suc n \<Longrightarrow> c \<le> Suc D \<Longrightarrow> c \<le> b \<Longrightarrow> c \<le> c' \<Longrightarrow> eats src look b c c' (register_and_end K (parse_statement n K) sto kd nm np func)"
  by (rule eats_any) (simp add: register_and_end_def Let_def)

lemma eats_function_declaration [simp]:
  "c \<le> Suc n \<Longrightarrow> c \<le> Suc D \<Longrightarrow> c \<le> b \<Longrightarrow> c \<le> c' \<Longrightarrow> eats src look b c c' (function_declaration K (parse_statement n K) sto base kd d)"
  by (rule eats_any) (simp add: function_declaration_def Let_def split_def)

lemma eats_reject_function [simp]:
  "c \<le> b \<Longrightarrow> c \<le> c' \<Longrightarrow> eats src look b c c' (reject_function nm)"
  by (rule eats_any) (simp add: reject_function_def)

lemma eats_reject_extern_init [simp]:
  "c \<le> b \<Longrightarrow> c \<le> c' \<Longrightarrow> eats src look b c c' (reject_extern_init sto nm)"
  by (rule eats_any) (simp add: reject_extern_init_def)

lemma eats_fp_initializer [simp]:
  "c \<le> b \<Longrightarrow> c \<le> c' \<Longrightarrow> eats src look b c c' (fp_initializer nm t decl)"
  by (rule eats_any) (simp add: fp_initializer_def split: option.split prod.split)

lemma eats_fp_object [simp]:
  "c \<le> b \<Longrightarrow> c \<le> c' \<Longrightarrow> eats src look b c c' (fp_object sto base d)"
  by (rule eats_any) (simp add: fp_object_def Let_def)

lemma eats_file_array_string [simp]:
  "c \<le> b \<Longrightarrow> c \<le> c' \<Longrightarrow> eats src look b c c' (file_array_string sized len ft)"
  by (rule eats_any) (simp add: file_array_string_def)

lemma eats_file_array_init [simp]:
  "c \<le> Suc D \<Longrightarrow> c \<le> b \<Longrightarrow> c \<le> c' \<Longrightarrow> eats src look b c c' (file_array_init K sto d ft)"
  by (rule eats_any) (simp add: file_array_init_def)

lemma eats_int_initializer [simp]:
  "c \<le> b \<Longrightarrow> c \<le> c' \<Longrightarrow> eats src look b c c' (int_initializer v)"
  by (rule eats_any) (simp add: int_initializer_def)

lemma eats_non_constant [simp]:
  "c \<le> b \<Longrightarrow> c \<le> c' \<Longrightarrow> eats src look b c c' (non_constant nm)"
  by (rule eats_any) (simp add: non_constant_def)

lemma eats_file_init [simp]:
  "c \<le> n \<Longrightarrow> c \<le> Suc D \<Longrightarrow> c \<le> b \<Longrightarrow> c \<le> c' \<Longrightarrow> eats src look b c c' (file_init F n K kd nm)"
  by (rule eats_any) (simp add: file_init_def)

lemma eats_next_object [simp]:
  "k \<noteq> TOKEN_EOF \<Longrightarrow> c \<le> Suc D \<Longrightarrow> c \<le> b \<Longrightarrow> c \<le> Suc c' \<Longrightarrow> eats src (Some k) b c c' (next_object K sto q v base kd)"
  by (simp add: next_object_def split del: if_split)

lemma eats_object_declaration [simp]:
  "c \<le> n \<Longrightarrow> c \<le> Suc D \<Longrightarrow> c \<le> b \<Longrightarrow> c \<le> c' \<Longrightarrow> eats src look b c c' (object_declaration F n K sto q v base kd d)"
  by (rule eats_any) (simp add: object_declaration_def split del: if_split)

lemma eats_external_declarator [simp]:
  "c \<le> n \<Longrightarrow> c \<le> Suc D \<Longrightarrow> c \<le> b \<Longrightarrow> c \<le> c' \<Longrightarrow> eats src look b c c' (external_declarator F n K sto q v base kd d)"
  by (rule eats_any) (simp add: external_declarator_def)

lemma eats_parse_external_declaration [simp]:
  "c \<le> n \<Longrightarrow> c \<le> Suc D \<Longrightarrow> c \<le> b \<Longrightarrow> c \<le> Suc c' \<Longrightarrow> eats src look b c c' (parse_external_declaration F n K)"
  by (rule eats_any) (simp add: parse_external_declaration_def split_def)

lemma eats_sync_loop [simp]:
  "c \<le> n \<Longrightarrow> c \<le> b \<Longrightarrow> c \<le> c' \<Longrightarrow> eats src look b c c' (sync_loop n depth)"
  by (induction n arbitrary: c depth look) (simp add: eats_zero, rule eats_any, simp)

lemma eats_parser_sync:
  "k \<noteq> TOKEN_EOF \<Longrightarrow> c \<le> n \<Longrightarrow> c \<le> b \<Longrightarrow> c \<le> Suc c' \<Longrightarrow> eats src (Some k) b c c' (parser_sync n)"
  by (cases n) (simp_all add: parser_sync_def eats_zero)

end

interpretation statement: fuelled_inner "knot_at (Suc n) n" n "parse_statement m (knot_at (Suc n) n)" m for n m
  by (rule knot.fuelled_statement)

subsection \<open>The translation unit\<close>

text \<open>What a program does from one state, read off its triple.\<close>

lemma eats_run:
  assumes "eats src look b c c' m" "within src c p" "seen look p"
  shows "m p = Inr (x, p') \<Longrightarrow> within src c' p'" "m p = Inl (e, p') \<Longrightarrow> e \<noteq> OutOfFuel \<and> within src b p'"
  using assms by (auto simp: eats_def)

text \<open>Recovery: the state behind it is at the end, or closer to it.\<close>

lemma sync_run:
  assumes "within src c p" "c \<le> n"
  shows "case parser_sync n p of Inl (e, _) \<Rightarrow> e \<noteq> OutOfFuel | Inr (_, q) \<Rightarrow> within src (max 1 (c - 1)) q"
proof (cases "tk_type (current p) = TOKEN_EOF")
  case True
  moreover have "0 < n" using assms by (cases n) (simp_all add: within_def snap_def)
  ultimately have "parser_sync n p = Inr ((), p)" by (cases n) (simp_all add: parser_sync_def on_kind_def ret_def)
  moreover have "within src 1 p" using assms(1) True by (simp add: within_def snap_def ahead_def)
  ultimately show ?thesis using within_mono [of src 1 p] by simp
next
  case False
  from eats_run [OF knot.eats_parser_sync [OF this assms(2) order_refl, of "c - 1"] assms(1)] within_mono show ?thesis
    by (fastforce simp: seen_def split: sum.split)
qed

lemma unit_loop_ends:
  assumes ext: "\<And>c. c \<le> L \<Longrightarrow> eats src None c c (c - 1) ext"
  shows "within src c p \<Longrightarrow> c \<le> n \<Longrightarrow> c \<le> L \<Longrightarrow>
    (case unit_loop n L ext u p st of Parsed _ q _ \<Rightarrow> tk_type (current q) = TOKEN_EOF | Ended _ \<Rightarrow> True | Broken e \<Rightarrow> e \<noteq> OutOfFuel)"
proof (induction n arbitrary: c u p st)
  case 0
  then show ?case by (simp add: within_def snap_def)
next
  case (Suc n)
  show ?case
  proof (cases "tk_type (current p) = TOKEN_EOF")
    case False
    have two: "2 \<le> c" using Suc.prems(1) False by (simp add: within_def snap_def ahead_def)
    note run = eats_run [OF ext [OF Suc.prems(3)] Suc.prems(1)]
    show ?thesis
    proof (cases "ext p")
      case (Inr r)
      obtain d q where r: "r = (d, q)" by (cases r)
      from run(1) [of d q] Inr r have "within src (c - 1) q" by (simp add: seen_def)
      from Suc.IH [OF this] Suc.prems two False Inr r show ?thesis by simp
    next
      case (Inl r)
      obtain e q where r: "r = (e, q)" by (cases r)
      from run(2) [of e q] Inl r have e: "e \<noteq> OutOfFuel" and q: "within src c q" by (simp_all add: seen_def)
      from q have "within src c (q\<lparr>scope_depth := 0\<rparr>)" by (simp add: within_def)
      note sync = sync_run [OF this Suc.prems(3)]
      have "max 1 (c - 1) \<le> n" "max 1 (c - 1) \<le> L" using Suc.prems two by simp_all
      with Suc.IH [OF _ this] sync e False Inl r show ?thesis
        by (cases e) (auto split: control.split sum.splits prod.splits)
    qed
  qed simp
qed

lemma source_init [simp]: "source (lexer_init src name) = src"
  by (simp add: lexer_init_def lexer_intern_file_def Let_def case_prod_unfold split: option.split)

lemma translation_unit_ends:
  assumes "within src (Suc n) p"
  shows "case parse_translation_unit F n p st of
     Parsed _ q _ \<Rightarrow> tk_type (current q) = TOKEN_EOF | Ended _ \<Rightarrow> True | Broken e \<Rightarrow> e \<noteq> OutOfFuel"
proof -
  have "eats src None c c (c - 1) (parse_external_declaration F (Suc n) (knot_at (Suc n) n))" if "c \<le> Suc n" for c
    using that by (simp add: knot.eats_parse_external_declaration)
  from unit_loop_ends [OF this assms order_refl order_refl] show ?thesis
    by (simp add: parse_translation_unit_def parser_node_def gets_def del: unit_loop.simps)
qed

lemma parser_init_within:
  assumes "parser_init (lexer_init src name) = Inr p"
  shows "within src (Suc (Suc (length src))) p"
proof (cases "lexer_next_token (lexer_init src name)")
  case (Inr r)
  obtain t lx where r: "r = (t, lx)" by (cases r)
  from next_token_snap [OF Inr [unfolded r]] have "snap src (Suc (Suc (length src))) (pos lx, t)"
    "source lx = src" by (auto simp: snap_def ahead_def cur_def)
  with assms Inr r show ?thesis by (auto simp: parser_init_def within_def)
qed (use assms in \<open>simp add: parser_init_def\<close>)

text \<open>
  (C5) The front end returns on every source: the bounds of the model are never met. It gives a
  tree, and then the parser stands at the end of the source, or the error report ends the process, or the
  lexer or a fault does.
\<close>

theorem front_end_ends:
  "case front_end F src name st of
     Parsed u p st' \<Rightarrow> tk_type (current p) = TOKEN_EOF
   | Ended st' \<Rightarrow> True
   | Broken e \<Rightarrow> e \<noteq> OutOfFuel"
proof (cases "parser_init (lexer_init src name)")
  case (Inr p)
  from translation_unit_ends [OF parser_init_within [OF Inr], where F = F] Inr show ?thesis by (simp add: front_end_def)
qed (simp add: front_end_def)

end
