(* ===== verification/Parser_Words.thy ===== *)
theory Parser_Words
  imports Parser_Term Lexer_Tokens
begin

section \<open>Programs on sources given as words\<close>

text \<open>
  To say what the parser does with a source, the source is given as a list of words, printed with
  a blank in front of each. The state of the parser then is known from the words that are left, also after
  it looked ahead and went back. \<open>parses m A ws vs\<close> says that \<open>m\<close> reads the words of \<open>ws\<close> up to \<open>vs\<close> and returns a value
  with the property \<open>A\<close>, unless the bounds of the model are too small, which \<open>Parser_Term\<close> rules out.
\<close>

subsection \<open>Words\<close>

datatype word = Pun Punctuator | Id string | Num nat

fun word_text :: "word \<Rightarrow> string" where
  "word_text (Pun k) = punct_text k"
| "word_text (Id s) = s"
| "word_text (Num n) = show_nat n"

definition name_ok :: "string \<Rightarrow> bool" where
  "name_ok s \<longleftrightarrow> s \<noteq> [] \<and> ident_start (hd s) \<and> list_all ident_char s \<and> map_of reserved_words s = None"

fun word_ok :: "word \<Rightarrow> bool" where
  "word_ok (Pun k) \<longleftrightarrow> True"
| "word_ok (Id s) \<longleftrightarrow> name_ok s"
| "word_ok (Num n) \<longleftrightarrow> int n \<le> LONG_MAX"

definition print :: "word list \<Rightarrow> string" where
  "print ws = concat (map (\<lambda>w. CHR '' '' # word_text w) ws)"

lemma print_simps [simp]: "print [] = []" "print (w # ws) = CHR '' '' # word_text w @ print ws"
  by (simp_all add: print_def)

text \<open>The token of a word, up to its position.\<close>

fun matches :: "Token \<Rightarrow> word \<Rightarrow> bool" where
  "matches t (Pun k) \<longleftrightarrow> tk_type t = PunctToken k \<and> tk_value t = punct_text k"
| "matches t (Id s) \<longleftrightarrow> tk_type t = TOKEN_IDENTIFIER \<and> tk_value t = s"
| "matches t (Num n) \<longleftrightarrow> tk_type t = TOKEN_INT_LITERAL \<and> tk_value t = show_nat n \<and> long_value t = int n"

fun kind_of :: "word \<Rightarrow> TokenType" where
  "kind_of (Pun k) = PunctToken k"
| "kind_of (Id s) = TOKEN_IDENTIFIER"
| "kind_of (Num n) = TOKEN_INT_LITERAL"

lemma matches_kind: "matches t w \<Longrightarrow> tk_type t = kind_of w"
  by (cases w) simp_all

subsection \<open>Reading a word\<close>

lemma c_at_print: "c_at (print ws) 0 = (if ws = [] then NUL else CHR '' '')"
  by (cases ws) simp_all

lemma word_first: "word_ok w \<Longrightarrow> \<exists>c u. word_text w = c # u \<and> c \<noteq> NUL \<and> c \<noteq> SOH \<and> \<not> is_space c"
proof (cases w)
  case (Pun k)
  then show ?thesis by (cases k) (auto simp: ctypes)
next
  case (Id s)
  assume "word_ok w"
  with Id have "s \<noteq> []" "ident_start (hd s)" by (simp_all add: name_ok_def)
  then show ?thesis using Id by (cases s) (auto simp: ctypes)
next
  case (Num n)
  have "is_digit (c_at (show_nat n) 0)" by (rule show_nat_c_at_0)
  with Num show_nat_not_Nil [of n] show ?thesis by (cases "show_nat n") (auto simp: ctypes)
qed

lemma skip_to_word:
  assumes "rest lx = CHR '' '' # c # u" "c \<noteq> NUL" "c \<noteq> SOH" "\<not> is_space c"
  shows "rest (lexer_skip_whitespace lx) = c # u"
proof -
  have "rest (lexer_advance lx) = c # u" using assms(1) by (simp add: rest_advance)
  moreover from this have "lexer_skip_whitespace (lexer_advance lx) = lexer_advance lx"
    using assms by (subst lexer_skip_whitespace.simps) (simp add: cur_rest)
  moreover have "lexer_skip_whitespace lx = lexer_skip_whitespace (lexer_advance lx)"
    using assms(1) by (subst lexer_skip_whitespace.simps) (simp add: cur_rest ctypes)
  ultimately show ?thesis by simp
qed

lemma lex_word:
  assumes "word_ok w" "rest lx = word_text w @ print ws" "tk_value t = []" "\<not> tk_unsigned t"
  shows "\<exists>t' lx'. lex_at t lx = Inr (t', lx') \<and> matches t' w \<and> rest lx' = print ws"
proof (cases w)
  case (Pun k)
  have "munch (cur lx) (peek lx 1) (peek lx 2) = Some (PunctToken k, punct_text k) \<and>
      \<not> (cur lx = CHR ''.'' \<and> is_digit (peek lx 1))"
    using assms(2) Pun c_at_print [of ws]
    by (cases k; cases ws) (simp_all add: cur_rest peek_rest munch_def single_punct_def arith_punct_def relational_punct_def ctypes)
  with lex_at_munch have "lex_at t lx = lex_fixed t lx (PunctToken k, punct_text k)" by blast
  then show ?thesis using assms(2) Pun by (simp add: lex_fixed_def with_text_def rest_advance_by)
next
  case (Id s)
  with assms(1) have s: "s \<noteq> []" "ident_start (hd s)" "list_all ident_char s" "map_of reserved_words s = None"
    by (simp_all add: name_ok_def)
  have "\<not> ident_char (c_at (print ws) 0)" "c_at (print ws) 0 \<noteq> QUOTE" by (simp_all add: c_at_print ctypes)
  from identifier_read [OF _ s(1-3) this, of lx t] assms(2) Id s(4) show ?thesis by (auto simp: with_text_def)
next
  case (Num n)
  have n: "n \<le> nat LONG_MAX" "n < 10 ^ 62" "n \<le> ULONG_MAX" "wrap64 (int n) = int n"
    using assms(1) Num by (auto simp: long_defs ULONG_MAX_def in_long_def)
  have "c_at (print ws) 0 \<notin> {CHR ''.'', CHR ''e'', CHR ''E'', CHR ''x'', CHR ''X''}" "\<not> is_suffix (c_at (print ws) 0)"
    "\<not> is_digit (c_at (print ws) 0)" by (simp_all add: c_at_print is_suffix_def ctypes)
  with decimal_literal_read [of lx n "[]" "print ws" t] assms(2) Num n show ?thesis
    by (simp add: l_count_def has_unsigned_def with_text_def rest_advance_by)
qed

lemma read_word:
  assumes "word_ok w" "rest lx = print (w # ws)"
  shows "\<exists>t lx'. lexer_next_token lx = Inr (t, lx') \<and> matches t w \<and> rest lx' = print ws"
proof -
  obtain c u where c: "word_text w = c # u" "c \<noteq> NUL" "c \<noteq> SOH" "\<not> is_space c" using word_first [OF assms(1)] by blast
  have "rest (lexer_skip_whitespace lx) = word_text w @ print ws" using skip_to_word c assms(2) by simp
  from lex_word [OF assms(1) this, of "token_set_pos (lexer_skip_whitespace lx)"] show ?thesis
    by (simp add: lexer_next_token_def token_set_pos_def Let_def)
qed

lemma read_end:
  assumes "rest lx = []"
  shows "lexer_next_token lx = Inr (token_set_pos lx, lx)"
  using assms by (intro next_token_at_end) (simp add: cur_rest)

subsection \<open>The state of the parser, by the words that are left\<close>

text \<open>The current token is the first word; the lexer stands behind it. Nothing has been declared.\<close>

definition kind :: "word list \<Rightarrow> TokenType" where
  "kind ws = (case ws of [] \<Rightarrow> TOKEN_EOF | w # _ \<Rightarrow> kind_of w)"

definition heads :: "Token \<Rightarrow> word list \<Rightarrow> bool" where
  "heads t ws \<longleftrightarrow> (case ws of [] \<Rightarrow> tk_type t = TOKEN_EOF | w # _ \<Rightarrow> matches t w)"

definition mark :: "string \<Rightarrow> nat \<times> Token \<Rightarrow> word list \<Rightarrow> bool" where
  "mark src s ws \<longleftrightarrow> heads (snd s) ws \<and> drop (fst s) src = print (tl ws) \<and> list_all word_ok ws"

definition fresh :: "Parser \<Rightarrow> bool" where
  "fresh p \<longleftrightarrow> typedefs p = [] \<and> enum_consts p = [] \<and> funcs p = []"

definition feeds :: "string \<Rightarrow> Parser \<Rightarrow> word list \<Rightarrow> bool" where
  "feeds src p ws \<longleftrightarrow> source (lexer p) = src \<and> mark src (pos (lexer p), current p) ws \<and> fresh p"

definition parses :: "string \<Rightarrow> 'a parser \<Rightarrow> ('a \<Rightarrow> bool) \<Rightarrow> word list \<Rightarrow> word list \<Rightarrow> bool" where
  "parses src m A ws vs \<longleftrightarrow> (\<forall>p. feeds src p ws \<longrightarrow>
     (case m p of Inl (e, _) \<Rightarrow> e = OutOfFuel | Inr (x, q) \<Rightarrow> A x \<and> feeds src q vs))"

lemma kind_simps [simp]: "kind [] = TOKEN_EOF" "kind (w # ws) = kind_of w"
  by (simp_all add: kind_def)

lemma heads_Cons [simp]: "heads t (w # ws) \<longleftrightarrow> matches t w"
  by (simp add: heads_def)

lemma heads_kind: "heads t ws \<Longrightarrow> tk_type t = kind ws"
  by (auto simp: heads_def kind_def matches_kind split: list.splits)

lemma feeds_kind: "feeds src p ws \<Longrightarrow> tk_type (current p) = kind ws"
  by (auto simp: feeds_def mark_def heads_kind)

lemma advance_feeds:
  assumes "feeds src p (w # ws)"
  shows "\<exists>q. advance p = Inr ((), q) \<and> feeds src q ws"
proof -
  have f: "rest (lexer p) = print ws" "source (lexer p) = src" "list_all word_ok ws" "fresh p"
    using assms by (auto simp: feeds_def mark_def rest_def)
  have "\<exists>t lx. lexer_next_token (lexer p) = Inr (t, lx) \<and> heads t ws \<and> rest lx = print (tl ws)"
  proof (cases ws)
    case Nil
    with f read_end [of "lexer p"] show ?thesis by (simp add: heads_def token_set_pos_def)
  next
    case (Cons v vs)
    with f read_word [of v "lexer p" vs] show ?thesis by simp
  qed
  then obtain t lx where t: "lexer_next_token (lexer p) = Inr (t, lx)" "heads t ws" "rest lx = print (tl ws)" by blast
  moreover have "source lx = src" using next_token_snap(1) [OF t(1)] f(2) by simp
  ultimately show ?thesis
    using f by (auto simp: advance_def feeds_def mark_def rest_def fresh_def)
qed

subsection \<open>Rules\<close>

lemma parses_ret [simp]: "A x \<Longrightarrow> parses src (ret x) A ws ws"
  by (simp add: parses_def ret_def)

lemma parses_fuel [simp]: "parses src (raise OutOfFuel) A ws vs"
  by (simp add: parses_def raise_def)

lemma parses_weaken: "parses src m A ws vs \<Longrightarrow> (\<And>x. A x \<Longrightarrow> B x) \<Longrightarrow> parses src m B ws vs"
  unfolding parses_def by (fastforce split: sum.splits)

lemma parses_seq:
  "parses src m A ws vs \<Longrightarrow> (\<And>x. A x \<Longrightarrow> parses src (f x) B vs us) \<Longrightarrow> parses src (seq m f) B ws us"
  unfolding parses_def seq_def by (fastforce split: sum.splits)

lemma parses_before:
  "parses src m A ws vs \<Longrightarrow> parses src k B vs us \<Longrightarrow> parses src (before m k) B ws us"
  unfolding before_def by (rule parses_seq)

lemma parses_on_kind [simp]: "parses src (on_kind f) A ws vs \<longleftrightarrow> parses src (f (kind ws)) A ws vs"
  by (auto simp: parses_def on_kind_def feeds_kind)

lemma parses_on_token: "(\<And>t. heads t ws \<Longrightarrow> parses src (f t) A ws vs) \<Longrightarrow> parses src (on_token f) A ws vs"
  by (auto simp: parses_def on_token_def feeds_def mark_def)

lemma parses_on_state:
  "(\<And>p. fresh p \<Longrightarrow> tk_type (current p) = kind ws \<Longrightarrow> parses src (f p) A ws vs) \<Longrightarrow> parses src (on_state f) A ws vs"
  unfolding parses_def on_state_def by (metis feeds_def feeds_kind)

lemma parses_advance: "parses src advance (\<lambda>_. True) (w # ws) ws"
  unfolding parses_def using advance_feeds by (metis (no_types, lifting) case_prod_conv sum.case(2))

lemma parses_before_advance [simp]: "parses src k A ws vs \<Longrightarrow> parses src (before advance k) A (w # ws) vs"
  by (rule parses_before [OF parses_advance])

lemma parses_expect: "kind_of w = ty \<Longrightarrow> parses src (parser_expect ty) (\<lambda>t. matches t w) (w # ws) ws"
  unfolding parser_expect_def by (rule parses_on_token) (simp add: matches_kind)

lemma parses_before_expect [simp]:
  "kind_of w = ty \<Longrightarrow> parses src k A ws vs \<Longrightarrow> parses src (before (parser_expect ty) k) A (w # ws) vs"
  by (rule parses_before [OF parses_expect])

lemma parses_save:
  "(\<And>s. mark src s ws \<Longrightarrow> parses src (f s) A ws vs) \<Longrightarrow> parses src (seq save f) A ws vs"
  by (auto simp: parses_def seq_def save_def gets_def feeds_def)

lemma parses_restore:
  "mark src s us \<Longrightarrow> parses src k A us vs \<Longrightarrow> parses src (before (restore s) k) A ws vs"
  by (auto simp: parses_def before_def seq_def restore_def modify_def feeds_def fresh_def)

text \<open>No word starts a type name as long as nothing has been declared.\<close>

lemma kind_not_keyword [simp]: "kind ws \<noteq> KeywordToken k"
  by (cases ws) (simp, case_tac a, simp_all)

lemma not_type_name: "fresh p \<Longrightarrow> tk_type (current p) = kind ws \<Longrightarrow> \<not> type_name_start p \<and> \<not> const_cast_start p"
  by (simp add: type_name_start_def const_cast_start_def arith_type_kind_def typedef_here_def parser_find_typedef_def fresh_def)

subsection \<open>Levels of binary operators\<close>

text \<open>
  The ladder of a precedence grammar: \<open>sub k\<close> reads operands with \<open>sub (Suc k)\<close> and joins them from the left
  in a loop as long as an operator of level \<open>k\<close> follows. \<open>means\<close> relates a value to its meaning. The
  parser of expressions, that of comma expressions and the evaluator of constant expressions are such ladders.
\<close>

locale op_levels =
  fixes sub :: "nat \<Rightarrow> 'a parser" and loop :: "nat \<Rightarrow> nat \<Rightarrow> 'a \<Rightarrow> 'a parser" and height bound :: nat
    and oper :: "nat \<Rightarrow> TokenType \<Rightarrow> bool" and means :: "'b \<Rightarrow> 'a \<Rightarrow> bool" and join :: "Punctuator \<Rightarrow> 'b \<Rightarrow> 'b \<Rightarrow> 'b option"
  assumes ladder: "k < height \<Longrightarrow> sub k = seq (sub (Suc k)) (loop k bound)"
    and loop_none: "parses src (loop k 0 x) A ws vs"
    and loop_stop: "\<not> oper k (kind ws) \<Longrightarrow> A x \<Longrightarrow> parses src (loop k (Suc n) x) A ws ws"
    and loop_step: "k < height \<Longrightarrow> oper k (PunctToken c) \<Longrightarrow> means a x \<Longrightarrow> join c a b = Some r \<Longrightarrow>
      parses src (sub (Suc k)) (means b) ws vs \<Longrightarrow> (\<And>y. means r y \<Longrightarrow> parses src (loop k n y) A vs us) \<Longrightarrow>
      parses src (loop k (Suc n) x) A (Pun c # ws) us"
begin

text \<open>Reading \<open>ws\<close> at level \<open>k\<close> comes to the loop with the meaning \<open>a\<close> and the words \<open>vs\<close> left.\<close>

definition enters :: "string \<Rightarrow> nat \<Rightarrow> 'b \<Rightarrow> word list \<Rightarrow> word list \<Rightarrow> bool" where
  "enters src k a ws vs \<longleftrightarrow>
     (\<forall>A us. (\<forall>n x. means a x \<longrightarrow> parses src (loop k n x) A vs us) \<longrightarrow> parses src (sub k) A ws us)"

lemma enters_start: "k < height \<Longrightarrow> parses src (sub (Suc k)) (means a) ws vs \<Longrightarrow> enters src k a ws vs"
  unfolding enters_def by (auto simp: ladder intro: parses_seq)

lemma enters_step:
  assumes "k < height" "enters src k a ws (Pun c # vs)" "oper k (PunctToken c)" "join c a b = Some r"
    "parses src (sub (Suc k)) (means b) vs us"
  shows "enters src k r ws us"
  unfolding enters_def
proof (intro allI impI)
  fix A zs
  assume "\<forall>n x. means r x \<longrightarrow> parses src (loop k n x) A us zs"
  then have "parses src (loop k n x) A (Pun c # vs) zs" if "means a x" for n x
    using loop_step [OF assms(1,3) that assms(4,5)] loop_none by (cases n) auto
  with assms(2) show "parses src (sub k) A ws zs" unfolding enters_def by blast
qed

lemma enters_end: "enters src k a ws vs \<Longrightarrow> \<not> oper k (kind vs) \<Longrightarrow> parses src (sub k) (means a) ws vs"
proof -
  assume e: "enters src k a ws vs" and s: "\<not> oper k (kind vs)"
  have "parses src (loop k n x) (means a) vs vs" if "means a x" for n x
    using loop_none loop_stop [OF s, of "means a" x] that by (cases n) auto
  with e show ?thesis unfolding enters_def by blast
qed

text \<open>What is read at a higher level is read at a lower one, if no operator between the two follows.\<close>

lemma climb:
  assumes "parses src (sub j) (means a) ws vs" "j \<le> height" "k \<le> j" "\<And>i. k \<le> i \<Longrightarrow> i < j \<Longrightarrow> \<not> oper i (kind vs)"
  shows "parses src (sub k) (means a) ws vs"
  using assms(3,4)
proof (induction rule: inc_induct)
  case base
  show ?case by (rule assms(1))
next
  case (step i)
  then show ?case using enters_end [OF enters_start] assms(2) by simp
qed

end

end
