(* ===== verification/Parser_Round.thy ===== *)
theory Parser_Round
  imports Parser_Words
begin

section \<open>The parser reads back printed expressions\<close>

text \<open>
  An expression is printed with the parentheses that the grammar of C needs and no others, and the parser
  returns its tree: operators bind as the grammar says, and chains associate to the proper side. The tree is
  compared without the positions and the types of its nodes.
\<close>

subsection \<open>Trees without annotations\<close>

datatype shape = Shape (sh_type: ASTNodeType) (sh_value: "string option") (sh_subs: "shape list")

fun bare :: "ASTNode \<Rightarrow> shape"
and bares :: "ASTNode option list \<Rightarrow> shape list" where
  "bare (Node i cs) = Shape (ntype i) (nvalue i) (bares cs)"
| "bares [] = []"
| "bares (None # cs) = bares cs"
| "bares (Some c # cs) = bare c # bares cs"

lemma bares_append [simp]: "bares (cs @ ds) = bares cs @ bares ds"
proof (induction cs)
  case (Cons c cs)
  then show ?case by (cases c) simp_all
qed simp

fun adopt :: "shape \<Rightarrow> shape list \<Rightarrow> shape" where
  "adopt (Shape ty v ss) ts = Shape ty v (ss @ ts)"

lemma adopt_Nil [simp]: "adopt s [] = s"
  by (cases s) simp

lemma adopt_adopt [simp]: "adopt (adopt s ts) us = adopt s (ts @ us)"
  by (cases s) simp

lemma bare_add_child [simp]: "bare (ast_add_child n (Some c)) = adopt (bare n) [bare c]"
  by (cases n) (simp add: ast_add_child_def Let_def)

lemma bare_add_children [simp]: "bare (add_children cs n) = adopt (bare n) (map bare cs)"
  by (induction cs arbitrary: n) (simp_all add: add_children_def)

lemma bare_with_info [simp]:
  "(\<And>i. ntype (f i) = ntype i \<and> nvalue (f i) = nvalue i) \<Longrightarrow> bare (with_info f n) = bare n"
  by (cases n) (simp add: with_info_def)

lemma sh_type_bare [simp]: "sh_type (bare n) = node_type n"
  by (cases n) simp

lemma bare_tree_view:
  "bare (tree_view n) = bare n" "bares (map (map_option tree_view) cs) = bares cs"
  by (induction n and cs rule: bare_bares.induct) simp_all

lemma bare_clone [simp]: "bare (ast_clone n) = bare n"
  using bare_tree_view(1) [of "ast_clone n"] bare_tree_view(1) [of n] by (simp add: tree_view_clone)

lemma parses_node: "parses src (parser_node ty v) (\<lambda>x. bare x = Shape ty v []) ws ws"
  by (simp add: parses_def parser_node_def gets_def ast_new_def zero_info_def)

lemma parses_node_over: "parses src (node_over ty v cs) (\<lambda>x. bare x = Shape ty v (map bare cs)) ws ws"
  unfolding node_over_def by (rule parses_seq [OF parses_node]) simp

subsection \<open>Expressions\<close>

datatype expr =
    Var string
  | Lit nat
  | Prefix Punctuator expr
  | Postfix expr Punctuator
  | Index expr expr
  | Field expr Punctuator string
  | Call expr "expr list"
  | Binary nat Punctuator expr expr
  | Cond expr expr expr
  | Assign expr Punctuator expr
  | Comma expr expr

text \<open>The binary operators, by level from the weakest to the strongest.\<close>

definition binops :: "Punctuator list list" where
  "binops = [[PT_OR_OR], [PT_AND_AND], [PT_PIPE], [PT_CARET], [PT_AMPERSAND], [PT_EQ, PT_NE], [PT_LT, PT_LE, PT_GT, PT_GE],
     [PT_LEFT_SHIFT, PT_RIGHT_SHIFT], [PT_PLUS, PT_MINUS], [PT_STAR, PT_SLASH, PT_PERCENT]]"

definition oper :: "nat \<Rightarrow> TokenType \<Rightarrow> bool" where
  "oper i k \<longleftrightarrow> i < 10 \<and> (\<exists>c \<in> set (binops ! i). k = PunctToken c)"

text \<open>
  The level of an expression in the grammar: 0 for comma expressions, 1 for assignments, 2 for conditional
  expressions, 3 to 12 for the binary operators, 13 for prefix operators, 14 for the postfix forms and the primary expressions.
\<close>

fun lev :: "expr \<Rightarrow> nat" where
  "lev (Comma a b) = 0"
| "lev (Assign l c r) = 1"
| "lev (Cond c t f) = 2"
| "lev (Binary i c a b) = i + 3"
| "lev (Prefix c e) = 13"
| "lev e = 14"

definition wrap :: "bool \<Rightarrow> word list \<Rightarrow> word list" where
  "wrap b ws = (if b then Pun PT_LPAREN # ws @ [Pun PT_RPAREN] else ws)"

fun commas :: "word list list \<Rightarrow> word list" where
  "commas [] = []"
| "commas [ws] = ws"
| "commas (ws # us # vss) = ws @ Pun PT_COMMA # commas (us # vss)"

fun body :: "expr \<Rightarrow> word list" where
  "body (Var s) = [Id s]"
| "body (Lit n) = [Num n]"
| "body (Prefix c e) = Pun c # wrap (lev e < 13) (body e)"
| "body (Postfix e c) = wrap (lev e < 14) (body e) @ [Pun c]"
| "body (Index a i) = wrap (lev a < 14) (body a) @ Pun PT_LBRACKET # body i @ [Pun PT_RBRACKET]"
| "body (Field e c s) = wrap (lev e < 14) (body e) @ [Pun c, Id s]"
| "body (Call f as) = wrap (lev f < 14) (body f) @ Pun PT_LPAREN # commas (map (\<lambda>a. wrap (lev a < 1) (body a)) as) @ [Pun PT_RPAREN]"
| "body (Binary i c a b) = wrap (lev a < i + 3) (body a) @ Pun c # wrap (lev b < i + 4) (body b)"
| "body (Cond c t f) = wrap (lev c < 3) (body c) @ Pun PT_QUESTION # body t @ Pun PT_COLON # wrap (lev f < 2) (body f)"
| "body (Assign l c r) = wrap (lev l < 13) (body l) @ Pun c # wrap (lev r < 1) (body r)"
| "body (Comma a b) = body a @ Pun PT_COMMA # wrap (lev b < 1) (body b)"

definition words :: "nat \<Rightarrow> expr \<Rightarrow> word list" where
  "words k e = wrap (lev e < k) (body e)"

text \<open>The tree that the source of an expression stands for.\<close>

definition assigned :: "Punctuator \<Rightarrow> shape \<Rightarrow> shape \<Rightarrow> shape" where
  "assigned c l r = (if c = PT_ASSIGN then r else Shape AST_BINARY_OP (Some (bin_op (PunctToken c))) [l, r])"

fun tree :: "expr \<Rightarrow> shape" where
  "tree (Var s) = Shape AST_VAR_REF (Some s) []"
| "tree (Lit n) = Shape AST_INT_LITERAL (Some (show_nat n)) []"
| "tree (Prefix c e) =
     (if c = PT_STAR then Shape AST_DEREF None [tree e]
      else if c = PT_AMPERSAND then Shape AST_ADDR_OF None [tree e]
      else if c = PT_INCREMENT \<or> c = PT_DECREMENT then Shape AST_PREFIX_INC_DEC (Some (punct_text c)) [tree e]
      else Shape AST_UNARY_OP (Some (punct_text c)) [tree e])"
| "tree (Postfix e c) = Shape AST_POSTFIX_INC_DEC (Some (punct_text c)) [tree e]"
| "tree (Index a i) = Shape AST_ARRAY_INDEX None [tree a, tree i]"
| "tree (Field e c s) = Shape (if c = PT_DOT then AST_MEMBER_ACCESS else AST_ARROW_ACCESS) (Some s) [tree e]"
| "tree (Call f as) = Shape AST_INDIRECT_CALL None (tree f # map tree as)"
| "tree (Binary i c a b) = Shape AST_BINARY_OP (Some (punct_text c)) [tree a, tree b]"
| "tree (Cond c t f) = Shape AST_CONDITIONAL_EXPR None [tree c, tree t, tree f]"
| "tree (Assign l c r) =
     (case l of Var s \<Rightarrow> Shape AST_ASSIGNMENT (Some s) [assigned c (tree l) (tree r)]
      | _ \<Rightarrow> Shape AST_ASSIGNMENT None [tree l, assigned c (tree l) (tree r)])"
| "tree (Comma a b) = Shape AST_COMMA_EXPR (Some '','') [tree a, tree b]"

text \<open>
  The expressions the parser takes: names are neither keywords nor built in, and the operands of \<^verbatim>\<open>&\<close>, of subscripts
  and of assignments have the forms that it wants.
\<close>

definition built_in :: "string list" where
  "built_in = [''__func__'', ''__builtin_va_start'', ''__builtin_va_end'', ''__builtin_va_copy'', ''__builtin_va_arg'']"

fun good :: "expr \<Rightarrow> bool" where
  "good (Var s) \<longleftrightarrow> name_ok s \<and> s \<notin> set built_in"
| "good (Lit n) \<longleftrightarrow> int n \<le> LONG_MAX"
| "good (Prefix c e) \<longleftrightarrow> good e \<and> c \<in> set [PT_PLUS, PT_MINUS, PT_BANG, PT_TILDE, PT_STAR, PT_AMPERSAND, PT_INCREMENT, PT_DECREMENT] \<and>
     (c = PT_AMPERSAND \<longrightarrow> addressable (sh_type (tree e)))"
| "good (Postfix e c) \<longleftrightarrow> good e \<and> (c = PT_INCREMENT \<or> c = PT_DECREMENT)"
| "good (Index a i) \<longleftrightarrow> good a \<and> good i \<and> subscript_base (sh_type (tree a))"
| "good (Field e c s) \<longleftrightarrow> good e \<and> (c = PT_DOT \<or> c = PT_ARROW) \<and> name_ok s"
| "good (Call f as) \<longleftrightarrow> good f \<and> list_all good as"
| "good (Binary i c a b) \<longleftrightarrow> i < 10 \<and> c \<in> set (binops ! i) \<and> good a \<and> good b"
| "good (Cond c t f) \<longleftrightarrow> good c \<and> good t \<and> good f"
| "good (Assign l c r) \<longleftrightarrow> assign_kind (PunctToken c) \<and> good l \<and> good r \<and> assignable (sh_type (tree l))"
| "good (Comma a b) \<longleftrightarrow> good a \<and> good b"


subsection \<open>The ladders of the parser\<close>

definition ast_level :: "knot \<Rightarrow> nat \<Rightarrow> ASTNode parser" where
  "ast_level K i = [parse_logical_or K, parse_logical_and K, parse_bitwise_or K, parse_bitwise_xor K, parse_bitwise_and K,
     parse_equality K, parse_relational K, parse_shift K, parse_additive K, parse_term K, parse_cast K] ! i"

abbreviation is_shape :: "shape \<Rightarrow> ASTNode \<Rightarrow> bool" where
  "is_shape a x \<equiv> bare x = a"

definition joined :: "Punctuator \<Rightarrow> shape \<Rightarrow> shape \<Rightarrow> shape option" where
  "joined c a b = Some (Shape AST_BINARY_OP (Some (punct_text c)) [a, b])"

lemma less_10: "(i :: nat) < 10 \<longleftrightarrow> i \<in> {0, 1, 2, 3, 4, 5, 6, 7, 8, 9}"
  by auto

lemma ast_levels:
  "ast_level K 0 = parse_logical_or K" "ast_level K (Suc 0) = parse_logical_and K" "ast_level K 2 = parse_bitwise_or K"
  "ast_level K (Suc (Suc 0)) = parse_bitwise_or K" "ast_level K 3 = parse_bitwise_xor K" "ast_level K 4 = parse_bitwise_and K" "ast_level K 5 = parse_equality K"
  "ast_level K 6 = parse_relational K" "ast_level K 7 = parse_shift K" "ast_level K 8 = parse_additive K"
  "ast_level K 9 = parse_term K" "ast_level K 10 = parse_cast K"
  by (simp_all add: ast_level_def)

lemma opers:
  "oper 0 = (\<lambda>k. k = TOKEN_OR_OR)" "oper (Suc 0) = (\<lambda>k. k = TOKEN_AND_AND)" "oper 2 = (\<lambda>k. k = TOKEN_PIPE)"
  "oper 3 = (\<lambda>k. k = TOKEN_CARET)" "oper 4 = (\<lambda>k. k = TOKEN_AMPERSAND)" "oper 5 = (\<lambda>k. k = TOKEN_EQ \<or> k = TOKEN_NE)"
  "oper 6 = (\<lambda>k. k = TOKEN_LT \<or> k = TOKEN_LE \<or> k = TOKEN_GT \<or> k = TOKEN_GE)"
  "oper 7 = (\<lambda>k. k = TOKEN_LEFT_SHIFT \<or> k = TOKEN_RIGHT_SHIFT)" "oper 8 = (\<lambda>k. k = TOKEN_PLUS \<or> k = TOKEN_MINUS)"
  "oper 9 = (\<lambda>k. k = TOKEN_STAR \<or> k = TOKEN_SLASH \<or> k = TOKEN_PERCENT)"
  by (auto simp: oper_def binops_def)

lemma ast_ladder: "i < 10 \<Longrightarrow> ast_level K i = seq (ast_level K (Suc i)) (binary_loop (k_loop K) (oper i) (ast_level K (Suc i)))"
proof -
  have "ast_level K i = binary_level K (oper i) (ast_level K (Suc i))" if "i \<in> {0, 1, 2, 3, 4}"
    using that
    by (elim insertE emptyE) (simp_all add: ast_levels opers, simp_all only: parse_logical_or_def [of K] parse_logical_and_def [of K]
        parse_bitwise_or_def [of K] parse_bitwise_xor_def [of K] parse_bitwise_and_def [of K])
  moreover have "ast_level K i = binary_level K (oper i) (ast_level K (Suc i))" if "i \<in> {5, 6, 7, 8, 9}"
    using that
    by (elim insertE emptyE) (simp_all add: ast_levels opers, simp_all only: parse_equality_def [of K]
        parse_relational_def [of K] parse_shift_def [of K] parse_additive_def [of K] parse_term_def [of K])
  moreover assume "i < 10"
  ultimately show ?thesis by (auto simp: less_10 binary_level_def)
qed

lemma parses_binary_step:
  assumes "oper i (PunctToken c)" "is_shape a x" "joined c a b = Some r" "parses src sub (is_shape b) ws vs"
    "\<And>y. is_shape r y \<Longrightarrow> parses src (binary_loop n (oper i) sub y) A vs us"
  shows "parses src (binary_loop (Suc n) (oper i) sub x) A (Pun c # ws) us"
proof -
  have "parses src (node_over AST_BINARY_OP (Some (punct_text c)) [x, y]) (is_shape r) vs vs" if "is_shape b y" for y
    using parses_node_over [of src AST_BINARY_OP "Some (punct_text c)" "[x, y]" vs] assms(2,3) that
    by (simp add: joined_def)
  then have "parses src (seq sub (\<lambda>y. seq (node_over AST_BINARY_OP (Some (punct_text c)) [x, y]) (binary_loop n (oper i) sub))) A ws us"
    by (intro parses_seq [OF assms(4)] parses_seq [OF _ assms(5)])
  with assms(1) show ?thesis by (auto intro!: parses_on_token)
qed

interpretation ast: op_levels "ast_level K" "\<lambda>i n. binary_loop n (oper i) (ast_level K (Suc i))" 10 "k_loop K" oper is_shape joined
  for K
proof
  show "parses src (binary_loop (Suc n) (oper k) (ast_level K (Suc k)) x) A ws ws"
    if "\<not> oper k (kind ws)" "A x" for src k ws A x n
    using that by (auto intro!: parses_on_token simp: heads_kind)
qed (simp_all add: ast_ladder parses_binary_step del: binary_loop.simps(2))

text \<open>Comma expressions are a ladder with one step.\<close>

definition comma_level :: "knot \<Rightarrow> nat \<Rightarrow> ASTNode parser" where
  "comma_level K i = [parse_expression K, parse_assignment_expression K] ! i"

definition comma_joined :: "Punctuator \<Rightarrow> shape \<Rightarrow> shape \<Rightarrow> shape option" where
  "comma_joined c a b = Some (Shape AST_COMMA_EXPR (Some '','') [a, b])"

lemma parses_comma_step:
  assumes "is_shape a x" "comma_joined PT_COMMA a b = Some r" "parses src (parse_assignment_expression K) (is_shape b) ws vs"
    "\<And>y. is_shape r y \<Longrightarrow> parses src (comma_loop n K y) A vs us"
  shows "parses src (comma_loop (Suc n) K x) A (Pun PT_COMMA # ws) us"
proof -
  have "parses src (node_over AST_COMMA_EXPR (Some '','') [x, y]) (is_shape r) vs vs" if "is_shape b y" for y
    using parses_node_over [of src AST_COMMA_EXPR "Some '',''" "[x, y]" vs] assms(1,2) that by (simp add: comma_joined_def)
  then have "parses src (seq (parse_assignment_expression K) (\<lambda>y. seq (node_over AST_COMMA_EXPR (Some '','') [x, y]) (comma_loop n K))) A ws us"
    by (intro parses_seq [OF assms(3)] parses_seq [OF _ assms(4)])
  then show ?thesis by simp
qed

interpretation comma: op_levels "comma_level K" "\<lambda>i n. comma_loop n K" 1 "k_loop K" "\<lambda>_ k. k = TOKEN_COMMA" is_shape comma_joined
  for K
  by unfold_locales (auto simp: comma_level_def parse_expression_def parses_comma_step simp del: comma_loop.simps(2), simp)

subsection \<open>From one level of the grammar to the next\<close>

lemma read_cast: "parses src (parse_unary K) A (w # ws) vs \<Longrightarrow> parses src (parse_cast K) A (w # ws) vs"
  unfolding parse_cast_def
  by (auto intro!: parses_save parses_before_advance parses_on_state parses_restore simp: not_type_name)

lemma read_postfix: "parses src (primary_suffixes K) A (w # ws) vs \<Longrightarrow> parses src (parse_postfix K) A (w # ws) vs"
proof -
  assume p: "parses src (primary_suffixes K) A (w # ws) vs"
  have c: "parses src (compound_literal_type K) (\<lambda>r. r = None) ws ws"
    unfolding compound_literal_type_def by (rule parses_on_state) (simp add: not_type_name)
  from p show ?thesis
    unfolding parse_postfix_def by (auto intro!: parses_save parses_before_advance parses_seq [OF c] parses_restore)
qed

definition prefix_op :: "TokenType \<Rightarrow> bool" where
  "prefix_op k \<longleftrightarrow> k = TOKEN_INCREMENT \<or> k = TOKEN_DECREMENT \<or> k = TOKEN_AMPERSAND \<or> k = TOKEN_STAR \<or> unary_op_kind k"

lemma read_unary: "parses src (primary_suffixes K) A (w # ws) vs \<Longrightarrow> \<not> prefix_op (kind_of w) \<Longrightarrow> parses src (parse_unary K) A (w # ws) vs"
  unfolding parse_unary_def
  by (rule parses_on_token) (use kind_not_keyword [of "w # ws"] in \<open>auto simp: Let_def matches_kind prefix_op_def intro!: read_postfix\<close>)

text \<open>The tokens that end an expression of a level: what follows does not continue it.\<close>

definition suffix_kind :: "TokenType \<Rightarrow> bool" where
  "suffix_kind k \<longleftrightarrow> k = TOKEN_LPAREN \<or> k = TOKEN_LBRACKET \<or> k = TOKEN_DOT \<or> k = TOKEN_ARROW \<or> k = TOKEN_INCREMENT \<or> k = TOKEN_DECREMENT"

definition stop :: "nat \<Rightarrow> TokenType \<Rightarrow> bool" where
  "stop lv k \<longleftrightarrow> \<not> suffix_kind k \<and> (\<forall>i. lv \<le> i + 3 \<longrightarrow> \<not> oper i k) \<and> (lv \<le> 2 \<longrightarrow> k \<noteq> TOKEN_QUESTION) \<and>
     (lv \<le> 1 \<longrightarrow> \<not> assign_kind k) \<and> (lv = 0 \<longrightarrow> k \<noteq> TOKEN_COMMA)"

definition calm :: "word list \<Rightarrow> bool" where
  "calm ws \<longleftrightarrow> (case ws of Id s # vs \<Rightarrow> \<not> assign_kind (kind vs) | _ \<Rightarrow> True)"

lemma down_ladder:
  assumes "parses src (parse_unary K) (is_shape a) (w # ws) vs" "i \<le> 10" "stop (i + 3) (kind vs)"
  shows "parses src (ast_level K i) (is_shape a) (w # ws) vs"
  by (rule ast.climb [of _ _ 10]) (use assms read_cast in \<open>auto simp: ast_levels stop_def\<close>)

lemma down_cond:
  "parses src (ast_level K 0) A ws vs \<Longrightarrow> kind vs \<noteq> TOKEN_QUESTION \<Longrightarrow> parses src (parse_conditional K) A ws vs"
  unfolding parse_conditional_def ast_levels by (erule parses_seq) simp

lemma read_general:
  "parses src (parse_conditional K) A ws vs \<Longrightarrow> \<not> assign_kind (kind vs) \<Longrightarrow> parses src (general_assignment K) A ws vs"
  unfolding general_assignment_def by (erule parses_seq) simp

lemma read_calm:
  assumes "parses src (general_assignment K) A ws vs" "calm ws"
  shows "parses src (parse_assignment_expression K) A ws vs"
  unfolding parse_assignment_expression_def
proof (rule parses_on_token)
  fix t
  assume t: "heads t ws"
  show "parses src (if tk_type t = TOKEN_IDENTIFIER
      then seq save (\<lambda>s. before advance (on_kind (\<lambda>k. if assign_kind k then assign_name K (tk_value t) else before (restore s) (general_assignment K))))
      else general_assignment K) A ws vs"
  proof (cases "\<exists>s us. ws = Id s # us")
    case True
    then obtain s us where ws: "ws = Id s # us" by blast
    then show ?thesis
      using t assms by (auto simp: calm_def intro!: parses_save parses_before_advance parses_restore)
  next
    case False
    then have "tk_type t \<noteq> TOKEN_IDENTIFIER"
      using heads_kind [OF t] by (cases ws) (auto, metis kind_of.elims TokenType.distinct)
    with assms show ?thesis by simp
  qed
qed

lemma down_assign:
  "parses src (parse_conditional K) A ws vs \<Longrightarrow> \<not> assign_kind (kind vs) \<Longrightarrow> calm ws \<Longrightarrow>
   parses src (parse_assignment_expression K) A ws vs"
  by (intro read_calm read_general)

lemma down_comma:
  "parses src (parse_assignment_expression K) (is_shape a) ws vs \<Longrightarrow> kind vs \<noteq> TOKEN_COMMA \<Longrightarrow>
   parses src (parse_expression K) (is_shape a) ws vs"
  using comma.climb [of src K 1 a ws vs 0] by (simp add: comma_level_def)

definition plev :: "knot \<Rightarrow> nat \<Rightarrow> ASTNode parser" where
  "plev K k =
     (if k = 0 then parse_expression K else if k = 1 then parse_assignment_expression K
      else if k = 2 then parse_conditional K else if k \<le> 12 then ast_level K (k - 3) else parse_unary K)"

text \<open>A text that is read at level \<open>j\<close> is read at a lower level \<open>k\<close>.\<close>

lemma down:
  assumes "parses src (plev K j) (is_shape a) (w # ws) vs" "k \<le> j" "j \<le> 13" "stop k (kind vs)"
    and "k \<le> 1 \<Longrightarrow> 2 \<le> j \<Longrightarrow> calm (w # ws)"
  shows "parses src (plev K k) (is_shape a) (w # ws) vs"
proof -
  let ?r = "\<lambda>m. parses src m (is_shape a) (w # ws) vs"
  have lad: "?r (ast_level K i)" if "3 \<le> j" "i \<le> 9" "i + 3 \<le> j" "k \<le> i + 3" for i
  proof (cases "j = 13")
    case True
    with that assms show ?thesis by (intro down_ladder) (auto simp: plev_def stop_def)
  next
    case False
    then have "?r (ast_level K (j - 3))" using assms(1,3) that by (simp add: plev_def)
    then show ?thesis
    proof (rule ast.climb)
      show "j - 3 \<le> 10" "i \<le> j - 3" using that assms(3) by simp_all
      show "\<not> oper l (kind vs)" if "i \<le> l" for l using assms(4) that \<open>k \<le> i + 3\<close> by (simp add: stop_def)
    qed
  qed
  have cond: "?r (parse_conditional K)" if "2 \<le> j" "k \<le> 2"
    using lad [of 0] that assms by (cases "j = 2") (auto intro!: down_cond simp: plev_def stop_def)
  have asg: "?r (parse_assignment_expression K)" if "1 \<le> j" "k \<le> 1"
    using cond that assms by (cases "j = 1") (auto intro!: down_assign simp: plev_def stop_def)
  have "?r (parse_expression K)" if "k = 0"
    using asg that assms by (cases "j = 0") (auto intro!: down_comma simp: plev_def stop_def)
  with asg cond lad [of "k - 3"] assms show ?thesis by (cases "k = 13") (auto simp: plev_def)
qed

end
