(* ===== verification/Parser_Readback.thy ===== *)
theory Parser_Readback
  imports Parser_Round
begin

section \<open>Every printed expression is read back\<close>

text \<open>
  The induction over expressions: the words of an expression are read as its tree by the function of every level of
  the grammar (\<open>reads\<close>), as the base of suffixes (\<open>reads_post\<close>), and as the left operand of a chain
  (\<open>chained\<close>); one lemma for each form of expression. The last theorem runs the parser on the printed text.
\<close>

subsection \<open>The first word of an expression\<close>

definition first_kind :: "TokenType \<Rightarrow> bool" where
  "first_kind k \<longleftrightarrow> k = TOKEN_IDENTIFIER \<or> k = TOKEN_INT_LITERAL \<or> k = TOKEN_LPAREN \<or> prefix_op k"

lemma first_kindD: "first_kind k \<Longrightarrow> k \<noteq> TOKEN_RPAREN \<and> k \<noteq> TOKEN_COLON \<and> k \<noteq> TOKEN_RBRACKET"
  by (auto simp: first_kind_def prefix_op_def unary_op_kind_def)

definition starts :: "nat \<Rightarrow> word list \<Rightarrow> bool" where
  "starts l ws \<longleftrightarrow> (case ws of [] \<Rightarrow> False | w # _ \<Rightarrow> first_kind (kind_of w) \<and> (l = 14 \<longrightarrow> \<not> prefix_op (kind_of w)))"

lemma starts_append: "starts l ws \<Longrightarrow> starts l (ws @ us)"
  by (cases ws) (simp_all add: starts_def)

lemma starts_LPAREN [simp]: "starts l (Pun PT_LPAREN # ws)"
  by (simp add: starts_def first_kind_def prefix_op_def unary_op_kind_def)

lemma starts_wrap: "starts l ws \<Longrightarrow> (\<not> b \<Longrightarrow> m = 14 \<Longrightarrow> l = 14) \<Longrightarrow> starts m (wrap b ws @ us)"
  by (cases ws) (auto simp: starts_def wrap_def first_kind_def prefix_op_def unary_op_kind_def)

lemma lev_le: "good e \<Longrightarrow> lev e \<le> 14"
  by (cases e) auto

lemma starts_body: "good e \<Longrightarrow> starts (lev e) (body e)"
proof (induction e)
  case (Var s)
  then show ?case by (simp add: starts_def first_kind_def prefix_op_def unary_op_kind_def)
next
  case (Lit n)
  then show ?case by (simp add: starts_def first_kind_def prefix_op_def unary_op_kind_def)
next
  case (Prefix c e)
  then show ?case by (auto simp: starts_def first_kind_def prefix_op_def unary_op_kind_def)
next
  case (Postfix e c)
  with lev_le [of e] show ?case by (auto intro: starts_wrap)
next
  case (Index a i)
  with lev_le [of a] show ?case by (auto intro: starts_wrap)
next
  case (Field e c s)
  with lev_le [of e] show ?case by (auto intro: starts_wrap)
next
  case (Call f as)
  with lev_le [of f] show ?case by (auto intro: starts_wrap)
next
  case (Comma a b)
  then show ?case using starts_wrap [of "lev a" "body a" False 0] by (simp add: wrap_def)
qed (auto intro: starts_wrap)

lemma starts_words: "good e \<Longrightarrow> starts k (words k e)"
  using starts_wrap [OF starts_body, of e "lev e < k" k "[]"] lev_le [of e] by (auto simp: words_def)

lemma startsE:
  assumes "starts l ws"
  obtains w us where "ws = w # us" "kind_of w \<noteq> TOKEN_RPAREN" "kind_of w \<noteq> TOKEN_COLON" "l = 14 \<Longrightarrow> \<not> prefix_op (kind_of w)"
  using assms by (cases ws) (auto simp: starts_def dest: first_kindD)

lemma words_first:
  "good e \<Longrightarrow> \<exists>w us. words k e = w # us \<and> kind_of w \<noteq> TOKEN_RPAREN \<and> kind_of w \<noteq> TOKEN_COLON \<and> (k = 14 \<longrightarrow> \<not> prefix_op (kind_of w))"
  using starts_words [of e k] by (cases "words k e") (auto simp: starts_def dest: first_kindD)

lemma calm_Pun [simp]: "calm (Pun c # ws)" "calm (Num n # ws)"
  by (simp_all add: calm_def)

lemma calm_wrap: "(\<not> b \<Longrightarrow> calm (ws @ vs)) \<Longrightarrow> calm (wrap b ws @ vs)"
  by (simp add: wrap_def)

lemma oper_not_assign: "i < 10 \<Longrightarrow> c \<in> set (binops ! i) \<Longrightarrow> \<not> assign_kind (PunctToken c)"
  by (auto simp: less_10 binops_def assign_kind_def)

lemma calm_body: "good e \<Longrightarrow> 2 \<le> lev e \<Longrightarrow> (\<And>s. e = Var s \<Longrightarrow> \<not> assign_kind (kind vs)) \<Longrightarrow> calm (body e @ vs)"
proof (induction e arbitrary: vs)
  case (Var s)
  then show ?case by (simp add: calm_def)
next
  case (Binary i c a b)
  then show ?case using oper_not_assign [of i c] by (auto intro!: calm_wrap Binary.IH)
qed (auto intro!: calm_wrap simp: assign_kind_def)

subsection \<open>Postfix forms\<close>

text \<open>Reading \<open>ws\<close> comes to the loop over the suffixes with the tree \<open>a\<close> and the words \<open>vs\<close> left.\<close>

definition suffixed :: "string \<Rightarrow> knot \<Rightarrow> shape \<Rightarrow> word list \<Rightarrow> word list \<Rightarrow> bool" where
  "suffixed src K a ws vs \<longleftrightarrow>
     (\<forall>A us. (\<forall>n x. is_shape a x \<longrightarrow> parses src (parse_postfix_suffixes n K x) A vs us) \<longrightarrow> parses src (primary_suffixes K) A ws us)"

lemma suffixed_start: "parses src (parse_primary K) (is_shape a) ws vs \<Longrightarrow> suffixed src K a ws vs"
  unfolding suffixed_def primary_suffixes_def by (auto intro: parses_seq)

lemma suffixed_step:
  assumes "suffixed src K a ws vs"
    and "\<And>n x B zs. is_shape a x \<Longrightarrow> (\<And>y. is_shape b y \<Longrightarrow> parses src (parse_postfix_suffixes n K y) B us zs) \<Longrightarrow>
      parses src (parse_postfix_suffixes (Suc n) K x) B vs zs"
  shows "suffixed src K b ws us"
  unfolding suffixed_def
proof (intro allI impI)
  fix A zs
  assume "\<forall>n x. is_shape b x \<longrightarrow> parses src (parse_postfix_suffixes n K x) A us zs"
  then have "parses src (parse_postfix_suffixes n K x) A vs zs" if "is_shape a x" for n x
    using assms(2) [OF that] by (cases n) auto
  with assms(1) show "parses src (primary_suffixes K) A ws zs" unfolding suffixed_def by blast
qed

lemma suffixed_end:
  assumes "suffixed src K a ws vs" "\<not> suffix_kind (kind vs)"
  shows "parses src (primary_suffixes K) (is_shape a) ws vs"
proof -
  have "parses src (parse_postfix_suffixes n K x) (is_shape a) vs vs" if "is_shape a x" for n x
    using assms(2) that by (cases n) (auto intro!: parses_on_token simp: heads_kind suffix_kind_def)
  with assms(1) show ?thesis unfolding suffixed_def by blast
qed

lemma suffix_inc_dec:
  assumes "suffixed src K a ws (Pun c # us)" "c = PT_INCREMENT \<or> c = PT_DECREMENT"
  shows "suffixed src K (Shape AST_POSTFIX_INC_DEC (Some (punct_text c)) [a]) ws us"
proof (rule suffixed_step [OF assms(1)], clarify)
  fix n x B zs
  assume a: "a = bare x" and k: "\<And>y. bare y = Shape AST_POSTFIX_INC_DEC (Some (punct_text c)) [bare x] \<Longrightarrow>
    parses src (parse_postfix_suffixes n K y) B us zs"
  have "parses src (node_over AST_POSTFIX_INC_DEC (Some (punct_text c)) [x])
      (is_shape (Shape AST_POSTFIX_INC_DEC (Some (punct_text c)) [bare x])) us us"
    using parses_node_over [of src _ _ "[x]" us] by simp
  from parses_seq [OF this k] assms(2) show "parses src (parse_postfix_suffixes (Suc n) K x) B (Pun c # us) zs"
    by (auto intro!: parses_on_token)
qed

lemma suffix_field:
  assumes "suffixed src K a ws (Pun c # Id s # us)" "c = PT_DOT \<or> c = PT_ARROW"
  shows "suffixed src K (Shape (if c = PT_DOT then AST_MEMBER_ACCESS else AST_ARROW_ACCESS) (Some s) [a]) ws us"
proof (rule suffixed_step [OF assms(1)], clarify)
  let ?ty = "if c = PT_DOT then AST_MEMBER_ACCESS else AST_ARROW_ACCESS"
  fix n x B zs
  assume a: "a = bare x" and k: "\<And>y. bare y = Shape ?ty (Some s) [bare x] \<Longrightarrow> parses src (parse_postfix_suffixes n K y) B us zs"
  have "parses src (field_access ?ty x) (is_shape (Shape ?ty (Some s) [bare x])) (Pun c # Id s # us) us"
    unfolding field_access_def using parses_node_over [of src ?ty "Some s" "[x]" us]
    by (auto intro!: parses_before_advance parses_seq [OF parses_expect])
  from parses_seq [OF this k] assms(2) show "parses src (parse_postfix_suffixes (Suc n) K x) B (Pun c # Id s # us) zs"
    by (auto intro!: parses_on_token)
qed

lemma suffix_index:
  assumes "suffixed src K a ws (Pun PT_LBRACKET # vs)" "subscript_base (sh_type a)"
    "parses src (k_expression K) (is_shape i) vs (Pun PT_RBRACKET # us)"
  shows "suffixed src K (Shape AST_ARRAY_INDEX None [a, i]) ws us"
proof (rule suffixed_step [OF assms(1)], clarify)
  fix n x B zs
  assume a: "a = bare x" and k: "\<And>y. bare y = Shape AST_ARRAY_INDEX None [bare x, i] \<Longrightarrow> parses src (parse_postfix_suffixes n K y) B us zs"
  have "parses src (node_over AST_ARRAY_INDEX None [x, y]) (is_shape (Shape AST_ARRAY_INDEX None [bare x, i])) us us"
    if "is_shape i y" for y
    using parses_node_over [of src AST_ARRAY_INDEX None "[x, y]" us] that by simp
  then have "parses src (subscript K x) (is_shape (Shape AST_ARRAY_INDEX None [bare x, i])) (Pun PT_LBRACKET # vs) us"
    unfolding subscript_def using assms(2) a by (auto intro!: parses_before_advance parses_seq [OF assms(3)] parses_before_expect)
  from parses_seq [OF this k] show "parses src (parse_postfix_suffixes (Suc n) K x) B (Pun PT_LBRACKET # vs) zs"
    by (auto intro!: parses_on_token)
qed

lemma suffix_call:
  assumes "suffixed src K a ws (Pun PT_LPAREN # vs)"
    "\<And>x. is_shape (Shape AST_INDIRECT_CALL None [a]) x \<Longrightarrow> parses src (call_args K x) (is_shape b) vs us"
  shows "suffixed src K b ws us"
proof (rule suffixed_step [OF assms(1)], clarify)
  fix n x B zs
  assume a: "a = bare x" and k: "\<And>y. bare y = b \<Longrightarrow> parses src (parse_postfix_suffixes n K y) B us zs"
  have "parses src (node_over AST_INDIRECT_CALL None [x]) (is_shape (Shape AST_INDIRECT_CALL None [a])) vs vs"
    using parses_node_over [of src AST_INDIRECT_CALL None "[x]" vs] a by simp
  then have "parses src (seq (node_over AST_INDIRECT_CALL None [x]) (call_args K)) (is_shape b) vs us"
    by (rule parses_seq) (rule assms(2))
  from parses_seq [OF this k] show "parses src (parse_postfix_suffixes (Suc n) K x) B (Pun PT_LPAREN # vs) zs"
    by (auto intro!: parses_on_token)
qed

subsection \<open>Arguments of calls\<close>

lemma commas_Cons: "commas (ws # wss) = ws @ concat (map (\<lambda>us. Pun PT_COMMA # us) wss)"
  by (induction wss arbitrary: ws) simp_all

definition reads_arg :: "string \<Rightarrow> knot \<Rightarrow> expr \<Rightarrow> bool" where
  "reads_arg src K e \<longleftrightarrow> (\<forall>vs. kind vs = TOKEN_COMMA \<or> kind vs = TOKEN_RPAREN \<longrightarrow>
     parses src (k_assignment K) (is_shape (tree e)) (words 1 e @ vs) vs)"

lemma reads_argD:
  "kind vs = TOKEN_COMMA \<or> kind vs = TOKEN_RPAREN \<Longrightarrow> reads_arg src K e \<Longrightarrow>
   parses src (k_assignment K) (is_shape (tree e)) (words 1 e @ vs) vs"
  unfolding reads_arg_def by blast

lemma read_more_args:
  "list_all (reads_arg src K) as \<Longrightarrow> is_shape s x \<Longrightarrow>
   parses src (more_args n K x) (is_shape (adopt s (map tree as)))
     (concat (map (\<lambda>a. Pun PT_COMMA # words 1 a) as) @ Pun PT_RPAREN # vs) (Pun PT_RPAREN # vs)"
proof (induction as arbitrary: n s x)
  case Nil
  then show ?case by (cases n) simp_all
next
  case (Cons a as)
  let ?vs = "concat (map (\<lambda>a. Pun PT_COMMA # words 1 a) as) @ Pun PT_RPAREN # vs"
  have "kind ?vs = TOKEN_COMMA \<or> kind ?vs = TOKEN_RPAREN" by (cases as) simp_all
  then have a: "parses src (k_assignment K) (is_shape (tree a)) (words 1 a @ ?vs) ?vs"
    by (rule reads_argD) (use Cons.prems(1) in simp)
  have "parses src (seq (k_assignment K) (\<lambda>y. more_args m K (ast_add_child x (Some y)))) (is_shape (adopt s (map tree (a # as))))
      (words 1 a @ ?vs) (Pun PT_RPAREN # vs)" for m
    using Cons.IH [where s = "adopt s [tree a]"] Cons.prems by (intro parses_seq [OF a]) simp
  then show ?case by (cases n) simp_all
qed

lemma read_call_args:
  assumes "list_all (reads_arg src K) as" "list_all good as" "is_shape s x"
  shows "parses src (call_args K x) (is_shape (adopt s (map tree as))) (commas (map (words 1) as) @ Pun PT_RPAREN # vs) vs"
proof -
  let ?more = "on_kind (\<lambda>k. if k \<noteq> TOKEN_RPAREN then seq (k_assignment K) (\<lambda>a. more_args (k_loop K) K (ast_add_child x (Some a))) else ret x)"
  have args: "parses src ?more (is_shape (adopt s (map tree as))) (commas (map (words 1) as) @ Pun PT_RPAREN # vs) (Pun PT_RPAREN # vs)"
  proof (cases as)
    case Nil
    with assms(3) show ?thesis by simp
  next
    case (Cons a bs)
    let ?vs = "concat (map (\<lambda>a. Pun PT_COMMA # words 1 a) bs) @ Pun PT_RPAREN # vs"
    have ws: "commas (map (words 1) as) @ Pun PT_RPAREN # vs = words 1 a @ ?vs"
      using Cons by (simp add: commas_Cons comp_def)
    have "kind (words 1 a @ ?vs) \<noteq> TOKEN_RPAREN"
      using starts_words [of a 1] assms(2) Cons by (auto elim!: startsE)
    moreover have "kind ?vs = TOKEN_COMMA \<or> kind ?vs = TOKEN_RPAREN" by (cases bs) simp_all
    then have "parses src (k_assignment K) (is_shape (tree a)) (words 1 a @ ?vs) ?vs"
      by (rule reads_argD) (use assms(1) Cons in simp)
    then have "parses src (seq (k_assignment K) (\<lambda>a. more_args (k_loop K) K (ast_add_child x (Some a)))) (is_shape (adopt s (map tree as)))
        (words 1 a @ ?vs) (Pun PT_RPAREN # vs)"
      using read_more_args [where as = bs and s = "adopt s [tree a]"] assms(1,3) Cons by (auto elim!: parses_seq)
    ultimately show ?thesis unfolding ws by simp
  qed
  show ?thesis unfolding call_args_def by (rule parses_seq [OF args]) simp
qed

subsection \<open>Reading an expression at every level\<close>

lemma stop_mono: "stop k t \<Longrightarrow> k \<le> j \<Longrightarrow> stop j t"
  unfolding stop_def by (metis (no_types, lifting) le_trans le_zero_eq)

lemma oper_mem: "oper i k \<Longrightarrow> \<exists>c \<in> set (concat binops). k = PunctToken c"
  unfolding oper_def using nth_mem [of i binops] by (fastforce simp: binops_def)

lemma stop_simps [simp]:
  "stop k TOKEN_RPAREN" "stop k TOKEN_RBRACKET" "stop k TOKEN_COLON" "stop k TOKEN_EOF" "0 < k \<Longrightarrow> stop k TOKEN_COMMA"
  "2 < k \<Longrightarrow> stop k TOKEN_QUESTION"
  by (auto simp: stop_def suffix_kind_def assign_kind_def dest!: oper_mem) (auto simp: binops_def)

text \<open>
  \<open>reads\<close>: the words of \<open>e\<close> for level \<open>k\<close> are read as \<open>e\<close> by the function of level \<open>k\<close>, at every depth of the knot;
  \<open>reads_post\<close>: they are read as the base of suffixes; \<open>reads_own\<close>: at the level of \<open>e\<close> itself.
\<close>

definition reads :: "string \<Rightarrow> nat \<Rightarrow> expr \<Rightarrow> bool" where
  "reads src L e \<longleftrightarrow> (\<forall>n k vs. k \<le> 13 \<longrightarrow> stop k (kind vs) \<longrightarrow>
     parses src (plev (knot_at L n) k) (is_shape (tree e)) (words k e @ vs) vs)"

definition reads_post :: "string \<Rightarrow> nat \<Rightarrow> expr \<Rightarrow> bool" where
  "reads_post src L e \<longleftrightarrow> (\<forall>n vs. (\<forall>s. e = Var s \<longrightarrow> kind vs \<noteq> TOKEN_LPAREN) \<longrightarrow>
     suffixed src (knot_at L n) (tree e) (words 14 e @ vs) vs)"

definition reads_own :: "string \<Rightarrow> nat \<Rightarrow> expr \<Rightarrow> bool" where
  "reads_own src L e \<longleftrightarrow> (\<forall>n vs. stop (lev e) (kind vs) \<longrightarrow>
     parses src (plev (knot_at L n) (lev e)) (is_shape (tree e)) (body e @ vs) vs)"

lemma readsD:
  "reads src L e \<Longrightarrow> k \<le> 13 \<Longrightarrow> stop k (kind vs) \<Longrightarrow> parses src (plev (knot_at L n) k) (is_shape (tree e)) (words k e @ vs) vs"
  unfolding reads_def by blast

lemma reads_postD:
  "reads_post src L e \<Longrightarrow> (\<And>s. e = Var s \<Longrightarrow> kind vs \<noteq> TOKEN_LPAREN) \<Longrightarrow> suffixed src (knot_at L n) (tree e) (words 14 e @ vs) vs"
  unfolding reads_post_def by blast

lemma reads_ownD:
  "reads_own src L e \<Longrightarrow> stop (lev e) (kind vs) \<Longrightarrow> parses src (plev (knot_at L n) (lev e)) (is_shape (tree e)) (body e @ vs) vs"
  unfolding reads_own_def by blast

lemma down_body:
  assumes "good e" "parses src (plev K j) (is_shape (tree e)) (body e @ vs) vs" "k \<le> j" "j \<le> 13" "j \<le> lev e" "stop k (kind vs)"
  shows "parses src (plev K k) (is_shape (tree e)) (body e @ vs) vs"
proof -
  obtain w us where w: "body e = w # us" using starts_body [OF assms(1)] by (auto elim: startsE)
  have "calm (body e @ vs)" if "k \<le> 1" "2 \<le> j"
    using calm_body [OF assms(1), of vs] assms(5,6) that by (simp add: stop_def)
  then show ?thesis
    using down [of src K j "tree e" w "us @ vs" vs k] assms w by simp
qed

text \<open>The fields of the knot are functions of the level below, or end for lack of depth.\<close>

lemma knot_0: "k_expression (knot_at L 0) = raise OutOfFuel" "k_assignment (knot_at L 0) = raise OutOfFuel"
  "k_conditional (knot_at L 0) = raise OutOfFuel" "k_unary (knot_at L 0) = raise OutOfFuel"
  by (simp_all add: no_depth_def)

lemma knot_Suc: "k_expression (knot_at L (Suc n)) = plev (knot_at L n) 0" "k_assignment (knot_at L (Suc n)) = plev (knot_at L n) 1"
  "k_conditional (knot_at L (Suc n)) = plev (knot_at L n) 2" "k_unary (knot_at L (Suc n)) = plev (knot_at L n) 13"
  by (simp_all add: tie_def plev_def)

lemma own_reads:
  assumes "good e" "lev e \<le> 13" "reads_own src L e"
  shows "reads src L e \<and> reads_post src L e"
proof -
  have low: "parses src (plev (knot_at L n) k) (is_shape (tree e)) (body e @ vs) vs" if "k \<le> lev e" "stop k (kind vs)" for n k vs
    by (rule down_body [OF assms(1) reads_ownD [OF assms(3) stop_mono [OF that(2,1)]] that(1) assms(2) order_refl that(2)])
  have inner: "parses src (k_expression (knot_at L n)) (is_shape (tree e)) (body e @ Pun PT_RPAREN # vs) (Pun PT_RPAREN # vs)" for n vs
    by (cases n; simp only: knot_0 knot_Suc parses_fuel; rule low; simp)
  have prim: "parses src (parse_primary (knot_at L n)) (is_shape (tree e)) (wrap True (body e) @ vs) vs" for n vs
    unfolding parse_primary_def
    by (intro parses_on_token) (auto simp: wrap_def intro!: parses_before_advance parses_seq [OF inner])
  then have post: "reads_post src L e"
    unfolding reads_post_def using assms(2) by (auto intro!: suffixed_start simp: words_def)
  have "parses src (plev (knot_at L n) k) (is_shape (tree e)) (words k e @ vs) vs"
    if "lev e < k" "k \<le> 13" "stop k (kind vs)" for n k vs
  proof -
    have "suffixed src (knot_at L n) (tree e) (wrap True (body e) @ vs) vs" using prim by (intro suffixed_start)
    moreover have "\<not> suffix_kind (kind vs)" using that(3) by (simp add: stop_def)
    ultimately have "parses src (primary_suffixes (knot_at L n)) (is_shape (tree e)) (wrap True (body e) @ vs) vs"
      by (rule suffixed_end)
    then have "parses src (plev (knot_at L n) 13) (is_shape (tree e)) (wrap True (body e) @ vs) vs"
      unfolding plev_def by (auto simp: wrap_def prefix_op_def unary_op_kind_def intro: read_unary)
    then show ?thesis using that down [of src "knot_at L n" 13 "tree e" "Pun PT_LPAREN" _ vs k]
      by (simp add: words_def wrap_def)
  qed
  with low post show ?thesis unfolding reads_def by (metis (full_types) words_def wrap_def not_less)
qed

lemma post_reads:
  assumes "good e" "lev e = 14" "reads_post src L e"
  shows "reads src L e"
  unfolding reads_def
proof (intro allI impI)
  fix n k vs
  assume k: "k \<le> 13" "stop k (kind vs)"
  then have "\<not> suffix_kind (kind vs)" by (simp add: stop_def)
  moreover from this have "suffixed src (knot_at L n) (tree e) (words 14 e @ vs) vs"
    by (intro reads_postD [OF assms(3)]) (auto simp: suffix_kind_def)
  ultimately have p: "parses src (primary_suffixes (knot_at L n)) (is_shape (tree e)) (words 14 e @ vs) vs" by (intro suffixed_end)
  have ws: "words j e = body e" if "j \<le> 14" for j using that assms(2) by (simp add: words_def wrap_def)
  obtain w us where w: "words 14 e = w # us" "\<not> prefix_op (kind_of w)" using words_first [OF assms(1), of 14] by blast
  with p have p13: "parses src (plev (knot_at L n) 13) (is_shape (tree e)) (body e @ vs) vs"
    using read_unary [of src _ _ w "us @ vs"] ws by (simp add: plev_def)
  have "parses src (plev (knot_at L n) k) (is_shape (tree e)) (body e @ vs) vs"
    by (rule down_body [OF assms(1) p13 k(1) order_refl _ k(2)]) (simp add: assms(2))
  with k(1) show "parses src (plev (knot_at L n) k) (is_shape (tree e)) (words k e @ vs) vs" by (simp add: ws)
qed

lemma knot_reads:
  assumes "reads src L e"
  shows "stop 0 (kind vs) \<Longrightarrow> parses src (k_expression (knot_at L n)) (is_shape (tree e)) (words 0 e @ vs) vs"
    and "stop 1 (kind vs) \<Longrightarrow> parses src (k_assignment (knot_at L n)) (is_shape (tree e)) (words 1 e @ vs) vs"
    and "stop 2 (kind vs) \<Longrightarrow> parses src (k_conditional (knot_at L n)) (is_shape (tree e)) (words 2 e @ vs) vs"
    and "stop 13 (kind vs) \<Longrightarrow> parses src (k_unary (knot_at L n)) (is_shape (tree e)) (words 13 e @ vs) vs"
  by (cases n; simp only: knot_0 knot_Suc parses_fuel; rule readsD [OF assms]; simp)+

lemma reads_reads_arg: "reads src L e \<Longrightarrow> reads_arg src (knot_at L n) e"
  unfolding reads_arg_def using knot_reads(2) [of src L e] by (metis One_nat_def stop_simps(1,5) zero_less_one)

subsection \<open>The forms of expressions\<close>

lemma body_words:
  "body (Prefix c e) = Pun c # words 13 e"
  "body (Postfix e c) = words 14 e @ [Pun c]"
  "body (Index a x) = words 14 a @ Pun PT_LBRACKET # words 0 x @ [Pun PT_RBRACKET]"
  "body (Field e c s) = words 14 e @ [Pun c, Id s]"
  "body (Call e as) = words 14 e @ Pun PT_LPAREN # commas (map (words 1) as) @ [Pun PT_RPAREN]"
  "body (Binary i c a b) = words (i + 3) a @ Pun c # words (i + 4) b"
  "body (Cond e1 e2 e3) = words 3 e1 @ Pun PT_QUESTION # words 0 e2 @ Pun PT_COLON # words 2 e3"
  "body (Assign l c r) = words 13 l @ Pun c # words 1 r"
  "body (Comma a b) = words 0 a @ Pun PT_COMMA # words 1 b"
  by (simp_all add: words_def wrap_def cong: map_cong)

lemma words_14: "lev e = 14 \<Longrightarrow> words 14 e = body e"
  by (simp add: words_def wrap_def)

lemma read_var: "good (Var s) \<Longrightarrow> reads_post src L (Var s)"
  unfolding reads_post_def
proof (intro allI impI)
  fix n vs
  assume g: "good (Var s)" and k: "\<forall>t. Var s = Var t \<longrightarrow> kind vs \<noteq> TOKEN_LPAREN"
  have "parses src (identifier_expr K t) (is_shape (tree (Var s))) (Id s # vs) vs" if "tk_value t = s" for K t
    unfolding identifier_expr_def
    using g k that by (intro parses_on_state)
      (auto simp: built_in_def find_enum_const_def fresh_def intro!: parses_before_advance parses_node)
  then have "parses src (parse_primary (knot_at L n)) (is_shape (tree (Var s))) (Id s # vs) vs"
    unfolding parse_primary_def by (intro parses_on_token) (simp add: Let_def)
  then show "suffixed src (knot_at L n) (tree (Var s)) (words 14 (Var s) @ vs) vs"
    by (intro suffixed_start) (simp add: words_14)
qed

lemma read_lit: "reads_post src L (Lit m)"
  unfolding reads_post_def
proof (intro allI impI)
  fix n vs
  have node: "parses src (seq (parser_node AST_INT_LITERAL (Some (show_nat m))) (\<lambda>n.
      ret (with_info (\<lambda>i. i\<lparr>decl_type := literal_type t, is_unsigned := tk_unsigned t\<rparr>) n))) (is_shape (tree (Lit m))) vs vs" for t
    by (rule parses_seq [OF parses_node]) simp
  have "parses src (parse_primary (knot_at L n)) (is_shape (tree (Lit m))) (Num m # vs) vs"
    unfolding parse_primary_def using node by (intro parses_on_token) (auto simp: Let_def intro!: parses_before_advance)
  then show "suffixed src (knot_at L n) (tree (Lit m)) (words 14 (Lit m) @ vs) vs"
    by (intro suffixed_start) (simp add: words_14)
qed

lemma read_over:
  assumes "parses src sub (is_shape a) ws vs"
  shows "parses src (seq sub (\<lambda>e. node_over ty v [e])) (is_shape (Shape ty v [a])) ws vs"
proof (rule parses_seq [OF assms])
  fix x assume "is_shape a x"
  then show "parses src (node_over ty v [x]) (is_shape (Shape ty v [a])) vs vs" using parses_node_over [of src ty v "[x]" vs] by simp
qed

lemma read_prefix:
  assumes "good (Prefix c e)" "reads src L e"
  shows "reads_own src L (Prefix c e)"
  unfolding reads_own_def
proof (intro allI impI)
  fix n vs
  assume "stop (lev (Prefix c e)) (kind vs)"
  then have sub: "parses src (k_unary (knot_at L n)) (is_shape (tree e)) (words 13 e @ vs) vs"
    by (intro knot_reads(4) [OF assms(2)]) simp
  have addr: "parses src (seq (k_unary (knot_at L n)) (\<lambda>e. if \<not> addressable (node_type e) then parser_error m else node_over AST_ADDR_OF None [e]))
      (is_shape (Shape AST_ADDR_OF None [tree e])) (words 13 e @ vs) vs" if "addressable (sh_type (tree e))" for m
  proof (rule parses_seq [OF sub])
    fix x assume x: "is_shape (tree e) x"
    have "addressable (node_type x)" using that unfolding x [symmetric] by simp
    with x parses_node_over [of src AST_ADDR_OF None "[x]" vs] show
      "parses src (if \<not> addressable (node_type x) then parser_error m else node_over AST_ADDR_OF None [x])
         (is_shape (Shape AST_ADDR_OF None [tree e])) vs vs" by simp
  qed
  have pre: "parses src (prefix_node (knot_at L n) ty v) (is_shape (Shape ty v [tree e])) (Pun c # words 13 e @ vs) vs" for ty v
    unfolding prefix_node_def by (intro parses_before_advance read_over sub)
  have "parses src (parse_unary (knot_at L n)) (is_shape (tree (Prefix c e))) (Pun c # words 13 e @ vs) vs"
    unfolding parse_unary_def
  proof (rule parses_on_token)
    fix t assume "heads t (Pun c # words 13 e @ vs)"
    then show "parses src (let k = tk_type t in
         if k = TOKEN_SIZEOF then parse_sizeof (knot_at L n)
         else if k = TOKEN_INCREMENT \<or> k = TOKEN_DECREMENT then prefix_node (knot_at L n) AST_PREFIX_INC_DEC (Some (tk_value t))
         else if k = TOKEN_AMPERSAND then
           before advance (seq (k_unary (knot_at L n)) (\<lambda>e.
             if \<not> addressable (node_type e) then parser_error ''address-of requires an lvalue''
             else node_over AST_ADDR_OF None [e]))
         else if k = TOKEN_STAR then prefix_node (knot_at L n) AST_DEREF None
         else if unary_op_kind k then prefix_node (knot_at L n) AST_UNARY_OP (Some (tk_value t))
         else parse_postfix (knot_at L n)) (is_shape (tree (Prefix c e))) (Pun c # words 13 e @ vs) vs"
      using assms(1) pre parses_before_advance [OF addr] by (elim heads_Cons [THEN iffD1, elim_format]) (auto simp: unary_op_kind_def)
  qed
  then show "parses src (plev (knot_at L n) (lev (Prefix c e))) (is_shape (tree (Prefix c e))) (body (Prefix c e) @ vs) vs"
    by (simp add: plev_def body_words del: body.simps tree.simps)
qed

lemma read_suffixes:
  "good (Postfix e c) \<Longrightarrow> reads_post src L e \<Longrightarrow> reads_post src L (Postfix e c)"
  "good (Index a i) \<Longrightarrow> reads_post src L a \<Longrightarrow> reads src L i \<Longrightarrow> reads_post src L (Index a i)"
  "good (Field e d s) \<Longrightarrow> reads_post src L e \<Longrightarrow> reads_post src L (Field e d s)"
proof -
  show "good (Postfix e c) \<Longrightarrow> reads_post src L e \<Longrightarrow> reads_post src L (Postfix e c)"
    unfolding reads_post_def by (auto simp: words_14 body_words simp del: body.simps intro!: suffix_inc_dec)
  show "good (Index a i) \<Longrightarrow> reads_post src L a \<Longrightarrow> reads src L i \<Longrightarrow> reads_post src L (Index a i)"
    unfolding reads_post_def [of _ _ "Index a i"]
    by (auto simp: words_14 body_words simp del: body.simps intro!: suffix_index reads_postD knot_reads(1))
  show "good (Field e d s) \<Longrightarrow> reads_post src L e \<Longrightarrow> reads_post src L (Field e d s)"
    unfolding reads_post_def [of _ _ "Field e d s"]
    using suffix_field [OF reads_postD, of src L e d s] by (auto simp: words_14 body_words simp del: body.simps)
qed

lemma read_named_call:
  assumes "good (Var s)" "\<And>x. is_shape (Shape AST_INDIRECT_CALL None [tree (Var s)]) x \<Longrightarrow> parses src (call_args K x) (is_shape b) ws vs"
  shows "parses src (parse_primary K) (is_shape b) (Id s # Pun PT_LPAREN # ws) vs"
proof -
  have over: "parses src (seq (node_over AST_INDIRECT_CALL None [x]) (call_args K)) (is_shape b) ws vs"
    if "is_shape (Shape AST_VAR_REF (Some s) []) x" for x
    using that assms(2) parses_node_over [of src AST_INDIRECT_CALL None "[x]" ws] by (intro parses_seq [OF parses_node_over]) simp
  have "parses src (seq (parser_node AST_VAR_REF (Some s)) (\<lambda>x. seq (node_over AST_INDIRECT_CALL None [x]) (call_args K))) (is_shape b) ws vs"
    by (rule parses_seq [OF parses_node]) (rule over)
  then have "parses src (named_call K s) (is_shape b) (Pun PT_LPAREN # ws) vs"
    unfolding named_call_def
    by (intro parses_before_expect parses_on_state) (simp_all add: fresh_def parser_find_function_def)
  then have "parses src (identifier_expr K t) (is_shape b) (Id s # Pun PT_LPAREN # ws) vs" if "tk_value t = s" for t
    unfolding identifier_expr_def
    using assms(1) that by (intro parses_on_state) (auto simp: built_in_def find_enum_const_def fresh_def intro!: parses_before_advance)
  then show ?thesis unfolding parse_primary_def by (intro parses_on_token) (simp add: Let_def)
qed

lemma read_call:
  assumes "good (Call f as)" "reads_post src L f" "list_all (reads src L) as"
  shows "reads_post src L (Call f as)"
  unfolding reads_post_def
proof (intro allI impI)
  fix n vs
  let ?ws = "commas (map (words 1) as) @ Pun PT_RPAREN # vs"
  have "list_all (reads_arg src (knot_at L n)) as" using assms(3) reads_reads_arg by (auto simp: list_all_iff)
  then have args: "parses src (call_args (knot_at L n) x) (is_shape (tree (Call f as))) ?ws vs"
    if "is_shape (Shape AST_INDIRECT_CALL None [tree f]) x" for x
    using read_call_args [OF _ _ that, of src "knot_at L n" as vs] assms(1) by simp
  have "suffixed src (knot_at L n) (tree (Call f as)) (words 14 f @ Pun PT_LPAREN # ?ws) vs"
  proof (cases "\<exists>s. f = Var s")
    case True
    then obtain s where f: "f = Var s" by blast
    have "parses src (parse_primary (knot_at L n)) (is_shape (tree (Call f as))) (Id s # Pun PT_LPAREN # ?ws) vs"
      by (rule read_named_call) (use assms(1) f args in simp_all)
    then show ?thesis by (intro suffixed_start) (simp add: words_14 f)
  next
    case False
    then have "suffixed src (knot_at L n) (tree f) (words 14 f @ Pun PT_LPAREN # ?ws) (Pun PT_LPAREN # ?ws)"
      by (intro reads_postD [OF assms(2)]) blast
    then show ?thesis by (rule suffix_call) (rule args)
  qed
  then show "suffixed src (knot_at L n) (tree (Call f as)) (words 14 (Call f as) @ vs) vs"
    by (simp add: words_14 body_words del: body.simps)
qed

text \<open>Chains of binary operators of one level and of commas: the left operand is read in the same loop.\<close>

definition chained :: "string \<Rightarrow> nat \<Rightarrow> expr \<Rightarrow> bool" where
  "chained src L e \<longleftrightarrow> (case e of
     Binary i c a b \<Rightarrow> \<forall>n vs. stop (i + 4) (kind vs) \<longrightarrow> ast.enters (knot_at L n) src i (tree e) (body e @ vs) vs
   | Comma a b \<Rightarrow> \<forall>n vs. stop 1 (kind vs) \<longrightarrow> comma.enters (knot_at L n) src 0 (tree e) (body e @ vs) vs
   | _ \<Rightarrow> True)"

lemma read_operand:
  assumes "good e" "reads src L e" "i < 10" "stop (i + 4) (kind vs)"
  shows "parses src (ast_level (knot_at L n) (Suc i)) (is_shape (tree e)) (words (i + 4) e @ vs) vs"
proof -
  have p: "parses src (plev (knot_at L n) (i + 4)) (is_shape (tree e)) (words (i + 4) e @ vs) vs"
    using assms(3,4) by (intro readsD [OF assms(2)]) simp_all
  obtain w us where w: "words (i + 4) e = w # us" using words_first [OF assms(1), of "i + 4"] by blast
  show ?thesis
  proof (cases "i = 9")
    case True
    with p w show ?thesis by (simp add: plev_def ast_levels read_cast)
  next
    case False
    with p assms(3) show ?thesis by (simp add: plev_def)
  qed
qed

lemma stop_oper: "i < 10 \<Longrightarrow> c \<in> set (binops ! i) \<Longrightarrow> stop (i + 4) (PunctToken c) \<and> oper i (PunctToken c)"
  by (auto simp: less_10 binops_def stop_def suffix_kind_def assign_kind_def oper_def nth_Cons' split: if_splits)

lemma read_binary:
  assumes "good (Binary i c a b)" "reads src L a" "reads src L b" "chained src L a"
  shows "chained src L (Binary i c a b) \<and> reads_own src L (Binary i c a b)"
proof -
  have i: "i < 10" "c \<in> set (binops ! i)" "good a" "good b" using assms(1) by simp_all
  note c = stop_oper [OF i(1,2)]
  have left: "ast.enters (knot_at L n) src i (tree a) (words (i + 3) a @ Pun c # vs) (Pun c # vs)" for n vs
  proof (cases "lev a = i + 3")
    case True
    then obtain d x y where a: "a = Binary i d x y" using i(1) by (cases a) auto
    then have "words (i + 3) a = body a" by (simp add: words_def wrap_def)
    with a assms(4) c show ?thesis by (simp add: chained_def)
  next
    case False
    then have ws: "words (i + 3) a = words (i + 4) a" by (simp add: words_def wrap_def)
    show ?thesis unfolding ws using i c by (intro ast.enters_start read_operand [OF i(3) assms(2)]) simp_all
  qed
  have chain: "ast.enters (knot_at L n) src i (tree (Binary i c a b)) (body (Binary i c a b) @ vs) vs"
    if "stop (i + 4) (kind vs)" for n vs
    using ast.enters_step [OF i(1) left _ _ read_operand [OF i(4) assms(3) i(1) that], where r = "tree (Binary i c a b)"] c
    by (simp add: body_words joined_def del: body.simps)
  have "parses src (ast_level (knot_at L n) i) (is_shape (tree (Binary i c a b))) (body (Binary i c a b) @ vs) vs"
    if "stop (i + 3) (kind vs)" for n vs
    using that by (intro ast.enters_end chain) (auto simp: stop_def intro: stop_mono)
  with chain i(1) show ?thesis by (simp add: chained_def reads_own_def plev_def)
qed

lemma read_cond:
  assumes "good t" "reads src L c" "reads src L t" "reads src L f"
  shows "reads_own src L (Cond c t f)"
  unfolding reads_own_def
proof (intro allI impI)
  fix n vs
  assume "stop (lev (Cond c t f)) (kind vs)"
  then have f: "parses src (k_conditional (knot_at L n)) (is_shape (tree f)) (words 2 f @ vs) vs"
    by (intro knot_reads(3) [OF assms(4)]) simp
  let ?ws = "words 0 t @ Pun PT_COLON # words 2 f @ vs"
  have t: "parses src (k_expression (knot_at L n)) (is_shape (tree t)) ?ws (Pun PT_COLON # words 2 f @ vs)"
    by (intro knot_reads(1) [OF assms(3)]) simp
  have c: "parses src (parse_logical_or (knot_at L n)) (is_shape (tree c)) (words 3 c @ Pun PT_QUESTION # ?ws) (Pun PT_QUESTION # ?ws)"
    using readsD [OF assms(2), of 3 "Pun PT_QUESTION # ?ws" n] by (simp add: plev_def ast_levels)
  have k: "kind ?ws \<noteq> TOKEN_COLON" using words_first [OF assms(1), of 0] by auto
  have node: "parses src (node_over AST_CONDITIONAL_EXPR None [x, y, z]) (is_shape (tree (Cond c t f))) vs vs"
    if "is_shape (tree c) x" "is_shape (tree t) y" "is_shape (tree f) z" for x y z
    using parses_node_over [of src AST_CONDITIONAL_EXPR None "[x, y, z]" vs] that by simp
  have "parses src (parse_conditional (knot_at L n)) (is_shape (tree (Cond c t f))) (words 3 c @ Pun PT_QUESTION # ?ws) vs"
    unfolding parse_conditional_def
  proof (rule parses_seq [OF c])
    fix x assume x: "is_shape (tree c) x"
    have "parses src (seq (k_conditional (knot_at L n)) (\<lambda>z. node_over AST_CONDITIONAL_EXPR None [x, y, z])) (is_shape (tree (Cond c t f)))
        (words 2 f @ vs) vs" if "is_shape (tree t) y" for y
      using f by (rule parses_seq) (rule node [OF x that])
    then have "parses src (seq (k_expression (knot_at L n)) (\<lambda>y. on_kind (\<lambda>k.
        if k \<noteq> TOKEN_COLON then parser_error m
        else before advance (seq (k_conditional (knot_at L n)) (\<lambda>z. node_over AST_CONDITIONAL_EXPR None [x, y, z])))))
        (is_shape (tree (Cond c t f))) ?ws vs" for m
      by (intro parses_seq [OF t]) simp
    with k show "parses src (on_kind (\<lambda>k.
        if k \<noteq> TOKEN_QUESTION then ret x
        else before advance (on_kind (\<lambda>k.
          if k = TOKEN_COLON then parser_error (''expected expression after '' @ quoted ''?'')
          else seq (k_expression (knot_at L n)) (\<lambda>y. on_kind (\<lambda>k.
            if k \<noteq> TOKEN_COLON then parser_error (''expected '' @ quoted '':'' @ '' in conditional expression'')
            else before advance (seq (k_conditional (knot_at L n)) (\<lambda>z. node_over AST_CONDITIONAL_EXPR None [x, y, z]))))))))
        (is_shape (tree (Cond c t f))) (Pun PT_QUESTION # ?ws) vs" by simp
  qed
  then show "parses src (plev (knot_at L n) (lev (Cond c t f))) (is_shape (tree (Cond c t f))) (body (Cond c t f) @ vs) vs"
    by (simp add: plev_def body_words del: body.simps tree.simps)
qed

text \<open>The right side of an assignment: the value, or the operation of the operator with it.\<close>

lemma read_value:
  assumes "is_shape r y"
  shows "parses src (if PunctToken c \<noteq> TOKEN_ASSIGN then seq (node_over AST_BINARY_OP (Some (bin_op (PunctToken c))) [x, y])
      (\<lambda>binop. ret (add_children [binop] z)) else ret (add_children [y] z)) (is_shape (adopt (bare z) [assigned c (bare x) r])) vs vs"
proof -
  have "parses src (seq (node_over AST_BINARY_OP (Some (bin_op (PunctToken c))) [x, y]) (\<lambda>binop. ret (add_children [binop] z)))
      (is_shape (adopt (bare z) [Shape AST_BINARY_OP (Some (bin_op (PunctToken c))) [bare x, r]])) vs vs"
    using assms by (intro parses_seq [OF parses_node_over]) simp
  with assms show ?thesis by (simp add: assigned_def)
qed

lemma read_assign_name:
  assumes "parses src (k_assignment K) (is_shape r) ws vs"
  shows "parses src (assign_name K s) (is_shape (Shape AST_ASSIGNMENT (Some s) [assigned c (Shape AST_VAR_REF (Some s) []) r]))
    (Pun c # ws) vs"
proof -
  have val: "parses src (if PunctToken c \<noteq> TOKEN_ASSIGN then seq (parser_node AST_VAR_REF (Some s)) (\<lambda>x.
        seq (node_over AST_BINARY_OP (Some (bin_op (PunctToken c))) [x, y]) (\<lambda>binop. ret (add_children [binop] z)))
      else ret (add_children [y] z)) (is_shape (Shape AST_ASSIGNMENT (Some s) [assigned c (Shape AST_VAR_REF (Some s) []) r])) vs vs"
    if "is_shape r y" "is_shape (Shape AST_ASSIGNMENT (Some s) []) z" for y z
  proof (cases "c = PT_ASSIGN")
    case True
    with that show ?thesis by (simp add: assigned_def)
  next
    case False
    have "parses src (seq (node_over AST_BINARY_OP (Some (bin_op (PunctToken c))) [x, y]) (\<lambda>binop. ret (add_children [binop] z)))
        (is_shape (Shape AST_ASSIGNMENT (Some s) [assigned c (Shape AST_VAR_REF (Some s) []) r])) vs vs"
      if "is_shape (Shape AST_VAR_REF (Some s) []) x" for x
      using read_value [of y r src c x z vs] \<open>is_shape r y\<close> \<open>is_shape (Shape AST_ASSIGNMENT (Some s) []) z\<close> that False by simp
    then show ?thesis using False by (auto intro: parses_seq [OF parses_node])
  qed
  show ?thesis unfolding assign_name_def parses_on_kind kind_simps kind_of.simps
    by (intro parses_before_advance parses_seq [OF assms] parses_seq [OF parses_node] val)
qed

lemma read_assign_lvalue:
  assumes "parses src (k_assignment K) (is_shape r) ws vs" "is_shape l x" "assignable (sh_type l)"
  shows "parses src (assign_lvalue K x) (is_shape (Shape AST_ASSIGNMENT None [l, assigned c l r])) (Pun c # ws) vs"
proof -
  have "assignable (node_type x)" using assms(3) unfolding assms(2) [symmetric] by simp
  moreover have val: "parses src (if PunctToken c \<noteq> TOKEN_ASSIGN then seq (node_over AST_BINARY_OP (Some (bin_op (PunctToken c))) [ast_clone x, y])
        (\<lambda>binop. ret (add_children [binop] z)) else ret (add_children [y] z))
      (is_shape (Shape AST_ASSIGNMENT None [l, assigned c l r])) vs vs"
    if "is_shape r y" "is_shape (Shape AST_ASSIGNMENT None (map bare [x])) z" for y z
    using read_value [of y r src c "ast_clone x" z vs] that assms(2) by simp
  ultimately show ?thesis unfolding assign_lvalue_def parses_on_kind kind_simps kind_of.simps
    by (simp only: not_True_eq_False if_False simp_thms) (intro parses_before_advance parses_seq [OF assms(1)] parses_seq [OF parses_node_over] val)
qed

lemma assignable_lev: "good l \<Longrightarrow> assignable (sh_type (tree l)) \<Longrightarrow> 13 \<le> lev l"
  by (cases l) (auto simp: assignable_def split: expr.splits)

lemma stop_assign: "assign_kind (PunctToken c) \<Longrightarrow> stop 2 (PunctToken c)"
  by (auto simp: assign_kind_def stop_def suffix_kind_def dest!: oper_mem) (auto simp: binops_def)

lemma read_assign:
  assumes "good (Assign l c r)" "reads src L l" "reads src L r"
  shows "reads_own src L (Assign l c r)"
  unfolding reads_own_def
proof (intro allI impI)
  fix n vs
  let ?K = "knot_at L n" and ?ws = "words 1 r @ vs"
  have g: "good l" "assign_kind (PunctToken c)" "assignable (sh_type (tree l))" using assms(1) by simp_all
  assume "stop (lev (Assign l c r)) (kind vs)"
  then have r: "parses src (k_assignment ?K) (is_shape (tree r)) ?ws vs" by (intro knot_reads(2) [OF assms(3)]) simp
  have "parses src (parse_assignment_expression ?K) (is_shape (tree (Assign l c r))) (words 13 l @ Pun c # ?ws) vs"
  proof (cases "\<exists>s. l = Var s")
    case True
    then obtain s where l: "l = Var s" by blast
    have "parses src (assign_name ?K s) (is_shape (tree (Assign l c r))) (Pun c # ?ws) vs"
      using read_assign_name [OF r] by (simp add: l)
    then show ?thesis unfolding parse_assignment_expression_def
      using g(2) by (intro parses_on_token) (auto simp: l words_def wrap_def intro!: parses_save parses_before_advance)
  next
    case False
    have lev: "13 \<le> lev l" by (rule assignable_lev [OF g(1,3)])
    then have "words 13 l = body l" "words 2 l = body l" by (simp_all add: words_def wrap_def)
    then have lhs: "parses src (parse_conditional ?K) (is_shape (tree l)) (words 13 l @ Pun c # ?ws) (Pun c # ?ws)"
      using readsD [OF assms(2), of 2 "Pun c # ?ws" n] stop_assign [OF g(2)] by (simp add: plev_def)
    have tree: "tree (Assign l c r) = Shape AST_ASSIGNMENT None [tree l, assigned c (tree l) (tree r)]"
      using False by (cases l) simp_all
    have "parses src (assign_lvalue ?K x) (is_shape (Shape AST_ASSIGNMENT None [tree l, assigned c (tree l) (tree r)])) (Pun c # ?ws) vs"
      if "is_shape (tree l) x" for x
      by (rule read_assign_lvalue [OF r that g(3)])
    then have "parses src (general_assignment ?K) (is_shape (tree (Assign l c r))) (words 13 l @ Pun c # ?ws) vs"
      unfolding general_assignment_def tree by (intro parses_seq [OF lhs]) (simp add: g(2))
    moreover have "calm (words 13 l @ Pun c # ?ws)"
      unfolding \<open>words 13 l = body l\<close> using lev False by (intro calm_body g(1)) auto
    ultimately show ?thesis by (rule read_calm)
  qed
  then show "parses src (plev ?K (lev (Assign l c r))) (is_shape (tree (Assign l c r))) (body (Assign l c r) @ vs) vs"
    by (simp add: plev_def body_words del: body.simps tree.simps)
qed

lemma read_comma:
  assumes "good (Comma a b)" "reads src L a" "reads src L b" "chained src L a"
  shows "chained src L (Comma a b) \<and> reads_own src L (Comma a b)"
proof -
  have operand: "parses src (comma_level (knot_at L n) (Suc 0)) (is_shape (tree e)) (words 1 e @ vs) vs"
    if "reads src L e" "stop 1 (kind vs)" for n vs e
    using readsD [OF that(1), of 1 vs n] that(2) by (simp add: plev_def comma_level_def)
  have left: "comma.enters (knot_at L n) src 0 (tree a) (words 0 a @ Pun PT_COMMA # vs) (Pun PT_COMMA # vs)" for n vs
  proof (cases "lev a = 0")
    case True
    then obtain x y where a: "a = Comma x y" by (cases a) auto
    with assms(4) show ?thesis by (simp add: chained_def words_def wrap_def)
  next
    case False
    then have ws: "words 0 a = words 1 a" by (simp add: words_def wrap_def)
    show ?thesis unfolding ws by (intro comma.enters_start operand assms(2)) simp_all
  qed
  have chain: "comma.enters (knot_at L n) src 0 (tree (Comma a b)) (body (Comma a b) @ vs) vs" if "stop 1 (kind vs)" for n vs
    using comma.enters_step [OF _ left _ _ operand [OF assms(3) that], where r = "tree (Comma a b)"]
    by (simp add: body_words comma_joined_def del: body.simps)
  have "parses src (comma_level (knot_at L n) 0) (is_shape (tree (Comma a b))) (body (Comma a b) @ vs) vs"
    if "stop 0 (kind vs)" for n vs
    using that by (intro comma.enters_end chain) (auto simp: stop_def intro: stop_mono)
  with chain show ?thesis by (simp add: chained_def reads_own_def plev_def comma_level_def)
qed

lemma read_expr: "good e \<Longrightarrow> reads src L e \<and> reads_post src L e \<and> chained src L e"
proof (induction e)
  case (Call f as)
  then have "reads_post src L (Call f as)" by (intro read_call) (auto simp: list_all_iff)
  with Call.prems show ?case by (simp add: post_reads chained_def)
next
  case (Binary i c a b)
  then have "chained src L (Binary i c a b) \<and> reads_own src L (Binary i c a b)" by (intro read_binary) simp_all
  with own_reads [OF Binary.prems] Binary.prems show ?case by simp
next
  case (Comma a b)
  then have "chained src L (Comma a b) \<and> reads_own src L (Comma a b)" by (intro read_comma) simp_all
  with own_reads [OF Comma.prems] show ?case by simp
next
  case (Prefix c e)
  then have "reads_own src L (Prefix c e)" by (intro read_prefix) simp_all
  with own_reads [OF Prefix.prems] show ?case by (simp add: chained_def)
next
  case (Cond c t f)
  then have "reads_own src L (Cond c t f)" by (intro read_cond) simp_all
  with own_reads [OF Cond.prems] show ?case by (simp add: chained_def)
next
  case (Assign l c r)
  then have "reads_own src L (Assign l c r)" by (intro read_assign) simp_all
  with own_reads [OF Assign.prems] show ?case by (simp add: chained_def)
next
  case (Var s)
  with read_var [OF Var] show ?case by (simp add: post_reads chained_def)
next
  case (Lit n)
  with read_lit show ?case by (simp add: post_reads chained_def)
next
  case (Postfix e c)
  then have "reads_post src L (Postfix e c)" by (intro read_suffixes) simp_all
  with Postfix.prems show ?case by (simp add: post_reads chained_def)
next
  case (Index a i)
  then have "reads_post src L (Index a i)" by (intro read_suffixes) simp_all
  with Index.prems show ?case by (simp add: post_reads chained_def)
next
  case (Field e c s)
  then have "reads_post src L (Field e c s)" by (intro read_suffixes) simp_all
  with Field.prems show ?case by (simp add: post_reads chained_def)
qed

subsection \<open>The round trip\<close>

lemma commas_ok: "list_all (list_all word_ok) wss \<Longrightarrow> list_all word_ok (commas wss)"
  by (induction wss rule: commas.induct) auto

lemma words_ok_body: "list_all word_ok (words k e) \<longleftrightarrow> list_all word_ok (body e)"
  by (simp add: words_def wrap_def)

lemma body_ok: "good e \<Longrightarrow> list_all word_ok (body e)"
proof (induction e)
  case (Call f as)
  then have "list_all word_ok (commas (map (words 1) as))"
    by (intro commas_ok) (auto simp: list_all_iff words_ok_body [unfolded list_all_iff])
  with Call show ?case by (simp add: body_words words_ok_body del: body.simps(7))
qed (auto simp: body_words words_ok_body simp del: body.simps(3-))

definition expr_text :: "expr \<Rightarrow> string" where
  "expr_text e = print (words 0 e)"

lemma parser_init_feeds:
  assumes "list_all word_ok ws" "ws \<noteq> []"
  shows "\<exists>p. parser_init (lexer_init (print ws) name) = Inr p \<and> feeds (print ws) p ws"
proof -
  obtain w us where ws: "ws = w # us" using assms(2) by (cases ws) auto
  let ?lx = "lexer_init (print ws) name"
  have "rest ?lx = print (w # us)" using ws
    by (simp add: rest_def lexer_init_def lexer_intern_file_def Let_def case_prod_unfold split: option.split)
  with assms(1) ws obtain t lx where t: "lexer_next_token ?lx = Inr (t, lx)" "matches t w" "rest lx = print us"
    using read_word [of w ?lx us] by auto
  moreover have "source lx = print ws" using next_token_snap(1) [OF t(1)] by simp
  ultimately show ?thesis using assms(1) ws
    by (auto simp: parser_init_def feeds_def mark_def rest_def fresh_def)
qed

text \<open>
  (C3) Reading what was printed: an expression, printed with only the parentheses that the grammar needs, is
  parsed without an error into its own tree, whatever its operators, and the whole text is consumed. So
  operators bind with the precedence and the associativity of C.
\<close>

theorem expression_reads_back:
  assumes "good e"
  shows "\<exists>p x q. parser_init (lexer_init (expr_text e) None) = Inr p \<and>
    parse_expression (knot_at (Suc (Suc (length (expr_text e)))) (Suc (length (expr_text e)))) p = Inr (x, q) \<and>
    bare x = tree e \<and> tk_type (current q) = TOKEN_EOF"
proof -
  let ?src = "expr_text e" and ?n = "Suc (length (expr_text e))"
  obtain p where p: "parser_init (lexer_init ?src None) = Inr p" "feeds ?src p (words 0 e)"
    using parser_init_feeds [of "words 0 e" None] body_ok [OF assms] words_first [OF assms, of 0]
    by (auto simp: expr_text_def words_ok_body)
  have "parses ?src (parse_expression (knot_at (Suc ?n) ?n)) (is_shape (tree e)) (words 0 e) []"
    using readsD [of ?src "Suc ?n" e 0 "[]" ?n] read_expr [OF assms] by (simp add: plev_def)
  note run = this [unfolded parses_def, rule_format, OF p(2)]
  have "eats ?src None (Suc ?n) (Suc ?n) (Suc ?n) (parse_expression (knot_at (Suc ?n) ?n))"
    by (rule knot.eats_parse_expression) simp_all
  note no_fuel = eats_run(2) [OF this parser_init_within [OF p(1)]]
  show ?thesis
  proof (cases "parse_expression (knot_at (Suc ?n) ?n) p")
    case (Inl r)
    then show ?thesis using run no_fuel [of "fst r" "snd r"] by (simp add: seen_def case_prod_unfold)
  next
    case (Inr r)
    then show ?thesis using run p(1) feeds_kind [of ?src "snd r" "[]"] by (cases r) auto
  qed
qed

theorem expression_reads_back_witness:
  defines "e \<equiv> Assign (Index (Var ''a'') (Binary 8 PT_MINUS (Lit 7) (Binary 8 PT_MINUS (Var ''i'') (Lit 1)))) PT_PLUS_ASSIGN
     (Binary 9 PT_STAR (Prefix PT_MINUS (Postfix (Var ''b'') PT_INCREMENT)) (Comma (Lit 2) (Call (Var ''f'') [Lit 3])))"
  shows "\<exists>p x q. parser_init (lexer_init (expr_text e) None) = Inr p \<and>
    parse_expression (knot_at (Suc (Suc (length (expr_text e)))) (Suc (length (expr_text e)))) p = Inr (x, q) \<and>
    bare x = tree e \<and> tk_type (current q) = TOKEN_EOF"
proof (rule expression_reads_back)
  show "good e" unfolding e_def by code_simp
qed

end
