(* ===== verification/Codegen_State.thy ===== *)
theory Codegen_State
  imports Util Parser_Types
begin

section \<open>The state of the code generator: \<^verbatim>\<open>include/codegen.h\<close>, \<^verbatim>\<open>src/codegen.c\<close>\<close>

text \<open>
  The code generator walks the tree and writes assembler text. Its functions are programs of
  type \<open>'a cg\<close>: from a state to a result and a state, or to the way the process ends. The
  vectors of the state are lists; \<open>asm_text\<close> is the text written so far; the heap of types, the
  field tables and the globals of \<^verbatim>\<open>util.c\<close> are part of the state, because the code generator
  reads and extends them. An offset is the distance of a slot below \<^verbatim>\<open>rbp\<close>.

  A function that writes into its tree (\<^verbatim>\<open>result_type\<close>, \<^verbatim>\<open>full_type\<close>, \<^verbatim>\<open>byte_length\<close>) returns
  the tree with these fields set. Where the code compares pointers to nodes, the model compares
  the positions of the nodes: the child numbers on the way down from the body of the function.
\<close>

text \<open>
  \<open>lv_static_label\<close> is meant when \<open>lv_is_static\<close> is set. The code fills every field of a local in
  \<^verbatim>\<open>codegen_add_var\<close>, but leaves \<^verbatim>\<open>is_register\<close> of a static local as the stack happened to be.
\<close>

record LocalVar =
  lv_name :: string
  lv_offset :: int
  lv_size :: int
  lv_kind :: TypeKind
  lv_full_type :: "type_ptr option"
  lv_is_const :: bool
  lv_is_unsigned :: bool
  lv_is_static :: bool
  lv_static_label :: string
  lv_is_register :: bool

record LocalStaticVar =
  sv_label :: string
  sv_kind :: TypeKind
  sv_full_type :: "type_ptr option"
  sv_size :: int
  sv_is_initialized :: bool
  sv_init_value :: int
  sv_is_unsigned :: bool
  sv_init_node :: "ASTNode option"
  sv_is_label_init :: bool
  sv_init_label :: "string option"

record GlobalVar =
  gv_name :: string
  gv_size :: int
  gv_kind :: TypeKind
  gv_full_type :: "type_ptr option"
  gv_is_initialized :: bool
  gv_init_value :: int
  gv_is_label_init :: bool
  gv_init_label :: "string option"
  gv_is_const :: bool
  gv_is_unsigned :: bool
  gv_init_node :: "ASTNode option"
  gv_is_extern :: bool
  gv_is_static_linkage :: bool

record BreakFrame =
  break_label :: int
  continue_label :: int

type_synonym path = "nat list"

record SwitchLabel =
  sl_path :: path
  sl_node :: ASTNode
  sl_label :: int

record SwitchCtx =
  sw_entries :: "SwitchLabel list"
  sw_default :: int

record FpLiteral =
  fp_raw_text :: string
  fp_label :: int
  fp_is_double :: bool

text \<open>
  \<open>cg_types\<close>, \<open>cg_fields\<close> and \<open>diag\<close> stand for the types, the field tables and the globals of
  \<^verbatim>\<open>util.c\<close>. \<open>junk\<close> is a parameter: whether the uninitialized \<^verbatim>\<open>int\<close> of a stack frame is not zero.
\<close>

record CodeGen =
  asm_text :: string
  label_count :: int
  locals :: "LocalVar list"
  cg_globals :: "GlobalVar list"
  stack_offset :: int
  scope_start :: int
  push_depth :: int
  has_frame :: bool
  break_stack :: "BreakFrame list"
  break_depth :: int
  switch_stack :: "SwitchCtx list"
  cg_switch_depth :: int
  user_labels :: "string list"
  current_func :: string
  current_return_type :: TypeKind
  current_return_full_type :: "type_ptr option"
  tu_root :: "ASTNode option"
  string_pool :: "ASTNode list"
  fp_literals :: "FpLiteral list"
  fp_sign_mask_f32_emitted :: bool
  fp_sign_mask_f64_emitted :: bool
  fp_one_f64_emitted :: bool
  fp_one_f32_emitted :: bool
  cg_warnings_are_errors :: bool
  local_statics :: "LocalStaticVar list"
  variadic_reg_save_offset :: int
  variadic_named_gp_params :: int
  variadic_named_xmm_params :: int
  variadic_named_stack_params :: int
  current_sret_offset :: int
  struct_ret_scratch_base :: int
  struct_ret_scratch_cursor :: int
  owned_strings :: "string list"
  compound_literal_count :: int
  cg_emit_debug :: bool
  debug_last_file :: "string option"
  debug_last_line :: int
  cg_types :: type_heap
  cg_fields :: "StructField list list"
  diag :: error_state
  junk :: bool

text \<open>
  How the process ends early: \<open>Refused\<close> is \<^verbatim>\<open>exit(1)\<close> after an error message, with the globals of
  \<^verbatim>\<open>util.c\<close> as they are then (no jump target is valid while code is generated); \<open>BadAccess\<close> the use
  of a null pointer or of an element that is not there. \<open>Endless\<close> is the loop of
  \<^verbatim>\<open>pointer_types_equal\<close> on a cycle of pointer types, which does not return. \<open>CgFuel\<close> does not
  exist in the code: it marks a bound on the recursion that was too small.
\<close>

datatype cg_end = Refused error_state | BadAccess | DivTrap | Endless | CgFuel

type_synonym 'a cg = "CodeGen \<Rightarrow> cg_end + ('a \<times> CodeGen)"

subsection \<open>Programs over the state\<close>

definition give :: "'a \<Rightarrow> 'a cg" where
  "give x = (\<lambda>s. Inr (x, s))"

definition into :: "'a cg \<Rightarrow> ('a \<Rightarrow> 'b cg) \<Rightarrow> 'b cg" where
  "into m f = (\<lambda>s. case m s of Inl e \<Rightarrow> Inl e | Inr (x, s') \<Rightarrow> f x s')"

definition first :: "'a cg \<Rightarrow> 'b cg \<Rightarrow> 'b cg" where
  "first m k = into m (\<lambda>_. k)"

definition halt :: "cg_end \<Rightarrow> 'a cg" where
  "halt e = (\<lambda>s. Inl e)"

definition look :: "(CodeGen \<Rightarrow> 'a) \<Rightarrow> 'a cg" where
  "look f = (\<lambda>s. Inr (f s, s))"

definition upd :: "(CodeGen \<Rightarrow> CodeGen) \<Rightarrow> unit cg" where
  "upd f = (\<lambda>s. Inr ((), f s))"

definition on_cg :: "(CodeGen \<Rightarrow> 'a cg) \<Rightarrow> 'a cg" where
  "on_cg f = (\<lambda>s. f s s)"

definition skip :: "unit cg" where
  "skip = give ()"

definition cg_when :: "bool \<Rightarrow> unit cg \<Rightarrow> unit cg" where
  "cg_when b m = (if b then m else skip)"

fun all_in_turn :: "('a \<Rightarrow> unit cg) \<Rightarrow> 'a list \<Rightarrow> unit cg" where
  "all_in_turn f [] = skip"
| "all_in_turn f (x # xs) = first (f x) (all_in_turn f xs)"

text \<open>An access that fails if there is nothing to access.\<close>

definition need :: "'a option \<Rightarrow> 'a cg" where
  "need x = (case x of None \<Rightarrow> halt BadAccess | Some y \<Rightarrow> give y)"

text \<open>\<open>node->children[i]\<close>, where the code uses the child without a test for null.\<close>

definition kid :: "nat \<Rightarrow> ASTNode \<Rightarrow> ASTNode cg" where
  "kid i n = (if i < child_count n then need (children n ! i) else halt BadAccess)"

definition set_kid :: "nat \<Rightarrow> ASTNode \<Rightarrow> ASTNode \<Rightarrow> ASTNode" where
  "set_kid i c n = Node (info n) ((children n)[i := Some c])"

text \<open>\<open>node->value\<close> as an argument of \<^verbatim>\<open>strcmp\<close>: a null pointer stops the compiler.\<close>

definition value_text :: "ASTNode \<Rightarrow> string cg" where
  "value_text n = need (nvalue (info n))"

definition set_result :: "TypeKind \<Rightarrow> ASTNode \<Rightarrow> ASTNode" where
  "set_result t n = with_info (\<lambda>i. i\<lparr>result_type := t\<rparr>) n"

definition set_full :: "type_ptr option \<Rightarrow> ASTNode \<Rightarrow> ASTNode" where
  "set_full t n = with_info (\<lambda>i. i\<lparr>full_type := t\<rparr>) n"

subsection \<open>Output and messages\<close>

text \<open>Most instructions are one line, indented by four blanks.\<close>

definition emit_text :: "string \<Rightarrow> unit cg" where
  "emit_text t = upd (\<lambda>s. s\<lparr>asm_text := asm_text s @ t\<rparr>)"

definition plain_line :: "string \<Rightarrow> unit cg" where
  "plain_line t = emit_text (t @ [LF])"

definition ins :: "string \<Rightarrow> unit cg" where
  "ins t = plain_line (''    '' @ t)"

definition inss :: "string list \<Rightarrow> unit cg" where
  "inss ts = all_in_turn ins ts"

text \<open>Operands: \<^verbatim>\<open>[rbp - %d]\<close>, \<^verbatim>\<open>[rbp + %d]\<close> and \<^verbatim>\<open>[rel %s]\<close>.\<close>

definition slot :: "int \<Rightarrow> string" where
  "slot off = ''[rbp - '' @ show_int off @ '']''"

definition arg_slot :: "int \<Rightarrow> string" where
  "arg_slot off = ''[rbp + '' @ show_int off @ '']''"

definition sym :: "string \<Rightarrow> string" where
  "sym name = ''[rel '' @ name @ '']''"

text \<open>
  \<^verbatim>\<open>compile_error\<close> and \<^verbatim>\<open>compile_warning_at\<close> on the globals of \<^verbatim>\<open>util.c\<close>. While code is generated the
  jump target of the parser is not valid any more, so an error ends the process; the model of
  \<open>Jumps\<close> is there for completeness.
\<close>

definition ends :: "control \<Rightarrow> unit cg" where
  "ends c = (case c of Returns st \<Rightarrow> upd (\<lambda>s. s\<lparr>diag := st\<rparr>) | Jumps st \<Rightarrow> halt (Refused st) | Exits st \<Rightarrow> halt (Refused st))"

definition refuse :: "string \<Rightarrow> 'a cg" where
  "refuse msg = (\<lambda>s. case compile_error (''error: '' @ msg @ [LF]) (diag s) of
     Returns st \<Rightarrow> Inl (Refused st) | Jumps st \<Rightarrow> Inl (Refused st) | Exits st \<Rightarrow> Inl (Refused st))"

definition warn :: "string \<Rightarrow> unit cg" where
  "warn msg = on_cg (\<lambda>s. ends (compile_warning_at None 0 0 (''warning: '' @ msg @ [LF]) (diag s)))"

definition require :: "bool \<Rightarrow> string \<Rightarrow> unit cg" where
  "require b msg = (if b then skip else refuse msg)"

definition cg_mark :: "ASTNode \<Rightarrow> unit cg" where
  "cg_mark n = cg_when (src_line (info n) > 0)
     (upd (\<lambda>s. s\<lparr>diag := (diag s)\<lparr>g_error_src_file := src_file (info n), g_error_src_line := src_line (info n),
        g_error_src_col := src_col (info n)\<rparr>\<rparr>))"

definition emit_debug_line :: "string option \<Rightarrow> int \<Rightarrow> unit cg" where
  "emit_debug_line fl ln = on_cg (\<lambda>s.
     if \<not> cg_emit_debug s then skip
     else case fl of
       None \<Rightarrow> skip
     | Some f \<Rightarrow>
         if ln \<le> 0 then skip
         else if ln = debug_last_line s \<and> debug_last_file s = Some f then skip
         else first (plain_line (''%line '' @ show_int ln @ ''+0 '' @ [DQUOTE] @ f @ [DQUOTE]))
                (upd (\<lambda>s. s\<lparr>debug_last_line := ln, debug_last_file := Some f\<rparr>)))"

definition codegen_warn_const_discard :: "string \<Rightarrow> string \<Rightarrow> unit cg" where
  "codegen_warn_const_discard prefix varname =
     warn (prefix @ '' '' @ quoted varname @ '' discards '' @ quoted ''const'' @ '' qualifier from pointer target type'')"

subsection \<open>Start and counters\<close>

definition codegen_init :: "type_heap \<Rightarrow> StructField list list \<Rightarrow> error_state \<Rightarrow> bool \<Rightarrow> CodeGen" where
  "codegen_init h fs st u =
     \<lparr>asm_text = [], label_count = 0, locals = [], cg_globals = [], stack_offset = 0, scope_start = 0, push_depth = 0,
      has_frame = False, break_stack = [], break_depth = 0, switch_stack = [], cg_switch_depth = 0,
      user_labels = [], current_func = [], current_return_type = TYPE_INT, current_return_full_type = None,
      tu_root = None, string_pool = [], fp_literals = [], fp_sign_mask_f32_emitted = False,
      fp_sign_mask_f64_emitted = False, fp_one_f64_emitted = False, fp_one_f32_emitted = False,
      cg_warnings_are_errors = False, local_statics = [], variadic_reg_save_offset = 0, variadic_named_gp_params = 0,
      variadic_named_xmm_params = 0, variadic_named_stack_params = 0, current_sret_offset = 0,
      struct_ret_scratch_base = 0, struct_ret_scratch_cursor = 0, owned_strings = [], compound_literal_count = 0,
      cg_emit_debug = False, debug_last_file = None, debug_last_line = 0, cg_types = h, cg_fields = fs, diag = st,
      junk = u\<rparr>"

definition codegen_intern :: "string \<Rightarrow> string cg" where
  "codegen_intern t = first (upd (\<lambda>s. s\<lparr>owned_strings := owned_strings s @ [t]\<rparr>)) (give t)"

definition codegen_free :: "CodeGen \<Rightarrow> CodeGen" where
  "codegen_free s = s\<lparr>owned_strings := [], locals := [], cg_globals := [], break_stack := [], switch_stack := [],
     user_labels := [], string_pool := [], fp_literals := [], local_statics := []\<rparr>"

text \<open>\<open>cg->label_count++\<close>.\<close>

definition fresh_label :: "int cg" where
  "fresh_label = into (look label_count) (\<lambda>n. first (upd (\<lambda>s. s\<lparr>label_count := wrap32 (n + 1)\<rparr>)) (give n))"

definition push_rax :: "unit cg" where
  "push_rax = first (ins ''push rax'') (upd (\<lambda>s. s\<lparr>push_depth := push_depth s + 1\<rparr>))"

definition pop_reg :: "string \<Rightarrow> unit cg" where
  "pop_reg r = first (ins (''pop '' @ r)) (upd (\<lambda>s. s\<lparr>push_depth := push_depth s - 1\<rparr>))"

text \<open>A constructor of types allocates a node.\<close>

definition cg_type :: "(type_heap \<Rightarrow> type_heap \<times> type_ptr) \<Rightarrow> type_ptr cg" where
  "cg_type f = (\<lambda>s. let (h, t) = f (cg_types s) in Inr (t, s\<lparr>cg_types := h\<rparr>))"

definition node_of :: "CodeGen \<Rightarrow> type_ptr \<Rightarrow> CType" where
  "node_of s t = cg_types s ! t"

definition kind_at :: "CodeGen \<Rightarrow> type_ptr option \<Rightarrow> TypeKind option" where
  "kind_at s t = map_option (\<lambda>p. ty_kind (cg_types s ! p)) t"

definition base_at :: "CodeGen \<Rightarrow> type_ptr option \<Rightarrow> type_ptr option" where
  "base_at s t = (case t of None \<Rightarrow> None | Some p \<Rightarrow> ty_base (cg_types s ! p))"

definition fields_at :: "CodeGen \<Rightarrow> type_ptr \<Rightarrow> StructField list" where
  "fields_at s t = (case ty_fields (cg_types s ! t) of None \<Rightarrow> [] | Some i \<Rightarrow> cg_fields s ! i)"

end
