(* ===== verification/Codegen_Types.thy ===== *)
theory Codegen_Types
  imports Codegen_State
begin

section \<open>Kinds, types and moves: \<^verbatim>\<open>src/codegen.c\<close> to line 854\<close>

text \<open>
  The leaves of the code generator: sizes and conversions of kinds, comparison of pointer types,
  the usual arithmetic conversions, the tables of variables and the loads and stores of every width.
\<close>

definition arg_regs :: "string list" where
  "arg_regs = [''rdi'', ''rsi'', ''rdx'', ''rcx'', ''r8'', ''r9'']"

definition param_regs_8 :: "string list" where
  "param_regs_8 = [''dil'', ''sil'', ''dl'', ''cl'', ''r8b'', ''r9b'']"

definition param_regs_16 :: "string list" where
  "param_regs_16 = [''di'', ''si'', ''dx'', ''cx'', ''r8w'', ''r9w'']"

definition param_regs_32 :: "string list" where
  "param_regs_32 = [''edi'', ''esi'', ''edx'', ''ecx'', ''r8d'', ''r9d'']"

definition param_regs_64 :: "string list" where
  "param_regs_64 = [''rdi'', ''rsi'', ''rdx'', ''rcx'', ''r8'', ''r9'']"

text \<open>The choice of a register by the size of the parameter, made in three places.\<close>

definition param_reg :: "int \<Rightarrow> nat \<Rightarrow> string" where
  "param_reg sz i =
     (if sz = 1 then param_regs_8 ! i else if sz = 2 then param_regs_16 ! i
      else if sz = 8 then param_regs_64 ! i else param_regs_32 ! i)"

fun type_kind_bytes :: "TypeKind \<Rightarrow> int" where
  "type_kind_bytes TYPE_VOID = 0"
| "type_kind_bytes TYPE_BOOL = 1"
| "type_kind_bytes TYPE_CHAR = 1"
| "type_kind_bytes TYPE_SHORT = 2"
| "type_kind_bytes TYPE_INT = 4"
| "type_kind_bytes TYPE_LONG = 8"
| "type_kind_bytes TYPE_LONG_LONG = 8"
| "type_kind_bytes TYPE_UNSIGNED_LONG_LONG = 8"
| "type_kind_bytes TYPE_FLOAT = 4"
| "type_kind_bytes TYPE_DOUBLE = 8"
| "type_kind_bytes TYPE_POINTER = 8"
| "type_kind_bytes TYPE_ARRAY = 0"
| "type_kind_bytes TYPE_FUNCTION = 0"
| "type_kind_bytes TYPE_STRUCT = 0"
| "type_kind_bytes TYPE_UNION = 0"

definition type_is_fp :: "TypeKind \<Rightarrow> bool" where
  "type_is_fp k \<longleftrightarrow> k = TYPE_FLOAT \<or> k = TYPE_DOUBLE"

definition is_struct_or_union_kind :: "TypeKind \<Rightarrow> bool" where
  "is_struct_or_union_kind k \<longleftrightarrow> k = TYPE_STRUCT \<or> k = TYPE_UNION"

text \<open>The kinds whose values fill \<^verbatim>\<open>rax\<close>, listed at many places of the source.\<close>

definition long_kind :: "TypeKind \<Rightarrow> bool" where
  "long_kind k \<longleftrightarrow> k = TYPE_LONG \<or> k = TYPE_LONG_LONG \<or> k = TYPE_UNSIGNED_LONG_LONG"

definition wide_kind :: "TypeKind \<Rightarrow> bool" where
  "wide_kind k \<longleftrightarrow> long_kind k \<or> k = TYPE_POINTER"

definition struct_reg_eightbytes :: "type_heap \<Rightarrow> type_ptr option \<Rightarrow> int" where
  "struct_reg_eightbytes h st =
     (case st of
        None \<Rightarrow> 0
      | Some t \<Rightarrow> let sz = ty_size (h ! t) in if sz \<le> 0 \<or> sz > 16 then 0 else if sz > 8 then 2 else 1)"

definition return_is_memory_struct :: "type_heap \<Rightarrow> ASTNode option \<Rightarrow> bool" where
  "return_is_memory_struct h fn_decl =
     (case fn_decl of
        None \<Rightarrow> False
      | Some fn \<Rightarrow> is_struct_or_union_kind (decl_type (info fn)) \<and>
          (case full_type (info fn) of None \<Rightarrow> False | Some t \<Rightarrow> ty_size (h ! t) > 16))"

definition emit_struct_copy :: "int \<Rightarrow> unit cg" where
  "emit_struct_copy nbytes = inss [''mov rcx, '' @ show_int nbytes, ''rep movsb'']"

fun leading_params :: "ASTNode option list \<Rightarrow> nat" where
  "leading_params (Some c # cs) = (if node_type c = AST_PARAM then Suc (leading_params cs) else 0)"
| "leading_params _ = 0"

definition count_params :: "ASTNode option \<Rightarrow> nat" where
  "count_params fn_decl = (case fn_decl of None \<Rightarrow> 0 | Some fn \<Rightarrow> leading_params (children fn))"

subsection \<open>Conversions\<close>

definition int_to_fp :: "TypeKind \<Rightarrow> unit cg" where
  "int_to_fp dst = ins (if dst = TYPE_FLOAT then ''cvtsi2ss xmm0, rax'' else ''cvtsi2sd xmm0, rax'')"

definition emit_convert :: "TypeKind \<Rightarrow> TypeKind \<Rightarrow> unit cg" where
  "emit_convert src dst =
     (if src = dst then skip
      else if \<not> type_is_fp src \<and> type_is_fp dst then int_to_fp dst
      else if type_is_fp src \<and> \<not> type_is_fp dst
      then ins (if src = TYPE_FLOAT then ''cvttss2si rax, xmm0'' else ''cvttsd2si rax, xmm0'')
      else if src = TYPE_FLOAT \<and> dst = TYPE_DOUBLE then ins ''cvtss2sd xmm0, xmm0''
      else if src = TYPE_DOUBLE \<and> dst = TYPE_FLOAT then ins ''cvtsd2ss xmm0, xmm0''
      else let src_sz = type_kind_bytes src; dst_sz = type_kind_bytes dst in
        if src_sz = dst_sz then skip
        else if dst_sz = 8 then ins ''movsxd rax, eax''
        else if dst_sz = 2 then ins ''movsx eax, ax''
        else if dst_sz = 1 then ins ''movsx eax, al''
        else skip)"

definition emit_bool_normalize :: "bool \<Rightarrow> unit cg" where
  "emit_bool_normalize is_long_value =
     inss [if is_long_value then ''test rax, rax'' else ''test eax, eax'', ''setne al'', ''movzx eax, al'']"

definition is_null_pointer_constant :: "ASTNode \<Rightarrow> bool" where
  "is_null_pointer_constant n \<longleftrightarrow> node_type n = AST_INT_LITERAL \<and> nvalue (info n) = Some ''0''"

definition is_integer_constant :: "ASTNode \<Rightarrow> bool" where
  "is_integer_constant n \<longleftrightarrow> node_type n = AST_INT_LITERAL"

text \<open>
  The loop of \<^verbatim>\<open>pointer_types_equal\<close> goes down two chains of bases. A chain that ends has at most
  as many nodes as the heap; if both are longer, both run through a cycle of pointer types and
  the loop does not end: \<open>None\<close>.
\<close>

fun pointer_chains_equal :: "nat \<Rightarrow> type_heap \<Rightarrow> type_ptr option \<Rightarrow> type_ptr option \<Rightarrow> bool option" where
  "pointer_chains_equal n h (Some a) (Some b) =
     (case n of 0 \<Rightarrow> None
      | Suc m \<Rightarrow>
         if ty_kind (h ! a) \<noteq> ty_kind (h ! b) then Some False
         else if ty_kind (h ! a) \<noteq> TYPE_POINTER then Some True
         else pointer_chains_equal m h (ty_base (h ! a)) (ty_base (h ! b)))"
| "pointer_chains_equal n h a b = Some (a = b)"

definition pointer_types_equal :: "type_heap \<Rightarrow> type_ptr option \<Rightarrow> type_ptr option \<Rightarrow> bool option" where
  "pointer_types_equal h a b = pointer_chains_equal (Suc (length h)) h a b"

definition is_void_ptr :: "type_heap \<Rightarrow> type_ptr option \<Rightarrow> bool" where
  "is_void_ptr h t =
     (case t of None \<Rightarrow> False
      | Some p \<Rightarrow> ty_kind (h ! p) = TYPE_POINTER \<and>
          (case ty_base (h ! p) of None \<Rightarrow> False | Some b \<Rightarrow> ty_kind (h ! b) = TYPE_VOID))"

definition function_base :: "type_heap \<Rightarrow> type_ptr \<Rightarrow> bool" where
  "function_base h p = (case ty_base (h ! p) of None \<Rightarrow> False | Some b \<Rightarrow> ty_kind (h ! b) = TYPE_FUNCTION)"

definition pointer_types_assignable :: "type_heap \<Rightarrow> type_ptr option \<Rightarrow> type_ptr option \<Rightarrow> bool option" where
  "pointer_types_assignable h dst src =
     (case (dst, src) of
        (Some d, Some s) \<Rightarrow>
          if ty_kind (h ! d) \<noteq> TYPE_POINTER \<or> ty_kind (h ! s) \<noteq> TYPE_POINTER then Some False
          else if function_base h d then pointer_types_equal h dst src
          else if function_base h s then pointer_types_equal h dst src
          else if is_void_ptr h dst \<or> is_void_ptr h src then Some True
          else pointer_types_equal h dst src
      | _ \<Rightarrow> Some False)"

text \<open>A comparison as a step of a program.\<close>

definition compare :: "(type_heap \<Rightarrow> bool option) \<Rightarrow> bool cg" where
  "compare f = on_cg (\<lambda>s. case f (cg_types s) of None \<Rightarrow> halt Endless | Some b \<Rightarrow> give b)"

text \<open>The loop over the parameters reads \<^verbatim>\<open>params[i]\<close> for every \<open>i\<close> below the count.\<close>

fun same_param_kinds :: "type_heap \<Rightarrow> (type_ptr option \<times> type_ptr option) list \<Rightarrow> bool" where
  "same_param_kinds h [] = True"
| "same_param_kinds h ((p, q) # ps) =
     (case (p, q) of (Some a, Some b) \<Rightarrow> ty_kind (h ! a) = ty_kind (h ! b) \<and> same_param_kinds h ps | _ \<Rightarrow> False)"

definition base_kind :: "type_heap \<Rightarrow> type_ptr \<Rightarrow> TypeKind option" where
  "base_kind h p = map_option (\<lambda>b. ty_kind (h ! b)) (ty_base (h ! p))"

definition func_types_equal :: "type_heap \<Rightarrow> type_ptr \<Rightarrow> type_ptr \<Rightarrow> bool" where
  "func_types_equal h fa fb \<longleftrightarrow>
     ty_kind (h ! fa) = TYPE_FUNCTION \<and> ty_kind (h ! fb) = TYPE_FUNCTION \<and>
     base_kind h fa \<noteq> None \<and> base_kind h fa = base_kind h fb \<and>
     ty_param_count (h ! fa) = ty_param_count (h ! fb) \<and>
     same_param_kinds h (take (nat (ty_param_count (h ! fa))) (zip (ty_params (h ! fa)) (ty_params (h ! fb))))"

definition func_ptr_types_equal_cg :: "type_heap \<Rightarrow> type_ptr option \<Rightarrow> type_ptr option \<Rightarrow> bool" where
  "func_ptr_types_equal_cg h a b =
     (case (a, b) of
        (Some pa, Some pb) \<Rightarrow>
          ty_kind (h ! pa) = TYPE_POINTER \<and> ty_kind (h ! pb) = TYPE_POINTER \<and>
          (case (ty_base (h ! pa), ty_base (h ! pb)) of
             (Some fa, Some fb) \<Rightarrow> func_types_equal h fa fb
           | _ \<Rightarrow> False)
      | _ \<Rightarrow> a = b)"

fun type_from_kind :: "TypeKind \<Rightarrow> type_ptr" where
  "type_from_kind TYPE_VOID = type_void"
| "type_from_kind TYPE_CHAR = type_char"
| "type_from_kind TYPE_SHORT = type_short"
| "type_from_kind TYPE_LONG = type_long"
| "type_from_kind TYPE_LONG_LONG = type_long_long"
| "type_from_kind TYPE_UNSIGNED_LONG_LONG = type_unsigned_long_long"
| "type_from_kind _ = type_int"

text \<open>The type of a node as far as a designator shows it: its pointer type, or the singleton of its kind.\<close>

definition shown_type :: "ASTNode \<Rightarrow> type_ptr" where
  "shown_type n = (case (decl_type (info n), full_type (info n)) of
     (TYPE_POINTER, Some t) \<Rightarrow> t | _ \<Rightarrow> type_from_kind (decl_type (info n)))"

definition designator_params :: "ASTNode \<Rightarrow> type_ptr list" where
  "designator_params func_decl =
     take FUNC_TYPE_MAX_PARAMS
       (map shown_type (filter (\<lambda>c. node_type c = AST_PARAM) (List.map_filter id (children func_decl))))"

definition build_func_designator_type :: "ASTNode \<Rightarrow> type_ptr cg" where
  "build_func_designator_type func_decl =
     (let ps = designator_params func_decl in
      into (cg_type (\<lambda>h. type_function h (shown_type func_decl) (int (length ps)) ps))
        (\<lambda>f. cg_type (\<lambda>h. type_pointer h f)))"

text \<open>The children of a translation unit are nodes, and a function declaration has a name.\<close>

definition codegen_find_function_decl :: "CodeGen \<Rightarrow> string \<Rightarrow> ASTNode option" where
  "codegen_find_function_decl s name =
     (case tu_root s of None \<Rightarrow> None
      | Some tu \<Rightarrow> find (\<lambda>c. node_type c = AST_FUNCTION_DECL \<and> nvalue (info c) = Some name)
          (List.map_filter id (children tu)))"

subsection \<open>Loads and stores\<close>

definition load_text :: "string \<Rightarrow> int \<Rightarrow> bool \<Rightarrow> string" where
  "load_text place sz uns =
     (if sz = 1 then (if uns then ''movzx eax, byte '' else ''movsx eax, byte '') @ place
      else if sz = 2 then (if uns then ''movzx eax, word '' else ''movsx eax, word '') @ place
      else if sz = 8 then ''mov rax, '' @ place
      else ''mov eax, '' @ place)"

definition store_at :: "string \<Rightarrow> int \<Rightarrow> bool \<Rightarrow> unit cg" where
  "store_at place sz src_is_long =
     (if sz = 1 then ins (''mov '' @ place @ '', al'')
      else if sz = 2 then ins (''mov '' @ place @ '', ax'')
      else if sz = 8
      then first (cg_when (\<not> src_is_long) (ins ''movsxd rax, eax'')) (ins (''mov '' @ place @ '', rax''))
      else ins (''mov '' @ place @ '', eax''))"

definition emit_load_local :: "int \<Rightarrow> int \<Rightarrow> bool \<Rightarrow> unit cg" where
  "emit_load_local off sz uns = ins (load_text (slot off) sz uns)"

definition emit_store_local :: "int \<Rightarrow> int \<Rightarrow> bool \<Rightarrow> unit cg" where
  "emit_store_local off sz src_is_long = store_at (slot off) sz src_is_long"

definition emit_load_global :: "string \<Rightarrow> int \<Rightarrow> bool \<Rightarrow> unit cg" where
  "emit_load_global name sz uns = ins (load_text (sym name) sz uns)"

definition emit_store_global :: "string \<Rightarrow> int \<Rightarrow> bool \<Rightarrow> unit cg" where
  "emit_store_global name sz src_is_long = store_at (sym name) sz src_is_long"

definition codegen_intern_fp_literal :: "string \<Rightarrow> TypeKind \<Rightarrow> int cg" where
  "codegen_intern_fp_literal raw kind = on_cg (\<lambda>s.
     case find (\<lambda>f. fp_raw_text f = raw) (fp_literals s) of
       Some f \<Rightarrow> give (fp_label f)
     | None \<Rightarrow>
         let n = int (length (fp_literals s)) in
         first (upd (\<lambda>s. s\<lparr>fp_literals := fp_literals s @
                  [\<lparr>fp_raw_text = raw, fp_label = n, fp_is_double = (kind = TYPE_DOUBLE)\<rparr>]\<rparr>))
           (give n))"

definition fp_mov :: "TypeKind \<Rightarrow> string" where
  "fp_mov kind = (if kind = TYPE_FLOAT then ''movss '' else ''movsd '')"

definition emit_load_fp_local :: "int \<Rightarrow> TypeKind \<Rightarrow> unit cg" where
  "emit_load_fp_local off kind = ins (fp_mov kind @ ''xmm0, '' @ slot off)"

definition emit_store_fp_local :: "int \<Rightarrow> TypeKind \<Rightarrow> unit cg" where
  "emit_store_fp_local off kind = ins (fp_mov kind @ slot off @ '', xmm0'')"

definition emit_load_fp_global :: "string \<Rightarrow> TypeKind \<Rightarrow> unit cg" where
  "emit_load_fp_global name kind = ins (fp_mov kind @ ''xmm0, '' @ sym name)"

definition emit_store_fp_global :: "string \<Rightarrow> TypeKind \<Rightarrow> unit cg" where
  "emit_store_fp_global name kind = ins (fp_mov kind @ sym name @ '', xmm0'')"

definition emit_fp_widen_if_needed :: "TypeKind \<Rightarrow> TypeKind \<Rightarrow> unit cg" where
  "emit_fp_widen_if_needed src dst =
     (if src = dst then skip
      else if \<not> type_is_fp src \<and> type_is_fp dst then int_to_fp dst
      else if src = TYPE_FLOAT \<and> dst = TYPE_DOUBLE then ins ''cvtss2sd xmm0, xmm0''
      else if src = TYPE_DOUBLE \<and> dst = TYPE_FLOAT then ins ''cvtsd2ss xmm0, xmm0''
      else skip)"

definition emit_fp_bool_to_rax :: "TypeKind \<Rightarrow> unit cg" where
  "emit_fp_bool_to_rax kind =
     inss ((if kind = TYPE_DOUBLE then [''xorpd xmm1, xmm1'', ''ucomisd xmm0, xmm1'']
            else [''xorps xmm1, xmm1'', ''ucomiss xmm0, xmm1'']) @
           [''setne al'', ''setp cl'', ''or al, cl'', ''movzx rax, al''])"

subsection \<open>Variables and their types\<close>

text \<open>The innermost declaration is the last one of the table.\<close>

definition codegen_find_var :: "CodeGen \<Rightarrow> string \<Rightarrow> LocalVar option" where
  "codegen_find_var s name = find (\<lambda>v. lv_name v = name) (rev (locals s))"

definition codegen_find_global :: "CodeGen \<Rightarrow> string \<Rightarrow> GlobalVar option" where
  "codegen_find_global s name = find (\<lambda>g. gv_name g = name) (cg_globals s)"

definition codegen_add_var :: "string \<Rightarrow> int \<Rightarrow> int \<Rightarrow> TypeKind \<Rightarrow> type_ptr option \<Rightarrow> int cg" where
  "codegen_add_var name sz align kind ft =
     into (look (\<lambda>s. align_up (wrap32 (stack_offset s + sz)) align)) (\<lambda>off.
     first (upd (\<lambda>s. s\<lparr>stack_offset := off,
         locals := locals s @ [\<lparr>lv_name = name, lv_offset = off, lv_size = sz, lv_kind = kind, lv_full_type = ft,
           lv_is_const = False, lv_is_unsigned = False, lv_is_static = False, lv_static_label = [],
           lv_is_register = False\<rparr>]\<rparr>))
       (give off))"

text \<open>What the code writes into the entry it has just made.\<close>

definition set_last_var :: "(LocalVar \<Rightarrow> LocalVar) \<Rightarrow> unit cg" where
  "set_last_var f = upd (\<lambda>s. s\<lparr>locals := butlast (locals s) @ [f (last (locals s))]\<rparr>)"

fun scalar_singleton :: "TypeKind \<Rightarrow> type_ptr" where
  "scalar_singleton TYPE_CHAR = type_char"
| "scalar_singleton TYPE_SHORT = type_short"
| "scalar_singleton TYPE_LONG = type_long"
| "scalar_singleton TYPE_LONG_LONG = type_long_long"
| "scalar_singleton TYPE_UNSIGNED_LONG_LONG = type_unsigned_long_long"
| "scalar_singleton _ = type_int"

definition singleton_or_const :: "TypeKind \<Rightarrow> bool \<Rightarrow> type_ptr cg" where
  "singleton_or_const k c =
     (if c then cg_type (\<lambda>h. type_const_copy h (scalar_singleton k)) else give (scalar_singleton k))"

definition local_var_type :: "LocalVar \<Rightarrow> type_ptr option cg" where
  "local_var_type lv =
     (case lv_full_type lv of
        Some t \<Rightarrow> give (Some t)
      | None \<Rightarrow> if is_struct_or_union_kind (lv_kind lv) then give None
          else into (singleton_or_const (lv_kind lv) (lv_is_const lv)) (\<lambda>t. give (Some t)))"

definition global_var_type :: "GlobalVar \<Rightarrow> type_ptr option cg" where
  "global_var_type gv =
     (case gv_full_type gv of
        Some t \<Rightarrow> give (Some t)
      | None \<Rightarrow> into (singleton_or_const (gv_kind gv) (gv_is_const gv)) (\<lambda>t. give (Some t)))"

definition struct_field_type :: "StructField \<Rightarrow> type_ptr" where
  "struct_field_type f = (case fld_full_type f of Some t \<Rightarrow> t | None \<Rightarrow> scalar_singleton (fld_kind f))"

definition find_struct_field :: "StructField list \<Rightarrow> string \<Rightarrow> StructField option" where
  "find_struct_field fs name = find (\<lambda>f. fld_name f = name) fs"

subsection \<open>The usual arithmetic conversions\<close>

definition promote_kind :: "TypeKind \<Rightarrow> TypeKind" where
  "promote_kind t = (if long_kind t then TYPE_LONG else TYPE_INT)"

definition common_arith_kind :: "TypeKind \<Rightarrow> TypeKind \<Rightarrow> TypeKind" where
  "common_arith_kind a b =
     (if promote_kind a = TYPE_LONG \<or> promote_kind b = TYPE_LONG then TYPE_LONG else TYPE_INT)"

definition fp_common_arith_kind :: "TypeKind \<Rightarrow> TypeKind \<Rightarrow> TypeKind" where
  "fp_common_arith_kind a b =
     (if a = TYPE_DOUBLE \<or> b = TYPE_DOUBLE then TYPE_DOUBLE
      else if a = TYPE_FLOAT \<or> b = TYPE_FLOAT then TYPE_FLOAT
      else common_arith_kind a b)"

definition uac_rank_kind :: "TypeKind \<Rightarrow> TypeKind" where
  "uac_rank_kind k =
     (if k = TYPE_CHAR \<or> k = TYPE_SHORT then TYPE_INT
      else if k = TYPE_LONG_LONG \<or> k = TYPE_UNSIGNED_LONG_LONG then TYPE_LONG else k)"

definition uac_is_unsigned :: "TypeKind \<Rightarrow> bool \<Rightarrow> TypeKind \<Rightarrow> bool \<Rightarrow> bool" where
  "uac_is_unsigned ak au bk bu =
     (let a = uac_rank_kind ak; b = uac_rank_kind bk in
      if au = bu then au
      else if (au \<and> a = TYPE_LONG) \<or> (bu \<and> b = TYPE_LONG) then True
      else if (\<not> au \<and> a = TYPE_LONG) \<or> (\<not> bu \<and> b = TYPE_LONG) then False
      else True)"

definition type_kind_from_size :: "int \<Rightarrow> TypeKind" where
  "type_kind_from_size sz = (if sz = 8 then TYPE_LONG else TYPE_INT)"

end
