(* ===== verification/Codegen_Query.thy ===== *)
theory Codegen_Query
  imports Codegen_Types
begin

section \<open>The type of an expression: \<^verbatim>\<open>src/codegen.c\<close> lines 900 to 995 and 1838 to 2365\<close>

text \<open>
  The queries that give a type to an expression without code. They walk the tree; one step of the
  walk gets the walks of the children as programs and runs those it needs.
\<close>

text \<open>A name is looked up with \<^verbatim>\<open>strcmp\<close>, so a null name stops the compiler unless the table is empty.\<close>

definition find_var_of :: "ASTNode \<Rightarrow> LocalVar option cg" where
  "find_var_of n = on_cg (\<lambda>s. if locals s = [] then give None
     else into (value_text n) (\<lambda>name. give (codegen_find_var s name)))"

definition find_global_of :: "ASTNode \<Rightarrow> GlobalVar option cg" where
  "find_global_of n = on_cg (\<lambda>s. if cg_globals s = [] then give None
     else into (value_text n) (\<lambda>name. give (codegen_find_global s name)))"

text \<open>Of a variable the queries use the kind and the type.\<close>

type_synonym view = "TypeKind \<times> type_ptr option"

definition lv_view :: "LocalVar \<Rightarrow> view" where
  "lv_view v = (lv_kind v, lv_full_type v)"

definition gv_view :: "GlobalVar \<Rightarrow> view" where
  "gv_view g = (gv_kind g, gv_full_type g)"

definition struct_of :: "type_heap \<Rightarrow> view \<Rightarrow> type_ptr option" where
  "struct_of h v = (if is_struct_or_union_kind (fst v) then snd v else None)"

definition base_of :: "type_heap \<Rightarrow> type_ptr option \<Rightarrow> type_ptr option" where
  "base_of h t = (case t of None \<Rightarrow> None | Some p \<Rightarrow> ty_base (h ! p))"

definition element_of :: "type_heap \<Rightarrow> view \<Rightarrow> type_ptr option" where
  "element_of h v = (if fst v = TYPE_ARRAY \<or> fst v = TYPE_POINTER then base_of h (snd v) else None)"

definition pointee_of :: "type_heap \<Rightarrow> view \<Rightarrow> type_ptr option" where
  "pointee_of h v = (if fst v = TYPE_POINTER then base_of h (snd v) else None)"

definition if_struct :: "type_heap \<Rightarrow> type_ptr option \<Rightarrow> type_ptr option" where
  "if_struct h t = (case t of None \<Rightarrow> None
     | Some p \<Rightarrow> if is_struct_or_union_kind (ty_kind (h ! p)) then Some p else None)"

definition pointed_struct_of :: "type_heap \<Rightarrow> view \<Rightarrow> type_ptr option" where
  "pointed_struct_of h v = if_struct h (pointee_of h v)"

text \<open>
  Three ways to look at a name: only at the locals; at the globals if there is no such local; or
  at the globals if the local does not have what is asked for.
\<close>

definition from_local :: "(type_heap \<Rightarrow> view \<Rightarrow> type_ptr option) \<Rightarrow> ASTNode \<Rightarrow> type_ptr option cg" where
  "from_local f n = into (find_var_of n) (\<lambda>lv. look (\<lambda>s.
     case lv of None \<Rightarrow> None | Some v \<Rightarrow> f (cg_types s) (lv_view v)))"

definition from_global :: "(type_heap \<Rightarrow> view \<Rightarrow> type_ptr option) \<Rightarrow> ASTNode \<Rightarrow> type_ptr option cg" where
  "from_global f n = into (find_global_of n) (\<lambda>gv. look (\<lambda>s.
     case gv of None \<Rightarrow> None | Some g \<Rightarrow> f (cg_types s) (gv_view g)))"

definition from_visible :: "(type_heap \<Rightarrow> view \<Rightarrow> type_ptr option) \<Rightarrow> ASTNode \<Rightarrow> type_ptr option cg" where
  "from_visible f n = into (find_var_of n) (\<lambda>lv.
     case lv of None \<Rightarrow> from_global f n | Some v \<Rightarrow> look (\<lambda>s. f (cg_types s) (lv_view v)))"

definition from_either :: "(type_heap \<Rightarrow> view \<Rightarrow> type_ptr option) \<Rightarrow> ASTNode \<Rightarrow> type_ptr option cg" where
  "from_either f n = into (from_local f n) (\<lambda>t. case t of None \<Rightarrow> from_global f n | Some p \<Rightarrow> give (Some p))"

text \<open>The field of the structure \<open>t\<close> that the node \<open>n\<close> names.\<close>

definition field_of :: "ASTNode \<Rightarrow> type_ptr \<Rightarrow> StructField option cg" where
  "field_of n t = on_cg (\<lambda>s. if fields_at s t = [] then give None
     else into (value_text n) (\<lambda>name. give (find_struct_field (fields_at s t) name)))"

definition opt_field_of :: "ASTNode \<Rightarrow> type_ptr option \<Rightarrow> StructField option cg" where
  "opt_field_of n t = (case t of None \<Rightarrow> give None | Some p \<Rightarrow> field_of n p)"

subsection \<open>\<^verbatim>\<open>get_subscript_element_type\<close>, \<^verbatim>\<open>member_base_is_const\<close>\<close>

definition array_field_element :: "ASTNode \<Rightarrow> type_ptr option \<Rightarrow> type_ptr option cg" where
  "array_field_element n st =
     into (opt_field_of n st) (\<lambda>f. look (\<lambda>s.
       case f of None \<Rightarrow> None
       | Some fd \<Rightarrow> if fld_kind fd = TYPE_ARRAY then base_of (cg_types s) (fld_full_type fd) else None))"

definition inner_element :: "type_ptr option \<Rightarrow> type_ptr option cg" where
  "inner_element t = look (\<lambda>s. case t of None \<Rightarrow> None
     | Some p \<Rightarrow> if ty_kind (cg_types s ! p) = TYPE_ARRAY \<and> ty_base (cg_types s ! p) \<noteq> None
         then ty_base (cg_types s ! p) else t)"

definition subscript_step :: "ASTNode \<Rightarrow> type_ptr option cg \<Rightarrow> type_ptr option cg" where
  "subscript_step base rec =
     (case node_type base of
        AST_VAR_REF \<Rightarrow> from_visible element_of base
      | AST_MEMBER_ACCESS \<Rightarrow> into (kid 0 base) (\<lambda>obj.
          into (if node_type obj = AST_VAR_REF then from_visible struct_of obj else give None)
            (array_field_element base))
      | AST_ARROW_ACCESS \<Rightarrow> into (kid 0 base) (\<lambda>obj.
          into (if node_type obj = AST_VAR_REF then from_visible pointed_struct_of obj else give None)
            (array_field_element base))
      | AST_ARRAY_INDEX \<Rightarrow> into rec inner_element
      | _ \<Rightarrow> give None)"

fun get_subscript_element_type :: "ASTNode \<Rightarrow> type_ptr option cg" where
  "get_subscript_element_type (Node i (Some base # cs)) = subscript_step base (get_subscript_element_type base)"
| "get_subscript_element_type _ = halt BadAccess"

fun member_base_is_const :: "ASTNode \<Rightarrow> bool cg" where
  "member_base_is_const (Node i cs) =
     (if ntype i = AST_VAR_REF then
        into (find_var_of (Node i cs)) (\<lambda>lv. case lv of
          Some v \<Rightarrow> give (lv_is_const v)
        | None \<Rightarrow> into (find_global_of (Node i cs)) (\<lambda>gv. give (case gv of Some g \<Rightarrow> gv_is_const g | None \<Rightarrow> False)))
      else if ntype i = AST_MEMBER_ACCESS then
        (case cs of Some c # _ \<Rightarrow> member_base_is_const c | _ \<Rightarrow> give False)
      else give False)"

subsection \<open>\<^verbatim>\<open>sizeof_type_of_expr\<close>\<close>

definition kind_or_int :: "type_ptr option \<Rightarrow> TypeKind cg" where
  "kind_or_int t = look (\<lambda>s. case t of None \<Rightarrow> TYPE_INT | Some p \<Rightarrow> ty_kind (cg_types s ! p))"

definition var_kind :: "ASTNode \<Rightarrow> TypeKind cg" where
  "var_kind n = into (find_var_of n) (\<lambda>lv. case lv of
     Some v \<Rightarrow> give (lv_kind v)
   | None \<Rightarrow> into (find_global_of n) (\<lambda>gv. give (case gv of Some g \<Rightarrow> gv_kind g | None \<Rightarrow> TYPE_INT)))"

text \<open>The query on child \<open>i\<close>; a null child has type \<^verbatim>\<open>int\<close>.\<close>

definition query :: "TypeKind cg option list \<Rightarrow> nat \<Rightarrow> TypeKind cg" where
  "query rs i = (if i < length rs then (case rs ! i of None \<Rightarrow> give TYPE_INT | Some m \<Rightarrow> m) else halt BadAccess)"

definition sizeof_binary :: "ASTNode \<Rightarrow> TypeKind cg option list \<Rightarrow> TypeKind cg" where
  "sizeof_binary n rs = into (value_text n) (\<lambda>op.
     if op \<in> {''+'', ''-'', ''*'', ''/'', ''%'', ''&'', ''^'', ''|''} then
       into (query rs 0) (\<lambda>lt. into (query rs 1) (\<lambda>rt. give
         (if type_is_fp lt \<or> type_is_fp rt then fp_common_arith_kind lt rt
          else if lt = TYPE_POINTER \<or> lt = TYPE_ARRAY \<or> rt = TYPE_POINTER \<or> rt = TYPE_ARRAY then TYPE_POINTER
          else common_arith_kind (promote_kind lt) (promote_kind rt))))
     else if op \<in> {''<<'', ''>>''} then into (query rs 0) (\<lambda>lt. give (promote_kind lt))
     else give TYPE_INT)"

definition sizeof_unary :: "ASTNode \<Rightarrow> TypeKind cg option list \<Rightarrow> TypeKind cg" where
  "sizeof_unary n rs = into (value_text n) (\<lambda>op.
     if op \<in> {''+'', ''-'', ''~''} then
       into (query rs 0) (\<lambda>ct. give (if type_is_fp ct then ct else promote_kind ct))
     else give TYPE_INT)"

definition sizeof_assignment :: "ASTNode \<Rightarrow> TypeKind cg option list \<Rightarrow> TypeKind cg" where
  "sizeof_assignment n rs =
     (if nvalue (info n) \<noteq> None \<and> nvalue (info n) \<noteq> Some [] then var_kind n
      else if rs \<noteq> [] then query rs 0
      else give TYPE_INT)"

text \<open>The kind of a member; behind a subscript the small kinds are promoted.\<close>

definition sizeof_field :: "bool \<Rightarrow> StructField option \<Rightarrow> TypeKind" where
  "sizeof_field promoted f =
     (case f of
        None \<Rightarrow> TYPE_INT
      | Some fd \<Rightarrow>
          if \<not> promoted \<or> type_is_fp (fld_kind fd) \<or> fld_kind fd = TYPE_POINTER then fld_kind fd
          else promote_kind (fld_kind fd))"

definition sizeof_member :: "ASTNode \<Rightarrow> TypeKind cg" where
  "sizeof_member n = into (kid 0 n) (\<lambda>base.
     case node_type base of
       AST_VAR_REF \<Rightarrow> into (from_either struct_of base) (\<lambda>t. into (opt_field_of n t) (\<lambda>f. give (sizeof_field False f)))
     | AST_DEREF \<Rightarrow>
         if children base = [] then give TYPE_INT
         else into (kid 0 base) (\<lambda>p.
           if node_type p = AST_VAR_REF
           then into (from_local pointed_struct_of p) (\<lambda>t. into (opt_field_of n t) (\<lambda>f. give (sizeof_field False f)))
           else give TYPE_INT)
     | AST_ARRAY_INDEX \<Rightarrow>
         if children base = [] then give TYPE_INT
         else into (kid 0 base) (\<lambda>a.
           if node_type a = AST_VAR_REF
           then into (from_either element_of a) (\<lambda>t. on_cg (\<lambda>s.
             into (opt_field_of n (if_struct (cg_types s) t)) (\<lambda>f. give (sizeof_field True f))))
           else give TYPE_INT)
     | _ \<Rightarrow> give TYPE_INT)"

definition sizeof_arrow :: "ASTNode \<Rightarrow> TypeKind cg" where
  "sizeof_arrow n = into (kid 0 n) (\<lambda>base.
     if node_type base = AST_VAR_REF
     then into (from_either pointed_struct_of base) (\<lambda>t. into (opt_field_of n t) (\<lambda>f. give (sizeof_field False f)))
     else give TYPE_INT)"

definition sizeof_step :: "ASTNode \<Rightarrow> TypeKind cg option list \<Rightarrow> TypeKind cg" where
  "sizeof_step n rs =
     (case node_type n of
        AST_INT_LITERAL \<Rightarrow> give (decl_type (info n))
      | AST_CHAR_LITERAL \<Rightarrow> give TYPE_INT
      | AST_VAR_REF \<Rightarrow> var_kind n
      | AST_DEREF \<Rightarrow> into (kid 0 n) (\<lambda>operand.
          if node_type operand = AST_VAR_REF then into (from_either pointee_of operand) kind_or_int else give TYPE_INT)
      | AST_ARRAY_INDEX \<Rightarrow> into (kid 0 n) (\<lambda>base.
          if node_type base = AST_VAR_REF then into (from_either element_of base) kind_or_int else give TYPE_INT)
      | AST_BINARY_OP \<Rightarrow> sizeof_binary n rs
      | AST_UNARY_OP \<Rightarrow> sizeof_unary n rs
      | AST_STRING_LITERAL \<Rightarrow> give TYPE_POINTER
      | AST_ADDR_OF \<Rightarrow> give TYPE_POINTER
      | AST_CAST \<Rightarrow> give (decl_type (info n))
      | AST_FUNCTION_CALL \<Rightarrow> give (decl_type (info n))
      | AST_INDIRECT_CALL \<Rightarrow> give (if decl_type (info n) = TYPE_VOID then TYPE_INT else decl_type (info n))
      | AST_PREFIX_INC_DEC \<Rightarrow> query rs 0
      | AST_POSTFIX_INC_DEC \<Rightarrow> query rs 0
      | AST_ASSIGNMENT \<Rightarrow> sizeof_assignment n rs
      | AST_COMMA_EXPR \<Rightarrow> query rs 1
      | AST_MEMBER_ACCESS \<Rightarrow> sizeof_member n
      | AST_ARROW_ACCESS \<Rightarrow> sizeof_arrow n
      | _ \<Rightarrow> give TYPE_INT)"

fun sizeof_type_of_expr :: "ASTNode \<Rightarrow> TypeKind cg" where
  "sizeof_type_of_expr (Node i cs) = sizeof_step (Node i cs) (map (map_option sizeof_type_of_expr) cs)"

subsection \<open>\<^verbatim>\<open>expr_result_type\<close>\<close>

text \<open>
  This query writes \<^verbatim>\<open>result_type\<close>, and \<^verbatim>\<open>full_type\<close> for members, into the tree: it gives the kind
  and the tree.
\<close>

type_synonym typing = "TypeKind \<times> ASTNode"

definition typed_kid :: "typing cg option list \<Rightarrow> nat \<Rightarrow> ASTNode \<Rightarrow> typing cg" where
  "typed_kid rs i n =
     (if i < length rs
      then (case rs ! i of
              None \<Rightarrow> give (TYPE_INT, n)
            | Some m \<Rightarrow> into m (\<lambda>(t, c). give (t, set_kid i c n)))
      else halt BadAccess)"

definition value_kind :: "TypeKind \<Rightarrow> int \<Rightarrow> TypeKind" where
  "value_kind k sz =
     (if k = TYPE_POINTER \<or> k = TYPE_ARRAY then TYPE_POINTER
      else if type_is_fp k then k
      else if is_struct_or_union_kind k then k
      else promote_kind (type_kind_from_size sz))"

definition var_result_type :: "ASTNode \<Rightarrow> TypeKind cg" where
  "var_result_type n = into (find_var_of n) (\<lambda>lv. case lv of
     Some v \<Rightarrow> give (value_kind (lv_kind v) (lv_size v))
   | None \<Rightarrow> into (find_global_of n) (\<lambda>gv. give
       (case gv of Some g \<Rightarrow> value_kind (gv_kind g) (gv_size g) | None \<Rightarrow> TYPE_INT)))"

definition unary_result_type :: "ASTNode \<Rightarrow> typing cg option list \<Rightarrow> typing cg" where
  "unary_result_type n rs = into (value_text n) (\<lambda>op.
     if op \<in> {''+'', ''-'', ''~''} then
       into (typed_kid rs 0 n) (\<lambda>(ct, n). give (if type_is_fp ct then ct else promote_kind ct, n))
     else give (TYPE_INT, n))"

definition binary_result_type :: "ASTNode \<Rightarrow> typing cg option list \<Rightarrow> typing cg" where
  "binary_result_type n rs = into (value_text n) (\<lambda>op.
     if op \<in> {''+'', ''-'', ''*'', ''/'', ''%''} then
       into (typed_kid rs 0 n) (\<lambda>(lt, n). into (typed_kid rs 1 n) (\<lambda>(rt, n). give
         (if type_is_fp lt \<or> type_is_fp rt then fp_common_arith_kind lt rt
          else if op \<in> {''+'', ''-''} \<and> (lt = TYPE_POINTER \<or> rt = TYPE_POINTER) then TYPE_POINTER
          else common_arith_kind lt rt, n)))
     else if op \<in> {''<<'', ''>>''} then
       into (typed_kid rs 0 n) (\<lambda>(lt, n). give (promote_kind lt, n))
     else if op \<in> {''&'', ''^'', ''|''} then
       into (typed_kid rs 0 n) (\<lambda>(lt, n). into (typed_kid rs 1 n) (\<lambda>(rt, n). give (common_arith_kind lt rt, n)))
     else give (TYPE_INT, n))"

text \<open>The element of a subscripted name; the code uses its base without a test.\<close>

definition element_kind :: "type_ptr option \<Rightarrow> TypeKind cg" where
  "element_kind t = on_cg (\<lambda>s. into (need (base_of (cg_types s) t)) (\<lambda>e.
     let k = ty_kind (cg_types s ! e) in
     give (if k = TYPE_POINTER then TYPE_POINTER else if type_is_fp k then k
       else promote_kind (type_kind_from_size (ty_size (cg_types s ! e))))))"

definition subscripted_kind :: "view \<Rightarrow> TypeKind cg" where
  "subscripted_kind v =
     (if snd v \<noteq> None \<and> (fst v = TYPE_ARRAY \<or> fst v = TYPE_POINTER) then element_kind (snd v) else give TYPE_INT)"

definition index_result_type :: "ASTNode \<Rightarrow> TypeKind cg" where
  "index_result_type n = into (kid 0 n) (\<lambda>base.
     if node_type base = AST_VAR_REF then
       into (find_var_of base) (\<lambda>lv. case lv of
         Some v \<Rightarrow> subscripted_kind (lv_view v)
       | None \<Rightarrow> into (find_global_of base) (\<lambda>gv. case gv of
           Some g \<Rightarrow> subscripted_kind (gv_view g) | None \<Rightarrow> give TYPE_INT))
     else give TYPE_INT)"

definition field_result_type :: "ASTNode \<Rightarrow> StructField option \<Rightarrow> typing cg" where
  "field_result_type n f =
     (case f of
        None \<Rightarrow> give (TYPE_INT, n)
      | Some fd \<Rightarrow> on_cg (\<lambda>s.
          case (fld_kind fd, base_of (cg_types s) (fld_full_type fd)) of
            (TYPE_ARRAY, Some e) \<Rightarrow> into (cg_type (\<lambda>h. type_pointer h e)) (\<lambda>t. give (TYPE_POINTER, set_full (Some t) n))
          | (k, _) \<Rightarrow>
              if type_is_fp k then give (k, n)
              else if k = TYPE_POINTER then give (TYPE_POINTER, set_full (fld_full_type fd) n)
              else give (promote_kind k, n)))"

text \<open>The structure whose member is accessed, for the three forms of its base.\<close>

definition member_struct :: "ASTNode \<Rightarrow> type_ptr option cg" where
  "member_struct base =
     (case node_type base of
        AST_VAR_REF \<Rightarrow> from_either struct_of base
      | AST_DEREF \<Rightarrow>
          if children base = [] then give None
          else into (kid 0 base) (\<lambda>p.
            if node_type p = AST_VAR_REF then from_either pointed_struct_of p else give None)
      | AST_ARRAY_INDEX \<Rightarrow>
          if children base = [] then give None
          else into (kid 0 base) (\<lambda>a.
            if node_type a = AST_VAR_REF
            then into (from_either element_of a) (\<lambda>t. look (\<lambda>s. if_struct (cg_types s) t))
            else give None)
      | _ \<Rightarrow> give None)"

definition member_result_type :: "ASTNode \<Rightarrow> typing cg" where
  "member_result_type n = into (kid 0 n) (\<lambda>base. into (member_struct base) (\<lambda>t.
     into (opt_field_of n t) (field_result_type n)))"

definition arrow_result_type :: "ASTNode \<Rightarrow> typing cg" where
  "arrow_result_type n = into (kid 0 n) (\<lambda>base.
     if node_type base = AST_VAR_REF
     then into (from_either pointed_struct_of base) (\<lambda>t. into (opt_field_of n t) (field_result_type n))
     else give (TYPE_INT, n))"

definition assignment_result_type :: "ASTNode \<Rightarrow> TypeKind cg" where
  "assignment_result_type n = into (find_var_of n) (\<lambda>lv. give
     (case lv of Some v \<Rightarrow> type_kind_from_size (lv_size v) | None \<Rightarrow> TYPE_INT))"

definition result_step :: "ASTNode \<Rightarrow> typing cg option list \<Rightarrow> typing cg" where
  "result_step n rs =
     (let plain = (\<lambda>m. into m (\<lambda>t. give (t, n))) in
      case node_type n of
        AST_INT_LITERAL \<Rightarrow> give (decl_type (info n), n)
      | AST_CHAR_LITERAL \<Rightarrow> give (TYPE_INT, n)
      | AST_FLOAT_LITERAL \<Rightarrow> give (decl_type (info n), n)
      | AST_VAR_REF \<Rightarrow> plain (var_result_type n)
      | AST_ADDR_OF \<Rightarrow> give (TYPE_POINTER, n)
      | AST_UNARY_OP \<Rightarrow> unary_result_type n rs
      | AST_BINARY_OP \<Rightarrow> binary_result_type n rs
      | AST_ASSIGNMENT \<Rightarrow> plain (assignment_result_type n)
      | AST_FUNCTION_CALL \<Rightarrow> give (decl_type (info n), n)
      | AST_INDIRECT_CALL \<Rightarrow> give (if decl_type (info n) = TYPE_VOID then TYPE_INT else decl_type (info n), n)
      | AST_CAST \<Rightarrow> give (decl_type (info n), n)
      | AST_ARRAY_INDEX \<Rightarrow> plain (index_result_type n)
      | AST_SIZEOF_TYPE \<Rightarrow> give (TYPE_LONG, n)
      | AST_SIZEOF_EXPR \<Rightarrow> give (TYPE_LONG, n)
      | AST_COMMA_EXPR \<Rightarrow> typed_kid rs 1 n
      | AST_MEMBER_ACCESS \<Rightarrow> member_result_type n
      | AST_ARROW_ACCESS \<Rightarrow> arrow_result_type n
      | _ \<Rightarrow> give (TYPE_INT, n))"

fun expr_result_type :: "ASTNode \<Rightarrow> typing cg" where
  "expr_result_type (Node i cs) =
     into (result_step (Node i cs) (map (map_option expr_result_type) cs)) (\<lambda>(t, n). give (t, set_result t n))"

end
