(* ===== verification/Codegen_Frame.thy ===== *)
theory Codegen_Frame
  imports Codegen_Query
begin

section \<open>Call layout, frame and labels: \<^verbatim>\<open>src/codegen.c\<close> lines 98 to 210, 628 to 700, 1633 to 1755\<close>

text \<open>
  What is decided before code is emitted: where the arguments of a call go, how many bytes a
  function needs for its locals, which user labels it has and which labels a switch gets.
\<close>

subsection \<open>Where arguments go\<close>

record ArgSlot =
  slot_is_struct :: bool
  slot_is_fp :: bool
  slot_mem :: bool
  slot_nbytes :: int
  gp_start :: int
  gp_count :: int
  xmm_idx :: int
  slot_stack_off :: int

record CallLayout =
  sret :: bool
  stack_bytes :: int
  items :: "ArgSlot list"

definition MAX_CALL_LAYOUT_ITEMS :: int where
  "MAX_CALL_LAYOUT_ITEMS = 24"

text \<open>What the layout uses of an argument: whether a parameter is declared for it, its kind and its type.\<close>

record arg_shape =
  declared :: bool
  shape_kind :: TypeKind
  shape_full :: "type_ptr option"

text \<open>The registers and the stack bytes used so far.\<close>

record placing =
  gp_next :: int
  xmm_next :: int
  stack_next :: int

definition empty_slot :: ArgSlot where
  "empty_slot = \<lparr>slot_is_struct = False, slot_is_fp = False, slot_mem = False, slot_nbytes = 0, gp_start = - 1,
     gp_count = 0, xmm_idx = - 1, slot_stack_off = - 1\<rparr>"

definition place_gp :: "int \<Rightarrow> ArgSlot \<Rightarrow> placing \<Rightarrow> ArgSlot \<times> placing" where
  "place_gp n s P = (s\<lparr>gp_start := gp_next P, gp_count := n\<rparr>, P\<lparr>gp_next := gp_next P + n\<rparr>)"

definition place_xmm :: "ArgSlot \<Rightarrow> placing \<Rightarrow> ArgSlot \<times> placing" where
  "place_xmm s P = (s\<lparr>xmm_idx := xmm_next P\<rparr>, P\<lparr>xmm_next := xmm_next P + 1\<rparr>)"

definition place_stack :: "int \<Rightarrow> ArgSlot \<Rightarrow> placing \<Rightarrow> ArgSlot \<times> placing" where
  "place_stack n s P =
     (s\<lparr>slot_mem := True, slot_stack_off := stack_next P\<rparr>, P\<lparr>stack_next := wrap32 (stack_next P + n)\<rparr>)"

definition place_arg :: "type_heap \<Rightarrow> arg_shape \<Rightarrow> placing \<Rightarrow> ArgSlot \<times> placing" where
  "place_arg h a P =
     (let k = shape_kind a;
          s = empty_slot\<lparr>slot_is_struct := is_struct_or_union_kind k, slot_is_fp := type_is_fp k\<rparr> in
      if is_struct_or_union_kind k then
        let sz = type_size h (shape_full a); ebs = struct_reg_eightbytes h (shape_full a);
            s = s\<lparr>slot_nbytes := sz\<rparr> in
        if ebs > 0 \<and> gp_next P + ebs \<le> 6 then place_gp ebs s P
        else place_stack (align_up sz 8) s P
      else if type_is_fp k then
        let s = s\<lparr>slot_nbytes := (if declared a then type_kind_bytes k else 8)\<rparr> in
        if xmm_next P < 8 then place_xmm s P else place_stack 8 s P
      else
        let s = s\<lparr>slot_nbytes := 8\<rparr> in
        if gp_next P < 6 then place_gp 1 s P else place_stack 8 s P)"

fun place_args :: "type_heap \<Rightarrow> arg_shape list \<Rightarrow> placing \<Rightarrow> ArgSlot list \<times> placing" where
  "place_args h [] P = ([], P)"
| "place_args h (a # as) P =
     (let (s, P1) = place_arg h a P; (ss, P2) = place_args h as P1 in (s # ss, P2))"

definition first_place :: "bool \<Rightarrow> placing" where
  "first_place sr = \<lparr>gp_next = of_bool sr, xmm_next = 0, stack_next = 0\<rparr>"

definition layout_of :: "type_heap \<Rightarrow> bool \<Rightarrow> arg_shape list \<Rightarrow> CallLayout" where
  "layout_of h sr as =
     (let (ss, P) = place_args h as (first_place sr) in \<lparr>sret = sr, stack_bytes = stack_next P, items = ss\<rparr>)"

text \<open>
  An argument without a parameter is classified by the caller's kinds, or else by its tree; the
  type of a structure variable is looked up if the tree does not have it.
\<close>

definition extra_kind :: "ASTNode option \<Rightarrow> TypeKind list option \<Rightarrow> nat \<Rightarrow> TypeKind cg" where
  "extra_kind call_node actual_types i =
     (case actual_types of
        Some ks \<Rightarrow> if i < length ks then give (ks ! i) else halt BadAccess
      | None \<Rightarrow>
          (case call_node of
             Some c \<Rightarrow> if i < child_count c then into (kid i c) (\<lambda>a. give (decl_type (info a))) else give TYPE_LONG
           | None \<Rightarrow> give TYPE_LONG))"

definition struct_var_type :: "ASTNode \<Rightarrow> type_ptr option cg" where
  "struct_var_type arg =
     (if node_type arg = AST_VAR_REF then from_visible (\<lambda>h v. snd v) arg else give None)"

definition extra_shape :: "ASTNode option \<Rightarrow> TypeKind list option \<Rightarrow> nat \<Rightarrow> arg_shape cg" where
  "extra_shape call_node actual_types i =
     into (extra_kind call_node actual_types i) (\<lambda>k.
       case call_node of
         None \<Rightarrow> give \<lparr>declared = False, shape_kind = k, shape_full = None\<rparr>
       | Some c \<Rightarrow>
           if i \<ge> child_count c then give \<lparr>declared = False, shape_kind = k, shape_full = None\<rparr>
           else into (kid i c) (\<lambda>arg.
             into (if full_type (info arg) = None \<and> is_struct_or_union_kind k then struct_var_type arg
                   else give (full_type (info arg)))
               (\<lambda>t. give \<lparr>declared = False, shape_kind = k, shape_full = t\<rparr>)))"

definition arg_shape_at :: "ASTNode option \<Rightarrow> ASTNode option \<Rightarrow> TypeKind list option \<Rightarrow> nat \<Rightarrow> arg_shape cg" where
  "arg_shape_at fn_decl call_node actual_types i =
     (case fn_decl of
        Some fn \<Rightarrow>
          if i < count_params fn_decl
          then into (kid i fn) (\<lambda>p. give \<lparr>declared = True, shape_kind = decl_type (info p), shape_full = full_type (info p)\<rparr>)
          else extra_shape call_node actual_types i
      | None \<Rightarrow> extra_shape call_node actual_types i)"

fun each :: "('a \<Rightarrow> 'b cg) \<Rightarrow> 'a list \<Rightarrow> 'b list cg" where
  "each f [] = give []"
| "each f (x # xs) = into (f x) (\<lambda>y. into (each f xs) (\<lambda>ys. give (y # ys)))"

definition compute_call_layout :: "ASTNode option \<Rightarrow> nat \<Rightarrow> ASTNode option \<Rightarrow> TypeKind list option \<Rightarrow> CallLayout cg" where
  "compute_call_layout fn_decl nargs call_node actual_types =
     first (require (int nargs \<le> MAX_CALL_LAYOUT_ITEMS)
         (''call has '' @ show_nat nargs @ '' arguments; max supported is '' @ show_int MAX_CALL_LAYOUT_ITEMS))
       (into (each (arg_shape_at fn_decl call_node actual_types) [0..<nargs]) (\<lambda>as.
         look (\<lambda>s. layout_of (cg_types s) (return_is_memory_struct (cg_types s) fn_decl) as)))"

subsection \<open>The size of the frame\<close>

text \<open>The bytes one node adds, then the whole tree; sums are \<^verbatim>\<open>int\<close>s that wrap.\<close>

definition decl_own_bytes :: "type_heap \<Rightarrow> ast_info \<Rightarrow> int" where
  "decl_own_bytes h i =
     (if ntype i \<noteq> AST_DECLARATION then 0
      else case full_type i of
        None \<Rightarrow> 8
      | Some t \<Rightarrow>
          if decl_type i = TYPE_ARRAY then ty_size (h ! t) + 7
          else if is_struct_or_union_kind (decl_type i) then ty_size (h ! t) + (ty_align (h ! t) - 1)
          else 8)"

definition literal_extent :: "type_heap \<Rightarrow> ast_info \<Rightarrow> int \<times> int" where
  "literal_extent h i =
     (case full_type i of
        Some t \<Rightarrow> (ty_size (h ! t), ty_align (h ! t))
      | None \<Rightarrow> (type_kind_bytes (decl_type i), type_kind_bytes (decl_type i)))"

definition literal_own_bytes :: "type_heap \<Rightarrow> ast_info \<Rightarrow> int" where
  "literal_own_bytes h i =
     (if ntype i \<noteq> AST_COMPOUND_LITERAL then 0
      else let (sz, al) = literal_extent h i in sz + (if al > 1 then al - 1 else 0))"

text \<open>A call has the name of the called function.\<close>

definition struct_ret_own_bytes :: "CodeGen \<Rightarrow> ast_info \<Rightarrow> int" where
  "struct_ret_own_bytes s i =
     (let room = (\<lambda>t. align_up (ty_size (cg_types s ! t)) 8 + 8) in
      if ntype i = AST_FUNCTION_CALL then
        (case nvalue i of None \<Rightarrow> 0
         | Some name \<Rightarrow>
             (case codegen_find_function_decl s name of None \<Rightarrow> 0
              | Some callee \<Rightarrow>
                  (case full_type (info callee) of
                     Some t \<Rightarrow> if is_struct_or_union_kind (decl_type (info callee)) then room t else 0
                   | None \<Rightarrow> 0)))
      else if ntype i = AST_BUILTIN_VA_ARG then
        (case full_type i of
           Some t \<Rightarrow> if is_struct_or_union_kind (ty_kind (cg_types s ! t)) \<and> ty_size (cg_types s ! t) > 0 then room t else 0
         | None \<Rightarrow> 0)
      else 0)"

fun tree_total :: "(ast_info \<Rightarrow> int) \<Rightarrow> ASTNode \<Rightarrow> int" where
  "tree_total own (Node i cs) =
     wrap32 (own i + sum_list (map (\<lambda>c. case c of None \<Rightarrow> 0 | Some n \<Rightarrow> tree_total own n) cs))"

definition compute_decl_bytes :: "type_heap \<Rightarrow> ASTNode \<Rightarrow> int" where
  "compute_decl_bytes h n = tree_total (decl_own_bytes h) n"

definition compute_compound_literal_bytes :: "type_heap \<Rightarrow> ASTNode \<Rightarrow> int" where
  "compute_compound_literal_bytes h n = tree_total (literal_own_bytes h) n"

definition compute_struct_ret_bytes :: "CodeGen \<Rightarrow> ASTNode \<Rightarrow> int" where
  "compute_struct_ret_bytes s n = tree_total (struct_ret_own_bytes s) n"

text \<open>The slot of a compound literal, remembered in \<^verbatim>\<open>byte_length\<close> of its node.\<close>

definition reserve_literal :: "ast_info \<Rightarrow> ast_info cg" where
  "reserve_literal i = (\<lambda>s.
     let (sz, al) = literal_extent (cg_types s) i;
         off = wrap32 (stack_offset s + sz);
         off' = (if al > 1 then align_up off al else off)
     in Inr (i\<lparr>byte_length := off'\<rparr>, s\<lparr>stack_offset := off'\<rparr>))"

fun scan_expr_compound_literals :: "ASTNode \<Rightarrow> ASTNode cg"
and scan_all :: "ASTNode option list \<Rightarrow> ASTNode option list cg" where
  "scan_expr_compound_literals (Node i cs) =
     into (if ntype i = AST_COMPOUND_LITERAL then reserve_literal i else give i) (\<lambda>i'.
     into (scan_all cs) (\<lambda>cs'. give (Node i' cs')))"
| "scan_all [] = give []"
| "scan_all (None # cs) = into (scan_all cs) (\<lambda>cs'. give (None # cs'))"
| "scan_all (Some c # cs) =
     into (scan_expr_compound_literals c) (\<lambda>c'. into (scan_all cs) (\<lambda>cs'. give (Some c' # cs')))"

definition claim_struct_ret_temp :: "int \<Rightarrow> int cg" where
  "claim_struct_ret_temp sz =
     into (look (\<lambda>s. wrap32 (struct_ret_scratch_cursor s + align_up sz 8))) (\<lambda>c.
       first (upd (\<lambda>s. s\<lparr>struct_ret_scratch_cursor := c\<rparr>)) (give c))"

subsection \<open>Labels\<close>

definition add_user_label :: "string \<Rightarrow> unit cg" where
  "add_user_label name = on_cg (\<lambda>s.
     first (require (name \<notin> set (user_labels s))
         (''duplicate label '' @ quoted name @ '' in function '' @ quoted (current_func s)))
       (upd (\<lambda>s. s\<lparr>user_labels := user_labels s @ [name]\<rparr>)))"

fun collect_user_labels :: "ASTNode \<Rightarrow> unit cg"
and collect_all_labels :: "ASTNode option list \<Rightarrow> unit cg" where
  "collect_user_labels (Node i cs) =
     first (if ntype i = AST_LABEL_STATEMENT then into (need (nvalue i)) add_user_label else skip)
       (collect_all_labels cs)"
| "collect_all_labels [] = skip"
| "collect_all_labels (None # cs) = collect_all_labels cs"
| "collect_all_labels (Some c # cs) = first (collect_user_labels c) (collect_all_labels cs)"

definition user_label_defined :: "CodeGen \<Rightarrow> string \<Rightarrow> bool" where
  "user_label_defined s name \<longleftrightarrow> name \<in> set (user_labels s)"

definition add_switch_label :: "path \<Rightarrow> ASTNode \<Rightarrow> SwitchCtx \<Rightarrow> SwitchCtx cg" where
  "add_switch_label p n ctx = into fresh_label (\<lambda>l.
     give (ctx\<lparr>sw_entries := sw_entries ctx @ [\<lparr>sl_path = p, sl_node = n, sl_label = l\<rparr>],
       sw_default := (if node_type n = AST_DEFAULT_SECTION then l else sw_default ctx)\<rparr>))"

fun collect_switch_labels :: "path \<Rightarrow> ASTNode \<Rightarrow> SwitchCtx \<Rightarrow> SwitchCtx cg"
and collect_section_labels :: "path \<Rightarrow> nat \<Rightarrow> ASTNode option list \<Rightarrow> SwitchCtx \<Rightarrow> SwitchCtx cg" where
  "collect_switch_labels p (Node i cs) ctx =
     (if ntype i = AST_CASE_SECTION then
        into (add_switch_label p (Node i cs) ctx) (\<lambda>ctx.
          case cs of _ # Some c # _ \<Rightarrow> collect_switch_labels (p @ [1]) c ctx | _ \<Rightarrow> give ctx)
      else if ntype i = AST_DEFAULT_SECTION then
        into (add_switch_label p (Node i cs) ctx) (\<lambda>ctx.
          case cs of Some c # _ \<Rightarrow> collect_switch_labels (p @ [0]) c ctx | _ \<Rightarrow> give ctx)
      else if ntype i = AST_SWITCH_STATEMENT then give ctx
      else collect_section_labels p 0 cs ctx)"
| "collect_section_labels p k [] ctx = give ctx"
| "collect_section_labels p k (None # cs) ctx = collect_section_labels p (Suc k) cs ctx"
| "collect_section_labels p k (Some c # cs) ctx =
     into (collect_switch_labels (p @ [k]) c ctx) (\<lambda>ctx. collect_section_labels p (Suc k) cs ctx)"

definition switch_lookup_label :: "SwitchCtx \<Rightarrow> path \<Rightarrow> int" where
  "switch_lookup_label ctx p =
     (case find (\<lambda>e. sl_path e = p) (sw_entries ctx) of Some e \<Rightarrow> sl_label e | None \<Rightarrow> - 1)"

end
