(* ===== verification/Codegen_Data.thy ===== *)
theory Codegen_Data
  imports Codegen_Frame
begin

section \<open>Static data: \<^verbatim>\<open>src/codegen.c\<close> from line 6967\<close>

text \<open>
  Objects with static storage: the table of file-scope objects, the sections \<^verbatim>\<open>.data\<close>, \<^verbatim>\<open>.bss\<close>
  and \<^verbatim>\<open>.rodata\<close>, the pools of string and floating literals, the statics of functions and the
  \<^verbatim>\<open>extern\<close> directives.
\<close>

subsection \<open>Directives and bytes\<close>

fun bss_res_directive :: "TypeKind \<Rightarrow> string" where
  "bss_res_directive TYPE_CHAR = ''resb''"
| "bss_res_directive TYPE_SHORT = ''resw''"
| "bss_res_directive TYPE_LONG_LONG = ''resq''"
| "bss_res_directive TYPE_UNSIGNED_LONG_LONG = ''resq''"
| "bss_res_directive TYPE_LONG = ''resq''"
| "bss_res_directive TYPE_DOUBLE = ''resq''"
| "bss_res_directive TYPE_POINTER = ''resq''"
| "bss_res_directive _ = ''resd''"

fun data_init_directive :: "TypeKind \<Rightarrow> string" where
  "data_init_directive TYPE_BOOL = ''db''"
| "data_init_directive TYPE_CHAR = ''db''"
| "data_init_directive TYPE_SHORT = ''dw''"
| "data_init_directive TYPE_LONG_LONG = ''dq''"
| "data_init_directive TYPE_UNSIGNED_LONG_LONG = ''dq''"
| "data_init_directive TYPE_LONG = ''dq''"
| "data_init_directive TYPE_DOUBLE = ''dq''"
| "data_init_directive TYPE_POINTER = ''dq''"
| "data_init_directive _ = ''dd''"

definition data_line :: "TypeKind \<Rightarrow> int \<Rightarrow> unit cg" where
  "data_line k v = ins (data_init_directive k @ '' '' @ show_int v)"

definition db_zeros :: "int \<Rightarrow> unit cg" where
  "db_zeros n = inss (replicate (nat n) ''db 0'')"

text \<open>
  Byte \<open>j\<close> of a string literal, and the first byte of a character literal. A literal node has its
  text, with zero bytes in it where the source has them.
\<close>

definition literal_text :: "ASTNode \<Rightarrow> string" where
  "literal_text n = (case nvalue (info n) of None \<Rightarrow> [] | Some v \<Rightarrow> v)"

definition literal_byte :: "ASTNode \<Rightarrow> nat \<Rightarrow> int" where
  "literal_byte n j = int (code (c_at (literal_text n) j))"

definition padded_byte :: "ASTNode \<Rightarrow> nat \<Rightarrow> int" where
  "padded_byte n j = (if int j < byte_length (info n) then literal_byte n j else 0)"

definition emit_string_as_bytes :: "ASTNode \<Rightarrow> int \<Rightarrow> unit cg" where
  "emit_string_as_bytes str field_len =
     inss (map (\<lambda>j. ''db '' @ show_int (padded_byte str j)) [0..<nat field_len])"

fun separated :: "string \<Rightarrow> string list \<Rightarrow> string" where
  "separated sep [] = []"
| "separated sep [t] = t"
| "separated sep (t # ts) = t @ sep @ separated sep ts"

definition inline_string :: "string \<Rightarrow> ASTNode \<Rightarrow> int \<Rightarrow> unit cg" where
  "inline_string name str arr_len =
     plain_line (name @ '': db '' @ separated '', '' (map (\<lambda>j. show_int (padded_byte str j)) [0..<nat arr_len]))"

text \<open>\<^verbatim>\<open>strtol\<close> with base 10 on the text of an integer literal, and with base 0.\<close>

definition decimal_of :: "ASTNode \<Rightarrow> int" where
  "decimal_of n = fst (strtol10 (literal_text n))"

definition long_of :: "ASTNode \<Rightarrow> int" where
  "long_of n = strtol0 (literal_text n)"

definition pool_string :: "ASTNode \<Rightarrow> int cg" where
  "pool_string n = into (look (\<lambda>s. int (length (string_pool s)))) (\<lambda>idx.
     first (upd (\<lambda>s. s\<lparr>string_pool := string_pool s @ [n]\<rparr>)) (give idx))"

definition pooled_pointer :: "ASTNode \<Rightarrow> unit cg" where
  "pooled_pointer n = into (pool_string n) (\<lambda>idx. ins (''dq Lstr'' @ show_int idx))"

definition codegen_emit_string_pool :: "unit cg" where
  "codegen_emit_string_pool = on_cg (\<lambda>s.
     if string_pool s = [] then skip
     else first (plain_line ''section .rodata'')
       (all_in_turn (\<lambda>(i, n).
          first (plain_line (''Lstr'' @ show_nat i @ '':''))
            (ins (''db '' @ concat (map (\<lambda>j. show_int (literal_byte n j) @ '', '') [0..<nat (byte_length (info n))]) @ ''0'')))
          (zip [0..<length (string_pool s)] (string_pool s))))"

text \<open>The suffix of a floating literal is not for the assembler.\<close>

definition without_suffix :: "string \<Rightarrow> string" where
  "without_suffix raw = (if raw \<noteq> [] \<and> (last raw = CHR ''f'' \<or> last raw = CHR ''F'') then butlast raw else raw)"

definition codegen_emit_fp_literals :: "unit cg" where
  "codegen_emit_fp_literals = on_cg (\<lambda>s.
     if fp_literals s = [] \<and> \<not> fp_sign_mask_f32_emitted s \<and> \<not> fp_sign_mask_f64_emitted s \<and>
        \<not> fp_one_f64_emitted s \<and> \<not> fp_one_f32_emitted s
     then skip
     else first (plain_line ''section .rodata'')
       (first (all_in_turn (\<lambda>f. plain_line (''Lfc'' @ show_int (fp_label f) @ '': '' @
            (if fp_is_double f then ''dq'' else ''dd'') @ '' '' @ without_suffix (fp_raw_text f))) (fp_literals s))
       (first (cg_when (fp_sign_mask_f32_emitted s)
            (first (plain_line ''align 16'') (plain_line ''Lfp_smask_f32: dd 0x80000000, 0, 0, 0'')))
       (first (cg_when (fp_sign_mask_f64_emitted s)
            (first (plain_line ''align 16'') (plain_line ''Lfp_smask_f64: dq 0x8000000000000000, 0'')))
       (first (cg_when (fp_one_f64_emitted s) (plain_line ''Lfp_one_f64: dq 0x3FF0000000000000''))
         (cg_when (fp_one_f32_emitted s) (plain_line ''Lfp_one_f32: dd 0x3F800000''))))))) "

subsection \<open>\<^verbatim>\<open>extern\<close> directives\<close>

definition function_has_body :: "ASTNode \<Rightarrow> bool" where
  "function_has_body f = list_ex (\<lambda>c. case c of Some n \<Rightarrow> node_type n = AST_BLOCK | None \<Rightarrow> False) (children f)"

definition tu_has_definition_for :: "ASTNode list \<Rightarrow> string option \<Rightarrow> bool" where
  "tu_has_definition_for cs name =
     list_ex (\<lambda>c. node_type c = AST_FUNCTION_DECL \<and> nvalue (info c) = name \<and> function_has_body c) cs"

definition bodiless :: "string option \<Rightarrow> ASTNode \<Rightarrow> bool" where
  "bodiless name c \<longleftrightarrow> node_type c = AST_FUNCTION_DECL \<and> \<not> function_has_body c \<and> nvalue (info c) = name"

fun extern_functions :: "ASTNode list \<Rightarrow> ASTNode list \<Rightarrow> ASTNode list \<Rightarrow> string list" where
  "extern_functions all seen [] = []"
| "extern_functions all seen (c # cs) =
     (if bodiless (nvalue (info c)) c \<and> \<not> tu_has_definition_for all (nvalue (info c)) \<and>
         \<not> list_ex (bodiless (nvalue (info c))) seen
      then [literal_text c] else []) @ extern_functions all (seen @ [c]) cs"

fun extern_objects :: "GlobalVar list \<Rightarrow> GlobalVar list \<Rightarrow> string list" where
  "extern_objects seen [] = []"
| "extern_objects seen (g # gs) =
     (if gv_is_extern g \<and> \<not> list_ex (\<lambda>k. gv_name k = gv_name g) seen \<and>
         \<not> list_ex (\<lambda>k. gv_name k = gv_name g \<and> \<not> gv_is_extern k) gs
      then [gv_name g] else []) @ extern_objects (seen @ [g]) gs"

definition codegen_emit_externs :: "ASTNode \<Rightarrow> unit cg" where
  "codegen_emit_externs tu = on_cg (\<lambda>s.
     let cs = List.map_filter id (children tu) in
     all_in_turn (\<lambda>name. plain_line (''extern '' @ name)) (extern_functions cs [] cs @ extern_objects [] (cg_globals s)))"

subsection \<open>An integer as the text of a \<^verbatim>\<open>float\<close> or a \<^verbatim>\<open>double\<close>\<close>

text \<open>
  \<^verbatim>\<open>(float)v\<close> and \<^verbatim>\<open>(double)v\<close> round to 24 and 53 significant bits, to the nearest value and in
  the middle to the even one; \<^verbatim>\<open>%.9g\<close> and \<^verbatim>\<open>%.17g\<close> print that many decimal digits.
\<close>

definition round_div :: "nat \<Rightarrow> nat \<Rightarrow> nat" where
  "round_div n d =
     (let q = n div d; r = n mod d in if 2 * r > d \<or> (2 * r = d \<and> odd q) then q + 1 else q)"

fun bit_len :: "nat \<Rightarrow> nat" where
  "bit_len n = (if n = 0 then 0 else Suc (bit_len (n div 2)))"

declare bit_len.simps [simp del]

definition round_bits :: "nat \<Rightarrow> nat \<Rightarrow> nat" where
  "round_bits p n =
     (if bit_len n \<le> p then n else let k = 2 ^ (bit_len n - p) in round_div n k * k)"

fun drop_zeros :: "string \<Rightarrow> string" where
  "drop_zeros s = rev (dropWhile (\<lambda>c. c = CHR ''0'') (rev s))"

definition two_digits :: "nat \<Rightarrow> string" where
  "two_digits n = (if n < 10 then ''0'' else []) @ show_nat n"

definition show_g :: "nat \<Rightarrow> nat \<Rightarrow> string" where
  "show_g p n =
     (if length (show_nat n) \<le> p then show_nat n
      else let x = length (show_nat n) - 1;
               q = round_div n (10 ^ (length (show_nat n) - p));
               ds = drop_zeros (show_nat q);
               e = (if length (show_nat q) > p then x + 1 else x)
           in take 1 ds @ (if length ds > 1 then CHR ''.'' # drop 1 ds else []) @ ''e+'' @ two_digits e)"

definition fp_number_text :: "TypeKind \<Rightarrow> int \<Rightarrow> string" where
  "fp_number_text k v =
     (let m = nat \<bar>v\<bar>;
          g = (if k = TYPE_FLOAT then show_g 9 (round_bits 24 m) else show_g 17 (round_bits 53 m));
          t = (if v < 0 then CHR ''-'' # g else g)
      in if CHR ''.'' \<notin> set t \<and> CHR ''e'' \<notin> set t \<and> CHR ''E'' \<notin> set t then t @ ''.0'' else t)"

subsection \<open>The table of file-scope objects\<close>

definition bool_value :: "TypeKind \<Rightarrow> int \<Rightarrow> int" where
  "bool_value k v = (if k = TYPE_BOOL then of_bool (v \<noteq> 0) else v)"

definition global_size :: "type_heap \<Rightarrow> ASTNode \<Rightarrow> int" where
  "global_size h decl =
     (case full_type (info decl) of
        Some t \<Rightarrow>
          if decl_type (info decl) = TYPE_ARRAY
          then (case ty_base (h ! t) of Some b \<Rightarrow> type_kind_bytes (ty_kind (h ! b)) | None \<Rightarrow> 4)
          else type_kind_bytes (decl_type (info decl))
      | None \<Rightarrow> type_kind_bytes (decl_type (info decl)))"

definition int_initialized :: "int \<Rightarrow> GlobalVar \<Rightarrow> GlobalVar cg" where
  "int_initialized v g =
     (if type_is_fp (gv_kind g)
      then into (codegen_intern (fp_number_text (gv_kind g) v)) (\<lambda>t.
        give (g\<lparr>gv_init_label := Some t, gv_is_label_init := False, gv_is_initialized := True\<rparr>))
      else give (g\<lparr>gv_init_value := bool_value (gv_kind g) v, gv_is_initialized := True\<rparr>))"

text \<open>An entry that is there already: its kind stays, and an initializer of another form is kept as a tree.\<close>

definition reset_global :: "type_heap \<Rightarrow> ASTNode \<Rightarrow> GlobalVar \<Rightarrow> GlobalVar" where
  "reset_global h decl g =
     g\<lparr>gv_is_initialized := False, gv_init_value := 0, gv_is_label_init := False, gv_init_label := None,
       gv_init_node := None, gv_is_extern := (storage_class (info decl) = SC_EXTERN),
       gv_is_static_linkage := (storage_class (info decl) = SC_STATIC), gv_full_type := full_type (info decl),
       gv_size := global_size h decl\<rparr>"

definition redefined :: "ASTNode \<Rightarrow> GlobalVar \<Rightarrow> GlobalVar cg" where
  "redefined init g =
     (case node_type init of
        AST_FLOAT_LITERAL \<Rightarrow>
          give (g\<lparr>gv_init_label := nvalue (info init), gv_is_label_init := False, gv_is_initialized := True\<rparr>)
      | AST_INT_LITERAL \<Rightarrow> int_initialized (long_of init) g
      | AST_CHAR_LITERAL \<Rightarrow> give (g\<lparr>gv_init_value := literal_byte init 0, gv_is_initialized := True\<rparr>)
      | _ \<Rightarrow> give (g\<lparr>gv_init_value := 0, gv_init_node := Some init, gv_is_initialized := True\<rparr>))"

fun replace_global :: "string \<Rightarrow> (GlobalVar \<Rightarrow> GlobalVar) \<Rightarrow> GlobalVar list \<Rightarrow> GlobalVar list" where
  "replace_global name f [] = []"
| "replace_global name f (g # gs) = (if gv_name g = name then f g # gs else g # replace_global name f gs)"

definition put_global :: "string \<Rightarrow> (GlobalVar \<Rightarrow> GlobalVar) \<Rightarrow> unit cg" where
  "put_global name f = upd (\<lambda>s. s\<lparr>cg_globals := replace_global name f (cg_globals s)\<rparr>)"

definition merge_cg_global :: "string \<Rightarrow> ASTNode \<Rightarrow> GlobalVar \<Rightarrow> unit cg" where
  "merge_cg_global name decl g =
     (if children decl = [] then
        cg_when (storage_class (info decl) = SC_NONE \<and> gv_is_extern g) (put_global name (\<lambda>g. g\<lparr>gv_is_extern := False\<rparr>))
      else into (kid 0 decl) (\<lambda>init. on_cg (\<lambda>s.
        into (redefined init (reset_global (cg_types s) decl g)) (\<lambda>g'. put_global name (\<lambda>_. g')))))"

definition null_pointer_cast :: "ASTNode \<Rightarrow> bool" where
  "null_pointer_cast init \<longleftrightarrow> node_type init = AST_CAST \<and>
     (case children init of Some c # _ \<Rightarrow> is_null_pointer_constant c | _ \<Rightarrow> False)"

definition initialized :: "ASTNode \<Rightarrow> GlobalVar \<Rightarrow> GlobalVar cg" where
  "initialized init g =
     (let ty = node_type init; k = gv_kind g; kept = give (g\<lparr>gv_init_node := Some init, gv_is_initialized := True\<rparr>) in
      if ty = AST_FLOAT_LITERAL
      then give (g\<lparr>gv_init_label := nvalue (info init), gv_is_label_init := False, gv_is_initialized := True\<rparr>)
      else if ty = AST_INT_LITERAL then int_initialized (long_of init) g
      else if ty = AST_CHAR_LITERAL
      then give (g\<lparr>gv_init_value := bool_value k (literal_byte init 0), gv_is_initialized := True\<rparr>)
      else if ty = AST_VAR_REF
      then give (g\<lparr>gv_init_label := nvalue (info init), gv_is_label_init := True, gv_is_initialized := True\<rparr>)
      else if k = TYPE_ARRAY \<and> ty = AST_STRING_LITERAL then kept
      else if k = TYPE_POINTER \<and> ty = AST_STRING_LITERAL
      then into (pool_string init) (\<lambda>idx. into (codegen_intern (''Lstr'' @ show_int idx)) (\<lambda>t.
             give (g\<lparr>gv_init_label := Some t, gv_is_label_init := True, gv_is_initialized := True\<rparr>)))
      else if k = TYPE_ARRAY \<and> ty = AST_INITIALIZER_LIST then kept
      else if is_struct_or_union_kind k \<and> ty = AST_INITIALIZER_LIST then kept
      else if k = TYPE_POINTER \<and> ty = AST_ADDR_OF then kept
      else if k = TYPE_POINTER \<and> ty = AST_COMPOUND_LITERAL then kept
      else if k = TYPE_POINTER \<and> null_pointer_cast init then give (g\<lparr>gv_init_value := 0, gv_is_initialized := True\<rparr>)
      else give g)"

definition new_global :: "type_heap \<Rightarrow> string \<Rightarrow> ASTNode \<Rightarrow> GlobalVar" where
  "new_global h name decl =
     \<lparr>gv_name = name, gv_size = global_size h decl, gv_kind = decl_type (info decl), gv_full_type = full_type (info decl),
      gv_is_initialized = False, gv_init_value = 0, gv_is_label_init = False, gv_init_label = None,
      gv_is_const = is_const (info decl), gv_is_unsigned = is_unsigned (info decl), gv_init_node = None,
      gv_is_extern = (storage_class (info decl) = SC_EXTERN), gv_is_static_linkage = (storage_class (info decl) = SC_STATIC)\<rparr>"

definition codegen_add_global :: "ASTNode \<Rightarrow> unit cg" where
  "codegen_add_global decl = into (value_text decl) (\<lambda>name. on_cg (\<lambda>s.
     case codegen_find_global s name of
       Some g \<Rightarrow> merge_cg_global name decl g
     | None \<Rightarrow>
         let g = new_global (cg_types s) name decl in
         into (if children decl = [] then give g else into (kid 0 decl) (\<lambda>init. initialized init g))
           (\<lambda>g'. upd (\<lambda>s. s\<lparr>cg_globals := cg_globals s @ [g']\<rparr>))))"

subsection \<open>Initialized arrays and structures\<close>

text \<open>
  The initializers of one brace list. The elements of a list are nodes; a designator holds its
  index in \<^verbatim>\<open>byte_length\<close> and its initializer as a child.
\<close>

definition is_index_designator :: "ASTNode \<Rightarrow> bool" where
  "is_index_designator n \<longleftrightarrow> node_type n = AST_DESIGNATED_INIT \<and> nvalue (info n) = None"

definition is_member_designator :: "ASTNode \<Rightarrow> bool" where
  "is_member_designator n \<longleftrightarrow> node_type n = AST_DESIGNATED_INIT \<and> nvalue (info n) \<noteq> None"

fun field_index :: "StructField list \<Rightarrow> string option \<Rightarrow> nat option" where
  "field_index [] name = None"
| "field_index (f # fs) name =
     (if Some (fld_name f) = name then Some 0 else map_option Suc (field_index fs name))"

definition field_bytes :: "type_heap \<Rightarrow> StructField \<Rightarrow> int" where
  "field_bytes h f = (case fld_full_type f of Some t \<Rightarrow> ty_size (h ! t) | None \<Rightarrow> type_kind_bytes (fld_kind f))"

definition MAX_STRUCT_FIELDS_DESIGNATED :: int where
  "MAX_STRUCT_FIELDS_DESIGNATED = 64"

text \<open>\<open>slots\<close> is the array from field numbers to initializers; \<open>nxt\<close> is \<^verbatim>\<open>cur\<close>.\<close>

fun struct_slots :: "StructField list \<Rightarrow> ASTNode option list \<Rightarrow> nat \<Rightarrow> ASTNode option list \<Rightarrow> ASTNode option list cg" where
  "struct_slots fs [] nxt slots = give slots"
| "struct_slots fs (None # cs) nxt slots = halt BadAccess"
| "struct_slots fs (Some c # cs) nxt slots =
     (if is_member_designator c then
        (case field_index fs (nvalue (info c)) of
           None \<Rightarrow> refuse (''struct has no member named '' @ quoted (literal_text c))
         | Some k \<Rightarrow>
             if children c = [] then halt BadAccess
             else struct_slots fs cs (Suc k) (slots[k := children c ! 0]))
      else if nxt \<ge> length fs then refuse ''too many initializers for struct''
      else struct_slots fs cs (Suc nxt) (slots[nxt := Some c]))"

text \<open>\<open>sub\<close> emits a nested list for a structure.\<close>

definition struct_field_data :: "(type_ptr \<Rightarrow> ASTNode \<Rightarrow> unit cg) \<Rightarrow> StructField \<Rightarrow> ASTNode option \<Rightarrow> unit cg" where
  "struct_field_data sub f ini = on_cg (\<lambda>s.
     case ini of
       None \<Rightarrow> db_zeros (field_bytes (cg_types s) f)
     | Some e \<Rightarrow>
         let ty = node_type e;
             chars = (base_of (cg_types s) (fld_full_type f) \<noteq> None \<and>
                      kind_at s (base_of (cg_types s) (fld_full_type f)) = Some TYPE_CHAR) in
         if fld_kind f = TYPE_STRUCT \<and> fld_full_type f \<noteq> None \<and> ty = AST_INITIALIZER_LIST
         then sub (the (fld_full_type f)) e
         else if fld_kind f = TYPE_POINTER \<and> ty = AST_STRING_LITERAL then pooled_pointer e
         else if fld_kind f = TYPE_ARRAY \<and> chars \<and> ty = AST_STRING_LITERAL
         then emit_string_as_bytes e (ty_length (node_of s (the (fld_full_type f))))
         else if ty = AST_INT_LITERAL then data_line (fld_kind f) (decimal_of e)
         else if ty = AST_CHAR_LITERAL then data_line (fld_kind f) (literal_byte e 0)
         else refuse (''unsupported initializer for struct field '' @ quoted (fld_name f)))"

fun struct_fields_data ::
  "(type_ptr \<Rightarrow> ASTNode \<Rightarrow> unit cg) \<Rightarrow> int \<Rightarrow> (StructField \<times> ASTNode option) list \<Rightarrow> int cg" where
  "struct_fields_data sub cur_off [] = give cur_off"
| "struct_fields_data sub cur_off ((f, ini) # later) = on_cg (\<lambda>s.
     first (db_zeros (fld_offset f - cur_off))
       (first (struct_field_data sub f ini)
         (struct_fields_data sub (wrap32 (fld_offset f + field_bytes (cg_types s) f)) later)))"

definition struct_data :: "(type_ptr \<Rightarrow> ASTNode \<Rightarrow> unit cg) \<Rightarrow> type_ptr \<Rightarrow> ASTNode \<Rightarrow> unit cg" where
  "struct_data sub st lst = on_cg (\<lambda>s.
     let fs = fields_at s st in
     first (require (int (length fs) \<le> MAX_STRUCT_FIELDS_DESIGNATED)
         (''struct has too many fields for designated init (max '' @ show_int MAX_STRUCT_FIELDS_DESIGNATED @ '')''))
       (into (struct_slots fs (children lst) 0 (replicate (length fs) None)) (\<lambda>slots.
        into (struct_fields_data sub 0 (zip fs slots)) (\<lambda>cur_off.
          db_zeros (ty_size (node_of s st) - cur_off)))))"

text \<open>
  A list for an array that is itself an element. The index of a designator moves \<open>nxt\<close>, but
  nothing is written for the elements it skips. The loop gives where it ended.
\<close>

definition is_char_array :: "CodeGen \<Rightarrow> type_ptr option \<Rightarrow> bool" where
  "is_char_array s t \<longleftrightarrow> kind_at s t = Some TYPE_ARRAY \<and> kind_at s (base_at s t) = Some TYPE_CHAR"

definition array_element_data ::
  "(type_ptr \<Rightarrow> ASTNode \<Rightarrow> unit cg) \<Rightarrow> (type_ptr \<Rightarrow> ASTNode \<Rightarrow> unit cg) \<Rightarrow> type_ptr option \<Rightarrow> ASTNode \<Rightarrow> unit cg" where
  "array_element_data sub_array sub_struct et e = on_cg (\<lambda>s.
     let k = (case kind_at s et of None \<Rightarrow> TYPE_INT | Some k \<Rightarrow> k); ty = node_type e in
     if kind_at s et = Some TYPE_ARRAY \<and> ty = AST_INITIALIZER_LIST then sub_array (the et) e
     else if kind_at s et = Some TYPE_STRUCT \<and> ty = AST_INITIALIZER_LIST then sub_struct (the et) e
     else if ty = AST_INT_LITERAL then data_line k (decimal_of e)
     else if ty = AST_CHAR_LITERAL then data_line k (literal_byte e 0)
     else if is_char_array s et \<and> ty = AST_STRING_LITERAL
     then emit_string_as_bytes e (ty_length (node_of s (the et)))
     else refuse ''unsupported initializer element in global array'')"

fun array_elements_data ::
  "(ASTNode \<Rightarrow> unit cg) \<Rightarrow> int \<Rightarrow> ASTNode option list \<Rightarrow> int \<Rightarrow> int cg" where
  "array_elements_data emit_one len [] nxt = give nxt"
| "array_elements_data emit_one len (None # cs) nxt = halt BadAccess"
| "array_elements_data emit_one len (Some c # cs) nxt =
     into (if is_index_designator c then into (kid 0 c) (\<lambda>e. give (byte_length (info c), e))
           else if is_member_designator c then refuse ''member designator in array initializer''
           else give (nxt, c))
       (\<lambda>(at, e).
         if at \<ge> len then refuse ''too many initializers in global array''
         else first (emit_one e) (array_elements_data emit_one len cs (wrap32 (at + 1))))"

text \<open>Zeros for the elements behind the last one.\<close>

definition array_zero :: "type_ptr option \<Rightarrow> unit cg" where
  "array_zero et = on_cg (\<lambda>s.
     case et of
       None \<Rightarrow> data_line TYPE_INT 0
     | Some e \<Rightarrow>
         if ty_kind (node_of s e) = TYPE_ARRAY then
           let b = ty_base (node_of s e);
               bsz = (case b of Some t \<Rightarrow> ty_size (node_of s t) | None \<Rightarrow> 4);
               bk = (case b of Some t \<Rightarrow> ty_kind (node_of s t) | None \<Rightarrow> TYPE_INT) in
           if bsz = 0 then halt DivTrap
           else all_in_turn (\<lambda>_. data_line bk 0) [0..<nat (ty_size (node_of s e) sdiv bsz)]
         else data_line (ty_kind (node_of s e)) 0)"

text \<open>The two functions call one another on nested lists; the first argument bounds the nesting.\<close>

fun emit_global_array_elements :: "nat \<Rightarrow> type_ptr \<Rightarrow> ASTNode \<Rightarrow> unit cg"
and emit_global_struct :: "nat \<Rightarrow> type_ptr \<Rightarrow> ASTNode \<Rightarrow> unit cg" where
  "emit_global_array_elements 0 t lst = halt CgFuel"
| "emit_global_array_elements (Suc n) t lst = on_cg (\<lambda>s.
     let et = ty_base (node_of s t); len = ty_length (node_of s t) in
     into (array_elements_data
             (array_element_data (emit_global_array_elements n) (emit_global_struct n) et) len (children lst) 0)
       (\<lambda>nxt. all_in_turn (\<lambda>_. array_zero et) [0..<nat (len - nxt)]))"
| "emit_global_struct 0 t lst = halt CgFuel"
| "emit_global_struct (Suc n) t lst = struct_data (emit_global_struct n) t lst"

text \<open>The nesting of lists in a tree bounds the calls.\<close>

fun nesting :: "ASTNode \<Rightarrow> nat" where
  "nesting (Node i cs) = Suc (foldr (\<lambda>c m. max (case c of None \<Rightarrow> 0 | Some n \<Rightarrow> nesting n) m) cs 0)"

definition global_struct :: "type_ptr \<Rightarrow> ASTNode \<Rightarrow> unit cg" where
  "global_struct t lst = emit_global_struct (nesting lst) t lst"

definition global_array_elements :: "type_ptr \<Rightarrow> ASTNode \<Rightarrow> unit cg" where
  "global_array_elements t lst = emit_global_array_elements (nesting lst) t lst"

text \<open>A union: its first member, then zeros. Three places differ in their messages.\<close>

definition union_data :: "string \<Rightarrow> string \<Rightarrow> type_ptr \<Rightarrow> ASTNode \<Rightarrow> unit cg" where
  "union_data too_many unsupported t lst = on_cg (\<lambda>s.
     first (require (child_count lst \<le> 1) too_many)
       (into
         (if child_count lst = 1 \<and> fields_at s t \<noteq> [] then
            let f = hd (fields_at s t) in
            into (kid 0 lst) (\<lambda>e.
              first (if node_type e = AST_INT_LITERAL then data_line (fld_kind f) (decimal_of e)
                     else if node_type e = AST_CHAR_LITERAL then data_line (fld_kind f) (literal_byte e 0)
                     else refuse unsupported)
                (give (field_bytes (cg_types s) f)))
          else give 0)
         (\<lambda>cur_off. db_zeros (ty_size (node_of s t) - cur_off))))"

definition MAX_ARRAY_ELEMS_DESIGNATED :: int where
  "MAX_ARRAY_ELEMS_DESIGNATED = 1024"

fun array_slots :: "string \<Rightarrow> int \<Rightarrow> ASTNode option list \<Rightarrow> int \<Rightarrow> ASTNode option list \<Rightarrow> ASTNode option list cg" where
  "array_slots too_many len [] nxt slots = give slots"
| "array_slots too_many len (None # cs) nxt slots = halt BadAccess"
| "array_slots too_many len (Some c # cs) nxt slots =
     (if is_index_designator c then
        let idx = byte_length (info c) in
        if idx < 0 \<or> idx \<ge> len then refuse (''array designator index '' @ show_int idx @ '' out of bounds'')
        else if children c = [] then halt BadAccess
        else array_slots too_many len cs (idx + 1) (slots[nat idx := children c ! 0])
      else if is_member_designator c then refuse ''member designator in array initializer''
      else if nxt \<ge> len then refuse too_many
      else array_slots too_many len cs (nxt + 1) (slots[nat nxt := Some c]))"

text \<open>The array at the top: the label before the first ini, then ini by ini.\<close>

definition array_data ::
  "string \<Rightarrow> string \<Rightarrow> (ASTNode option \<Rightarrow> unit cg) \<Rightarrow> int \<Rightarrow> ASTNode \<Rightarrow> unit cg" where
  "array_data name too_many slot_data len lst =
     first (require (len \<le> MAX_ARRAY_ELEMS_DESIGNATED) ''array too large for designated initializer emission'')
       (into (array_slots too_many len (children lst) 0 (replicate (nat len) None)) (\<lambda>slots.
         first (cg_when (slots \<noteq> []) (plain_line (name @ '':''))) (all_in_turn slot_data slots)))"

definition global_slot_data :: "string \<Rightarrow> type_ptr option \<Rightarrow> ASTNode option \<Rightarrow> unit cg" where
  "global_slot_data name et ini = on_cg (\<lambda>s.
     let ek = kind_at s et; k = (case ek of None \<Rightarrow> TYPE_INT | Some k \<Rightarrow> k) in
     case ini of
       Some e \<Rightarrow>
         let ty = node_type e in
         if ek = Some TYPE_STRUCT \<and> ty = AST_INITIALIZER_LIST then global_struct (the et) e
         else if ek = Some TYPE_ARRAY \<and> ty = AST_INITIALIZER_LIST then global_array_elements (the et) e
         else if ty = AST_STRING_LITERAL then
           if is_char_array s et then emit_string_as_bytes e (ty_length (node_of s (the et))) else pooled_pointer e
         else if ty = AST_INT_LITERAL then data_line k (decimal_of e)
         else if ty = AST_CHAR_LITERAL then data_line k (literal_byte e 0)
         else refuse (''unsupported initializer element type in '' @ quoted name)
     | None \<Rightarrow>
         if ek = Some TYPE_STRUCT \<or> ek = Some TYPE_ARRAY then db_zeros (ty_size (node_of s (the et)))
         else data_line k 0)"

text \<open>A block-scope static: unions are accepted, arrays only to two dimensions.\<close>

definition static_row_data :: "type_ptr \<Rightarrow> ASTNode \<Rightarrow> unit cg" where
  "static_row_data et row = on_cg (\<lambda>s.
     case ty_base (node_of s et) of
       None \<Rightarrow> refuse ''initialized static arrays deeper than 2D are not yet supported''
     | Some b \<Rightarrow>
         if ty_kind (node_of s b) = TYPE_ARRAY
         then refuse ''initialized static arrays deeper than 2D are not yet supported''
         else all_in_turn (\<lambda>i.
           if i < child_count row then
             into (kid i row) (\<lambda>e.
               if node_type e = AST_INT_LITERAL then data_line (ty_kind (node_of s b)) (decimal_of e)
               else if node_type e = AST_CHAR_LITERAL then data_line (ty_kind (node_of s b)) (literal_byte e 0)
               else refuse ''unsupported element in 2D static array initializer'')
           else data_line (ty_kind (node_of s b)) 0) [0..<nat (ty_length (node_of s et))])"

definition static_slot_data :: "type_ptr option \<Rightarrow> ASTNode option \<Rightarrow> unit cg" where
  "static_slot_data et ini = on_cg (\<lambda>s.
     let ek = kind_at s et; k = (case ek of None \<Rightarrow> TYPE_INT | Some k \<Rightarrow> k) in
     case ini of
       Some e \<Rightarrow>
         let ty = node_type e in
         if ek = Some TYPE_STRUCT \<and> ty = AST_INITIALIZER_LIST then global_struct (the et) e
         else if ek = Some TYPE_UNION \<and> ty = AST_INITIALIZER_LIST
         then union_data ''too many initializers for union element'' ''unsupported initializer for union element'' (the et) e
         else if ek = Some TYPE_ARRAY \<and> ty = AST_INITIALIZER_LIST then static_row_data (the et) e
         else if ty = AST_INT_LITERAL then data_line k (decimal_of e)
         else if ty = AST_CHAR_LITERAL then data_line k (literal_byte e 0)
         else refuse ''unsupported initializer element in block-scope static array''
     | None \<Rightarrow>
         if ek = Some TYPE_STRUCT \<or> ek = Some TYPE_UNION \<or> ek = Some TYPE_ARRAY
         then db_zeros (ty_size (node_of s (the et)))
         else data_line k 0)"

subsection \<open>The sections \<^verbatim>\<open>.data\<close> and \<^verbatim>\<open>.bss\<close>\<close>

definition dq_line :: "string \<Rightarrow> string \<Rightarrow> unit cg" where
  "dq_line name target = plain_line (name @ '': dq '' @ target)"

text \<open>\<^verbatim>\<open>&array[N]\<close>: the scale is the size of the pointed-to type.\<close>

definition pointee_bytes :: "CodeGen \<Rightarrow> type_ptr option \<Rightarrow> int" where
  "pointee_bytes s t =
     (case base_at s t of
        None \<Rightarrow> 4
      | Some b \<Rightarrow> if ty_size (node_of s b) > 0 then ty_size (node_of s b) else type_kind_bytes (ty_kind (node_of s b)))"

definition address_of_element :: "string \<Rightarrow> type_ptr option \<Rightarrow> ASTNode \<Rightarrow> ASTNode \<Rightarrow> unit cg" where
  "address_of_element name t arr index = on_cg (\<lambda>s.
     let idx = long_of index in
     if idx = 0 then dq_line name (literal_text arr)
     else dq_line name (literal_text arr @ '' + '' @ show_int (wrap64 (idx * pointee_bytes s t))))"

definition subscript_of_name :: "ASTNode \<Rightarrow> (ASTNode \<times> ASTNode) option" where
  "subscript_of_name n =
     (if node_type n = AST_ARRAY_INDEX
      then (case children n of
              [Some a, Some i] \<Rightarrow>
                if node_type a = AST_VAR_REF \<and> node_type i = AST_INT_LITERAL then Some (a, i) else None
            | _ \<Rightarrow> None)
      else None)"

definition fresh_compound :: "string cg" where
  "fresh_compound = into (look compound_literal_count) (\<lambda>n.
     first (upd (\<lambda>s. s\<lparr>compound_literal_count := wrap32 (n + 1)\<rparr>)) (codegen_intern (''Lcompound_'' @ show_int n)))"

definition compound_array_data :: "string \<Rightarrow> ASTNode \<Rightarrow> type_ptr \<Rightarrow> unit cg" where
  "compound_array_data name lit at =
     into fresh_compound (\<lambda>anon. on_cg (\<lambda>s.
       into (need (ty_base (node_of s at))) (\<lambda>et.
       let k = ty_kind (node_of s et);
           elems = (case children lit of Some l # _ \<Rightarrow> children l | _ \<Rightarrow> []) in
       first (plain_line (anon @ '':''))
       (first (all_in_turn (\<lambda>j.
           if j < length elems then
             into (need (elems ! j)) (\<lambda>e.
               if node_type e = AST_INT_LITERAL then data_line k (long_of e)
               else if node_type e = AST_CHAR_LITERAL then data_line k (literal_byte e 0)
               else refuse ''unsupported element in file-scope compound literal'')
           else data_line k 0) [0..<nat (ty_length (node_of s at))])
         (dq_line name anon)))))"

definition compound_object_data :: "string \<Rightarrow> ASTNode \<Rightarrow> unit cg" where
  "compound_object_data name lit =
     into fresh_compound (\<lambda>anon. on_cg (\<lambda>s.
       first
         (if kind_at s (full_type (info lit)) = Some TYPE_STRUCT then
            first (plain_line (anon @ '':''))
              (case children lit of Some l # _ \<Rightarrow> global_struct (the (full_type (info lit))) l | _ \<Rightarrow> skip)
          else
            let v = (case children lit of
                       Some e # _ \<Rightarrow> if node_type e = AST_INT_LITERAL then long_of e else 0
                     | _ \<Rightarrow> 0) in
            plain_line (anon @ '': '' @ data_init_directive (decl_type (info lit)) @ '' '' @ show_int v))
         (dq_line name anon)))"

definition global_address_data :: "GlobalVar \<Rightarrow> ASTNode \<Rightarrow> unit cg" where
  "global_address_data g addr =
     (let unsupported = refuse (''unsupported address-constant initializer for '' @ quoted (gv_name g)) in
      case children addr of
        Some c # _ \<Rightarrow>
          if node_type c = AST_VAR_REF then dq_line (gv_name g) (literal_text c)
          else (case subscript_of_name c of
                  Some (a, i) \<Rightarrow> address_of_element (gv_name g) (gv_full_type g) a i
                | None \<Rightarrow> if node_type c = AST_COMPOUND_LITERAL then compound_object_data (gv_name g) c else unsupported)
      | _ \<Rightarrow> unsupported)"

definition scalar_global_data :: "GlobalVar \<Rightarrow> unit cg" where
  "scalar_global_data g =
     (let dir = gv_name g @ '': '' @ data_init_directive (gv_kind g) @ '' '';
          label = (case gv_init_label g of None \<Rightarrow> [] | Some l \<Rightarrow> l) in
      if type_is_fp (gv_kind g) \<and> gv_init_label g \<noteq> None \<and> \<not> gv_is_label_init g
      then plain_line (dir @ without_suffix label)
      else if gv_is_label_init g then plain_line (dir @ label)
      else plain_line (dir @ show_int (gv_init_value g)))"

definition global_data :: "GlobalVar \<Rightarrow> unit cg" where
  "global_data g = on_cg (\<lambda>s.
     let k = gv_kind g; name = gv_name g;
         len_or = (\<lambda>d. case gv_full_type g of Some t \<Rightarrow> ty_length (node_of s t) | None \<Rightarrow> d) in
     case gv_init_node g of
       None \<Rightarrow> scalar_global_data g
     | Some n \<Rightarrow>
         if k = TYPE_ARRAY \<and> node_type n = AST_STRING_LITERAL
         then inline_string name n (len_or (byte_length (info n) + 1))
         else if is_struct_or_union_kind k \<and> node_type n = AST_INITIALIZER_LIST then
           into (need (gv_full_type g)) (\<lambda>t.
             first (plain_line (name @ '':''))
               (if k = TYPE_UNION
                then union_data (''too many initializers for union '' @ quoted name)
                       (''unsupported initializer for union '' @ quoted name) t n
                else global_struct t n))
         else if k = TYPE_ARRAY \<and> node_type n = AST_INITIALIZER_LIST
         then array_data name (''too many initializers for array '' @ quoted name)
                (global_slot_data name (base_at s (gv_full_type g))) (len_or (int (child_count n))) n
         else if k = TYPE_POINTER \<and> node_type n = AST_COMPOUND_LITERAL \<and>
                 kind_at s (full_type (info n)) = Some TYPE_ARRAY
         then compound_array_data name n (the (full_type (info n)))
         else if k = TYPE_POINTER \<and> node_type n = AST_ADDR_OF then global_address_data g n
         else scalar_global_data g)"

definition exported :: "(GlobalVar \<Rightarrow> unit cg) \<Rightarrow> GlobalVar \<Rightarrow> unit cg" where
  "exported f g = first (cg_when (\<not> gv_is_static_linkage g) (plain_line (''global '' @ gv_name g))) (f g)"

definition codegen_emit_data :: "unit cg" where
  "codegen_emit_data = on_cg (\<lambda>s.
     let gs = filter (\<lambda>g. gv_is_initialized g \<and> \<not> gv_is_extern g) (cg_globals s) in
     if gs = [] then skip else first (plain_line ''section .data'') (all_in_turn (exported global_data) gs))"

text \<open>Arrays, structures and unions reserve their bytes, the others one unit of their kind.\<close>

definition bss_line :: "CodeGen \<Rightarrow> string \<Rightarrow> TypeKind \<Rightarrow> type_ptr option \<Rightarrow> unit cg" where
  "bss_line s name k t =
     (case t of
        Some p \<Rightarrow>
          if k = TYPE_ARRAY \<or> is_struct_or_union_kind k
          then plain_line (name @ '': resb '' @ show_int (ty_size (node_of s p)))
          else plain_line (name @ '': '' @ bss_res_directive k @ '' 1'')
      | None \<Rightarrow> plain_line (name @ '': '' @ bss_res_directive k @ '' 1''))"

definition codegen_emit_bss :: "unit cg" where
  "codegen_emit_bss = on_cg (\<lambda>s.
     let gs = filter (\<lambda>g. \<not> gv_is_initialized g \<and> \<not> gv_is_extern g) (cg_globals s) in
     if gs = [] then skip
     else first (plain_line ''section .bss'')
       (all_in_turn (exported (\<lambda>g. bss_line s (gv_name g) (gv_kind g) (gv_full_type g))) gs))"

definition static_address_data :: "LocalStaticVar \<Rightarrow> ASTNode option \<Rightarrow> unit cg" where
  "static_address_data v c = into (need c) (\<lambda>c.
     if node_type c = AST_VAR_REF then dq_line (sv_label v) (literal_text c)
     else case subscript_of_name c of
       Some (a, i) \<Rightarrow> address_of_element (sv_label v) (sv_full_type v) a i
     | None \<Rightarrow> refuse ''unsupported address-constant initializer for block-scope static'')"

definition static_data :: "LocalStaticVar \<Rightarrow> unit cg" where
  "static_data v = on_cg (\<lambda>s.
     let k = sv_kind v; name = sv_label v;
         len_or = (\<lambda>d. case sv_full_type v of Some t \<Rightarrow> ty_length (node_of s t) | None \<Rightarrow> d);
         scalar = plain_line (name @ '': '' @ data_init_directive k @ '' '' @ show_int (sv_init_value v)) in
     case sv_init_node v of
       None \<Rightarrow> scalar
     | Some n \<Rightarrow>
         if k = TYPE_ARRAY \<and> node_type n = AST_STRING_LITERAL
         then inline_string name n (len_or (byte_length (info n) + 1))
         else if k = TYPE_ARRAY \<and> node_type n = AST_INITIALIZER_LIST
         then array_data name ''too many initializers for static array''
                (static_slot_data (base_at s (sv_full_type v))) (len_or (int (child_count n))) n
         else if k = TYPE_STRUCT
         then into (need (sv_full_type v)) (\<lambda>t. first (plain_line (name @ '':'')) (global_struct t n))
         else if k = TYPE_UNION
         then into (need (sv_full_type v)) (\<lambda>t. first (plain_line (name @ '':''))
                (union_data ''too many initializers for static union'' ''unsupported initializer for static union'' t n))
         else if sv_is_label_init v \<and> node_type n = AST_VAR_REF then dq_line name (literal_text n)
         else if sv_is_label_init v \<and> node_type n = AST_ADDR_OF \<and> child_count n = 1
         then static_address_data v (hd (children n))
         else scalar)"

definition codegen_emit_local_statics :: "unit cg" where
  "codegen_emit_local_statics = on_cg (\<lambda>s.
     let inits = filter sv_is_initialized (local_statics s); zer = filter (\<lambda>v. \<not> sv_is_initialized v) (local_statics s) in
     first (cg_when (inits \<noteq> []) (first (plain_line ''section .data'') (all_in_turn static_data inits)))
       (cg_when (zer \<noteq> []) (first (plain_line ''section .bss'')
         (all_in_turn (\<lambda>v. bss_line s (sv_label v) (sv_kind v) (sv_full_type v)) zer))))"

end
