(* ===== verification/Codegen_Addr.thy ===== *)
theory Codegen_Addr
  imports Codegen_Data
begin

section \<open>Addresses of lvalues: \<^verbatim>\<open>src/codegen.c\<close> lines 997 to 1631 and 2367 to 2517\<close>

text \<open>
  The functions that leave the address of an element, a member or a structure in \<^verbatim>\<open>rax\<close>. They call
  one another and \<^verbatim>\<open>codegen_expression\<close> on the children of their node; the record \<open>cg_knot\<close> holds
  these calls, and \<open>Codegen_Expr\<close> ties the knot. Each gives the tree back as the calls left it.
  Nobody reads what they leave in the tree of an initializer list, so for a list they give nothing.
\<close>

record cg_knot =
  k_expr :: "ASTNode \<Rightarrow> ASTNode cg"
  k_index :: "ASTNode \<Rightarrow> (type_ptr option \<times> ASTNode) cg"
  k_member :: "ASTNode \<Rightarrow> (StructField \<times> ASTNode) cg"
  k_arrow :: "ASTNode \<Rightarrow> (StructField \<times> ASTNode) cg"
  k_struct_init :: "type_ptr \<Rightarrow> int \<Rightarrow> ASTNode \<Rightarrow> unit cg"
  k_array_init :: "type_ptr \<Rightarrow> int \<Rightarrow> ASTNode \<Rightarrow> unit cg"

text \<open>Child \<open>i\<close> is evaluated in its place.\<close>

definition eval_kid :: "cg_knot \<Rightarrow> nat \<Rightarrow> ASTNode \<Rightarrow> (ASTNode \<times> ASTNode) cg" where
  "eval_kid K i n = into (kid i n) (\<lambda>c. into (k_expr K c) (\<lambda>c'. give (c', set_kid i c' n)))"

abbreviation name_of :: "ASTNode \<Rightarrow> string" where
  "name_of n \<equiv> literal_text n"

text \<open>Where a local lives, for \<^verbatim>\<open>mov\<close> and \<^verbatim>\<open>lea\<close>.\<close>

definition lv_place :: "LocalVar \<Rightarrow> string" where
  "lv_place v = (if lv_is_static v then sym (lv_static_label v) else slot (lv_offset v))"

definition add_offset :: "StructField \<Rightarrow> unit cg" where
  "add_offset f = cg_when (fld_offset f \<noteq> 0) (ins (''add rax, '' @ show_int (fld_offset f)))"

text \<open>The member that \<open>n\<close> names of the structure \<open>t\<close>; \<open>k\<close> is the kind the message shows.\<close>

definition member_named :: "ASTNode \<Rightarrow> TypeKind \<Rightarrow> type_ptr \<Rightarrow> StructField cg" where
  "member_named n k t = into (field_of n t) (\<lambda>f. case f of
     Some fd \<Rightarrow> give fd
   | None \<Rightarrow> refuse (quoted (type_kind_name k) @ '' has no member '' @ quoted (name_of n)))"

subsection \<open>\<^verbatim>\<open>emit_array_index_addr\<close>\<close>

text \<open>The common end: the index is evaluated, scaled and added to the base address in \<^verbatim>\<open>rax\<close>.\<close>

definition scale_index :: "cg_knot \<Rightarrow> int \<Rightarrow> ASTNode \<Rightarrow> ASTNode cg" where
  "scale_index K elem_size n =
     first push_rax
       (into (eval_kid K 1 n) (\<lambda>(index, n).
         let ik = result_type (info index) in
         first (require (ik = TYPE_INT \<or> ik = TYPE_LONG) ''array subscript index must be an integer'')
         (first (cg_when (ik \<noteq> TYPE_LONG) (ins ''movsxd rax, eax''))
         (first (cg_when (elem_size \<noteq> 1) (ins (''imul rax, rax, '' @ show_int elem_size)))
         (first (pop_reg ''rbx'')
         (first (ins ''add rax, rbx'')
           (give n)))))))"

definition scaled :: "cg_knot \<Rightarrow> type_ptr option \<Rightarrow> ASTNode \<Rightarrow> (type_ptr option \<times> ASTNode) cg" where
  "scaled K element n = into (look (\<lambda>s. type_size (cg_types s) element)) (\<lambda>sz.
     into (scale_index K sz n) (\<lambda>n. give (element, n)))"

definition index_of_deref :: "cg_knot \<Rightarrow> ASTNode \<Rightarrow> ASTNode \<Rightarrow> (type_ptr option \<times> ASTNode) cg" where
  "index_of_deref K base n = into (kid 0 base) (\<lambda>inner.
     first (require (node_type inner = AST_VAR_REF) ''subscript base must be an identifier'')
       (into (find_var_of inner) (\<lambda>plv. on_cg (\<lambda>s.
         case plv of
           None \<Rightarrow> refuse ''subscript base must be a pointer to array''
         | Some v \<Rightarrow>
             let b = pointee_of (cg_types s) (lv_view v) in
             if kind_at s b \<noteq> Some TYPE_ARRAY then refuse ''subscript base must be a pointer to array''
             else first (ins (''mov rax, '' @ lv_place v)) (scaled K (base_at s b) n)))))"

definition index_of_index :: "cg_knot \<Rightarrow> ASTNode \<Rightarrow> ASTNode \<Rightarrow> (type_ptr option \<times> ASTNode) cg" where
  "index_of_index K base n = into (k_index K base) (\<lambda>(ie, base'). into (need ie) (\<lambda>inner. on_cg (\<lambda>s.
     let n = set_kid 0 base' n; t = node_of s inner in
     if ty_kind t = TYPE_POINTER then
       into (need (ty_base t)) (\<lambda>e.
         first (require (ty_kind (node_of s e) \<noteq> TYPE_VOID) ''cannot subscript void pointer'')
           (first (ins ''mov rax, [rax]'') (scaled K (Some e) n)))
     else if ty_kind t = TYPE_ARRAY then scaled K (ty_base t) n
     else refuse ''subscript base is not a pointer or array'')))"

definition index_of_field :: "cg_knot \<Rightarrow> StructField \<Rightarrow> ASTNode \<Rightarrow> ASTNode \<Rightarrow> (type_ptr option \<times> ASTNode) cg" where
  "index_of_field K f base n = on_cg (\<lambda>s.
     case (fld_kind f, base_at s (fld_full_type f)) of
       (TYPE_ARRAY, Some e) \<Rightarrow> scaled K (Some e) n
     | (TYPE_POINTER, Some e) \<Rightarrow> first (ins ''mov rax, [rax]'') (scaled K (Some e) n)
     | _ \<Rightarrow> refuse (''subscript applied to member '' @ quoted (name_of base) @ '' which is not an array or pointer''))"

definition index_of_literal :: "cg_knot \<Rightarrow> ASTNode \<Rightarrow> (type_ptr option \<times> ASTNode) cg" where
  "index_of_literal K n = into (eval_kid K 0 n) (\<lambda>(base, n). on_cg (\<lambda>s.
     case (kind_at s (full_type (info base)), base_at s (full_type (info base))) of
       (Some TYPE_POINTER, Some e) \<Rightarrow> scaled K (Some e) n
     | _ \<Rightarrow> refuse ''compound literal subscript: expected pointer type''))"

text \<open>A named base: for an array the slot's address is the base, for a pointer the slot's value.\<close>

definition index_of_view :: "cg_knot \<Rightarrow> view \<Rightarrow> string \<Rightarrow> ASTNode \<Rightarrow> ASTNode \<Rightarrow> (type_ptr option \<times> ASTNode) cg" where
  "index_of_view K v place base n = on_cg (\<lambda>s.
     if fst v = TYPE_ARRAY then
       into (need (snd v)) (\<lambda>t. first (ins (''lea rax, '' @ place)) (scaled K (ty_base (node_of s t)) n))
     else if fst v = TYPE_POINTER then
       into (need (snd v)) (\<lambda>t.
         let e = ty_base (node_of s t) in
         first (require (kind_at s e \<noteq> Some TYPE_VOID) (''cannot subscript void pointer '' @ quoted (name_of base)))
           (first (ins (''mov rax, '' @ place)) (scaled K e n)))
     else refuse (''subscript base '' @ quoted (name_of base) @ '' is not an array or pointer''))"

definition index_of_name :: "cg_knot \<Rightarrow> ASTNode \<Rightarrow> ASTNode \<Rightarrow> (type_ptr option \<times> ASTNode) cg" where
  "index_of_name K base n = into (find_var_of base) (\<lambda>lv. case lv of
     Some v \<Rightarrow> index_of_view K (lv_view v) (lv_place v) base n
   | None \<Rightarrow> into (find_global_of base) (\<lambda>gv. case gv of
       Some g \<Rightarrow> index_of_view K (gv_view g) (sym (gv_name g)) base n
     | None \<Rightarrow> refuse (''undeclared variable '' @ quoted (name_of base))))"

definition emit_array_index_addr :: "cg_knot \<Rightarrow> ASTNode \<Rightarrow> (type_ptr option \<times> ASTNode) cg" where
  "emit_array_index_addr K n = into (kid 0 n) (\<lambda>base.
     case node_type base of
       AST_DEREF \<Rightarrow> index_of_deref K base n
     | AST_ARRAY_INDEX \<Rightarrow> index_of_index K base n
     | AST_MEMBER_ACCESS \<Rightarrow> into (k_member K base) (\<lambda>(f, base'). index_of_field K f base (set_kid 0 base' n))
     | AST_ARROW_ACCESS \<Rightarrow> into (k_arrow K base) (\<lambda>(f, base'). index_of_field K f base (set_kid 0 base' n))
     | AST_COMPOUND_LITERAL \<Rightarrow> index_of_literal K n
     | AST_STRING_LITERAL \<Rightarrow> into (eval_kid K 0 n) (\<lambda>(_, n).
         into (scale_index K 1 n) (\<lambda>n. give (Some type_char, n)))
     | AST_VAR_REF \<Rightarrow> index_of_name K base n
     | _ \<Rightarrow> refuse ''subscript base must be an identifier'')"

subsection \<open>\<^verbatim>\<open>emit_member_addr\<close>\<close>

definition member_of_deref :: "ASTNode \<Rightarrow> ASTNode \<Rightarrow> (StructField \<times> ASTNode) cg" where
  "member_of_deref base n = into (kid 0 base) (\<lambda>p.
     first (require (node_type p = AST_VAR_REF) (quoted ''.'' @ '' via dereference: pointer must be an identifier''))
       (into (find_var_of p) (\<lambda>plv. on_cg (\<lambda>s.
         case plv of
           None \<Rightarrow> refuse (''undeclared variable '' @ quoted (name_of p))
         | Some v \<Rightarrow>
             (case pointed_struct_of (cg_types s) (lv_view v) of
                None \<Rightarrow> refuse (quoted ''.'' @ '' via dereference: '' @ quoted (name_of p) @ '' is not a pointer to struct/union'')
              | Some st \<Rightarrow> into (member_named n (ty_kind (node_of s st)) st) (\<lambda>f.
                  first (ins (''mov rax, '' @ lv_place v)) (first (add_offset f) (give (f, n)))))))))"

text \<open>The base is a member whose address is in \<^verbatim>\<open>rax\<close>.\<close>

definition member_of_field :: "StructField \<Rightarrow> ASTNode \<Rightarrow> ASTNode \<Rightarrow> (StructField \<times> ASTNode) cg" where
  "member_of_field inner base n =
     (case fld_full_type inner of
        Some st \<Rightarrow>
          first (require (is_struct_or_union_kind (fld_kind inner))
              (quoted ''.'' @ '' applied to non-struct/union member '' @ quoted (name_of base)))
            (into (member_named n (fld_kind inner) st) (\<lambda>f. first (add_offset f) (give (f, n))))
      | None \<Rightarrow> refuse (quoted ''.'' @ '' applied to non-struct/union member '' @ quoted (name_of base)))"

definition member_of_element :: "type_ptr option \<Rightarrow> ASTNode \<Rightarrow> (StructField \<times> ASTNode) cg" where
  "member_of_element e n = into (need e) (\<lambda>t. on_cg (\<lambda>s.
     let k = ty_kind (node_of s t) in
     first (require (is_struct_or_union_kind k) (quoted ''.'' @ '' applied to non-struct/union array element''))
       (into (member_named n k t) (\<lambda>f. first (add_offset f) (give (f, n))))))"

definition member_of_literal :: "cg_knot \<Rightarrow> ASTNode \<Rightarrow> (StructField \<times> ASTNode) cg" where
  "member_of_literal K n = into (eval_kid K 0 n) (\<lambda>(base, n). on_cg (\<lambda>s.
     let ft = full_type (info base);
         st = (if kind_at s ft = Some TYPE_POINTER then if_struct (cg_types s) (base_at s ft) else None) in
     case st of
       None \<Rightarrow> refuse (quoted ''.'' @ '' applied to non-struct/union compound literal'')
     | Some t \<Rightarrow> into (member_named n (ty_kind (node_of s t)) t) (\<lambda>f. first (add_offset f) (give (f, n)))))"

definition member_of_local :: "LocalVar \<Rightarrow> ASTNode \<Rightarrow> ASTNode \<Rightarrow> (StructField \<times> ASTNode) cg" where
  "member_of_local v base n = on_cg (\<lambda>s.
     case struct_of (cg_types s) (lv_view v) of
       None \<Rightarrow> refuse (quoted ''.'' @ '' applied to non-struct/union '' @ quoted (name_of base))
     | Some t \<Rightarrow> into (member_named n (lv_kind v) t) (\<lambda>f.
         first (if lv_is_static v
                then ins (''lea rax, '' @ (if fld_offset f \<noteq> 0
                       then sym (lv_static_label v @ '' + '' @ show_int (fld_offset f)) else sym (lv_static_label v)))
                else ins (''lea rax, '' @ slot (lv_offset v - fld_offset f)))
           (give (f, n))))"

definition member_of_global :: "GlobalVar \<Rightarrow> ASTNode \<Rightarrow> ASTNode \<Rightarrow> (StructField \<times> ASTNode) cg" where
  "member_of_global g base n = on_cg (\<lambda>s.
     case struct_of (cg_types s) (gv_view g) of
       None \<Rightarrow> refuse (quoted ''.'' @ '' applied to non-struct/union '' @ quoted (name_of base))
     | Some t \<Rightarrow> into (member_named n (gv_kind g) t) (\<lambda>f.
         first (ins (''lea rax, '' @ (if fld_offset f \<noteq> 0
                  then sym (gv_name g @ '' + '' @ show_int (fld_offset f)) else sym (gv_name g))))
           (give (f, n))))"

definition emit_member_addr :: "cg_knot \<Rightarrow> ASTNode \<Rightarrow> (StructField \<times> ASTNode) cg" where
  "emit_member_addr K n = into (kid 0 n) (\<lambda>base.
     case node_type base of
       AST_DEREF \<Rightarrow> member_of_deref base n
     | AST_MEMBER_ACCESS \<Rightarrow> into (k_member K base) (\<lambda>(inner, base'). member_of_field inner base (set_kid 0 base' n))
     | AST_ARRAY_INDEX \<Rightarrow> into (k_index K base) (\<lambda>(e, base'). member_of_element e (set_kid 0 base' n))
     | AST_ARROW_ACCESS \<Rightarrow> into (k_arrow K base) (\<lambda>(inner, base'). member_of_field inner base (set_kid 0 base' n))
     | AST_COMPOUND_LITERAL \<Rightarrow> member_of_literal K n
     | AST_VAR_REF \<Rightarrow> into (find_var_of base) (\<lambda>lv. case lv of
         Some v \<Rightarrow> member_of_local v base n
       | None \<Rightarrow> into (find_global_of base) (\<lambda>gv. case gv of
           Some g \<Rightarrow> member_of_global g base n
         | None \<Rightarrow> refuse (''undeclared variable '' @ quoted (name_of base))))
     | _ \<Rightarrow> refuse (quoted ''.'' @ '' base must be an identifier''))"

subsection \<open>\<^verbatim>\<open>emit_arrow_addr\<close>\<close>

definition arrow_error :: "string" where
  "arrow_error = quoted ''->'' @ '' applied to non-pointer-to-struct/union''"

text \<open>The pointer type is known and the pointer is in \<^verbatim>\<open>rax\<close>, or \<open>load\<close> brings it there.\<close>

definition arrow_through :: "string \<Rightarrow> unit cg \<Rightarrow> type_ptr option \<Rightarrow> ASTNode \<Rightarrow> (StructField \<times> ASTNode) cg" where
  "arrow_through msg load st n =
     (case st of
        None \<Rightarrow> refuse msg
      | Some t \<Rightarrow> on_cg (\<lambda>s. into (member_named n (ty_kind (node_of s t)) t) (\<lambda>f.
          first load (first (add_offset f) (give (f, n))))))"

definition emit_arrow_addr :: "cg_knot \<Rightarrow> ASTNode \<Rightarrow> (StructField \<times> ASTNode) cg" where
  "emit_arrow_addr K n = into (kid 0 n) (\<lambda>base.
     if node_type base = AST_MEMBER_ACCESS then
       into (k_member K base) (\<lambda>(inner, base'). on_cg (\<lambda>s.
         arrow_through arrow_error (ins ''mov rax, [rax]'')
           (pointed_struct_of (cg_types s) (fld_kind inner, fld_full_type inner)) (set_kid 0 base' n)))
     else if node_type base \<noteq> AST_VAR_REF then
       into (eval_kid K 0 n) (\<lambda>(base, n). on_cg (\<lambda>s.
         let ft = full_type (info base) in
         arrow_through arrow_error skip
           (if kind_at s ft = Some TYPE_POINTER then if_struct (cg_types s) (base_at s ft) else None) n))
     else
       into (find_var_of base) (\<lambda>lv. case lv of
         Some v \<Rightarrow> on_cg (\<lambda>s. arrow_through (arrow_error @ '' '' @ quoted (name_of base)) (ins (''mov rax, '' @ lv_place v))
           (pointed_struct_of (cg_types s) (lv_view v)) n)
       | None \<Rightarrow> into (find_global_of base) (\<lambda>gv. case gv of
           Some g \<Rightarrow> on_cg (\<lambda>s. arrow_through (arrow_error @ '' '' @ quoted (name_of base)) (ins (''mov rax, '' @ sym (gv_name g)))
             (pointed_struct_of (cg_types s) (gv_view g)) n)
         | None \<Rightarrow> refuse (''undeclared variable '' @ quoted (name_of base)))))"

subsection \<open>\<^verbatim>\<open>emit_struct_addr\<close>\<close>

definition not_struct_value :: "ASTNode \<Rightarrow> 'a cg" where
  "not_struct_value n = refuse (quoted (name_of n) @ '' is not a struct/union value'')"

definition struct_field_value :: "StructField \<times> ASTNode \<Rightarrow> (type_ptr option \<times> ASTNode) cg" where
  "struct_field_value r =
     (case r of (f, n) \<Rightarrow>
        first (require (is_struct_or_union_kind (fld_kind f) \<and> fld_full_type f \<noteq> None)
            (''member '' @ quoted (name_of n) @ '' is not a struct/union value''))
          (give (fld_full_type f, n)))"

definition struct_name_addr :: "ASTNode \<Rightarrow> (type_ptr option \<times> ASTNode) cg" where
  "struct_name_addr n = into (find_var_of n) (\<lambda>lv. case lv of
     Some v \<Rightarrow> on_cg (\<lambda>s. case struct_of (cg_types s) (lv_view v) of
         None \<Rightarrow> not_struct_value n
       | Some t \<Rightarrow> first (ins (''lea rax, '' @ lv_place v)) (give (Some t, n)))
   | None \<Rightarrow> into (find_global_of n) (\<lambda>gv. on_cg (\<lambda>s.
       case (case gv of None \<Rightarrow> None | Some g \<Rightarrow> struct_of (cg_types s) (gv_view g)) of
         None \<Rightarrow> not_struct_value n
       | Some t \<Rightarrow> first (ins (''lea rax, '' @ sym (name_of n))) (give (Some t, n)))))"

definition emit_struct_addr :: "cg_knot \<Rightarrow> ASTNode \<Rightarrow> (type_ptr option \<times> ASTNode) cg" where
  "emit_struct_addr K n =
     (case node_type n of
        AST_VAR_REF \<Rightarrow> struct_name_addr n
      | AST_MEMBER_ACCESS \<Rightarrow> into (k_member K n) struct_field_value
      | AST_ARROW_ACCESS \<Rightarrow> into (k_arrow K n) struct_field_value
      | AST_ARRAY_INDEX \<Rightarrow> into (k_index K n) (\<lambda>(e, n). on_cg (\<lambda>s.
          first (require (if_struct (cg_types s) e \<noteq> None) ''subscripted value is not a struct/union'') (give (e, n))))
      | AST_DEREF \<Rightarrow> into (eval_kid K 0 n) (\<lambda>(p, n). on_cg (\<lambda>s.
          let ft = full_type (info p); b = base_at s ft in
          first (require (kind_at s ft = Some TYPE_POINTER \<and> if_struct (cg_types s) b \<noteq> None)
              ''dereferenced value is not a pointer to struct/union'')
            (give (b, n))))
      | AST_FUNCTION_CALL \<Rightarrow> into (k_expr K n) (\<lambda>n.
          first (require (full_type (info n) \<noteq> None \<and> is_struct_or_union_kind (decl_type (info n)))
              ''call does not return a struct/union value'')
            (give (full_type (info n), n)))
      | AST_COMPOUND_LITERAL \<Rightarrow> into (k_expr K n) (\<lambda>n. on_cg (\<lambda>s.
          first (require (full_type (info n) \<noteq> None \<and> is_struct_or_union_kind (decl_type (info n)))
              ''compound literal is not a struct/union value'')
            (give (base_at s (full_type (info n)), n))))
      | AST_BUILTIN_VA_ARG \<Rightarrow> into (k_expr K n) (\<lambda>n.
          first (require (full_type (info n) \<noteq> None \<and> is_struct_or_union_kind (result_type (info n)))
              ''va_arg does not yield a struct/union value'')
            (give (full_type (info n), n)))
      | _ \<Rightarrow> refuse ''expression is not a usable struct/union value'')"

subsection \<open>\<^verbatim>\<open>codegen_inc_dec_general\<close>\<close>

text \<open>The width of a scalar whose type node is missing or has no size.\<close>

definition kind_width :: "TypeKind \<Rightarrow> int" where
  "kind_width k =
     (if k = TYPE_CHAR then 1 else if k = TYPE_SHORT then 2 else if long_kind k \<or> k = TYPE_POINTER then 8 else 4)"

definition field_width :: "type_heap \<Rightarrow> StructField \<Rightarrow> int" where
  "field_width h f = (let sz = type_size h (fld_full_type f) in if sz = 0 then kind_width (fld_kind f) else sz)"

text \<open>The operand: kind, type and width of the object whose address is in \<^verbatim>\<open>rax\<close>.\<close>

type_synonym lvalue = "TypeKind \<times> type_ptr option \<times> int"

definition field_lvalue :: "StructField \<Rightarrow> lvalue cg" where
  "field_lvalue f = look (\<lambda>s. (fld_kind f, fld_full_type f, type_size (cg_types s) (fld_full_type f)))"

definition inc_dec_operand :: "cg_knot \<Rightarrow> ASTNode \<Rightarrow> (lvalue \<times> ASTNode) cg" where
  "inc_dec_operand K n = into (kid 0 n) (\<lambda>operand.
     case node_type operand of
       AST_ARRAY_INDEX \<Rightarrow> into (k_index K operand) (\<lambda>(e, c). into (need e) (\<lambda>t.
         look (\<lambda>s. ((ty_kind (node_of s t), Some t, ty_size (node_of s t)), set_kid 0 c n))))
     | AST_MEMBER_ACCESS \<Rightarrow> into (k_member K operand) (\<lambda>(f, c). into (field_lvalue f) (\<lambda>l. give (l, set_kid 0 c n)))
     | AST_ARROW_ACCESS \<Rightarrow> into (k_arrow K operand) (\<lambda>(f, c). into (field_lvalue f) (\<lambda>l. give (l, set_kid 0 c n)))
     | AST_DEREF \<Rightarrow> into (eval_kid K 0 operand) (\<lambda>(p, c). on_cg (\<lambda>s.
         let ft = full_type (info p) in
         first (require (kind_at s ft = Some TYPE_POINTER) ''cannot dereference non-pointer value'')
           (case base_at s ft of
              None \<Rightarrow> give ((TYPE_INT, None, 4), set_kid 0 c n)
            | Some b \<Rightarrow>
                first (require (\<not> ty_const (node_of s b)) ''assignment through pointer to const-qualified type'')
                  (give ((ty_kind (node_of s b), Some b, ty_size (node_of s b)), set_kid 0 c n)))))
     | _ \<Rightarrow> refuse ''operand of ++/-- must be a modifiable lvalue'')"

definition fp_inc_dec :: "bool \<Rightarrow> bool \<Rightarrow> bool \<Rightarrow> unit cg" where
  "fp_inc_dec use_double is_inc is_post =
     (let mv = (if use_double then ''movsd '' else ''movss '');
          sfx = (if use_double then ''sd'' else ''ss'');
          one = (if use_double then sym ''Lfp_one_f64'' else sym ''Lfp_one_f32'') in
      first (upd (if use_double then (\<lambda>s. s\<lparr>fp_one_f64_emitted := True\<rparr>) else (\<lambda>s. s\<lparr>fp_one_f32_emitted := True\<rparr>)))
        (inss ((if is_post then [mv @ ''xmm1, [rbx]''] else []) @
           [mv @ ''xmm0, [rbx]'', (if is_inc then ''add'' else ''sub'') @ sfx @ '' xmm0, '' @ one, mv @ ''[rbx], xmm0''] @
           (if is_post then [mv @ ''xmm0, xmm1''] else []))))"

definition int_inc_dec :: "int \<Rightarrow> int \<Rightarrow> bool \<Rightarrow> bool \<Rightarrow> unit cg" where
  "int_inc_dec sz step is_inc is_post =
     first (ins (load_text ''[rbx]'' sz False))
       (first (cg_when is_post (ins ''mov rcx, rax''))
       (first (ins ((if is_inc then ''add '' else ''sub '') @ (if sz = 8 then ''rax, '' else ''eax, '') @ show_int step))
       (first (store_at ''[rbx]'' sz True)
         (cg_when is_post (ins ''mov rax, rcx'')))))"

definition codegen_inc_dec_general :: "cg_knot \<Rightarrow> ASTNode \<Rightarrow> ASTNode cg" where
  "codegen_inc_dec_general K n = into (value_text n) (\<lambda>op. into (inc_dec_operand K n) (\<lambda>((k, full, sz0), n). on_cg (\<lambda>s.
     let is_inc = (op = ''++''); is_post = (node_type n = AST_POSTFIX_INC_DEC);
         sz = (if sz0 = 0 then kind_width k else sz0);
         step = (case base_at s full of Some b \<Rightarrow> if k = TYPE_POINTER then ty_size (node_of s b) else 1 | None \<Rightarrow> 1) in
     first (ins ''mov rbx, rax'')
       (if type_is_fp k then first (fp_inc_dec (k = TYPE_DOUBLE) is_inc is_post) (give (set_result k n))
        else first (int_inc_dec sz step is_inc is_post)
          (give (if k = TYPE_POINTER
                 then (if full = None then set_result TYPE_POINTER n else set_full full (set_result TYPE_POINTER n))
                 else set_result (promote_kind k) n))))))"

end
