(* ===== verification/Codegen_Assign.thy ===== *)
theory Codegen_Assign
  imports Codegen_Addr
begin

section \<open>Literals, names, assignments, reads and \<^verbatim>\<open>sizeof\<close>: \<^verbatim>\<open>src/codegen.c\<close> lines 2520 to 3616\<close>

definition set_unsigned :: "bool \<Rightarrow> ASTNode \<Rightarrow> ASTNode" where
  "set_unsigned b n = with_info (\<lambda>i. i\<lparr>is_unsigned := b\<rparr>) n"

definition set_pointer :: "type_ptr option \<Rightarrow> ASTNode \<Rightarrow> ASTNode" where
  "set_pointer t n = set_full t (set_result TYPE_POINTER n)"

text \<open>The node becomes a pointer to \<open>t\<close>, a type made for it.\<close>

definition points_to :: "type_ptr option \<Rightarrow> ASTNode \<Rightarrow> ASTNode cg" where
  "points_to t n = into (need t) (\<lambda>b. into (cg_type (\<lambda>h. type_pointer h b)) (\<lambda>p. give (set_pointer (Some p) n)))"

subsection \<open>Literals and names\<close>

definition gen_int_literal :: "ASTNode \<Rightarrow> ASTNode cg" where
  "gen_int_literal n =
     (if long_kind (decl_type (info n))
      then first (ins (''mov rax, '' @ name_of n)) (give (set_result TYPE_LONG n))
      else first (ins (''mov eax, '' @ name_of n)) (give (set_result TYPE_INT n)))"

definition gen_char_literal :: "ASTNode \<Rightarrow> ASTNode cg" where
  "gen_char_literal n = first (ins (''mov eax, '' @ show_int (literal_byte n 0))) (give (set_result TYPE_INT n))"

definition gen_float_literal :: "ASTNode \<Rightarrow> ASTNode cg" where
  "gen_float_literal n = into (codegen_intern_fp_literal (name_of n) (decl_type (info n))) (\<lambda>idx.
     first (ins (fp_mov (decl_type (info n)) @ ''xmm0, '' @ sym (''Lfc'' @ show_int idx)))
       (give (set_result (decl_type (info n)) n)))"

definition gen_string_literal :: "ASTNode \<Rightarrow> ASTNode cg" where
  "gen_string_literal n = into (pool_string n) (\<lambda>idx.
     first (ins (''lea rax, '' @ sym (''Lstr'' @ show_int idx))) (points_to (Some type_char) n))"

text \<open>
  A variable: an array decays to its address, a floating value goes to \<^verbatim>\<open>xmm0\<close>, the rest is loaded
  with the width of its slot.
\<close>

definition load_fp :: "string \<Rightarrow> TypeKind \<Rightarrow> unit cg" where
  "load_fp place k = ins (fp_mov k @ ''xmm0, '' @ place)"

definition gen_variable :: "view \<Rightarrow> string \<Rightarrow> int \<Rightarrow> bool \<Rightarrow> ASTNode \<Rightarrow> ASTNode cg" where
  "gen_variable v place sz uns n = on_cg (\<lambda>s.
     if fst v = TYPE_ARRAY
     then into (need (snd v)) (\<lambda>t. first (ins (''lea rax, '' @ place)) (points_to (ty_base (node_of s t)) n))
     else if type_is_fp (fst v) then first (load_fp place (fst v)) (give (set_result (fst v) n))
     else first (ins (load_text place sz uns))
       (give (if fst v = TYPE_POINTER then set_pointer (snd v) n
              else set_unsigned uns (set_result (promote_kind (type_kind_from_size sz)) n))))"

definition gen_function_name :: "ASTNode \<Rightarrow> ASTNode cg" where
  "gen_function_name n = on_cg (\<lambda>s.
     case codegen_find_function_decl s (name_of n) of
       Some f \<Rightarrow> first (ins (''lea rax, '' @ sym (name_of n)))
         (into (build_func_designator_type f) (\<lambda>t. give (set_pointer (Some t) n)))
     | None \<Rightarrow> refuse (''undeclared variable '' @ quoted (name_of n)))"

definition gen_var_ref :: "ASTNode \<Rightarrow> ASTNode cg" where
  "gen_var_ref n = into (find_var_of n) (\<lambda>lv. case lv of
     Some v \<Rightarrow> gen_variable (lv_view v) (lv_place v) (lv_size v) (lv_is_unsigned v) n
   | None \<Rightarrow> into (find_global_of n) (\<lambda>gv. case gv of
       Some g \<Rightarrow> gen_variable (gv_view g) (sym (gv_name g)) (gv_size g) (gv_is_unsigned g) n
     | None \<Rightarrow> gen_function_name n))"

subsection \<open>Bit-fields\<close>

text \<open>The masks are \<^verbatim>\<open>unsigned long\<close>s, cut to 32 bits.\<close>

definition field_mask :: "StructField \<Rightarrow> int" where
  "field_mask f = (if bit_width f \<ge> 32 then 2 ^ 32 - 1 else 2 ^ nat (bit_width f) - 1)"

definition clear_mask :: "StructField \<Rightarrow> int" where
  "clear_mask f = 2 ^ 32 - 1 - (field_mask f * 2 ^ nat (bit_offset f)) mod 2 ^ 32"

definition extract_field :: "StructField \<Rightarrow> unit cg" where
  "extract_field f =
     first (cg_when (bit_offset f > 0) (ins (''shr eax, '' @ show_int (bit_offset f))))
       (cg_when (bit_width f < 32) (ins (''and eax, '' @ show_int (field_mask f))))"

definition store_bitfield :: "cg_knot \<Rightarrow> StructField \<Rightarrow> ASTNode \<Rightarrow> ASTNode cg" where
  "store_bitfield K f n =
     first push_rax
       (into (eval_kid K 1 n) (\<lambda>(_, n).
         first (cg_when (bit_width f < 32) (ins (''and eax, '' @ show_int (field_mask f))))
         (first (cg_when (bit_offset f > 0) (ins (''shl eax, '' @ show_int (bit_offset f))))
         (first (ins ''mov ecx, eax'')
         (first (pop_reg ''rbx'')
         (first (inss [''mov eax, [rbx]'', ''and eax, '' @ show_int (clear_mask f), ''or eax, ecx'', ''mov [rbx], eax''])
         (first (extract_field f)
           (give (set_result TYPE_INT n)))))))))"

subsection \<open>Assignment\<close>

text \<open>The right-hand side is child 1; the address of the object is in \<^verbatim>\<open>rax\<close>, saved over its evaluation.\<close>

definition copy_struct_value :: "cg_knot \<Rightarrow> int \<Rightarrow> ASTNode \<Rightarrow> (type_ptr option \<times> ASTNode) cg" where
  "copy_struct_value K sz n =
     first push_rax
       (into (kid 1 n) (\<lambda>c. into (emit_struct_addr K c) (\<lambda>(st, c).
         first (ins ''mov rsi, rax'') (first (pop_reg ''rdi'') (first (emit_struct_copy sz) (give (st, set_kid 1 c n)))))))"

definition store_fp_value :: "cg_knot \<Rightarrow> TypeKind \<Rightarrow> ASTNode \<Rightarrow> ASTNode cg" where
  "store_fp_value K k n =
     first push_rax
       (into (eval_kid K 1 n) (\<lambda>(rhs, n).
         first (emit_fp_widen_if_needed (result_type (info rhs)) k)
         (first (pop_reg ''rbx'')
         (first (ins (fp_mov k @ ''[rbx], xmm0''))
           (give (set_result k n))))))"

text \<open>A pointer element takes the null pointer constant or an assignable pointer.\<close>

definition check_pointer_element :: "type_ptr \<Rightarrow> ASTNode \<Rightarrow> unit cg" where
  "check_pointer_element e rhs = on_cg (\<lambda>s.
     if ty_kind (node_of s e) \<noteq> TYPE_POINTER \<or> is_null_pointer_constant rhs then skip
     else if result_type (info rhs) \<noteq> TYPE_POINTER then refuse ''assigning nonzero integer to pointer''
     else into (compare (\<lambda>h. pointer_types_assignable h (Some e) (full_type (info rhs)))) (\<lambda>b.
       require b ''incompatible pointer type in array element assignment''))"

definition set_object :: "CodeGen \<Rightarrow> type_ptr \<Rightarrow> ASTNode \<Rightarrow> ASTNode" where
  "set_object s t n =
     (let k = ty_kind (node_of s t) in
      if k = TYPE_POINTER then set_full (Some t) (set_result k n) else set_result k n)"

definition const_pointee :: "string" where
  "const_pointee = ''assignment through pointer to const-qualified type''"

definition assign_element :: "cg_knot \<Rightarrow> ASTNode \<Rightarrow> ASTNode cg" where
  "assign_element K n = into (kid 0 n) (\<lambda>lhs. into (k_index K lhs) (\<lambda>(et, lhs). into (need et) (\<lambda>e. on_cg (\<lambda>s.
     let n = set_kid 0 lhs n; t = node_of s e; k = ty_kind t in
     first (require (\<not> ty_const t) const_pointee)
       (if is_struct_or_union_kind k then
          first push_rax
            (into (kid 1 n) (\<lambda>c. into (emit_struct_addr K c) (\<lambda>(st, c).
              first (require (st \<noteq> None) ''cannot assign non-struct/union to struct/union array element'')
              (first (ins ''mov rsi, rax'') (first (pop_reg ''rdi'') (first (emit_struct_copy (ty_size t))
                (give (set_full (Some e) (set_result k (set_kid 1 c n))))))))))
        else if type_is_fp k then store_fp_value K k n
        else first push_rax
          (into (eval_kid K 1 n) (\<lambda>(rhs, n).
            first (check_pointer_element e rhs)
            (first (emit_convert (result_type (info rhs)) k)
            (first (pop_reg ''rbx'')
            (first (store_at ''[rbx]'' (ty_size t) True)
              (give (set_object s e n)))))))))))) "

text \<open>Both forms of member access continue the same way once the address is there.\<close>

definition assign_field :: "cg_knot \<Rightarrow> StructField \<Rightarrow> ASTNode \<Rightarrow> ASTNode cg" where
  "assign_field K f n = on_cg (\<lambda>s.
     let k = fld_kind f; sz = field_width (cg_types s) f in
     if is_bitfield f then store_bitfield K f n
     else if is_struct_or_union_kind k then
       into (copy_struct_value K sz n) (\<lambda>(_, n). give (set_full (fld_full_type f) (set_result k n)))
     else if type_is_fp k then store_fp_value K k n
     else first push_rax
       (into (eval_kid K 1 n) (\<lambda>(_, n).
         first (pop_reg ''rbx'')
         (first (store_at ''[rbx]'' sz True)
           (give (set_result (if k = TYPE_POINTER then TYPE_POINTER else promote_kind k) n))))))"

definition const_object :: "string" where
  "const_object = ''assignment to member of const object''"

definition assign_member :: "cg_knot \<Rightarrow> ASTNode \<Rightarrow> ASTNode cg" where
  "assign_member K n = into (kid 0 n) (\<lambda>lhs. into (k_member K lhs) (\<lambda>(f, lhs).
     first (require (\<not> fld_is_const f) (''assignment to const member '' @ quoted (name_of lhs)))
       (into (member_base_is_const lhs) (\<lambda>c. first (require (\<not> c) const_object) (assign_field K f (set_kid 0 lhs n))))))"

definition pointee_is_const :: "type_heap \<Rightarrow> view \<Rightarrow> bool" where
  "pointee_is_const h v = (case pointee_of h v of None \<Rightarrow> False | Some b \<Rightarrow> ty_const (h ! b))"

definition arrow_base_is_const :: "ASTNode \<Rightarrow> bool cg" where
  "arrow_base_is_const lhs =
     (case children lhs of
        Some b # _ \<Rightarrow>
          if node_type b = AST_VAR_REF then
            into (find_var_of b) (\<lambda>lv. case lv of
              Some v \<Rightarrow> look (\<lambda>s. pointee_is_const (cg_types s) (lv_view v))
            | None \<Rightarrow> into (find_global_of b) (\<lambda>gv. look (\<lambda>s.
                case gv of Some g \<Rightarrow> pointee_is_const (cg_types s) (gv_view g) | None \<Rightarrow> False)))
          else give False
      | _ \<Rightarrow> give False)"

definition assign_arrow :: "cg_knot \<Rightarrow> ASTNode \<Rightarrow> ASTNode cg" where
  "assign_arrow K n = into (kid 0 n) (\<lambda>lhs. into (k_arrow K lhs) (\<lambda>(f, lhs).
     first (require (\<not> fld_is_const f) (''assignment to const member '' @ quoted (name_of lhs)))
       (into (arrow_base_is_const lhs) (\<lambda>c. first (require (\<not> c) const_object) (assign_field K f (set_kid 0 lhs n))))))"

definition assign_deref :: "cg_knot \<Rightarrow> ASTNode \<Rightarrow> ASTNode cg" where
  "assign_deref K n = into (kid 0 n) (\<lambda>deref. into (eval_kid K 0 deref) (\<lambda>(p, deref). on_cg (\<lambda>s.
     let n = set_kid 0 deref n; ft = full_type (info p) in
     first (require (kind_at s ft = Some TYPE_POINTER) ''cannot dereference non-pointer value'')
       (into (need (base_at s ft)) (\<lambda>b.
         let t = node_of s b; k = ty_kind t in
         first (require (\<not> ty_const t) const_pointee)
           (if is_struct_or_union_kind k then
              into (copy_struct_value K (ty_size t) n) (\<lambda>(_, n). give (set_full (Some b) (set_result k n)))
            else first push_rax
              (into (eval_kid K 1 n) (\<lambda>(rhs, n).
                first (emit_convert (result_type (info rhs)) k)
                (first (pop_reg ''rbx'')
                (first (store_at ''[rbx]'' (ty_size t) True)
                  (give (set_object s b n))))))))))))"

text \<open>A named structure: byte by byte from another local, or a block copy from an address.\<close>

definition copy_bytes :: "int \<Rightarrow> int \<Rightarrow> int \<Rightarrow> unit cg" where
  "copy_bytes src dst sz =
     inss (concat (map (\<lambda>b. [''movzx eax, byte '' @ slot (src - int b), ''mov '' @ slot (dst - int b) @ '', al''])
       [0..<nat sz]))"

definition local_of_ref :: "ASTNode \<Rightarrow> LocalVar option cg" where
  "local_of_ref n = (if node_type n = AST_VAR_REF then find_var_of n else give None)"

definition assign_struct_local :: "cg_knot \<Rightarrow> LocalVar \<Rightarrow> type_ptr \<Rightarrow> ASTNode \<Rightarrow> ASTNode cg" where
  "assign_struct_local K v t n =
     (let kn = type_kind_name (lv_kind v) in
      first (require (children n \<noteq> []) (kn @ '' assignment requires a '' @ kn @ '' value''))
        (into (kid 0 n) (\<lambda>rhs. into (local_of_ref rhs) (\<lambda>src. on_cg (\<lambda>s.
           let sz = ty_size (node_of s t);
               different = ''incompatible '' @ kn @ '' types in assignment to '' @ quoted (lv_name v) in
           into
             (case src of
                Some w \<Rightarrow>
                  first (require (lv_kind w = lv_kind v \<and> lv_full_type w \<noteq> None)
                      (''cannot assign non-'' @ kn @ '' to '' @ kn @ '' '' @ quoted (lv_name v)))
                  (first (require (lv_full_type w = Some t) different)
                  (first (copy_bytes (lv_offset w) (lv_offset v) sz)
                    (give n)))
              | None \<Rightarrow> into (emit_struct_addr K rhs) (\<lambda>(st, rhs).
                  first (require (st = Some t) different)
                  (first (inss [''mov rsi, rax'', ''lea rdi, '' @ slot (lv_offset v)])
                  (first (emit_struct_copy sz)
                    (give (set_kid 0 rhs n))))))
             (\<lambda>n. give (set_full (Some t) (set_result (lv_kind v) n))))))))"

text \<open>The tests on a pointer that is assigned: a function pointer must match, a lost \<^verbatim>\<open>const\<close> is reported.\<close>

definition check_function_pointer :: "view \<Rightarrow> string \<Rightarrow> ASTNode \<Rightarrow> unit cg" where
  "check_function_pointer v name rhs = on_cg (\<lambda>s.
     let h = cg_types s; b = pointee_of h v; rt = full_type (info rhs) in
     if kind_at s b = Some TYPE_FUNCTION
     then require (kind_at s rt = Some TYPE_POINTER \<and> kind_at s (base_at s rt) = Some TYPE_FUNCTION \<and>
            func_ptr_types_equal_cg h (snd v) rt)
          (''incompatible function pointer type in assignment to '' @ quoted name)
     else skip)"

definition warn_lost_const :: "view \<Rightarrow> string \<Rightarrow> ASTNode \<Rightarrow> unit cg" where
  "warn_lost_const v name rhs = on_cg (\<lambda>s.
     let h = cg_types s; rt = full_type (info rhs) in
     case (pointee_of h v, base_at s rt) of
       (Some b, Some r) \<Rightarrow>
         cg_when (\<not> is_null_pointer_constant rhs \<and> kind_at s rt = Some TYPE_POINTER \<and> ty_const (h ! r) \<and> \<not> ty_const (h ! b))
           (codegen_warn_const_discard ''assignment to'' name)
     | _ \<Rightarrow> skip)"

text \<open>A named scalar, local or not; \<open>place\<close> is its operand.\<close>

definition assign_scalar :: "cg_knot \<Rightarrow> view \<Rightarrow> string \<Rightarrow> int \<Rightarrow> string \<Rightarrow> ASTNode \<Rightarrow> ASTNode cg" where
  "assign_scalar K v place sz name n =
     (if type_is_fp (fst v) then
        into (eval_kid K 0 n) (\<lambda>(rhs, n).
          first (emit_fp_widen_if_needed (result_type (info rhs)) (fst v))
          (first (ins (fp_mov (fst v) @ place @ '', xmm0''))
            (give (set_result (fst v) n))))
      else into (kid 0 n) (\<lambda>rhs0.
        first (require (\<not> (node_type rhs0 = AST_FUNCTION_CALL \<and> decl_type (info rhs0) = TYPE_VOID))
            (''cannot use void function result in assignment to '' @ quoted name))
          (into (eval_kid K 0 n) (\<lambda>(rhs, n).
            let rl = wide_kind (result_type (info rhs)) in
            first (check_function_pointer v name rhs)
            (first (warn_lost_const v name rhs)
            (first (cg_when (fst v = TYPE_BOOL) (emit_bool_normalize rl))
            (first (store_at place sz rl)
              (give (if fst v = TYPE_POINTER then set_pointer (snd v) n
                     else set_result (type_kind_from_size sz) n)))))))))"

definition assign_local :: "cg_knot \<Rightarrow> LocalVar \<Rightarrow> ASTNode \<Rightarrow> ASTNode cg" where
  "assign_local K v n =
     first (require (lv_kind v \<noteq> TYPE_ARRAY) ''arrays are not assignable'')
     (first (require (\<not> lv_is_const v) (''assignment to const variable '' @ quoted (lv_name v)))
       (on_cg (\<lambda>s. case struct_of (cg_types s) (lv_view v) of
          Some t \<Rightarrow> assign_struct_local K v t n
        | None \<Rightarrow> assign_scalar K (lv_view v) (lv_place v) (lv_size v) (lv_name v) n)))"

definition assign_global :: "cg_knot \<Rightarrow> GlobalVar \<Rightarrow> ASTNode \<Rightarrow> ASTNode cg" where
  "assign_global K g n =
     first (require (gv_kind g \<noteq> TYPE_ARRAY) ''arrays are not assignable'')
     (first (require (\<not> gv_is_const g) (''assignment to const variable '' @ quoted (gv_name g)))
       (assign_scalar K (gv_view g) (sym (gv_name g)) (gv_size g) (gv_name g) n))"

definition assign_variable :: "cg_knot \<Rightarrow> ASTNode \<Rightarrow> ASTNode cg" where
  "assign_variable K n = into (find_var_of n) (\<lambda>lv. case lv of
     Some v \<Rightarrow> assign_local K v n
   | None \<Rightarrow> into (find_global_of n) (\<lambda>gv. case gv of
       Some g \<Rightarrow> assign_global K g n
     | None \<Rightarrow> refuse (''undeclared variable '' @ quoted (name_of n))))"

definition gen_assignment :: "cg_knot \<Rightarrow> ASTNode \<Rightarrow> ASTNode cg" where
  "gen_assignment K n =
     (if child_count n \<noteq> 2 then assign_variable K n
      else into (kid 0 n) (\<lambda>lhs.
        case node_type lhs of
          AST_ARRAY_INDEX \<Rightarrow> assign_element K n
        | AST_MEMBER_ACCESS \<Rightarrow> assign_member K n
        | AST_ARROW_ACCESS \<Rightarrow> assign_arrow K n
        | AST_DEREF \<Rightarrow> assign_deref K n
        | _ \<Rightarrow> assign_variable K n))"

subsection \<open>Addresses and reads\<close>

definition addr_of_literal :: "cg_knot \<Rightarrow> ASTNode \<Rightarrow> ASTNode cg" where
  "addr_of_literal K n = into (eval_kid K 0 n) (\<lambda>(operand, n). on_cg (\<lambda>s.
     let k = decl_type (info operand); ft = full_type (info operand) in
     if is_struct_or_union_kind k \<or> k = TYPE_ARRAY
     then points_to (case ft of None \<Rightarrow> Some type_int | Some _ \<Rightarrow> base_at s ft) n
     else first (ins (''lea rax, '' @ slot (byte_length (info operand))))
       (points_to (case ft of None \<Rightarrow> Some (type_from_kind k) | Some t \<Rightarrow> Some t) n)))"

definition addr_of_name :: "ASTNode \<Rightarrow> ASTNode \<Rightarrow> ASTNode cg" where
  "addr_of_name operand n = into (find_var_of operand) (\<lambda>lv. case lv of
     Some v \<Rightarrow>
       first (require (\<not> lv_is_register v) (''cannot take address of register variable '' @ quoted (lv_name v)))
       (first (ins (''lea rax, '' @ lv_place v))
         (into (local_var_type v) (\<lambda>t. points_to t n)))
   | None \<Rightarrow> into (find_global_of operand) (\<lambda>gv. case gv of
       Some g \<Rightarrow> first (ins (''lea rax, '' @ sym (gv_name g))) (into (global_var_type g) (\<lambda>t. points_to t n))
     | None \<Rightarrow> refuse (''undeclared variable '' @ quoted (name_of operand))))"

definition gen_addr_of :: "cg_knot \<Rightarrow> ASTNode \<Rightarrow> ASTNode cg" where
  "gen_addr_of K n = into (kid 0 n) (\<lambda>operand.
     case node_type operand of
       AST_ARRAY_INDEX \<Rightarrow> into (k_index K operand) (\<lambda>(e, c). points_to e (set_kid 0 c n))
     | AST_COMPOUND_LITERAL \<Rightarrow> addr_of_literal K n
     | AST_MEMBER_ACCESS \<Rightarrow> into (k_member K operand) (\<lambda>(f, c). points_to (Some (struct_field_type f)) (set_kid 0 c n))
     | AST_ARROW_ACCESS \<Rightarrow> into (k_arrow K operand) (\<lambda>(f, c). points_to (Some (struct_field_type f)) (set_kid 0 c n))
     | _ \<Rightarrow> addr_of_name operand n)"

definition gen_deref :: "cg_knot \<Rightarrow> ASTNode \<Rightarrow> ASTNode cg" where
  "gen_deref K n = into (eval_kid K 0 n) (\<lambda>(p, n). on_cg (\<lambda>s.
     let ft = full_type (info p) in
     first (require (kind_at s ft = Some TYPE_POINTER) ''cannot dereference non-pointer value'')
       (into (need (base_at s ft)) (\<lambda>b.
         let k = ty_kind (node_of s b) in
         first (require (k \<noteq> TYPE_VOID) ''cannot dereference void pointer'')
           (if k = TYPE_FUNCTION then give (set_pointer ft n)
            else first (ins (load_text ''[rax]'' (ty_size (node_of s b)) False)) (give (set_object s b n)))))))"

definition gen_array_index :: "cg_knot \<Rightarrow> ASTNode \<Rightarrow> ASTNode cg" where
  "gen_array_index K n = into (emit_array_index_addr K n) (\<lambda>(et, n). into (need et) (\<lambda>e. on_cg (\<lambda>s.
     let t = node_of s e; k = ty_kind t in
     if k = TYPE_ARRAY then points_to (ty_base t) n
     else if type_is_fp k then first (load_fp ''[rax]'' k) (give (set_result k n))
     else first (ins (load_text ''[rax]'' (ty_size t) False)) (give (set_object s e n)))))"

text \<open>Both forms of member access read the member the same way.\<close>

definition read_field :: "StructField \<Rightarrow> ASTNode \<Rightarrow> ASTNode cg" where
  "read_field f n = on_cg (\<lambda>s.
     let k = fld_kind f in
     if is_bitfield f then first (ins ''mov eax, [rax]'') (first (extract_field f) (give (set_result TYPE_INT n)))
     else if k = TYPE_ARRAY \<and> base_at s (fld_full_type f) \<noteq> None then points_to (base_at s (fld_full_type f)) n
     else if type_is_fp k then first (load_fp ''[rax]'' k) (give (set_result k n))
     else first (ins (load_text ''[rax]'' (field_width (cg_types s) f) False))
       (give (if k = TYPE_POINTER then set_pointer (fld_full_type f) n else set_result (promote_kind k) n)))"

definition gen_member :: "cg_knot \<Rightarrow> ASTNode \<Rightarrow> ASTNode cg" where
  "gen_member K n = into (emit_member_addr K n) (\<lambda>(f, n). read_field f n)"

definition gen_arrow :: "cg_knot \<Rightarrow> ASTNode \<Rightarrow> ASTNode cg" where
  "gen_arrow K n = into (emit_arrow_addr K n) (\<lambda>(f, n). read_field f n)"

subsection \<open>\<^verbatim>\<open>sizeof\<close>\<close>

definition gen_size :: "int \<Rightarrow> ASTNode \<Rightarrow> ASTNode cg" where
  "gen_size sz n = first (ins (''mov rax, '' @ show_int sz)) (give (set_unsigned True (set_result TYPE_LONG n)))"

text \<open>The widths of the two switches: neither knows \<^verbatim>\<open>double\<close>, and only the first knows \<^verbatim>\<open>_Bool\<close>.\<close>

definition sizeof_width :: "TypeKind \<Rightarrow> int" where
  "sizeof_width k =
     (if k = TYPE_CHAR then 1 else if k = TYPE_SHORT then 2 else if long_kind k \<or> k = TYPE_POINTER then 8 else 4)"

definition gen_sizeof_type :: "ASTNode \<Rightarrow> ASTNode cg" where
  "gen_sizeof_type n = on_cg (\<lambda>s.
     let k = decl_type (info n); sk = is_struct_or_union_kind k in
     case full_type (info n) of
       Some t \<Rightarrow>
         if sk \<or> k = TYPE_ARRAY
         then first (require (\<not> (sk \<and> ty_size (node_of s t) = 0)) (''sizeof applied to incomplete '' @ type_kind_name k @ '' type''))
                (gen_size (ty_size (node_of s t)) n)
         else gen_size (if k = TYPE_BOOL then 1 else sizeof_width k) n
     | None \<Rightarrow> gen_size (if k = TYPE_BOOL then 1 else sizeof_width k) n)"

text \<open>The attempts of \<^verbatim>\<open>sizeof\<close> on an expression, in their order; the first that knows a size decides.\<close>

definition type_bytes :: "type_ptr option \<Rightarrow> int option cg" where
  "type_bytes t = look (\<lambda>s. map_option (\<lambda>p. ty_size (node_of s p)) t)"

definition aggregate_of :: "type_heap \<Rightarrow> view \<Rightarrow> type_ptr option" where
  "aggregate_of h v = (if fst v = TYPE_ARRAY \<or> is_struct_or_union_kind (fst v) then snd v else None)"

definition aggregate_field :: "ASTNode \<Rightarrow> type_ptr option \<Rightarrow> int option cg" where
  "aggregate_field n st = into (opt_field_of n st) (\<lambda>f. case f of
     None \<Rightarrow> give None
   | Some fd \<Rightarrow> into (look (\<lambda>s. aggregate_of (cg_types s) (fld_kind fd, fld_full_type fd))) type_bytes)"

definition kid_of_type :: "nat \<Rightarrow> ASTNodeType \<Rightarrow> ASTNode \<Rightarrow> ASTNode option cg" where
  "kid_of_type i ty n =
     (if i < child_count n then into (kid i n) (\<lambda>c. give (if node_type c = ty then Some c else None)) else give None)"

definition sizeof_name :: "ASTNode \<Rightarrow> int option cg" where
  "sizeof_name c = (if node_type c = AST_VAR_REF then into (from_visible aggregate_of c) type_bytes else give None)"

definition sizeof_string :: "ASTNode \<Rightarrow> int option cg" where
  "sizeof_string c = give (if node_type c = AST_STRING_LITERAL then Some (int (length (c_text (name_of c))) + 1) else None)"

definition sizeof_subscript :: "ASTNode \<Rightarrow> int option cg" where
  "sizeof_subscript c =
     (if node_type c = AST_ARRAY_INDEX then into (get_subscript_element_type c) type_bytes else give None)"

definition sizeof_arrow_field :: "ASTNode \<Rightarrow> int option cg" where
  "sizeof_arrow_field c =
     (if node_type c \<noteq> AST_ARROW_ACCESS then give None
      else into (kid_of_type 0 AST_VAR_REF c) (\<lambda>b. case b of
        None \<Rightarrow> give None | Some p \<Rightarrow> into (from_local pointee_of p) (aggregate_field c)))"

definition sizeof_dot_field :: "ASTNode \<Rightarrow> int option cg" where
  "sizeof_dot_field c =
     (if node_type c \<noteq> AST_MEMBER_ACCESS then give None
      else into (kid_of_type 0 AST_VAR_REF c) (\<lambda>b. case b of
        None \<Rightarrow> give None | Some p \<Rightarrow> into (from_local struct_of p) (aggregate_field c)))"

definition sizeof_element_field :: "ASTNode \<Rightarrow> int option cg" where
  "sizeof_element_field c =
     (if node_type c \<noteq> AST_MEMBER_ACCESS then give None
      else into (kid_of_type 0 AST_ARRAY_INDEX c) (\<lambda>b. case b of
        None \<Rightarrow> give None
      | Some a \<Rightarrow> into (kid_of_type 0 AST_VAR_REF a) (\<lambda>v. case v of
          None \<Rightarrow> give None
        | Some p \<Rightarrow> into (from_local (\<lambda>h v. if_struct h (element_of h v)) p) (aggregate_field c))))"

definition sizeof_cast_field :: "ASTNode \<Rightarrow> int option cg" where
  "sizeof_cast_field c =
     (if node_type c \<noteq> AST_ARROW_ACCESS \<or> children c = [] then give None
      else into (kid 0 c) (\<lambda>b. on_cg (\<lambda>s.
        if kind_at s (full_type (info b)) \<noteq> Some TYPE_POINTER then give None
        else into (opt_field_of c (base_at s (full_type (info b)))) (\<lambda>f. give
          (case f of
             None \<Rightarrow> None
           | Some fd \<Rightarrow> Some
               (case fld_full_type fd of
                  Some t \<Rightarrow> ty_size (node_of s t)
                | None \<Rightarrow>
                    if fld_kind fd = TYPE_POINTER \<or> long_kind (fld_kind fd) \<or> fld_kind fd = TYPE_DOUBLE then 8
                    else if fld_kind fd = TYPE_SHORT then 2
                    else if fld_kind fd = TYPE_CHAR \<or> fld_kind fd = TYPE_BOOL then 1 else 4))))))"

fun first_size :: "int option cg list \<Rightarrow> int cg \<Rightarrow> int cg" where
  "first_size [] d = d"
| "first_size (m # ms) d = into m (\<lambda>r. case r of Some sz \<Rightarrow> give sz | None \<Rightarrow> first_size ms d)"

definition gen_sizeof_expr :: "ASTNode \<Rightarrow> ASTNode cg" where
  "gen_sizeof_expr n = into (kid 0 n) (\<lambda>c.
     into (first_size [sizeof_name c, sizeof_string c, sizeof_subscript c, sizeof_arrow_field c, sizeof_dot_field c,
             sizeof_element_field c, sizeof_cast_field c]
            (into (sizeof_type_of_expr c) (\<lambda>k. give (sizeof_width k))))
       (\<lambda>sz. gen_size sz n))"

end
