(* ===== verification/Codegen_Call.thy ===== *)
theory Codegen_Call
  imports Codegen_Assign
begin

section \<open>Calls: \<^verbatim>\<open>src/codegen.c\<close> lines 3860 to 4383\<close>

text \<open>
  A call evaluates its arguments, converts each to its parameter, puts them where the layout says and
  keeps the stack aligned. The tree is passed along, since every argument is annotated in its place.
\<close>

fun thread :: "('a \<Rightarrow> 'b \<Rightarrow> 'b cg) \<Rightarrow> 'a list \<Rightarrow> 'b \<Rightarrow> 'b cg" where
  "thread f [] b = give b"
| "thread f (x # xs) b = into (f x b) (thread f xs)"

definition add_depth :: "int \<Rightarrow> unit cg" where
  "add_depth d = upd (\<lambda>s. s\<lparr>push_depth := push_depth s + d\<rparr>)"

subsection \<open>Direct calls\<close>

text \<open>The parameter that belongs to argument \<open>i\<close>, if there is one.\<close>

definition param_of :: "ASTNode option \<Rightarrow> nat \<Rightarrow> ASTNode option cg" where
  "param_of callee i =
     (case callee of
        None \<Rightarrow> give None
      | Some c \<Rightarrow>
          if i < child_count c then into (kid i c) (\<lambda>p. give (if node_type p = AST_PARAM then Some p else None))
          else give None)"

definition param_error :: "ASTNode \<Rightarrow> ASTNode \<Rightarrow> string \<Rightarrow> string" where
  "param_error call p msg = ''function '' @ quoted (name_of call) @ '' parameter '' @ quoted (name_of p) @ msg"

text \<open>\<^verbatim>\<open>EMIT_ARG_CONVERT\<close>.\<close>

definition convert_to_param :: "ASTNode \<Rightarrow> ASTNode \<Rightarrow> ASTNode \<Rightarrow> unit cg" where
  "convert_to_param call p arg =
     (let src = result_type (info arg); dst = decl_type (info p); null = is_null_pointer_constant arg in
      if dst = TYPE_POINTER \<or> src = TYPE_POINTER then
        first (require (dst = TYPE_POINTER) (param_error call p '' expected integer argument, got pointer''))
        (first (require (src = TYPE_POINTER \<or> null) (param_error call p '' expected pointer argument, got integer''))
          (if null then skip
           else into (compare (\<lambda>h. pointer_types_assignable h (full_type (info p)) (full_type (info arg)))) (\<lambda>b.
             require b (param_error call p '' has incompatible pointer type''))))
      else emit_convert src dst)"

definition convert_arg :: "ASTNode option \<Rightarrow> nat \<Rightarrow> ASTNode \<Rightarrow> unit cg" where
  "convert_arg callee i n = into (param_of callee i) (\<lambda>p. case p of
     None \<Rightarrow> skip
   | Some q \<Rightarrow> into (kid i n) (convert_to_param n q))"

definition eval_arg :: "cg_knot \<Rightarrow> ASTNode option \<Rightarrow> nat \<Rightarrow> ASTNode \<Rightarrow> ASTNode cg" where
  "eval_arg K callee i n = into (eval_kid K i n) (\<lambda>(_, n). first (convert_arg callee i n) (give n))"

definition push_arg :: "cg_knot \<Rightarrow> ASTNode option \<Rightarrow> nat \<Rightarrow> ASTNode \<Rightarrow> ASTNode cg" where
  "push_arg K callee i n = into (eval_arg K callee i n) (\<lambda>n. first push_rax (give n))"

definition pop_args :: "nat \<Rightarrow> unit cg" where
  "pop_args k = all_in_turn (\<lambda>i. pop_reg (arg_regs ! i)) (rev [0..<k])"

text \<open>Is a structure or a floating value involved? Asking an argument for its type annotates it.\<close>

definition special_kind :: "TypeKind \<Rightarrow> bool" where
  "special_kind k \<longleftrightarrow> is_struct_or_union_kind k \<or> type_is_fp k"

definition special_callee :: "ASTNode option \<Rightarrow> nat \<Rightarrow> bool" where
  "special_callee callee nargs =
     (case callee of
        None \<Rightarrow> False
      | Some c \<Rightarrow> special_kind (decl_type (info c)) \<or>
          list_ex (\<lambda>p. case p of Some q \<Rightarrow> special_kind (decl_type (info q)) | None \<Rightarrow> False)
            (take nargs (take (count_params callee) (children c))))"

text \<open>The type of child \<open>i\<close>; a null child has type \<^verbatim>\<open>int\<close>.\<close>

definition kid_type :: "nat \<Rightarrow> ASTNode \<Rightarrow> typing cg" where
  "kid_type i n = typed_kid (map (map_option expr_result_type) (children n)) i n"

fun special_args :: "nat list \<Rightarrow> ASTNode \<Rightarrow> (bool \<times> ASTNode) cg" where
  "special_args [] n = give (False, n)"
| "special_args (i # is) n = into (kid_type i n) (\<lambda>(k, n).
     if special_kind k then give (True, n) else special_args is n)"

text \<open>The array of the argument kinds has 26 entries, filled before their number is checked.\<close>

definition ACTUAL_TYPES :: nat where
  "ACTUAL_TYPES = 26"

fun actual_kinds :: "nat list \<Rightarrow> ASTNode \<Rightarrow> (TypeKind list \<times> ASTNode) cg" where
  "actual_kinds [] n = give ([], n)"
| "actual_kinds (i # is) n =
     (if i \<ge> ACTUAL_TYPES then halt BadAccess
      else into (kid_type i n) (\<lambda>(k, n). into (actual_kinds is n) (\<lambda>(ks, n). give (k # ks, n))))"

text \<open>The area for the stack arguments, and a padding to 16 bytes.\<close>

definition open_region :: "int \<Rightarrow> int cg" where
  "open_region bytes = on_cg (\<lambda>s.
     let r = align_up bytes 8; region = (if (push_depth s * 8 + r) mod 16 \<noteq> 0 then r + 8 else r) in
     first (cg_when (region > 0) (first (ins (''sub rsp, '' @ show_int region)) (add_depth (region div 8))))
       (give region))"

text \<open>A \<^verbatim>\<open>float\<close> without a parameter is passed as a \<^verbatim>\<open>double\<close>.\<close>

definition widens_float :: "ASTNode option \<Rightarrow> TypeKind \<Rightarrow> bool" where
  "widens_float callee k \<longleftrightarrow> k = TYPE_FLOAT \<and>
     (case callee of None \<Rightarrow> False | Some c \<Rightarrow> is_variadic (info c) \<or> is_no_prototype (info c))"

definition rsp_at :: "int \<Rightarrow> string" where
  "rsp_at off = ''[rsp + '' @ show_int off @ '']''"

definition stack_arg :: "cg_knot \<Rightarrow> ASTNode option \<Rightarrow> TypeKind list \<Rightarrow> nat \<times> ArgSlot \<Rightarrow> ASTNode \<Rightarrow> ASTNode cg" where
  "stack_arg K callee ks is n =
     (case is of (i, a) \<Rightarrow>
        if \<not> slot_mem a then give n
        else if slot_is_struct a then
          into (kid i n) (\<lambda>c. into (emit_struct_addr K c) (\<lambda>(st, c). on_cg (\<lambda>s.
            first (inss [''mov rsi, rax'', ''lea rdi, '' @ rsp_at (slot_stack_off a)])
            (first (emit_struct_copy (case st of Some t \<Rightarrow> ty_size (node_of s t) | None \<Rightarrow> slot_nbytes a))
              (give (set_kid i c n))))))
        else into (eval_arg K callee i n) (\<lambda>n.
          first
            (if slot_is_fp a then
               if widens_float callee (ks ! i)
               then inss [''cvtss2sd xmm0, xmm0'', ''movsd '' @ rsp_at (slot_stack_off a) @ '', xmm0'']
               else ins ((if slot_nbytes a = 4 then ''movss '' else ''movsd '') @ rsp_at (slot_stack_off a) @ '', xmm0'')
             else ins (''mov '' @ rsp_at (slot_stack_off a) @ '', rax''))
            (give n)))"

text \<open>A register argument is spilled first; the record says to which register it will be loaded.\<close>

record spill =
  spill_is_xmm :: bool
  spill_reg :: int
  spill_is_float :: bool

definition gp_spill :: "int \<Rightarrow> spill" where
  "gp_spill r = \<lparr>spill_is_xmm = False, spill_reg = r, spill_is_float = False\<rparr>"

definition spill_xmm :: "int \<Rightarrow> unit cg" where
  "spill_xmm nbytes =
     first (ins ''sub rsp, 8'') (first (add_depth 1) (ins (if nbytes = 4 then ''movss [rsp], xmm0'' else ''movsd [rsp], xmm0'')))"

definition reg_arg ::
  "cg_knot \<Rightarrow> ASTNode option \<Rightarrow> TypeKind list \<Rightarrow> nat \<times> ArgSlot \<Rightarrow> spill list \<times> ASTNode \<Rightarrow> (spill list \<times> ASTNode) cg" where
  "reg_arg K callee ks is acc =
     (case (is, acc) of ((i, a), (sp, n)) \<Rightarrow>
        if slot_mem a then give (sp, n)
        else if slot_is_struct a then
          into (kid i n) (\<lambda>c. into (emit_struct_addr K c) (\<lambda>(_, c).
            first (inss [''mov r11, rax'', ''mov rax, [r11]''])
            (first push_rax
              (if gp_count a = 2
               then first (ins ''mov rax, [r11 + 8]'') (first push_rax
                 (give (sp @ [gp_spill (gp_start a), gp_spill (gp_start a + 1)], set_kid i c n)))
               else give (sp @ [gp_spill (gp_start a)], set_kid i c n)))))
        else if xmm_idx a < 0
        then into (push_arg K callee i n) (\<lambda>n. give (sp @ [gp_spill (gp_start a)], n))
        else into (eval_arg K callee i n) (\<lambda>n.
          first (cg_when (widens_float callee (ks ! i)) (ins ''cvtss2sd xmm0, xmm0''))
          (first (spill_xmm (slot_nbytes a))
            (give (sp @ [\<lparr>spill_is_xmm = True, spill_reg = xmm_idx a, spill_is_float = (slot_nbytes a = 4)\<rparr>], n)))))"

definition load_spills :: "spill list \<Rightarrow> unit cg" where
  "load_spills sp =
     first (inss (map (\<lambda>(j, p).
         let place = rsp_at (int (length sp - 1 - j) * 8) in
         if spill_is_xmm p
         then (if spill_is_float p then ''movss xmm'' else ''movsd xmm'') @ show_int (spill_reg p) @ '', '' @ place
         else ''mov '' @ arg_regs ! nat (spill_reg p) @ '', '' @ place) (zip [0..<length sp] sp)))
       (cg_when (sp \<noteq> []) (first (ins (''add rsp, '' @ show_int (int (length sp) * 8))) (add_depth (- int (length sp)))))"

text \<open>A structure result is in a scratch slot behind the call, and its address in \<^verbatim>\<open>rax\<close>.\<close>

definition struct_result :: "int \<Rightarrow> int \<Rightarrow> unit cg" where
  "struct_result sz temp =
     inss ((if sz > 16 then []
            else (''mov '' @ slot temp @ '', rax'') # (if sz > 8 then [''mov '' @ slot (temp - 8) @ '', rdx''] else [])) @
           [''lea rax, '' @ slot temp])"

definition call_result :: "ASTNode option \<Rightarrow> ASTNode \<Rightarrow> ASTNode" where
  "call_result callee n =
     (let n = set_result (decl_type (info n)) n in
      case callee of
        Some c \<Rightarrow> if decl_type (info c) = TYPE_POINTER then set_full (full_type (info c)) n else n
      | None \<Rightarrow> n)"

definition returned_struct :: "ASTNode option \<Rightarrow> ASTNode option" where
  "returned_struct callee =
     (case callee of Some c \<Rightarrow> if is_struct_or_union_kind (decl_type (info c)) then Some c else None | None \<Rightarrow> None)"

definition callee_variadic :: "ASTNode option \<Rightarrow> bool" where
  "callee_variadic callee = (case callee of None \<Rightarrow> False | Some c \<Rightarrow> is_variadic (info c))"

definition close_region :: "int \<Rightarrow> unit cg" where
  "close_region region =
     cg_when (region > 0) (first (ins (''add rsp, '' @ show_int region)) (add_depth (- (region div 8))))"

definition ret_slot :: "ASTNode option \<Rightarrow> (int \<times> int) cg" where
  "ret_slot callee =
     (case returned_struct callee of
        None \<Rightarrow> give (0, 0)
      | Some c \<Rightarrow> into (need (full_type (info c))) (\<lambda>t. on_cg (\<lambda>s.
          let sz = ty_size (node_of s t) in into (claim_struct_ret_temp sz) (\<lambda>temp. give (sz, temp)))))"

definition special_call :: "cg_knot \<Rightarrow> ASTNode option \<Rightarrow> ASTNode \<Rightarrow> ASTNode cg" where
  "special_call K callee n =
     (let nargs = child_count n in
      into (actual_kinds [0..<nargs] n) (\<lambda>(ks, n).
      into (compute_call_layout callee nargs (Some n) (Some ks)) (\<lambda>L.
      into (ret_slot callee) (\<lambda>(ret_size, ret_temp).
      into (open_region (stack_bytes L)) (\<lambda>region.
      let places = zip [0..<nargs] (items L) in
      into (thread (stack_arg K callee ks) places n) (\<lambda>n.
      into (if sret L then first (ins (''lea rax, '' @ slot ret_temp)) (first push_rax (give [gp_spill 0])) else give []) (\<lambda>sp.
      into (thread (reg_arg K callee ks) places (sp, n)) (\<lambda>(sp, n).
      first (load_spills sp)
      (first (cg_when (callee_variadic callee)
          (ins (''mov al, '' @ show_nat (length (filter (\<lambda>a. xmm_idx a \<ge> 0) (items L))))))
      (first (ins (''call '' @ name_of n))
      (first (close_region region)
        (case returned_struct callee of
           Some c \<Rightarrow> first (struct_result ret_size ret_temp)
             (give (with_info (\<lambda>i. i\<lparr>result_type := decl_type (info c), decl_type := decl_type (info c),
                full_type := full_type (info c)\<rparr>) n))
         | None \<Rightarrow> give (call_result callee n)))))))))))))"

definition call_line :: "ASTNode option \<Rightarrow> ASTNode \<Rightarrow> unit cg" where
  "call_line callee n =
     first (cg_when (callee_variadic callee) (ins ''xor eax, eax'')) (ins (''call '' @ name_of n))"

text \<open>Only integers and pointers, at most six: pushed from the left, popped into the registers.\<close>

definition short_call :: "cg_knot \<Rightarrow> ASTNode option \<Rightarrow> ASTNode \<Rightarrow> ASTNode cg" where
  "short_call K callee n =
     into (thread (push_arg K callee) [0..<child_count n] n) (\<lambda>n.
       first (pop_args (child_count n))
         (on_cg (\<lambda>s.
           let needs_pad = (push_depth s mod 2 \<noteq> 0) in
           first (cg_when needs_pad (ins ''sub rsp, 8''))
           (first (call_line callee n)
           (first (cg_when needs_pad (ins ''add rsp, 8''))
             (give (call_result callee n)))))))"

text \<open>More than six: a padding, the stack arguments from the right, then the register arguments.\<close>

definition long_call :: "cg_knot \<Rightarrow> ASTNode option \<Rightarrow> ASTNode \<Rightarrow> ASTNode cg" where
  "long_call K callee n = on_cg (\<lambda>s.
     let num_stack = int (child_count n) - 6;
         pad = (if (push_depth s + num_stack) mod 2 \<noteq> 0 then 1 else 0) in
     first (cg_when (pad = 1) (first (ins ''sub rsp, 8'') (add_depth 1)))
       (into (thread (push_arg K callee) (rev [6..<child_count n] @ [0..<6]) n) (\<lambda>n.
         first (pop_args 6)
         (first (call_line callee n)
         (first (ins (''add rsp, '' @ show_int ((num_stack + pad) * 8)))
         (first (add_depth (- (num_stack + pad)))
           (give (call_result callee n))))))))"

definition gen_call :: "cg_knot \<Rightarrow> ASTNode \<Rightarrow> ASTNode cg" where
  "gen_call K n = on_cg (\<lambda>s.
     let nargs = child_count n; callee = codegen_find_function_decl s (name_of n) in
     into (if special_callee callee nargs then give (True, n) else special_args [0..<nargs] n) (\<lambda>(special, n).
       if special then special_call K callee n
       else if nargs \<le> 6 then short_call K callee n
       else long_call K callee n))"

subsection \<open>Calls through a pointer\<close>

text \<open>\<open>params[i]\<close> of the function type: sixteen slots.\<close>

definition fn_param :: "type_ptr \<Rightarrow> nat \<Rightarrow> TypeKind cg" where
  "fn_param fn i = on_cg (\<lambda>s.
     let ps = ty_params (node_of s fn) in
     if i < length ps then into (need (ps ! i)) (\<lambda>t. give (ty_kind (node_of s t))) else halt BadAccess)"

text \<open>\<^verbatim>\<open>EMIT_INDIRECT_ARG_CONVERT\<close>: a null pointer constant is no pointer here.\<close>

definition convert_indirect :: "type_ptr \<Rightarrow> nat \<Rightarrow> ASTNode \<Rightarrow> unit cg" where
  "convert_indirect fn i n = into (kid (Suc i) n) (\<lambda>arg. into (fn_param fn i) (\<lambda>dst.
     let src = result_type (info arg); msg = (\<lambda>t. ''indirect call argument '' @ show_nat (Suc i) @ '': expected '' @ t) in
     if dst = TYPE_POINTER \<or> src = TYPE_POINTER then
       first (require (dst = TYPE_POINTER) (msg ''integer, got pointer''))
         (require (src = TYPE_POINTER) (msg ''pointer, got integer''))
     else emit_convert src dst))"

definition eval_indirect :: "cg_knot \<Rightarrow> type_ptr \<Rightarrow> nat \<Rightarrow> ASTNode \<Rightarrow> ASTNode cg" where
  "eval_indirect K fn i n = into (eval_kid K (Suc i) n) (\<lambda>(_, n). first (convert_indirect fn i n) (give n))"

definition push_indirect :: "cg_knot \<Rightarrow> type_ptr \<Rightarrow> nat \<Rightarrow> ASTNode \<Rightarrow> ASTNode cg" where
  "push_indirect K fn i n = into (eval_indirect K fn i n) (\<lambda>n. first push_rax (give n))"

text \<open>The layout from the kinds of the parameters: a structure is taken for an integer.\<close>

definition place_indirect :: "TypeKind \<Rightarrow> placing \<Rightarrow> ArgSlot \<times> placing" where
  "place_indirect k P =
     (let a = empty_slot\<lparr>slot_is_fp := type_is_fp k, slot_nbytes := (if type_is_fp k then type_kind_bytes k else 8)\<rparr> in
      if type_is_fp k then (if xmm_next P < 8 then place_xmm a P else place_stack 8 a P)
      else if gp_next P < 6 then place_gp 1 a P else place_stack 8 a P)"

fun place_all_indirect :: "TypeKind list \<Rightarrow> placing \<Rightarrow> ArgSlot list \<times> placing" where
  "place_all_indirect [] P = ([], P)"
| "place_all_indirect (k # ks) P =
     (let (a, P1) = place_indirect k P; (as, P2) = place_all_indirect ks P1 in (a # as, P2))"

fun any_fp_param :: "type_ptr \<Rightarrow> nat list \<Rightarrow> bool cg" where
  "any_fp_param fn [] = give False"
| "any_fp_param fn (i # is) = into (fn_param fn i) (\<lambda>k. if type_is_fp k then give True else any_fp_param fn is)"

definition indirect_stack_arg :: "cg_knot \<Rightarrow> type_ptr \<Rightarrow> nat \<times> ArgSlot \<Rightarrow> ASTNode \<Rightarrow> ASTNode cg" where
  "indirect_stack_arg K fn ia n =
     (case ia of (i, a) \<Rightarrow>
        if \<not> slot_mem a then give n
        else into (eval_indirect K fn i n) (\<lambda>n.
          first (ins (if slot_is_fp a
              then (if slot_nbytes a = 4 then ''movss '' else ''movsd '') @ rsp_at (slot_stack_off a) @ '', xmm0''
              else ''mov '' @ rsp_at (slot_stack_off a) @ '', rax''))
            (give n)))"

definition indirect_reg_arg ::
  "cg_knot \<Rightarrow> type_ptr \<Rightarrow> nat \<times> ArgSlot \<Rightarrow> spill list \<times> ASTNode \<Rightarrow> (spill list \<times> ASTNode) cg" where
  "indirect_reg_arg K fn ia acc =
     (case (ia, acc) of ((i, a), (sp, n)) \<Rightarrow>
        if slot_mem a then give (sp, n)
        else into (eval_indirect K fn i n) (\<lambda>n.
          if xmm_idx a \<ge> 0
          then first (spill_xmm (slot_nbytes a))
            (give (sp @ [\<lparr>spill_is_xmm = True, spill_reg = xmm_idx a, spill_is_float = (slot_nbytes a = 4)\<rparr>], n))
          else first push_rax (give (sp @ [gp_spill (gp_start a)], n))))"

definition indirect_fp_call :: "cg_knot \<Rightarrow> type_ptr \<Rightarrow> nat \<Rightarrow> ASTNode \<Rightarrow> ASTNode cg" where
  "indirect_fp_call K fn nargs n =
     into (each (fn_param fn) [0..<nargs]) (\<lambda>ks.
     case place_all_indirect ks (first_place False) of (as, P) \<Rightarrow>
     into (open_region (stack_next P)) (\<lambda>region.
     let places = zip [0..<nargs] as in
     into (thread (indirect_stack_arg K fn) places n) (\<lambda>n.
     into (thread (indirect_reg_arg K fn) places ([], n)) (\<lambda>(sp, n).
     first (load_spills sp)
     (first (inss [''mov r10, '' @ rsp_at region, ''call r10'', ''add rsp, '' @ show_int (region + 8)])
     (first (add_depth (- ((region + 8) div 8)))
       (give n)))))))"

definition indirect_short_call :: "cg_knot \<Rightarrow> type_ptr \<Rightarrow> nat \<Rightarrow> ASTNode \<Rightarrow> ASTNode cg" where
  "indirect_short_call K fn nargs n =
     into (thread (push_indirect K fn) [0..<nargs] n) (\<lambda>n.
       first (pop_args nargs)
       (first (pop_reg ''r10'')
         (on_cg (\<lambda>s.
           let needs_pad = (push_depth s mod 2 \<noteq> 0) in
           first (cg_when needs_pad (ins ''sub rsp, 8''))
           (first (ins ''call r10'')
           (first (cg_when needs_pad (ins ''add rsp, 8''))
             (give n)))))))"

definition indirect_long_call :: "cg_knot \<Rightarrow> type_ptr \<Rightarrow> nat \<Rightarrow> ASTNode \<Rightarrow> ASTNode cg" where
  "indirect_long_call K fn nargs n = on_cg (\<lambda>s.
     let num_stack = int nargs - 6;
         pad = (if (push_depth s + num_stack) mod 2 \<noteq> 0 then 1 else 0) in
     first (cg_when (pad = 1) (first (ins ''sub rsp, 8'') (add_depth 1)))
       (into (thread (push_indirect K fn) (rev [6..<nargs] @ [0..<6]) n) (\<lambda>n.
         first (pop_args 6)
         (first (inss [''mov r10, '' @ rsp_at ((num_stack + pad) * 8), ''call r10'',
             ''add rsp, '' @ show_int ((num_stack + pad + 1) * 8)])
         (first (add_depth (- (num_stack + pad + 1)))
           (give n))))))"

definition known_callee :: "ASTNode \<Rightarrow> unit cg" where
  "known_callee c =
     (if node_type c \<noteq> AST_VAR_REF then skip
      else into (find_var_of c) (\<lambda>lv. if lv \<noteq> None then skip
        else into (find_global_of c) (\<lambda>gv.
          require (gv \<noteq> None) (''call to undefined function '' @ quoted (name_of c)))))"

definition gen_indirect_call :: "cg_knot \<Rightarrow> ASTNode \<Rightarrow> ASTNode cg" where
  "gen_indirect_call K n = into (kid 0 n) (\<lambda>c0.
     let nargs = child_count n - 1 in
     first (known_callee c0)
       (into (eval_kid K 0 n) (\<lambda>(c, n). on_cg (\<lambda>s.
         let ft = full_type (info c) in
         first (require (result_type (info c) = TYPE_POINTER \<and> kind_at s (base_at s ft) = Some TYPE_FUNCTION)
             ''expression is not callable'')
         (into (need (base_at s ft)) (\<lambda>fn.
         first (require (ty_param_count (node_of s fn) = int nargs)
             (''indirect call expects '' @ show_int (ty_param_count (node_of s fn)) @ '' arguments, got '' @ show_nat nargs))
         (first push_rax
           (into (any_fp_param fn [0..<nargs]) (\<lambda>fp.
             into (if fp then indirect_fp_call K fn nargs n
                   else if nargs \<le> 6 then indirect_short_call K fn nargs n
                   else indirect_long_call K fn nargs n) (\<lambda>n.
             into (need (ty_base (node_of s fn))) (\<lambda>r.
               let k = ty_kind (node_of s r);
                   n = with_info (\<lambda>i. i\<lparr>result_type := k, decl_type := k\<rparr>) n in
               give (if k = TYPE_POINTER then set_full (Some r) n else n))))))))))))"

end
