(* ===== verification/Codegen_Ops.thy ===== *)
theory Codegen_Ops
  imports Codegen_Call
begin

section \<open>Operators: \<^verbatim>\<open>src/codegen.c\<close> lines 3618 to 3858 and 4402 to 5062\<close>

subsection \<open>Unary operators, casts, \<^verbatim>\<open>++\<close> and \<^verbatim>\<open>--\<close>\<close>

definition fp_negate :: "TypeKind \<Rightarrow> unit cg" where
  "fp_negate k =
     (if k = TYPE_FLOAT
      then first (upd (\<lambda>s. s\<lparr>fp_sign_mask_f32_emitted := True\<rparr>)) (ins ''xorps xmm0, [rel Lfp_smask_f32]'')
      else first (upd (\<lambda>s. s\<lparr>fp_sign_mask_f64_emitted := True\<rparr>)) (ins ''xorpd xmm0, [rel Lfp_smask_f64]''))"

definition fp_not :: "TypeKind \<Rightarrow> unit cg" where
  "fp_not k =
     inss ((if k = TYPE_DOUBLE then [''xorpd xmm1, xmm1'', ''ucomisd xmm0, xmm1'']
            else [''xorps xmm1, xmm1'', ''ucomiss xmm0, xmm1'']) @
           [''sete al'', ''setnp cl'', ''and al, cl'', ''movzx rax, al''])"

definition acc :: "TypeKind \<Rightarrow> string" where
  "acc k = (if k = TYPE_LONG then ''rax'' else ''eax'')"

definition gen_unary :: "cg_knot \<Rightarrow> ASTNode \<Rightarrow> ASTNode cg" where
  "gen_unary K n = into (eval_kid K 0 n) (\<lambda>(c, n). into (value_text n) (\<lambda>op.
     let k = result_type (info c); ot = promote_kind k in
     if op = ''-'' \<and> type_is_fp k then first (fp_negate k) (give (set_result k n))
     else if op = ''+'' \<and> type_is_fp k then give (set_result k n)
     else if op = ''!'' \<and> type_is_fp k then first (fp_not k) (give (set_result TYPE_INT n))
     else if op = ''-'' then first (ins (''neg '' @ acc ot)) (give (set_result ot n))
     else if op = ''!'' then
       first (inss [''cmp '' @ (if k = TYPE_LONG \<or> k = TYPE_POINTER then ''rax'' else ''eax'') @ '', 0'', ''sete al'', ''movzx eax, al''])
         (give (set_result TYPE_INT n))
     else if op = ''~'' then
       first (require (k \<noteq> TYPE_POINTER) (''operator '' @ quoted ''~'' @ '' not supported on pointer operands''))
         (first (ins (''not '' @ acc ot)) (give (set_result ot n)))
     else give (set_result ot n)))"

definition gen_cast :: "cg_knot \<Rightarrow> ASTNode \<Rightarrow> ASTNode cg" where
  "gen_cast K n = into (eval_kid K 0 n) (\<lambda>(c, n).
     first (emit_convert (result_type (info c)) (decl_type (info n)))
       (give (set_result (decl_type (info n)) n)))"

text \<open>A named operand. Everything but a pointer is counted in 32 bits.\<close>

definition inc_dec_view :: "bool \<Rightarrow> view \<Rightarrow> string \<Rightarrow> int \<Rightarrow> bool \<Rightarrow> ASTNode \<Rightarrow> ASTNode cg" where
  "inc_dec_view is_post v place sz uns n = into (value_text n) (\<lambda>op. on_cg (\<lambda>s.
     let verb = (if op = ''++'' then ''add '' else ''sub '') in
     first (ins (load_text place sz uns))
       (case (if fst v = TYPE_POINTER then snd v else None) of
          Some t \<Rightarrow>
            first (cg_when is_post (ins ''mov rcx, rax''))
            (first (ins (verb @ ''rax, '' @ show_int (type_size (cg_types s) (ty_base (node_of s t)))))
            (first (store_at place sz True)
            (first (cg_when is_post (ins ''mov rax, rcx''))
              (give (set_pointer (Some t) n)))))
        | None \<Rightarrow>
            first (cg_when is_post (ins ''mov ecx, eax''))
            (first (ins (verb @ ''eax, 1''))
            (first (store_at place sz False)
            (first (cg_when is_post (ins ''mov eax, ecx''))
              (give (set_result TYPE_INT n))))))))"

definition gen_inc_dec :: "cg_knot \<Rightarrow> ASTNode \<Rightarrow> ASTNode cg" where
  "gen_inc_dec K n = into (kid 0 n) (\<lambda>c.
     let is_post = (node_type n = AST_POSTFIX_INC_DEC) in
     if node_type c \<noteq> AST_VAR_REF then codegen_inc_dec_general K n
     else into (find_var_of c) (\<lambda>lv. case lv of
       Some v \<Rightarrow>
         first (require (\<not> lv_is_const v) (''assignment to const variable '' @ quoted (lv_name v)))
           (inc_dec_view is_post (lv_view v) (lv_place v) (lv_size v) (lv_is_unsigned v) n)
     | None \<Rightarrow> into (find_global_of c) (\<lambda>gv. case gv of
         Some g \<Rightarrow> inc_dec_view is_post (gv_view g) (sym (gv_name g)) (gv_size g) (gv_is_unsigned g) n
       | None \<Rightarrow> refuse (''undeclared variable '' @ quoted (name_of c)))))"

subsection \<open>\<^verbatim>\<open>&&\<close> and \<^verbatim>\<open>||\<close>\<close>

definition test_operand :: "TypeKind \<Rightarrow> unit cg" where
  "test_operand k =
     (if type_is_fp k then first (emit_fp_bool_to_rax k) (ins ''test rax, rax'')
      else ins (''cmp '' @ acc k @ '', 0''))"

definition lab :: "string \<Rightarrow> int \<Rightarrow> string" where
  "lab stem l = ''.L_'' @ stem @ ''_'' @ show_int l"

definition put_label :: "string \<Rightarrow> int \<Rightarrow> unit cg" where
  "put_label stem l = plain_line (lab stem l @ '':'')"

text \<open>\<open>jump\<close>, the label it goes to, the end label and the value that is known when the jump is taken.\<close>

definition short_circuit :: "cg_knot \<Rightarrow> string \<Rightarrow> string \<Rightarrow> string \<Rightarrow> string \<Rightarrow> ASTNode \<Rightarrow> ASTNode cg" where
  "short_circuit K jump known fin val n = into fresh_label (\<lambda>l.
     into (eval_kid K 0 n) (\<lambda>(a, n).
       first (test_operand (result_type (info a)))
       (first (ins (jump @ '' '' @ lab known l))
         (into (eval_kid K 1 n) (\<lambda>(b, n).
           first (test_operand (result_type (info b)))
           (first (inss [''setne al'', ''movzx eax, al'', ''jmp '' @ lab fin l])
           (first (put_label known l)
           (first (ins (''mov eax, '' @ val))
           (first (put_label fin l)
             (give (set_result TYPE_INT n)))))))))))"

subsection \<open>Bitwise operators and shifts\<close>

definition kid_types :: "ASTNode \<Rightarrow> (TypeKind \<times> TypeKind \<times> ASTNode) cg" where
  "kid_types n = into (kid_type 0 n) (\<lambda>(lt, n). into (kid_type 1 n) (\<lambda>(rt, n). give (lt, rt, n)))"

definition not_on_pointers :: "string \<Rightarrow> TypeKind \<Rightarrow> TypeKind \<Rightarrow> unit cg" where
  "not_on_pointers op lt rt =
     require (\<not> (lt = TYPE_POINTER \<or> rt = TYPE_POINTER)) (''operator '' @ quoted op @ '' not supported on pointer operands'')"

definition uac_unsigned :: "ASTNode \<Rightarrow> ASTNode \<Rightarrow> bool" where
  "uac_unsigned a b =
     uac_is_unsigned (result_type (info a)) (is_unsigned (info a)) (result_type (info b)) (is_unsigned (info b))"

text \<open>Both operands: the left one is kept on the stack and ends in \<^verbatim>\<open>rcx\<close>, the right one in \<^verbatim>\<open>rax\<close>.\<close>

definition two_operands :: "cg_knot \<Rightarrow> (ASTNode \<Rightarrow> unit cg) \<Rightarrow> ASTNode \<Rightarrow> (ASTNode \<times> ASTNode \<times> ASTNode) cg" where
  "two_operands K fit n = into (eval_kid K 0 n) (\<lambda>(a, n).
     first (fit a)
     (first push_rax
       (into (eval_kid K 1 n) (\<lambda>(b, n).
         first (fit b)
         (first (pop_reg ''rcx'')
           (give (a, b, n)))))))"

definition widen_bits :: "TypeKind \<Rightarrow> ASTNode \<Rightarrow> unit cg" where
  "widen_bits common c = cg_when (common = TYPE_LONG \<and> result_type (info c) \<noteq> TYPE_LONG) (ins ''movsxd rax, eax'')"

definition gen_bitwise :: "cg_knot \<Rightarrow> string \<Rightarrow> ASTNode \<Rightarrow> ASTNode cg" where
  "gen_bitwise K op n = into (kid_types n) (\<lambda>(lt, rt, n).
     let common = common_arith_kind lt rt;
         insn = (if op = ''&'' then ''and '' else if op = ''^'' then ''xor '' else ''or '') in
     first (not_on_pointers op lt rt)
       (into (two_operands K (widen_bits common) n) (\<lambda>(a, b, n).
         first (ins (insn @ (if common = TYPE_LONG then ''rax, rcx'' else ''eax, ecx'')))
           (give (set_unsigned (uac_unsigned a b) (set_result common n))))))"

definition gen_shift :: "cg_knot \<Rightarrow> string \<Rightarrow> ASTNode \<Rightarrow> ASTNode cg" where
  "gen_shift K op n = into (kid_types n) (\<lambda>(lt, rt, n).
     first (not_on_pointers op lt rt)
       (into (two_operands K (\<lambda>_. skip) n) (\<lambda>(a, b, n).
         let r = promote_kind (result_type (info a));
             insn = (if op = ''<<'' then ''shl '' else if is_unsigned (info a) then ''shr '' else ''sar '') in
         first (inss [''xchg rax, rcx'', insn @ acc r @ '', cl''])
           (give (set_unsigned (is_unsigned (info a)) (set_result r n))))))"

subsection \<open>Floating operands\<close>

definition to_common_fp :: "TypeKind \<Rightarrow> TypeKind \<Rightarrow> unit cg" where
  "to_common_fp common k =
     (if \<not> type_is_fp k then int_to_fp (if common = TYPE_DOUBLE then TYPE_DOUBLE else TYPE_FLOAT)
      else cg_when (k = TYPE_FLOAT \<and> common = TYPE_DOUBLE) (ins ''cvtss2sd xmm0, xmm0''))"

definition fp_move :: "TypeKind \<Rightarrow> string" where
  "fp_move common = (if common = TYPE_DOUBLE then ''movsd '' else ''movss '')"

definition fp_suffix :: "TypeKind \<Rightarrow> string" where
  "fp_suffix common = (if common = TYPE_DOUBLE then ''sd '' else ''ss '')"

text \<open>The left operand ends in \<^verbatim>\<open>xmm1\<close>, the right one in \<^verbatim>\<open>xmm0\<close>.\<close>

definition fp_operands :: "cg_knot \<Rightarrow> TypeKind \<Rightarrow> ASTNode \<Rightarrow> ASTNode cg" where
  "fp_operands K common n = into (eval_kid K 0 n) (\<lambda>(a, n).
     first (to_common_fp common (result_type (info a)))
     (first (inss [''sub rsp, 8'', fp_move common @ ''[rsp], xmm0''])
     (first (add_depth 1)
       (into (eval_kid K 1 n) (\<lambda>(b, n).
         first (to_common_fp common (result_type (info b)))
         (first (inss [fp_move common @ ''xmm1, [rsp]'', ''add rsp, 8''])
         (first (add_depth (- 1))
           (give n))))))))"

definition fp_arith_text :: "TypeKind \<Rightarrow> string \<Rightarrow> string list" where
  "fp_arith_text common op =
     (let sfx = fp_suffix common; back = fp_move common @ ''xmm0, xmm1'' in
      if op = ''+'' then [''add'' @ sfx @ ''xmm0, xmm1'']
      else if op = ''-'' then [''sub'' @ sfx @ ''xmm1, xmm0'', back]
      else if op = ''*'' then [''mul'' @ sfx @ ''xmm0, xmm1'']
      else [''div'' @ sfx @ ''xmm1, xmm0'', back])"

definition fp_compare_text :: "TypeKind \<Rightarrow> string \<Rightarrow> string list" where
  "fp_compare_text common op =
     [''ucomi'' @ fp_suffix common @ ''xmm1, xmm0''] @
     (if op = ''<'' then [''setb al'']
      else if op = ''<='' then [''setbe al'']
      else if op = ''>'' then [''seta al'']
      else if op = ''>='' then [''setae al'']
      else if op = ''=='' then [''sete al'', ''setnp cl'', ''and al, cl'']
      else [''setne al'', ''setp cl'', ''or al, cl'']) @
     [''movzx rax, al'']"

definition gen_fp_arith :: "cg_knot \<Rightarrow> TypeKind \<Rightarrow> string \<Rightarrow> ASTNode \<Rightarrow> ASTNode cg" where
  "gen_fp_arith K common op n = into (fp_operands K common n) (\<lambda>n.
     first (inss (fp_arith_text common op)) (give (set_result common n)))"

definition gen_fp_compare :: "cg_knot \<Rightarrow> TypeKind \<Rightarrow> string \<Rightarrow> ASTNode \<Rightarrow> ASTNode cg" where
  "gen_fp_compare K common op n = into (fp_operands K common n) (\<lambda>n.
     first (inss (fp_compare_text common op)) (give (set_result TYPE_INT n)))"

subsection \<open>Pointers and integers\<close>

definition arith_ops :: "string set" where
  "arith_ops = {''+'', ''-'', ''*'', ''/'', ''%''}"

definition relational_ops :: "string set" where
  "relational_ops = {''<'', ''<='', ''>'', ''>=''}"

definition compare_ops :: "string set" where
  "compare_ops = {''=='', ''!=''} \<union> relational_ops"

datatype pointer_role = No_Pointer | Pointer_Compare | Pointer_Arith | Pointer_Diff

definition role_of :: "string \<Rightarrow> TypeKind \<Rightarrow> TypeKind \<Rightarrow> pointer_role cg" where
  "role_of op lt rt =
     (let both = (lt = TYPE_POINTER \<and> rt = TYPE_POINTER) in
      if \<not> (lt = TYPE_POINTER \<or> rt = TYPE_POINTER) then give No_Pointer
      else if op \<in> compare_ops then give Pointer_Compare
      else if op = ''+'' then first (require (\<not> both) ''cannot add two pointers'') (give Pointer_Arith)
      else if op = ''-'' then
        (if both then give Pointer_Diff
         else first (require (rt \<noteq> TYPE_POINTER) ''cannot subtract pointer from integer'') (give Pointer_Arith))
      else refuse (''operator '' @ quoted op @ '' not supported on pointer operands''))"

definition widen_operand :: "TypeKind \<Rightarrow> ASTNode \<Rightarrow> unit cg" where
  "widen_operand common c =
     cg_when (common = TYPE_LONG \<and> result_type (info c) \<noteq> TYPE_LONG \<and> result_type (info c) \<noteq> TYPE_POINTER \<and>
        \<not> is_unsigned (info c)) (ins ''movsxd rax, eax'')"

definition check_pointer_compare :: "string \<Rightarrow> ASTNode \<Rightarrow> ASTNode \<Rightarrow> unit cg" where
  "check_pointer_compare op a b =
     (let lp = (result_type (info a) = TYPE_POINTER); rp = (result_type (info b) = TYPE_POINTER);
          msg = ''comparing pointer with non-constant integer'' in
      if lp \<and> rp then
        into (compare (\<lambda>h. pointer_types_assignable h (full_type (info a)) (full_type (info b)))) (\<lambda>ok.
          require ok ''incompatible pointer types in comparison'')
      else if op \<in> relational_ops then refuse ''relational comparison requires two pointer operands''
      else if lp then require (is_integer_constant b) msg
      else if rp then require (is_integer_constant a) msg
      else skip)"

text \<open>\<^verbatim>\<open>void\<close> and functions have no size to scale with.\<close>

definition scalable :: "type_ptr option list \<Rightarrow> unit cg" where
  "scalable ts = on_cg (\<lambda>s.
     first (require (\<forall>t\<in>set ts. kind_at s (base_at s t) \<noteq> Some TYPE_VOID) ''cannot perform pointer arithmetic on void pointer'')
       (require (\<forall>t\<in>set ts. kind_at s (base_at s t) \<noteq> Some TYPE_FUNCTION)
          ''cannot perform pointer arithmetic on function pointer''))"

definition pointer_arith_text :: "bool \<Rightarrow> string \<Rightarrow> int \<Rightarrow> string list" where
  "pointer_arith_text left op sz =
     (if left
      then (if sz \<noteq> 1 then [''imul rax, rax, '' @ show_int sz] else []) @
        (if op = ''+'' then [''add rax, rcx''] else [''sub rcx, rax'', ''mov rax, rcx''])
      else (if sz \<noteq> 1 then [''imul rcx, rcx, '' @ show_int sz] else []) @ [''add rax, rcx''])"

definition finish_pointer_arith :: "string \<Rightarrow> ASTNode \<Rightarrow> ASTNode \<Rightarrow> ASTNode \<Rightarrow> ASTNode cg" where
  "finish_pointer_arith op a b n = on_cg (\<lambda>s.
     let left = (result_type (info a) = TYPE_POINTER);
         t = (if left then full_type (info a) else full_type (info b)) in
     first (require (kind_at s t = Some TYPE_POINTER) ''pointer arithmetic missing pointer type'')
     (first (scalable [t])
     (first (inss (pointer_arith_text left op (type_size (cg_types s) (base_at s t))))
       (give (set_pointer t n)))))"

definition finish_pointer_diff :: "ASTNode \<Rightarrow> ASTNode \<Rightarrow> ASTNode \<Rightarrow> ASTNode cg" where
  "finish_pointer_diff a b n = on_cg (\<lambda>s.
     let l = full_type (info a); r = full_type (info b); sz = type_size (cg_types s) (base_at s l) in
     first (require (kind_at s l = Some TYPE_POINTER \<and> kind_at s r = Some TYPE_POINTER) ''pointer subtraction missing pointer type'')
     (first (scalable [l, r])
       (into (compare (\<lambda>h. pointer_types_equal h l r)) (\<lambda>ok.
         first (require ok ''incompatible pointer types in subtraction'')
         (first (inss ([''sub rcx, rax'', ''mov rax, rcx''] @
             (if sz > 1 then [''cqo'', ''mov rcx, '' @ show_int sz, ''idiv rcx''] else [])))
           (give (set_result TYPE_LONG n)))))))"

text \<open>Integer arithmetic in \<^verbatim>\<open>rax\<close> and \<^verbatim>\<open>rcx\<close>, or in \<^verbatim>\<open>eax\<close> and \<^verbatim>\<open>ecx\<close>.\<close>

definition divide_text :: "bool \<Rightarrow> bool \<Rightarrow> string list" where
  "divide_text wide uns =
     (let c = (if wide then ''rcx'' else ''ecx'') in
      [if wide then ''xchg rax, rcx'' else ''xchg eax, ecx''] @
      (if uns then [''xor edx, edx'', ''div '' @ c] else [if wide then ''cqo'' else ''cdq'', ''idiv '' @ c]))"

definition int_arith_text :: "bool \<Rightarrow> bool \<Rightarrow> string \<Rightarrow> string list" where
  "int_arith_text wide uns op =
     (let a = (if wide then ''rax'' else ''eax''); c = (if wide then ''rcx'' else ''ecx'');
          d = (if wide then ''rdx'' else ''edx'') in
      if op = ''+'' then [''add '' @ a @ '', '' @ c]
      else if op = ''-'' then [''sub '' @ c @ '', '' @ a, ''mov '' @ a @ '', '' @ c]
      else if op = ''*'' then [''imul '' @ a @ '', '' @ c]
      else if op = ''/'' then divide_text wide uns
      else divide_text wide uns @ [''mov '' @ a @ '', '' @ d])"

definition setcc :: "bool \<Rightarrow> string \<Rightarrow> string option" where
  "setcc uns op =
     (if op = ''=='' then Some ''sete'' else if op = ''!='' then Some ''setne''
      else if op = ''<'' then Some (if uns then ''setb'' else ''setl'')
      else if op = ''<='' then Some (if uns then ''setbe'' else ''setle'')
      else if op = ''>'' then Some (if uns then ''seta'' else ''setg'')
      else if op = ''>='' then Some (if uns then ''setae'' else ''setge'')
      else None)"

text \<open>The parser makes no other operators; one without a condition code would print a null pointer.\<close>

definition finish_integers :: "pointer_role \<Rightarrow> TypeKind \<Rightarrow> string \<Rightarrow> ASTNode \<Rightarrow> ASTNode \<Rightarrow> ASTNode \<Rightarrow> ASTNode cg" where
  "finish_integers role common op a b n =
     (let uns = (role = No_Pointer \<and> op \<in> arith_ops \<union> compare_ops \<and> uac_unsigned a b); wide = (common = TYPE_LONG) in
      if op \<in> arith_ops then
        first (inss (int_arith_text wide uns op))
          (give (set_unsigned uns (set_result (if wide then TYPE_LONG else TYPE_INT) n)))
      else into (need (setcc (uns \<or> role = Pointer_Compare) op)) (\<lambda>cc.
        first (inss [if wide then ''cmp rcx, rax'' else ''cmp ecx, eax'', cc @ '' al'', ''movzx eax, al''])
          (give (set_result TYPE_INT n))))"

definition common_of :: "pointer_role \<Rightarrow> TypeKind \<Rightarrow> TypeKind \<Rightarrow> TypeKind" where
  "common_of role lt rt = (if role = No_Pointer then common_arith_kind lt rt else TYPE_LONG)"

definition gen_int_binary :: "cg_knot \<Rightarrow> string \<Rightarrow> ASTNode \<Rightarrow> ASTNode cg" where
  "gen_int_binary K op n =
     into
       (if op \<in> arith_ops \<union> compare_ops
        then into (kid_types n) (\<lambda>(lt, rt, n). into (role_of op lt rt) (\<lambda>role. give (role, common_of role lt rt, n)))
        else give (No_Pointer, TYPE_INT, n))
       (\<lambda>(role, common, n).
         into (two_operands K (widen_operand common) n) (\<lambda>(a, b, n).
           first (if role = Pointer_Compare then check_pointer_compare op a b else skip)
             (if role = Pointer_Arith then finish_pointer_arith op a b n
              else if role = Pointer_Diff then finish_pointer_diff a b n
              else finish_integers role common op a b n)))"

text \<open>The operand types are asked for twice before, once for each of the floating cases.\<close>

definition gen_arith :: "cg_knot \<Rightarrow> string \<Rightarrow> ASTNode \<Rightarrow> ASTNode cg" where
  "gen_arith K op n = into (kid_types n) (\<lambda>(lt, rt, n).
     if op \<in> {''+'', ''-'', ''*'', ''/''} \<and> (type_is_fp lt \<or> type_is_fp rt)
     then gen_fp_arith K (fp_common_arith_kind lt rt) op n
     else into (kid_types n) (\<lambda>(lt, rt, n).
       if op \<in> compare_ops \<and> (type_is_fp lt \<or> type_is_fp rt)
       then gen_fp_compare K (fp_common_arith_kind lt rt) op n
       else gen_int_binary K op n))"

definition gen_binary :: "cg_knot \<Rightarrow> ASTNode \<Rightarrow> ASTNode cg" where
  "gen_binary K n = into (value_text n) (\<lambda>op.
     if op = ''&&'' then short_circuit K ''je'' ''and_false'' ''and_end'' ''0'' n
     else if op = ''||'' then short_circuit K ''jne'' ''or_true'' ''or_end'' ''1'' n
     else if op \<in> {''&'', ''^'', ''|''} then gen_bitwise K op n
     else if op \<in> {''<<'', ''>>''} then gen_shift K op n
     else gen_arith K op n)"

subsection \<open>\<^verbatim>\<open>?:\<close> and the comma\<close>

definition test_condition :: "TypeKind \<Rightarrow> unit cg" where
  "test_condition k =
     (if type_is_fp k then first (emit_fp_bool_to_rax k) (ins ''cmp eax, 0'')
      else ins (if k = TYPE_LONG \<or> k = TYPE_POINTER then ''cmp rax, 0'' else ''cmp eax, 0''))"

definition branch_kind :: "nat \<Rightarrow> ASTNode \<Rightarrow> TypeKind cg" where
  "branch_kind i n = query (map (map_option sizeof_type_of_expr) (children n)) i"

definition conditional_result :: "TypeKind \<Rightarrow> ASTNode \<Rightarrow> ASTNode \<Rightarrow> ASTNode \<Rightarrow> ASTNode cg" where
  "conditional_result common t f n =
     (let tk = result_type (info t); fk = result_type (info f) in
      if tk = TYPE_POINTER \<and> fk = TYPE_POINTER then
        into (compare (\<lambda>h. pointer_types_equal h (full_type (info t)) (full_type (info f)))) (\<lambda>ok.
          first (require ok ''conditional operator has incompatible pointer types'')
            (give (set_pointer (full_type (info t)) n)))
      else if tk = TYPE_POINTER \<and> is_null_pointer_constant f then give (set_pointer (full_type (info t)) n)
      else if fk = TYPE_POINTER \<and> is_null_pointer_constant t then give (set_pointer (full_type (info f)) n)
      else if type_is_fp common then give (set_result common n)
      else give (set_result (common_arith_kind (promote_kind tk) (promote_kind fk)) n))"

definition fit_branch :: "TypeKind \<Rightarrow> ASTNode \<Rightarrow> unit cg" where
  "fit_branch common b = cg_when (type_is_fp common) (emit_fp_widen_if_needed (result_type (info b)) common)"

definition gen_conditional :: "cg_knot \<Rightarrow> ASTNode \<Rightarrow> ASTNode cg" where
  "gen_conditional K n = into fresh_label (\<lambda>l. into (branch_kind 1 n) (\<lambda>pt. into (branch_kind 2 n) (\<lambda>pf.
     let common = (if type_is_fp pt \<or> type_is_fp pf then fp_common_arith_kind pt pf else TYPE_INT) in
     into (eval_kid K 0 n) (\<lambda>(c, n).
       first (test_condition (result_type (info c)))
       (first (ins (''je '' @ lab ''cond_false'' l))
         (into (eval_kid K 1 n) (\<lambda>(t, n).
           first (fit_branch common t)
           (first (ins (''jmp '' @ lab ''cond_end'' l))
           (first (put_label ''cond_false'' l)
             (into (eval_kid K 2 n) (\<lambda>(f, n).
               first (fit_branch common f)
               (first (put_label ''cond_end'' l)
                 (conditional_result common t f n)))))))))))))"

definition gen_comma :: "cg_knot \<Rightarrow> ASTNode \<Rightarrow> ASTNode cg" where
  "gen_comma K n = into (eval_kid K 0 n) (\<lambda>(_, n). into (eval_kid K 1 n) (\<lambda>(b, n).
     give (set_full (full_type (info b)) (set_result (result_type (info b)) n))))"

end
