(* ===== verification/Codegen_Expr.thy ===== *)
theory Codegen_Expr
  imports Codegen_Ops "HOL-Library.Signed_Division"
begin

section \<open>Variable arguments, brace lists and the expression: \<^verbatim>\<open>src/codegen.c\<close> lines 2520 to 2528, 5064 to 5726\<close>

subsection \<open>\<^verbatim>\<open>va_start\<close>, \<^verbatim>\<open>va_copy\<close> and \<^verbatim>\<open>va_arg\<close>\<close>

text \<open>A \<^verbatim>\<open>va_list\<close> lies in the frame: two offsets of 4 bytes, the overflow area, the save area.\<close>

definition va_operand :: "string \<Rightarrow> nat \<Rightarrow> ASTNode \<Rightarrow> int cg" where
  "va_operand msg i n = into (kid i n) (\<lambda>ap. into (find_var_of ap) (\<lambda>lv. case lv of
     Some v \<Rightarrow> give (lv_offset v) | None \<Rightarrow> refuse msg))"

definition gen_va_start :: "ASTNode \<Rightarrow> ASTNode cg" where
  "gen_va_start n =
     into (va_operand (''va_start: '' @ quoted ''ap'' @ '' is not a local variable'') 0 n) (\<lambda>ap. on_cg (\<lambda>s.
       first (inss [
           ''mov dword '' @ slot ap @ '', '' @ show_int (variadic_named_gp_params s * 8),
           ''mov dword '' @ slot (ap - 4) @ '', '' @ show_int (48 + variadic_named_xmm_params s * 16),
           ''lea rax, '' @ arg_slot (16 + variadic_named_stack_params s * 8),
           ''mov '' @ slot (ap - 8) @ '', rax'',
           ''lea rax, '' @ slot (variadic_reg_save_offset s),
           ''mov '' @ slot (ap - 16) @ '', rax''])
         (give (set_result TYPE_VOID n))))"

definition gen_va_copy :: "ASTNode \<Rightarrow> ASTNode cg" where
  "gen_va_copy n =
     into (kid 0 n) (\<lambda>d. into (kid 1 n) (\<lambda>c. into (find_var_of d) (\<lambda>dv. into (find_var_of c) (\<lambda>sv.
       case (dv, sv) of
         (Some v, Some w) \<Rightarrow> let dst = lv_offset v; src = lv_offset w in
           first (inss (concat (map (\<lambda>b. [''mov rax, '' @ slot (src - b), ''mov '' @ slot (dst - b) @ '', rax'']) [0, 8, 16])))
             (give (set_result TYPE_VOID n))
       | _ \<Rightarrow> refuse ''va_copy: operand is not a local variable''))))"

definition check_va_kind :: "TypeKind \<Rightarrow> type_ptr option \<Rightarrow> unit cg" where
  "check_va_kind k t = on_cg (\<lambda>s.
     if k \<in> {TYPE_VOID, TYPE_BOOL, TYPE_CHAR, TYPE_SHORT}
     then refuse (''va_arg: type '' @ type_kind_name k @ '' is not supported; use int or a larger type'')
     else if k = TYPE_FLOAT
     then refuse (''va_arg: '' @ quoted ''float'' @ '' is not valid; use '' @ quoted ''double'' @
       '' (float arguments are promoted to double)'')
     else if is_struct_or_union_kind k
     then require (case t of None \<Rightarrow> False | Some p \<Rightarrow> ty_size (node_of s p) > 0) ''va_arg: struct/union type has unknown size''
     else if k = TYPE_ARRAY then refuse ''va_arg: array types are not supported''
     else skip)"

definition ovf :: "int \<Rightarrow> string" where
  "ovf l = lab ''va_arg_ovf'' l"

definition va_double :: "int \<Rightarrow> int \<Rightarrow> unit cg" where
  "va_double ap l =
     first (inss [''mov rcx, '' @ slot (ap - 16), ''mov eax, dword '' @ slot (ap - 4), ''cmp eax, 176'', ''jge '' @ ovf l,
       ''add rax, rcx'', ''movsd xmm0, [rax]'', ''add dword '' @ slot (ap - 4) @ '', 16'', ''jmp '' @ lab ''va_arg_done'' l])
     (first (put_label ''va_arg_ovf'' l)
     (first (inss [''mov rax, '' @ slot (ap - 8), ''movsd xmm0, [rax]'', ''add qword '' @ slot (ap - 8) @ '', 8''])
       (put_label ''va_arg_done'' l)))"

definition va_struct_memory :: "int \<Rightarrow> int \<Rightarrow> int \<Rightarrow> unit cg" where
  "va_struct_memory ap temp sz =
     first (inss [''mov rdx, '' @ slot (ap - 8), ''lea rcx, [rdx + '' @ show_int (align_up sz 8) @ '']'',
         ''mov '' @ slot (ap - 8) @ '', rcx'', ''lea rdi, '' @ slot temp, ''mov rsi, rdx''])
       (emit_struct_copy sz)"

definition va_struct_one :: "int \<Rightarrow> int \<Rightarrow> int \<Rightarrow> unit cg" where
  "va_struct_one ap temp l =
     first (inss [''mov eax, dword '' @ slot ap, ''cmp eax, 48'', ''jae '' @ ovf l, ''mov rcx, '' @ slot (ap - 16),
       ''lea rdx, [rcx + rax]'', ''add dword '' @ slot ap @ '', 8'', ''jmp '' @ lab ''va_arg_load'' l])
     (first (put_label ''va_arg_ovf'' l)
     (first (inss [''mov rdx, '' @ slot (ap - 8), ''lea rcx, [rdx + 8]'', ''mov '' @ slot (ap - 8) @ '', rcx''])
     (first (put_label ''va_arg_load'' l)
       (inss [''mov rax, [rdx]'', ''mov '' @ slot temp @ '', rax'']))))"

definition va_struct_two :: "int \<Rightarrow> int \<Rightarrow> int \<Rightarrow> int \<Rightarrow> unit cg" where
  "va_struct_two ap temp sz l =
     (let stores = [''mov '' @ slot temp @ '', r11'', ''mov '' @ slot (temp - 8) @ '', r10''] in
      first (inss ([''mov eax, dword '' @ slot ap, ''cmp eax, 32'', ''ja '' @ ovf l, ''mov rcx, '' @ slot (ap - 16),
        ''add rcx, rax'', ''mov r11, [rcx]'', ''mov r10, [rcx + 8]''] @ stores @
        [''add dword '' @ slot ap @ '', 16'', ''jmp '' @ lab ''va_arg_done'' l]))
      (first (put_label ''va_arg_ovf'' l)
      (first (inss ([''mov rdx, '' @ slot (ap - 8), ''mov r11, [rdx]'', ''mov r10, [rdx + 8]''] @ stores @
        [''add qword '' @ slot (ap - 8) @ '', '' @ show_int (align_up sz 8)]))
        (put_label ''va_arg_done'' l))))"

definition va_struct :: "int \<Rightarrow> int \<Rightarrow> type_ptr \<Rightarrow> unit cg" where
  "va_struct ap l t = on_cg (\<lambda>s.
     let sz = ty_size (node_of s t); ebs = struct_reg_eightbytes (cg_types s) (Some t) in
     into (claim_struct_ret_temp sz) (\<lambda>temp.
       first (if ebs = 0 then va_struct_memory ap temp sz
              else if ebs = 1 then va_struct_one ap temp l
              else va_struct_two ap temp sz l)
         (ins (''lea rax, '' @ slot temp))))"

definition va_gp :: "int \<Rightarrow> int \<Rightarrow> TypeKind \<Rightarrow> unit cg" where
  "va_gp ap l k =
     first (inss [''mov eax, dword '' @ slot ap, ''cmp eax, 48'', ''jae '' @ ovf l, ''mov rcx, '' @ slot (ap - 16),
       ''lea rdx, [rcx + rax]'', ''add eax, 8'', ''mov dword '' @ slot ap @ '', eax'', ''jmp '' @ lab ''va_arg_load'' l])
     (first (put_label ''va_arg_ovf'' l)
     (first (inss [''mov rdx, '' @ slot (ap - 8), ''lea rcx, [rdx + 8]'', ''mov '' @ slot (ap - 8) @ '', rcx''])
     (first (put_label ''va_arg_load'' l)
       (if k = TYPE_INT then ins ''mov eax, dword [rdx]''
        else if wide_kind k then ins ''mov rax, [rdx]''
        else refuse ''va_arg: type not in GP register class''))))"

definition gen_va_arg :: "ASTNode \<Rightarrow> ASTNode cg" where
  "gen_va_arg n = on_cg (\<lambda>s.
     let t = full_type (info n); k = (case kind_at s t of Some k \<Rightarrow> k | None \<Rightarrow> decl_type (info n)) in
     first (check_va_kind k t)
       (into (va_operand (''va_arg: '' @ quoted ''ap'' @ '' is not a local variable'') 0 n) (\<lambda>ap.
         into fresh_label (\<lambda>l.
           if k = TYPE_DOUBLE then first (va_double ap l) (give (set_full t (set_result TYPE_DOUBLE n)))
           else if is_struct_or_union_kind k
           then into (need t) (\<lambda>p. first (va_struct ap l p) (give (set_full t (set_result k n))))
           else first (va_gp ap l k)
             (give (set_full t (set_unsigned (case t of Some p \<Rightarrow> \<not> ty_signed (node_of s p) | None \<Rightarrow> False)
                (set_result k n))))))))"

subsection \<open>Brace lists of locals: \<^verbatim>\<open>emit_local_array_init\<close>, \<^verbatim>\<open>emit_local_struct_init\<close>\<close>

text \<open>An array list: the index of the next element moves on, or to where a designator says.\<close>

definition array_position :: "int \<Rightarrow> int \<Rightarrow> ASTNode \<Rightarrow> (int \<times> ASTNode) cg" where
  "array_position len nxt c =
     (if is_index_designator c then
        let i = byte_length (info c) in
        first (require (0 \<le> i \<and> i < len) (''array designator index '' @ show_int i @ '' out of bounds''))
          (into (kid 0 c) (\<lambda>e. give (i, e)))
      else if is_member_designator c then refuse ''member designator in array initializer''
      else give (nxt, c))"

fun array_inits :: "(ASTNode \<Rightarrow> int \<Rightarrow> unit cg) \<Rightarrow> string \<Rightarrow> int \<Rightarrow> int \<Rightarrow> ASTNode option list \<Rightarrow> unit cg" where
  "array_inits put msg len nxt [] = skip"
| "array_inits put msg len nxt (None # cs) = halt BadAccess"
| "array_inits put msg len nxt (Some c # cs) =
     into (array_position len nxt c) (\<lambda>(i, e).
       first (require (i < len) msg) (first (put e i) (array_inits put msg len (i + 1) cs)))"

definition store_value :: "int \<Rightarrow> int \<Rightarrow> ASTNode \<Rightarrow> unit cg" where
  "store_value off sz e = emit_store_local off sz (wide_kind (result_type (info e)))"

definition put_element :: "cg_knot \<Rightarrow> type_ptr \<Rightarrow> int \<Rightarrow> ASTNode \<Rightarrow> int \<Rightarrow> unit cg" where
  "put_element K t base e i = on_cg (\<lambda>s.
     let el = node_of s t; off = base - i * ty_size el in
     if ty_kind el = TYPE_STRUCT \<and> node_type e = AST_INITIALIZER_LIST then k_struct_init K t off e
     else if ty_kind el = TYPE_ARRAY \<and> node_type e = AST_INITIALIZER_LIST then k_array_init K t off e
     else into (k_expr K e) (\<lambda>e.
       if type_is_fp (ty_kind el)
       then first (emit_fp_widen_if_needed (result_type (info e)) (ty_kind el)) (emit_store_fp_local off (ty_kind el))
       else store_value off (ty_size el) e))"

definition local_array :: "cg_knot \<Rightarrow> string \<Rightarrow> type_ptr \<Rightarrow> int \<Rightarrow> ASTNode \<Rightarrow> unit cg" where
  "local_array K msg t base n = on_cg (\<lambda>s.
     into (need (ty_base (node_of s t))) (\<lambda>e. array_inits (put_element K e base) msg (ty_length (node_of s t)) 0 (children n)))"

definition emit_local_array_init :: "cg_knot \<Rightarrow> type_ptr \<Rightarrow> int \<Rightarrow> ASTNode \<Rightarrow> unit cg" where
  "emit_local_array_init K t base n = local_array K ''too many initializers in array'' t base n"

definition field_position :: "StructField list \<Rightarrow> nat \<Rightarrow> ASTNode \<Rightarrow> (nat \<times> ASTNode) cg" where
  "field_position fs nxt c =
     (if is_member_designator c then
        (case field_index fs (nvalue (info c)) of
           None \<Rightarrow> refuse (''struct has no member named '' @ quoted (literal_text c))
         | Some k \<Rightarrow> into (kid 0 c) (\<lambda>e. give (k, e)))
      else if is_index_designator c then refuse ''array index designator in struct initializer''
      else give (nxt, c))"

fun struct_inits :: "(StructField \<Rightarrow> ASTNode \<Rightarrow> unit cg) \<Rightarrow> StructField list \<Rightarrow> nat \<Rightarrow> ASTNode option list \<Rightarrow> unit cg" where
  "struct_inits put fs nxt [] = skip"
| "struct_inits put fs nxt (None # cs) = halt BadAccess"
| "struct_inits put fs nxt (Some c # cs) =
     into (field_position fs nxt c) (\<lambda>(k, e).
       if k \<ge> length fs then refuse ''too many initializers for struct''
       else first (put (fs ! k) e) (struct_inits put fs (Suc k) cs))"

definition bad_field :: "string \<Rightarrow> StructField \<Rightarrow> string" where
  "bad_field what f = ''incompatible field initializer for '' @ what @ quoted (fld_name f)"

definition put_field :: "cg_knot \<Rightarrow> int \<Rightarrow> StructField \<Rightarrow> ASTNode \<Rightarrow> unit cg" where
  "put_field K base f e = on_cg (\<lambda>s.
     let off = base - fld_offset f; sz = field_bytes (cg_types s) f; k = fld_kind f; ft = fld_full_type f; ty = node_type e in
     first (cg_mark e)
       (if k = TYPE_STRUCT \<and> ft \<noteq> None \<and> ty = AST_INITIALIZER_LIST then k_struct_init K (the ft) off e
        else if k = TYPE_ARRAY \<and> ft \<noteq> None \<and> ty = AST_STRING_LITERAL then
          inss (map (\<lambda>b. ''mov byte '' @ slot (off - int b) @ '', '' @ show_int (literal_byte e b))
            [0..<nat (min sz (byte_length (info e)))])
        else if k = TYPE_POINTER then
          into (k_expr K e) (\<lambda>e.
            first (require (result_type (info e) = TYPE_POINTER \<or> is_null_pointer_constant e) (bad_field ''pointer field '' f))
              (emit_store_local off sz True))
        else first (require (ty \<noteq> AST_STRING_LITERAL) (bad_field ''field '' f))
          (into (k_expr K e) (store_value off sz))))"

definition emit_local_struct_init :: "cg_knot \<Rightarrow> type_ptr \<Rightarrow> int \<Rightarrow> ASTNode \<Rightarrow> unit cg" where
  "emit_local_struct_init K t base n = on_cg (\<lambda>s. struct_inits (put_field K base) (fields_at s t) 0 (children n))"

subsection \<open>Compound literals\<close>

definition zero_fill :: "int \<Rightarrow> int \<Rightarrow> unit cg" where
  "zero_fill off sz = inss (map (\<lambda>b. ''mov byte '' @ slot (off - int b) @ '', 0'') [0..<nat sz])"

definition put_first_field :: "cg_knot \<Rightarrow> type_ptr \<Rightarrow> int \<Rightarrow> ASTNode \<Rightarrow> unit cg" where
  "put_first_field K t off e = on_cg (\<lambda>s. case fields_at s t of
     [] \<Rightarrow> halt BadAccess
   | f # _ \<Rightarrow> into (k_expr K e) (store_value off (field_bytes (cg_types s) f)))"

definition union_literal :: "cg_knot \<Rightarrow> type_ptr \<Rightarrow> int \<Rightarrow> ASTNode \<Rightarrow> unit cg" where
  "union_literal K t off n =
     (if children n = [] then skip
      else into (kid 0 n) (\<lambda>c. on_cg (\<lambda>s.
        if is_member_designator c then
          first (require (field_index (fields_at s t) (nvalue (info c)) = Some 0)
              ''union compound literal with non-first member designator not yet supported'')
            (into (kid 0 c) (put_first_field K t off))
        else if is_index_designator c then refuse ''array index designator in union initializer''
        else put_first_field K t off c)))"

definition literal_pointer :: "int \<Rightarrow> type_ptr \<Rightarrow> ASTNode \<Rightarrow> ASTNode cg" where
  "literal_pointer off t n = first (ins (''lea rax, '' @ slot off)) (points_to (Some t) n)"

definition gen_compound_literal :: "cg_knot \<Rightarrow> ASTNode \<Rightarrow> ASTNode cg" where
  "gen_compound_literal K n = on_cg (\<lambda>s.
     let off = byte_length (info n); k = decl_type (info n); ft = full_type (info n) in
     first (require (off \<noteq> 0) ''compound literals at file scope are not yet supported'')
       (into (kid 0 n) (\<lambda>lst.
         if is_struct_or_union_kind k then
           into (need ft) (\<lambda>t.
             first (zero_fill off (ty_size (node_of s t)))
             (first (if k = TYPE_UNION then union_literal K t off lst else emit_local_struct_init K t off lst)
               (literal_pointer off t n)))
         else if k = TYPE_ARRAY then
           into (need ft) (\<lambda>t. into (need (ty_base (node_of s t))) (\<lambda>e.
             first (zero_fill off (ty_size (node_of s t)))
             (first (local_array K ''too many initializers in compound literal'' t off lst)
               (literal_pointer off e n))))
         else into (eval_kid K 0 n) (\<lambda>(_, n).
           first (emit_store_local off (type_kind_bytes k) (type_kind_bytes k = 8 \<or> wide_kind k))
             (give (set_unsigned (case ft of Some t \<Rightarrow> \<not> ty_signed (node_of s t) | None \<Rightarrow> False) (set_result k n)))))))"

subsection \<open>\<^verbatim>\<open>codegen_expression\<close>\<close>

definition gen_expression :: "cg_knot \<Rightarrow> ASTNode \<Rightarrow> ASTNode cg" where
  "gen_expression K n =
     (case node_type n of
        AST_INT_LITERAL \<Rightarrow> gen_int_literal n
      | AST_CHAR_LITERAL \<Rightarrow> gen_char_literal n
      | AST_FLOAT_LITERAL \<Rightarrow> gen_float_literal n
      | AST_STRING_LITERAL \<Rightarrow> gen_string_literal n
      | AST_VAR_REF \<Rightarrow> gen_var_ref n
      | AST_ASSIGNMENT \<Rightarrow> gen_assignment K n
      | AST_ADDR_OF \<Rightarrow> gen_addr_of K n
      | AST_DEREF \<Rightarrow> gen_deref K n
      | AST_ARRAY_INDEX \<Rightarrow> gen_array_index K n
      | AST_MEMBER_ACCESS \<Rightarrow> gen_member K n
      | AST_ARROW_ACCESS \<Rightarrow> gen_arrow K n
      | AST_SIZEOF_TYPE \<Rightarrow> gen_sizeof_type n
      | AST_SIZEOF_EXPR \<Rightarrow> gen_sizeof_expr n
      | AST_UNARY_OP \<Rightarrow> gen_unary K n
      | AST_PREFIX_INC_DEC \<Rightarrow> gen_inc_dec K n
      | AST_POSTFIX_INC_DEC \<Rightarrow> gen_inc_dec K n
      | AST_CAST \<Rightarrow> gen_cast K n
      | AST_FUNCTION_CALL \<Rightarrow> gen_call K n
      | AST_INDIRECT_CALL \<Rightarrow> gen_indirect_call K n
      | AST_BINARY_OP \<Rightarrow> gen_binary K n
      | AST_CONDITIONAL_EXPR \<Rightarrow> gen_conditional K n
      | AST_COMMA_EXPR \<Rightarrow> gen_comma K n
      | AST_BUILTIN_VA_START \<Rightarrow> gen_va_start n
      | AST_BUILTIN_VA_END \<Rightarrow> give (set_result TYPE_VOID n)
      | AST_BUILTIN_VA_COPY \<Rightarrow> gen_va_copy n
      | AST_BUILTIN_VA_ARG \<Rightarrow> gen_va_arg n
      | AST_COMPOUND_LITERAL \<Rightarrow> gen_compound_literal K n
      | _ \<Rightarrow> give n)"

definition codegen_expression :: "cg_knot \<Rightarrow> ASTNode \<Rightarrow> ASTNode cg" where
  "codegen_expression K n = first (cg_mark n) (gen_expression K n)"

text \<open>Every call through the knot goes to a node further down, so the depth of the tree is enough.\<close>

definition next_knot :: "cg_knot \<Rightarrow> cg_knot" where
  "next_knot K =
     \<lparr>k_expr = codegen_expression K, k_index = emit_array_index_addr K, k_member = emit_member_addr K,
      k_arrow = emit_arrow_addr K, k_struct_init = emit_local_struct_init K, k_array_init = emit_local_array_init K\<rparr>"

fun expr_knot :: "nat \<Rightarrow> cg_knot" where
  "expr_knot 0 = \<lparr>k_expr = \<lambda>_. halt CgFuel, k_index = \<lambda>_. halt CgFuel, k_member = \<lambda>_. halt CgFuel,
     k_arrow = \<lambda>_. halt CgFuel, k_struct_init = \<lambda>_ _ _. halt CgFuel, k_array_init = \<lambda>_ _ _. halt CgFuel\<rparr>"
| "expr_knot (Suc d) = next_knot (expr_knot d)"

subsection \<open>\<^verbatim>\<open>eval_const_init\<close>\<close>

definition static_division :: "string \<Rightarrow> (int \<Rightarrow> int \<Rightarrow> int) \<Rightarrow> int \<Rightarrow> int \<Rightarrow> int cg" where
  "static_division var f a b =
     (if b = 0 then refuse (''division by zero in initializer for static '' @ quoted var)
      else if a = LONG_MIN \<and> b = - 1 then halt DivTrap
      else give (f a b))"

definition static_binary :: "string \<Rightarrow> string \<Rightarrow> int \<Rightarrow> int \<Rightarrow> int cg option" where
  "static_binary var op a b =
     (if op = ''+'' then Some (give (wrap64 (a + b)))
      else if op = ''-'' then Some (give (wrap64 (a - b)))
      else if op = ''*'' then Some (give (wrap64 (a * b)))
      else if op = ''/'' then Some (static_division var (\<lambda>a b. a sdiv b) a b)
      else if op = ''%'' then Some (static_division var (\<lambda>a b. a smod b) a b)
      else if op = ''<<'' then Some (give (shl64 a b))
      else if op = ''>>'' then Some (give (sar64 a b))
      else if op = ''&'' then Some (give (a AND b))
      else if op = ''^'' then Some (give (a XOR b))
      else if op = ''|'' then Some (give (a OR b))
      else if op = ''<'' then Some (give (of_bool (a < b)))
      else if op = ''<='' then Some (give (of_bool (a \<le> b)))
      else if op = ''>'' then Some (give (of_bool (a > b)))
      else if op = ''>='' then Some (give (of_bool (a \<ge> b)))
      else if op = ''=='' then Some (give (of_bool (a = b)))
      else if op = ''!='' then Some (give (of_bool (a \<noteq> b)))
      else if op = ''&&'' then Some (give (of_bool (a \<noteq> 0 \<and> b \<noteq> 0)))
      else if op = ''||'' then Some (give (of_bool (a \<noteq> 0 \<or> b \<noteq> 0)))
      else None)"

definition static_unary :: "string \<Rightarrow> int \<Rightarrow> int option" where
  "static_unary op v =
     (if op = ''-'' then Some (wrap64 (- v))
      else if op = ''~'' then Some (NOT v)
      else if op = ''!'' then Some (of_bool (v = 0))
      else if op = ''+'' then Some v
      else None)"

definition not_constant_init :: "string \<Rightarrow> int cg" where
  "not_constant_init var =
     refuse (''initializer for block-scope static '' @ quoted var @ '' must be a constant expression'')"

definition static_sizeof :: "ASTNode \<Rightarrow> int cg" where
  "static_sizeof n = look (\<lambda>s. case full_type (info n) of
     Some t \<Rightarrow> type_size (cg_types s) (Some t) | None \<Rightarrow> type_kind_bytes (decl_type (info n)))"

text \<open>One step, with the values of the children as programs; both sides of \<^verbatim>\<open>&&\<close> and \<^verbatim>\<open>||\<close> are evaluated.\<close>

definition const_init_step :: "string \<Rightarrow> ASTNode \<Rightarrow> int cg list \<Rightarrow> int cg" where
  "const_init_step var n rs =
     (case (node_type n, rs) of
        (AST_INT_LITERAL, _) \<Rightarrow> give (long_of n)
      | (AST_CHAR_LITERAL, _) \<Rightarrow> give (literal_byte n 0)
      | (AST_SIZEOF_TYPE, _) \<Rightarrow> static_sizeof n
      | (AST_UNARY_OP, [m]) \<Rightarrow> into m (\<lambda>v. into (value_text n) (\<lambda>op.
          case static_unary op v of Some w \<Rightarrow> give w | None \<Rightarrow> not_constant_init var))
      | (AST_BINARY_OP, [l, r]) \<Rightarrow> into l (\<lambda>a. into r (\<lambda>b. into (value_text n) (\<lambda>op.
          case static_binary var op a b of Some m \<Rightarrow> m | None \<Rightarrow> not_constant_init var)))
      | (AST_CONDITIONAL_EXPR, [c, t, f]) \<Rightarrow> into c (\<lambda>v. if v \<noteq> 0 then t else f)
      | _ \<Rightarrow> not_constant_init var)"

fun eval_const_init :: "string \<Rightarrow> ASTNode \<Rightarrow> int cg" where
  "eval_const_init var (Node i cs) =
     const_init_step var (Node i cs)
       (map (\<lambda>c. case c of None \<Rightarrow> halt BadAccess | Some k \<Rightarrow> eval_const_init var k) cs)"

end
