(* ===== verification/Codegen_Stmt.thy ===== *)
theory Codegen_Stmt
  imports Codegen_Expr
begin

section \<open>Statements: \<^verbatim>\<open>src/codegen.c\<close> lines 5514 to 5522 and 5728 to 6530\<close>

text \<open>
  A statement is code for its own work around the code of the statements in it; those come as a
  list of programs, one per child. Nobody reads what a statement leaves in its tree, so it gives
  nothing. The path names the node, for the labels of \<^verbatim>\<open>case\<close> and \<^verbatim>\<open>default\<close>.
\<close>

definition nth_program :: "unit cg list \<Rightarrow> nat \<Rightarrow> unit cg" where
  "nth_program rs i = (if i < length rs then rs ! i else halt BadAccess)"

definition opt_kid :: "nat \<Rightarrow> ASTNode \<Rightarrow> ASTNode option cg" where
  "opt_kid i n = (if i < child_count n then give (children n ! i) else halt BadAccess)"

definition eval_for :: "cg_knot \<Rightarrow> nat \<Rightarrow> ASTNode \<Rightarrow> ASTNode cg" where
  "eval_for K i n = into (kid i n) (k_expr K)"

definition emit_cond_cmp_zero :: "TypeKind \<Rightarrow> unit cg" where
  "emit_cond_cmp_zero k =
     (if type_is_fp k then first (emit_fp_bool_to_rax k) (ins ''cmp eax, 0'')
      else ins (''cmp '' @ acc k @ '', 0''))"

definition condition :: "cg_knot \<Rightarrow> ASTNode \<Rightarrow> unit cg" where
  "condition K c = into (k_expr K c) (\<lambda>c. emit_cond_cmp_zero (result_type (info c)))"

definition jump :: "string \<Rightarrow> string \<Rightarrow> int \<Rightarrow> unit cg" where
  "jump verb stem l = ins (verb @ '' '' @ lab stem l)"

subsection \<open>Declarations of statics\<close>

text \<open>The label is written to a buffer of 256 bytes.\<close>

definition static_label_text :: "string \<Rightarrow> string \<Rightarrow> int \<Rightarrow> string" where
  "static_label_text func mid l = take 255 (''Lstatic_'' @ func @ mid @ show_int l)"

definition static_label :: "string cg" where
  "static_label = on_cg (\<lambda>s. into fresh_label (\<lambda>l. codegen_intern (static_label_text (current_func s) ''_'' l)))"

definition push_static :: "LocalVar \<Rightarrow> LocalStaticVar \<Rightarrow> unit cg" where
  "push_static v sv = upd (\<lambda>s. s\<lparr>locals := locals s @ [v\<lparr>lv_is_register := junk s\<rparr>], local_statics := local_statics s @ [sv]\<rparr>)"

definition static_var :: "string \<Rightarrow> int \<Rightarrow> TypeKind \<Rightarrow> type_ptr option \<Rightarrow> bool \<Rightarrow> bool \<Rightarrow> string \<Rightarrow> LocalVar" where
  "static_var name sz k ft con uns label =
     \<lparr>lv_name = name, lv_offset = 0, lv_size = sz, lv_kind = k, lv_full_type = ft, lv_is_const = con,
      lv_is_unsigned = uns, lv_is_static = True, lv_static_label = label, lv_is_register = False\<rparr>"

definition first_child :: "ASTNode \<Rightarrow> ASTNode option" where
  "first_child n = (case children n of c # _ \<Rightarrow> c | [] \<Rightarrow> None)"

definition need_brace_list :: "string \<Rightarrow> bool \<Rightarrow> unit cg" where
  "need_brace_list name ok =
     require ok (''initializer for block-scope static '' @ quoted name @ '' must be a brace-enclosed constant list'')"

text \<open>Arrays and structures, with the sizes of the slot and of the object.\<close>

definition static_aggregate :: "ASTNode \<Rightarrow> string \<Rightarrow> type_ptr \<Rightarrow> int \<Rightarrow> unit cg" where
  "static_aggregate n name t slot_size = into static_label (\<lambda>label. on_cg (\<lambda>s.
     let k = decl_type (info n); ini = first_child n in
     push_static (static_var name slot_size k (Some t) (is_const (info n)) False label)
       \<lparr>sv_label = label, sv_kind = k, sv_full_type = Some t, sv_size = ty_size (node_of s t),
        sv_is_initialized = (ini \<noteq> None), sv_init_value = 0, sv_is_unsigned = False, sv_init_node = ini,
        sv_is_label_init = False, sv_init_label = None\<rparr>))"

definition is_type :: "ASTNodeType \<Rightarrow> ASTNode option \<Rightarrow> bool" where
  "is_type ty n = (case n of None \<Rightarrow> False | Some c \<Rightarrow> node_type c = ty)"

definition declare_static_array :: "ASTNode \<Rightarrow> string \<Rightarrow> type_ptr \<Rightarrow> unit cg" where
  "declare_static_array n name t = on_cg (\<lambda>s.
     let ini = first_child n; b = ty_base (node_of s t) in
     first (need_brace_list name (ini = None \<or> is_type AST_INITIALIZER_LIST ini \<or>
              (kind_at s b = Some TYPE_CHAR \<and> is_type AST_STRING_LITERAL ini)))
       (into (need b) (\<lambda>e. static_aggregate n name t (type_kind_bytes (ty_kind (node_of s e))))))"

definition incomplete_var :: "string \<Rightarrow> TypeKind \<Rightarrow> string" where
  "incomplete_var name k = ''variable '' @ quoted name @ '' has incomplete '' @ type_kind_name k @ '' type''"

definition declare_static_struct :: "ASTNode \<Rightarrow> string \<Rightarrow> type_ptr \<Rightarrow> unit cg" where
  "declare_static_struct n name t = on_cg (\<lambda>s.
     let ini = first_child n in
     first (require (ty_size (node_of s t) \<noteq> 0) (incomplete_var name (decl_type (info n))))
     (first (need_brace_list name (ini = None \<or> is_type AST_INITIALIZER_LIST ini))
       (static_aggregate n name t (ty_size (node_of s t)))))"

definition static_scalar_init :: "ASTNode \<Rightarrow> string \<Rightarrow> (int \<times> ASTNode option) cg" where
  "static_scalar_init n name =
     (if children n = [] then give (0, None)
      else into (kid 0 n) (\<lambda>c.
        if decl_type (info n) = TYPE_POINTER \<and> (node_type c = AST_VAR_REF \<or> node_type c = AST_ADDR_OF)
        then give (0, Some c)
        else into (eval_const_init name c) (\<lambda>v. give (v, None))))"

definition declare_static_scalar :: "ASTNode \<Rightarrow> string \<Rightarrow> unit cg" where
  "declare_static_scalar n name =
     (let k = decl_type (info n); uns = is_unsigned (info n); ft = full_type (info n); sz = type_kind_bytes k in
      into (static_scalar_init n name) (\<lambda>(v, a). into static_label (\<lambda>label.
        push_static (static_var name sz k ft (is_const (info n)) uns label)
          \<lparr>sv_label = label, sv_kind = k, sv_full_type = ft, sv_size = sz, sv_is_initialized = (children n \<noteq> []),
           sv_init_value = v, sv_is_unsigned = uns, sv_init_node = a, sv_is_label_init = (a \<noteq> None), sv_init_label = None\<rparr>)))"

definition declare_static :: "ASTNode \<Rightarrow> string \<Rightarrow> unit cg" where
  "declare_static n name =
     (let k = decl_type (info n) in
      case full_type (info n) of
        Some t \<Rightarrow> if k = TYPE_ARRAY then declare_static_array n name t
          else if is_struct_or_union_kind k then declare_static_struct n name t
          else declare_static_scalar n name
      | None \<Rightarrow> declare_static_scalar n name)"

subsection \<open>Declarations of automatic variables\<close>

definition add_local :: "ASTNode \<Rightarrow> string \<Rightarrow> int \<Rightarrow> int \<Rightarrow> bool \<Rightarrow> int cg" where
  "add_local n name sz al uns =
     into (codegen_add_var name sz al (decl_type (info n)) (full_type (info n))) (\<lambda>off.
       first (set_last_var (\<lambda>v. v\<lparr>lv_is_const := is_const (info n), lv_is_unsigned := uns,
           lv_is_register := (storage_class (info n) = SC_REGISTER)\<rparr>))
         (give off))"

definition init_union :: "cg_knot \<Rightarrow> string \<Rightarrow> type_ptr \<Rightarrow> int \<Rightarrow> ASTNode \<Rightarrow> unit cg" where
  "init_union K name t off lst = on_cg (\<lambda>s.
     first (require (child_count lst \<le> 1) (''too many initializers for union '' @ quoted name))
       (if child_count lst = 1 \<and> fields_at s t \<noteq> [] then into (kid 0 lst) (put_first_field K t off) else skip))"

definition init_struct_value :: "cg_knot \<Rightarrow> ASTNode \<Rightarrow> string \<Rightarrow> type_ptr \<Rightarrow> int \<Rightarrow> ASTNode \<Rightarrow> unit cg" where
  "init_struct_value K n name t off c = on_cg (\<lambda>s.
     let kn = type_kind_name (decl_type (info n)); sz = ty_size (node_of s t);
         different = ''incompatible '' @ kn @ '' types in initializer for '' @ quoted name in
     into (local_of_ref c) (\<lambda>src. case src of
       Some w \<Rightarrow>
         first (require (lv_kind w = decl_type (info n) \<and> lv_full_type w \<noteq> None)
             (kn @ '' initializer must be a '' @ kn @ '' variable''))
         (first (require (lv_full_type w = Some t) different)
           (copy_bytes (lv_offset w) off sz))
     | None \<Rightarrow> into (emit_struct_addr K c) (\<lambda>(st, _).
         first (require (st = Some t) different)
         (first (inss [''mov rsi, rax'', ''lea rdi, '' @ slot off])
           (emit_struct_copy sz)))))"

definition declare_struct :: "cg_knot \<Rightarrow> ASTNode \<Rightarrow> string \<Rightarrow> type_ptr \<Rightarrow> unit cg" where
  "declare_struct K n name t = on_cg (\<lambda>s.
     let k = decl_type (info n); sz = ty_size (node_of s t) in
     first (require (sz \<noteq> 0) (incomplete_var name k))
       (into (add_local n name sz (ty_align (node_of s t)) False) (\<lambda>off.
         if children n = [] then skip
         else into (kid 0 n) (\<lambda>c.
           if node_type c = AST_INITIALIZER_LIST then
             first (zero_fill off sz)
               (if k = TYPE_UNION then init_union K name t off c else emit_local_struct_init K t off c)
           else init_struct_value K n name t off c))))"

definition declare_array :: "cg_knot \<Rightarrow> ASTNode \<Rightarrow> string \<Rightarrow> unit cg" where
  "declare_array K n name = into (need (full_type (info n))) (\<lambda>t. on_cg (\<lambda>s.
     into (need (ty_base (node_of s t))) (\<lambda>e.
       let sz = ty_size (node_of s t) in
       into (add_local n name sz (ty_align (node_of s e)) False) (\<lambda>off.
         if children n = [] then skip
         else into (kid 0 n) (\<lambda>c.
           if node_type c = AST_INITIALIZER_LIST then
             first (zero_fill off sz) (local_array K (''too many initializers for array '' @ quoted name) t off c)
           else inss (map (\<lambda>i. ''mov byte '' @ slot (off - int i) @ '', '' @ show_int (padded_byte c i)) [0..<nat sz]))))))"

definition declare_fp :: "cg_knot \<Rightarrow> ASTNode \<Rightarrow> string \<Rightarrow> unit cg" where
  "declare_fp K n name =
     (let k = decl_type (info n) in
      into (add_local n name (type_kind_bytes k) (type_kind_bytes k) False) (\<lambda>off.
        if children n = [] then skip
        else into (eval_for K 0 n) (\<lambda>c.
          first (emit_fp_widen_if_needed (result_type (info c)) k) (emit_store_fp_local off k))))"

definition check_scalar_init :: "ASTNode \<Rightarrow> string \<Rightarrow> ASTNode \<Rightarrow> unit cg" where
  "check_scalar_init n name c =
     (let k = decl_type (info n); ik = result_type (info c); ft = full_type (info n); var = ''variable '' @ quoted name in
      if k = TYPE_POINTER \<and> is_null_pointer_constant c \<or> \<not> (k = TYPE_POINTER \<or> ik = TYPE_POINTER) then skip
      else first (require (k = TYPE_POINTER) (var @ '' assigning pointer to non pointer''))
        (first (require (ik = TYPE_POINTER) (var @ '' assigning non pointer to pointer''))
          (into (compare (\<lambda>h. pointer_types_assignable h ft (full_type (info c)))) (\<lambda>ok.
            first (require ok (var @ '' incompatible pointer type in initializer''))
              (on_cg (\<lambda>s. case (base_at s ft, base_at s (full_type (info c))) of
                 (Some b, Some r) \<Rightarrow>
                   cg_when (ty_const (node_of s r) \<and> \<not> ty_const (node_of s b)) (codegen_warn_const_discard ''initialization of'' name)
               | _ \<Rightarrow> skip))))))"

definition declare_scalar :: "cg_knot \<Rightarrow> ASTNode \<Rightarrow> string \<Rightarrow> unit cg" where
  "declare_scalar K n name =
     (let k = decl_type (info n); sz = type_kind_bytes k in
      into (add_local n name sz sz (is_unsigned (info n))) (\<lambda>off.
        if children n = [] then skip
        else into (eval_for K 0 n) (\<lambda>c.
          let rl = (wide_kind (result_type (info c)) \<or> (k = TYPE_POINTER \<and> is_null_pointer_constant c) \<or>
                    (sz = 8 \<and> is_unsigned (info c))) in
          first (check_scalar_init n name c)
          (first (cg_when (k = TYPE_BOOL) (emit_bool_normalize rl))
            (emit_store_local off sz rl)))))"

definition new_in_scope :: "string \<Rightarrow> unit cg" where
  "new_in_scope name = on_cg (\<lambda>s.
     require (\<forall>v \<in> set (drop (nat (scope_start s)) (locals s)). lv_name v \<noteq> name)
       (''duplicate declaration of variable '' @ quoted name))"

definition gen_declaration :: "cg_knot \<Rightarrow> ASTNode \<Rightarrow> unit cg" where
  "gen_declaration K n = into (value_text n) (\<lambda>name.
     first (new_in_scope name)
       (let k = decl_type (info n) in
        if storage_class (info n) = SC_STATIC then declare_static n name
        else case (is_struct_or_union_kind k, full_type (info n)) of
          (True, Some t) \<Rightarrow> declare_struct K n name t
        | _ \<Rightarrow>
            if k = TYPE_ARRAY then declare_array K n name
            else if type_is_fp k then declare_fp K n name
            else declare_scalar K n name))"

subsection \<open>\<^verbatim>\<open>return\<close>\<close>

definition restore_text :: "string list" where
  "restore_text = [''mov r12, [rbp - 16]'', ''mov r13, [rbp - 24]'', ''mov r14, [rbp - 32]'', ''mov r15, [rbp - 40]'',
     ''mov rbx, [rbp - 8]'', ''mov rsp, rbp'', ''pop rbp'']"

definition leave_function :: "unit cg" where
  "leave_function = on_cg (\<lambda>s. first (cg_when (has_frame s) (inss restore_text)) (ins ''ret''))"

definition return_struct :: "cg_knot \<Rightarrow> ASTNode \<Rightarrow> unit cg" where
  "return_struct K c = into (emit_struct_addr K c) (\<lambda>(st, _). on_cg (\<lambda>s.
     let sz = (case current_return_full_type s of Some t \<Rightarrow> ty_size (node_of s t) | None \<Rightarrow> type_size (cg_types s) st) in
     first
       (if sz > 16
        then first (inss [''mov rsi, rax'', ''mov rdi, '' @ slot (current_sret_offset s)])
          (first (emit_struct_copy sz) (ins (''mov rax, '' @ slot (current_sret_offset s))))
        else inss ([''mov r11, rax'', ''mov rax, [r11]''] @ (if sz > 8 then [''mov rdx, [r11 + 8]''] else [])))
       leave_function))"

definition check_returned_pointer :: "ASTNode \<Rightarrow> unit cg" where
  "check_returned_pointer c = on_cg (\<lambda>s.
     let t = full_type (info c); r = current_return_full_type s in
     into (compare (\<lambda>h. pointer_types_assignable h t r)) (\<lambda>a. if a then skip else
       into (compare (\<lambda>h. pointer_types_assignable h r t)) (\<lambda>b. if b then skip else
         into (compare (\<lambda>h. pointer_types_equal h t r)) (\<lambda>e.
           require e (''function '' @ quoted (current_func s) @ '' returning incorrect pointer type'')))))"

definition convert_returned :: "bool \<Rightarrow> ASTNode \<Rightarrow> unit cg" where
  "convert_returned null c = on_cg (\<lambda>s.
     let src = result_type (info c); dst = current_return_type s; fn = ''function '' @ quoted (current_func s) in
     if null then skip
     else if dst = TYPE_POINTER \<or> src = TYPE_POINTER then
       first (require (dst = TYPE_POINTER) (fn @ '' returning pointer from non pointer function''))
       (first (require (src = TYPE_POINTER) (fn @ '' returning non pointer; expected pointer''))
         (check_returned_pointer c))
     else emit_convert src dst)"

definition return_value :: "cg_knot \<Rightarrow> ASTNode \<Rightarrow> unit cg" where
  "return_value K n = on_cg (\<lambda>s.
     first (require (current_return_type s \<noteq> TYPE_VOID) (''void function '' @ quoted (current_func s) @ '' cannot return a value''))
       (into (kid 0 n) (\<lambda>c.
         first (require (\<not> (node_type c = AST_FUNCTION_CALL \<and> decl_type (info c) = TYPE_VOID))
             ''cannot use void function result as return value'')
           (if is_struct_or_union_kind (current_return_type s) then return_struct K c
            else into (k_expr K c) (\<lambda>e.
              first (convert_returned (current_return_type s = TYPE_POINTER \<and> is_null_pointer_constant c) e)
                leave_function)))))"

definition gen_return :: "cg_knot \<Rightarrow> ASTNode \<Rightarrow> unit cg" where
  "gen_return K n =
     (if children n = [] then on_cg (\<lambda>s.
        first (require (current_return_type s = TYPE_VOID)
            (''empty return statement in non-void function '' @ quoted (current_func s)))
          leave_function)
      else return_value K n)"

subsection \<open>Branches and loops\<close>

definition gen_if :: "cg_knot \<Rightarrow> ASTNode \<Rightarrow> unit cg list \<Rightarrow> unit cg" where
  "gen_if K n rs = into fresh_label (\<lambda>l. into (kid 0 n) (\<lambda>c.
     first (condition K c)
       (if child_count n = 3 then
          first (jump ''je'' ''else'' l)
          (first (nth_program rs 1)
          (first (jump ''jmp'' ''end'' l)
          (first (put_label ''else'' l)
          (first (nth_program rs 2)
            (put_label ''end'' l)))))
        else first (jump ''je'' ''end'' l) (first (nth_program rs 1) (put_label ''end'' l)))))"

definition push_break :: "int \<Rightarrow> int \<Rightarrow> unit cg" where
  "push_break b c = upd (\<lambda>s. s\<lparr>break_stack := break_stack s @ [\<lparr>break_label = b, continue_label = c\<rparr>],
     break_depth := break_depth s + 1\<rparr>)"

definition pop_break :: "unit cg" where
  "pop_break = upd (\<lambda>s. s\<lparr>break_stack := butlast (break_stack s), break_depth := break_depth s - 1\<rparr>)"

definition gen_while :: "cg_knot \<Rightarrow> ASTNode \<Rightarrow> unit cg list \<Rightarrow> unit cg" where
  "gen_while K n rs = into fresh_label (\<lambda>l.
     first (push_break l l)
     (first (put_label ''while_start'' l)
     (first (put_label ''continue'' l)
       (into (kid 0 n) (\<lambda>c.
         first (condition K c)
         (first (jump ''je'' ''while_end'' l)
         (first (nth_program rs 1)
         (first (jump ''jmp'' ''while_start'' l)
         (first (put_label ''while_end'' l)
         (first (put_label ''break'' l)
           pop_break))))))))))"

definition gen_do_while :: "cg_knot \<Rightarrow> ASTNode \<Rightarrow> unit cg list \<Rightarrow> unit cg" where
  "gen_do_while K n rs = into fresh_label (\<lambda>l.
     first (push_break l l)
     (first (put_label ''do_start'' l)
     (first (nth_program rs 0)
     (first (put_label ''continue'' l)
       (into (kid 1 n) (\<lambda>c.
         first (condition K c)
         (first (jump ''jne'' ''do_start'' l)
         (first (put_label ''do_end'' l)
         (first (put_label ''break'' l)
           pop_break)))))))))"

text \<open>A scope: the variables declared in it are forgotten at its end.\<close>

definition in_scope :: "unit cg \<Rightarrow> unit cg" where
  "in_scope m = on_cg (\<lambda>s0.
     first (upd (\<lambda>s. s\<lparr>scope_start := int (length (locals s))\<rparr>))
     (first m
       (upd (\<lambda>s. s\<lparr>locals := take (length (locals s0)) (locals s), scope_start := scope_start s0\<rparr>))))"

definition gen_for_init :: "cg_knot \<Rightarrow> ASTNode option \<Rightarrow> unit cg \<Rightarrow> unit cg" where
  "gen_for_init K c run =
     (case c of
        None \<Rightarrow> skip
      | Some e \<Rightarrow> if node_type e = AST_DECLARATION \<or> node_type e = AST_DECL_LIST then run
          else into (k_expr K e) (\<lambda>_. skip))"

definition gen_for :: "cg_knot \<Rightarrow> ASTNode \<Rightarrow> unit cg list \<Rightarrow> unit cg" where
  "gen_for K n rs = into fresh_label (\<lambda>l.
     first (push_break l l)
       (in_scope
         (into (opt_kid 0 n) (\<lambda>c0.
           first (gen_for_init K c0 (nth_program rs 0))
           (first (put_label ''for_start'' l)
             (into (opt_kid 1 n) (\<lambda>c1.
               first (case c1 of None \<Rightarrow> skip | Some c \<Rightarrow> first (condition K c) (jump ''je'' ''for_end'' l))
               (first (nth_program rs 3)
               (first (put_label ''continue'' l)
                 (into (opt_kid 2 n) (\<lambda>c2.
                   first (case c2 of None \<Rightarrow> skip | Some c \<Rightarrow> into (k_expr K c) (\<lambda>_. skip))
                   (first (jump ''jmp'' ''for_start'' l)
                   (first (put_label ''for_end'' l)
                   (first (put_label ''break'' l)
                     pop_break))))))))))))))"

subsection \<open>\<^verbatim>\<open>switch\<close>\<close>

definition dispatch_entry :: "bool \<Rightarrow> SwitchLabel \<Rightarrow> unit cg" where
  "dispatch_entry wide e =
     (if node_type (sl_node e) \<noteq> AST_CASE_SECTION then skip
      else into (kid 0 (sl_node e)) (\<lambda>v.
        let r = (if wide then ''rax'' else ''eax'') in
        first (inss [''mov '' @ r @ '', [rsp]'', ''cmp '' @ r @ '', '' @ literal_text v])
          (jump ''je'' ''switch_sec'' (sl_label e))))"

definition push_switch :: "SwitchCtx \<Rightarrow> unit cg" where
  "push_switch ctx = upd (\<lambda>s. s\<lparr>switch_stack := switch_stack s @ [ctx], cg_switch_depth := cg_switch_depth s + 1\<rparr>)"

definition pop_switch :: "unit cg" where
  "pop_switch = upd (\<lambda>s. s\<lparr>switch_stack := butlast (switch_stack s), cg_switch_depth := cg_switch_depth s - 1\<rparr>)"

definition gen_switch :: "cg_knot \<Rightarrow> path \<Rightarrow> ASTNode \<Rightarrow> unit cg list \<Rightarrow> unit cg" where
  "gen_switch K p n rs = into fresh_label (\<lambda>l. into (kid 1 n) (\<lambda>body.
     into (collect_switch_labels (p @ [1]) body \<lparr>sw_entries = [], sw_default = - 1\<rparr>) (\<lambda>ctx.
       first (push_switch ctx)
         (into (eval_for K 0 n) (\<lambda>c.
           first push_rax
           (first (all_in_turn (dispatch_entry (long_kind (result_type (info c)))) (sw_entries ctx))
           (first (if sw_default ctx \<noteq> - 1 then jump ''jmp'' ''switch_sec'' (sw_default ctx)
                   else jump ''jmp'' ''switch_end'' l)
           (first (push_break l (- 1))
           (first (nth_program rs 1)
           (first pop_switch
           (first pop_break
           (first (put_label ''switch_end'' l)
           (first (put_label ''break'' l)
           (first (ins ''add rsp, 8'')
             (add_depth (- 1))))))))))))))))"

definition switch_here :: "SwitchCtx cg" where
  "switch_here = on_cg (\<lambda>s.
     if 0 < cg_switch_depth s \<and> nat (cg_switch_depth s) \<le> length (switch_stack s)
     then give (switch_stack s ! (nat (cg_switch_depth s) - 1)) else halt BadAccess)"

definition gen_section :: "path \<Rightarrow> ASTNode \<Rightarrow> nat \<Rightarrow> unit cg list \<Rightarrow> unit cg" where
  "gen_section p n i rs = into switch_here (\<lambda>ctx.
     first (put_label ''switch_sec'' (switch_lookup_label ctx p))
       (if i < child_count n then nth_program rs i else skip))"

subsection \<open>Jumps and blocks\<close>

definition user_label :: "string \<Rightarrow> string \<Rightarrow> string" where
  "user_label func name = ''.L_usr_'' @ func @ ''_'' @ name"

definition gen_label :: "ASTNode \<Rightarrow> unit cg list \<Rightarrow> unit cg" where
  "gen_label n rs = on_cg (\<lambda>s.
     first (plain_line (user_label (current_func s) (name_of n) @ '':''))
       (if children n = [] then skip else nth_program rs 0))"

definition gen_goto :: "ASTNode \<Rightarrow> unit cg" where
  "gen_goto n = on_cg (\<lambda>s.
     first (require (user_label_defined s (name_of n))
         (''undefined label '' @ quoted (name_of n) @ '' in function '' @ quoted (current_func s)))
       (ins (''jmp '' @ user_label (current_func s) (name_of n))))"

definition frames_here :: "CodeGen \<Rightarrow> BreakFrame list" where
  "frames_here s = take (nat (break_depth s)) (break_stack s)"

definition gen_break :: "unit cg" where
  "gen_break = on_cg (\<lambda>s.
     if frames_here s = [] then halt BadAccess else jump ''jmp'' ''break'' (break_label (last (frames_here s))))"

definition innermost_loop :: "CodeGen \<Rightarrow> int" where
  "innermost_loop s =
     (case find (\<lambda>f. continue_label f \<noteq> - 1) (rev (frames_here s)) of Some f \<Rightarrow> continue_label f | None \<Rightarrow> - 1)"

definition gen_continue :: "unit cg" where
  "gen_continue = on_cg (\<lambda>s. jump ''jmp'' ''continue'' (innermost_loop s))"

definition run_all :: "unit cg list \<Rightarrow> unit cg" where
  "run_all rs = all_in_turn id rs"

definition statement_step :: "cg_knot \<Rightarrow> path \<Rightarrow> ASTNode \<Rightarrow> unit cg list \<Rightarrow> unit cg" where
  "statement_step K p n rs =
     first (cg_mark n)
     (first (emit_debug_line (src_file (info n)) (src_line (info n)))
       (case node_type n of
          AST_DECLARATION \<Rightarrow> gen_declaration K n
        | AST_DECL_LIST \<Rightarrow> run_all rs
        | AST_RETURN_STATEMENT \<Rightarrow> gen_return K n
        | AST_IF_STATEMENT \<Rightarrow> gen_if K n rs
        | AST_WHILE_STATEMENT \<Rightarrow> gen_while K n rs
        | AST_DO_WHILE_STATEMENT \<Rightarrow> gen_do_while K n rs
        | AST_FOR_STATEMENT \<Rightarrow> gen_for K n rs
        | AST_SWITCH_STATEMENT \<Rightarrow> gen_switch K p n rs
        | AST_CASE_SECTION \<Rightarrow> gen_section p n 1 rs
        | AST_DEFAULT_SECTION \<Rightarrow> gen_section p n 0 rs
        | AST_LABEL_STATEMENT \<Rightarrow> gen_label n rs
        | AST_GOTO_STATEMENT \<Rightarrow> gen_goto n
        | AST_BREAK_STATEMENT \<Rightarrow> gen_break
        | AST_CONTINUE_STATEMENT \<Rightarrow> gen_continue
        | AST_BLOCK \<Rightarrow> in_scope (run_all rs)
        | AST_EXPRESSION_STMT \<Rightarrow> into (eval_for K 0 n) (\<lambda>_. skip)
        | _ \<Rightarrow> skip))"

fun codegen_statement :: "cg_knot \<Rightarrow> path \<Rightarrow> ASTNode \<Rightarrow> unit cg"
and child_statements :: "cg_knot \<Rightarrow> path \<Rightarrow> nat \<Rightarrow> ASTNode option list \<Rightarrow> unit cg list" where
  "codegen_statement K p (Node i cs) = statement_step K p (Node i cs) (child_statements K p 0 cs)"
| "child_statements K p k [] = []"
| "child_statements K p k (None # cs) = halt BadAccess # child_statements K p (Suc k) cs"
| "child_statements K p k (Some c # cs) = codegen_statement K (p @ [k]) c # child_statements K p (Suc k) cs"

end
