(* ===== verification/Codegen_Unit.thy ===== *)
theory Codegen_Unit
  imports Codegen_Stmt
begin

section \<open>Functions and translation units: \<^verbatim>\<open>src/codegen.c\<close> lines 6532 to 6965 and 8154 to 8190\<close>

subsection \<open>The frame\<close>

definition fn_params :: "ASTNode \<Rightarrow> ASTNode list" where
  "fn_params fn = map the (take (count_params (Some fn)) (children fn))"

definition param_own_bytes :: "type_heap \<Rightarrow> ASTNode \<Rightarrow> int" where
  "param_own_bytes h p =
     (case full_type (info p) of
        Some t \<Rightarrow> if is_struct_or_union_kind (decl_type (info p)) then align_up (ty_size (h ! t)) 8 else 8
      | None \<Rightarrow> 8)"

text \<open>Every addition is one of \<^verbatim>\<open>int\<close>s; wrapping the sum once gives the same value.\<close>

definition frame_size :: "CodeGen \<Rightarrow> ASTNode \<Rightarrow> ASTNode \<Rightarrow> int" where
  "frame_size s fn body =
     (let h = cg_types s;
          sz = wrap32 (sum_list (map (param_own_bytes h) (fn_params fn)) + compute_decl_bytes h body +
                 compute_compound_literal_bytes h body + compute_struct_ret_bytes s body +
                 (if return_is_memory_struct h (Some fn) then 8 else 0) + 40 +
                 (if is_variadic (info fn) then 8 + 176 else 0))
      in if sz mod 16 \<noteq> 0 then align_up sz 16 else sz)"

definition start_function :: "ASTNode \<Rightarrow> string \<Rightarrow> unit cg" where
  "start_function fn name = upd (\<lambda>s. s\<lparr>locals := [], stack_offset := 40, scope_start := 0, push_depth := 0, user_labels := [],
     current_func := name, current_return_type := decl_type (info fn),
     current_return_full_type :=
       (if decl_type (info fn) = TYPE_POINTER \<or> is_struct_or_union_kind (decl_type (info fn)) then full_type (info fn) else None),
     current_sret_offset := 0\<rparr>)"

definition save_text :: "string list" where
  "save_text = [''mov [rbp - 8], rbx'', ''mov [rbp - 16], r12'', ''mov [rbp - 24], r13'', ''mov [rbp - 32], r14'',
     ''mov [rbp - 40], r15'']"

definition prologue :: "ASTNode \<Rightarrow> string \<Rightarrow> int \<Rightarrow> unit cg" where
  "prologue fn name sz =
     first (emit_debug_line (src_file (info fn)) (src_line (info fn)))
     (first (cg_when (storage_class (info fn) \<noteq> SC_STATIC) (plain_line (''global '' @ name)))
     (first (plain_line (name @ '':''))
     (first (upd (\<lambda>s. s\<lparr>has_frame := True\<rparr>))
       (inss ([''push rbp'', ''mov rbp, rsp''] @ (if sz > 0 then [''sub rsp, '' @ show_int sz] else []) @ save_text)))))"

text \<open>The register save area of a variadic function.\<close>

definition count_fp :: "ASTNode list \<Rightarrow> int" where
  "count_fp ps = int (length (filter (\<lambda>p. type_is_fp (decl_type (info p))) ps))"

definition save_area_text :: "int \<Rightarrow> string list" where
  "save_area_text rso =
     map (\<lambda>(i, r). ''mov '' @ slot (rso - 8 * int i) @ '', '' @ r) (zip [0..<6] arg_regs) @
     map (\<lambda>i. ''movaps '' @ slot (rso - 48 - 16 * int i) @ '', xmm'' @ show_nat i) [0..<8]"

definition variadic_area :: "ASTNode \<Rightarrow> unit cg" where
  "variadic_area fn =
     (if is_variadic (info fn) then on_cg (\<lambda>s.
        let xmms = count_fp (fn_params fn); gps = int (length (fn_params fn)) - xmms;
            off = (if stack_offset s mod 16 \<noteq> 0 then align_up (stack_offset s) 16 else stack_offset s);
            rso = wrap32 (off + 176) in
        first (upd (\<lambda>s. s\<lparr>stack_offset := rso, variadic_reg_save_offset := rso, variadic_named_gp_params := min gps 6,
            variadic_named_xmm_params := min xmms 8, variadic_named_stack_params := max (gps - 6) 0\<rparr>))
          (inss (save_area_text rso)))
      else upd (\<lambda>s. s\<lparr>variadic_reg_save_offset := 0, variadic_named_gp_params := 0, variadic_named_xmm_params := 0,
             variadic_named_stack_params := 0\<rparr>))"

definition result_area :: "ASTNode \<Rightarrow> int \<Rightarrow> unit cg" where
  "result_area fn scratch =
     first (upd (\<lambda>s. s\<lparr>struct_ret_scratch_cursor := stack_offset s\<rparr>))
     (first (cg_when (scratch > 0) (upd (\<lambda>s. s\<lparr>stack_offset := wrap32 (stack_offset s + scratch)\<rparr>)))
       (on_cg (\<lambda>s.
         if return_is_memory_struct (cg_types s) (Some fn)
         then let off = wrap32 (stack_offset s + 8) in
           first (upd (\<lambda>s. s\<lparr>stack_offset := off, current_sret_offset := off\<rparr>)) (ins (''mov '' @ slot off @ '', rdi''))
         else skip)))"

text \<open>\<^verbatim>\<open>__func__\<close>.\<close>

definition func_name_var :: "string \<Rightarrow> unit cg" where
  "func_name_var name =
     into fresh_label (\<lambda>l. into (codegen_intern (static_label_text name ''___func__'' l)) (\<lambda>label.
       let len = int (length name) + 1; str = with_info (\<lambda>i. i\<lparr>byte_length := len\<rparr>) (ast_new AST_STRING_LITERAL (Some name)) in
       into (cg_type (\<lambda>h. type_array h type_char len)) (\<lambda>t.
         push_static (static_var ''__func__'' 8 TYPE_ARRAY (Some t) True False label)
           \<lparr>sv_label = label, sv_kind = TYPE_ARRAY, sv_full_type = Some t, sv_size = len, sv_is_initialized = True,
            sv_init_value = 0, sv_is_unsigned = False, sv_init_node = Some str, sv_is_label_init = False,
            sv_init_label = None\<rparr>)))"

subsection \<open>Parameters\<close>

definition add_param :: "ASTNode \<Rightarrow> int \<Rightarrow> int \<Rightarrow> bool \<Rightarrow> int cg" where
  "add_param p sz al uns =
     into (codegen_add_var (name_of p) sz al (decl_type (info p)) (full_type (info p))) (\<lambda>off.
       first (set_last_var (\<lambda>v. v\<lparr>lv_is_unsigned := uns\<rparr>)) (give off))"

definition scalar_param :: "ASTNode \<Rightarrow> int cg" where
  "scalar_param p = (let sz = type_kind_bytes (decl_type (info p)) in add_param p sz sz (is_unsigned (info p)))"

text \<open>An unnamed parameter is not bound.\<close>

definition if_named :: "ASTNode \<Rightarrow> unit cg \<Rightarrow> unit cg" where
  "if_named p m = into (value_text p) (\<lambda>name. if name = [] then skip else m)"

definition bind_register :: "ASTNode \<Rightarrow> nat \<Rightarrow> unit cg" where
  "bind_register p r = into (scalar_param p) (\<lambda>off.
     ins (''mov '' @ slot off @ '', '' @ param_reg (type_kind_bytes (decl_type (info p))) r))"

definition bind_stack :: "ASTNode \<Rightarrow> int \<Rightarrow> unit cg" where
  "bind_stack p src =
     (let sz = type_kind_bytes (decl_type (info p)) in
      into (scalar_param p) (\<lambda>off.
        first (ins (load_text (arg_slot src) sz (is_unsigned (info p))))
          (emit_store_local off sz (sz = 8))))"

definition bind_plain :: "nat \<times> ASTNode \<Rightarrow> unit cg" where
  "bind_plain ip = (case ip of (i, p) \<Rightarrow> if_named p (if i < 6 then bind_register p i else bind_stack p (16 + (int i - 6) * 8)))"

definition struct_param :: "ASTNode \<Rightarrow> (int \<times> int) cg" where
  "struct_param p = into (need (full_type (info p))) (\<lambda>t. on_cg (\<lambda>s.
     let sz = ty_size (node_of s t); al = ty_align (node_of s t) in
     into (add_param p (align_up sz 8) (if al < 8 then 8 else al) False) (\<lambda>off. give (sz, off))))"

definition fp_param :: "ASTNode \<Rightarrow> int cg" where
  "fp_param p = (let sz = type_kind_bytes (decl_type (info p)) in add_param p sz sz False)"

text \<open>The first pass binds what came in registers, the second what lies on the stack.\<close>

definition bind_from_register :: "ASTNode \<times> ArgSlot \<Rightarrow> unit cg" where
  "bind_from_register pa =
     (case pa of (p, a) \<Rightarrow> if_named p
        (if slot_mem a then skip
         else if is_struct_or_union_kind (decl_type (info p)) then
           into (struct_param p) (\<lambda>(_, off).
             inss ((''mov '' @ slot off @ '', '' @ arg_regs ! nat (gp_start a)) #
               (if gp_count a = 2 then [''mov '' @ slot (off - 8) @ '', '' @ arg_regs ! nat (gp_start a + 1)] else [])))
         else if xmm_idx a \<ge> 0 then
           into (fp_param p) (\<lambda>off. ins (fp_mov (decl_type (info p)) @ slot off @ '', xmm'' @ show_int (xmm_idx a)))
         else bind_register p (nat (gp_start a))))"

definition bind_from_stack :: "ASTNode \<times> ArgSlot \<Rightarrow> unit cg" where
  "bind_from_stack pa =
     (case pa of (p, a) \<Rightarrow> if_named p
        (let src = 16 + slot_stack_off a; k = decl_type (info p) in
         if \<not> slot_mem a then skip
         else if is_struct_or_union_kind k then
           into (struct_param p) (\<lambda>(sz, off).
             first (inss [''lea rsi, '' @ arg_slot src, ''lea rdi, '' @ slot off]) (emit_struct_copy sz))
         else if type_is_fp k then
           into (fp_param p) (\<lambda>off. inss [fp_mov k @ ''xmm0, '' @ arg_slot src, fp_mov k @ slot off @ '', xmm0''])
         else bind_stack p src))"

definition needs_layout :: "type_heap \<Rightarrow> ASTNode \<Rightarrow> bool" where
  "needs_layout h fn \<longleftrightarrow> return_is_memory_struct h (Some fn) \<or>
     list_ex (\<lambda>p. is_struct_or_union_kind (decl_type (info p)) \<or> type_is_fp (decl_type (info p))) (fn_params fn)"

definition bind_params :: "ASTNode \<Rightarrow> unit cg" where
  "bind_params fn = on_cg (\<lambda>s.
     let ps = fn_params fn in
     if \<not> needs_layout (cg_types s) fn then all_in_turn bind_plain (zip [0..<length ps] ps)
     else into (compute_call_layout (Some fn) (length ps) None None) (\<lambda>L.
       first (all_in_turn bind_from_register (zip ps (items L)))
         (all_in_turn bind_from_stack (zip ps (items L)))))"

subsection \<open>\<^verbatim>\<open>codegen_function\<close>\<close>

definition ends_with_return :: "ASTNode \<Rightarrow> bool" where
  "ends_with_return body \<longleftrightarrow> children body \<noteq> [] \<and> is_type AST_RETURN_STATEMENT (last (children body))"

definition implicit_return :: "ASTNode \<Rightarrow> string \<Rightarrow> ASTNode \<Rightarrow> unit cg" where
  "implicit_return fn name body =
     cg_when ((decl_type (info fn) = TYPE_VOID \<or> name = ''main'') \<and> \<not> ends_with_return body)
       (inss ((if name = ''main'' then [''mov eax, 0''] else []) @ restore_text @ [''ret'']))"

definition gen_function_body :: "cg_knot \<Rightarrow> ASTNode \<Rightarrow> string \<Rightarrow> ASTNode \<Rightarrow> unit cg" where
  "gen_function_body K fn name body =
     first (start_function fn name)
     (first (collect_user_labels body)
       (on_cg (\<lambda>s.
         first (prologue fn name (frame_size s fn body))
         (first (variadic_area fn)
         (first (result_area fn (compute_struct_ret_bytes s body))
         (first (func_name_var name)
         (first (bind_params fn)
           (into (scan_expr_compound_literals body) (\<lambda>body.
             first (run_all (child_statements K [] 0 (children body)))
               (implicit_return fn name body)))))))))) "

definition codegen_function :: "cg_knot \<Rightarrow> ASTNode \<Rightarrow> unit cg" where
  "codegen_function K fn =
     (if node_type fn \<noteq> AST_FUNCTION_DECL then skip
      else into (value_text fn) (\<lambda>name.
        if count_params (Some fn) = child_count fn then skip
        else into (kid (count_params (Some fn)) fn) (gen_function_body K fn name)))"

subsection \<open>\<^verbatim>\<open>codegen_translation_unit\<close>\<close>

definition on_child :: "(ASTNode \<Rightarrow> unit cg) \<Rightarrow> ASTNode option \<Rightarrow> unit cg" where
  "on_child f c = into (need c) f"

definition register_globals :: "ASTNode \<Rightarrow> unit cg" where
  "register_globals c =
     (if node_type c = AST_DECLARATION then codegen_add_global c
      else if node_type c = AST_DECL_LIST then all_in_turn (on_child codegen_add_global) (children c)
      else skip)"

definition stack_note :: string where
  "stack_note = LF # ''section .note.GNU-stack noalloc noexec nowrite progbits''"

text \<open>The expressions of a tree are not nested deeper than the tree, which bounds the calls of the knot.\<close>

definition codegen_translation_unit :: "ASTNode \<Rightarrow> unit cg" where
  "codegen_translation_unit n =
     (let unit = (node_type n = AST_TRANSLATION_UNIT); K = expr_knot (nesting n) in
      first (upd (\<lambda>s. s\<lparr>tu_root := Some n\<rparr>))
      (first (cg_when unit
         (first (all_in_turn (on_child register_globals) (children n)) (first codegen_emit_data codegen_emit_bss)))
      (first (plain_line ''section .text'')
      (first (cg_when unit
         (first (codegen_emit_externs n) (all_in_turn (on_child (codegen_function K)) (children n))))
      (first codegen_emit_string_pool
      (first codegen_emit_fp_literals
      (first codegen_emit_local_statics
        (plain_line stack_note))))))))"

end
