(* ===== verification/Compile.thy ===== *)
theory Compile
  imports Driver Ast_Print Parser_Decl Optimize Peephole Codegen_Unit
begin

section \<open>One file from source to assembly: \<^verbatim>\<open>compile_one_file\<close> and \<^verbatim>\<open>main\<close> in \<^verbatim>\<open>src/compiler.c\<close>\<close>

text \<open>
  The composition of all parts. A file ends with a status, what it printed and the file it wrote,
  or it ends the process: after an error message, or in a fault of one of the parts. What the
  compiler knows of its surroundings are the readable files, the files it can create, the text of
  date and time, the room on the stack for nested macro calls, the floating-point arithmetic and
  the rubbish in fresh stack frames. The readable files do not change while the process runs.
\<close>

record 'd surroundings =
  readable :: files
  creatable :: "string \<Rightarrow> bool"
  stack_room :: nat
  date_text :: string
  time_text :: string
  fp_arith :: "'d fp_ops"
  rubbish :: bool

text \<open>How the process ends in the middle of a file. \<open>Errors\<close> is \<^verbatim>\<open>exit(1)\<close> behind the messages in the state.\<close>

datatype process_end =
    Input driver_error
  | Errors error_state
  | ParserFault parse_error
  | OptimizerFault
  | PrinterFault
  | GeneratorFault cg_end
  | PeepholeFault

datatype file_end = Returned int string "(string \<times> string) option" error_state | Stopped process_end

text \<open>Everything from the finished tree on: the dump, or the text of the output file.\<close>

definition generated :: "'d surroundings \<Rightarrow> driver_options \<Rightarrow> ASTNode \<Rightarrow> Parser \<Rightarrow> error_state \<Rightarrow> cg_end + (string \<times> error_state)" where
  "generated E opts ast p st =
     (case codegen_translation_unit ast
        ((codegen_init (types p) (field_tables p) st (rubbish E))
          \<lparr>cg_warnings_are_errors := warnings_are_errors opts, cg_emit_debug := emit_debug opts\<rparr>) of
        Inl e \<Rightarrow> Inl e
      | Inr (_, s) \<Rightarrow> Inr (asm_text s, diag s))"

definition finish_file :: "driver_options \<Rightarrow> string \<Rightarrow> string \<Rightarrow> string \<Rightarrow> error_state \<Rightarrow> file_end" where
  "finish_file opts source_file path asm st =
     (let r = (if opt_level opts \<ge> 2 then peephole_run_file asm peephole_builtin_patterns else Some asm) in
      case r of
        None \<Rightarrow> Stopped PeepholeFault
      | Some text \<Rightarrow>
          Returned 0 (if g_verbose st then ''compiled: '' @ source_file @ '' -> '' @ path @ [LF] else []) (Some (path, text)) st)"

definition back_end :: "'d surroundings \<Rightarrow> driver_options \<Rightarrow> string \<Rightarrow> ASTNode \<Rightarrow> Parser \<Rightarrow> error_state \<Rightarrow> file_end" where
  "back_end E opts source_file ast p st =
     (if print_ast opts then
        (case ast_pretty_print (types p) (Some ast) 0 of
           None \<Rightarrow> Stopped PrinterFault
         | Some text \<Rightarrow> Returned 0 text None st)
      else let path = make_output_path 512 source_file in
        if \<not> creatable E path then
          Returned 1 [] None (eprint (''error: could not create '' @ quoted path @ [LF]) st)
        else
          (case generated E opts ast p st of
             Inl (Refused st') \<Rightarrow> Stopped (Errors st')
           | Inl e \<Rightarrow> Stopped (GeneratorFault e)
           | Inr (asm, st') \<Rightarrow> finish_file opts source_file path asm st'))"

definition compile_one_file :: "'d surroundings \<Rightarrow> driver_options \<Rightarrow> string \<Rightarrow> error_state \<Rightarrow> file_end" where
  "compile_one_file E opts source_file st =
     (case read_file (readable E) source_file of
        Inl e \<Rightarrow> Stopped (Input (CannotRead e))
      | Inr src \<Rightarrow>
          (case preprocess_with_defines_and_includes (readable E) (stack_room E) (date_text E) (time_text E) src
             (Some source_file) (macro_defines opts) (include_dirs opts) (\<not> print_tokens opts) of
             Inl e \<Rightarrow> Stopped (Input (PreprocessError e))
           | Inr preprocessed \<Rightarrow>
               if print_tokens opts then
                 (case print_tokens_mode preprocessed source_file of
                    Inl e \<Rightarrow> Stopped (Input (TokenError e))
                  | Inr rows \<Rightarrow> Returned 0 rows None st)
               else
                 (case front_end (fp_arith E) preprocessed (Some source_file) st of
                    Broken (Lexical e) \<Rightarrow> Stopped (Input (TokenError e))
                  | Broken e \<Rightarrow> Stopped (ParserFault e)
                  | Ended st' \<Rightarrow> Stopped (Errors st')
                  | outcome.Parsed ast p st' \<Rightarrow>
                      if g_error_count st' > 0 then Returned 1 [] None st'
                      else
                        (case optimize_translation_unit (types p) ast (nat (opt_level opts)) of
                           None \<Rightarrow> Stopped OptimizerFault
                         | Some ast' \<Rightarrow> back_end E opts source_file ast' p st'))))"

subsection \<open>All files\<close>

text \<open>
  The loop of \<^verbatim>\<open>main\<close>: the status is 1 if some file had one; a file that ends the process is the
  last. The result has what was printed and the files written up to then.
\<close>

datatype run_end = Finished int error_state | Aborted process_end

fun compile_files ::
  "'d surroundings \<Rightarrow> driver_options \<Rightarrow> string list \<Rightarrow> int \<Rightarrow> error_state \<Rightarrow> string \<times> (string \<times> string) list \<times> run_end" where
  "compile_files E opts [] status st = ([], [], Finished status st)"
| "compile_files E opts (f # fs) status st =
     (case compile_one_file E opts f (reset_error_state st) of
        Stopped e \<Rightarrow> ([], [], Aborted e)
      | Returned r printed written st' \<Rightarrow>
          (case compile_files E opts fs (if r \<noteq> 0 then 1 else status) st' of
             (ps, ws, e) \<Rightarrow> (printed @ ps, (case written of None \<Rightarrow> ws | Some w \<Rightarrow> w # ws), e)))"

datatype main_end = Usage int string string | Ran string "(string \<times> string) list" run_end

definition main_program :: "'d surroundings \<Rightarrow> string \<Rightarrow> string list \<Rightarrow> main_end" where
  "main_program E version args =
     (case command_line version args of
        Quit status out_text err_text \<Rightarrow> Usage status out_text err_text
      | arg_result.Parsed opts \<Rightarrow> (case compile_files E opts (source_files opts) 0 (globals opts) of (ps, ws, e) \<Rightarrow> Ran ps ws e))"

end
