(* ===== verification/Codegen_Machine.thy ===== *)
theory Codegen_Machine
  imports Codegen_Expr "HOL-Library.Word"
begin

unbundle bit_operations_syntax

section \<open>A machine for the code of expressions\<close>

text \<open>
  The instructions that the code generator writes for expressions over signed integers, with the
  line each is written as, and what they do, as the manuals of the processor describe it: a 32-bit
  result clears the upper half of its register; \<open>cmp\<close> remembers the two values for a later condition;
  other arithmetic leaves the flags in a state no condition may be asked about; a division by zero
  or with a quotient that does not fit faults. The slots of the frame are bytes, addressed by
  their distance below \<^verbatim>\<open>rbp\<close>; what is pushed lies below the frame and is a list.
\<close>

datatype reg = RAX | RCX | RDX

datatype cond = IsE | IsNE | IsL | IsLE | IsG | IsGE

datatype alu = IAdd | ISub | IImul | IAnd | IOr | IXor

datatype instr =
    MovImm bool int
  | MovReg bool reg reg
  | Load int int
  | Store bool int
  | Movsxd
  | Movsx bool
  | Alu alu bool reg reg
  | Step_By bool
  | NegR bool
  | NotR bool
  | CmpZero bool
  | CmpRegs bool
  | SetIf cond
  | Movzx
  | Push
  | Pop
  | Xchg bool
  | Cdq bool
  | Idiv bool
  | Shl bool
  | Sar bool
  | JumpIf cond string int
  | Jmp string int
  | Label string int

fun reg_name :: "bool \<Rightarrow> reg \<Rightarrow> string" where
  "reg_name w RAX = (if w then ''rax'' else ''eax'')"
| "reg_name w RCX = (if w then ''rcx'' else ''ecx'')"
| "reg_name w RDX = (if w then ''rdx'' else ''edx'')"

fun cond_name :: "cond \<Rightarrow> string" where
  "cond_name IsE = ''e''"
| "cond_name IsNE = ''ne''"
| "cond_name IsL = ''l''"
| "cond_name IsLE = ''le''"
| "cond_name IsG = ''g''"
| "cond_name IsGE = ''ge''"

fun alu_name :: "alu \<Rightarrow> string" where
  "alu_name IAdd = ''add''"
| "alu_name ISub = ''sub''"
| "alu_name IImul = ''imul''"
| "alu_name IAnd = ''and''"
| "alu_name IOr = ''or''"
| "alu_name IXor = ''xor''"

fun asm_line :: "instr \<Rightarrow> string" where
  "asm_line (MovImm w v) = ''    mov '' @ reg_name w RAX @ '', '' @ show_int v"
| "asm_line (MovReg w d s) = ''    mov '' @ reg_name w d @ '', '' @ reg_name w s"
| "asm_line (Load sz off) = ''    '' @ load_text (slot off) sz False"
| "asm_line (Store w off) = ''    mov '' @ slot off @ '', '' @ reg_name w RAX"
| "asm_line Movsxd = ''    movsxd rax, eax''"
| "asm_line (Movsx b) = ''    movsx eax, '' @ (if b then ''al'' else ''ax'')"
| "asm_line (Alu f w d s) = ''    '' @ alu_name f @ '' '' @ reg_name w d @ '', '' @ reg_name w s"
| "asm_line (Step_By up) = ''    '' @ (if up then ''add'' else ''sub'') @ '' eax, 1''"
| "asm_line (NegR w) = ''    neg '' @ reg_name w RAX"
| "asm_line (NotR w) = ''    not '' @ reg_name w RAX"
| "asm_line (CmpZero w) = ''    cmp '' @ reg_name w RAX @ '', 0''"
| "asm_line (CmpRegs w) = ''    cmp '' @ reg_name w RCX @ '', '' @ reg_name w RAX"
| "asm_line (SetIf c) = ''    set'' @ cond_name c @ '' al''"
| "asm_line Movzx = ''    movzx eax, al''"
| "asm_line Push = ''    push rax''"
| "asm_line Pop = ''    pop rcx''"
| "asm_line (Xchg w) = ''    xchg '' @ reg_name w RAX @ '', '' @ reg_name w RCX"
| "asm_line (Cdq w) = (if w then ''    cqo'' else ''    cdq'')"
| "asm_line (Idiv w) = ''    idiv '' @ reg_name w RCX"
| "asm_line (Shl w) = ''    shl '' @ reg_name w RAX @ '', cl''"
| "asm_line (Sar w) = ''    sar '' @ reg_name w RAX @ '', cl''"
| "asm_line (JumpIf c stem l) = ''    j'' @ cond_name c @ '' '' @ lab stem l"
| "asm_line (Jmp stem l) = ''    jmp '' @ lab stem l"
| "asm_line (Label stem l) = lab stem l @ '':''"

definition code_text :: "instr list \<Rightarrow> string" where
  "code_text is = concat (map (\<lambda>i. asm_line i @ [LF]) is)"

subsection \<open>Registers, memory and flags\<close>

record mach =
  regs :: "reg \<Rightarrow> 64 word"
  flags :: "(int \<times> int) option"
  frame :: "int \<Rightarrow> 8 word"
  pushed :: "64 word list"

text \<open>A register is read as a signed number; what is written is taken modulo the width.\<close>

definition read_reg :: "bool \<Rightarrow> reg \<Rightarrow> mach \<Rightarrow> int" where
  "read_reg w r m = (if w then sint (regs m r) else sint (ucast (regs m r) :: 32 word))"

definition write_reg :: "bool \<Rightarrow> reg \<Rightarrow> int \<Rightarrow> mach \<Rightarrow> mach" where
  "write_reg w r v m =
     m\<lparr>regs := (regs m)(r := (if w then word_of_int v else ucast (word_of_int v :: 32 word)))\<rparr>"

text \<open>The lowest byte of a number is at the highest distance: \<open>n\<close> bytes from \<open>rbp - off\<close> on.\<close>

definition read_frame :: "nat \<Rightarrow> int \<Rightarrow> mach \<Rightarrow> int" where
  "read_frame n off m = signed_take_bit (8 * n - 1) (\<Sum>k<n. uint (frame m (off - int k)) * 256 ^ k)"

definition write_frame :: "nat \<Rightarrow> int \<Rightarrow> int \<Rightarrow> mach \<Rightarrow> mach" where
  "write_frame n off v m =
     m\<lparr>frame := (\<lambda>a. if off - int n < a \<and> a \<le> off then word_of_int (v div 256 ^ nat (off - a)) else frame m a)\<rparr>"

fun holds :: "cond \<Rightarrow> int \<Rightarrow> int \<Rightarrow> bool" where
  "holds IsE a b = (a = b)"
| "holds IsNE a b = (a \<noteq> b)"
| "holds IsL a b = (a < b)"
| "holds IsLE a b = (a \<le> b)"
| "holds IsG a b = (a > b)"
| "holds IsGE a b = (a \<ge> b)"

fun alu_result :: "alu \<Rightarrow> int \<Rightarrow> int \<Rightarrow> int" where
  "alu_result IAdd a b = a + b"
| "alu_result ISub a b = a - b"
| "alu_result IImul a b = a * b"
| "alu_result IAnd a b = a AND b"
| "alu_result IOr a b = a OR b"
| "alu_result IXor a b = a XOR b"

definition spoil :: "mach \<Rightarrow> mach" where
  "spoil m = m\<lparr>flags := None\<rparr>"

text \<open>The count of a shift is the lowest five or six bits of \<^verbatim>\<open>cl\<close>.\<close>

definition shift_by :: "bool \<Rightarrow> mach \<Rightarrow> nat" where
  "shift_by w m = nat (read_reg False RCX m mod (if w then 64 else 32))"

text \<open>The dividend is \<^verbatim>\<open>rdx:rax\<close> or \<^verbatim>\<open>edx:eax\<close>.\<close>

definition bits_of :: "bool \<Rightarrow> nat" where
  "bits_of w = (if w then 64 else 32)"

definition signed_fits :: "bool \<Rightarrow> int \<Rightarrow> bool" where
  "signed_fits w v \<longleftrightarrow> - (2 ^ (bits_of w - 1)) \<le> v \<and> v < 2 ^ (bits_of w - 1)"

definition divide :: "bool \<Rightarrow> mach \<Rightarrow> mach option" where
  "divide w m =
     (let d = read_reg w RDX m * 2 ^ bits_of w + read_reg w RAX m mod 2 ^ bits_of w; c = read_reg w RCX m in
      if c = 0 \<or> \<not> signed_fits w (d sdiv c) then None
      else Some (spoil (write_reg w RAX (d sdiv c) (write_reg w RDX (d smod c) m))))"

definition load_bytes :: "int \<Rightarrow> nat" where
  "load_bytes sz = (if sz = 1 then 1 else if sz = 2 then 2 else if sz = 8 then 8 else 4)"

fun step :: "instr \<Rightarrow> mach \<Rightarrow> mach option" where
  "step (MovImm w v) m = Some (write_reg w RAX v m)"
| "step (MovReg w d s) m = Some (write_reg w d (read_reg w s m) m)"
| "step (Load sz off) m = Some (write_reg (sz = 8) RAX (read_frame (load_bytes sz) off m) m)"
| "step (Store w off) m = Some (write_frame (if w then 8 else 4) off (read_reg w RAX m) m)"
| "step Movsxd m = Some (write_reg True RAX (read_reg False RAX m) m)"
| "step (Movsx b) m = Some (write_reg False RAX (signed_take_bit (if b then 7 else 15) (read_reg False RAX m)) m)"
| "step (Alu f w d s) m = Some (spoil (write_reg w d (alu_result f (read_reg w d m) (read_reg w s m)) m))"
| "step (Step_By up) m = Some (spoil (write_reg False RAX (read_reg False RAX m + (if up then 1 else - 1)) m))"
| "step (NegR w) m = Some (spoil (write_reg w RAX (- read_reg w RAX m) m))"
| "step (NotR w) m = Some (write_reg w RAX (NOT (read_reg w RAX m)) m)"
| "step (CmpZero w) m = Some (m\<lparr>flags := Some (read_reg w RAX m, 0)\<rparr>)"
| "step (CmpRegs w) m = Some (m\<lparr>flags := Some (read_reg w RCX m, read_reg w RAX m)\<rparr>)"
| "step (SetIf c) m =
     (case flags m of None \<Rightarrow> None
      | Some (a, b) \<Rightarrow> Some (write_reg True RAX (read_reg True RAX m - read_reg True RAX m mod 256 + of_bool (holds c a b)) m))"
| "step Movzx m = Some (write_reg False RAX (read_reg True RAX m mod 256) m)"
| "step Push m = Some (m\<lparr>pushed := regs m RAX # pushed m\<rparr>)"
| "step Pop m = (case pushed m of [] \<Rightarrow> None | w # ws \<Rightarrow> Some (m\<lparr>pushed := ws, regs := (regs m)(RCX := w)\<rparr>))"
| "step (Xchg w) m = Some (write_reg w RAX (read_reg w RCX m) (write_reg w RCX (read_reg w RAX m) m))"
| "step (Cdq w) m = Some (write_reg w RDX (if read_reg w RAX m < 0 then - 1 else 0) m)"
| "step (Idiv w) m = divide w m"
| "step (Shl w) m = Some (spoil (write_reg w RAX (read_reg w RAX m * 2 ^ shift_by w m) m))"
| "step (Sar w) m = Some (spoil (write_reg w RAX (read_reg w RAX m div 2 ^ shift_by w m) m))"
| "step (JumpIf c stem l) m = None"
| "step (Jmp stem l) m = None"
| "step (Label stem l) m = Some m"

text \<open>
  Within an expression every jump goes forward. The rest of the code from a label on; without the
  label the machine is stuck.
\<close>

fun from_label :: "string \<Rightarrow> int \<Rightarrow> instr list \<Rightarrow> instr list option" where
  "from_label stem l [] = None"
| "from_label stem l (i # is) = (if i = Label stem l then Some is else from_label stem l is)"

lemma from_label_shorter: "from_label stem l is = Some js \<Longrightarrow> length js < length is"
  by (induction "is") (auto split: if_splits)

function exec :: "instr list \<Rightarrow> mach \<Rightarrow> mach option" where
  "exec [] m = Some m"
| "exec (i # is) m =
     (case i of
        JumpIf c stem l \<Rightarrow>
          (case flags m of None \<Rightarrow> None
           | Some (a, b) \<Rightarrow>
               if holds c a b then (case from_label stem l is of None \<Rightarrow> None | Some js \<Rightarrow> exec js m) else exec is m)
      | Jmp stem l \<Rightarrow> (case from_label stem l is of None \<Rightarrow> None | Some js \<Rightarrow> exec js m)
      | _ \<Rightarrow> (case step i m of None \<Rightarrow> None | Some m' \<Rightarrow> exec is m'))"
  by pat_completeness auto
termination
  by (relation "measure (\<lambda>(is, m). length is)") (auto dest: from_label_shorter)

end
