(* ===== verification/Codegen_Value.thy ===== *)
theory Codegen_Value
  imports Codegen_Machine "HOL-Library.Signed_Division"
begin

unbundle bit_operations_syntax

section \<open>What an expression over signed integers means, and its code\<close>

text \<open>
  The fragment: decimal literals of type \<^verbatim>\<open>int\<close> and \<^verbatim>\<open>long\<close>, local variables of the four signed kinds, the unary and binary
  operators, casts, conditional expressions of type \<^verbatim>\<open>int\<close>, the comma, assignments to variables of
  type \<^verbatim>\<open>int\<close> and \<^verbatim>\<open>long\<close>, \<^verbatim>\<open>++\<close> and \<^verbatim>\<open>--\<close> on variables of type \<^verbatim>\<open>int\<close>. Outside of it the generator does not
  always follow C; the findings of the manifest say where.
\<close>

datatype iexp =
    XLit TypeKind int
  | XVar string
  | XUn string iexp
  | XBin string iexp iexp
  | XCast TypeKind iexp
  | XCond iexp iexp iexp
  | XComma iexp iexp
  | XSet string iexp
  | XInc bool bool string

text \<open>The expression a tree stands for. Annotations that the generator writes itself do not count.\<close>

definition decimal_value :: "string \<Rightarrow> int option" where
  "decimal_value t = (let v = fst (strtol10 t) in if show_int v = t then Some v else None)"

fun expr_of :: "ASTNode \<Rightarrow> iexp option" where
  "expr_of (Node i cs) =
     (if is_unsigned i then None
      else case (ntype i, cs) of
        (AST_INT_LITERAL, []) \<Rightarrow>
          (case nvalue i of None \<Rightarrow> None
           | Some t \<Rightarrow> map_option (XLit (decl_type i)) (decimal_value t))
      | (AST_VAR_REF, []) \<Rightarrow> map_option XVar (nvalue i)
      | (AST_UNARY_OP, [Some a]) \<Rightarrow>
          (case (nvalue i, expr_of a) of (Some op, Some x) \<Rightarrow> Some (XUn op x) | _ \<Rightarrow> None)
      | (AST_BINARY_OP, [Some a, Some b]) \<Rightarrow>
          (case (nvalue i, expr_of a, expr_of b) of (Some op, Some x, Some y) \<Rightarrow> Some (XBin op x y) | _ \<Rightarrow> None)
      | (AST_CAST, [Some a]) \<Rightarrow> map_option (XCast (decl_type i)) (expr_of a)
      | (AST_CONDITIONAL_EXPR, [Some a, Some b, Some c]) \<Rightarrow>
          (case (expr_of a, expr_of b, expr_of c) of (Some x, Some y, Some z) \<Rightarrow> Some (XCond x y z) | _ \<Rightarrow> None)
      | (AST_COMMA_EXPR, [Some a, Some b]) \<Rightarrow>
          (case (expr_of a, expr_of b) of (Some x, Some y) \<Rightarrow> Some (XComma x y) | _ \<Rightarrow> None)
      | (AST_ASSIGNMENT, [Some a]) \<Rightarrow>
          (case (nvalue i, expr_of a) of (Some v, Some x) \<Rightarrow> Some (XSet v x) | _ \<Rightarrow> None)
      | (AST_PREFIX_INC_DEC, [Some a]) \<Rightarrow>
          (case (nvalue i, expr_of a) of (Some op, Some (XVar v)) \<Rightarrow> Some (XInc False (op = ''++'') v) | _ \<Rightarrow> None)
      | (AST_POSTFIX_INC_DEC, [Some a]) \<Rightarrow>
          (case (nvalue i, expr_of a) of (Some op, Some (XVar v)) \<Rightarrow> Some (XInc True (op = ''++'') v) | _ \<Rightarrow> None)
      | _ \<Rightarrow> None)"

subsection \<open>Types\<close>

text \<open>The kind of a variable and the distance of its slot below \<^verbatim>\<open>rbp\<close>.\<close>

type_synonym ctx = "string \<Rightarrow> (int \<times> TypeKind) option"

definition signed_kind :: "TypeKind \<Rightarrow> bool" where
  "signed_kind k \<longleftrightarrow> k = TYPE_CHAR \<or> k = TYPE_SHORT \<or> k = TYPE_INT \<or> k = TYPE_LONG"

definition word_kind :: "TypeKind \<Rightarrow> bool" where
  "word_kind k \<longleftrightarrow> k = TYPE_INT \<or> k = TYPE_LONG"

definition var_kind_of :: "ctx \<Rightarrow> string \<Rightarrow> TypeKind option" where
  "var_kind_of C x = map_option snd (C x)"

definition binary_kind :: "string \<Rightarrow> TypeKind \<Rightarrow> TypeKind \<Rightarrow> TypeKind option" where
  "binary_kind op a b =
     (if op \<in> arith_ops \<or> op \<in> {''&'', ''^'', ''|''} then Some (common_arith_kind a b)
      else if op \<in> {''<<'', ''>>''} then Some (promote_kind a)
      else if op \<in> compare_ops \<or> op \<in> {''&&'', ''||''} then Some TYPE_INT
      else None)"

text \<open>The C type of an expression; \<open>None\<close> outside of the fragment.\<close>

fun kind_of_exp :: "ctx \<Rightarrow> iexp \<Rightarrow> TypeKind option" where
  "kind_of_exp C (XLit k v) = (if word_kind k then Some k else None)"
| "kind_of_exp C (XVar x) =
     (case var_kind_of C x of None \<Rightarrow> None | Some k \<Rightarrow> if signed_kind k then Some (promote_kind k) else None)"
| "kind_of_exp C (XUn op e) =
     (case kind_of_exp C e of None \<Rightarrow> None
      | Some k \<Rightarrow> if op = ''!'' then Some TYPE_INT
          else if op \<in> {''-'', ''+'', ''~''} then Some (promote_kind k) else None)"
| "kind_of_exp C (XBin op a b) =
     (case (kind_of_exp C a, kind_of_exp C b) of (Some k, Some l) \<Rightarrow> binary_kind op k l | _ \<Rightarrow> None)"
| "kind_of_exp C (XCast k e) = (if kind_of_exp C e \<noteq> None \<and> signed_kind k then Some k else None)"
| "kind_of_exp C (XCond c a b) =
     (case (kind_of_exp C c, kind_of_exp C a, kind_of_exp C b) of
        (Some _, Some k, Some l) \<Rightarrow> if common_arith_kind k l = TYPE_INT then Some TYPE_INT else None
      | _ \<Rightarrow> None)"
| "kind_of_exp C (XComma a b) = (if kind_of_exp C a = None then None else kind_of_exp C b)"
| "kind_of_exp C (XSet x e) =
     (case (var_kind_of C x, kind_of_exp C e) of (Some k, Some _) \<Rightarrow> if word_kind k then Some k else None | _ \<Rightarrow> None)"
| "kind_of_exp C (XInc post up x) = (if var_kind_of C x = Some TYPE_INT then Some TYPE_INT else None)"

lemma kind_of_exp_signed: "kind_of_exp C e = Some k \<Longrightarrow> signed_kind k"
proof (induction e arbitrary: k)
  case (XBin op a b)
  then show ?case
    by (auto simp: binary_kind_def signed_kind_def common_arith_kind_def promote_kind_def split: option.splits if_splits)
qed (auto simp: signed_kind_def word_kind_def promote_kind_def split: option.splits if_splits)

subsection \<open>Values\<close>

text \<open>
  The value of an expression and the variables afterwards; \<open>None\<close> where C leaves the behaviour
  undefined: overflow, division by zero, a shift count out of range. A left shift is defined for negative
  operands. Operands are evaluated from left to right.
\<close>

definition in_kind :: "TypeKind \<Rightarrow> int \<Rightarrow> bool" where
  "in_kind k v \<longleftrightarrow> - (2 ^ nat (8 * type_kind_bytes k - 1)) \<le> v \<and> v < 2 ^ nat (8 * type_kind_bytes k - 1)"

definition fitting :: "TypeKind \<Rightarrow> int \<Rightarrow> int option" where
  "fitting k v = (if in_kind k v then Some v else None)"

definition convert_to :: "TypeKind \<Rightarrow> int \<Rightarrow> int" where
  "convert_to k v = signed_take_bit (nat (8 * type_kind_bytes k - 1)) v"

definition unary_value :: "string \<Rightarrow> TypeKind \<Rightarrow> int \<Rightarrow> int option" where
  "unary_value op k v =
     (if op = ''-'' then fitting (promote_kind k) (- v)
      else if op = ''~'' then Some (NOT v)
      else if op = ''!'' then Some (of_bool (v = 0))
      else Some v)"

definition binary_value :: "string \<Rightarrow> TypeKind \<Rightarrow> TypeKind \<Rightarrow> int \<Rightarrow> int \<Rightarrow> int option" where
  "binary_value op ka kb v w =
     (let c = common_arith_kind ka kb; p = promote_kind ka; count_ok = (0 \<le> w \<and> w < 8 * type_kind_bytes p) in
      if op = ''+'' then fitting c (v + w)
      else if op = ''-'' then fitting c (v - w)
      else if op = ''*'' then fitting c (v * w)
      else if op = ''/'' then (if w = 0 then None else fitting c (v sdiv w))
      else if op = ''%'' then (if w = 0 \<or> \<not> in_kind c (v sdiv w) then None else Some (v smod w))
      else if op = ''&'' then Some (v AND w)
      else if op = ''^'' then Some (v XOR w)
      else if op = ''|'' then Some (v OR w)
      else if op = ''<<'' then (if count_ok then fitting p (v * 2 ^ nat w) else None)
      else if op = ''>>'' then (if count_ok then Some (v div 2 ^ nat w) else None)
      else if op = ''<'' then Some (of_bool (v < w))
      else if op = ''<='' then Some (of_bool (v \<le> w))
      else if op = ''>'' then Some (of_bool (v > w))
      else if op = ''>='' then Some (of_bool (v \<ge> w))
      else if op = ''=='' then Some (of_bool (v = w))
      else Some (of_bool (v \<noteq> w)))"

definition exp_kind :: "ctx \<Rightarrow> iexp \<Rightarrow> TypeKind" where
  "exp_kind C e = (case kind_of_exp C e of Some k \<Rightarrow> k | None \<Rightarrow> TYPE_INT)"

type_synonym vals = "string \<Rightarrow> int"

fun c_value :: "ctx \<Rightarrow> iexp \<Rightarrow> vals \<Rightarrow> (int \<times> vals) option" where
  "c_value C (XLit k v) r = (if in_kind k v then Some (v, r) else None)"
| "c_value C (XVar x) r = Some (r x, r)"
| "c_value C (XUn op e) r =
     (case c_value C e r of None \<Rightarrow> None
      | Some (v, r) \<Rightarrow> map_option (\<lambda>w. (w, r)) (unary_value op (exp_kind C e) v))"
| "c_value C (XBin op a b) r =
     (case c_value C a r of None \<Rightarrow> None
      | Some (v, r) \<Rightarrow>
          if op = ''&&'' \<and> v = 0 then Some (0, r)
          else if op = ''||'' \<and> v \<noteq> 0 then Some (1, r)
          else (case c_value C b r of None \<Rightarrow> None
                | Some (w, r) \<Rightarrow>
                    if op = ''&&'' \<or> op = ''||'' then Some (of_bool (w \<noteq> 0), r)
                    else map_option (\<lambda>x. (x, r)) (binary_value op (exp_kind C a) (exp_kind C b) v w)))"
| "c_value C (XCast k e) r = map_option (\<lambda>(v, r). (convert_to k v, r)) (c_value C e r)"
| "c_value C (XCond c a b) r =
     (case c_value C c r of None \<Rightarrow> None | Some (v, r) \<Rightarrow> if v \<noteq> 0 then c_value C a r else c_value C b r)"
| "c_value C (XComma a b) r = (case c_value C a r of None \<Rightarrow> None | Some (_, r) \<Rightarrow> c_value C b r)"
| "c_value C (XSet x e) r =
     (case (c_value C e r, var_kind_of C x) of
        (Some (v, r), Some k) \<Rightarrow> Some (convert_to k v, r(x := convert_to k v))
      | _ \<Rightarrow> None)"
| "c_value C (XInc post up x) r =
     (case fitting TYPE_INT (r x + (if up then 1 else - 1)) of None \<Rightarrow> None
      | Some w \<Rightarrow> Some (if post then r x else w, r(x := w)))"

subsection \<open>The code\<close>

text \<open>How many labels the code of an expression takes, and the code with labels from \<open>l\<close> on.\<close>

fun label_need :: "iexp \<Rightarrow> int" where
  "label_need (XUn op e) = label_need e"
| "label_need (XBin op a b) = of_bool (op = ''&&'' \<or> op = ''||'') + label_need a + label_need b"
| "label_need (XCast k e) = label_need e"
| "label_need (XCond c a b) = 1 + label_need c + label_need a + label_need b"
| "label_need (XComma a b) = label_need a + label_need b"
| "label_need (XSet x e) = label_need e"
| "label_need _ = 0"

definition widen_code :: "TypeKind \<Rightarrow> TypeKind \<Rightarrow> instr list" where
  "widen_code c k = (if c = TYPE_LONG \<and> k \<noteq> TYPE_LONG then [Movsxd] else [])"

definition truth_code :: "cond \<Rightarrow> instr list" where
  "truth_code c = [SetIf c, Movzx]"

definition unary_code :: "string \<Rightarrow> TypeKind \<Rightarrow> instr list" where
  "unary_code op k =
     (if op = ''-'' then [NegR (promote_kind k = TYPE_LONG)]
      else if op = ''!'' then CmpZero (k = TYPE_LONG) # truth_code IsE
      else if op = ''~'' then [NotR (promote_kind k = TYPE_LONG)]
      else [])"

definition divide_code :: "bool \<Rightarrow> instr list" where
  "divide_code w = [Xchg w, Cdq w, Idiv w]"

definition binary_code :: "string \<Rightarrow> TypeKind \<Rightarrow> TypeKind \<Rightarrow> instr list" where
  "binary_code op ka kb =
     (let w = (common_arith_kind ka kb = TYPE_LONG); p = (promote_kind ka = TYPE_LONG) in
      if op = ''+'' then [Alu IAdd w RAX RCX]
      else if op = ''-'' then [Alu ISub w RCX RAX, MovReg w RAX RCX]
      else if op = ''*'' then [Alu IImul w RAX RCX]
      else if op = ''/'' then divide_code w
      else if op = ''%'' then divide_code w @ [MovReg w RAX RDX]
      else if op = ''&'' then [Alu IAnd w RAX RCX]
      else if op = ''^'' then [Alu IXor w RAX RCX]
      else if op = ''|'' then [Alu IOr w RAX RCX]
      else if op = ''<<'' then [Xchg True, Shl p]
      else if op = ''>>'' then [Xchg True, Sar p]
      else CmpRegs w # truth_code
        (if op = ''<'' then IsL else if op = ''<='' then IsLE else if op = ''>'' then IsG
         else if op = ''>='' then IsGE else if op = ''=='' then IsE else IsNE))"

definition cast_code :: "TypeKind \<Rightarrow> TypeKind \<Rightarrow> instr list" where
  "cast_code src dst =
     (if type_kind_bytes src = type_kind_bytes dst then []
      else if dst = TYPE_LONG then [Movsxd]
      else if dst = TYPE_SHORT then [Movsx False]
      else if dst = TYPE_CHAR then [Movsx True]
      else [])"

definition operand_widening :: "string \<Rightarrow> TypeKind \<Rightarrow> TypeKind \<Rightarrow> TypeKind" where
  "operand_widening op ka kb = (if op \<in> {''<<'', ''>>''} then TYPE_INT else common_arith_kind ka kb)"

definition offset_of :: "ctx \<Rightarrow> string \<Rightarrow> int" where
  "offset_of C x = (case C x of Some (off, _) \<Rightarrow> off | None \<Rightarrow> 0)"

definition size_of :: "ctx \<Rightarrow> string \<Rightarrow> int" where
  "size_of C x = (case C x of Some (_, k) \<Rightarrow> type_kind_bytes k | None \<Rightarrow> 0)"

definition store_code :: "bool \<Rightarrow> TypeKind \<Rightarrow> int \<Rightarrow> instr list" where
  "store_code w k off = (if w then widen_code TYPE_LONG k else []) @ [Store w off]"

definition logic_code :: "string \<Rightarrow> string \<Rightarrow> cond \<Rightarrow> int \<Rightarrow> TypeKind \<Rightarrow> TypeKind \<Rightarrow> instr list \<Rightarrow> instr list \<Rightarrow> int \<Rightarrow> instr list" where
  "logic_code known fin c val ka kb as bs l =
     as @ [CmpZero (ka = TYPE_LONG), JumpIf c known l] @ bs @
     CmpZero (kb = TYPE_LONG) # truth_code IsNE @ [Jmp fin l, Label known l, MovImm False val, Label fin l]"

fun code_of :: "ctx \<Rightarrow> iexp \<Rightarrow> int \<Rightarrow> instr list" where
  "code_of C (XLit k v) l = [MovImm (k = TYPE_LONG) v]"
| "code_of C (XVar x) l = [Load (size_of C x) (offset_of C x)]"
| "code_of C (XUn op e) l = code_of C e l @ unary_code op (exp_kind C e)"
| "code_of C (XBin op a b) l =
     (let ka = exp_kind C a; kb = exp_kind C b in
      if op = ''&&'' then
        logic_code ''and_false'' ''and_end'' IsE 0 ka kb (code_of C a (l + 1)) (code_of C b (l + 1 + label_need a)) l
      else if op = ''||'' then
        logic_code ''or_true'' ''or_end'' IsNE 1 ka kb (code_of C a (l + 1)) (code_of C b (l + 1 + label_need a)) l
      else
        let c = operand_widening op ka kb in
        code_of C a l @ widen_code c ka @ Push # code_of C b (l + label_need a) @ widen_code c kb @ Pop # binary_code op ka kb)"
| "code_of C (XCast k e) l = code_of C e l @ cast_code (exp_kind C e) k"
| "code_of C (XCond c a b) l =
     code_of C c (l + 1) @ [CmpZero (exp_kind C c = TYPE_LONG), JumpIf IsE ''cond_false'' l] @
     code_of C a (l + 1 + label_need c) @ [Jmp ''cond_end'' l, Label ''cond_false'' l] @
     code_of C b (l + 1 + label_need c + label_need a) @ [Label ''cond_end'' l]"
| "code_of C (XComma a b) l = code_of C a l @ code_of C b (l + label_need a)"
| "code_of C (XSet x e) l = code_of C e l @ store_code (size_of C x = 8) (exp_kind C e) (offset_of C x)"
| "code_of C (XInc post up x) l =
     Load 4 (offset_of C x) # (if post then [MovReg False RCX RAX] else []) @ [Step_By up, Store False (offset_of C x)] @
     (if post then [MovReg False RAX RCX] else [])"

lemma label_need_nonneg [simp]: "0 \<le> label_need e"
  by (induction e) auto

end
