(* ===== verification/Codegen_Emit.thy ===== *)
theory Codegen_Emit
  imports Codegen_Value
begin

section \<open>The generator writes that code\<close>

text \<open>
  A small logic for programs of the generator that end well: \<open>emits m s is l p P\<close> says what \<open>m\<close> writes
  from the state \<open>s\<close> on, the label and stack counters behind it and a property of its result. One
  rule for each way of composing programs, one lemma for each form of expression, then the induction.
\<close>

definition wrote :: "instr list \<Rightarrow> int \<Rightarrow> int \<Rightarrow> error_state \<Rightarrow> CodeGen \<Rightarrow> CodeGen" where
  "wrote is l p dg s = s\<lparr>asm_text := asm_text s @ code_text is, label_count := l, push_depth := p, diag := dg\<rparr>"

lemma code_text_simps [simp]:
  "code_text [] = []" "code_text (i # is) = asm_line i @ LF # code_text is" "code_text (is @ js) = code_text is @ code_text js"
  by (simp_all add: code_text_def)

lemma wrote_sel [simp]:
  "label_count (wrote is l p dg s) = l" "push_depth (wrote is l p dg s) = p" "locals (wrote is l p dg s) = locals s"
  "cg_globals (wrote is l p dg s) = cg_globals s" "cg_types (wrote is l p dg s) = cg_types s"
  by (simp_all add: wrote_def)

lemma wrote_wrote [simp]: "wrote js l' p' d' (wrote is l p dg s) = wrote (is @ js) l' p' d' s"
  by (simp add: wrote_def)

text \<open>A program that ends well, with the instructions it writes and the counters behind it.\<close>

definition emits :: "'a cg \<Rightarrow> CodeGen \<Rightarrow> instr list \<Rightarrow> int \<Rightarrow> int \<Rightarrow> ('a \<Rightarrow> bool) \<Rightarrow> bool" where
  "emits m s is l p P \<longleftrightarrow> (\<exists>x dg. m s = Inr (x, wrote is l p dg s) \<and> P x)"

lemma emits_weaken: "emits m s is l p P \<Longrightarrow> is = js \<Longrightarrow> l = l' \<Longrightarrow> p = p' \<Longrightarrow> (\<And>x. P x \<Longrightarrow> Q x) \<Longrightarrow> emits m s js l' p' Q"
  by (auto simp: emits_def)

lemma emits_code: "emits m s is l p Q \<Longrightarrow> is = js \<Longrightarrow> emits m s js l p Q"
  by simp

lemma emits_give: "P x \<Longrightarrow> l = label_count s \<Longrightarrow> p = push_depth s \<Longrightarrow> emits (give x) s [] l p P"
  by (auto simp: emits_def give_def wrote_def intro!: exI [of _ "diag s"])

lemma emits_into:
  assumes "emits m s is l p P"
    and "\<And>x dg. P x \<Longrightarrow> emits (f x) (wrote is l p dg s) js l' p' Q"
  shows "emits (into m f) s (is @ js) l' p' Q"
  using assms by (fastforce simp: emits_def into_def)

lemma emits_first:
  "emits m s is l p P \<Longrightarrow> (\<And>dg. emits k (wrote is l p dg s) js l' p' Q) \<Longrightarrow> emits (first m k) s (is @ js) l' p' Q"
  unfolding first_def by (rule emits_into)

lemma emits_ins: "asm_line i = ''    '' @ t \<Longrightarrow> emits (ins t) s [i] (label_count s) (push_depth s) (\<lambda>_. True)"
  by (auto simp: emits_def ins_def plain_line_def emit_text_def upd_def wrote_def intro!: exI [of _ "diag s"])

lemma emits_inss:
  "list_all2 (\<lambda>i t. asm_line i = ''    '' @ t) is ts \<Longrightarrow> emits (inss ts) s is (label_count s) (push_depth s) (\<lambda>_. True)"
proof (induction ts arbitrary: "is" s)
  case (Cons t ts)
  then obtain i js where i: "is = i # js" "asm_line i = ''    '' @ t" "list_all2 (\<lambda>i t. asm_line i = ''    '' @ t) js ts"
    by (auto simp: list_all2_Cons2)
  have "emits (first (ins t) (inss ts)) s ([i] @ js) (label_count s) (push_depth s) (\<lambda>_. True)"
    using Cons.IH [OF i(3)] by (intro emits_first [OF emits_ins [OF i(2)]]) (metis wrote_sel(1,2))
  then show ?case using i by (simp add: inss_def)
qed (simp add: inss_def skip_def emits_give)

lemma emits_put_label: "emits (put_label stem l) s [Label stem l] (label_count s) (push_depth s) (\<lambda>_. True)"
  by (auto simp: emits_def put_label_def plain_line_def emit_text_def upd_def wrote_def intro!: exI [of _ "diag s"])

lemma emits_push: "emits push_rax s [Push] (label_count s) (push_depth s + 1) (\<lambda>_. True)"
  by (auto simp: emits_def push_rax_def first_def into_def ins_def plain_line_def emit_text_def upd_def wrote_def
      intro!: exI [of _ "diag s"])

lemma emits_pop: "emits (pop_reg ''rcx'') s [Pop] (label_count s) (push_depth s - 1) (\<lambda>_. True)"
  by (auto simp: emits_def pop_reg_def first_def into_def ins_def plain_line_def emit_text_def upd_def wrote_def
      intro!: exI [of _ "diag s"])

lemma emits_mark: "emits (cg_mark n) s [] (label_count s) (push_depth s) (\<lambda>_. True)"
  by (auto simp: emits_def cg_mark_def cg_when_def skip_def give_def upd_def wrote_def intro: exI [of _ "diag s"])

lemma emits_fresh_label:
  "label_count s < 2 ^ 31 - 1 \<Longrightarrow> - (2 ^ 31) \<le> label_count s \<Longrightarrow>
   emits fresh_label s [] (label_count s + 1) (push_depth s) (\<lambda>l. l = label_count s)"
  by (auto simp: emits_def fresh_label_def look_def first_def into_def give_def upd_def wrote_def wrap32_id
      intro!: exI [of _ "diag s"])

lemma emits_on_cg: "emits (f s) s is l p P \<Longrightarrow> emits (on_cg f) s is l p P"
  by (simp add: emits_def on_cg_def)

lemma emits_require: "b \<Longrightarrow> emits (require b msg) s [] (label_count s) (push_depth s) (\<lambda>_. True)"
  by (simp add: require_def skip_def emits_give)

text \<open>A query that leaves the state alone.\<close>

lemma emits_query: "m s = Inr (x, s) \<Longrightarrow> P x \<Longrightarrow> emits m s [] (label_count s) (push_depth s) P"
  by (auto simp: emits_def wrote_def intro!: exI [of _ "diag s"])

subsection \<open>Trees of the fragment\<close>

lemma expr_of_cases:
  "expr_of n = Some e \<Longrightarrow> \<not> is_unsigned (info n) \<and>
    (case e of
      XLit k v \<Rightarrow> \<exists>i t. n = Node i [] \<and> ntype i = AST_INT_LITERAL \<and> nvalue i = Some t \<and> decl_type i = k \<and> decimal_value t = Some v
    | XVar x \<Rightarrow> \<exists>i. n = Node i [] \<and> ntype i = AST_VAR_REF \<and> nvalue i = Some x
    | XUn op a \<Rightarrow> \<exists>i x. n = Node i [Some x] \<and> ntype i = AST_UNARY_OP \<and> nvalue i = Some op \<and> expr_of x = Some a
    | XBin op a b \<Rightarrow> \<exists>i x y. n = Node i [Some x, Some y] \<and> ntype i = AST_BINARY_OP \<and> nvalue i = Some op \<and>
        expr_of x = Some a \<and> expr_of y = Some b
    | XCast k a \<Rightarrow> \<exists>i x. n = Node i [Some x] \<and> ntype i = AST_CAST \<and> decl_type i = k \<and> expr_of x = Some a
    | XCond a b c \<Rightarrow> \<exists>i x y z. n = Node i [Some x, Some y, Some z] \<and> ntype i = AST_CONDITIONAL_EXPR \<and>
        expr_of x = Some a \<and> expr_of y = Some b \<and> expr_of z = Some c
    | XComma a b \<Rightarrow> \<exists>i x y. n = Node i [Some x, Some y] \<and> ntype i = AST_COMMA_EXPR \<and> expr_of x = Some a \<and> expr_of y = Some b
    | XSet v a \<Rightarrow> \<exists>i x. n = Node i [Some x] \<and> ntype i = AST_ASSIGNMENT \<and> nvalue i = Some v \<and> expr_of x = Some a
    | XInc post up v \<Rightarrow> \<exists>i x op. n = Node i [Some x] \<and> ntype i = (if post then AST_POSTFIX_INC_DEC else AST_PREFIX_INC_DEC) \<and>
        nvalue i = Some op \<and> up = (op = ''++'') \<and> expr_of x = Some (XVar v))"
  by (cases n rule: expr_of.cases) (auto split: if_splits ASTNodeType.splits list.splits option.splits iexp.splits)

subsection \<open>The queries know the type\<close>

definition vars_in :: "ctx \<Rightarrow> CodeGen \<Rightarrow> bool" where
  "vars_in C s \<longleftrightarrow> (\<forall>x off k. C x = Some (off, k) \<longrightarrow>
     (\<exists>v. codegen_find_var s x = Some v \<and> lv_kind v = k \<and> lv_offset v = off \<and> lv_size v = type_kind_bytes k \<and>
        \<not> lv_is_static v \<and> \<not> lv_is_unsigned v \<and> \<not> lv_is_const v))"

lemma vars_in_wrote [simp]: "vars_in C (wrote is l p dg s) = vars_in C s"
  by (simp add: vars_in_def codegen_find_var_def)

lemma vars_in_find:
  assumes "vars_in C s" "var_kind_of C x = Some k" "nvalue (info n) = Some x"
  obtains v where "find_var_of n s = Inr (Some v, s)" "lv_kind v = k" "lv_offset v = offset_of C x" "lv_size v = type_kind_bytes k"
    "size_of C x = type_kind_bytes k" "\<not> lv_is_static v" "\<not> lv_is_unsigned v" "\<not> lv_is_const v"
proof -
  from assms(2) obtain off where x: "C x = Some (off, k)" by (auto simp: var_kind_of_def)
  from assms(1) [unfolded vars_in_def, rule_format, OF this] obtain v where v: "codegen_find_var s x = Some v" "lv_kind v = k" "lv_offset v = off" "lv_size v = type_kind_bytes k"
    "\<not> lv_is_static v" "\<not> lv_is_unsigned v" "\<not> lv_is_const v" by blast
  moreover from v(1) have "locals s \<noteq> []" by (auto simp: codegen_find_var_def)
  ultimately show ?thesis using that x assms(3)
    by (simp add: find_var_of_def on_cg_def into_def value_text_def need_def give_def offset_of_def size_of_def)
qed

lemma kinds_simps [simp]:
  "\<not> type_is_fp TYPE_INT" "\<not> type_is_fp TYPE_LONG" "promote_kind TYPE_INT = TYPE_INT" "promote_kind TYPE_LONG = TYPE_LONG"
  "promote_kind (promote_kind k) = promote_kind k" "promote_kind k \<noteq> TYPE_POINTER" "common_arith_kind k l \<noteq> TYPE_POINTER"
  "\<not> type_is_fp (promote_kind k)" "\<not> type_is_fp (common_arith_kind k l)" "common_arith_kind (promote_kind k) (promote_kind l) = common_arith_kind k l"
  by (auto simp: type_is_fp_def promote_kind_def common_arith_kind_def long_kind_def)

lemma signed_kindD: "signed_kind k \<Longrightarrow> \<not> type_is_fp k \<and> k \<noteq> TYPE_POINTER \<and> k \<noteq> TYPE_ARRAY \<and> \<not> is_struct_or_union_kind k"
  by (auto simp: signed_kind_def type_is_fp_def is_struct_or_union_kind_def)

lemma value_kind_signed: "signed_kind k \<Longrightarrow> value_kind k (type_kind_bytes k) = promote_kind k"
  by (auto simp: signed_kind_def value_kind_def type_is_fp_def is_struct_or_union_kind_def type_kind_from_size_def promote_kind_def long_kind_def)

text \<open>The query about a tree: it gives the type and writes it, and leaves the state alone.\<close>

definition typed :: "ASTNode \<Rightarrow> iexp \<Rightarrow> TypeKind \<Rightarrow> CodeGen \<Rightarrow> bool" where
  "typed n e k s \<longleftrightarrow> (\<exists>n'. expr_result_type n s = Inr ((k, n'), s) \<and> expr_of n' = Some e)"

lemmas run_simps = into_def give_def value_text_def need_def set_result_def with_info_def typed_kid_def set_kid_def

lemma expr_result_type_typed:
  "expr_of n = Some e \<Longrightarrow> kind_of_exp C e = Some k \<Longrightarrow> vars_in C s \<Longrightarrow> typed n e k s"
proof (induction e arbitrary: n k)
  case (XLit kk v)
  then show ?case using expr_of_cases [OF XLit.prems(1)]
    by (auto simp: typed_def result_step_def run_simps split: if_splits)
next
  case (XVar x)
  then obtain i kk where n: "n = Node i []" "ntype i = AST_VAR_REF" "nvalue i = Some x" "\<not> is_unsigned i"
    and k: "var_kind_of C x = Some kk" "signed_kind kk" "k = promote_kind kk"
    using expr_of_cases [OF XVar.prems(1)] by (auto split: option.splits if_splits)
  obtain v where "find_var_of n s = Inr (Some v, s)" "lv_kind v = kk" "lv_size v = type_kind_bytes kk"
    using vars_in_find [OF XVar.prems(3) k(1), of n] n by auto
  with n k show ?case
    by (auto simp: typed_def result_step_def var_result_type_def run_simps value_kind_signed)
next
  case (XUn op a)
  then obtain i x where n: "n = Node i [Some x]" "ntype i = AST_UNARY_OP" "nvalue i = Some op" "\<not> is_unsigned i" "expr_of x = Some a"
    using expr_of_cases [OF XUn.prems(1)] by auto
  from XUn.prems(2) obtain ka where ka: "kind_of_exp C a = Some ka" by (auto split: option.splits)
  from XUn.IH [OF n(5) ka XUn.prems(3)] obtain x' where x': "expr_result_type x s = Inr ((ka, x'), s)" "expr_of x' = Some a"
    by (auto simp: typed_def)
  have "\<not> type_is_fp ka" using kind_of_exp_signed [OF ka] signed_kindD by blast
  with n ka x' XUn.prems(2) show ?case
    by (auto simp: typed_def result_step_def unary_result_type_def run_simps split: if_splits)
next
  case (XBin op a b)
  then obtain i x y where n: "n = Node i [Some x, Some y]" "ntype i = AST_BINARY_OP" "nvalue i = Some op" "\<not> is_unsigned i"
    "expr_of x = Some a" "expr_of y = Some b"
    using expr_of_cases [OF XBin.prems(1)] by auto
  from XBin.prems(2) obtain ka kb where k: "kind_of_exp C a = Some ka" "kind_of_exp C b = Some kb" "binary_kind op ka kb = Some k"
    by (auto split: option.splits)
  from XBin.IH(1) [OF n(5) k(1) XBin.prems(3)] obtain x' where x': "expr_result_type x s = Inr ((ka, x'), s)" "expr_of x' = Some a"
    by (auto simp: typed_def)
  from XBin.IH(2) [OF n(6) k(2) XBin.prems(3)] obtain y' where y': "expr_result_type y s = Inr ((kb, y'), s)" "expr_of y' = Some b"
    by (auto simp: typed_def)
  have "\<not> type_is_fp ka" "\<not> type_is_fp kb" "ka \<noteq> TYPE_POINTER" "kb \<noteq> TYPE_POINTER"
    using kind_of_exp_signed [OF k(1)] kind_of_exp_signed [OF k(2)] signed_kindD by blast+
  with n k x' y' show ?case
    by (auto simp: typed_def result_step_def binary_result_type_def run_simps binary_kind_def arith_ops_def split: if_splits)
next
  case (XCast kk a)
  then show ?case using expr_of_cases [OF XCast.prems(1)]
    by (auto simp: typed_def result_step_def run_simps split: if_splits)
next
  case (XCond a b c)
  then show ?case using expr_of_cases [OF XCond.prems(1)]
    by (auto simp: typed_def result_step_def run_simps split: if_splits option.splits)
next
  case (XComma a b)
  then obtain i x y where n: "n = Node i [Some x, Some y]" "ntype i = AST_COMMA_EXPR" "\<not> is_unsigned i"
    "expr_of x = Some a" "expr_of y = Some b"
    using expr_of_cases [OF XComma.prems(1)] by auto
  from XComma.prems(2) have "kind_of_exp C b = Some k" by (auto split: if_splits)
  from XComma.IH(2) [OF n(5) this XComma.prems(3)] n show ?case
    by (auto simp: typed_def result_step_def run_simps split: if_splits)
next
  case (XSet x a)
  then obtain i y where n: "n = Node i [Some y]" "ntype i = AST_ASSIGNMENT" "nvalue i = Some x" "\<not> is_unsigned i" "expr_of y = Some a"
    using expr_of_cases [OF XSet.prems(1)] by auto
  from XSet.prems(2) have k: "var_kind_of C x = Some k" "word_kind k" by (auto split: option.splits if_splits)
  obtain v where "find_var_of n s = Inr (Some v, s)" "lv_kind v = k" "lv_size v = type_kind_bytes k"
    using vars_in_find [OF XSet.prems(3) k(1), of n] n by auto
  with n k show ?case
    by (auto simp: typed_def result_step_def assignment_result_type_def run_simps word_kind_def type_kind_from_size_def)
next
  case (XInc post up x)
  then show ?case using expr_of_cases [OF XInc.prems(1)]
    by (auto simp: typed_def result_step_def run_simps split: if_splits)
qed

definition sized :: "ASTNode \<Rightarrow> CodeGen \<Rightarrow> bool" where
  "sized n s \<longleftrightarrow> (\<exists>k. sizeof_type_of_expr n s = Inr (k, s) \<and> \<not> type_is_fp k)"

lemmas query_simps = into_def give_def value_text_def need_def query_def

lemma sizeof_type_sized:
  "expr_of n = Some e \<Longrightarrow> kind_of_exp C e = Some k \<Longrightarrow> vars_in C s \<Longrightarrow> sized n s"
proof (induction e arbitrary: n k)
  case (XLit kk v)
  then show ?case using expr_of_cases [OF XLit.prems(1)]
    by (auto simp: sized_def sizeof_step_def query_simps word_kind_def split: if_splits)
next
  case (XVar x)
  then obtain i kk where n: "n = Node i []" "ntype i = AST_VAR_REF" "nvalue i = Some x" and k: "var_kind_of C x = Some kk" "signed_kind kk"
    using expr_of_cases [OF XVar.prems(1)] by (auto split: option.splits if_splits)
  obtain v where "find_var_of n s = Inr (Some v, s)" "lv_kind v = kk"
    using vars_in_find [OF XVar.prems(3) k(1), of n] n by auto
  with n k signed_kindD [of kk] show ?case by (auto simp: sized_def sizeof_step_def var_kind_def query_simps)
next
  case (XUn op a)
  then obtain i x where n: "n = Node i [Some x]" "ntype i = AST_UNARY_OP" "nvalue i = Some op" "expr_of x = Some a"
    using expr_of_cases [OF XUn.prems(1)] by auto
  from XUn.prems(2) obtain ka where "kind_of_exp C a = Some ka" by (auto split: option.splits)
  from XUn.IH [OF n(4) this XUn.prems(3)] n show ?case
    by (auto simp: sized_def sizeof_step_def sizeof_unary_def query_simps)
next
  case (XBin op a b)
  then obtain i x y where n: "n = Node i [Some x, Some y]" "ntype i = AST_BINARY_OP" "nvalue i = Some op" "expr_of x = Some a" "expr_of y = Some b"
    using expr_of_cases [OF XBin.prems(1)] by auto
  from XBin.prems(2) obtain ka kb where k: "kind_of_exp C a = Some ka" "kind_of_exp C b = Some kb"
    by (auto split: option.splits)
  from XBin.IH(1) [OF n(4) k(1) XBin.prems(3)] obtain l where l: "sizeof_type_of_expr x s = Inr (l, s)" "\<not> type_is_fp l"
    by (auto simp: sized_def)
  from XBin.IH(2) [OF n(5) k(2) XBin.prems(3)] obtain r where r: "sizeof_type_of_expr y s = Inr (r, s)" "\<not> type_is_fp r"
    by (auto simp: sized_def)
  have "\<not> type_is_fp TYPE_POINTER" by (simp add: type_is_fp_def)
  then show ?case using n l r
    by (simp add: sized_def sizeof_step_def sizeof_binary_def query_simps if_distrib [of "\<lambda>m. m s"] del: insert_iff)
next
  case (XCast kk a)
  then show ?case using expr_of_cases [OF XCast.prems(1)] signed_kindD [of kk]
    by (auto simp: sized_def sizeof_step_def query_simps split: if_splits)
next
  case (XCond a b c)
  then show ?case using expr_of_cases [OF XCond.prems(1)] by (auto simp: sized_def sizeof_step_def query_simps)
next
  case (XComma a b)
  then obtain i x y where n: "n = Node i [Some x, Some y]" "ntype i = AST_COMMA_EXPR" "expr_of y = Some b"
    using expr_of_cases [OF XComma.prems(1)] by auto
  from XComma.prems(2) have "kind_of_exp C b = Some k" by (auto split: if_splits)
  from XComma.IH(2) [OF n(3) this XComma.prems(3)] n show ?case by (auto simp: sized_def sizeof_step_def query_simps)
next
  case (XSet x a)
  then obtain i y where n: "n = Node i [Some y]" "ntype i = AST_ASSIGNMENT" "nvalue i = Some x" "expr_of y = Some a"
    using expr_of_cases [OF XSet.prems(1)] by auto
  from XSet.prems(2) obtain ka where k: "var_kind_of C x = Some k" "word_kind k" "kind_of_exp C a = Some ka"
    by (auto split: option.splits if_splits)
  obtain v where "find_var_of n s = Inr (Some v, s)" "lv_kind v = k"
    using vars_in_find [OF XSet.prems(3) k(1), of n] n by auto
  with XSet.IH [OF n(4) k(3) XSet.prems(3)] n k show ?case
    by (auto simp: sized_def sizeof_step_def sizeof_assignment_def var_kind_def query_simps word_kind_def)
next
  case (XInc post up x)
  then obtain i y where n: "n = Node i [Some y]" "ntype i = AST_POSTFIX_INC_DEC \<or> ntype i = AST_PREFIX_INC_DEC" "expr_of y = Some (XVar x)"
    and k: "var_kind_of C x = Some TYPE_INT"
    using expr_of_cases [OF XInc.prems(1)] by (auto split: if_splits)
  obtain j where y: "y = Node j []" "ntype j = AST_VAR_REF" "nvalue j = Some x" using expr_of_cases [OF n(3)] by auto
  obtain v where "find_var_of y s = Inr (Some v, s)" "lv_kind v = TYPE_INT"
    using vars_in_find [OF XInc.prems(3) k, of y] y by auto
  with n y show ?case by (auto simp: sized_def sizeof_step_def var_kind_def query_simps)
qed

subsection \<open>Operands\<close>

definition of_kind :: "TypeKind \<Rightarrow> ASTNode \<Rightarrow> bool" where
  "of_kind k n \<longleftrightarrow> result_type (info n) = k \<and> \<not> is_unsigned (info n)"

lemma k_expr_Suc [simp]: "k_expr (expr_knot (Suc d)) = codegen_expression (expr_knot d)"
  by (simp add: next_knot_def)

lemma emits_kid:
  assumes "j < length cs" "cs ! j = Some c" "emits (k_expr K c) s is l p P"
  shows "emits (eval_kid K j (Node i cs)) s is l p (\<lambda>(c', n'). P c' \<and> n' = Node i (cs[j := Some c']))"
  using assms by (auto simp: emits_def eval_kid_def kid_def into_def need_def give_def set_kid_def)

lemma emits_eval:
  assumes "j < length cs" "cs ! j = Some c" "emits (k_expr K c) s is l p P"
    and "\<And>c' dg. P c' \<Longrightarrow> emits (f (c', Node i (cs[j := Some c']))) (wrote is l p dg s) js l' p' Q"
  shows "emits (into (eval_kid K j (Node i cs)) f) s (is @ js) l' p' Q"
  by (rule emits_into [OF emits_kid [OF assms(1-3)]]) (use assms(4) in auto)

lemma kid_types_run:
  assumes "typed x a ka s" "typed y b kb s"
  obtains x' y' where "kid_types (Node i [Some x, Some y]) s = Inr ((ka, kb, Node i [Some x', Some y']), s)"
    "expr_of x' = Some a" "expr_of y' = Some b"
  using assms by (auto simp: typed_def kid_types_def kid_type_def run_simps)

lemma emits_two_operands:
  assumes x: "emits (k_expr K x) s as la (push_depth s) (of_kind ka)"
    and fa: "\<And>s a. of_kind ka a \<Longrightarrow> emits (fit a) s wa (label_count s) (push_depth s) (\<lambda>_. True)"
    and y: "\<And>is p dg. emits (k_expr K y) (wrote is la p dg s) bs lb p (of_kind kb)"
    and fb: "\<And>s b. of_kind kb b \<Longrightarrow> emits (fit b) s wb (label_count s) (push_depth s) (\<lambda>_. True)"
  shows "emits (two_operands K fit (Node i [Some x, Some y])) s (as @ wa @ Push # bs @ wb @ [Pop]) lb (push_depth s)
     (\<lambda>(a, b, n). of_kind ka a \<and> of_kind kb b \<and> n = Node i [Some a, Some b])"
  unfolding two_operands_def
  apply (rule emits_code)
      apply (rule emits_into [OF emits_kid [OF _ _ x]], simp, simp, clarsimp)
      apply (rule emits_first [OF fa], assumption)
      apply (rule emits_first [OF emits_push])
      apply (simp, rule emits_into [OF emits_kid [OF _ _ y]], simp, simp, clarsimp)
      apply (rule emits_first [OF fb], assumption)
      apply (rule emits_first [OF emits_pop])
      apply (rule emits_give)
      apply simp_all
  done

subsection \<open>One lemma for each form\<close>

fun exp_depth :: "iexp \<Rightarrow> nat" where
  "exp_depth (XUn op e) = Suc (exp_depth e)"
| "exp_depth (XBin op a b) = Suc (max (exp_depth a) (exp_depth b))"
| "exp_depth (XCast k e) = Suc (exp_depth e)"
| "exp_depth (XCond c a b) = Suc (max (exp_depth c) (max (exp_depth a) (exp_depth b)))"
| "exp_depth (XComma a b) = Suc (max (exp_depth a) (exp_depth b))"
| "exp_depth (XSet x e) = Suc (exp_depth e)"
| "exp_depth _ = 0"

lemma of_kind_set [simp]: "of_kind k (set_result l n) \<longleftrightarrow> k = l \<and> \<not> is_unsigned (info n)"
  by (auto simp: of_kind_def set_result_def with_info_def)

lemma of_kind_unsigned [simp]: "of_kind k (set_unsigned u (set_result l n)) \<longleftrightarrow> k = l \<and> \<not> u"
  by (auto simp: of_kind_def set_unsigned_def set_result_def with_info_def)

lemma emits_literal:
  assumes "decl_type i = k" "word_kind k" "nvalue i = Some t" "decimal_value t = Some v" "\<not> is_unsigned i"
  shows "emits (gen_int_literal (Node i [])) s [MovImm (k = TYPE_LONG) v] (label_count s) (push_depth s) (of_kind k)"
proof -
  have "t = show_int v" using assms(4) by (simp add: decimal_value_def Let_def split: if_splits)
  with assms show ?thesis
    by (auto simp: gen_int_literal_def word_kind_def long_kind_def literal_text_def
        intro!: emits_code [OF emits_first [OF emits_ins emits_give]])
qed

lemma emits_variable:
  assumes "vars_in C s" "var_kind_of C x = Some k" "signed_kind k" "nvalue i = Some x"
  shows "emits (gen_var_ref (Node i [])) s [Load (size_of C x) (offset_of C x)] (label_count s) (push_depth s) (of_kind (promote_kind k))"
proof -
  obtain v where v: "find_var_of (Node i []) s = Inr (Some v, s)" "lv_kind v = k" "lv_offset v = offset_of C x"
    "lv_size v = type_kind_bytes k" "size_of C x = type_kind_bytes k" "\<not> lv_is_static v" "\<not> lv_is_unsigned v"
    using vars_in_find [OF assms(1,2), of "Node i []"] assms(4) by auto
  have p: "promote_kind (type_kind_from_size (type_kind_bytes k)) = promote_kind k"
    using assms(3) by (auto simp: signed_kind_def type_kind_from_size_def promote_kind_def long_kind_def)
  show ?thesis
    unfolding gen_var_ref_def
    apply (rule emits_code)
     apply (rule emits_into [OF emits_query [where P = "\<lambda>r. r = Some v"]], rule v(1), rule refl, simp)
     apply (simp add: gen_variable_def lv_view_def lv_place_def v signed_kindD [OF assms(3)])
     apply (rule emits_on_cg)
     apply (rule emits_first [OF emits_ins emits_give])
        apply (simp_all add: v p)
    done
qed

lemma into_value_text: "nvalue (info n) = Some t \<Longrightarrow> into (value_text n) f = f t"
  by (rule ext) (simp add: into_def value_text_def need_def give_def)

lemma prog_simps [simp]:
  "first skip m = m" "require True msg = skip" "cg_when True c = c" "cg_when False c = skip" "into (give x) f = f x"
  by (simp_all add: first_def into_def skip_def give_def require_def cg_when_def)

lemma ins_end:
  "asm_line i = ''    '' @ t \<Longrightarrow> P x \<Longrightarrow> l = label_count s \<Longrightarrow> p = push_depth s \<Longrightarrow> emits (first (ins t) (give x)) s [i] l p P"
  using emits_first [OF emits_ins emits_give, of i t P x] by simp

lemma emits_line:
  "asm_line i = ''    '' @ t \<Longrightarrow> (\<And>dg. emits m (wrote [i] (label_count s) (push_depth s) dg s) is l p Q) \<Longrightarrow>
   emits (first (ins t) m) s (i # is) l p Q"
  using emits_first [where k = m and js = "is", OF emits_ins [where i = i and t = t and s = s]] by simp

lemma inss_end:
  "list_all2 (\<lambda>i t. asm_line i = ''    '' @ t) is ts \<Longrightarrow> P x \<Longrightarrow> l = label_count s \<Longrightarrow> p = push_depth s \<Longrightarrow>
   emits (first (inss ts) (give x)) s is l p P"
  using emits_first [OF emits_inss emits_give, of "is" ts P x] by simp

lemma emits_unary:
  assumes e: "emits (k_expr K x) s as la (push_depth s) (of_kind k)" and i: "nvalue i = Some op" "\<not> is_unsigned i"
    and k: "signed_kind k" and op: "op \<in> {''!'', ''-'', ''+'', ''~''}"
  shows "emits (gen_unary K (Node i [Some x])) s (as @ unary_code op k) la (push_depth s)
    (of_kind (if op = ''!'' then TYPE_INT else promote_kind k))"
proof -
  have t: "\<not> type_is_fp k" "k \<noteq> TYPE_POINTER" using signed_kindD [OF k] by auto
  show ?thesis
    unfolding gen_unary_def
    apply (rule emits_eval [OF _ _ e], simp, simp)
    apply (simp only: prod.case)
    apply (subst into_value_text [where t = op], simp add: i)
    apply (simp only: of_kind_def [of k] Let_def t simp_thms if_False)
    using op
    apply (elim insertE emptyE)
       apply (simp_all add: unary_code_def truth_code_def acc_def t)
       apply (auto intro!: ins_end inss_end emits_give simp: i)
    done
qed

lemma emit_convert_signed:
  assumes "signed_kind k" "signed_kind k'"
  shows "emit_convert k k' =
    (if type_kind_bytes k = type_kind_bytes k' then skip else if k' = TYPE_LONG then ins ''movsxd rax, eax''
     else if k' = TYPE_SHORT then ins ''movsx eax, ax'' else if k' = TYPE_CHAR then ins ''movsx eax, al'' else skip)"
proof -
  have "type_kind_bytes k' = 8 \<longleftrightarrow> k' = TYPE_LONG" "type_kind_bytes k' = 2 \<longleftrightarrow> k' = TYPE_SHORT" "type_kind_bytes k' = 1 \<longleftrightarrow> k' = TYPE_CHAR"
    using assms(2) by (auto simp: signed_kind_def)
  with signed_kindD [OF assms(1)] signed_kindD [OF assms(2)] show ?thesis
    by (auto simp: emit_convert_def Let_def type_is_fp_def)
qed

lemma emits_cast:
  assumes e: "emits (k_expr K x) s as la (push_depth s) (of_kind k)" and i: "decl_type i = k'" "\<not> is_unsigned i"
    and k: "signed_kind k" "signed_kind k'"
  shows "emits (gen_cast K (Node i [Some x])) s (as @ cast_code k k') la (push_depth s) (of_kind k')"
  unfolding gen_cast_def
  apply (rule emits_eval [OF _ _ e], simp, simp)
  apply (simp only: prod.case of_kind_def [of k] emit_convert_signed [OF k] cast_code_def ASTNode.sel i simp_thms)
  apply (simp split: if_split)
  apply (auto simp: i intro!: ins_end emits_give)
  done

lemma emits_comma:
  assumes x: "emits (k_expr K x) s as la (push_depth s) (of_kind k)"
    and y: "\<And>is p dg. emits (k_expr K y) (wrote is la p dg s) bs lb p (of_kind k')"
    and i: "\<not> is_unsigned i"
  shows "emits (gen_comma K (Node i [Some x, Some y])) s (as @ bs) lb (push_depth s) (of_kind k')"
  unfolding gen_comma_def
  apply (rule emits_eval [OF _ _ x], simp, simp)
  apply (simp only: prod.case)
  apply (rule emits_code)
   apply (rule emits_eval [OF _ _ y], simp, simp)
   apply (simp only: prod.case)
   apply (rule emits_give)
     apply (simp_all add: of_kind_def set_full_def set_result_def with_info_def i)
  done

text \<open>What the induction gives for a part of the tree.\<close>

definition generates :: "cg_knot \<Rightarrow> ctx \<Rightarrow> iexp \<Rightarrow> bool" where
  "generates K C e \<longleftrightarrow> (\<forall>n s k. expr_of n = Some e \<longrightarrow> kind_of_exp C e = Some k \<longrightarrow> vars_in C s \<longrightarrow> 0 \<le> label_count s \<longrightarrow>
     label_count s + label_need e < 2 ^ 31 \<longrightarrow>
     emits (k_expr K n) s (code_of C e (label_count s)) (label_count s + label_need e) (push_depth s) (of_kind k))"

lemma generatesD:
  "generates K C e \<Longrightarrow> expr_of n = Some e \<Longrightarrow> kind_of_exp C e = Some k \<Longrightarrow> vars_in C s \<Longrightarrow> 0 \<le> label_count s \<Longrightarrow>
   label_count s + label_need e < 2 ^ 31 \<Longrightarrow>
   emits (k_expr K n) s (code_of C e (label_count s)) (label_count s + label_need e) (push_depth s) (of_kind k)"
  unfolding generates_def by blast

lemma emits_kid_types:
  assumes "typed x a ka s" "typed y b kb s"
    and "\<And>x y. expr_of x = Some a \<Longrightarrow> expr_of y = Some b \<Longrightarrow> emits (f (ka, kb, Node i [Some x, Some y])) s is l p Q"
  shows "emits (into (kid_types (Node i [Some x, Some y])) f) s is l p Q"
proof -
  obtain x' y' where "kid_types (Node i [Some x, Some y]) s = Inr ((ka, kb, Node i [Some x', Some y']), s)"
    and e: "expr_of x' = Some a" "expr_of y' = Some b"
    using kid_types_run [OF assms(1,2)] by blast
  then have "into (kid_types (Node i [Some x, Some y])) f s = f (ka, kb, Node i [Some x', Some y']) s"
    by (simp add: into_def)
  with assms(3) [OF e] show ?thesis by (simp add: emits_def)
qed

lemma exp_kind_eq [simp]: "kind_of_exp C e = Some k \<Longrightarrow> exp_kind C e = k"
  by (simp add: exp_kind_def)

text \<open>Both operands of an operator that is not a logical one, and what is done with them.\<close>

definition two_parts :: "cg_knot \<Rightarrow> ctx \<Rightarrow> iexp \<Rightarrow> iexp \<Rightarrow> TypeKind \<Rightarrow> TypeKind \<Rightarrow> ASTNode \<Rightarrow> ASTNode \<Rightarrow> CodeGen \<Rightarrow> bool" where
  "two_parts K C a b ka kb x y s \<longleftrightarrow> generates K C a \<and> generates K C b \<and> kind_of_exp C a = Some ka \<and> kind_of_exp C b = Some kb \<and>
     expr_of x = Some a \<and> expr_of y = Some b \<and> vars_in C s \<and> 0 \<le> label_count s \<and> label_count s + label_need a + label_need b < 2 ^ 31"

lemma two_parts_typed: "two_parts K C a b ka kb x y s \<Longrightarrow> typed x a ka s \<and> typed y b kb s"
  unfolding two_parts_def by (blast intro: expr_result_type_typed)

lemma two_parts_kinds: "two_parts K C a b ka kb x y s \<Longrightarrow> signed_kind ka \<and> signed_kind kb \<and> exp_kind C a = ka \<and> exp_kind C b = kb"
  unfolding two_parts_def by (auto intro: kind_of_exp_signed)

lemma two_parts_again: "two_parts K C a b ka kb x y s \<Longrightarrow> expr_of x' = Some a \<Longrightarrow> expr_of y' = Some b \<Longrightarrow> two_parts K C a b ka kb x' y' s"
  by (simp add: two_parts_def)

lemma emits_operands:
  assumes two: "two_parts K C a b ka kb x y s"
    and fit: "\<And>s a k. of_kind k a \<Longrightarrow> signed_kind k \<Longrightarrow> emits (fit a) s (widen_code c k) (label_count s) (push_depth s) (\<lambda>_. True)"
  shows "emits (two_operands K fit (Node i [Some x, Some y])) s
     (code_of C a (label_count s) @ widen_code c ka @ Push # code_of C b (label_count s + label_need a) @ widen_code c kb @ [Pop])
     (label_count s + label_need a + label_need b) (push_depth s)
     (\<lambda>(a, b, n). of_kind ka a \<and> of_kind kb b \<and> n = Node i [Some a, Some b])"
proof -
  from two have g: "generates K C a" "generates K C b" and k: "kind_of_exp C a = Some ka" "kind_of_exp C b = Some kb"
    and x: "expr_of x = Some a" "expr_of y = Some b"
    and s: "vars_in C s" "0 \<le> label_count s" "label_count s + label_need a + label_need b < 2 ^ 31"
    by (simp_all add: two_parts_def)
  show ?thesis
  proof (rule emits_two_operands)
  have le: "label_count s + label_need a < 2 ^ 31" using s(3) label_need_nonneg [of b] by linarith
  with s show "emits (k_expr K x) s (code_of C a (label_count s)) (label_count s + label_need a) (push_depth s) (of_kind ka)"
    by (intro generatesD [OF g(1) x(1) k(1)]) simp_all
  fix "is" p dg
  show "emits (k_expr K y) (wrote is (label_count s + label_need a) p dg s) (code_of C b (label_count s + label_need a))
     (label_count s + label_need a + label_need b) p (of_kind kb)"
    using generatesD [OF g(2) x(2) k(2), of "wrote is (label_count s + label_need a) p dg s"] s label_need_nonneg [of a] by simp
qed (use fit kind_of_exp_signed k in blast)+
qed

lemma emits_widen_bits: "of_kind k a \<Longrightarrow> emits (widen_bits c a) s (widen_code c k) (label_count s) (push_depth s) (\<lambda>_. True)"
  by (auto simp: widen_bits_def widen_code_def of_kind_def cg_when_def skip_def intro!: emits_ins emits_give)

lemma emits_widen_operand:
  "of_kind k a \<Longrightarrow> signed_kind k \<Longrightarrow> emits (widen_operand c a) s (widen_code c k) (label_count s) (push_depth s) (\<lambda>_. True)"
  by (auto simp: widen_operand_def widen_code_def of_kind_def cg_when_def skip_def dest: signed_kindD intro!: emits_ins emits_give)

lemma not_on_pointers_skip: "signed_kind k \<Longrightarrow> signed_kind l \<Longrightarrow> not_on_pointers op k l = skip"
  by (auto simp: not_on_pointers_def require_def dest: signed_kindD)

lemma uac_signed: "of_kind k a \<Longrightarrow> of_kind l b \<Longrightarrow> \<not> uac_unsigned a b"
  by (simp add: of_kind_def uac_unsigned_def uac_is_unsigned_def Let_def)

lemma code_binary:
  assumes "op \<notin> {''&&'', ''||''}" "exp_kind C a = ka" "exp_kind C b = kb" "operand_widening op ka kb = c"
  shows "code_of C (XBin op a b) l =
    (code_of C a l @ widen_code c ka @ Push # code_of C b (l + label_need a) @ widen_code c kb @ [Pop]) @ binary_code op ka kb"
  using assms by simp

text \<open>The operands, then the instructions of the operator.\<close>

lemma emits_binary:
  assumes two: "two_parts K C a b ka kb x y s" and op: "op \<notin> {''&&'', ''||''}"
    and fit: "\<And>s a k. of_kind k a \<Longrightarrow> signed_kind k \<Longrightarrow>
      emits (fit a) s (widen_code (operand_widening op ka kb) k) (label_count s) (push_depth s) (\<lambda>_. True)"
    and m: "\<And>a b s. of_kind ka a \<Longrightarrow> of_kind kb b \<Longrightarrow>
      emits (f (a, b, Node i [Some a, Some b])) s (binary_code op ka kb) (label_count s) (push_depth s) Q"
  shows "emits (into (two_operands K fit (Node i [Some x, Some y])) f) s (code_of C (XBin op a b) (label_count s))
     (label_count s + label_need a + label_need b) (push_depth s) Q"
proof -
  have k: "exp_kind C a = ka" "exp_kind C b = kb" using two_parts_kinds [OF two] by simp_all
  show ?thesis unfolding code_binary [OF op k refl]
  proof (rule emits_into [OF emits_operands [OF two fit]], assumption, assumption)
    fix r :: "ASTNode \<times> ASTNode \<times> ASTNode" and dg
    assume "case r of (a, b, n) \<Rightarrow> of_kind ka a \<and> of_kind kb b \<and> n = Node i [Some a, Some b]"
    then obtain a' b' where r: "r = (a', b', Node i [Some a', Some b'])" and ab: "of_kind ka a'" "of_kind kb b'" by auto
    from m [OF ab] show "emits (f r) (wrote (code_of C a (label_count s) @ widen_code (operand_widening op ka kb) ka @
       Push # code_of C b (label_count s + label_need a) @ widen_code (operand_widening op ka kb) kb @ [Pop])
       (label_count s + label_need a + label_need b) (push_depth s) dg s) (binary_code op ka kb)
       (label_count s + label_need a + label_need b) (push_depth s) Q"
      unfolding r by (metis wrote_sel(1,2))
  qed
qed

lemma bitwise_line:
  assumes "op \<in> {''&'', ''^'', ''|''}"
  obtains i where "binary_code op ka kb = [i]"
    "asm_line i = ''    '' @ (if op = ''&'' then ''and '' else if op = ''^'' then ''xor '' else ''or '') @
       (if common_arith_kind ka kb = TYPE_LONG then ''rax, rcx'' else ''eax, ecx'')"
  using assms by (elim insertE emptyE) (simp_all add: binary_code_def)

lemma emits_bitwise:
  assumes two: "two_parts K C a b ka kb x y s" and op: "op \<in> {''&'', ''^'', ''|''}" and i: "\<not> is_unsigned i"
  shows "emits (gen_bitwise K op (Node i [Some x, Some y])) s (code_of C (XBin op a b) (label_count s))
     (label_count s + label_need a + label_need b) (push_depth s) (of_kind (common_arith_kind ka kb))"
  unfolding gen_bitwise_def
proof (rule emits_kid_types [OF conjunct1 [OF two_parts_typed [OF two]] conjunct2 [OF two_parts_typed [OF two]]],
    unfold prod.case Let_def)
  fix x' y'
  assume e: "expr_of x' = Some a" "expr_of y' = Some b"
  have sk: "not_on_pointers op ka kb = skip" using two_parts_kinds [OF two] by (simp add: not_on_pointers_skip)
  have c: "operand_widening op ka kb = common_arith_kind ka kb" using op by (auto simp: operand_widening_def)
  show "emits (first (not_on_pointers op ka kb) (into (two_operands K (widen_bits (common_arith_kind ka kb)) (Node i [Some x', Some y']))
      (\<lambda>(a, b, n). first (ins ((if op = ''&'' then ''and '' else if op = ''^'' then ''xor '' else ''or '') @
          (if common_arith_kind ka kb = TYPE_LONG then ''rax, rcx'' else ''eax, ecx'')))
        (give (set_unsigned (uac_unsigned a b) (set_result (common_arith_kind ka kb) n)))))) s
      (code_of C (XBin op a b) (label_count s)) (label_count s + label_need a + label_need b) (push_depth s)
      (of_kind (common_arith_kind ka kb))"
    unfolding sk prog_simps
  proof (rule emits_binary [OF two_parts_again [OF two e]])
    show "op \<notin> {''&&'', ''||''}" using op by auto
    fix s a k
    assume "of_kind k a"
    then show "emits (widen_bits (common_arith_kind ka kb) a) s (widen_code (operand_widening op ka kb) k) (label_count s) (push_depth s) (\<lambda>_. True)"
      unfolding c by (rule emits_widen_bits)
  next
    fix a b s
    assume "of_kind ka a" "of_kind kb b"
    moreover obtain j where "binary_code op ka kb = [j]"
      "asm_line j = ''    '' @ (if op = ''&'' then ''and '' else if op = ''^'' then ''xor '' else ''or '') @
       (if common_arith_kind ka kb = TYPE_LONG then ''rax, rcx'' else ''eax, ecx'')"
      using bitwise_line [OF op] by blast
    ultimately show "emits (case (a, b, Node i [Some a, Some b]) of (a, b, n) \<Rightarrow>
        first (ins ((if op = ''&'' then ''and '' else if op = ''^'' then ''xor '' else ''or '') @
          (if common_arith_kind ka kb = TYPE_LONG then ''rax, rcx'' else ''eax, ecx'')))
        (give (set_unsigned (uac_unsigned a b) (set_result (common_arith_kind ka kb) n)))) s (binary_code op ka kb)
        (label_count s) (push_depth s) (of_kind (common_arith_kind ka kb))"
      unfolding prod.case by (simp only:) (rule ins_end, assumption, simp_all add: uac_signed)
  qed
qed

lemma shift_lines:
  assumes "op \<in> {''<<'', ''>>''}"
  shows "list_all2 (\<lambda>i t. asm_line i = ''    '' @ t) (binary_code op ka kb)
    [''xchg rax, rcx'', (if op = ''<<'' then ''shl '' else if False then ''shr '' else ''sar '') @ acc (promote_kind ka) @ '', cl'']"
  using assms by (elim insertE emptyE) (simp_all add: binary_code_def acc_def)

lemma emits_shift:
  assumes two: "two_parts K C a b ka kb x y s" and op: "op \<in> {''<<'', ''>>''}" and i: "\<not> is_unsigned i"
  shows "emits (gen_shift K op (Node i [Some x, Some y])) s (code_of C (XBin op a b) (label_count s))
     (label_count s + label_need a + label_need b) (push_depth s) (of_kind (promote_kind ka))"
  unfolding gen_shift_def
proof (rule emits_kid_types [OF conjunct1 [OF two_parts_typed [OF two]] conjunct2 [OF two_parts_typed [OF two]]],
    unfold prod.case)
  fix x' y'
  assume e: "expr_of x' = Some a" "expr_of y' = Some b"
  have sk: "not_on_pointers op ka kb = skip" using two_parts_kinds [OF two] by (simp add: not_on_pointers_skip)
  have c: "operand_widening op ka kb = TYPE_INT" using op by (simp add: operand_widening_def)
  show "emits (first (not_on_pointers op ka kb) (into (two_operands K (\<lambda>_. skip) (Node i [Some x', Some y']))
      (\<lambda>(a, b, n). let r = promote_kind (result_type (info a));
             insn = (if op = ''<<'' then ''shl '' else if is_unsigned (info a) then ''shr '' else ''sar '') in
         first (inss [''xchg rax, rcx'', insn @ acc r @ '', cl''])
           (give (set_unsigned (is_unsigned (info a)) (set_result r n)))))) s
      (code_of C (XBin op a b) (label_count s)) (label_count s + label_need a + label_need b) (push_depth s)
      (of_kind (promote_kind ka))"
    unfolding sk prog_simps
  proof (rule emits_binary [OF two_parts_again [OF two e]])
    show "op \<notin> {''&&'', ''||''}" using op by auto
    fix s k
    show "emits skip s (widen_code (operand_widening op ka kb) k) (label_count s) (push_depth s) (\<lambda>_. True)"
      by (simp add: c widen_code_def skip_def emits_give)
  next
    fix a b s
    assume "of_kind ka a" "of_kind kb b"
    then have a: "result_type (info a) = ka" "is_unsigned (info a) = False" by (simp_all add: of_kind_def)
    show "emits (case (a, b, Node i [Some a, Some b]) of (a, b, n) \<Rightarrow> let r = promote_kind (result_type (info a));
             insn = (if op = ''<<'' then ''shl '' else if is_unsigned (info a) then ''shr '' else ''sar '') in
         first (inss [''xchg rax, rcx'', insn @ acc r @ '', cl''])
           (give (set_unsigned (is_unsigned (info a)) (set_result r n)))) s (binary_code op ka kb)
        (label_count s) (push_depth s) (of_kind (promote_kind ka))"
      unfolding prod.case Let_def a by (rule inss_end [OF shift_lines [OF op]]) simp_all
  qed
qed

text \<open>Arithmetic and comparisons.\<close>

lemma arith_lines:
  assumes "op \<in> arith_ops"
  shows "list_all2 (\<lambda>i t. asm_line i = ''    '' @ t) (binary_code op ka kb)
    (int_arith_text (common_arith_kind ka kb = TYPE_LONG) False op)"
  using assms unfolding arith_ops_def
  by (elim insertE emptyE) (simp_all add: binary_code_def int_arith_text_def divide_code_def divide_text_def Let_def)

lemma compare_lines:
  assumes "op \<in> compare_ops"
  obtains cc where "setcc False op = Some cc" "list_all2 (\<lambda>i t. asm_line i = ''    '' @ t) (binary_code op ka kb)
    [if common_arith_kind ka kb = TYPE_LONG then ''cmp rcx, rax'' else ''cmp ecx, eax'', cc @ '' al'', ''movzx eax, al'']"
  using assms unfolding compare_ops_def relational_ops_def Un_iff
  by (elim disjE insertE emptyE) (simp_all add: setcc_def binary_code_def truth_code_def)

lemma arith_not_compare: "op \<in> compare_ops \<Longrightarrow> op \<notin> arith_ops"
  unfolding compare_ops_def relational_ops_def arith_ops_def by auto

lemma emits_finish_integers:
  assumes "of_kind ka a" "of_kind kb b" "op \<in> arith_ops \<union> compare_ops" "binary_kind op ka kb = Some k" "\<not> is_unsigned i"
  shows "emits (finish_integers No_Pointer (common_arith_kind ka kb) op a b (Node i [Some a, Some b])) s (binary_code op ka kb)
    (label_count s) (push_depth s) (of_kind k)"
proof (cases "op \<in> arith_ops")
  case True
  then have "k = common_arith_kind ka kb" using assms(4) by (simp add: binary_kind_def)
  moreover have "(if common_arith_kind ka kb = TYPE_LONG then TYPE_LONG else TYPE_INT) = common_arith_kind ka kb"
    by (simp add: common_arith_kind_def)
  moreover have "(No_Pointer = No_Pointer \<and> op \<in> arith_ops \<union> compare_ops \<and> uac_unsigned a b) = False"
    using uac_signed [OF assms(1,2)] by simp
  ultimately show ?thesis using True unfolding finish_integers_def Let_def
    by (simp only: if_True simp_thms) (rule inss_end [OF arith_lines [OF True]], simp_all)
next
  case False
  with assms(3) have c: "op \<in> compare_ops" by simp
  then have "k = TYPE_INT" using assms(4) False by (auto simp: binary_kind_def compare_ops_def relational_ops_def split: if_splits)
  obtain cc where cc: "setcc False op = Some cc" "list_all2 (\<lambda>i t. asm_line i = ''    '' @ t) (binary_code op ka kb)
    [if common_arith_kind ka kb = TYPE_LONG then ''cmp rcx, rax'' else ''cmp ecx, eax'', cc @ '' al'', ''movzx eax, al'']"
    using compare_lines [OF c] by blast
  have f: "((No_Pointer = No_Pointer \<and> op \<in> arith_ops \<union> compare_ops \<and> uac_unsigned a b) \<or> No_Pointer = Pointer_Compare) = False"
    using uac_signed [OF assms(1,2)] by simp
  have n: "need (setcc False op) = give cc" using cc(1) by (simp add: need_def)
  show ?thesis using False assms(5) \<open>k = TYPE_INT\<close> unfolding finish_integers_def Let_def f n prog_simps
    by (simp only: if_False) (rule inss_end [OF cc(2)], simp_all)
qed

lemma into_run: "m s = Inr (r, s') \<Longrightarrow> into m f s = f r s'"
  by (simp add: into_def)

lemma emits_int_binary:
  assumes two: "two_parts K C a b ka kb x y s" and op: "op \<in> arith_ops \<union> compare_ops" and i: "\<not> is_unsigned i"
    and k: "binary_kind op ka kb = Some k"
  shows "emits (gen_int_binary K op (Node i [Some x, Some y])) s (code_of C (XBin op a b) (label_count s))
     (label_count s + label_need a + label_need b) (push_depth s) (of_kind k)"
proof -
  note sk = two_parts_kinds [OF two]
  then have p: "ka \<noteq> TYPE_POINTER" "kb \<noteq> TYPE_POINTER" by (auto dest: signed_kindD)
  have n: "op \<notin> {''&&'', ''||''}" "op \<notin> {''<<'', ''>>''}" using op by (auto simp: arith_ops_def compare_ops_def relational_ops_def)
  obtain x' y' where q: "kid_types (Node i [Some x, Some y]) s = Inr ((ka, kb, Node i [Some x', Some y']), s)"
    and e: "expr_of x' = Some a" "expr_of y' = Some b"
    using kid_types_run [OF conjunct1 [OF two_parts_typed [OF two]] conjunct2 [OF two_parts_typed [OF two]]] by blast
  have "emits (into (two_operands K (widen_operand (common_arith_kind ka kb)) (Node i [Some x', Some y']))
      (\<lambda>(a, b, n). finish_integers No_Pointer (common_arith_kind ka kb) op a b n)) s
      (code_of C (XBin op a b) (label_count s)) (label_count s + label_need a + label_need b) (push_depth s) (of_kind k)"
  proof (rule emits_binary [OF two_parts_again [OF two e] n(1)])
    fix s a k
    assume "of_kind k a" "signed_kind k"
    with n(2) show "emits (widen_operand (common_arith_kind ka kb) a) s (widen_code (operand_widening op ka kb) k) (label_count s)
      (push_depth s) (\<lambda>_. True)"
      unfolding operand_widening_def by (simp only: if_False emits_widen_operand)
  next
    fix a b s
    assume "of_kind ka a" "of_kind kb b"
    from emits_finish_integers [OF this op k i]
    show "emits (case (a, b, Node i [Some a, Some b]) of (a, b, n) \<Rightarrow>
         finish_integers No_Pointer (common_arith_kind ka kb) op a b n) s (binary_code op ka kb) (label_count s) (push_depth s) (of_kind k)"
      by simp
  qed
  moreover have "(if op \<in> arith_ops \<union> compare_ops
        then into (kid_types (Node i [Some x, Some y])) (\<lambda>(lt, rt, n). into (role_of op lt rt) (\<lambda>role. give (role, common_of role lt rt, n)))
        else give (No_Pointer, TYPE_INT, Node i [Some x, Some y])) s = Inr ((No_Pointer, common_arith_kind ka kb, Node i [Some x', Some y']), s)"
    using p by (simp only: op if_True into_run [where m = "kid_types (Node i [Some x, Some y])", OF q] prod.case) (simp add: role_of_def give_def common_of_def into_def)
  then have "gen_int_binary K op (Node i [Some x, Some y]) s = into (two_operands K (widen_operand (common_arith_kind ka kb)) (Node i [Some x', Some y']))
      (\<lambda>(a, b, n). finish_integers No_Pointer (common_arith_kind ka kb) op a b n) s"
    unfolding gen_int_binary_def by (simp only: into_run prod.case pointer_role.distinct if_False prog_simps)
  ultimately show ?thesis by (simp only: emits_def)
qed

lemma kid_types_twice:
  assumes two: "two_parts K C a b ka kb x y s" and op: "op \<notin> {''&&'', ''||''}" "op \<notin> {''&'', ''^'', ''|''}" "op \<notin> {''<<'', ''>>''}"
    and f: "\<And>x y. two_parts K C a b ka kb x y s \<Longrightarrow> emits (gen_int_binary K op (Node i [Some x, Some y])) s is l p Q"
  shows "emits (gen_arith K op (Node i [Some x, Some y])) s is l p Q"
proof -
  have k: "\<not> type_is_fp ka" "\<not> type_is_fp kb" using two_parts_kinds [OF two] signed_kindD by blast+
  obtain x' y' where q: "kid_types (Node i [Some x, Some y]) s = Inr ((ka, kb, Node i [Some x', Some y']), s)"
    and e: "expr_of x' = Some a" "expr_of y' = Some b"
    using kid_types_run [OF conjunct1 [OF two_parts_typed [OF two]] conjunct2 [OF two_parts_typed [OF two]]] by blast
  obtain x'' y'' where q': "kid_types (Node i [Some x', Some y']) s = Inr ((ka, kb, Node i [Some x'', Some y'']), s)"
    and e': "expr_of x'' = Some a" "expr_of y'' = Some b"
    using kid_types_run [OF conjunct1 [OF two_parts_typed [OF two_parts_again [OF two e]]] conjunct2 [OF two_parts_typed [OF two_parts_again [OF two e]]]] by blast
  have "gen_arith K op (Node i [Some x, Some y]) s = gen_int_binary K op (Node i [Some x'', Some y'']) s"
    unfolding gen_arith_def by (simp only: into_run [where m = "kid_types (Node i [Some x, Some y])", OF q] into_run [where m = "kid_types (Node i [Some x', Some y'])", OF q'] prod.case k simp_thms if_False)
  with f [OF two_parts_again [OF two e']] show ?thesis by (simp add: emits_def)
qed

lemma emits_gen_binary:
  assumes two: "two_parts K C a b ka kb x y s" and op: "op \<notin> {''&&'', ''||''}" and i: "\<not> is_unsigned i" "nvalue i = Some op"
    and k: "binary_kind op ka kb = Some k"
  shows "emits (gen_binary K (Node i [Some x, Some y])) s (code_of C (XBin op a b) (label_count s))
     (label_count s + label_need a + label_need b) (push_depth s) (of_kind k)"
proof -
  have v: "into (value_text (Node i [Some x, Some y])) f = f op" for f :: "string \<Rightarrow> ASTNode cg"
    by (rule into_value_text) (simp add: i)
  have n: "(op = ''&&'') = False" "(op = ''||'') = False" using op by simp_all
  have "op \<in> arith_ops \<union> compare_ops \<or> op \<in> {''&'', ''^'', ''|''} \<or> op \<in> {''<<'', ''>>''}"
  proof (rule ccontr)
    assume "\<not> (op \<in> arith_ops \<union> compare_ops \<or> op \<in> {''&'', ''^'', ''|''} \<or> op \<in> {''<<'', ''>>''})"
    then have "binary_kind op ka kb = None"
      using op(1) unfolding binary_kind_def by (simp only: Un_iff de_Morgan_disj simp_thms if_False)
    with k show False by simp
  qed
  then consider (bits) "op \<in> {''&'', ''^'', ''|''}" | (shift) "op \<notin> {''&'', ''^'', ''|''}" "op \<in> {''<<'', ''>>''}"
    | (int) "op \<notin> {''&'', ''^'', ''|''}" "op \<notin> {''<<'', ''>>''}" "op \<in> arith_ops \<union> compare_ops" by blast
  then show ?thesis
  proof cases
    case bits
    have "k = common_arith_kind ka kb" using k unfolding binary_kind_def by (simp only: bits simp_thms if_True option.inject)
    with emits_bitwise [OF two bits i(1)] show ?thesis unfolding gen_binary_def v by (simp only: n bits if_False if_True)
  next
    case shift
    have "op \<notin> arith_ops" using shift(2) unfolding arith_ops_def by auto
    with k shift have "k = promote_kind ka" unfolding binary_kind_def by (simp only: simp_thms if_True if_False option.inject)
    with emits_shift [OF two shift(2) i(1)] show ?thesis unfolding gen_binary_def v by (simp only: n shift if_False if_True)
  next
    case int
    have "emits (gen_arith K op (Node i [Some x, Some y])) s (code_of C (XBin op a b) (label_count s))
      (label_count s + label_need a + label_need b) (push_depth s) (of_kind k)"
      by (rule kid_types_twice [OF two op int(1,2)]) (rule emits_int_binary [OF _ int(3) i(1) k])
    then show ?thesis unfolding gen_binary_def v by (simp only: n int if_False)
  qed
qed

subsection \<open>Jumps\<close>

lemma emits_test: "of_kind k a \<Longrightarrow> signed_kind k \<Longrightarrow>
  emits (test_operand (result_type (info a))) s [CmpZero (k = TYPE_LONG)] (label_count s) (push_depth s) (\<lambda>_. True)"
  using signed_kindD [of k] by (simp add: test_operand_def of_kind_def acc_def emits_ins)

lemma emits_condition: "of_kind k a \<Longrightarrow> signed_kind k \<Longrightarrow>
  emits (test_condition (result_type (info a))) s [CmpZero (k = TYPE_LONG)] (label_count s) (push_depth s) (\<lambda>_. True)"
  using signed_kindD [of k] by (auto simp: test_condition_def of_kind_def intro!: emits_ins)

lemma emits_fresh:
  assumes "0 \<le> label_count s" "label_count s < 2 ^ 31 - 1"
    and "\<And>dg. emits (f (label_count s)) (wrote [] (label_count s + 1) (push_depth s) dg s) is l p Q"
  shows "emits (into fresh_label f) s is l p Q"
  using emits_into [OF emits_fresh_label, of s f "is" l p Q] assms by auto

lemma emits_logic:
  assumes x: "\<And>dg. emits (k_expr K x) (wrote [] (label_count s + 1) (push_depth s) dg s) as la (push_depth s) (of_kind ka)"
    and y: "\<And>is dg. emits (k_expr K y) (wrote is la (push_depth s) dg s) bs lb (push_depth s) (of_kind kb)"
    and k: "signed_kind ka" "signed_kind kb" and c: "jump = ''j'' @ cond_name c" and v: "val = show_int n"
    and s: "0 \<le> label_count s" "label_count s < 2 ^ 31 - 1" and i: "\<not> is_unsigned i"
  shows "emits (short_circuit K jump known fin val (Node i [Some x, Some y])) s (logic_code known fin c n ka kb as bs (label_count s)) lb
    (push_depth s) (of_kind TYPE_INT)"
  unfolding short_circuit_def
  apply (rule emits_fresh [OF s])
  apply (rule emits_code)
   apply (rule emits_eval [OF _ _ x], simp, simp)
   apply (simp only: prod.case)
   apply (rule emits_first [OF emits_test [OF _ k(1)]], assumption)
   apply (rule emits_first [OF emits_ins [where i = "JumpIf c known (label_count s)"]])
    apply (simp add: c)
   apply (simp only: wrote_wrote wrote_sel)
   apply (rule emits_eval [OF _ _ y], simp, simp)
   apply (simp only: prod.case)
   apply (rule emits_first [OF emits_test [OF _ k(2)]], assumption)
   apply (rule emits_first [OF emits_inss [of "[SetIf IsNE, Movzx, Jmp fin (label_count s)]"]])
    apply simp
   apply (rule emits_first [OF emits_put_label])
   apply (rule emits_first [OF emits_ins [where i = "MovImm False n"]])
    apply (simp add: v)
   apply (rule emits_first [OF emits_put_label])
   apply (rule emits_give)
     apply (simp_all add: i logic_code_def truth_code_def)
  done


text \<open>The types of the branches are asked for before; they do not matter without floating point.\<close>

lemma emits_branch_kind:
  assumes "j < length cs" "cs ! j = Some c" "sized c s" "\<And>k. \<not> type_is_fp k \<Longrightarrow> emits (f k) s is l p Q"
  shows "emits (into (branch_kind j (Node i cs)) f) s is l p Q"
proof -
  from assms(3) obtain k where k: "sizeof_type_of_expr c s = Inr (k, s)" "\<not> type_is_fp k" by (auto simp: sized_def)
  then have "branch_kind j (Node i cs) s = Inr (k, s)" using assms(1,2) by (simp add: branch_kind_def query_def)
  with assms(4) [OF k(2)] show ?thesis by (simp add: emits_def into_def)
qed

lemma sized_wrote:
  "expr_of n = Some e \<Longrightarrow> kind_of_exp C e = Some k \<Longrightarrow> vars_in C s \<Longrightarrow> sized n (wrote is l p dg s)"
  by (rule sizeof_type_sized) simp_all

lemma emits_conditional:
  assumes a: "\<And>dg. emits (k_expr K a) (wrote [] (label_count s + 1) (push_depth s) dg s) as la (push_depth s) (of_kind ka)"
    and b: "\<And>is dg. emits (k_expr K b) (wrote is la (push_depth s) dg s) bs lb (push_depth s) (of_kind kb)"
    and c: "\<And>is dg. emits (k_expr K c) (wrote is lb (push_depth s) dg s) cs lc (push_depth s) (of_kind kc)"
    and z: "\<And>dg. sized b (wrote [] (label_count s + 1) (push_depth s) dg s)" "\<And>dg. sized c (wrote [] (label_count s + 1) (push_depth s) dg s)"
    and k: "signed_kind ka" "signed_kind kb" "signed_kind kc" "common_arith_kind kb kc = TYPE_INT"
    and s: "0 \<le> label_count s" "label_count s < 2 ^ 31 - 1" and i: "\<not> is_unsigned i"
  shows "emits (gen_conditional K (Node i [Some a, Some b, Some c])) s
    (as @ [CmpZero (ka = TYPE_LONG), JumpIf IsE ''cond_false'' (label_count s)] @ bs @
      [Jmp ''cond_end'' (label_count s), Label ''cond_false'' (label_count s)] @ cs @ [Label ''cond_end'' (label_count s)])
    lc (push_depth s) (of_kind TYPE_INT)"
proof -
  have p: "kb \<noteq> TYPE_POINTER" "kc \<noteq> TYPE_POINTER" using k by (auto dest: signed_kindD)
  have f: "fit_branch TYPE_INT x = skip" for x by (simp add: fit_branch_def)
  show ?thesis
  unfolding gen_conditional_def
  apply (rule emits_fresh [OF s])
  apply (rule emits_branch_kind [OF _ _ z(1)], simp, simp)
  apply (rule emits_branch_kind [OF _ _ z(2)], simp, simp)
  apply (simp only: Let_def simp_thms if_False)
  apply (rule emits_code)
   apply (rule emits_eval [OF _ _ a], simp, simp)
   apply (simp only: prod.case)
   apply (rule emits_first [OF emits_condition [OF _ k(1)]], assumption)
   apply (rule emits_first [OF emits_ins [where i = "JumpIf IsE ''cond_false'' (label_count s)"]])
    apply simp
   apply (simp only: wrote_wrote wrote_sel)
   apply (rule emits_eval [OF _ _ b], simp, simp)
   apply (simp only: prod.case f prog_simps)
   apply (rule emits_first [OF emits_ins [where i = "Jmp ''cond_end'' (label_count s)"]])
    apply simp
   apply (rule emits_first [OF emits_put_label])
   apply (simp only: wrote_wrote wrote_sel)
   apply (rule emits_eval [OF _ _ c], simp, simp)
   apply (simp only: prod.case f prog_simps)
   apply (rule emits_first [OF emits_put_label])
   apply (simp only: conditional_result_def of_kind_def [of kb] of_kind_def [of kc] p Let_def simp_thms if_False kinds_simps k(4))
   apply (rule emits_give)
     apply (simp_all add: i)
  done
qed

lemma expr_not_call: "expr_of n = Some e \<Longrightarrow> node_type n \<noteq> AST_FUNCTION_CALL"
  by (cases n rule: expr_of.cases) (auto split: if_splits)

lemma emits_store:
  assumes "of_kind k a" "signed_kind k" "sz = 4 \<or> sz = 8"
  shows "emits (store_at (slot off) sz (wide_kind (result_type (info a)))) s (store_code (sz = 8) k off) (label_count s) (push_depth s) (\<lambda>_. True)"
proof -
  have w: "wide_kind (result_type (info a)) = (k = TYPE_LONG)"
    using assms(1,2) by (auto simp: of_kind_def wide_kind_def long_kind_def signed_kind_def)
  have st: "emits (ins (''mov '' @ slot off @ '', '' @ reg_name b RAX)) s [Store b off] (label_count s) (push_depth s) (\<lambda>_. True)" for b s
    by (rule emits_ins) simp
  have "emits (first (ins ''movsxd rax, eax'') (ins (''mov '' @ slot off @ '', rax''))) s [Movsxd, Store True off]
      (label_count s) (push_depth s) (\<lambda>_. True)"
    by (rule emits_line, simp) (use st [where b = True] in \<open>simp, metis wrote_sel(1,2)\<close>)
  with assms(3) st [where b = True] st [where b = False] show ?thesis
    by (auto simp: store_at_def store_code_def widen_code_def w)
qed

lemma emits_set:
  assumes e: "emits (k_expr K y) s as la (push_depth s) (of_kind k)" and y: "expr_of y = Some a"
    and i: "nvalue i = Some x" "\<not> is_unsigned i" and k: "signed_kind k" and C: "vars_in C s" "var_kind_of C x = Some kx" "word_kind kx"
  shows "emits (gen_assignment K (Node i [Some y])) s (as @ store_code (size_of C x = 8) k (offset_of C x)) la (push_depth s) (of_kind kx)"
proof -
  obtain v where v: "find_var_of (Node i [Some y]) s = Inr (Some v, s)" "lv_kind v = kx" "lv_offset v = offset_of C x"
    "lv_size v = type_kind_bytes kx" "size_of C x = type_kind_bytes kx" "\<not> lv_is_static v" "\<not> lv_is_unsigned v" "\<not> lv_is_const v"
    using vars_in_find [OF C(1,2), of "Node i [Some y]"] i by auto
  have kx: "\<not> type_is_fp kx" "kx \<noteq> TYPE_POINTER" "kx \<noteq> TYPE_ARRAY" "kx \<noteq> TYPE_BOOL" "\<not> is_struct_or_union_kind kx"
    "type_kind_from_size (type_kind_bytes kx) = kx" "type_kind_bytes kx = 4 \<or> type_kind_bytes kx = 8"
    using C(3) by (auto simp: word_kind_def is_struct_or_union_kind_def type_kind_from_size_def)
  have ch: "check_function_pointer (lv_view v) nm n = skip" "warn_lost_const (lv_view v) nm n = skip" for nm n
    using kx v by (auto simp: check_function_pointer_def warn_lost_const_def pointee_of_def lv_view_def on_cg_def kind_at_def skip_def give_def
        fun_eq_iff Let_def split: option.splits)
  have st: "struct_of h (lv_view v) = None" for h using kx v by (simp add: struct_of_def lv_view_def)
  have vi: "fst (lv_view v) = kx" "lv_place v = slot (offset_of C x)" using v by (simp_all add: lv_view_def lv_place_def)
  have kd: "kid 0 (Node i [Some y]) = give y" by (simp add: kid_def need_def)
  have cc: "(child_count (Node i [Some y]) \<noteq> 2) = True" by simp
  have "emits (assign_scalar K (lv_view v) (lv_place v) (lv_size v) (lv_name v) (Node i [Some y])) s
      (as @ store_code (size_of C x = 8) k (offset_of C x)) la (push_depth s) (of_kind kx)"
    unfolding assign_scalar_def vi kd Let_def
    using expr_not_call [OF y]
    apply (simp only: kx if_False prog_simps simp_thms)
    apply (rule emits_eval [OF _ _ e], simp, simp)
    apply (simp only: prod.case ch kx prog_simps v if_False cg_when_def)
    apply (rule emits_code)
     apply (rule emits_first [OF emits_store [OF _ k]], assumption)
     apply (use kx in simp)
     apply (rule emits_give)
       apply (simp_all add: i)
    done
  moreover have "gen_assignment K (Node i [Some y]) s = assign_scalar K (lv_view v) (lv_place v) (lv_size v) (lv_name v) (Node i [Some y]) s"
    unfolding gen_assignment_def cc if_True assign_variable_def into_run [where m = "find_var_of (Node i [Some y])", OF v(1)] option.case assign_local_def
    using v kx by (simp add: on_cg_def st)
  ultimately show ?thesis by (simp add: emits_def)
qed

lemma emits_inc:
  assumes y: "expr_of y = Some (XVar x)" and i: "ntype i = (if post then AST_POSTFIX_INC_DEC else AST_PREFIX_INC_DEC)"
    "nvalue i = Some op" "up = (op = ''++'')" "\<not> is_unsigned i" and C: "vars_in C s" "var_kind_of C x = Some TYPE_INT"
  shows "emits (gen_inc_dec K (Node i [Some y])) s (code_of C (XInc post up x) l) (label_count s) (push_depth s) (of_kind TYPE_INT)"
proof -
  obtain j where j: "y = Node j []" "ntype j = AST_VAR_REF" "nvalue j = Some x" using expr_of_cases [OF y] by auto
  obtain v where v: "find_var_of y s = Inr (Some v, s)" "lv_kind v = TYPE_INT" "lv_offset v = offset_of C x"
    "lv_size v = 4" "\<not> lv_is_static v" "\<not> lv_is_unsigned v" "\<not> lv_is_const v"
    using vars_in_find [OF C, of y] j by auto
  have vw: "inc_dec_view b (lv_view v) (lv_place v) (lv_size v) (lv_is_unsigned v) n = inc_dec_view b (TYPE_INT, None) (slot (offset_of C x)) 4 False n" for b n
    using v by (simp add: lv_view_def lv_place_def inc_dec_view_def)
  have p: "(ntype i = AST_POSTFIX_INC_DEC) = post" using i(1) by simp
  have "emits (inc_dec_view post (TYPE_INT, None) (slot (offset_of C x)) 4 False (Node i [Some y])) s (code_of C (XInc post up x) l)
    (label_count s) (push_depth s) (of_kind TYPE_INT)"
    unfolding inc_dec_view_def
    apply (subst into_value_text [where t = op], simp add: i)
    apply (rule emits_on_cg)
    using i by (auto simp: store_at_def intro!: emits_line emits_give)
  moreover have "gen_inc_dec K (Node i [Some y]) s = inc_dec_view post (TYPE_INT, None) (slot (offset_of C x)) 4 False (Node i [Some y]) s"
    using v j by (simp add: gen_inc_dec_def kid_def need_def p into_run [where m = "find_var_of y", OF v(1), unfolded j(1)])
      (simp add: lv_view_def lv_place_def inc_dec_view_def)
  ultimately show ?thesis by (simp add: emits_def)
qed


subsection \<open>Every expression of the fragment\<close>

text \<open>A part of the tree, evaluated after some code and with later labels.\<close>

lemma generates_at:
  assumes "generates K C e" "expr_of n = Some e" "kind_of_exp C e = Some k" "vars_in C s" "0 \<le> l" "l + label_need e < 2 ^ 31"
    "l' = l + label_need e"
  shows "emits (k_expr K n) (wrote is l p dg s) (code_of C e l) l' p (of_kind k)"
  using generatesD [OF assms(1-3), of "wrote is l p dg s"] assms(4-) by simp

lemma generates_step:
  assumes "\<And>n s. expr_of n = Some e \<Longrightarrow> kind_of_exp C e = Some k \<Longrightarrow> vars_in C s \<Longrightarrow> 0 \<le> label_count s \<Longrightarrow>
      label_count s + label_need e < 2 ^ 31 \<Longrightarrow>
      emits (gen_expression (expr_knot d) n) s (code_of C e (label_count s)) (label_count s + label_need e) (push_depth s) (of_kind k)"
    "kind_of_exp C e = Some k"
  shows "generates (expr_knot (Suc d)) C e"
proof (unfold generates_def, intro allI impI)
  fix n s l
  assume a: "expr_of n = Some e" "kind_of_exp C e = Some l" "vars_in C s" "0 \<le> label_count s" "label_count s + label_need e < 2 ^ 31"
  have "l = k" using a(2) assms(2) by simp
  have "emits (codegen_expression (expr_knot d) n) s ([] @ code_of C e (label_count s)) (label_count s + label_need e) (push_depth s) (of_kind l)"
    unfolding codegen_expression_def \<open>l = k\<close>
  proof (rule emits_first [OF emits_mark])
    fix dg
    show "emits (gen_expression (expr_knot d) n) (wrote [] (label_count s) (push_depth s) dg s) (code_of C e (label_count s))
      (label_count s + label_need e) (push_depth s) (of_kind k)"
      using assms(1) [OF a(1) assms(2), of "wrote [] (label_count s) (push_depth s) dg s"] a by simp
  qed
  then show "emits (k_expr (expr_knot (Suc d)) n) s (code_of C e (label_count s)) (label_count s + label_need e) (push_depth s) (of_kind l)"
    by (simp del: expr_knot.simps)
qed

lemma generates_literal:
  assumes k0: "kind_of_exp C (XLit kk v) = Some k"
  shows "generates (expr_knot (Suc d')) C (XLit kk v)"
proof (rule generates_step)
  show "kind_of_exp C (XLit kk v) = Some k" by (rule k0)
  fix n :: ASTNode and s :: CodeGen
  assume n: "expr_of n = Some (XLit kk v)"
  with k0 show "emits (gen_expression (expr_knot d') n) s (code_of C (XLit kk v) (label_count s)) (label_count s + label_need (XLit kk v)) (push_depth s) (of_kind k)"
    using expr_of_cases [OF n] by (auto simp: gen_expression_def intro!: emits_literal split: if_splits)
qed

lemma generates_variable:
  assumes k0: "kind_of_exp C (XVar x) = Some k"
  shows "generates (expr_knot (Suc d')) C (XVar x)"
proof (rule generates_step)
  show "kind_of_exp C (XVar x) = Some k" by (rule k0)
  fix n :: ASTNode and s :: CodeGen
  assume n: "expr_of n = Some (XVar x)" and s: "vars_in C s"
  then show "emits (gen_expression (expr_knot d') n) s (code_of C (XVar x) (label_count s)) (label_count s + label_need (XVar x)) (push_depth s) (of_kind k)"
    using expr_of_cases [OF n] k0 by (auto simp: gen_expression_def intro!: emits_variable split: if_splits option.splits)
qed

lemma generates_unary:
  assumes g: "generates (expr_knot d') C a"
    and k0: "kind_of_exp C (XUn op a) = Some k"
  shows "generates (expr_knot (Suc d')) C (XUn op a)"
proof -
  from k0 obtain ka where ka: "kind_of_exp C a = Some ka" by (auto split: option.splits)
  have op: "op \<in> {''!'', ''-'', ''+'', ''~''}" "k = (if op = ''!'' then TYPE_INT else promote_kind ka)"
    using k0 ka by (auto split: if_splits)
  show ?thesis
  proof (rule generates_step)
    show "kind_of_exp C (XUn op a) = Some k" by (rule k0)
    fix n :: ASTNode and s :: CodeGen
    assume n: "expr_of n = Some (XUn op a)" and s: "vars_in C s" "0 \<le> label_count s" "label_count s + label_need (XUn op a) < 2 ^ 31"
    from expr_of_cases [OF n] obtain i x where x: "n = Node i [Some x]" "ntype i = AST_UNARY_OP" "nvalue i = Some op" "\<not> is_unsigned i" "expr_of x = Some a"
      by auto
    have "emits (k_expr (expr_knot d') x) s (code_of C a (label_count s)) (label_count s + label_need a) (push_depth s) (of_kind ka)"
      using s by (intro generatesD [OF g x(5) ka]) simp_all
    from emits_unary [OF this x(3,4) kind_of_exp_signed [OF ka] op(1)] ka x show "emits (gen_expression (expr_knot d') n) s (code_of C (XUn op a) (label_count s)) (label_count s + label_need (XUn op a)) (push_depth s) (of_kind k)"
      unfolding op(2) by (simp add: gen_expression_def)
  qed
qed

lemma show_bits: "show_int 0 = ''0''" "show_int 1 = ''1''"
  by code_simp+

lemma generates_binary:
  assumes g: "generates (expr_knot d') C a" "generates (expr_knot d') C b"
    and k0: "kind_of_exp C (XBin op a b) = Some k"
  shows "generates (expr_knot (Suc d')) C (XBin op a b)"
proof -
  from k0 obtain ka kb where k: "kind_of_exp C a = Some ka" "kind_of_exp C b = Some kb" "binary_kind op ka kb = Some k"
    by (auto split: option.splits)
  note sk = kind_of_exp_signed [OF k(1)] kind_of_exp_signed [OF k(2)]
  show ?thesis
  proof (rule generates_step)
    show "kind_of_exp C (XBin op a b) = Some k" by (rule k0)
    fix n :: ASTNode and s :: CodeGen
    assume n: "expr_of n = Some (XBin op a b)" and s: "vars_in C s" "0 \<le> label_count s" "label_count s + label_need (XBin op a b) < 2 ^ 31"
    from expr_of_cases [OF n] obtain i x y where x: "n = Node i [Some x, Some y]" "ntype i = AST_BINARY_OP" "nvalue i = Some op" "\<not> is_unsigned i"
      "expr_of x = Some a" "expr_of y = Some b" by auto
    note nn = label_need_nonneg [of a] label_need_nonneg [of b]
    have gx: "gen_expression (expr_knot d') (Node i [Some x, Some y]) = gen_binary (expr_knot d') (Node i [Some x, Some y])" using x by (simp add: gen_expression_def)
    have v: "into (value_text (Node i [Some x, Some y])) f = f op" for f :: "string \<Rightarrow> ASTNode cg"
      by (rule into_value_text) (simp add: x)
    show "emits (gen_expression (expr_knot d') n) s (code_of C (XBin op a b) (label_count s)) (label_count s + label_need (XBin op a b)) (push_depth s) (of_kind k)"
    proof (cases "op \<in> {''&&'', ''||''}")
      case False
      have "two_parts (expr_knot d') C a b ka kb x y s" using False g k x s nn by (simp add: two_parts_def)
      from emits_gen_binary [OF this False x(4,3) k(3)] False show ?thesis unfolding x(1) gx by (simp add: add.assoc)
    next
      case True
      then have s': "label_count s < 2 ^ 31 - 1" "label_count s + 1 + label_need a + label_need b < 2 ^ 31"
        using s(3) nn by (simp_all, linarith?)
      have kk: "k = TYPE_INT" using True k(3) unfolding binary_kind_def arith_ops_def compare_ops_def relational_ops_def by auto
      have X: "emits (k_expr (expr_knot d') x) (wrote is (label_count s + 1) p dg s) (code_of C a (label_count s + 1)) (label_count s + 1 + label_need a) p (of_kind ka)"
        for "is" p dg using s s' nn by (intro generates_at [OF g(1) x(5) k(1)]) (simp_all del: label_need_nonneg)
      have Y: "emits (k_expr (expr_knot d') y) (wrote is (label_count s + 1 + label_need a) p dg s) (code_of C b (label_count s + 1 + label_need a))
          (label_count s + 1 + label_need a + label_need b) p (of_kind kb)"
        for "is" p dg using s s' nn by (intro generates_at [OF g(2) x(6) k(2)]) (simp_all del: label_need_nonneg)
      from True show ?thesis
      proof (elim insertE emptyE)
        assume o: "op = ''&&''"
        have "emits (short_circuit (expr_knot d') ''je'' ''and_false'' ''and_end'' ''0'' (Node i [Some x, Some y])) s
          (logic_code ''and_false'' ''and_end'' IsE 0 ka kb (code_of C a (label_count s + 1)) (code_of C b (label_count s + 1 + label_need a)) (label_count s))
          (label_count s + 1 + label_need a + label_need b) (push_depth s) (of_kind TYPE_INT)"
          by (rule emits_logic [OF X Y sk]) (use s s' x in \<open>simp_all add: show_bits\<close>)
        then show ?thesis unfolding x(1) gx gen_binary_def v kk using o k by (simp add: add.assoc)
      next
        assume o: "op = ''||''"
        have "emits (short_circuit (expr_knot d') ''jne'' ''or_true'' ''or_end'' ''1'' (Node i [Some x, Some y])) s
          (logic_code ''or_true'' ''or_end'' IsNE 1 ka kb (code_of C a (label_count s + 1)) (code_of C b (label_count s + 1 + label_need a)) (label_count s))
          (label_count s + 1 + label_need a + label_need b) (push_depth s) (of_kind TYPE_INT)"
          by (rule emits_logic [OF X Y sk]) (use s s' x in \<open>simp_all add: show_bits\<close>)
        then show ?thesis unfolding x(1) gx gen_binary_def v kk using o k by (simp add: add.assoc)
      qed
    qed
  qed
qed

lemma generates_cast:
  assumes g: "generates (expr_knot d') C a"
    and k0: "kind_of_exp C (XCast kk a) = Some k"
  shows "generates (expr_knot (Suc d')) C (XCast kk a)"
proof -
  from k0 obtain ka where ka: "kind_of_exp C a = Some ka" and k: "signed_kind kk" "k = kk" by (auto split: if_splits)
  show ?thesis
  proof (rule generates_step)
    show "kind_of_exp C (XCast kk a) = Some k" by (rule k0)
    fix n :: ASTNode and s :: CodeGen
    assume n: "expr_of n = Some (XCast kk a)" and s: "vars_in C s" "0 \<le> label_count s" "label_count s + label_need (XCast kk a) < 2 ^ 31"
    from expr_of_cases [OF n] obtain i x where x: "n = Node i [Some x]" "ntype i = AST_CAST" "decl_type i = kk" "\<not> is_unsigned i" "expr_of x = Some a"
      by auto
    have "emits (k_expr (expr_knot d') x) s (code_of C a (label_count s)) (label_count s + label_need a) (push_depth s) (of_kind ka)"
      using s by (intro generatesD [OF g x(5) ka]) simp_all
    from emits_cast [OF this x(3,4) kind_of_exp_signed [OF ka] k(1)] ka x k show "emits (gen_expression (expr_knot d') n) s (code_of C (XCast kk a) (label_count s)) (label_count s + label_need (XCast kk a)) (push_depth s) (of_kind k)"
      by (simp add: gen_expression_def)
  qed
qed

lemma generates_conditional:
  assumes g: "generates (expr_knot d') C c" "generates (expr_knot d') C a" "generates (expr_knot d') C b"
    and k0: "kind_of_exp C (XCond c a b) = Some k"
  shows "generates (expr_knot (Suc d')) C (XCond c a b)"
proof -
  from k0 obtain kc ka kb where k: "kind_of_exp C c = Some kc" "kind_of_exp C a = Some ka" "kind_of_exp C b = Some kb"
    "common_arith_kind ka kb = TYPE_INT" "k = TYPE_INT" by (auto split: option.splits if_splits)
  show ?thesis
  proof (rule generates_step)
    show "kind_of_exp C (XCond c a b) = Some k" by (rule k0)
    fix n :: ASTNode and s :: CodeGen
    assume n: "expr_of n = Some (XCond c a b)" and s: "vars_in C s" "0 \<le> label_count s" "label_count s + label_need (XCond c a b) < 2 ^ 31"
    from expr_of_cases [OF n] obtain i x y z where x: "n = Node i [Some x, Some y, Some z]" "ntype i = AST_CONDITIONAL_EXPR" "\<not> is_unsigned i"
      "expr_of x = Some c" "expr_of y = Some a" "expr_of z = Some b" by auto
    note nn = label_need_nonneg [of a] label_need_nonneg [of b] label_need_nonneg [of c]
    have s': "label_count s < 2 ^ 31 - 1" "label_count s + 1 + label_need c + label_need a + label_need b < 2 ^ 31"
      using s(3) nn by (simp_all, linarith?)
    have "emits (gen_conditional (expr_knot d') (Node i [Some x, Some y, Some z])) s
      (code_of C c (label_count s + 1) @ [CmpZero (kc = TYPE_LONG), JumpIf IsE ''cond_false'' (label_count s)] @
       code_of C a (label_count s + 1 + label_need c) @ [Jmp ''cond_end'' (label_count s), Label ''cond_false'' (label_count s)] @
       code_of C b (label_count s + 1 + label_need c + label_need a) @ [Label ''cond_end'' (label_count s)])
      (label_count s + 1 + label_need c + label_need a + label_need b) (push_depth s) (of_kind TYPE_INT)"
    proof (rule emits_conditional)
      show "emits (k_expr (expr_knot d') x) (wrote [] (label_count s + 1) (push_depth s) dg s) (code_of C c (label_count s + 1))
        (label_count s + 1 + label_need c) (push_depth s) (of_kind kc)" for dg
        using s s' nn by (intro generates_at [OF g(1) x(4) k(1)]) (simp_all del: label_need_nonneg)
      show "emits (k_expr (expr_knot d') y) (wrote is (label_count s + 1 + label_need c) (push_depth s) dg s) (code_of C a (label_count s + 1 + label_need c))
        (label_count s + 1 + label_need c + label_need a) (push_depth s) (of_kind ka)" for "is" dg
        using s s' nn by (intro generates_at [OF g(2) x(5) k(2)]) (simp_all del: label_need_nonneg)
      show "emits (k_expr (expr_knot d') z) (wrote is (label_count s + 1 + label_need c + label_need a) (push_depth s) dg s)
        (code_of C b (label_count s + 1 + label_need c + label_need a))
        (label_count s + 1 + label_need c + label_need a + label_need b) (push_depth s) (of_kind kb)" for "is" dg
        using s s' nn by (intro generates_at [OF g(3) x(6) k(3)]) (simp_all del: label_need_nonneg)
    qed (use s s' x k sized_wrote [OF x(5) k(2) s(1)] sized_wrote [OF x(6) k(3) s(1)] kind_of_exp_signed in auto)
    then show "emits (gen_expression (expr_knot d') n) s (code_of C (XCond c a b) (label_count s)) (label_count s + label_need (XCond c a b)) (push_depth s) (of_kind k)"
      using x k by (simp add: gen_expression_def add.assoc)
  qed
qed

lemma generates_comma:
  assumes g: "generates (expr_knot d') C a" "generates (expr_knot d') C b"
    and k0: "kind_of_exp C (XComma a b) = Some k"
  shows "generates (expr_knot (Suc d')) C (XComma a b)"
proof -
  from k0 obtain ka where k: "kind_of_exp C a = Some ka" "kind_of_exp C b = Some k" by (auto split: if_splits)
  show ?thesis
  proof (rule generates_step)
    show "kind_of_exp C (XComma a b) = Some k" by (rule k0)
    fix n :: ASTNode and s :: CodeGen
    assume n: "expr_of n = Some (XComma a b)" and s: "vars_in C s" "0 \<le> label_count s" "label_count s + label_need (XComma a b) < 2 ^ 31"
    from expr_of_cases [OF n] obtain i x y where x: "n = Node i [Some x, Some y]" "ntype i = AST_COMMA_EXPR" "\<not> is_unsigned i"
      "expr_of x = Some a" "expr_of y = Some b" by auto
    note nn = label_need_nonneg [of a] label_need_nonneg [of b]
    have "emits (gen_comma (expr_knot d') (Node i [Some x, Some y])) s (code_of C a (label_count s) @ code_of C b (label_count s + label_need a))
      (label_count s + label_need a + label_need b) (push_depth s) (of_kind k)"
    proof (rule emits_comma)
      show "emits (k_expr (expr_knot d') x) s (code_of C a (label_count s)) (label_count s + label_need a) (push_depth s) (of_kind ka)"
        using s nn by (intro generatesD [OF g(1) x(4) k(1)]) (simp_all del: label_need_nonneg)
      show "emits (k_expr (expr_knot d') y) (wrote is (label_count s + label_need a) p dg s) (code_of C b (label_count s + label_need a))
        (label_count s + label_need a + label_need b) p (of_kind k)" for "is" p dg
        using s nn by (intro generates_at [OF g(2) x(5) k(2)]) (simp_all del: label_need_nonneg)
    qed (rule x(3))
    then show "emits (gen_expression (expr_knot d') n) s (code_of C (XComma a b) (label_count s)) (label_count s + label_need (XComma a b)) (push_depth s) (of_kind k)"
      using x by (simp add: gen_expression_def add.assoc)
  qed
qed

lemma generates_set:
  assumes g: "generates (expr_knot d') C a"
    and k0: "kind_of_exp C (XSet v a) = Some k"
  shows "generates (expr_knot (Suc d')) C (XSet v a)"
proof -
  from k0 obtain ka where k: "var_kind_of C v = Some k" "word_kind k" "kind_of_exp C a = Some ka" by (auto split: option.splits if_splits)
  show ?thesis
  proof (rule generates_step)
    show "kind_of_exp C (XSet v a) = Some k" by (rule k0)
    fix n :: ASTNode and s :: CodeGen
    assume n: "expr_of n = Some (XSet v a)" and s: "vars_in C s" "0 \<le> label_count s" "label_count s + label_need (XSet v a) < 2 ^ 31"
    from expr_of_cases [OF n] obtain i x where x: "n = Node i [Some x]" "ntype i = AST_ASSIGNMENT" "nvalue i = Some v" "\<not> is_unsigned i" "expr_of x = Some a"
      by auto
    have "emits (k_expr (expr_knot d') x) s (code_of C a (label_count s)) (label_count s + label_need a) (push_depth s) (of_kind ka)"
      using s by (intro generatesD [OF g x(5) k(3)]) simp_all
    from emits_set [OF this x(5) x(3,4) kind_of_exp_signed [OF k(3)] s(1) k(1,2)] k x show "emits (gen_expression (expr_knot d') n) s (code_of C (XSet v a) (label_count s)) (label_count s + label_need (XSet v a)) (push_depth s) (of_kind k)"
      by (simp add: gen_expression_def)
  qed
qed

lemma generates_inc:
  assumes k0: "kind_of_exp C (XInc post up v) = Some k"
  shows "generates (expr_knot (Suc d')) C (XInc post up v)"
proof -
  from k0 have k: "var_kind_of C v = Some TYPE_INT" "k = TYPE_INT" by (auto split: if_splits)
  show ?thesis
  proof (rule generates_step)
    show "kind_of_exp C (XInc post up v) = Some k" by (rule k0)
    fix n :: ASTNode and s :: CodeGen
    assume n: "expr_of n = Some (XInc post up v)" and s: "vars_in C s"
    from expr_of_cases [OF n] obtain i x op where x: "n = Node i [Some x]" "ntype i = (if post then AST_POSTFIX_INC_DEC else AST_PREFIX_INC_DEC)"
      "nvalue i = Some op" "up = (op = ''++'')" "\<not> is_unsigned i" "expr_of x = Some (XVar v)"
      by auto
    from emits_inc [OF x(6) x(2-5) s k(1)] x(1,2) show "emits (gen_expression (expr_knot d') n) s (code_of C (XInc post up v) (label_count s))
      (label_count s + label_need (XInc post up v)) (push_depth s) (of_kind k)"
      unfolding k(2) by (cases post) (simp_all add: gen_expression_def)
  qed
qed

lemma codegen_generates: "exp_depth e < d \<Longrightarrow> kind_of_exp C e = Some k \<Longrightarrow> generates (expr_knot d) C e"
proof (induction e arbitrary: d k)
  case (XLit kk v)
  then show ?case by (cases d) (auto intro!: generates_literal simp del: expr_knot.simps kind_of_exp.simps)
next
  case (XVar x)
  then show ?case by (cases d) (auto intro!: generates_variable simp del: expr_knot.simps kind_of_exp.simps)
next
  case (XUn op a)
  then obtain d' where d: "d = Suc d'" by (cases d) auto
  from XUn.prems(2) obtain ka where ka: "kind_of_exp C a = Some ka" by (auto split: option.splits)
  from XUn.IH [OF _ ka] XUn.prems d show ?case by (simp only: d) (intro generates_unary, simp_all)
next
  case (XBin op a b)
  then obtain d' where d: "d = Suc d'" by (cases d) auto
  from XBin.prems(2) obtain ka kb where k: "kind_of_exp C a = Some ka" "kind_of_exp C b = Some kb" by (auto split: option.splits)
  from XBin.IH(1) [OF _ k(1)] XBin.IH(2) [OF _ k(2)] XBin.prems d show ?case by (simp only: d) (intro generates_binary, simp_all)
next
  case (XCast kk a)
  then obtain d' where d: "d = Suc d'" by (cases d) auto
  from XCast.prems(2) obtain ka where ka: "kind_of_exp C a = Some ka" by (auto split: if_splits)
  from XCast.IH [OF _ ka] XCast.prems d show ?case by (simp only: d) (intro generates_cast, simp_all)
next
  case (XCond c a b)
  then obtain d' where d: "d = Suc d'" by (cases d) auto
  from XCond.prems(2) obtain kc ka kb where k: "kind_of_exp C c = Some kc" "kind_of_exp C a = Some ka" "kind_of_exp C b = Some kb"
    by (auto split: option.splits)
  from XCond.IH(1) [OF _ k(1)] XCond.IH(2) [OF _ k(2)] XCond.IH(3) [OF _ k(3)] XCond.prems d show ?case
    by (simp only: d) (intro generates_conditional, simp_all)
next
  case (XComma a b)
  then obtain d' where d: "d = Suc d'" by (cases d) auto
  from XComma.prems(2) obtain ka where k: "kind_of_exp C a = Some ka" "kind_of_exp C b = Some k" by (auto split: if_splits)
  from XComma.IH(1) [OF _ k(1)] XComma.IH(2) [OF _ k(2)] XComma.prems d show ?case by (simp only: d) (intro generates_comma, simp_all)
next
  case (XSet v a)
  then obtain d' where d: "d = Suc d'" by (cases d) auto
  from XSet.prems(2) obtain ka where ka: "kind_of_exp C a = Some ka" by (auto split: option.splits)
  from XSet.IH [OF _ ka] XSet.prems d show ?case by (simp only: d) (intro generates_set, simp_all)
next
  case (XInc post up v)
  then show ?case by (cases d) (auto intro!: generates_inc simp del: expr_knot.simps kind_of_exp.simps)
qed

end
