(* ===== verification/Codegen_Run.thy ===== *)
theory Codegen_Run
  imports Codegen_Value
begin

unbundle bit_operations_syntax

section \<open>Running the instructions\<close>

text \<open>
  Registers and the frame read back what was written, numbers that fit are not changed by the
  registers, and each group of instructions for a unary operator, a cast, a widening or a binary
  operator delivers the value of the operator in the accumulator.
\<close>

subsection \<open>Registers\<close>

definition word_value :: "bool \<Rightarrow> 64 word \<Rightarrow> int" where
  "word_value w x = (if w then sint x else sint (ucast x :: 32 word))"

lemma read_reg_value: "read_reg w r m = word_value w (regs m r)"
  by (simp add: read_reg_def word_value_def)

lemma word_value_word: "word_value w (if w then word_of_int v else ucast (word_of_int v :: 32 word)) = signed_take_bit (bits_of w - 1) v"
proof -
  have "sint (ucast (ucast (word_of_int v :: 32 word) :: 64 word) :: 32 word) = signed_take_bit 31 v"
    by transfer (simp add: signed_take_bit_take_bit)
  then show ?thesis by (simp add: word_value_def bits_of_def sint_sbintrunc')
qed

lemma word_value_low: "word_value False x = signed_take_bit 31 (word_value True x)"
  unfolding word_value_def by (simp, transfer) (simp add: signed_take_bit_take_bit)

lemma signed_fits_iff: "signed_fits w v \<longleftrightarrow> signed_take_bit (bits_of w - 1) v = v"
  by (simp add: signed_fits_def signed_take_bit_int_eq_self_iff)

lemma word_value_fits: "signed_fits w (word_value w x)"
  unfolding signed_fits_iff bits_of_def word_value_def
  by (cases w) (simp_all only: if_True if_False, (transfer, simp)+)

lemma read_fits: "signed_fits w (read_reg w r m)"
  by (simp add: read_reg_value word_value_fits)

lemma read_write [simp]:
  "read_reg w r (write_reg w r v m) = signed_take_bit (bits_of w - 1) v"
  "r \<noteq> r' \<Longrightarrow> read_reg w r (write_reg w' r' v m) = read_reg w r m"
  by (simp_all add: read_reg_value write_reg_def word_value_word)

lemma read_low: "read_reg False r m = signed_take_bit 31 (read_reg True r m)"
  by (simp add: read_reg_value word_value_low)

lemma mach_unchanged [simp]:
  "frame (write_reg w r v m) = frame m" "pushed (write_reg w r v m) = pushed m" "flags (write_reg w r v m) = flags m"
  "frame (spoil m) = frame m" "pushed (spoil m) = pushed m" "read_reg w r (spoil m) = read_reg w r m"
  "pushed (write_frame n off v m) = pushed m" "read_reg w r (write_frame n off v m) = read_reg w r m"
  by (simp_all add: write_reg_def spoil_def write_frame_def read_reg_def)

lemma read_frame_cong: "frame m = frame m' \<Longrightarrow> read_frame n off m = read_frame n off m'"
  by (simp add: read_frame_def)

subsection \<open>Numbers that fit\<close>

lemma fits_take: "signed_fits w v \<Longrightarrow> signed_take_bit (bits_of w - 1) v = v"
  by (simp add: signed_fits_iff)

lemmas fits_simp [simp] = fits_take [unfolded One_nat_def]

lemma bit_ops_take:
  "signed_take_bit n (a AND b) = signed_take_bit n a AND signed_take_bit n b"
  "signed_take_bit n (a OR b) = signed_take_bit n a OR signed_take_bit n b"
  "signed_take_bit n (a XOR b) = signed_take_bit n a XOR signed_take_bit n b"
  "signed_take_bit n (NOT a) = NOT (signed_take_bit n a)" for a b :: int
  by (auto simp: bit_eq_iff bit_simps)

lemma fits_bitwise:
  assumes "signed_fits w a" "signed_fits w b"
  shows "signed_fits w (a AND b)" "signed_fits w (a OR b)" "signed_fits w (a XOR b)" "signed_fits w (NOT a)"
  using assms by (simp_all only: signed_fits_iff bit_ops_take)

lemma fits_div:
  assumes "signed_fits w v"
  shows "signed_fits w (v div 2 ^ n)"
proof (cases "0 \<le> v")
  case True
  then have "0 \<le> v div 2 ^ n" "v div 2 ^ n \<le> v" using zdiv_mono2 [of v 1 "2 ^ n"] by (simp_all add: pos_imp_zdiv_nonneg_iff)
  with assms show ?thesis unfolding signed_fits_def by (meson le_less_trans order_trans zero_le_power neg_le_0_iff_le zero_le_numeral)
next
  case False
  then have "v div 1 \<le> v div 2 ^ n" by (intro zdiv_mono2_neg) simp_all
  moreover have "v div 2 ^ n < 0" using False by (simp add: pos_imp_zdiv_neg_iff)
  ultimately show ?thesis using assms unfolding signed_fits_def by (auto intro: less_trans)
qed

lemma fits_smod:
  assumes "signed_fits w b" "b \<noteq> 0"
  shows "signed_fits w (a smod b)"
proof -
  have s: "a smod b = sgn a * (\<bar>a\<bar> mod \<bar>b\<bar>)" by (simp add: signed_modulo_int_def)
  have m: "0 \<le> \<bar>a\<bar> mod \<bar>b\<bar>" "\<bar>a\<bar> mod \<bar>b\<bar> < \<bar>b\<bar>" using assms(2) by simp_all
  then have "\<bar>a smod b\<bar> < \<bar>b\<bar>" unfolding s using assms(2) by (simp add: abs_mult sgn_if)
  moreover have "\<bar>b\<bar> \<le> 2 ^ (bits_of w - 1)" using assms(1) unfolding signed_fits_def by linarith
  ultimately have "\<bar>a smod b\<bar> < 2 ^ (bits_of w - 1)" by linarith
  then show ?thesis unfolding signed_fits_def by linarith
qed

lemma fits_bool: "signed_fits w (of_bool b)"
  by (simp add: signed_fits_def bits_of_def)

lemma in_kind_fits: "signed_kind k \<Longrightarrow> in_kind k v \<Longrightarrow> signed_fits (k = TYPE_LONG) v"
  by (auto simp: signed_kind_def in_kind_def signed_fits_def bits_of_def)

lemma fits_in_kind: "word_kind k \<Longrightarrow> signed_fits (k = TYPE_LONG) v \<Longrightarrow> in_kind k v"
  by (auto simp: word_kind_def in_kind_def signed_fits_def bits_of_def)

lemma in_kind_promote: "signed_kind k \<Longrightarrow> in_kind k v \<Longrightarrow> in_kind (promote_kind k) v"
  by (auto simp: signed_kind_def in_kind_def promote_kind_def long_kind_def)

lemma in_kind_convert: "signed_kind k \<Longrightarrow> in_kind k (convert_to k v)"
  using signed_take_bit_int_greater_eq_minus_exp [of _ v] signed_take_bit_int_less_exp [of _ v]
  by (auto simp: in_kind_def convert_to_def signed_kind_def)

lemma convert_in_kind: "signed_kind k \<Longrightarrow> in_kind k v \<Longrightarrow> convert_to k v = v"
  by (auto simp: in_kind_def convert_to_def signed_kind_def signed_take_bit_int_eq_self_iff)

subsection \<open>The frame\<close>

lemma bytes_sum: "(\<Sum>k<n. uint (word_of_int (v div 256 ^ k) :: 8 word) * 256 ^ k) = v mod 256 ^ n" for v :: int
proof (induction n)
  case (Suc n)
  have u: "uint (word_of_int (v div 256 ^ n) :: 8 word) = v div 256 ^ n mod 256"
    by (simp add: uint_word_of_int take_bit_eq_mod)
  show ?case using Suc zmod_zmult2_eq [of 256 v "256 ^ n"] by (simp add: u algebra_simps)
qed simp

lemma read_write_frame:
  assumes "0 < n"
  shows "read_frame n off (write_frame n off v m) = signed_take_bit (8 * n - 1) v"
proof -
  have "(\<Sum>k<n. uint (frame (write_frame n off v m) (off - int k)) * 256 ^ k) = (\<Sum>k<n. uint (word_of_int (v div 256 ^ k) :: 8 word) * 256 ^ k)"
    by (rule sum.cong) (simp_all add: write_frame_def)
  also have "\<dots> = take_bit (8 * n) v"
    using bytes_sum [of v n] by (simp add: take_bit_eq_mod power_mult)
  finally have "(\<Sum>k<n. uint (frame (write_frame n off v m) (off - int k)) * 256 ^ k) = take_bit (8 * n) v" .
  moreover have "\<not> 8 * n \<le> 8 * n - 1" using assms by simp
  ultimately show ?thesis by (simp only: read_frame_def signed_take_bit_take_bit if_False)
qed

lemma read_frame_elsewhere:
  assumes "off \<le> off' - int n' \<or> off' \<le> off - int n"
  shows "read_frame n off (write_frame n' off' v m) = read_frame n off m"
proof -
  have "frame (write_frame n' off' v m) (off - int k) = frame m (off - int k)" if "k < n" for k
    using assms that by (auto simp: write_frame_def)
  then show ?thesis by (simp add: read_frame_def)
qed

subsection \<open>Running a piece of code\<close>

definition runs :: "instr list \<Rightarrow> mach \<Rightarrow> mach \<Rightarrow> bool" where
  "runs is m m' \<longleftrightarrow> (\<forall>rest. exec (is @ rest) m = exec rest m')"

lemma runs_nil: "runs [] m m"
  by (simp add: runs_def)

lemma runs_append: "runs is m m' \<Longrightarrow> runs js m' m'' \<Longrightarrow> runs (is @ js) m m''"
  by (simp add: runs_def)

fun jumps :: "instr \<Rightarrow> bool" where
  "jumps (JumpIf c stem l) = True"
| "jumps (Jmp stem l) = True"
| "jumps _ = False"

lemma runs_step: "step i m = Some m' \<Longrightarrow> \<not> jumps i \<Longrightarrow> runs is m' m'' \<Longrightarrow> runs (i # is) m m''"
  by (cases i) (simp_all add: runs_def)

lemma runs_one: "step i m = Some m' \<Longrightarrow> \<not> jumps i \<Longrightarrow> runs [i] m m'"
  by (rule runs_step [OF _ _ runs_nil])

lemma from_label_skip: "Label stem l \<notin> set xs \<Longrightarrow> from_label stem l (xs @ Label stem l # ys) = Some ys"
  by (induction xs) auto

lemma runs_taken:
  "flags m = Some (a, b) \<Longrightarrow> holds c a b \<Longrightarrow> Label stem l \<notin> set xs \<Longrightarrow> runs ys m m' \<Longrightarrow> runs (JumpIf c stem l # xs @ Label stem l # ys) m m'"
  by (simp add: runs_def from_label_skip)

lemma runs_not_taken: "flags m = Some (a, b) \<Longrightarrow> \<not> holds c a b \<Longrightarrow> runs is m m' \<Longrightarrow> runs (JumpIf c stem l # is) m m'"
  by (simp add: runs_def)

lemma runs_jmp: "Label stem l \<notin> set xs \<Longrightarrow> runs ys m m' \<Longrightarrow> runs (Jmp stem l # xs @ Label stem l # ys) m m'"
  by (simp add: runs_def from_label_skip)

lemma runs_label: "runs is m m' \<Longrightarrow> runs (Label stem l # is) m m'"
  by (simp add: runs_def)

text \<open>The labels of the code of an expression are the ones it was given.\<close>

lemma no_labels: "Label stem j \<notin> set (widen_code c k)" "Label stem j \<notin> set (unary_code op k)"
  "Label stem j \<notin> set (binary_code op k k')" "Label stem j \<notin> set (cast_code k k')" "Label stem j \<notin> set (store_code w k off)"
  "Label stem j \<notin> set (truth_code cc)"
  by (auto simp: widen_code_def unary_code_def binary_code_def cast_code_def store_code_def truth_code_def divide_code_def Let_def)

lemma code_labels: "Label stem j \<in> set (code_of C e l) \<Longrightarrow> l \<le> j \<and> j < l + label_need e"
proof (induction e arbitrary: l)
  case (XBin op a b)
  note n = label_need_nonneg [of a] label_need_nonneg [of b]
  show ?case
  proof (cases "op = ''&&'' \<or> op = ''||''")
    case True
    with XBin.prems consider "j = l" | "Label stem j \<in> set (code_of C a (l + 1))" | "Label stem j \<in> set (code_of C b (l + 1 + label_need a))"
      by (auto simp: logic_code_def truth_code_def Let_def)
    then show ?thesis using True n XBin.IH(1) [of "l + 1"] XBin.IH(2) [of "l + 1 + label_need a"] by cases (auto simp del: label_need_nonneg)
  next
    case False
    with XBin.prems consider "Label stem j \<in> set (code_of C a l)" | "Label stem j \<in> set (code_of C b (l + label_need a))"
      by (auto simp: Let_def no_labels)
    then show ?thesis using False n XBin.IH(1) [of l] XBin.IH(2) [of "l + label_need a"] by cases (auto simp del: label_need_nonneg)
  qed
next
  case (XCond c a b)
  note n = label_need_nonneg [of a] label_need_nonneg [of b] label_need_nonneg [of c]
  from XCond.prems consider "j = l" | "Label stem j \<in> set (code_of C c (l + 1))" | "Label stem j \<in> set (code_of C a (l + 1 + label_need c))"
    | "Label stem j \<in> set (code_of C b (l + 1 + label_need c + label_need a))"
    by auto
  then show ?case using n XCond.IH(1) [of "l + 1"] XCond.IH(2) [of "l + 1 + label_need c"] XCond.IH(3) [of "l + 1 + label_need c + label_need a"]
    by cases (auto simp del: label_need_nonneg)
next
  case (XComma a b)
  from XComma.prems consider "Label stem j \<in> set (code_of C a l)" | "Label stem j \<in> set (code_of C b (l + label_need a))" by auto
  then show ?case using label_need_nonneg [of a] label_need_nonneg [of b] XComma.IH(1) [of l] XComma.IH(2) [of "l + label_need a"] by cases (auto simp del: label_need_nonneg)
qed (auto simp: no_labels split: if_splits)


subsection \<open>Code that leaves a value in the accumulator\<close>

definition delivers :: "instr list \<Rightarrow> mach \<Rightarrow> bool \<Rightarrow> int \<Rightarrow> bool" where
  "delivers is m w v \<longleftrightarrow> (\<exists>m'. runs is m m' \<and> read_reg w RAX m' = v \<and> frame m' = frame m \<and> pushed m' = pushed m)"

lemma delivers_nil: "read_reg w RAX m = v \<Longrightarrow> delivers [] m w v"
  by (auto simp: delivers_def intro: runs_nil)

lemma delivers_step:
  "step i m = Some m1 \<Longrightarrow> \<not> jumps i \<Longrightarrow> frame m1 = frame m \<Longrightarrow> pushed m1 = pushed m \<Longrightarrow> delivers is m1 w v \<Longrightarrow> delivers (i # is) m w v"
  unfolding delivers_def by (metis runs_step)

lemma delivers_one:
  "step i m = Some m1 \<Longrightarrow> \<not> jumps i \<Longrightarrow> frame m1 = frame m \<Longrightarrow> pushed m1 = pushed m \<Longrightarrow> read_reg w RAX m1 = v \<Longrightarrow> delivers [i] m w v"
  by (rule delivers_step [OF _ _ _ _ delivers_nil])

lemma bits_of_Suc: "bits_of True - 1 = 63" "bits_of False - 1 = 31"
  by (simp_all add: bits_of_def)

lemma delivers_truth:
  assumes "flags m = Some (a, b)"
  shows "delivers (truth_code c) m False (of_bool (holds c a b))"
proof -
  define x where "x = read_reg True RAX m"
  have e: "(x - x mod 256 + of_bool (holds c a b)) mod 256 = of_bool (holds c a b)"
  proof -
    have "x - x mod 256 + of_bool (holds c a b) = of_bool (holds c a b) + 256 * (x div 256)"
      by (simp only: minus_mod_eq_mult_div add.commute)
    then show ?thesis by (simp only: mod_mult_self2) (simp add: of_bool_def)
  qed
  have "signed_take_bit (bits_of True - 1) y mod 256 = y mod 256" for y :: int
  proof -
    have "take_bit 8 (signed_take_bit 63 y) = take_bit 8 y" by (simp add: take_bit_signed_take_bit)
    then show ?thesis by (simp add: take_bit_eq_mod bits_of_def)
  qed
  with e have r: "signed_take_bit (bits_of True - 1) (x - x mod 256 + of_bool (holds c a b)) mod 256 = of_bool (holds c a b)" by simp
  show ?thesis
    unfolding truth_code_def
    by (rule delivers_step, simp add: assms, simp, simp, simp, rule delivers_one, simp, simp, simp, simp)
      (simp add: r [unfolded One_nat_def] x_def [symmetric] fits_bool del: of_bool_eq_iff)
qed

lemma delivers_unary:
  assumes m: "read_reg (k = TYPE_LONG) RAX m = v" and k: "signed_kind k" "in_kind k v" and op: "op \<in> {''!'', ''-'', ''+'', ''~''}"
    and x: "unary_value op k v = Some x"
  shows "delivers (unary_code op k) m ((if op = ''!'' then TYPE_INT else promote_kind k) = TYPE_LONG) x"
proof -
  have p: "(promote_kind k = TYPE_LONG) = (k = TYPE_LONG)" using k(1) by (auto simp: signed_kind_def promote_kind_def long_kind_def)
  have w: "word_kind (promote_kind k)" using k(1) by (auto simp: signed_kind_def word_kind_def promote_kind_def long_kind_def)
  note f = in_kind_fits [OF k]
  from op show ?thesis
  proof (elim insertE emptyE)
    assume o: "op = ''!''"
    have "delivers (truth_code IsE) (m\<lparr>flags := Some (v, 0)\<rparr>) False (of_bool (holds IsE v 0))" by (rule delivers_truth) simp
    with o x show ?thesis unfolding unary_code_def unary_value_def
      by (simp add: m) (rule delivers_step, simp add: m, simp_all)
  next
    assume o: "op = ''-''"
    with x have n: "x = - v" "in_kind (promote_kind k) (- v)" by (auto simp: unary_value_def fitting_def split: if_splits)
    have "signed_fits (k = TYPE_LONG) (- v)"
      using n(2) w by (auto simp: p [symmetric] word_kind_def in_kind_def signed_fits_def bits_of_def)
    with o n(1) m show ?thesis by (auto simp: unary_code_def p intro!: delivers_one)
  next
    assume o: "op = ''+''"
    with x m show ?thesis by (simp add: unary_value_def unary_code_def p delivers_nil)
  next
    assume o: "op = ''~''"
    with x m fits_bitwise(4) [OF f f] show ?thesis by (auto simp: unary_value_def unary_code_def p intro!: delivers_one)
  qed
qed

lemma delivers_cast:
  assumes m: "read_reg (k = TYPE_LONG) RAX m = v" and k: "signed_kind k" "in_kind k v" and d: "signed_kind k'"
  shows "delivers (cast_code k k') m (k' = TYPE_LONG) (convert_to k' v)"
proof (cases "type_kind_bytes k = type_kind_bytes k'")
  case True
  then have "k = k'" using k(1) d by (auto simp: signed_kind_def)
  with m k show ?thesis by (simp add: cast_code_def convert_in_kind delivers_nil)
next
  case False
  have lo: "read_reg False RAX m = signed_take_bit 31 v"
  proof (cases "k = TYPE_LONG")
    case True with m show ?thesis by (simp add: read_low)
  next
    case f: False
    then have "signed_fits False v" using in_kind_fits [OF k] by simp
    from fits_take [OF this] m f show ?thesis by (simp add: bits_of_def)
  qed
  have l: "convert_to TYPE_LONG v = v" if "k \<noteq> TYPE_LONG"
    using that k by (auto simp: convert_to_def signed_kind_def in_kind_def signed_take_bit_int_eq_self_iff)
  have t: "signed_take_bit (8 * n - 1) (signed_take_bit 31 v) = signed_take_bit (8 * n - 1) v" if "n = 1 \<or> n = 2 \<or> n = 4" for n
    using that by auto
  have r: "signed_take_bit (bits_of False - 1) (signed_take_bit (8 * n - 1) v) = signed_take_bit (8 * n - 1) v" if "n = 1 \<or> n = 2 \<or> n = 4" for n
    using that by (auto simp: bits_of_def)
  consider "k' = TYPE_LONG" | "k' = TYPE_INT" | "k' = TYPE_SHORT" | "k' = TYPE_CHAR" using d by (auto simp: signed_kind_def)
  then show ?thesis
  proof cases
    case 1
    with False have kl: "k \<noteq> TYPE_LONG" by auto
    with m have "read_reg False RAX m = v" by simp
    moreover have "signed_fits True v" using in_kind_fits [OF k] kl by (auto simp: signed_fits_def bits_of_def)
    ultimately show ?thesis using 1 False l [OF kl] by (auto simp: cast_code_def intro!: delivers_one)
  next
    case 2
    with False lo show ?thesis by (auto simp: cast_code_def convert_to_def intro!: delivers_nil)
  next
    case 3
    with False show ?thesis using t [of 2] r [of 2] by (auto simp: cast_code_def convert_to_def lo intro!: delivers_one)
  next
    case 4
    with False show ?thesis using t [of 1] r [of 1] by (auto simp: cast_code_def convert_to_def lo intro!: delivers_one)
  qed
qed

lemma delivers_widen:
  assumes m: "read_reg (k = TYPE_LONG) RAX m = v" and c: "c = TYPE_INT \<longrightarrow> k \<noteq> TYPE_LONG" "word_kind c" and k: "signed_kind k" "in_kind k v"
  shows "delivers (widen_code c k) m (c = TYPE_LONG) v"
proof (cases "c = TYPE_LONG \<and> k \<noteq> TYPE_LONG")
  case True
  then have "signed_fits True v" using in_kind_fits [OF k] by (auto simp: signed_fits_def bits_of_def)
  with True m show ?thesis by (auto simp: widen_code_def intro!: delivers_one)
next
  case False
  with m c show ?thesis by (auto simp: widen_code_def word_kind_def intro!: delivers_nil)
qed

subsection \<open>Binary operators\<close>

lemma delivers_divide:
  assumes m: "read_reg w RCX m = v" "read_reg w RAX m = u" and u: "u \<noteq> 0" "signed_fits w (v sdiv u)"
  shows "\<exists>m'. runs (divide_code w) m m' \<and> read_reg w RAX m' = v sdiv u \<and> read_reg w RDX m' = v smod u \<and> frame m' = frame m \<and> pushed m' = pushed m"
proof -
  define m1 where "m1 = write_reg w RAX v (write_reg w RCX u m)"
  define m2 where "m2 = write_reg w RDX (if v < 0 then - 1 else 0) m1"
  have f: "signed_fits w v" "signed_fits w u" using read_fits m by blast+
  have r: "read_reg w RAX m1 = v" "read_reg w RCX m1 = u" using f by (simp_all add: m1_def)
  have d: "signed_fits w (if v < 0 then - 1 else 0)" by (simp add: signed_fits_def bits_of_def)
  have r2: "read_reg w RAX m2 = v" "read_reg w RCX m2 = u" "read_reg w RDX m2 = (if v < 0 then - 1 else 0)"
    using r fits_take [OF d] by (simp_all add: m2_def)
  have e: "(if v < 0 then - 1 else 0) * 2 ^ bits_of w + v mod 2 ^ bits_of w = v"
  proof -
    have b: "- (2 ^ bits_of w) \<le> v" "v < 2 ^ bits_of w" using f(1) by (auto simp: signed_fits_def bits_of_def split: if_splits)
    show ?thesis
    proof (cases "v < 0")
      case True
      then have "(v + 2 ^ bits_of w) mod 2 ^ bits_of w = v + 2 ^ bits_of w" using b by (intro mod_pos_pos_trivial) simp_all
      with True show ?thesis by simp
    next
      case False
      with b show ?thesis by simp
    qed
  qed
  define m3 where "m3 = spoil (write_reg w RAX (v sdiv u) (write_reg w RDX (v smod u) m2))"
  have s: "divide w m2 = Some m3" using u by (simp add: divide_def r2 e m3_def)
  have "runs (divide_code w) m m3"
    unfolding divide_code_def
    by (rule runs_step [where m' = m1], simp add: m m1_def, simp, rule runs_step [where m' = m2], simp add: r m2_def, simp, rule runs_one)
      (simp_all add: s)
  moreover have "read_reg w RAX m3 = v sdiv u" "read_reg w RDX m3 = v smod u"
    using u fits_smod [OF f(2) u(1)] by (simp_all add: m3_def)
  moreover have "frame m3 = frame m" "pushed m3 = pushed m" by (simp_all add: m3_def m2_def m1_def)
  ultimately show ?thesis by blast
qed

lemma delivers_compare:
  assumes "read_reg w RCX m = v" "read_reg w RAX m = u"
  shows "delivers (CmpRegs w # truth_code c) m False (of_bool (holds c v u))"
  by (rule delivers_step [where ?m1.0 = "m\<lparr>flags := Some (v, u)\<rparr>"]) (use assms in \<open>simp_all add: delivers_truth\<close>)


lemma delivers_alu:
  assumes m: "read_reg w RCX m = v" "read_reg w RAX m = u" and f: "signed_fits w (alu_result f u v)"
  shows "delivers [Alu f w RAX RCX] m w (alu_result f u v)"
  by (rule delivers_one, simp, simp, simp, simp) (use m f in simp)

lemma delivers_arith:
  assumes m: "read_reg (common_arith_kind ka kb = TYPE_LONG) RCX m = v" "read_reg (common_arith_kind ka kb = TYPE_LONG) RAX m = u"
    and x: "binary_value op ka kb v u = Some x" and op: "op \<in> arith_ops \<or> op \<in> {''&'', ''^'', ''|''}"
  shows "delivers (binary_code op ka kb) m (common_arith_kind ka kb = TYPE_LONG) x"
proof -
  define c where "c = common_arith_kind ka kb"
  have w: "word_kind c" by (simp add: c_def word_kind_def common_arith_kind_def)
  then have k: "signed_kind c" by (auto simp: word_kind_def signed_kind_def)
  have f: "signed_fits (c = TYPE_LONG) v" "signed_fits (c = TYPE_LONG) u" using m read_fits unfolding c_def by blast+
  have fit: "y = x \<and> signed_fits (c = TYPE_LONG) x" if "fitting c y = Some x" for y
    using that in_kind_fits [OF k] by (auto simp: fitting_def split: if_splits)
  have alu: "delivers [Alu g (c = TYPE_LONG) RAX RCX] m (c = TYPE_LONG) x"
    if "alu_result g u v = x" "signed_fits (c = TYPE_LONG) x" for g
    using delivers_alu [OF m, of g] that unfolding c_def by simp
  consider "op = ''+''" | "op = ''-''" | "op = ''*''" | "op = ''/''" | "op = ''%''" | "op = ''&''" | "op = ''^''" | "op = ''|''"
    using op unfolding arith_ops_def by blast
  then show ?thesis
  proof cases
    case 1
    with x fit [of "v + u"] show ?thesis by (simp add: binary_value_def binary_code_def c_def [symmetric] Let_def alu add.commute)
  next
    case 2
    with x fit [of "v - u"] have "x = v - u" "signed_fits (c = TYPE_LONG) (v - u)" by (auto simp: binary_value_def c_def [symmetric] Let_def)
    with m 2 show ?thesis unfolding c_def [symmetric]
      by (auto simp: binary_code_def c_def [symmetric] Let_def intro!: delivers_step delivers_nil)
  next
    case 3
    with x fit [of "v * u"] show ?thesis by (simp add: binary_value_def binary_code_def c_def [symmetric] Let_def alu mult.commute)
  next
    case 4
    with x have u: "u \<noteq> 0" "fitting c (v sdiv u) = Some x" by (auto simp: binary_value_def c_def [symmetric] Let_def split: if_splits)
    with fit [OF u(2)] have "signed_fits (c = TYPE_LONG) (v sdiv u)" by simp
    from delivers_divide [OF m [unfolded c_def [symmetric]] u(1) this] fit [OF u(2)] 4 show ?thesis
      by (auto simp: binary_code_def c_def [symmetric] Let_def delivers_def)
  next
    case 5
    with x have u: "u \<noteq> 0" "in_kind c (v sdiv u)" "x = v smod u" by (auto simp: binary_value_def c_def [symmetric] Let_def split: if_splits)
    from delivers_divide [OF m [unfolded c_def [symmetric]] u(1) in_kind_fits [OF k u(2)]] obtain m' where m': "runs (divide_code (c = TYPE_LONG)) m m'"
      "read_reg (c = TYPE_LONG) RDX m' = x" "frame m' = frame m" "pushed m' = pushed m" using u(3) by blast
    have "runs [MovReg (c = TYPE_LONG) RAX RDX] m' (write_reg (c = TYPE_LONG) RAX x m')" by (rule runs_one) (simp_all add: m')
    from runs_append [OF m'(1) this] 5 m' show ?thesis unfolding delivers_def
      by (intro exI [of _ "write_reg (c = TYPE_LONG) RAX x m'"]) (use fits_smod [OF f(2) u(1)] u(3) in \<open>simp add: binary_code_def c_def [symmetric] Let_def\<close>)
  next
    case 6
    with x fits_bitwise(1) [OF f(2,1)] show ?thesis by (simp add: binary_value_def binary_code_def c_def [symmetric] Let_def alu and.commute)
  next
    case 7
    with x fits_bitwise(3) [OF f(2,1)] show ?thesis by (simp add: binary_value_def binary_code_def c_def [symmetric] Let_def alu xor.commute)
  next
    case 8
    with x fits_bitwise(2) [OF f(2,1)] show ?thesis by (simp add: binary_value_def binary_code_def c_def [symmetric] Let_def alu or.commute)
  qed
qed

lemma delivers_comparison:
  assumes m: "read_reg (common_arith_kind ka kb = TYPE_LONG) RCX m = v" "read_reg (common_arith_kind ka kb = TYPE_LONG) RAX m = u"
    and x: "binary_value op ka kb v u = Some x" and op: "op \<in> compare_ops"
  shows "delivers (binary_code op ka kb) m False x"
proof -
  obtain c where c: "binary_code op ka kb = CmpRegs (common_arith_kind ka kb = TYPE_LONG) # truth_code c" "x = of_bool (holds c v u)"
    using op x unfolding compare_ops_def relational_ops_def Un_iff
    by (elim disjE insertE emptyE) (simp_all add: binary_code_def binary_value_def)
  show ?thesis unfolding c by (rule delivers_compare [OF m])
qed

lemma delivers_shift:
  assumes m: "read_reg (ka = TYPE_LONG) RCX m = v" "read_reg (kb = TYPE_LONG) RAX m = u"
    and k: "signed_kind ka" and x: "binary_value op ka kb v u = Some x" and op: "op \<in> {''<<'', ''>>''}"
  shows "delivers (binary_code op ka kb) m (promote_kind ka = TYPE_LONG) x"
proof -
  define p where "p = (promote_kind ka = TYPE_LONG)"
  have pk: "p = (ka = TYPE_LONG)" using k by (auto simp: p_def signed_kind_def promote_kind_def long_kind_def)
  have bits: "8 * type_kind_bytes (promote_kind ka) = int (bits_of p)" using k by (auto simp: p_def signed_kind_def promote_kind_def long_kind_def bits_of_def)
  have sp: "signed_kind (promote_kind ka)" using k by (auto simp: signed_kind_def promote_kind_def long_kind_def)
  have c: "0 \<le> u" "u < int (bits_of p)" using x op by (auto simp: binary_value_def bits Let_def split: if_splits)
  define m1 where "m1 = write_reg True RAX (read_reg True RCX m) (write_reg True RCX (read_reg True RAX m) m)"
  have r: "read_reg True RAX m1 = read_reg True RCX m" "read_reg True RCX m1 = read_reg True RAX m"
    by (simp_all add: m1_def read_fits)
  have v: "read_reg p RAX m1 = v"
    using m(1) r(1) read_low [of RAX m1] read_low [of RCX m] pk by (cases p) simp_all
  have u: "read_reg False RCX m1 = u"
  proof (cases "kb = TYPE_LONG")
    case True
    then have "read_reg False RCX m1 = signed_take_bit 31 u" using m(2) r(2) read_low [of RCX m1] by simp
    also have "\<dots> = u" by (rule signed_take_bit_int_eq_self) (use c in \<open>auto simp: bits_of_def split: if_splits\<close>)
    finally show ?thesis .
  next
    case False
    with m(2) r(2) read_low [of RCX m1] read_low [of RAX m] show ?thesis by simp
  qed
  have s: "shift_by p m1 = nat u" using c by (cases p) (simp_all add: shift_by_def u bits_of_def)
  have x1: "runs [Xchg True] m m1" by (rule runs_one) (simp_all add: m1_def)
  have f1: "frame m1 = frame m" "pushed m1 = pushed m" by (simp_all add: m1_def)
  from op show ?thesis
  proof (elim insertE emptyE)
    assume o: "op = ''<<''"
    then have "fitting (promote_kind ka) (v * 2 ^ nat u) = Some x" using x by (simp add: binary_value_def Let_def split: if_splits)
    then have "x = v * 2 ^ nat u" "signed_fits p x" using in_kind_fits [OF sp] by (auto simp: fitting_def p_def split: if_splits)
    with o v s f1 show ?thesis unfolding p_def [symmetric]
      by (auto simp: binary_code_def p_def [symmetric] Let_def m1_def [symmetric] intro!: delivers_step [where ?m1.0 = m1] delivers_one)
  next
    assume o: "op = ''>>''"
    then have "x = v div 2 ^ nat u" using x by (simp add: binary_value_def Let_def split: if_splits)
    moreover have "signed_fits p (v div 2 ^ nat u)" using fits_div read_fits v by blast
    ultimately show ?thesis using o v s f1 unfolding p_def [symmetric]
      by (auto simp: binary_code_def p_def [symmetric] Let_def m1_def [symmetric] intro!: delivers_step [where ?m1.0 = m1] delivers_one)
  qed
qed

end
