(* ===== verification/Codegen_Exec.thy ===== *)
theory Codegen_Exec
  imports Codegen_Run
begin

section \<open>The code computes the value\<close>

text \<open>
  The frame of the machine against the values of the variables, and by induction over the expression:
  its code runs to the end, delivers the value and writes the new values into the slots.
\<close>

subsection \<open>Variables and their slots\<close>

definition slots_ok :: "ctx \<Rightarrow> bool" where
  "slots_ok C \<longleftrightarrow> (\<forall>x off k. C x = Some (off, k) \<longrightarrow> signed_kind k \<and>
     (\<forall>y off' k'. C y = Some (off', k') \<longrightarrow> x \<noteq> y \<longrightarrow> off \<le> off' - type_kind_bytes k' \<or> off' \<le> off - type_kind_bytes k))"

definition agrees :: "ctx \<Rightarrow> vals \<Rightarrow> mach \<Rightarrow> bool" where
  "agrees C r m \<longleftrightarrow> (\<forall>x off k. C x = Some (off, k) \<longrightarrow> read_frame (nat (type_kind_bytes k)) off m = r x)"

lemma agrees_frame: "frame m' = frame m \<Longrightarrow> agrees C r m' = agrees C r m"
  by (simp add: agrees_def read_frame_def)

lemma agreesD: "agrees C r m \<Longrightarrow> var_kind_of C x = Some k \<Longrightarrow> read_frame (nat (size_of C x)) (offset_of C x) m = r x \<and> size_of C x = type_kind_bytes k"
  by (auto simp: agrees_def var_kind_of_def size_of_def offset_of_def)

lemma signed_bytes: "signed_kind k \<Longrightarrow> 0 < type_kind_bytes k \<and> nat (8 * type_kind_bytes k - 1) = 8 * nat (type_kind_bytes k) - 1"
  by (auto simp: signed_kind_def)

lemma read_frame_in_kind: "signed_kind k \<Longrightarrow> in_kind k (read_frame (nat (type_kind_bytes k)) off m)"
  using in_kind_convert [of k] by (simp add: read_frame_def convert_to_def signed_bytes)

lemma agrees_store:
  assumes C: "slots_ok C" "agrees C r m" and x: "var_kind_of C x = Some k"
  shows "agrees C (r(x := convert_to k v)) (write_frame (nat (type_kind_bytes k)) (offset_of C x) v m)"
  unfolding agrees_def
proof (intro allI impI)
  fix y off' k'
  assume y: "C y = Some (off', k')"
  from x obtain off where o: "C x = Some (off, k)" "offset_of C x = off" by (auto simp: var_kind_of_def offset_of_def)
  show "read_frame (nat (type_kind_bytes k')) off' (write_frame (nat (type_kind_bytes k)) (offset_of C x) v m) = (r(x := convert_to k v)) y"
  proof (cases "x = y")
    case True
    have k: "signed_kind k" using C(1) o(1) by (auto simp: slots_ok_def)
    with True y o show ?thesis by (simp add: read_write_frame convert_to_def signed_bytes)
  next
    case False
    from C(1) o(1) y False have "off \<le> off' - type_kind_bytes k' \<or> off' \<le> off - type_kind_bytes k" and "signed_kind k" "signed_kind k'"
      by (auto simp: slots_ok_def)
    with signed_bytes have "read_frame (nat (type_kind_bytes k')) off' (write_frame (nat (type_kind_bytes k)) off v m) = read_frame (nat (type_kind_bytes k')) off' m"
      by (intro read_frame_elsewhere) (auto simp: less_imp_le)
    with False y o C(2) show ?thesis by (auto simp: agrees_def)
  qed
qed

subsection \<open>What the code of an expression does\<close>

definition computes :: "ctx \<Rightarrow> instr list \<Rightarrow> mach \<Rightarrow> TypeKind \<Rightarrow> int \<Rightarrow> vals \<Rightarrow> bool" where
  "computes C is m k v r \<longleftrightarrow> in_kind k v \<and>
     (\<exists>m'. runs is m m' \<and> read_reg (k = TYPE_LONG) RAX m' = v \<and> agrees C r m' \<and> pushed m' = pushed m)"

lemma computesI:
  assumes "word_kind k" "runs is m m'" "read_reg (k = TYPE_LONG) RAX m' = v" "agrees C r m'" "pushed m' = pushed m"
  shows "computes C is m k v r"
  using assms fits_in_kind read_fits unfolding computes_def by blast

lemma computesE:
  assumes "computes C is m k v r"
  obtains m' where "in_kind k v" "runs is m m'" "read_reg (k = TYPE_LONG) RAX m' = v" "agrees C r m'" "pushed m' = pushed m"
  using assms unfolding computes_def by blast

lemma computes_deliver:
  assumes "runs is m m1" "agrees C r m1" "pushed m1 = pushed m" "delivers js m1 (k = TYPE_LONG) v" "word_kind k"
  shows "computes C (is @ js) m k v r"
proof -
  from assms(4) obtain m' where m': "runs js m1 m'" "read_reg (k = TYPE_LONG) RAX m' = v" "frame m' = frame m1" "pushed m' = pushed m1"
    by (auto simp: delivers_def)
  from assms(5) runs_append [OF assms(1) m'(1)] m' assms show ?thesis by (intro computesI [where m' = m']) (simp_all add: agrees_frame [OF m'(3)])
qed

text \<open>Both operands of an operator, the first one on the stack meanwhile.\<close>

lemma operands_run:
  assumes a: "computes C as m ka v r1" and b: "\<And>m. agrees C r1 m \<Longrightarrow> computes C bs m kb u r2"
    and wa: "\<And>m. read_reg (ka = TYPE_LONG) RAX m = v \<Longrightarrow> delivers pa m w v"
    and wb: "\<And>m. read_reg (kb = TYPE_LONG) RAX m = u \<Longrightarrow> delivers pb m w' u"
  obtains m' where "runs (as @ pa @ Push # bs @ pb @ [Pop]) m m'" "read_reg w RCX m' = v" "read_reg w' RAX m' = u" "agrees C r2 m'" "pushed m' = pushed m"
    "in_kind ka v" "in_kind kb u"
proof -
  from a obtain m1 where m1: "in_kind ka v" "runs as m m1" "read_reg (ka = TYPE_LONG) RAX m1 = v" "agrees C r1 m1" "pushed m1 = pushed m"
    by (rule computesE)
  from wa [OF m1(3)] obtain m2 where m2: "runs pa m1 m2" "read_reg w RAX m2 = v" "frame m2 = frame m1" "pushed m2 = pushed m1"
    by (auto simp: delivers_def)
  define m3 where "m3 = m2\<lparr>pushed := regs m2 RAX # pushed m2\<rparr>"
  have m3: "runs [Push] m2 m3" "agrees C r1 m3" using m1(4) by (auto simp: m3_def agrees_def read_frame_def m2(3) intro: runs_one)
  from b [OF m3(2)] obtain m4 where m4: "in_kind kb u" "runs bs m3 m4" "read_reg (kb = TYPE_LONG) RAX m4 = u" "agrees C r2 m4" "pushed m4 = pushed m3"
    by (rule computesE)
  from wb [OF m4(3)] obtain m5 where m5: "runs pb m4 m5" "read_reg w' RAX m5 = u" "frame m5 = frame m4" "pushed m5 = pushed m4"
    by (auto simp: delivers_def)
  define m6 where "m6 = m5\<lparr>pushed := pushed m2, regs := (regs m5)(RCX := regs m2 RAX)\<rparr>"
  have m6: "runs [Pop] m5 m6" by (rule runs_one) (simp_all add: m6_def m5 m4 m3_def)
  have "runs (as @ pa @ [Push] @ bs @ pb @ [Pop]) m m6"
    using m1(2) m2(1) m3(1) m4(2) m5(1) m6 by (intro runs_append)
  moreover have "read_reg w RCX m6 = v" "read_reg w' RAX m6 = u" using m2(2) m5(2) by (simp_all add: m6_def read_reg_value)
  moreover have "agrees C r2 m6" using m4(4) by (simp add: agrees_def read_frame_def m6_def m5(3))
  moreover have "pushed m6 = pushed m" by (simp add: m6_def m2 m1)
  ultimately show ?thesis using that m1(1) m4(1) by simp
qed

lemma binary_word_kind: "binary_kind op ka kb = Some k \<Longrightarrow> word_kind k"
  by (auto simp: binary_kind_def word_kind_def common_arith_kind_def promote_kind_def split: if_splits)

lemma common_word: "word_kind (common_arith_kind ka kb)"
  by (simp add: word_kind_def common_arith_kind_def)

lemma not_common_long: "common_arith_kind ka kb = TYPE_INT \<Longrightarrow> ka \<noteq> TYPE_LONG \<and> kb \<noteq> TYPE_LONG"
  by (auto simp: common_arith_kind_def promote_kind_def long_kind_def)

lemma binary_computes:
  assumes a: "computes C as m ka v r1" and b: "\<And>m. agrees C r1 m \<Longrightarrow> computes C bs m kb u r2"
    and k: "signed_kind ka" "signed_kind kb" "binary_kind op ka kb = Some k" and x: "binary_value op ka kb v u = Some x"
    and op: "op \<notin> {''&&'', ''||''}"
  shows "computes C ((as @ widen_code (operand_widening op ka kb) ka @ Push # bs @ widen_code (operand_widening op ka kb) kb @ [Pop]) @ binary_code op ka kb)
    m k x r2"
proof -
  have ik: "in_kind ka v" using a by (rule computesE)
  have "in_kind kb u" if "agrees C r1 m" for m using b [OF that] by (rule computesE)
  moreover obtain m1 where "agrees C r1 m1" using a by (rule computesE)
  ultimately have iu: "in_kind kb u" by blast
  show ?thesis
  proof (cases "op \<in> {''<<'', ''>>''}")
    case True
    then have w: "widen_code (operand_widening op ka kb) t = []" for t by (simp add: operand_widening_def widen_code_def)
    have "op \<notin> arith_ops" using True unfolding arith_ops_def by auto
    then have kk: "k = promote_kind ka" using True k(3) unfolding binary_kind_def by auto
    from operands_run [OF a b, where pa = "[]" and pb = "[]" and w = "ka = TYPE_LONG" and w' = "kb = TYPE_LONG", OF _ delivers_nil delivers_nil]
    obtain m' where m': "runs (as @ [] @ Push # bs @ [] @ [Pop]) m m'" "read_reg (ka = TYPE_LONG) RCX m' = v" "read_reg (kb = TYPE_LONG) RAX m' = u"
      "agrees C r2 m'" "pushed m' = pushed m" by blast
    show ?thesis unfolding w
      by (rule computes_deliver [OF m'(1,4,5)]) (use delivers_shift [OF m'(2,3) k(1) x True] kk binary_word_kind [OF k(3)] in simp_all)
  next
    case False
    define c where "c = common_arith_kind ka kb"
    have w: "operand_widening op ka kb = c" unfolding operand_widening_def c_def using False by (rule if_not_P)
    have cl: "c = TYPE_INT \<longrightarrow> ka \<noteq> TYPE_LONG" "c = TYPE_INT \<longrightarrow> kb \<noteq> TYPE_LONG" using not_common_long unfolding c_def by blast+
    note wc = common_word [of ka kb, folded c_def]
    from operands_run [OF a b, OF _ delivers_widen [OF _ cl(1) wc k(1) ik] delivers_widen [OF _ cl(2) wc k(2) iu]]
    obtain m' where m': "runs (as @ widen_code c ka @ Push # bs @ widen_code c kb @ [Pop]) m m'" "read_reg (c = TYPE_LONG) RCX m' = v"
      "read_reg (c = TYPE_LONG) RAX m' = u" "agrees C r2 m'" "pushed m' = pushed m" by blast
    show ?thesis unfolding w
    proof (rule computes_deliver [OF m'(1,4,5) _ binary_word_kind [OF k(3)]])
      show "delivers (binary_code op ka kb) m' (k = TYPE_LONG) x"
      proof (cases "op \<in> arith_ops \<or> op \<in> {''&'', ''^'', ''|''}")
        case True
        with k(3) have "k = c" unfolding binary_kind_def c_def by simp
        with delivers_arith [OF m'(2,3) [unfolded c_def] x True] show ?thesis by (simp add: c_def)
      next
        case n: False
        then have "op \<in> compare_ops" "k = TYPE_INT" using False k(3) op unfolding binary_kind_def by (simp_all only: if_False simp_thms split: if_splits) auto
        with delivers_comparison [OF m'(2,3) [unfolded c_def] x] show ?thesis by simp
      qed
    qed
  qed
qed


lemma bool_word: "word_kind TYPE_INT"
  by (simp add: word_kind_def)

text \<open>The first operand of \<open>&&\<close>, \<open>||\<close> or \<open>?:\<close> and the test of it.\<close>

lemma test_run:
  assumes "computes C as m ka v r1"
  obtains m' where "runs (as @ [CmpZero (ka = TYPE_LONG)]) m m'" "flags m' = Some (v, 0)" "agrees C r1 m'" "pushed m' = pushed m"
proof -
  from assms obtain m1 where m1: "runs as m m1" "read_reg (ka = TYPE_LONG) RAX m1 = v" "agrees C r1 m1" "pushed m1 = pushed m"
    by (rule computesE)
  have "runs [CmpZero (ka = TYPE_LONG)] m1 (m1\<lparr>flags := Some (v, 0)\<rparr>)" by (rule runs_one) (simp_all add: m1)
  from runs_append [OF m1(1) this] show ?thesis
    by (rule that) (use m1 in \<open>simp_all add: agrees_def read_frame_def\<close>)
qed

lemma logic_known:
  assumes a: "computes C as m ka v r1" and j: "holds c v 0" and n: "Label known l \<notin> set bs" "known \<noteq> fin" "signed_fits False val"
  shows "computes C (logic_code known fin c val ka kb as bs l) m TYPE_INT val r1"
proof -
  from test_run [OF a] obtain m1 where m1: "runs (as @ [CmpZero (ka = TYPE_LONG)]) m m1" "flags m1 = Some (v, 0)" "agrees C r1 m1" "pushed m1 = pushed m"
    by blast
  define m2 where "m2 = write_reg False RAX val m1"
  have "runs [MovImm False val, Label fin l] m1 m2"
    by (rule runs_step [OF _ _ runs_label [OF runs_nil]]) (simp_all add: m2_def)
  then have "runs (JumpIf c known l # (bs @ CmpZero (kb = TYPE_LONG) # truth_code IsNE @ [Jmp fin l]) @ Label known l # [MovImm False val, Label fin l]) m1 m2"
    using m1(2) j n by (intro runs_taken) (auto simp: truth_code_def)
  from runs_append [OF m1(1) this] have "runs (logic_code known fin c val ka kb as bs l) m m2" by (simp add: logic_code_def)
  then show ?thesis by (rule computesI [OF bool_word]) (use m1 n in \<open>simp_all add: m2_def agrees_def read_frame_def\<close>)
qed

lemma logic_other:
  assumes a: "computes C as m ka v r1" and b: "\<And>m. agrees C r1 m \<Longrightarrow> computes C bs m kb u r2" and j: "\<not> holds c v 0" and n: "known \<noteq> fin"
  shows "computes C (logic_code known fin c val ka kb as bs l) m TYPE_INT (of_bool (u \<noteq> 0)) r2"
proof -
  from test_run [OF a] obtain m1 where m1: "runs (as @ [CmpZero (ka = TYPE_LONG)]) m m1" "flags m1 = Some (v, 0)" "agrees C r1 m1" "pushed m1 = pushed m"
    by blast
  from test_run [OF b [OF m1(3)]] obtain m2 where m2: "runs (bs @ [CmpZero (kb = TYPE_LONG)]) m1 m2" "flags m2 = Some (u, 0)" "agrees C r2 m2" "pushed m2 = pushed m1"
    by blast
  from delivers_truth [OF m2(2), of IsNE] obtain m3 where m3: "runs (truth_code IsNE) m2 m3" "read_reg False RAX m3 = of_bool (u \<noteq> 0)" "frame m3 = frame m2" "pushed m3 = pushed m2"
    by (auto simp: delivers_def)
  have "runs (Jmp fin l # [Label known l, MovImm False val] @ Label fin l # []) m3 m3"
    using n by (intro runs_jmp runs_nil) simp
  from runs_append [OF runs_append [OF m2(1) m3(1)] this]
  have "runs (JumpIf c known l # ((bs @ [CmpZero (kb = TYPE_LONG)]) @ truth_code IsNE) @ Jmp fin l # [Label known l, MovImm False val] @ Label fin l # []) m1 m3"
    using m1(2) j by (intro runs_not_taken)
  from runs_append [OF m1(1) this] have "runs (logic_code known fin c val ka kb as bs l) m m3" by (simp add: logic_code_def)
  then show ?thesis by (rule computesI [OF bool_word]) (use m1 m2 m3 in \<open>simp_all add: agrees_frame [OF m3(3)]\<close>)
qed

lemma conditional_computes:
  assumes c: "computes C cs m kc v r1"
    and a: "v \<noteq> 0 \<Longrightarrow> (\<And>m. agrees C r1 m \<Longrightarrow> computes C as m ka x r2)" and b: "v = 0 \<Longrightarrow> (\<And>m. agrees C r1 m \<Longrightarrow> computes C bs m kb x r2)"
    and k: "common_arith_kind ka kb = TYPE_INT"
    and n: "Label ''cond_false'' l \<notin> set as" "Label ''cond_end'' l \<notin> set bs"
  shows "computes C (cs @ [CmpZero (kc = TYPE_LONG), JumpIf IsE ''cond_false'' l] @ as @ [Jmp ''cond_end'' l, Label ''cond_false'' l] @ bs @ [Label ''cond_end'' l])
    m TYPE_INT x r2"
proof -
  from test_run [OF c] obtain m1 where m1: "runs (cs @ [CmpZero (kc = TYPE_LONG)]) m m1" "flags m1 = Some (v, 0)" "agrees C r1 m1" "pushed m1 = pushed m"
    by blast
  note kl = not_common_long [OF k]
  have "\<exists>m'. runs (JumpIf IsE ''cond_false'' l # (as @ [Jmp ''cond_end'' l]) @ Label ''cond_false'' l # bs @ [Label ''cond_end'' l]) m1 m' \<and>
     read_reg False RAX m' = x \<and> agrees C r2 m' \<and> pushed m' = pushed m1"
  proof (cases "v = 0")
    case True
    from b [OF True m1(3)] obtain m2 where m2: "runs bs m1 m2" "read_reg False RAX m2 = x" "agrees C r2 m2" "pushed m2 = pushed m1"
      using kl by (auto simp: computes_def)
    have "runs (bs @ [Label ''cond_end'' l]) m1 m2" using m2(1) by (rule runs_append) (rule runs_label [OF runs_nil])
    then have "runs (JumpIf IsE ''cond_false'' l # (as @ [Jmp ''cond_end'' l]) @ Label ''cond_false'' l # bs @ [Label ''cond_end'' l]) m1 m2"
      using m1(2) n True by (intro runs_taken) simp_all
    with m2 show ?thesis by blast
  next
    case False
    from a [OF False m1(3)] obtain m2 where m2: "runs as m1 m2" "read_reg False RAX m2 = x" "agrees C r2 m2" "pushed m2 = pushed m1"
      using kl by (auto simp: computes_def)
    have "runs (Jmp ''cond_end'' l # (Label ''cond_false'' l # bs) @ Label ''cond_end'' l # []) m2 m2"
      using n by (intro runs_jmp runs_nil) simp
    from runs_append [OF m2(1) this] have "runs (JumpIf IsE ''cond_false'' l # as @ Jmp ''cond_end'' l # (Label ''cond_false'' l # bs) @ Label ''cond_end'' l # []) m1 m2"
      using m1(2) False by (intro runs_not_taken) simp_all
    with m2 show ?thesis by auto
  qed
  then obtain m' where m': "runs (JumpIf IsE ''cond_false'' l # (as @ [Jmp ''cond_end'' l]) @ Label ''cond_false'' l # bs @ [Label ''cond_end'' l]) m1 m'"
     "read_reg False RAX m' = x" "agrees C r2 m'" "pushed m' = pushed m1" by blast
  from runs_append [OF m1(1) m'(1)] show ?thesis by (intro computesI [OF bool_word, where m' = m']) (use m1 m' in \<open>simp_all\<close>)
qed

lemma set_computes:
  assumes a: "computes C as m k v r1" and C: "slots_ok C" "var_kind_of C x = Some kx" "word_kind kx" and k: "signed_kind k"
  shows "computes C (as @ store_code (size_of C x = 8) k (offset_of C x)) m kx (convert_to kx v) (r1(x := convert_to kx v))"
proof -
  from a obtain m1 where m1: "in_kind k v" "runs as m m1" "read_reg (k = TYPE_LONG) RAX m1 = v" "agrees C r1 m1" "pushed m1 = pushed m"
    by (rule computesE)
  have sz: "size_of C x = type_kind_bytes kx" using agreesD [OF m1(4) C(2)] by simp
  from C(3) consider "kx = TYPE_LONG" | "kx = TYPE_INT" by (auto simp: word_kind_def)
  then show ?thesis
  proof cases
    case 1
    have cv: "convert_to kx v = v"
      using 1 k m1(1) by (auto simp: convert_to_def signed_kind_def in_kind_def signed_take_bit_int_eq_self_iff)
    have "delivers (widen_code TYPE_LONG k) m1 True v"
      using delivers_widen [OF m1(3), of TYPE_LONG] k m1(1) by (simp add: word_kind_def)
    then obtain m2 where m2: "runs (widen_code TYPE_LONG k) m1 m2" "read_reg True RAX m2 = v" "frame m2 = frame m1" "pushed m2 = pushed m1"
      by (auto simp: delivers_def)
    define m3 where "m3 = write_frame 8 (offset_of C x) v m2"
    have "runs [Store True (offset_of C x)] m2 m3" by (rule runs_one) (simp_all add: m3_def m2)
    from runs_append [OF m1(2) runs_append [OF m2(1) this]] have "runs (as @ store_code (size_of C x = 8) k (offset_of C x)) m m3"
      using 1 sz by (simp add: store_code_def)
    moreover have "agrees C (r1(x := convert_to kx v)) m3"
      using agrees_store [OF C(1) _ C(2), of r1 m2 v] m1(4) 1 by (simp add: m3_def agrees_frame [OF m2(3)])
    ultimately show ?thesis by (intro computesI [OF C(3), where m' = m3]) (use 1 cv m1 m2 in \<open>simp_all add: m3_def\<close>)
  next
    case 2
    have lo: "read_reg False RAX m1 = convert_to kx v"
    proof (cases "k = TYPE_LONG")
      case True with m1(3) 2 show ?thesis by (simp add: read_low convert_to_def)
    next
      case f: False
      then have "signed_fits False v" using in_kind_fits [OF k m1(1)] by simp
      from fits_take [OF this] m1(3) f 2 show ?thesis by (simp add: bits_of_def convert_to_def)
    qed
    define m3 where "m3 = write_frame 4 (offset_of C x) (convert_to kx v) m1"
    have "runs [Store False (offset_of C x)] m1 m3" by (rule runs_one) (simp_all add: m3_def lo)
    from runs_append [OF m1(2) this] have "runs (as @ store_code (size_of C x = 8) k (offset_of C x)) m m3"
      using 2 sz by (simp add: store_code_def)
    moreover have "agrees C (r1(x := convert_to kx v)) m3"
      using agrees_store [OF C(1) m1(4) C(2), of "convert_to kx v"] 2 by (simp add: m3_def convert_to_def)
    ultimately show ?thesis by (intro computesI [OF C(3), where m' = m3]) (use 2 lo m1 in \<open>simp_all add: m3_def\<close>)
  qed
qed

lemma inc_computes:
  assumes C: "slots_ok C" "agrees C r m" and x: "var_kind_of C x = Some TYPE_INT" and w: "fitting TYPE_INT (r x + (if up then 1 else - 1)) = Some w"
  shows "computes C (code_of C (XInc post up x) l) m TYPE_INT (if post then r x else w) (r(x := w))"
proof -
  from w have ww: "w = r x + (if up then 1 else - 1)" "in_kind TYPE_INT w" by (auto simp: fitting_def split: if_splits)
  have fw: "signed_fits False w" using in_kind_fits [OF _ ww(2)] by (simp add: signed_kind_def)
  have s: "size_of C x = 4" using agreesD [OF C(2) x] by simp
  have ax: "read_frame 4 (offset_of C x) m = r x" using agreesD [OF C(2) x] s by simp
  have "signed_kind TYPE_INT" by (simp add: signed_kind_def)
  from in_kind_fits [OF this, of "r x"] read_frame_in_kind [OF this, of "offset_of C x" m] ax have fx: "signed_fits False (r x)" by simp
  define m1 where "m1 = write_reg False RAX (r x) m"
  define m2 where "m2 = (if post then write_reg False RCX (r x) m1 else m1)"
  define m3 where "m3 = spoil (write_reg False RAX w m2)"
  define m4 where "m4 = write_frame 4 (offset_of C x) w m3"
  define m5 where "m5 = (if post then write_reg False RAX (r x) m4 else m4)"
  have r1: "read_reg False RAX m1 = r x" "read_reg False RAX m2 = r x" using fx by (simp_all add: m1_def m2_def)
  have "runs [Load 4 (offset_of C x)] m m1" by (rule runs_one) (simp_all add: m1_def ax load_bytes_def)
  moreover have "runs (if post then [MovReg False RCX RAX] else []) m1 m2" by (cases post) (auto simp: m2_def r1 intro!: runs_one runs_nil)
  moreover have "runs [Step_By up] m2 m3" by (rule runs_one) (simp_all add: m3_def r1 ww)
  moreover have "runs [Store False (offset_of C x)] m3 m4" by (rule runs_one) (use fw in \<open>simp_all add: m4_def m3_def\<close>)
  moreover have "runs (if post then [MovReg False RAX RCX] else []) m4 m5"
    using fx by (cases post) (auto simp: m5_def m4_def m3_def m2_def intro!: runs_one runs_nil)
  ultimately have "runs ([Load 4 (offset_of C x)] @ (if post then [MovReg False RCX RAX] else []) @ [Step_By up] @ [Store False (offset_of C x)] @
     (if post then [MovReg False RAX RCX] else [])) m m5" by (intro runs_append)
  then have run: "runs (code_of C (XInc post up x) l) m m5" by simp
  have "frame m3 = frame m" by (simp add: m3_def m2_def m1_def)
  from agrees_frame [OF this] have "agrees C (r(x := convert_to TYPE_INT w)) m4"
    using agrees_store [OF C(1) _ x, of r m3 w] C(2) by (simp add: m4_def)
  moreover have "convert_to TYPE_INT w = w" using convert_in_kind [OF _ ww(2)] by (simp add: signed_kind_def)
  ultimately have "agrees C (r(x := w)) m5" by (simp add: m5_def agrees_def read_frame_def)
  with run show ?thesis by (intro computesI [OF bool_word, where m' = m5])
    (use fx fw in \<open>simp_all add: m5_def m4_def m3_def m2_def m1_def\<close>)
qed


lemma load_bytes: "signed_kind k \<Longrightarrow> load_bytes (type_kind_bytes k) = nat (type_kind_bytes k) \<and> (type_kind_bytes k = 8) = (k = TYPE_LONG)"
  by (auto simp: signed_kind_def load_bytes_def)

lemma variable_computes:
  assumes C: "agrees C r m" "var_kind_of C x = Some kx" and k: "signed_kind kx"
  shows "computes C (code_of C (XVar x) l) m (promote_kind kx) (r x) r"
proof -
  have a: "read_frame (nat (size_of C x)) (offset_of C x) m = r x" "size_of C x = type_kind_bytes kx" using agreesD [OF C] by blast+
  have b: "read_frame (load_bytes (size_of C x)) (offset_of C x) m = r x" using a load_bytes [OF k] by simp
  have "in_kind kx (r x)" using a read_frame_in_kind [OF k, of "offset_of C x" m] by simp
  from in_kind_fits [OF k this] have f: "signed_fits (size_of C x = 8) (r x)" using a load_bytes [OF k] by simp
  have w: "word_kind (promote_kind kx)" "(promote_kind kx = TYPE_LONG) = (size_of C x = 8)"
    using k a by (auto simp: signed_kind_def promote_kind_def word_kind_def long_kind_def)
  have "runs [Load (size_of C x) (offset_of C x)] m (write_reg (size_of C x = 8) RAX (r x) m)"
    by (rule runs_one) (simp_all add: b)
  then show ?thesis unfolding code_of.simps
    by (rule computesI [OF w(1)]) (use w f C in \<open>simp_all add: agrees_frame [OF mach_unchanged(1)]\<close>)
qed

text \<open>The code of an expression that has a value computes it.\<close>

lemma code_computes:
  assumes "slots_ok C"
  shows "c_value C e r = Some (v, r') \<Longrightarrow> kind_of_exp C e = Some k \<Longrightarrow> agrees C r m \<Longrightarrow> computes C (code_of C e l) m k v r'"
proof (induction e arbitrary: r v r' k m l)
  case (XLit kk n)
  then have k: "word_kind k" "in_kind k v" "kk = k" "n = v" "r' = r" by (auto split: if_splits)
  then have "signed_fits (k = TYPE_LONG) v" by (intro in_kind_fits) (auto simp: word_kind_def signed_kind_def)
  moreover have "runs [MovImm (k = TYPE_LONG) v] m (write_reg (k = TYPE_LONG) RAX v m)" by (rule runs_one) simp_all
  ultimately show ?case using k XLit.prems(3)
    by (intro computesI [where m' = "write_reg (k = TYPE_LONG) RAX v m"]) (simp_all add: agrees_frame [OF mach_unchanged(1)])
next
  case (XVar x)
  then show ?case using variable_computes by (auto split: option.splits if_splits simp del: code_of.simps)
next
  case (XUn op a)
  from XUn.prems(1) obtain u where u: "c_value C a r = Some (u, r')" "unary_value op (exp_kind C a) u = Some v" by (auto split: option.splits)
  from XUn.prems(2) obtain ka where ka: "kind_of_exp C a = Some ka" and op: "op \<in> {''!'', ''-'', ''+'', ''~''}"
    and k: "k = (if op = ''!'' then TYPE_INT else promote_kind ka)" by (auto split: option.splits if_splits)
  have e: "exp_kind C a = ka" using ka by (simp add: exp_kind_def)
  have w: "word_kind k" using k kind_of_exp_signed [OF ka] by (auto simp: word_kind_def signed_kind_def promote_kind_def long_kind_def)
  from XUn.IH [OF u(1) ka XUn.prems(3), of l] obtain m1 where m1: "in_kind ka u" "runs (code_of C a l) m m1" "read_reg (ka = TYPE_LONG) RAX m1 = u" "agrees C r' m1" "pushed m1 = pushed m"
    by (rule computesE)
  from delivers_unary [OF m1(3) kind_of_exp_signed [OF ka] m1(1) op u(2) [unfolded e]]
  show ?case unfolding code_of.simps e by (intro computes_deliver [OF m1(2,4,5) _ w]) (simp add: k)
next
  case (XBin op a b)
  from XBin.prems(2) obtain ka kb where k: "kind_of_exp C a = Some ka" "kind_of_exp C b = Some kb" "binary_kind op ka kb = Some k"
    by (auto split: option.splits)
  have e: "exp_kind C a = ka" "exp_kind C b = kb" using k by (simp_all add: exp_kind_def)
  from XBin.prems(1) obtain x r1 where x: "c_value C a r = Some (x, r1)" by (auto split: option.splits)
  have la: "Label stem l \<notin> set (code_of C a (l + 1))" for stem using code_labels [of stem l C a "l + 1"] by auto
  have lb: "Label stem l \<notin> set (code_of C b (l + 1 + label_need a))" for stem
    using code_labels [of stem l C b "l + 1 + label_need a"] label_need_nonneg [of a] by auto
  note a = XBin.IH(1) [OF x k(1) XBin.prems(3)]
  note b = XBin.IH(2) [OF _ k(2)]
  consider (land) "op = ''&&''" | (lor) "op = ''||''" | (other) "op \<notin> {''&&'', ''||''}" by blast
  then show ?case
  proof cases
    case land
    then have kk: "k = TYPE_INT" using k(3) by (simp add: binary_kind_def arith_ops_def)
    show ?thesis
    proof (cases "x = 0")
      case True
      with XBin.prems(1) x land have "v = 0" "r' = r1" by simp_all
      with logic_known [OF a, of IsE "''and_false''" l "code_of C b (l + 1 + label_need a)" "''and_end''" 0] True lb show ?thesis
        by (simp add: land kk e signed_fits_def Let_def)
    next
      case False
      with XBin.prems(1) x land obtain y where y: "c_value C b r1 = Some (y, r')" "v = of_bool (y \<noteq> 0)" by (auto split: option.splits)
      from logic_other [OF a b [OF y(1)], where c = IsE and known = "''and_false''" and fin = "''and_end''" and val = 0] False
      show ?thesis by (simp add: land kk e y(2) Let_def)
    qed
  next
    case lor
    then have kk: "k = TYPE_INT" using k(3) by (simp add: binary_kind_def arith_ops_def)
    show ?thesis
    proof (cases "x = 0")
      case False
      with XBin.prems(1) x lor have "v = 1" "r' = r1" by simp_all
      with logic_known [OF a, of IsNE "''or_true''" l "code_of C b (l + 1 + label_need a)" "''or_end''" 1] False lb show ?thesis
        by (simp add: lor kk e signed_fits_def bits_of_def Let_def)
    next
      case True
      with XBin.prems(1) x lor obtain y where y: "c_value C b r1 = Some (y, r')" "v = of_bool (y \<noteq> 0)" by (auto split: option.splits)
      from logic_other [OF a b [OF y(1)], where c = IsNE and known = "''or_true''" and fin = "''or_end''" and val = 1] True
      show ?thesis by (simp add: lor kk e y(2) Let_def)
    qed
  next
    case other
    with XBin.prems(1) x e obtain y where y: "c_value C b r1 = Some (y, r')" "binary_value op ka kb x y = Some v" by (auto split: option.splits)
    from binary_computes [OF a b [OF y(1)] kind_of_exp_signed [OF k(1)] kind_of_exp_signed [OF k(2)] k(3) y(2) other]
    show ?thesis using other by (simp add: e Let_def)
  qed
next
  case (XCast kk a)
  from XCast.prems(1) obtain u where u: "c_value C a r = Some (u, r')" "v = convert_to kk u" by auto
  from XCast.prems(2) obtain ka where ka: "kind_of_exp C a = Some ka" and k: "signed_kind kk" "k = kk" by (auto split: if_splits)
  from XCast.IH [OF u(1) ka XCast.prems(3), of l] obtain m1 where m1: "in_kind ka u" "runs (code_of C a l) m m1" "read_reg (ka = TYPE_LONG) RAX m1 = u" "agrees C r' m1" "pushed m1 = pushed m"
    by (rule computesE)
  from delivers_cast [OF m1(3) kind_of_exp_signed [OF ka] m1(1) k(1)] obtain m2 where m2: "runs (cast_code ka kk) m1 m2"
    "read_reg (kk = TYPE_LONG) RAX m2 = v" "frame m2 = frame m1" "pushed m2 = pushed m1" unfolding u(2) delivers_def by blast
  have "exp_kind C a = ka" using ka by (simp add: exp_kind_def)
  with runs_append [OF m1(2) m2(1)] have "runs (code_of C (XCast kk a) l) m m2" by simp
  with m2 m1 in_kind_convert [OF k(1), of u] show ?case unfolding computes_def k(2) u(2) [symmetric]
    by (intro conjI exI [of _ m2]) (simp_all add: agrees_frame [OF m2(3)])
next
  case (XCond c a b)
  from XCond.prems(2) obtain kc ka kb where k: "kind_of_exp C c = Some kc" "kind_of_exp C a = Some ka" "kind_of_exp C b = Some kb"
    "common_arith_kind ka kb = TYPE_INT" "k = TYPE_INT" by (auto split: option.splits if_splits)
  from XCond.prems(1) obtain x r1 where x: "c_value C c r = Some (x, r1)" by (auto split: option.splits)
  have e: "exp_kind C c = kc" using k by (simp add: exp_kind_def)
  have la: "Label stem l \<notin> set (code_of C a (l + 1 + label_need c))" for stem
    using code_labels [of stem l C a "l + 1 + label_need c"] label_need_nonneg [of c] by auto
  have lb: "Label stem l \<notin> set (code_of C b (l + 1 + label_need c + label_need a))" for stem
    using code_labels [of stem l C b "l + 1 + label_need c + label_need a"] label_need_nonneg [of c] label_need_nonneg [of a] by auto
  show ?case unfolding code_of.simps e k(5)
  proof (rule conditional_computes [OF XCond.IH(1) [OF x k(1) XCond.prems(3)] _ _ k(4) la lb])
    fix m
    assume "x \<noteq> 0" "agrees C r1 m"
    then show "computes C (code_of C a (l + 1 + label_need c)) m ka v r'" using XCond.prems(1) x by (intro XCond.IH(2) [OF _ k(2)]) simp_all
  next
    fix m
    assume "x = 0" "agrees C r1 m"
    then show "computes C (code_of C b (l + 1 + label_need c + label_need a)) m kb v r'" using XCond.prems(1) x by (intro XCond.IH(3) [OF _ k(3)]) simp_all
  qed
next
  case (XComma a b)
  from XComma.prems(2) obtain ka where k: "kind_of_exp C a = Some ka" "kind_of_exp C b = Some k" by (auto split: if_splits)
  from XComma.prems(1) obtain x r1 where x: "c_value C a r = Some (x, r1)" "c_value C b r1 = Some (v, r')" by (auto split: option.splits)
  from XComma.IH(1) [OF x(1) k(1) XComma.prems(3), of l] obtain m1 where m1: "runs (code_of C a l) m m1" "agrees C r1 m1" "pushed m1 = pushed m"
    by (rule computesE)
  from XComma.IH(2) [OF x(2) k(2) m1(2), of "l + label_need a"] m1 show ?case
    unfolding computes_def code_of.simps by (metis runs_append)
next
  case (XSet x a)
  from XSet.prems(2) obtain ka where k: "var_kind_of C x = Some k" "word_kind k" "kind_of_exp C a = Some ka" by (auto split: option.splits if_splits)
  from XSet.prems(1) k obtain u r1 where u: "c_value C a r = Some (u, r1)" "v = convert_to k u" "r' = r1(x := convert_to k u)"
    by (auto split: option.splits)
  have "exp_kind C a = ka" using k by (simp add: exp_kind_def)
  with set_computes [OF XSet.IH [OF u(1) k(3) XSet.prems(3), of l] assms k(1,2) kind_of_exp_signed [OF k(3)]] show ?case
    unfolding u(2,3) by (simp only: code_of.simps)
next
  case (XInc post up x)
  then have k: "var_kind_of C x = Some TYPE_INT" "k = TYPE_INT" by (auto split: if_splits)
  from XInc.prems(1) obtain w where "fitting TYPE_INT (r x + (if up then 1 else - 1)) = Some w" "v = (if post then r x else w)" "r' = r(x := w)"
    by (auto split: option.splits)
  with inc_computes [OF assms XInc.prems(3) k(1), of up w post l] k show ?case by (simp only:)
qed

end
