(* ===== verification/Codegen_Correct.thy ===== *)
theory Codegen_Correct
  imports Codegen_Emit Codegen_Exec
begin

section \<open>The code of an expression computes its value\<close>

text \<open>
  The two halves together: what the generator writes for an expression computes its value. A state of the generator with two local variables, and a machine on which they have values, for
  the examples.
\<close>

definition sample_local :: "string \<Rightarrow> int \<Rightarrow> TypeKind \<Rightarrow> LocalVar" where
  "sample_local x off k = \<lparr>lv_name = x, lv_offset = off, lv_size = type_kind_bytes k, lv_kind = k, lv_full_type = None, lv_is_const = False,
     lv_is_unsigned = False, lv_is_static = False, lv_static_label = [], lv_is_register = False\<rparr>"

definition sample_unit :: CodeGen where
  "sample_unit = (codegen_init [] [] (initial_error_state) False)\<lparr>locals := [sample_local ''x'' 4 TYPE_INT, sample_local ''y'' 16 TYPE_LONG]\<rparr>"

text \<open>\<^verbatim>\<open>x = y / x - 1\<close> with an \<^verbatim>\<open>int x\<close> that is 5 and a \<^verbatim>\<open>long y\<close> that is 17.\<close>

definition sample_op :: "ASTNodeType \<Rightarrow> string \<Rightarrow> ASTNode list \<Rightarrow> ASTNode" where
  "sample_op t v cs = Node (zero_info\<lparr>ntype := t, nvalue := Some v, decl_type := TYPE_INT\<rparr>) (map Some cs)"

definition sample_tree :: ASTNode where
  "sample_tree = sample_op AST_ASSIGNMENT ''x'' [sample_op AST_BINARY_OP ''-''
     [sample_op AST_BINARY_OP ''/'' [sample_op AST_VAR_REF ''y'' [], sample_op AST_VAR_REF ''x'' []], sample_op AST_INT_LITERAL ''1'' []]]"

definition sample_exp :: iexp where
  "sample_exp = XSet ''x'' (XBin ''-'' (XBin ''/'' (XVar ''y'') (XVar ''x'')) (XLit TYPE_INT 1))"

definition sample_ctx :: ctx where
  "sample_ctx = [''x'' \<mapsto> (4, TYPE_INT), ''y'' \<mapsto> (16, TYPE_LONG)]"

definition sample_vals :: vals where
  "sample_vals = (\<lambda>_. 0)(''x'' := 5, ''y'' := 17)"

definition sample_mach :: mach where
  "sample_mach = \<lparr>regs = (\<lambda>_. 0), flags = None, frame = (\<lambda>_. 0)(4 := 5, 16 := 17), pushed = []\<rparr>"

lemma sample_expr: "expr_of sample_tree = Some sample_exp"
  by code_simp

lemma sample_kind: "kind_of_exp sample_ctx sample_exp = Some TYPE_INT"
  by code_simp

lemma sample_value: "c_value sample_ctx sample_exp sample_vals = Some (2, sample_vals(''x'' := 2))"
  by (simp add: sample_ctx_def sample_exp_def sample_vals_def binary_value_def exp_kind_def var_kind_of_def fitting_def in_kind_def convert_to_def
    signed_kind_def promote_kind_def common_arith_kind_def long_kind_def word_kind_def signed_divide_int_def)

lemma sample_slots: "slots_ok sample_ctx"
  by (auto simp: slots_ok_def sample_ctx_def signed_kind_def split: if_splits)

lemma sample_vars: "vars_in sample_ctx sample_unit"
  by (auto simp: vars_in_def sample_ctx_def sample_unit_def sample_local_def codegen_find_var_def split: if_splits)

lemma sample_agrees: "agrees sample_ctx sample_vals sample_mach"
  by (auto simp: agrees_def sample_ctx_def sample_vals_def sample_mach_def read_frame_def lessThan_nat_numeral lessThan_Suc split: if_splits)

subsection \<open>The types of C and the answers of the type query\<close>

text \<open>
  The type C gives to an expression, from the ranks of the integer types (C11 6.3.1.1, 6.3.1.8) and
  independent of the generator's own rules: the promotion raises a type below \<^verbatim>\<open>int\<close> to \<^verbatim>\<open>int\<close>, and
  two operands meet at the type of the higher rank.
\<close>

fun conversion_rank :: "TypeKind \<Rightarrow> nat" where
  "conversion_rank TYPE_CHAR = 1"
| "conversion_rank TYPE_SHORT = 2"
| "conversion_rank TYPE_INT = 3"
| "conversion_rank TYPE_LONG = 4"
| "conversion_rank _ = 0"

definition c_promote :: "TypeKind \<Rightarrow> TypeKind" where
  "c_promote k = (if conversion_rank k < conversion_rank TYPE_INT then TYPE_INT else k)"

definition c_common :: "TypeKind \<Rightarrow> TypeKind \<Rightarrow> TypeKind" where
  "c_common k l = (if conversion_rank (c_promote k) < conversion_rank (c_promote l) then c_promote l else c_promote k)"

definition var_type :: "ctx \<Rightarrow> string \<Rightarrow> TypeKind option" where
  "var_type C x = (case C x of None \<Rightarrow> None | Some (off, k) \<Rightarrow> if 0 < conversion_rank k then Some k else None)"

fun c_type :: "ctx \<Rightarrow> iexp \<Rightarrow> TypeKind option" where
  "c_type C (XLit k v) = (if k = TYPE_INT \<or> k = TYPE_LONG then Some k else None)"
| "c_type C (XVar x) = var_type C x"
| "c_type C (XUn op e) =
     (case c_type C e of None \<Rightarrow> None
      | Some k \<Rightarrow> if op = ''!'' then Some TYPE_INT
          else if op \<in> {''-'', ''+'', ''~''} then Some (c_promote k) else None)"
| "c_type C (XBin op a b) =
     (case (c_type C a, c_type C b) of
        (Some k, Some l) \<Rightarrow>
          if op \<in> {''+'', ''-'', ''*'', ''/'', ''%'', ''&'', ''^'', ''|''} then Some (c_common k l)
          else if op \<in> {''<<'', ''>>''} then Some (c_promote k)
          else if op \<in> {''<'', ''<='', ''>'', ''>='', ''=='', ''!='', ''&&'', ''||''} then Some TYPE_INT
          else None
      | _ \<Rightarrow> None)"
| "c_type C (XCast k e) = (if c_type C e \<noteq> None \<and> 0 < conversion_rank k then Some k else None)"
| "c_type C (XCond c a b) =
     (case (c_type C c, c_type C a, c_type C b) of (Some _, Some k, Some l) \<Rightarrow> Some (c_common k l) | _ \<Rightarrow> None)"
| "c_type C (XComma a b) = (if c_type C a = None then None else c_type C b)"
| "c_type C (XSet x e) = (if c_type C e = None then None else var_type C x)"
| "c_type C (XInc post up x) = var_type C x"

text \<open>
  The query has no case for conditional expressions and for \<^verbatim>\<open>++\<close> and \<^verbatim>\<open>--\<close> and answers \<^verbatim>\<open>int\<close> for
  them: \<open>knows\<close> excludes those of type \<^verbatim>\<open>long\<close> and what takes its type from one.
\<close>

fun knows :: "ctx \<Rightarrow> iexp \<Rightarrow> bool" where
  "knows C (XUn op e) \<longleftrightarrow> op = ''!'' \<or> knows C e"
| "knows C (XBin op a b) \<longleftrightarrow>
     (if op \<in> {''<<'', ''>>''} then knows C a
      else op \<in> {''<'', ''<='', ''>'', ''>='', ''=='', ''!='', ''&&'', ''||''} \<or> knows C a \<and> knows C b)"
| "knows C (XCond c a b) \<longleftrightarrow> c_type C (XCond c a b) = Some TYPE_INT"
| "knows C (XComma a b) \<longleftrightarrow> knows C b"
| "knows C (XInc post up x) \<longleftrightarrow> c_type C (XInc post up x) \<noteq> Some TYPE_LONG"
| "knows C e \<longleftrightarrow> True"

lemma ranked_kind: "0 < conversion_rank k \<longleftrightarrow> signed_kind k"
  by (cases k) (simp_all add: signed_kind_def)

lemma promote_kind_rank: "signed_kind k \<Longrightarrow> promote_kind k = c_promote k"
  by (auto simp: signed_kind_def promote_kind_def long_kind_def c_promote_def)

lemma common_kind_rank: "signed_kind k \<Longrightarrow> signed_kind l \<Longrightarrow> common_arith_kind k l = c_common k l"
  by (auto simp: signed_kind_def common_arith_kind_def promote_kind_def long_kind_def c_common_def c_promote_def)

lemma c_promote_simps [simp]:
  "signed_kind k \<Longrightarrow> c_promote k = TYPE_INT \<or> c_promote k = TYPE_LONG" "c_promote (c_promote k) = c_promote k"
  "c_promote (c_common k l) = c_common k l" "c_promote TYPE_INT = TYPE_INT" "c_promote TYPE_LONG = TYPE_LONG"
  "c_promote TYPE_CHAR = TYPE_INT" "c_promote TYPE_SHORT = TYPE_INT"
  by (auto simp: c_promote_def c_common_def signed_kind_def)

lemma c_common_cong: "c_promote k = c_promote k' \<Longrightarrow> c_promote l = c_promote l' \<Longrightarrow> c_common k l = c_common k' l'"
  by (simp add: c_common_def)

lemma signed_results [simp]:
  "signed_kind TYPE_INT" "signed_kind TYPE_LONG" "signed_kind (promote_kind k)" "signed_kind (common_arith_kind k l)"
  by (auto simp: signed_kind_def promote_kind_def common_arith_kind_def)

lemma c_signed [simp]: "signed_kind k \<Longrightarrow> signed_kind (c_promote k)"
  "signed_kind k \<Longrightarrow> signed_kind l \<Longrightarrow> signed_kind (c_common k l)"
  by (auto simp: c_promote_def c_common_def)

lemma c_variable: "var_type C x = Some k \<longleftrightarrow> var_kind_of C x = Some k \<and> signed_kind k"
  by (auto simp: var_type_def var_kind_of_def ranked_kind split: option.split)

lemma c_type_binary:
  assumes "c_type C (XBin op a b) = Some k" "c_type C a = Some ka" "c_type C b = Some kb"
  shows "k = c_common ka kb \<or> k = c_promote ka \<or> k = TYPE_INT"
  using assms by (simp split: if_split_asm)

lemma c_type_signed: "c_type C e = Some k \<Longrightarrow> signed_kind k"
proof (induction e arbitrary: k)
  case (XBin op a b)
  from XBin.prems obtain ka kb where ab: "c_type C a = Some ka" "c_type C b = Some kb" by (auto split: option.splits)
  from c_type_binary [OF XBin.prems ab] XBin.IH(1) [OF ab(1)] XBin.IH(2) [OF ab(2)] show ?case by auto
qed (auto simp: ranked_kind c_variable split: option.splits if_splits)

text \<open>An answer of the query: a signed type, the one of C where the query knows it.\<close>

definition answers :: "ctx \<Rightarrow> ASTNode \<Rightarrow> iexp \<Rightarrow> TypeKind \<Rightarrow> CodeGen \<Rightarrow> bool" where
  "answers C n e k s \<longleftrightarrow> (\<exists>k' n'. expr_result_type n s = Inr ((k', n'), s) \<and> signed_kind k' \<and>
     (knows C e \<longrightarrow> c_promote k' = c_promote k) \<and>
     ((\<exists>c a b. e = XCond c a b) \<or> (\<exists>post up x. e = XInc post up x) \<longrightarrow> k' = TYPE_INT))"

lemma answers_binary:
  assumes n: "n = Node i [Some x, Some y]" "ntype i = AST_BINARY_OP" "nvalue i = Some op"
    and x: "answers C x a ka s" and y: "answers C y b kb s"
    and k: "c_type C a = Some ka" "c_type C b = Some kb" "c_type C (XBin op a b) = Some k"
  shows "answers C n (XBin op a b) k s"
proof -
  from x obtain ka' x' where x': "expr_result_type x s = Inr ((ka', x'), s)" "signed_kind ka'" "knows C a \<Longrightarrow> c_promote ka' = c_promote ka"
    by (auto simp: answers_def)
  from y obtain kb' y' where y': "expr_result_type y s = Inr ((kb', y'), s)" "signed_kind kb'" "knows C b \<Longrightarrow> c_promote kb' = c_promote kb"
    by (auto simp: answers_def)
  have c: "common_arith_kind ka' kb' = c_common ka kb" if "knows C a" "knows C b"
    using x'(2,3) y'(2,3) that by (simp add: common_kind_rank c_common_cong [of ka' ka kb' kb])
  have p: "promote_kind ka' = c_promote ka" if "knows C a"
    using x'(2,3) that by (simp add: promote_kind_rank)
  have "\<not> type_is_fp ka'" "\<not> type_is_fp kb'" "ka' \<noteq> TYPE_POINTER" "kb' \<noteq> TYPE_POINTER"
    using signed_kindD [OF x'(2)] signed_kindD [OF y'(2)] by blast+
  note run = n x'(1) y'(1) this answers_def result_step_def binary_result_type_def run_simps arith_ops_def
  from k consider "op \<in> {''+'', ''-'', ''*'', ''/'', ''%'', ''&'', ''^'', ''|''}" "k = c_common ka kb" | "op \<in> {''<<'', ''>>''}" "k = c_promote ka"
    | "op \<in> {''<'', ''<='', ''>'', ''>='', ''=='', ''!='', ''&&'', ''||''}" "k = TYPE_INT"
    by (simp split: if_split_asm)
  then show ?thesis
  proof cases
    case 1
    from 1(1) show ?thesis by (elim insertE emptyE) (simp_all add: run 1(2) c)
  next
    case 2
    from 2(1) show ?thesis by (elim insertE emptyE) (simp_all add: run 2(2) p)
  next
    case 3
    from 3(1) show ?thesis by (elim insertE emptyE) (simp_all add: run 3(2))
  qed
qed

lemma query_answers:
  "expr_of n = Some e \<Longrightarrow> c_type C e = Some k \<Longrightarrow> vars_in C s \<Longrightarrow> answers C n e k s"
proof (induction e arbitrary: n k)
  case (XLit kk v)
  then show ?case using expr_of_cases [OF XLit.prems(1)]
    by (auto simp: answers_def result_step_def run_simps split: if_splits)
next
  case (XVar x)
  then obtain i where n: "n = Node i []" "ntype i = AST_VAR_REF" "nvalue i = Some x" "\<not> is_unsigned i"
    and k: "var_kind_of C x = Some k" "signed_kind k"
    using expr_of_cases [OF XVar.prems(1)] c_variable by auto
  obtain v where "find_var_of n s = Inr (Some v, s)" "lv_kind v = k" "lv_size v = type_kind_bytes k"
    using vars_in_find [OF XVar.prems(3) k(1), of n] n by auto
  with n k show ?case
    by (auto simp: answers_def result_step_def var_result_type_def run_simps value_kind_signed promote_kind_rank)
next
  case (XUn op a)
  then obtain i x where n: "n = Node i [Some x]" "ntype i = AST_UNARY_OP" "nvalue i = Some op" "expr_of x = Some a"
    using expr_of_cases [OF XUn.prems(1)] by auto
  from XUn.prems(2) obtain ka where ka: "c_type C a = Some ka" by (auto split: option.splits)
  from XUn.IH [OF n(4) ka XUn.prems(3)] obtain k' x' where x': "expr_result_type x s = Inr ((k', x'), s)" "signed_kind k'"
    "knows C a \<Longrightarrow> c_promote k' = c_promote ka"
    by (auto simp: answers_def)
  have "\<not> type_is_fp k'" using signed_kindD [OF x'(2)] by blast
  with n ka x' XUn.prems(2) show ?case
    by (auto simp: answers_def result_step_def unary_result_type_def run_simps promote_kind_rank split: if_splits)
next
  case (XBin op a b)
  then obtain i x y where n: "n = Node i [Some x, Some y]" "ntype i = AST_BINARY_OP" "nvalue i = Some op"
    "expr_of x = Some a" "expr_of y = Some b"
    using expr_of_cases [OF XBin.prems(1)] by auto
  from XBin.prems(2) obtain ka kb where k: "c_type C a = Some ka" "c_type C b = Some kb" by (auto split: option.splits)
  from answers_binary [OF n(1-3) XBin.IH(1) [OF n(4) k(1)] XBin.IH(2) [OF n(5) k(2)] k XBin.prems(2)] XBin.prems(3)
  show ?case by blast
next
  case (XCast kk a)
  then show ?case using expr_of_cases [OF XCast.prems(1)]
    by (auto simp: answers_def result_step_def run_simps ranked_kind split: if_splits)
next
  case (XCond a b c)
  then show ?case using expr_of_cases [OF XCond.prems(1)]
    by (auto simp: answers_def result_step_def run_simps simp del: c_type.simps)
next
  case (XComma a b)
  then obtain i x y where n: "n = Node i [Some x, Some y]" "ntype i = AST_COMMA_EXPR" "expr_of y = Some b"
    using expr_of_cases [OF XComma.prems(1)] by auto
  from XComma.prems(2) have "c_type C b = Some k" by (auto split: if_splits)
  from XComma.IH(2) [OF n(3) this XComma.prems(3)] n show ?case
    by (auto simp: answers_def result_step_def run_simps split: if_splits)
next
  case (XSet x a)
  then obtain i y where n: "n = Node i [Some y]" "ntype i = AST_ASSIGNMENT" "nvalue i = Some x"
    using expr_of_cases [OF XSet.prems(1)] by auto
  from XSet.prems(2) have "var_type C x = Some k" by (auto split: if_splits)
  then have k: "var_kind_of C x = Some k" "signed_kind k" using c_variable by blast+
  obtain v where "find_var_of n s = Inr (Some v, s)" "lv_kind v = k" "lv_size v = type_kind_bytes k"
    using vars_in_find [OF XSet.prems(3) k(1), of n] n by auto
  with n k show ?case
    by (auto simp: answers_def result_step_def assignment_result_type_def run_simps signed_kind_def type_kind_from_size_def)
next
  case (XInc post up x)
  have "c_promote k = TYPE_INT" if "k \<noteq> TYPE_LONG"
    using c_type_signed [OF XInc.prems(2)] that by (auto simp: signed_kind_def c_promote_def)
  with XInc show ?case using expr_of_cases [OF XInc.prems(1)]
    by (auto simp: answers_def result_step_def run_simps simp del: c_type.simps split: if_splits)
qed

text \<open>
  (C6) The type query of the generator against the types of C: for every expression over local
  variables and literals of the signed integer types it answers without changing the state of the
  generator, and the answer is, up to the promotion that every use of it makes, the type C gives to
  the expression, with one exception: conditional expressions and \<^verbatim>\<open>++\<close> and \<^verbatim>\<open>--\<close> are always said to be
  \<^verbatim>\<open>int\<close>, so the answer is not claimed for those of type \<^verbatim>\<open>long\<close> and for operators that take their type
  from one.
\<close>

theorem expression_type_right:
  assumes "expr_of n = Some e" "c_type C e = Some k" "vars_in C s"
  shows "\<exists>k' n'. expr_result_type n s = Inr ((k', n'), s) \<and> (knows C e \<longrightarrow> c_promote k' = c_promote k) \<and>
    ((\<exists>c a b. e = XCond c a b) \<or> (\<exists>post up x. e = XInc post up x) \<longrightarrow> k' = TYPE_INT)"
  using query_answers [OF assms] by (auto simp: answers_def)

text \<open>The quotient in the sample is a \<^verbatim>\<open>long\<close>; its sample is the tree without the assignment.\<close>

definition sample_quotient :: ASTNode where
  "sample_quotient = sample_op AST_BINARY_OP ''/'' [sample_op AST_VAR_REF ''y'' [], sample_op AST_VAR_REF ''x'' []]"

lemma sample_quotient_type:
  "expr_of sample_quotient = Some (XBin ''/'' (XVar ''y'') (XVar ''x''))"
  "c_type sample_ctx (XBin ''/'' (XVar ''y'') (XVar ''x'')) = Some TYPE_LONG"
  "knows sample_ctx (XBin ''/'' (XVar ''y'') (XVar ''x''))"
  by code_simp+

theorem expression_type_right_witness:
  "\<exists>k' n'. expr_result_type sample_quotient sample_unit = Inr ((k', n'), sample_unit) \<and> c_promote k' = TYPE_LONG"
  using expression_type_right [OF sample_quotient_type(1,2) sample_vars] sample_quotient_type(3) by fastforce

text \<open>
  (C2) The code generator is correct on signed integer expressions over local variables: for every
  tree of the fragment whose value C defines, it writes code and leaves its own stack counter and
  its variables as they were; from every machine whose frame holds the values of the variables, the
  code runs to its end without a fault and leaves the value of the expression in the accumulator, at
  the width of its type, the new values of the variables in the frame, and the stack as it was. The
  fragment has \<^verbatim>\<open>int\<close> and \<^verbatim>\<open>long\<close> literals, \<^verbatim>\<open>char\<close>, \<^verbatim>\<open>short\<close>, \<^verbatim>\<open>int\<close> and \<^verbatim>\<open>long\<close> variables, all unary and
  binary operators, casts, conditionals, commas, assignments and increments.
\<close>

theorem expression_code_correct:
  assumes n: "expr_of n = Some e" "kind_of_exp C e = Some k" "exp_depth e \<le> d"
    and s: "vars_in C s" "0 \<le> label_count s" "label_count s + label_need e < 2 ^ 31"
    and r: "slots_ok C" "c_value C e r = Some (v, r')"
  shows "\<exists>n' s' is. codegen_expression (expr_knot d) n s = Inr (n', s') \<and> asm_text s' = asm_text s @ code_text is \<and>
    push_depth s' = push_depth s \<and> locals s' = locals s \<and>
    (\<forall>m. agrees C r m \<longrightarrow> (\<exists>m'. exec is m = Some m' \<and> read_reg (k = TYPE_LONG) RAX m' = v \<and> agrees C r' m' \<and> pushed m' = pushed m))"
proof -
  have "generates (expr_knot (Suc d)) C e" by (rule codegen_generates [OF _ n(2)]) (use n(3) in simp)
  from generatesD [OF this n(1,2) s, unfolded k_expr_Suc] obtain n' dg where
    g: "codegen_expression (expr_knot d) n s = Inr (n', wrote (code_of C e (label_count s)) (label_count s + label_need e) (push_depth s) dg s)"
    by (auto simp: emits_def)
  have x: "\<exists>m'. exec (code_of C e (label_count s)) m = Some m' \<and> read_reg (k = TYPE_LONG) RAX m' = v \<and> agrees C r' m' \<and> pushed m' = pushed m"
    if "agrees C r m" for m
  proof -
    from code_computes [OF r n(2) that, of "label_count s"] obtain m' where m': "runs (code_of C e (label_count s)) m m'"
      "read_reg (k = TYPE_LONG) RAX m' = v" "agrees C r' m'" "pushed m' = pushed m" by (rule computesE)
    from m'(1) have "exec (code_of C e (label_count s)) m = Some m'" unfolding runs_def by (metis append_Nil2 exec.simps(1))
    with m' show ?thesis by blast
  qed
  show ?thesis by (intro exI [of _ n'] exI [of _ "wrote _ _ _ _ _"] exI [of _ "code_of C e (label_count s)"] conjI, rule g)
    (use x in \<open>simp_all add: wrote_def\<close>)
qed

theorem expression_code_correct_witness:
  "\<exists>n' s' is m'. codegen_expression (expr_knot 3) sample_tree sample_unit = Inr (n', s') \<and> asm_text s' = asm_text sample_unit @ code_text is \<and>
     exec is sample_mach = Some m' \<and> read_reg False RAX m' = 2 \<and> agrees sample_ctx (sample_vals(''x'' := 2)) m'"
  using expression_code_correct [OF sample_expr sample_kind _ sample_vars _ _ sample_slots sample_value, of 3] sample_agrees
  by (fastforce simp: sample_unit_def codegen_init_def sample_exp_def)

end
