(* ===== verification/Spec2Isabelle.thy ===== *)
theory Spec2Isabelle
  imports Vec StrBuf GrowBuf Optimize_Stmt Lexer_Tokens Peephole_Props PP_Args PP_Cond_Spec Preprocessor_Text
    Ast_Print Driver Parser_Layout Parser_Readback Codegen_Unit Compile Codegen_Correct
begin

text \<open>
  \<^bold>\<open>A verification development for the ClaudeC99 compiler.\<close>

  The repository holds a C99 compiler written in C. A compilation runs through these parts,
  each a file under \<^verbatim>\<open>src/src/\<close>: the preprocessor (\<^verbatim>\<open>preprocessor.c\<close>) turns the source and the files
  it includes into one text with location markers; the lexer (\<^verbatim>\<open>lexer.c\<close>) reads tokens from that
  text on demand of the parser (\<^verbatim>\<open>parser.c\<close>), which builds a syntax tree (\<^verbatim>\<open>ast.c\<close>) over a heap of
  types (\<^verbatim>\<open>type.c\<close>); the optimizer (\<^verbatim>\<open>optimize.c\<close>) rewrites the tree; the code generator
  (\<^verbatim>\<open>codegen.c\<close>) writes assembly text, in which the peephole pass (\<^verbatim>\<open>peephole.c\<close>) replaces short
  runs of lines. Tables and texts live in growable buffers (\<^verbatim>\<open>vec.c\<close>, \<^verbatim>\<open>strbuf.c\<close>, and \<^verbatim>\<open>GrowBuf\<close> in
  the preprocessor). The driver (\<^verbatim>\<open>compiler.c\<close>) runs the parts one after the other and prints
  tokens or trees on demand.

  \<^bold>\<open>Conventions.\<close> A C string is a list of characters without its terminator. A function that may
  end the process returns a sum whose left values are the messages. A \<^verbatim>\<open>size_t\<close> is a 64-bit word;
  a \<^verbatim>\<open>long\<close> is an integer in its range, with wrap-around written out. A loop whose progress is
  visible is a recursive function with a termination proof; one that might run for ever is a
  \<^theory_text>\<open>partial_function\<close> into \<open>option\<close>, and that it returns is proved. Memory allocation, files, the
  clock and the size of the C stack are parameters.

  \<^bold>\<open>Theories.\<close>
  \<^item> \<open>Prelude\<close>: C strings read by position, character classes, the 64-bit \<^verbatim>\<open>long\<close>, \<^verbatim>\<open>strtol\<close>,
    \<^verbatim>\<open>strtoul\<close>, printing of numbers, sequencing of results.
  \<^item> \<open>Growable\<close>, \<open>Vec\<close>, \<open>StrBuf\<close>, \<open>GrowBuf\<close>: the locale \<open>growable_seq\<close> says what a client expects of a
    growable buffer, an append to a list; the three buffers of the code interpret it with their
    own size arithmetic (\<open>vec_implements_list\<close>, \<open>strbuf_append_appends\<close>, \<open>gbuf_implements_text\<close>).
  \<^item> \<open>CType\<close>, \<open>Ast\<close>: the heap of type nodes with all constructors of \<^verbatim>\<open>type.c\<close>; nodes of the syntax
    tree, growth of the child array, cloning.
  \<^item> \<open>Token\<close>, \<open>Lexer\<close>: the token kinds, the keyword table, and the whole of \<^verbatim>\<open>lexer_next_token\<close>, one
    definition per block. \<open>Lexer_Props\<close>: progress, the end of the token loop, exact positions.
    \<open>Lexer_Tokens\<close>: longest match, identifiers, decimal literals, string literals, markers, and
    the bounds of the number buffer.
  \<^item> \<open>PP_Text\<close>, \<open>PP_Macros\<close>, \<open>PP_Cond\<close>, \<open>Preprocessor\<close>: the whole of \<^verbatim>\<open>preprocessor.c\<close>: text scanning and
    include search; macro table, argument collection, substitution and expansion; the evaluator
    of conditions; the main loop with one definition per directive, nested includes and the entry
    points. \<open>PP_Table\<close>: the locale \<open>macro_dictionary\<close> and the table as a map. \<open>PP_Args\<close>: arguments of
    calls. \<open>PP_Expand\<close>: when expansion ends and what it leaves alone. \<open>PP_Cond_Props\<close>: the locale
    \<open>cond_level\<close>, interpreted for every precedence level, and the end of every evaluation.
    \<open>PP_Cond_Spec\<close>: the evaluator against expression trees and their printer. \<open>Preprocessor_Props\<close>:
    the invariant of the state, inactive text, conditionals. \<open>Preprocessor_Text\<close>: whole texts.
  \<^item> \<open>Optimize\<close>: every rewrite of \<^verbatim>\<open>optimize_expr\<close> and every case of \<^verbatim>\<open>optimize_stmt\<close>. \<open>Optimize_Sem\<close>:
    the types and values C gives to expressions, and that the pass keeps them where all operands are at most as wide
    as \<^verbatim>\<open>int\<close>; the locale \<open>value_preserving\<close>, interpreted for each rewrite. (Where operands are wider the rewrites
    change types: \<^verbatim>\<open>x * 4L\<close> becomes an \<^verbatim>\<open>int\<close>.) \<open>Optimize_Stmt\<close>: the pass as an inductive relation; no side effect is
    duplicated, dead code, the scope of constants, and that the pass returns where no divisor is -1: the model traps where
    the compiler would divide by 0 or overflow, and \<open>optimizer_returns\<close> rests on the guard of the code.
  \<^item> \<open>Peephole\<close>, \<open>Peephole_Props\<close>: the six patterns, the window engine and the file pass; the locale
    \<open>peephole_contract\<close>, interpreted for each pattern; the in-place engine equals a recursion.
  \<^item> \<open>Util\<close>, \<open>Token_Dump\<close>, \<open>Ast_Print\<close>, \<open>Driver\<close>: messages, error limit and output path (\<^verbatim>\<open>util.c\<close>); the rows of
    \<^verbatim>\<open>--print-tokens\<close>; the tree dump (\<^verbatim>\<open>ast_pretty_printer.c\<close>), from which
    the structure can be read back; the command line of \<^verbatim>\<open>compiler.c\<close>.
  \<^item> \<open>Parser_State\<close>, \<open>Parser_Tables\<close>, \<open>Parser_Types\<close>, \<open>Parser_Const\<close>, \<open>Parser_Expr\<close>, \<open>Parser_Stmt\<close>, \<open>Parser_Decl\<close>: the whole
    of \<^verbatim>\<open>parser.c\<close> in the order of the grammar: the state and the programs over it, whose errors keep the state
    because the parser resumes from it; the symbol tables, with the locale \<open>scoped_names\<close> for typedefs;
    declarators, structures, unions and enumerations; constant expressions; expressions and initializers;
    statements; external declarations, recovery from errors, the translation unit. \<open>Parser_Term\<close>: a calculus that counts
    the tokens a program consumes, the locales \<open>fuelled\<close> and \<open>fuelled_inner\<close>, and the end of every parse. \<open>Parser_Layout\<close>: the layout
    of structures. \<open>Parser_Words\<close>, \<open>Parser_Round\<close>, \<open>Parser_Readback\<close>: what the parser does on sources given as words, the locale
    \<open>op_levels\<close> of precedence ladders, and printed expressions that the parser reads back.
  \<^item> \<open>Codegen_State\<close>, \<open>Codegen_Types\<close>, \<open>Codegen_Query\<close>, \<open>Codegen_Frame\<close>, \<open>Codegen_Data\<close>, \<open>Codegen_Addr\<close>, \<open>Codegen_Assign\<close>,
    \<open>Codegen_Call\<close>, \<open>Codegen_Ops\<close>, \<open>Codegen_Expr\<close>, \<open>Codegen_Stmt\<close>, \<open>Codegen_Unit\<close>: the whole of \<^verbatim>\<open>codegen.c\<close> in the order of the
    file: the state and the programs over it (type \<open>'a cg\<close>), which write text and may end the process; kinds, moves
    and variables; the types of expressions; the layout of calls, the frame, labels; the sections of static data;
    addresses; assignment; calls by name and through pointers; operators; variable arguments, brace lists and the
    dispatch of expressions; statements; functions and translation units.
  \<^item> \<open>Codegen_Machine\<close>, \<open>Codegen_Value\<close>, \<open>Codegen_Emit\<close>, \<open>Codegen_Run\<close>, \<open>Codegen_Exec\<close>, \<open>Codegen_Correct\<close>: that the generator is
    correct on signed integer expressions over local variables. The instructions it writes for them and a machine that runs them; the
    C value of an expression and the list of instructions for it; the generator writes exactly this list, with a logic of rules for
    programs that end well; the instructions compute the value; both together (\<open>expression_code_correct\<close>), and the answers of
    the type query against the types of C, with the expressions it does not know (\<open>expression_type_right\<close>).
  \<^item> \<open>Compile\<close>: the composition of all parts, \<^verbatim>\<open>compile_one_file\<close> and the loop of \<^verbatim>\<open>main\<close> over the source files.
  \<^item> This theory: properties that span components.

  \<^bold>\<open>Bounds.\<close> \<open>expand_macros_text\<close> takes the number of nested calls the stack has room for, because
  nothing in the code bounds them; \<open>object_macros_expand\<close> shows how much is enough for object-like
  macros, \<open>expand_more_stack\<close> that more does not change a result, and
  \<open>recursive_macro_never_expands\<close> that for some function-like macros nothing is enough. Nested
  includes are bounded by the code itself (64). The guard \<open>Stuck\<close> in the evaluator of conditions is
  never reached (\<open>eval_cond_expr_ends\<close>). The functions of the parser call each other in cycles; they take the
  functions of the level below as a record, and \<open>knot_at L n\<close> ties it with at most \<open>n\<close> nested calls and \<open>L\<close> rounds per loop.
  Every cycle and every round consumes a token, so the length of the text is enough for both (\<open>front_end_ends\<close>).
  The emitters of expressions and of addresses call each other on parts of the tree: \<open>expr_knot d\<close> ties this knot with \<open>d\<close>
  nested calls, and \<open>codegen_function\<close> takes for \<open>d\<close> the nesting of the tree of the unit; \<open>CgFuel\<close> marks a bound that was too small.
  The emitters of nested brace lists count down the nesting of the list. Chains of pointer types are compared for as many
  steps as the heap has nodes; longer ones are cycles, on which the code does not return (\<open>Endless\<close>).

  \<^bold>\<open>Where the code departs from what it means to do.\<close> Some theorems exhibit inputs on which the
  program does not do what C or its own comments require: \<open>number_buffer_overrun\<close>,
  \<open>least_long_division_stops_the_compiler\<close>, \<open>propagation_ignores_shadowing\<close>,
  \<open>ast_clone_drops_no_prototype\<close>, \<open>recursive_macro_never_expands\<close>, \<open>condition_line_is_stale\<close>,
  \<open>line_comment_swallows_lines\<close>, \<open>preamble_shifts_lines\<close> and \<open>duplicate_definition_check\<close>.

  \<^bold>\<open>Not modelled.\<close> File and process handling, which are input and output: reading of the source, the temporary and the
  output file, the exit status. Freeing of memory, which has no effect on values. Floating-point literals are kept as text, as the lexer does; the
  floating-point arithmetic of file-scope initializers is a parameter (\<open>fp_ops\<close>) of the parser; the code generator only
  formats integers as floating-point numbers, which is modelled exactly. The assembler, the linker and the
  machine that runs the code are not part of the program; \<open>Codegen_Machine\<close> has the instructions that occur in the code of integer
  expressions, as a specification. Floating point, pointers, calls and statements are modelled as the generator treats them, without
  a theorem about what their code does on a machine.
\<close>

section \<open>The preprocessor and the lexer\<close>

subsection \<open>Stringified arguments\<close>

text \<open>
  The operator \<^verbatim>\<open>#\<close> writes a string literal that the lexer reads later. What the literal means
  is the argument without leading and trailing blanks, each run of blanks as one space.
\<close>

fun squeeze :: "bool \<Rightarrow> string \<Rightarrow> string" where
  "squeeze in_space [] = []"
| "squeeze in_space (c # s) =
     (if is_blank c then (if in_space then squeeze True s else CHR '' '' # squeeze True s) else c # squeeze False s)"

definition collapse :: "string \<Rightarrow> string" where
  "collapse arg = trim_trailing is_blank (squeeze True arg)"

definition backslashed :: "string \<Rightarrow> string" where
  "backslashed s = concat (map (\<lambda>c. if c = DQUOTE \<or> c = BACKSLASH then [BACKSLASH, c] else [c]) s)"

lemma trim_snoc_blank: "is_blank c \<Longrightarrow> trim_trailing is_blank (s @ [c]) = trim_trailing is_blank s"
  by (simp add: trim_trailing_def)

lemma trim_snoc: "\<not> is_blank c \<Longrightarrow> trim_trailing is_blank (s @ [c]) = s @ [c]"
  by (simp add: trim_trailing_def)

lemma stringify_loop_trim:
  "take lst inner = trim_trailing is_blank inner \<Longrightarrow> lst \<le> length inner \<Longrightarrow>
   stringify_loop inner sp lst s = trim_trailing is_blank (inner @ backslashed (squeeze sp s))"
proof (induction s arbitrary: inner sp lst)
  case Nil
  then show ?case by (simp add: backslashed_def)
next
  case (Cons c s)
  have sep: "trim_trailing is_blank (inner @ '' '') = trim_trailing is_blank inner"
    by (rule trim_snoc_blank) (simp add: is_blank_def)
  have two: "trim_trailing is_blank (inner @ [BACKSLASH, d]) = inner @ [BACKSLASH, d]" if "d = DQUOTE \<or> d = BACKSLASH" for d
    using that trim_snoc [of d "inner @ [BACKSLASH]"] by (auto simp: is_blank_def)
  show ?case
  proof (cases "is_blank c")
    case True
    then show ?thesis using Cons.prems Cons.IH [of lst inner True] Cons.IH [of lst "inner @ '' ''" True] sep
      by (simp add: backslashed_def)
  next
    case False
    then show ?thesis
      using Cons.IH [of "length inner + 2" "inner @ [BACKSLASH, c]" False] Cons.IH [of "length inner + 1" "inner @ [c]" False]
        two [of c] trim_snoc [OF False, of inner]
      by (auto simp: backslashed_def)
  qed
qed

lemma trim_backslashed: "trim_trailing is_blank (backslashed s) = backslashed (trim_trailing is_blank s)"
proof (induction s rule: rev_induct)
  case (snoc c s)
  show ?case
  proof (cases "is_blank c")
    case True
    then have "backslashed (s @ [c]) = backslashed s @ [c]" by (auto simp: backslashed_def is_blank_def)
    with True snoc show ?thesis by (simp add: trim_snoc_blank)
  next
    case False
    then have "\<exists>x. backslashed (s @ [c]) = x @ [c]" by (simp add: backslashed_def)
    with False show ?thesis by (metis trim_snoc)
  qed
qed (simp add: trim_trailing_def backslashed_def)

lemma stringify_quotes:
  assumes "LF \<notin> set a" and "NUL \<notin> set a"
  shows "stringify_arg a = quote_string (collapse a)"
proof -
  have "set (squeeze sp a) \<subseteq> insert (CHR '' '') (set a)" for sp by (induction sp a rule: squeeze.induct) auto
  moreover have "set (trim_trailing is_blank s) \<subseteq> set s" for s
    using set_dropWhileD [of _ is_blank "rev s"] by (auto simp: trim_trailing_def)
  ultimately have "LF \<notin> set (collapse a) \<and> NUL \<notin> set (collapse a)"
    using assms unfolding collapse_def by fastforce
  then have "backslashed (collapse a) = concat (map escape_char (collapse a))"
    unfolding backslashed_def by (intro arg_cong [of _ _ concat] map_cong) (auto simp: escape_char_def)
  moreover have "stringify_loop [] True 0 a = backslashed (collapse a)"
    using stringify_loop_trim [of 0 "[]" True a] by (simp add: trim_trailing_def [of _ "[]"] trim_backslashed collapse_def)
  ultimately show ?thesis by (simp add: stringify_arg_def quote_string_def)
qed

text \<open>
  (C22) The literal that \<^verbatim>\<open>#\<close> makes of an argument is read back by the lexer as one string token
  whose bytes are the argument's, with its quotes and backslashes, except that the blanks
  around it are gone and each inner run of blanks is one space. (An argument that spans
  lines is excluded: the line end goes into the literal, which the lexer refuses.)
\<close>

theorem stringified_argument_reads_back:
  assumes "LF \<notin> set a" and "NUL \<notin> set a" and "rest lx = stringify_arg a @ u"
  shows "\<exists>lx'. lex_at t lx = Inr (with_text t TOKEN_STRING_LITERAL (collapse a), lx') \<and> rest lx' = u"
  using string_literal_read [of lx "collapse a" u t] assms(3) stringify_quotes [OF assms(1,2)] by simp

theorem stringified_argument_reads_back_witness:
  "\<exists>lx'. lex_at start_token (start_lexer (stringify_arg ('' a  '' @ [DQUOTE] @ ''b '') @ '';'')) =
      Inr (with_text start_token TOKEN_STRING_LITERAL (collapse ('' a  '' @ [DQUOTE] @ ''b '')), lx') \<and> rest lx' = '';''"
  by (rule stringified_argument_reads_back) (simp_all add: start_lexer_def lexer_init_def rest_def)

subsection \<open>Location markers\<close>

text \<open>
  (C29) The marker that the preprocessor writes at the border of an included file is understood
  by the lexer as it was meant: behind it the lexer is at column one of the marker's line, in
  the file of the marker's path, which its pool of names now holds once, and the text that
  followed the marker is what remains.
\<close>

theorem include_marker_understood:
  assumes "rest lx = loc_marker (int n) path @ u" and "list_all path_char path" and "path \<noteq> []"
    and "length (show_nat n @ path) < 509" and "distinct (file_pool lx)"
  shows "\<exists>i. let lx' = lexer_parse_location_marker lx in
     line lx' = n \<and> col lx' = 1 \<and> rest lx' = u \<and> lx_file lx' = Some i \<and>
     i < length (file_pool lx') \<and> file_pool lx' ! i = path \<and> distinct (file_pool lx')"
proof -
  have "show_int (int n) = show_nat n" by (simp add: show_int_def)
  then have "loc_marker (int n) path = location_marker n path"
    using assms(4) by (simp add: loc_marker_def location_marker_def Let_def)
  then show ?thesis using assms by (intro location_marker_read) simp_all
qed

theorem include_marker_understood_witness:
  "\<exists>i. let lx' = lexer_parse_location_marker (start_lexer (loc_marker (int 7) ''a.h'' @ ''int'')) in
     line lx' = 7 \<and> col lx' = 1 \<and> rest lx' = ''int'' \<and> lx_file lx' = Some i \<and>
     i < length (file_pool lx') \<and> file_pool lx' ! i = ''a.h'' \<and> distinct (file_pool lx')"
proof -
  have "show_nat 7 = ''7''" by code_simp
  then show ?thesis
    by (intro include_marker_understood)
       (simp_all add: path_char_def start_lexer_def lexer_init_def rest_def)
qed

subsection \<open>The preamble\<close>

definition line_ends :: "string \<Rightarrow> nat" where
  "line_ends s = length (filter (\<lambda>c. c = LF) s)"

text \<open>
  The text that a compilation hands to the lexer begins with the built-in preamble. The
  \<^verbatim>\<open>#line\<close> directive behind it sets the line that \<^verbatim>\<open>__LINE__\<close> gives, but no marker tells the
  lexer, so its line numbers are five too large.
\<close>

lemma preamble_shifts_lines:
  "\<exists>pre. preprocess Map.empty 9 ''D'' ''T'' ''__LINE__'' (Some ''a.c'') = Inr (pre @ ''1'') \<and>
     line_ends pre = 5 \<and> SOH \<notin> set pre"
proof -
  have "(case preprocess Map.empty 9 ''D'' ''T'' ''__LINE__'' (Some ''a.c'') of
      Inl e \<Rightarrow> False | Inr s \<Rightarrow> s = butlast s @ ''1'' \<and> line_ends (butlast s) = 5 \<and> SOH \<notin> set (butlast s))"
    by code_simp
  then show ?thesis by (auto split: sum.split_asm)
qed

end
